(* ===== verification/ErrorCodes.thy ===== *)
theory ErrorCodes
  imports Main
begin

text \<open>
  The error codes of \<^verbatim>\<open>frameworks/common/include/bgtaskmgr_inner_errors.h\<close>. An
  \<^verbatim>\<open>ErrCode\<close> is an \<^verbatim>\<open>int32_t\<close> and the enumerators are plain numbers, counted on
  from the last explicit value as C++ does. They are abbreviations, so that the simplifier
  compares them as numerals. \<open>ERR_OK\<close> is the zero of \<^verbatim>\<open>errors.h\<close>.
\<close>

type_synonym ErrCode = int

abbreviation (input) ERR_OK :: ErrCode where "ERR_OK \<equiv> 0"

abbreviation (input) ERR_BGTASK_PERMISSION_DENIED :: ErrCode where "ERR_BGTASK_PERMISSION_DENIED \<equiv> 201"
abbreviation (input) ERR_BGTASK_NOT_SYSTEM_APP :: ErrCode where "ERR_BGTASK_NOT_SYSTEM_APP \<equiv> 202"
abbreviation (input) ERR_BGTASK_INVALID_PARAM :: ErrCode where "ERR_BGTASK_INVALID_PARAM \<equiv> 401"
abbreviation (input) ERR_BGTASK_NO_MEMORY :: ErrCode where "ERR_BGTASK_NO_MEMORY \<equiv> 980000101"
abbreviation (input) ERR_BGTASK_PARCELABLE_FAILED :: ErrCode where "ERR_BGTASK_PARCELABLE_FAILED \<equiv> 980000201"
abbreviation (input) ERR_BGTASK_TRANSACT_FAILED :: ErrCode where "ERR_BGTASK_TRANSACT_FAILED \<equiv> 980000301"
abbreviation (input) ERR_BGTASK_SYS_NOT_READY :: ErrCode where "ERR_BGTASK_SYS_NOT_READY \<equiv> 980000401"
abbreviation (input) ERR_BGTASK_SERVICE_NOT_CONNECTED :: ErrCode where "ERR_BGTASK_SERVICE_NOT_CONNECTED \<equiv> 980000402"
abbreviation (input) ERR_BGTASK_OBJECT_EXISTS :: ErrCode where "ERR_BGTASK_OBJECT_EXISTS \<equiv> 980000501"
abbreviation (input) ERR_BGTASK_OBJECT_NOT_EXIST :: ErrCode where "ERR_BGTASK_OBJECT_NOT_EXIST \<equiv> 980000502"
abbreviation (input) ERR_BGTASK_KEEPING_TASK_VERIFY_ERR :: ErrCode where "ERR_BGTASK_KEEPING_TASK_VERIFY_ERR \<equiv> 980000503"
abbreviation (input) ERR_BGTASK_INVALID_BGMODE :: ErrCode where "ERR_BGTASK_INVALID_BGMODE \<equiv> 980000504"
abbreviation (input) ERR_BGTASK_INVALID_UID :: ErrCode where "ERR_BGTASK_INVALID_UID \<equiv> 980000505"
abbreviation (input) ERR_BGTASK_CONTINUOUS_REQUEST_NULL_OR_TYPE :: ErrCode where "ERR_BGTASK_CONTINUOUS_REQUEST_NULL_OR_TYPE \<equiv> 980000506"
abbreviation (input) ERR_BGTASK_CONTINUOUS_MODE_OR_SUBMODE_IS_EMPTY :: ErrCode where "ERR_BGTASK_CONTINUOUS_MODE_OR_SUBMODE_IS_EMPTY \<equiv> 980000507"
abbreviation (input) ERR_BGTASK_CONTINUOUS_MODE_OR_SUBMODE_LENGTH_MISMATCH :: ErrCode where "ERR_BGTASK_CONTINUOUS_MODE_OR_SUBMODE_LENGTH_MISMATCH \<equiv> 980000508"
abbreviation (input) ERR_BGTASK_CONTINUOUS_MODE_OR_SUBMODE_CROSS_BORDER :: ErrCode where "ERR_BGTASK_CONTINUOUS_MODE_OR_SUBMODE_CROSS_BORDER \<equiv> 980000509"
abbreviation (input) ERR_BGTASK_CONTINUOUS_MODE_OR_SUBMODE_TYPE_MISMATCH :: ErrCode where "ERR_BGTASK_CONTINUOUS_MODE_OR_SUBMODE_TYPE_MISMATCH \<equiv> 980000510"
abbreviation (input) ERR_BGTASK_CONTINUOUS_NOT_UPDATE_BY_OLD_INTERFACE :: ErrCode where "ERR_BGTASK_CONTINUOUS_NOT_UPDATE_BY_OLD_INTERFACE \<equiv> 980000511"
abbreviation (input) ERR_BGTASK_CONTINUOUS_TASKID_INVALID :: ErrCode where "ERR_BGTASK_CONTINUOUS_TASKID_INVALID \<equiv> 980000512"
abbreviation (input) ERR_BGTASK_CONTINUOUS_DATA_TRANSFER_NOT_MERGE_NOTIFICATION :: ErrCode where "ERR_BGTASK_CONTINUOUS_DATA_TRANSFER_NOT_MERGE_NOTIFICATION \<equiv> 980000513"
abbreviation (input) ERR_BGTASK_CONTINUOUS_SPECIAL_SCENARIO_PROCESSING_NOT_MERGE_NOTIFICATION :: ErrCode where "ERR_BGTASK_CONTINUOUS_SPECIAL_SCENARIO_PROCESSING_NOT_MERGE_NOTIFICATION \<equiv> 980000514"
abbreviation (input) ERR_BGTASK_CONTINUOUS_NOT_MERGE_NOTIFICATION_NOT_EXIST :: ErrCode where "ERR_BGTASK_CONTINUOUS_NOT_MERGE_NOTIFICATION_NOT_EXIST \<equiv> 980000515"
abbreviation (input) ERR_BGTASK_CONTINUOUS_NOT_MERGE_COMBINED_FALSE :: ErrCode where "ERR_BGTASK_CONTINUOUS_NOT_MERGE_COMBINED_FALSE \<equiv> 980000516"
abbreviation (input) ERR_BGTASK_CONTINUOUS_NOT_UPDATE_BECAUSE_MERGE :: ErrCode where "ERR_BGTASK_CONTINUOUS_NOT_UPDATE_BECAUSE_MERGE \<equiv> 980000517"
abbreviation (input) ERR_BGTASK_CONTINUOUS_NOT_MERGE_CURRENTTASK_COMBINED_FALSE :: ErrCode where "ERR_BGTASK_CONTINUOUS_NOT_MERGE_CURRENTTASK_COMBINED_FALSE \<equiv> 980000518"
abbreviation (input) ERR_BGTASK_CONTINUOUS_UPDATE_FAIL_SAME_MODE_AND_MERGED :: ErrCode where "ERR_BGTASK_CONTINUOUS_UPDATE_FAIL_SAME_MODE_AND_MERGED \<equiv> 980000519"
abbreviation (input) ERR_BGTASK_CONTINUOUS_SYSTEM_APP_NOT_SUPPORT_ACL :: ErrCode where "ERR_BGTASK_CONTINUOUS_SYSTEM_APP_NOT_SUPPORT_ACL \<equiv> 980000520"
abbreviation (input) ERR_BGTASK_CONTINUOUS_APP_NOT_HAVE_BGMODE_PERMISSION_SYSTEM :: ErrCode where "ERR_BGTASK_CONTINUOUS_APP_NOT_HAVE_BGMODE_PERMISSION_SYSTEM \<equiv> 980000521"
abbreviation (input) ERR_BGTASK_CONTINUOUS_NOT_APPLY_MAX_TASK :: ErrCode where "ERR_BGTASK_CONTINUOUS_NOT_APPLY_MAX_TASK \<equiv> 980000522"
abbreviation (input) ERR_BGTASK_CONTINUOUS_DATA_TRANSFER_NOT_UPDATE :: ErrCode where "ERR_BGTASK_CONTINUOUS_DATA_TRANSFER_NOT_UPDATE \<equiv> 980000523"
abbreviation (input) ERR_BGTASK_CONTINUOUS_NOT_APPLY_ONBACKGROUND :: ErrCode where "ERR_BGTASK_CONTINUOUS_NOT_APPLY_ONBACKGROUND \<equiv> 980000524"
abbreviation (input) ERR_BGTASK_SPECIAL_SCENARIO_PROCESSING_ONLY_ALLOW_ONE_APPLICATION :: ErrCode where "ERR_BGTASK_SPECIAL_SCENARIO_PROCESSING_ONLY_ALLOW_ONE_APPLICATION \<equiv> 980000525"
abbreviation (input) ERR_BGTASK_SPECIAL_SCENARIO_PROCESSING_CONFLICTS_WITH_OTHER_TASK :: ErrCode where "ERR_BGTASK_SPECIAL_SCENARIO_PROCESSING_CONFLICTS_WITH_OTHER_TASK \<equiv> 980000526"
abbreviation (input) ERR_BGTASK_GET_APP_INDEX_FAIL :: ErrCode where "ERR_BGTASK_GET_APP_INDEX_FAIL \<equiv> 980000527"
abbreviation (input) ERR_BGTASK_APP_DETECTED_MALICIOUS_BEHAVIOR :: ErrCode where "ERR_BGTASK_APP_DETECTED_MALICIOUS_BEHAVIOR \<equiv> 980000528"
abbreviation (input) ERR_BGTASK_SPECIAL_SCENARIO_PROCESSING_EMPTY :: ErrCode where "ERR_BGTASK_SPECIAL_SCENARIO_PROCESSING_EMPTY \<equiv> 980000529"
abbreviation (input) ERR_BGTASK_CONTINUOUS_CALLBACK_NULL_OR_TYPE_ERR :: ErrCode where "ERR_BGTASK_CONTINUOUS_CALLBACK_NULL_OR_TYPE_ERR \<equiv> 980000530"
abbreviation (input) ERR_BGTASK_CONTINUOUS_CALLBACK_EXISTS :: ErrCode where "ERR_BGTASK_CONTINUOUS_CALLBACK_EXISTS \<equiv> 980000531"
abbreviation (input) ERR_BGTASK_MALICIOUS_CONTINUOUSTASK :: ErrCode where "ERR_BGTASK_MALICIOUS_CONTINUOUSTASK \<equiv> 980000532"
abbreviation (input) ERR_BGTASK_SPECIAL_SCENARIO_PROCESSING_NOTSUPPORT_DEVICE :: ErrCode where "ERR_BGTASK_SPECIAL_SCENARIO_PROCESSING_NOTSUPPORT_DEVICE \<equiv> 980000533"
abbreviation (input) ERR_BGTASK_CONTINUOUS_BANNER_NOTIFICATION_EXIST_OR_AUTHORIZED :: ErrCode where "ERR_BGTASK_CONTINUOUS_BANNER_NOTIFICATION_EXIST_OR_AUTHORIZED \<equiv> 980000534"
abbreviation (input) ERR_BGTASK_CONTINUOUS_NOT_APPLY_AUTH_RECORD :: ErrCode where "ERR_BGTASK_CONTINUOUS_NOT_APPLY_AUTH_RECORD \<equiv> 980000535"
abbreviation (input) ERR_BGTASK_CONTINUOUS_AUTH_NOT_PERMITTED :: ErrCode where "ERR_BGTASK_CONTINUOUS_AUTH_NOT_PERMITTED \<equiv> 980000536"
abbreviation (input) ERR_BGTASK_CONTINUOUS_NOT_DEPLOY_SPECIAL_SCENARIO_PROCESSING :: ErrCode where "ERR_BGTASK_CONTINUOUS_NOT_DEPLOY_SPECIAL_SCENARIO_PROCESSING \<equiv> 980000537"
abbreviation (input) ERR_BGTASK_CONTINUOUS_BACKGROUND_TASK_PARAM_INVALID :: ErrCode where "ERR_BGTASK_CONTINUOUS_BACKGROUND_TASK_PARAM_INVALID \<equiv> 980000538"
abbreviation (input) ERR_BGTASK_CONTINUOUS_BANNER_NOTIFICATION_FAIL :: ErrCode where "ERR_BGTASK_CONTINUOUS_BANNER_NOTIFICATION_FAIL \<equiv> 980000539"
abbreviation (input) ERR_BGTASK_CONTINUOUS_API_VERSION_FAIL :: ErrCode where "ERR_BGTASK_CONTINUOUS_API_VERSION_FAIL \<equiv> 980000540"
abbreviation (input) ERR_BGTASK_CONTINUOUS_TRIGGER_CALLBACK :: ErrCode where "ERR_BGTASK_CONTINUOUS_TRIGGER_CALLBACK \<equiv> 980000541"
abbreviation (input) ERR_BGTASK_CONTINUOUS_NOT_APPLY_PRELOAD_STATE :: ErrCode where "ERR_BGTASK_CONTINUOUS_NOT_APPLY_PRELOAD_STATE \<equiv> 980000542"
abbreviation (input) ERR_BGTASK_NOTIFICATION_VERIFY_FAILED :: ErrCode where "ERR_BGTASK_NOTIFICATION_VERIFY_FAILED \<equiv> 980000601"
abbreviation (input) ERR_BGTASK_NOTIFICATION_ERR :: ErrCode where "ERR_BGTASK_NOTIFICATION_ERR \<equiv> 980000602"
abbreviation (input) ERR_BGTASK_CHECK_TASK_PARAM :: ErrCode where "ERR_BGTASK_CHECK_TASK_PARAM \<equiv> 980000603"
abbreviation (input) ERR_BGTASK_CONTINUOUS_UPDATE_NOTIFICATION_FAIL :: ErrCode where "ERR_BGTASK_CONTINUOUS_UPDATE_NOTIFICATION_FAIL \<equiv> 980000604"
abbreviation (input) ERR_BGTASK_CONTINUOUS_NOT_DATA_TRANSFER :: ErrCode where "ERR_BGTASK_CONTINUOUS_NOT_DATA_TRANSFER \<equiv> 980000605"
abbreviation (input) ERR_BGTASK_CONTINUOUS_PROGRESS_INFO_INVALID :: ErrCode where "ERR_BGTASK_CONTINUOUS_PROGRESS_INFO_INVALID \<equiv> 980000606"
abbreviation (input) ERR_BGTASK_CREATE_FILE_ERR :: ErrCode where "ERR_BGTASK_CREATE_FILE_ERR \<equiv> 980000701"
abbreviation (input) ERR_BGTASK_GET_ACTUAL_FILE_ERR :: ErrCode where "ERR_BGTASK_GET_ACTUAL_FILE_ERR \<equiv> 980000702"
abbreviation (input) ERR_BGTASK_OPEN_FILE_ERR :: ErrCode where "ERR_BGTASK_OPEN_FILE_ERR \<equiv> 980000703"
abbreviation (input) ERR_BGTASK_INVALID_PID_OR_UID :: ErrCode where "ERR_BGTASK_INVALID_PID_OR_UID \<equiv> 990000101"
abbreviation (input) ERR_BGTASK_INVALID_BUNDLE_NAME :: ErrCode where "ERR_BGTASK_INVALID_BUNDLE_NAME \<equiv> 990000102"
abbreviation (input) ERR_BGTASK_INVALID_REQUEST_ID :: ErrCode where "ERR_BGTASK_INVALID_REQUEST_ID \<equiv> 990000103"
abbreviation (input) ERR_BGTASK_INVALID_CALLBACK :: ErrCode where "ERR_BGTASK_INVALID_CALLBACK \<equiv> 990000201"
abbreviation (input) ERR_BGTASK_CALLBACK_EXISTS :: ErrCode where "ERR_BGTASK_CALLBACK_EXISTS \<equiv> 990000202"
abbreviation (input) ERR_BGTASK_CALLBACK_NOT_EXIST :: ErrCode where "ERR_BGTASK_CALLBACK_NOT_EXIST \<equiv> 990000203"
abbreviation (input) ERR_BGTASK_NOT_IN_PRESET_TIME :: ErrCode where "ERR_BGTASK_NOT_IN_PRESET_TIME \<equiv> 990000204"
abbreviation (input) ERR_BGTASK_EXCEEDS_THRESHOLD :: ErrCode where "ERR_BGTASK_EXCEEDS_THRESHOLD \<equiv> 990000205"
abbreviation (input) ERR_BGTASK_TIME_INSUFFICIENT :: ErrCode where "ERR_BGTASK_TIME_INSUFFICIENT \<equiv> 990000206"
abbreviation (input) ERR_BGTASK_NOREQUEST_TASK :: ErrCode where "ERR_BGTASK_NOREQUEST_TASK \<equiv> 990000207"
abbreviation (input) ERR_BGTASK_FOREGROUND :: ErrCode where "ERR_BGTASK_FOREGROUND \<equiv> 990000208"
abbreviation (input) ERR_BGTASK_TRANSIENT_PARCELABLE_FAILED :: ErrCode where "ERR_BGTASK_TRANSIENT_PARCELABLE_FAILED \<equiv> 990000301"
abbreviation (input) ERR_BGTASK_TRANSIENT_SYS_NOT_READY :: ErrCode where "ERR_BGTASK_TRANSIENT_SYS_NOT_READY \<equiv> 990000401"
abbreviation (input) ERR_BGTASK_TRANSIENT_SERVICE_NOT_CONNECTED :: ErrCode where "ERR_BGTASK_TRANSIENT_SERVICE_NOT_CONNECTED \<equiv> 990000402"
abbreviation (input) ERR_BGTASK_RESOURCES_EXCEEDS_MAX :: ErrCode where "ERR_BGTASK_RESOURCES_EXCEEDS_MAX \<equiv> 1870000101"
abbreviation (input) ERR_BGTASK_RESOURCES_INVALID_PID_OR_UID :: ErrCode where "ERR_BGTASK_RESOURCES_INVALID_PID_OR_UID \<equiv> 1870000102"
abbreviation (input) ERR_BGTASK_METHOD_CALLED_FAILED :: ErrCode where "ERR_BGTASK_METHOD_CALLED_FAILED \<equiv> 1870000103"
abbreviation (input) ERR_BGTASK_DATA_STORAGE_ERR :: ErrCode where "ERR_BGTASK_DATA_STORAGE_ERR \<equiv> 1870000104"
abbreviation (input) ERR_BGTASK_SERVICE_INNER_ERROR :: ErrCode where "ERR_BGTASK_SERVICE_INNER_ERROR \<equiv> 1870000105"
abbreviation (input) ERR_BGTASK_INVALID_PROCESS_NAME :: ErrCode where "ERR_BGTASK_INVALID_PROCESS_NAME \<equiv> 1870000106"
abbreviation (input) ERR_BGTASK_EFFICIENCY_RESOURCES_CPU_LEVEL_INVALID :: ErrCode where "ERR_BGTASK_EFFICIENCY_RESOURCES_CPU_LEVEL_INVALID \<equiv> 1870000107"
abbreviation (input) ERR_BGTASK_EFFICIENCY_RESOURCES_CPU_LEVEL_NOT_ALLOW_APPLY :: ErrCode where "ERR_BGTASK_EFFICIENCY_RESOURCES_CPU_LEVEL_NOT_ALLOW_APPLY \<equiv> 1870000108"
abbreviation (input) ERR_BGTASK_EFFICIENCY_RESOURCES_INVALID_BUNDLE_INFO :: ErrCode where "ERR_BGTASK_EFFICIENCY_RESOURCES_INVALID_BUNDLE_INFO \<equiv> 1870000109"
abbreviation (input) ERR_BGTASK_EFFICIENCY_RESOURCES_CPU_LEVEL_APP_SIGNATURES_INVALID :: ErrCode where "ERR_BGTASK_EFFICIENCY_RESOURCES_CPU_LEVEL_APP_SIGNATURES_INVALID \<equiv> 1870000110"
abbreviation (input) ERR_BGTASK_EFFICIENCY_RESOURCES_CPU_LEVEL_TOO_LARGE :: ErrCode where "ERR_BGTASK_EFFICIENCY_RESOURCES_CPU_LEVEL_TOO_LARGE \<equiv> 1870000111"
abbreviation (input) ERR_BGTASK_RESOURCES_PARCELABLE_FAILED :: ErrCode where "ERR_BGTASK_RESOURCES_PARCELABLE_FAILED \<equiv> 1870000201"
abbreviation (input) ERR_BGTASK_RESOURCES_SYS_NOT_READY :: ErrCode where "ERR_BGTASK_RESOURCES_SYS_NOT_READY \<equiv> 1870000401"
abbreviation (input) ERR_BGTASK_RESOURCES_SERVICE_NOT_CONNECTED :: ErrCode where "ERR_BGTASK_RESOURCES_SERVICE_NOT_CONNECTED \<equiv> 1870000402"
abbreviation (input) ERR_PARAM_NUMBER_ERR :: ErrCode where "ERR_PARAM_NUMBER_ERR \<equiv> 9800401"
abbreviation (input) ERR_REASON_NULL_OR_TYPE_ERR :: ErrCode where "ERR_REASON_NULL_OR_TYPE_ERR \<equiv> 9800402"
abbreviation (input) ERR_CALLBACK_NULL_OR_TYPE_ERR :: ErrCode where "ERR_CALLBACK_NULL_OR_TYPE_ERR \<equiv> 9800403"
abbreviation (input) ERR_REQUESTID_NULL_OR_ID_TYPE_ERR :: ErrCode where "ERR_REQUESTID_NULL_OR_ID_TYPE_ERR \<equiv> 9800404"
abbreviation (input) ERR_REQUESTID_ILLEGAL :: ErrCode where "ERR_REQUESTID_ILLEGAL \<equiv> 9800405"
abbreviation (input) ERR_CONTEXT_NULL_OR_TYPE_ERR :: ErrCode where "ERR_CONTEXT_NULL_OR_TYPE_ERR \<equiv> 9800406"
abbreviation (input) ERR_BGMODE_NULL_OR_TYPE_ERR :: ErrCode where "ERR_BGMODE_NULL_OR_TYPE_ERR \<equiv> 9800407"
abbreviation (input) ERR_WANTAGENT_NULL_OR_TYPE_ERR :: ErrCode where "ERR_WANTAGENT_NULL_OR_TYPE_ERR \<equiv> 9800408"
abbreviation (input) ERR_ABILITY_INFO_EMPTY :: ErrCode where "ERR_ABILITY_INFO_EMPTY \<equiv> 9800409"
abbreviation (input) ERR_GET_TOKEN_ERR :: ErrCode where "ERR_GET_TOKEN_ERR \<equiv> 9800410"
abbreviation (input) ERR_BGMODE_RANGE_ERR :: ErrCode where "ERR_BGMODE_RANGE_ERR \<equiv> 9800411"
abbreviation (input) ERR_APP_NAME_EMPTY :: ErrCode where "ERR_APP_NAME_EMPTY \<equiv> 9800412"
abbreviation (input) ERR_RESOURCE_TYPES_INVALID :: ErrCode where "ERR_RESOURCE_TYPES_INVALID \<equiv> 9800413"
abbreviation (input) ERR_ISAPPLY_NULL_OR_TYPE_ERR :: ErrCode where "ERR_ISAPPLY_NULL_OR_TYPE_ERR \<equiv> 9800414"
abbreviation (input) ERR_TIMEOUT_INVALID :: ErrCode where "ERR_TIMEOUT_INVALID \<equiv> 9800415"
abbreviation (input) ERR_ISPERSIST_NULL_OR_TYPE_ERR :: ErrCode where "ERR_ISPERSIST_NULL_OR_TYPE_ERR \<equiv> 9800416"
abbreviation (input) ERR_ISPROCESS_NULL_OR_TYPE_ERR :: ErrCode where "ERR_ISPROCESS_NULL_OR_TYPE_ERR \<equiv> 9800417"

end
