(* ===== verification/Prelude.thy ===== *)
theory Prelude
  imports
    Main
    "HOL-Library.Word"
    "HOL-Library.AList"
    "HOL-Library.Char_ord"
    "HOL-Library.List_Lexorder"
    ErrorCodes
begin

text \<open>
  Shared material: 32-bit signed narrowing, ordered and hashed maps with the interface
  (\<open>kv_store\<close>) that the components use, lemmas on lists updated by key, and the
  \<open>named_theorems\<close> collections of the development.
\<close>

named_theorems acct_simps \<open>definitions of the accounting routines\<close>
named_theorems inv_intros \<open>preservation of component invariants\<close>
named_theorems mask_simps \<open>bit masks of resource numbers\<close>

section \<open>Machine integers\<close>

text \<open>
  \<^verbatim>\<open>int32_t\<close> values are integers in the 32-bit range. \<open>i32\<close> is the conversion
  \<^verbatim>\<open>static_cast<int32_t>\<close> and the two's complement result of 32-bit arithmetic. Clock values
  (\<^verbatim>\<open>int64_t\<close> milliseconds since boot) are integers.
\<close>

abbreviation (input) INT_MAX :: int where "INT_MAX \<equiv> 2147483647"

definition i32 :: "int \<Rightarrow> int" where
  "i32 x = (x + 2147483648) mod 4294967296 - 2147483648"

definition is_i32 :: "int \<Rightarrow> bool" where
  "is_i32 x \<longleftrightarrow> - 2147483648 \<le> x \<and> x \<le> 2147483647"

section \<open>Ordered maps\<close>

text \<open>
  \<^verbatim>\<open>std::map\<close> as an association list in strictly ascending key order, so that iteration is
  list order. \<open>om_put\<close> is \<^verbatim>\<open>m[k] = v\<close>, \<open>om_del\<close> is \<^verbatim>\<open>m.erase(k)\<close>, and \<open>map_of\<close> is
  \<^verbatim>\<open>m.find(k)\<close>.
\<close>

fun om_put :: "'k::linorder \<Rightarrow> 'v \<Rightarrow> ('k \<times> 'v) list \<Rightarrow> ('k \<times> 'v) list" where
  "om_put k v [] = [(k, v)]"
| "om_put k v (e # es) =
     (if fst e < k then e # om_put k v es
      else if fst e = k then (k, v) # es
      else (k, v) # e # es)"

definition om_del :: "'k \<Rightarrow> ('k \<times> 'v) list \<Rightarrow> ('k \<times> 'v) list" where
  "om_del k m = filter (\<lambda>e. fst e \<noteq> k) m"

definition om_wf :: "('k::linorder \<times> 'v) list \<Rightarrow> bool" where
  "om_wf m \<longleftrightarrow> sorted_wrt (<) (map fst m)"

text \<open>
  \<^verbatim>\<open>std::unordered_map\<close> is an association list with distinct keys in some iteration order;
  \<open>AList.update\<close> and \<open>AList.delete\<close> are its writes.
\<close>

definition hm_wf :: "('k \<times> 'v) list \<Rightarrow> bool" where
  "hm_wf m \<longleftrightarrow> distinct (map fst m)"

text \<open>Change the value stored under each key in place, as a loop over the map does.\<close>

definition map_vals :: "('k \<Rightarrow> 'v \<Rightarrow> 'w) \<Rightarrow> ('k \<times> 'v) list \<Rightarrow> ('k \<times> 'w) list" where
  "map_vals f m = map (\<lambda>(k, v). (k, f k v)) m"

section \<open>The interface of a key-value store\<close>

text \<open>
  What every client of a map relies on: a lookup after a write and after an erase, and that
  both keep the container well formed.
\<close>

locale kv_store =
  fixes get :: "'m \<Rightarrow> 'k \<Rightarrow> 'v option"
    and put :: "'k \<Rightarrow> 'v \<Rightarrow> 'm \<Rightarrow> 'm"
    and del :: "'k \<Rightarrow> 'm \<Rightarrow> 'm"
    and wf :: "'m \<Rightarrow> bool"
  assumes get_put: "wf m \<Longrightarrow> get (put k v m) k' = (if k' = k then Some v else get m k')"
    and get_del: "wf m \<Longrightarrow> get (del k m) k' = (if k' = k then None else get m k')"
    and wf_put: "wf m \<Longrightarrow> wf (put k v m)"
    and wf_del: "wf m \<Longrightarrow> wf (del k m)"
begin

lemma keys_put: "wf m \<Longrightarrow> dom (get (put k v m)) = insert k (dom (get m))"
  by (auto simp: get_put dom_def split: if_splits)

lemma keys_del: "wf m \<Longrightarrow> dom (get (del k m)) = dom (get m) - {k}"
  by (auto simp: get_del dom_def split: if_splits)

lemma put_del_restores:
  "wf m \<Longrightarrow> get m k = None \<Longrightarrow> get (del k (put k v m)) = get m"
  by (rule ext) (simp add: get_del get_put wf_put)

lemma all_put:
  assumes "wf m" and "\<And>k v. get m k = Some v \<Longrightarrow> P k v" and "P k0 v0"
    and "get (put k0 v0 m) k = Some v"
  shows "P k v"
  using assms by (auto simp: get_put split: if_splits)

lemma all_del:
  assumes "wf m" and "\<And>k v. get m k = Some v \<Longrightarrow> P k v" and "get (del k0 m) k = Some v"
  shows "P k v"
  using assms by (auto simp: get_del split: if_splits)

lemmas store_laws = get_put get_del wf_put wf_del

end

section \<open>Lemmas\<close>

subsection \<open>Narrowing\<close>

lemma i32_id [simp]: "is_i32 x \<Longrightarrow> i32 x = x"
  by (simp add: is_i32_def i32_def)

lemma is_i32_i32 [simp]: "is_i32 (i32 x)"
proof -
  have "0 \<le> (x + 2147483648) mod 4294967296" and "(x + 2147483648) mod 4294967296 < 4294967296"
    by simp_all
  then show ?thesis by (simp add: is_i32_def i32_def)
qed

lemma i32_congruent: "\<exists>k. x = i32 x + k * 4294967296"
proof
  show "x = i32 x + ((x + 2147483648) div 4294967296) * 4294967296"
    by (simp add: i32_def minus_mult_div_eq_mod [symmetric])
qed

lemma i32_shift: "i32 (x + k * 4294967296) = i32 x"
proof -
  have "x + k * 4294967296 + 2147483648 = (x + 2147483648) + k * 4294967296"
    by simp
  then show ?thesis unfolding i32_def by (simp only: mod_mult_self1)
qed

lemma is_i32_nonneg: "0 \<le> x \<Longrightarrow> x \<le> INT_MAX \<Longrightarrow> is_i32 x"
  by (simp add: is_i32_def)

text \<open>From 2147483648 on, narrowing reads a clock value at least 4294967296 too small.\<close>

lemma i32_beyond:
  assumes "2147483648 \<le> x"
  shows "i32 x + 4294967296 \<le> x"
proof -
  have "1 \<le> (x + 2147483648) div 4294967296"
    using assms by (simp add: zdiv_mono1 [of 4294967296 "x + 2147483648" 4294967296])
  moreover have "x = i32 x + ((x + 2147483648) div 4294967296) * 4294967296"
    by (simp add: i32_def minus_mult_div_eq_mod [symmetric])
  ultimately show ?thesis by linarith
qed

subsection \<open>Ordered maps\<close>

lemma om_wf_Nil [simp]: "om_wf []"
  by (simp add: om_wf_def)

lemma om_wf_distinct: "om_wf m \<Longrightarrow> distinct (map fst m)"
  unfolding om_wf_def by (induction m) auto

lemma om_put_keys: "set (map fst (om_put k v m)) = insert k (set (map fst m))"
  by (induction m) auto

lemma om_wf_put [simp, intro]: "om_wf m \<Longrightarrow> om_wf (om_put k v m)"
proof (induction m)
  case Nil
  then show ?case by (simp add: om_wf_def)
next
  case (Cons e es)
  have IH: "sorted_wrt (<) (map fst (om_put k v es))"
    using Cons by (simp add: om_wf_def)
  have "\<forall>x \<in> set (map fst (om_put k v es)). fst e < x" if "fst e < k"
    using that Cons.prems by (simp only: om_put_keys) (auto simp: om_wf_def)
  with IH Cons.prems show ?case by (auto simp: om_wf_def)
qed

lemma om_wf_del [simp, intro]: "om_wf m \<Longrightarrow> om_wf (om_del k m)"
  by (auto simp: om_wf_def om_del_def sorted_wrt_map sorted_wrt_filter)

lemma map_of_om_put [simp]: "om_wf m \<Longrightarrow> map_of (om_put k v m) = (map_of m)(k \<mapsto> v)"
proof (induction m)
  case Nil
  then show ?case by simp
next
  case (Cons e es)
  then have "om_wf es" and above: "\<forall>x \<in> set es. fst e < fst x"
    by (auto simp: om_wf_def)
  with Cons.IH show ?case by (cases e) (auto simp: fun_eq_iff)
qed

lemma map_of_om_del [simp]: "map_of (om_del k m) = (map_of m)(k := None)"
  by (induction m) (auto simp: om_del_def fun_eq_iff)

interpretation om: kv_store map_of om_put om_del om_wf
  by unfold_locales auto

interpretation hm: kv_store map_of AList.update AList.delete hm_wf
  by unfold_locales (auto simp: hm_wf_def update_conv' delete_conv' distinct_update distinct_delete)

lemma map_of_map_vals: "map_of (map_vals f m) k = map_option (f k) (map_of m k)"
  by (induction m) (auto simp: map_vals_def)

lemma keys_map_vals [simp]: "map fst (map_vals f m) = map fst m"
  by (induction m) (auto simp: map_vals_def)

lemma om_wf_map_vals [simp]: "om_wf (map_vals f m) = om_wf m"
  by (simp add: om_wf_def)

lemma hm_wf_map_vals [simp]: "hm_wf (map_vals f m) = hm_wf m"
  by (simp add: hm_wf_def)

lemma om_wf_filter: "om_wf m \<Longrightarrow> om_wf (filter P m)"
  by (auto simp: om_wf_def sorted_wrt_map sorted_wrt_filter)

lemma hm_wf_filter: "hm_wf m \<Longrightarrow> hm_wf (filter P m)"
  by (simp add: hm_wf_def distinct_map_filter)

lemma map_of_filter_distinct:
  "distinct (map fst m) \<Longrightarrow>
   map_of (filter P m) k = (case map_of m k of None \<Rightarrow> None | Some v \<Rightarrow> if P (k, v) then Some v else None)"
  by (induction m) (force split: option.splits if_splits simp: map_of_eq_None_iff)+

lemma map_of_SomeD_om: "om_wf m \<Longrightarrow> (k, v) \<in> set m \<longleftrightarrow> map_of m k = Some v"
  by (metis map_of_SomeD map_of_is_SomeI om_wf_distinct)

end
