(* ===== verification/DelaySuspendInfo.thy ===== *)
theory DelaySuspendInfo
  imports Prelude
begin

text \<open>
  The keys and the single requests of transient tasks: \<open>KeyInfo\<close> with the order
  \<open>KeyInfoComp\<close> of the maps keyed by it (\<^verbatim>\<open>key_info.h\<close>), and \<open>DelaySuspendInfoEx\<close>
  (\<^verbatim>\<open>delay_suspend_info_ex.cpp\<close> over \<^verbatim>\<open>delay_suspend_info.h\<close>) with its accounting of the
  time a request has used. The accounting is shown to implement a stop watch: the time used
  is the number of milliseconds during which the request was being accounted.
\<close>

section \<open>KeyInfo\<close>

record KeyInfo =
  ki_pkg :: string
  ki_uid :: int
  ki_pid :: int

text \<open>The comparator of the maps; a null pointer compares as neither smaller nor greater.\<close>

definition KeyInfoComp :: "KeyInfo option \<Rightarrow> KeyInfo option \<Rightarrow> bool" where
  "KeyInfoComp x y =
     (case (x, y) of
        (Some a, Some b) \<Rightarrow>
          ki_pkg a < ki_pkg b \<or> (ki_pkg a = ki_pkg b \<and> ki_uid a < ki_uid b)
      | _ \<Rightarrow> False)"

definition IsEqual :: "KeyInfo \<Rightarrow> string \<Rightarrow> int \<Rightarrow> bool" where
  "IsEqual k pkg uid \<longleftrightarrow> pkg = ki_pkg k \<and> uid = ki_uid k"

text \<open>
  What the comparator distinguishes of a key: the package and the uid, not the pid. The maps
  of the decision maker are keyed by this.
\<close>

datatype pkg_key = PkgKey string int

definition key_of :: "KeyInfo \<Rightarrow> pkg_key" where
  "key_of k = PkgKey (ki_pkg k) (ki_uid k)"

instantiation pkg_key :: linorder
begin

fun less_pkg_key :: "pkg_key \<Rightarrow> pkg_key \<Rightarrow> bool" where
  "less_pkg_key (PkgKey p u) (PkgKey q v) \<longleftrightarrow> p < q \<or> (p = q \<and> u < v)"

definition less_eq_pkg_key :: "pkg_key \<Rightarrow> pkg_key \<Rightarrow> bool" where
  "less_eq_pkg_key a b \<longleftrightarrow> a < b \<or> a = b"

instance
proof
  fix x y z :: pkg_key
  show "(x < y) = (x \<le> y \<and> \<not> y \<le> x)"
    by (cases x; cases y) (auto simp: less_eq_pkg_key_def)
  show "x \<le> x"
    by (simp add: less_eq_pkg_key_def)
  show "x \<le> y \<Longrightarrow> y \<le> z \<Longrightarrow> x \<le> z"
    by (cases x; cases y; cases z) (auto simp: less_eq_pkg_key_def)
  show "x \<le> y \<Longrightarrow> y \<le> x \<Longrightarrow> x = y"
    by (cases x; cases y) (auto simp: less_eq_pkg_key_def)
  show "x \<le> y \<or> y \<le> x"
    by (cases x; cases y) (auto simp: less_eq_pkg_key_def)
qed

end

section \<open>DelaySuspendInfoEx\<close>

abbreviation (input) MSEC_PER_SEC :: int where "MSEC_PER_SEC \<equiv> 1000"
abbreviation (input) MSEC_PER_MIN :: int where "MSEC_PER_MIN \<equiv> 60000"
abbreviation (input) MSEC_PER_DAY :: int where "MSEC_PER_DAY \<equiv> 86400000"

record DelaySuspendInfoEx =
  dsi_requestId :: int
  dsi_actualDelayTime :: int
  dsi_pid :: int
  dsi_baseTime :: int
  dsi_spendTime :: int

definition new_DelaySuspendInfoEx :: "int \<Rightarrow> DelaySuspendInfoEx" where
  "new_DelaySuspendInfoEx pid =
     \<lparr>dsi_requestId = -1, dsi_actualDelayTime = 0, dsi_pid = pid, dsi_baseTime = 0, dsi_spendTime = 0\<rparr>"

definition advanceTime :: int where
  "advanceTime = 6 * MSEC_PER_SEC"

definition IsSameRequestId :: "DelaySuspendInfoEx \<Rightarrow> int \<Rightarrow> bool" where
  "IsSameRequestId d rid \<longleftrightarrow> dsi_requestId d = rid"

definition GetRemainDelayTime :: "int \<Rightarrow> DelaySuspendInfoEx \<Rightarrow> int" where
  "GetRemainDelayTime t d =
     (let spendTime = (if 0 < dsi_baseTime d then dsi_spendTime d + (t - dsi_baseTime d)
                       else dsi_spendTime d);
          remainTime = i32 (dsi_actualDelayTime d - i32 spendTime)
      in if remainTime < 0 then 0 else remainTime)"

definition GetAdvanceCallbackTime :: "int \<Rightarrow> DelaySuspendInfoEx \<Rightarrow> int" where
  "GetAdvanceCallbackTime t d =
     (let advanceCallbackTime = i32 (GetRemainDelayTime t d - advanceTime)
      in if 0 < advanceCallbackTime then advanceCallbackTime else 0)"

definition dsi_StartAccounting :: "int \<Rightarrow> DelaySuspendInfoEx \<Rightarrow> DelaySuspendInfoEx" where
  "dsi_StartAccounting t d = (if dsi_baseTime d = 0 then d\<lparr>dsi_baseTime := t\<rparr> else d)"

definition dsi_StopAccounting :: "int \<Rightarrow> DelaySuspendInfoEx \<Rightarrow> DelaySuspendInfoEx" where
  "dsi_StopAccounting t d =
     (if dsi_baseTime d \<noteq> 0
      then d\<lparr>dsi_spendTime := dsi_spendTime d + (t - dsi_baseTime d), dsi_baseTime := 0\<rparr>
      else d)"

section \<open>The stop watch the accounting implements\<close>

text \<open>
  The specification knows only when accounting was switched on and off. A request is accounted
  at time \<open>s\<close> when the last switch up to \<open>s\<close> was an on, and the time it has used by \<open>t\<close> is
  the number of milliseconds before \<open>t\<close> at which it was accounted.
\<close>

datatype acct_event = AcctOn (ev_time: int) | AcctOff (ev_time: int)

fun ev_on :: "acct_event \<Rightarrow> bool" where
  "ev_on (AcctOn _) = True"
| "ev_on (AcctOff _) = False"

fun accounted_at :: "acct_event list \<Rightarrow> int \<Rightarrow> bool" where
  "accounted_at evs s = foldl (\<lambda>r e. if ev_time e \<le> s then ev_on e else r) False evs"

definition accounted :: "acct_event list \<Rightarrow> int \<Rightarrow> int" where
  "accounted evs t = int (card {s. s < t \<and> accounted_at evs s})"

text \<open>The same switches, driven through the code.\<close>

fun acct_run :: "DelaySuspendInfoEx \<Rightarrow> acct_event list \<Rightarrow> DelaySuspendInfoEx" where
  "acct_run d [] = d"
| "acct_run d (AcctOn t # evs) = acct_run (dsi_StartAccounting t d) evs"
| "acct_run d (AcctOff t # evs) = acct_run (dsi_StopAccounting t d) evs"

text \<open>Switches happen in the order of a clock that has left zero.\<close>

definition clock_ordered :: "acct_event list \<Rightarrow> bool" where
  "clock_ordered evs \<longleftrightarrow> sorted (map ev_time evs) \<and> (\<forall>e \<in> set evs. 0 < ev_time e)"

section \<open>Lemmas\<close>

lemma KeyInfoComp_less: "KeyInfoComp (Some a) (Some b) \<longleftrightarrow> key_of a < key_of b"
  by (simp add: KeyInfoComp_def key_of_def)

lemma KeyInfoComp_equivalent:
  "\<not> KeyInfoComp (Some a) (Some b) \<and> \<not> KeyInfoComp (Some b) (Some a) \<longleftrightarrow> key_of a = key_of b"
  unfolding KeyInfoComp_less by auto

lemma IsEqual_key_of: "IsEqual k pkg uid \<longleftrightarrow> key_of k = PkgKey pkg uid"
  by (auto simp: IsEqual_def key_of_def)

lemmas dsi_defs [acct_simps] =
  GetRemainDelayTime_def GetAdvanceCallbackTime_def dsi_StartAccounting_def dsi_StopAccounting_def
  IsSameRequestId_def advanceTime_def new_DelaySuspendInfoEx_def

lemma dsi_start_fields [simp]:
  "dsi_requestId (dsi_StartAccounting t d) = dsi_requestId d"
  "dsi_actualDelayTime (dsi_StartAccounting t d) = dsi_actualDelayTime d"
  "dsi_spendTime (dsi_StartAccounting t d) = dsi_spendTime d"
  "dsi_pid (dsi_StartAccounting t d) = dsi_pid d"
  by (simp_all add: dsi_StartAccounting_def)

lemma dsi_stop_fields [simp]:
  "dsi_requestId (dsi_StopAccounting t d) = dsi_requestId d"
  "dsi_actualDelayTime (dsi_StopAccounting t d) = dsi_actualDelayTime d"
  "dsi_baseTime (dsi_StopAccounting t d) = 0"
  "dsi_pid (dsi_StopAccounting t d) = dsi_pid d"
  by (simp_all add: dsi_StopAccounting_def)

lemma dsi_start_counting: "0 < t \<Longrightarrow> dsi_baseTime (dsi_StartAccounting t d) \<noteq> 0"
  by (simp add: dsi_StartAccounting_def)

lemma GetRemainDelayTime_nonneg: "0 \<le> GetRemainDelayTime t d"
  by (simp add: GetRemainDelayTime_def Let_def)

subsection \<open>The code implements the stop watch\<close>

definition spent :: "int \<Rightarrow> DelaySuspendInfoEx \<Rightarrow> int" where
  "spent t d = dsi_spendTime d + (if 0 < dsi_baseTime d then t - dsi_baseTime d else 0)"

lemma GetRemainDelayTime_spent:
  "GetRemainDelayTime t d = max 0 (i32 (dsi_actualDelayTime d - i32 (spent t d)))"
  by (simp add: GetRemainDelayTime_def spent_def Let_def)

lemma acct_run_append: "acct_run d (evs @ evs') = acct_run (acct_run d evs) evs'"
  by (induction d evs rule: acct_run.induct) auto

lemma acct_run_actual [simp]: "dsi_actualDelayTime (acct_run d evs) = dsi_actualDelayTime d"
  by (induction d evs rule: acct_run.induct) auto

lemma clock_ordered_snoc:
  "clock_ordered (evs @ [e]) \<longleftrightarrow>
     clock_ordered evs \<and> 0 < ev_time e \<and> (\<forall>x \<in> set evs. ev_time x \<le> ev_time e)"
  by (auto simp: clock_ordered_def sorted_append)

lemma accounted_at_snoc:
  "accounted_at (evs @ [e]) s = (if ev_time e \<le> s then ev_on e else accounted_at evs s)"
  by simp

lemma accounted_snoc:
  assumes "ev_time e \<le> t" and fin: "finite {s. s < ev_time e \<and> accounted_at evs s}"
  shows "accounted (evs @ [e]) t =
           accounted evs (ev_time e) + (if ev_on e then t - ev_time e else 0)"
proof -
  let ?old = "{s. s < ev_time e \<and> accounted_at evs s}"
  let ?new = "if ev_on e then {ev_time e..<t} else {}"
  have "{s. s < t \<and> accounted_at (evs @ [e]) s} = ?old \<union> ?new"
    using assms(1) by (auto simp: accounted_at_snoc simp del: accounted_at.simps)
  moreover have "card (?old \<union> ?new) = card ?old + card ?new"
    using fin by (intro card_Un_disjoint) auto
  ultimately show ?thesis using assms(1) by (simp add: accounted_def)
qed

lemma accounted_finite:
  "clock_ordered evs \<Longrightarrow> finite {s. s < t \<and> accounted_at evs s}"
proof (induction evs arbitrary: t rule: rev_induct)
  case Nil
  then show ?case by simp
next
  case (snoc e evs)
  have "{s. s < t \<and> accounted_at (evs @ [e]) s} \<subseteq> {s. s < t \<and> accounted_at evs s} \<union> {ev_time e..<t}"
    by (auto simp: accounted_at_snoc simp del: accounted_at.simps)
  with snoc show ?case
    by (metis (no_types, lifting) clock_ordered_snoc finite_UnI finite_atLeastLessThan_int finite_subset)
qed

lemma spent_on: "0 < t' \<Longrightarrow> 0 \<le> dsi_baseTime d \<Longrightarrow>
  spent t (dsi_StartAccounting t' d) = spent t' d + (t - t')"
  by (auto simp: spent_def dsi_StartAccounting_def)

lemma spent_off: "0 \<le> dsi_baseTime d \<Longrightarrow> spent t (dsi_StopAccounting t' d) = spent t' d"
  by (auto simp: spent_def dsi_StopAccounting_def)

lemma acct_run_base: "clock_ordered evs \<Longrightarrow> 0 \<le> dsi_baseTime d \<Longrightarrow> 0 \<le> dsi_baseTime (acct_run d evs)"
  by (induction d evs rule: acct_run.induct)
     (auto simp: clock_ordered_def dsi_StartAccounting_def dsi_StopAccounting_def split: if_splits)

lemma spent_accounted:
  assumes "clock_ordered evs" and "\<forall>e \<in> set evs. ev_time e \<le> t"
    and "dsi_baseTime d = 0" and "dsi_spendTime d = 0"
  shows "spent t (acct_run d evs) = accounted evs t"
  using assms(1,2)
proof (induction evs arbitrary: t rule: rev_induct)
  case Nil
  then show ?case using assms(3,4) by (simp add: spent_def accounted_def)
next
  case (snoc e evs)
  then have e: "0 < ev_time e" "ev_time e \<le> t" and evs: "clock_ordered evs"
    and IH: "spent (ev_time e) (acct_run d evs) = accounted evs (ev_time e)"
    by (auto simp: clock_ordered_snoc)
  have base: "0 \<le> dsi_baseTime (acct_run d evs)"
    using evs assms(3) by (simp add: acct_run_base)
  have "accounted (evs @ [e]) t = accounted evs (ev_time e) + (if ev_on e then t - ev_time e else 0)"
    using e evs by (intro accounted_snoc accounted_finite)
  then show ?case
    using e base IH by (cases e) (simp_all add: acct_run_append spent_on spent_off)
qed

end
