(* ===== verification/Json.thy ===== *)
theory Json
  imports Prelude
begin

text \<open>
  JSON documents as values, with the queries the sources make of \<^verbatim>\<open>nlohmann::json\<close>. Objects
  are ordered maps from names to values. A floating point number is represented by the integer
  that \<^verbatim>\<open>get<int>()\<close> yields for it, which is all the sources observe of one. Only the
  value type and its discriminators are given here; parsing and printing of text is an
  argument of the functions that need it.
\<close>

datatype json =
    JNull
  | JBool bool
  | JInt int
  | JFloat int
  | JString string
  | JArray "json list"
  | JObject "(string \<times> json) list"

text \<open>A failed conversion throws \<^verbatim>\<open>type_error\<close>.\<close>

datatype json_exn = JsonTypeError

fun is_null :: "json \<Rightarrow> bool" where
  "is_null JNull = True" | "is_null _ = False"

fun is_number_integer :: "json \<Rightarrow> bool" where
  "is_number_integer (JInt _) = True" | "is_number_integer _ = False"

fun is_string :: "json \<Rightarrow> bool" where
  "is_string (JString _) = True" | "is_string _ = False"

fun is_boolean :: "json \<Rightarrow> bool" where
  "is_boolean (JBool _) = True" | "is_boolean _ = False"

fun is_array :: "json \<Rightarrow> bool" where
  "is_array (JArray _) = True" | "is_array _ = False"

fun is_object :: "json \<Rightarrow> bool" where
  "is_object (JObject _) = True" | "is_object _ = False"

text \<open>\<^verbatim>\<open>empty()\<close>: null, the empty array and the empty object.\<close>

fun json_empty :: "json \<Rightarrow> bool" where
  "json_empty JNull = True"
| "json_empty (JArray xs) = (xs = [])"
| "json_empty (JObject m) = (m = [])"
| "json_empty _ = False"

fun json_find :: "json \<Rightarrow> string \<Rightarrow> json option" where
  "json_find (JObject m) k = map_of m k"
| "json_find _ _ = None"

definition json_contains :: "json \<Rightarrow> string \<Rightarrow> bool" where
  "json_contains j k \<longleftrightarrow> json_find j k \<noteq> None"

text \<open>The value under a name that is known to be present.\<close>

definition json_at :: "json \<Rightarrow> string \<Rightarrow> json" where
  "json_at j k = (case json_find j k of Some v \<Rightarrow> v | None \<Rightarrow> JNull)"

fun json_elems :: "json \<Rightarrow> json list" where
  "json_elems (JArray xs) = xs" | "json_elems _ = []"

fun json_items :: "json \<Rightarrow> (string \<times> json) list" where
  "json_items (JObject m) = m" | "json_items _ = []"

text \<open>Conversions: numbers and booleans convert to integers, only strings to strings.\<close>

fun get_int :: "json \<Rightarrow> json_exn + int" where
  "get_int (JInt n) = Inr n"
| "get_int (JFloat n) = Inr n"
| "get_int (JBool b) = Inr (if b then 1 else 0)"
| "get_int _ = Inl JsonTypeError"

fun get_string :: "json \<Rightarrow> json_exn + string" where
  "get_string (JString s) = Inr s" | "get_string _ = Inl JsonTypeError"

fun get_bool :: "json \<Rightarrow> json_exn + bool" where
  "get_bool (JBool b) = Inr b" | "get_bool _ = Inl JsonTypeError"

text \<open>The strings of an array, skipping what is no string.\<close>

definition string_elems :: "json \<Rightarrow> string list" where
  "string_elems j = List.map_filter (\<lambda>v. case v of JString s \<Rightarrow> Some s | _ \<Rightarrow> None) (json_elems j)"

section \<open>Lemmas\<close>

lemma json_contains_find [simp]: "json_contains j k \<Longrightarrow> json_find j k = Some (json_at j k)"
  by (auto simp: json_contains_def json_at_def)

lemma is_number_integerE:
  assumes "is_number_integer j" obtains n where "j = JInt n"
  using assms by (cases j) auto

lemma is_stringE:
  assumes "is_string j" obtains s where "j = JString s"
  using assms by (cases j) auto

lemma is_arrayE:
  assumes "is_array j" obtains xs where "j = JArray xs"
  using assms by (cases j) auto

lemma string_elems_JString [simp]: "string_elems (JArray (map JString xs)) = xs"
  by (induction xs) (auto simp: string_elems_def List.map_filter_def)

end
