(* ===== verification/BgtaskConfig.thy ===== *)
theory BgtaskConfig
  imports Json
begin

text \<open>
  \<^verbatim>\<open>services/common/src/bgtask_config.cpp\<close> and \<^verbatim>\<open>bg_task_config_file_info.cpp\<close>: the exemption
  lists, the exempted quota and the table of bundles that may ask for a CPU level, with the
  parsers that fill them from configuration documents. The signature validator is code of
  another repository: its verdict is the argument \<open>sig\<close>, and the signature tables handed to it
  are recorded in \<open>cf_signatureConfigs\<close>.
\<close>

section \<open>State\<close>

record CpuLevelConfigInfo =
  cl_bundleName :: string
  cl_appSignatures :: "string list"
  cl_cpuLevel :: int

record BgtaskConfig =
  cf_isInit :: bool
  cf_transientTaskExemptedQuatoList :: "string set"
  cf_transientTaskCloudExemptedQuatoList :: "string set"
  cf_taskKeepingExemptedQuatoList :: "string set"
  cf_maliciousAppBlocklist :: "string set"
  cf_specialExemptedQuatoList :: "string set"
  cf_transientTaskExemptedQuato :: int
  cf_allowApplyCpuBundleInfoMap :: "(string \<times> CpuLevelConfigInfo) list"
  cf_signatureConfigs :: "(string \<times> string) list list"

definition initial_config :: BgtaskConfig where
  "initial_config =
     \<lparr>cf_isInit = False, cf_transientTaskExemptedQuatoList = {},
      cf_transientTaskCloudExemptedQuatoList = {}, cf_taskKeepingExemptedQuatoList = {},
      cf_maliciousAppBlocklist = {}, cf_specialExemptedQuatoList = {},
      cf_transientTaskExemptedQuato = 10 * 1000, cf_allowApplyCpuBundleInfoMap = [],
      cf_signatureConfigs = []\<rparr>"

section \<open>Queries\<close>

definition IsTransientTaskExemptedQuatoApp :: "(string \<Rightarrow> bool) \<Rightarrow> BgtaskConfig \<Rightarrow> string \<Rightarrow> bool" where
  "IsTransientTaskExemptedQuatoApp sig c bundleName =
     (let isExempt =
        (if cf_transientTaskCloudExemptedQuatoList c \<noteq> {}
         then bundleName \<in> cf_transientTaskCloudExemptedQuatoList c
         else bundleName \<in> cf_transientTaskExemptedQuatoList c)
      in isExempt \<and> sig bundleName)"

definition IsTaskKeepingExemptedQuatoApp :: "(string \<Rightarrow> bool) \<Rightarrow> BgtaskConfig \<Rightarrow> string \<Rightarrow> bool" where
  "IsTaskKeepingExemptedQuatoApp sig c bundleName =
     (if bundleName \<notin> cf_taskKeepingExemptedQuatoList c then False else sig bundleName)"

definition IsMaliciousAppConfig :: "(string \<Rightarrow> bool) \<Rightarrow> BgtaskConfig \<Rightarrow> string \<Rightarrow> bool" where
  "IsMaliciousAppConfig sig c bundleName =
     (if bundleName \<notin> cf_maliciousAppBlocklist c then False else sig bundleName)"

definition IsSpecialExemptedQuatoApp :: "(string \<Rightarrow> bool) \<Rightarrow> BgtaskConfig \<Rightarrow> string \<Rightarrow> bool" where
  "IsSpecialExemptedQuatoApp sig c bundleName =
     (if bundleName \<notin> cf_specialExemptedQuatoList c then False else sig bundleName)"

definition GetTransientTaskExemptedQuato :: "BgtaskConfig \<Rightarrow> int" where
  "GetTransientTaskExemptedQuato c = cf_transientTaskExemptedQuato c"

definition CheckRequestCpuLevelBundleNameConfigured :: "BgtaskConfig \<Rightarrow> string \<Rightarrow> bool" where
  "CheckRequestCpuLevelBundleNameConfigured c bundleName \<longleftrightarrow>
     map_of (cf_allowApplyCpuBundleInfoMap c) bundleName \<noteq> None"

definition CheckRequestCpuLevelAppSignatures :: "BgtaskConfig \<Rightarrow> string \<Rightarrow> string \<Rightarrow> string \<Rightarrow> bool" where
  "CheckRequestCpuLevelAppSignatures c bundleName appId appIdentifier =
     (case map_of (cf_allowApplyCpuBundleInfoMap c) bundleName of
        None \<Rightarrow> False
      | Some info \<Rightarrow> list_ex (\<lambda>sign. sign = appId \<or> sign = appIdentifier) (cl_appSignatures info))"

definition CheckRequestCpuLevel :: "BgtaskConfig \<Rightarrow> string \<Rightarrow> int \<Rightarrow> bool" where
  "CheckRequestCpuLevel c bundleName cpuLevel =
     (case map_of (cf_allowApplyCpuBundleInfoMap c) bundleName of
        None \<Rightarrow> False
      | Some info \<Rightarrow> cpuLevel \<le> cl_cpuLevel info)"

section \<open>Updates\<close>

definition SetSupportedTaskKeepingProcesses :: "string set \<Rightarrow> BgtaskConfig \<Rightarrow> BgtaskConfig" where
  "SetSupportedTaskKeepingProcesses ps c =
     c\<lparr>cf_taskKeepingExemptedQuatoList := cf_taskKeepingExemptedQuatoList c \<union> ps\<rparr>"

definition SetMaliciousAppConfig :: "string set \<Rightarrow> BgtaskConfig \<Rightarrow> BgtaskConfig" where
  "SetMaliciousAppConfig ps c = c\<lparr>cf_maliciousAppBlocklist := cf_maliciousAppBlocklist c \<union> ps\<rparr>"

definition SetSpecialExemptedProcess :: "string set \<Rightarrow> BgtaskConfig \<Rightarrow> BgtaskConfig" where
  "SetSpecialExemptedProcess ps c =
     c\<lparr>cf_specialExemptedQuatoList := cf_specialExemptedQuatoList c \<union> ps\<rparr>"

text \<open>
  The list in the configuration file is inserted without a check of the element types, so an
  element that is no string throws after the elements before it were inserted.
\<close>

fun insert_all_strings :: "json list \<Rightarrow> string set \<Rightarrow> json_exn + string set" where
  "insert_all_strings [] acc = Inr acc"
| "insert_all_strings (j # js) acc =
     (case get_string j of Inl e \<Rightarrow> Inl e | Inr s \<Rightarrow> insert_all_strings js (insert s acc))"

definition ParseTransientTaskExemptedQuatoList ::
    "json \<Rightarrow> BgtaskConfig \<Rightarrow> json_exn + BgtaskConfig" where
  "ParseTransientTaskExemptedQuatoList j c =
     (if is_null j \<or> json_empty j then Inr c
      else if \<not> json_contains j ''transient_err_delayed_frozen_list'' \<or>
              \<not> is_array (json_at j ''transient_err_delayed_frozen_list'') then Inr c
      else case insert_all_strings (json_elems (json_at j ''transient_err_delayed_frozen_list''))
                  (cf_transientTaskExemptedQuatoList c) of
             Inl e \<Rightarrow> Inl e
           | Inr apps \<Rightarrow> Inr (c\<lparr>cf_transientTaskExemptedQuatoList := apps\<rparr>))"

definition ParseTransientTaskExemptedQuato ::
    "json \<Rightarrow> BgtaskConfig \<Rightarrow> json_exn + BgtaskConfig" where
  "ParseTransientTaskExemptedQuato j c =
     (if is_null j \<or> json_empty j then Inr c
      else if \<not> json_contains j ''transient_exempted_quota'' \<or>
              \<not> is_number_integer (json_at j ''transient_exempted_quota'') then Inr c
      else case get_int (json_at j ''transient_exempted_quota'') of
             Inl e \<Rightarrow> Inl e
           | Inr n \<Rightarrow> Inr (c\<lparr>cf_transientTaskExemptedQuato := i32 n\<rparr>))"

definition SetTransientTaskParam :: "json \<Rightarrow> BgtaskConfig \<Rightarrow> json_exn + BgtaskConfig" where
  "SetTransientTaskParam j c =
     (let c1 =
        (if json_contains j ''transient_err_delayed_frozen_list'' \<and>
            is_array (json_at j ''transient_err_delayed_frozen_list'')
         then c\<lparr>cf_transientTaskCloudExemptedQuatoList :=
                  set (string_elems (json_at j ''transient_err_delayed_frozen_list''))\<rparr>
         else c)
      in if json_contains j ''param'' \<and> is_object (json_at j ''param'')
         then (let param = json_at j ''param'' in
               if json_contains param ''transient_exempted_quota'' \<and>
                  \<not> is_number_integer (json_at param ''transient_exempted_quota'')
               then (case get_int (json_at param ''transient_exempted_quota'') of
                       Inl e \<Rightarrow> Inl e
                     | Inr n \<Rightarrow> Inr (c1\<lparr>cf_transientTaskExemptedQuato := i32 n\<rparr>))
               else Inr c1)
         else Inr c1)"

definition SetContinuousTaskParam :: "json \<Rightarrow> BgtaskConfig \<Rightarrow> BgtaskConfig" where
  "SetContinuousTaskParam j c =
     (let c1 =
        (if json_contains j ''continuous_task_keeping_exemption_list'' \<and>
            is_array (json_at j ''continuous_task_keeping_exemption_list'')
         then c\<lparr>cf_taskKeepingExemptedQuatoList :=
                  set (string_elems (json_at j ''continuous_task_keeping_exemption_list''))\<rparr>
         else c);
          c2 =
        (if json_contains j ''malicious_app_blocklist'' \<and>
            is_array (json_at j ''malicious_app_blocklist'')
         then c1\<lparr>cf_maliciousAppBlocklist :=
                   set (string_elems (json_at j ''malicious_app_blocklist''))\<rparr>
         else c1)
      in if json_contains j ''special_exempted_list'' \<and> is_array (json_at j ''special_exempted_list'')
         then c2\<lparr>cf_specialExemptedQuatoList :=
                   set (string_elems (json_at j ''special_exempted_list''))\<rparr>
         else c2)"

definition ParseBundleSignature :: "json \<Rightarrow> BgtaskConfig \<Rightarrow> BgtaskConfig" where
  "ParseBundleSignature j c =
     (if \<not> json_contains j ''bundle_signature'' \<or> \<not> is_object (json_at j ''bundle_signature'') then c
      else c\<lparr>cf_signatureConfigs := cf_signatureConfigs c @
               [List.map_filter (\<lambda>(k, v). case v of JString s \<Rightarrow> Some (k, s) | _ \<Rightarrow> None)
                  (json_items (json_at j ''bundle_signature''))]\<rparr>)"

definition SetCloudConfigParam :: "json \<Rightarrow> BgtaskConfig \<Rightarrow> json_exn + (bool \<times> BgtaskConfig)" where
  "SetCloudConfigParam j c =
     (if \<not> json_contains j ''params'' \<or> \<not> is_object (json_at j ''params'') then Inr (False, c)
      else let params = json_at j ''params'' in
           case SetTransientTaskParam params c of
             Inl e \<Rightarrow> Inl e
           | Inr c1 \<Rightarrow> Inr (True, ParseBundleSignature params (SetContinuousTaskParam params c1)))"

definition UpdateSusMgrCloudConfig :: "json \<Rightarrow> BgtaskConfig \<Rightarrow> json_exn + (bool \<times> BgtaskConfig)" where
  "UpdateSusMgrCloudConfig payload c =
     (if is_null payload then Inr (False, c)
      else case SetCloudConfigParam payload c of
             Inl e \<Rightarrow> Inl e
           | Inr (_, c1) \<Rightarrow> Inr (True, c1))"

abbreviation (input) CONFIG_CLOUD :: int where "CONFIG_CLOUD \<equiv> 1"
abbreviation (input) CONFIG_SUSPEND_MANAGER :: int where "CONFIG_SUSPEND_MANAGER \<equiv> 2"

text \<open>
  The document arrives as text; \<open>parse\<close> is the parser, \<open>None\<close> a discarded document. The list
  is replaced before the quota is checked, so a call that fails may have changed it.
\<close>

definition AddExemptedQuatoData ::
    "(string \<Rightarrow> json option) \<Rightarrow> string \<Rightarrow> int \<Rightarrow> BgtaskConfig \<Rightarrow> json_exn + (bool \<times> BgtaskConfig)" where
  "AddExemptedQuatoData parse configData sourceType c =
     (case parse configData of
        None \<Rightarrow> Inr (False, c)
      | Some j \<Rightarrow>
          if is_null j \<or> json_empty j then Inr (False, c)
          else if sourceType = CONFIG_CLOUD then SetCloudConfigParam j c
          else if sourceType = CONFIG_SUSPEND_MANAGER then
            (if \<not> json_contains j ''transient_err_delayed_frozen_list'' \<or>
                \<not> is_array (json_at j ''transient_err_delayed_frozen_list'') then Inr (False, c)
             else let c1 = c\<lparr>cf_transientTaskExemptedQuatoList :=
                               set (string_elems (json_at j ''transient_err_delayed_frozen_list''))\<rparr> in
                  if \<not> json_contains j ''transient_err_delayed_frozen_time'' \<or>
                     \<not> is_number_integer (json_at j ''transient_err_delayed_frozen_time'')
                  then Inr (False, c1)
                  else case get_int (json_at j ''transient_err_delayed_frozen_time'') of
                         Inl e \<Rightarrow> Inl e
                       | Inr n \<Rightarrow> Inr (True, c1\<lparr>cf_transientTaskExemptedQuato := i32 n\<rparr>))
          else Inr (True, c))"

abbreviation (input) SMALL_CPU :: int where "SMALL_CPU \<equiv> 0"
abbreviation (input) LARGE_CPU :: int where "LARGE_CPU \<equiv> 2"

text \<open>One entry of the table; \<open>None\<close> is the \<^verbatim>\<open>continue\<close> of the loop.\<close>

definition parse_cpu_bundle_info :: "json \<Rightarrow> CpuLevelConfigInfo option" where
  "parse_cpu_bundle_info b =
     (if \<not> json_contains b ''bundleName'' \<or> \<not> is_string (json_at b ''bundleName'') then None
      else if \<not> json_contains b ''cpuLevel'' \<or> \<not> is_number_integer (json_at b ''cpuLevel'') then None
      else case (get_int (json_at b ''cpuLevel''), get_string (json_at b ''bundleName'')) of
             (Inr n, Inr name) \<Rightarrow>
               (let cpuLevel = i32 n in
                if cpuLevel < SMALL_CPU \<or> cpuLevel > LARGE_CPU then None
                else if \<not> json_contains b ''appSignatures'' \<or> \<not> is_array (json_at b ''appSignatures'')
                then None
                else Some \<lparr>cl_bundleName = name,
                           cl_appSignatures = string_elems (json_at b ''appSignatures''),
                           cl_cpuLevel = cpuLevel\<rparr>)
           | _ \<Rightarrow> None)"

fun cpu_bundle_table :: "json list \<Rightarrow> (string \<times> CpuLevelConfigInfo) list \<Rightarrow>
    (string \<times> CpuLevelConfigInfo) list" where
  "cpu_bundle_table [] m = m"
| "cpu_bundle_table (b # bs) m =
     (case parse_cpu_bundle_info b of
        None \<Rightarrow> cpu_bundle_table bs m
      | Some info \<Rightarrow> cpu_bundle_table bs (AList.update (cl_bundleName info) info m))"

definition ParseCpuEfficiencyResourceApplyBundleInfos :: "json \<Rightarrow> BgtaskConfig \<Rightarrow> BgtaskConfig" where
  "ParseCpuEfficiencyResourceApplyBundleInfos j c =
     (if is_null j \<or> json_empty j then c
      else if \<not> json_contains j ''cpu_efficiency_resource_allow_apply_bundle_infos'' \<or>
              \<not> is_array (json_at j ''cpu_efficiency_resource_allow_apply_bundle_infos'') then c
      else c\<lparr>cf_allowApplyCpuBundleInfoMap :=
               cpu_bundle_table
                 (json_elems (json_at j ''cpu_efficiency_resource_allow_apply_bundle_infos'')) []\<rparr>)"

definition UpdateBgMgrCloudConfig :: "json \<Rightarrow> BgtaskConfig \<Rightarrow> bool \<times> BgtaskConfig" where
  "UpdateBgMgrCloudConfig payload c =
     (if is_null payload then (False, c)
      else if \<not> json_contains payload ''params'' \<or> \<not> is_object (json_at payload ''params'')
      then (False, c)
      else (True, ParseCpuEfficiencyResourceApplyBundleInfos (json_at payload ''params'') c))"

text \<open>
  Both configuration files are read once; \<open>suspendFile\<close> and \<open>bgtaskFile\<close> are their parsed
  contents, \<open>None\<close> when a file cannot be read.
\<close>

definition LoadConfigFile :: "json option \<Rightarrow> BgtaskConfig \<Rightarrow> json_exn + BgtaskConfig" where
  "LoadConfigFile suspendFile c =
     (case suspendFile of
        None \<Rightarrow> Inr c
      | Some j \<Rightarrow> (case ParseTransientTaskExemptedQuatoList j c of
                     Inl e \<Rightarrow> Inl e
                   | Inr c1 \<Rightarrow> ParseTransientTaskExemptedQuato j c1))"

definition BgtaskConfig_Init :: "json option \<Rightarrow> json option \<Rightarrow> BgtaskConfig \<Rightarrow> json_exn + BgtaskConfig" where
  "BgtaskConfig_Init suspendFile bgtaskFile c =
     (if cf_isInit c then Inr c
      else case LoadConfigFile suspendFile c of
             Inl e \<Rightarrow> Inl e
           | Inr c1 \<Rightarrow>
               Inr ((case bgtaskFile of
                       None \<Rightarrow> c1
                     | Some j \<Rightarrow> ParseCpuEfficiencyResourceApplyBundleInfos j c1)\<lparr>cf_isInit := True\<rparr>))"

section \<open>Lemmas\<close>

lemma get_int_integer: "is_number_integer j \<Longrightarrow> \<exists>n. get_int j = Inr n"
  by (auto elim: is_number_integerE)

subsection \<open>The table of CPU levels\<close>

definition cpu_table_ok :: "(string \<times> CpuLevelConfigInfo) list \<Rightarrow> bool" where
  "cpu_table_ok m \<longleftrightarrow> distinct (map fst m) \<and>
     (\<forall>(k, i) \<in> set m. cl_bundleName i = k \<and> SMALL_CPU \<le> cl_cpuLevel i \<and> cl_cpuLevel i \<le> LARGE_CPU)"

lemma parse_cpu_bundle_info_range:
  "parse_cpu_bundle_info b = Some i \<Longrightarrow> SMALL_CPU \<le> cl_cpuLevel i \<and> cl_cpuLevel i \<le> LARGE_CPU"
  by (auto simp: parse_cpu_bundle_info_def Let_def split: if_splits sum.splits)

lemma set_alist_update: "set (AList.update k v m) \<subseteq> insert (k, v) (set m)"
  by (induction m) (auto split: if_splits)

lemma cpu_table_ok_update:
  "cpu_table_ok m \<Longrightarrow> cl_bundleName i = k \<Longrightarrow> SMALL_CPU \<le> cl_cpuLevel i \<Longrightarrow> cl_cpuLevel i \<le> LARGE_CPU \<Longrightarrow>
   cpu_table_ok (AList.update k i m)"
  using set_alist_update [of k i m] by (fastforce simp: cpu_table_ok_def distinct_update)

lemma cpu_bundle_table_ok: "cpu_table_ok m \<Longrightarrow> cpu_table_ok (cpu_bundle_table js m)"
  by (induction js m rule: cpu_bundle_table.induct)
     (auto split: option.splits dest: parse_cpu_bundle_info_range intro: cpu_table_ok_update)

end
