(* ===== verification/TransientEnv.thy ===== *)
theory TransientEnv
  imports DelaySuspendInfo BgtaskConfig
begin

text \<open>
  What the transient task operations read from their surroundings and the calls they make.
  An operation runs at one instant \<open>e_now\<close> of the monotonic clock. Answers of other system
  services (bundle manager, app manager, IPC caller, native token) and the system parameters
  are fields of \<open>env\<close>. The calls the code makes to the event handlers behind
  \<^verbatim>\<open>TimerManager\<close> and \<^verbatim>\<open>Watchdog\<close>, to subscribers, to expiry callbacks and to remote objects
  are recorded, in order, as a list of \<open>call\<close>; the last three constructors record deliveries
  (a timer or watchdog event taken from its queue) and published battery events.
\<close>

section \<open>Surroundings\<close>

type_synonym remote = nat

record env =
  e_now :: int
  e_initQuota :: int
  e_delayTimeNormal :: int
  e_quotaUpdate :: int
  e_dozeTime :: "int option"
  e_config :: BgtaskConfig
  e_signatureOk :: "string \<Rightarrow> bool"
  e_foregroundApps :: "(string \<times> int) list option"
  e_nameForUid :: "int \<Rightarrow> string option"
  e_processName :: string
  e_callingUid :: int
  e_callingPid :: int

text \<open>
  The defaults of \<^verbatim>\<open>bgtask_common.cpp\<close>: three minutes per request, ten minutes per day, one
  minute per request in low power mode, five seconds after entering the background.
\<close>

definition DELAY_TIME_NORMAL_DEFAULT :: int where
  "DELAY_TIME_NORMAL_DEFAULT = 3 * MSEC_PER_MIN"

definition DELAY_TIME_LOW_POWER :: int where
  "DELAY_TIME_LOW_POWER = 1 * MSEC_PER_MIN"

definition ALLOW_REQUEST_TIME_BG :: int where
  "ALLOW_REQUEST_TIME_BG = 5 * MSEC_PER_SEC"

definition INIT_QUOTA_DEFAULT :: int where
  "INIT_QUOTA_DEFAULT = 10 * MSEC_PER_MIN"

definition QUOTA_UPDATE_DEFAULT :: int where
  "QUOTA_UPDATE_DEFAULT = 1 * MSEC_PER_DAY"

text \<open>Whether an app is exempted from the quota, and by how much.\<close>

definition e_exempted :: "env \<Rightarrow> string \<Rightarrow> bool" where
  "e_exempted e pkg = IsTransientTaskExemptedQuatoApp (e_signatureOk e) (e_config e) pkg"

definition e_exemptedQuota :: "env \<Rightarrow> int" where
  "e_exemptedQuota e = GetTransientTaskExemptedQuato (e_config e)"

text \<open>
  The system parameters and the exempted quota are what a sane configuration holds: all are
  32-bit, and neither quota is negative.
\<close>

definition env_ok :: "env \<Rightarrow> bool" where
  "env_ok e \<longleftrightarrow> 0 \<le> e_initQuota e \<and> e_initQuota e \<le> INT_MAX \<and> 0 < e_now e \<and>
     0 \<le> e_exemptedQuota e \<and> e_exemptedQuota e \<le> 1000000000"

text \<open>A concrete surrounding at time \<open>t\<close> for the caller \<open>uid\<close>, \<open>pid\<close>, with the defaults.\<close>

definition default_env :: "int \<Rightarrow> int \<Rightarrow> int \<Rightarrow> env" where
  "default_env t uid pid =
     \<lparr>e_now = t, e_initQuota = INIT_QUOTA_DEFAULT, e_delayTimeNormal = DELAY_TIME_NORMAL_DEFAULT,
      e_quotaUpdate = QUOTA_UPDATE_DEFAULT, e_dozeTime = None, e_config = initial_config,
      e_signatureOk = (\<lambda>_. True), e_foregroundApps = Some [], e_nameForUid = (\<lambda>_. Some ''app''),
      e_processName = ''resource_schedule_service'', e_callingUid = uid, e_callingPid = pid\<rparr>"

section \<open>Calls\<close>

datatype TransientTaskEventType =
  TASK_START | TASK_END | TASK_ERR | APP_TASK_START | APP_TASK_END

record TransientTaskAppInfo =
  ta_packageName :: string
  ta_uid :: int
  ta_pid :: int

datatype call =
    AddTimer int int
  | RemoveTimer int
  | AddWatchdog int KeyInfo int
  | RemoveWatchdog int
  | NotifySubscribers TransientTaskEventType TransientTaskAppInfo
  | OnExpired remote
  | AddDeathRecipient remote
  | RemoveDeathRecipient remote
  | TimerFired int
  | WatchdogFired int
  | PublishBattery bool

text \<open>
  Which timers and watchdogs are pending after a history of calls, by the contract of the
  event handler: sending queues an event under its id, removing drops every queued event of
  that id, delivery takes the event out of the queue.
\<close>

definition timer_step :: "int \<Rightarrow> bool \<Rightarrow> call \<Rightarrow> bool" where
  "timer_step i b c =
     (case c of
        AddTimer j _ \<Rightarrow> (if j = i then True else b)
      | RemoveTimer j \<Rightarrow> (if j = i then False else b)
      | TimerFired j \<Rightarrow> (if j = i then False else b)
      | _ \<Rightarrow> b)"

definition timer_armed :: "call list \<Rightarrow> int \<Rightarrow> bool" where
  "timer_armed cs i = foldl (timer_step i) False cs"

definition watchdog_step :: "int \<Rightarrow> bool \<Rightarrow> call \<Rightarrow> bool" where
  "watchdog_step i b c =
     (case c of
        AddWatchdog j _ _ \<Rightarrow> (if j = i then True else b)
      | RemoveWatchdog j \<Rightarrow> (if j = i then False else b)
      | WatchdogFired j \<Rightarrow> (if j = i then False else b)
      | _ \<Rightarrow> b)"

definition watchdog_armed :: "call list \<Rightarrow> int \<Rightarrow> bool" where
  "watchdog_armed cs i = foldl (watchdog_step i) False cs"

section \<open>Lemmas\<close>

lemma timer_armed_Nil [simp]: "timer_armed [] i = False"
  by (simp add: timer_armed_def)

lemma timer_armed_append: "timer_armed (cs @ ds) i = foldl (timer_step i) (timer_armed cs i) ds"
  by (simp add: timer_armed_def)

lemma timer_armed_snoc [simp]: "timer_armed (cs @ [c]) i = timer_step i (timer_armed cs i) c"
  by (simp add: timer_armed_append)

lemma watchdog_armed_Nil [simp]: "watchdog_armed [] i = False"
  by (simp add: watchdog_armed_def)

lemma watchdog_armed_append:
  "watchdog_armed (cs @ ds) i = foldl (watchdog_step i) (watchdog_armed cs i) ds"
  by (simp add: watchdog_armed_def)

lemma watchdog_armed_snoc [simp]:
  "watchdog_armed (cs @ [c]) i = watchdog_step i (watchdog_armed cs i) c"
  by (simp add: watchdog_armed_append)

lemma timer_step_simps [simp]:
  "timer_step i b (AddTimer j n) = (j = i \<or> b)"
  "timer_step i b (RemoveTimer j) = (j \<noteq> i \<and> b)"
  "timer_step i b (TimerFired j) = (j \<noteq> i \<and> b)"
  "timer_step i b (AddWatchdog j k n) = b"
  "timer_step i b (RemoveWatchdog j) = b"
  "timer_step i b (WatchdogFired j) = b"
  "timer_step i b (NotifySubscribers ty a) = b"
  "timer_step i b (OnExpired r) = b"
  "timer_step i b (AddDeathRecipient r) = b"
  "timer_step i b (RemoveDeathRecipient r) = b"
  "timer_step i b (PublishBattery x) = b"
  by (auto simp: timer_step_def)

lemma watchdog_step_simps [simp]:
  "watchdog_step i b (AddTimer j n) = b"
  "watchdog_step i b (RemoveTimer j) = b"
  "watchdog_step i b (TimerFired j) = b"
  "watchdog_step i b (AddWatchdog j k n) = (j = i \<or> b)"
  "watchdog_step i b (RemoveWatchdog j) = (j \<noteq> i \<and> b)"
  "watchdog_step i b (WatchdogFired j) = (j \<noteq> i \<and> b)"
  "watchdog_step i b (NotifySubscribers ty a) = b"
  "watchdog_step i b (OnExpired r) = b"
  "watchdog_step i b (AddDeathRecipient r) = b"
  "watchdog_step i b (RemoveDeathRecipient r) = b"
  "watchdog_step i b (PublishBattery x) = b"
  by (auto simp: watchdog_step_def)

lemma default_env_ok [simp]: "0 < t \<Longrightarrow> env_ok (default_env t uid pid)"
  by (simp add: env_ok_def default_env_def e_exemptedQuota_def GetTransientTaskExemptedQuato_def
      initial_config_def INIT_QUOTA_DEFAULT_def)

lemmas env_simps = default_env_def e_exempted_def e_exemptedQuota_def
  IsTransientTaskExemptedQuatoApp_def GetTransientTaskExemptedQuato_def initial_config_def
  INIT_QUOTA_DEFAULT_def DELAY_TIME_NORMAL_DEFAULT_def QUOTA_UPDATE_DEFAULT_def
  DELAY_TIME_LOW_POWER_def ALLOW_REQUEST_TIME_BG_def

end
