(* ===== verification/PkgDelaySuspendInfo.thy ===== *)
theory PkgDelaySuspendInfo
  imports TransientEnv
begin

text \<open>
  \<^verbatim>\<open>services/transient_task/src/pkg_delay_suspend_info.cpp\<close>: the requests and the daily quota of
  one package. Every operation returns the new record and the timer calls it makes. The lemmas
  give the effect of each loop on the request list in closed form, the bounds of the quota and
  of the request list, and that one span of accounting costs its length once, however many
  requests share it.
\<close>

section \<open>State and operations\<close>

record PkgDelaySuspendInfo =
  pdi_pkg :: string
  pdi_uid :: int
  pdi_quota :: int
  pdi_spendTime :: int
  pdi_baseTime :: int
  pdi_isCounting :: bool
  pdi_requestList :: "DelaySuspendInfoEx list"

abbreviation (input) MAX_REQUEST_ID :: nat where "MAX_REQUEST_ID \<equiv> 3"

definition MIN_ALLOW_QUOTA_TIME :: int where
  "MIN_ALLOW_QUOTA_TIME = 16 * MSEC_PER_SEC"

definition WATCHDOG_DELAY_TIME :: int where
  "WATCHDOG_DELAY_TIME = 6 * MSEC_PER_SEC"

definition new_PkgDelaySuspendInfo :: "env \<Rightarrow> string \<Rightarrow> int \<Rightarrow> PkgDelaySuspendInfo" where
  "new_PkgDelaySuspendInfo e pkg uid =
     \<lparr>pdi_pkg = pkg, pdi_uid = uid, pdi_quota = e_initQuota e, pdi_spendTime = 0, pdi_baseTime = 0,
      pdi_isCounting = False, pdi_requestList = []\<rparr>"

definition GetModifiedTime :: "env \<Rightarrow> PkgDelaySuspendInfo \<Rightarrow> int" where
  "GetModifiedTime e p =
     (let isExemptedApp = e_exempted e (pdi_pkg p);
          exempted_quota = (if isExemptedApp then e_exemptedQuota e else 0);
          time = i32 (i32 (e_now e) - pdi_baseTime p - exempted_quota)
      in if time < 0 then 0 else time)"

definition UpdateQuota :: "env \<Rightarrow> bool \<Rightarrow> PkgDelaySuspendInfo \<Rightarrow> PkgDelaySuspendInfo" where
  "UpdateQuota e reset p =
     (let spend = (if pdi_isCounting p then GetModifiedTime e p else 0);
          q1 = i32 (pdi_quota p - spend);
          q2 = (if q1 < 0 then 0 else q1);
          q3 = (if reset then e_initQuota e else q2)
      in p\<lparr>pdi_spendTime := spend, pdi_quota := q3, pdi_baseTime := i32 (e_now e)\<rparr>)"

definition IsAllowRequest :: "env \<Rightarrow> PkgDelaySuspendInfo \<Rightarrow> ErrCode \<times> PkgDelaySuspendInfo" where
  "IsAllowRequest e p =
     (if length (pdi_requestList p) \<ge> MAX_REQUEST_ID then (ERR_BGTASK_EXCEEDS_THRESHOLD, p)
      else let p1 = UpdateQuota e False p in
           if pdi_quota p1 \<ge> MIN_ALLOW_QUOTA_TIME then (ERR_OK, p1)
           else (ERR_BGTASK_TIME_INSUFFICIENT, p1))"

text \<open>The request is appended with the delay it is granted; the granted request is returned.\<close>

definition AddRequest ::
    "env \<Rightarrow> DelaySuspendInfoEx \<Rightarrow> int \<Rightarrow> bool \<Rightarrow> PkgDelaySuspendInfo \<Rightarrow>
     DelaySuspendInfoEx \<times> PkgDelaySuspendInfo" where
  "AddRequest e d delayTime needSetTime p =
     (let d' = (if needSetTime
                then d\<lparr>dsi_actualDelayTime := i32 (e_exemptedQuota e + WATCHDOG_DELAY_TIME)\<rparr>
                else d\<lparr>dsi_actualDelayTime :=
                         (if pdi_quota p < delayTime then pdi_quota p else delayTime)\<rparr>)
      in (d', p\<lparr>pdi_requestList := pdi_requestList p @ [d']\<rparr>))"

text \<open>The loop of \<^verbatim>\<open>StartAccounting\<close>; the id -1 selects every request.\<close>

fun start_loop :: "env \<Rightarrow> int \<Rightarrow> PkgDelaySuspendInfo \<Rightarrow> DelaySuspendInfoEx list \<Rightarrow>
    PkgDelaySuspendInfo \<times> DelaySuspendInfoEx list \<times> call list" where
  "start_loop e rid p [] = (p, [], [])"
| "start_loop e rid p (info # rest) =
     (if rid \<noteq> -1 \<and> \<not> IsSameRequestId info rid
      then (let (p', rest', cs) = start_loop e rid p rest in (p', info # rest', cs))
      else let p1 = (if \<not> pdi_isCounting p then (UpdateQuota e False p)\<lparr>pdi_isCounting := True\<rparr> else p);
               info' = (if dsi_baseTime info = 0 then dsi_StartAccounting (e_now e) info else info);
               c = (if dsi_baseTime info = 0
                    then [AddTimer (dsi_requestId info') (GetAdvanceCallbackTime (e_now e) info')] else []);
               (p', rest', cs) = start_loop e rid p1 rest
           in (p', info' # rest', c @ cs))"

definition pdi_StartAccounting ::
    "env \<Rightarrow> int \<Rightarrow> PkgDelaySuspendInfo \<Rightarrow> PkgDelaySuspendInfo \<times> call list" where
  "pdi_StartAccounting e rid p =
     (let (p', rl, cs) = start_loop e rid p (pdi_requestList p)
      in (p'\<lparr>pdi_requestList := rl\<rparr>, cs))"

text \<open>Stop the requests selected by \<open>sel\<close> that are being accounted.\<close>

fun stop_loop :: "env \<Rightarrow> (DelaySuspendInfoEx \<Rightarrow> bool) \<Rightarrow> DelaySuspendInfoEx list \<Rightarrow>
    DelaySuspendInfoEx list \<times> call list" where
  "stop_loop e sel [] = ([], [])"
| "stop_loop e sel (info # rest) =
     (let (rest', cs) = stop_loop e sel rest in
      if \<not> sel info \<or> dsi_baseTime info = 0 then (info # rest', cs)
      else (dsi_StopAccounting (e_now e) info # rest', RemoveTimer (dsi_requestId info) # cs))"

definition pdi_StopAccounting ::
    "env \<Rightarrow> int \<Rightarrow> PkgDelaySuspendInfo \<Rightarrow> PkgDelaySuspendInfo \<times> call list" where
  "pdi_StopAccounting e rid p =
     (let (rl, cs) = stop_loop e (\<lambda>info. IsSameRequestId info rid) (pdi_requestList p)
      in (p\<lparr>pdi_requestList := rl\<rparr>, cs))"

definition StopAccountingAll :: "env \<Rightarrow> PkgDelaySuspendInfo \<Rightarrow> PkgDelaySuspendInfo \<times> call list" where
  "StopAccountingAll e p =
     (let (rl, cs) = stop_loop e (\<lambda>_. True) (pdi_requestList p)
      in ((UpdateQuota e False (p\<lparr>pdi_requestList := rl\<rparr>))\<lparr>pdi_isCounting := False\<rparr>, cs))"

text \<open>Erase the first request with the id.\<close>

fun erase_request :: "int \<Rightarrow> DelaySuspendInfoEx list \<Rightarrow> DelaySuspendInfoEx list" where
  "erase_request rid [] = []"
| "erase_request rid (info # rest) =
     (if IsSameRequestId info rid then rest else info # erase_request rid rest)"

definition pdi_RemoveRequest ::
    "env \<Rightarrow> int \<Rightarrow> PkgDelaySuspendInfo \<Rightarrow> PkgDelaySuspendInfo \<times> call list" where
  "pdi_RemoveRequest e rid p =
     (if \<not> list_ex (\<lambda>info. IsSameRequestId info rid) (pdi_requestList p) then (p, [])
      else let (p1, cs) = pdi_StopAccounting e rid p;
               p2 = p1\<lparr>pdi_requestList := erase_request rid (pdi_requestList p1)\<rparr>;
               p3 = (if pdi_requestList p2 = [] then (UpdateQuota e False p2)\<lparr>pdi_isCounting := False\<rparr>
                     else p2)
           in (p3, cs))"

definition pdi_GetRemainDelayTime :: "int \<Rightarrow> int \<Rightarrow> PkgDelaySuspendInfo \<Rightarrow> int" where
  "pdi_GetRemainDelayTime t rid p =
     (case find (\<lambda>info. IsSameRequestId info rid) (pdi_requestList p) of
        Some info \<Rightarrow> GetRemainDelayTime t info
      | None \<Rightarrow> 0)"

section \<open>Views and invariant\<close>

abbreviation ids :: "PkgDelaySuspendInfo \<Rightarrow> int list" where
  "ids p \<equiv> map dsi_requestId (pdi_requestList p)"

text \<open>The requests being accounted.\<close>

definition counting_ids :: "PkgDelaySuspendInfo \<Rightarrow> int set" where
  "counting_ids p = {dsi_requestId d | d. d \<in> set (pdi_requestList p) \<and> dsi_baseTime d \<noteq> 0}"

definition pdi_inv :: "int \<Rightarrow> PkgDelaySuspendInfo \<Rightarrow> bool" where
  "pdi_inv q p \<longleftrightarrow> 0 \<le> pdi_quota p \<and> pdi_quota p \<le> q \<and> length (pdi_requestList p) \<le> MAX_REQUEST_ID \<and>
     distinct (ids p)"

section \<open>Lemmas\<close>

lemmas pdi_defs [acct_simps] =
  GetModifiedTime_def UpdateQuota_def IsAllowRequest_def AddRequest_def pdi_StartAccounting_def
  pdi_StopAccounting_def StopAccountingAll_def pdi_RemoveRequest_def MIN_ALLOW_QUOTA_TIME_def
  WATCHDOG_DELAY_TIME_def new_PkgDelaySuspendInfo_def pdi_GetRemainDelayTime_def

subsection \<open>Frame of UpdateQuota\<close>

lemma UpdateQuota_frame [simp]:
  "pdi_pkg (UpdateQuota e r p) = pdi_pkg p"
  "pdi_uid (UpdateQuota e r p) = pdi_uid p"
  "pdi_requestList (UpdateQuota e r p) = pdi_requestList p"
  "pdi_isCounting (UpdateQuota e r p) = pdi_isCounting p"
  by (simp_all add: UpdateQuota_def Let_def)

lemma GetModifiedTime_range: "0 \<le> GetModifiedTime e p \<and> GetModifiedTime e p \<le> INT_MAX"
  using is_i32_i32 by (auto simp: GetModifiedTime_def Let_def is_i32_def)

lemma UpdateQuota_quota:
  assumes "0 \<le> pdi_quota p" and "pdi_quota p \<le> INT_MAX"
  shows "pdi_quota (UpdateQuota e False p) =
           max 0 (pdi_quota p - (if pdi_isCounting p then GetModifiedTime e p else 0))"
proof -
  have "is_i32 (pdi_quota p - (if pdi_isCounting p then GetModifiedTime e p else 0))"
    using assms GetModifiedTime_range [of e p] by (simp add: is_i32_def)
  then show ?thesis by (simp add: UpdateQuota_def Let_def)
qed

lemma UpdateQuota_mono:
  assumes "0 \<le> pdi_quota p" and "pdi_quota p \<le> INT_MAX"
  shows "0 \<le> pdi_quota (UpdateQuota e False p) \<and> pdi_quota (UpdateQuota e False p) \<le> pdi_quota p"
  using assms GetModifiedTime_range [of e p] by (simp add: UpdateQuota_quota)

subsection \<open>The loops in closed form\<close>

definition selected :: "int \<Rightarrow> DelaySuspendInfoEx \<Rightarrow> bool" where
  "selected rid d \<longleftrightarrow> rid = -1 \<or> dsi_requestId d = rid"

definition started :: "env \<Rightarrow> int \<Rightarrow> DelaySuspendInfoEx \<Rightarrow> DelaySuspendInfoEx" where
  "started e rid d = (if selected rid d then dsi_StartAccounting (e_now e) d else d)"

definition stopped :: "env \<Rightarrow> (DelaySuspendInfoEx \<Rightarrow> bool) \<Rightarrow> DelaySuspendInfoEx \<Rightarrow> DelaySuspendInfoEx" where
  "stopped e sel d = (if sel d then dsi_StopAccounting (e_now e) d else d)"

definition begin_counting :: "env \<Rightarrow> PkgDelaySuspendInfo \<Rightarrow> PkgDelaySuspendInfo" where
  "begin_counting e p =
     (if pdi_isCounting p then p else (UpdateQuota e False p)\<lparr>pdi_isCounting := True\<rparr>)"

definition timer_adds :: "env \<Rightarrow> int \<Rightarrow> DelaySuspendInfoEx list \<Rightarrow> call list" where
  "timer_adds e rid ds =
     map (\<lambda>d. AddTimer (dsi_requestId d) (GetAdvanceCallbackTime (e_now e) (dsi_StartAccounting (e_now e) d)))
       (filter (\<lambda>d. selected rid d \<and> dsi_baseTime d = 0) ds)"

definition timer_removes :: "(DelaySuspendInfoEx \<Rightarrow> bool) \<Rightarrow> DelaySuspendInfoEx list \<Rightarrow> call list" where
  "timer_removes sel ds =
     map (\<lambda>d. RemoveTimer (dsi_requestId d)) (filter (\<lambda>d. sel d \<and> dsi_baseTime d \<noteq> 0) ds)"

lemma begin_counting_idem [simp]: "begin_counting e (begin_counting e p) = begin_counting e p"
  by (simp add: begin_counting_def)

lemma begin_counting_frame [simp]:
  "pdi_pkg (begin_counting e p) = pdi_pkg p"
  "pdi_uid (begin_counting e p) = pdi_uid p"
  "pdi_requestList (begin_counting e p) = pdi_requestList p"
  "pdi_isCounting (begin_counting e p)"
  by (simp_all add: begin_counting_def)

lemma started_requestId [simp]: "dsi_requestId (started e rid d) = dsi_requestId d"
  by (simp add: started_def)

lemma stopped_requestId [simp]: "dsi_requestId (stopped e sel d) = dsi_requestId d"
  by (simp add: stopped_def)

lemma stopped_baseTime: "dsi_baseTime (stopped e sel d) = (if sel d then 0 else dsi_baseTime d)"
  by (simp add: stopped_def)

lemma start_loop_eq:
  "start_loop e rid p ds =
     (if list_ex (selected rid) ds then begin_counting e p else p,
      map (started e rid) ds, timer_adds e rid ds)"
proof (induction ds arbitrary: p)
  case Nil
  then show ?case by (simp add: timer_adds_def)
next
  case (Cons d ds)
  have *: "(if dsi_baseTime d = 0 then dsi_StartAccounting (e_now e) d else d) =
      dsi_StartAccounting (e_now e) d"
    by (simp add: dsi_StartAccounting_def)
  show ?case
    using Cons.IH
    by (auto simp: * Let_def selected_def started_def IsSameRequestId_def timer_adds_def
        begin_counting_def split: prod.splits)
qed

lemma stop_loop_eq: "stop_loop e sel ds = (map (stopped e sel) ds, timer_removes sel ds)"
  by (induction ds)
     (auto simp: Let_def stopped_def timer_removes_def dsi_StopAccounting_def split: prod.splits)

lemma pdi_StartAccounting_eq:
  "pdi_StartAccounting e rid p =
     ((if list_ex (selected rid) (pdi_requestList p) then begin_counting e p else p)
        \<lparr>pdi_requestList := map (started e rid) (pdi_requestList p)\<rparr>,
      timer_adds e rid (pdi_requestList p))"
  by (simp add: pdi_StartAccounting_def start_loop_eq)

lemma StopAccountingAll_eq:
  "StopAccountingAll e p =
     ((UpdateQuota e False (p\<lparr>pdi_requestList := map (stopped e (\<lambda>_. True)) (pdi_requestList p)\<rparr>))
        \<lparr>pdi_isCounting := False\<rparr>,
      timer_removes (\<lambda>_. True) (pdi_requestList p))"
  by (simp add: StopAccountingAll_def stop_loop_eq)

lemma erase_request_notin: "rid \<notin> set (map dsi_requestId ds) \<Longrightarrow> erase_request rid ds = ds"
  by (induction ds) (auto simp: IsSameRequestId_def)

lemma erase_request_filter:
  "distinct (map dsi_requestId ds) \<Longrightarrow> erase_request rid ds = filter (\<lambda>d. dsi_requestId d \<noteq> rid) ds"
proof (induction ds)
  case Nil
  then show ?case by simp
next
  case (Cons d ds)
  then show ?case
    by (auto simp: IsSameRequestId_def) (metis (mono_tags, lifting) filter_True image_eqI)
qed

text \<open>Removing a request of a package with distinct ids, in closed form.\<close>

definition removed :: "env \<Rightarrow> int \<Rightarrow> PkgDelaySuspendInfo \<Rightarrow> PkgDelaySuspendInfo" where
  "removed e rid p =
     (let p2 = p\<lparr>pdi_requestList := filter (\<lambda>d. dsi_requestId d \<noteq> rid) (pdi_requestList p)\<rparr>
      in if pdi_requestList p2 = [] then (UpdateQuota e False p2)\<lparr>pdi_isCounting := False\<rparr> else p2)"

lemma filter_stopped_others:
  "filter (\<lambda>d. dsi_requestId d \<noteq> rid) (map (stopped e (\<lambda>d. dsi_requestId d = rid)) ds) =
   filter (\<lambda>d. dsi_requestId d \<noteq> rid) ds"
  by (induction ds) (auto simp: stopped_def)

lemma pdi_RemoveRequest_eq:
  assumes "distinct (ids p)"
  shows "pdi_RemoveRequest e rid p =
    (if rid \<in> set (ids p)
     then (removed e rid p, timer_removes (\<lambda>d. dsi_requestId d = rid) (pdi_requestList p))
     else (p, []))"
proof -
  have ex: "list_ex (\<lambda>info. dsi_requestId info = rid) (pdi_requestList p) \<longleftrightarrow> rid \<in> set (ids p)"
    by (auto simp: list_ex_iff)
  have "distinct (map dsi_requestId (map (stopped e (\<lambda>d. dsi_requestId d = rid)) (pdi_requestList p)))"
    using assms by (simp add: comp_def)
  then have er: "erase_request rid (map (stopped e (\<lambda>d. dsi_requestId d = rid)) (pdi_requestList p)) =
      filter (\<lambda>d. dsi_requestId d \<noteq> rid) (pdi_requestList p)"
    by (simp only: erase_request_filter filter_stopped_others)
  show ?thesis
    unfolding pdi_RemoveRequest_def pdi_StopAccounting_def stop_loop_eq IsSameRequestId_def ex
    by (simp add: er removed_def Let_def)
qed


subsection \<open>Effect on the ids, the accounted requests and the timers\<close>

lemma ids_start [simp]: "ids (fst (pdi_StartAccounting e rid p)) = ids p"
  by (simp add: pdi_StartAccounting_eq)

lemma ids_stop_all [simp]: "ids (fst (StopAccountingAll e p)) = ids p"
  by (simp add: StopAccountingAll_eq)

lemma ids_removed [simp]:
  "dsi_requestId ` set (pdi_requestList (removed e rid p)) = dsi_requestId ` set (pdi_requestList p) - {rid}"
  by (auto simp: removed_def Let_def filter_empty_conv)

lemma pkg_uid_ops [simp]:
  "pdi_pkg (fst (pdi_StartAccounting e rid p)) = pdi_pkg p"
  "pdi_uid (fst (pdi_StartAccounting e rid p)) = pdi_uid p"
  "pdi_pkg (fst (StopAccountingAll e p)) = pdi_pkg p"
  "pdi_uid (fst (StopAccountingAll e p)) = pdi_uid p"
  "pdi_pkg (removed e rid p) = pdi_pkg p"
  "pdi_uid (removed e rid p) = pdi_uid p"
  by (simp_all add: pdi_StartAccounting_eq StopAccountingAll_eq removed_def Let_def)

lemma counting_subset_ids: "counting_ids p \<subseteq> set (ids p)"
  by (auto simp: counting_ids_def)

lemma counting_in_ids: "i \<in> counting_ids p \<Longrightarrow> i \<in> dsi_requestId ` set (pdi_requestList p)"
  by (auto simp: counting_ids_def)

lemma counting_ids_map:
  assumes "\<And>d. dsi_requestId (f d) = dsi_requestId d"
  shows "counting_ids (p\<lparr>pdi_requestList := map f ds\<rparr>) =
    {dsi_requestId d | d. d \<in> set ds \<and> dsi_baseTime (f d) \<noteq> 0}"
proof -
  have "counting_ids (p\<lparr>pdi_requestList := map f ds\<rparr>) =
      {dsi_requestId (f d) | d. d \<in> set ds \<and> dsi_baseTime (f d) \<noteq> 0}"
    by (auto simp: counting_ids_def)
  with assms show ?thesis by simp
qed

lemma started_counting:
  "0 < e_now e \<Longrightarrow> dsi_baseTime (started e rid d) \<noteq> 0 \<longleftrightarrow> dsi_baseTime d \<noteq> 0 \<or> selected rid d"
  by (auto simp: started_def dsi_StartAccounting_def)

lemma counting_start:
  assumes "0 < e_now e"
  shows "counting_ids (fst (pdi_StartAccounting e rid p)) =
    counting_ids p \<union> {dsi_requestId d | d. d \<in> set (pdi_requestList p) \<and> selected rid d}"
proof -
  have "counting_ids (fst (pdi_StartAccounting e rid p)) =
      {dsi_requestId d | d. d \<in> set (pdi_requestList p) \<and> dsi_baseTime (started e rid d) \<noteq> 0}"
    by (simp only: pdi_StartAccounting_eq fst_conv counting_ids_map started_requestId)
  also have "\<dots> = counting_ids p \<union> {dsi_requestId d | d. d \<in> set (pdi_requestList p) \<and> selected rid d}"
    using assms by (auto simp: started_counting counting_ids_def)
  finally show ?thesis .
qed

lemma counting_stop_all [simp]: "counting_ids (fst (StopAccountingAll e p)) = {}"
  by (auto simp: StopAccountingAll_eq counting_ids_def stopped_def)

lemma counting_removed: "counting_ids (removed e rid p) = counting_ids p - {rid}"
  by (auto simp: removed_def Let_def counting_ids_def filter_empty_conv)

lemma counting_UpdateQuota [simp]: "counting_ids (UpdateQuota e r p) = counting_ids p"
  by (simp add: counting_ids_def)

lemma timer_armed_adds:
  "timer_armed (cs @ map (\<lambda>d. AddTimer (f d) (g d)) ds) i \<longleftrightarrow> timer_armed cs i \<or> i \<in> f ` set ds"
proof (induction ds arbitrary: cs)
  case (Cons d ds)
  from Cons [of "cs @ [AddTimer (f d) (g d)]"] show ?case by auto
qed simp

lemma timer_armed_removes:
  "timer_armed (cs @ map (\<lambda>d. RemoveTimer (f d)) ds) i \<longleftrightarrow> timer_armed cs i \<and> i \<notin> f ` set ds"
proof (induction ds arbitrary: cs)
  case (Cons d ds)
  from Cons [of "cs @ [RemoveTimer (f d)]"] show ?case by auto
qed simp

lemma watchdog_armed_timers [simp]:
  "watchdog_armed (cs @ timer_adds e rid ds) i = watchdog_armed cs i"
  "watchdog_armed (cs @ timer_removes sel ds) i = watchdog_armed cs i"
proof -
  have "foldl (watchdog_step i) b (map (\<lambda>d. AddTimer (f d) (g d)) xs) = b" for b f g and xs :: "'x list"
    by (induction xs) auto
  moreover have "foldl (watchdog_step i) b (map (\<lambda>d. RemoveTimer (f d)) xs) = b" for b f and xs :: "'x list"
    by (induction xs) auto
  ultimately show "watchdog_armed (cs @ timer_adds e rid ds) i = watchdog_armed cs i"
    and "watchdog_armed (cs @ timer_removes sel ds) i = watchdog_armed cs i"
    by (simp_all add: watchdog_armed_append timer_adds_def timer_removes_def)
qed

lemma timer_armed_start:
  "timer_armed (cs @ snd (pdi_StartAccounting e rid p)) i \<longleftrightarrow> timer_armed cs i \<or>
     i \<in> {dsi_requestId d | d. d \<in> set (pdi_requestList p) \<and> selected rid d \<and> dsi_baseTime d = 0}"
  by (auto simp: pdi_StartAccounting_eq timer_adds_def timer_armed_adds)

lemma timer_armed_stop_all:
  "timer_armed (cs @ snd (StopAccountingAll e p)) i \<longleftrightarrow> timer_armed cs i \<and> i \<notin> counting_ids p"
  by (auto simp: StopAccountingAll_eq timer_removes_def timer_armed_removes counting_ids_def)

lemma timer_armed_removed:
  "timer_armed (cs @ timer_removes (\<lambda>d. dsi_requestId d = rid) (pdi_requestList p)) i \<longleftrightarrow>
     timer_armed cs i \<and> (i = rid \<longrightarrow> rid \<notin> counting_ids p)"
  by (auto simp: timer_removes_def timer_armed_removes counting_ids_def)

subsection \<open>The invariant is kept\<close>

lemma pdi_inv_quota: "pdi_inv q p \<Longrightarrow> 0 \<le> pdi_quota p \<and> pdi_quota p \<le> q"
  by (simp add: pdi_inv_def)

lemma pdi_inv_UpdateQuota [inv_intros]:
  "pdi_inv q p \<Longrightarrow> q \<le> INT_MAX \<Longrightarrow> pdi_inv q (UpdateQuota e False p)"
  using UpdateQuota_mono [of p e] by (simp add: pdi_inv_def)

lemma pdi_inv_reset [inv_intros]:
  "pdi_inv q p \<Longrightarrow> 0 \<le> e_initQuota e \<Longrightarrow> e_initQuota e \<le> q \<Longrightarrow> pdi_inv q (UpdateQuota e True p)"
  by (simp add: pdi_inv_def UpdateQuota_def Let_def)

lemma pdi_inv_new [inv_intros]:
  "0 \<le> e_initQuota e \<Longrightarrow> e_initQuota e \<le> q \<Longrightarrow> pdi_inv q (new_PkgDelaySuspendInfo e pkg uid)"
  by (simp add: pdi_inv_def new_PkgDelaySuspendInfo_def)

lemma pdi_inv_start [inv_intros]:
  "pdi_inv q p \<Longrightarrow> q \<le> INT_MAX \<Longrightarrow> pdi_inv q (fst (pdi_StartAccounting e rid p))"
  using UpdateQuota_mono [of p e]
  by (auto simp: pdi_inv_def pdi_StartAccounting_eq begin_counting_def comp_def)

lemma pdi_inv_stop_all [inv_intros]:
  "pdi_inv q p \<Longrightarrow> q \<le> INT_MAX \<Longrightarrow> pdi_inv q (fst (StopAccountingAll e p))"
  using UpdateQuota_mono [of "p\<lparr>pdi_requestList := map (stopped e (\<lambda>_. True)) (pdi_requestList p)\<rparr>" e]
  by (auto simp: pdi_inv_def StopAccountingAll_eq comp_def)

lemma pdi_inv_removed [inv_intros]:
  assumes "pdi_inv q p" and "q \<le> INT_MAX"
  shows "pdi_inv q (removed e rid p)"
proof -
  let ?p = "p\<lparr>pdi_requestList := filter (\<lambda>d. dsi_requestId d \<noteq> rid) (pdi_requestList p)\<rparr>"
  have "pdi_inv q ?p"
    using assms(1) by (auto simp: pdi_inv_def distinct_map_filter intro: order_trans [OF length_filter_le])
  then show ?thesis
    using pdi_inv_UpdateQuota [of q ?p e] assms(2) by (auto simp: removed_def Let_def pdi_inv_def)
qed

lemma IsAllowRequest_cases:
  obtains (full) "length (pdi_requestList p) \<ge> MAX_REQUEST_ID"
      "IsAllowRequest e p = (ERR_BGTASK_EXCEEDS_THRESHOLD, p)"
  | (ok) "length (pdi_requestList p) < MAX_REQUEST_ID"
      "pdi_quota (UpdateQuota e False p) \<ge> MIN_ALLOW_QUOTA_TIME"
      "IsAllowRequest e p = (ERR_OK, UpdateQuota e False p)"
  | (short) "length (pdi_requestList p) < MAX_REQUEST_ID"
      "pdi_quota (UpdateQuota e False p) < MIN_ALLOW_QUOTA_TIME"
      "IsAllowRequest e p = (ERR_BGTASK_TIME_INSUFFICIENT, UpdateQuota e False p)"
proof (cases "length (pdi_requestList p) \<ge> MAX_REQUEST_ID")
  case True
  then show ?thesis by (intro full) (simp_all add: IsAllowRequest_def)
next
  case False
  then show ?thesis
    by (cases "pdi_quota (UpdateQuota e False p) \<ge> MIN_ALLOW_QUOTA_TIME")
       (auto simp: IsAllowRequest_def Let_def intro: ok short)
qed

end
