(* ===== verification/DeviceInfo.thy ===== *)
theory DeviceInfo
  imports TransientEnv
begin

text \<open>
  Device events: \<^verbatim>\<open>event_info.h\<close>, the translation of common events by \<^verbatim>\<open>event_hub.cpp\<close>, the
  device state of \<^verbatim>\<open>device_info_manager.cpp\<close> and the listener list of \<^verbatim>\<open>input_manager.cpp\<close>.
  The actions are the common events of the system, known here by their names.
\<close>

section \<open>Events\<close>

abbreviation (input) EVENT_SCREEN_ON :: int where "EVENT_SCREEN_ON \<equiv> 2"
abbreviation (input) EVENT_SCREEN_OFF :: int where "EVENT_SCREEN_OFF \<equiv> 3"
abbreviation (input) EVENT_SCREEN_UNLOCK :: int where "EVENT_SCREEN_UNLOCK \<equiv> 4"
abbreviation (input) EVENT_BATTERY_LOW :: int where "EVENT_BATTERY_LOW \<equiv> 5"
abbreviation (input) EVENT_BATTERY_OKAY :: int where "EVENT_BATTERY_OKAY \<equiv> 6"

record EventInfo =
  ei_eventId :: int
  ei_intArgs :: "int list"
  ei_stringArgs :: "string list"

datatype common_event =
    COMMON_EVENT_SCREEN_ON
  | COMMON_EVENT_SCREEN_OFF
  | COMMON_EVENT_SCREEN_UNLOCKED
  | COMMON_EVENT_BATTERY_LOW
  | COMMON_EVENT_BATTERY_OKAY
  | COMMON_EVENT_OTHER string

text \<open>Reading the table under a name it lacks yields the zero id.\<close>

fun actionMap :: "common_event \<Rightarrow> int" where
  "actionMap COMMON_EVENT_SCREEN_ON = EVENT_SCREEN_ON"
| "actionMap COMMON_EVENT_SCREEN_OFF = EVENT_SCREEN_OFF"
| "actionMap COMMON_EVENT_SCREEN_UNLOCKED = EVENT_SCREEN_UNLOCK"
| "actionMap COMMON_EVENT_BATTERY_LOW = EVENT_BATTERY_LOW"
| "actionMap COMMON_EVENT_BATTERY_OKAY = EVENT_BATTERY_OKAY"
| "actionMap (COMMON_EVENT_OTHER _) = 0"

definition OnReceiveEvent :: "common_event \<Rightarrow> int \<Rightarrow> string \<Rightarrow> EventInfo" where
  "OnReceiveEvent action code data =
     \<lparr>ei_eventId = actionMap action, ei_intArgs = [code], ei_stringArgs = [data]\<rparr>"

section \<open>DeviceInfoManager\<close>

record DeviceInfoManager =
  di_isDump :: bool
  di_isScreenOn :: bool
  di_isScreenUnlock :: bool
  di_isLowPowerMode :: bool

definition new_DeviceInfoManager :: DeviceInfoManager where
  "new_DeviceInfoManager =
     \<lparr>di_isDump = False, di_isScreenOn = True, di_isScreenUnlock = False, di_isLowPowerMode = False\<rparr>"

definition dev_switch :: "int \<Rightarrow> DeviceInfoManager \<Rightarrow> DeviceInfoManager" where
  "dev_switch i dev =
     (if i = EVENT_SCREEN_ON then dev\<lparr>di_isScreenOn := True\<rparr>
      else if i = EVENT_SCREEN_OFF then dev\<lparr>di_isScreenOn := False, di_isScreenUnlock := False\<rparr>
      else if i = EVENT_SCREEN_UNLOCK then dev\<lparr>di_isScreenUnlock := True\<rparr>
      else if i = EVENT_BATTERY_LOW then dev\<lparr>di_isLowPowerMode := True\<rparr>
      else if i = EVENT_BATTERY_OKAY then dev\<lparr>di_isLowPowerMode := False\<rparr>
      else dev)"

text \<open>
  In dump mode only events carrying the text ``dump'' count; the first string argument is read
  without a check, \<open>None\<close> is that read on an empty argument list.
\<close>

definition dev_OnInputEvent :: "EventInfo \<Rightarrow> DeviceInfoManager \<Rightarrow> DeviceInfoManager option" where
  "dev_OnInputEvent ev dev =
     (if di_isDump dev
      then (case ei_stringArgs ev of
              [] \<Rightarrow> None
            | s # _ \<Rightarrow> if s \<noteq> ''dump'' then Some dev else Some (dev_switch (ei_eventId ev) dev))
      else Some (dev_switch (ei_eventId ev) dev))"

section \<open>InputManager\<close>

datatype listener = ListenDeviceInfo | ListenDecisionMaker

definition RegisterEventListener :: "listener option \<Rightarrow> listener list \<Rightarrow> listener list" where
  "RegisterEventListener l ls = (case l of None \<Rightarrow> ls | Some x \<Rightarrow> ls @ [x])"

definition UnRegisterEventListener :: "listener option \<Rightarrow> listener list \<Rightarrow> listener list" where
  "UnRegisterEventListener l ls = (case l of None \<Rightarrow> ls | Some x \<Rightarrow> remove1 x ls)"

section \<open>Lemmas\<close>

lemma hub_events_are_read: "\<exists>dev'. dev_OnInputEvent (OnReceiveEvent a c d) dev = Some dev'"
  by (simp add: dev_OnInputEvent_def OnReceiveEvent_def)

lemma dev_switch_dump [simp]: "di_isDump (dev_switch i dev) = di_isDump dev"
  by (simp add: dev_switch_def)

lemma unregister_registered:
  "x \<notin> set ls \<Longrightarrow> UnRegisterEventListener (Some x) (RegisterEventListener (Some x) ls) = ls"
  by (simp add: RegisterEventListener_def UnRegisterEventListener_def remove1_append)

end
