(* ===== verification/DecisionMaker.thy ===== *)
theory DecisionMaker
  imports PkgDelaySuspendInfo DeviceInfo
begin

text \<open>
  \<^verbatim>\<open>services/transient_task/src/decision_maker.cpp\<close>: who may ask for a transient task, the per
  package records, and how process states and the screen switch accounting on and off. The
  operations of \<open>PkgDelaySuspendInfo\<close> that the decision maker applies to one package share a
  contract, the locale \<open>accounting_op\<close> of \<^verbatim>\<open>AccountingInv\<close>; that applying such an operation keeps the
  invariant of the decision maker is proved once there and interpreted for each of them.
\<close>

section \<open>State\<close>

record DecisionMaker =
  dm_requestId :: int
  dm_lastRequestTime :: int
  dm_pkgMap :: "(pkg_key \<times> PkgDelaySuspendInfo) list"
  dm_bgDuration :: "(pkg_key \<times> int) list"
  dm_foreground :: "(int \<times> int set) list"
  dm_calls :: "call list"

abbreviation (input) initRequestId :: int where "initRequestId \<equiv> 1"

definition new_DecisionMaker :: DecisionMaker where
  "new_DecisionMaker =
     \<lparr>dm_requestId = initRequestId, dm_lastRequestTime = 0, dm_pkgMap = [], dm_bgDuration = [],
      dm_foreground = [], dm_calls = []\<rparr>"

text \<open>Store the result of an operation on one package and the calls it made.\<close>

definition dm_store :: "pkg_key \<Rightarrow> PkgDelaySuspendInfo \<times> call list \<Rightarrow> DecisionMaker \<Rightarrow> DecisionMaker" where
  "dm_store k r dm =
     dm\<lparr>dm_pkgMap := om_put k (fst r) (dm_pkgMap dm), dm_calls := dm_calls dm @ snd r\<rparr>"

definition emit :: "call list \<Rightarrow> DecisionMaker \<Rightarrow> DecisionMaker" where
  "emit cs dm = dm\<lparr>dm_calls := dm_calls dm @ cs\<rparr>"

section \<open>Operations\<close>

definition UpdateForegroundUidPidMap :: "int \<Rightarrow> int \<Rightarrow> bool \<Rightarrow> DecisionMaker \<Rightarrow> DecisionMaker" where
  "UpdateForegroundUidPidMap uid pid isForeground dm =
     (let pids = (case map_of (dm_foreground dm) uid of None \<Rightarrow> {} | Some s \<Rightarrow> s) in
      if isForeground
      then dm\<lparr>dm_foreground := om_put uid (insert pid pids) (dm_foreground dm)\<rparr>
      else if pids - {pid} = {} then dm\<lparr>dm_foreground := om_del uid (dm_foreground dm)\<rparr>
      else dm\<lparr>dm_foreground := om_put uid (pids - {pid}) (dm_foreground dm)\<rparr>)"

definition IsUidForeground :: "DecisionMaker \<Rightarrow> int \<Rightarrow> bool" where
  "IsUidForeground dm uid \<longleftrightarrow> map_of (dm_foreground dm) uid \<noteq> None"

definition CanStartAccountingLocked ::
    "DeviceInfoManager \<Rightarrow> DecisionMaker \<Rightarrow> PkgDelaySuspendInfo \<Rightarrow> bool" where
  "CanStartAccountingLocked dev dm p =
     (if \<not> di_isScreenOn dev then True else \<not> IsUidForeground dm (pdi_uid p))"

definition TryStartAccounting ::
    "env \<Rightarrow> DeviceInfoManager \<Rightarrow> int \<Rightarrow> string \<Rightarrow> DecisionMaker \<Rightarrow> ErrCode \<times> DecisionMaker" where
  "TryStartAccounting e dev uid bundleName dm =
     (case map_of (dm_pkgMap dm) (PkgKey bundleName uid) of
        None \<Rightarrow> (ERR_BGTASK_NOREQUEST_TASK, dm)
      | Some p \<Rightarrow>
          if CanStartAccountingLocked dev dm p
          then (ERR_OK, dm_store (PkgKey bundleName uid) (pdi_StartAccounting e (-1) p) dm)
          else (ERR_BGTASK_FOREGROUND, dm))"

text \<open>The time of entering the background is stored in an \<^verbatim>\<open>int32_t\<close>.\<close>

definition HandleStateChange ::
    "env \<Rightarrow> DeviceInfoManager \<Rightarrow> string \<Rightarrow> int \<Rightarrow> bool \<Rightarrow> bool \<Rightarrow> DecisionMaker \<Rightarrow> DecisionMaker" where
  "HandleStateChange e dev bundleName uid isForeground isBackground dm =
     (let key = PkgKey bundleName uid in
      if isForeground then
        (let dm1 = (case map_of (dm_pkgMap dm) key of
                      None \<Rightarrow> dm
                    | Some p \<Rightarrow> dm_store key (StopAccountingAll e p) dm)
         in dm1\<lparr>dm_bgDuration := om_del key (dm_bgDuration dm1)\<rparr>)
      else if isBackground then
        (case map_of (dm_pkgMap dm) key of
           None \<Rightarrow> dm
         | Some p \<Rightarrow>
             if CanStartAccountingLocked dev dm p
             then (let dm1 = dm_store key (pdi_StartAccounting e (-1) p) dm
                   in dm1\<lparr>dm_bgDuration := om_put key (i32 (e_now e)) (dm_bgDuration dm1)\<rparr>)
             else dm)
      else dm)"

text \<open>The states of \<^verbatim>\<open>AppProcessState\<close> that the code distinguishes.\<close>

datatype AppProcessState =
  APP_STATE_FOREGROUND | APP_STATE_FOCUS | APP_STATE_BACKGROUND | APP_STATE_OTHER

definition OnProcessStateChanged ::
    "env \<Rightarrow> DeviceInfoManager \<Rightarrow> string \<Rightarrow> int \<Rightarrow> int \<Rightarrow> AppProcessState \<Rightarrow> DecisionMaker \<Rightarrow> DecisionMaker" where
  "OnProcessStateChanged e dev bundleName uid pid st dm =
     (let isForeground = (st = APP_STATE_FOREGROUND \<or> st = APP_STATE_FOCUS);
          isBackground = (st = APP_STATE_BACKGROUND);
          dm1 = UpdateForegroundUidPidMap uid pid isForeground dm
      in if isForeground \<or> isBackground
         then HandleStateChange e dev bundleName uid isForeground isBackground dm1
         else dm1)"

definition OnProcessDied ::
    "env \<Rightarrow> DeviceInfoManager \<Rightarrow> string \<Rightarrow> int \<Rightarrow> int \<Rightarrow> DecisionMaker \<Rightarrow> DecisionMaker" where
  "OnProcessDied e dev bundleName uid pid dm =
     snd (TryStartAccounting e dev uid bundleName (UpdateForegroundUidPidMap uid pid False dm))"

definition GetAllowRequestTime :: "env \<Rightarrow> int" where
  "GetAllowRequestTime e = (case e_dozeTime e of Some t \<Rightarrow> t | None \<Rightarrow> ALLOW_REQUEST_TIME_BG)"

definition CheckQuotaTime ::
    "env \<Rightarrow> string \<Rightarrow> PkgDelaySuspendInfo \<Rightarrow> ErrCode \<times> bool \<times> PkgDelaySuspendInfo" where
  "CheckQuotaTime e name p =
     (let (ret, p1) = IsAllowRequest e p in
      if ret = ERR_BGTASK_TIME_INSUFFICIENT
      then (if e_exempted e name then (ERR_OK, True, p1) else (ERR_BGTASK_TIME_INSUFFICIENT, False, p1))
      else if ret \<noteq> ERR_OK then (ret, False, p1)
      else (ERR_OK, False, p1))"

definition GetDelayTime :: "env \<Rightarrow> DeviceInfoManager \<Rightarrow> int" where
  "GetDelayTime e dev = (if di_isLowPowerMode dev then DELAY_TIME_LOW_POWER else e_delayTimeNormal e)"

definition NewDelaySuspendRequestId :: "DecisionMaker \<Rightarrow> int \<times> DecisionMaker" where
  "NewDelaySuspendRequestId dm =
     (let r = (if dm_requestId dm = INT_MAX then initRequestId else dm_requestId dm)
      in (r, dm\<lparr>dm_requestId := r + 1\<rparr>))"

definition IsAfterOneDay :: "env \<Rightarrow> int \<Rightarrow> int \<Rightarrow> bool" where
  "IsAfterOneDay e lastRequestTime currentTime \<longleftrightarrow> currentTime - lastRequestTime > e_quotaUpdate e"

fun reset_quota_loop :: "env \<Rightarrow> (pkg_key \<times> PkgDelaySuspendInfo) list \<Rightarrow> (pkg_key \<times> PkgDelaySuspendInfo) list" where
  "reset_quota_loop e [] = []"
| "reset_quota_loop e ((k, p) # m) =
     (if pdi_requestList p = [] then reset_quota_loop e m
      else (k, UpdateQuota e True p) # reset_quota_loop e m)"

definition ResetDayQuotaLocked :: "env \<Rightarrow> DecisionMaker \<Rightarrow> DecisionMaker" where
  "ResetDayQuotaLocked e dm =
     (if \<not> IsAfterOneDay e (dm_lastRequestTime dm) (e_now e) then dm
      else dm\<lparr>dm_pkgMap := reset_quota_loop e (dm_pkgMap dm), dm_lastRequestTime := e_now e\<rparr>)"

definition app_info :: "string \<Rightarrow> int \<Rightarrow> int \<Rightarrow> TransientTaskAppInfo" where
  "app_info name uid pid = \<lparr>ta_packageName = name, ta_uid = uid, ta_pid = pid\<rparr>"

text \<open>Entered the background longer ago than requests are allowed for.\<close>

definition background_too_long :: "env \<Rightarrow> pkg_key \<Rightarrow> DecisionMaker \<Rightarrow> bool" where
  "background_too_long e k dm =
     (case map_of (dm_bgDuration dm) k of
        None \<Rightarrow> False
      | Some t \<Rightarrow> e_now e - t > GetAllowRequestTime e)"

text \<open>
  \<^verbatim>\<open>Decide\<close> returns the error code, the request as granted (id and delay) and the new state.
\<close>

definition Decide ::
    "env \<Rightarrow> DeviceInfoManager \<Rightarrow> KeyInfo option \<Rightarrow> DelaySuspendInfoEx option \<Rightarrow> DecisionMaker \<Rightarrow>
     ErrCode \<times> DelaySuspendInfoEx option \<times> DecisionMaker" where
  "Decide e dev key delayInfo dm =
     (case (key, delayInfo) of
        (Some k, Some d) \<Rightarrow>
          (let dm1 = ResetDayQuotaLocked e dm in
           if background_too_long e (key_of k) dm1
           then (ERR_BGTASK_NOT_IN_PRESET_TIME, delayInfo, dm1)
           else
             let name = ki_pkg k;
                 uid = ki_uid k;
                 p0 = (case map_of (dm_pkgMap dm1) (key_of k) of
                         None \<Rightarrow> new_PkgDelaySuspendInfo e name uid
                       | Some p \<Rightarrow> p);
                 (ret, needSetTime, p1) = CheckQuotaTime e name p0;
                 dm2 = dm_store (key_of k) (p1, []) dm1
             in if ret \<noteq> ERR_OK then (ret, delayInfo, dm2)
                else
                  let (rid, dm3) = NewDelaySuspendRequestId dm2;
                      (d1, p2) = AddRequest e (d\<lparr>dsi_requestId := rid\<rparr>) (GetDelayTime e dev) needSetTime p1;
                      dm4 = emit [NotifySubscribers TASK_START (app_info name uid (ki_pid k))]
                              (dm_store (key_of k) (p2, []) dm3);
                      dm5 = (if length (pdi_requestList p2) = 1
                             then emit [NotifySubscribers APP_TASK_START (app_info name uid (-1))] dm4
                             else dm4);
                      dm6 = (if CanStartAccountingLocked dev dm5 p2
                             then dm_store (key_of k) (pdi_StartAccounting e rid p2) dm5
                             else dm5)
                  in (ERR_OK, Some d1, dm6))
      | _ \<Rightarrow> (ERR_BGTASK_NO_MEMORY, delayInfo, dm))"

definition dm_PauseTransientTaskTimeForInner ::
    "env \<Rightarrow> int \<Rightarrow> string \<Rightarrow> DecisionMaker \<Rightarrow> ErrCode \<times> DecisionMaker" where
  "dm_PauseTransientTaskTimeForInner e uid name dm =
     (if IsUidForeground dm uid then (ERR_BGTASK_FOREGROUND, dm)
      else case map_of (dm_pkgMap dm) (PkgKey name uid) of
             None \<Rightarrow> (ERR_BGTASK_NOREQUEST_TASK, dm)
           | Some p \<Rightarrow> (ERR_OK, dm_store (PkgKey name uid) (StopAccountingAll e p) dm))"

definition dm_StartTransientTaskTimeForInner ::
    "env \<Rightarrow> DeviceInfoManager \<Rightarrow> int \<Rightarrow> string \<Rightarrow> DecisionMaker \<Rightarrow> ErrCode \<times> DecisionMaker" where
  "dm_StartTransientTaskTimeForInner e dev uid name dm =
     (if IsUidForeground dm uid then (ERR_BGTASK_FOREGROUND, dm)
      else let (ret, dm1) = TryStartAccounting e dev uid name dm
           in if ret \<noteq> ERR_OK then (ret, dm1) else (ERR_OK, dm1))"

definition dm_RemoveRequest :: "env \<Rightarrow> KeyInfo option \<Rightarrow> int \<Rightarrow> DecisionMaker \<Rightarrow> DecisionMaker" where
  "dm_RemoveRequest e key rid dm =
     (case key of
        None \<Rightarrow> dm
      | Some k \<Rightarrow>
          (case map_of (dm_pkgMap dm) (key_of k) of
             None \<Rightarrow> dm
           | Some p \<Rightarrow>
               (let r = pdi_RemoveRequest e rid p;
                    dm1 = emit [NotifySubscribers TASK_END (app_info (ki_pkg k) (ki_uid k) (ki_pid k))]
                            (dm_store (key_of k) r dm)
                in if pdi_requestList (fst r) = []
                   then emit [NotifySubscribers APP_TASK_END (app_info (ki_pkg k) (ki_uid k) (-1))] dm1
                   else dm1)))"

definition dm_GetRemainingDelayTime :: "env \<Rightarrow> KeyInfo option \<Rightarrow> int \<Rightarrow> DecisionMaker \<Rightarrow> int" where
  "dm_GetRemainingDelayTime e key rid dm =
     (case key of
        None \<Rightarrow> -1
      | Some k \<Rightarrow> (case map_of (dm_pkgMap dm) (key_of k) of
                    None \<Rightarrow> -1
                  | Some p \<Rightarrow> pdi_GetRemainDelayTime (e_now e) rid p))"

definition GetRequestIdListByKey :: "KeyInfo option \<Rightarrow> DecisionMaker \<Rightarrow> int list" where
  "GetRequestIdListByKey key dm =
     (case key of
        None \<Rightarrow> []
      | Some k \<Rightarrow> (case map_of (dm_pkgMap dm) (key_of k) of
                    None \<Rightarrow> []
                  | Some p \<Rightarrow> map dsi_requestId (pdi_requestList p)))"

definition GetQuota :: "env \<Rightarrow> KeyInfo option \<Rightarrow> DecisionMaker \<Rightarrow> int \<times> DecisionMaker" where
  "GetQuota e key dm =
     (case key of
        None \<Rightarrow> (-1, dm)
      | Some k \<Rightarrow> (case map_of (dm_pkgMap dm) (key_of k) of
                    None \<Rightarrow> (e_initQuota e, dm)
                  | Some p \<Rightarrow> (let p1 = UpdateQuota e False p
                              in (pdi_quota p1, dm_store (key_of k) (p1, []) dm))))"

definition IsFrontApp :: "env \<Rightarrow> string \<Rightarrow> int \<Rightarrow> bool" where
  "IsFrontApp e pkgName uid =
     (case e_foregroundApps e of
        None \<Rightarrow> False
      | Some apps \<Rightarrow> list_ex (\<lambda>(b, u). b = pkgName \<and> u = uid) apps)"

fun screen_on_loop :: "env \<Rightarrow> (string \<times> int) list \<Rightarrow> DecisionMaker \<Rightarrow> DecisionMaker" where
  "screen_on_loop e [] dm = dm"
| "screen_on_loop e ((b, u) # apps) dm =
     screen_on_loop e apps
       (case map_of (dm_pkgMap dm) (PkgKey b u) of
          None \<Rightarrow> dm
        | Some p \<Rightarrow> dm_store (PkgKey b u) (StopAccountingAll e p) dm)"

definition HandleScreenOn :: "env \<Rightarrow> DecisionMaker \<Rightarrow> DecisionMaker" where
  "HandleScreenOn e dm =
     (case e_foregroundApps e of None \<Rightarrow> dm | Some apps \<Rightarrow> screen_on_loop e apps dm)"

text \<open>The loop over the package map, key by key; uids that were paused are skipped.\<close>

fun screen_off_loop ::
    "env \<Rightarrow> DeviceInfoManager \<Rightarrow> int set \<Rightarrow> pkg_key list \<Rightarrow> DecisionMaker \<Rightarrow> DecisionMaker" where
  "screen_off_loop e dev paused [] dm = dm"
| "screen_off_loop e dev paused (k # ks) dm =
     screen_off_loop e dev paused ks
       (case map_of (dm_pkgMap dm) k of
          None \<Rightarrow> dm
        | Some p \<Rightarrow>
            if pdi_uid p \<in> paused then dm
            else if CanStartAccountingLocked dev dm p
                 then dm_store k (pdi_StartAccounting e (-1) p) dm
                 else dm)"

definition HandleScreenOff :: "env \<Rightarrow> DeviceInfoManager \<Rightarrow> int set \<Rightarrow> DecisionMaker \<Rightarrow> DecisionMaker" where
  "HandleScreenOff e dev paused dm = screen_off_loop e dev paused (map fst (dm_pkgMap dm)) dm"

definition dm_OnInputEvent ::
    "env \<Rightarrow> DeviceInfoManager \<Rightarrow> int set \<Rightarrow> EventInfo \<Rightarrow> DecisionMaker \<Rightarrow> DecisionMaker" where
  "dm_OnInputEvent e dev paused ev dm =
     (if ei_eventId ev = 0 then dm
      else if ei_eventId ev = EVENT_SCREEN_ON then HandleScreenOn e dm
      else if ei_eventId ev = EVENT_SCREEN_OFF then HandleScreenOff e dev paused dm
      else dm)"

section \<open>Views and invariant\<close>

text \<open>The outstanding requests, each with its package, and the requests being accounted.\<close>

definition requests :: "DecisionMaker \<Rightarrow> (pkg_key \<times> int) set" where
  "requests dm = {(k, i). \<exists>p. map_of (dm_pkgMap dm) k = Some p \<and> i \<in> set (ids p)}"

definition counting :: "DecisionMaker \<Rightarrow> int set" where
  "counting dm = {i. \<exists>k p. map_of (dm_pkgMap dm) k = Some p \<and> i \<in> counting_ids p}"

definition pkg_ok :: "int \<Rightarrow> pkg_key \<Rightarrow> PkgDelaySuspendInfo \<Rightarrow> bool" where
  "pkg_ok q k p \<longleftrightarrow> pdi_inv q p \<and> k = PkgKey (pdi_pkg p) (pdi_uid p)"

text \<open>
  Maps are well formed and every package record is; request ids are positive and handed out
  once; a pending timer belongs to a request being accounted; a request being accounted has a
  pending timer or watchdog.
\<close>

definition dm_wf :: "DecisionMaker \<Rightarrow> bool" where
  "dm_wf dm \<longleftrightarrow> om_wf (dm_pkgMap dm) \<and> om_wf (dm_bgDuration dm) \<and> om_wf (dm_foreground dm)"

definition ids_ok :: "DecisionMaker \<Rightarrow> bool" where
  "ids_ok dm \<longleftrightarrow> 1 \<le> dm_requestId dm \<and>
     (\<forall>k i. (k, i) \<in> requests dm \<longrightarrow> 1 \<le> i \<and> i < dm_requestId dm) \<and>
     (\<forall>k k' i. (k, i) \<in> requests dm \<longrightarrow> (k', i) \<in> requests dm \<longrightarrow> k = k')"

definition timers_ok :: "DecisionMaker \<Rightarrow> bool" where
  "timers_ok dm \<longleftrightarrow> (\<forall>i. timer_armed (dm_calls dm) i \<longrightarrow> i \<in> counting dm)"

definition guarded :: "DecisionMaker \<Rightarrow> bool" where
  "guarded dm \<longleftrightarrow>
     (\<forall>i \<in> counting dm. timer_armed (dm_calls dm) i \<or> watchdog_armed (dm_calls dm) i)"

definition pkgs_ok :: "int \<Rightarrow> DecisionMaker \<Rightarrow> bool" where
  "pkgs_ok q dm \<longleftrightarrow> (\<forall>k p. map_of (dm_pkgMap dm) k = Some p \<longrightarrow> pkg_ok q k p)"

definition dm_inv :: "int \<Rightarrow> DecisionMaker \<Rightarrow> bool" where
  "dm_inv q dm \<longleftrightarrow> dm_wf dm \<and> pkgs_ok q dm \<and> ids_ok dm \<and> timers_ok dm \<and> guarded dm"

end
