(* ===== verification/CxxStrings.thy ===== *)
theory CxxStrings
  imports Prelude
begin

text \<open>
  The conversions between integers and decimal text that the sources use. Reading back what was
  printed yields the number again.
\<close>

section \<open>Conversions\<close>

text \<open>
  \<^verbatim>\<open>std::to_string\<close>, and \<^verbatim>\<open>std::atoi\<close>: leading white space is skipped, one sign is read, digits
  up to the first other character make the value. A value out of range is undefined in C; here it
  wraps.
\<close>

fun show_nat :: "nat \<Rightarrow> string" where
  "show_nat n = (if n < 10 then [char_of (48 + n)] else show_nat (n div 10) @ [char_of (48 + n mod 10)])"

declare show_nat.simps [simp del]

definition to_string :: "int \<Rightarrow> string" where
  "to_string n = (if n < 0 then CHR ''-'' # show_nat (nat (- n)) else show_nat (nat n))"

definition is_digit :: "char \<Rightarrow> bool" where
  "is_digit c \<longleftrightarrow> 48 \<le> (of_char c :: nat) \<and> (of_char c :: nat) \<le> 57"

fun digits_value :: "int \<Rightarrow> string \<Rightarrow> int" where
  "digits_value acc [] = acc"
| "digits_value acc (c # cs) =
     (if is_digit c then digits_value (acc * 10 + (int (of_char c) - 48)) cs else acc)"

definition is_space :: "char \<Rightarrow> bool" where
  "is_space c \<longleftrightarrow> (of_char c :: nat) = 32 \<or> (9 \<le> (of_char c :: nat) \<and> (of_char c :: nat) \<le> 13)"

definition atoi :: "string \<Rightarrow> int" where
  "atoi s =
     (case dropWhile is_space s of
        [] \<Rightarrow> 0
      | c # cs \<Rightarrow>
          if c = CHR ''-'' then i32 (- digits_value 0 cs)
          else if c = CHR ''+'' then i32 (digits_value 0 cs)
          else i32 (digits_value 0 (c # cs)))"

section \<open>Round trip\<close>

lemma digit_char: "n < 10 \<Longrightarrow> is_digit (char_of (48 + n)) \<and> (of_char (char_of (48 + n) :: char) :: nat) = 48 + n"
  by (simp add: is_digit_def of_char_of)

lemma digits_value_append:
  "list_all is_digit xs \<Longrightarrow> digits_value acc (xs @ ys) = digits_value (digits_value acc xs) ys"
  by (induction xs arbitrary: acc) auto

lemma show_nat_digits: "list_all is_digit (show_nat n)"
proof (induction n rule: show_nat.induct)
  case (1 n)
  then show ?case using digit_char by (subst show_nat.simps) auto
qed

lemma show_nat_nonempty: "show_nat n \<noteq> []"
  by (subst show_nat.simps) simp

lemma digits_value_show: "\<exists>k. \<forall>acc. digits_value acc (show_nat n) = acc * k + int n"
proof (induction n rule: show_nat.induct)
  case (1 n)
  show ?case
  proof (cases "n < 10")
    case True
    then show ?thesis using digit_char by (subst show_nat.simps) auto
  next
    case False
    with 1 obtain k where k: "\<And>acc. digits_value acc (show_nat (n div 10)) = acc * k + int (n div 10)"
      by blast
    have "digits_value acc (show_nat n) = acc * (k * 10) + int n" for acc
    proof -
      have "digits_value acc (show_nat n) = (acc * k + int (n div 10)) * 10 + int (n mod 10)"
        using False digit_char [of "n mod 10"]
        by (subst show_nat.simps) (simp add: digits_value_append show_nat_digits k)
      moreover have "int n = int (n div 10) * 10 + int (n mod 10)"
        by (metis div_mult_mod_eq of_nat_add of_nat_mult of_nat_numeral)
      ultimately show ?thesis by (simp add: algebra_simps)
    qed
    then show ?thesis by blast
  qed
qed

lemma digits_value_zero: "digits_value 0 (show_nat n) = int n"
  using digits_value_show [of n] by auto

lemma is_digit_facts: "is_digit c \<Longrightarrow> \<not> is_space c \<and> c \<noteq> CHR ''-'' \<and> c \<noteq> CHR ''+''"
  by (auto simp: is_digit_def is_space_def)

lemma atoi_to_string [simp]:
  assumes "is_i32 n"
  shows "atoi (to_string n) = n"
proof (cases "n < 0")
  case True
  have "\<not> is_space (CHR ''-'')" by (simp add: is_space_def)
  with True assms show ?thesis by (simp add: to_string_def atoi_def digits_value_zero)
next
  case False
  obtain c cs where show_cs: "show_nat (nat n) = c # cs" by (cases "show_nat (nat n)") (auto simp: show_nat_nonempty)
  have "is_digit c" using show_nat_digits [of "nat n"] show_cs by simp
  with is_digit_facts [of c] False assms digits_value_zero [of "nat n"] show ?thesis
    by (simp add: to_string_def atoi_def show_cs)
qed

end
