(* ===== verification/BgTransientTaskMgr.thy ===== *)
theory BgTransientTaskMgr
  imports DecisionMaker CxxStrings
begin

text \<open>
  \<^verbatim>\<open>services/transient_task/src/bg_transient_task_mgr.cpp\<close>, the service object behind the
  transient task interface, with the event handlers \<^verbatim>\<open>timer_manager.cpp\<close>, \<^verbatim>\<open>watchdog.cpp\<close> and
  the dispatch of \<^verbatim>\<open>input_manager.cpp\<close> that call into it. A remote object is a number; a callback
  or subscriber argument is \<open>None\<close> when the pointer is null and \<open>Some None\<close> when it has no remote
  object behind it. Out parameters are results; \<open>None\<close> means that the code left one unwritten.
\<close>

section \<open>State\<close>

record BgTransientTaskMgr =
  tm_isReady :: bool
  tm_handler :: bool
  tm_deathRecipients :: bool
  tm_expiredCallbackMap :: "(int \<times> remote) list"
  tm_keyInfoMap :: "(int \<times> KeyInfo) list"
  tm_subscriberList :: "remote list"
  tm_transientPauseUid :: "int set"
  tm_listenerList :: "listener list"
  tm_deviceInfoManeger :: DeviceInfoManager
  tm_decisionMaker :: DecisionMaker

definition new_BgTransientTaskMgr :: BgTransientTaskMgr where
  "new_BgTransientTaskMgr =
     \<lparr>tm_isReady = False, tm_handler = False, tm_deathRecipients = False, tm_expiredCallbackMap = [],
      tm_keyInfoMap = [], tm_subscriberList = [], tm_transientPauseUid = {}, tm_listenerList = [],
      tm_deviceInfoManeger = new_DeviceInfoManager, tm_decisionMaker = new_DecisionMaker\<rparr>"

definition tm_emit :: "call list \<Rightarrow> BgTransientTaskMgr \<Rightarrow> BgTransientTaskMgr" where
  "tm_emit cs m = m\<lparr>tm_decisionMaker := emit cs (tm_decisionMaker m)\<rparr>"

abbreviation tm_calls :: "BgTransientTaskMgr \<Rightarrow> call list" where
  "tm_calls m \<equiv> dm_calls (tm_decisionMaker m)"

section \<open>Initialisation\<close>

datatype system_ability =
    APP_MGR_SERVICE_ID | COMMON_EVENT_SERVICE_ID | BUNDLE_MGR_SERVICE_SYS_ABILITY_ID
  | RES_SCHED_SYS_ABILITY_ID | SUSPEND_MANAGER_SYSTEM_ABILITY_ID | OTHER_SYSTEM_ABILITY int

datatype init_effect = PostInitNecessaryState int | SetReadyTransient | NoInitEffect

abbreviation (input) SERVICE_WAIT_TIME :: int where "SERVICE_WAIT_TIME \<equiv> 2000"

text \<open>
  \<open>abilities\<close> is the system ability manager, \<open>None\<close> when it cannot be reached. The components
  are made anew, so their event queues start empty.
\<close>

definition InitNecessaryState ::
    "(system_ability \<Rightarrow> bool) option \<Rightarrow> BgTransientTaskMgr \<Rightarrow> init_effect \<times> BgTransientTaskMgr" where
  "InitNecessaryState abilities m =
     (case abilities of
        None \<Rightarrow> (PostInitNecessaryState SERVICE_WAIT_TIME, m\<lparr>tm_isReady := False\<rparr>)
      | Some up \<Rightarrow>
          if \<not> up APP_MGR_SERVICE_ID \<or> \<not> up COMMON_EVENT_SERVICE_ID \<or>
             \<not> up BUNDLE_MGR_SERVICE_SYS_ABILITY_ID \<or> \<not> up RES_SCHED_SYS_ABILITY_ID
          then (PostInitNecessaryState SERVICE_WAIT_TIME, m\<lparr>tm_isReady := False\<rparr>)
          else (SetReadyTransient,
                m\<lparr>tm_deviceInfoManeger := new_DeviceInfoManager,
                  tm_decisionMaker := new_DecisionMaker,
                  tm_listenerList := RegisterEventListener (Some ListenDecisionMaker)
                                       (RegisterEventListener (Some ListenDeviceInfo) []),
                  tm_isReady := True\<rparr>))"

definition tm_Init ::
    "bool \<Rightarrow> (system_ability \<Rightarrow> bool) option \<Rightarrow> BgTransientTaskMgr \<Rightarrow> init_effect \<times> BgTransientTaskMgr" where
  "tm_Init runner abilities m =
     (if \<not> runner then (NoInitEffect, m)
      else InitNecessaryState abilities (m\<lparr>tm_handler := True, tm_deathRecipients := True\<rparr>))"

section \<open>Requests\<close>

definition VerifyCallingInfo :: "int \<Rightarrow> int \<Rightarrow> bool" where
  "VerifyCallingInfo uid pid \<longleftrightarrow> uid \<ge> 0 \<and> pid \<ge> 0"

definition GetBundleNamesForUid :: "env \<Rightarrow> int \<Rightarrow> string option" where
  "GetBundleNamesForUid e uid = e_nameForUid e uid"

definition IsCallingInfoLegal :: "env \<Rightarrow> int \<Rightarrow> int \<Rightarrow> remote option option \<Rightarrow> ErrCode \<times> string" where
  "IsCallingInfoLegal e uid pid callback =
     (if \<not> VerifyCallingInfo uid pid then (ERR_BGTASK_INVALID_PID_OR_UID, '''')
      else case GetBundleNamesForUid e uid of
             None \<Rightarrow> (ERR_BGTASK_INVALID_BUNDLE_NAME, '''')
           | Some name \<Rightarrow>
               (case callback of
                  None \<Rightarrow> (ERR_BGTASK_INVALID_CALLBACK, name)
                | Some None \<Rightarrow> (ERR_BGTASK_INVALID_CALLBACK, name)
                | Some (Some _) \<Rightarrow> (ERR_OK, name)))"

definition RequestSuspendDelay ::
    "env \<Rightarrow> remote option option \<Rightarrow> BgTransientTaskMgr \<Rightarrow>
     ErrCode \<times> DelaySuspendInfoEx option \<times> BgTransientTaskMgr" where
  "RequestSuspendDelay e callback m =
     (if \<not> tm_isReady m then (ERR_BGTASK_SYS_NOT_READY, None, m)
      else
        let uid = e_callingUid e;
            pid = e_callingPid e;
            (ret, name) = IsCallingInfoLegal e uid pid callback
        in if ret \<noteq> ERR_OK then (ret, None, m)
           else case callback of
             Some (Some remote) \<Rightarrow>
               (let infoEx = new_DelaySuspendInfoEx pid in
                if list_ex (\<lambda>(_, r). r = remote) (tm_expiredCallbackMap m)
                then (ERR_BGTASK_CALLBACK_EXISTS, Some infoEx, m)
                else
                  let keyInfo = \<lparr>ki_pkg = name, ki_uid = uid, ki_pid = pid\<rparr>;
                      (ret1, info, dm) =
                        Decide e (tm_deviceInfoManeger m) (Some keyInfo) (Some infoEx) (tm_decisionMaker m);
                      m1 = m\<lparr>tm_decisionMaker := dm\<rparr>
                  in if ret1 \<noteq> ERR_OK then (ret1, info, m1)
                     else case info of
                       Some granted \<Rightarrow>
                         (let m2 = m1\<lparr>tm_expiredCallbackMap :=
                                        om_put (dsi_requestId granted) remote (tm_expiredCallbackMap m1),
                                      tm_keyInfoMap :=
                                        om_put (dsi_requestId granted) keyInfo (tm_keyInfoMap m1)\<rparr>
                          in (ERR_OK, info,
                              if tm_deathRecipients m2 then tm_emit [AddDeathRecipient remote] m2 else m2))
                     | None \<Rightarrow> (ERR_OK, None, m1))
           | _ \<Rightarrow> (ret, None, m))"

definition VerifyRequestIdLocked :: "BgTransientTaskMgr \<Rightarrow> string \<Rightarrow> int \<Rightarrow> int \<Rightarrow> bool" where
  "VerifyRequestIdLocked m name uid requestId =
     (case map_of (tm_keyInfoMap m) requestId of
        None \<Rightarrow> False
      | Some k \<Rightarrow> IsEqual k name uid)"

text \<open>
  Reading the table under an id it lacks inserts a null key, which \<^verbatim>\<open>RemoveRequest\<close> ignores and
  the next line erases.
\<close>

definition CancelSuspendDelayLocked ::
    "env \<Rightarrow> int \<Rightarrow> BgTransientTaskMgr \<Rightarrow> ErrCode \<times> BgTransientTaskMgr" where
  "CancelSuspendDelayLocked e requestId m =
     (let m1 = tm_emit [RemoveWatchdog requestId] m;
          m2 = m1\<lparr>tm_decisionMaker :=
                    dm_RemoveRequest e (map_of (tm_keyInfoMap m1) requestId) requestId (tm_decisionMaker m1)\<rparr>;
          m3 = m2\<lparr>tm_keyInfoMap := om_del requestId (tm_keyInfoMap m2)\<rparr>
      in case map_of (tm_expiredCallbackMap m3) requestId of
           None \<Rightarrow> (ERR_BGTASK_CALLBACK_NOT_EXIST, m3)
         | Some remote \<Rightarrow>
             (ERR_OK,
              (tm_emit [RemoveDeathRecipient remote] m3)
                \<lparr>tm_expiredCallbackMap := om_del requestId (tm_expiredCallbackMap m3)\<rparr>))"

definition CancelSuspendDelay ::
    "env \<Rightarrow> int \<Rightarrow> BgTransientTaskMgr \<Rightarrow> ErrCode \<times> BgTransientTaskMgr" where
  "CancelSuspendDelay e requestId m =
     (if \<not> tm_isReady m then (ERR_BGTASK_SYS_NOT_READY, m)
      else if \<not> VerifyCallingInfo (e_callingUid e) (e_callingPid e) then (ERR_BGTASK_INVALID_PID_OR_UID, m)
      else case GetBundleNamesForUid e (e_callingUid e) of
             None \<Rightarrow> (ERR_BGTASK_SERVICE_INNER_ERROR, m)
           | Some name \<Rightarrow>
               if \<not> VerifyRequestIdLocked m name (e_callingUid e) requestId
               then (ERR_BGTASK_INVALID_REQUEST_ID, m)
               else CancelSuspendDelayLocked e requestId m)"

definition ForceCancelSuspendDelay :: "env \<Rightarrow> int \<Rightarrow> BgTransientTaskMgr \<Rightarrow> BgTransientTaskMgr" where
  "ForceCancelSuspendDelay e requestId m =
     (case map_of (tm_keyInfoMap m) requestId of
        None \<Rightarrow> m
      | Some _ \<Rightarrow> snd (CancelSuspendDelayLocked e requestId m))"

abbreviation (input) BG_INVALID_REMAIN_TIME :: int where "BG_INVALID_REMAIN_TIME \<equiv> -1"

definition tm_GetRemainingDelayTime :: "env \<Rightarrow> int \<Rightarrow> BgTransientTaskMgr \<Rightarrow> ErrCode \<times> int option" where
  "tm_GetRemainingDelayTime e requestId m =
     (if \<not> tm_isReady m then (ERR_BGTASK_SYS_NOT_READY, None)
      else if \<not> VerifyCallingInfo (e_callingUid e) (e_callingPid e)
      then (ERR_BGTASK_INVALID_PID_OR_UID, Some BG_INVALID_REMAIN_TIME)
      else case GetBundleNamesForUid e (e_callingUid e) of
             None \<Rightarrow> (ERR_BGTASK_SERVICE_INNER_ERROR, Some BG_INVALID_REMAIN_TIME)
           | Some name \<Rightarrow>
               if \<not> VerifyRequestIdLocked m name (e_callingUid e) requestId
               then (ERR_BGTASK_INVALID_REQUEST_ID, Some BG_INVALID_REMAIN_TIME)
               else (ERR_OK,
                     Some (dm_GetRemainingDelayTime e (map_of (tm_keyInfoMap m) requestId) requestId
                             (tm_decisionMaker m))))"

text \<open>The tasks of the caller, each as its id and remaining time, in the order of the table.\<close>

fun transient_task_list ::
    "env \<Rightarrow> string \<Rightarrow> int \<Rightarrow> DecisionMaker \<Rightarrow> (int \<times> KeyInfo) list \<Rightarrow> (int \<times> int) list" where
  "transient_task_list e name uid dm [] = []"
| "transient_task_list e name uid dm ((i, k) # table) =
     (if ki_pkg k \<noteq> name \<or> ki_uid k \<noteq> uid then transient_task_list e name uid dm table
      else (i, dm_GetRemainingDelayTime e (Some k) i dm) # transient_task_list e name uid dm table)"

definition GetAllTransientTasks ::
    "env \<Rightarrow> BgTransientTaskMgr \<Rightarrow> ErrCode \<times> int option \<times> (int \<times> int) list \<times> BgTransientTaskMgr" where
  "GetAllTransientTasks e m =
     (if \<not> tm_isReady m then (ERR_BGTASK_TRANSIENT_SYS_NOT_READY, None, [], m)
      else if \<not> VerifyCallingInfo (e_callingUid e) (e_callingPid e)
      then (ERR_BGTASK_INVALID_PID_OR_UID, None, [], m)
      else case GetBundleNamesForUid e (e_callingUid e) of
             None \<Rightarrow> (ERR_BGTASK_SERVICE_INNER_ERROR, None, [], m)
           | Some name \<Rightarrow>
               (let key = \<lparr>ki_pkg = name, ki_uid = e_callingUid e, ki_pid = e_callingPid e\<rparr>;
                    (quota, dm) = GetQuota e (Some key) (tm_decisionMaker m);
                    m1 = m\<lparr>tm_decisionMaker := dm\<rparr>
                in (ERR_OK, Some quota,
                    transient_task_list e name (e_callingUid e) dm (tm_keyInfoMap m1), m1)))"

section \<open>Accounting on behalf of the suspend manager\<close>

definition CheckProcessName :: "env \<Rightarrow> bool" where
  "CheckProcessName e \<longleftrightarrow> e_processName e \<in> {''resource_schedule_service'', ''hidumper_service''}"

definition tm_PauseTransientTaskTimeForInner ::
    "env \<Rightarrow> int \<Rightarrow> BgTransientTaskMgr \<Rightarrow> ErrCode \<times> BgTransientTaskMgr" where
  "tm_PauseTransientTaskTimeForInner e uid m =
     (if \<not> tm_isReady m then (ERR_BGTASK_SYS_NOT_READY, m)
      else if \<not> CheckProcessName e then (ERR_BGTASK_INVALID_PROCESS_NAME, m)
      else if uid < 0 then (ERR_BGTASK_INVALID_PID_OR_UID, m)
      else case GetBundleNamesForUid e uid of
             None \<Rightarrow> (ERR_BGTASK_SERVICE_INNER_ERROR, m)
           | Some name \<Rightarrow>
               (let (ret, dm) = dm_PauseTransientTaskTimeForInner e uid name (tm_decisionMaker m);
                    m1 = m\<lparr>tm_decisionMaker := dm\<rparr>
                in if ret \<noteq> ERR_OK then (ret, m1)
                   else (ERR_OK, m1\<lparr>tm_transientPauseUid := insert uid (tm_transientPauseUid m1)\<rparr>)))"

definition tm_StartTransientTaskTimeForInner ::
    "env \<Rightarrow> int \<Rightarrow> BgTransientTaskMgr \<Rightarrow> ErrCode \<times> BgTransientTaskMgr" where
  "tm_StartTransientTaskTimeForInner e uid m =
     (if \<not> tm_isReady m then (ERR_BGTASK_SYS_NOT_READY, m)
      else if \<not> CheckProcessName e then (ERR_BGTASK_INVALID_PROCESS_NAME, m)
      else if uid < 0 then (ERR_BGTASK_INVALID_PID_OR_UID, m)
      else case GetBundleNamesForUid e uid of
             None \<Rightarrow> (ERR_BGTASK_SERVICE_INNER_ERROR, m)
           | Some name \<Rightarrow>
               (let (ret, dm) = dm_StartTransientTaskTimeForInner e (tm_deviceInfoManeger m) uid name
                                  (tm_decisionMaker m);
                    m1 = m\<lparr>tm_decisionMaker := dm\<rparr>
                in if ret \<noteq> ERR_OK then (ret, m1)
                   else (ERR_OK, m1\<lparr>tm_transientPauseUid := tm_transientPauseUid m1 - {uid}\<rparr>)))"

fun restart_paused :: "env \<Rightarrow> DeviceInfoManager \<Rightarrow> int list \<Rightarrow> DecisionMaker \<Rightarrow> DecisionMaker" where
  "restart_paused e dev [] dm = dm"
| "restart_paused e dev (uid # uids) dm =
     restart_paused e dev uids
       (case GetBundleNamesForUid e uid of
          None \<Rightarrow> dm
        | Some name \<Rightarrow> snd (dm_StartTransientTaskTimeForInner e dev uid name dm))"

definition HandleSuspendManagerDie :: "env \<Rightarrow> BgTransientTaskMgr \<Rightarrow> BgTransientTaskMgr" where
  "HandleSuspendManagerDie e m =
     m\<lparr>tm_decisionMaker := restart_paused e (tm_deviceInfoManeger m)
                             (sorted_list_of_set (tm_transientPauseUid m)) (tm_decisionMaker m),
       tm_transientPauseUid := {}\<rparr>"

text \<open>The task is posted to the handler and runs on its own.\<close>

definition tm_OnRemoveSystemAbility :: "env \<Rightarrow> system_ability \<Rightarrow> BgTransientTaskMgr \<Rightarrow> BgTransientTaskMgr" where
  "tm_OnRemoveSystemAbility e sa m =
     (if \<not> tm_isReady m then m
      else case sa of
             SUSPEND_MANAGER_SYSTEM_ABILITY_ID \<Rightarrow> HandleSuspendManagerDie e m
           | _ \<Rightarrow> m)"

fun cancel_all :: "env \<Rightarrow> int list \<Rightarrow> BgTransientTaskMgr \<Rightarrow> BgTransientTaskMgr" where
  "cancel_all e [] m = m"
| "cancel_all e (i # is) m = cancel_all e is (snd (CancelSuspendDelayLocked e i m))"

definition OnAppCacheStateChanged :: "env \<Rightarrow> int \<Rightarrow> int \<Rightarrow> string \<Rightarrow> BgTransientTaskMgr \<Rightarrow> BgTransientTaskMgr" where
  "OnAppCacheStateChanged e uid pid bundleName m =
     (if \<not> tm_isReady m then m
      else if \<not> VerifyCallingInfo uid pid then m
      else let keyInfo = \<lparr>ki_pkg = bundleName, ki_uid = uid, ki_pid = pid\<rparr>;
               requestIdList = GetRequestIdListByKey (Some keyInfo) (tm_decisionMaker m)
           in if requestIdList = [] then m else cancel_all e requestIdList m)"

section \<open>Expiry, deaths and subscribers\<close>

definition HandleRequestExpired :: "int \<Rightarrow> BgTransientTaskMgr \<Rightarrow> BgTransientTaskMgr" where
  "HandleRequestExpired requestId m =
     (case map_of (tm_expiredCallbackMap m) requestId of
        None \<Rightarrow> m
      | Some callback \<Rightarrow>
          (let m1 = tm_emit [OnExpired callback] m in
           case map_of (tm_keyInfoMap m1) requestId of
             None \<Rightarrow> m1
           | Some keyInfo \<Rightarrow> tm_emit [AddWatchdog requestId keyInfo WATCHDOG_DELAY_TIME] m1))"

text \<open>
  The event handlers of the timer and of the watchdog; the event was taken from its queue. Of
  the events queued under one id only whether there are any matters: a delivered timer was
  the only one of its id, and a delivered watchdog removes the others with the request.
\<close>

definition TimerManager_ProcessEvent :: "int \<Rightarrow> BgTransientTaskMgr \<Rightarrow> BgTransientTaskMgr" where
  "TimerManager_ProcessEvent requestId m = HandleRequestExpired requestId (tm_emit [TimerFired requestId] m)"

definition Watchdog_ProcessEvent :: "env \<Rightarrow> int \<Rightarrow> BgTransientTaskMgr \<Rightarrow> BgTransientTaskMgr" where
  "Watchdog_ProcessEvent e requestId m =
     ForceCancelSuspendDelay e requestId (tm_emit [WatchdogFired requestId] m)"

definition HandleExpiredCallbackDeath ::
    "env \<Rightarrow> remote option \<Rightarrow> BgTransientTaskMgr \<Rightarrow> BgTransientTaskMgr" where
  "HandleExpiredCallbackDeath e rem m =
     (case rem of
        None \<Rightarrow> m
      | Some remote \<Rightarrow>
          (case find (\<lambda>(_, r). r = remote) (tm_expiredCallbackMap m) of
             None \<Rightarrow> m
           | Some (requestId, _) \<Rightarrow>
               (let m1 = tm_emit [RemoveWatchdog requestId] m;
                    m2 = m1\<lparr>tm_expiredCallbackMap := om_del requestId (tm_expiredCallbackMap m1)\<rparr>
                in case map_of (tm_keyInfoMap m2) requestId of
                     None \<Rightarrow> m2
                   | Some keyInfo \<Rightarrow>
                       m2\<lparr>tm_decisionMaker :=
                            dm_RemoveRequest e (Some keyInfo) requestId (tm_decisionMaker m2),
                          tm_keyInfoMap := om_del requestId (tm_keyInfoMap m2)\<rparr>)))"

definition tm_HandleSubscriberDeath :: "remote option \<Rightarrow> BgTransientTaskMgr \<Rightarrow> BgTransientTaskMgr" where
  "tm_HandleSubscriberDeath rem m =
     (case rem of
        None \<Rightarrow> m
      | Some remote \<Rightarrow> m\<lparr>tm_subscriberList := remove1 remote (tm_subscriberList m)\<rparr>)"

definition tm_SubscribeBackgroundTask ::
    "remote option option \<Rightarrow> BgTransientTaskMgr \<Rightarrow> ErrCode \<times> BgTransientTaskMgr" where
  "tm_SubscribeBackgroundTask subscriber m =
     (case subscriber of
        Some (Some remote) \<Rightarrow>
          if remote \<in> set (tm_subscriberList m) then (ERR_OK, m)
          else (let m1 = (if tm_deathRecipients m then tm_emit [AddDeathRecipient remote] m else m)
                in (ERR_OK, m1\<lparr>tm_subscriberList := tm_subscriberList m1 @ [remote]\<rparr>))
      | _ \<Rightarrow> (ERR_BGTASK_INVALID_PARAM, m))"

definition tm_UnsubscribeBackgroundTask ::
    "remote option option \<Rightarrow> BgTransientTaskMgr \<Rightarrow> ErrCode \<times> BgTransientTaskMgr" where
  "tm_UnsubscribeBackgroundTask subscriber m =
     (case subscriber of
        Some (Some remote) \<Rightarrow>
          if remote \<notin> set (tm_subscriberList m) then (ERR_OK, m)
          else (ERR_OK, (tm_emit [RemoveDeathRecipient remote] m)
                          \<lparr>tm_subscriberList := remove1 remote (tm_subscriberList m)\<rparr>)
      | _ \<Rightarrow> (ERR_BGTASK_INVALID_PARAM, m))"

text \<open>Who hears of an event, in order: the observer of the process, then every subscriber.\<close>

datatype notified = Observer | Subscriber remote

definition NotifyTransientTaskSuscriber ::
    "TransientTaskAppInfo option \<Rightarrow> TransientTaskEventType \<Rightarrow> BgTransientTaskMgr \<Rightarrow>
     (notified \<times> TransientTaskEventType \<times> TransientTaskAppInfo) list" where
  "NotifyTransientTaskSuscriber appInfo ty m =
     (case appInfo of
        None \<Rightarrow> []
      | Some a \<Rightarrow> (Observer, ty, a) # map (\<lambda>s. (Subscriber s, ty, a)) (tm_subscriberList m))"

definition HandleTransientTaskSuscriberTask ::
    "TransientTaskAppInfo option \<Rightarrow> TransientTaskEventType \<Rightarrow> BgTransientTaskMgr \<Rightarrow>
     (notified \<times> TransientTaskEventType \<times> TransientTaskAppInfo) list" where
  "HandleTransientTaskSuscriberTask appInfo ty m =
     (if \<not> tm_handler m then [] else NotifyTransientTaskSuscriber appInfo ty m)"

fun transient_apps_loop :: "(int \<times> KeyInfo) list \<Rightarrow> TransientTaskAppInfo list \<Rightarrow> TransientTaskAppInfo list" where
  "transient_apps_loop [] acc = acc"
| "transient_apps_loop ((_, k) # table) acc =
     (if list_ex (\<lambda>a. ki_pkg k = ta_packageName a \<and> ki_uid k = ta_uid a) acc
      then transient_apps_loop table acc
      else transient_apps_loop table (acc @ [app_info (ki_pkg k) (ki_uid k) (-1)]))"

definition GetTransientTaskApps ::
    "TransientTaskAppInfo list \<Rightarrow> BgTransientTaskMgr \<Rightarrow> ErrCode \<times> TransientTaskAppInfo list" where
  "GetTransientTaskApps acc m = (ERR_OK, transient_apps_loop (tm_keyInfoMap m) acc)"

section \<open>Configuration and dump commands\<close>

text \<open>The configuration is a singleton beside the manager; an exception of the parser leaves the call.\<close>

definition SetBgTaskConfig ::
    "(string \<Rightarrow> json option) \<Rightarrow> env \<Rightarrow> string \<Rightarrow> int \<Rightarrow> BgTransientTaskMgr \<Rightarrow> json_exn + (ErrCode \<times> BgtaskConfig)" where
  "SetBgTaskConfig parse e configData sourceType m =
     (if \<not> tm_isReady m then Inr (ERR_BGTASK_SYS_NOT_READY, e_config e)
      else if \<not> CheckProcessName e then Inr (ERR_BGTASK_INVALID_PROCESS_NAME, e_config e)
      else case AddExemptedQuatoData parse configData sourceType (e_config e) of
             Inl x \<Rightarrow> Inl x
           | Inr (addResult, c) \<Rightarrow> Inr (if addResult then ERR_OK else ERR_PARAM_NUMBER_ERR, c))"

definition dump_line :: "int \<Rightarrow> int \<Rightarrow> KeyInfo \<Rightarrow> int \<Rightarrow> int \<Rightarrow> string" where
  "dump_line index i k remain quota =
     ''No.'' @ to_string index @ ''\<newline>'' @
     [char_of (9::nat)] @ ''RequestId: '' @ to_string i @ ''\<newline>'' @
     [char_of (9::nat)] @ ''AppName: '' @ ki_pkg k @ ''\<newline>'' @
     [char_of (9::nat)] @ ''AppUid: '' @ to_string (ki_uid k) @ ''\<newline>'' @
     [char_of (9::nat)] @ ''AppPid: '' @ to_string (ki_pid k) @ ''\<newline>'' @
     [char_of (9::nat)] @ ''ActualDelayTime: '' @ to_string remain @ ''\<newline>'' @
     [char_of (9::nat)] @ ''RemainingQuota: '' @ to_string quota @ ''\<newline>'' @ ''\<newline>''"

text \<open>Reading the quota of a package settles it, so the loop changes the decision maker.\<close>

fun dump_loop ::
    "env \<Rightarrow> int \<Rightarrow> (int \<times> KeyInfo) list \<Rightarrow> DecisionMaker \<Rightarrow> string list \<times> DecisionMaker" where
  "dump_loop e index [] dm = ([], dm)"
| "dump_loop e index ((i, k) # table) dm =
     (let remain = dm_GetRemainingDelayTime e (Some k) i dm;
          (quota, dm1) = GetQuota e (Some k) dm;
          (lines, dm2) = dump_loop e (index + 1) table dm1
      in (dump_line index i k remain quota # lines, dm2))"

definition DumpAllRequestId ::
    "env \<Rightarrow> string list \<Rightarrow> BgTransientTaskMgr \<Rightarrow> string list \<times> BgTransientTaskMgr" where
  "DumpAllRequestId e dumpInfo m =
     (if tm_keyInfoMap m = [] then (dumpInfo @ [''No Transient Task!'' @ ''\<newline>''], m)
      else let (lines, dm) = dump_loop e 1 (tm_keyInfoMap m) (tm_decisionMaker m)
           in (dumpInfo @ lines, m\<lparr>tm_decisionMaker := dm\<rparr>))"

definition DumpTaskTime ::
    "env \<Rightarrow> string list \<Rightarrow> bool \<Rightarrow> string list \<Rightarrow> BgTransientTaskMgr \<Rightarrow> string list \<times> BgTransientTaskMgr" where
  "DumpTaskTime e dumpOption pause dumpInfo m =
     (if length dumpOption \<le> 2 then (dumpInfo, m)
      else let uid = atoi (dumpOption ! 2) in
           if pause
           then (let (ret, m1) = tm_PauseTransientTaskTimeForInner e uid m in
                 (dumpInfo @ [(if ret \<noteq> ERR_OK then ''pause transient tasl fail!''
                               else ''pause transient tasl success!'') @ ''\<newline>''], m1))
           else (let (ret, m1) = tm_StartTransientTaskTimeForInner e uid m in
                 (dumpInfo @ [(if ret \<noteq> ERR_OK then ''start transient tasl fail!''
                               else ''start transient tasl success!'') @ ''\<newline>''], m1)))"

text \<open>\<open>ok\<close> is the answer of the common event manager.\<close>

definition SendBatteryEvent ::
    "bool \<Rightarrow> bool \<Rightarrow> string list \<Rightarrow> BgTransientTaskMgr \<Rightarrow> string list \<times> BgTransientTaskMgr" where
  "SendBatteryEvent low ok dumpInfo m =
     (dumpInfo @
        [''Publish COMMON_EVENT_BATTERY_'' @ (if low then ''LOW'' else ''OKAY'') @
         (if ok then '' succeed!'' else '' failed!'') @ ''\<newline>''],
      tm_emit [PublishBattery low] m)"

definition SetDump :: "bool \<Rightarrow> BgTransientTaskMgr \<Rightarrow> BgTransientTaskMgr" where
  "SetDump b m = m\<lparr>tm_deviceInfoManeger := (tm_deviceInfoManeger m)\<lparr>di_isDump := b\<rparr>\<rparr>"

definition tm_ShellDump ::
    "env \<Rightarrow> bool \<Rightarrow> string list \<Rightarrow> string list \<Rightarrow> BgTransientTaskMgr \<Rightarrow>
     ErrCode \<times> string list \<times> BgTransientTaskMgr" where
  "tm_ShellDump e published dumpOption dumpInfo m =
     (if \<not> tm_isReady m then (ERR_BGTASK_SYS_NOT_READY, dumpInfo, m)
      else if length dumpOption \<le> 1 then (ERR_BGTASK_INVALID_PARAM, dumpInfo, m)
      else let opt = dumpOption ! 1 in
        if opt = ''All'' then (ERR_OK, DumpAllRequestId e dumpInfo m)
        else if opt = ''BATTARY_LOW'' then (ERR_OK, SendBatteryEvent True published dumpInfo (SetDump True m))
        else if opt = ''BATTARY_OKAY'' then (ERR_OK, SendBatteryEvent False published dumpInfo (SetDump True m))
        else if opt = ''DUMP_CANCEL'' then (ERR_OK, dumpInfo, SetDump False m)
        else if opt = ''PAUSE'' then (ERR_OK, DumpTaskTime e dumpOption True dumpInfo m)
        else if opt = ''START'' then (ERR_OK, DumpTaskTime e dumpOption False dumpInfo m)
        else (ERR_BGTASK_PERMISSION_DENIED, dumpInfo @ [''Error transient dump command!'' @ ''\<newline>''], m))"

section \<open>Device events\<close>

text \<open>The listeners hear of an event in the order in which they registered.\<close>

fun dispatch :: "env \<Rightarrow> EventInfo \<Rightarrow> listener list \<Rightarrow> BgTransientTaskMgr \<Rightarrow> BgTransientTaskMgr option" where
  "dispatch e ev [] m = Some m"
| "dispatch e ev (ListenDeviceInfo # ls) m =
     (case dev_OnInputEvent ev (tm_deviceInfoManeger m) of
        None \<Rightarrow> None
      | Some dev \<Rightarrow> dispatch e ev ls (m\<lparr>tm_deviceInfoManeger := dev\<rparr>))"
| "dispatch e ev (ListenDecisionMaker # ls) m =
     dispatch e ev ls
       (m\<lparr>tm_decisionMaker := dm_OnInputEvent e (tm_deviceInfoManeger m) (tm_transientPauseUid m) ev
                              (tm_decisionMaker m)\<rparr>)"

definition InputManager_ProcessEvent ::
    "env \<Rightarrow> EventInfo option \<Rightarrow> BgTransientTaskMgr \<Rightarrow> BgTransientTaskMgr option" where
  "InputManager_ProcessEvent e ev m =
     (case ev of None \<Rightarrow> Some m | Some x \<Rightarrow> dispatch e x (tm_listenerList m) m)"

end
