(* ===== verification/AccountingInv.thy ===== *)
theory AccountingInv
  imports DecisionMaker
begin

text \<open>
  The operations on one package that the decision maker applies share a contract
  (\<open>accounting_op\<close>): they keep the package's key and invariant, add no request, and change
  timers only of that package's requests and consistently with which of them are accounted.
  From the contract alone follows that the decision maker's invariant is kept.
\<close>

section \<open>Storing a package\<close>

lemma dm_store_fields [simp]:
  "dm_requestId (dm_store k r dm) = dm_requestId dm"
  "dm_lastRequestTime (dm_store k r dm) = dm_lastRequestTime dm"
  "dm_bgDuration (dm_store k r dm) = dm_bgDuration dm"
  "dm_foreground (dm_store k r dm) = dm_foreground dm"
  "dm_calls (dm_store k r dm) = dm_calls dm @ snd r"
  by (simp_all add: dm_store_def)

lemma dm_store_get [simp]:
  "dm_wf dm \<Longrightarrow> map_of (dm_pkgMap (dm_store k r dm)) = (map_of (dm_pkgMap dm))(k \<mapsto> fst r)"
  by (simp add: dm_store_def dm_wf_def)

lemma dm_wf_store [simp]: "dm_wf dm \<Longrightarrow> dm_wf (dm_store k r dm)"
  by (simp add: dm_wf_def dm_store_def om_wf_put)

lemma emit_fields [simp]:
  "dm_requestId (emit cs dm) = dm_requestId dm"
  "dm_lastRequestTime (emit cs dm) = dm_lastRequestTime dm"
  "dm_bgDuration (emit cs dm) = dm_bgDuration dm"
  "dm_foreground (emit cs dm) = dm_foreground dm"
  "dm_pkgMap (emit cs dm) = dm_pkgMap dm"
  "dm_calls (emit cs dm) = dm_calls dm @ cs"
  by (simp_all add: emit_def)

lemma views_frame [simp]:
  "requests (emit cs dm) = requests dm"
  "counting (emit cs dm) = counting dm"
  "pkgs_ok q (emit cs dm) = pkgs_ok q dm"
  "requests (dm\<lparr>dm_bgDuration := m\<rparr>) = requests dm"
  "counting (dm\<lparr>dm_bgDuration := m\<rparr>) = counting dm"
  "pkgs_ok q (dm\<lparr>dm_bgDuration := m\<rparr>) = pkgs_ok q dm"
  "requests (dm\<lparr>dm_foreground := f\<rparr>) = requests dm"
  "counting (dm\<lparr>dm_foreground := f\<rparr>) = counting dm"
  "pkgs_ok q (dm\<lparr>dm_foreground := f\<rparr>) = pkgs_ok q dm"
  "requests (dm\<lparr>dm_lastRequestTime := t\<rparr>) = requests dm"
  "counting (dm\<lparr>dm_lastRequestTime := t\<rparr>) = counting dm"
  "pkgs_ok q (dm\<lparr>dm_lastRequestTime := t\<rparr>) = pkgs_ok q dm"
  "requests (dm\<lparr>dm_requestId := n\<rparr>) = requests dm"
  "counting (dm\<lparr>dm_requestId := n\<rparr>) = counting dm"
  "pkgs_ok q (dm\<lparr>dm_requestId := n\<rparr>) = pkgs_ok q dm"
  by (simp_all add: requests_def counting_def pkgs_ok_def)

lemma requests_store:
  "dm_wf dm \<Longrightarrow>
   (k', i) \<in> requests (dm_store k r dm) \<longleftrightarrow>
     (if k' = k then i \<in> set (ids (fst r)) else (k', i) \<in> requests dm)"
  by (simp add: requests_def)

lemma counting_store:
  "dm_wf dm \<Longrightarrow>
   i \<in> counting (dm_store k r dm) \<longleftrightarrow>
     (\<exists>k' p. k' \<noteq> k \<and> map_of (dm_pkgMap dm) k' = Some p \<and> i \<in> counting_ids p) \<or>
     i \<in> counting_ids (fst r)"
  unfolding counting_def by (simp, metis)

lemma counting_requests: "i \<in> counting dm \<Longrightarrow> \<exists>k. (k, i) \<in> requests dm"
  unfolding counting_def requests_def using counting_subset_ids by blast

lemma counting_local:
  assumes "ids_ok dm" and "map_of (dm_pkgMap dm) k = Some p" and "i \<in> set (ids p)"
  shows "i \<in> counting dm \<longleftrightarrow> i \<in> counting_ids p"
proof
  assume "i \<in> counting dm"
  then obtain k' p' where p': "map_of (dm_pkgMap dm) k' = Some p'" "i \<in> counting_ids p'"
    by (auto simp: counting_def)
  then have "(k', i) \<in> requests dm" and "(k, i) \<in> requests dm"
    using counting_subset_ids assms(2,3) unfolding requests_def by blast+
  with assms(1) have "k' = k" by (auto simp: ids_ok_def)
  with p' assms(2) show "i \<in> counting_ids p" by simp
next
  assume "i \<in> counting_ids p"
  with assms(2) show "i \<in> counting dm" by (auto simp: counting_def)
qed

lemma counting_elsewhere:
  assumes "i \<in> counting dm" and "map_of (dm_pkgMap dm) k = Some p" and "i \<notin> set (ids p)"
  shows "\<exists>k' p'. k' \<noteq> k \<and> map_of (dm_pkgMap dm) k' = Some p' \<and> i \<in> counting_ids p'"
proof -
  obtain k' p' where p': "map_of (dm_pkgMap dm) k' = Some p'" "i \<in> counting_ids p'"
    using assms(1) by (auto simp: counting_def)
  then have "k' \<noteq> k" using assms(2,3) by (auto dest: counting_in_ids)
  with p' show ?thesis by blast
qed

lemma ids_ok_mono:
  "ids_ok dm \<Longrightarrow> requests dm' \<subseteq> requests dm \<Longrightarrow> dm_requestId dm' = dm_requestId dm \<Longrightarrow> ids_ok dm'"
  unfolding ids_ok_def by (metis subset_iff)

lemma pkgs_ok_store:
  "dm_wf dm \<Longrightarrow> pkgs_ok q dm \<Longrightarrow> pkg_ok q k (fst r) \<Longrightarrow> pkgs_ok q (dm_store k r dm)"
  by (auto simp: pkgs_ok_def)

lemma dm_inv_emit_notify [inv_intros]:
  "dm_inv q dm \<Longrightarrow> dm_inv q (emit [NotifySubscribers ty a] dm)"
  by (simp add: dm_inv_def dm_wf_def ids_ok_def timers_ok_def guarded_def)

lemma dm_inv_frame [inv_intros]:
  "dm_inv q dm \<Longrightarrow> om_wf m \<Longrightarrow> dm_inv q (dm\<lparr>dm_bgDuration := m\<rparr>)"
  "dm_inv q dm \<Longrightarrow> om_wf fg \<Longrightarrow> dm_inv q (dm\<lparr>dm_foreground := fg\<rparr>)"
  "dm_inv q dm \<Longrightarrow> dm_inv q (dm\<lparr>dm_lastRequestTime := t\<rparr>)"
  by (simp_all add: dm_inv_def dm_wf_def ids_ok_def timers_ok_def guarded_def)

section \<open>The contract\<close>

locale accounting_op =
  fixes op :: "env \<Rightarrow> PkgDelaySuspendInfo \<Rightarrow> PkgDelaySuspendInfo \<times> call list"
  assumes op_pkg: "distinct (ids p) \<Longrightarrow> pdi_pkg (fst (op e p)) = pdi_pkg p"
    and op_uid: "distinct (ids p) \<Longrightarrow> pdi_uid (fst (op e p)) = pdi_uid p"
    and op_inv: "pdi_inv q p \<Longrightarrow> q \<le> INT_MAX \<Longrightarrow> pdi_inv q (fst (op e p))"
    and op_ids: "distinct (ids p) \<Longrightarrow> set (ids (fst (op e p))) \<subseteq> set (ids p)"
    and op_timer_frame: "distinct (ids p) \<Longrightarrow> i \<notin> set (ids p) \<Longrightarrow>
      timer_armed (cs @ snd (op e p)) i = timer_armed cs i"
    and op_watchdog_frame: "distinct (ids p) \<Longrightarrow>
      watchdog_armed (cs @ snd (op e p)) i = watchdog_armed cs i"
    and op_timer_sound: "distinct (ids p) \<Longrightarrow> 0 < e_now e \<Longrightarrow> i \<in> set (ids p) \<Longrightarrow>
      (timer_armed cs i \<longrightarrow> i \<in> counting_ids p) \<Longrightarrow>
      timer_armed (cs @ snd (op e p)) i \<Longrightarrow> i \<in> counting_ids (fst (op e p))"
    and op_timer_complete: "distinct (ids p) \<Longrightarrow> 0 < e_now e \<Longrightarrow>
      (i \<in> counting_ids p \<longrightarrow> timer_armed cs i \<or> watched) \<Longrightarrow>
      i \<in> counting_ids (fst (op e p)) \<Longrightarrow> timer_armed (cs @ snd (op e p)) i \<or> watched"
begin

lemma store_ids_ok:
  assumes "dm_inv q dm" and "map_of (dm_pkgMap dm) k = Some p"
  shows "ids_ok (dm_store k (op e p) dm)"
proof (rule ids_ok_mono)
  have d: "distinct (ids p)" and wf: "dm_wf dm"
    using assms by (auto simp: dm_inv_def pkgs_ok_def pkg_ok_def pdi_inv_def)
  have "(k', i) \<in> requests dm" if "(k', i) \<in> requests (dm_store k (op e p) dm)" for k' i
    using that op_ids [OF d, of e] assms(2) unfolding requests_store [OF wf]
    by (cases "k' = k") (simp_all only: requests_def simp_thms mem_Collect_eq case_prod_conv if_True if_False, blast)
  then show "requests (dm_store k (op e p) dm) \<subseteq> requests dm" by auto
qed (use assms in \<open>auto simp: dm_inv_def\<close>)

lemma store_timers_ok:
  assumes "dm_inv q dm" and "map_of (dm_pkgMap dm) k = Some p" and "0 < e_now e"
  shows "timers_ok (dm_store k (op e p) dm)"
  unfolding timers_ok_def
proof (intro allI impI)
  fix i
  assume armed: "timer_armed (dm_calls (dm_store k (op e p) dm)) i"
  have d: "distinct (ids p)" and wf: "dm_wf dm" and ok: "ids_ok dm" and t: "timers_ok dm"
    using assms by (auto simp: dm_inv_def pkgs_ok_def pkg_ok_def pdi_inv_def)
  show "i \<in> counting (dm_store k (op e p) dm)"
  proof (cases "i \<in> set (ids p)")
    case True
    then have "timer_armed (dm_calls dm) i \<longrightarrow> i \<in> counting_ids p"
      using t counting_local [OF ok assms(2)] by (auto simp: timers_ok_def)
    then have "i \<in> counting_ids (fst (op e p))"
      using op_timer_sound [OF d assms(3) True] armed by simp
    then show ?thesis using wf by (simp add: counting_store)
  next
    case False
    then have "i \<in> counting dm"
      using armed t op_timer_frame [OF d] by (simp add: timers_ok_def)
    then show ?thesis
      using counting_elsewhere [OF _ assms(2) False] wf by (auto simp: counting_store)
  qed
qed

lemma store_guarded:
  assumes "dm_inv q dm" and "map_of (dm_pkgMap dm) k = Some p" and "0 < e_now e"
  shows "guarded (dm_store k (op e p) dm)"
  unfolding guarded_def
proof
  fix i
  assume i: "i \<in> counting (dm_store k (op e p) dm)"
  have d: "distinct (ids p)" and wf: "dm_wf dm" and ok: "ids_ok dm" and g: "guarded dm"
    using assms by (auto simp: dm_inv_def pkgs_ok_def pkg_ok_def pdi_inv_def)
  show "timer_armed (dm_calls (dm_store k (op e p) dm)) i \<or>
        watchdog_armed (dm_calls (dm_store k (op e p) dm)) i"
  proof (cases "i \<in> set (ids p)")
    case True
    have "i \<in> counting_ids (fst (op e p))"
    proof -
      have "\<not> (\<exists>k' p'. k' \<noteq> k \<and> map_of (dm_pkgMap dm) k' = Some p' \<and> i \<in> counting_ids p')"
        using True assms(2) ok counting_subset_ids unfolding ids_ok_def requests_def by blast
      then show ?thesis using i wf by (auto simp: counting_store)
    qed
    moreover have "i \<in> counting_ids p \<longrightarrow> timer_armed (dm_calls dm) i \<or> watchdog_armed (dm_calls dm) i"
      using g counting_local [OF ok assms(2) True] by (auto simp: guarded_def)
    ultimately show ?thesis
      using op_timer_complete [OF d assms(3), of i "dm_calls dm" "watchdog_armed (dm_calls dm) i"]
        op_watchdog_frame [OF d] by simp
  next
    case False
    then have "i \<notin> counting_ids (fst (op e p))"
      using counting_subset_ids op_ids [OF d] by blast
    then have "\<exists>k' p'. k' \<noteq> k \<and> map_of (dm_pkgMap dm) k' = Some p' \<and> i \<in> counting_ids p'"
      using i by (simp add: counting_store [OF wf])
    then have "i \<in> counting dm" by (auto simp: counting_def)
    then show ?thesis
      using g op_timer_frame [OF d False] op_watchdog_frame [OF d] by (simp add: guarded_def)
  qed
qed

lemma store_inv:
  assumes "dm_inv q dm" and "map_of (dm_pkgMap dm) k = Some p" and "0 < e_now e" and "q \<le> INT_MAX"
  shows "dm_inv q (dm_store k (op e p) dm)"
proof -
  have p: "pkg_ok q k p" and d: "distinct (ids p)" and wf: "dm_wf dm" and pk: "pkgs_ok q dm"
    using assms(1,2) by (auto simp: dm_inv_def pkgs_ok_def pkg_ok_def pdi_inv_def)
  have "pkg_ok q k (fst (op e p))"
    using p op_pkg [OF d] op_uid [OF d] op_inv assms(4) by (simp add: pkg_ok_def)
  with wf pk have "pkgs_ok q (dm_store k (op e p) dm)" by (simp add: pkgs_ok_store)
  then show ?thesis
    using wf store_ids_ok [OF assms(1,2)] store_timers_ok [OF assms(1-3)] store_guarded [OF assms(1-3)]
    by (simp add: dm_inv_def)
qed

end

section \<open>The operations that honour it\<close>

interpretation start: accounting_op "\<lambda>e. pdi_StartAccounting e rid" for rid
proof unfold_locales
  fix p :: PkgDelaySuspendInfo and e :: env and i cs watched
  assume now: "0 < e_now e"
  have c: "counting_ids (fst (pdi_StartAccounting e rid p)) =
      counting_ids p \<union> {dsi_requestId d | d. d \<in> set (pdi_requestList p) \<and> selected rid d}"
    using now by (rule counting_start)
  show "i \<in> counting_ids (fst (pdi_StartAccounting e rid p))"
    if "timer_armed cs i \<longrightarrow> i \<in> counting_ids p" "timer_armed (cs @ snd (pdi_StartAccounting e rid p)) i"
    using that c by (auto simp: timer_armed_start)
  show "timer_armed (cs @ snd (pdi_StartAccounting e rid p)) i \<or> watched"
    if "i \<in> counting_ids p \<longrightarrow> timer_armed cs i \<or> watched" "i \<in> counting_ids (fst (pdi_StartAccounting e rid p))"
  proof (cases "i \<in> counting_ids p")
    case False
    with that c obtain d where d: "i = dsi_requestId d" "d \<in> set (pdi_requestList p)" "selected rid d"
      by blast
    with False have "dsi_baseTime d = 0" by (auto simp: counting_ids_def)
    with d show ?thesis by (auto simp: timer_armed_start)
  qed (use that in \<open>auto simp: timer_armed_start\<close>)
next
  show "watchdog_armed (cs @ snd (pdi_StartAccounting e rid p)) i = watchdog_armed cs i" for e p i cs
    by (simp add: pdi_StartAccounting_eq)
next
  show "i \<notin> set (ids p) \<Longrightarrow> timer_armed (cs @ snd (pdi_StartAccounting e rid p)) i = timer_armed cs i"
    for e p i cs
    by (auto simp: timer_armed_start)
next
  show "pdi_inv q p \<Longrightarrow> q \<le> INT_MAX \<Longrightarrow> pdi_inv q (fst (pdi_StartAccounting e rid p))" for q p e
    by (rule pdi_inv_start)
qed (simp_all only: ids_start pkg_uid_ops order_refl)

interpretation stop_all: accounting_op StopAccountingAll
proof unfold_locales
  show "pdi_inv q p \<Longrightarrow> q \<le> INT_MAX \<Longrightarrow> pdi_inv q (fst (StopAccountingAll e p))" for q p e
    by (rule pdi_inv_stop_all)
  show "watchdog_armed (cs @ snd (StopAccountingAll e p)) i = watchdog_armed cs i" for e p i cs
    by (simp add: StopAccountingAll_eq)
  show "i \<notin> set (ids p) \<Longrightarrow> timer_armed (cs @ snd (StopAccountingAll e p)) i = timer_armed cs i" for e p i cs
    using counting_subset_ids by (auto simp: timer_armed_stop_all)
qed (simp_all add: timer_armed_stop_all)

interpretation remove: accounting_op "\<lambda>e. pdi_RemoveRequest e rid" for rid
proof unfold_locales
  show "pdi_inv q p \<Longrightarrow> q \<le> INT_MAX \<Longrightarrow> pdi_inv q (fst (pdi_RemoveRequest e rid p))" for q p e
    by (simp add: pdi_RemoveRequest_eq pdi_inv_def [of q p] pdi_inv_removed)
qed (auto simp: pdi_RemoveRequest_eq timer_armed_removed counting_removed split: if_splits)

interpretation update_quota: accounting_op "\<lambda>e p. (UpdateQuota e False p, [])"
  by unfold_locales (auto intro: pdi_inv_UpdateQuota)

end
