(* ===== verification/DecisionInv.thy ===== *)
theory DecisionInv
  imports AccountingInv
begin

text \<open>
  Every operation of the decision maker keeps its invariant. Operations that only switch
  accounting on and off also keep the set of outstanding requests (\<open>accounts_only\<close>); the effect
  of \<open>Decide\<close> and \<open>dm_RemoveRequest\<close> on that set is stated exactly.
\<close>

section \<open>Steps that only account\<close>

definition env_fits :: "int \<Rightarrow> env \<Rightarrow> bool" where
  "env_fits q e \<longleftrightarrow> 0 < e_now e \<and> 0 \<le> e_initQuota e \<and> e_initQuota e \<le> q \<and> q \<le> INT_MAX"

lemma env_fitsD:
  "env_fits q e \<Longrightarrow> 0 < e_now e"
  "env_fits q e \<Longrightarrow> 0 \<le> e_initQuota e"
  "env_fits q e \<Longrightarrow> e_initQuota e \<le> q"
  "env_fits q e \<Longrightarrow> q \<le> INT_MAX"
  by (auto simp: env_fits_def)

definition accounts_only :: "int \<Rightarrow> DecisionMaker \<Rightarrow> DecisionMaker \<Rightarrow> bool" where
  "accounts_only q dm dm' \<longleftrightarrow>
     (dm_inv q dm \<longrightarrow> dm_inv q dm' \<and> requests dm' = requests dm \<and>
        dm_requestId dm' = dm_requestId dm \<and>
        (\<forall>i. watchdog_armed (dm_calls dm') i = watchdog_armed (dm_calls dm) i))"

lemma accounts_only_refl [simp, inv_intros]: "accounts_only q dm dm"
  by (simp add: accounts_only_def)

lemma accounts_only_trans [trans]:
  "accounts_only q dm dm1 \<Longrightarrow> accounts_only q dm1 dm2 \<Longrightarrow> accounts_only q dm dm2"
  by (auto simp: accounts_only_def)

lemma accounts_only_inv: "accounts_only q dm dm' \<Longrightarrow> dm_inv q dm \<Longrightarrow> dm_inv q dm'"
  by (simp add: accounts_only_def)

lemma accounts_only_requests: "accounts_only q dm dm' \<Longrightarrow> dm_inv q dm \<Longrightarrow> requests dm' = requests dm"
  by (simp add: accounts_only_def)

lemma accounts_only_id: "accounts_only q dm dm' \<Longrightarrow> dm_inv q dm \<Longrightarrow> dm_requestId dm' = dm_requestId dm"
  by (simp add: accounts_only_def)

lemma accounts_only_watchdog:
  "accounts_only q dm dm' \<Longrightarrow> dm_inv q dm \<Longrightarrow>
   watchdog_armed (dm_calls dm') i = watchdog_armed (dm_calls dm) i"
  by (simp add: accounts_only_def)

text \<open>The list of requests filed under a key determines the views.\<close>

definition reqs_at :: "DecisionMaker \<Rightarrow> pkg_key \<Rightarrow> DelaySuspendInfoEx list" where
  "reqs_at dm k = (case map_of (dm_pkgMap dm) k of None \<Rightarrow> [] | Some p \<Rightarrow> pdi_requestList p)"

lemma in_reqs_at:
  "d \<in> set (reqs_at dm k) \<longleftrightarrow> (\<exists>p. map_of (dm_pkgMap dm) k = Some p \<and> d \<in> set (pdi_requestList p))"
  by (cases "map_of (dm_pkgMap dm) k") (simp_all add: reqs_at_def)

lemma requests_reqs: "(k, i) \<in> requests dm \<longleftrightarrow> i \<in> dsi_requestId ` set (reqs_at dm k)"
  by (cases "map_of (dm_pkgMap dm) k") (simp_all add: requests_def reqs_at_def)

lemma counting_reqs:
  "i \<in> counting dm \<longleftrightarrow> (\<exists>k. \<exists>d \<in> set (reqs_at dm k). dsi_requestId d = i \<and> dsi_baseTime d \<noteq> 0)"
  unfolding counting_def counting_ids_def Bex_def in_reqs_at by blast

lemma views_by_reqs:
  assumes "reqs_at dm' = reqs_at dm"
  shows "requests dm' = requests dm" and "counting dm' = counting dm"
proof -
  show "requests dm' = requests dm" by (auto simp: requests_reqs assms)
  show "counting dm' = counting dm" by (auto simp: counting_reqs assms)
qed

lemma dm_inv_by_reqs:
  assumes "dm_inv q dm" and "reqs_at dm' = reqs_at dm" and "dm_requestId dm' = dm_requestId dm"
    and "dm_calls dm' = dm_calls dm" and "dm_wf dm'" and "pkgs_ok q dm'"
  shows "dm_inv q dm'"
  using assms views_by_reqs [OF assms(2)]
  by (simp add: dm_inv_def ids_ok_def timers_ok_def guarded_def)

lemma dm_invD:
  "dm_inv q dm \<Longrightarrow> dm_wf dm"
  "dm_inv q dm \<Longrightarrow> pkgs_ok q dm"
  "dm_inv q dm \<Longrightarrow> ids_ok dm"
  by (simp_all add: dm_inv_def)

lemma dm_inv_pkg: "dm_inv q dm \<Longrightarrow> map_of (dm_pkgMap dm) k = Some p \<Longrightarrow> pkg_ok q k p"
  by (simp add: dm_inv_def pkgs_ok_def)

lemma dm_inv_pkg_inv: "dm_inv q dm \<Longrightarrow> map_of (dm_pkgMap dm) k = Some p \<Longrightarrow> pdi_inv q p"
  by (simp add: dm_inv_def pkgs_ok_def pkg_ok_def)

lemma dm_inv_pkg_distinct: "dm_inv q dm \<Longrightarrow> map_of (dm_pkgMap dm) k = Some p \<Longrightarrow> distinct (ids p)"
  by (drule (1) dm_inv_pkg_inv) (simp add: pdi_inv_def)

lemma requests_store_same:
  assumes "dm_wf dm" and "map_of (dm_pkgMap dm) k = Some p" and "set (ids (fst r)) = set (ids p)"
  shows "requests (dm_store k r dm) = requests dm"
proof -
  have "(k', i) \<in> requests (dm_store k r dm) \<longleftrightarrow> (k', i) \<in> requests dm" for k' i
    unfolding requests_store [OF assms(1)] by (simp only: assms(2,3) requests_def) (simp add: assms(2))
  then show ?thesis by auto
qed

context accounting_op
begin

lemma store_accounts_only:
  assumes "map_of (dm_pkgMap dm) k = Some p" and "env_fits q e"
    and "\<And>p. distinct (ids p) \<Longrightarrow> set (ids (fst (op e p))) = set (ids p)"
  shows "accounts_only q dm (dm_store k (op e p) dm)"
  unfolding accounts_only_def
proof (intro impI conjI allI)
  assume inv: "dm_inv q dm"
  note d = dm_inv_pkg_distinct [OF inv assms(1)]
  show "dm_inv q (dm_store k (op e p) dm)"
    using inv assms(1) by (rule store_inv) (use assms(2) in \<open>auto dest: env_fitsD\<close>)
  show "requests (dm_store k (op e p) dm) = requests dm"
    using dm_invD(1) [OF inv] assms(1) assms(3) [OF d] by (rule requests_store_same)
  show "watchdog_armed (dm_calls (dm_store k (op e p) dm)) i = watchdog_armed (dm_calls dm) i" for i
    using op_watchdog_frame [OF d] by simp
qed simp

end

lemma start_accounts [inv_intros]:
  "map_of (dm_pkgMap dm) k = Some p \<Longrightarrow> env_fits q e \<Longrightarrow>
   accounts_only q dm (dm_store k (pdi_StartAccounting e rid p) dm)"
  by (rule start.store_accounts_only) (simp_all only: ids_start)

lemma stop_all_accounts [inv_intros]:
  "map_of (dm_pkgMap dm) k = Some p \<Longrightarrow> env_fits q e \<Longrightarrow>
   accounts_only q dm (dm_store k (StopAccountingAll e p) dm)"
  by (rule stop_all.store_accounts_only) (simp_all only: ids_stop_all)

lemma update_quota_accounts [inv_intros]:
  "map_of (dm_pkgMap dm) k = Some p \<Longrightarrow> env_fits q e \<Longrightarrow>
   accounts_only q dm (dm_store k (UpdateQuota e False p, []) dm)"
  by (rule update_quota.store_accounts_only) simp_all

section \<open>Process states and the screen\<close>

lemma accounts_frame [inv_intros]:
  "om_wf m \<Longrightarrow> accounts_only q dm (dm\<lparr>dm_bgDuration := m\<rparr>)"
  "om_wf fg \<Longrightarrow> accounts_only q dm (dm\<lparr>dm_foreground := fg\<rparr>)"
  by (simp_all add: accounts_only_def dm_inv_frame)

lemma accounts_wf:
  "(dm_wf dm \<Longrightarrow> accounts_only q dm dm') \<Longrightarrow> accounts_only q dm dm'"
  by (auto simp: accounts_only_def dm_inv_def)

lemma UpdateForegroundUidPidMap_accounts [inv_intros]:
  "accounts_only q dm (UpdateForegroundUidPidMap uid pid fg dm)"
proof (rule accounts_wf)
  assume "dm_wf dm"
  then have "om_wf (dm_foreground dm)" by (simp add: dm_wf_def)
  then show "accounts_only q dm (UpdateForegroundUidPidMap uid pid fg dm)"
    by (auto simp: UpdateForegroundUidPidMap_def Let_def intro!: accounts_frame)
qed

lemma TryStartAccounting_accounts [inv_intros]:
  "env_fits q e \<Longrightarrow> accounts_only q dm (snd (TryStartAccounting e dev uid b dm))"
  by (auto simp: TryStartAccounting_def intro: start_accounts split: option.split)

lemma HandleStateChange_accounts [inv_intros]:
  assumes "env_fits q e"
  shows "accounts_only q dm (HandleStateChange e dev b uid fg bg dm)"
proof (rule accounts_wf)
  assume wf: "dm_wf dm"
  then have bgw: "om_wf (dm_bgDuration dm)" by (simp add: dm_wf_def)
  then show "accounts_only q dm (HandleStateChange e dev b uid fg bg dm)"
    using assms
    by (auto simp: HandleStateChange_def Let_def split: option.split
        intro!: accounts_frame
        intro: accounts_only_trans [OF stop_all_accounts accounts_frame(1)]
          accounts_only_trans [OF start_accounts accounts_frame(1)])
qed

lemma OnProcessStateChanged_accounts [inv_intros]:
  "env_fits q e \<Longrightarrow> accounts_only q dm (OnProcessStateChanged e dev b uid pid st dm)"
  unfolding OnProcessStateChanged_def Let_def
  by (auto intro: accounts_only_trans [OF UpdateForegroundUidPidMap_accounts HandleStateChange_accounts]
      UpdateForegroundUidPidMap_accounts)

lemma OnProcessDied_accounts [inv_intros]:
  "env_fits q e \<Longrightarrow> accounts_only q dm (OnProcessDied e dev b uid pid dm)"
  unfolding OnProcessDied_def
  by (rule accounts_only_trans [OF UpdateForegroundUidPidMap_accounts TryStartAccounting_accounts])

lemma PauseTransientTaskTimeForInner_accounts [inv_intros]:
  "env_fits q e \<Longrightarrow> accounts_only q dm (snd (dm_PauseTransientTaskTimeForInner e uid name dm))"
  by (auto simp: dm_PauseTransientTaskTimeForInner_def intro: stop_all_accounts split: option.split)

lemma StartTransientTaskTimeForInner_accounts [inv_intros]:
  "env_fits q e \<Longrightarrow> accounts_only q dm (snd (dm_StartTransientTaskTimeForInner e dev uid name dm))"
  using TryStartAccounting_accounts [of q e dm dev uid name]
  by (auto simp: dm_StartTransientTaskTimeForInner_def split: prod.split)

lemma GetQuota_accounts [inv_intros]: "env_fits q e \<Longrightarrow> accounts_only q dm (snd (GetQuota e key dm))"
  by (auto simp: GetQuota_def Let_def intro: update_quota_accounts split: option.split)

lemma screen_on_loop_accounts: "env_fits q e \<Longrightarrow> accounts_only q dm (screen_on_loop e apps dm)"
proof (induction e apps dm rule: screen_on_loop.induct)
  case (2 e b u apps dm)
  have "accounts_only q dm (case map_of (dm_pkgMap dm) (PkgKey b u) of None \<Rightarrow> dm
      | Some p \<Rightarrow> dm_store (PkgKey b u) (StopAccountingAll e p) dm)"
    using 2 by (auto intro: stop_all_accounts split: option.split)
  with 2 show ?case by (auto intro: accounts_only_trans)
qed simp

lemma screen_off_loop_accounts: "env_fits q e \<Longrightarrow> accounts_only q dm (screen_off_loop e dev paused ks dm)"
proof (induction e dev paused ks dm rule: screen_off_loop.induct)
  case (2 e dev paused k ks dm)
  have "accounts_only q dm (case map_of (dm_pkgMap dm) k of None \<Rightarrow> dm
      | Some p \<Rightarrow> if pdi_uid p \<in> paused then dm
          else if CanStartAccountingLocked dev dm p then dm_store k (pdi_StartAccounting e (-1) p) dm else dm)"
    using 2 by (auto intro: start_accounts split: option.split)
  with 2 show ?case by (auto intro: accounts_only_trans)
qed simp

lemma dm_OnInputEvent_accounts [inv_intros]:
  "env_fits q e \<Longrightarrow> accounts_only q dm (dm_OnInputEvent e dev paused ev dm)"
  by (auto simp: dm_OnInputEvent_def HandleScreenOn_def HandleScreenOff_def
      intro: screen_on_loop_accounts screen_off_loop_accounts split: option.split)

section \<open>The daily reset\<close>

lemma reset_quota_loop_keys: "fst ` set (reset_quota_loop e m) \<subseteq> fst ` set m"
  by (induction e m rule: reset_quota_loop.induct) auto

lemma reset_quota_loop_wf: "om_wf m \<Longrightarrow> om_wf (reset_quota_loop e m)"
proof (induction e m rule: reset_quota_loop.induct)
  case (2 e k p m)
  then show ?case using reset_quota_loop_keys [of e m] by (fastforce simp: om_wf_def)
qed simp

lemma reset_quota_loop_get:
  "distinct (map fst m) \<Longrightarrow>
   map_of (reset_quota_loop e m) k =
     (case map_of m k of
        None \<Rightarrow> None
      | Some p \<Rightarrow> if pdi_requestList p = [] then None else Some (UpdateQuota e True p))"
proof (induction e m rule: reset_quota_loop.induct)
  case (2 e k' p m)
  then show ?case
    using reset_quota_loop_keys [of e m]
    by (auto simp: map_of_eq_None_iff split: option.split)
qed simp

lemma ResetDayQuotaLocked_fields [simp]:
  "dm_requestId (ResetDayQuotaLocked e dm) = dm_requestId dm"
  "dm_calls (ResetDayQuotaLocked e dm) = dm_calls dm"
  "dm_bgDuration (ResetDayQuotaLocked e dm) = dm_bgDuration dm"
  "dm_foreground (ResetDayQuotaLocked e dm) = dm_foreground dm"
  by (simp_all add: ResetDayQuotaLocked_def)

lemma ResetDayQuotaLocked_reqs: "dm_wf dm \<Longrightarrow> reqs_at (ResetDayQuotaLocked e dm) = reqs_at dm"
  by (auto simp: reqs_at_def ResetDayQuotaLocked_def reset_quota_loop_get om_wf_distinct dm_wf_def
      split: option.split)

lemma ResetDayQuotaLocked_wf: "dm_wf dm \<Longrightarrow> dm_wf (ResetDayQuotaLocked e dm)"
  by (simp add: dm_wf_def ResetDayQuotaLocked_def reset_quota_loop_wf)

lemma ResetDayQuotaLocked_pkgs:
  assumes "dm_wf dm" and "pkgs_ok q dm" and "env_fits q e"
  shows "pkgs_ok q (ResetDayQuotaLocked e dm)"
proof -
  have "pkg_ok q k (UpdateQuota e True p)" if "pkg_ok q k p" for k p
    using that assms(3) by (simp add: pkg_ok_def pdi_inv_reset env_fits_def)
  with assms(1,2) show ?thesis
    by (auto simp: pkgs_ok_def ResetDayQuotaLocked_def reset_quota_loop_get om_wf_distinct dm_wf_def
        split: option.splits if_splits)
qed

lemma ResetDayQuotaLocked_accounts [inv_intros]:
  assumes "env_fits q e"
  shows "accounts_only q dm (ResetDayQuotaLocked e dm)"
  unfolding accounts_only_def
proof (intro impI conjI allI)
  assume inv: "dm_inv q dm"
  note r = ResetDayQuotaLocked_reqs [OF dm_invD(1) [OF inv], of e]
  show "dm_inv q (ResetDayQuotaLocked e dm)"
    by (rule dm_inv_by_reqs [OF inv r])
       (use inv assms in \<open>simp_all add: dm_inv_def ResetDayQuotaLocked_wf ResetDayQuotaLocked_pkgs\<close>)
  show "requests (ResetDayQuotaLocked e dm) = requests dm" using r by (rule views_by_reqs)
qed simp_all

section \<open>Granting a request\<close>

text \<open>Store a package record whose requests are those already filed under its key.\<close>

lemma reqs_at_store:
  "dm_wf dm \<Longrightarrow> reqs_at (dm_store k r dm) = (reqs_at dm)(k := pdi_requestList (fst r))"
  by (auto simp: reqs_at_def)

lemma store_same_reqs_accounts:
  assumes "pdi_requestList p = reqs_at dm k" and "pkg_ok q k p"
  shows "accounts_only q dm (dm_store k (p, []) dm)"
  unfolding accounts_only_def
proof (intro impI conjI allI)
  assume inv: "dm_inv q dm"
  have r: "reqs_at (dm_store k (p, []) dm) = reqs_at dm"
    using assms(1) dm_invD(1) [OF inv] by (simp add: reqs_at_store)
  show "dm_inv q (dm_store k (p, []) dm)"
    by (rule dm_inv_by_reqs [OF inv r])
       (use inv assms in \<open>simp_all add: dm_inv_def pkgs_ok_store\<close>)
  show "requests (dm_store k (p, []) dm) = requests dm" using r by (rule views_by_reqs)
qed simp_all

text \<open>Append a fresh request, not yet accounted.\<close>

definition appended :: "pkg_key \<Rightarrow> PkgDelaySuspendInfo \<Rightarrow> DecisionMaker \<Rightarrow> DecisionMaker" where
  "appended k p dm = dm_store k (p, []) (dm\<lparr>dm_requestId := dm_requestId dm + 1\<rparr>)"

lemma appended_fields [simp]:
  "dm_requestId (appended k p dm) = dm_requestId dm + 1"
  "dm_calls (appended k p dm) = dm_calls dm"
  "dm_foreground (appended k p dm) = dm_foreground dm"
  by (simp_all add: appended_def)

lemma dm_wf_requestId [simp]: "dm_wf (dm\<lparr>dm_requestId := n\<rparr>) = dm_wf dm"
  by (simp add: dm_wf_def)

lemma reqs_at_requestId [simp]: "reqs_at (dm\<lparr>dm_requestId := n\<rparr>) = reqs_at dm"
  by (simp add: reqs_at_def fun_eq_iff)

lemma appended_wf: "dm_wf dm \<Longrightarrow> dm_wf (appended k p dm)"
  by (simp add: appended_def)

lemma appended_get [simp]: "dm_wf dm \<Longrightarrow> map_of (dm_pkgMap (appended k p dm)) = (map_of (dm_pkgMap dm))(k \<mapsto> p)"
  by (simp add: appended_def)

lemma appended_reqs:
  "dm_wf dm \<Longrightarrow> reqs_at (appended k p dm) = (reqs_at dm)(k := pdi_requestList p)"
  by (simp add: appended_def reqs_at_store)

lemma appended_requests:
  assumes "dm_wf dm" and "pdi_requestList p = reqs_at dm k @ [d]"
  shows "requests (appended k p dm) = insert (k, dsi_requestId d) (requests dm)"
proof -
  have "(k', i) \<in> requests (appended k p dm) \<longleftrightarrow> (k', i) \<in> insert (k, dsi_requestId d) (requests dm)"
    for k' i
    using assms by (auto simp: requests_reqs appended_reqs)
  then show ?thesis by auto
qed

lemma appended_counting:
  assumes "dm_wf dm" and "pdi_requestList p = reqs_at dm k @ [d]" and "dsi_baseTime d = 0"
  shows "counting (appended k p dm) = counting dm"
proof -
  have "i \<in> counting (appended k p dm) \<longleftrightarrow> i \<in> counting dm" for i
    using assms unfolding counting_reqs appended_reqs [OF assms(1)]
    by (auto split: if_splits)
  then show ?thesis by auto
qed

lemma appended_ids:
  assumes "dm_wf dm" and "ids_ok dm" and "pdi_requestList p = reqs_at dm k @ [d]"
    and "dsi_requestId d = dm_requestId dm"
  shows "ids_ok (appended k p dm)"
proof -
  have new: "(k', dm_requestId dm) \<notin> requests dm" for k' using assms(2) by (auto simp: ids_ok_def)
  have "requests (appended k p dm) = insert (k, dm_requestId dm) (requests dm)"
    using appended_requests [OF assms(1,3)] assms(4) by simp
  with new assms(2) show ?thesis
    unfolding ids_ok_def by (auto simp: zless_add1_eq less_imp_le)
qed

lemma appended_inv:
  assumes "dm_inv q dm" and "pdi_requestList p = reqs_at dm k @ [d]"
    and "dsi_requestId d = dm_requestId dm" and "dsi_baseTime d = 0" and "pkg_ok q k p"
  shows "dm_inv q (appended k p dm)"
proof -
  have wf: "dm_wf dm" using assms(1) by (rule dm_invD)
  have "pkgs_ok q (appended k p dm)"
    unfolding appended_def using assms(1,5) wf by (intro pkgs_ok_store) (simp_all add: dm_inv_def)
  then show ?thesis
    using assms(1) wf appended_wf [OF wf] appended_ids [OF wf _ assms(2,3)]
      appended_counting [OF wf assms(2,4)]
    by (simp add: dm_inv_def timers_ok_def guarded_def)
qed

text \<open>The record \<open>Decide\<close> works on, and what it does once the request is allowed.\<close>

definition decide_pkg :: "env \<Rightarrow> KeyInfo \<Rightarrow> DecisionMaker \<Rightarrow> PkgDelaySuspendInfo" where
  "decide_pkg e k dm =
     (case map_of (dm_pkgMap dm) (key_of k) of
        None \<Rightarrow> new_PkgDelaySuspendInfo e (ki_pkg k) (ki_uid k)
      | Some p \<Rightarrow> p)"

definition notify_granted :: "KeyInfo \<Rightarrow> PkgDelaySuspendInfo \<Rightarrow> DecisionMaker \<Rightarrow> DecisionMaker" where
  "notify_granted k p dm =
     (let dm4 = emit [NotifySubscribers TASK_START (app_info (ki_pkg k) (ki_uid k) (ki_pid k))] dm
      in if length (pdi_requestList p) = 1
         then emit [NotifySubscribers APP_TASK_START (app_info (ki_pkg k) (ki_uid k) (-1))] dm4
         else dm4)"

definition start_granted ::
    "env \<Rightarrow> DeviceInfoManager \<Rightarrow> pkg_key \<Rightarrow> int \<Rightarrow> PkgDelaySuspendInfo \<Rightarrow> DecisionMaker \<Rightarrow> DecisionMaker" where
  "start_granted e dev k rid p dm =
     (if CanStartAccountingLocked dev dm p then dm_store k (pdi_StartAccounting e rid p) dm else dm)"

lemma Decide_eq:
  assumes "dm_requestId dm < INT_MAX"
  shows "Decide e dev (Some k) (Some d) dm =
    (let dm1 = ResetDayQuotaLocked e dm;
         (ret, need, p1) = CheckQuotaTime e (ki_pkg k) (decide_pkg e k dm1);
         dm2 = dm_store (key_of k) (p1, []) dm1;
         rid = dm_requestId dm;
         (d1, p2) = AddRequest e (d\<lparr>dsi_requestId := rid\<rparr>) (GetDelayTime e dev) need p1
     in if background_too_long e (key_of k) dm1 then (ERR_BGTASK_NOT_IN_PRESET_TIME, Some d, dm1)
        else if ret \<noteq> ERR_OK then (ret, Some d, dm2)
        else (ERR_OK, Some d1,
              start_granted e dev (key_of k) rid p2
                (notify_granted k p2 (appended (key_of k) p2 dm2))))"
  using assms
  by (simp add: Decide_def Let_def decide_pkg_def notify_granted_def start_granted_def appended_def
      NewDelaySuspendRequestId_def split: prod.split)

lemma notify_granted_fields [simp]:
  "dm_requestId (notify_granted k p dm) = dm_requestId dm"
  "dm_pkgMap (notify_granted k p dm) = dm_pkgMap dm"
  "dm_foreground (notify_granted k p dm) = dm_foreground dm"
  by (simp_all add: notify_granted_def Let_def)

lemma emit_notify_accounts [inv_intros]: "accounts_only q dm (emit [NotifySubscribers ty a] dm)"
  by (simp add: accounts_only_def dm_inv_emit_notify)

lemma notify_granted_accounts: "accounts_only q dm (notify_granted k p dm)"
  unfolding notify_granted_def Let_def
  by (auto intro: emit_notify_accounts accounts_only_trans [OF emit_notify_accounts emit_notify_accounts])

lemma start_granted_accounts:
  "map_of (dm_pkgMap dm) k = Some p \<Longrightarrow> env_fits q e \<Longrightarrow> accounts_only q dm (start_granted e dev k rid p dm)"
  by (auto simp: start_granted_def intro: start_accounts)

lemma decide_pkg_reqs: "pdi_requestList (decide_pkg e k dm) = reqs_at dm (key_of k)"
  by (simp add: decide_pkg_def reqs_at_def new_PkgDelaySuspendInfo_def split: option.split)

lemma decide_pkg_ok: "dm_inv q dm \<Longrightarrow> env_fits q e \<Longrightarrow> pkg_ok q (key_of k) (decide_pkg e k dm)"
  by (auto simp: decide_pkg_def pkg_ok_def key_of_def new_PkgDelaySuspendInfo_def pdi_inv_def env_fits_def
      dest: dm_inv_pkg split: option.split)

lemma CheckQuotaTime_cases:
  obtains (full) "length (pdi_requestList p) \<ge> MAX_REQUEST_ID"
      "CheckQuotaTime e name p = (ERR_BGTASK_EXCEEDS_THRESHOLD, False, p)"
  | (ok) "length (pdi_requestList p) < MAX_REQUEST_ID"
      "pdi_quota (UpdateQuota e False p) \<ge> MIN_ALLOW_QUOTA_TIME"
      "CheckQuotaTime e name p = (ERR_OK, False, UpdateQuota e False p)"
  | (exempt) "length (pdi_requestList p) < MAX_REQUEST_ID" "e_exempted e name"
      "pdi_quota (UpdateQuota e False p) < MIN_ALLOW_QUOTA_TIME"
      "CheckQuotaTime e name p = (ERR_OK, True, UpdateQuota e False p)"
  | (short) "length (pdi_requestList p) < MAX_REQUEST_ID" "\<not> e_exempted e name"
      "pdi_quota (UpdateQuota e False p) < MIN_ALLOW_QUOTA_TIME"
      "CheckQuotaTime e name p = (ERR_BGTASK_TIME_INSUFFICIENT, False, UpdateQuota e False p)"
proof (cases rule: IsAllowRequest_cases [of p e])
  case full
  with that(1) show ?thesis by (simp add: CheckQuotaTime_def)
next
  case ok
  with that(2) show ?thesis by (simp add: CheckQuotaTime_def)
next
  case short
  with that(3,4) show ?thesis by (cases "e_exempted e name") (simp_all add: CheckQuotaTime_def)
qed

lemma CheckQuotaTime_pkg:
  assumes "CheckQuotaTime e name p = (ret, need, p1)"
  shows "pdi_requestList p1 = pdi_requestList p"
    and "pkg_ok q k p \<Longrightarrow> q \<le> INT_MAX \<Longrightarrow> pkg_ok q k p1"
    and "ret = ERR_OK \<Longrightarrow> length (pdi_requestList p) < MAX_REQUEST_ID"
    and "ret = ERR_OK \<Longrightarrow> \<not> need \<Longrightarrow> pdi_quota p1 \<ge> MIN_ALLOW_QUOTA_TIME"
    and "need \<Longrightarrow> e_exempted e name"
    and "ret \<in> {ERR_OK, ERR_BGTASK_EXCEEDS_THRESHOLD, ERR_BGTASK_TIME_INSUFFICIENT}"
  using assms by (cases rule: CheckQuotaTime_cases [of p e name]; auto simp: pkg_ok_def pdi_inv_UpdateQuota)+

lemma Decide_succeeds_iff:
  assumes "dm_requestId dm < INT_MAX"
  shows "fst (Decide e dev (Some k) (Some d) dm) = ERR_OK \<longleftrightarrow>
    \<not> background_too_long e (key_of k) (ResetDayQuotaLocked e dm) \<and>
    length (pdi_requestList (decide_pkg e k (ResetDayQuotaLocked e dm))) < 3 \<and>
    (e_exempted e (ki_pkg k) \<or>
     16000 \<le> pdi_quota (UpdateQuota e False (decide_pkg e k (ResetDayQuotaLocked e dm))))"
  by (cases rule: CheckQuotaTime_cases [of "decide_pkg e k (ResetDayQuotaLocked e dm)" e "ki_pkg k"])
     (auto simp: Decide_eq [OF assms] Let_def MIN_ALLOW_QUOTA_TIME_def split: prod.splits)

lemma ids_ok_fresh: "ids_ok dm \<Longrightarrow> dm_requestId dm \<notin> dsi_requestId ` set (reqs_at dm k)"
  unfolding ids_ok_def requests_reqs by blast

lemma Decide_refused_accounts:
  assumes fits: "env_fits q e" and id: "dm_requestId dm < INT_MAX"
    and dec: "Decide e dev (Some k) (Some d) dm = (ret, r, dm')" and ret: "ret \<noteq> ERR_OK"
  shows "accounts_only q dm dm'"
proof -
  let ?dm1 = "ResetDayQuotaLocked e dm"
  obtain rt need p1 where c: "CheckQuotaTime e (ki_pkg k) (decide_pkg e k ?dm1) = (rt, need, p1)"
    by (metis prod_cases3)
  have d1: "accounts_only q dm ?dm1" using fits by (rule ResetDayQuotaLocked_accounts)
  have d2: "accounts_only q ?dm1 (dm_store (key_of k) (p1, []) ?dm1)" if inv: "dm_inv q ?dm1"
  proof (rule store_same_reqs_accounts)
    show "pdi_requestList p1 = reqs_at ?dm1 (key_of k)"
      using CheckQuotaTime_pkg(1) [OF c] by (simp add: decide_pkg_reqs)
    show "pkg_ok q (key_of k) p1"
      by (rule CheckQuotaTime_pkg(2) [OF c]) (simp_all add: decide_pkg_ok that fits env_fitsD [OF fits])
  qed
  have "dm' = ?dm1 \<or> dm' = dm_store (key_of k) (p1, []) ?dm1"
    using dec ret c by (auto simp: Decide_eq [OF id] Let_def split: if_splits prod.splits)
  with d1 d2 show ?thesis by (auto simp: accounts_only_def)
qed

text \<open>
  A granted request gets the next id, is filed under its package, and is otherwise the only
  change to the outstanding requests.
\<close>

lemma Decide_granted:
  assumes inv: "dm_inv q dm" and fits: "env_fits q e" and id: "dm_requestId dm < INT_MAX"
    and idle: "dsi_baseTime d = 0"
    and dec: "Decide e dev (Some k) (Some d) dm = (ERR_OK, r, dm')"
  shows "dm_inv q dm'" and "requests dm' = insert (key_of k, dm_requestId dm) (requests dm)"
    and "dm_requestId dm' = dm_requestId dm + 1"
    and "watchdog_armed (dm_calls dm') i = watchdog_armed (dm_calls dm) i"
    and "\<exists>g. r = Some g \<and> dsi_requestId g = dm_requestId dm"
proof -
  let ?dm1 = "ResetDayQuotaLocked e dm"
  obtain rt need p1 where c: "CheckQuotaTime e (ki_pkg k) (decide_pkg e k ?dm1) = (rt, need, p1)"
    by (metis prod_cases3)
  obtain g p2 where a: "AddRequest e (d\<lparr>dsi_requestId := dm_requestId dm\<rparr>) (GetDelayTime e dev) need p1 = (g, p2)"
    by (metis surj_pair)
  let ?dm2 = "dm_store (key_of k) (p1, []) ?dm1"
  let ?dm3 = "appended (key_of k) p2 ?dm2"
  let ?dm4 = "notify_granted k p2 ?dm3"
  have res: "rt = ERR_OK" "r = Some g" "dm' = start_granted e dev (key_of k) (dm_requestId dm) p2 ?dm4"
    using dec c a by (auto simp: Decide_eq [OF id] Let_def split: if_splits)
  have inv1: "dm_inv q ?dm1" and req1: "requests ?dm1 = requests dm"
    using ResetDayQuotaLocked_accounts [OF fits, of dm] inv by (simp_all add: accounts_only_def)
  have pk1: "pkg_ok q (key_of k) p1"
    by (rule CheckQuotaTime_pkg(2) [OF c]) (simp_all add: decide_pkg_ok inv1 fits env_fitsD [OF fits])
  have list1: "pdi_requestList p1 = reqs_at ?dm1 (key_of k)"
    using CheckQuotaTime_pkg(1) [OF c] by (simp add: decide_pkg_reqs)
  have acc2: "accounts_only q ?dm1 ?dm2"
    using list1 pk1 by (rule store_same_reqs_accounts)
  have inv2: "dm_inv q ?dm2" and req2: "requests ?dm2 = requests dm"
    using acc2 inv1 req1 by (simp_all add: accounts_only_def)
  have g: "dsi_requestId g = dm_requestId dm" "dsi_baseTime g = 0"
      "pdi_requestList p2 = pdi_requestList p1 @ [g]"
      "pdi_pkg p2 = pdi_pkg p1" "pdi_uid p2 = pdi_uid p1" "pdi_quota p2 = pdi_quota p1"
    using a idle by (auto simp: AddRequest_def Let_def split: if_splits)
  have list2: "pdi_requestList p2 = reqs_at ?dm2 (key_of k) @ [g]"
    using g(3) by (simp add: reqs_at_store dm_invD(1) [OF inv1])
  have "dm_requestId dm \<notin> set (ids p1)"
    using ids_ok_fresh [OF dm_invD(3) [OF inv1], of "key_of k"] list1 by simp
  moreover have "length (pdi_requestList p1) < MAX_REQUEST_ID"
    using CheckQuotaTime_pkg(1,3) [OF c] res(1) by simp
  ultimately have pk2: "pkg_ok q (key_of k) p2"
    using pk1 g by (simp add: pkg_ok_def pdi_inv_def)
  have inv3: "dm_inv q ?dm3"
    using inv2 list2 _ g(2) pk2 by (rule appended_inv) (simp add: g(1))
  have req3: "requests ?dm3 = insert (key_of k, dm_requestId dm) (requests dm)"
    using appended_requests [OF dm_invD(1) [OF inv2] list2] g(1) req2 by simp
  have acc4: "accounts_only q ?dm3 dm'"
    unfolding res(3)
    by (rule accounts_only_trans [OF notify_granted_accounts start_granted_accounts [OF _ fits]])
       (simp add: dm_invD(1) [OF inv2])
  show "dm_inv q dm'" "requests dm' = insert (key_of k, dm_requestId dm) (requests dm)"
    "dm_requestId dm' = dm_requestId dm + 1"
    "watchdog_armed (dm_calls dm') i = watchdog_armed (dm_calls dm) i"
    using acc4 inv3 req3 by (simp_all add: accounts_only_def)
  show "\<exists>g. r = Some g \<and> dsi_requestId g = dm_requestId dm" using res(2) g(1) by simp
qed

section \<open>Removing a request\<close>

lemma dm_RemoveRequest_unknown:
  "map_of (dm_pkgMap dm) (key_of k) = None \<Longrightarrow> dm_RemoveRequest e (Some k) rid dm = dm"
  by (simp add: dm_RemoveRequest_def)

lemma remove_store:
  assumes inv: "dm_inv q dm" and fits: "env_fits q e" and p: "map_of (dm_pkgMap dm) k = Some p"
  shows "dm_inv q (dm_store k (pdi_RemoveRequest e rid p) dm)"
    and "requests (dm_store k (pdi_RemoveRequest e rid p) dm) = requests dm - {(k, rid)}"
proof -
  show "dm_inv q (dm_store k (pdi_RemoveRequest e rid p) dm)"
    using inv p by (rule remove.store_inv) (use fits in \<open>auto dest: env_fitsD\<close>)
  have "set (ids (fst (pdi_RemoveRequest e rid p))) = set (ids p) - {rid}"
    using dm_inv_pkg_distinct [OF inv p]
    by (auto simp: pdi_RemoveRequest_eq removed_def Let_def filter_empty_conv)
  then have "(k', i) \<in> requests (dm_store k (pdi_RemoveRequest e rid p) dm) \<longleftrightarrow>
      (k', i) \<in> requests dm - {(k, rid)}" for k' i
    unfolding requests_store [OF dm_invD(1) [OF inv]] by (cases "k' = k") (auto simp: requests_def p)
  then show "requests (dm_store k (pdi_RemoveRequest e rid p) dm) = requests dm - {(k, rid)}" by auto
qed

lemma dm_RemoveRequest_effect:
  assumes inv: "dm_inv q dm" and fits: "env_fits q e"
  shows "dm_inv q (dm_RemoveRequest e (Some k) rid dm)"
    and "requests (dm_RemoveRequest e (Some k) rid dm) = requests dm - {(key_of k, rid)}"
    and "dm_requestId (dm_RemoveRequest e (Some k) rid dm) = dm_requestId dm"
    and "watchdog_armed (dm_calls (dm_RemoveRequest e (Some k) rid dm)) i = watchdog_armed (dm_calls dm) i"
proof -
  have "dm_inv q (dm_RemoveRequest e (Some k) rid dm) \<and>
    requests (dm_RemoveRequest e (Some k) rid dm) = requests dm - {(key_of k, rid)} \<and>
    dm_requestId (dm_RemoveRequest e (Some k) rid dm) = dm_requestId dm \<and>
    watchdog_armed (dm_calls (dm_RemoveRequest e (Some k) rid dm)) i = watchdog_armed (dm_calls dm) i"
  proof (cases "map_of (dm_pkgMap dm) (key_of k)")
    case None
    then show ?thesis using inv by (simp add: dm_RemoveRequest_unknown) (simp add: requests_def)
  next
    case (Some p)
    note r = remove_store [OF inv fits Some, of rid]
    have "watchdog_armed (dm_calls dm @ snd (pdi_RemoveRequest e rid p)) i = watchdog_armed (dm_calls dm) i"
      using remove.op_watchdog_frame [OF dm_inv_pkg_distinct [OF inv Some]] .
    with r Some show ?thesis
      by (simp add: dm_RemoveRequest_def Let_def dm_inv_emit_notify watchdog_armed_append)
  qed
  then show "dm_inv q (dm_RemoveRequest e (Some k) rid dm)"
    "requests (dm_RemoveRequest e (Some k) rid dm) = requests dm - {(key_of k, rid)}"
    "dm_requestId (dm_RemoveRequest e (Some k) rid dm) = dm_requestId dm"
    "watchdog_armed (dm_calls (dm_RemoveRequest e (Some k) rid dm)) i = watchdog_armed (dm_calls dm) i"
    by simp_all
qed

end
