(* ===== verification/TransientInv.thy ===== *)
theory TransientInv
  imports BgTransientTaskMgr DecisionInv
begin

text \<open>
  The invariant of the transient task manager: its two tables, the decision maker and the
  event queues agree. Every operation and every delivered event keeps it, so it holds in all
  reachable states of the step relation \<open>tm_step\<close>.
\<close>

section \<open>Invariant\<close>

definition tm_table :: "BgTransientTaskMgr \<Rightarrow> (pkg_key \<times> int) set" where
  "tm_table m = {(key_of k, i) | k i. map_of (tm_keyInfoMap m) i = Some k}"

definition tm_tables_ok :: "BgTransientTaskMgr \<Rightarrow> bool" where
  "tm_tables_ok m \<longleftrightarrow> om_wf (tm_expiredCallbackMap m) \<and> om_wf (tm_keyInfoMap m) \<and>
     dom (map_of (tm_expiredCallbackMap m)) = dom (map_of (tm_keyInfoMap m)) \<and>
     inj_on (map_of (tm_expiredCallbackMap m)) (dom (map_of (tm_expiredCallbackMap m)))"

definition tm_watchdogs_ok :: "BgTransientTaskMgr \<Rightarrow> bool" where
  "tm_watchdogs_ok m \<longleftrightarrow> (\<forall>i. watchdog_armed (tm_calls m) i \<longrightarrow> i \<in> dom (map_of (tm_keyInfoMap m)))"

definition tm_inv :: "int \<Rightarrow> BgTransientTaskMgr \<Rightarrow> bool" where
  "tm_inv q m \<longleftrightarrow> tm_tables_ok m \<and> tm_watchdogs_ok m \<and> dm_inv q (tm_decisionMaker m) \<and>
     requests (tm_decisionMaker m) = tm_table m \<and> distinct (tm_subscriberList m) \<and>
     tm_listenerList m = [ListenDeviceInfo, ListenDecisionMaker]"

lemma tm_invD:
  "tm_inv q m \<Longrightarrow> tm_tables_ok m"
  "tm_inv q m \<Longrightarrow> tm_watchdogs_ok m"
  "tm_inv q m \<Longrightarrow> dm_inv q (tm_decisionMaker m)"
  "tm_inv q m \<Longrightarrow> requests (tm_decisionMaker m) = tm_table m"
  by (simp_all add: tm_inv_def)

lemma tm_counting_known:
  assumes "tm_inv q m" and "i \<in> counting (tm_decisionMaker m)"
  shows "i \<in> dom (map_of (tm_keyInfoMap m))"
  using counting_requests [OF assms(2)] tm_invD(4) [OF assms(1)] by (auto simp: tm_table_def)

lemma in_tm_table: "(x, i) \<in> tm_table m \<longleftrightarrow> (\<exists>k. map_of (tm_keyInfoMap m) i = Some k \<and> x = key_of k)"
  by (auto simp: tm_table_def)

lemma tm_tables_frame [simp]:
  "tm_tables_ok (m\<lparr>tm_decisionMaker := dm\<rparr>) = tm_tables_ok m"
  "tm_table (m\<lparr>tm_decisionMaker := dm\<rparr>) = tm_table m"
  "tm_tables_ok (m\<lparr>tm_subscriberList := subs\<rparr>) = tm_tables_ok m"
  "tm_table (m\<lparr>tm_subscriberList := subs\<rparr>) = tm_table m"
  by (simp_all add: tm_tables_ok_def tm_table_def)

text \<open>A change that leaves the tables alone and only accounts keeps the invariant.\<close>

lemma tm_inv_accounts:
  assumes "tm_inv q m" and "accounts_only q (tm_decisionMaker m) dm"
  shows "tm_inv q (m\<lparr>tm_decisionMaker := dm\<rparr>)"
  using assms by (simp add: tm_inv_def accounts_only_def tm_watchdogs_ok_def)

lemma tm_inv_frame [simp]:
  "tm_inv q (m\<lparr>tm_deviceInfoManeger := dev\<rparr>) = tm_inv q m"
  "tm_inv q (m\<lparr>tm_transientPauseUid := us\<rparr>) = tm_inv q m"
  by (simp_all add: tm_inv_def tm_tables_ok_def tm_watchdogs_ok_def tm_table_def)

text \<open>Exchanging the history of calls for one that looks the same to timers.\<close>

lemma dm_inv_recall:
  assumes "dm_inv q dm" and "\<And>j. timer_armed cs j = timer_armed (dm_calls dm) j"
    and "\<And>j. j \<in> counting dm \<Longrightarrow> watchdog_armed (dm_calls dm) j \<Longrightarrow> watchdog_armed cs j"
  shows "dm_inv q (dm\<lparr>dm_calls := cs\<rparr>)"
proof -
  have v: "requests (dm\<lparr>dm_calls := cs\<rparr>) = requests dm" "counting (dm\<lparr>dm_calls := cs\<rparr>) = counting dm"
    "pkgs_ok q (dm\<lparr>dm_calls := cs\<rparr>) = pkgs_ok q dm"
    by (simp_all add: requests_def counting_def pkgs_ok_def)
  with assms show ?thesis
    by (auto simp: dm_inv_def dm_wf_def ids_ok_def timers_ok_def guarded_def)
qed

lemma emit_recall: "emit cs dm = dm\<lparr>dm_calls := dm_calls dm @ cs\<rparr>"
  by (simp add: emit_def)

lemma requests_recall [simp]: "requests (dm\<lparr>dm_calls := cs\<rparr>) = requests dm"
  by (simp add: requests_def)

lemma counting_recall [simp]: "counting (dm\<lparr>dm_calls := cs\<rparr>) = counting dm"
  by (simp add: counting_def)

text \<open>A call that is none of the timer's or watchdog's.\<close>

definition quiet :: "call \<Rightarrow> bool" where
  "quiet c \<longleftrightarrow> (\<forall>j b. timer_step j b c = b \<and> watchdog_step j b c = b)"

lemma quiet_calls [simp]:
  "quiet (AddDeathRecipient r)" "quiet (RemoveDeathRecipient r)" "quiet (OnExpired r)"
  "quiet (PublishBattery b)" "quiet (NotifySubscribers ty a)"
  by (simp_all add: quiet_def)

lemma tm_inv_quiet:
  assumes "quiet c"
  shows "tm_inv q (tm_emit [c] m) = tm_inv q m"
  using assms
  by (auto simp: tm_inv_def tm_emit_def quiet_def tm_tables_ok_def tm_watchdogs_ok_def tm_table_def
      dm_inv_def dm_wf_def ids_ok_def timers_ok_def guarded_def)

lemma tm_emit_fields [simp]:
  "tm_isReady (tm_emit cs m) = tm_isReady m"
  "tm_expiredCallbackMap (tm_emit cs m) = tm_expiredCallbackMap m"
  "tm_keyInfoMap (tm_emit cs m) = tm_keyInfoMap m"
  "tm_subscriberList (tm_emit cs m) = tm_subscriberList m"
  "tm_listenerList (tm_emit cs m) = tm_listenerList m"
  "tm_deviceInfoManeger (tm_emit cs m) = tm_deviceInfoManeger m"
  "tm_transientPauseUid (tm_emit cs m) = tm_transientPauseUid m"
  "tm_decisionMaker (tm_emit cs m) = emit cs (tm_decisionMaker m)"
  by (simp_all add: tm_emit_def)

section \<open>Removing a request\<close>

text \<open>The calls made by a removal do not depend on the history before it.\<close>

lemma dm_RemoveRequest_calls:
  assumes "dm_inv q dm"
  obtains cs where
    "\<And>c. dm_RemoveRequest e (Some k) i (emit c dm) =
          (dm_RemoveRequest e (Some k) i dm)\<lparr>dm_calls := dm_calls dm @ c @ cs\<rparr>"
    "dm_calls (dm_RemoveRequest e (Some k) i dm) = dm_calls dm @ cs"
    "\<And>c j. watchdog_armed (c @ cs) j = watchdog_armed c j"
proof (cases "map_of (dm_pkgMap dm) (key_of k)")
  case None
  with that [of "[]"] show ?thesis by (simp add: dm_RemoveRequest_def emit_def)
next
  case (Some p)
  let ?r = "pdi_RemoveRequest e i p"
  let ?cs = "snd ?r @ [NotifySubscribers TASK_END (app_info (ki_pkg k) (ki_uid k) (ki_pid k))] @
    (if pdi_requestList (fst ?r) = [] then [NotifySubscribers APP_TASK_END (app_info (ki_pkg k) (ki_uid k) (-1))]
     else [])"
  have "watchdog_armed (c @ snd ?r) j = watchdog_armed c j" for c j
    using dm_inv_pkg_distinct [OF assms Some] by (rule remove.op_watchdog_frame)
  with that [of ?cs] Some show ?thesis
    by (simp add: dm_RemoveRequest_def emit_def dm_store_def Let_def watchdog_armed_append)
qed

text \<open>
  Calls that silence the watchdog of request \<open>i\<close> and touch nothing else, followed by the
  removal of the request.
\<close>

definition silences :: "int \<Rightarrow> call list \<Rightarrow> bool" where
  "silences i c \<longleftrightarrow> (\<forall>j b. foldl (timer_step j) b c = b) \<and>
     (\<forall>j b. foldl (watchdog_step j) b c = (b \<and> j \<noteq> i))"

lemma silences_cancel [simp]:
  "silences i [RemoveWatchdog i]" "silences i [WatchdogFired i, RemoveWatchdog i]"
  by (auto simp: silences_def)

lemma silenced_removal:
  assumes inv: "tm_inv q m" and fits: "env_fits q e" and k: "map_of (tm_keyInfoMap m) i = Some k"
    and c: "silences i c"
  defines "dm \<equiv> tm_decisionMaker m"
  defines "dm' \<equiv> dm_RemoveRequest e (Some k) i (emit c dm)"
  shows "dm_inv q dm'" and "requests dm' = requests dm - {(key_of k, i)}"
    and "watchdog_armed (dm_calls dm') j \<longleftrightarrow> watchdog_armed (dm_calls dm) j \<and> j \<noteq> i"
    and "dm_requestId dm' = dm_requestId dm"
proof -
  have d: "dm_inv q dm" unfolding dm_def using inv by (rule tm_invD)
  obtain cs where cs: "\<And>c. dm_RemoveRequest e (Some k) i (emit c dm) =
        (dm_RemoveRequest e (Some k) i dm)\<lparr>dm_calls := dm_calls dm @ c @ cs\<rparr>"
    "dm_calls (dm_RemoveRequest e (Some k) i dm) = dm_calls dm @ cs"
    "\<And>c j. watchdog_armed (c @ cs) j = watchdog_armed c j"
    using dm_RemoveRequest_calls [OF d, of e k i] by blast
  note eff = dm_RemoveRequest_effect [OF d fits, of k i]
  have t: "timer_armed (dm_calls dm @ c @ cs) j = timer_armed (dm_calls dm @ cs) j" for j
    using c by (simp add: silences_def timer_armed_append)
  have w: "watchdog_armed (dm_calls dm @ c @ cs) j \<longleftrightarrow> watchdog_armed (dm_calls dm) j \<and> j \<noteq> i" for j
    using c cs(3) [of "dm_calls dm @ c" j] by (simp add: silences_def watchdog_armed_append)
  have gone: "i \<notin> counting (dm_RemoveRequest e (Some k) i dm)"
  proof
    assume "i \<in> counting (dm_RemoveRequest e (Some k) i dm)"
    then obtain k' where "(k', i) \<in> requests dm - {(key_of k, i)}"
      using counting_requests eff(2) by blast
    moreover have "(key_of k, i) \<in> requests dm"
      using k tm_invD(4) [OF inv] by (auto simp: dm_def tm_table_def)
    ultimately show False using dm_invD(3) [OF d] by (auto simp: ids_ok_def)
  qed
  show "dm_inv q dm'"
    unfolding dm'_def cs(1)
  proof (rule dm_inv_recall [OF eff(1)])
    fix j
    show "timer_armed (dm_calls dm @ c @ cs) j = timer_armed (dm_calls (dm_RemoveRequest e (Some k) i dm)) j"
      by (simp only: t cs(2))
    assume "j \<in> counting (dm_RemoveRequest e (Some k) i dm)"
      "watchdog_armed (dm_calls (dm_RemoveRequest e (Some k) i dm)) j"
    with gone show "watchdog_armed (dm_calls dm @ c @ cs) j" using eff(4) w by auto
  qed
  show "requests dm' = requests dm - {(key_of k, i)}" "dm_requestId dm' = dm_requestId dm"
    unfolding dm'_def cs(1) using eff by simp_all
  show "watchdog_armed (dm_calls dm') j \<longleftrightarrow> watchdog_armed (dm_calls dm) j \<and> j \<noteq> i"
    unfolding dm'_def cs(1) using w by simp
qed

text \<open>Dropping the rows of request \<open>i\<close> together with the request.\<close>

lemma tm_inv_drop:
  assumes inv: "tm_inv q m" and fits: "env_fits q e" and k: "map_of (tm_keyInfoMap m) i = Some k"
    and c: "silences i c"
  shows "tm_inv q (m\<lparr>tm_decisionMaker := dm_RemoveRequest e (Some k) i (emit c (tm_decisionMaker m)),
      tm_keyInfoMap := om_del i (tm_keyInfoMap m),
      tm_expiredCallbackMap := om_del i (tm_expiredCallbackMap m)\<rparr>)" (is "tm_inv q ?m")
proof -
  note r = silenced_removal [OF inv fits k c]
  have "tm_tables_ok ?m"
    using tm_invD(1) [OF inv] by (auto simp: tm_tables_ok_def inj_on_def dom_def)
  moreover have "tm_watchdogs_ok ?m"
    using tm_invD(2) [OF inv] r(3) by (auto simp: tm_watchdogs_ok_def)
  moreover have "tm_table ?m = tm_table m - {(key_of k, i)}"
  proof -
    have "(x, j) \<in> tm_table ?m \<longleftrightarrow> (x, j) \<in> tm_table m - {(key_of k, i)}" for x j
      using k by (auto simp: in_tm_table)
    then show ?thesis by auto
  qed
  ultimately show ?thesis
    using inv r(1,2) by (simp add: tm_inv_def)
qed

lemma tm_callback_of_key:
  assumes "tm_inv q m" and "map_of (tm_keyInfoMap m) i = Some k"
  obtains r where "map_of (tm_expiredCallbackMap m) i = Some r"
proof -
  have "i \<in> dom (map_of (tm_expiredCallbackMap m))"
    using assms(2) tm_invD(1) [OF assms(1)] by (auto simp: tm_tables_ok_def)
  with that show ?thesis by blast
qed

lemma tm_key_of_callback:
  assumes "tm_inv q m" and "map_of (tm_expiredCallbackMap m) i = Some r"
  obtains k where "map_of (tm_keyInfoMap m) i = Some k"
proof -
  have "i \<in> dom (map_of (tm_keyInfoMap m))"
    using assms(2) tm_invD(1) [OF assms(1)] by (auto simp: tm_tables_ok_def)
  with that show ?thesis by blast
qed

section \<open>The operations keep the invariant\<close>

text \<open>What a cancellation does when the request is known.\<close>

lemma CancelSuspendDelayLocked_known:
  assumes "map_of (tm_keyInfoMap m) i = Some k" and "map_of (tm_expiredCallbackMap m) i = Some r"
  shows "CancelSuspendDelayLocked e i (tm_emit c m) =
    (ERR_OK, tm_emit [RemoveDeathRecipient r]
      (m\<lparr>tm_decisionMaker := dm_RemoveRequest e (Some k) i (emit (c @ [RemoveWatchdog i]) (tm_decisionMaker m)),
         tm_keyInfoMap := om_del i (tm_keyInfoMap m),
         tm_expiredCallbackMap := om_del i (tm_expiredCallbackMap m)\<rparr>))"
  using assms by (simp add: CancelSuspendDelayLocked_def Let_def tm_emit_def emit_def)

lemma cancel_inv:
  assumes inv: "tm_inv q m" and fits: "env_fits q e" and k: "map_of (tm_keyInfoMap m) i = Some k"
    and c: "silences i (c @ [RemoveWatchdog i])"
  shows "tm_inv q (snd (CancelSuspendDelayLocked e i (tm_emit c m)))"
    and "tm_table (snd (CancelSuspendDelayLocked e i (tm_emit c m))) = tm_table m - {(key_of k, i)}"
proof -
  obtain r where r: "map_of (tm_expiredCallbackMap m) i = Some r"
    using tm_callback_of_key [OF inv k] .
  note drop = tm_inv_drop [OF inv fits k c]
  show "tm_inv q (snd (CancelSuspendDelayLocked e i (tm_emit c m)))"
    using drop by (simp add: CancelSuspendDelayLocked_known [OF k r] tm_inv_quiet)
  have "(x, j) \<in> tm_table (snd (CancelSuspendDelayLocked e i (tm_emit c m))) \<longleftrightarrow>
      (x, j) \<in> tm_table m - {(key_of k, i)}" for x j
    using k by (auto simp: in_tm_table CancelSuspendDelayLocked_known [OF k r])
  then show "tm_table (snd (CancelSuspendDelayLocked e i (tm_emit c m))) = tm_table m - {(key_of k, i)}"
    by auto
qed

lemma tm_emit_Nil [simp]: "tm_emit [] m = m"
  by (simp add: tm_emit_def emit_def)

lemma cancel_known_inv:
  "tm_inv q m \<Longrightarrow> env_fits q e \<Longrightarrow> map_of (tm_keyInfoMap m) i = Some k \<Longrightarrow>
   tm_inv q (snd (CancelSuspendDelayLocked e i m))"
  using cancel_inv(1) [of q m e i k "[]"] by simp

text \<open>Cancelling an id that is no longer in the tables, as a stale list of ids may, changes nothing.\<close>

lemma CancelSuspendDelayLocked_unknown:
  assumes "tm_inv q m" and "map_of (tm_keyInfoMap m) i = None"
  shows "CancelSuspendDelayLocked e i m = (ERR_BGTASK_CALLBACK_NOT_EXIST, tm_emit [RemoveWatchdog i] m)"
proof -
  have "map_of (tm_expiredCallbackMap m) i = None"
    using assms tm_invD(1) [OF assms(1)] by (metis tm_tables_ok_def domIff)
  moreover have "om_del i (tm_keyInfoMap m) = tm_keyInfoMap m"
    using assms(2) unfolding om_del_def map_of_eq_None_iff by (induction "tm_keyInfoMap m") (auto intro: filter_True)
  ultimately show ?thesis
    using assms(2) by (simp add: CancelSuspendDelayLocked_def Let_def tm_emit_def dm_RemoveRequest_def)
qed

lemma cancel_unknown_inv:
  assumes inv: "tm_inv q m" and "map_of (tm_keyInfoMap m) i = None"
  shows "tm_inv q (tm_emit [RemoveWatchdog i] m)"
proof -
  have "dm_inv q (emit [RemoveWatchdog i] (tm_decisionMaker m))"
    unfolding emit_recall
  proof (rule dm_inv_recall [OF tm_invD(3) [OF inv]])
    fix j
    assume "j \<in> counting (tm_decisionMaker m)" "watchdog_armed (tm_calls m) j"
    with tm_counting_known [OF inv] assms(2) show "watchdog_armed (tm_calls m @ [RemoveWatchdog i]) j"
      by auto
  qed simp
  with inv show ?thesis
    by (auto simp: tm_inv_def tm_emit_def tm_watchdogs_ok_def)
qed

lemma CancelSuspendDelayLocked_inv [inv_intros]:
  "tm_inv q m \<Longrightarrow> env_fits q e \<Longrightarrow> tm_inv q (snd (CancelSuspendDelayLocked e i m))"
  by (cases "map_of (tm_keyInfoMap m) i")
     (simp_all add: CancelSuspendDelayLocked_unknown cancel_unknown_inv cancel_known_inv)

lemma cancel_all_inv: "tm_inv q m \<Longrightarrow> env_fits q e \<Longrightarrow> tm_inv q (cancel_all e is m)"
  by (induction e "is" m rule: cancel_all.induct) (simp_all add: CancelSuspendDelayLocked_inv)

lemma CancelSuspendDelay_inv [inv_intros]:
  "tm_inv q m \<Longrightarrow> env_fits q e \<Longrightarrow> tm_inv q (snd (CancelSuspendDelay e i m))"
  by (simp add: CancelSuspendDelay_def CancelSuspendDelayLocked_inv split: option.split)

lemma OnAppCacheStateChanged_inv [inv_intros]:
  "tm_inv q m \<Longrightarrow> env_fits q e \<Longrightarrow> tm_inv q (OnAppCacheStateChanged e uid pid b m)"
  by (simp add: OnAppCacheStateChanged_def Let_def cancel_all_inv)

lemma Watchdog_ProcessEvent_inv [inv_intros]:
  assumes inv: "tm_inv q m" and fits: "env_fits q e" and armed: "watchdog_armed (tm_calls m) i"
  shows "tm_inv q (Watchdog_ProcessEvent e i m)"
proof -
  obtain k where k: "map_of (tm_keyInfoMap m) i = Some k"
    using tm_invD(2) [OF inv] armed by (auto simp: tm_watchdogs_ok_def)
  with cancel_inv(1) [OF inv fits k, of "[WatchdogFired i]"] show ?thesis
    by (simp add: Watchdog_ProcessEvent_def ForceCancelSuspendDelay_def)
qed

lemma find_callback:
  assumes "om_wf t" and "find (\<lambda>(_, r). r = x) t = Some (i, y)"
  shows "map_of t i = Some x"
proof -
  have "(i, y) \<in> set t \<and> y = x"
    using assms(2) unfolding find_Some_iff by (metis (mono_tags, lifting) case_prod_conv nth_mem)
  with assms(1) show ?thesis by (simp add: map_of_SomeD_om)
qed

lemma HandleExpiredCallbackDeath_inv [inv_intros]:
  assumes inv: "tm_inv q m" and fits: "env_fits q e"
  shows "tm_inv q (HandleExpiredCallbackDeath e rem m)"
proof (cases rem)
  case None
  with inv show ?thesis by (simp add: HandleExpiredCallbackDeath_def)
next
  case (Some remote)
  show ?thesis
  proof (cases "find (\<lambda>(_, r). r = remote) (tm_expiredCallbackMap m)")
    case None
    with inv Some show ?thesis by (simp add: HandleExpiredCallbackDeath_def)
  next
    case (Some row)
    then obtain i y where r: "find (\<lambda>(_, r). r = remote) (tm_expiredCallbackMap m) = Some (i, y)"
      by (metis surj_pair)
    have "om_wf (tm_expiredCallbackMap m)" using tm_invD(1) [OF inv] by (simp add: tm_tables_ok_def)
    then obtain k where k: "map_of (tm_keyInfoMap m) i = Some k"
      using tm_key_of_callback [OF inv] find_callback [OF _ r] by blast
    have "HandleExpiredCallbackDeath e rem m =
        m\<lparr>tm_decisionMaker := dm_RemoveRequest e (Some k) i (emit [RemoveWatchdog i] (tm_decisionMaker m)),
          tm_keyInfoMap := om_del i (tm_keyInfoMap m),
          tm_expiredCallbackMap := om_del i (tm_expiredCallbackMap m)\<rparr>"
      using \<open>rem = Some remote\<close> r k by (simp add: HandleExpiredCallbackDeath_def Let_def tm_emit_def)
    with tm_inv_drop [OF inv fits k silences_cancel(1)] show ?thesis by simp
  qed
qed

lemma timer_delivery:
  assumes inv: "tm_inv q m" and armed: "timer_armed (tm_calls m) i"
  obtains k r where "map_of (tm_keyInfoMap m) i = Some k" "map_of (tm_expiredCallbackMap m) i = Some r"
    "TimerManager_ProcessEvent i m =
      m\<lparr>tm_decisionMaker := emit [TimerFired i, OnExpired r, AddWatchdog i k WATCHDOG_DELAY_TIME] (tm_decisionMaker m)\<rparr>"
proof -
  have "i \<in> counting (tm_decisionMaker m)"
    using tm_invD(3) [OF inv] armed by (auto simp: dm_inv_def timers_ok_def)
  with tm_counting_known [OF inv] obtain k where k: "map_of (tm_keyInfoMap m) i = Some k" by blast
  then obtain r where r: "map_of (tm_expiredCallbackMap m) i = Some r" using tm_callback_of_key [OF inv] by blast
  show ?thesis
    using k r
    by (intro that [OF k r])
       (simp add: TimerManager_ProcessEvent_def HandleRequestExpired_def Let_def tm_emit_def emit_def)
qed

lemma TimerManager_ProcessEvent_inv [inv_intros]:
  assumes inv: "tm_inv q m" and armed: "timer_armed (tm_calls m) i"
  shows "tm_inv q (TimerManager_ProcessEvent i m)"
proof -
  obtain k r where kr: "map_of (tm_keyInfoMap m) i = Some k" "map_of (tm_expiredCallbackMap m) i = Some r"
    "TimerManager_ProcessEvent i m =
      m\<lparr>tm_decisionMaker := emit [TimerFired i, OnExpired r, AddWatchdog i k WATCHDOG_DELAY_TIME] (tm_decisionMaker m)\<rparr>"
    using timer_delivery [OF assms] .
  have "dm_inv q (emit [TimerFired i, OnExpired r, AddWatchdog i k WATCHDOG_DELAY_TIME] (tm_decisionMaker m))"
    using tm_invD(3) [OF inv]
    by (auto simp: dm_inv_def dm_wf_def ids_ok_def timers_ok_def guarded_def timer_armed_append watchdog_armed_append)
  then show ?thesis
    using inv kr by (auto simp: tm_inv_def tm_watchdogs_ok_def watchdog_armed_append)
qed

lemma CancelSuspendDelayLocked_table:
  assumes inv: "tm_inv q m" and fits: "env_fits q e"
  shows "tm_table (snd (CancelSuspendDelayLocked e i m)) = tm_table m - {(k, j). j = i}"
proof (cases "map_of (tm_keyInfoMap m) i")
  case None
  then have "(x, i) \<notin> tm_table m" for x by (simp add: in_tm_table)
  with None show ?thesis
    by (auto simp: CancelSuspendDelayLocked_unknown [OF inv] tm_emit_def)
next
  case (Some k)
  then have "x = key_of k" if "(x, i) \<in> tm_table m" for x using that by (simp add: in_tm_table)
  with cancel_inv(2) [OF inv fits Some, of "[]"] show ?thesis by auto
qed

lemma cancel_all_table:
  "tm_inv q m \<Longrightarrow> env_fits q e \<Longrightarrow> tm_table (cancel_all e is m) = tm_table m - {(k, i). i \<in> set is}"
proof (induction e "is" m rule: cancel_all.induct)
  case (2 e i "is" m)
  then show ?case
    using CancelSuspendDelayLocked_inv [of q m e i] CancelSuspendDelayLocked_table [of q m e i] by auto
qed simp

lemma GetRequestIdListByKey_set:
  "i \<in> set (GetRequestIdListByKey (Some k) dm) \<longleftrightarrow> (key_of k, i) \<in> requests dm"
  by (cases "map_of (dm_pkgMap dm) (key_of k)") (simp_all add: GetRequestIdListByKey_def requests_def)

subsection \<open>Requesting\<close>

abbreviation caller_key :: "env \<Rightarrow> string \<Rightarrow> KeyInfo" where
  "caller_key e name \<equiv> \<lparr>ki_pkg = name, ki_uid = e_callingUid e, ki_pid = e_callingPid e\<rparr>"

lemma IsCallingInfoLegal_OK:
  "IsCallingInfoLegal e uid pid cb = (ret, name) \<Longrightarrow>
   ret = ERR_OK \<longleftrightarrow> uid \<ge> 0 \<and> pid \<ge> 0 \<and> e_nameForUid e uid = Some name \<and> (\<exists>r. cb = Some (Some r))"
  by (auto simp: IsCallingInfoLegal_def VerifyCallingInfo_def GetBundleNamesForUid_def
      split: if_splits option.splits)

lemma RequestSuspendDelay_cases:
  assumes "RequestSuspendDelay e cb m = (ret, info, m')"
  obtains (early) "ret \<noteq> ERR_OK" "m' = m"
  | (refused) name dm' where "ret \<noteq> ERR_OK"
      "Decide e (tm_deviceInfoManeger m) (Some (caller_key e name))
         (Some (new_DelaySuspendInfoEx (e_callingPid e))) (tm_decisionMaker m) = (ret, info, dm')"
      "m' = m\<lparr>tm_decisionMaker := dm'\<rparr>"
  | (granted) name r dm' where "ret = ERR_OK" "cb = Some (Some r)"
      "e_nameForUid e (e_callingUid e) = Some name"
      "r \<notin> snd ` set (tm_expiredCallbackMap m)"
      "Decide e (tm_deviceInfoManeger m) (Some (caller_key e name))
         (Some (new_DelaySuspendInfoEx (e_callingPid e))) (tm_decisionMaker m) = (ERR_OK, info, dm')"
      "\<And>g. info = Some g \<Longrightarrow> m' =
         (if tm_deathRecipients m then tm_emit [AddDeathRecipient r] else id)
         (m\<lparr>tm_decisionMaker := dm',
            tm_expiredCallbackMap := om_put (dsi_requestId g) r (tm_expiredCallbackMap m),
            tm_keyInfoMap := om_put (dsi_requestId g) (caller_key e name) (tm_keyInfoMap m)\<rparr>)"
proof -
  obtain rt name where legal: "IsCallingInfoLegal e (e_callingUid e) (e_callingPid e) cb = (rt, name)"
    by (metis surj_pair)
  note ok = IsCallingInfoLegal_OK [OF legal]
  show ?thesis
  proof (cases "\<not> tm_isReady m \<or> rt \<noteq> ERR_OK \<or> (\<exists>r. cb = Some (Some r) \<and> list_ex (\<lambda>(_, r'). r' = r) (tm_expiredCallbackMap m))")
    case True
    then show ?thesis
      using assms legal ok by (intro early) (auto simp: RequestSuspendDelay_def Let_def split: if_splits)
  next
    case False
    then obtain r where r: "tm_isReady m" "rt = ERR_OK" "cb = Some (Some r)"
        "e_nameForUid e (e_callingUid e) = Some name"
        "\<not> list_ex (\<lambda>(_, r'). r' = r) (tm_expiredCallbackMap m)"
      using ok by blast
    obtain rd id dm' where d: "Decide e (tm_deviceInfoManeger m) (Some (caller_key e name))
         (Some (new_DelaySuspendInfoEx (e_callingPid e))) (tm_decisionMaker m) = (rd, id, dm')"
      by (metis prod_cases3)
    show ?thesis
    proof (cases "rd = ERR_OK")
      case False
      then show ?thesis
        using assms legal r d
        by (intro refused [of name dm']) (auto simp: RequestSuspendDelay_def Let_def)
    next
      case True
      have "r \<notin> snd ` set (tm_expiredCallbackMap m)" using r(5) by (auto simp: list_ex_iff)
      with True show ?thesis
        using assms legal r d
        by (intro granted [of r name dm'])
           (auto simp: RequestSuspendDelay_def Let_def split: option.splits)
    qed
  qed
qed

lemma new_DelaySuspendInfoEx_idle [simp]: "dsi_baseTime (new_DelaySuspendInfoEx pid) = 0"
  by (simp add: new_DelaySuspendInfoEx_def)

lemma tm_fresh_id:
  assumes "tm_inv q m"
  shows "map_of (tm_keyInfoMap m) (dm_requestId (tm_decisionMaker m)) = None"
proof (rule ccontr)
  assume "map_of (tm_keyInfoMap m) (dm_requestId (tm_decisionMaker m)) \<noteq> None"
  then obtain k' where "(key_of k', dm_requestId (tm_decisionMaker m)) \<in> requests (tm_decisionMaker m)"
    using tm_invD(4) [OF assms] by (auto simp: tm_table_def)
  with dm_invD(3) [OF tm_invD(3) [OF assms]] show False by (auto simp: ids_ok_def)
qed

text \<open>A grant adds one row to each table; the id is new to both.\<close>

lemma tm_inv_grant:
  assumes inv: "tm_inv q m" and d: "dm_inv q dm'"
    and req: "requests dm' = insert (key_of k, n) (requests (tm_decisionMaker m))"
    and w: "\<And>i. watchdog_armed (dm_calls dm') i = watchdog_armed (tm_calls m) i"
    and n: "n = dm_requestId (tm_decisionMaker m)" and r: "r \<notin> snd ` set (tm_expiredCallbackMap m)"
  shows "tm_inv q (m\<lparr>tm_decisionMaker := dm', tm_expiredCallbackMap := om_put n r (tm_expiredCallbackMap m),
      tm_keyInfoMap := om_put n k (tm_keyInfoMap m)\<rparr>)" (is "tm_inv q ?m")
proof -
  have ok: "om_wf (tm_expiredCallbackMap m)" "om_wf (tm_keyInfoMap m)"
      "dom (map_of (tm_expiredCallbackMap m)) = dom (map_of (tm_keyInfoMap m))"
      "inj_on (map_of (tm_expiredCallbackMap m)) (dom (map_of (tm_expiredCallbackMap m)))"
    using tm_invD(1) [OF inv] unfolding tm_tables_ok_def by blast+
  have r': "map_of (tm_expiredCallbackMap m) i \<noteq> Some r" for i
    using r by (metis map_of_SomeD snd_conv imageI)
  have fresh: "map_of (tm_keyInfoMap m) n = None"
    using tm_fresh_id [OF inv] n by simp
  have "tm_tables_ok ?m"
    using ok r' r' [symmetric] by (auto simp: tm_tables_ok_def inj_on_def)
  moreover have "tm_watchdogs_ok ?m"
    using tm_invD(2) [OF inv] w ok(2) by (auto simp: tm_watchdogs_ok_def)
  moreover have "requests dm' = tm_table ?m"
  proof -
    have "(x, j) \<in> tm_table ?m \<longleftrightarrow> (x, j) \<in> insert (key_of k, n) (tm_table m)" for x j
      using fresh ok(2) by (auto simp: in_tm_table)
    then have "tm_table ?m = insert (key_of k, n) (tm_table m)" by auto
    with req tm_invD(4) [OF inv] show ?thesis by simp
  qed
  ultimately show ?thesis using inv d by (simp add: tm_inv_def)
qed

lemma RequestSuspendDelay_inv [inv_intros]:
  assumes inv: "tm_inv q m" and fits: "env_fits q e"
    and id: "dm_requestId (tm_decisionMaker m) < INT_MAX"
  shows "tm_inv q (snd (snd (RequestSuspendDelay e cb m)))"
proof -
  obtain ret info m' where res: "RequestSuspendDelay e cb m = (ret, info, m')" by (metis prod_cases3)
  from res have "tm_inv q m'"
  proof (cases rule: RequestSuspendDelay_cases)
    case early
    with inv show ?thesis by simp
  next
    case (refused name dm')
    with Decide_refused_accounts [OF fits id] have "accounts_only q (tm_decisionMaker m) dm'" by blast
    with tm_inv_accounts [OF inv] refused(3) show ?thesis by simp
  next
    case (granted name r dm')
    note g = Decide_granted [OF tm_invD(3) [OF inv] fits id new_DelaySuspendInfoEx_idle granted(5)]
    obtain gr where gr: "info = Some gr" "dsi_requestId gr = dm_requestId (tm_decisionMaker m)"
      using g(5) by blast
    have "tm_inv q (m\<lparr>tm_decisionMaker := dm',
        tm_expiredCallbackMap := om_put (dsi_requestId gr) r (tm_expiredCallbackMap m),
        tm_keyInfoMap := om_put (dsi_requestId gr) (caller_key e name) (tm_keyInfoMap m)\<rparr>)"
      unfolding gr(2) using inv g(1,2,4) refl granted(4) by (rule tm_inv_grant)
    then show ?thesis using granted(6) [OF gr(1)] by (simp add: tm_inv_quiet)
  qed
  with res show ?thesis by simp
qed

lemma RequestSuspendDelay_OK_ready:
  "RequestSuspendDelay e cb m = (ERR_OK, info, m') \<Longrightarrow>
   tm_isReady m \<and> 0 \<le> e_callingUid e \<and> 0 \<le> e_callingPid e"
  by (auto simp: RequestSuspendDelay_def Let_def split: if_splits prod.splits dest: IsCallingInfoLegal_OK)

lemma RequestSuspendDelay_grantedE:
  assumes inv: "tm_inv q m" and fits: "env_fits q e" and id: "dm_requestId (tm_decisionMaker m) < INT_MAX"
    and res: "RequestSuspendDelay e cb m = (ERR_OK, Some g, m')"
  obtains name r where "e_nameForUid e (e_callingUid e) = Some name" "0 \<le> e_callingUid e"
      "tm_isReady m'" "tm_inv q m'" "map_of (tm_keyInfoMap m) (dsi_requestId g) = None"
      "map_of (tm_expiredCallbackMap m) (dsi_requestId g) = None"
      "map_of (tm_keyInfoMap m') = (map_of (tm_keyInfoMap m))(dsi_requestId g \<mapsto> caller_key e name)"
      "map_of (tm_expiredCallbackMap m') = (map_of (tm_expiredCallbackMap m))(dsi_requestId g \<mapsto> r)"
      "tm_table m' = insert (PkgKey name (e_callingUid e), dsi_requestId g) (tm_table m)"
  using res
proof (cases rule: RequestSuspendDelay_cases)
  case (granted name r dm')
  note d = Decide_granted [OF tm_invD(3) [OF inv] fits id new_DelaySuspendInfoEx_idle granted(5)]
  have i: "dsi_requestId g = dm_requestId (tm_decisionMaker m)" using d(5) by simp
  have inv': "tm_inv q m'" using RequestSuspendDelay_inv [OF inv fits id, of cb] res by simp
  have ok: "om_wf (tm_expiredCallbackMap m)" "om_wf (tm_keyInfoMap m)"
      "dom (map_of (tm_expiredCallbackMap m)) = dom (map_of (tm_keyInfoMap m))"
    using tm_invD(1) [OF inv] unfolding tm_tables_ok_def by blast+
  have new: "map_of (tm_keyInfoMap m) (dsi_requestId g) = None" using tm_fresh_id [OF inv] i by simp
  show ?thesis
  proof (rule that)
    show "tm_table m' = insert (PkgKey name (e_callingUid e), dsi_requestId g) (tm_table m)"
      using tm_invD(4) [OF inv] tm_invD(4) [OF inv'] d(2) i granted(6) [OF refl]
      by (simp add: key_of_def split: if_splits)
    show "map_of (tm_expiredCallbackMap m) (dsi_requestId g) = None" using new ok(3) by (metis domIff)
    show "0 \<le> e_callingUid e" "tm_isReady m'"
      using RequestSuspendDelay_OK_ready [OF res] granted(6) [OF refl] by simp_all
  qed (use inv' new granted(3) granted(6) [OF refl] ok in simp_all)
qed simp_all

subsection \<open>The other operations\<close>

lemma PauseTransientTaskTimeForInner_inv [inv_intros]:
  assumes "tm_inv q m" and "env_fits q e"
  shows "tm_inv q (snd (tm_PauseTransientTaskTimeForInner e uid m))"
proof -
  have "tm_inv q (m\<lparr>tm_decisionMaker := snd (dm_PauseTransientTaskTimeForInner e uid name (tm_decisionMaker m))\<rparr>)"
    for name
    using assms by (intro tm_inv_accounts PauseTransientTaskTimeForInner_accounts)
  with assms(1) show ?thesis
    by (auto simp: tm_PauseTransientTaskTimeForInner_def Let_def case_prod_beta split: option.split)
qed

lemma StartTransientTaskTimeForInner_inv [inv_intros]:
  assumes "tm_inv q m" and "env_fits q e"
  shows "tm_inv q (snd (tm_StartTransientTaskTimeForInner e uid m))"
proof -
  have "tm_inv q (m\<lparr>tm_decisionMaker :=
      snd (dm_StartTransientTaskTimeForInner e (tm_deviceInfoManeger m) uid name (tm_decisionMaker m))\<rparr>)"
    for name
    using assms by (intro tm_inv_accounts StartTransientTaskTimeForInner_accounts)
  with assms(1) show ?thesis
    by (auto simp: tm_StartTransientTaskTimeForInner_def Let_def case_prod_beta split: option.split)
qed

lemma restart_paused_accounts: "env_fits q e \<Longrightarrow> accounts_only q dm (restart_paused e dev uids dm)"
proof (induction e dev uids dm rule: restart_paused.induct)
  case (2 e dev uid uids dm)
  have "accounts_only q dm (case GetBundleNamesForUid e uid of None \<Rightarrow> dm
      | Some name \<Rightarrow> snd (dm_StartTransientTaskTimeForInner e dev uid name dm))"
    using 2 by (auto intro: StartTransientTaskTimeForInner_accounts split: option.split)
  with 2 show ?case by (auto intro: accounts_only_trans)
qed simp

lemma HandleSuspendManagerDie_inv [inv_intros]:
  "tm_inv q m \<Longrightarrow> env_fits q e \<Longrightarrow> tm_inv q (HandleSuspendManagerDie e m)"
  unfolding HandleSuspendManagerDie_def tm_inv_frame
  by (intro tm_inv_accounts restart_paused_accounts)

lemma tm_OnRemoveSystemAbility_inv [inv_intros]:
  "tm_inv q m \<Longrightarrow> env_fits q e \<Longrightarrow> tm_inv q (tm_OnRemoveSystemAbility e sa m)"
  by (simp add: tm_OnRemoveSystemAbility_def HandleSuspendManagerDie_inv split: system_ability.split)

lemma GetAllTransientTasks_inv [inv_intros]:
  assumes "tm_inv q m" and "env_fits q e"
  shows "tm_inv q (snd (snd (snd (GetAllTransientTasks e m))))"
proof -
  have "tm_inv q (m\<lparr>tm_decisionMaker := snd (GetQuota e key (tm_decisionMaker m))\<rparr>)" for key
    using assms by (intro tm_inv_accounts GetQuota_accounts)
  with assms(1) show ?thesis
    by (auto simp: GetAllTransientTasks_def Let_def case_prod_beta split: option.split)
qed

lemma tm_inv_subscribers:
  "tm_inv q m \<Longrightarrow> distinct subs \<Longrightarrow> tm_inv q (m\<lparr>tm_subscriberList := subs\<rparr>)"
  by (simp add: tm_inv_def tm_watchdogs_ok_def)

lemma tm_inv_distinct_subscribers: "tm_inv q m \<Longrightarrow> distinct (tm_subscriberList m)"
  by (simp add: tm_inv_def)

lemma subscriber_ops_inv [inv_intros]:
  assumes "tm_inv q m"
  shows "tm_inv q (tm_HandleSubscriberDeath rem m)"
    and "tm_inv q (snd (tm_SubscribeBackgroundTask sub m))"
    and "tm_inv q (snd (tm_UnsubscribeBackgroundTask sub m))"
  using assms tm_inv_distinct_subscribers [OF assms]
  by (auto simp: tm_HandleSubscriberDeath_def tm_SubscribeBackgroundTask_def Let_def
      tm_UnsubscribeBackgroundTask_def tm_inv_quiet split: option.split intro!: tm_inv_subscribers)

lemma dump_loop_accounts: "env_fits q e \<Longrightarrow> accounts_only q dm (snd (dump_loop e n table dm))"
proof (induction e n table dm rule: dump_loop.induct)
  case (2 e n i k table dm)
  then show ?case
    using GetQuota_accounts [of q e dm "Some k"]
    by (auto simp: Let_def split: prod.splits intro: accounts_only_trans)
qed simp

lemma tm_ShellDump_inv [inv_intros]:
  assumes "tm_inv q m" and "env_fits q e"
  shows "tm_inv q (snd (snd (tm_ShellDump e pub opts info m)))"
proof -
  have d: "tm_inv q (m\<lparr>tm_decisionMaker := snd (dump_loop e n t (tm_decisionMaker m))\<rparr>)" for n t
    using assms by (intro tm_inv_accounts dump_loop_accounts)
  have "tm_inv q (snd (DumpAllRequestId e info m))"
    using assms(1) d by (simp add: DumpAllRequestId_def case_prod_beta)
  moreover have "tm_inv q (snd (DumpTaskTime e opts b info m))" for b
    using PauseTransientTaskTimeForInner_inv [OF assms] StartTransientTaskTimeForInner_inv [OF assms] assms(1)
    by (simp add: DumpTaskTime_def Let_def case_prod_beta)
  ultimately show ?thesis
    using assms(1)
    by (simp add: tm_ShellDump_def Let_def SendBatteryEvent_def SetDump_def tm_inv_quiet)
qed

lemma dispatch_inv:
  "tm_inv q m \<Longrightarrow> env_fits q e \<Longrightarrow> dispatch e ev ls m = Some m' \<Longrightarrow> tm_inv q m'"
proof (induction e ev ls m rule: dispatch.induct)
  case (2 e ev ls m)
  then show ?case by (auto split: option.splits)
next
  case (3 e ev ls m)
  then show ?case by (auto intro!: tm_inv_accounts dm_OnInputEvent_accounts)
qed simp

section \<open>Runs\<close>

text \<open>The manager once the services it needs are up.\<close>

definition started_mgr :: BgTransientTaskMgr where
  "started_mgr = snd (tm_Init True (Some (\<lambda>_. True)) new_BgTransientTaskMgr)"

lemma started_mgr_inv: "tm_inv q started_mgr"
  by (simp add: started_mgr_def tm_Init_def InitNecessaryState_def new_BgTransientTaskMgr_def
      RegisterEventListener_def tm_inv_def tm_tables_ok_def tm_watchdogs_ok_def tm_table_def
      new_DecisionMaker_def dm_inv_def dm_wf_def pkgs_ok_def ids_ok_def requests_def timers_ok_def
      guarded_def counting_def)

text \<open>
  One step: a call of a client or of another service, a change of a process, a device event,
  or the delivery of a pending timer or watchdog event, at any time and in any order. A list
  of ids to cancel may be stale, because \<^verbatim>\<open>OnAppCacheStateChanged\<close> reads it before it takes the lock.
\<close>

inductive tm_step :: "int \<Rightarrow> BgTransientTaskMgr \<Rightarrow> BgTransientTaskMgr \<Rightarrow> bool" for q where
  request: "env_fits q e \<Longrightarrow> dm_requestId (tm_decisionMaker m) < INT_MAX \<Longrightarrow>
    tm_step q m (snd (snd (RequestSuspendDelay e cb m)))"
| cancel: "env_fits q e \<Longrightarrow> tm_step q m (snd (CancelSuspendDelay e i m))"
| stale_cancel: "env_fits q e \<Longrightarrow> tm_step q m (cancel_all e is m)"
| app_cache: "env_fits q e \<Longrightarrow> tm_step q m (OnAppCacheStateChanged e uid pid b m)"
| pause: "env_fits q e \<Longrightarrow> tm_step q m (snd (tm_PauseTransientTaskTimeForInner e uid m))"
| start: "env_fits q e \<Longrightarrow> tm_step q m (snd (tm_StartTransientTaskTimeForInner e uid m))"
| ability_removed: "env_fits q e \<Longrightarrow> tm_step q m (tm_OnRemoveSystemAbility e sa m)"
| tasks: "env_fits q e \<Longrightarrow> tm_step q m (snd (snd (snd (GetAllTransientTasks e m))))"
| callback_death: "env_fits q e \<Longrightarrow> tm_step q m (HandleExpiredCallbackDeath e rem m)"
| subscriber_death: "tm_step q m (tm_HandleSubscriberDeath rem m)"
| subscribe: "tm_step q m (snd (tm_SubscribeBackgroundTask sub m))"
| unsubscribe: "tm_step q m (snd (tm_UnsubscribeBackgroundTask sub m))"
| dump: "env_fits q e \<Longrightarrow> tm_step q m (snd (snd (tm_ShellDump e pub opts info m)))"
| process_state: "env_fits q e \<Longrightarrow> tm_step q m
    (m\<lparr>tm_decisionMaker := OnProcessStateChanged e (tm_deviceInfoManeger m) b uid pid st (tm_decisionMaker m)\<rparr>)"
| process_died: "env_fits q e \<Longrightarrow> tm_step q m
    (m\<lparr>tm_decisionMaker := OnProcessDied e (tm_deviceInfoManeger m) b uid pid (tm_decisionMaker m)\<rparr>)"
| input: "env_fits q e \<Longrightarrow> InputManager_ProcessEvent e ev m = Some m' \<Longrightarrow> tm_step q m m'"
| timer: "timer_armed (tm_calls m) i \<Longrightarrow> tm_step q m (TimerManager_ProcessEvent i m)"
| watchdog: "env_fits q e \<Longrightarrow> watchdog_armed (tm_calls m) i \<Longrightarrow> tm_step q m (Watchdog_ProcessEvent e i m)"

inductive tm_reachable :: "int \<Rightarrow> BgTransientTaskMgr \<Rightarrow> bool" for q where
  started: "tm_reachable q started_mgr"
| step: "tm_reachable q m \<Longrightarrow> tm_step q m m' \<Longrightarrow> tm_reachable q m'"

lemma tm_step_inv: "tm_step q m m' \<Longrightarrow> tm_inv q m \<Longrightarrow> tm_inv q m'"
proof (induction rule: tm_step.induct)
  case (process_state e m b uid pid st)
  then show ?case by (intro tm_inv_accounts OnProcessStateChanged_accounts)
next
  case (process_died e m b uid pid)
  then show ?case by (intro tm_inv_accounts OnProcessDied_accounts)
next
  case (input e ev m m')
  then show ?case by (auto simp: InputManager_ProcessEvent_def intro: dispatch_inv split: option.splits)
qed (simp_all add: inv_intros cancel_all_inv)

lemma tm_reachable_inv: "tm_reachable q m \<Longrightarrow> tm_inv q m"
  by (induction rule: tm_reachable.induct) (simp_all add: started_mgr_inv tm_step_inv)

end
