(* ===== verification/TransientDemo.thy ===== *)
theory TransientDemo
  imports TransientInv
begin

text \<open>A short run of the transient task manager, the concrete input of the examples.\<close>

section \<open>A concrete run\<close>

text \<open>An app with uid 100 asks for a task five seconds after boot, and a second app joins.\<close>

definition demo_env :: "int \<Rightarrow> env" where
  "demo_env t = default_env t 100 7"

definition demo_mgr :: BgTransientTaskMgr where
  "demo_mgr = snd (snd (RequestSuspendDelay (demo_env 5000) (Some (Some 1)) started_mgr))"

lemmas demo_defs = demo_mgr_def demo_env_def default_env_def started_mgr_def tm_Init_def
  InitNecessaryState_def new_BgTransientTaskMgr_def RegisterEventListener_def RequestSuspendDelay_def
  IsCallingInfoLegal_def VerifyCallingInfo_def GetBundleNamesForUid_def Decide_def Let_def
  ResetDayQuotaLocked_def IsAfterOneDay_def background_too_long_def CheckQuotaTime_def
  NewDelaySuspendRequestId_def GetDelayTime_def CanStartAccountingLocked_def IsUidForeground_def
  new_DeviceInfoManager_def new_DecisionMaker_def new_DelaySuspendInfoEx_def pdi_defs dsi_defs
  dm_store_def emit_def tm_emit_def key_of_def app_info_def env_simps i32_def IsSameRequestId_def
  advanceTime_def

lemma demo_fits: "0 < t \<Longrightarrow> env_fits 600000 (demo_env t)"
  by (simp add: env_fits_def demo_env_def default_env_def INIT_QUOTA_DEFAULT_def)

lemma demo_env_fields [simp]:
  "e_now (demo_env t) = t"
  "e_nameForUid (demo_env t) u = Some ''app''"
  "e_callingUid (demo_env t) = 100"
  "e_callingPid (demo_env t) = 7"
  by (simp_all add: demo_env_def default_env_def)

lemma demo_reachable: "tm_reachable 600000 demo_mgr"
  unfolding demo_mgr_def
  by (intro tm_reachable.step [OF tm_reachable.started] tm_step.request demo_fits)
     (simp_all add: started_mgr_def tm_Init_def InitNecessaryState_def new_DecisionMaker_def)

lemma demo_tables:
  "tm_keyInfoMap demo_mgr = [(1, \<lparr>ki_pkg = ''app'', ki_uid = 100, ki_pid = 7\<rparr>)]"
  "tm_expiredCallbackMap demo_mgr = [(1, 1)]"
  "tm_isReady demo_mgr"
  "dm_requestId (tm_decisionMaker demo_mgr) = 2"
  "timer_armed (tm_calls demo_mgr) 1"
  by (simp_all add: demo_defs timer_armed_def timer_step_def)

end
