(* ===== verification/TransientProps.thy ===== *)
theory TransientProps
  imports TransientDemo
begin

text \<open>
  What the transient task component promises: consistency of its tables in every reachable
  state and the effect of each client operation.
\<close>

section \<open>Consistency\<close>

text \<open>
  C1: in every reachable state the key table, the callback table and the decision maker hold
  the same requests, each under its package, and no callback serves two requests.
\<close>

theorem reachable_tables_agree:
  assumes "tm_reachable q m"
  shows "requests (tm_decisionMaker m) = {(key_of k, i) | k i. map_of (tm_keyInfoMap m) i = Some k} \<and>
    dom (map_of (tm_expiredCallbackMap m)) = dom (map_of (tm_keyInfoMap m)) \<and>
    inj_on (map_of (tm_expiredCallbackMap m)) (dom (map_of (tm_expiredCallbackMap m)))"
  using tm_reachable_inv [OF assms] unfolding tm_inv_def tm_tables_ok_def tm_table_def by blast

theorem reachable_tables_agree_witness:
  "requests (tm_decisionMaker demo_mgr) = {(PkgKey ''app'' 100, 1)}"
  using reachable_tables_agree [OF demo_reachable] by (simp add: demo_tables key_of_def)

text \<open>
  C2: in every reachable state a pending timer belongs to a request being accounted, every
  request being accounted has a pending timer or watchdog, and a pending watchdog belongs to
  an outstanding request.
\<close>

theorem reachable_timers_guard:
  assumes "tm_reachable q m"
  shows "(\<forall>i. timer_armed (tm_calls m) i \<longrightarrow> i \<in> counting (tm_decisionMaker m)) \<and>
    (\<forall>i \<in> counting (tm_decisionMaker m). timer_armed (tm_calls m) i \<or> watchdog_armed (tm_calls m) i) \<and>
    (\<forall>i. watchdog_armed (tm_calls m) i \<longrightarrow> i \<in> dom (map_of (tm_keyInfoMap m)))"
  using tm_reachable_inv [OF assms]
  by (simp add: tm_inv_def dm_inv_def timers_ok_def guarded_def tm_watchdogs_ok_def)

theorem reachable_timers_guard_witness: "1 \<in> counting (tm_decisionMaker demo_mgr)"
  using reachable_timers_guard [OF demo_reachable] demo_tables(5) by blast

text \<open>
  C3: in every reachable state each package has at most three requests and a quota between
  zero and the initial quota, and an id names one request of one package.
\<close>

theorem reachable_limits:
  assumes "tm_reachable q m" and "map_of (dm_pkgMap (tm_decisionMaker m)) k = Some p"
  shows "length (pdi_requestList p) \<le> 3 \<and> 0 \<le> pdi_quota p \<and> pdi_quota p \<le> q \<and> distinct (ids p) \<and>
    (\<forall>k' i. i \<in> set (ids p) \<and> (k', i) \<in> requests (tm_decisionMaker m) \<longrightarrow> k' = k)"
proof -
  note d = tm_invD(3) [OF tm_reachable_inv [OF assms(1)]]
  have "pdi_inv q p" using d assms(2) by (rule dm_inv_pkg_inv)
  moreover have "k' = k" if "i \<in> set (ids p)" "(k', i) \<in> requests (tm_decisionMaker m)" for k' i
  proof -
    have "(k, i) \<in> requests (tm_decisionMaker m)" using that(1) assms(2) by (simp add: requests_def)
    with that(2) dm_invD(3) [OF d] show ?thesis by (simp add: ids_ok_def)
  qed
  ultimately show ?thesis unfolding pdi_inv_def by blast
qed

theorem reachable_limits_witness:
  "\<exists>p. map_of (dm_pkgMap (tm_decisionMaker demo_mgr)) (PkgKey ''app'' 100) = Some p \<and>
       length (pdi_requestList p) \<le> 3 \<and> pdi_quota p \<le> 600000"
proof -
  have "(PkgKey ''app'' 100, 1) \<in> requests (tm_decisionMaker demo_mgr)"
    using tm_invD(4) [OF tm_reachable_inv [OF demo_reachable]] by (simp add: tm_table_def demo_tables key_of_def)
  then obtain p where "map_of (dm_pkgMap (tm_decisionMaker demo_mgr)) (PkgKey ''app'' 100) = Some p"
    by (auto simp: requests_def)
  with reachable_limits [OF demo_reachable this] show ?thesis by blast
qed

section \<open>Requests\<close>

text \<open>
  C4: a request that succeeds gets the next id, which no outstanding request has, and adds
  exactly one row to the key table, one to the callback table and one request to the decision
  maker, under the package of the caller.
\<close>

theorem request_granted:
  assumes "tm_reachable q m" and "env_fits q e" and "dm_requestId (tm_decisionMaker m) < INT_MAX"
    and "RequestSuspendDelay e cb m = (ERR_OK, info, m')"
  shows "\<exists>g name r. info = Some g \<and> cb = Some (Some r) \<and> e_nameForUid e (e_callingUid e) = Some name \<and>
    dsi_requestId g = dm_requestId (tm_decisionMaker m) \<and>
    map_of (tm_keyInfoMap m) (dsi_requestId g) = None \<and>
    map_of (tm_keyInfoMap m') = (map_of (tm_keyInfoMap m))(dsi_requestId g \<mapsto> caller_key e name) \<and>
    map_of (tm_expiredCallbackMap m') = (map_of (tm_expiredCallbackMap m))(dsi_requestId g \<mapsto> r) \<and>
    requests (tm_decisionMaker m') =
      insert (PkgKey name (e_callingUid e), dsi_requestId g) (requests (tm_decisionMaker m))"
proof -
  have inv: "tm_inv q m" using assms(1) by (rule tm_reachable_inv)
  note ok = tm_invD(1) [OF inv]
  from assms(4) show ?thesis
  proof (cases rule: RequestSuspendDelay_cases)
    case (granted name r dm')
    note g = Decide_granted [OF tm_invD(3) [OF inv] assms(2,3) new_DelaySuspendInfoEx_idle granted(5)]
    obtain gr where gr: "info = Some gr" "dsi_requestId gr = dm_requestId (tm_decisionMaker m)"
      using g(5) by blast
    have "map_of (tm_keyInfoMap m) (dsi_requestId gr) = None"
      using tm_fresh_id [OF inv] gr(2) by simp
    with gr granted(2,3) granted(6) [OF gr(1)] g(2) ok show ?thesis
      by (simp add: tm_tables_ok_def key_of_def)
  qed simp_all
qed

theorem request_granted_witness:
  "map_of (tm_keyInfoMap started_mgr) 1 = None \<and>
   requests (tm_decisionMaker demo_mgr) = insert (PkgKey ''app'' 100, 1) (requests (tm_decisionMaker started_mgr))"
proof -
  let ?r = "RequestSuspendDelay (demo_env 5000) (Some (Some 1)) started_mgr"
  have id: "dm_requestId (tm_decisionMaker started_mgr) = 1"
    by (simp add: started_mgr_def tm_Init_def InitNecessaryState_def new_DecisionMaker_def)
  have "fst ?r = ERR_OK" by (simp add: demo_defs)
  then have eq: "?r = (ERR_OK, fst (snd ?r), demo_mgr)" by (simp add: demo_mgr_def prod_eq_iff)
  have "dm_requestId (tm_decisionMaker started_mgr) < INT_MAX" by (simp add: id)
  from request_granted [OF tm_reachable.started demo_fits this eq] show ?thesis
    by (elim meta_impE exE conjE) (simp_all add: id)
qed

text \<open>C5: a request that fails leaves both tables, the outstanding requests and the next id as they were.\<close>

theorem request_refused:
  assumes "tm_reachable q m" and "env_fits q e" and "dm_requestId (tm_decisionMaker m) < INT_MAX"
    and "RequestSuspendDelay e cb m = (ret, info, m')" and "ret \<noteq> ERR_OK"
  shows "tm_keyInfoMap m' = tm_keyInfoMap m \<and> tm_expiredCallbackMap m' = tm_expiredCallbackMap m \<and>
    requests (tm_decisionMaker m') = requests (tm_decisionMaker m) \<and>
    dm_requestId (tm_decisionMaker m') = dm_requestId (tm_decisionMaker m)"
  using assms(4)
proof (cases rule: RequestSuspendDelay_cases)
  case (refused name dm')
  have "accounts_only q (tm_decisionMaker m) dm'"
    using assms(2,3) refused(2) assms(5) by (rule Decide_refused_accounts)
  then show ?thesis
    using tm_invD(3) [OF tm_reachable_inv [OF assms(1)]] refused(3) by (simp add: accounts_only_def)
qed (use assms(5) in simp_all)

theorem request_refused_witness:
  "tm_keyInfoMap (snd (snd (RequestSuspendDelay (demo_env 6000) (Some (Some 1)) demo_mgr))) = tm_keyInfoMap demo_mgr"
proof -
  have "fst (RequestSuspendDelay (demo_env 6000) (Some (Some 1)) demo_mgr) = ERR_BGTASK_CALLBACK_EXISTS"
    by (simp add: RequestSuspendDelay_def demo_tables Let_def IsCallingInfoLegal_def VerifyCallingInfo_def
        GetBundleNamesForUid_def demo_env_def default_env_def)
  then have "RequestSuspendDelay (demo_env 6000) (Some (Some 1)) demo_mgr =
      (ERR_BGTASK_CALLBACK_EXISTS, fst (snd (RequestSuspendDelay (demo_env 6000) (Some (Some 1)) demo_mgr)),
       snd (snd (RequestSuspendDelay (demo_env 6000) (Some (Some 1)) demo_mgr)))"
    by (simp add: prod_eq_iff)
  from request_refused [OF demo_reachable demo_fits _ this] show ?thesis by (simp add: demo_tables)
qed

text \<open>
  C6: a request succeeds exactly when the manager is ready, the caller is valid and known to
  the bundle manager, the callback is a live object that serves no other request, the app has
  not been in the background for too long, and its package has fewer than three requests and,
  unless it is exempted, at least sixteen seconds of quota left.
\<close>

theorem request_succeeds_iff:
  fixes e :: env and m :: BgTransientTaskMgr
  assumes "dm_requestId (tm_decisionMaker m) < INT_MAX"
  defines "dm1 \<equiv> ResetDayQuotaLocked e (tm_decisionMaker m)"
  shows "fst (RequestSuspendDelay e cb m) = ERR_OK \<longleftrightarrow>
    tm_isReady m \<and> 0 \<le> e_callingUid e \<and> 0 \<le> e_callingPid e \<and>
    (\<exists>r name. cb = Some (Some r) \<and> e_nameForUid e (e_callingUid e) = Some name \<and>
       r \<notin> snd ` set (tm_expiredCallbackMap m) \<and>
       \<not> background_too_long e (PkgKey name (e_callingUid e)) dm1 \<and>
       length (pdi_requestList (decide_pkg e (caller_key e name) dm1)) < 3 \<and>
       (e_exempted e name \<or>
        16000 \<le> pdi_quota (UpdateQuota e False (decide_pkg e (caller_key e name) dm1))))"
proof -
  obtain rt name where legal: "IsCallingInfoLegal e (e_callingUid e) (e_callingPid e) cb = (rt, name)"
    by (metis surj_pair)
  note ok = IsCallingInfoLegal_OK [OF legal]
  show ?thesis
  proof (cases "tm_isReady m \<and> rt = ERR_OK")
    case False
    then show ?thesis
      using legal
      by (auto simp: RequestSuspendDelay_def Let_def IsCallingInfoLegal_def VerifyCallingInfo_def
          GetBundleNamesForUid_def split: if_splits option.splits)
  next
    case True
    then obtain r where r: "cb = Some (Some r)" "e_nameForUid e (e_callingUid e) = Some name"
        "0 \<le> e_callingUid e" "0 \<le> e_callingPid e"
      using ok by blast
    have used: "list_ex (\<lambda>(_, r'). r' = r) (tm_expiredCallbackMap m) \<longleftrightarrow> r \<in> snd ` set (tm_expiredCallbackMap m)"
      by (force simp: list_ex_iff)
    have "fst (RequestSuspendDelay e cb m) = ERR_OK \<longleftrightarrow> r \<notin> snd ` set (tm_expiredCallbackMap m) \<and>
        fst (Decide e (tm_deviceInfoManeger m) (Some (caller_key e name))
              (Some (new_DelaySuspendInfoEx (e_callingPid e))) (tm_decisionMaker m)) = ERR_OK"
      using True legal r used
      by (auto simp: RequestSuspendDelay_def Let_def split: prod.splits option.splits)
    then show ?thesis
      using True r unfolding Decide_succeeds_iff [OF assms(1)] dm1_def by (auto simp: key_of_def)
  qed
qed

theorem request_succeeds_iff_witness:
  "fst (RequestSuspendDelay (demo_env 6000) (Some (Some 2)) demo_mgr) = ERR_OK \<and>
   fst (RequestSuspendDelay (demo_env 6000) (Some (Some 1)) demo_mgr) \<noteq> ERR_OK"
proof -
  have id: "dm_requestId (tm_decisionMaker demo_mgr) < INT_MAX" by (simp add: demo_tables)
  have "fst (RequestSuspendDelay (demo_env 6000) (Some (Some 1)) demo_mgr) \<noteq> ERR_OK"
    using request_succeeds_iff [OF id, of "demo_env 6000" "Some (Some 1)"] by (simp add: demo_tables)
  moreover have "fst (RequestSuspendDelay (demo_env 6000) (Some (Some 2)) demo_mgr) = ERR_OK"
    using request_succeeds_iff [OF id, of "demo_env 6000" "Some (Some 2)"]
    by (simp add: demo_tables) (simp add: demo_defs decide_pkg_def)
  ultimately show ?thesis by simp
qed

text \<open>
  C7: the delay granted is the smaller of the remaining quota and the delay of the power mode,
  and then at least sixteen seconds if that delay is; an exempted app without that quota gets
  the exempted quota plus the six seconds of the watchdog.
\<close>

theorem granted_delay:
  assumes "dm_requestId dm < INT_MAX" and "Decide e dev (Some k) (Some d) dm = (ERR_OK, Some g, dm')"
  defines "quota \<equiv> pdi_quota (UpdateQuota e False (decide_pkg e k (ResetDayQuotaLocked e dm)))"
  shows "(16000 \<le> quota \<and> dsi_actualDelayTime g = min quota (GetDelayTime e dev) \<and>
            min 16000 (GetDelayTime e dev) \<le> dsi_actualDelayTime g) \<or>
    (quota < 16000 \<and> e_exempted e (ki_pkg k) \<and> dsi_actualDelayTime g = i32 (e_exemptedQuota e + 6000))"
proof (cases rule: CheckQuotaTime_cases [of "decide_pkg e k (ResetDayQuotaLocked e dm)" e "ki_pkg k"])
  case ok
  then show ?thesis
    using assms(2) by (auto simp: Decide_eq [OF assms(1)] Let_def quota_def AddRequest_def
        MIN_ALLOW_QUOTA_TIME_def min_def split: if_splits)
next
  case exempt
  then show ?thesis
    using assms(2) by (auto simp: Decide_eq [OF assms(1)] Let_def quota_def AddRequest_def
        MIN_ALLOW_QUOTA_TIME_def WATCHDOG_DELAY_TIME_def split: if_splits)
qed (use assms(2) in \<open>auto simp: Decide_eq [OF assms(1)] Let_def AddRequest_def split: if_splits\<close>)

theorem granted_delay_witness:
  "\<exists>g dm'. Decide (demo_env 5000) new_DeviceInfoManager (Some (caller_key (demo_env 5000) ''app''))
       (Some (new_DelaySuspendInfoEx 7)) new_DecisionMaker = (ERR_OK, Some g, dm') \<and>
     dsi_actualDelayTime g = 180000"
proof -
  let ?k = "caller_key (demo_env 5000) ''app''"
  let ?r = "Decide (demo_env 5000) new_DeviceInfoManager (Some ?k) (Some (new_DelaySuspendInfoEx 7)) new_DecisionMaker"
  have id: "dm_requestId new_DecisionMaker < INT_MAX" by (simp add: new_DecisionMaker_def)
  have "fst ?r = ERR_OK" and "fst (snd ?r) \<noteq> None"
    by (simp_all add: demo_defs)
  then obtain g where eq: "?r = (ERR_OK, Some g, snd (snd ?r))" by (metis option.exhaust prod.collapse)
  have "pdi_quota (UpdateQuota (demo_env 5000) False (decide_pkg (demo_env 5000) ?k
      (ResetDayQuotaLocked (demo_env 5000) new_DecisionMaker))) = 600000"
    by (simp add: demo_defs decide_pkg_def)
  moreover have "GetDelayTime (demo_env 5000) new_DeviceInfoManager = 180000"
    by (simp add: demo_defs)
  ultimately have "dsi_actualDelayTime g = 180000"
    using granted_delay [OF id eq] by simp
  with eq show ?thesis by blast
qed

section \<open>Cancelling\<close>

text \<open>
  C8: cancelling a granted request by the same app succeeds and restores both tables and the
  outstanding requests to what they were before the request.
\<close>

theorem request_cancel_round_trip:
  assumes "tm_reachable q m" and "env_fits q e" and "dm_requestId (tm_decisionMaker m) < INT_MAX"
    and "RequestSuspendDelay e cb m = (ERR_OK, Some g, m')"
    and "env_fits q e'" and "e_callingUid e' = e_callingUid e" and "0 \<le> e_callingPid e'"
    and "e_nameForUid e' = e_nameForUid e"
  shows "\<exists>m''. CancelSuspendDelay e' (dsi_requestId g) m' = (ERR_OK, m'') \<and>
    map_of (tm_keyInfoMap m'') = map_of (tm_keyInfoMap m) \<and>
    map_of (tm_expiredCallbackMap m'') = map_of (tm_expiredCallbackMap m) \<and>
    requests (tm_decisionMaker m'') = requests (tm_decisionMaker m)"
proof -
  have inv: "tm_inv q m" using assms(1) by (rule tm_reachable_inv)
  obtain name r where gr: "e_nameForUid e (e_callingUid e) = Some name" "0 \<le> e_callingUid e"
      "tm_isReady m'" "tm_inv q m'" "map_of (tm_keyInfoMap m) (dsi_requestId g) = None"
      "map_of (tm_expiredCallbackMap m) (dsi_requestId g) = None"
      "map_of (tm_keyInfoMap m') = (map_of (tm_keyInfoMap m))(dsi_requestId g \<mapsto> caller_key e name)"
      "map_of (tm_expiredCallbackMap m') = (map_of (tm_expiredCallbackMap m))(dsi_requestId g \<mapsto> r)"
      "tm_table m' = insert (PkgKey name (e_callingUid e), dsi_requestId g) (tm_table m)"
    using RequestSuspendDelay_grantedE [OF inv assms(2-4)] .
  let ?i = "dsi_requestId g"
  have "VerifyRequestIdLocked m' name (e_callingUid e') ?i"
    using gr(7) assms(6) by (simp add: VerifyRequestIdLocked_def IsEqual_def)
  then have c: "CancelSuspendDelay e' ?i m' = CancelSuspendDelayLocked e' ?i m'"
    using gr(1-3) assms(6-8) by (simp add: CancelSuspendDelay_def VerifyCallingInfo_def GetBundleNamesForUid_def)
  have k: "map_of (tm_keyInfoMap m') ?i = Some (caller_key e name)" "map_of (tm_expiredCallbackMap m') ?i = Some r"
    using gr(7,8) by simp_all
  have fresh: "(x, ?i) \<notin> tm_table m" for x using gr(5) by (simp add: in_tm_table)
  let ?m = "snd (CancelSuspendDelayLocked e' ?i m')"
  have "tm_inv q ?m" "tm_table ?m = tm_table m' - {(PkgKey name (e_callingUid e), ?i)}"
    using cancel_inv [OF gr(4) assms(5) k(1), of "[]"] by (simp_all add: key_of_def)
  then have "requests (tm_decisionMaker ?m) = tm_table m" using gr(9) fresh by (auto dest: tm_invD(4))
  then show ?thesis
    using c tm_invD(4) [OF inv] gr(5-8) CancelSuspendDelayLocked_known [OF k, of e' "[]"] by (simp add: fun_upd_idem)
qed

theorem request_cancel_round_trip_witness:
  "\<exists>m''. CancelSuspendDelay (demo_env 6000) 1 demo_mgr = (ERR_OK, m'') \<and>
     map_of (tm_keyInfoMap m'') = map_of (tm_keyInfoMap started_mgr)"
proof -
  let ?r = "RequestSuspendDelay (demo_env 5000) (Some (Some 1)) started_mgr"
  have id: "dm_requestId (tm_decisionMaker started_mgr) < INT_MAX"
    by (simp add: started_mgr_def tm_Init_def InitNecessaryState_def new_DecisionMaker_def)
  have "fst ?r = ERR_OK" and g: "map_option dsi_requestId (fst (snd ?r)) = Some 1"
    by (simp_all add: demo_defs)
  then obtain g where eq: "?r = (ERR_OK, Some g, demo_mgr)" and "dsi_requestId g = 1"
    by (auto simp: demo_mgr_def prod_eq_iff)
  with request_cancel_round_trip [OF tm_reachable.started demo_fits id eq demo_fits [of 6000]]
  show ?thesis by (auto simp: demo_env_def default_env_def)
qed

text \<open>
  C9: only the app that owns a request can cancel it. A cancellation changes the state only if
  the row of the id is the caller's package and uid; otherwise it returns an error and changes
  nothing at all.
\<close>

theorem cancel_by_owner_only:
  assumes "\<not> (\<exists>k name. map_of (tm_keyInfoMap m) i = Some k \<and>
      e_nameForUid e (e_callingUid e) = Some name \<and> key_of k = PkgKey name (e_callingUid e))"
  shows "fst (CancelSuspendDelay e i m) \<noteq> ERR_OK \<and> snd (CancelSuspendDelay e i m) = m"
proof -
  have "\<not> VerifyRequestIdLocked m name (e_callingUid e) i"
    if "e_nameForUid e (e_callingUid e) = Some name" for name
    using assms that by (auto simp: VerifyRequestIdLocked_def IsEqual_key_of split: option.splits)
  then show ?thesis
    by (auto simp: CancelSuspendDelay_def GetBundleNamesForUid_def split: option.split)
qed

theorem cancel_by_owner_only_witness:
  "snd (CancelSuspendDelay (default_env 6000 200 8) 1 demo_mgr) = demo_mgr"
  using cancel_by_owner_only [of demo_mgr 1 "default_env 6000 200 8"]
  by (simp add: demo_tables key_of_def default_env_def)

text \<open>
  When an app enters the cache state, every request of its package is cancelled and no
  other request is touched.
\<close>

lemma app_cache_cancels_package:
  fixes b :: string
  assumes "tm_reachable q m" and "env_fits q e" and "tm_isReady m" and "0 \<le> uid" and "0 \<le> pid"
  defines "m' \<equiv> OnAppCacheStateChanged e uid pid b m"
  shows "requests (tm_decisionMaker m') =
      {(k, i). (k, i) \<in> requests (tm_decisionMaker m) \<and> k \<noteq> PkgKey b uid}"
proof -
  have inv: "tm_inv q m" using assms(1) by (rule tm_reachable_inv)
  let ?ids = "GetRequestIdListByKey (Some \<lparr>ki_pkg = b, ki_uid = uid, ki_pid = pid\<rparr>) (tm_decisionMaker m)"
  have m': "m' = cancel_all e ?ids m"
    using assms(3-5) by (simp add: m'_def OnAppCacheStateChanged_def Let_def VerifyCallingInfo_def)
  have t: "tm_table m' = tm_table m - {(k, i). i \<in> set ?ids}"
    unfolding m' by (rule cancel_all_table [OF inv assms(2)])
  have ids: "i \<in> set ?ids \<longleftrightarrow> (PkgKey b uid, i) \<in> tm_table m" for i
    using tm_invD(4) [OF inv] by (simp add: GetRequestIdListByKey_set key_of_def flip: tm_invD(4) [OF inv])
  have uniq: "k = PkgKey b uid" if "(k, i) \<in> tm_table m" "(PkgKey b uid, i) \<in> tm_table m" for k i
    using that dm_invD(3) [OF tm_invD(3) [OF inv]] tm_invD(4) [OF inv] by (auto simp: ids_ok_def)
  have "requests (tm_decisionMaker m') = tm_table m'"
    using cancel_all_inv [OF inv assms(2)] m' by (auto dest: tm_invD(4))
  also have "\<dots> = {(k, i). (k, i) \<in> tm_table m \<and> k \<noteq> PkgKey b uid}"
    unfolding t using ids uniq by auto
  finally show ?thesis using tm_invD(4) [OF inv] by simp
qed

end
