(* ===== verification/TransientTime.thy ===== *)
theory TransientTime
  imports TransientDemo
begin

text \<open>
  Accounting of time by the transient tasks: the remaining time of a request, the deadlines of
  its callback and watchdog, the daily quota of a package, and how the screen and the state of
  a process switch accounting on and off.
\<close>

section \<open>Time\<close>

text \<open>
  C11: the time left of a request is the delay it was granted less the time during which it was
  being accounted, as a stop watch would measure it from the switches alone, whatever the
  number and order of those switches, as long as the values fit 32 bits.
\<close>

theorem remaining_time_is_stop_watch:
  assumes "clock_ordered evs" and "\<forall>ev \<in> set evs. ev_time ev \<le> t"
    and "dsi_baseTime d = 0" and "dsi_spendTime d = 0"
    and "accounted evs t \<le> INT_MAX" and "0 \<le> dsi_actualDelayTime d" and "dsi_actualDelayTime d \<le> INT_MAX"
  shows "GetRemainDelayTime t (acct_run d evs) = max 0 (dsi_actualDelayTime d - accounted evs t)"
proof -
  have "0 \<le> accounted evs t" by (simp add: accounted_def)
  with assms(5-7) have "is_i32 (accounted evs t)" "is_i32 (dsi_actualDelayTime d - accounted evs t)"
    by (simp_all add: is_i32_def)
  then show ?thesis
    unfolding GetRemainDelayTime_spent spent_accounted [OF assms(1-4)] by simp
qed

theorem remaining_time_is_stop_watch_witness:
  "GetRemainDelayTime 40 (acct_run \<lparr>dsi_requestId = 1, dsi_actualDelayTime = 100, dsi_pid = 7,
     dsi_baseTime = 0, dsi_spendTime = 0\<rparr> [AcctOn 10, AcctOff 15, AcctOn 30]) = 85"
proof -
  let ?e = "[AcctOn 10, AcctOff 15, AcctOn 30]"
  have "{s. s < 40 \<and> accounted_at ?e s} = {10..<15} \<union> {30..<40}" by auto
  moreover have "card ({10..<15} \<union> {30..<40::int}) = 15"
    by (subst card_Un_disjoint) auto
  ultimately have "accounted ?e 40 = 15" unfolding accounted_def by simp
  with remaining_time_is_stop_watch [of ?e 40 "\<lparr>dsi_requestId = 1, dsi_actualDelayTime = 100, dsi_pid = 7,
     dsi_baseTime = 0, dsi_spendTime = 0\<rparr>"] show ?thesis
    by (simp add: clock_ordered_def)
qed



text \<open>
  C13: when the timer of a request is delivered, its callback is told and a watchdog is set;
  when the watchdog is delivered in turn, the request is gone from both tables and from the
  decision maker, and no timer or watchdog of it is left.
\<close>

theorem expiry_cancels:
  assumes "tm_reachable q m" and "timer_armed (tm_calls m) i" and "env_fits q e"
  defines "m1 \<equiv> TimerManager_ProcessEvent i m"
  defines "m2 \<equiv> Watchdog_ProcessEvent e i m1"
  shows "(\<exists>r. map_of (tm_expiredCallbackMap m) i = Some r \<and> OnExpired r \<in> set (tm_calls m1)) \<and>
    watchdog_armed (tm_calls m1) i \<and> map_of (tm_keyInfoMap m2) i = None \<and>
    map_of (tm_expiredCallbackMap m2) i = None \<and> (\<forall>k. (k, i) \<notin> requests (tm_decisionMaker m2)) \<and>
    \<not> timer_armed (tm_calls m2) i \<and> \<not> watchdog_armed (tm_calls m2) i"
proof -
  have inv: "tm_inv q m" using assms(1) by (rule tm_reachable_inv)
  obtain k r where row: "map_of (tm_keyInfoMap m) i = Some k" "map_of (tm_expiredCallbackMap m) i = Some r"
    "m1 = m\<lparr>tm_decisionMaker := emit [TimerFired i, OnExpired r, AddWatchdog i k WATCHDOG_DELAY_TIME] (tm_decisionMaker m)\<rparr>"
    using timer_delivery [OF inv assms(2)] unfolding m1_def .
  have inv1: "tm_inv q m1" unfolding m1_def using inv assms(2) by (rule TimerManager_ProcessEvent_inv)
  have w: "watchdog_armed (tm_calls m1) i" by (simp add: row(3) watchdog_armed_append)
  have inv2: "tm_inv q m2" unfolding m2_def using inv1 assms(3) w by (rule Watchdog_ProcessEvent_inv)
  have k1: "map_of (tm_keyInfoMap m1) i = Some k" "map_of (tm_expiredCallbackMap m1) i = Some r"
    using row by simp_all
  have gone: "map_of (tm_keyInfoMap m2) i = None" "map_of (tm_expiredCallbackMap m2) i = None"
    using CancelSuspendDelayLocked_known [OF k1, of e "[WatchdogFired i]"] k1
    by (simp_all add: m2_def Watchdog_ProcessEvent_def ForceCancelSuspendDelay_def)
  then have "(x, i) \<notin> requests (tm_decisionMaker m2)" for x
    using tm_invD(4) [OF inv2] by (simp add: in_tm_table)
  moreover have "i \<notin> counting (tm_decisionMaker m2)" using tm_counting_known [OF inv2] gone(1) by auto
  then have "\<not> timer_armed (tm_calls m2) i"
    using tm_invD(3) [OF inv2] by (auto simp: dm_inv_def timers_ok_def)
  moreover have "\<not> watchdog_armed (tm_calls m2) i"
    using tm_invD(2) [OF inv2] gone(1) by (auto simp: tm_watchdogs_ok_def)
  ultimately show ?thesis using w gone row by simp
qed

theorem expiry_cancels_witness:
  "map_of (tm_keyInfoMap (Watchdog_ProcessEvent (demo_env 185000) 1 (TimerManager_ProcessEvent 1 demo_mgr))) 1 = None"
  using expiry_cancels [OF demo_reachable demo_tables(5) demo_fits, of 185000] by simp

section \<open>The quota of a package\<close>

lemma i32_diff: "i32 (i32 a - i32 b - c) = i32 (a - b - c)"
proof -
  obtain x y where "a = i32 a + x * 4294967296" "b = i32 b + y * 4294967296"
    using i32_congruent by metis
  then have "a - b - c = (i32 a - i32 b - c) + (x - y) * 4294967296" by (simp add: algebra_simps)
  then show ?thesis by (simp only: i32_shift)
qed

text \<open>Once a package is being accounted, starting more of its requests changes neither quota nor base time.\<close>

lemma start_while_counting:
  "pdi_isCounting p \<Longrightarrow>
   pdi_isCounting (fst (pdi_StartAccounting e rid p)) \<and>
   pdi_quota (fst (pdi_StartAccounting e rid p)) = pdi_quota p \<and>
   pdi_baseTime (fst (pdi_StartAccounting e rid p)) = pdi_baseTime p \<and>
   pdi_pkg (fst (pdi_StartAccounting e rid p)) = pdi_pkg p"
  by (simp add: pdi_StartAccounting_eq begin_counting_def)

lemma starts_while_counting:
  "pdi_isCounting p \<Longrightarrow>
   pdi_isCounting (foldl (\<lambda>p (e, rid). fst (pdi_StartAccounting e rid p)) p js) \<and>
   pdi_quota (foldl (\<lambda>p (e, rid). fst (pdi_StartAccounting e rid p)) p js) = pdi_quota p \<and>
   pdi_baseTime (foldl (\<lambda>p (e, rid). fst (pdi_StartAccounting e rid p)) p js) = pdi_baseTime p \<and>
   pdi_pkg (foldl (\<lambda>p (e, rid). fst (pdi_StartAccounting e rid p)) p js) = pdi_pkg p"
proof (induction js arbitrary: p)
  case (Cons j js)
  obtain e rid where "j = (e, rid)" by (cases j)
  with Cons.IH [of "fst (pdi_StartAccounting e rid p)"] start_while_counting [OF Cons.prems, of e rid]
  show ?case by simp
qed simp



text \<open>
  C15: more than a day after the last reset, the record on which a request is decided has the
  full quota again, whether its package still has requests or not; before that, the reset
  changes nothing.
\<close>

theorem daily_quota:
  assumes "dm_inv q dm"
  shows "if e_now e - dm_lastRequestTime dm > e_quotaUpdate e
    then pdi_quota (decide_pkg e k (ResetDayQuotaLocked e dm)) = e_initQuota e \<and>
         dm_lastRequestTime (ResetDayQuotaLocked e dm) = e_now e
    else ResetDayQuotaLocked e dm = dm"
proof -
  have "distinct (map fst (dm_pkgMap dm))"
    using dm_invD(1) [OF assms] by (simp add: dm_wf_def om_wf_distinct)
  then show ?thesis
    by (auto simp: ResetDayQuotaLocked_def IsAfterOneDay_def decide_pkg_def reset_quota_loop_get
        new_PkgDelaySuspendInfo_def UpdateQuota_def Let_def split: option.splits)
qed

theorem daily_quota_witness:
  "pdi_quota (decide_pkg (demo_env 90000000) (caller_key (demo_env 90000000) ''app'')
     (ResetDayQuotaLocked (demo_env 90000000) (tm_decisionMaker demo_mgr))) = 600000"
proof -
  have "dm_lastRequestTime (tm_decisionMaker demo_mgr) = 0" by (simp add: demo_defs)
  moreover have "e_quotaUpdate (demo_env 90000000) = 86400000" "e_initQuota (demo_env 90000000) = 600000"
    by (simp_all add: demo_env_def env_simps)
  ultimately show ?thesis
    using daily_quota [OF tm_invD(3) [OF tm_reachable_inv [OF demo_reachable]], of "demo_env 90000000"] by simp
qed

section \<open>What switches accounting\<close>

lemma screen_off_loop_get:
  assumes "\<not> di_isScreenOn dev"
  shows "distinct ks \<Longrightarrow> dm_wf dm \<Longrightarrow>
    map_of (dm_pkgMap (screen_off_loop e dev paused ks dm)) k =
      (if k \<in> set ks
       then map_option (\<lambda>p. if pdi_uid p \<in> paused then p else fst (pdi_StartAccounting e (-1) p))
              (map_of (dm_pkgMap dm) k)
       else map_of (dm_pkgMap dm) k)"
proof (induction ks arbitrary: dm)
  case (Cons k' ks)
  let ?dm = "case map_of (dm_pkgMap dm) k' of None \<Rightarrow> dm
      | Some p \<Rightarrow> if pdi_uid p \<in> paused then dm
          else if CanStartAccountingLocked dev dm p then dm_store k' (pdi_StartAccounting e (-1) p) dm else dm"
  have "dm_wf ?dm" using Cons.prems by (auto split: option.split)
  with Cons.IH [of ?dm] Cons.prems assms show ?case
    by (auto simp: CanStartAccountingLocked_def split: option.splits)
qed simp

lemma HandleScreenOff_get:
  assumes "\<not> di_isScreenOn dev" and "dm_wf dm"
  shows "map_of (dm_pkgMap (HandleScreenOff e dev paused dm)) k =
    map_option (\<lambda>p. if pdi_uid p \<in> paused then p else fst (pdi_StartAccounting e (-1) p))
      (map_of (dm_pkgMap dm) k)"
proof -
  have d: "distinct (map fst (dm_pkgMap dm))" using assms(2) by (simp add: dm_wf_def om_wf_distinct)
  have "map_of (dm_pkgMap dm) k = None" if "k \<notin> set (map fst (dm_pkgMap dm))"
    using that by (simp add: map_of_eq_None_iff)
  then show ?thesis
    unfolding HandleScreenOff_def screen_off_loop_get [OF assms(1) d assms(2)] by auto
qed

text \<open>
  After the screen goes off, every request of every package whose uid was not paused by the
  suspend manager is being accounted.
\<close>

lemma screen_off_accounts_all:
  assumes "tm_reachable q m" and "env_fits q e" and "\<not> di_isDump (tm_deviceInfoManeger m)"
  shows "\<exists>m'. InputManager_ProcessEvent e (Some (OnReceiveEvent COMMON_EVENT_SCREEN_OFF c s)) m = Some m' \<and>
    (\<forall>k p d. map_of (dm_pkgMap (tm_decisionMaker m')) k = Some p \<and> d \<in> set (pdi_requestList p) \<and>
       pdi_uid p \<notin> tm_transientPauseUid m \<longrightarrow> dsi_baseTime d \<noteq> 0)"
proof -
  have inv: "tm_inv q m" using assms(1) by (rule tm_reachable_inv)
  let ?ev = "OnReceiveEvent COMMON_EVENT_SCREEN_OFF c s"
  let ?dev = "dev_switch EVENT_SCREEN_OFF (tm_deviceInfoManeger m)"
  let ?dm = "HandleScreenOff e ?dev (tm_transientPauseUid m) (tm_decisionMaker m)"
  have wf: "dm_wf (tm_decisionMaker m)" using tm_invD(3) [OF inv] by (rule dm_invD)
  have res: "InputManager_ProcessEvent e (Some ?ev) m =
      Some (m\<lparr>tm_deviceInfoManeger := ?dev, tm_decisionMaker := ?dm\<rparr>)"
    using inv assms(3)
    by (simp add: tm_inv_def InputManager_ProcessEvent_def OnReceiveEvent_def dev_OnInputEvent_def dm_OnInputEvent_def)
  have "dsi_baseTime d \<noteq> 0"
    if p: "map_of (dm_pkgMap ?dm) k = Some p" and d: "d \<in> set (pdi_requestList p)"
      and u: "pdi_uid p \<notin> tm_transientPauseUid m" for k p d
  proof -
    have off: "\<not> di_isScreenOn ?dev" by (simp add: dev_switch_def)
    obtain p0 where p0: "p = (if pdi_uid p0 \<in> tm_transientPauseUid m then p0 else fst (pdi_StartAccounting e (-1) p0))"
      using p unfolding HandleScreenOff_get [OF off wf] map_option_eq_Some by blast
    with u have "p = fst (pdi_StartAccounting e (-1) p0)" by (auto split: if_splits)
    with d obtain d0 where "d = started e (-1) d0" by (auto simp: pdi_StartAccounting_eq)
    then show ?thesis using assms(2) by (simp add: started_counting selected_def env_fits_def)
  qed
  with res show ?thesis by auto
qed

text \<open>
  When a process of an app comes to the foreground, the uid counts as foreground, none of
  the requests of the app is accounted any more and their timers are gone; no request is lost.
\<close>

lemma foreground_stops_accounting:
  fixes b :: string and uid pid :: int
  assumes "tm_reachable q m" and "env_fits q e"
  defines "dm \<equiv> tm_decisionMaker m"
  defines "dm' \<equiv> OnProcessStateChanged e (tm_deviceInfoManeger m) b uid pid APP_STATE_FOREGROUND dm"
  shows "IsUidForeground dm' uid \<and> requests dm' = requests dm \<and>
    (\<forall>i. (PkgKey b uid, i) \<in> requests dm \<longrightarrow> i \<notin> counting dm' \<and> \<not> timer_armed (dm_calls dm') i)"
proof -
  have inv: "dm_inv q dm" unfolding dm_def using tm_reachable_inv [OF assms(1)] by (rule tm_invD)
  let ?dm1 = "UpdateForegroundUidPidMap uid pid True dm"
  have acc: "accounts_only q dm dm'"
    unfolding dm'_def using assms(2) by (rule OnProcessStateChanged_accounts)
  have inv': "dm_inv q dm'" and req: "requests dm' = requests dm" using acc inv by (simp_all add: accounts_only_def)
  have wf1: "dm_wf ?dm1" using UpdateForegroundUidPidMap_accounts inv by (blast dest: accounts_only_inv dm_invD)
  have fg: "IsUidForeground dm' uid"
    using dm_invD(1) [OF inv]
    by (auto simp: dm'_def OnProcessStateChanged_def HandleStateChange_def UpdateForegroundUidPidMap_def
        IsUidForeground_def Let_def dm_wf_def split: option.split)
  have "i \<notin> counting dm'" if "(PkgKey b uid, i) \<in> requests dm" for i
  proof -
    have "(PkgKey b uid, i) \<in> requests dm'" using that req by simp
    then obtain p' where p': "map_of (dm_pkgMap dm') (PkgKey b uid) = Some p'" "i \<in> set (ids p')"
      by (auto simp: requests_def)
    have "counting_ids p' = {}"
      using p'(1) wf1
      by (auto simp: dm'_def OnProcessStateChanged_def HandleStateChange_def Let_def split: option.splits)
    with counting_local [OF dm_invD(3) [OF inv'] p'] show ?thesis by simp
  qed
  moreover have "timer_armed (dm_calls dm') i \<Longrightarrow> i \<in> counting dm'" for i
    using inv' by (simp add: dm_inv_def timers_ok_def)
  ultimately show ?thesis using fg req by blast
qed

text \<open>
  The time at which an app enters the background is stored in 32 bits. An app that enters
  the background more than 2147483647 milliseconds after boot (24.8 days) is refused every
  request until it comes to the foreground again, however soon it asks.
\<close>

lemma background_time_overflow:
  assumes "dm_inv q dm" and "map_of (dm_pkgMap dm) (key_of k) = Some p"
    and "\<not> IsUidForeground dm (ki_uid k)" and "INT_MAX < e_now e" and "e_now e \<le> e_now e'"
    and "GetAllowRequestTime e' < 4294967296"
  shows "fst (Decide e' dev' (Some k) (Some d)
      (HandleStateChange e dev (ki_pkg k) (ki_uid k) False True dm)) = ERR_BGTASK_NOT_IN_PRESET_TIME"
proof -
  have "pkg_ok q (key_of k) p" using assms(1,2) by (rule dm_inv_pkg)
  then have "pdi_uid p = ki_uid k" by (simp add: pkg_ok_def key_of_def)
  then have can: "CanStartAccountingLocked dev dm p" using assms(3) by (simp add: CanStartAccountingLocked_def)
  let ?dm = "HandleStateChange e dev (ki_pkg k) (ki_uid k) False True dm"
  have "om_wf (dm_bgDuration dm)" using dm_invD(1) [OF assms(1)] by (simp add: dm_wf_def)
  then have "map_of (dm_bgDuration ?dm) (key_of k) = Some (i32 (e_now e))"
    using assms(2) can by (simp add: HandleStateChange_def Let_def key_of_def)
  moreover have "i32 (e_now e) + 4294967296 \<le> e_now e" using assms(4) by (intro i32_beyond) simp
  ultimately have "background_too_long e' (key_of k) (ResetDayQuotaLocked e' ?dm)"
    using assms(5,6) by (simp add: background_too_long_def)
  then show ?thesis by (simp add: Decide_def Let_def)
qed

end
