(* ===== verification/JsonObjects.thy ===== *)
theory JsonObjects
  imports Json CxxStrings
begin

text \<open>
  Building and reading JSON objects, as every stored record of the sources does: assignment to a
  member, the presence check of \<^verbatim>\<open>common_utils.cpp\<close> and the typed conversions of members. The
  lemmas say what is read after a member was assigned.
\<close>

section \<open>Objects\<close>

text \<open>Assignment under a name; on null it makes an object.\<close>

fun json_put :: "string \<Rightarrow> json \<Rightarrow> json \<Rightarrow> json" where
  "json_put k v (JObject m) = JObject (om_put k v m)"
| "json_put k v j = JObject [(k, v)]"

definition CheckJsonValue :: "json \<Rightarrow> string list \<Rightarrow> bool" where
  "CheckJsonValue j params = list_all (\<lambda>p. json_find j p \<noteq> None) params"

text \<open>Conversions of a number that is known to be an integer, at the width of the target.\<close>

definition int_at :: "json \<Rightarrow> string \<Rightarrow> int" where
  "int_at j k = (case get_int (json_at j k) of Inr n \<Rightarrow> n | Inl _ \<Rightarrow> 0)"

definition string_at :: "json \<Rightarrow> string \<Rightarrow> string" where
  "string_at j k = (case get_string (json_at j k) of Inr s \<Rightarrow> s | Inl _ \<Rightarrow> '''')"

definition bool_at :: "json \<Rightarrow> string \<Rightarrow> bool" where
  "bool_at j k = (case get_bool (json_at j k) of Inr b \<Rightarrow> b | Inl _ \<Rightarrow> False)"

definition i64 :: "int \<Rightarrow> int" where
  "i64 x = (x + 9223372036854775808) mod 18446744073709551616 - 9223372036854775808"

definition is_i64 :: "int \<Rightarrow> bool" where
  "is_i64 x \<longleftrightarrow> - 9223372036854775808 \<le> x \<and> x \<le> 9223372036854775807"

definition u32 :: "int \<Rightarrow> int" where
  "u32 x = x mod 4294967296"

section \<open>Lemmas\<close>

fun obj_wf :: "json \<Rightarrow> bool" where
  "obj_wf (JObject m) = om_wf m" | "obj_wf _ = True"

lemma om_wf_single [simp]: "om_wf [(k, v)]"
  by (simp add: om_wf_def)

lemma obj_wf_put [simp]: "obj_wf j \<Longrightarrow> obj_wf (json_put k v j)"
  by (cases j) simp_all

lemma json_find_put [simp]:
  "obj_wf j \<Longrightarrow> json_find (json_put k v j) k' = (if k' = k then Some v else json_find j k')"
  by (cases j) auto

lemma json_at_put [simp]: "obj_wf j \<Longrightarrow> json_at (json_put k v j) k' = (if k' = k then v else json_at j k')"
  by (simp add: json_at_def)

lemma json_contains_put [simp]: "obj_wf j \<Longrightarrow> json_contains (json_put k v j) k' = (k' = k \<or> json_contains j k')"
  by (simp add: json_contains_def)

lemma json_contains_null [simp]: "\<not> json_contains JNull k"
  by (simp add: json_contains_def)

lemma om_put_nonempty: "om_put k v m \<noteq> []"
  by (cases m) (auto split: if_splits)

lemma json_put_shape [simp]:
  "is_object (json_put k v j)" "\<not> is_null (json_put k v j)" "\<not> json_empty (json_put k v j)"
  by (cases j; auto simp: om_put_nonempty)+

declare json_put.simps [simp del]

lemma i64_id [simp]: "is_i64 x \<Longrightarrow> i64 x = x"
  by (simp add: i64_def is_i64_def)

lemma to_string_inj: "is_i32 a \<Longrightarrow> is_i32 b \<Longrightarrow> to_string a = to_string b \<longleftrightarrow> a = b"
  by (metis atoi_to_string)

lemma set_om_put_new: "k \<notin> fst ` set m \<Longrightarrow> set (om_put k v m) = insert (k, v) (set m)"
  by (induction k v m rule: om_put.induct) auto

end
