(* ===== verification/ResourceRecord.thy ===== *)
theory ResourceRecord
  imports JsonObjects
begin

text \<open>
  The data of efficiency resources: resource masks (\<^verbatim>\<open>resource_type.h\<close>), CPU levels
  (\<^verbatim>\<open>efficiency_resources_cpu_level.cpp\<close>), the application record with its list of resource units
  (\<^verbatim>\<open>resource_application_record.cpp\<close>), the request and callback data of the interface, and the
  form in which the records are stored (\<^verbatim>\<open>data_storage_helper.cpp\<close>). Masks are 32-bit words.
  The lemmas show that a record survives being written and read back.
\<close>

unbundle bit_operations_syntax

section \<open>Masks\<close>

type_synonym mask = "32 word"

abbreviation (input) CPU :: mask where "CPU \<equiv> 1"
abbreviation (input) TIMER :: mask where "TIMER \<equiv> 4"
abbreviation (input) WORK_SCHEDULER :: mask where "WORK_SCHEDULER \<equiv> 8"

definition ResourceTypeName :: "string list" where
  "ResourceTypeName =
     [''CPU'', ''COMMON_EVENT'', ''TIMER'', ''WORK_SCHEDULER'', ''BLUETOOTH'', ''GPS'', ''AUDIO'',
      ''RUNNING_LOCK'', ''SENSOR'']"

definition MAX_RESOURCES_TYPE_NUM :: nat where
  "MAX_RESOURCES_TYPE_NUM = length ResourceTypeName"

definition MAX_RESOURCE_MASK :: mask where
  "MAX_RESOURCE_MASK = push_bit (length ResourceTypeName) 1 - 1"

text \<open>\<^verbatim>\<open>1 << i\<close>; a shift by 32 or more is undefined in C++, and no index of a valid record is.\<close>

definition res_bit :: "nat \<Rightarrow> mask" where
  "res_bit i = push_bit i 1"

section \<open>CPU levels\<close>

abbreviation (input) CPU_LEVEL_DEFAULT :: int where "CPU_LEVEL_DEFAULT \<equiv> -1"
abbreviation (input) CPU_LEVEL_END :: int where "CPU_LEVEL_END \<equiv> 3"

definition IsCpuLevelValid :: "int \<Rightarrow> bool" where
  "IsCpuLevelValid cpuLevel \<longleftrightarrow> cpuLevel \<ge> CPU_LEVEL_DEFAULT \<and> cpuLevel < CPU_LEVEL_END"

definition GetEfficiencyResourcesCpuLevelStr :: "int \<Rightarrow> string" where
  "GetEfficiencyResourcesCpuLevelStr level =
     (case map_of [(-1, ''default''), (0, ''smallCPU''), (1, ''mediumCPU''), (2, ''largeCPU''), (3, ''end'')] level of
        Some s \<Rightarrow> s
      | None \<Rightarrow> ''default'')"

definition cpu_level :: "int \<Rightarrow> int" where
  "cpu_level l = (if IsCpuLevelValid l then l else CPU_LEVEL_DEFAULT)"

section \<open>Records\<close>

record PersistTime =
  pt_resourceIndex :: nat
  pt_isPersist :: bool
  pt_endTime :: int
  pt_reason :: string
  pt_timeOut :: int

record ResourceApplicationRecord =
  ar_uid :: int
  ar_pid :: int
  ar_resourceNumber :: mask
  ar_cpuLevel :: int
  ar_bundleName :: string
  ar_resourceUnitList :: "PersistTime list"

definition default_record :: ResourceApplicationRecord where
  "default_record = \<lparr>ar_uid = 0, ar_pid = 0, ar_resourceNumber = 0, ar_cpuLevel = CPU_LEVEL_DEFAULT,
     ar_bundleName = '''', ar_resourceUnitList = []\<rparr>"

definition new_record :: "int \<Rightarrow> int \<Rightarrow> mask \<Rightarrow> string \<Rightarrow> ResourceApplicationRecord" where
  "new_record uid pid n name = \<lparr>ar_uid = uid, ar_pid = pid, ar_resourceNumber = n,
     ar_cpuLevel = CPU_LEVEL_DEFAULT, ar_bundleName = name, ar_resourceUnitList = []\<rparr>"

definition ar_SetCpuLevel :: "int \<Rightarrow> ResourceApplicationRecord \<Rightarrow> ResourceApplicationRecord" where
  "ar_SetCpuLevel l r = r\<lparr>ar_cpuLevel := cpu_level l\<rparr>"

record EfficiencyResourceInfo =
  ri_resourceNumber :: mask
  ri_isApply :: bool
  ri_timeOut :: "32 word"
  ri_reason :: string
  ri_isPersist :: bool
  ri_isProcess :: bool
  ri_uid :: int
  ri_pid :: int
  ri_cpuLevel :: int

definition ri_SetCpuLevel :: "int \<Rightarrow> EfficiencyResourceInfo \<Rightarrow> EfficiencyResourceInfo" where
  "ri_SetCpuLevel l ri = ri\<lparr>ri_cpuLevel := cpu_level l\<rparr>"

record ResourceCallbackInfo =
  ci_uid :: int
  ci_pid :: int
  ci_resourceNumber :: mask
  ci_bundleName :: string
  ci_cpuLevel :: int

definition new_callback_info :: "int \<Rightarrow> int \<Rightarrow> mask \<Rightarrow> string \<Rightarrow> ResourceCallbackInfo" where
  "new_callback_info uid pid n name = \<lparr>ci_uid = uid, ci_pid = pid, ci_resourceNumber = n,
     ci_bundleName = name, ci_cpuLevel = CPU_LEVEL_DEFAULT\<rparr>"

definition ci_SetCpuLevel :: "int \<Rightarrow> ResourceCallbackInfo \<Rightarrow> ResourceCallbackInfo" where
  "ci_SetCpuLevel l ci = ci\<lparr>ci_cpuLevel := cpu_level l\<rparr>"

section \<open>Stored form\<close>

definition unit_to_json :: "PersistTime \<Rightarrow> json" where
  "unit_to_json u =
     json_put ''timeOut'' (JInt (pt_timeOut u))
       (json_put ''reason'' (JString (pt_reason u))
         (json_put ''endTime'' (JInt (pt_endTime u))
           (json_put ''isPersist'' (JBool (pt_isPersist u))
             (json_put ''resourceIndex'' (JInt (int (pt_resourceIndex u))) JNull))))"

definition ParseToJson :: "ResourceApplicationRecord \<Rightarrow> json" where
  "ParseToJson r =
     (let root = json_put ''cpuLevel'' (JInt (ar_cpuLevel r))
                   (json_put ''resourceNumber'' (JInt (uint (ar_resourceNumber r)))
                     (json_put ''pid'' (JInt (ar_pid r))
                       (json_put ''uid'' (JInt (ar_uid r))
                         (json_put ''bundleName'' (JString (ar_bundleName r)) JNull))))
      in if ar_resourceUnitList r = [] then root
         else json_put ''resourceUnitList'' (JArray (map unit_to_json (ar_resourceUnitList r))) root)"

text \<open>One unit; \<open>None\<close> is the \<^verbatim>\<open>continue\<close> of the loop.\<close>

definition unit_from_json :: "json \<Rightarrow> PersistTime option" where
  "unit_from_json j =
     (if is_null j \<or> \<not> is_object j then None
      else if \<not> CheckJsonValue j [''resourceIndex'', ''isPersist'', ''endTime'', ''reason'', ''timeOut''] \<or>
              \<not> is_number_integer (json_at j ''resourceIndex'') \<or> \<not> is_boolean (json_at j ''isPersist'') \<or>
              \<not> is_number_integer (json_at j ''endTime'') \<or> \<not> is_string (json_at j ''reason'') \<or>
              \<not> is_number_integer (json_at j ''timeOut'') then None
      else Some \<lparr>pt_resourceIndex = nat (u32 (int_at j ''resourceIndex'')),
                 pt_isPersist = bool_at j ''isPersist'',
                 pt_endTime = i64 (int_at j ''endTime''),
                 pt_reason = string_at j ''reason'',
                 pt_timeOut = i64 (int_at j ''timeOut'')\<rparr>)"

text \<open>The CPU level is taken over without a check.\<close>

definition ParseFromJson :: "json \<Rightarrow> ResourceApplicationRecord \<Rightarrow> bool \<times> ResourceApplicationRecord" where
  "ParseFromJson v r =
     (if json_empty v then (False, r)
      else if \<not> CheckJsonValue v [''uid'', ''pid'', ''bundleName'', ''resourceNumber''] \<or>
              \<not> is_number_integer (json_at v ''uid'') \<or> \<not> is_number_integer (json_at v ''pid'') \<or>
              \<not> is_string (json_at v ''bundleName'') \<or> \<not> is_number_integer (json_at v ''resourceNumber'')
      then (False, r)
      else
        let r1 = (if CheckJsonValue v [''cpuLevel''] \<and> is_number_integer (json_at v ''cpuLevel'')
                  then r\<lparr>ar_cpuLevel := i32 (int_at v ''cpuLevel'')\<rparr> else r);
            r2 = r1\<lparr>ar_uid := i32 (int_at v ''uid''), ar_pid := i32 (int_at v ''pid''),
                    ar_bundleName := string_at v ''bundleName'',
                    ar_resourceNumber := word_of_int (int_at v ''resourceNumber'')\<rparr>
        in if \<not> (json_contains v ''resourceUnitList'' \<and> is_array (json_at v ''resourceUnitList''))
           then (True, r2)
           else (True, r2\<lparr>ar_resourceUnitList := ar_resourceUnitList r2 @
                            List.map_filter unit_from_json (json_elems (json_at v ''resourceUnitList''))\<rparr>))"

type_synonym ResourceRecordMap = "(int \<times> ResourceApplicationRecord) list"

definition ConvertMapToJson :: "ResourceRecordMap \<Rightarrow> json" where
  "ConvertMapToJson m = foldl (\<lambda>root (k, r). json_put (to_string k) (ParseToJson r) root) JNull m"

text \<open>The document written to the resource record file.\<close>

definition RefreshResourceRecord :: "ResourceRecordMap \<Rightarrow> ResourceRecordMap \<Rightarrow> json" where
  "RefreshResourceRecord appRecord processRecord =
     json_put ''processResourceRecord'' (ConvertMapToJson processRecord)
       (json_put ''appResourceRecord'' (ConvertMapToJson appRecord) JNull)"

text \<open>A record that cannot be parsed is entered with the default contents; a key that exists is kept.\<close>

fun json_to_map_loop :: "(string \<times> json) list \<Rightarrow> ResourceRecordMap \<Rightarrow> ResourceRecordMap" where
  "json_to_map_loop [] m = m"
| "json_to_map_loop ((key, v) # items) m =
     (let k = i32 (atoi key) in
      json_to_map_loop items
        (if map_of m k \<noteq> None then m else m @ [(k, snd (ParseFromJson v default_record))]))"

definition ConvertJsonToMap :: "json \<Rightarrow> ResourceRecordMap \<Rightarrow> ResourceRecordMap" where
  "ConvertJsonToMap v m = json_to_map_loop (json_items v) m"

definition DivideJsonToMap ::
    "json \<Rightarrow> ResourceRecordMap \<Rightarrow> ResourceRecordMap \<Rightarrow> ResourceRecordMap \<times> ResourceRecordMap" where
  "DivideJsonToMap root appRecord processRecord =
     ((if json_contains root ''appResourceRecord'' \<and> is_object (json_at root ''appResourceRecord'')
       then ConvertJsonToMap (json_at root ''appResourceRecord'') appRecord else appRecord),
      (if json_contains root ''processResourceRecord'' \<and> is_object (json_at root ''processResourceRecord'')
       then ConvertJsonToMap (json_at root ''processResourceRecord'') processRecord else processRecord))"

text \<open>\<open>None\<close> when the file cannot be read or parsed.\<close>

definition RestoreResourceRecord ::
    "json option \<Rightarrow> ResourceRecordMap \<Rightarrow> ResourceRecordMap \<Rightarrow> ErrCode \<times> ResourceRecordMap \<times> ResourceRecordMap" where
  "RestoreResourceRecord file appRecord processRecord =
     (case file of
        None \<Rightarrow> (ERR_BGTASK_DATA_STORAGE_ERR, appRecord, processRecord)
      | Some root \<Rightarrow> (ERR_OK, DivideJsonToMap root appRecord processRecord))"

section \<open>Lemmas\<close>

subsection \<open>Masks\<close>

lemma MAX_RESOURCES_TYPE_NUM_val [simp]: "MAX_RESOURCES_TYPE_NUM = 9"
  by (simp add: MAX_RESOURCES_TYPE_NUM_def ResourceTypeName_def)

lemma MAX_RESOURCE_MASK_val: "MAX_RESOURCE_MASK = 511"
  by (simp add: MAX_RESOURCE_MASK_def ResourceTypeName_def)

lemma bit_res_bit [simp]: "bit (res_bit i) n \<longleftrightarrow> n = i \<and> n < 32"
  by (auto simp: res_bit_def bit_simps)

lemma mask_and_res_bit: "n AND res_bit i = 0 \<longleftrightarrow> \<not> bit n i"
proof -
  have "n AND res_bit i = 0 \<longleftrightarrow> (\<forall>j. \<not> (bit n j \<and> j = i \<and> j < 32))"
    by (auto simp: bit_eq_iff bit_simps)
  also have "\<dots> \<longleftrightarrow> \<not> bit n i"
    using bit_imp_le_length [of n i] by auto
  finally show ?thesis .
qed

lemma mask_zero_iff: "n = 0 \<longleftrightarrow> (\<forall>i. \<not> bit (n :: mask) i)"
  by (rule iffI) (simp, intro bit_eqI, simp)

lemma cpu_level_valid [simp]: "IsCpuLevelValid (cpu_level l)"
  by (simp add: cpu_level_def IsCpuLevelValid_def)

lemma cpu_level_id [simp]: "IsCpuLevelValid l \<Longrightarrow> cpu_level l = l"
  by (simp add: cpu_level_def)

subsection \<open>A record survives storage\<close>

definition unit_storable :: "PersistTime \<Rightarrow> bool" where
  "unit_storable u \<longleftrightarrow> pt_resourceIndex u < 4294967296 \<and> is_i64 (pt_endTime u) \<and> is_i64 (pt_timeOut u)"

definition record_storable :: "ResourceApplicationRecord \<Rightarrow> bool" where
  "record_storable r \<longleftrightarrow> is_i32 (ar_uid r) \<and> is_i32 (ar_pid r) \<and> is_i32 (ar_cpuLevel r) \<and>
     list_all unit_storable (ar_resourceUnitList r)"

lemma unit_from_to_json: "unit_storable u \<Longrightarrow> unit_from_json (unit_to_json u) = Some u"
  by (simp add: unit_from_json_def unit_to_json_def CheckJsonValue_def int_at_def string_at_def bool_at_def
      u32_def unit_storable_def)

lemma units_from_to_json:
  "list_all unit_storable us \<Longrightarrow> List.map_filter unit_from_json (map unit_to_json us) = us"
  by (induction us) (simp_all add: unit_from_to_json List.map_filter_simps)

lemma ParseFromJson_ParseToJson:
  "record_storable r \<Longrightarrow> ParseFromJson (ParseToJson r) default_record = (True, r)"
  by (cases "ar_resourceUnitList r = []")
     (simp_all add: ParseToJson_def ParseFromJson_def Let_def CheckJsonValue_def int_at_def string_at_def
       default_record_def record_storable_def units_from_to_json)

subsection \<open>The tables survive storage\<close>

definition table_storable :: "ResourceRecordMap \<Rightarrow> bool" where
  "table_storable m \<longleftrightarrow> hm_wf m \<and> (\<forall>(k, r) \<in> set m. is_i32 k \<and> record_storable r)"

lemma ConvertMapToJson_items:
  "table_storable m \<Longrightarrow>
   om_wf (json_items (ConvertMapToJson m)) \<and> obj_wf (ConvertMapToJson m) \<and>
   (ConvertMapToJson m = JNull \<or> is_object (ConvertMapToJson m)) \<and>
   set (json_items (ConvertMapToJson m)) = (\<lambda>(k, r). (to_string k, ParseToJson r)) ` set m"
proof (induction m rule: rev_induct)
  case Nil
  then show ?case by (simp add: ConvertMapToJson_def)
next
  case (snoc kr m)
  obtain k r where kr: "kr = (k, r)" by (cases kr)
  have m: "table_storable m" "is_i32 k" "k \<notin> fst ` set m"
    using snoc.prems by (auto simp: table_storable_def hm_wf_def kr)
  note IH = snoc.IH [OF m(1)]
  let ?j = "ConvertMapToJson m"
  have j: "ConvertMapToJson (m @ [kr]) = json_put (to_string k) (ParseToJson r) ?j"
    by (simp add: ConvertMapToJson_def kr)
  have new: "to_string k \<notin> fst ` set (json_items ?j)"
  proof
    assume "to_string k \<in> fst ` set (json_items ?j)"
    then obtain k' r' where "(k', r') \<in> set m" "to_string k = to_string k'" using IH by auto
    moreover from this(1) m(1) have "is_i32 k'" by (auto simp: table_storable_def)
    ultimately show False using m(2,3) to_string_inj by force
  qed
  show ?case
  proof (cases ?j)
    case JNull
    then have "set m = {}" using IH by simp
    with JNull j kr show ?thesis by (simp add: json_put.simps)
  next
    case (JObject M)
    with new have "set (om_put (to_string k) (ParseToJson r) M) = insert (to_string k, ParseToJson r) (set M)"
      by (intro set_om_put_new) simp
    with JObject IH j kr show ?thesis by (auto simp: json_put.simps)
  qed (use IH in auto)
qed

lemma json_to_map_loop_get:
  "map_of (json_to_map_loop items m) k =
     (case map_of m k of
        Some r \<Rightarrow> Some r
      | None \<Rightarrow> map_of (map (\<lambda>(key, v). (i32 (atoi key), snd (ParseFromJson v default_record))) items) k)"
  by (induction items m rule: json_to_map_loop.induct)
     (auto simp: Let_def map_add_def split: option.splits)

lemma table_round_trip:
  assumes "table_storable m"
  shows "map_of (ConvertJsonToMap (ConvertMapToJson m) []) = map_of m"
proof -
  let ?f = "\<lambda>(key, v). (i32 (atoi key), snd (ParseFromJson v default_record))"
  let ?M = "json_items (ConvertMapToJson m)"
  note items = ConvertMapToJson_items [OF assms]
  have f: "?f (to_string k, ParseToJson r) = (k, r)" if "(k, r) \<in> set m" for k r
    using that assms by (auto simp: table_storable_def ParseFromJson_ParseToJson)
  have "set (map ?f ?M) = (\<lambda>kr. ?f (case kr of (k, r) \<Rightarrow> (to_string k, ParseToJson r))) ` set m"
    using items by (simp add: image_image)
  also have "\<dots> = set m" using f by (force simp: image_iff)
  finally have sets: "set (map ?f ?M) = set m" .
  have "distinct (map fst m)" using assms by (simp add: table_storable_def hm_wf_def)
  moreover have "distinct (map fst (map ?f ?M))"
  proof -
    have "distinct (map fst ?M)" using items by (simp add: om_wf_distinct)
    moreover have "inj_on (\<lambda>key. i32 (atoi key)) (fst ` set ?M)"
      using items assms by (auto simp: inj_on_def table_storable_def) (metis atoi_to_string i32_id case_prodD)
    ultimately have "distinct (map (\<lambda>key. i32 (atoi key)) (map fst ?M))" by (subst distinct_map) simp
    then show ?thesis by (simp add: comp_def case_prod_beta)
  qed
  ultimately have "map_of (map ?f ?M) = map_of m" using sets map_of_inject_set by blast
  then show ?thesis by (simp add: ConvertJsonToMap_def json_to_map_loop_get fun_eq_iff)
qed

lemma storage_round_trip:
  assumes "table_storable app" and "table_storable proc"
  shows "\<exists>app' proc'. RestoreResourceRecord (Some (RefreshResourceRecord app proc)) [] [] = (ERR_OK, app', proc') \<and>
    map_of app' = map_of app \<and> map_of proc' = map_of proc"
proof -
  have restored: "map_of (if is_object (ConvertMapToJson m) then ConvertJsonToMap (ConvertMapToJson m) [] else []) = map_of m"
    if "table_storable m" for m
    using table_round_trip [OF that] ConvertMapToJson_items [OF that]
    by (auto simp: ConvertJsonToMap_def)
  show ?thesis
    using restored [OF assms(1)] restored [OF assms(2)]
    by (auto simp: RestoreResourceRecord_def RefreshResourceRecord_def DivideJsonToMap_def split: if_splits)
qed

end
