(* ===== verification/ResourceReport.thy ===== *)
theory ResourceReport
  imports ResourceRecord
begin

text \<open>
  \<^verbatim>\<open>services/common/src/report_hisysevent_data.cpp\<close>: the batches in which applied and reset
  resources are reported, held as parallel columns. The lemmas show that the columns stay
  aligned and that a batch never exceeds its capacity.
\<close>

section \<open>Events\<close>

datatype EfficiencyResourcesEventType = APP_RESOURCE_APPLY | APP_RESOURCE_RESET | RESOURCE_APPLY | RESOURCE_RESET

abbreviation (input) MAX_EFFICIENTCY_RESOURCE_HISYSEVCENT_DATA_LENGTH :: nat where
  "MAX_EFFICIENTCY_RESOURCE_HISYSEVCENT_DATA_LENGTH \<equiv> 20"

section \<open>Applied resources\<close>

record EfficiencyResourceApplyReportHisysEvent =
  pa_length :: nat
  pa_appUid :: "int list"
  pa_appPid :: "int list"
  pa_appName :: "string list"
  pa_uiabilityIdentity :: "int list"
  pa_resourceType :: "mask list"
  pa_timeout :: "int list"
  pa_persist :: "bool list"
  pa_process :: "bool list"

definition pa_ClearData :: EfficiencyResourceApplyReportHisysEvent where
  "pa_ClearData = \<lparr>pa_length = 0, pa_appUid = [], pa_appPid = [], pa_appName = [],
     pa_uiabilityIdentity = [], pa_resourceType = [], pa_timeout = [], pa_persist = [], pa_process = []\<rparr>"

text \<open>\<open>stamp\<close> is the current time stamp appended to the name.\<close>

definition pa_AddData ::
    "int \<Rightarrow> EfficiencyResourceInfo option \<Rightarrow> ResourceCallbackInfo \<Rightarrow> EfficiencyResourceApplyReportHisysEvent \<Rightarrow>
     bool \<times> EfficiencyResourceApplyReportHisysEvent" where
  "pa_AddData stamp info ci b =
     (if pa_length b = MAX_EFFICIENTCY_RESOURCE_HISYSEVCENT_DATA_LENGTH then (False, b)
      else case info of
             None \<Rightarrow> (False, b)
           | Some ri \<Rightarrow>
               (True,
                \<lparr>pa_length = pa_length b + 1, pa_appUid = pa_appUid b @ [ci_uid ci],
                 pa_appPid = pa_appPid b @ [ci_pid ci],
                 pa_appName = pa_appName b @ [ci_bundleName ci @ ''|'' @ to_string stamp],
                 pa_uiabilityIdentity = pa_uiabilityIdentity b @ [-1],
                 pa_resourceType = pa_resourceType b @ [ci_resourceNumber ci],
                 pa_timeout = pa_timeout b @ [uint (ri_timeOut ri)],
                 pa_persist = pa_persist b @ [ri_isPersist ri],
                 pa_process = pa_process b @ [ri_isProcess ri]\<rparr>))"

section \<open>Reset resources\<close>

record EfficiencyResourceResetReportHisysEvent =
  pr_length :: nat
  pr_appUid :: "int list"
  pr_appPid :: "int list"
  pr_appName :: "string list"
  pr_uiabilityIdentity :: "int list"
  pr_resourceType :: "mask list"
  pr_process :: "bool list"
  pr_quota :: "int list"
  pr_allQuota :: "int list"

definition pr_ClearData :: EfficiencyResourceResetReportHisysEvent where
  "pr_ClearData = \<lparr>pr_length = 0, pr_appUid = [], pr_appPid = [], pr_appName = [],
     pr_uiabilityIdentity = [], pr_resourceType = [], pr_process = [], pr_quota = [], pr_allQuota = []\<rparr>"

definition pr_AddData ::
    "int \<Rightarrow> ResourceCallbackInfo option \<Rightarrow> EfficiencyResourcesEventType \<Rightarrow> EfficiencyResourceResetReportHisysEvent \<Rightarrow>
     bool \<times> EfficiencyResourceResetReportHisysEvent" where
  "pr_AddData stamp info ty b =
     (if pr_length b = MAX_EFFICIENTCY_RESOURCE_HISYSEVCENT_DATA_LENGTH then (False, b)
      else case info of
             None \<Rightarrow> (False, b)
           | Some ci \<Rightarrow>
               (True,
                \<lparr>pr_length = pr_length b + 1, pr_appUid = pr_appUid b @ [ci_uid ci],
                 pr_appPid = pr_appPid b @ [ci_pid ci],
                 pr_appName = pr_appName b @ [ci_bundleName ci @ ''|'' @ to_string stamp],
                 pr_uiabilityIdentity = pr_uiabilityIdentity b @ [-1],
                 pr_resourceType = pr_resourceType b @ [ci_resourceNumber ci],
                 pr_process = pr_process b @ [ty \<noteq> APP_RESOURCE_RESET],
                 pr_quota = pr_quota b @ [0], pr_allQuota = pr_allQuota b @ [0]\<rparr>))"

section \<open>Reporting\<close>

text \<open>
  Calls that leave the component. \<open>ResourceChanged\<close> tells the background task observer and then the
  subscribers listed, in order.
\<close>

datatype eff_call =
    WriteApplyEvent EfficiencyResourceApplyReportHisysEvent
  | WriteResetEvent EfficiencyResourceResetReportHisysEvent
  | ResourceChanged "nat list" ResourceCallbackInfo EfficiencyResourcesEventType
  | HandleCpuApplyQuota int string EfficiencyResourceInfo
  | UpdateCpuApplyQuota int
  | SetCpuApplyQuota int "32 word" "32 word"
  | ResetCpuApplyQuotaUsage int
  | SetReadyEfficiencyResources

text \<open>A full batch is written out and a new one begun with the event at hand.\<close>

definition report_apply ::
    "int \<Rightarrow> EfficiencyResourceInfo \<Rightarrow> ResourceCallbackInfo \<Rightarrow> EfficiencyResourceApplyReportHisysEvent \<Rightarrow>
     EfficiencyResourceApplyReportHisysEvent \<times> eff_call list" where
  "report_apply stamp ri ci b =
     (case pa_AddData stamp (Some ri) ci b of
        (True, b1) \<Rightarrow> (b1, [])
      | (False, b1) \<Rightarrow> (snd (pa_AddData stamp (Some ri) ci pa_ClearData), [WriteApplyEvent b1]))"

definition report_reset ::
    "int \<Rightarrow> ResourceCallbackInfo \<Rightarrow> EfficiencyResourcesEventType \<Rightarrow> EfficiencyResourceResetReportHisysEvent \<Rightarrow>
     EfficiencyResourceResetReportHisysEvent \<times> eff_call list" where
  "report_reset stamp ci ty b =
     (case pr_AddData stamp (Some ci) ty b of
        (True, b1) \<Rightarrow> (b1, [])
      | (False, b1) \<Rightarrow> (snd (pr_AddData stamp (Some ci) ty pr_ClearData), [WriteResetEvent b1]))"

section \<open>Lemmas\<close>

definition apply_batch_ok :: "EfficiencyResourceApplyReportHisysEvent \<Rightarrow> bool" where
  "apply_batch_ok b \<longleftrightarrow> pa_length b \<le> 20 \<and>
     list_all (\<lambda>n. n = pa_length b)
       [length (pa_appUid b), length (pa_appPid b), length (pa_appName b), length (pa_uiabilityIdentity b),
        length (pa_resourceType b), length (pa_timeout b), length (pa_persist b), length (pa_process b)]"

definition reset_batch_ok :: "EfficiencyResourceResetReportHisysEvent \<Rightarrow> bool" where
  "reset_batch_ok b \<longleftrightarrow> pr_length b \<le> 20 \<and>
     list_all (\<lambda>n. n = pr_length b)
       [length (pr_appUid b), length (pr_appPid b), length (pr_appName b), length (pr_uiabilityIdentity b),
        length (pr_resourceType b), length (pr_process b), length (pr_quota b), length (pr_allQuota b)]"

lemma apply_batch_ok_clear [simp]: "apply_batch_ok pa_ClearData"
  by (simp add: apply_batch_ok_def pa_ClearData_def)

lemma reset_batch_ok_clear [simp]: "reset_batch_ok pr_ClearData"
  by (simp add: reset_batch_ok_def pr_ClearData_def)

lemma report_apply_ok [inv_intros]: "apply_batch_ok b \<Longrightarrow> apply_batch_ok (fst (report_apply stamp ri ci b))"
  by (auto simp: report_apply_def pa_AddData_def apply_batch_ok_def pa_ClearData_def)

lemma report_reset_ok [inv_intros]: "reset_batch_ok b \<Longrightarrow> reset_batch_ok (fst (report_reset stamp ci ty b))"
  by (auto simp: report_reset_def pr_AddData_def reset_batch_ok_def pr_ClearData_def)

lemma report_apply_written:
  "snd (report_apply stamp ri ci b) = (if pa_length b = 20 then [WriteApplyEvent b] else [])"
  by (simp add: report_apply_def pa_AddData_def)

lemma report_reset_written:
  "snd (report_reset stamp ci ty b) = (if pr_length b = 20 then [WriteResetEvent b] else [])"
  by (simp add: report_reset_def pr_AddData_def)

end
