(* ===== verification/BgEfficiencyResourcesMgr.thy ===== *)
theory BgEfficiencyResourcesMgr
  imports ResourceReport BgtaskConfig
begin

text \<open>
  \<^verbatim>\<open>services/efficiency_resources/src/bg_efficiency_resources_mgr.cpp\<close> and
  \<^verbatim>\<open>resources_subscriber_mgr.cpp\<close>. Tasks posted to the event handler are kept in \<open>er_posted\<close>
  until they run; calls that leave the component (subscribers, event reports, the CPU quota
  library) are recorded in \<open>er_calls\<close>; \<open>er_stored\<close> is the contents of the record file. Answers
  of the bundle and app managers, of the CPU quota library and the clocks are fields of \<open>eenv\<close>.
\<close>

unbundle bit_operations_syntax

section \<open>State\<close>

record eenv =
  ee_now :: int
  ee_bootTime :: int
  ee_stamp :: int
  ee_callingUid :: int
  ee_callingPid :: int
  ee_isSystemApp :: bool
  ee_running :: "(int \<times> int \<times> bool) list option"
  ee_clientBundleName :: "int \<Rightarrow> string"
  ee_resourcesApply :: "string \<Rightarrow> int \<Rightarrow> int list option"
  ee_bundleInfo :: "string \<Rightarrow> int \<Rightarrow> (string \<times> string) option"
  ee_config :: BgtaskConfig
  ee_cpuQuota :: "(int \<Rightarrow> string \<Rightarrow> EfficiencyResourceInfo \<Rightarrow> bool) option"
  ee_updateQuota :: bool
  ee_setQuota :: bool
  ee_resetQuota :: bool
  ee_getQuota :: "(int \<Rightarrow> string list) option"

datatype CancelReason =
    CANCEL_DEFAULT | DUMPER | APPLY_INTERFACE | RESET_INTERFACE | APP_DIED
  | APP_DIDE_TRIGGER_PROCESS_DIED | PROCESS_DIED

text \<open>A delayed task carries the time at which it is due, the current time plus the delay.\<close>

datatype eff_task =
    TaskApply ResourceCallbackInfo EfficiencyResourceInfo
  | TaskReset ResourceCallbackInfo bool CancelReason
  | TaskTimeOut int bool int

record BgEfficiencyResourcesMgr =
  er_isSysReady :: bool
  er_dependsReady :: "32 word"
  er_appResourceApplyMap :: ResourceRecordMap
  er_procResourceApplyMap :: ResourceRecordMap
  er_subscriberList :: "nat list"
  er_appMgrClient :: bool
  er_quotaMgrHandle :: bool
  er_applyEventData :: EfficiencyResourceApplyReportHisysEvent
  er_resetEventData :: EfficiencyResourceResetReportHisysEvent
  er_stored :: "json option"
  er_posted :: "eff_task list"
  er_calls :: "eff_call list"

definition new_BgEfficiencyResourcesMgr :: "json option \<Rightarrow> BgEfficiencyResourcesMgr" where
  "new_BgEfficiencyResourcesMgr file =
     \<lparr>er_isSysReady = False, er_dependsReady = 0, er_appResourceApplyMap = [], er_procResourceApplyMap = [],
      er_subscriberList = [], er_appMgrClient = False, er_quotaMgrHandle = False,
      er_applyEventData = pa_ClearData, er_resetEventData = pr_ClearData, er_stored = file,
      er_posted = [], er_calls = []\<rparr>"

definition er_map :: "bool \<Rightarrow> BgEfficiencyResourcesMgr \<Rightarrow> ResourceRecordMap" where
  "er_map isProcess m = (if isProcess then er_procResourceApplyMap m else er_appResourceApplyMap m)"

definition er_set_map :: "bool \<Rightarrow> ResourceRecordMap \<Rightarrow> BgEfficiencyResourcesMgr \<Rightarrow> BgEfficiencyResourcesMgr" where
  "er_set_map isProcess t m =
     (if isProcess then m\<lparr>er_procResourceApplyMap := t\<rparr> else m\<lparr>er_appResourceApplyMap := t\<rparr>)"

definition er_post :: "eff_task list \<Rightarrow> BgEfficiencyResourcesMgr \<Rightarrow> BgEfficiencyResourcesMgr" where
  "er_post ts m = m\<lparr>er_posted := er_posted m @ ts\<rparr>"

definition er_emit :: "eff_call list \<Rightarrow> BgEfficiencyResourcesMgr \<Rightarrow> BgEfficiencyResourcesMgr" where
  "er_emit cs m = m\<lparr>er_calls := er_calls m @ cs\<rparr>"

text \<open>Write both tables to the record file.\<close>

definition er_refresh :: "BgEfficiencyResourcesMgr \<Rightarrow> BgEfficiencyResourcesMgr" where
  "er_refresh m =
     m\<lparr>er_stored := Some (RefreshResourceRecord (er_appResourceApplyMap m) (er_procResourceApplyMap m))\<rparr>"

section \<open>Subscribers and reports\<close>

definition rs_AddSubscriber :: "nat option option \<Rightarrow> nat list \<Rightarrow> ErrCode \<times> nat list" where
  "rs_AddSubscriber subscriber subs =
     (case subscriber of
        Some (Some remote) \<Rightarrow>
          if remote \<in> set subs then (ERR_BGTASK_OBJECT_EXISTS, subs) else (ERR_OK, subs @ [remote])
      | _ \<Rightarrow> (ERR_BGTASK_INVALID_PARAM, subs))"

definition rs_RemoveSubscriber :: "nat option option \<Rightarrow> nat list \<Rightarrow> ErrCode \<times> nat list" where
  "rs_RemoveSubscriber subscriber subs =
     (case subscriber of
        Some (Some remote) \<Rightarrow>
          if remote \<notin> set subs then (ERR_BGTASK_OBJECT_EXISTS, subs) else (ERR_OK, remove1 remote subs)
      | _ \<Rightarrow> (ERR_BGTASK_INVALID_PARAM, subs))"

definition rs_HandleSubscriberDeath :: "nat option \<Rightarrow> nat list \<Rightarrow> nat list" where
  "rs_HandleSubscriberDeath rem subs = (case rem of None \<Rightarrow> subs | Some remote \<Rightarrow> remove1 remote subs)"

text \<open>The outcome of adding a subscriber is not passed on.\<close>

definition er_AddSubscriber ::
    "nat option option \<Rightarrow> BgEfficiencyResourcesMgr \<Rightarrow> ErrCode \<times> BgEfficiencyResourcesMgr" where
  "er_AddSubscriber s m = (ERR_OK, m\<lparr>er_subscriberList := snd (rs_AddSubscriber s (er_subscriberList m))\<rparr>)"

definition er_RemoveSubscriber ::
    "nat option option \<Rightarrow> BgEfficiencyResourcesMgr \<Rightarrow> ErrCode \<times> BgEfficiencyResourcesMgr" where
  "er_RemoveSubscriber s m =
     (let (ret, subs) = rs_RemoveSubscriber s (er_subscriberList m)
      in (ret, m\<lparr>er_subscriberList := subs\<rparr>))"

definition OnResourceChanged ::
    "ResourceCallbackInfo \<Rightarrow> EfficiencyResourcesEventType \<Rightarrow> BgEfficiencyResourcesMgr \<Rightarrow> BgEfficiencyResourcesMgr" where
  "OnResourceChanged ci ty m = er_emit [ResourceChanged (er_subscriberList m) ci ty] m"

definition ReportApply ::
    "eenv \<Rightarrow> EfficiencyResourceInfo \<Rightarrow> ResourceCallbackInfo \<Rightarrow> BgEfficiencyResourcesMgr \<Rightarrow> BgEfficiencyResourcesMgr" where
  "ReportApply e ri ci m =
     (let (b, cs) = report_apply (ee_stamp e) ri ci (er_applyEventData m)
      in er_emit cs (m\<lparr>er_applyEventData := b\<rparr>))"

definition ReportReset ::
    "eenv \<Rightarrow> ResourceCallbackInfo \<Rightarrow> EfficiencyResourcesEventType \<Rightarrow> BgEfficiencyResourcesMgr \<Rightarrow> BgEfficiencyResourcesMgr" where
  "ReportReset e ci ty m =
     (let (b, cs) = report_reset (ee_stamp e) ci ty (er_resetEventData m)
      in er_emit cs (m\<lparr>er_resetEventData := b\<rparr>))"

section \<open>Checks\<close>

definition CheckResourceInfo :: "EfficiencyResourceInfo option \<Rightarrow> bool" where
  "CheckResourceInfo info =
     (case info of
        None \<Rightarrow> False
      | Some ri \<Rightarrow>
          \<not> (ri_resourceNumber ri = 0 \<or> ri_resourceNumber ri > MAX_RESOURCE_MASK \<or>
             (ri_isApply ri \<and> \<not> ri_isPersist ri \<and> ri_timeOut ri = 0)))"

definition er_IsCallingInfoLegal :: "eenv \<Rightarrow> int \<Rightarrow> int \<Rightarrow> string option" where
  "er_IsCallingInfoLegal e uid pid =
     (if uid < 0 \<or> pid < 0 then None else Some (ee_clientBundleName e uid))"

definition IsServiceExtensionType :: "eenv \<Rightarrow> int \<Rightarrow> BgEfficiencyResourcesMgr \<Rightarrow> bool" where
  "IsServiceExtensionType e pid m =
     (if \<not> er_appMgrClient m then False
      else case ee_running e of
             None \<Rightarrow> False
           | Some ps \<Rightarrow> list_ex (\<lambda>(_, p, service). p = pid \<and> service) ps)"

definition GetUserIdByUid :: "int \<Rightarrow> int" where
  "GetUserIdByUid uid = (if uid < 0 then - ((- uid) div 200000) else uid div 200000)"

definition QueryRunningResourcesApply :: "eenv \<Rightarrow> int \<Rightarrow> string \<Rightarrow> int list" where
  "QueryRunningResourcesApply e uid bundleName =
     (case ee_resourcesApply e bundleName (GetUserIdByUid uid) of None \<Rightarrow> [] | Some ts \<Rightarrow> ts)"

fun exempted_loop :: "int list \<Rightarrow> mask \<Rightarrow> mask" where
  "exempted_loop [] acc = acc"
| "exempted_loop (t # ts) acc =
     (if t < 0 \<or> t > int MAX_RESOURCES_TYPE_NUM then exempted_loop ts acc
      else exempted_loop ts (acc OR res_bit (nat (t - 1))))"

definition GetExemptedResourceType :: "eenv \<Rightarrow> mask \<Rightarrow> int \<Rightarrow> string \<Rightarrow> mask" where
  "GetExemptedResourceType e resourceNumber uid bundleName =
     (let resourcesApply = QueryRunningResourcesApply e uid bundleName in
      if resourcesApply = [] then 0
      else if 0 \<in> set resourcesApply then resourceNumber
      else exempted_loop resourcesApply 0 AND resourceNumber)"

definition CheckIfCanApplyCpuLevel ::
    "eenv \<Rightarrow> EfficiencyResourceInfo \<Rightarrow> string \<Rightarrow> int \<Rightarrow> ErrCode \<times> EfficiencyResourceInfo" where
  "CheckIfCanApplyCpuLevel e ri bundleName uid =
     (if ri_resourceNumber ri AND CPU \<noteq> CPU then (ERR_OK, ri_SetCpuLevel CPU_LEVEL_DEFAULT ri)
      else if ri_cpuLevel ri = CPU_LEVEL_DEFAULT then (ERR_OK, ri)
      else if \<not> CheckRequestCpuLevelBundleNameConfigured (ee_config e) bundleName
      then (ERR_BGTASK_EFFICIENCY_RESOURCES_CPU_LEVEL_NOT_ALLOW_APPLY, ri)
      else case ee_bundleInfo e bundleName (GetUserIdByUid uid) of
             None \<Rightarrow> (ERR_BGTASK_EFFICIENCY_RESOURCES_INVALID_BUNDLE_INFO, ri)
           | Some (appId, appIdentifier) \<Rightarrow>
               if \<not> CheckRequestCpuLevelAppSignatures (ee_config e) bundleName appId appIdentifier
               then (ERR_BGTASK_EFFICIENCY_RESOURCES_CPU_LEVEL_APP_SIGNATURES_INVALID, ri)
               else if \<not> CheckRequestCpuLevel (ee_config e) bundleName (ri_cpuLevel ri)
               then (ERR_BGTASK_EFFICIENCY_RESOURCES_CPU_LEVEL_TOO_LARGE, ri)
               else (ERR_OK, ri))"

text \<open>
  The quota library is another repository's: \<open>ee_cpuQuota\<close> is its verdict, \<open>None\<close> when its function
  is missing, and the call is recorded.
\<close>

definition CheckOrUpdateCpuApplyQuota ::
    "eenv \<Rightarrow> int \<Rightarrow> string \<Rightarrow> EfficiencyResourceInfo \<Rightarrow> BgEfficiencyResourcesMgr \<Rightarrow> bool \<times> BgEfficiencyResourcesMgr" where
  "CheckOrUpdateCpuApplyQuota e uid bundleName ri m =
     (if ri_isProcess ri then (True, m)
      else if ri_resourceNumber ri AND CPU = 0 then (True, m)
      else if ri_isApply ri \<and> ri_isPersist ri then (True, m)
      else if \<not> er_quotaMgrHandle m then (True, m)
      else case ee_cpuQuota e of
             None \<Rightarrow> (True, m)
           | Some handleQuota \<Rightarrow>
               (handleQuota uid bundleName ri, er_emit [HandleCpuApplyQuota uid bundleName ri] m))"

definition GetPreAppCpuLevel :: "int \<Rightarrow> BgEfficiencyResourcesMgr \<Rightarrow> int" where
  "GetPreAppCpuLevel uid m =
     (case map_of (er_appResourceApplyMap m) uid of
        None \<Rightarrow> CPU_LEVEL_DEFAULT
      | Some r \<Rightarrow> if \<not> IsCpuLevelValid (ar_cpuLevel r) then CPU_LEVEL_DEFAULT else ar_cpuLevel r)"

section \<open>Applying\<close>

definition SendResourceApplyTask ::
    "int \<Rightarrow> int \<Rightarrow> string \<Rightarrow> EfficiencyResourceInfo \<Rightarrow> BgEfficiencyResourcesMgr \<Rightarrow> BgEfficiencyResourcesMgr" where
  "SendResourceApplyTask uid pid bundleName ri m =
     (let ci = ci_SetCpuLevel (ri_cpuLevel ri) (new_callback_info uid pid (ri_resourceNumber ri) bundleName)
      in if ri_isApply ri then er_post [TaskApply ci ri] m
         else er_post [TaskReset ci (ri_isProcess ri) APPLY_INTERFACE] m)"

text \<open>Of the resources asked for by a process, only the CPU is its own; the others go to its app.\<close>

definition ApplyResourceForPkgAndProc ::
    "int \<Rightarrow> int \<Rightarrow> string \<Rightarrow> EfficiencyResourceInfo \<Rightarrow> BgEfficiencyResourcesMgr \<Rightarrow> BgEfficiencyResourcesMgr" where
  "ApplyResourceForPkgAndProc uid pid bundleName ri m =
     (if \<not> ri_isProcess ri then SendResourceApplyTask uid pid bundleName ri m
      else
        let m1 = (if ri_resourceNumber ri AND CPU \<noteq> 0
                  then SendResourceApplyTask uid pid bundleName (ri\<lparr>ri_resourceNumber := CPU\<rparr>) m else m);
            resourceNumber = ri_resourceNumber ri AND NOT CPU
        in if resourceNumber \<noteq> 0
           then SendResourceApplyTask uid pid bundleName
                  (ri_SetCpuLevel (GetPreAppCpuLevel uid m1)
                    (ri\<lparr>ri_resourceNumber := resourceNumber, ri_isProcess := False\<rparr>)) m1
           else m1)"

definition ApplyEfficiencyResources ::
    "eenv \<Rightarrow> EfficiencyResourceInfo option \<Rightarrow> BgEfficiencyResourcesMgr \<Rightarrow> ErrCode \<times> BgEfficiencyResourcesMgr" where
  "ApplyEfficiencyResources e info m =
     (if \<not> er_isSysReady m then (ERR_BGTASK_SYS_NOT_READY, m)
      else if \<not> CheckResourceInfo info then (ERR_BGTASK_RESOURCES_EXCEEDS_MAX, m)
      else
        let ri = the info;
            uid = ee_callingUid e;
            pid = ee_callingPid e
        in case er_IsCallingInfoLegal e uid pid of
             None \<Rightarrow> (ERR_BGTASK_INVALID_PID_OR_UID, m)
           | Some bundleName \<Rightarrow>
               if \<not> ee_isSystemApp e \<and> \<not> IsServiceExtensionType e pid m then (ERR_BGTASK_NOT_SYSTEM_APP, m)
               else let (errCode, ri1) = CheckIfCanApplyCpuLevel e ri bundleName uid in
                    if errCode \<noteq> ERR_OK then (errCode, m)
                    else let exempted = GetExemptedResourceType e (ri_resourceNumber ri1) uid bundleName;
                             ri2 = ri1\<lparr>ri_resourceNumber := exempted\<rparr>
                         in if exempted = 0 then (ERR_BGTASK_PERMISSION_DENIED, m)
                            else let (allowed, m1) = CheckOrUpdateCpuApplyQuota e uid bundleName ri2 m in
                                 if \<not> allowed then (ERR_BGTASK_PERMISSION_DENIED, m1)
                                 else (ERR_OK, ApplyResourceForPkgAndProc uid pid bundleName ri2 m1))"

text \<open>The entry of one resource type, made or extended.\<close>

definition update_unit :: "eenv \<Rightarrow> EfficiencyResourceInfo \<Rightarrow> PersistTime \<Rightarrow> PersistTime" where
  "update_unit e ri u =
     (let persist = pt_isPersist u \<or> ri_isPersist ri;
          endtime = ee_now e + uint (ri_timeOut ri)
      in u\<lparr>pt_reason := ri_reason ri, pt_isPersist := persist,
           pt_endTime := (if persist then 0 else max (pt_endTime u) endtime)\<rparr>)"

definition new_unit :: "eenv \<Rightarrow> EfficiencyResourceInfo \<Rightarrow> nat \<Rightarrow> PersistTime" where
  "new_unit e ri i =
     \<lparr>pt_resourceIndex = i, pt_isPersist = ri_isPersist ri,
      pt_endTime = (if ri_isPersist ri then 0 else ee_now e + uint (ri_timeOut ri)),
      pt_reason = ri_reason ri, pt_timeOut = uint (ri_timeOut ri)\<rparr>"

fun update_first :: "nat \<Rightarrow> (PersistTime \<Rightarrow> PersistTime) \<Rightarrow> PersistTime list \<Rightarrow> PersistTime list" where
  "update_first i f [] = []"
| "update_first i f (u # us) = (if pt_resourceIndex u = i then f u # us else u # update_first i f us)"

fun endtime_loop ::
    "eenv \<Rightarrow> mask \<Rightarrow> EfficiencyResourceInfo \<Rightarrow> nat list \<Rightarrow> PersistTime list \<Rightarrow> PersistTime list" where
  "endtime_loop e n ri [] us = us"
| "endtime_loop e n ri (i # is) us =
     (if n AND res_bit i = 0 then endtime_loop e n ri is us
      else endtime_loop e n ri is
             (if list_ex (\<lambda>u. pt_resourceIndex u = i) us then update_first i (update_unit e ri) us
              else us @ [new_unit e ri i]))"

text \<open>The record with its units updated, and the time out posted unless the resource is persistent.\<close>

definition UpdateResourcesEndtime ::
    "eenv \<Rightarrow> ResourceCallbackInfo \<Rightarrow> EfficiencyResourceInfo \<Rightarrow> ResourceApplicationRecord \<Rightarrow>
     ResourceApplicationRecord \<times> eff_task list" where
  "UpdateResourcesEndtime e ci ri r =
     (r\<lparr>ar_resourceUnitList :=
          endtime_loop e (ci_resourceNumber ci) ri [0..<MAX_RESOURCES_TYPE_NUM] (ar_resourceUnitList r)\<rparr>,
      if ri_isPersist ri then []
      else [TaskTimeOut (if ri_isProcess ri then ci_pid ci else ci_uid ci) (ri_isProcess ri)
              (ee_now e + uint (ri_timeOut ri))])"

definition ApplyEfficiencyResourcesInner ::
    "eenv \<Rightarrow> ResourceCallbackInfo \<Rightarrow> EfficiencyResourceInfo \<Rightarrow> BgEfficiencyResourcesMgr \<Rightarrow> BgEfficiencyResourcesMgr" where
  "ApplyEfficiencyResourcesInner e ci ri m =
     (let isProcess = ri_isProcess ri;
          mapKey = (if isProcess then ci_pid ci else ci_uid ci);
          (pre, r0) =
            (case map_of (er_map isProcess m) mapKey of
               None \<Rightarrow> (0, ar_SetCpuLevel (ci_cpuLevel ci)
                            (new_record (ci_uid ci) (ci_pid ci) (ci_resourceNumber ci) (ci_bundleName ci)))
             | Some r \<Rightarrow> (ar_resourceNumber r,
                          r\<lparr>ar_resourceNumber := ar_resourceNumber r OR ci_resourceNumber ci\<rparr>));
          (r1, ts) = UpdateResourcesEndtime e ci ri r0;
          m1 = ReportApply e ri ci
                 (er_post ts (er_set_map isProcess (AList.update mapKey r1 (er_map isProcess m)) m));
          diff = ar_resourceNumber r1 XOR (pre AND ar_resourceNumber r1)
      in if diff = 0 then er_refresh m1
         else let m2 = OnResourceChanged (ci\<lparr>ci_resourceNumber := diff\<rparr>)
                         (if isProcess then RESOURCE_APPLY else APP_RESOURCE_APPLY) m1
              in er_refresh (er_set_map isProcess
                   (AList.update mapKey (ar_SetCpuLevel (ci_cpuLevel ci) r1) (er_map isProcess m2)) m2))"

section \<open>Resetting\<close>

definition UpdateQuotaIfCpuReset ::
    "eenv \<Rightarrow> EfficiencyResourcesEventType \<Rightarrow> int \<Rightarrow> mask \<Rightarrow> BgEfficiencyResourcesMgr \<Rightarrow> BgEfficiencyResourcesMgr" where
  "UpdateQuotaIfCpuReset e ty uid resourceNumber m =
     (if ty \<noteq> APP_RESOURCE_RESET then m
      else if resourceNumber AND CPU = 0 then m
      else if \<not> er_quotaMgrHandle m then m
      else if \<not> ee_updateQuota e then m
      else er_emit [UpdateCpuApplyQuota uid] m)"

definition RemoveListRecord :: "mask \<Rightarrow> PersistTime list \<Rightarrow> PersistTime list" where
  "RemoveListRecord eraseBit us =
     (if eraseBit = 0 then us else filter (\<lambda>u. res_bit (pt_resourceIndex u) AND eraseBit = 0) us)"

definition reset_type :: "bool \<Rightarrow> EfficiencyResourcesEventType" where
  "reset_type isProcess = (if isProcess then RESOURCE_RESET else APP_RESOURCE_RESET)"

text \<open>Tell the quota library, the report and the subscribers of a reset, then store or erase the record.\<close>

definition finish_reset ::
    "eenv \<Rightarrow> bool \<Rightarrow> int \<Rightarrow> ResourceCallbackInfo \<Rightarrow> ResourceApplicationRecord \<Rightarrow> BgEfficiencyResourcesMgr \<Rightarrow> BgEfficiencyResourcesMgr" where
  "finish_reset e isProcess mapKey ci r m =
     (let m1 = er_set_map isProcess (AList.update mapKey r (er_map isProcess m)) m;
          m2 = UpdateQuotaIfCpuReset e (reset_type isProcess) (ci_uid ci) (ci_resourceNumber ci) m1;
          m3 = OnResourceChanged ci (reset_type isProcess) (ReportReset e ci (reset_type isProcess) m2)
      in if ar_resourceNumber r = 0
         then er_set_map isProcess (AList.delete mapKey (er_map isProcess m3)) m3
         else m3)"

fun expired_bits :: "int \<Rightarrow> PersistTime list \<Rightarrow> mask" where
  "expired_bits now [] = 0"
| "expired_bits now (u # us) =
     (if pt_isPersist u then expired_bits now us
      else if now \<ge> pt_endTime u then res_bit (pt_resourceIndex u) OR expired_bits now us
      else expired_bits now us)"

definition ResetTimeOutResource ::
    "eenv \<Rightarrow> int \<Rightarrow> bool \<Rightarrow> BgEfficiencyResourcesMgr \<Rightarrow> BgEfficiencyResourcesMgr" where
  "ResetTimeOutResource e mapKey isProcess m =
     (case map_of (er_map isProcess m) mapKey of
        None \<Rightarrow> m
      | Some r \<Rightarrow>
          (let eraseBit = expired_bits (ee_now e) (ar_resourceUnitList r) in
           if eraseBit = 0 then m
           else finish_reset e isProcess mapKey
                  (ci_SetCpuLevel (ar_cpuLevel r) (new_callback_info (ar_uid r) (ar_pid r) eraseBit (ar_bundleName r)))
                  (r\<lparr>ar_resourceNumber := ar_resourceNumber r XOR eraseBit,
                     ar_resourceUnitList := RemoveListRecord eraseBit (ar_resourceUnitList r)\<rparr>) m))"

definition RemoveTargetResourceRecord ::
    "eenv \<Rightarrow> bool \<Rightarrow> int \<Rightarrow> ResourceCallbackInfo \<Rightarrow> BgEfficiencyResourcesMgr \<Rightarrow> bool \<times> BgEfficiencyResourcesMgr" where
  "RemoveTargetResourceRecord e isProcess mapKey info m =
     (case map_of (er_map isProcess m) mapKey of
        None \<Rightarrow> (False, m)
      | Some r \<Rightarrow>
          (let eraseBit = ar_resourceNumber r AND ci_resourceNumber info in
           if eraseBit = 0 then (False, m)
           else (True,
                 finish_reset e isProcess mapKey
                   (ci_SetCpuLevel (ci_cpuLevel info) (new_callback_info (ar_uid r) (ar_pid r) eraseBit (ar_bundleName r)))
                   (r\<lparr>ar_resourceNumber := ar_resourceNumber r XOR eraseBit,
                      ar_resourceUnitList := RemoveListRecord eraseBit (ar_resourceUnitList r)\<rparr>) m)))"

fun relative_tasks :: "int \<Rightarrow> mask \<Rightarrow> ResourceRecordMap \<Rightarrow> eff_task list" where
  "relative_tasks uid n [] = []"
| "relative_tasks uid n ((_, r) # t) =
     (if ar_uid r = uid \<and> n AND ar_resourceNumber r \<noteq> 0
      then TaskReset (ci_SetCpuLevel (ar_cpuLevel r)
             (new_callback_info uid (ar_pid r) (n AND ar_resourceNumber r) (ar_bundleName r)))
             True APP_DIDE_TRIGGER_PROCESS_DIED # relative_tasks uid n t
      else relative_tasks uid n t)"

definition RemoveRelativeProcessRecord :: "int \<Rightarrow> mask \<Rightarrow> BgEfficiencyResourcesMgr \<Rightarrow> BgEfficiencyResourcesMgr" where
  "RemoveRelativeProcessRecord uid n m = er_post (relative_tasks uid n (er_procResourceApplyMap m)) m"

definition ResetEfficiencyResourcesInner ::
    "eenv \<Rightarrow> ResourceCallbackInfo \<Rightarrow> bool \<Rightarrow> BgEfficiencyResourcesMgr \<Rightarrow> BgEfficiencyResourcesMgr" where
  "ResetEfficiencyResourcesInner e ci isProcess m =
     er_refresh
       (if isProcess then snd (RemoveTargetResourceRecord e True (ci_pid ci) ci m)
        else RemoveRelativeProcessRecord (ci_uid ci) (ci_resourceNumber ci)
               (snd (RemoveTargetResourceRecord e False (ci_uid ci) ci m)))"

definition ResetAllEfficiencyResources ::
    "eenv \<Rightarrow> BgEfficiencyResourcesMgr \<Rightarrow> ErrCode \<times> BgEfficiencyResourcesMgr" where
  "ResetAllEfficiencyResources e m =
     (if \<not> er_isSysReady m then (ERR_BGTASK_SYS_NOT_READY, m)
      else case er_IsCallingInfoLegal e (ee_callingUid e) (ee_callingPid e) of
             None \<Rightarrow> (ERR_BGTASK_INVALID_PID_OR_UID, m)
           | Some bundleName \<Rightarrow>
               if \<not> ee_isSystemApp e \<and> \<not> IsServiceExtensionType e (ee_callingPid e) m
               then (ERR_BGTASK_NOT_SYSTEM_APP, m)
               else let exempted = GetExemptedResourceType e MAX_RESOURCE_MASK (ee_callingUid e) bundleName in
                    if exempted = 0 then (ERR_BGTASK_PERMISSION_DENIED, m)
                    else (ERR_OK, er_post [TaskReset (new_callback_info (ee_callingUid e) (ee_callingPid e)
                                    exempted bundleName) False RESET_INTERFACE] m))"

definition RemoveAppRecord ::
    "int \<Rightarrow> string \<Rightarrow> bool \<Rightarrow> BgEfficiencyResourcesMgr \<Rightarrow> ErrCode \<times> BgEfficiencyResourcesMgr" where
  "RemoveAppRecord uid bundleName resetAll m =
     (if \<not> er_isSysReady m then (ERR_BGTASK_SYS_NOT_READY, m)
      else (ERR_OK, er_post [TaskReset (new_callback_info uid 0
              (if resetAll then MAX_RESOURCE_MASK else MAX_RESOURCE_MASK XOR WORK_SCHEDULER XOR TIMER)
              bundleName) False APP_DIED] m))"

definition RemoveProcessRecord ::
    "int \<Rightarrow> int \<Rightarrow> string \<Rightarrow> BgEfficiencyResourcesMgr \<Rightarrow> ErrCode \<times> BgEfficiencyResourcesMgr" where
  "RemoveProcessRecord uid pid bundleName m =
     (if \<not> er_isSysReady m then (ERR_BGTASK_SYS_NOT_READY, m)
      else (ERR_OK, er_post [TaskReset (new_callback_info uid pid
              (MAX_RESOURCE_MASK XOR WORK_SCHEDULER XOR TIMER) bundleName) True PROCESS_DIED] m))"

text \<open>A posted task runs, a delayed one not before it is due.\<close>

fun task_due :: "int \<Rightarrow> eff_task \<Rightarrow> bool" where
  "task_due now (TaskTimeOut _ _ due) \<longleftrightarrow> due \<le> now"
| "task_due now _ \<longleftrightarrow> True"

fun run_task :: "eenv \<Rightarrow> eff_task \<Rightarrow> BgEfficiencyResourcesMgr \<Rightarrow> BgEfficiencyResourcesMgr" where
  "run_task e (TaskApply ci ri) m = ApplyEfficiencyResourcesInner e ci ri m"
| "run_task e (TaskReset ci isProcess _) m = ResetEfficiencyResourcesInner e ci isProcess m"
| "run_task e (TaskTimeOut mapKey isProcess _) m = ResetTimeOutResource e mapKey isProcess m"

end
