(* ===== verification/EfficiencyLifecycle.thy ===== *)
theory EfficiencyLifecycle
  imports BgEfficiencyResourcesMgr
begin

text \<open>
  The rest of \<^verbatim>\<open>bg_efficiency_resources_mgr.cpp\<close>: start of the manager, arrival and loss of the
  services it depends on, recovery of the stored records, queries and dump commands. A task posted
  synchronously runs at once. The order of a hash table is the order of its list.
\<close>

unbundle bit_operations_syntax

section \<open>Recovery\<close>

text \<open>The processes the app manager reports; none when it cannot be reached.\<close>

definition GetAllRunningProcesses :: "eenv \<Rightarrow> (int \<times> int \<times> bool) list" where
  "GetAllRunningProcesses e = (case ee_running e of None \<Rightarrow> [] | Some ps \<Rightarrow> ps)"

fun EraseRecordIf :: "(int \<times> ResourceApplicationRecord \<Rightarrow> bool) \<Rightarrow> ResourceRecordMap \<Rightarrow> ResourceRecordMap" where
  "EraseRecordIf f [] = []"
| "EraseRecordIf f (kr # t) = (if f kr then EraseRecordIf f t else kr # EraseRecordIf f t)"

definition CheckPersistenceData ::
    "(int \<times> int \<times> bool) list \<Rightarrow> BgEfficiencyResourcesMgr \<Rightarrow> BgEfficiencyResourcesMgr" where
  "CheckPersistenceData allProcesses m =
     (let runningUid = map fst allProcesses;
          runningPid = map (\<lambda>(_, pid, _). pid) allProcesses;
          removeUid = (\<lambda>(k, r). if ar_resourceNumber r AND WORK_SCHEDULER \<noteq> 0 \<or> ar_resourceNumber r AND TIMER \<noteq> 0
                                then False else k \<notin> set runningUid);
          removePid = (\<lambda>(k, r). k \<notin> set runningPid)
      in m\<lparr>er_appResourceApplyMap := EraseRecordIf removeUid (er_appResourceApplyMap m),
           er_procResourceApplyMap := EraseRecordIf removePid (er_procResourceApplyMap m)\<rparr>)"

text \<open>Soon after boot the applications keep only work schedulers and timers.\<close>

definition RecoverResourceNumber :: "eenv \<Rightarrow> BgEfficiencyResourcesMgr \<Rightarrow> BgEfficiencyResourcesMgr" where
  "RecoverResourceNumber e m =
     (if ee_bootTime e > 4 * 60 * 1000 then m
      else m\<lparr>er_appResourceApplyMap :=
               map_vals (\<lambda>uid r. r\<lparr>ar_resourceNumber := ar_resourceNumber r AND (WORK_SCHEDULER OR TIMER)\<rparr>)
                 (er_appResourceApplyMap m)\<rparr>)"

definition recover_units :: "eenv \<Rightarrow> bool \<Rightarrow> int \<Rightarrow> PersistTime list \<Rightarrow> eff_task list" where
  "recover_units e isProcess mapKey us =
     List.map_filter (\<lambda>u. if pt_isPersist u then None
                          else Some (TaskTimeOut mapKey isProcess (ee_now e + max 0 (i32 (pt_endTime u - ee_now e))))) us"

definition RecoverDelayedTask :: "eenv \<Rightarrow> bool \<Rightarrow> ResourceRecordMap \<Rightarrow> BgEfficiencyResourcesMgr \<Rightarrow> BgEfficiencyResourcesMgr" where
  "RecoverDelayedTask e isProcess infoMap m =
     er_post (concat (map (\<lambda>(k, r). recover_units e isProcess k (ar_resourceUnitList r)) infoMap)) m"

definition HandlePersistenceData :: "eenv \<Rightarrow> BgEfficiencyResourcesMgr \<Rightarrow> BgEfficiencyResourcesMgr" where
  "HandlePersistenceData e m =
     (if \<not> er_appMgrClient m \<and> ee_running e = None
      then er_refresh (m\<lparr>er_appMgrClient := True\<rparr>)
      else
        let m0 = m\<lparr>er_appMgrClient := True\<rparr>;
            (_, app, proc) = RestoreResourceRecord (er_stored m0) (er_appResourceApplyMap m0) (er_procResourceApplyMap m0);
            m1 = m0\<lparr>er_appResourceApplyMap := app, er_procResourceApplyMap := proc\<rparr>;
            m2 = RecoverResourceNumber e (CheckPersistenceData (GetAllRunningProcesses e) m1);
            m3 = RecoverDelayedTask e True (er_procResourceApplyMap m2) m2;
            m4 = RecoverDelayedTask e False (er_appResourceApplyMap m3) m3
        in er_refresh m4)"

section \<open>Start and dependencies\<close>

definition LoadResourceQuotaMgrLib :: "bool \<Rightarrow> BgEfficiencyResourcesMgr \<Rightarrow> BgEfficiencyResourcesMgr" where
  "LoadResourceQuotaMgrLib found m = m\<lparr>er_quotaMgrHandle := found\<rparr>"

definition er_Init :: "bool \<Rightarrow> bool \<Rightarrow> BgEfficiencyResourcesMgr \<Rightarrow> bool \<times> BgEfficiencyResourcesMgr" where
  "er_Init runner lib m = (if \<not> runner then (False, m) else (True, LoadResourceQuotaMgrLib lib m))"

definition er_InitNecessaryState :: "eenv \<Rightarrow> BgEfficiencyResourcesMgr \<Rightarrow> BgEfficiencyResourcesMgr" where
  "er_InitNecessaryState e m =
     (if er_isSysReady m then m
      else er_emit [SetReadyEfficiencyResources] ((HandlePersistenceData e m)\<lparr>er_isSysReady := True\<rparr>))"

datatype depend_ability = APP_MGR_SERVICE | BUNDLE_MGR_SERVICE | RES_SCHED_SERVICE | UNRELATED_SERVICE

fun depend_bit :: "depend_ability \<Rightarrow> 32 word" where
  "depend_bit APP_MGR_SERVICE = 1"
| "depend_bit BUNDLE_MGR_SERVICE = 2"
| "depend_bit RES_SCHED_SERVICE = 4"
| "depend_bit UNRELATED_SERVICE = 0"

definition ALL_DEPENDS_READY :: "32 word" where
  "ALL_DEPENDS_READY = 1 OR 2 OR 4"

definition er_OnAddSystemAbility :: "eenv \<Rightarrow> depend_ability \<Rightarrow> BgEfficiencyResourcesMgr \<Rightarrow> BgEfficiencyResourcesMgr" where
  "er_OnAddSystemAbility e sa m =
     (let m1 = m\<lparr>er_dependsReady := er_dependsReady m OR depend_bit sa\<rparr>
      in if er_dependsReady m1 = ALL_DEPENDS_READY then er_InitNecessaryState e m1 else m1)"

definition er_OnRemoveSystemAbility :: "depend_ability \<Rightarrow> BgEfficiencyResourcesMgr \<Rightarrow> BgEfficiencyResourcesMgr" where
  "er_OnRemoveSystemAbility sa m =
     (let m1 = m\<lparr>er_dependsReady := er_dependsReady m AND NOT (depend_bit sa)\<rparr>
      in if er_dependsReady m1 \<noteq> ALL_DEPENDS_READY then m1\<lparr>er_isSysReady := False\<rparr> else m1)"

section \<open>Queries\<close>

definition CheckAlivedApp :: "eenv \<Rightarrow> int \<Rightarrow> BgEfficiencyResourcesMgr \<Rightarrow> bool" where
  "CheckAlivedApp e uid m =
     (if \<not> er_appMgrClient m then True
      else case ee_running e of
             None \<Rightarrow> True
           | Some ps \<Rightarrow> list_ex (\<lambda>(u, _, _). u = uid) ps)"

definition GetEfficiencyResourcesInfosInner :: "ResourceRecordMap \<Rightarrow> ResourceCallbackInfo list" where
  "GetEfficiencyResourcesInfosInner infoMap =
     map (\<lambda>(_, r). ci_SetCpuLevel (ar_cpuLevel r)
            (new_callback_info (ar_uid r) (ar_pid r) (ar_resourceNumber r) (ar_bundleName r))) infoMap"

definition GetEfficiencyResourcesInfos ::
    "BgEfficiencyResourcesMgr \<Rightarrow> ErrCode \<times> ResourceCallbackInfo list \<times> ResourceCallbackInfo list" where
  "GetEfficiencyResourcesInfos m =
     (ERR_OK, GetEfficiencyResourcesInfosInner (er_appResourceApplyMap m),
      GetEfficiencyResourcesInfosInner (er_procResourceApplyMap m))"

text \<open>The resource number shown for a unit is its index doubled, as the code has it.\<close>

definition unit_info ::
    "int \<Rightarrow> int \<Rightarrow> bool \<Rightarrow> ResourceApplicationRecord \<Rightarrow> PersistTime \<Rightarrow> EfficiencyResourceInfo" where
  "unit_info uid pid isProcess r u =
     (let info = \<lparr>ri_resourceNumber =
                    (if pt_resourceIndex u \<noteq> 0 then push_bit 1 (word_of_nat (pt_resourceIndex u)) else 1),
                  ri_isApply = False, ri_timeOut = word_of_int (pt_timeOut u), ri_reason = pt_reason u,
                  ri_isPersist = pt_isPersist u, ri_isProcess = isProcess, ri_uid = uid, ri_pid = pid,
                  ri_cpuLevel = CPU_LEVEL_DEFAULT\<rparr>
      in if ar_cpuLevel r \<noteq> CPU_LEVEL_DEFAULT then ri_SetCpuLevel (ar_cpuLevel r) info else info)"

definition GetAllEfficiencyResourcesInner ::
    "ResourceRecordMap \<Rightarrow> int \<Rightarrow> int \<Rightarrow> bool \<Rightarrow> EfficiencyResourceInfo list" where
  "GetAllEfficiencyResourcesInner infoMap uid pid isProcess =
     concat (map (\<lambda>(_, r). if ar_uid r \<noteq> uid then []
                           else map (unit_info uid pid isProcess r) (ar_resourceUnitList r)) infoMap)"

definition GetAllEfficiencyResources ::
    "eenv \<Rightarrow> BgEfficiencyResourcesMgr \<Rightarrow> ErrCode \<times> EfficiencyResourceInfo list" where
  "GetAllEfficiencyResources e m =
     (let uid = ee_callingUid e;
          pid = ee_callingPid e
      in if \<not> er_isSysReady m then (ERR_BGTASK_RESOURCES_SYS_NOT_READY, [])
         else case er_IsCallingInfoLegal e uid pid of
                None \<Rightarrow> (ERR_BGTASK_RESOURCES_INVALID_PID_OR_UID, [])
              | Some _ \<Rightarrow>
                  if \<not> ee_isSystemApp e \<and> \<not> IsServiceExtensionType e pid m then (ERR_BGTASK_NOT_SYSTEM_APP, [])
                  else (ERR_OK, GetAllEfficiencyResourcesInner (er_appResourceApplyMap m) uid pid False @
                                GetAllEfficiencyResourcesInner (er_procResourceApplyMap m) uid pid True))"

section \<open>Dump commands\<close>

text \<open>The quota library prints its own report: \<open>ee_getQuota\<close>.\<close>

definition DumpGetCpuQuota :: "eenv \<Rightarrow> string list \<Rightarrow> BgEfficiencyResourcesMgr \<Rightarrow> string list" where
  "DumpGetCpuQuota e opts m =
     (if \<not> er_quotaMgrHandle m then []
      else case ee_getQuota e of
             None \<Rightarrow> []
           | Some getQuota \<Rightarrow> if length opts \<noteq> 3 then [] else getQuota (atoi (opts ! 2)))"

definition DumpSetCpuQuota :: "eenv \<Rightarrow> string list \<Rightarrow> BgEfficiencyResourcesMgr \<Rightarrow> BgEfficiencyResourcesMgr" where
  "DumpSetCpuQuota e opts m =
     (if \<not> er_quotaMgrHandle m then m
      else if \<not> ee_setQuota e then m
      else if length opts \<noteq> 5 then m
      else er_emit [SetCpuApplyQuota (atoi (opts ! 2)) (word_of_int (atoi (opts ! 3)))
                      (word_of_int (atoi (opts ! 4)))] m)"

definition DumpResetCpuQuotaUsage :: "eenv \<Rightarrow> string list \<Rightarrow> BgEfficiencyResourcesMgr \<Rightarrow> BgEfficiencyResourcesMgr" where
  "DumpResetCpuQuotaUsage e opts m =
     (if \<not> er_quotaMgrHandle m then m
      else if \<not> ee_resetQuota e then m
      else if length opts \<noteq> 3 then m
      else er_emit [ResetCpuApplyQuotaUsage (atoi (opts ! 2))] m)"

abbreviation (input) NL :: string where "NL \<equiv> [CHR 0x0A]"
abbreviation (input) TAB :: string where "TAB \<equiv> [CHR 0x09]"

text \<open>An index beyond the table of names is undefined in C++; the model prints nothing for it.\<close>

definition dump_unit :: "int \<Rightarrow> PersistTime \<Rightarrow> string" where
  "dump_unit curTime u =
     TAB @ TAB @ TAB @ ''resource type: '' @
       (if pt_resourceIndex u < length ResourceTypeName then ResourceTypeName ! pt_resourceIndex u else []) @ NL @
     TAB @ TAB @ TAB @ ''isPersist: '' @ (if pt_isPersist u then ''true'' else ''false'') @ NL @
     (if pt_isPersist u then []
      else TAB @ TAB @ TAB @ ''remainTime: '' @ to_string (pt_endTime u - curTime) @ NL) @
     TAB @ TAB @ TAB @ ''reason: '' @ pt_reason u @ NL"

definition dump_record :: "int \<Rightarrow> nat \<Rightarrow> int \<Rightarrow> ResourceApplicationRecord \<Rightarrow> string" where
  "dump_record curTime index key r =
     ''No.'' @ to_string (int index) @ NL @
     TAB @ ''efficiencyResourceKey: '' @ to_string key @ NL @
     TAB @ ''efficiencyResourceValue:'' @ NL @
     TAB @ TAB @ ''bundleName: '' @ ar_bundleName r @ NL @
     TAB @ TAB @ ''uid: '' @ to_string (ar_uid r) @ NL @
     TAB @ TAB @ ''pid: '' @ to_string (ar_pid r) @ NL @
     TAB @ TAB @ ''resourceNumber: '' @ to_string (uint (ar_resourceNumber r)) @ NL @
     TAB @ TAB @ ''cpuLevel: '' @ to_string (ar_cpuLevel r) @ NL @
     concat (map (dump_unit curTime) (ar_resourceUnitList r)) @ NL"

text \<open>The stream is emptied after every record, so a head line waits for the first record after it.\<close>

fun dump_map_loop :: "int \<Rightarrow> nat \<Rightarrow> string \<Rightarrow> ResourceRecordMap \<Rightarrow> string list \<Rightarrow> string \<times> string list" where
  "dump_map_loop curTime index stream [] info = (stream, info)"
| "dump_map_loop curTime index stream ((k, r) # t) info =
     dump_map_loop curTime (index + 1) [] t (info @ [stream @ dump_record curTime index k r])"

definition DumpApplicationInfoMap ::
    "int \<Rightarrow> ResourceRecordMap \<Rightarrow> string list \<Rightarrow> string \<Rightarrow> string \<Rightarrow> string \<times> string list" where
  "DumpApplicationInfoMap curTime infoMap info stream headInfo =
     dump_map_loop curTime 1 (stream @ headInfo @ NL) infoMap info"

definition DumpAllApplicationInfo :: "eenv \<Rightarrow> BgEfficiencyResourcesMgr \<Rightarrow> string list" where
  "DumpAllApplicationInfo e m =
     (if er_appResourceApplyMap m = [] \<and> er_procResourceApplyMap m = []
      then [''No running efficiency resources'' @ NL]
      else let (stream, info) = DumpApplicationInfoMap (ee_now e) (er_appResourceApplyMap m) [] []
                                  (''app efficiency resource: '' @ NL)
           in snd (DumpApplicationInfoMap (ee_now e) (er_procResourceApplyMap m) info stream
                     (''process efficiency resource: '' @ NL)))"

fun dump_notify_loop :: "EfficiencyResourcesEventType \<Rightarrow> ResourceRecordMap \<Rightarrow> BgEfficiencyResourcesMgr \<Rightarrow> BgEfficiencyResourcesMgr" where
  "dump_notify_loop ty [] m = m"
| "dump_notify_loop ty ((_, r) # t) m =
     dump_notify_loop ty t
       (OnResourceChanged (ci_SetCpuLevel (ar_cpuLevel r)
          (new_callback_info (ar_uid r) (ar_pid r) (ar_resourceNumber r) (ar_bundleName r))) ty m)"

definition DumpResetResource ::
    "eenv \<Rightarrow> string list \<Rightarrow> bool \<Rightarrow> bool \<Rightarrow> BgEfficiencyResourcesMgr \<Rightarrow> BgEfficiencyResourcesMgr" where
  "DumpResetResource e opts cleanApp cleanAll m =
     (let isProcess = (\<not> cleanApp);
          infoMap = er_map isProcess m
      in if cleanAll then er_set_map isProcess [] (dump_notify_loop (reset_type isProcess) infoMap m)
         else if length opts < 4 then m
         else let mapKey = atoi (opts ! 2);
                  cleanResource = word_of_int (atoi (opts ! 3))
              in case map_of infoMap mapKey of
                   None \<Rightarrow> m
                 | Some r \<Rightarrow>
                     snd (RemoveTargetResourceRecord e isProcess mapKey
                       (ci_SetCpuLevel (ar_cpuLevel r)
                         (new_callback_info (ar_uid r) (ar_pid r) cleanResource (ar_bundleName r))) m))"

definition DumpResetAllResource :: "eenv \<Rightarrow> string list \<Rightarrow> BgEfficiencyResourcesMgr \<Rightarrow> BgEfficiencyResourcesMgr" where
  "DumpResetAllResource e opts m = DumpResetResource e opts False True (DumpResetResource e opts True True m)"

definition ShellDumpInner ::
    "eenv \<Rightarrow> string list \<Rightarrow> BgEfficiencyResourcesMgr \<Rightarrow> ErrCode \<times> string list \<times> BgEfficiencyResourcesMgr" where
  "ShellDumpInner e opts m =
     (if length opts \<le> 1 then (ERR_BGTASK_INVALID_PARAM, [], m)
      else
        let cmd = opts ! 1;
            (info, m1) =
              (if cmd = ''--all'' then (DumpAllApplicationInfo e m, m)
               else if cmd = ''--reset_all'' then ([], DumpResetAllResource e [] m)
               else if cmd = ''--resetapp'' then ([], DumpResetResource e opts True False m)
               else if cmd = ''--resetproc'' then ([], DumpResetResource e opts False False m)
               else if cmd = ''--setquota'' then ([], DumpSetCpuQuota e opts m)
               else if cmd = ''--resetquota'' then ([], DumpResetCpuQuotaUsage e opts m)
               else if cmd = ''--getquota'' then (DumpGetCpuQuota e opts m, m)
               else ([], m))
        in (ERR_OK, info, er_refresh m1))"

text \<open>The outcome of the posted command is not passed on.\<close>

definition er_ShellDump ::
    "eenv \<Rightarrow> string list \<Rightarrow> BgEfficiencyResourcesMgr \<Rightarrow> ErrCode \<times> string list \<times> BgEfficiencyResourcesMgr" where
  "er_ShellDump e opts m =
     (if \<not> er_isSysReady m then (ERR_BGTASK_SYS_NOT_READY, [], m)
      else (ERR_OK, snd (ShellDumpInner e opts m)))"

end
