(* ===== verification/EfficiencyInv.thy ===== *)
theory EfficiencyInv
  imports EfficiencyLifecycle
begin

text \<open>
  The invariant of the efficiency resource manager and its preservation by every operation. A
  record's mask has exactly the bits of its units; a unit that is not persistent is covered by a
  pending time out that is due no earlier than the unit ends; the tables, the record file, the
  posted tasks, the report batches and the readiness flags are well formed. Operations that only
  talk to the outside share the contract \<open>outward_op\<close>.
\<close>

unbundle bit_operations_syntax

section \<open>Well-formed records\<close>

definition unit_ok :: "PersistTime \<Rightarrow> bool" where
  "unit_ok u \<longleftrightarrow> pt_resourceIndex u < 9 \<and> is_i64 (pt_endTime u) \<and> is_i64 (pt_timeOut u) \<and>
     (pt_isPersist u \<longrightarrow> pt_endTime u = 0)"

definition units_ok :: "mask \<Rightarrow> PersistTime list \<Rightarrow> bool" where
  "units_ok n us \<longleftrightarrow> distinct (map pt_resourceIndex us) \<and> (\<forall>u \<in> set us. unit_ok u) \<and>
     (\<forall>i. bit n i \<longleftrightarrow> i \<in> pt_resourceIndex ` set us)"

definition rec_ok :: "ResourceApplicationRecord \<Rightarrow> bool" where
  "rec_ok r \<longleftrightarrow> ar_resourceNumber r \<noteq> 0 \<and> units_ok (ar_resourceNumber r) (ar_resourceUnitList r) \<and>
     is_i32 (ar_uid r) \<and> is_i32 (ar_pid r) \<and> IsCpuLevelValid (ar_cpuLevel r)"

definition entry_ok :: "bool \<Rightarrow> int \<Rightarrow> ResourceApplicationRecord \<Rightarrow> bool" where
  "entry_ok isProcess k r \<longleftrightarrow> rec_ok r \<and> k = (if isProcess then ar_pid r else ar_uid r) \<and>
     (isProcess \<longrightarrow> ar_resourceNumber r = CPU)"

definition table_ok :: "bool \<Rightarrow> ResourceRecordMap \<Rightarrow> bool" where
  "table_ok isProcess t \<longleftrightarrow> hm_wf t \<and> (\<forall>k r. map_of t k = Some r \<longrightarrow> entry_ok isProcess k r)"

fun task_ok :: "eff_task \<Rightarrow> bool" where
  "task_ok (TaskApply ci ri) \<longleftrightarrow> is_i32 (ci_uid ci) \<and> is_i32 (ci_pid ci) \<and> IsCpuLevelValid (ci_cpuLevel ci) \<and>
     ci_resourceNumber ci \<noteq> 0 \<and> (\<forall>i. bit (ci_resourceNumber ci) i \<longrightarrow> i < 9) \<and>
     (ri_isProcess ri \<longrightarrow> ci_resourceNumber ci = CPU)"
| "task_ok _ \<longleftrightarrow> True"

text \<open>Every unit with an end has a time out that does not run before that end.\<close>

definition unit_guarded :: "eff_task list \<Rightarrow> bool \<Rightarrow> int \<Rightarrow> PersistTime \<Rightarrow> bool" where
  "unit_guarded ts isProcess k u \<longleftrightarrow>
     pt_isPersist u \<or> (\<exists>due. TaskTimeOut k isProcess due \<in> set ts \<and> pt_endTime u \<le> due)"

definition guarded :: "eff_task list \<Rightarrow> bool \<Rightarrow> ResourceRecordMap \<Rightarrow> bool" where
  "guarded ts isProcess t \<longleftrightarrow>
     (\<forall>k r. map_of t k = Some r \<longrightarrow> (\<forall>u \<in> set (ar_resourceUnitList r). unit_guarded ts isProcess k u))"

definition section_ok :: "bool \<Rightarrow> json \<Rightarrow> bool" where
  "section_ok isProcess j \<longleftrightarrow>
     (\<forall>(key, v) \<in> set (json_items j). entry_ok isProcess (i32 (atoi key)) (snd (ParseFromJson v default_record)))"

fun stored_ok :: "json option \<Rightarrow> bool" where
  "stored_ok None \<longleftrightarrow> True"
| "stored_ok (Some root) \<longleftrightarrow>
     (json_contains root ''appResourceRecord'' \<longrightarrow> section_ok False (json_at root ''appResourceRecord'')) \<and>
     (json_contains root ''processResourceRecord'' \<longrightarrow> section_ok True (json_at root ''processResourceRecord''))"

definition tables_ok :: "BgEfficiencyResourcesMgr \<Rightarrow> bool" where
  "tables_ok m \<longleftrightarrow> (\<forall>p. table_ok p (er_map p m) \<and> guarded (er_posted m) p (er_map p m))"

definition er_inv :: "BgEfficiencyResourcesMgr \<Rightarrow> bool" where
  "er_inv m \<longleftrightarrow> tables_ok m \<and> list_all task_ok (er_posted m) \<and> stored_ok (er_stored m) \<and>
     (er_isSysReady m \<longrightarrow> er_dependsReady m = ALL_DEPENDS_READY) \<and>
     apply_batch_ok (er_applyEventData m) \<and> reset_batch_ok (er_resetEventData m) \<and> distinct (er_subscriberList m)"

definition eenv_fits :: "eenv \<Rightarrow> bool" where
  "eenv_fits e \<longleftrightarrow> is_i32 (ee_callingUid e) \<and> is_i32 (ee_callingPid e) \<and> 0 \<le> ee_now e \<and> ee_now e \<le> 4611686018427387904"

section \<open>Tables and outward calls\<close>

lemma er_map_set_map [simp]: "er_map p (er_set_map p' t m) = (if p = p' then t else er_map p m)"
  by (auto simp: er_map_def er_set_map_def)

lemma er_set_map_frame [simp]:
  "er_posted (er_set_map p t m) = er_posted m" "er_stored (er_set_map p t m) = er_stored m"
  "er_subscriberList (er_set_map p t m) = er_subscriberList m" "er_isSysReady (er_set_map p t m) = er_isSysReady m"
  "er_dependsReady (er_set_map p t m) = er_dependsReady m" "er_applyEventData (er_set_map p t m) = er_applyEventData m"
  "er_resetEventData (er_set_map p t m) = er_resetEventData m" "er_calls (er_set_map p t m) = er_calls m"
  "er_quotaMgrHandle (er_set_map p t m) = er_quotaMgrHandle m"
  by (simp_all add: er_set_map_def)

lemma er_map_post [simp]: "er_map p (er_post ts m) = er_map p m"
  and er_posted_post [simp]: "er_posted (er_post ts m) = er_posted m @ ts"
  and er_post_frame [simp]:
  "er_stored (er_post ts m) = er_stored m" "er_subscriberList (er_post ts m) = er_subscriberList m"
  "er_isSysReady (er_post ts m) = er_isSysReady m" "er_dependsReady (er_post ts m) = er_dependsReady m"
  "er_applyEventData (er_post ts m) = er_applyEventData m" "er_resetEventData (er_post ts m) = er_resetEventData m"
  "er_calls (er_post ts m) = er_calls m"
  by (simp_all add: er_map_def er_post_def)

lemma er_map_refresh [simp]: "er_map p (er_refresh m) = er_map p m"
  and er_refresh_frame [simp]:
  "er_posted (er_refresh m) = er_posted m" "er_subscriberList (er_refresh m) = er_subscriberList m"
  "er_isSysReady (er_refresh m) = er_isSysReady m" "er_dependsReady (er_refresh m) = er_dependsReady m"
  "er_applyEventData (er_refresh m) = er_applyEventData m" "er_resetEventData (er_refresh m) = er_resetEventData m"
  "er_calls (er_refresh m) = er_calls m"
  by (simp_all add: er_map_def er_refresh_def)

lemma er_map_fields [simp]:
  "er_map p (m\<lparr>er_subscriberList := subs\<rparr>) = er_map p m" "er_map p (m\<lparr>er_posted := ts\<rparr>) = er_map p m"
  "er_map p (m\<lparr>er_appMgrClient := b\<rparr>) = er_map p m" "er_map p (m\<lparr>er_dependsReady := w\<rparr>) = er_map p m"
  "er_map p (m\<lparr>er_isSysReady := b\<rparr>) = er_map p m" "er_map p (m\<lparr>er_quotaMgrHandle := b\<rparr>) = er_map p m"
  by (simp_all add: er_map_def)

lemma tables_of_er_map: "er_appResourceApplyMap m = er_map False m" "er_procResourceApplyMap m = er_map True m"
  by (simp_all add: er_map_def)

text \<open>What every operation that only calls outside promises.\<close>

locale outward_op =
  fixes f :: "BgEfficiencyResourcesMgr \<Rightarrow> BgEfficiencyResourcesMgr"
  assumes op_tables [simp]: "er_map p (f m) = er_map p m"
    and op_posted [simp]: "er_posted (f m) = er_posted m"
    and op_stored [simp]: "er_stored (f m) = er_stored m"
    and op_subscribers [simp]: "er_subscriberList (f m) = er_subscriberList m"
    and op_ready [simp]: "er_isSysReady (f m) = er_isSysReady m"
    and op_depends [simp]: "er_dependsReady (f m) = er_dependsReady m"
    and op_apply_batch: "apply_batch_ok (er_applyEventData m) \<Longrightarrow> apply_batch_ok (er_applyEventData (f m))"
    and op_reset_batch: "reset_batch_ok (er_resetEventData m) \<Longrightarrow> reset_batch_ok (er_resetEventData (f m))"
begin

lemma tables_kept: "tables_ok (f m) = tables_ok m"
  by (simp add: tables_ok_def)

lemma inv_kept: "er_inv m \<Longrightarrow> er_inv (f m)"
  by (simp add: er_inv_def tables_kept op_apply_batch op_reset_batch)

end

interpretation emit: outward_op "er_emit cs" for cs
  by unfold_locales (simp_all add: er_emit_def er_map_def)

interpretation changed: outward_op "OnResourceChanged ci ty" for ci ty
  by unfold_locales (simp_all add: OnResourceChanged_def er_emit_def er_map_def)

interpretation rep_apply: outward_op "ReportApply e ri ci" for e ri ci
  by unfold_locales
     (auto simp: ReportApply_def er_emit_def er_map_def split: prod.split dest: report_apply_ok [of _ "ee_stamp e" ri ci])

interpretation rep_reset: outward_op "ReportReset e ci ty" for e ci ty
  by unfold_locales
     (auto simp: ReportReset_def er_emit_def er_map_def split: prod.split dest: report_reset_ok [of _ "ee_stamp e" ci ty])

interpretation upd_quota: outward_op "UpdateQuotaIfCpuReset e ty uid n" for e ty uid n
  by unfold_locales (simp_all add: UpdateQuotaIfCpuReset_def emit.op_apply_batch emit.op_reset_batch)

interpretation check_quota: outward_op "\<lambda>m. snd (CheckOrUpdateCpuApplyQuota e uid b ri m)" for e uid b ri
  by unfold_locales (simp_all add: CheckOrUpdateCpuApplyQuota_def emit.op_apply_batch emit.op_reset_batch split: option.split)

interpretation set_quota: outward_op "DumpSetCpuQuota e opts" for e opts
  by unfold_locales (simp_all add: DumpSetCpuQuota_def emit.op_apply_batch emit.op_reset_batch)

interpretation reset_quota: outward_op "DumpResetCpuQuotaUsage e opts" for e opts
  by unfold_locales (simp_all add: DumpResetCpuQuotaUsage_def emit.op_apply_batch emit.op_reset_batch)

lemma dump_notify_frame:
  "er_map p (dump_notify_loop ty t m) = er_map p m \<and> er_posted (dump_notify_loop ty t m) = er_posted m \<and>
   er_stored (dump_notify_loop ty t m) = er_stored m \<and> er_subscriberList (dump_notify_loop ty t m) = er_subscriberList m \<and>
   er_isSysReady (dump_notify_loop ty t m) = er_isSysReady m \<and> er_dependsReady (dump_notify_loop ty t m) = er_dependsReady m \<and>
   er_applyEventData (dump_notify_loop ty t m) = er_applyEventData m \<and> er_resetEventData (dump_notify_loop ty t m) = er_resetEventData m"
  by (induction ty t m rule: dump_notify_loop.induct) (simp_all add: OnResourceChanged_def er_emit_def er_map_def)

interpretation dump_notify: outward_op "dump_notify_loop ty t" for ty t
  by unfold_locales (simp_all add: dump_notify_frame)

section \<open>Units\<close>

definition unit_of :: "PersistTime list \<Rightarrow> nat \<Rightarrow> PersistTime option" where
  "unit_of us i = find (\<lambda>u. pt_resourceIndex u = i) us"

lemma unit_of_None: "unit_of us i = None \<longleftrightarrow> i \<notin> pt_resourceIndex ` set us"
  by (auto simp: unit_of_def find_None_iff)

lemma unit_of_SomeD: "unit_of us i = Some u \<Longrightarrow> u \<in> set us \<and> pt_resourceIndex u = i"
  by (auto simp: unit_of_def find_Some_iff)

lemma unit_of_member:
  "distinct (map pt_resourceIndex us) \<Longrightarrow> u \<in> set us \<Longrightarrow> unit_of us (pt_resourceIndex u) = Some u"
  by (induction us) (auto simp: unit_of_def)

lemma unit_of_append:
  "unit_of (us @ vs) i = (case unit_of us i of None \<Rightarrow> unit_of vs i | Some u \<Rightarrow> Some u)"
  by (induction us) (auto simp: unit_of_def)

lemma update_first_keys: "(\<And>u. pt_resourceIndex (f u) = pt_resourceIndex u) \<Longrightarrow>
    map pt_resourceIndex (update_first i f us) = map pt_resourceIndex us"
  by (induction us) auto

lemma unit_of_update_first: "(\<And>u. pt_resourceIndex (f u) = pt_resourceIndex u) \<Longrightarrow>
    unit_of (update_first i f us) j = (if j = i then map_option f (unit_of us i) else unit_of us j)"
  by (induction us) (auto simp: unit_of_def)

lemma update_unit_index [simp]: "pt_resourceIndex (update_unit e ri u) = pt_resourceIndex u"
  by (simp add: update_unit_def Let_def)

lemma new_unit_index [simp]: "pt_resourceIndex (new_unit e ri i) = i"
  by (simp add: new_unit_def)

lemma unit_member_iff: "list_ex (\<lambda>u. pt_resourceIndex u = i) us \<longleftrightarrow> unit_of us i \<noteq> None"
  by (auto simp: unit_of_None list_ex_iff)

text \<open>What the loop leaves for each index, and that indices stay distinct.\<close>

definition applied_unit :: "eenv \<Rightarrow> EfficiencyResourceInfo \<Rightarrow> nat \<Rightarrow> PersistTime option \<Rightarrow> PersistTime" where
  "applied_unit e ri i old = (case old of None \<Rightarrow> new_unit e ri i | Some u \<Rightarrow> update_unit e ri u)"

lemma endtime_loop_units:
  "distinct is \<Longrightarrow>
   unit_of (endtime_loop e n ri is us) i =
     (if i \<in> set is \<and> bit n i then Some (applied_unit e ri i (unit_of us i)) else unit_of us i)"
proof (induction "is" arbitrary: us)
  case (Cons j js)
  show ?case
  proof (cases "bit n j")
    case False
    with Cons show ?thesis by (auto simp: mask_and_res_bit)
  next
    case True
    let ?us = "if list_ex (\<lambda>u. pt_resourceIndex u = j) us then update_first j (update_unit e ri) us else us @ [new_unit e ri j]"
    have "unit_of ?us i = (if i = j then Some (applied_unit e ri j (unit_of us j)) else unit_of us i)"
      by (auto simp: unit_member_iff unit_of_update_first unit_of_append applied_unit_def split: option.split)
         (simp_all add: unit_of_def)
    with Cons True show ?thesis by (auto simp: mask_and_res_bit)
  qed
qed simp

lemma endtime_loop_distinct:
  "distinct (map pt_resourceIndex us) \<Longrightarrow> distinct (map pt_resourceIndex (endtime_loop e n ri is us))"
proof (induction "is" arbitrary: us)
  case (Cons i "is")
  have "distinct (map pt_resourceIndex (us @ [new_unit e ri i]))" if "\<not> list_ex (\<lambda>u. pt_resourceIndex u = i) us"
    using that Cons.prems by (auto simp: list_ex_iff)
  then show ?case using Cons by (simp add: update_first_keys)
qed simp

lemma RemoveListRecord_filter: "RemoveListRecord b us = filter (\<lambda>u. \<not> bit b (pt_resourceIndex u)) us"
  using mask_and_res_bit [of b] by (auto simp: RemoveListRecord_def and.commute intro!: filter_cong)

lemma unit_of_filter:
  "distinct (map pt_resourceIndex us) \<Longrightarrow>
   unit_of (filter P us) i = (case unit_of us i of None \<Rightarrow> None | Some u \<Rightarrow> if P u then Some u else None)"
proof (induction us)
  case (Cons u us)
  then show ?case
    using unit_of_None [of us "pt_resourceIndex u"] by (auto simp: unit_of_def split: option.split)
qed (simp add: unit_of_def)

lemma bit_expired_bits:
  "bit (expired_bits now us) i \<longleftrightarrow>
   i < 32 \<and> (\<exists>u \<in> set us. \<not> pt_isPersist u \<and> pt_endTime u \<le> now \<and> pt_resourceIndex u = i)"
  by (induction us) (auto simp: bit_simps)

lemma units_okD:
  "units_ok n us \<Longrightarrow> distinct (map pt_resourceIndex us)"
  "units_ok n us \<Longrightarrow> bit n i \<longleftrightarrow> unit_of us i \<noteq> None"
  "units_ok n us \<Longrightarrow> u \<in> set us \<Longrightarrow> unit_ok u"
  "units_ok n us \<Longrightarrow> bit n i \<Longrightarrow> i < 9"
  by (auto simp: units_ok_def unit_of_None unit_ok_def)

lemma units_ok_remove:
  assumes "units_ok n us" and "\<And>i. bit b i \<Longrightarrow> bit n i"
  shows "units_ok (n XOR b) (RemoveListRecord b us)"
proof -
  have "bit (n XOR b) i \<longleftrightarrow> i \<in> pt_resourceIndex ` set (RemoveListRecord b us)" for i
    using assms by (auto simp: units_ok_def RemoveListRecord_filter bit_simps)
  then show ?thesis using assms by (auto simp: units_ok_def RemoveListRecord_filter distinct_map_filter)
qed

lemma expired_subset: "units_ok n us \<Longrightarrow> bit (expired_bits now us) i \<Longrightarrow> bit n i"
  by (auto simp: bit_expired_bits units_ok_def)

lemma expired_exact:
  assumes "units_ok n us" and "u \<in> set us"
  shows "bit (expired_bits now us) (pt_resourceIndex u) \<longleftrightarrow> \<not> pt_isPersist u \<and> pt_endTime u \<le> now"
proof -
  have "v = u" if "v \<in> set us" "pt_resourceIndex v = pt_resourceIndex u" for v
    using that assms by (auto simp: units_ok_def distinct_map inj_on_def)
  moreover have "pt_resourceIndex u < 32" using assms by (auto simp: units_ok_def unit_ok_def)
  ultimately show ?thesis using assms(2) by (auto simp: bit_expired_bits)
qed

lemma applied_unit_index:
  "unit_of us i = old \<Longrightarrow> pt_resourceIndex (applied_unit e ri i old) = i"
  by (auto simp: applied_unit_def dest: unit_of_SomeD split: option.split)

lemma uint32_bound: "uint (w :: 32 word) < 4294967296"
  using uint_lt2p [of w] by simp

lemma is_i64_end:
  assumes "eenv_fits e"
  shows "is_i64 (uint (w :: 32 word))" "is_i64 (ee_now e + uint w)"
proof -
  have "0 \<le> uint w" "0 \<le> ee_now e" using assms by (simp_all add: eenv_fits_def)
  then have "- 9223372036854775808 \<le> uint w" "- 9223372036854775808 \<le> ee_now e + uint w" by linarith+
  then show "is_i64 (uint w)" "is_i64 (ee_now e + uint w)"
    using assms uint32_bound [of w] by (simp_all add: is_i64_def eenv_fits_def)
qed

lemma is_i64_max: "is_i64 a \<Longrightarrow> is_i64 b \<Longrightarrow> is_i64 (max a b)"
  by (simp add: max_def)

lemma is_i64_0 [simp]: "is_i64 0"
  by (simp add: is_i64_def)

lemma new_unit_ok: "eenv_fits e \<Longrightarrow> i < 9 \<Longrightarrow> unit_ok (new_unit e ri i)"
  by (simp add: unit_ok_def new_unit_def is_i64_end)

lemma update_unit_ok: "eenv_fits e \<Longrightarrow> unit_ok u \<Longrightarrow> unit_ok (update_unit e ri u)"
  by (simp add: unit_ok_def update_unit_def Let_def is_i64_end is_i64_max)

lemma endtime_loop_member:
  assumes us: "distinct (map pt_resourceIndex us)" and u: "u \<in> set (endtime_loop e n ri [0..<9] us)"
  shows "(u \<in> set us \<and> \<not> (pt_resourceIndex u < 9 \<and> bit n (pt_resourceIndex u))) \<or>
         (pt_resourceIndex u < 9 \<and> bit n (pt_resourceIndex u) \<and>
          u = applied_unit e ri (pt_resourceIndex u) (unit_of us (pt_resourceIndex u)))"
proof -
  let ?i = "pt_resourceIndex u"
  have "Some u = (if ?i < 9 \<and> bit n ?i then Some (applied_unit e ri ?i (unit_of us ?i)) else unit_of us ?i)"
    using endtime_loop_units [of "[0..<9]" e n ri us ?i] unit_of_member [OF endtime_loop_distinct [OF us] u] by simp
  then show ?thesis by (metis option.inject unit_of_SomeD)
qed

lemma units_ok_apply:
  assumes us: "units_ok n us" and e: "eenv_fits e" and c: "\<And>i. bit c i \<Longrightarrow> i < 9"
  shows "units_ok (n OR c) (endtime_loop e c ri [0..<9] us)"
proof -
  let ?us = "endtime_loop e c ri [0..<9] us"
  have "unit_ok u" if "u \<in> set ?us" for u
  proof -
    have "unit_ok (applied_unit e ri i (unit_of us i))" if "i < 9" for i
      using that e us by (auto simp: applied_unit_def new_unit_ok update_unit_ok units_okD(3) dest: unit_of_SomeD split: option.split)
    then show ?thesis using endtime_loop_member [OF units_okD(1) [OF us] that] us units_okD(3) by metis
  qed
  moreover have "bit (n OR c) i \<longleftrightarrow> i \<in> pt_resourceIndex ` set ?us" for i
    using c [of i] endtime_loop_units [of "[0..<9]" e c ri us i] unit_of_None [of ?us i] units_okD(2) [OF us, of i]
    by (auto simp: bit_simps split: if_splits)
  ultimately show ?thesis using endtime_loop_distinct [OF units_okD(1) [OF us]] by (simp add: units_ok_def)
qed

end
