(* ===== verification/EfficiencySteps.thy ===== *)
theory EfficiencySteps
  imports EfficiencyInv
begin

text \<open>
  Every operation of the efficiency resource manager keeps the invariant, the step relation over
  requests, posted tasks, services, subscribers and dump commands, and the states it reaches.
\<close>

unbundle bit_operations_syntax

section \<open>Tables\<close>

lemma table_ok_put: "table_ok p t \<Longrightarrow> entry_ok p k r \<Longrightarrow> table_ok p (AList.update k r t)"
  by (simp add: table_ok_def hm.wf_put update_conv')

lemma table_ok_del: "table_ok p t \<Longrightarrow> table_ok p (AList.delete k t)"
  by (simp add: table_ok_def hm.wf_del delete_conv')

lemma unit_guarded_mono: "unit_guarded ts p k u \<Longrightarrow> set ts \<subseteq> set ts' \<Longrightarrow> unit_guarded ts' p k u"
  by (auto simp: unit_guarded_def)

lemma guardedD: "guarded ts p t \<Longrightarrow> map_of t k = Some r \<Longrightarrow> u \<in> set (ar_resourceUnitList r) \<Longrightarrow> unit_guarded ts p k u"
  by (simp add: guarded_def)

lemma guarded_mono: "guarded ts p t \<Longrightarrow> set ts \<subseteq> set ts' \<Longrightarrow> guarded ts' p t"
  unfolding guarded_def using unit_guarded_mono by blast

lemma guarded_put:
  "guarded ts p t \<Longrightarrow> \<forall>u \<in> set (ar_resourceUnitList r). unit_guarded ts p k u \<Longrightarrow> guarded ts p (AList.update k r t)"
  by (simp add: guarded_def update_conv')

lemma guarded_del: "guarded ts p t \<Longrightarrow> guarded ts p (AList.delete k t)"
  by (simp add: guarded_def delete_conv')

lemma table_entry: "table_ok p t \<Longrightarrow> map_of t k = Some r \<Longrightarrow> entry_ok p k r"
  by (simp add: table_ok_def)

lemma table_rows: "table_ok p t \<Longrightarrow> (k, r) \<in> set t \<longleftrightarrow> map_of t k = Some r"
  by (simp add: table_ok_def hm_wf_def)

section \<open>The record file\<close>

lemma cpu_level_i32: "IsCpuLevelValid l \<Longrightarrow> is_i32 l"
  by (simp add: IsCpuLevelValid_def is_i32_def)

lemma rec_ok_storable: "rec_ok r \<Longrightarrow> record_storable r"
  by (force simp: rec_ok_def record_storable_def units_ok_def unit_ok_def unit_storable_def list_all_iff cpu_level_i32)

lemma entry_ok_key: "entry_ok p k r \<Longrightarrow> is_i32 k"
  by (auto simp: entry_ok_def rec_ok_def)

lemma table_ok_storable:
  assumes "table_ok p t"
  shows "table_storable t"
proof -
  have "is_i32 k \<and> record_storable r" if "(k, r) \<in> set t" for k r
  proof -
    have "entry_ok p k r" using that assms by (simp add: table_rows table_entry)
    then show ?thesis by (metis entry_ok_key rec_ok_storable entry_ok_def)
  qed
  then show ?thesis using assms by (auto simp: table_storable_def table_ok_def)
qed

lemma section_ok_convert:
  assumes "table_ok p t"
  shows "section_ok p (ConvertMapToJson t)"
proof -
  have e: "entry_ok p (i32 (atoi (to_string k))) (snd (ParseFromJson (ParseToJson r) default_record))"
    if "(k, r) \<in> set t" for k r
  proof -
    have "entry_ok p k r" using that assms by (simp add: table_rows table_entry)
    moreover from this have "is_i32 k" "record_storable r"
      by (metis entry_ok_key rec_ok_storable entry_ok_def)+
    ultimately show ?thesis by (simp add: ParseFromJson_ParseToJson)
  qed
  have "set (json_items (ConvertMapToJson t)) = (\<lambda>(k, r). (to_string k, ParseToJson r)) ` set t"
    using ConvertMapToJson_items [OF table_ok_storable [OF assms]] by blast
  with e show ?thesis by (auto simp: section_ok_def)
qed

lemma er_refresh_inv [inv_intros]:
  assumes "er_inv m"
  shows "er_inv (er_refresh m)"
proof -
  have t: "table_ok p (er_map p m)" for p using assms by (simp add: er_inv_def tables_ok_def)
  have "stored_ok (er_stored (er_refresh m))"
    using section_ok_convert [OF t [of False]] section_ok_convert [OF t [of True]]
    by (simp add: er_refresh_def RefreshResourceRecord_def er_map_def)
  with assms show ?thesis by (simp add: er_inv_def tables_ok_def)
qed

lemma table_ok_append:
  assumes "table_ok p t" and "entry_ok p k r" and "map_of t k = None"
  shows "table_ok p (t @ [(k, r)])"
proof -
  have "map_of (t @ [(k, r)]) k' = (if k' = k then Some r else map_of t k')" for k'
    using assms(3) by (auto simp: map_add_def split: option.split)
  moreover have "hm_wf (t @ [(k, r)])"
    using assms(1,3) by (auto simp: table_ok_def hm_wf_def map_of_eq_None_iff)
  ultimately show ?thesis using assms(1,2) by (simp add: table_ok_def)
qed

lemma json_to_map_ok:
  "table_ok p t \<Longrightarrow> \<forall>(key, v) \<in> set items. entry_ok p (i32 (atoi key)) (snd (ParseFromJson v default_record)) \<Longrightarrow>
   table_ok p (json_to_map_loop items t)"
proof (induction items t rule: json_to_map_loop.induct)
  case (2 key v items t)
  let ?k = "i32 (atoi key)" and ?r = "snd (ParseFromJson v default_record)"
  have r: "entry_ok p ?k ?r" using 2 by simp
  have "table_ok p (t @ [(?k, ?r)])" if "map_of t ?k = None"
    using table_ok_append [OF "2.prems"(1) r that] .
  with 2 show ?case by (simp add: Let_def)
qed simp

definition restored :: "BgEfficiencyResourcesMgr \<Rightarrow> ResourceRecordMap \<times> ResourceRecordMap" where
  "restored m = snd (RestoreResourceRecord (er_stored m) (er_appResourceApplyMap m) (er_procResourceApplyMap m))"

lemma restored_ok:
  assumes "er_inv m"
  shows "table_ok False (fst (restored m))" "table_ok True (snd (restored m))"
proof -
  have t: "table_ok False (er_appResourceApplyMap m)" "table_ok True (er_procResourceApplyMap m)"
    using assms by (auto simp: er_inv_def tables_ok_def er_map_def dest: spec [of _ True] spec [of _ False])
  have s: "stored_ok (er_stored m)" using assms by (simp add: er_inv_def)
  show "table_ok False (fst (restored m))" "table_ok True (snd (restored m))"
    using t s by (auto simp: restored_def RestoreResourceRecord_def DivideJsonToMap_def ConvertJsonToMap_def
      section_ok_def intro: json_to_map_ok split: option.split)
qed

section \<open>Applying\<close>

lemma er_post_inv [inv_intros]: "er_inv m \<Longrightarrow> list_all task_ok ts \<Longrightarrow> er_inv (er_post ts m)"
  by (auto simp: er_inv_def tables_ok_def intro: guarded_mono)

lemma er_set_map_inv:
  assumes "er_inv m" and "table_ok p t" and "guarded (er_posted m) p t"
  shows "er_inv (er_set_map p t m)"
  using assms by (simp add: er_inv_def tables_ok_def)

lemma er_put_inv:
  assumes "er_inv m" and "entry_ok p k r" and "\<forall>u \<in> set (ar_resourceUnitList r). unit_guarded (er_posted m) p k u"
  shows "er_inv (er_set_map p (AList.update k r (er_map p m)) m)"
  using assms by (intro er_set_map_inv table_ok_put guarded_put) (auto simp: er_inv_def tables_ok_def)

lemma er_inv_if: "(c \<Longrightarrow> er_inv a) \<Longrightarrow> (\<not> c \<Longrightarrow> er_inv b) \<Longrightarrow> er_inv (if c then a else b)"
  by simp

lemma er_post_set_map: "er_post ts (er_set_map p t m) = er_set_map p t (er_post ts m)"
  by (simp add: er_post_def er_set_map_def)

text \<open>The record an application finds or makes, and the mask it had before.\<close>

definition found_record :: "ResourceCallbackInfo \<Rightarrow> ResourceApplicationRecord option \<Rightarrow> mask \<times> ResourceApplicationRecord" where
  "found_record ci old =
     (case old of
        None \<Rightarrow> (0, ar_SetCpuLevel (ci_cpuLevel ci)
                   (new_record (ci_uid ci) (ci_pid ci) (ci_resourceNumber ci) (ci_bundleName ci)))
      | Some r \<Rightarrow> (ar_resourceNumber r, r\<lparr>ar_resourceNumber := ar_resourceNumber r OR ci_resourceNumber ci\<rparr>))"

definition apply_key :: "ResourceCallbackInfo \<Rightarrow> EfficiencyResourceInfo \<Rightarrow> int" where
  "apply_key ci ri = (if ri_isProcess ri then ci_pid ci else ci_uid ci)"

definition applied_record ::
    "eenv \<Rightarrow> ResourceCallbackInfo \<Rightarrow> EfficiencyResourceInfo \<Rightarrow> ResourceApplicationRecord option \<Rightarrow> ResourceApplicationRecord" where
  "applied_record e ci ri old = fst (UpdateResourcesEndtime e ci ri (snd (found_record ci old)))"

lemma found_units_ok:
  "(\<And>r. old = Some r \<Longrightarrow> entry_ok p k r) \<Longrightarrow> units_ok (fst (found_record ci old)) (ar_resourceUnitList (snd (found_record ci old)))"
  by (cases old) (auto simp: found_record_def new_record_def ar_SetCpuLevel_def units_ok_def entry_ok_def rec_ok_def)

lemma found_mask: "ar_resourceNumber (snd (found_record ci old)) = fst (found_record ci old) OR ci_resourceNumber ci"
  by (cases old) (simp_all add: found_record_def new_record_def ar_SetCpuLevel_def)

lemma applied_record_mask:
  "ar_resourceNumber (applied_record e ci ri old) = fst (found_record ci old) OR ci_resourceNumber ci"
  by (simp add: applied_record_def UpdateResourcesEndtime_def found_mask)

lemma applied_record_ok:
  assumes "task_ok (TaskApply ci ri)" and "eenv_fits e"
    and old: "\<And>r. old = Some r \<Longrightarrow> entry_ok (ri_isProcess ri) (apply_key ci ri) r"
  shows "entry_ok (ri_isProcess ri) (apply_key ci ri) (applied_record e ci ri old)"
proof -
  let ?r0 = "snd (found_record ci old)" and ?n = "fst (found_record ci old)"
  have "units_ok (?n OR ci_resourceNumber ci) (endtime_loop e (ci_resourceNumber ci) ri [0..<9] (ar_resourceUnitList ?r0))"
    using assms found_units_ok [OF old] by (intro units_ok_apply) simp_all
  moreover have "is_i32 (ar_uid ?r0) \<and> is_i32 (ar_pid ?r0) \<and> IsCpuLevelValid (ar_cpuLevel ?r0) \<and>
      apply_key ci ri = (if ri_isProcess ri then ar_pid ?r0 else ar_uid ?r0)"
    using assms by (cases old) (auto simp: found_record_def new_record_def ar_SetCpuLevel_def apply_key_def entry_ok_def rec_ok_def)
  moreover have "ri_isProcess ri \<longrightarrow> ?n OR ci_resourceNumber ci = CPU"
    using assms by (cases old) (auto simp: found_record_def entry_ok_def)
  moreover have "?n OR ci_resourceNumber ci \<noteq> 0" using assms(1) by (simp add: or_eq_0_iff)
  ultimately show ?thesis
    using applied_record_mask [of e ci ri old]
    by (simp add: applied_record_def UpdateResourcesEndtime_def entry_ok_def rec_ok_def found_mask)
qed

lemma applied_unit_guarded:
  assumes "\<And>u. old = Some u \<Longrightarrow> unit_guarded ts p k u"
    and "\<not> ri_isPersist ri \<Longrightarrow> TaskTimeOut k p (ee_now e + uint (ri_timeOut ri)) \<in> set ts"
  shows "unit_guarded ts p k (applied_unit e ri i old)"
  using assms
  by (cases old) (auto simp: applied_unit_def unit_guarded_def new_unit_def update_unit_def Let_def max_def)

lemma applied_record_guarded:
  assumes "\<And>r u. old = Some r \<Longrightarrow> u \<in> set (ar_resourceUnitList r) \<Longrightarrow> unit_guarded ts (ri_isProcess ri) (apply_key ci ri) u"
    and "\<And>r. old = Some r \<Longrightarrow> entry_ok p k r" and "set (snd (UpdateResourcesEndtime e ci ri r0)) \<subseteq> set ts"
    and "u \<in> set (ar_resourceUnitList (applied_record e ci ri old))"
  shows "unit_guarded ts (ri_isProcess ri) (apply_key ci ri) u"
proof -
  let ?us = "ar_resourceUnitList (snd (found_record ci old))"
  have d: "distinct (map pt_resourceIndex ?us)"
    using found_units_ok [OF assms(2), of old ci] units_okD(1) by blast
  have g: "unit_guarded ts (ri_isProcess ri) (apply_key ci ri) v" if "v \<in> set ?us" for v
    using that assms(1) by (cases old) (auto simp: found_record_def new_record_def ar_SetCpuLevel_def)
  have "unit_guarded ts (ri_isProcess ri) (apply_key ci ri) (applied_unit e ri i (unit_of ?us i))" for i
    using assms(3) by (intro applied_unit_guarded g) (auto dest: unit_of_SomeD simp: UpdateResourcesEndtime_def apply_key_def)
  then show ?thesis
    using endtime_loop_member [OF d, of u e "ci_resourceNumber ci" ri] assms(4) g
    by (auto simp: applied_record_def UpdateResourcesEndtime_def) metis+
qed

lemma Apply_eq:
  "ApplyEfficiencyResourcesInner e ci ri m =
     (let p = ri_isProcess ri; k = apply_key ci ri; old = map_of (er_map p m) k;
          r = applied_record e ci ri old;
          m1 = ReportApply e ri ci (er_set_map p (AList.update k r (er_map p m))
                 (er_post (snd (UpdateResourcesEndtime e ci ri (snd (found_record ci old)))) m));
          diff = ar_resourceNumber r XOR (fst (found_record ci old) AND ar_resourceNumber r)
      in if diff = 0 then er_refresh m1
         else let m2 = OnResourceChanged (ci\<lparr>ci_resourceNumber := diff\<rparr>) (if p then RESOURCE_APPLY else APP_RESOURCE_APPLY) m1
              in er_refresh (er_set_map p (AList.update k (ar_SetCpuLevel (ci_cpuLevel ci) r) (er_map p m2)) m2))"
  by (simp add: ApplyEfficiencyResourcesInner_def Let_def found_record_def [symmetric] case_prod_beta
      applied_record_def apply_key_def er_post_set_map)

lemma er_set_map_twice [simp]: "er_set_map p t (er_set_map p t' m) = er_set_map p t m"
  by (simp add: er_set_map_def)

lemma entry_ok_cpu_level: "entry_ok p k r \<Longrightarrow> entry_ok p k (ar_SetCpuLevel l r)"
  by (simp add: entry_ok_def rec_ok_def ar_SetCpuLevel_def)

lemma ApplyEfficiencyResourcesInner_inv [inv_intros]:
  assumes "er_inv m" and "task_ok (TaskApply ci ri)" and "eenv_fits e"
  shows "er_inv (ApplyEfficiencyResourcesInner e ci ri m)"
proof -
  define p k where "p = ri_isProcess ri" and "k = apply_key ci ri"
  define old where "old = map_of (er_map p m) k"
  define r ts where "r = applied_record e ci ri old" and "ts = snd (UpdateResourcesEndtime e ci ri (snd (found_record ci old)))"
  have t: "table_ok p (er_map p m)" "guarded (er_posted m) p (er_map p m)"
    using assms(1) by (simp_all add: er_inv_def tables_ok_def)
  have o: "entry_ok p k r'" if "old = Some r'" for r' using that t(1) by (simp add: old_def table_entry)
  have r: "entry_ok p k r" unfolding r_def p_def k_def using assms(2,3) o by (intro applied_record_ok) (auto simp: p_def k_def)
  have g: "unit_guarded (er_posted (er_post ts m)) p k u" if "u \<in> set (ar_resourceUnitList r)" for u
    unfolding p_def k_def
  proof (rule applied_record_guarded [of old _ ri ci p k e "snd (found_record ci old)"])
    show "u \<in> set (ar_resourceUnitList (applied_record e ci ri old))" using that by (simp add: r_def)
    show "set (snd (UpdateResourcesEndtime e ci ri (snd (found_record ci old)))) \<subseteq> set (er_posted (er_post ts m))"
      by (simp add: ts_def)
    show "unit_guarded (er_posted (er_post ts m)) (ri_isProcess ri) (apply_key ci ri) v"
      if "old = Some r'" "v \<in> set (ar_resourceUnitList r')" for r' v
      using guardedD [OF t(2) that [unfolded old_def]] unfolding p_def k_def by (rule unit_guarded_mono) simp
  qed (rule o)
  have post: "er_inv (er_post ts m)" using assms(1) by (intro er_post_inv) (simp_all add: ts_def UpdateResourcesEndtime_def)
  let ?m1 = "ReportApply e ri ci (er_set_map p (AList.update k r (er_map p m)) (er_post ts m))"
  have m1: "er_inv ?m1" using er_put_inv [OF post r] g by (intro rep_apply.inv_kept) simp
  have "er_inv (er_set_map p (AList.update k (ar_SetCpuLevel l r) (er_map p m2)) m2)" if "m2 = OnResourceChanged c ty ?m1" for l c ty m2
    unfolding that using changed.inv_kept [OF m1] entry_ok_cpu_level [OF r] g
    by (intro er_put_inv) (simp_all add: ar_SetCpuLevel_def)
  note m2 = er_refresh_inv [OF this [OF refl]]
  show ?thesis
    unfolding Apply_eq Let_def p_def [symmetric] k_def [symmetric] old_def [symmetric] r_def [symmetric] ts_def [symmetric]
    by (rule er_inv_if) (rule er_refresh_inv [OF m1], rule m2)
qed

section \<open>Resetting\<close>

definition er_rest :: "BgEfficiencyResourcesMgr \<Rightarrow> bool" where
  "er_rest m \<longleftrightarrow> list_all task_ok (er_posted m) \<and> stored_ok (er_stored m) \<and>
     (er_isSysReady m \<longrightarrow> er_dependsReady m = ALL_DEPENDS_READY) \<and>
     apply_batch_ok (er_applyEventData m) \<and> reset_batch_ok (er_resetEventData m) \<and> distinct (er_subscriberList m)"

lemma er_inv_split: "er_inv m \<longleftrightarrow> tables_ok m \<and> er_rest m"
  by (auto simp: er_inv_def er_rest_def)

text \<open>All units but those of one row are covered.\<close>

definition guarded_but :: "bool \<Rightarrow> int \<Rightarrow> BgEfficiencyResourcesMgr \<Rightarrow> bool" where
  "guarded_but p k m \<longleftrightarrow>
     (\<forall>q k' r u. (q, k') \<noteq> (p, k) \<longrightarrow> map_of (er_map q m) k' = Some r \<longrightarrow> u \<in> set (ar_resourceUnitList r) \<longrightarrow>
        unit_guarded (er_posted m) q k' u)"

lemma guarded_but_complete:
  assumes "guarded_but p k m"
    and "\<And>r u. map_of (er_map p m) k = Some r \<Longrightarrow> u \<in> set (ar_resourceUnitList r) \<Longrightarrow> unit_guarded (er_posted m) p k u"
  shows "guarded (er_posted m) q (er_map q m)"
  using assms unfolding guarded_but_def guarded_def by (metis prod.inject)

lemma finish_reset_frame [simp]:
  "er_posted (finish_reset e p k ci r m) = er_posted m" "er_stored (finish_reset e p k ci r m) = er_stored m"
  "er_subscriberList (finish_reset e p k ci r m) = er_subscriberList m"
  "er_isSysReady (finish_reset e p k ci r m) = er_isSysReady m" "er_dependsReady (finish_reset e p k ci r m) = er_dependsReady m"
  by (simp_all add: finish_reset_def Let_def)

lemma finish_reset_table:
  "er_map q (finish_reset e p k ci r m) =
     (if q = p then (if ar_resourceNumber r = 0 then AList.delete k (AList.update k r (er_map p m))
                     else AList.update k r (er_map p m))
      else er_map q m)"
  by (simp add: finish_reset_def Let_def)

lemma finish_reset_rows:
  "map_of (er_map q (finish_reset e p k ci r m)) =
     (if q = p then (map_of (er_map p m))(k := if ar_resourceNumber r = 0 then None else Some r) else map_of (er_map q m))"
  by (simp add: finish_reset_table update_conv' delete_conv')

lemma finish_reset_batches:
  assumes "apply_batch_ok (er_applyEventData m)" and "reset_batch_ok (er_resetEventData m)"
  shows "apply_batch_ok (er_applyEventData (finish_reset e p k ci r m)) \<and> reset_batch_ok (er_resetEventData (finish_reset e p k ci r m))"
  using assms unfolding finish_reset_def Let_def
  by (simp add: changed.op_apply_batch changed.op_reset_batch rep_reset.op_apply_batch rep_reset.op_reset_batch
      upd_quota.op_apply_batch upd_quota.op_reset_batch)

lemma finish_reset_inv:
  assumes tables: "\<And>q. table_ok q (er_map q m)" and others: "guarded_but p k m" and rest: "er_rest m"
    and new: "ar_resourceNumber r \<noteq> 0 \<Longrightarrow> entry_ok p k r"
      "\<And>u. u \<in> set (ar_resourceUnitList r) \<Longrightarrow> unit_guarded (er_posted m) p k u"
  shows "er_inv (finish_reset e p k ci r m)"
proof -
  let ?m = "finish_reset e p k ci r m"
  have "table_ok q (er_map q ?m)" for q
  proof (cases "q = p \<and> ar_resourceNumber r = 0")
    case True
    then have "hm_wf (er_map q ?m)" using tables [of p] by (simp add: finish_reset_table table_ok_def hm.wf_put hm.wf_del)
    with True show ?thesis using tables [of p] by (simp add: finish_reset_rows table_ok_def)
  next
    case False
    then show ?thesis using tables [of p] tables [of q] new(1) by (auto simp: finish_reset_table intro: table_ok_put)
  qed
  moreover have "guarded (er_posted ?m) q (er_map q ?m)" for q
    unfolding guarded_def
  proof (intro allI impI ballI)
    fix k' r' u
    assume row: "map_of (er_map q ?m) k' = Some r'" and u: "u \<in> set (ar_resourceUnitList r')"
    show "unit_guarded (er_posted ?m) q k' u"
    proof (cases "(q, k') = (p, k)")
      case True
      with row u new(2) show ?thesis by (auto simp: finish_reset_rows split: if_splits)
    next
      case False
      then have "map_of (er_map q m) k' = Some r'" using row by (auto simp: finish_reset_rows split: if_splits)
      with others False u show ?thesis unfolding guarded_but_def finish_reset_frame by blast
    qed
  qed
  moreover have "er_rest ?m" using rest finish_reset_batches [of m] by (simp add: er_rest_def)
  ultimately show ?thesis by (simp add: er_inv_split tables_ok_def)
qed

lemma entry_ok_remove:
  assumes "entry_ok p k r" and "\<And>i. bit b i \<Longrightarrow> bit (ar_resourceNumber r) i"
    and "ar_resourceNumber r XOR b \<noteq> 0"
  shows "entry_ok p k (r\<lparr>ar_resourceNumber := ar_resourceNumber r XOR b, ar_resourceUnitList := RemoveListRecord b (ar_resourceUnitList r)\<rparr>)"
proof -
  have "ar_resourceNumber r XOR b = CPU" if "ar_resourceNumber r = CPU"
  proof -
    have "\<not> bit b i" for i
    proof
      assume i: "bit b i"
      then have "i = 0" using assms(2) [OF i] that by (simp add: bit_1_iff)
      with i have "b = 1" using assms(2) that by (intro bit_eqI) (auto simp: bit_1_iff)
      with that assms(3) show False by simp
    qed
    then have "b = 0" by (simp add: mask_zero_iff)
    with that show ?thesis by simp
  qed
  moreover have "units_ok (ar_resourceNumber r XOR b) (RemoveListRecord b (ar_resourceUnitList r))"
    using assms by (intro units_ok_remove) (auto simp: entry_ok_def rec_ok_def)
  ultimately show ?thesis using assms by (simp add: entry_ok_def rec_ok_def)
qed

lemma er_inv_parts:
  assumes "er_inv m"
  shows "table_ok q (er_map q m)" "guarded (er_posted m) q (er_map q m)" "er_rest m" "guarded_but p k m"
  using assms unfolding er_inv_split tables_ok_def guarded_but_def by (blast intro: guardedD)+

lemma RemoveTargetResourceRecord_inv [inv_intros]:
  assumes "er_inv m"
  shows "er_inv (snd (RemoveTargetResourceRecord e p k info m))"
proof (cases "map_of (er_map p m) k")
  case (Some r)
  note parts = er_inv_parts [OF assms]
  let ?b = "ar_resourceNumber r AND ci_resourceNumber info"
  let ?r = "r\<lparr>ar_resourceNumber := ar_resourceNumber r XOR ?b, ar_resourceUnitList := RemoveListRecord ?b (ar_resourceUnitList r)\<rparr>"
  have "er_inv (finish_reset e p k ci ?r m)" for ci
  proof (rule finish_reset_inv)
    show "entry_ok p k ?r" if "ar_resourceNumber ?r \<noteq> 0"
      using that table_entry [OF parts(1) Some] by (intro entry_ok_remove) (simp_all add: bit_simps)
    show "unit_guarded (er_posted m) p k u" if "u \<in> set (ar_resourceUnitList ?r)" for u
      using that guardedD [OF parts(2) Some] by (simp add: RemoveListRecord_filter)
  qed (rule parts)+
  then show ?thesis using Some assms by (simp add: RemoveTargetResourceRecord_def Let_def)
qed (use assms in \<open>simp add: RemoveTargetResourceRecord_def\<close>)

lemma relative_tasks_ok: "list_all task_ok (relative_tasks uid n t)"
  by (induction t) auto

lemma ResetEfficiencyResourcesInner_inv [inv_intros]:
  "er_inv m \<Longrightarrow> er_inv (ResetEfficiencyResourcesInner e ci p m)"
  unfolding ResetEfficiencyResourcesInner_def RemoveRelativeProcessRecord_def
  by (intro er_refresh_inv er_inv_if er_post_inv RemoveTargetResourceRecord_inv relative_tasks_ok)

text \<open>A time out runs: what it removes was covered by it, what it leaves is covered by another.\<close>

lemma guard_after_removal:
  assumes "unit_guarded (xs @ t # ys) q k' u" and "t = TaskTimeOut k p due"
    and "(q, k') \<noteq> (p, k) \<or> pt_isPersist u \<or> due < pt_endTime u"
  shows "unit_guarded (xs @ ys) q k' u"
  using assms by (auto simp: unit_guarded_def)

lemma run_timeout_inv:
  assumes "er_inv m" and posted: "er_posted m = xs @ t # ys" and t: "t = TaskTimeOut k p due" and due: "due \<le> ee_now e"
  shows "er_inv (ResetTimeOutResource e k p (m\<lparr>er_posted := xs @ ys\<rparr>))"
proof -
  let ?m = "m\<lparr>er_posted := xs @ ys\<rparr>"
  note parts = er_inv_parts [OF assms(1)]
  have map [simp]: "er_map q ?m = er_map q m" for q by (simp add: er_map_def)
  have rest: "er_rest ?m" using parts(3) posted by (simp add: er_rest_def)
  have but: "guarded_but p k ?m"
    unfolding guarded_but_def
  proof (intro allI impI)
    fix q k' r u
    assume "(q, k') \<noteq> (p, k)" "map_of (er_map q ?m) k' = Some r" "u \<in> set (ar_resourceUnitList r)"
    then show "unit_guarded (er_posted ?m) q k' u"
      using guardedD [OF parts(2), of q k' r u] posted by (auto intro: guard_after_removal [OF _ t])
  qed
  show ?thesis
  proof (cases "map_of (er_map p m) k")
    case None
    have "guarded (xs @ ys) q (er_map q m)" for q
      using guarded_but_complete [OF but, of q] None by simp
    then show ?thesis using None parts(1) rest by (simp add: ResetTimeOutResource_def er_inv_split tables_ok_def)
  next
    case (Some r)
    let ?b = "expired_bits (ee_now e) (ar_resourceUnitList r)"
    let ?r = "r\<lparr>ar_resourceNumber := ar_resourceNumber r XOR ?b, ar_resourceUnitList := RemoveListRecord ?b (ar_resourceUnitList r)\<rparr>"
    have ok: "units_ok (ar_resourceNumber r) (ar_resourceUnitList r)"
      using table_entry [OF parts(1) Some] by (simp add: entry_ok_def rec_ok_def)
    have left: "unit_guarded (xs @ ys) p k u"
      if "u \<in> set (ar_resourceUnitList r)" "\<not> bit ?b (pt_resourceIndex u)" for u
    proof (rule guard_after_removal [OF _ t])
      show "unit_guarded (xs @ t # ys) p k u" using guardedD [OF parts(2) Some that(1)] posted by simp
      show "(p, k) \<noteq> (p, k) \<or> pt_isPersist u \<or> due < pt_endTime u"
        using that(2) due unfolding expired_exact [OF ok that(1)] by linarith
    qed
    have "er_inv (finish_reset e p k ci ?r ?m)" for ci
    proof (rule finish_reset_inv)
      show "entry_ok p k ?r" if "ar_resourceNumber ?r \<noteq> 0"
        using that table_entry [OF parts(1) Some] expired_subset [OF ok] by (intro entry_ok_remove) simp_all
    qed (use parts(1) but rest left in \<open>simp_all add: RemoveListRecord_filter\<close>)
    moreover have "er_inv ?m" if "?b = 0"
    proof -
      have "guarded (xs @ ys) q (er_map q m)" for q
        using guarded_but_complete [OF but, of q] left Some that by simp
      then show ?thesis using parts(1) rest by (simp add: er_inv_split tables_ok_def)
    qed
    ultimately show ?thesis using Some by (simp add: ResetTimeOutResource_def Let_def)
  qed
qed

end
