(* ===== verification/EfficiencyReach.thy ===== *)
theory EfficiencyReach
  imports EfficiencySteps
begin

text \<open>
  The step relation of the efficiency resource manager and its reachable states. Every step keeps
  the invariant of \<^verbatim>\<open>EfficiencyInv\<close>.
\<close>

unbundle bit_operations_syntax

section \<open>Requests\<close>

lemma mask_bits: "n \<le> MAX_RESOURCE_MASK \<Longrightarrow> bit n i \<Longrightarrow> i < 9"
proof -
  assume n: "n \<le> MAX_RESOURCE_MASK" and i: "bit n i"
  have "uint n < 2 ^ 9" using n by (simp add: MAX_RESOURCE_MASK_val word_le_def)
  then have "take_bit 9 (uint n) = uint n" by (intro take_bit_int_eq_self) simp_all
  moreover have "bit (uint n) i" using i bit_imp_le_length [of n i] by (simp add: bit_uint_iff)
  ultimately show "i < 9" by (metis bit_take_bit_iff)
qed

lemma exempted_subset: "bit (GetExemptedResourceType e n uid b) i \<Longrightarrow> bit n i"
  by (auto simp: GetExemptedResourceType_def Let_def bit_simps split: if_splits)

lemma CheckIfCanApplyCpuLevel_keeps:
  "CheckIfCanApplyCpuLevel e ri b uid = (err, ri1) \<Longrightarrow>
   ri_resourceNumber ri1 = ri_resourceNumber ri \<and> ri_isProcess ri1 = ri_isProcess ri \<and> ri_isApply ri1 = ri_isApply ri \<and>
   ri_isPersist ri1 = ri_isPersist ri \<and> ri_timeOut ri1 = ri_timeOut ri"
  by (auto simp: CheckIfCanApplyCpuLevel_def ri_SetCpuLevel_def split: if_splits option.splits)

lemma SendResourceApplyTask_inv:
  assumes "er_inv m" "is_i32 uid" "is_i32 pid" "ri_resourceNumber ri \<noteq> 0" "\<And>i. bit (ri_resourceNumber ri) i \<Longrightarrow> i < 9"
    and "ri_isProcess ri \<Longrightarrow> ri_resourceNumber ri = CPU"
  shows "er_inv (SendResourceApplyTask uid pid b ri m)"
proof -
  have "er_inv (er_post [t] m)" if "task_ok t" for t using that assms(1) by (intro er_post_inv) simp_all
  then show ?thesis using assms(2-)
    by (auto simp: SendResourceApplyTask_def Let_def new_callback_info_def ci_SetCpuLevel_def)
qed

lemma ApplyResourceForPkgAndProc_inv:
  assumes "er_inv m" "is_i32 uid" "is_i32 pid" "ri_resourceNumber ri \<noteq> 0" "\<And>i. bit (ri_resourceNumber ri) i \<Longrightarrow> i < 9"
  shows "er_inv (ApplyResourceForPkgAndProc uid pid b ri m)"
proof -
  have cpu: "er_inv (SendResourceApplyTask uid pid b (ri\<lparr>ri_resourceNumber := CPU\<rparr>) m)"
    using assms by (intro SendResourceApplyTask_inv) (simp_all add: bit_1_iff)
  have other: "er_inv (SendResourceApplyTask uid pid b
      (ri_SetCpuLevel l (ri\<lparr>ri_resourceNumber := ri_resourceNumber ri AND NOT CPU, ri_isProcess := False\<rparr>)) m')"
    if "er_inv m'" "ri_resourceNumber ri AND NOT CPU \<noteq> 0" for l m'
    using that assms
    by (intro SendResourceApplyTask_inv) (auto simp: ri_SetCpuLevel_def bit_and_iff simp del: bit.compl_one)
  have "er_inv (SendResourceApplyTask uid pid b ri m)" if "\<not> ri_isProcess ri"
    using that assms by (intro SendResourceApplyTask_inv) simp_all
  with assms(1) cpu other show ?thesis by (simp add: ApplyResourceForPkgAndProc_def Let_def)
qed

lemma ApplyEfficiencyResources_inv [inv_intros]:
  assumes inv: "er_inv m" and e: "eenv_fits e"
  shows "er_inv (snd (ApplyEfficiencyResources e info m))"
proof -
  have applied: "er_inv (ApplyResourceForPkgAndProc (ee_callingUid e) (ee_callingPid e) b (ri1\<lparr>ri_resourceNumber := n\<rparr>) m1)"
    if "CheckResourceInfo (Some ri)" "CheckIfCanApplyCpuLevel e ri b uid = (err, ri1)" "n \<noteq> 0"
      "n = GetExemptedResourceType e (ri_resourceNumber ri1) uid b" "er_inv m1" for ri ri1 b n err uid m1
    using that e CheckIfCanApplyCpuLevel_keeps [OF that(2)] exempted_subset [of e "ri_resourceNumber ri1" uid b]
    by (intro ApplyResourceForPkgAndProc_inv) (auto simp: eenv_fits_def CheckResourceInfo_def not_less intro: mask_bits)
  have quota: "er_inv m1" if "CheckOrUpdateCpuApplyQuota e uid b ri2 m = (ok, m1)" for uid b ri2 ok m1
    using check_quota.inv_kept [OF inv, of e uid b ri2] that by simp
  show ?thesis
    using inv
    by (cases info)
       (auto simp: ApplyEfficiencyResources_def Let_def CheckResourceInfo_def [of None] quota applied split: option.split prod.split)
qed

lemma post_reset_inv: "er_inv m \<Longrightarrow> er_inv (er_post [TaskReset ci p reason] m)"
  by (rule er_post_inv) simp_all

lemma ResetAllEfficiencyResources_inv [inv_intros]: "er_inv m \<Longrightarrow> er_inv (snd (ResetAllEfficiencyResources e m))"
  by (simp add: ResetAllEfficiencyResources_def Let_def post_reset_inv split: option.split)

lemma RemoveAppRecord_inv [inv_intros]: "er_inv m \<Longrightarrow> er_inv (snd (RemoveAppRecord uid b all m))"
  by (simp add: RemoveAppRecord_def post_reset_inv)

lemma RemoveProcessRecord_inv [inv_intros]: "er_inv m \<Longrightarrow> er_inv (snd (RemoveProcessRecord uid pid b m))"
  by (simp add: RemoveProcessRecord_def post_reset_inv)

section \<open>Subscribers\<close>

lemma er_subscribers_inv: "er_inv m \<Longrightarrow> distinct subs \<Longrightarrow> er_inv (m\<lparr>er_subscriberList := subs\<rparr>)"
  by (simp add: er_inv_def tables_ok_def)

lemma er_inv_distinct: "er_inv m \<Longrightarrow> distinct (er_subscriberList m)"
  by (simp add: er_inv_def)

lemma er_AddSubscriber_inv [inv_intros]: "er_inv m \<Longrightarrow> er_inv (snd (er_AddSubscriber s m))"
  using er_inv_distinct [of m]
  by (auto simp: er_AddSubscriber_def rs_AddSubscriber_def intro!: er_subscribers_inv split: option.split)

lemma er_RemoveSubscriber_inv [inv_intros]: "er_inv m \<Longrightarrow> er_inv (snd (er_RemoveSubscriber s m))"
  using er_inv_distinct [of m]
  by (auto simp: er_RemoveSubscriber_def rs_RemoveSubscriber_def intro!: er_subscribers_inv split: option.split)

definition er_SubscriberDied :: "nat option \<Rightarrow> BgEfficiencyResourcesMgr \<Rightarrow> BgEfficiencyResourcesMgr" where
  "er_SubscriberDied rem m = m\<lparr>er_subscriberList := rs_HandleSubscriberDeath rem (er_subscriberList m)\<rparr>"

lemma er_SubscriberDied_inv [inv_intros]: "er_inv m \<Longrightarrow> er_inv (er_SubscriberDied rem m)"
  using er_inv_distinct [of m]
  by (auto simp: er_SubscriberDied_def rs_HandleSubscriberDeath_def intro!: er_subscribers_inv split: option.split)

section \<open>Dump commands\<close>

lemma er_clear_inv: "er_inv m \<Longrightarrow> er_inv (er_set_map p [] m)"
  by (rule er_set_map_inv) (simp_all add: table_ok_def guarded_def hm_wf_def)

lemma DumpResetResource_inv [inv_intros]: "er_inv m \<Longrightarrow> er_inv (DumpResetResource e opts app all m)"
  by (auto simp: DumpResetResource_def Let_def dump_notify.inv_kept er_clear_inv RemoveTargetResourceRecord_inv split: option.split)

lemma ShellDumpInner_inv [inv_intros]: "er_inv m \<Longrightarrow> er_inv (snd (snd (ShellDumpInner e opts m)))"
  unfolding ShellDumpInner_def Let_def
  by (simp add: er_refresh_inv DumpResetResource_inv DumpResetAllResource_def set_quota.inv_kept reset_quota.inv_kept)

lemma er_ShellDump_inv [inv_intros]: "er_inv m \<Longrightarrow> er_inv (snd (snd (er_ShellDump e opts m)))"
  by (simp add: er_ShellDump_def ShellDumpInner_inv)

section \<open>Services\<close>

text \<open>
  Recovery keeps the masks and units of a record in agreement and covers every unit when what is
  recovered soon after boot has only work schedulers and timers, and when no unit ends later than
  a 32-bit count of milliseconds from now.
\<close>

definition recovery_exact :: "eenv \<Rightarrow> BgEfficiencyResourcesMgr \<Rightarrow> bool" where
  "recovery_exact e m \<longleftrightarrow>
     (ee_bootTime e > 240000 \<or>
      (\<forall>(k, r) \<in> set (fst (restored m)). ar_resourceNumber r AND (WORK_SCHEDULER OR TIMER) = ar_resourceNumber r)) \<and>
     (\<forall>(k, r) \<in> set (fst (restored m)) \<union> set (snd (restored m)). \<forall>u \<in> set (ar_resourceUnitList r).
        pt_endTime u - ee_now e \<le> INT_MAX)"

lemma EraseRecordIf_filter: "EraseRecordIf f t = filter (\<lambda>kr. \<not> f kr) t"
  by (induction t) auto

lemma table_ok_filter:
  assumes "table_ok p t"
  shows "table_ok p (filter P t)"
proof -
  have wf: "hm_wf (filter P t)" using assms by (simp add: table_ok_def hm_wf_filter)
  have "entry_ok p k r" if "map_of (filter P t) k = Some r" for k r
    using map_of_SomeD [OF that] table_rows [OF assms, of k r] table_entry [OF assms, of k r] by simp
  with wf show ?thesis by (simp add: table_ok_def)
qed

lemma i32_end: "x \<le> INT_MAX \<Longrightarrow> x \<le> max 0 (i32 x)"
  by (cases "0 \<le> x") (simp_all add: is_i32_nonneg)

lemma recover_guarded:
  assumes "table_ok p t" and "\<And>k r u. (k, r) \<in> set t \<Longrightarrow> u \<in> set (ar_resourceUnitList r) \<Longrightarrow> pt_endTime u - ee_now e \<le> INT_MAX"
    and "set (concat (map (\<lambda>(k, r). recover_units e p k (ar_resourceUnitList r)) t)) \<subseteq> set ts"
  shows "guarded ts p t"
  unfolding guarded_def
proof (intro allI impI ballI)
  fix k r u
  assume r: "map_of t k = Some r" and u: "u \<in> set (ar_resourceUnitList r)"
  have kr: "(k, r) \<in> set t" using r by (rule map_of_SomeD)
  let ?due = "ee_now e + max 0 (i32 (pt_endTime u - ee_now e))"
  have "TaskTimeOut k p ?due \<in> set (recover_units e p k (ar_resourceUnitList r))" if "\<not> pt_isPersist u"
    using u that by (force simp: recover_units_def List.map_filter_def)
  then have "TaskTimeOut k p ?due \<in> set ts" if "\<not> pt_isPersist u" using that kr assms(3) by fastforce
  moreover have "pt_endTime u \<le> ?due" using i32_end [OF assms(2) [OF kr u]] by linarith
  ultimately show "unit_guarded ts p k u" by (auto simp: unit_guarded_def)
qed

text \<open>The tables after recovery: the restored rows that are kept.\<close>

definition kept_app :: "eenv \<Rightarrow> int \<times> ResourceApplicationRecord \<Rightarrow> bool" where
  "kept_app e = (\<lambda>(uid, r). ar_resourceNumber r AND WORK_SCHEDULER \<noteq> 0 \<or> ar_resourceNumber r AND TIMER \<noteq> 0 \<or>
     uid \<in> fst ` set (GetAllRunningProcesses e))"

definition kept_proc :: "eenv \<Rightarrow> int \<times> ResourceApplicationRecord \<Rightarrow> bool" where
  "kept_proc e = (\<lambda>(pid, r). pid \<in> (\<lambda>(_, p, _). p) ` set (GetAllRunningProcesses e))"

lemma CheckPersistenceData_eq:
  "CheckPersistenceData (GetAllRunningProcesses e) m =
     m\<lparr>er_appResourceApplyMap := filter (kept_app e) (er_appResourceApplyMap m),
       er_procResourceApplyMap := filter (kept_proc e) (er_procResourceApplyMap m)\<rparr>"
proof -
  have "filter (kept_app e) t = filter (\<lambda>kr. \<not> (case kr of (k, r) \<Rightarrow>
      if ar_resourceNumber r AND WORK_SCHEDULER \<noteq> 0 \<or> ar_resourceNumber r AND TIMER \<noteq> 0 then False
      else k \<notin> set (map fst (GetAllRunningProcesses e)))) t" for t
    by (rule filter_cong) (auto simp: kept_app_def)
  moreover have "filter (kept_proc e) t = filter (\<lambda>kr. \<not> (case kr of (k, r) \<Rightarrow>
      k \<notin> set (map (\<lambda>(_, pid, _). pid) (GetAllRunningProcesses e)))) t" for t
    by (rule filter_cong) (auto simp: kept_proc_def image_iff)
  ultimately show ?thesis by (simp add: CheckPersistenceData_def Let_def EraseRecordIf_filter)
qed

lemma RecoverResourceNumber_exact:
  assumes "ee_bootTime e > 240000 \<or>
      (\<forall>(k, r) \<in> set (er_appResourceApplyMap m). ar_resourceNumber r AND (WORK_SCHEDULER OR TIMER) = ar_resourceNumber r)"
  shows "RecoverResourceNumber e m = m"
proof -
  have "map_vals (\<lambda>uid r. r\<lparr>ar_resourceNumber := ar_resourceNumber r AND (WORK_SCHEDULER OR TIMER)\<rparr>) t = t"
    if "\<forall>(k, r) \<in> set t. ar_resourceNumber r AND (WORK_SCHEDULER OR TIMER) = ar_resourceNumber r" for t :: ResourceRecordMap
    using that by (induction t) (auto simp: map_vals_def)
  with assms show ?thesis by (auto simp: RecoverResourceNumber_def)
qed

lemma HandlePersistenceData_eq:
  assumes "recovery_exact e m" and run: "\<not> (\<not> er_appMgrClient m \<and> ee_running e = None)"
  defines "app \<equiv> filter (kept_app e) (fst (restored m))" and "proc \<equiv> filter (kept_proc e) (snd (restored m))"
  shows "HandlePersistenceData e m = er_refresh (RecoverDelayedTask e False app (RecoverDelayedTask e True proc
    (m\<lparr>er_appMgrClient := True, er_appResourceApplyMap := app, er_procResourceApplyMap := proc\<rparr>)))"
proof -
  let ?m2 = "m\<lparr>er_appMgrClient := True, er_appResourceApplyMap := app, er_procResourceApplyMap := proc\<rparr>"
  have "RecoverResourceNumber e ?m2 = ?m2"
    using assms(1) by (intro RecoverResourceNumber_exact) (auto simp: recovery_exact_def app_def)
  then show ?thesis
    unfolding HandlePersistenceData_def if_not_P [OF run]
    by (simp add: Let_def case_prod_beta CheckPersistenceData_eq restored_def app_def proc_def
      RecoverDelayedTask_def er_post_def)
qed

lemma HandlePersistenceData_inv:
  assumes inv: "er_inv m" and ok: "recovery_exact e m"
  shows "er_inv (HandlePersistenceData e m)"
proof (cases "\<not> er_appMgrClient m \<and> ee_running e = None")
  case True
  have "er_inv (m\<lparr>er_appMgrClient := True\<rparr>)" using inv by (simp add: er_inv_def tables_ok_def)
  with True show ?thesis by (simp add: HandlePersistenceData_def er_refresh_inv)
next
  case False
  define app proc where "app = filter (kept_app e) (fst (restored m))" and "proc = filter (kept_proc e) (snd (restored m))"
  let ?m2 = "m\<lparr>er_appMgrClient := True, er_appResourceApplyMap := app, er_procResourceApplyMap := proc\<rparr>"
  let ?m4 = "RecoverDelayedTask e False app (RecoverDelayedTask e True proc ?m2)"
  note eq = HandlePersistenceData_eq [OF ok False, folded app_def proc_def]
  have t: "table_ok False app" "table_ok True proc"
    using restored_ok [OF inv] by (simp_all add: app_def proc_def table_ok_filter)
  have ends: "pt_endTime u - ee_now e \<le> INT_MAX" if "(k, r) \<in> set app \<union> set proc" "u \<in> set (ar_resourceUnitList r)" for k r u
    using ok that by (auto simp: recovery_exact_def app_def proc_def)
  have map: "er_map p ?m4 = (if p then proc else app)" for p
    by (simp add: RecoverDelayedTask_def er_map_def er_post_def)
  have g: "guarded (er_posted ?m4) False app" "guarded (er_posted ?m4) True proc"
    using ends by (auto intro!: recover_guarded t simp: RecoverDelayedTask_def er_post_def)
  have "tables_ok ?m4"
    unfolding tables_ok_def map
  proof
    fix p
    show "table_ok p (if p then proc else app) \<and> guarded (er_posted ?m4) p (if p then proc else app)"
      using t g by (cases p) simp_all
  qed
  moreover have "list_all task_ok (recover_units e p k us)" for p k us
    by (auto simp: recover_units_def List.map_filter_def list_all_iff)
  then have "er_rest ?m4"
    using er_inv_parts(3) [OF inv] by (auto simp: er_rest_def RecoverDelayedTask_def er_post_def list_all_iff)
  ultimately have "er_inv ?m4" by (simp add: er_inv_split)
  then show ?thesis unfolding eq by (rule er_refresh_inv)
qed

lemma er_InitNecessaryState_inv:
  assumes "er_inv m" and "er_dependsReady m = ALL_DEPENDS_READY" and "recovery_exact e m"
  shows "er_inv (er_InitNecessaryState e m)"
proof -
  have "er_dependsReady (HandlePersistenceData e m) = er_dependsReady m"
    by (simp add: HandlePersistenceData_def Let_def case_prod_beta RecoverDelayedTask_def RecoverResourceNumber_def CheckPersistenceData_def)
  then have "er_inv ((HandlePersistenceData e m)\<lparr>er_isSysReady := True\<rparr>)"
    using HandlePersistenceData_inv [OF assms(1,3)] assms(2) by (simp add: er_inv_def tables_ok_def)
  then show ?thesis using assms(1) by (simp add: er_InitNecessaryState_def emit.inv_kept)
qed

lemma all_ready_absorbs: "ALL_DEPENDS_READY OR depend_bit sa = ALL_DEPENDS_READY"
  by (cases sa) (simp_all add: ALL_DEPENDS_READY_def)

lemma er_OnAddSystemAbility_inv:
  assumes "er_inv m" and "recovery_exact e m"
  shows "er_inv (er_OnAddSystemAbility e sa m)"
proof -
  let ?m1 = "m\<lparr>er_dependsReady := er_dependsReady m OR depend_bit sa\<rparr>"
  have "er_inv ?m1" using assms(1) by (auto simp: er_inv_def tables_ok_def all_ready_absorbs)
  moreover have "recovery_exact e ?m1" using assms(2) by (simp add: recovery_exact_def restored_def)
  ultimately have "er_dependsReady ?m1 = ALL_DEPENDS_READY \<Longrightarrow> er_inv (er_InitNecessaryState e ?m1)"
    by (intro er_InitNecessaryState_inv)
  with \<open>er_inv ?m1\<close> show ?thesis unfolding er_OnAddSystemAbility_def Let_def by (intro er_inv_if)
qed

lemma er_OnRemoveSystemAbility_inv [inv_intros]:
  "er_inv m \<Longrightarrow> er_inv (er_OnRemoveSystemAbility sa m)"
  unfolding er_OnRemoveSystemAbility_def Let_def by (rule er_inv_if) (simp_all add: er_inv_def tables_ok_def)

section \<open>Steps\<close>

text \<open>One step: a call from a client or the system, or a posted task taken from the queue in any order.\<close>

inductive er_step :: "BgEfficiencyResourcesMgr \<Rightarrow> BgEfficiencyResourcesMgr \<Rightarrow> bool" where
  apply_resources: "eenv_fits e \<Longrightarrow> er_step m (snd (ApplyEfficiencyResources e info m))"
| reset_resources: "er_step m (snd (ResetAllEfficiencyResources e m))"
| app_died: "er_step m (snd (RemoveAppRecord uid b all m))"
| process_died: "er_step m (snd (RemoveProcessRecord uid pid b m))"
| task_runs: "eenv_fits e \<Longrightarrow> er_posted m = xs @ t # ys \<Longrightarrow> task_due (ee_now e) t \<Longrightarrow>
    er_step m (run_task e t (m\<lparr>er_posted := xs @ ys\<rparr>))"
| service_added: "recovery_exact e m \<Longrightarrow> er_step m (er_OnAddSystemAbility e sa m)"
| service_removed: "er_step m (er_OnRemoveSystemAbility sa m)"
| subscribed: "er_step m (snd (er_AddSubscriber s m))"
| unsubscribed: "er_step m (snd (er_RemoveSubscriber s m))"
| subscriber_died: "er_step m (er_SubscriberDied rem m)"
| dump_command: "er_step m (snd (snd (er_ShellDump e opts m)))"

text \<open>The manager starts with empty tables and the record file of an earlier run, or none.\<close>

inductive er_reachable :: "BgEfficiencyResourcesMgr \<Rightarrow> bool" where
  er_start: "stored_ok file \<Longrightarrow> er_reachable (snd (er_Init runner lib (new_BgEfficiencyResourcesMgr file)))"
| er_next: "er_reachable m \<Longrightarrow> er_step m m' \<Longrightarrow> er_reachable m'"

lemma run_task_inv:
  assumes inv: "er_inv m" and e: "eenv_fits e" and posted: "er_posted m = xs @ t # ys" and due: "task_due (ee_now e) t"
  shows "er_inv (run_task e t (m\<lparr>er_posted := xs @ ys\<rparr>))"
proof (cases t)
  case (TaskTimeOut k p d)
  then show ?thesis using run_timeout_inv [OF inv posted] due by simp
next
  case (TaskApply ci ri)
  have "er_inv (m\<lparr>er_posted := xs @ ys\<rparr>)"
    using inv posted TaskApply unfolding er_inv_def tables_ok_def guarded_def unit_guarded_def by auto
  moreover have "task_ok (TaskApply ci ri)" using inv posted TaskApply by (simp add: er_inv_def)
  ultimately show ?thesis using TaskApply e by (simp add: ApplyEfficiencyResourcesInner_inv del: task_ok.simps)
next
  case (TaskReset ci p reason)
  have "er_inv (m\<lparr>er_posted := xs @ ys\<rparr>)"
    using inv posted TaskReset unfolding er_inv_def tables_ok_def guarded_def unit_guarded_def by auto
  then show ?thesis using TaskReset by (simp add: ResetEfficiencyResourcesInner_inv)
qed

lemma er_step_inv: "er_step m m' \<Longrightarrow> er_inv m \<Longrightarrow> er_inv m'"
  by (induction rule: er_step.induct)
     (simp_all add: run_task_inv er_OnAddSystemAbility_inv inv_intros del: run_task.simps task_due.simps)

lemma er_start_inv: "stored_ok file \<Longrightarrow> er_inv (snd (er_Init runner lib (new_BgEfficiencyResourcesMgr file)))"
  by (simp add: er_Init_def LoadResourceQuotaMgrLib_def new_BgEfficiencyResourcesMgr_def er_inv_def tables_ok_def
      er_map_def table_ok_def guarded_def hm_wf_def)

lemma er_reachable_inv: "er_reachable m \<Longrightarrow> er_inv m"
  by (induction rule: er_reachable.induct) (simp_all add: er_start_inv er_step_inv)

end
