(* ===== verification/EfficiencyLeases.thy ===== *)
theory EfficiencyLeases
  imports EfficiencyReach
begin

text \<open>
  An abstract view of the efficiency resource manager: for each process or application and each
  resource type, whether it is held and until when. Applying, resetting and timing out are the
  operations of a table of leases; the lemmas show that the manager's records implement it.
\<close>

unbundle bit_operations_syntax

section \<open>Leases\<close>

datatype lease = Forever | Until int

fun extend_lease :: "lease option \<Rightarrow> lease \<Rightarrow> lease" where
  "extend_lease None l = l"
| "extend_lease (Some Forever) l = Forever"
| "extend_lease (Some (Until t)) Forever = Forever"
| "extend_lease (Some (Until t)) (Until t') = Until (max t t')"

fun expired :: "int \<Rightarrow> lease option \<Rightarrow> bool" where
  "expired now (Some (Until t)) \<longleftrightarrow> t \<le> now"
| "expired now _ \<longleftrightarrow> False"

definition lease_of :: "PersistTime \<Rightarrow> lease" where
  "lease_of u = (if pt_isPersist u then Forever else Until (pt_endTime u))"

definition offered :: "eenv \<Rightarrow> EfficiencyResourceInfo \<Rightarrow> lease" where
  "offered e ri = (if ri_isPersist ri then Forever else Until (ee_now e + uint (ri_timeOut ri)))"

definition row_lease :: "ResourceApplicationRecord option \<Rightarrow> nat \<Rightarrow> lease option" where
  "row_lease row i = (case row of None \<Rightarrow> None | Some r \<Rightarrow> map_option lease_of (unit_of (ar_resourceUnitList r) i))"

definition leases :: "BgEfficiencyResourcesMgr \<Rightarrow> bool \<Rightarrow> int \<Rightarrow> nat \<Rightarrow> lease option" where
  "leases m isProcess k = row_lease (map_of (er_map isProcess m) k)"

lemma row_lease_simps [simp]: "row_lease None i = None"
  "row_lease (Some r) i = map_option lease_of (unit_of (ar_resourceUnitList r) i)"
  by (simp_all add: row_lease_def)

lemma lease_mask:
  assumes "er_inv m" and "map_of (er_map p m) k = Some r"
  shows "bit (ar_resourceNumber r) i \<longleftrightarrow> leases m p k i \<noteq> None"
  using table_entry [OF er_inv_parts(1) [OF assms(1)] assms(2)] assms(2) units_okD(2) [of "ar_resourceNumber r" "ar_resourceUnitList r" i]
  by (auto simp: leases_def entry_ok_def rec_ok_def)

section \<open>Applying\<close>

lemma applied_unit_lease: "lease_of (applied_unit e ri i old) = extend_lease (map_option lease_of old) (offered e ri)"
  by (cases old) (auto simp: applied_unit_def lease_of_def offered_def new_unit_def update_unit_def Let_def)

lemma applied_record_leases:
  assumes "\<And>i. bit (ci_resourceNumber ci) i \<Longrightarrow> i < 9"
  shows "row_lease (Some (applied_record e ci ri old)) i =
    (if bit (ci_resourceNumber ci) i then Some (extend_lease (row_lease old i) (offered e ri)) else row_lease old i)"
proof -
  have u: "unit_of (ar_resourceUnitList (snd (found_record ci old))) i = Option.bind old (\<lambda>r. unit_of (ar_resourceUnitList r) i)"
    by (cases old) (simp_all add: found_record_def new_record_def ar_SetCpuLevel_def unit_of_def)
  have "row_lease old i = map_option lease_of (Option.bind old (\<lambda>r. unit_of (ar_resourceUnitList r) i))"
    by (cases old) simp_all
  then show ?thesis
    using assms [of i] endtime_loop_units [of "[0..<9]" e "ci_resourceNumber ci" ri "ar_resourceUnitList (snd (found_record ci old))" i]
    by (auto simp: applied_record_def UpdateResourcesEndtime_def u applied_unit_lease)
qed

lemma Apply_rows:
  "\<exists>l. map_of (er_map q (ApplyEfficiencyResourcesInner e ci ri m)) k =
     (if q = ri_isProcess ri \<and> k = apply_key ci ri
      then Some ((applied_record e ci ri (map_of (er_map q m) k))\<lparr>ar_cpuLevel := l\<rparr>)
      else map_of (er_map q m) k)"
proof -
  have id: "r = r\<lparr>ar_cpuLevel := ar_cpuLevel r\<rparr>" for r :: ResourceApplicationRecord by simp
  show ?thesis
    by (auto simp: Apply_eq Let_def update_conv' ar_SetCpuLevel_def intro!: exI id)
qed

lemma Apply_leases:
  assumes "task_ok (TaskApply ci ri)"
  shows "leases (ApplyEfficiencyResourcesInner e ci ri m) q k i =
    (if q = ri_isProcess ri \<and> k = apply_key ci ri \<and> bit (ci_resourceNumber ci) i
     then Some (extend_lease (leases m q k i) (offered e ri)) else leases m q k i)"
proof -
  obtain l where l: "map_of (er_map q (ApplyEfficiencyResourcesInner e ci ri m)) k =
     (if q = ri_isProcess ri \<and> k = apply_key ci ri
      then Some ((applied_record e ci ri (map_of (er_map q m) k))\<lparr>ar_cpuLevel := l\<rparr>)
      else map_of (er_map q m) k)"
    using Apply_rows by blast
  show ?thesis
  proof (cases "q = ri_isProcess ri \<and> k = apply_key ci ri")
    case True
    let ?r = "applied_record e ci ri (map_of (er_map q m) k)"
    have "leases (ApplyEfficiencyResourcesInner e ci ri m) q k i = row_lease (Some ?r) i"
      using True unfolding leases_def l by simp
    also have "\<dots> = (if bit (ci_resourceNumber ci) i then Some (extend_lease (leases m q k i) (offered e ri)) else leases m q k i)"
      unfolding leases_def using assms by (intro applied_record_leases) simp
    finally show ?thesis using True by simp
  next
    case False
    then show ?thesis unfolding leases_def l by auto
  qed
qed

section \<open>Resetting and timing out\<close>

lemma removed_lease:
  assumes "units_ok n us"
  shows "map_option lease_of (unit_of (RemoveListRecord b us) i) = (if bit b i then None else map_option lease_of (unit_of us i))"
  using unit_of_filter [OF units_okD(1) [OF assms], of "\<lambda>u. \<not> bit b (pt_resourceIndex u)" i]
  by (auto simp: RemoveListRecord_filter dest: unit_of_SomeD split: option.splits)

lemma finish_reset_leases:
  assumes row: "map_of (er_map p m) k = Some r" and ok: "units_ok (ar_resourceNumber r) (ar_resourceUnitList r)"
    and b: "\<And>i. bit b i \<Longrightarrow> bit (ar_resourceNumber r) i"
  shows "leases (finish_reset e p k ci (r\<lparr>ar_resourceNumber := ar_resourceNumber r XOR b,
      ar_resourceUnitList := RemoveListRecord b (ar_resourceUnitList r)\<rparr>) m) q k' i =
    (if q = p \<and> k' = k \<and> bit b i then None else leases m q k' i)"
proof (cases "ar_resourceNumber r XOR b = 0")
  case True
  then have "ar_resourceNumber r = b" by (metis bit.xor_left_self xor.right_neutral)
  then have "leases m p k i = None" if "\<not> bit b i"
    using that row units_okD(2) [OF ok, of i] by (auto simp: leases_def)
  with True show ?thesis by (auto simp: leases_def finish_reset_rows)
next
  case False
  then show ?thesis using row removed_lease [OF ok, of b i] by (auto simp: leases_def finish_reset_rows)
qed

lemma row_units_ok:
  "er_inv m \<Longrightarrow> map_of (er_map p m) k = Some r \<Longrightarrow> units_ok (ar_resourceNumber r) (ar_resourceUnitList r)"
  using table_entry [OF er_inv_parts(1)] by (auto simp: entry_ok_def rec_ok_def)

lemma RemoveTarget_leases:
  assumes inv: "er_inv m"
  shows "leases (snd (RemoveTargetResourceRecord e p k info m)) q k' i =
    (if q = p \<and> k' = k \<and> bit (ci_resourceNumber info) i then None else leases m q k' i)"
proof (cases "map_of (er_map p m) k")
  case None
  then show ?thesis by (simp add: RemoveTargetResourceRecord_def leases_def)
next
  case (Some r)
  note ok = row_units_ok [OF inv Some]
  have held: "bit (ar_resourceNumber r) i \<longleftrightarrow> leases m p k i \<noteq> None" by (rule lease_mask [OF inv Some])
  let ?b = "ar_resourceNumber r AND ci_resourceNumber info"
  show ?thesis
  proof (cases "?b = 0")
    case True
    then have "\<not> (bit (ar_resourceNumber r) i \<and> bit (ci_resourceNumber info) i)"
      by (metis bit_and_iff bit_0_eq bot_apply bot_bool_def)
    with True Some held show ?thesis by (auto simp: RemoveTargetResourceRecord_def)
  next
    case False
    have "leases (finish_reset e p k ci (r\<lparr>ar_resourceNumber := ar_resourceNumber r XOR ?b,
        ar_resourceUnitList := RemoveListRecord ?b (ar_resourceUnitList r)\<rparr>) m) q k' i =
      (if q = p \<and> k' = k \<and> bit ?b i then None else leases m q k' i)" for ci
      by (rule finish_reset_leases [OF Some ok]) (simp add: bit_and_iff)
    with False Some held show ?thesis
      by (simp add: RemoveTargetResourceRecord_def Let_def bit_and_iff)
  qed
qed

lemma leases_post [simp]: "leases (er_post ts m) = leases m"
  by (simp add: leases_def fun_eq_iff)

lemma leases_refresh [simp]: "leases (er_refresh m) = leases m"
  by (simp add: leases_def fun_eq_iff)

lemma leases_posted [simp]: "leases (m\<lparr>er_posted := ts\<rparr>) = leases m"
  by (simp add: leases_def fun_eq_iff)

lemma Reset_leases:
  "er_inv m \<Longrightarrow> leases (ResetEfficiencyResourcesInner e ci p m) q k i =
    (if q = p \<and> k = (if p then ci_pid ci else ci_uid ci) \<and> bit (ci_resourceNumber ci) i then None else leases m q k i)"
  by (simp add: ResetEfficiencyResourcesInner_def RemoveRelativeProcessRecord_def RemoveTarget_leases)

lemma expired_lease_bit:
  assumes "units_ok n us"
  shows "bit (expired_bits now us) i \<longleftrightarrow> expired now (map_option lease_of (unit_of us i))"
proof (cases "unit_of us i")
  case None
  then show ?thesis using expired_subset [OF assms, of now i] units_okD(2) [OF assms, of i] by auto
next
  case (Some u)
  then show ?thesis using expired_exact [OF assms, of u now] unit_of_SomeD [OF Some] by (auto simp: lease_of_def)
qed

lemma TimeOut_leases:
  assumes ok: "\<And>r. map_of (er_map p m) k = Some r \<Longrightarrow> units_ok (ar_resourceNumber r) (ar_resourceUnitList r)"
  shows "leases (ResetTimeOutResource e k p m) q k' i =
    (if q = p \<and> k' = k \<and> expired (ee_now e) (leases m p k i) then None else leases m q k' i)"
proof (cases "map_of (er_map p m) k")
  case None
  then show ?thesis by (simp add: ResetTimeOutResource_def leases_def)
next
  case (Some r)
  note u = ok [OF Some]
  let ?b = "expired_bits (ee_now e) (ar_resourceUnitList r)"
  have b: "bit ?b j \<longleftrightarrow> expired (ee_now e) (leases m p k j)" for j
    using expired_lease_bit [OF u, of "ee_now e" j] Some by (simp add: leases_def)
  show ?thesis
  proof (cases "?b = 0")
    case True
    then have "\<not> expired (ee_now e) (leases m p k i)" using b [of i] by simp
    with True Some show ?thesis by (auto simp: ResetTimeOutResource_def)
  next
    case False
    have "leases (finish_reset e p k ci (r\<lparr>ar_resourceNumber := ar_resourceNumber r XOR ?b,
        ar_resourceUnitList := RemoveListRecord ?b (ar_resourceUnitList r)\<rparr>) m) q k' i =
      (if q = p \<and> k' = k \<and> bit ?b i then None else leases m q k' i)" for ci
      by (rule finish_reset_leases [OF Some u]) (rule expired_subset [OF u])
    with False Some show ?thesis by (simp add: ResetTimeOutResource_def Let_def b)
  qed
qed

section \<open>Notifications\<close>

text \<open>The bits an application adds to what was held.\<close>

lemma new_bits:
  "bit ((pre OR c) XOR (pre AND (pre OR c))) i \<longleftrightarrow> bit c i \<and> \<not> bit (pre :: mask) i"
  by (auto simp: bit_simps)

definition notices :: "BgEfficiencyResourcesMgr \<Rightarrow> eff_call list" where
  "notices m = filter (\<lambda>c. case c of ResourceChanged _ _ _ \<Rightarrow> True | _ \<Rightarrow> False) (er_calls m)"

lemma notices_frame [simp]:
  "notices (er_refresh m) = notices m" "notices (er_set_map p t m) = notices m" "notices (er_post ts m) = notices m"
  "notices (m\<lparr>er_applyEventData := a\<rparr>) = notices m" "notices (m\<lparr>er_resetEventData := r\<rparr>) = notices m"
  "notices (m\<lparr>er_posted := ts\<rparr>) = notices m"
  by (simp_all add: notices_def)

lemma notices_emit: "notices (er_emit cs m) = notices m @ filter (\<lambda>c. case c of ResourceChanged _ _ _ \<Rightarrow> True | _ \<Rightarrow> False) cs"
  by (simp add: notices_def er_emit_def)

lemma notices_changed [simp]: "notices (OnResourceChanged ci ty m) = notices m @ [ResourceChanged (er_subscriberList m) ci ty]"
  by (simp add: OnResourceChanged_def notices_emit)

lemma notices_reports [simp]:
  "notices (ReportApply e ri ci m) = notices m" "notices (ReportReset e ci ty m) = notices m"
  "notices (UpdateQuotaIfCpuReset e ty uid n m) = notices m"
  using report_apply_written [of "ee_stamp e" ri ci "er_applyEventData m"] report_reset_written [of "ee_stamp e" ci ty "er_resetEventData m"]
  by (simp_all add: ReportApply_def ReportReset_def UpdateQuotaIfCpuReset_def notices_emit case_prod_beta)

lemma finish_reset_notices:
  "notices (finish_reset e p k ci r m) = notices m @ [ResourceChanged (er_subscriberList m) ci (reset_type p)]"
  by (simp add: finish_reset_def Let_def)

lemma Apply_notices:
  "notices (ApplyEfficiencyResourcesInner e ci ri m) =
     (let pre = fst (found_record ci (map_of (er_map (ri_isProcess ri) m) (apply_key ci ri)));
          diff = (pre OR ci_resourceNumber ci) XOR (pre AND (pre OR ci_resourceNumber ci))
      in notices m @ (if diff = 0 then [] else
           [ResourceChanged (er_subscriberList m) (ci\<lparr>ci_resourceNumber := diff\<rparr>)
              (if ri_isProcess ri then RESOURCE_APPLY else APP_RESOURCE_APPLY)]))"
  by (simp add: Apply_eq Let_def applied_record_mask)

section \<open>Tasks of a request\<close>

lemma mask_and_cpu: "n AND CPU = 0 \<longleftrightarrow> \<not> bit n 0"
  using mask_and_res_bit [of n 0] by (simp add: res_bit_def)

lemma exempted_loop_bits:
  "0 \<notin> set ts \<Longrightarrow> bit (exempted_loop ts acc) i \<longleftrightarrow> bit acc i \<or> (i < 9 \<and> int i + 1 \<in> set ts)"
proof (induction ts arbitrary: acc)
  case (Cons t ts)
  show ?case
  proof (cases "t < 0 \<or> t > 9")
    case True
    then have "exempted_loop (t # ts) acc = exempted_loop ts acc" by auto
    moreover have "i < 9 \<Longrightarrow> int i + 1 \<noteq> t" using True by linarith
    ultimately show ?thesis using Cons by auto
  next
    case False
    then have "exempted_loop (t # ts) acc = exempted_loop ts (acc OR res_bit (nat (t - 1)))" by auto
    moreover have "bit (res_bit (nat (t - 1))) i \<longleftrightarrow> i < 9 \<and> int i + 1 = t" using False Cons.prems by auto
    ultimately show ?thesis using Cons by (auto simp: bit_or_iff simp del: bit_res_bit)
  qed
qed simp

lemma exempted_bits:
  assumes "n \<le> MAX_RESOURCE_MASK" and "ee_resourcesApply e b (GetUserIdByUid uid) = Some declared"
  shows "bit (GetExemptedResourceType e n uid b) i \<longleftrightarrow> bit n i \<and> (0 \<in> set declared \<or> int i + 1 \<in> set declared)"
  using mask_bits [OF assms(1), of i] assms(2)
  by (auto simp: GetExemptedResourceType_def QueryRunningResourcesApply_def bit_and_iff exempted_loop_bits)

definition apply_task :: "int \<Rightarrow> int \<Rightarrow> string \<Rightarrow> EfficiencyResourceInfo \<Rightarrow> eff_task" where
  "apply_task uid pid b ri =
     TaskApply (ci_SetCpuLevel (ri_cpuLevel ri) (new_callback_info uid pid (ri_resourceNumber ri) b)) ri"

lemma callback_fields [simp]:
  "ci_uid (ci_SetCpuLevel l c) = ci_uid c" "ci_pid (ci_SetCpuLevel l c) = ci_pid c"
  "ci_resourceNumber (ci_SetCpuLevel l c) = ci_resourceNumber c"
  "ci_uid (new_callback_info uid pid n b) = uid" "ci_pid (new_callback_info uid pid n b) = pid"
  "ci_resourceNumber (new_callback_info uid pid n b) = n"
  by (simp_all add: new_callback_info_def ci_SetCpuLevel_def)

text \<open>The tasks of a request: one, or one for the process and one for its application.\<close>

definition request_tasks :: "int \<Rightarrow> int \<Rightarrow> string \<Rightarrow> int \<Rightarrow> EfficiencyResourceInfo \<Rightarrow> eff_task list" where
  "request_tasks uid pid b l ri =
    (if \<not> ri_isProcess ri then [apply_task uid pid b ri]
     else (if bit (ri_resourceNumber ri) 0 then [apply_task uid pid b (ri\<lparr>ri_resourceNumber := CPU\<rparr>)] else []) @
          (if ri_resourceNumber ri AND NOT CPU = 0 then []
           else [apply_task uid pid b (ri\<lparr>ri_resourceNumber := ri_resourceNumber ri AND NOT CPU, ri_isProcess := False, ri_cpuLevel := l\<rparr>)]))"

lemma request_tasks_posted:
  assumes "ri_isApply ri"
  shows "\<exists>l. er_posted (ApplyResourceForPkgAndProc uid pid b ri m) = er_posted m @ request_tasks uid pid b l ri"
proof -
  define m1 where "m1 = (if ri_resourceNumber ri AND CPU \<noteq> 0
    then SendResourceApplyTask uid pid b (ri\<lparr>ri_resourceNumber := CPU\<rparr>) m else m)"
  have send: "er_posted (SendResourceApplyTask uid pid b x m') = er_posted m' @ [apply_task uid pid b x]" if "ri_isApply x" for x m'
    using that by (simp add: SendResourceApplyTask_def apply_task_def Let_def)
  have "er_posted m1 = er_posted m @
      (if bit (ri_resourceNumber ri) 0 then [apply_task uid pid b (ri\<lparr>ri_resourceNumber := CPU\<rparr>)] else [])"
    using assms by (simp add: m1_def mask_and_cpu send)
  then have "er_posted (ApplyResourceForPkgAndProc uid pid b ri m) = er_posted m @ request_tasks uid pid b (cpu_level (GetPreAppCpuLevel uid m1)) ri"
    using assms unfolding ApplyResourceForPkgAndProc_def Let_def m1_def [symmetric] ri_SetCpuLevel_def request_tasks_def
    by (simp add: send)
  then show ?thesis ..
qed

lemma apply_task_fields:
  "TaskApply ci ri' = apply_task uid pid b ri \<longleftrightarrow>
   ri' = ri \<and> ci = ci_SetCpuLevel (ri_cpuLevel ri) (new_callback_info uid pid (ri_resourceNumber ri) b)"
  by (auto simp: apply_task_def)

lemma and_not_cpu_bit: "bit (n AND NOT CPU) i \<longleftrightarrow> bit n i \<and> i \<noteq> 0" for n :: mask
  using bit_imp_le_length [of n i] by (auto simp: bit_and_iff bit_not_iff bit_1_iff simp del: bit.compl_one)

lemma and_not_cpu_zero: "n AND NOT CPU = 0 \<longleftrightarrow> (\<forall>i. bit n i \<longrightarrow> i = 0)" for n :: mask
  unfolding mask_zero_iff and_not_cpu_bit by blast

lemma request_tasks_bits:
  "(\<exists>ci ri'. TaskApply ci ri' \<in> set (request_tasks uid pid b l ri) \<and> bit (ci_resourceNumber ci) i) \<longleftrightarrow> bit (ri_resourceNumber ri) i"
proof (cases "ri_isProcess ri")
  case False
  then show ?thesis by (simp add: request_tasks_def apply_task_fields)
next
  case True
  have "(\<exists>ci ri'. TaskApply ci ri' \<in> set (request_tasks uid pid b l ri) \<and> bit (ci_resourceNumber ci) i) \<longleftrightarrow>
    bit (ri_resourceNumber ri) 0 \<and> bit CPU i \<or> ri_resourceNumber ri AND NOT CPU \<noteq> 0 \<and> bit (ri_resourceNumber ri AND NOT CPU) i"
    using True by (auto simp: request_tasks_def apply_task_fields simp del: bit.compl_one)
  also have "\<dots> \<longleftrightarrow> bit (ri_resourceNumber ri) i"
    unfolding and_not_cpu_bit and_not_cpu_zero bit_1_iff by (cases "i = 0") auto
  finally show ?thesis .
qed

lemma request_tasks_fields:
  assumes "TaskApply ci ri' \<in> set (request_tasks uid pid b l ri)"
  shows "ci_uid ci = uid \<and> ci_pid ci = pid \<and> ri_isPersist ri' = ri_isPersist ri \<and> ri_timeOut ri' = ri_timeOut ri \<and>
    (if ri_isProcess ri' then ri_isProcess ri \<and> ci_resourceNumber ci = CPU else ri_isProcess ri \<longrightarrow> \<not> bit (ci_resourceNumber ci) 0)"
  using assms and_not_cpu_bit [of "ri_resourceNumber ri" 0]
  by (auto simp: request_tasks_def apply_task_fields split: if_splits)

section \<open>Resets that were posted\<close>

lemma fold_resets:
  assumes "er_inv m" and "\<forall>t \<in> set ts. \<exists>ci p reason. t = TaskReset ci p reason"
  shows "leases (fold (run_task e) ts m) q k i =
    (if \<exists>ci reason. TaskReset ci q reason \<in> set ts \<and> k = (if q then ci_pid ci else ci_uid ci) \<and> bit (ci_resourceNumber ci) i
     then None else leases m q k i)"
  using assms
proof (induction ts arbitrary: m)
  case (Cons t ts)
  then obtain ci p reason where t: "t = TaskReset ci p reason" by auto
  let ?m = "ResetEfficiencyResourcesInner e ci p m"
  have "leases (fold (run_task e) ts ?m) q k i =
    (if \<exists>ci reason. TaskReset ci q reason \<in> set ts \<and> k = (if q then ci_pid ci else ci_uid ci) \<and> bit (ci_resourceNumber ci) i
     then None else leases ?m q k i)"
    using Cons.prems by (intro Cons.IH ResetEfficiencyResourcesInner_inv) simp_all
  then show ?case using Reset_leases [OF Cons.prems(1), of e ci p q k i] by (auto simp: t)
qed simp

lemma relative_tasks_map:
  "relative_tasks uid n t =
     map (\<lambda>(k, r). TaskReset (ci_SetCpuLevel (ar_cpuLevel r)
            (new_callback_info uid (ar_pid r) (n AND ar_resourceNumber r) (ar_bundleName r))) True APP_DIDE_TRIGGER_PROCESS_DIED)
       (filter (\<lambda>(k, r). ar_uid r = uid \<and> n AND ar_resourceNumber r \<noteq> 0) t)"
  by (induction uid n t rule: relative_tasks.induct) simp_all

lemma relative_tasks_resets: "\<forall>t \<in> set (relative_tasks uid n rs). \<exists>ci p reason. t = TaskReset ci p reason"
  by (auto simp: relative_tasks_map)

text \<open>Which resets of processes follow the reset of an application.\<close>

lemma relative_tasks_cover:
  assumes "table_ok True t"
  shows "(\<exists>ci reason. TaskReset ci True reason \<in> set (relative_tasks uid n t) \<and> pid = ci_pid ci \<and> bit (ci_resourceNumber ci) i) \<longleftrightarrow>
    bit n i \<and> (\<exists>r. map_of t pid = Some r \<and> ar_uid r = uid \<and> bit (ar_resourceNumber r) i)"
proof -
  have key: "ar_pid r = k" if "(k, r) \<in> set t" for k r
    using that assms table_rows [OF assms] table_entry [OF assms] by (force simp: entry_ok_def)
  have "(\<exists>ci reason. TaskReset ci True reason \<in> set (relative_tasks uid n t) \<and> pid = ci_pid ci \<and> bit (ci_resourceNumber ci) i) \<longleftrightarrow>
    (\<exists>k r. (k, r) \<in> set t \<and> ar_uid r = uid \<and> n AND ar_resourceNumber r \<noteq> 0 \<and> pid = ar_pid r \<and> bit (n AND ar_resourceNumber r) i)"
    by (force simp: relative_tasks_map image_iff)
  also have "\<dots> \<longleftrightarrow> (\<exists>r. (pid, r) \<in> set t \<and> ar_uid r = uid \<and> bit n i \<and> bit (ar_resourceNumber r) i)"
    using key unfolding mask_zero_iff bit_and_iff by blast
  also have "\<dots> \<longleftrightarrow> bit n i \<and> (\<exists>r. map_of t pid = Some r \<and> ar_uid r = uid \<and> bit (ar_resourceNumber r) i)"
    using table_rows [OF assms] by blast
  finally show ?thesis .
qed

end
