(* ===== verification/EfficiencyDemo.thy ===== *)
theory EfficiencyDemo
  imports EfficiencyLeases
begin

text \<open>
  A concrete run of the efficiency resource manager: the services come up, a subscriber registers,
  an application asks for the CPU and timers for a second and its request is carried out.
\<close>

unbundle bit_operations_syntax

section \<open>States\<close>

definition demo_eenv :: "int \<Rightarrow> eenv" where
  "demo_eenv now = \<lparr>ee_now = now, ee_bootTime = 600000, ee_stamp = 0, ee_callingUid = 100, ee_callingPid = 200,
     ee_isSystemApp = True, ee_running = Some [(100, 200, False)], ee_clientBundleName = (\<lambda>_. ''app''),
     ee_resourcesApply = (\<lambda>_ _. Some [0]), ee_bundleInfo = (\<lambda>_ _. None), ee_config = initial_config,
     ee_cpuQuota = None, ee_updateQuota = False, ee_setQuota = False, ee_resetQuota = False, ee_getQuota = None\<rparr>"

definition demo_info :: EfficiencyResourceInfo where
  "demo_info = \<lparr>ri_resourceNumber = 5, ri_isApply = True, ri_timeOut = 1000, ri_reason = ''sync'', ri_isPersist = False,
     ri_isProcess = False, ri_uid = 100, ri_pid = 200, ri_cpuLevel = CPU_LEVEL_DEFAULT\<rparr>"

definition demo_ready :: BgEfficiencyResourcesMgr where
  "demo_ready = snd (er_AddSubscriber (Some (Some 7)) (er_OnAddSystemAbility (demo_eenv 0) RES_SCHED_SERVICE
     (er_OnAddSystemAbility (demo_eenv 0) BUNDLE_MGR_SERVICE (er_OnAddSystemAbility (demo_eenv 0) APP_MGR_SERVICE
        (snd (er_Init True False (new_BgEfficiencyResourcesMgr None)))))))"

definition demo_asked :: BgEfficiencyResourcesMgr where
  "demo_asked = snd (ApplyEfficiencyResources (demo_eenv 10) (Some demo_info) demo_ready)"

definition demo_apply :: eff_task where
  "demo_apply = TaskApply (new_callback_info 100 200 5 ''app'') demo_info"

definition demo_held :: BgEfficiencyResourcesMgr where
  "demo_held = run_task (demo_eenv 20) demo_apply (demo_asked\<lparr>er_posted := []\<rparr>)"

text \<open>The same for a process, which splits the request: its CPU, and the timers of its application.\<close>

definition demo_proc_asked :: BgEfficiencyResourcesMgr where
  "demo_proc_asked = snd (ApplyEfficiencyResources (demo_eenv 10) (Some (demo_info\<lparr>ri_isProcess := True\<rparr>)) demo_ready)"

definition demo_proc_task :: eff_task where
  "demo_proc_task = TaskApply (new_callback_info 100 200 1 ''app'') (demo_info\<lparr>ri_resourceNumber := 1, ri_isProcess := True\<rparr>)"

definition demo_app_task :: eff_task where
  "demo_app_task = TaskApply (new_callback_info 100 200 4 ''app'') (demo_info\<lparr>ri_resourceNumber := 4\<rparr>)"

definition demo_both :: BgEfficiencyResourcesMgr where
  "demo_both = run_task (demo_eenv 20) demo_app_task
     ((run_task (demo_eenv 20) demo_proc_task (demo_proc_asked\<lparr>er_posted := [demo_app_task]\<rparr>))\<lparr>er_posted := [TaskTimeOut 200 True 1020]\<rparr>)"

section \<open>Facts\<close>

lemma demo_eenv_fits [simp]: "0 \<le> now \<Longrightarrow> now \<le> 4611686018427387904 \<Longrightarrow> eenv_fits (demo_eenv now)"
  by (simp add: eenv_fits_def demo_eenv_def is_i32_def)

lemma demo_info_simps:
  "ri_resourceNumber demo_info = 5" "\<not> ri_isProcess demo_info" "\<not> ri_isPersist demo_info" "ri_timeOut demo_info = 1000"
  "ri_isApply demo_info"
  by (simp_all add: demo_info_def)

lemma demo_asked_posted: "er_posted demo_asked = [demo_apply]"
  by code_simp

lemma demo_held_posted: "er_posted demo_held = [TaskTimeOut 100 False 1020]"
  by code_simp

lemma demo_held_row: "map_of (er_map False demo_held) 100 =
    Some \<lparr>ar_uid = 100, ar_pid = 200, ar_resourceNumber = 5, ar_cpuLevel = CPU_LEVEL_DEFAULT, ar_bundleName = ''app'',
      ar_resourceUnitList =
        [\<lparr>pt_resourceIndex = 0, pt_isPersist = False, pt_endTime = 1020, pt_reason = ''sync'', pt_timeOut = 1000\<rparr>,
         \<lparr>pt_resourceIndex = 2, pt_isPersist = False, pt_endTime = 1020, pt_reason = ''sync'', pt_timeOut = 1000\<rparr>]\<rparr>"
  by code_simp

lemma demo_held_lease: "leases demo_held False 100 0 = Some (Until 1020)" "leases demo_held False 100 2 = Some (Until 1020)"
  by (simp_all add: leases_def demo_held_row unit_of_def lease_of_def)

lemma recovery_exact_empty:
  "er_stored m = None \<Longrightarrow> er_appResourceApplyMap m = [] \<Longrightarrow> er_procResourceApplyMap m = [] \<Longrightarrow> recovery_exact e m"
  by (simp add: recovery_exact_def restored_def RestoreResourceRecord_def)

lemma demo_ready_reachable: "er_reachable demo_ready"
proof -
  let ?m0 = "snd (er_Init True False (new_BgEfficiencyResourcesMgr None))"
  let ?add = "er_OnAddSystemAbility (demo_eenv 0)"
  have "er_reachable ?m0" by (rule er_start) simp
  then have "er_reachable (?add APP_MGR_SERVICE ?m0)"
    by (rule er_next) (rule service_added, rule recovery_exact_empty, code_simp+)
  then have "er_reachable (?add BUNDLE_MGR_SERVICE (?add APP_MGR_SERVICE ?m0))"
    by (rule er_next) (rule service_added, rule recovery_exact_empty, code_simp+)
  then have "er_reachable (?add RES_SCHED_SERVICE (?add BUNDLE_MGR_SERVICE (?add APP_MGR_SERVICE ?m0)))"
    by (rule er_next) (rule service_added, rule recovery_exact_empty, code_simp+)
  then show ?thesis unfolding demo_ready_def by (rule er_next) (rule subscribed)
qed

lemma demo_asked_reachable: "er_reachable demo_asked"
  unfolding demo_asked_def using demo_ready_reachable by (rule er_next) (rule apply_resources, simp)

lemma demo_held_reachable: "er_reachable demo_held"
proof -
  have "er_step demo_asked (run_task (demo_eenv 20) demo_apply (demo_asked\<lparr>er_posted := [] @ []\<rparr>))"
    by (rule task_runs) (simp_all add: demo_asked_posted demo_apply_def)
  then have "er_step demo_asked demo_held" by (simp add: demo_held_def)
  with demo_asked_reachable show ?thesis by (rule er_next)
qed

lemma demo_proc_posted:
  "er_posted demo_proc_asked = [demo_proc_task, demo_app_task]"
  "er_posted (run_task (demo_eenv 20) demo_proc_task (demo_proc_asked\<lparr>er_posted := [demo_app_task]\<rparr>)) = [demo_app_task, TaskTimeOut 200 True 1020]"
  by code_simp+

lemma demo_both_reachable: "er_reachable demo_both"
proof -
  let ?m = "run_task (demo_eenv 20) demo_proc_task (demo_proc_asked\<lparr>er_posted := [] @ [demo_app_task]\<rparr>)"
  have due: "task_due 20 demo_proc_task" "task_due 20 demo_app_task" by (simp_all add: demo_proc_task_def demo_app_task_def)
  have now: "ee_now (demo_eenv 20) = 20" by (simp add: demo_eenv_def)
  have "er_reachable demo_proc_asked"
    unfolding demo_proc_asked_def using demo_ready_reachable by (rule er_next) (rule apply_resources, simp)
  then have "er_reachable ?m" by (rule er_next) (rule task_runs, simp_all add: demo_proc_posted due now)
  then have "er_reachable (run_task (demo_eenv 20) demo_app_task (?m\<lparr>er_posted := [] @ [TaskTimeOut 200 True 1020]\<rparr>))"
    by (rule er_next) (rule task_runs, simp_all add: demo_proc_posted due now)
  then show ?thesis by (simp add: demo_both_def)
qed

lemma demo_both_process:
  "\<exists>r. map_of (er_map True demo_both) 200 = Some r \<and> ar_uid r = 100" "leases demo_both True 200 0 = Some (Until 1020)"
proof -
  have "map_option ar_uid (map_of (er_map True demo_both) 200) = Some 100" by code_simp
  then show "\<exists>r. map_of (er_map True demo_both) 200 = Some r \<and> ar_uid r = 100" by auto
  show "leases demo_both True 200 0 = Some (Until 1020)" by code_simp
qed

end
