(* ===== verification/EfficiencyProps.thy ===== *)
theory EfficiencyProps
  imports EfficiencyDemo
begin

text \<open>
  The properties of the efficiency resource manager, over the states its steps reach, each with a
  run in which its hypotheses hold.
\<close>

unbundle bit_operations_syntax

section \<open>Records\<close>





section \<open>Applying, resetting, timing out\<close>

text \<open>
  C21: Carrying out an application extends the leases of the requested resources, of the process or
  of the application, to the end asked for if that is later, and for ever if persistence is asked
  for or was there; no other lease changes.
\<close>

theorem apply_extends_leases:
  assumes "er_reachable m" and "er_posted m = xs @ TaskApply ci ri # ys"
  shows "leases (run_task e (TaskApply ci ri) (m\<lparr>er_posted := xs @ ys\<rparr>)) isProcess k i =
    (if isProcess = ri_isProcess ri \<and> k = (if isProcess then ci_pid ci else ci_uid ci) \<and> bit (ci_resourceNumber ci) i
     then Some (extend_lease (leases m isProcess k i)
                  (if ri_isPersist ri then Forever else Until (ee_now e + uint (ri_timeOut ri))))
     else leases m isProcess k i)"
proof -
  have "task_ok (TaskApply ci ri)" using er_reachable_inv [OF assms(1)] assms(2) by (simp add: er_inv_def)
  from Apply_leases [OF this, of e "m\<lparr>er_posted := xs @ ys\<rparr>"] show ?thesis by (simp add: offered_def apply_key_def)
qed

lemma apply_extends_leases_witness:
  "er_posted demo_asked = [demo_apply] \<and>
   leases (run_task (demo_eenv 30) demo_apply (demo_asked\<lparr>er_posted := []\<rparr>)) False 100 2 = Some (Until 1030)"
proof -
  have l: "leases demo_asked False 100 2 = None" by code_simp
  have "er_posted demo_asked = [] @ TaskApply (new_callback_info 100 200 5 ''app'') demo_info # []"
    by (simp add: demo_asked_posted demo_apply_def)
  from apply_extends_leases [OF demo_asked_reachable this, of "demo_eenv 30" False 100 2] l show ?thesis
    by (simp add: demo_asked_posted demo_apply_def demo_info_simps demo_eenv_def bit_simps
        del: run_task.simps)
qed

text \<open>
  C22: A reset ends exactly the leases of the resources named, of the process or of the
  application, and no other.
\<close>

theorem reset_ends_leases:
  assumes "er_reachable m"
  shows "leases (ResetEfficiencyResourcesInner e ci reset_process m) isProcess k i =
    (if isProcess = reset_process \<and> k = (if isProcess then ci_pid ci else ci_uid ci) \<and> bit (ci_resourceNumber ci) i
     then None else leases m isProcess k i)"
  using Reset_leases [OF er_reachable_inv [OF assms]] by auto

lemma reset_ends_leases_witness:
  "er_reachable demo_held \<and>
   leases (ResetEfficiencyResourcesInner (demo_eenv 30) (new_callback_info 100 0 1 ''app'') False demo_held) False 100 0 = None \<and>
   leases (ResetEfficiencyResourcesInner (demo_eenv 30) (new_callback_info 100 0 1 ''app'') False demo_held) False 100 2 = Some (Until 1020)"
  by (simp add: reset_ends_leases [OF demo_held_reachable] demo_held_reachable demo_held_lease new_callback_info_def bit_simps)

text \<open>
  A time out ends exactly the leases of its process or application whose end has come, and
  never one that is persistent.
\<close>

lemma timeout_ends_expired_leases:
  assumes "er_reachable m"
  shows "leases (ResetTimeOutResource e key reset_process m) isProcess k i =
    (if isProcess = reset_process \<and> k = key \<and> (\<exists>t. leases m isProcess k i = Some (Until t) \<and> t \<le> ee_now e)
     then None else leases m isProcess k i)"
proof -
  have x: "expired now l \<longleftrightarrow> (\<exists>t. l = Some (Until t) \<and> t \<le> now)" for now l by (cases "(now, l)" rule: expired.cases) auto
  have "leases (ResetTimeOutResource e key reset_process m) isProcess k i =
      (if isProcess = reset_process \<and> k = key \<and> expired (ee_now e) (leases m reset_process key i) then None else leases m isProcess k i)"
    by (rule TimeOut_leases) (rule row_units_ok [OF er_reachable_inv [OF assms]])
  then show ?thesis unfolding x by auto
qed

text \<open>
  C24: Carrying out an application tells the subscribers once of exactly the resources that were
  not held before, and does not call them when there is none.
\<close>

theorem apply_tells_new_resources:
  assumes "er_reachable m" and "er_posted m = xs @ TaskApply ci ri # ys"
  shows "\<exists>new. (\<forall>i. bit new i \<longleftrightarrow> bit (ci_resourceNumber ci) i \<and>
      leases m (ri_isProcess ri) (if ri_isProcess ri then ci_pid ci else ci_uid ci) i = None) \<and>
    notices (run_task e (TaskApply ci ri) (m\<lparr>er_posted := xs @ ys\<rparr>)) = notices m @
      (if new = 0 then []
       else [ResourceChanged (er_subscriberList m) (ci\<lparr>ci_resourceNumber := new\<rparr>)
               (if ri_isProcess ri then RESOURCE_APPLY else APP_RESOURCE_APPLY)])"
proof -
  let ?p = "ri_isProcess ri" and ?k = "apply_key ci ri"
  let ?pre = "fst (found_record ci (map_of (er_map ?p m) ?k))"
  let ?new = "(?pre OR ci_resourceNumber ci) XOR (?pre AND (?pre OR ci_resourceNumber ci))"
  have "bit ?pre i \<longleftrightarrow> leases m ?p ?k i \<noteq> None" for i
    using lease_mask [OF er_reachable_inv [OF assms(1)], of ?p ?k] by (auto simp: found_record_def leases_def split: option.split)
  then have "bit ?new i \<longleftrightarrow> bit (ci_resourceNumber ci) i \<and> leases m ?p ?k i = None" for i unfolding new_bits by simp
  moreover have "notices (run_task e (TaskApply ci ri) (m\<lparr>er_posted := xs @ ys\<rparr>)) = notices m @
      (if ?new = 0 then [] else [ResourceChanged (er_subscriberList m) (ci\<lparr>ci_resourceNumber := ?new\<rparr>)
               (if ri_isProcess ri then RESOURCE_APPLY else APP_RESOURCE_APPLY)])"
    using Apply_notices [of e ci ri "m\<lparr>er_posted := xs @ ys\<rparr>"] by (simp add: Let_def)
  ultimately show ?thesis unfolding apply_key_def by blast
qed

lemma apply_tells_new_resources_witness:
  "er_reachable demo_asked \<and> (\<exists>xs ys ci ri new. er_posted demo_asked = xs @ TaskApply ci ri # ys \<and>
     (\<forall>i. bit new i \<longleftrightarrow> bit (5 :: mask) i) \<and>
     notices (run_task (demo_eenv 30) (TaskApply ci ri) (demo_asked\<lparr>er_posted := xs @ ys\<rparr>)) =
       notices demo_asked @ [ResourceChanged [7] (ci\<lparr>ci_resourceNumber := new\<rparr>) APP_RESOURCE_APPLY])"
proof -
  let ?ci = "new_callback_info 100 200 5 ''app''"
  have p: "er_posted demo_asked = [] @ TaskApply ?ci demo_info # []"
    by (simp add: demo_asked_posted demo_apply_def)
  have none: "map_of (er_map False demo_asked) 100 = None" and subs: "er_subscriberList demo_asked = [7]" by code_simp+
  have l: "leases demo_asked False 100 i = None" for i using none by (simp add: leases_def)
  obtain new where b: "\<forall>i. bit new i \<longleftrightarrow> bit (ci_resourceNumber ?ci) i \<and>
        leases demo_asked (ri_isProcess demo_info) (if ri_isProcess demo_info then ci_pid ?ci else ci_uid ?ci) i = None"
    and n: "notices (run_task (demo_eenv 30) (TaskApply ?ci demo_info) (demo_asked\<lparr>er_posted := [] @ []\<rparr>)) = notices demo_asked @
      (if new = 0 then [] else [ResourceChanged (er_subscriberList demo_asked) (?ci\<lparr>ci_resourceNumber := new\<rparr>)
         (if ri_isProcess demo_info then RESOURCE_APPLY else APP_RESOURCE_APPLY)])"
    using apply_tells_new_resources [OF demo_asked_reachable p, of "demo_eenv 30"] by blast
  have new: "\<And>i. bit new i \<longleftrightarrow> bit (5 :: mask) i"
    using b by (simp add: demo_info_simps l)
  have "new = 5" using new by (intro bit_eqI) simp
  then have "notices (run_task (demo_eenv 30) (TaskApply ?ci demo_info) (demo_asked\<lparr>er_posted := [] @ []\<rparr>)) =
      notices demo_asked @ [ResourceChanged [7] (?ci\<lparr>ci_resourceNumber := new\<rparr>) APP_RESOURCE_APPLY]"
    using n by (simp add: subs demo_info_simps del: run_task.simps)
  with new p show ?thesis using demo_asked_reachable by blast
qed

section \<open>Requests\<close>

text \<open>
  C25: The exact condition under which a request for efficiency resources is accepted: the manager
  is ready, the mask is not empty and names resources only, an application that is not persistent
  has a time, the caller is a system application or a service extension, the CPU level is allowed,
  at least one resource asked for is declared, and the CPU quota suffices. A request that is not
  accepted changes nothing in the manager; at most the quota library has been asked.
\<close>

theorem apply_request_outcome:
  "(fst (ApplyEfficiencyResources e info m) = ERR_OK \<longleftrightarrow>
    er_isSysReady m \<and> 0 \<le> ee_callingUid e \<and> 0 \<le> ee_callingPid e \<and>
    (ee_isSystemApp e \<or> IsServiceExtensionType e (ee_callingPid e) m) \<and>
    (\<exists>ri ri1. info = Some ri \<and> ri_resourceNumber ri \<noteq> 0 \<and> ri_resourceNumber ri \<le> 511 \<and>
       \<not> (ri_isApply ri \<and> \<not> ri_isPersist ri \<and> ri_timeOut ri = 0) \<and>
       CheckIfCanApplyCpuLevel e ri (ee_clientBundleName e (ee_callingUid e)) (ee_callingUid e) = (ERR_OK, ri1) \<and>
       (let n = GetExemptedResourceType e (ri_resourceNumber ri) (ee_callingUid e) (ee_clientBundleName e (ee_callingUid e))
        in n \<noteq> 0 \<and> fst (CheckOrUpdateCpuApplyQuota e (ee_callingUid e) (ee_clientBundleName e (ee_callingUid e))
                      (ri1\<lparr>ri_resourceNumber := n\<rparr>) m)))) \<and>
   (fst (ApplyEfficiencyResources e info m) \<noteq> ERR_OK \<longrightarrow>
      (\<exists>quota_calls. snd (ApplyEfficiencyResources e info m) = er_emit quota_calls m))"
proof (cases "er_isSysReady m \<and> CheckResourceInfo info")
  case False
  have none: "\<exists>cs. m = er_emit cs m" by (intro exI [of _ "[]"]) (simp add: er_emit_def)
  from False show ?thesis
    by (cases info) (auto simp: ApplyEfficiencyResources_def CheckResourceInfo_def MAX_RESOURCE_MASK_val not_le intro: none)
next
  case True
  then obtain ri where ri: "info = Some ri" by (cases info) (auto simp: CheckResourceInfo_def)
  let ?b = "ee_clientBundleName e (ee_callingUid e)"
  obtain err ri1 where c: "CheckIfCanApplyCpuLevel e ri ?b (ee_callingUid e) = (err, ri1)" by fastforce
  have n: "ri_resourceNumber ri1 = ri_resourceNumber ri" using CheckIfCanApplyCpuLevel_keeps [OF c] by simp
  have ok: "ri_resourceNumber ri \<noteq> 0" "ri_resourceNumber ri \<le> 511" "\<not> (ri_isApply ri \<and> \<not> ri_isPersist ri \<and> ri_timeOut ri = 0)"
    using True by (auto simp: ri CheckResourceInfo_def MAX_RESOURCE_MASK_val not_less)
  have none: "\<exists>cs. m = er_emit cs m" by (intro exI [of _ "[]"]) (simp add: er_emit_def)
  have quota: "\<exists>cs. m1 = er_emit cs m" if "CheckOrUpdateCpuApplyQuota e uid b ri2 m = (q, m1)" for uid b ri2 q m1
    using that none by (auto simp: CheckOrUpdateCpuApplyQuota_def split: if_splits option.splits)
  show ?thesis
    using True ok c n none
    by (auto simp: ApplyEfficiencyResources_def ri er_IsCallingInfoLegal_def Let_def dest: quota split: prod.split)
qed

lemma apply_request_outcome_witness:
  "fst (ApplyEfficiencyResources (demo_eenv 10) (Some demo_info) demo_asked) = ERR_OK \<and>
   (\<exists>info. fst (ApplyEfficiencyResources (demo_eenv 10) info demo_asked) \<noteq> ERR_OK \<and>
     (\<exists>cs. snd (ApplyEfficiencyResources (demo_eenv 10) info demo_asked) = er_emit cs demo_asked))"
proof -
  have "fst (ApplyEfficiencyResources (demo_eenv 10) (Some demo_info) demo_asked) = ERR_OK"
    "fst (ApplyEfficiencyResources (demo_eenv 10) None demo_asked) \<noteq> ERR_OK" by code_simp+
  with apply_request_outcome [of "demo_eenv 10" None demo_asked] show ?thesis by blast
qed

text \<open>
  An accepted application posts tasks for exactly the resources that were asked for and that
  the caller declares, on behalf of the caller; the CPU of a process is applied for the process,
  its other resources for the application.
\<close>

lemma apply_request_tasks:
  assumes "fst (ApplyEfficiencyResources e (Some ri) m) = ERR_OK" and "ri_isApply ri"
    and "ee_resourcesApply e (ee_clientBundleName e (ee_callingUid e)) (GetUserIdByUid (ee_callingUid e)) = Some declared"
  shows "\<exists>ts. er_posted (snd (ApplyEfficiencyResources e (Some ri) m)) = er_posted m @ ts \<and>
    (\<forall>i. (\<exists>ci ri'. TaskApply ci ri' \<in> set ts \<and> bit (ci_resourceNumber ci) i) \<longleftrightarrow>
         bit (ri_resourceNumber ri) i \<and> (0 \<in> set declared \<or> int i + 1 \<in> set declared)) \<and>
    (\<forall>ci ri'. TaskApply ci ri' \<in> set ts \<longrightarrow> ci_uid ci = ee_callingUid e \<and> ci_pid ci = ee_callingPid e \<and>
         ri_isPersist ri' = ri_isPersist ri \<and> ri_timeOut ri' = ri_timeOut ri \<and>
         (if ri_isProcess ri' then ri_isProcess ri \<and> ci_resourceNumber ci = CPU
          else ri_isProcess ri \<longrightarrow> \<not> bit (ci_resourceNumber ci) 0))"
proof -
  define b uid pid where "b = ee_clientBundleName e (ee_callingUid e)" and "uid = ee_callingUid e" and "pid = ee_callingPid e"
  obtain ri1 ok m1 where c: "CheckIfCanApplyCpuLevel e ri b uid = (ERR_OK, ri1)" and n: "ri_resourceNumber ri \<le> MAX_RESOURCE_MASK"
    and posted: "snd (ApplyEfficiencyResources e (Some ri) m) = ApplyResourceForPkgAndProc uid pid b
      (ri1\<lparr>ri_resourceNumber := GetExemptedResourceType e (ri_resourceNumber ri1) uid b\<rparr>) m1"
    and q: "CheckOrUpdateCpuApplyQuota e uid b (ri1\<lparr>ri_resourceNumber := GetExemptedResourceType e (ri_resourceNumber ri1) uid b\<rparr>) m = (ok, m1)"
    using assms(1) unfolding b_def uid_def pid_def
    by (auto simp: ApplyEfficiencyResources_def CheckResourceInfo_def er_IsCallingInfoLegal_def Let_def not_less
        split: if_splits prod.splits)
  note same = CheckIfCanApplyCpuLevel_keeps [OF c]
  have m1: "er_posted m1 = er_posted m"
    using check_quota.op_posted [of e uid b "ri1\<lparr>ri_resourceNumber := GetExemptedResourceType e (ri_resourceNumber ri1) uid b\<rparr>" m]
    unfolding q by (simp only: snd_conv)
  let ?n = "GetExemptedResourceType e (ri_resourceNumber ri) uid b"
  have bits: "bit ?n i \<longleftrightarrow> bit (ri_resourceNumber ri) i \<and> (0 \<in> set declared \<or> int i + 1 \<in> set declared)" for i
    using exempted_bits [OF n] assms(3) by (simp add: b_def uid_def)
  obtain l where l: "er_posted (snd (ApplyEfficiencyResources e (Some ri) m)) =
      er_posted m @ request_tasks uid pid b l (ri1\<lparr>ri_resourceNumber := ?n\<rparr>)"
    using request_tasks_posted [of "ri1\<lparr>ri_resourceNumber := ?n\<rparr>" uid pid b m1] assms(2) same posted m1 by auto
  let ?ts = "request_tasks uid pid b l (ri1\<lparr>ri_resourceNumber := ?n\<rparr>)"
  have "(\<exists>ci ri'. TaskApply ci ri' \<in> set ?ts \<and> bit (ci_resourceNumber ci) i) \<longleftrightarrow>
      bit (ri_resourceNumber ri) i \<and> (0 \<in> set declared \<or> int i + 1 \<in> set declared)" for i
    unfolding request_tasks_bits using bits by simp
  moreover have "ci_uid ci = ee_callingUid e \<and> ci_pid ci = ee_callingPid e \<and> ri_isPersist ri' = ri_isPersist ri \<and>
      ri_timeOut ri' = ri_timeOut ri \<and>
      (if ri_isProcess ri' then ri_isProcess ri \<and> ci_resourceNumber ci = CPU else ri_isProcess ri \<longrightarrow> \<not> bit (ci_resourceNumber ci) 0)"
    if "TaskApply ci ri' \<in> set ?ts" for ci ri'
    using request_tasks_fields [OF that] same by (auto simp: uid_def pid_def split: if_splits)
  ultimately show ?thesis using l by blast
qed

text \<open>
  C27: Once a reset of an application and the resets of processes that it posts have run, neither
  the application nor any of its processes holds a resource named by the reset; processes of other
  applications and other resources are untouched.
\<close>

theorem app_reset_reaches_processes:
  fixes e ci and m :: BgEfficiencyResourcesMgr
  defines "m1 \<equiv> ResetEfficiencyResourcesInner e ci False m"
  defines "m2 \<equiv> fold (run_task e) (drop (length (er_posted m)) (er_posted m1)) m1"
  assumes "er_reachable m"
  shows "(bit (ci_resourceNumber ci) i \<longrightarrow> leases m2 False (ci_uid ci) i = None \<and>
      (\<forall>pid r. map_of (er_map True m) pid = Some r \<and> ar_uid r = ci_uid ci \<longrightarrow> leases m2 True pid i = None)) \<and>
    (\<forall>pid r. map_of (er_map True m) pid = Some r \<and> (ar_uid r \<noteq> ci_uid ci \<or> \<not> bit (ci_resourceNumber ci) i) \<longrightarrow>
      leases m2 True pid i = leases m True pid i)"
proof -
  note inv = er_reachable_inv [OF assms(3)]
  let ?ts = "relative_tasks (ci_uid ci) (ci_resourceNumber ci) (er_map True m)"
  have t: "table_ok True (er_map True m)" by (rule er_inv_parts(1) [OF inv])
  have "er_map True (snd (RemoveTargetResourceRecord e False k info m)) = er_map True m" for k info
    by (simp add: RemoveTargetResourceRecord_def Let_def finish_reset_table split: option.split)
  moreover have "er_posted (snd (RemoveTargetResourceRecord e p k info m)) = er_posted m" for p k info
    by (simp add: RemoveTargetResourceRecord_def Let_def split: option.split)
  ultimately have "drop (length (er_posted m)) (er_posted m1) = ?ts"
    by (simp add: m1_def ResetEfficiencyResourcesInner_def RemoveRelativeProcessRecord_def tables_of_er_map)
  then have "leases m2 q k i =
      (if \<exists>c reason. TaskReset c q reason \<in> set ?ts \<and> k = (if q then ci_pid c else ci_uid c) \<and> bit (ci_resourceNumber c) i
       then None else leases m1 q k i)" for q k
    unfolding m2_def m1_def
    using fold_resets [OF ResetEfficiencyResourcesInner_inv [OF inv] relative_tasks_resets] by simp
  moreover have "leases m1 q k i = (if \<not> q \<and> k = ci_uid ci \<and> bit (ci_resourceNumber ci) i then None else leases m q k i)" for q k
    using Reset_leases [OF inv, of e ci False q k i] by (simp add: m1_def)
  moreover have "(\<exists>c reason. TaskReset c True reason \<in> set ?ts \<and> pid = ci_pid c \<and> bit (ci_resourceNumber c) i) \<longleftrightarrow>
      bit (ci_resourceNumber ci) i \<and> (\<exists>r. map_of (er_map True m) pid = Some r \<and> ar_uid r = ci_uid ci \<and> bit (ar_resourceNumber r) i)" for pid
    by (rule relative_tasks_cover [OF t])
  ultimately show ?thesis using lease_mask [OF inv, of True] by (auto split: if_splits)
qed

lemma app_reset_reaches_processes_witness:
  "leases demo_both True 200 0 = Some (Until 1020) \<and>
   (let m1 = ResetEfficiencyResourcesInner (demo_eenv 30) (new_callback_info 100 0 5 ''app'') False demo_both
    in leases (fold (run_task (demo_eenv 30)) (drop (length (er_posted demo_both)) (er_posted m1)) m1) True 200 0 = None)"
  using app_reset_reaches_processes [OF demo_both_reachable, of "new_callback_info 100 0 5 ''app''" 0 "demo_eenv 30"] demo_both_process
  by (auto simp: Let_def bit_simps)

section \<open>Readiness\<close>

text \<open>
  A reachable manager is ready only while the three services it depends on are up; it becomes
  ready when the last of them comes up, and once one of them is lost requests are refused.
\<close>

lemma ready_iff_services_up:
  assumes "er_reachable m"
  shows "(er_isSysReady m \<longrightarrow> er_dependsReady m = ALL_DEPENDS_READY) \<and>
    (er_dependsReady m OR depend_bit sa = ALL_DEPENDS_READY \<longrightarrow> er_isSysReady (er_OnAddSystemAbility e sa m)) \<and>
    (sa \<noteq> UNRELATED_SERVICE \<longrightarrow>
      fst (ApplyEfficiencyResources e info (er_OnRemoveSystemAbility sa m)) = ERR_BGTASK_SYS_NOT_READY)"
proof -
  have "er_dependsReady m AND NOT (depend_bit sa) \<noteq> ALL_DEPENDS_READY" if "sa \<noteq> UNRELATED_SERVICE"
  proof
    assume "er_dependsReady m AND NOT (depend_bit sa) = ALL_DEPENDS_READY"
    then have "ALL_DEPENDS_READY AND depend_bit sa = 0" by (metis and.assoc and.commute bit.conj_cancel_right and_zero_eq)
    with that show False by (cases sa) (simp_all add: ALL_DEPENDS_READY_def)
  qed
  then show ?thesis
    using er_reachable_inv [OF assms]
    by (auto simp: er_inv_def er_OnAddSystemAbility_def er_OnRemoveSystemAbility_def er_InitNecessaryState_def er_emit_def
        ApplyEfficiencyResources_def Let_def)
qed

section \<open>Storage\<close>





section \<open>Reports\<close>

text \<open>
  In every reachable state the columns of both report batches have the same length, which
  is at most 20, and no subscriber is registered twice.
\<close>

lemma report_batches_aligned:
  assumes "er_reachable m"
  shows "pa_length (er_applyEventData m) \<le> 20 \<and> length (pa_appUid (er_applyEventData m)) = pa_length (er_applyEventData m) \<and>
    length (pa_resourceType (er_applyEventData m)) = pa_length (er_applyEventData m) \<and>
    length (pa_timeout (er_applyEventData m)) = pa_length (er_applyEventData m) \<and>
    pr_length (er_resetEventData m) \<le> 20 \<and> length (pr_appUid (er_resetEventData m)) = pr_length (er_resetEventData m) \<and>
    length (pr_resourceType (er_resetEventData m)) = pr_length (er_resetEventData m) \<and> distinct (er_subscriberList m)"
  using er_reachable_inv [OF assms] by (simp add: er_inv_def apply_batch_ok_def reset_batch_ok_def)

section \<open>Defects\<close>

text \<open>
  Recovery soon after boot takes a resource other than work scheduler and timer out of an
  application's mask but leaves its unit. When that unit times out, the exclusive or with the mask
  puts the resource back, with no unit left that could end it.
\<close>

lemma boot_recovery_revives_resource:
  assumes "er_reachable m" and "leases m False k i = Some (Until t)" and "i \<noteq> 2" and "i \<noteq> 3"
    and "ee_bootTime e \<le> 240000" and "t \<le> ee_now e'"
  shows "\<exists>r1 r2. map_of (er_map False (RecoverResourceNumber e m)) k = Some r1 \<and> \<not> bit (ar_resourceNumber r1) i \<and>
    map_of (er_map False (ResetTimeOutResource e' k False (RecoverResourceNumber e m))) k = Some r2 \<and>
    bit (ar_resourceNumber r2) i \<and> (\<forall>u \<in> set (ar_resourceUnitList r2). pt_resourceIndex u \<noteq> i)"
proof -
  note inv = er_reachable_inv [OF assms(1)]
  obtain r where row: "map_of (er_map False m) k = Some r" using assms(2) by (auto simp: leases_def row_lease_def split: option.splits)
  note ok = row_units_ok [OF inv row]
  let ?b = "expired_bits (ee_now e') (ar_resourceUnitList r)"
  let ?r1 = "r\<lparr>ar_resourceNumber := ar_resourceNumber r AND (WORK_SCHEDULER OR TIMER)\<rparr>"
  let ?r2 = "?r1\<lparr>ar_resourceNumber := ar_resourceNumber ?r1 XOR ?b, ar_resourceUnitList := RemoveListRecord ?b (ar_resourceUnitList ?r1)\<rparr>"
  have row1: "map_of (er_map False (RecoverResourceNumber e m)) k = Some ?r1"
    using assms(5) row by (simp add: RecoverResourceNumber_def er_map_def map_of_map_vals)
  have twelve: "\<not> bit (ar_resourceNumber ?r1) i"
  proof -
    have eq: "res_bit 3 OR res_bit 2 = 12" by (simp add: res_bit_def)
    have "\<not> bit (res_bit 3 OR res_bit 2) i" using assms(3,4) by (simp add: bit_or_iff)
    then show ?thesis unfolding eq by (simp add: bit_and_iff)
  qed
  have b: "bit ?b i" using expired_lease_bit [OF ok, of "ee_now e'" i] assms(2,6) row by (auto simp: leases_def)
  then have "?b \<noteq> 0" "bit (ar_resourceNumber ?r2) i" using twelve by (auto simp: bit_xor_iff)
  moreover from this(2) have "ar_resourceNumber ?r2 \<noteq> 0" by (metis bit_0_eq bot_apply bot_bool_def)
  ultimately have "map_of (er_map False (ResetTimeOutResource e' k False (RecoverResourceNumber e m))) k = Some ?r2"
    using row1 by (simp add: ResetTimeOutResource_def Let_def finish_reset_rows)
  moreover have "\<forall>u \<in> set (ar_resourceUnitList ?r2). pt_resourceIndex u \<noteq> i"
    using b by (auto simp: RemoveListRecord_filter)
  ultimately show ?thesis using row1 twelve \<open>bit (ar_resourceNumber ?r2) i\<close> by blast
qed

text \<open>
  The number that the query of all resources shows for a unit is its resource's bit for the
  first three resource types and for no other.
\<close>

lemma shown_resource_number:
  assumes "pt_resourceIndex u < 9"
  shows "ri_resourceNumber (unit_info uid pid isProcess r u) = res_bit (pt_resourceIndex u) \<longleftrightarrow> pt_resourceIndex u \<le> 2"
proof -
  have "ri_resourceNumber (unit_info uid pid isProcess r u) =
      (if pt_resourceIndex u \<noteq> 0 then push_bit 1 (word_of_nat (pt_resourceIndex u)) else 1)"
    by (simp add: unit_info_def Let_def ri_SetCpuLevel_def)
  moreover have "pt_resourceIndex u \<in> {0, 1, 2, 3, 4, 5, 6, 7, 8}" using assms by auto
  ultimately show ?thesis by (elim insertE emptyE) (simp_all add: res_bit_def)
qed

text \<open>
  A recovered unit that ends more than 2147483647 ms from now gets a time out that is due at
  once; when that runs the unit is still held, and no later time out is posted for it.
\<close>

lemma long_timeout_lost:
  assumes "\<not> pt_isPersist u" and "INT_MAX < pt_endTime u - ee_now e" and "pt_endTime u - ee_now e < 4294967296"
    and "ar_resourceUnitList r = [u]"
  shows "er_posted (RecoverDelayedTask e isProcess [(k, r)] m) = er_posted m @ [TaskTimeOut k isProcess (ee_now e)] \<and>
    task_due (ee_now e) (TaskTimeOut k isProcess (ee_now e)) \<and>
    (map_of (er_map isProcess m) k = Some r \<longrightarrow> run_task e (TaskTimeOut k isProcess (ee_now e)) m = m)"
proof -
  have "i32 (pt_endTime u - ee_now e) < 0" using i32_beyond [of "pt_endTime u - ee_now e"] assms(2,3) by linarith
  then have "recover_units e isProcess k [u] = [TaskTimeOut k isProcess (ee_now e)]"
    using assms(1) by (simp add: recover_units_def List.map_filter_simps)
  moreover have "expired_bits (ee_now e) [u] = 0" using assms(1,2) by simp
  ultimately show ?thesis using assms(4) by (simp add: RecoverDelayedTask_def ResetTimeOutResource_def)
qed

end
