(* ===== verification/BackgroundModes.thy ===== *)
theory BackgroundModes
  imports Prelude
begin

text \<open>
  Background modes, sub modes and the reasons reported for them
  (\<^verbatim>\<open>interfaces/innerkits\<close>: \<^verbatim>\<open>background_mode\<close>, \<^verbatim>\<open>background_sub_mode\<close>, \<^verbatim>\<open>background_task_mode\<close>,
  \<^verbatim>\<open>background_task_submode\<close>, \<^verbatim>\<open>continuous_task_cancel_reason\<close>, \<^verbatim>\<open>continuous_task_suspend_reason\<close>,
  \<^verbatim>\<open>user_auth_result\<close>) and the helpers on lists of modes of \<^verbatim>\<open>services/common/src/common_utils.cpp\<close>.
  A mode is a \<^verbatim>\<open>uint32_t\<close>, here a 32-bit word; the enumerators are abbreviations for numerals.
\<close>

unbundle bit_operations_syntax

type_synonym bgmode = "32 word"

section \<open>Enumerations\<close>

abbreviation (input) DATA_TRANSFER :: bgmode where "DATA_TRANSFER \<equiv> 1"
abbreviation (input) AUDIO_PLAYBACK :: bgmode where "AUDIO_PLAYBACK \<equiv> 2"
abbreviation (input) AUDIO_RECORDING :: bgmode where "AUDIO_RECORDING \<equiv> 3"
abbreviation (input) LOCATION :: bgmode where "LOCATION \<equiv> 4"
abbreviation (input) BLUETOOTH_INTERACTION :: bgmode where "BLUETOOTH_INTERACTION \<equiv> 5"
abbreviation (input) MULTI_DEVICE_CONNECTION :: bgmode where "MULTI_DEVICE_CONNECTION \<equiv> 6"
abbreviation (input) WIFI_INTERACTION :: bgmode where "WIFI_INTERACTION \<equiv> 7"
abbreviation (input) VOIP :: bgmode where "VOIP \<equiv> 8"
abbreviation (input) TASK_KEEPING :: bgmode where "TASK_KEEPING \<equiv> 9"
abbreviation (input) WORKOUT :: bgmode where "WORKOUT \<equiv> 10"
abbreviation (input) MODE_AV_PLAYBACK_AND_RECORD :: bgmode where "MODE_AV_PLAYBACK_AND_RECORD \<equiv> 12"
abbreviation (input) SPECIAL_SCENARIO_PROCESSING :: bgmode where "SPECIAL_SCENARIO_PROCESSING \<equiv> 13"
abbreviation (input) NEARLINK :: bgmode where "NEARLINK \<equiv> 14"
abbreviation (input) BGMODE_END :: bgmode where "BGMODE_END \<equiv> 15"

abbreviation (input) CAR_KEY :: bgmode where "CAR_KEY \<equiv> 1"
abbreviation (input) SUBMODE_NORMAL_NOTIFICATION :: bgmode where "SUBMODE_NORMAL_NOTIFICATION \<equiv> 2"
abbreviation (input) SUBMODE_AVSESSION_AUDIO_PLAYBACK :: bgmode where "SUBMODE_AVSESSION_AUDIO_PLAYBACK \<equiv> 5"
abbreviation (input) SUBMODE_MEDIA_PROCESS_NORMAL_NOTIFICATION :: bgmode where "SUBMODE_MEDIA_PROCESS_NORMAL_NOTIFICATION \<equiv> 9"
abbreviation (input) SUBMODE_VIDEO_BROADCAST_NORMAL_NOTIFICATION :: bgmode where "SUBMODE_VIDEO_BROADCAST_NORMAL_NOTIFICATION \<equiv> 10"
abbreviation (input) SUBMODE_WORK_OUT_NORMAL_NOTIFICATION :: bgmode where "SUBMODE_WORK_OUT_NORMAL_NOTIFICATION \<equiv> 11"

text \<open>The reasons of \<^verbatim>\<open>continuous_task_record.h\<close> and the detailed ones.\<close>

abbreviation (input) REMOVE_NOTIFICATION_CANCEL :: int where "REMOVE_NOTIFICATION_CANCEL \<equiv> 1"
abbreviation (input) FREEZE_CANCEL :: int where "FREEZE_CANCEL \<equiv> 2"
abbreviation (input) SYSTEM_CANCEL :: int where "SYSTEM_CANCEL \<equiv> 3"

abbreviation (input) INVALID_REASON :: int where "INVALID_REASON \<equiv> 0"
abbreviation (input) USER_CANCEL_REMOVE_NOTIFICATION :: int where "USER_CANCEL_REMOVE_NOTIFICATION \<equiv> 3"
abbreviation (input) SYSTEM_CANCEL_AUDIO_PLAYBACK_NOT_RUNNING :: int where "SYSTEM_CANCEL_AUDIO_PLAYBACK_NOT_RUNNING \<equiv> 6"
abbreviation (input) SYSTEM_CANCEL_USE_ILLEGALLY :: int where "SYSTEM_CANCEL_USE_ILLEGALLY \<equiv> 11"
abbreviation (input) SYSTEM_CANCEL_DATA_TRANSFER_NOT_UPDATE :: int where "SYSTEM_CANCEL_DATA_TRANSFER_NOT_UPDATE \<equiv> 12"
abbreviation (input) SYSTEM_SUSPEND_AUDIO_PLAYBACK_NOT_RUNNING :: int where "SYSTEM_SUSPEND_AUDIO_PLAYBACK_NOT_RUNNING \<equiv> 6"

abbreviation (input) AUTH_NOT_SUPPORTED :: int where "AUTH_NOT_SUPPORTED \<equiv> 0"
abbreviation (input) AUTH_NOT_DETERMINED :: int where "AUTH_NOT_DETERMINED \<equiv> 1"
abbreviation (input) AUTH_DENIED :: int where "AUTH_DENIED \<equiv> 2"
abbreviation (input) AUTH_GRANTED_ONCE :: int where "AUTH_GRANTED_ONCE \<equiv> 3"
abbreviation (input) AUTH_GRANTED_ALWAYS :: int where "AUTH_GRANTED_ALWAYS \<equiv> 4"
abbreviation (input) AUTH_END :: int where "AUTH_END \<equiv> 5"

section \<open>Tables\<close>

definition table_get :: "(bgmode \<times> 'a) list \<Rightarrow> 'a \<Rightarrow> bgmode \<Rightarrow> 'a" where
  "table_get t d k = (case map_of t k of Some v \<Rightarrow> v | None \<Rightarrow> d)"

definition GetBackgroundModeStr :: "bgmode \<Rightarrow> string" where
  "GetBackgroundModeStr = table_get
     [(1, ''dataTransfer''), (2, ''audioPlayback''), (3, ''audioRecording''), (4, ''location''),
      (5, ''bluetoothInteraction''), (6, ''multiDeviceConnection''), (7, ''wifiInteraction''),
      (8, ''voip''), (9, ''taskKeeping''), (10, ''workout''), (13, ''specialScenarioProcessing''),
      (14, ''nearlink''), (15, ''end'')] ''default''"

definition GetDetailedCancelReasonFromMode :: "bgmode \<Rightarrow> int" where
  "GetDetailedCancelReasonFromMode = table_get
     [(1, 4), (2, 6), (3, 7), (4, 8), (5, 9), (6, 10), (8, 13), (13, 14), (15, INVALID_REASON)] INVALID_REASON"

definition GetBackgroundSubModeStr :: "bgmode \<Rightarrow> string" where
  "GetBackgroundSubModeStr = table_get [(1, ''CAR_KEY''), (2, ''end'')] ''default''"

definition GetBackgroundTaskModeStr :: "bgmode \<Rightarrow> string" where
  "GetBackgroundTaskModeStr = table_get
     [(1, ''modeDataTransfer''), (2, ''modeAudioPlayback''), (3, ''modeAudioRecording''), (4, ''modeLocation''),
      (5, ''modeBluetoothInteraction''), (6, ''modeMultiDeviceConnection''), (7, ''modeAllowWifiAware''),
      (8, ''modeVoip''), (9, ''modeTaskKeeping''), (12, ''modeAVPlaybackAndRecord''),
      (13, ''modeSpecialScenarioProcessing''), (14, ''modeNearlink''), (15, ''end'')] ''default''"

definition GetBackgroundTaskSubmodeStr :: "bgmode \<Rightarrow> string" where
  "GetBackgroundTaskSubmodeStr = table_get
     [(1, ''submodeCarKeyNormalNotification''), (2, ''submodeNormalNotification''),
      (3, ''submodeLiveViewNotification''), (4, ''submodeAudioPlaybackNormalNotification''),
      (5, ''submodeAvsessionAudioPlayback''), (6, ''submodeAudioRecordNormalNotification''),
      (7, ''submodeScreenRecordNormalNotification''), (8, ''submodeVoiceChatNormalNotification''),
      (9, ''submodeMediaProcessNormalNotification''), (10, ''submodeVideoBroadcastNormalNotification''),
      (11, ''submodeWorkOutNormalNotification''), (12, ''end'')] ''default''"

definition GetSubModeTypeMatching :: "bgmode \<Rightarrow> bgmode" where
  "GetSubModeTypeMatching = table_get
     [(3, 1), (1, 5), (4, 12), (5, 12), (6, 12), (7, 12), (8, 12), (9, 13), (10, 13), (11, 13)] BGMODE_END"

definition IsModeTypeMatching :: "bgmode \<Rightarrow> bool" where
  "IsModeTypeMatching mode \<longleftrightarrow> mode \<in> set [2, 3, 4, 5, 6, 7, 8, 9, 14]"

definition GetV9BackgroundModeByMode :: "bgmode \<Rightarrow> bgmode" where
  "GetV9BackgroundModeByMode = table_get
     [(2, 2), (3, 3), (4, 4), (5, 5), (6, 6), (7, 7), (8, 8), (9, 9), (13, 13), (14, 14)] BGMODE_END"

definition GetV9BackgroundModeBySubMode :: "bgmode \<Rightarrow> bgmode" where
  "GetV9BackgroundModeBySubMode = table_get
     [(3, 1), (1, 5), (4, 2), (5, 2), (6, 3), (7, 3), (8, 8), (9, 13), (10, 13), (11, 13)] BGMODE_END"

definition GetSuspendReasonValue :: "bgmode \<Rightarrow> bool \<Rightarrow> int" where
  "GetSuspendReasonValue mode isStandby = table_get
     (if isStandby then [(2, 16), (4, 15), (5, 14), (14, 18)]
      else [(1, 4), (2, 6), (3, 7), (4, 8), (5, 9), (6, 10), (8, 13), (13, 19), (14, 17)]) 0 mode"

definition GetSuspendReasonMessage :: "bgmode \<Rightarrow> string" where
  "GetSuspendReasonMessage = table_get
     [(4, ''For a period of time, the application did not use data transfer or the data transfer rate was too low.''),
      (5, ''The application did use avsession when request audio playback mode.''),
      (6, ''Audio is not running when request audio playback mode.''),
      (7, ''No recording stream detected when applying for audio recording mode''),
      (8, ''Not use location when request location mode.''),
      (9, ''Bluetooth connection not detected when request bluetooth interaction mode.''),
      (10, ''Not use multi device when request multi-device connection mode.''),
      (11, ''Detected that the application is using an unapproved mode''),
      (12, ''System load warning.''),
      (13, ''No audio stream or recording stream detected when applying for voip mode''),
      (14, ''Not bluetooth data for a period of time when request bluetooth interaction mode.''),
      (15, ''The location has not moved for a period of time when request location mode.''),
      (16, ''The system muted for a period of time when request audio playback mode.''),
      (17, ''No nearlink connection for a period of time when request nearlink mode.''),
      (18, ''No nearlink data for a period of time when request nearlink mode.''),
      (19, ''User not authorized when request MODE_SPECIAL_SCENARIO_PROCESSING.'')] ''unknown suspendReason''"

section \<open>Lists of modes\<close>

definition CheckExistMode :: "bgmode list \<Rightarrow> bgmode \<Rightarrow> bool" where
  "CheckExistMode bgModeIds bgMode \<longleftrightarrow> bgMode \<in> set bgModeIds"

text \<open>Despite its name, true when the id is not in the list.\<close>

definition CheckExistNotification :: "int list \<Rightarrow> int \<Rightarrow> bool" where
  "CheckExistNotification notificationIds notificationId \<longleftrightarrow> notificationId \<notin> set notificationIds"

definition CheckModesSame :: "bgmode list \<Rightarrow> bgmode list \<Rightarrow> bool" where
  "CheckModesSame oldBgModeIds newBgModeIds \<longleftrightarrow> set oldBgModeIds = set newBgModeIds"

fun CheckApplyMode :: "bgmode list \<Rightarrow> bgmode list \<Rightarrow> bool" where
  "CheckApplyMode [] checkBgModeIds = True"
| "CheckApplyMode (mode # ms) checkBgModeIds =
     (if mode \<notin> set checkBgModeIds then False else CheckApplyMode ms checkBgModeIds)"

definition CheckExistOtherMode :: "bgmode list \<Rightarrow> bgmode \<Rightarrow> bgmode list \<Rightarrow> bool" where
  "CheckExistOtherMode bgModeIds bgMode liveViewTypes \<longleftrightarrow>
     list_ex (\<lambda>ty. ty \<in> set bgModeIds) (filter (\<lambda>ty. ty \<noteq> bgMode) liveViewTypes)"

definition SortMode :: "bgmode list \<Rightarrow> bgmode list" where
  "SortMode bgModeIds =
     (let target = [DATA_TRANSFER, AUDIO_RECORDING, LOCATION]
      in filter (\<lambda>mode. mode \<in> set bgModeIds) target @ filter (\<lambda>mode. mode \<notin> set target) bgModeIds)"

text \<open>
  \<^verbatim>\<open>1 << (mode - 1)\<close>. For mode 0 and for modes above 32 the shift is undefined in C++; the model
  then has no bit set.
\<close>

definition mode_bit :: "bgmode \<Rightarrow> 32 word" where
  "mode_bit mode = push_bit (unat (mode - 1)) 1"

fun GetModeNumByTypeIds :: "bgmode list \<Rightarrow> 32 word" where
  "GetModeNumByTypeIds [] = 0"
| "GetModeNumByTypeIds (mode # ms) = mode_bit mode OR GetModeNumByTypeIds ms"

section \<open>Lemmas\<close>

lemma CheckApplyMode_subset: "CheckApplyMode ms cs \<longleftrightarrow> set ms \<subseteq> set cs"
  by (induction ms) auto

lemma set_SortMode [simp]: "set (SortMode ms) = set ms"
  by (auto simp: SortMode_def Let_def)

lemma bit_mode_bit: "bit (mode_bit mode) i \<longleftrightarrow> i = unat (mode - 1) \<and> i < 32"
  by (auto simp: mode_bit_def bit_simps)

lemma bit_GetModeNumByTypeIds:
  "bit (GetModeNumByTypeIds ms) i \<longleftrightarrow> i < 32 \<and> (\<exists>m \<in> set ms. unat (m - 1) = i)"
  by (induction ms) (auto simp: bit_mode_bit bit_or_iff)

end
