(* ===== verification/BannerNotificationRecord.thy ===== *)
theory BannerNotificationRecord
  imports ContinuousTaskRecord
begin

text \<open>
  The record of a user's authorization for special scenario tasks, shown as a banner
  (\<^verbatim>\<open>services/continuous_task/src/banner_notification_record.cpp\<close>), and the file of these records
  (\<^verbatim>\<open>data_storage_helper.cpp\<close>).
\<close>

section \<open>Record\<close>

record BannerNotificationRecord =
  bn_bundleName :: string
  bn_uid :: int
  bn_notificationId :: int
  bn_notificationLabel :: string
  bn_appName :: string
  bn_authResult :: int
  bn_userId :: int
  bn_appIndex :: int

definition new_BannerNotificationRecord :: BannerNotificationRecord where
  "new_BannerNotificationRecord =
     \<lparr>bn_bundleName = '''', bn_uid = 0, bn_notificationId = -1, bn_notificationLabel = '''', bn_appName = '''',
      bn_authResult = AUTH_NOT_DETERMINED, bn_userId = 0, bn_appIndex = -1\<rparr>"

section \<open>Stored form\<close>

definition bn_ParseToJson :: "BannerNotificationRecord \<Rightarrow> json" where
  "bn_ParseToJson r = put_all
     [(''bundleName'', JString (bn_bundleName r)),
      (''uid'', JInt (bn_uid r)),
      (''notificationId'', JInt (bn_notificationId r)),
      (''notificationLabel'', JString (bn_notificationLabel r)),
      (''appName'', JString (bn_appName r)),
      (''authResult'', JInt (bn_authResult r)),
      (''userId'', JInt (bn_userId r)),
      (''appIndex'', JInt (bn_appIndex r))] JNull"

text \<open>True when some member has the wrong type.\<close>

definition CheckRecordKey :: "json \<Rightarrow> bool" where
  "CheckRecordKey value \<longleftrightarrow>
     \<not> list_all (\<lambda>k. is_string (json_at value k)) [''bundleName'', ''notificationLabel'', ''appName''] \<or>
     \<not> list_all (\<lambda>k. is_number_integer (json_at value k))
         [''uid'', ''notificationId'', ''authResult'', ''userId'', ''appIndex'']"

definition bn_SetRecordValue :: "json \<Rightarrow> BannerNotificationRecord" where
  "bn_SetRecordValue value =
     \<lparr>bn_bundleName = string_at value ''bundleName'',
      bn_uid = i32 (int_at value ''uid''),
      bn_notificationId = i32 (int_at value ''notificationId''),
      bn_notificationLabel = string_at value ''notificationLabel'',
      bn_appName = string_at value ''appName'',
      bn_authResult = i32 (int_at value ''authResult''),
      bn_userId = i32 (int_at value ''userId''),
      bn_appIndex = i32 (int_at value ''appIndex'')\<rparr>"

definition bn_ParseFromJson :: "json \<Rightarrow> BannerNotificationRecord option" where
  "bn_ParseFromJson value =
     (if is_null value \<or> \<not> is_object value \<or>
         \<not> CheckJsonValue value [''bundleName'', ''uid'', ''notificationId'', ''notificationLabel'', ''appName'',
           ''authResult'', ''userId'', ''appIndex''] then None
      else if CheckRecordKey value then None
      else Some (bn_SetRecordValue value))"

section \<open>The file of authorizations\<close>

type_synonym auth_table = "(string \<times> BannerNotificationRecord) list"

definition ds_RefreshAuthRecord :: "auth_table \<Rightarrow> json" where
  "ds_RefreshAuthRecord authRecord = put_all (map (\<lambda>(k, r). (k, bn_ParseToJson r)) authRecord) JNull"

text \<open>The app a record is for: bundle name, user and clone index.\<close>

definition bn_app :: "BannerNotificationRecord \<Rightarrow> string \<times> int \<times> int" where
  "bn_app r = (bn_bundleName r, bn_userId r, bn_appIndex r)"

fun restore_auth :: "(string \<times> json) list \<Rightarrow> auth_table \<Rightarrow> auth_table" where
  "restore_auth [] t = t"
| "restore_auth ((k, j) # items) t =
     (case bn_ParseFromJson j of
        None \<Rightarrow> restore_auth items t
      | Some r \<Rightarrow>
          restore_auth items (if list_ex (\<lambda>e. bn_app (snd e) = bn_app r) t then t else hm_emplace k r t))"

text \<open>The records added, which are then written back.\<close>

definition ds_RestoreAuthRecord :: "json option \<Rightarrow> auth_table \<Rightarrow> ErrCode \<times> auth_table" where
  "ds_RestoreAuthRecord file authRecord =
     (case file of
        None \<Rightarrow> (ERR_BGTASK_DATA_STORAGE_ERR, authRecord)
      | Some root \<Rightarrow>
          if is_null root \<or> \<not> is_object root then (ERR_BGTASK_DATA_STORAGE_ERR, authRecord)
          else (ERR_OK, restore_auth (json_items root) authRecord))"

section \<open>Lemmas\<close>

definition auth_storable :: "BannerNotificationRecord \<Rightarrow> bool" where
  "auth_storable r \<longleftrightarrow> is_i32 (bn_uid r) \<and> is_i32 (bn_notificationId r) \<and> is_i32 (bn_authResult r) \<and>
     is_i32 (bn_userId r) \<and> is_i32 (bn_appIndex r)"

lemma bn_round_trip: "auth_storable r \<Longrightarrow> bn_ParseFromJson (bn_ParseToJson r) = Some r"
  by (cases r) (simp add: bn_ParseFromJson_def bn_ParseToJson_def CheckRecordKey_def bn_SetRecordValue_def
    put_all_def CheckJsonValue_def string_at_def int_at_def auth_storable_def)

end
