(* ===== verification/ContinuousState.thy ===== *)
theory ContinuousState
  imports BannerNotificationRecord BgtaskConfig
begin

text \<open>
  The state of \<^verbatim>\<open>BgContinuousTaskMgr\<close> (\<^verbatim>\<open>services/continuous_task/include/bg_continuous_task_mgr.h\<close>),
  the data that crosses its interface, and the operations on the task table that its handlers share.
  \<open>cm_continuousTaskInfosMap\<close> maps a key to a task; the tasks are shared pointers in the sources, and
  as every pointer is stored under one key only, a change of a record is a change of its row. The
  index of \<^verbatim>\<open>NotificationTools\<close> and the uids of \<^verbatim>\<open>GamePreLaunchMgr\<close> are static or singleton state
  and are fields here. \<open>cm_stored\<close> and \<open>cm_authStored\<close> are the two record files, \<open>cm_posted\<close> the tasks
  posted to the event handler, and \<open>cm_calls\<close> records the calls that leave the component in their
  order. Answers of other services are fields of \<open>cenv\<close>.
\<close>

unbundle bit_operations_syntax

section \<open>Interface data\<close>

record ContinuousTaskParam =
  cp_isNewApi :: bool
  cp_bgModeId :: bgmode
  cp_wantAgent :: want_agent
  cp_abilityName :: string
  cp_appName :: string
  cp_isBatchApi :: bool
  cp_bgModeIds :: "bgmode list"
  cp_abilityId :: int
  cp_bgSubModeIds :: "bgmode list"
  cp_isCombinedTaskNotification :: bool
  cp_combinedNotificationTaskId :: int
  cp_updateTaskId :: int
  cp_isByRequestObject :: bool
  cp_appIndex :: int
  cp_requestAuthApiVersion :: int
  cp_progressInfo :: "ProgressInfo option"

record ContinuousTaskParamForInner =
  cq_uid :: int
  cq_bgModeId :: bgmode
  cq_isStart :: bool
  cq_abilityId :: int
  cq_tokenId :: nat
  cq_pid :: int

record DataTransferProgress =
  dp_continuousTaskId :: int
  dp_wantAgent :: want_agent
  dp_progressInfo :: "ProgressInfo option"

record BackgroundTaskStateInfo =
  bs_userId :: int
  bs_bundleName :: string
  bs_appIndex :: int
  bs_authResult :: int

record ContinuousTaskCallbackInfo =
  cb_typeId :: bgmode
  cb_creatorUid :: int
  cb_creatorPid :: int
  cb_abilityName :: string
  cb_isFromWebview :: bool
  cb_isBatchApi :: bool
  cb_typeIds :: "bgmode list"
  cb_abilityId :: int
  cb_tokenId :: nat
  cb_continuousTaskId :: int
  cb_cancelReason :: int
  cb_detailedCancelReason :: int
  cb_suspendState :: bool
  cb_suspendReason :: int
  cb_isByRequestObject :: bool
  cb_bundleName :: string
  cb_userId :: int
  cb_appIndex :: int
  cb_backgroundSubModes :: "bgmode list"
  cb_notificationId :: int
  cb_wantAgentBundleName :: string
  cb_wantAgentAbilityName :: string
  cb_cancelCallBackSelf :: bool
  cb_isStandby :: bool
  cb_isFromComponent :: bool

record ContinuousTaskInfo =
  ti_abilityName :: string
  ti_uid :: int
  ti_pid :: int
  ti_isFromWebView :: bool
  ti_backgroundModes :: "bgmode list"
  ti_backgroundSubModes :: "bgmode list"
  ti_notificationId :: int
  ti_continuousTaskId :: int
  ti_abilityId :: int
  ti_wantAgentBundleName :: string
  ti_wantAgentAbilityName :: string
  ti_suspendState :: bool
  ti_bundleName :: string
  ti_appIndex :: int
  ti_isByRequestObject :: bool

datatype slot_type = LIVE_VIEW_SLOT | OTHER_SLOT | SOCIAL_SLOT

text \<open>What the sources set of a notification request.\<close>

record NotificationRequest =
  nr_label :: string
  nr_notificationId :: int
  nr_title :: string
  nr_text :: string
  nr_type :: "int option"
  nr_slotType :: slot_type
  nr_publishDelayTime :: int
  nr_unremovable :: bool
  nr_creatorUid :: int
  nr_ownerUid :: int
  nr_wantAgent :: want_agent
  nr_abilityName :: string
  nr_progress :: "(string \<times> string \<times> int) option"
  nr_controlFlags :: nat
  nr_buttons :: "string list"

datatype ContinuousTaskEventTriggerType = TASK_START | TASK_UPDATE | TASK_CANCEL | TASK_SUSPEND | TASK_ACTIVE

section \<open>State\<close>

record CachedBundleInfo =
  cbi_abilityBgMode :: "(string \<times> bgmode) list"
  cbi_appName :: string

text \<open>A subscriber is named by its remote object.\<close>

record SubscriberInfo =
  si_subscriber :: nat
  si_uid :: int
  si_pid :: int
  si_isHap :: bool
  si_flag :: "32 word"

text \<open>Calls that leave the component.\<close>

datatype cont_call =
    PublishNotif NotificationRequest
  | CancelNotif string int
  | RefreshNotif string string string
  | RefreshNotifWant string want_agent "(string \<times> string) option"
  | RefreshBanner string string string "string list"
  | SubTaskStart nat ContinuousTaskCallbackInfo
  | SubTaskUpdate nat ContinuousTaskCallbackInfo
  | SubTaskStop nat ContinuousTaskCallbackInfo
  | SubTaskSuspend nat ContinuousTaskCallbackInfo
  | SubTaskActive nat ContinuousTaskCallbackInfo
  | SubAppTaskStop nat int
  | ObserverStart ContinuousTaskCallbackInfo
  | ObserverUpdate ContinuousTaskCallbackInfo
  | ObserverStop ContinuousTaskCallbackInfo
  | EventTaskApply int int string string "32 word" int
  | EventTaskCancel int int string string "32 word" int int
  | EventXpower string string int int string
  | EventRequestAuth int int string int
  | ExpiredAuth nat int
  | ReportLiveView int string bool

text \<open>Tasks posted to the event handler; those for the audio notification share one name.\<close>

datatype cont_task =
    TaskStop int int bgmode string
  | TaskSuspend int int int string bool
  | TaskActive int int string bool
  | TaskSuspendAudio int
  | TaskAvSession int int bool
  | TaskRemoveByMode bgmode
  | TaskAudioStart int
  | TaskInitNecessaryState
  | TaskReclaimMemory

record BgContinuousTaskMgr =
  cm_isSysReady :: bool
  cm_bgTaskUid :: int
  cm_continuousTaskInfosMap :: task_table
  cm_avSessionNotification :: "(int \<times> bool) list"
  cm_delayTasks :: "int set"
  cm_liveViewInfo :: "(int \<times> string list) list"
  cm_bgTaskSubscribers :: "SubscriberInfo list"
  cm_cachedBundleInfos :: "(int \<times> CachedBundleInfo) list"
  cm_applyTaskOnForeground :: "(int \<times> bgmode list) list"
  cm_bannerNotificationRecord :: auth_table
  cm_appOnForeground :: "int set"
  cm_continuousTaskText :: "string list"
  cm_continuousTaskSubText :: "string list"
  cm_startingTaskText :: "string list"
  cm_bannerNotificationBtn :: "string list"
  cm_expiredCallbackMap :: "(string \<times> nat) list"
  cm_continuousTaskIdIndex :: int
  cm_disableRequestUidList :: "int set"
  cm_modeForNotificationText :: "(bgmode \<times> string \<times> string) list"
  cm_notificationIdIndex :: int
  cm_gamePreLaunchAppUids :: "int set"
  cm_stored :: "json option"
  cm_authStored :: "json option"
  cm_posted :: "cont_task list"
  cm_calls :: "cont_call list"

definition new_BgContinuousTaskMgr :: "json option \<Rightarrow> json option \<Rightarrow> BgContinuousTaskMgr" where
  "new_BgContinuousTaskMgr file authFile =
     \<lparr>cm_isSysReady = False, cm_bgTaskUid = -1, cm_continuousTaskInfosMap = [], cm_avSessionNotification = [],
      cm_delayTasks = {}, cm_liveViewInfo = [], cm_bgTaskSubscribers = [], cm_cachedBundleInfos = [],
      cm_applyTaskOnForeground = [], cm_bannerNotificationRecord = [], cm_appOnForeground = {},
      cm_continuousTaskText = [], cm_continuousTaskSubText = [], cm_startingTaskText = [],
      cm_bannerNotificationBtn = [], cm_expiredCallbackMap = [], cm_continuousTaskIdIndex = 0,
      cm_disableRequestUidList = {}, cm_modeForNotificationText = [], cm_notificationIdIndex = -1,
      cm_gamePreLaunchAppUids = {}, cm_stored = file, cm_authStored = authFile, cm_posted = [], cm_calls = []\<rparr>"

section \<open>Answers of other services\<close>

text \<open>Of a bundle: its abilities with their configured modes, the permissions it asks for, whether it is a system app.\<close>

record BundleInfo =
  bi_abilityInfos :: "(string \<times> bgmode) list"
  bi_reqPermissions :: "string list"
  bi_isSystemApp :: bool

text \<open>
  \<open>ce_saveTask\<close> and \<open>ce_saveAuth\<close> are the results of writing the two files; \<open>ce_hash\<close> is
  \<^verbatim>\<open>std::hash<std::string>\<close> as printed; \<open>ce_getString\<close> and \<open>ce_format\<close> read the string resources of
  the service's own bundle, present when \<open>ce_resources\<close>; \<open>ce_active\<close> lists label and creator uid of
  the notifications shown. \<open>ce_errInvalidValue\<close> and \<open>ce_errInvalidOperation\<close> are codes of \<^verbatim>\<open>errors.h\<close>;
  \<open>ce_backupReply\<close>, \<open>ce_restoreFile\<close> and \<open>ce_restoreReply\<close> are what handing over the authorization file
  yields. \<open>ce_gamePreLaunch\<close>, \<open>ce_supportAuth\<close> and \<open>ce_supportTaskKeeping\<close> are build
  and system parameters.
\<close>

record cenv =
  ce_callingUid :: int
  ce_callingPid :: int
  ce_callingFullTokenId :: nat
  ce_callingTokenId :: nat
  ce_checkPermission :: "string \<Rightarrow> bool"
  ce_aclPermission :: "string \<Rightarrow> nat \<Rightarrow> bool"
  ce_isSystemApp :: "nat \<Rightarrow> bool"
  ce_clientBundleName :: "int \<Rightarrow> string"
  ce_osAccountId :: "int \<Rightarrow> int"
  ce_bundleInfo :: "string \<Rightarrow> int \<Rightarrow> BundleInfo option"
  ce_bundleLabel :: "string \<Rightarrow> string option"
  ce_appIndexAndBundle :: "int \<Rightarrow> (int \<times> string) option"
  ce_config :: BgtaskConfig
  ce_signature :: "string \<Rightarrow> bool"
  ce_supportTaskKeeping :: bool
  ce_supportAuth :: bool
  ce_gamePreLaunch :: bool
  ce_foreground :: "int list option"
  ce_running :: "(int \<times> int) list option"
  ce_abilityRunning :: "(int \<times> int \<times> string) list option"
  ce_isPlaying :: "int \<Rightarrow> bool"
  ce_publish :: "NotificationRequest \<Rightarrow> bool"
  ce_cancel :: "string \<Rightarrow> int \<Rightarrow> bool"
  ce_refresh :: "string \<Rightarrow> bool"
  ce_active :: "(string \<times> int) list option"
  ce_resources :: bool
  ce_getString :: "string \<Rightarrow> string option"
  ce_format :: "string \<Rightarrow> string list \<Rightarrow> string"
  ce_hash :: "string \<Rightarrow> string"
  ce_split :: "string \<Rightarrow> string list"
  ce_saveTask :: ErrCode
  ce_saveAuth :: ErrCode
  ce_activeAccounts :: "int list option"
  ce_foregroundAccounts :: "int list option"
  ce_dependsReady :: bool
  ce_registered :: bool
  ce_errInvalidValue :: ErrCode
  ce_errInvalidOperation :: ErrCode
  ce_backupReply :: bool
  ce_restoreFile :: "json option option"
  ce_restoreReply :: bool

section \<open>Shared operations\<close>

definition cm_emit :: "cont_call list \<Rightarrow> BgContinuousTaskMgr \<Rightarrow> BgContinuousTaskMgr" where
  "cm_emit cs m = m\<lparr>cm_calls := cm_calls m @ cs\<rparr>"

definition cm_post :: "cont_task \<Rightarrow> BgContinuousTaskMgr \<Rightarrow> BgContinuousTaskMgr" where
  "cm_post t m = m\<lparr>cm_posted := cm_posted m @ [t]\<rparr>"

abbreviation cm_tasks :: "BgContinuousTaskMgr \<Rightarrow> task_table" where
  "cm_tasks \<equiv> cm_continuousTaskInfosMap"

text \<open>Change the record stored under a key, erase a key.\<close>

definition cm_set :: "string \<Rightarrow> ContinuousTaskRecord \<Rightarrow> BgContinuousTaskMgr \<Rightarrow> BgContinuousTaskMgr" where
  "cm_set key r m =
     m\<lparr>cm_continuousTaskInfosMap := map_vals (\<lambda>k r0. if k = key then r else r0) (cm_tasks m)\<rparr>"

definition cm_erase :: "string \<Rightarrow> BgContinuousTaskMgr \<Rightarrow> BgContinuousTaskMgr" where
  "cm_erase key m = m\<lparr>cm_continuousTaskInfosMap := om_del key (cm_tasks m)\<rparr>"

text \<open>
  A loop over the table whose body changes the current row, erases it, or leaves it. No body adds
  a row, so the keys are those at the start of the loop.
\<close>

fun each_task ::
    "(string \<Rightarrow> ContinuousTaskRecord \<Rightarrow> BgContinuousTaskMgr \<Rightarrow> BgContinuousTaskMgr) \<Rightarrow> string list \<Rightarrow>
     BgContinuousTaskMgr \<Rightarrow> BgContinuousTaskMgr" where
  "each_task f [] m = m"
| "each_task f (k # ks) m =
     each_task f ks (case map_of (cm_tasks m) k of None \<Rightarrow> m | Some r \<Rightarrow> f k r m)"

definition for_tasks ::
    "(string \<Rightarrow> ContinuousTaskRecord \<Rightarrow> BgContinuousTaskMgr \<Rightarrow> BgContinuousTaskMgr) \<Rightarrow>
     BgContinuousTaskMgr \<Rightarrow> BgContinuousTaskMgr" where
  "for_tasks f m = each_task f (map fst (cm_tasks m)) m"

text \<open>\<^verbatim>\<open>find_if\<close> over the table.\<close>

definition find_task :: "(ContinuousTaskRecord \<Rightarrow> bool) \<Rightarrow> task_table \<Rightarrow> (string \<times> ContinuousTaskRecord) option" where
  "find_task P t = find (\<lambda>e. P (snd e)) t"

definition RefreshTaskRecord :: "cenv \<Rightarrow> BgContinuousTaskMgr \<Rightarrow> ErrCode \<times> BgContinuousTaskMgr" where
  "RefreshTaskRecord e m =
     (if ce_saveTask e \<noteq> ERR_OK then (ce_saveTask e, m)
      else (ERR_OK, m\<lparr>cm_stored := Some (ds_RefreshTaskRecord (cm_tasks m))\<rparr>))"

definition RefreshAuthRecord :: "cenv \<Rightarrow> BgContinuousTaskMgr \<Rightarrow> ErrCode \<times> BgContinuousTaskMgr" where
  "RefreshAuthRecord e m =
     (if ce_saveAuth e \<noteq> ERR_OK then (ce_saveAuth e, m)
      else (ERR_OK, m\<lparr>cm_authStored := Some (ds_RefreshAuthRecord (cm_bannerNotificationRecord m))\<rparr>))"

abbreviation cm_save :: "cenv \<Rightarrow> BgContinuousTaskMgr \<Rightarrow> BgContinuousTaskMgr" where
  "cm_save e m \<equiv> snd (RefreshTaskRecord e m)"

abbreviation cm_saveAuth :: "cenv \<Rightarrow> BgContinuousTaskMgr \<Rightarrow> BgContinuousTaskMgr" where
  "cm_saveAuth e m \<equiv> snd (RefreshAuthRecord e m)"

text \<open>The pre-launched games.\<close>

definition AddGamePreLaunchApp :: "int \<Rightarrow> BgContinuousTaskMgr \<Rightarrow> BgContinuousTaskMgr" where
  "AddGamePreLaunchApp uid m = m\<lparr>cm_gamePreLaunchAppUids := insert uid (cm_gamePreLaunchAppUids m)\<rparr>"

definition RemoveGamePreLaunchApp :: "int \<Rightarrow> BgContinuousTaskMgr \<Rightarrow> BgContinuousTaskMgr" where
  "RemoveGamePreLaunchApp uid m = m\<lparr>cm_gamePreLaunchAppUids := cm_gamePreLaunchAppUids m - {uid}\<rparr>"

definition IsGamePreLaunchApp :: "int \<Rightarrow> BgContinuousTaskMgr \<Rightarrow> bool" where
  "IsGamePreLaunchApp uid m \<longleftrightarrow> uid \<in> cm_gamePreLaunchAppUids m"

end
