(* ===== verification/NotificationTools.thy ===== *)
theory NotificationTools
  imports ContinuousState
begin

text \<open>
  \<^verbatim>\<open>services/continuous_task/src/notification_tools.cpp\<close>: labels and ids of notifications, and the
  requests published, refreshed and cancelled. Whether the notification service accepts a request is
  an answer of the environment; the requests made are recorded as calls.
\<close>

section \<open>Labels\<close>

definition CreateNotificationLabel :: "cenv \<Rightarrow> int \<Rightarrow> string \<Rightarrow> int \<Rightarrow> bool \<Rightarrow> int \<Rightarrow> string" where
  "CreateNotificationLabel e uid abilityName abilityId isByRequestObject continuousTaskId =
     ''bgmode'' @ ''_'' @ to_string uid @ ''_'' @ ce_hash e abilityName @ ''_'' @ to_string abilityId @
     (if isByRequestObject then ''_'' @ to_string continuousTaskId else '''')"

definition CreateSubNotificationLabel :: "cenv \<Rightarrow> int \<Rightarrow> string \<Rightarrow> int \<Rightarrow> int \<Rightarrow> int \<Rightarrow> string" where
  "CreateSubNotificationLabel e uid abilityName abilityId continuousTaskId pid =
     ''bgmode'' @ ''_'' @ to_string uid @ ''_'' @ ce_hash e abilityName @ ''_'' @ to_string abilityId @
     ''_'' @ to_string continuousTaskId @ ''_'' @ to_string pid"

definition CreateBannerNotificationLabel :: "string \<Rightarrow> int \<Rightarrow> int \<Rightarrow> string" where
  "CreateBannerNotificationLabel bundleName userId appIndex =
     ''bgbanner'' @ ''_'' @ to_string userId @ ''_'' @ to_string appIndex @ ''_'' @ bundleName"

section \<open>Requests\<close>

definition SetNotificationIdIndex :: "int \<Rightarrow> BgContinuousTaskMgr \<Rightarrow> BgContinuousTaskMgr" where
  "SetNotificationIdIndex i m = m\<lparr>cm_notificationIdIndex := i\<rparr>"

text \<open>The want agent made for a task requested by a component: it opens the bundle itself.\<close>

definition CreateStartAbilityWantAgent :: "ContinuousTaskRecord \<Rightarrow> want_agent" where
  "CreateStartAbilityWantAgent r =
     Some (Some \<lparr>wa_bundleName = ct_bundleName r, wa_abilityName = ct_bundleName r, wa_subMode = None\<rparr>)"

definition CreateNotificationRequest ::
    "ContinuousTaskRecord \<Rightarrow> string \<Rightarrow> string \<Rightarrow> int option \<Rightarrow> int \<Rightarrow> string \<Rightarrow> NotificationRequest" where
  "CreateNotificationRequest r title txt type serviceUid label =
     \<lparr>nr_label = label, nr_notificationId = 0, nr_title = title, nr_text = txt, nr_type = type,
      nr_slotType = OTHER_SLOT, nr_publishDelayTime = 0, nr_unremovable = False,
      nr_creatorUid = serviceUid, nr_ownerUid = ct_uid r,
      nr_wantAgent = (if ct_needNotificationForInnerApi r \<and> ct_isFromComponent r
                      then CreateStartAbilityWantAgent r else ct_wantAgent r),
      nr_abilityName = ct_abilityName r, nr_progress = None, nr_controlFlags = 0, nr_buttons = []\<rparr>"

text \<open>Below 100 the value is shown; at 100 a muted task is silenced, and any other value counts as 100 and is silenced.\<close>

definition SetProgressNotification :: "ProgressInfo option \<Rightarrow> NotificationRequest \<Rightarrow> NotificationRequest" where
  "SetProgressNotification progressInfo q =
     (case progressInfo of
        None \<Rightarrow> q
      | Some p \<Rightarrow>
          let v = pg_progressValue p;
              shown = q\<lparr>nr_progress := Some (pg_title p, pg_fileName p, if 0 \<le> v \<and> v < 100 then v else 100)\<rparr>
          in if 0 \<le> v \<and> v < 100 then shown
             else if v = 100 then (if pg_isMute p then shown\<lparr>nr_controlFlags := 17\<rparr> else shown)
             else shown\<lparr>nr_controlFlags := 17\<rparr>)"

definition SetNotificationSlotType :: "ContinuousTaskRecord \<Rightarrow> bool \<Rightarrow> NotificationRequest \<Rightarrow> NotificationRequest" where
  "SetNotificationSlotType r isDataTransfer q =
     (if isDataTransfer
      then SetProgressNotification (ct_progressInfo r)
             (q\<lparr>nr_publishDelayTime := 3, nr_slotType := LIVE_VIEW_SLOT\<rparr>)
      else q\<lparr>nr_slotType := OTHER_SLOT, nr_unremovable := True\<rparr>)"

text \<open>The live view type: 8 for data transfer, 7 for recording, 0 for VoIP.\<close>

definition live_type :: "bgmode list \<Rightarrow> int option" where
  "live_type modes =
     (if DATA_TRANSFER \<in> set modes then Some 8
      else if AUDIO_RECORDING \<in> set modes then Some 7
      else if VOIP \<in> set modes then Some 0
      else None)"

text \<open>Hand a request over under an old id, or under the next one when there is none.\<close>

definition publish_as ::
    "cenv \<Rightarrow> int \<Rightarrow> NotificationRequest \<Rightarrow> BgContinuousTaskMgr \<Rightarrow> (int option) \<times> BgContinuousTaskMgr" where
  "publish_as e oldId q m =
     (let m1 = (if oldId = -1 then m\<lparr>cm_notificationIdIndex := i32 (cm_notificationIdIndex m + 1)\<rparr> else m);
          nid = (if oldId = -1 then cm_notificationIdIndex m1 else oldId);
          q1 = q\<lparr>nr_notificationId := nid\<rparr>
      in (if ce_publish e q1 then Some nid else None, cm_emit [PublishNotif q1] m1))"

definition PublishNotification ::
    "cenv \<Rightarrow> ContinuousTaskRecord \<Rightarrow> string \<Rightarrow> string \<Rightarrow> BgContinuousTaskMgr \<Rightarrow>
     ErrCode \<times> ContinuousTaskRecord \<times> BgContinuousTaskMgr" where
  "PublishNotification e r appName prompt m =
     (let label = CreateNotificationLabel e (ct_uid r) (ct_abilityName r) (ct_abilityId r)
                    (ct_isByRequestObject r) (ct_continuousTaskId r);
          q = SetNotificationSlotType r (DATA_TRANSFER \<in> set (ct_bgModeIds r))
                (CreateNotificationRequest r appName prompt (live_type (ct_bgModeIds r)) (cm_bgTaskUid m) label)
      in case publish_as e (ct_notificationId r) q m of
           (None, m1) \<Rightarrow> (ERR_BGTASK_NOTIFICATION_ERR, r, m1)
         | (Some nid, m1) \<Rightarrow> (ERR_OK, r\<lparr>ct_notificationLabel := label, ct_notificationId := nid\<rparr>, m1))"

definition nt_CancelNotification :: "cenv \<Rightarrow> string \<Rightarrow> int \<Rightarrow> BgContinuousTaskMgr \<Rightarrow> ErrCode \<times> BgContinuousTaskMgr" where
  "nt_CancelNotification e label nid m =
     (if ce_cancel e label nid then ERR_OK else ERR_BGTASK_NOTIFICATION_ERR, cm_emit [CancelNotif label nid] m)"

abbreviation cancel_notif :: "cenv \<Rightarrow> string \<Rightarrow> int \<Rightarrow> BgContinuousTaskMgr \<Rightarrow> BgContinuousTaskMgr" where
  "cancel_notif e label nid m \<equiv> snd (nt_CancelNotification e label nid m)"

definition GetAllActiveNotificationsLabels :: "cenv \<Rightarrow> string list" where
  "GetAllActiveNotificationsLabels e = (case ce_active e of None \<Rightarrow> [] | Some ns \<Rightarrow> remdups (map fst ns))"

definition RefreshContinuousNotifications ::
    "cenv \<Rightarrow> (string \<times> string \<times> string) list \<Rightarrow> BgContinuousTaskMgr \<Rightarrow> BgContinuousTaskMgr" where
  "RefreshContinuousNotifications e newPromptInfos m =
     (if newPromptInfos = [] then m
      else case ce_active e of
             None \<Rightarrow> m
           | Some ns \<Rightarrow>
               cm_emit (List.map_filter
                 (\<lambda>(label, creatorUid).
                    case map_of newPromptInfos label of
                      None \<Rightarrow> None
                    | Some (title, txt) \<Rightarrow>
                        if creatorUid \<noteq> cm_bgTaskUid m then None else Some (RefreshNotif label title txt)) ns) m)"

text \<open>Stops at the first notification that cannot be published again.\<close>

fun refresh_want_loop ::
    "cenv \<Rightarrow> (string \<times> string \<times> string) list \<Rightarrow> want_agent \<Rightarrow> bool \<Rightarrow> (string \<times> int) list \<Rightarrow>
     BgContinuousTaskMgr \<Rightarrow> ErrCode \<times> BgContinuousTaskMgr" where
  "refresh_want_loop e infos wantAgent updateContent [] m = (ERR_OK, m)"
| "refresh_want_loop e infos wantAgent updateContent ((label, creatorUid) # ns) m =
     (case map_of infos label of
        None \<Rightarrow> refresh_want_loop e infos wantAgent updateContent ns m
      | Some prompt \<Rightarrow>
          if creatorUid \<noteq> cm_bgTaskUid m then refresh_want_loop e infos wantAgent updateContent ns m
          else
            let m1 = cm_emit [RefreshNotifWant label wantAgent (if updateContent then Some prompt else None)] m
            in if \<not> ce_refresh e label then (ERR_BGTASK_CONTINUOUS_UPDATE_NOTIFICATION_FAIL, m1)
               else refresh_want_loop e infos wantAgent updateContent ns m1)"

definition RefreshContinuousNotificationWantAndContext ::
    "cenv \<Rightarrow> (string \<times> string \<times> string) list \<Rightarrow> ContinuousTaskRecord \<Rightarrow> bool \<Rightarrow> BgContinuousTaskMgr \<Rightarrow>
     ErrCode \<times> BgContinuousTaskMgr" where
  "RefreshContinuousNotificationWantAndContext e newPromptInfos r updateContent m =
     (case ce_active e of
        None \<Rightarrow> (ERR_BGTASK_CONTINUOUS_UPDATE_NOTIFICATION_FAIL, m)
      | Some ns \<Rightarrow> refresh_want_loop e newPromptInfos (ct_wantAgent r) updateContent ns m)"

text \<open>
  The two notifications of a task that transfers data and does something else as well: the first
  argument describes what is shown, the second is the task, whose ids and labels are set.
\<close>

definition PublishMainNotification ::
    "cenv \<Rightarrow> ContinuousTaskRecord \<Rightarrow> string \<Rightarrow> string \<Rightarrow> ContinuousTaskRecord \<Rightarrow> BgContinuousTaskMgr \<Rightarrow>
     ErrCode \<times> ContinuousTaskRecord \<times> BgContinuousTaskMgr" where
  "PublishMainNotification e sub appName prompt main m =
     (let label = CreateNotificationLabel e (ct_uid sub) (ct_abilityName sub) (ct_abilityId sub)
                    (ct_isByRequestObject sub) (ct_continuousTaskId sub);
          q = SetProgressNotification (ct_progressInfo main)
                ((CreateNotificationRequest sub appName prompt (Some 8) (cm_bgTaskUid m) label)
                   \<lparr>nr_wantAgent := ct_wantAgent sub, nr_publishDelayTime := 3, nr_slotType := LIVE_VIEW_SLOT\<rparr>)
      in case publish_as e (ct_notificationId main) q m of
           (None, m1) \<Rightarrow> (ERR_BGTASK_NOTIFICATION_ERR, main, m1)
         | (Some nid, m1) \<Rightarrow> (ERR_OK, main\<lparr>ct_notificationLabel := label, ct_notificationId := nid\<rparr>, m1))"

definition PublishSubNotification ::
    "cenv \<Rightarrow> ContinuousTaskRecord \<Rightarrow> string \<Rightarrow> string \<Rightarrow> ContinuousTaskRecord \<Rightarrow> BgContinuousTaskMgr \<Rightarrow>
     ErrCode \<times> ContinuousTaskRecord \<times> BgContinuousTaskMgr" where
  "PublishSubNotification e sub appName prompt main m =
     (let label = CreateSubNotificationLabel e (ct_uid sub) (ct_abilityName sub) (ct_abilityId sub)
                    (ct_continuousTaskId sub) (ct_pid sub);
          type = (if AUDIO_RECORDING \<in> set (ct_bgModeIds sub) then Some 7
                  else if VOIP \<in> set (ct_bgModeIds sub) then Some 0 else None);
          q = (CreateNotificationRequest sub appName prompt type (cm_bgTaskUid m) label)
                \<lparr>nr_wantAgent := ct_wantAgent sub, nr_slotType := OTHER_SLOT, nr_unremovable := True\<rparr>
      in case publish_as e (ct_subNotificationId main) q m of
           (None, m1) \<Rightarrow> (ERR_BGTASK_NOTIFICATION_ERR, main, m1)
         | (Some nid, m1) \<Rightarrow> (ERR_OK, main\<lparr>ct_subNotificationLabel := label, ct_subNotificationId := nid\<rparr>, m1))"

section \<open>Banners\<close>

definition PublishBannerNotification ::
    "cenv \<Rightarrow> BannerNotificationRecord \<Rightarrow> string \<Rightarrow> BgContinuousTaskMgr \<Rightarrow>
     ErrCode \<times> BannerNotificationRecord \<times> BgContinuousTaskMgr" where
  "PublishBannerNotification e b prompt m =
     (if length (cm_bannerNotificationBtn m) \<le> 1 then (ERR_BGTASK_NOTIFICATION_ERR, b, m)
      else
        let label = CreateBannerNotificationLabel (bn_bundleName b) (bn_userId b) (bn_appIndex b);
            q = \<lparr>nr_label = label, nr_notificationId = 0, nr_title = bn_appName b, nr_text = prompt, nr_type = None,
                 nr_slotType = SOCIAL_SLOT, nr_publishDelayTime = 0, nr_unremovable = False,
                 nr_creatorUid = cm_bgTaskUid m, nr_ownerUid = bn_uid b, nr_wantAgent = None,
                 nr_abilityName = '''', nr_progress = None, nr_controlFlags = 512,
                 nr_buttons = take 2 (cm_bannerNotificationBtn m)\<rparr>
        in case publish_as e (-1) q m of
             (None, m1) \<Rightarrow> (ERR_BGTASK_NOTIFICATION_ERR, b, m1)
           | (Some nid, m1) \<Rightarrow> (ERR_OK, b\<lparr>bn_notificationId := nid, bn_notificationLabel := label\<rparr>, m1))"

definition RefreshBannerNotifications ::
    "cenv \<Rightarrow> (string \<times> string \<times> string) list \<Rightarrow> BgContinuousTaskMgr \<Rightarrow> BgContinuousTaskMgr" where
  "RefreshBannerNotifications e newPromptInfos m =
     (if length (cm_bannerNotificationBtn m) \<le> 1 then m
      else case ce_active e of
             None \<Rightarrow> m
           | Some ns \<Rightarrow>
               cm_emit (List.map_filter
                 (\<lambda>(label, creatorUid).
                    case map_of newPromptInfos label of
                      None \<Rightarrow> None
                    | Some (title, txt) \<Rightarrow>
                        if creatorUid \<noteq> cm_bgTaskUid m then None
                        else Some (RefreshBanner label title txt (take 2 (cm_bannerNotificationBtn m)))) ns) m)"

end
