(* ===== verification/NotificationText.thy ===== *)
theory NotificationText
  imports NotificationTools
begin

text \<open>
  The notifications of a task in \<^verbatim>\<open>bg_continuous_task_mgr.cpp\<close>: the texts read from the service's
  resources, the text for the modes of a task, and sending, which sets label and id of the record.
  Functions that change the record return it.
\<close>

section \<open>Text resources\<close>

definition taskPromptResNames :: "string list" where
  "taskPromptResNames =
     [''ohos_bgmode_prompt_data_transfer'', ''ohos_bgmode_prompt_audio_playback'',
      ''ohos_bgmode_prompt_audio_recording'', ''ohos_bgmode_prompt_location'',
      ''ohos_bgmode_prompt_bluetooth_interaction'', ''ohos_bgmode_prompt_multidevice_connection'',
      ''ohos_bgmode_prompt_wifi_interaction'', ''ohos_bgmode_prompt_voip'', ''ohos_bgmode_prompt_task_keeping'',
      ''ohos_bgmode_prompt_default_value'', ''ohos_bgmode_prompt_default_value'',
      ''ohos_bgmode_prompt_default_value'', ''ohos_bgmode_prompt_default_value'', ''ohos_bgmode_prompt_nearlink'']"

definition taskPromptResNamesSubMode :: "string list" where
  "taskPromptResNamesSubMode =
     [''ohos_bgsubmode_prompt_car_key'', ''ohos_bgsubmode_prompt_media_process'',
      ''ohos_bgsubmode_prompt_video_broadcast'', ''ohos_bgsubmode_prompt_work_out'']"

definition InitNotificationText :: "BgContinuousTaskMgr \<Rightarrow> BgContinuousTaskMgr" where
  "InitNotificationText m =
     m\<lparr>cm_modeForNotificationText := foldl (\<lambda>t (k, name). if map_of t k = None then om_put k (name, '''') t else t)
        (cm_modeForNotificationText m)
        [(1, ''notification_text_data_transfer''), (2, ''notification_text_audio_playbackr''),
         (3, ''notification_text_audio_recording''), (4, ''notification_text_location''),
         (5, ''notification_text_bluetooth_interactionn''), (6, ''notification_text_multidevice_connection''),
         (7, ''notification_text_wifi_interaction''), (8, ''notification_text_voip''),
         (9, ''notification_text_task_keeping''), (14, ''notification_text_nearlink'')]\<rparr>"

text \<open>
  The texts under a list of names, and whether none was empty. A lookup that fails leaves the
  variable as the name before has set it.
\<close>

fun read_texts :: "cenv \<Rightarrow> string \<Rightarrow> string list \<Rightarrow> bool \<times> string list" where
  "read_texts e txt [] = (True, [])"
| "read_texts e txt (name # names) =
     (let txt1 = (case ce_getString e name of Some s \<Rightarrow> s | None \<Rightarrow> txt)
      in if txt1 = '''' then (False, [])
         else let (ok, ts) = read_texts e txt1 names in (ok, txt1 # ts))"

fun read_mode_texts ::
    "cenv \<Rightarrow> string \<Rightarrow> (bgmode \<times> string \<times> string) list \<Rightarrow> bool \<times> (bgmode \<times> string \<times> string) list" where
  "read_mode_texts e txt [] = (True, [])"
| "read_mode_texts e txt ((mode, name, old) # es) =
     (let txt1 = (case ce_getString e name of Some s \<Rightarrow> s | None \<Rightarrow> txt)
      in if txt1 = '''' then (False, (mode, name, old) # es)
         else let (ok, es1) = read_mode_texts e txt1 es in (ok, (mode, name, txt1) # es1))"

definition GetNotificationTextForMode :: "cenv \<Rightarrow> BgContinuousTaskMgr \<Rightarrow> bool \<times> BgContinuousTaskMgr" where
  "GetNotificationTextForMode e m =
     (let (ok, texts) = read_mode_texts e '''' (cm_modeForNotificationText m);
          m1 = m\<lparr>cm_modeForNotificationText := texts\<rparr>
      in if \<not> ok then (False, m1)
         else
           let (ok2, starting) = read_texts e '''' [''notification_text_starting_task''];
               m2 = m1\<lparr>cm_startingTaskText := starting\<rparr>
           in if \<not> ok2 then (False, m2)
              else let (ok3, btns) = read_texts e '''' [''btn_allow_time'', ''btn_allow_allowed'']
                   in (ok3, m2\<lparr>cm_bannerNotificationBtn := btns\<rparr>))"

definition GetNotificationPrompt :: "cenv \<Rightarrow> BgContinuousTaskMgr \<Rightarrow> bool \<times> BgContinuousTaskMgr" where
  "GetNotificationPrompt e m0 =
     (let m = m0\<lparr>cm_continuousTaskText := [], cm_continuousTaskSubText := []\<rparr>
      in if \<not> ce_resources e then (False, m)
         else
           let (ok, texts) = read_texts e '''' taskPromptResNames;
               m1 = m\<lparr>cm_continuousTaskText := texts\<rparr>
           in if \<not> ok then (False, m1)
              else
                let (ok2, subTexts) = read_texts e '''' taskPromptResNamesSubMode;
                    m2 = m1\<lparr>cm_continuousTaskSubText := subTexts\<rparr>
                in if \<not> ok2 then (False, m2) else GetNotificationTextForMode e m2)"

section \<open>Live views\<close>

definition g_liveViewTypes :: "bgmode list" where
  "g_liveViewTypes = [DATA_TRANSFER, AUDIO_RECORDING, LOCATION, VOIP]"

definition SetLiveViewInfo :: "int \<Rightarrow> bool \<Rightarrow> string \<Rightarrow> BgContinuousTaskMgr \<Rightarrow> BgContinuousTaskMgr" where
  "SetLiveViewInfo uid isLiveViewPublish eventName m =
     (let events = (case map_of (cm_liveViewInfo m) uid of Some es \<Rightarrow> es | None \<Rightarrow> [])
      in if isLiveViewPublish then m\<lparr>cm_liveViewInfo := AList.update uid (List.insert eventName events) (cm_liveViewInfo m)\<rparr>
         else let rest = removeAll eventName events
              in m\<lparr>cm_liveViewInfo := (if rest = [] then AList.delete uid (cm_liveViewInfo m)
                                       else AList.update uid rest (cm_liveViewInfo m))\<rparr>)"

definition CheckLiveViewInfoModes :: "ContinuousTaskRecord \<Rightarrow> bool" where
  "CheckLiveViewInfoModes r \<longleftrightarrow>
     CheckExistMode (ct_bgModeIds r) LOCATION \<and> \<not> CheckExistOtherMode (ct_bgModeIds r) LOCATION g_liveViewTypes"

definition CheckLiveViewInfo :: "ContinuousTaskRecord \<Rightarrow> BgContinuousTaskMgr \<Rightarrow> bool" where
  "CheckLiveViewInfo r m \<longleftrightarrow> map_of (cm_liveViewInfo m) (ct_uid r) \<noteq> None \<and> CheckLiveViewInfoModes r"

section \<open>The text for a task\<close>

definition GetBgModeNameIndex :: "bgmode \<Rightarrow> bool \<Rightarrow> bgmode" where
  "GetBgModeNameIndex bgModeId isNewApi = (if \<not> isNewApi then 9 else bgModeId - 1)"

text \<open>\<^verbatim>\<open>v.at(i)\<close> behind the check \<^verbatim>\<open>i < v.size()\<close>.\<close>

definition text_at :: "string list \<Rightarrow> bgmode \<Rightarrow> string option" where
  "text_at v i = (if unat i < length v then Some (v ! unat i) else None)"

definition av_published :: "int \<Rightarrow> BgContinuousTaskMgr \<Rightarrow> bool" where
  "av_published uid m = (case map_of (cm_avSessionNotification m) uid of Some b \<Rightarrow> b | None \<Rightarrow> False)"

definition FilterNotificationMode :: "ContinuousTaskRecord \<Rightarrow> BgContinuousTaskMgr \<Rightarrow> bgmode list" where
  "FilterNotificationMode r m =
     (let modes = ct_bgModeIds r;
          subModes = ct_bgSubModeIds r;
          carKey = CheckExistMode modes BLUETOOTH_INTERACTION \<and> CheckExistMode subModes CAR_KEY;
          modes1 = (if carKey then remove1 BLUETOOTH_INTERACTION modes else modes);
          subModes1 = (if carKey then remove1 CAR_KEY subModes else subModes);
          isPublishAvsession = (av_published (ct_uid r) m \<or>
             CheckExistMode subModes1 SUBMODE_AVSESSION_AUDIO_PLAYBACK \<and> ct_isByRequestObject r)
      in SortMode (filter
           (\<lambda>mode. \<not> (mode = AUDIO_PLAYBACK \<and> isPublishAvsession \<or>
                      (mode = VOIP \<or> mode = AUDIO_RECORDING) \<and> ct_isSystem r)) modes1))"

text \<open>The first sub mode that has a text; the last part of the result is a possible change of the record.\<close>

definition CheckSpecialNotificationText :: "ContinuousTaskRecord \<Rightarrow> BgContinuousTaskMgr \<Rightarrow> ErrCode \<times> string" where
  "CheckSpecialNotificationText r m =
     (let texts = cm_continuousTaskSubText m;
          has = (\<lambda>sub (i::nat). CheckExistMode (ct_bgSubModeIds r) sub \<and> i < length texts)
      in if texts = [] then (ERR_BGTASK_NOTIFICATION_VERIFY_FAILED, '''')
         else if has SUBMODE_MEDIA_PROCESS_NORMAL_NOTIFICATION 1 then (ERR_OK, texts ! 1 @ ''\<newline>'')
         else if has SUBMODE_VIDEO_BROADCAST_NORMAL_NOTIFICATION 2 then (ERR_OK, texts ! 2 @ ''\<newline>'')
         else if has SUBMODE_WORK_OUT_NORMAL_NOTIFICATION 3 then (ERR_OK, texts ! 3 @ ''\<newline>'')
         else (ERR_BGTASK_NOTIFICATION_VERIFY_FAILED, ''''))"

definition SingleModeNotificationText ::
    "cenv \<Rightarrow> bgmode list \<Rightarrow> string \<Rightarrow> ContinuousTaskRecord \<Rightarrow> BgContinuousTaskMgr \<Rightarrow>
     ErrCode \<times> string \<times> ContinuousTaskRecord" where
  "SingleModeNotificationText e checkModes blue r m =
     (if \<not> CheckExistMode (ct_bgModeIds r) BLUETOOTH_INTERACTION \<and> CheckExistMode checkModes AUDIO_PLAYBACK \<and>
         \<not> ce_isPlaying e (ct_uid r) \<and> cm_startingTaskText m \<noteq> []
      then (ERR_OK, hd (cm_startingTaskText m), r\<lparr>ct_audioPlayState := False\<rparr>)
      else case text_at (cm_continuousTaskText m) (GetBgModeNameIndex (hd checkModes) (ct_isNewApi r)) of
             None \<Rightarrow> (ERR_BGTASK_NOTIFICATION_VERIFY_FAILED, '''', r)
           | Some t \<Rightarrow> (ERR_OK, blue @ t @ ''\<newline>'', r))"

definition FormatNotificationText :: "cenv \<Rightarrow> bgmode list \<Rightarrow> string \<Rightarrow> string list \<Rightarrow> ErrCode \<times> string" where
  "FormatNotificationText e checkModes blue jsParams =
     (if \<not> ce_resources e then (ERR_BGTASK_NOTIFICATION_VERIFY_FAILED, '''')
      else
        let formatType =
              (if length checkModes = 2 then ''notification_text_running_task_two_mode''
               else if length checkModes = 3 then ''notification_text_running_task_three_mode''
               else if length checkModes > 3 then ''notification_text_running_task_exceed'' else '''');
            merged = ce_format e formatType jsParams
        in if merged = '''' then (ERR_BGTASK_NOTIFICATION_VERIFY_FAILED, '''') else (ERR_OK, blue @ merged))"

text \<open>The texts of at most three modes.\<close>

fun merge_params :: "(bgmode \<times> string \<times> string) list \<Rightarrow> nat \<Rightarrow> bgmode list \<Rightarrow> string list option" where
  "merge_params texts n [] = Some []"
| "merge_params texts n (mode # modes) =
     (case map_of texts mode of
        None \<Rightarrow> None
      | Some (_, t) \<Rightarrow>
          if t = '''' then None
          else if n + 1 = 3 then Some [t]
          else map_option (Cons t) (merge_params texts (n + 1) modes))"

definition MergeNotificationText ::
    "cenv \<Rightarrow> bgmode list \<Rightarrow> string \<Rightarrow> BgContinuousTaskMgr \<Rightarrow> ErrCode \<times> string" where
  "MergeNotificationText e checkModes blue m =
     (case merge_params (cm_modeForNotificationText m) 0 checkModes of
        None \<Rightarrow> (ERR_BGTASK_NOTIFICATION_VERIFY_FAILED, '''')
      | Some jsParams \<Rightarrow> FormatNotificationText e checkModes blue jsParams)"

definition CheckNotificationText ::
    "cenv \<Rightarrow> ContinuousTaskRecord \<Rightarrow> BgContinuousTaskMgr \<Rightarrow> ErrCode \<times> string \<times> ContinuousTaskRecord" where
  "CheckNotificationText e r m =
     (if CheckLiveViewInfo r m then (ERR_OK, '''', r)
      else if CheckExistMode (ct_bgModeIds r) SPECIAL_SCENARIO_PROCESSING
      then (let (ret, t) = CheckSpecialNotificationText r m in (ret, t, r))
      else
        let carKey = CheckExistMode (ct_bgModeIds r) BLUETOOTH_INTERACTION \<and> CheckExistMode (ct_bgSubModeIds r) CAR_KEY
        in if carKey \<and> cm_continuousTaskSubText m = [] then (ERR_BGTASK_NOTIFICATION_VERIFY_FAILED, '''', r)
           else
             let blue = (if carKey then hd (cm_continuousTaskSubText m) @ ''\<newline>'' else '''');
                 checkModes = FilterNotificationMode r m
             in case checkModes of
                  [] \<Rightarrow> (ERR_OK, blue, r)
                | [_] \<Rightarrow> SingleModeNotificationText e checkModes blue r m
                | _ \<Rightarrow> (let (ret, t) = MergeNotificationText e checkModes blue m in (ret, t, r)))"

definition GetMainAbilityLabel :: "cenv \<Rightarrow> string \<Rightarrow> int \<Rightarrow> string" where
  "GetMainAbilityLabel e bundleName userId = (case ce_bundleLabel e bundleName of Some l \<Rightarrow> l | None \<Rightarrow> '''')"

text \<open>The result of the check is dropped: on an error the text is empty.\<close>

definition GetNotificationText :: "cenv \<Rightarrow> ContinuousTaskRecord \<Rightarrow> BgContinuousTaskMgr \<Rightarrow> string \<times> ContinuousTaskRecord" where
  "GetNotificationText e r m = (let (_, t, r1) = CheckNotificationText e r m in (t, r1))"

section \<open>Sending\<close>

definition cached_app_name :: "int \<Rightarrow> BgContinuousTaskMgr \<Rightarrow> string" where
  "cached_app_name uid m = (case map_of (cm_cachedBundleInfos m) uid of Some i \<Rightarrow> cbi_appName i | None \<Rightarrow> '''')"

definition SendContinuousTaskNotification ::
    "cenv \<Rightarrow> ContinuousTaskRecord \<Rightarrow> BgContinuousTaskMgr \<Rightarrow> ErrCode \<times> ContinuousTaskRecord \<times> BgContinuousTaskMgr" where
  "SendContinuousTaskNotification e r m =
     (if cm_continuousTaskText m = [] then (ERR_BGTASK_NOTIFICATION_VERIFY_FAILED, r, m)
      else if cached_app_name (ct_uid r) m = '''' then (ERR_BGTASK_NOTIFICATION_VERIFY_FAILED, r, m)
      else
        let (ret, txt, r1) = CheckNotificationText e r m
        in if ret \<noteq> ERR_OK then (ret, r1, m)
           else if txt = ''''
           then (if ct_notificationId r1 \<noteq> -1
                 then (ERR_OK, r1\<lparr>ct_notificationId := -1\<rparr>,
                       cancel_notif e (ct_notificationLabel r1) (ct_notificationId r1) m)
                 else (ERR_OK, r1, m))
           else if ct_bgModeIds r1 = [AUDIO_PLAYBACK] \<and>
                   (av_published (ct_uid r1) m \<or>
                    CheckExistMode (ct_bgSubModeIds r1) SUBMODE_AVSESSION_AUDIO_PLAYBACK \<and> ct_isByRequestObject r1)
           then (ERR_OK, r1, m)
           else PublishNotification e r1 (cached_app_name (ct_uid r) m) txt m)"

definition SendNotification ::
    "cenv \<Rightarrow> ContinuousTaskRecord \<Rightarrow> ContinuousTaskRecord \<Rightarrow> string \<Rightarrow> bool \<Rightarrow> BgContinuousTaskMgr \<Rightarrow>
     ErrCode \<times> ContinuousTaskRecord \<times> BgContinuousTaskMgr" where
  "SendNotification e sub r appName isSubNotification m =
     (let (ret, txt, _) = CheckNotificationText e sub m
      in if ret \<noteq> ERR_OK then (ret, r, m)
         else if isSubNotification \<and> txt = '''' then (ERR_OK, r, m)
         else if isSubNotification then PublishSubNotification e sub appName txt r m
         else PublishMainNotification e sub appName txt r m)"

text \<open>The modes other than data transfer, with the sub modes at the same positions.\<close>

definition other_modes :: "ContinuousTaskRecord \<Rightarrow> bgmode list \<times> bgmode list" where
  "other_modes r =
     (filter (\<lambda>mode. mode \<noteq> DATA_TRANSFER) (ct_bgModeIds r),
      map snd (filter (\<lambda>(mode, _). mode \<noteq> DATA_TRANSFER) (zip (ct_bgModeIds r) (ct_bgSubModeIds r))))"

text \<open>
  One notification for the transfer and one for the rest. With data transfer as the only mode the
  code would read the first element of an empty vector; the callers ask for more than one mode.
\<close>

definition SendLiveViewAndOtherNotification ::
    "cenv \<Rightarrow> ContinuousTaskRecord \<Rightarrow> BgContinuousTaskMgr \<Rightarrow> ErrCode \<times> ContinuousTaskRecord \<times> BgContinuousTaskMgr" where
  "SendLiveViewAndOtherNotification e r m =
     (let appName = cached_app_name (ct_uid r) m
      in if cm_continuousTaskText m = [] then (ERR_BGTASK_NOTIFICATION_VERIFY_FAILED, r, m)
         else if appName = '''' then (ERR_BGTASK_NOTIFICATION_VERIFY_FAILED, r, m)
         else
           let sub = (new_ContinuousTaskRecord (ct_bundleName r) (ct_abilityName r) (ct_uid r) (ct_pid r)
                        (ct_bgModeId r) False [] (-1))
                      \<lparr>ct_wantAgent := ct_wantAgent r, ct_abilityId := ct_abilityId r,
                       ct_continuousTaskId := ct_continuousTaskId r, ct_isNewApi := ct_isNewApi r,
                       ct_isByRequestObject := True, ct_bgModeId := DATA_TRANSFER, ct_bgModeIds := [DATA_TRANSFER]\<rparr>;
               (ret, r1, m1) = SendNotification e sub r appName False m
           in if ret \<noteq> ERR_OK then (ret, r1, m1)
              else
                let (modes, subModes) = other_modes r1;
                    sub1 = sub\<lparr>ct_bgModeIds := modes, ct_bgSubModeIds := subModes,
                               ct_bgModeId := (case modes of [] \<Rightarrow> 0 | mode # _ \<Rightarrow> mode)\<rparr>;
                    (ret2, r2, m2) = SendNotification e sub1 r1 appName True m1
                in if ret2 \<noteq> ERR_OK
                   then (ret2, r2, if ct_notificationId r2 \<noteq> -1
                                   then cancel_notif e (ct_notificationLabel r2) (ct_notificationId r2) m2 else m2)
                   else (ERR_OK, r2, m2))"

text \<open>Send what fits the modes of the task.\<close>

definition send_notifications ::
    "cenv \<Rightarrow> ContinuousTaskRecord \<Rightarrow> BgContinuousTaskMgr \<Rightarrow> ErrCode \<times> ContinuousTaskRecord \<times> BgContinuousTaskMgr" where
  "send_notifications e r m =
     (if ct_isByRequestObject r \<and> length (ct_bgModeIds r) > 1 \<and> CheckExistMode (ct_bgModeIds r) DATA_TRANSFER
      then SendLiveViewAndOtherNotification e r m
      else SendContinuousTaskNotification e r m)"

definition HandleActiveNotification ::
    "cenv \<Rightarrow> ContinuousTaskRecord \<Rightarrow> BgContinuousTaskMgr \<Rightarrow> ContinuousTaskRecord \<times> BgContinuousTaskMgr" where
  "HandleActiveNotification e r m = (if ct_suspendState r then (r, m) else snd (send_notifications e r m))"

text \<open>
  Cancel the notifications of a task that is gone from the table, unless another task shows the same
  one.
\<close>

definition CancelNotification ::
    "cenv \<Rightarrow> ContinuousTaskRecord \<Rightarrow> BgContinuousTaskMgr \<Rightarrow> ErrCode \<times> BgContinuousTaskMgr" where
  "CancelNotification e r m =
     (if ct_notificationId r = -1 then (ERR_OK, m)
      else if find_task (\<lambda>t. ct_notificationId t = ct_notificationId r \<and>
                             ct_notificationLabel t = ct_notificationLabel r) (cm_tasks m) \<noteq> None
      then (ERR_OK, m)
      else
        let (ret, m1) = nt_CancelNotification e (ct_notificationLabel r) (ct_notificationId r) m
        in if ct_subNotificationId r \<noteq> -1 \<and> ct_isByRequestObject r
           then nt_CancelNotification e (ct_subNotificationLabel r) (ct_subNotificationId r) m1
           else (ret, m1))"

end
