(* ===== verification/ContinuousSubscribers.thy ===== *)
theory ContinuousSubscribers
  imports NotificationText
begin

text \<open>
  Subscribers of \<^verbatim>\<open>bg_continuous_task_mgr.cpp\<close>: registering and removing them, and what each is told
  when a task starts, changes, stops, is suspended or active again. System services are told about
  every task; an application is told about its own tasks and, when it has registered for it, about
  the state of all.
\<close>

unbundle bit_operations_syntax

abbreviation (input) CONTINUOUS_TASK_SUSPEND :: "32 word" where "CONTINUOUS_TASK_SUSPEND \<equiv> 2"
abbreviation (input) CONTINUOUS_TASK_ACTIVE :: "32 word" where "CONTINUOUS_TASK_ACTIVE \<equiv> 4"
abbreviation (input) SUBSCRIBER_BACKGROUND_TASK_STATE :: "32 word" where "SUBSCRIBER_BACKGROUND_TASK_STATE \<equiv> 8"

section \<open>Registration\<close>

text \<open>A subscriber with no object (\<open>None\<close>) is refused; the outcome of the inner call is not passed on.\<close>

definition AddSubscriberInner :: "SubscriberInfo \<Rightarrow> BgContinuousTaskMgr \<Rightarrow> ErrCode \<times> BgContinuousTaskMgr" where
  "AddSubscriberInner s m =
     (case find (\<lambda>t. si_subscriber t = si_subscriber s) (cm_bgTaskSubscribers m) of
        Some old \<Rightarrow>
          (ERR_BGTASK_OBJECT_EXISTS,
           if si_isHap old
           then m\<lparr>cm_bgTaskSubscribers := map (\<lambda>t. if si_subscriber t = si_subscriber s
                    then t\<lparr>si_flag := si_flag t OR si_flag s\<rparr> else t) (cm_bgTaskSubscribers m)\<rparr>
           else m)
      | None \<Rightarrow> (ERR_OK, m\<lparr>cm_bgTaskSubscribers := cm_bgTaskSubscribers m @ [s]\<rparr>))"

definition AddSubscriber :: "SubscriberInfo option \<Rightarrow> BgContinuousTaskMgr \<Rightarrow> ErrCode \<times> BgContinuousTaskMgr" where
  "AddSubscriber s m =
     (case s of None \<Rightarrow> (ERR_BGTASK_INVALID_PARAM, m) | Some si \<Rightarrow> (ERR_OK, snd (AddSubscriberInner si m)))"

text \<open>Remove the first subscriber with the object; an application stays while a flag is left.\<close>

definition RemoveSubscriberInner ::
    "nat option \<Rightarrow> 32 word \<Rightarrow> BgContinuousTaskMgr \<Rightarrow> ErrCode \<times> BgContinuousTaskMgr" where
  "RemoveSubscriberInner subscriber flag m =
     (case subscriber of
        None \<Rightarrow> (ERR_BGTASK_INVALID_PARAM, m)
      | Some remote \<Rightarrow>
          (case find (\<lambda>t. si_subscriber t = remote) (cm_bgTaskSubscribers m) of
             None \<Rightarrow> (ERR_BGTASK_INVALID_PARAM, m)
           | Some old \<Rightarrow>
               let rest = si_flag old AND NOT flag in
               if si_isHap old \<and> rest \<noteq> 0
               then (ERR_OK, m\<lparr>cm_bgTaskSubscribers := map (\<lambda>t. if si_subscriber t = remote
                       then t\<lparr>si_flag := rest\<rparr> else t) (cm_bgTaskSubscribers m)\<rparr>)
               else (ERR_OK, m\<lparr>cm_bgTaskSubscribers := remove1 old (cm_bgTaskSubscribers m)\<rparr>)))"

definition RemoveSubscriber ::
    "nat option option \<Rightarrow> 32 word \<Rightarrow> BgContinuousTaskMgr \<Rightarrow> ErrCode \<times> BgContinuousTaskMgr" where
  "RemoveSubscriber subscriber flag m =
     (case subscriber of
        None \<Rightarrow> (ERR_BGTASK_INVALID_PARAM, m)
      | Some remote \<Rightarrow> (ERR_OK, snd (RemoveSubscriberInner remote flag m)))"

definition OnRemoteSubscriberDiedInner :: "nat \<Rightarrow> BgContinuousTaskMgr \<Rightarrow> BgContinuousTaskMgr" where
  "OnRemoteSubscriberDiedInner remote m =
     m\<lparr>cm_bgTaskSubscribers := filter (\<lambda>t. si_subscriber t \<noteq> remote) (cm_bgTaskSubscribers m)\<rparr>"

definition OnRemoteSubscriberDied :: "nat option \<Rightarrow> BgContinuousTaskMgr \<Rightarrow> BgContinuousTaskMgr" where
  "OnRemoteSubscriberDied object m =
     (if \<not> cm_isSysReady m then m
      else case object of None \<Rightarrow> m | Some remote \<Rightarrow> OnRemoteSubscriberDiedInner remote m)"

definition IsExistCallback :: "int \<Rightarrow> 32 word \<Rightarrow> BgContinuousTaskMgr \<Rightarrow> bool" where
  "IsExistCallback uid flag m \<longleftrightarrow>
     list_ex (\<lambda>s. si_isHap s \<and> si_uid s = uid \<and> si_flag s AND flag \<noteq> 0) (cm_bgTaskSubscribers m)"

section \<open>Telling subscribers\<close>

definition CanNotifyHap :: "SubscriberInfo \<Rightarrow> ContinuousTaskCallbackInfo \<Rightarrow> bool" where
  "CanNotifyHap s cb \<longleftrightarrow>
     si_isHap s \<and> si_uid s = cb_creatorUid cb \<and>
     \<not> (cb_cancelReason cb = REMOVE_NOTIFICATION_CANCEL \<and> cb_isFromComponent cb) \<and>
     (cb_cancelReason cb = REMOVE_NOTIFICATION_CANCEL \<or> cb_cancelReason cb = FREEZE_CANCEL)"

definition wants_state :: "SubscriberInfo \<Rightarrow> bool" where
  "wants_state s \<longleftrightarrow> si_flag s AND SUBSCRIBER_BACKGROUND_TASK_STATE \<noteq> 0"

definition NotifySubscribersTaskStart ::
    "ContinuousTaskCallbackInfo \<Rightarrow> BgContinuousTaskMgr \<Rightarrow> BgContinuousTaskMgr" where
  "NotifySubscribersTaskStart cb m =
     cm_emit (ObserverStart cb #
       concat (map (\<lambda>s. if \<not> si_isHap s \<or> wants_state s then [SubTaskStart (si_subscriber s) cb] else [])
         (cm_bgTaskSubscribers m))) m"

definition NotifySubscribersTaskUpdate ::
    "ContinuousTaskCallbackInfo \<Rightarrow> BgContinuousTaskMgr \<Rightarrow> BgContinuousTaskMgr" where
  "NotifySubscribersTaskUpdate cb m =
     cm_emit (ObserverUpdate cb #
       concat (map (\<lambda>s. if \<not> si_isHap s \<or> wants_state s then [SubTaskUpdate (si_subscriber s) cb] else [])
         (cm_bgTaskSubscribers m))) m"

definition NotifySubscribersTaskCancel ::
    "ContinuousTaskCallbackInfo \<Rightarrow> BgContinuousTaskMgr \<Rightarrow> BgContinuousTaskMgr" where
  "NotifySubscribersTaskCancel cb m =
     cm_emit (ObserverStop cb #
       concat (map (\<lambda>s. if \<not> si_isHap s \<or> CanNotifyHap s cb \<or> wants_state s
                        then [SubTaskStop (si_subscriber s) cb] else [])
         (cm_bgTaskSubscribers m))) m"

text \<open>For a system service a suspended task is a stopped one; a suspension for standby concerns the application only.\<close>

definition NotifySubscribersTaskSuspend ::
    "ContinuousTaskCallbackInfo \<Rightarrow> BgContinuousTaskMgr \<Rightarrow> BgContinuousTaskMgr" where
  "NotifySubscribersTaskSuspend cb m =
     (let isNotStandby = \<not> cb_isStandby cb in
      cm_emit ((if isNotStandby then [ObserverStop cb] else []) @
       concat (map (\<lambda>s. if \<not> si_isHap s then (if isNotStandby then [SubTaskStop (si_subscriber s) cb] else [])
                        else (if wants_state s \<and> isNotStandby then [SubTaskStop (si_subscriber s) cb] else []) @
                             (if si_uid s = cb_creatorUid cb then [SubTaskSuspend (si_subscriber s) cb] else []))
         (cm_bgTaskSubscribers m))) m)"

definition NotifySubscribersTaskActive ::
    "ContinuousTaskCallbackInfo \<Rightarrow> BgContinuousTaskMgr \<Rightarrow> BgContinuousTaskMgr" where
  "NotifySubscribersTaskActive cb m =
     (let isNotStandby = \<not> cb_isStandby cb in
      cm_emit ((if isNotStandby then [ObserverStart cb] else []) @
       concat (map (\<lambda>s. if \<not> si_isHap s then (if isNotStandby then [SubTaskStart (si_subscriber s) cb] else [])
                        else (if wants_state s \<and> isNotStandby then [SubTaskStart (si_subscriber s) cb] else []) @
                             (if si_uid s = cb_creatorUid cb then [SubTaskActive (si_subscriber s) cb] else []))
         (cm_bgTaskSubscribers m))) m)"

fun NotifySubscribers ::
    "ContinuousTaskEventTriggerType \<Rightarrow> ContinuousTaskCallbackInfo \<Rightarrow> BgContinuousTaskMgr \<Rightarrow> BgContinuousTaskMgr" where
  "NotifySubscribers TASK_START cb m = NotifySubscribersTaskStart cb m"
| "NotifySubscribers TASK_UPDATE cb m = NotifySubscribersTaskUpdate cb m"
| "NotifySubscribers TASK_CANCEL cb m = NotifySubscribersTaskCancel cb m"
| "NotifySubscribers TASK_SUSPEND cb m = NotifySubscribersTaskSuspend cb m"
| "NotifySubscribers TASK_ACTIVE cb m = NotifySubscribersTaskActive cb m"

fun cm_ReportHisysEvent ::
    "ContinuousTaskEventTriggerType \<Rightarrow> ContinuousTaskRecord \<Rightarrow> BgContinuousTaskMgr \<Rightarrow> BgContinuousTaskMgr" where
  "cm_ReportHisysEvent TASK_START r m = cm_emit [EventTaskApply (ct_uid r) (ct_pid r) (ct_bundleName r)
     (ct_abilityName r) (GetModeNumByTypeIds (ct_bgModeIds r)) (ct_abilityId r)] m"
| "cm_ReportHisysEvent TASK_UPDATE r m = cm_emit [EventTaskApply (ct_uid r) (ct_pid r) (ct_bundleName r)
     (ct_abilityName r) (GetModeNumByTypeIds (ct_bgModeIds r)) (ct_abilityId r)] m"
| "cm_ReportHisysEvent TASK_CANCEL r m = cm_emit [EventTaskCancel (ct_uid r) (ct_pid r) (ct_bundleName r)
     (ct_abilityName r) (GetModeNumByTypeIds (ct_bgModeIds r)) (ct_abilityId r) (ct_reason r)] m"
| "cm_ReportHisysEvent _ r m = m"

definition callback_info :: "ContinuousTaskRecord \<Rightarrow> ContinuousTaskCallbackInfo" where
  "callback_info r =
     \<lparr>cb_typeId = ct_bgModeId r, cb_creatorUid = ct_uid r, cb_creatorPid = ct_pid r,
      cb_abilityName = ct_abilityName r, cb_isFromWebview = ct_isFromWebview r, cb_isBatchApi = ct_isBatchApi r,
      cb_typeIds = ct_bgModeIds r, cb_abilityId = ct_abilityId r, cb_tokenId = ct_fullTokenId r,
      cb_continuousTaskId = ct_continuousTaskId r, cb_cancelReason = ct_reason r,
      cb_detailedCancelReason = ct_detailedCancelReason r, cb_suspendState = ct_suspendState r,
      cb_suspendReason = ct_suspendReason r, cb_isByRequestObject = ct_isByRequestObject r,
      cb_bundleName = ct_bundleName r, cb_userId = ct_userId r, cb_appIndex = ct_appIndex r,
      cb_backgroundSubModes = ct_bgSubModeIds r, cb_notificationId = ct_notificationId r,
      cb_wantAgentBundleName = (case ct_wantAgentInfo r of Some i \<Rightarrow> wi_bundleName i | None \<Rightarrow> ''''),
      cb_wantAgentAbilityName = (case ct_wantAgentInfo r of Some i \<Rightarrow> wi_abilityName i | None \<Rightarrow> ''''),
      cb_cancelCallBackSelf = False, cb_isStandby = ct_isStandby r, cb_isFromComponent = ct_isFromComponent r\<rparr>"

definition OnContinuousTaskChanged ::
    "ContinuousTaskRecord \<Rightarrow> ContinuousTaskEventTriggerType \<Rightarrow> BgContinuousTaskMgr \<Rightarrow> BgContinuousTaskMgr" where
  "OnContinuousTaskChanged r ty m = cm_ReportHisysEvent ty r (NotifySubscribers ty (callback_info r) m)"

text \<open>The last task of an app has gone.\<close>

definition HandleAppContinuousTaskStop :: "int \<Rightarrow> BgContinuousTaskMgr \<Rightarrow> BgContinuousTaskMgr" where
  "HandleAppContinuousTaskStop uid m =
     (if find_task (\<lambda>t. ct_uid t = uid) (cm_tasks m) \<noteq> None then m
      else cm_emit (map (\<lambda>s. SubAppTaskStop (si_subscriber s) uid)
             (filter (\<lambda>s. \<not> si_isHap s) (cm_bgTaskSubscribers m))) m)"

text \<open>An application that does not listen for suspensions is told through the state subscribers that its audio task stopped.\<close>

definition SendAudioCallBackTaskState :: "ContinuousTaskRecord \<Rightarrow> BgContinuousTaskMgr \<Rightarrow> BgContinuousTaskMgr" where
  "SendAudioCallBackTaskState r m =
     (let cb = (callback_info r)\<lparr>cb_detailedCancelReason := -1, cb_backgroundSubModes := [],
                 cb_notificationId := -1, cb_wantAgentBundleName := '''', cb_wantAgentAbilityName := '''',
                 cb_isStandby := False, cb_isFromComponent := False\<rparr>
      in cm_emit (map (\<lambda>s. SubTaskStop (si_subscriber s) cb)
           (filter (\<lambda>s. si_isHap s \<and> wants_state s) (cm_bgTaskSubscribers m))) m)"

end
