(* ===== verification/ContinuousSuspend.thy ===== *)
theory ContinuousSuspend
  imports ContinuousSubscribers
begin

text \<open>
  Suspending tasks and making them active again (\<^verbatim>\<open>bg_continuous_task_mgr.cpp\<close>, the handlers of
  \<^verbatim>\<open>SuspendContinuousTask\<close>, \<^verbatim>\<open>ActiveContinuousTask\<close> and \<^verbatim>\<open>SuspendContinuousAudioTask\<close>).
\<close>

section \<open>Suspending\<close>

definition suspend_reason :: "int \<Rightarrow> bool \<Rightarrow> int" where
  "suspend_reason mode isStandby =
     (let v = GetSuspendReasonValue (word_of_int mode) isStandby in if v = 0 then -1 else v)"

text \<open>The notification is cancelled even when the task under the key belongs to another app.\<close>

definition HandleSuspendContinuousTask ::
    "cenv \<Rightarrow> int \<Rightarrow> int \<Rightarrow> int \<Rightarrow> string \<Rightarrow> BgContinuousTaskMgr \<Rightarrow> BgContinuousTaskMgr" where
  "HandleSuspendContinuousTask e uid pid mode key m =
     (case map_of (cm_tasks m) key of
        None \<Rightarrow> m
      | Some r0 \<Rightarrow>
          let r = (if ct_uid r0 = uid
                   then r0\<lparr>ct_suspendState := True, ct_isStandby := False, ct_suspendReason := suspend_reason mode False\<rparr>
                   else r0);
              m1 = (if ct_uid r0 = uid then cm_save e (OnContinuousTaskChanged r TASK_SUSPEND (cm_set key r m)) else m);
              m2 = cancel_notif e (ct_notificationLabel r) (ct_notificationId r) m1;
              m3 = (if ct_subNotificationId r \<noteq> -1 \<and> ct_isByRequestObject r
                    then cancel_notif e (ct_subNotificationLabel r) (ct_subNotificationId r) m2 else m2)
          in HandleAppContinuousTaskStop uid m3)"

definition HandleSuspendContinuousTaskByStandby ::
    "cenv \<Rightarrow> int \<Rightarrow> int \<Rightarrow> int \<Rightarrow> string \<Rightarrow> BgContinuousTaskMgr \<Rightarrow> BgContinuousTaskMgr" where
  "HandleSuspendContinuousTaskByStandby e uid pid mode key m =
     (case map_of (cm_tasks m) key of
        None \<Rightarrow> m
      | Some r0 \<Rightarrow>
          if ct_uid r0 \<noteq> uid \<or> ct_suspendState r0 \<or> ct_isStandbySuspend r0 then m
          else
            let r = r0\<lparr>ct_isStandby := True, ct_isStandbySuspend := True, ct_suspendReason := suspend_reason mode True\<rparr>
            in cm_save e (OnContinuousTaskChanged r TASK_SUSPEND (cm_set key r m)))"

text \<open>
  No playback was detected: the notification goes, and an application that listens for suspensions
  has its task suspended the first time and cancelled the second.
\<close>

definition suspend_audio_body ::
    "cenv \<Rightarrow> int \<Rightarrow> string \<Rightarrow> ContinuousTaskRecord \<Rightarrow> BgContinuousTaskMgr \<Rightarrow> BgContinuousTaskMgr" where
  "suspend_audio_body e uid key r0 m =
     (if ct_uid r0 = uid \<and> CheckExistMode (ct_bgModeIds r0) AUDIO_PLAYBACK
      then
        let r = r0\<lparr>ct_audioDetectState := False\<rparr>;
            m1 = cancel_notif e (ct_notificationLabel r) (ct_notificationId r) (cm_set key r m)
        in if \<not> IsExistCallback uid CONTINUOUS_TASK_SUSPEND m1 then SendAudioCallBackTaskState r m1
           else if ct_suspendAudioTaskTimes r = 0
           then
             let r1 = r\<lparr>ct_suspendState := True, ct_suspendAudioTaskTimes := 1,
                        ct_suspendReason := SYSTEM_SUSPEND_AUDIO_PLAYBACK_NOT_RUNNING\<rparr>
             in cm_save e (OnContinuousTaskChanged r1 TASK_SUSPEND (cm_set key r1 m1))
           else
             let r1 = r\<lparr>ct_reason := FREEZE_CANCEL,
                        ct_detailedCancelReason := SYSTEM_CANCEL_AUDIO_PLAYBACK_NOT_RUNNING\<rparr>
             in cm_save e (cm_erase key (OnContinuousTaskChanged r1 TASK_CANCEL (cm_set key r1 m1)))
      else m)"

definition HandleSuspendContinuousAudioTask :: "cenv \<Rightarrow> int \<Rightarrow> BgContinuousTaskMgr \<Rightarrow> BgContinuousTaskMgr" where
  "HandleSuspendContinuousAudioTask e uid m =
     HandleAppContinuousTaskStop uid (for_tasks (suspend_audio_body e uid) m)"

section \<open>Active again\<close>

text \<open>
  Every suspended task of the app becomes active. The first task that shows a notification sends it
  again; a later one sends its own unless its id was already handled, in which case it takes label
  and id of the task handled last. The state of the loop is label and id handled last and the ids
  handled so far.
\<close>

type_synonym active_state = "string \<times> int \<times> int list"

definition active_body ::
    "cenv \<Rightarrow> string \<Rightarrow> ContinuousTaskRecord \<Rightarrow> active_state \<Rightarrow> BgContinuousTaskMgr \<Rightarrow> active_state \<times> BgContinuousTaskMgr" where
  "active_body e key r0 st m =
     (let (label, nid, oldIds) = st;
          r = r0\<lparr>ct_suspendState := False, ct_isStandby := False\<rparr>;
          m1 = OnContinuousTaskChanged r TASK_ACTIVE (cm_set key r m)
      in if ct_notificationId r = -1 then (st, cm_save e m1)
         else if nid = -2 \<or> CheckExistNotification oldIds (ct_notificationId r)
         then
           let (r1, m2) = HandleActiveNotification e r m1
           in ((ct_notificationLabel r1, ct_notificationId r1, oldIds @ [ct_notificationId r]),
               cm_save e (cm_set key r1 m2))
         else (st, cm_save e (cm_set key (r\<lparr>ct_notificationLabel := label, ct_notificationId := nid\<rparr>) m1)))"

fun active_loop :: "cenv \<Rightarrow> int \<Rightarrow> string list \<Rightarrow> active_state \<Rightarrow> BgContinuousTaskMgr \<Rightarrow> BgContinuousTaskMgr" where
  "active_loop e uid [] st m = m"
| "active_loop e uid (k # ks) st m =
     (case map_of (cm_tasks m) k of
        None \<Rightarrow> active_loop e uid ks st m
      | Some r \<Rightarrow>
          if ct_uid r \<noteq> uid \<or> \<not> ct_suspendState r then active_loop e uid ks st m
          else let (st1, m1) = active_body e k r st m in active_loop e uid ks st1 m1)"

text \<open>
  The loop as it is written: after handling a row the iterator stays, and the row is looked at
  again.
\<close>

partial_function (option) active_while ::
    "cenv \<Rightarrow> int \<Rightarrow> string list \<Rightarrow> active_state \<Rightarrow> BgContinuousTaskMgr \<Rightarrow> BgContinuousTaskMgr option" where
  "active_while e uid ks st m =
     (case ks of
        [] \<Rightarrow> Some m
      | k # rest \<Rightarrow>
          (case map_of (cm_tasks m) k of
             None \<Rightarrow> active_while e uid rest st m
           | Some r \<Rightarrow>
               if ct_uid r \<noteq> uid \<or> \<not> ct_suspendState r then active_while e uid rest st m
               else active_while e uid ks (fst (active_body e k r st m)) (snd (active_body e k r st m))))"

definition HandleActiveContinuousTask ::
    "cenv \<Rightarrow> int \<Rightarrow> int \<Rightarrow> string \<Rightarrow> BgContinuousTaskMgr \<Rightarrow> BgContinuousTaskMgr" where
  "HandleActiveContinuousTask e uid pid key m =
     (if find_task (\<lambda>t. ct_uid t = uid \<and> ct_suspendState t) (cm_tasks m) = None then m
      else active_loop e uid (map fst (cm_tasks m)) (''default'', -2, []) m)"

definition HandleActiveContinuousTaskByStandby ::
    "cenv \<Rightarrow> int \<Rightarrow> int \<Rightarrow> string \<Rightarrow> BgContinuousTaskMgr \<Rightarrow> BgContinuousTaskMgr" where
  "HandleActiveContinuousTaskByStandby e uid pid key m =
     for_tasks (\<lambda>k r m.
       if ct_uid r \<noteq> uid \<or> \<not> ct_isStandbySuspend r then m
       else let r1 = r\<lparr>ct_isStandby := True, ct_isStandbySuspend := False\<rparr>
            in cm_save e (OnContinuousTaskChanged r1 TASK_ACTIVE (cm_set k r1 m))) m"

end
