(* ===== verification/BgContinuousTaskMgr.thy ===== *)
theory BgContinuousTaskMgr
  imports ContinuousSuspend
begin

text \<open>
  Starting, updating, stopping and listing continuous tasks
  (\<^verbatim>\<open>services/continuous_task/src/bg_continuous_task_mgr.cpp\<close>). A handler that the sources post
  and wait for runs at once. The out parameters of a request are part of the result.
\<close>

unbundle bit_operations_syntax

abbreviation (input) BGMODE_PERMISSION :: string where
  "BGMODE_PERMISSION \<equiv> ''ohos.permission.KEEP_BACKGROUND_RUNNING''"
abbreviation (input) BGMODE_PERMISSION_SYSTEM :: string where
  "BGMODE_PERMISSION_SYSTEM \<equiv> ''ohos.permission.KEEP_BACKGROUND_RUNNING_SYSTEM''"
abbreviation (input) BGMODE_PERMISSION_SPECIAL_SCENARIO :: string where
  "BGMODE_PERMISSION_SPECIAL_SCENARIO \<equiv> ''ohos.permission.KEEP_BACKGROUND_RUNNING_SPECIAL_SCENARIO''"

definition ABILITY_TASK_MAX_NUM :: nat where
  "ABILITY_TASK_MAX_NUM = 10"

section \<open>Bundle information\<close>

definition AddAbilityBgModeInfos ::
    "BundleInfo \<Rightarrow> CachedBundleInfo \<Rightarrow> ContinuousTaskRecord \<Rightarrow> CachedBundleInfo option" where
  "AddAbilityBgModeInfos bundleInfo cached r =
     (let modes = foldl (\<lambda>t (name, mode). if mode \<noteq> 0 then hm_emplace name mode t else t)
                    (cbi_abilityBgMode cached) (bi_abilityInfos bundleInfo)
      in if modes = []
         then (if ct_needNotificationForInnerApi r \<and> ct_isFromComponent r
               then Some (cached\<lparr>cbi_abilityBgMode := [(ct_abilityName r, AUDIO_PLAYBACK)]\<rparr>) else None)
         else Some (cached\<lparr>cbi_abilityBgMode := modes\<rparr>))"

definition SetCachedBundleInfo :: "cenv \<Rightarrow> ContinuousTaskRecord \<Rightarrow> BgContinuousTaskMgr \<Rightarrow> bool \<times> BgContinuousTaskMgr" where
  "SetCachedBundleInfo e r m =
     (if map_of (cm_cachedBundleInfos m) (ct_uid r) \<noteq> None then (True, m)
      else case ce_bundleInfo e (ct_bundleName r) (ct_userId r) of
             None \<Rightarrow> (False, m)
           | Some bundleInfo \<Rightarrow>
               (case AddAbilityBgModeInfos bundleInfo
                       \<lparr>cbi_abilityBgMode = [], cbi_appName = GetMainAbilityLabel e (ct_bundleName r) (ct_userId r)\<rparr> r of
                  None \<Rightarrow> (False, m)
                | Some cached \<Rightarrow>
                    (True, m\<lparr>cm_cachedBundleInfos := hm_emplace (ct_uid r) cached (cm_cachedBundleInfos m)\<rparr>)))"

definition GetBackgroundModeInfo :: "int \<Rightarrow> string \<Rightarrow> BgContinuousTaskMgr \<Rightarrow> bgmode" where
  "GetBackgroundModeInfo uid abilityName m =
     (case map_of (cm_cachedBundleInfos m) uid of
        None \<Rightarrow> 0
      | Some cached \<Rightarrow> (case map_of (cbi_abilityBgMode cached) abilityName of None \<Rightarrow> 0 | Some mode \<Rightarrow> mode))"

section \<open>Modes a task may use\<close>

definition CheckSpecialScenarioACLPermission :: "cenv \<Rightarrow> nat \<Rightarrow> bool" where
  "CheckSpecialScenarioACLPermission e callingTokenId \<longleftrightarrow>
     ce_aclPermission e BGMODE_PERMISSION_SYSTEM callingTokenId \<or>
     ce_aclPermission e BGMODE_PERMISSION_SPECIAL_SCENARIO callingTokenId"

definition AllowUseTaskKeeping :: "cenv \<Rightarrow> ContinuousTaskRecord \<Rightarrow> bool" where
  "AllowUseTaskKeeping e r \<longleftrightarrow>
     ce_supportTaskKeeping e \<or> IsTaskKeepingExemptedQuatoApp (ce_signature e) (ce_config e) (ct_bundleName r) \<or>
     CheckSpecialScenarioACLPermission e (ct_callingTokenId r) \<and> \<not> ct_isSystem r"

definition AllowUseSpecial :: "cenv \<Rightarrow> ContinuousTaskRecord \<Rightarrow> ErrCode" where
  "AllowUseSpecial e r =
     (let exempted = IsSpecialExemptedQuatoApp (ce_signature e) (ce_config e) (ct_bundleName r)
      in if \<not> exempted \<and> \<not> CheckSpecialScenarioACLPermission e (ct_callingTokenId r)
         then ERR_BGTASK_CONTINUOUS_APP_NOT_HAVE_BGMODE_PERMISSION_SYSTEM
         else if \<not> exempted \<and> ct_isSystem r then ERR_BGTASK_CONTINUOUS_SYSTEM_APP_NOT_SUPPORT_ACL
         else if IsMaliciousAppConfig (ce_signature e) (ce_config e) (ct_bundleName r)
         then ERR_BGTASK_APP_DETECTED_MALICIOUS_BEHAVIOR
         else if \<not> ce_supportAuth e then ERR_BGTASK_SPECIAL_SCENARIO_PROCESSING_NOTSUPPORT_DEVICE
         else ERR_OK)"

definition CheckBgmodeType :: "cenv \<Rightarrow> bgmode \<Rightarrow> bgmode \<Rightarrow> bool \<Rightarrow> ContinuousTaskRecord \<Rightarrow> ErrCode" where
  "CheckBgmodeType e configuredBgMode requestedBgModeId isNewApi r =
     (if \<not> isNewApi then (if configuredBgMode = 0 then ERR_BGMODE_NULL_OR_TYPE_ERR else ERR_OK)
      else
        let recordedBgMode = mode_bit requestedBgModeId;
            special = (if recordedBgMode = 4096 then AllowUseSpecial e r else ERR_OK)
        in if recordedBgMode = 64 \<and> \<not> ct_isSystem r then ERR_BGTASK_NOT_SYSTEM_APP
           else if recordedBgMode = 256 \<and> \<not> AllowUseTaskKeeping e r then ERR_BGTASK_KEEPING_TASK_VERIFY_ERR
           else if special \<noteq> ERR_OK then special
           else if (recordedBgMode = 2 \<or> recordedBgMode = 4 \<or> recordedBgMode = 128) \<and> ct_isByRequestObject r \<and>
                   configuredBgMode AND mode_bit MODE_AV_PLAYBACK_AND_RECORD \<noteq> 0 then ERR_OK
           else if requestedBgModeId = 0 \<or> configuredBgMode AND mode_bit requestedBgModeId = 0
           then ERR_BGTASK_INVALID_BGMODE
           else ERR_OK)"

fun check_modes :: "cenv \<Rightarrow> bgmode \<Rightarrow> bool \<Rightarrow> ContinuousTaskRecord \<Rightarrow> bgmode list \<Rightarrow> ErrCode" where
  "check_modes e configuredBgMode isNewApi r [] = ERR_OK"
| "check_modes e configuredBgMode isNewApi r (mode # modes) =
     (let ret = CheckBgmodeType e configuredBgMode mode isNewApi r
      in if ret \<noteq> ERR_OK then ret else check_modes e configuredBgMode isNewApi r modes)"

definition CheckBgmodeTypeForInner :: "bgmode \<Rightarrow> ErrCode" where
  "CheckBgmodeTypeForInner requestedBgModeId =
     (if requestedBgModeId = 0 \<or> requestedBgModeId > 10 then ERR_BGTASK_INVALID_BGMODE else ERR_OK)"

section \<open>Starting\<close>

definition CheckTaskParam :: "ContinuousTaskParam option \<Rightarrow> bool" where
  "CheckTaskParam taskParam =
     (case taskParam of
        None \<Rightarrow> False
      | Some p \<Rightarrow>
          if cp_isNewApi p
          then \<not> (cp_wantAgent p = None \<or> cp_abilityName p = '''') \<and>
               \<not> (cp_isByRequestObject p \<and> (cp_bgModeIds p = [] \<or> cp_bgSubModeIds p = [])) \<and>
               \<not> (cp_isBatchApi p \<and> cp_bgModeIds p = [])
          else \<not> cp_abilityName p = '''' \<and> \<not> (cp_isBatchApi p \<and> cp_bgModeIds p = []))"

definition InitRecordParam :: "cenv \<Rightarrow> ContinuousTaskParam \<Rightarrow> int \<Rightarrow> ContinuousTaskRecord \<Rightarrow> ContinuousTaskRecord" where
  "InitRecordParam e p userId r =
     r\<lparr>ct_wantAgent := cp_wantAgent p, ct_userId := userId, ct_isNewApi := cp_isNewApi p,
       ct_appName := cp_appName p, ct_fullTokenId := ce_callingFullTokenId e,
       ct_callingTokenId := ce_callingTokenId e, ct_isSystem := ce_isSystemApp e (ce_callingFullTokenId e),
       ct_bgSubModeIds := cp_bgSubModeIds p,
       ct_isCombinedTaskNotification := cp_isCombinedTaskNotification p,
       ct_combinedNotificationTaskId := cp_combinedNotificationTaskId p,
       ct_isByRequestObject := cp_isByRequestObject p, ct_appIndex := cp_appIndex p,
       ct_progressInfo := cp_progressInfo p\<rparr>"

definition CheckSubMode :: "Want \<Rightarrow> ContinuousTaskRecord \<Rightarrow> ErrCode \<times> ContinuousTaskRecord" where
  "CheckSubMode want r =
     (case wa_subMode want of
        None \<Rightarrow> (ERR_OK, r)
      | Some subMode \<Rightarrow>
          if CheckExistMode (ct_bgModeIds r) BLUETOOTH_INTERACTION \<and> subMode = 1 \<and> \<not> ct_isByRequestObject r
          then (ERR_OK, r\<lparr>ct_bgSubModeIds := ct_bgSubModeIds r @ [CAR_KEY]\<rparr>)
          else (ERR_BGTASK_CHECK_TASK_PARAM, r))"

definition want_info :: "Want \<Rightarrow> WantAgentInfo" where
  "want_info w = \<lparr>wi_bundleName = wa_bundleName w, wi_abilityName = wa_abilityName w\<rparr>"

definition CheckAbilityTaskNum :: "ContinuousTaskRecord \<Rightarrow> BgContinuousTaskMgr \<Rightarrow> ErrCode" where
  "CheckAbilityTaskNum r m =
     (if length (filter (\<lambda>(_, t). ct_abilityId t = ct_abilityId r \<and> ct_isByRequestObject t) (cm_tasks m))
           \<ge> ABILITY_TASK_MAX_NUM
      then ERR_BGTASK_CONTINUOUS_NOT_APPLY_MAX_TASK else ERR_OK)"

definition AllowApplyContinuousTask :: "cenv \<Rightarrow> ContinuousTaskRecord \<Rightarrow> BgContinuousTaskMgr \<Rightarrow> ErrCode" where
  "AllowApplyContinuousTask e r m =
     (if ce_gamePreLaunch e \<and> IsGamePreLaunchApp (ct_uid r) m then ERR_BGTASK_CONTINUOUS_NOT_APPLY_PRELOAD_STATE
      else if \<not> ct_isByRequestObject r then ERR_OK
      else
        let ret = CheckAbilityTaskNum r m;
            uid = ct_uid r;
            applied = (case map_of (cm_applyTaskOnForeground m) uid of Some modes \<Rightarrow> modes | None \<Rightarrow> [])
        in if ret \<noteq> ERR_OK then ret
           else if ct_isFromWebview r \<or> uid \<in> cm_appOnForeground m then ERR_OK
           else if CheckApplyMode (ct_bgModeIds r) (applied @ [AUDIO_PLAYBACK]) then ERR_OK
           else if (case ce_foreground e of Some uids \<Rightarrow> uid \<in> set uids | None \<Rightarrow> False) then ERR_OK
           else ERR_BGTASK_CONTINUOUS_NOT_APPLY_ONBACKGROUND)"

text \<open>
  The task named as the one to share a notification with: the first task of the app with that id.
  The new record takes over its notification; the row found is marked as well.
\<close>

definition DetermineMatchCombinedTaskNotifacation ::
    "ContinuousTaskRecord \<Rightarrow> BgContinuousTaskMgr \<Rightarrow> ErrCode \<times> bool \<times> ContinuousTaskRecord \<times> BgContinuousTaskMgr" where
  "DetermineMatchCombinedTaskNotifacation r m =
     (let mergeId = ct_combinedNotificationTaskId r in
      case find_task (\<lambda>t. ct_uid t = ct_uid r \<and> ct_continuousTaskId t = mergeId) (cm_tasks m) of
        None \<Rightarrow> (ERR_BGTASK_CONTINUOUS_TASKID_INVALID, True, r, m)
      | Some (key, t) \<Rightarrow>
          if \<not> ct_isCombinedTaskNotification t then (ERR_BGTASK_CONTINUOUS_NOT_MERGE_COMBINED_FALSE, True, r, m)
          else if ct_notificationId t = -1 then (ERR_BGTASK_CONTINUOUS_NOT_MERGE_NOTIFICATION_NOT_EXIST, True, r, m)
          else if \<not> CheckModesSame (ct_bgModeIds t) (ct_bgModeIds r)
          then (ERR_BGTASK_CONTINUOUS_MODE_OR_SUBMODE_TYPE_MISMATCH, True, r, m)
          else if \<not> CheckModesSame (ct_bgSubModeIds t) (ct_bgSubModeIds r)
          then (ERR_BGTASK_CONTINUOUS_MODE_OR_SUBMODE_TYPE_MISMATCH, True, r, m)
          else (ERR_OK, False,
                r\<lparr>ct_notificationId := ct_notificationId t, ct_notificationLabel := ct_notificationLabel t\<rparr>,
                cm_set key (t\<lparr>ct_combinedNotificationTaskId := mergeId\<rparr>) m))"

definition CheckCombinedTaskNotification ::
    "ContinuousTaskRecord \<Rightarrow> BgContinuousTaskMgr \<Rightarrow> ErrCode \<times> bool \<times> ContinuousTaskRecord \<times> BgContinuousTaskMgr" where
  "CheckCombinedTaskNotification r m =
     (if \<not> ct_isByRequestObject r then (ERR_OK, True, r, m)
      else if ct_isCombinedTaskNotification r \<and> CheckExistMode (ct_bgModeIds r) DATA_TRANSFER
      then (ERR_BGTASK_CONTINUOUS_DATA_TRANSFER_NOT_MERGE_NOTIFICATION, True, r, m)
      else if ct_isCombinedTaskNotification r \<and> CheckExistMode (ct_bgModeIds r) SPECIAL_SCENARIO_PROCESSING
      then (ERR_BGTASK_CONTINUOUS_SPECIAL_SCENARIO_PROCESSING_NOT_MERGE_NOTIFICATION, True, r, m)
      else if ct_combinedNotificationTaskId r = -1 then (ERR_OK, True, r, m)
      else if \<not> ct_isCombinedTaskNotification r
      then (ERR_BGTASK_CONTINUOUS_NOT_MERGE_CURRENTTASK_COMBINED_FALSE, True, r, m)
      else DetermineMatchCombinedTaskNotifacation r m)"

definition ReportXpowerHisysevent ::
    "string \<Rightarrow> ContinuousTaskRecord \<Rightarrow> ErrCode \<Rightarrow> BgContinuousTaskMgr \<Rightarrow> BgContinuousTaskMgr" where
  "ReportXpowerHisysevent type r ret m =
     cm_emit [EventXpower type (ct_bundleName r) (ct_uid r) (ct_pid r) (to_string ret)] m"

text \<open>
  For a task of an inner interface the result of the mode check is overwritten by the next check
  before it is looked at.
\<close>

definition StartBackgroundRunningSubmit ::
    "cenv \<Rightarrow> ContinuousTaskRecord \<Rightarrow> string \<Rightarrow> BgContinuousTaskMgr \<Rightarrow>
     ErrCode \<times> ContinuousTaskRecord \<times> BgContinuousTaskMgr" where
  "StartBackgroundRunningSubmit e r key m =
     (let ret = (if ct_isFromWebview r then CheckBgmodeTypeForInner (ct_bgModeId r)
                 else check_modes e (GetBackgroundModeInfo (ct_uid r) (ct_abilityName r) m) (ct_isNewApi r) r
                        (ct_bgModeIds r))
      in if \<not> ct_isFromWebview r \<and> ret \<noteq> ERR_OK
         then (ret, r, ReportXpowerHisysevent ''BGMODE_TYPE_MATCHING_FAILED'' r ret m)
         else
           let (ret1, sendNotification, r1, m1) = CheckCombinedTaskNotification r m
           in if ret1 \<noteq> ERR_OK then (ret1, r1, m1)
              else
                let (ret2, r2, m2) =
                      (if (\<not> ct_isFromWebview r1 \<or> ct_needNotificationForInnerApi r1) \<and> sendNotification
                       then send_notifications e r1 m1 else (ERR_OK, r1, m1))
                in if ret2 \<noteq> ERR_OK then (ret2, r2, m2)
                   else
                     let m3 = OnContinuousTaskChanged r2 TASK_START
                                (m2\<lparr>cm_continuousTaskInfosMap := hm_emplace key r2 (cm_tasks m2)\<rparr>);
                         (ret3, m4) = RefreshTaskRecord e m3
                     in (ret3, r2, m4))"

text \<open>
  A new record is never suspended, so an existing task is always refused. \<^verbatim>\<open>++continuousTaskIdIndex_\<close>
  overflows after 2147483647 starts; the model wraps.
\<close>

definition StartBackgroundRunningInner ::
    "cenv \<Rightarrow> ContinuousTaskRecord \<Rightarrow> BgContinuousTaskMgr \<Rightarrow>
      ErrCode \<times> ContinuousTaskRecord \<times> BgContinuousTaskMgr" where
  "StartBackgroundRunningInner e r0 m0 =
     (if ct_uid r0 \<in> cm_disableRequestUidList m0 then (ERR_BGTASK_MALICIOUS_CONTINUOUSTASK, r0, m0)
      else
        let ret = AllowApplyContinuousTask e r0 m0
        in if ret \<noteq> ERR_OK then (ret, r0, m0)
           else
             let taskId = i32 (cm_continuousTaskIdIndex m0 + 1);
                 m = m0\<lparr>cm_continuousTaskIdIndex := taskId\<rparr>;
                 r = r0\<lparr>ct_continuousTaskId := taskId\<rparr>;
                 key = task_key r;
                 ret1 = (if ct_isByRequestObject r then CheckAbilityTaskNum r m else ERR_OK)
             in if ret1 \<noteq> ERR_OK then (ret1, r, m)
                else if map_of (cm_tasks m) key \<noteq> None
                then (if ct_suspendState r then (ERR_OK, r, HandleActiveContinuousTask e (ct_uid r) (ct_pid r) key m)
                      else (ERR_BGTASK_OBJECT_EXISTS, r, m))
                else
                  let m1 = (if \<not> ct_isFromWebview r \<or> ct_needNotificationForInnerApi r
                            then snd (SetCachedBundleInfo e r m) else m)
                  in StartBackgroundRunningSubmit e r key m1)"


definition StartBackgroundRunning ::
    "cenv \<Rightarrow> ContinuousTaskParam option \<Rightarrow> BgContinuousTaskMgr \<Rightarrow>
     ErrCode \<times> (int \<times> int) option \<times> BgContinuousTaskMgr" where
  "StartBackgroundRunning e taskParam m =
     (if \<not> cm_isSysReady m then (ERR_BGTASK_SYS_NOT_READY, None, m)
      else if \<not> CheckTaskParam taskParam then (ERR_BGTASK_CHECK_TASK_PARAM, None, m)
      else if \<not> ce_checkPermission e BGMODE_PERMISSION then (ERR_BGTASK_PERMISSION_DENIED, None, m)
      else
        let p = the taskParam;
            uid = ce_callingUid e;
            r = InitRecordParam e p (ce_osAccountId e uid)
                  (new_ContinuousTaskRecord (ce_clientBundleName e uid) (cp_abilityName p) uid (ce_callingPid e)
                     (cp_bgModeId p) (cp_isBatchApi p) (cp_bgModeIds p) (cp_abilityId p));
            (ret, r1) = (case cp_wantAgent p of
                           Some (Some want) \<Rightarrow> CheckSubMode want (r\<lparr>ct_wantAgentInfo := Some (want_info want)\<rparr>)
                         | _ \<Rightarrow> (ERR_OK, r))
        in if ret \<noteq> ERR_OK then (ret, None, m)
           else let (ret1, r2, m1) = StartBackgroundRunningInner e r1 m
                in (ret1, Some (ct_notificationId r2, ct_continuousTaskId r2), m1))"

section \<open>Requests of system services\<close>

text \<open>The services that may ask on behalf of an app: the mode they may ask for, and whether a notification is shown.\<close>

definition g_innerApiReqBgRunningConfig :: "(int \<times> bgmode \<times> bool) list" where
  "g_innerApiReqBgRunningConfig =
     [(7022, VOIP, False), (5520, SPECIAL_SCENARIO_PROCESSING, False), (7878, AUDIO_PLAYBACK, True),
      (7259, WORKOUT, False)]"

definition CheckPermissionForInner :: "ContinuousTaskParamForInner \<Rightarrow> int \<Rightarrow> bool" where
  "CheckPermissionForInner p callingUid \<longleftrightarrow>
     (case map_of g_innerApiReqBgRunningConfig callingUid of
        Some (mode, _) \<Rightarrow> mode = cq_bgModeId p | None \<Rightarrow> False) \<or>
     callingUid = cq_uid p \<and> cq_bgModeId p = AUDIO_PLAYBACK"

definition GetAbilityNamePid :: "cenv \<Rightarrow> ContinuousTaskParamForInner \<Rightarrow> int \<Rightarrow> int \<Rightarrow> string" where
  "GetAbilityNamePid e p pid callingUid =
     (let webview = ''Webview'' @ to_string (uint (cq_bgModeId p))
      in if callingUid \<noteq> cq_uid p \<or> cq_bgModeId p \<noteq> AUDIO_PLAYBACK then webview
         else case ce_abilityRunning e of
                None \<Rightarrow> webview
              | Some infos \<Rightarrow>
                  (case find (\<lambda>(ipid, iuid, _). ipid = pid \<and> iuid = cq_uid p) infos of
                     Some (_, _, name) \<Rightarrow> name | None \<Rightarrow> webview))"

definition StartBackgroundRunningForInner ::
    "cenv \<Rightarrow> ContinuousTaskParamForInner \<Rightarrow> int \<Rightarrow> BgContinuousTaskMgr \<Rightarrow> ErrCode \<times> BgContinuousTaskMgr" where
  "StartBackgroundRunningForInner e p callingUid m =
     (let uid = cq_uid p;
          pid = (if cq_pid p \<noteq> 0 then cq_pid p else ce_callingPid e);
          own = callingUid = cq_uid p \<and> cq_bgModeId p = AUDIO_PLAYBACK;
          r = (new_ContinuousTaskRecord (ce_clientBundleName e uid) (GetAbilityNamePid e p pid callingUid) uid pid
                 (cq_bgModeId p) False [] (-1))
                \<lparr>ct_isNewApi := True, ct_isFromWebview := True, ct_userId := ce_osAccountId e uid,
                 ct_fullTokenId := ce_callingFullTokenId e,
                 ct_needNotificationForInnerApi :=
                   (own \<or> (case map_of g_innerApiReqBgRunningConfig callingUid of
                             Some (_, notify) \<Rightarrow> notify | None \<Rightarrow> False)),
                 ct_isFromComponent := own\<rparr>;
          (ret, _, m1) = StartBackgroundRunningInner e r m
      in (ret, m1))"

end
