(* ===== verification/ContinuousStop.thy ===== *)
theory ContinuousStop
  imports BgContinuousTaskMgr
begin

text \<open>
  Everything that ends continuous tasks in \<^verbatim>\<open>bg_continuous_task_mgr.cpp\<close>: the request to stop, the
  resource scheduler, the user removing a notification, an ability or app that goes away, packages,
  accounts and system abilities that change, and the dump command.
\<close>

section \<open>One task\<close>

text \<open>The task is looked up again by its id; a task that is not there yields \<open>ERR_BGTASK_OBJECT_EXISTS\<close>.\<close>

definition StopBackgroundRunningByTask ::
    "cenv \<Rightarrow> ContinuousTaskRecord \<Rightarrow> BgContinuousTaskMgr \<Rightarrow> ErrCode \<times> BgContinuousTaskMgr" where
  "StopBackgroundRunningByTask e task m =
     (case find_task (\<lambda>t. ct_continuousTaskId t = ct_continuousTaskId task) (cm_tasks m) of
        None \<Rightarrow> (ERR_BGTASK_OBJECT_EXISTS, m)
      | Some (key, r) \<Rightarrow>
          let (result, m1) = CancelNotification e r (cm_erase key (OnContinuousTaskChanged r TASK_CANCEL m))
          in (result, cm_save e (HandleAppContinuousTaskStop (ct_uid r) m1)))"

fun stop_list :: "cenv \<Rightarrow> ContinuousTaskRecord list \<Rightarrow> ErrCode \<Rightarrow> BgContinuousTaskMgr \<Rightarrow> ErrCode \<times> BgContinuousTaskMgr" where
  "stop_list e [] ret m = (ret, m)"
| "stop_list e (r # rs) ret m =
     (let (ret1, m1) = StopBackgroundRunningByTask e r m
      in if ret1 \<noteq> ERR_OK then (ret1, m1) else stop_list e rs ret1 m1)"

definition in_context :: "int \<Rightarrow> string \<Rightarrow> int \<Rightarrow> ContinuousTaskRecord \<Rightarrow> bool" where
  "in_context uid abilityName abilityId r \<longleftrightarrow>
     ct_uid r = uid \<and> ct_abilityName r = abilityName \<and> ct_abilityId r = abilityId"

definition StopBackgroundRunningByContext ::
    "cenv \<Rightarrow> int \<Rightarrow> string \<Rightarrow> int \<Rightarrow> BgContinuousTaskMgr \<Rightarrow> ErrCode \<times> BgContinuousTaskMgr" where
  "StopBackgroundRunningByContext e uid abilityName abilityId m =
     stop_list e (filter (in_context uid abilityName abilityId) (map snd (cm_tasks m))) ERR_OK m"

text \<open>With a task id, the task is stopped whoever asks.\<close>

definition StopBackgroundRunningInner ::
    "cenv \<Rightarrow> int \<Rightarrow> string \<Rightarrow> int \<Rightarrow> int \<Rightarrow> BgContinuousTaskMgr \<Rightarrow> ErrCode \<times> BgContinuousTaskMgr" where
  "StopBackgroundRunningInner e uid abilityName abilityId continuousTaskId m =
     (if continuousTaskId \<noteq> -1
      then (case find_task (\<lambda>t. ct_continuousTaskId t = continuousTaskId) (cm_tasks m) of
              None \<Rightarrow> (ERR_BGTASK_OBJECT_NOT_EXIST, m)
            | Some (_, r) \<Rightarrow> StopBackgroundRunningByTask e r m)
      else if find_task (in_context uid abilityName abilityId) (cm_tasks m) = None
      then (ERR_BGTASK_OBJECT_NOT_EXIST, m)
      else StopBackgroundRunningByContext e uid abilityName abilityId m)"

definition StopBackgroundRunning ::
    "cenv \<Rightarrow> string \<Rightarrow> int \<Rightarrow> int \<Rightarrow> BgContinuousTaskMgr \<Rightarrow> ErrCode \<times> BgContinuousTaskMgr" where
  "StopBackgroundRunning e abilityName abilityId continuousTaskId m =
     (if \<not> cm_isSysReady m then (ERR_BGTASK_SYS_NOT_READY, m)
      else if abilityName = '''' then (ERR_BGTASK_INVALID_PARAM, m)
      else StopBackgroundRunningInner e (ce_callingUid e) abilityName abilityId continuousTaskId m)"

definition StopBackgroundRunningForInner ::
    "cenv \<Rightarrow> ContinuousTaskParamForInner \<Rightarrow> int \<Rightarrow> BgContinuousTaskMgr \<Rightarrow> ErrCode \<times> BgContinuousTaskMgr" where
  "StopBackgroundRunningForInner e p callingUid m =
     (let pid = (if cq_pid p \<noteq> 0 then cq_pid p else ce_callingPid e)
      in StopBackgroundRunningInner e (cq_uid p) (GetAbilityNamePid e p pid callingUid) (cq_abilityId p) (-1) m)"

definition RequestBackgroundRunningForInner ::
    "cenv \<Rightarrow> ContinuousTaskParamForInner option \<Rightarrow> BgContinuousTaskMgr \<Rightarrow> ErrCode \<times> BgContinuousTaskMgr" where
  "RequestBackgroundRunningForInner e taskParam m =
     (if \<not> cm_isSysReady m then (ERR_BGTASK_SYS_NOT_READY, m)
      else case taskParam of
             None \<Rightarrow> (ERR_BGTASK_CHECK_TASK_PARAM, m)
           | Some p \<Rightarrow>
               if \<not> CheckPermissionForInner p (ce_callingUid e) then (ERR_BGTASK_CHECK_TASK_PARAM, m)
               else if cq_isStart p then StartBackgroundRunningForInner e p (ce_callingUid e) m
               else StopBackgroundRunningForInner e p (ce_callingUid e) m)"

definition DebugContinuousTaskInner ::
    "cenv \<Rightarrow> ContinuousTaskParamForInner option \<Rightarrow> BgContinuousTaskMgr \<Rightarrow> ErrCode \<times> BgContinuousTaskMgr" where
  "DebugContinuousTaskInner e taskParam m =
     (if \<not> cm_isSysReady m then (ERR_BGTASK_SYS_NOT_READY, m)
      else case taskParam of
             None \<Rightarrow> (ERR_BGTASK_CHECK_TASK_PARAM, m)
           | Some p \<Rightarrow>
               if cq_isStart p then StartBackgroundRunningForInner e p 0 m
               else StopBackgroundRunningForInner e p 0 m)"

section \<open>Tasks of an app\<close>

text \<open>Cancel both notifications of a task, whatever other tasks show.\<close>

definition cancel_both :: "cenv \<Rightarrow> ContinuousTaskRecord \<Rightarrow> BgContinuousTaskMgr \<Rightarrow> BgContinuousTaskMgr" where
  "cancel_both e r m =
     (let m1 = cancel_notif e (ct_notificationLabel r) (ct_notificationId r) m
      in if ct_subNotificationId r \<noteq> -1 \<and> ct_isByRequestObject r
         then cancel_notif e (ct_subNotificationLabel r) (ct_subNotificationId r) m1 else m1)"

definition RemoveContinuousTaskRecordByUid :: "cenv \<Rightarrow> int \<Rightarrow> BgContinuousTaskMgr \<Rightarrow> BgContinuousTaskMgr" where
  "RemoveContinuousTaskRecordByUid e uid m =
     HandleAppContinuousTaskStop uid (for_tasks (\<lambda>k r0 m.
       if ct_uid r0 \<noteq> uid then m
       else let r = r0\<lparr>ct_reason := FREEZE_CANCEL, ct_detailedCancelReason := SYSTEM_CANCEL_USE_ILLEGALLY\<rparr>
            in cm_save e (cm_erase k (cancel_both e r (OnContinuousTaskChanged r TASK_CANCEL (cm_set k r m))))) m)"

definition RemoveContinuousTaskRecordByUidAndMode ::
    "cenv \<Rightarrow> int \<Rightarrow> bgmode \<Rightarrow> BgContinuousTaskMgr \<Rightarrow> BgContinuousTaskMgr" where
  "RemoveContinuousTaskRecordByUidAndMode e uid mode m =
     HandleAppContinuousTaskStop uid (for_tasks (\<lambda>k r0 m.
       if ct_uid r0 \<noteq> uid \<or> mode \<notin> set (ct_bgModeIds r0) then m
       else let r = r0\<lparr>ct_reason := FREEZE_CANCEL, ct_detailedCancelReason := GetDetailedCancelReasonFromMode mode\<rparr>
            in cm_save e (cm_erase k (cancel_both e r (OnContinuousTaskChanged r TASK_CANCEL (cm_set k r m))))) m)"

definition SetReason :: "string \<Rightarrow> int \<Rightarrow> int \<Rightarrow> BgContinuousTaskMgr \<Rightarrow> BgContinuousTaskMgr" where
  "SetReason mapKey reason detailedCancelReason m =
     (case map_of (cm_tasks m) mapKey of
        None \<Rightarrow> m
      | Some r \<Rightarrow>
          cm_set mapKey (r\<lparr>ct_reason := reason,
            ct_detailedCancelReason := (if detailedCancelReason \<noteq> INVALID_REASON then detailedCancelReason
                                        else ct_detailedCancelReason r)\<rparr>) m)"

definition HandleStopContinuousTask ::
    "cenv \<Rightarrow> int \<Rightarrow> int \<Rightarrow> bgmode \<Rightarrow> string \<Rightarrow> BgContinuousTaskMgr \<Rightarrow> BgContinuousTaskMgr" where
  "HandleStopContinuousTask e uid pid taskType key m =
     (if taskType = DATA_TRANSFER then RemoveContinuousTaskRecordByUidAndMode e uid taskType m
      else if taskType = 255 then RemoveContinuousTaskRecordByUid e uid m
      else case map_of (cm_tasks m) key of
             None \<Rightarrow> m
           | Some r \<Rightarrow>
               let detailed = (case ct_bgModeIds r of [] \<Rightarrow> INVALID_REASON
                               | mode # _ \<Rightarrow> GetDetailedCancelReasonFromMode mode)
               in snd (StopBackgroundRunningByTask e r (SetReason key FREEZE_CANCEL detailed m)))"

section \<open>Requests of the resource scheduler\<close>

text \<open>Posted to the event handler; see \<open>run_task\<close>.\<close>

definition StopContinuousTask :: "int \<Rightarrow> int \<Rightarrow> bgmode \<Rightarrow> string \<Rightarrow> BgContinuousTaskMgr \<Rightarrow> BgContinuousTaskMgr" where
  "StopContinuousTask uid pid taskType key m = (if \<not> cm_isSysReady m then m else cm_post (TaskStop uid pid taskType key) m)"

definition SuspendContinuousTask ::
    "int \<Rightarrow> int \<Rightarrow> int \<Rightarrow> string \<Rightarrow> bool \<Rightarrow> BgContinuousTaskMgr \<Rightarrow> BgContinuousTaskMgr" where
  "SuspendContinuousTask uid pid reason key isStandby m =
     (if \<not> cm_isSysReady m then m else cm_post (TaskSuspend uid pid reason key isStandby) m)"

definition ActiveContinuousTask :: "int \<Rightarrow> int \<Rightarrow> string \<Rightarrow> bool \<Rightarrow> BgContinuousTaskMgr \<Rightarrow> BgContinuousTaskMgr" where
  "ActiveContinuousTask uid pid key isStandby m =
     (if \<not> cm_isSysReady m then m else cm_post (TaskActive uid pid key isStandby) m)"

definition SuspendContinuousAudioTask :: "int \<Rightarrow> BgContinuousTaskMgr \<Rightarrow> BgContinuousTaskMgr" where
  "SuspendContinuousAudioTask uid m = (if \<not> cm_isSysReady m then m else cm_post (TaskSuspendAudio uid) m)"

text \<open>An application that does not listen for suspensions has its task stopped instead, unless for standby.\<close>

definition run_suspend ::
    "cenv \<Rightarrow> int \<Rightarrow> int \<Rightarrow> int \<Rightarrow> string \<Rightarrow> bool \<Rightarrow> BgContinuousTaskMgr \<Rightarrow> BgContinuousTaskMgr" where
  "run_suspend e uid pid reason key isStandby m =
     (let hasCallback = IsExistCallback uid CONTINUOUS_TASK_SUSPEND m
      in if isStandby then (if hasCallback then HandleSuspendContinuousTaskByStandby e uid pid reason key m else m)
         else if hasCallback then HandleSuspendContinuousTask e uid pid reason key m
         else HandleStopContinuousTask e uid pid 0 key m)"

definition run_active :: "cenv \<Rightarrow> int \<Rightarrow> int \<Rightarrow> string \<Rightarrow> bool \<Rightarrow> BgContinuousTaskMgr \<Rightarrow> BgContinuousTaskMgr" where
  "run_active e uid pid key isStandby m =
     (if isStandby
      then (if IsExistCallback uid CONTINUOUS_TASK_ACTIVE m then HandleActiveContinuousTaskByStandby e uid pid key m else m)
      else HandleActiveContinuousTask e uid pid key m)"

section \<open>The user\<close>

definition StopContinuousTaskByUserInner :: "cenv \<Rightarrow> string \<Rightarrow> bool \<Rightarrow> BgContinuousTaskMgr \<Rightarrow> bool \<times> BgContinuousTaskMgr" where
  "StopContinuousTaskByUserInner e key isSubNotification m =
     (case map_of (cm_tasks m) key of
        None \<Rightarrow> (False, m)
      | Some t \<Rightarrow>
          if ct_notificationId t = -1 then (True, m)
          else (True, for_tasks (\<lambda>k r0 m.
            if ct_notificationId r0 \<noteq> ct_notificationId t \<or> ct_notificationLabel r0 \<noteq> ct_notificationLabel t then m
            else
              let r = r0\<lparr>ct_reason := REMOVE_NOTIFICATION_CANCEL\<rparr>;
                  m1 = OnContinuousTaskChanged r TASK_CANCEL (cm_set k r m);
                  m2 = (if isSubNotification then cancel_notif e (ct_notificationLabel r) (ct_notificationId r) m1
                        else if ct_subNotificationId r \<noteq> -1 \<and> ct_isByRequestObject r
                        then cancel_notif e (ct_subNotificationLabel r) (ct_subNotificationId r) m1
                        else m1)
              in cm_save e (HandleAppContinuousTaskStop (ct_uid r) (cm_erase k m2))) m))"

text \<open>
  The reasons from \<^verbatim>\<open>TRIGGER_EIGHT_HOUR_REASON_DELETE\<close> to \<^verbatim>\<open>TRIGGER_THIRTY_MINUTES_REASON_DELETE\<close> are
  constants of the notification service and arguments here.
\<close>

definition StopContinuousTaskByUser ::
    "cenv \<Rightarrow> int \<times> int \<Rightarrow> string \<Rightarrow> bool \<Rightarrow> int \<Rightarrow> BgContinuousTaskMgr \<Rightarrow> bool \<times> BgContinuousTaskMgr" where
  "StopContinuousTaskByUser e triggers mapKey isSubNotification deleteReason m =
     (if \<not> cm_isSysReady m then (False, m)
      else StopContinuousTaskByUserInner e mapKey isSubNotification
             (SetReason mapKey REMOVE_NOTIFICATION_CANCEL
               (if fst triggers \<le> deleteReason \<and> deleteReason \<le> snd triggers
                then SYSTEM_CANCEL_DATA_TRANSFER_NOT_UPDATE else USER_CANCEL_REMOVE_NOTIFICATION) m))"

section \<open>Abilities, apps, packages, accounts and system abilities\<close>

definition OnAbilityStateChanged :: "cenv \<Rightarrow> int \<Rightarrow> string \<Rightarrow> int \<Rightarrow> BgContinuousTaskMgr \<Rightarrow> BgContinuousTaskMgr" where
  "OnAbilityStateChanged e uid abilityName abilityId m =
     (if \<not> cm_isSysReady m then m
      else if abilityName = '''' then m
      else snd (StopBackgroundRunningByContext e uid abilityName abilityId m))"

text \<open>Erase the authorizations that satisfy a predicate, writing the file after each.\<close>

fun erase_auth :: "cenv \<Rightarrow> (BannerNotificationRecord \<Rightarrow> bool) \<Rightarrow> auth_table \<Rightarrow> BgContinuousTaskMgr \<Rightarrow> BgContinuousTaskMgr" where
  "erase_auth e P [] m = m"
| "erase_auth e P ((k, b) # bs) m =
     erase_auth e P bs
       (if P b
        then cm_saveAuth e (m\<lparr>cm_bannerNotificationRecord := om_del k (cm_bannerNotificationRecord m)\<rparr>) else m)"

definition OnAppStopped :: "cenv \<Rightarrow> int \<Rightarrow> BgContinuousTaskMgr \<Rightarrow> BgContinuousTaskMgr" where
  "OnAppStopped e uid m =
     (if \<not> cm_isSysReady m then m
      else
        let m1 = for_tasks (\<lambda>k r0 m.
              if ct_uid r0 \<noteq> uid then m
              else
                let r = r0\<lparr>ct_reason := SYSTEM_CANCEL\<rparr>;
                    m1 = OnContinuousTaskChanged r TASK_CANCEL (cm_set k r m);
                    m2 = (if ct_notificationId r \<noteq> -1
                          then cancel_notif e (ct_notificationLabel r) (ct_notificationId r) m1 else m1);
                    m3 = (if ct_subNotificationId r \<noteq> -1 \<and> ct_isByRequestObject r
                          then cancel_notif e (ct_subNotificationLabel r) (ct_subNotificationId r) m2 else m2)
                in cm_save e (HandleAppContinuousTaskStop (ct_uid r) (cm_erase k m3))) m
        in case ce_appIndexAndBundle e uid of
             None \<Rightarrow> m1
           | Some (appIndex, bundleName) \<Rightarrow>
               erase_auth e (\<lambda>b. bn_bundleName b = bundleName \<and> bn_appIndex b = appIndex \<and>
                                 bn_authResult b = AUTH_GRANTED_ONCE) (cm_bannerNotificationRecord m1) m1)"

text \<open>A task cancelled by the system: only its main notification is cancelled.\<close>

definition system_cancel :: "cenv \<Rightarrow> string \<Rightarrow> ContinuousTaskRecord \<Rightarrow> BgContinuousTaskMgr \<Rightarrow> BgContinuousTaskMgr" where
  "system_cancel e k r0 m =
     (let r = r0\<lparr>ct_reason := SYSTEM_CANCEL\<rparr>;
          m1 = cancel_notif e (ct_notificationLabel r) (ct_notificationId r)
                 (OnContinuousTaskChanged r TASK_CANCEL (cm_set k r m))
      in cm_save e (HandleAppContinuousTaskStop (ct_uid r) (cm_erase k m1)))"

datatype package_event =
    PACKAGE_ADDED | PACKAGE_REMOVED | BUNDLE_REMOVED | PACKAGE_FULLY_REMOVED | PACKAGE_CHANGED
  | PACKAGE_REPLACED | PACKAGE_DATA_CLEARED | OTHER_EVENT

definition OnBundleInfoChanged ::
    "cenv \<Rightarrow> package_event \<Rightarrow> string \<Rightarrow> int \<Rightarrow> int \<Rightarrow> int \<Rightarrow> BgContinuousTaskMgr \<Rightarrow> BgContinuousTaskMgr" where
  "OnBundleInfoChanged e action bundleName uid userId appIndex m =
     (if \<not> cm_isSysReady m then m
      else
        let m1 = m\<lparr>cm_cachedBundleInfos := AList.delete uid (cm_cachedBundleInfos m)\<rparr>
        in case action of
             OTHER_EVENT \<Rightarrow> m
           | PACKAGE_ADDED \<Rightarrow> m1
           | PACKAGE_DATA_CLEARED \<Rightarrow> for_tasks (\<lambda>k r m. if ct_uid r \<noteq> uid then m else system_cancel e k r m) m1
           | _ \<Rightarrow> erase_auth e (\<lambda>b. bn_userId b = userId \<and> bn_bundleName b = bundleName \<and> bn_appIndex b = appIndex)
                    (cm_bannerNotificationRecord m1) m1)"

definition ClearBgOsAccountTask :: "cenv \<Rightarrow> int list \<Rightarrow> BgContinuousTaskMgr \<Rightarrow> BgContinuousTaskMgr" where
  "ClearBgOsAccountTask e activatedOsAccountIds m =
     for_tasks (\<lambda>k r m. if ct_userId r \<notin> set activatedOsAccountIds then system_cancel e k r m else m) m"

text \<open>On a car the accounts in the foreground count.\<close>

definition ClearBgOsAccountTaskInCar :: "cenv \<Rightarrow> BgContinuousTaskMgr \<Rightarrow> BgContinuousTaskMgr" where
  "ClearBgOsAccountTaskInCar e m =
     (case ce_foregroundAccounts e of
        None \<Rightarrow> m
      | Some accounts \<Rightarrow>
          for_tasks (\<lambda>k r m. if ct_userId r \<notin> set accounts then system_cancel e k r m else m) m)"

definition OnAccountsStateChanged :: "cenv \<Rightarrow> int \<Rightarrow> BgContinuousTaskMgr \<Rightarrow> BgContinuousTaskMgr" where
  "OnAccountsStateChanged e accountId m =
     (case ce_activeAccounts e of None \<Rightarrow> m | Some ids \<Rightarrow> ClearBgOsAccountTask e ids m)"

definition HandleRemoveTaskByMode :: "cenv \<Rightarrow> bgmode \<Rightarrow> BgContinuousTaskMgr \<Rightarrow> BgContinuousTaskMgr" where
  "HandleRemoveTaskByMode e mode m =
     for_tasks (\<lambda>k r0 m.
       if ct_isFromWebview r0 \<and> CheckExistMode (ct_bgModeIds r0) mode
       then
         let r = r0\<lparr>ct_reason := SYSTEM_CANCEL\<rparr>;
             m1 = cm_erase k (OnContinuousTaskChanged r TASK_CANCEL (cm_set k r m))
         in snd (CancelNotification e r (cm_save e (HandleAppContinuousTaskStop (ct_uid r) m1)))
       else m) m"

definition cm_OnRemoveSystemAbility :: "int \<Rightarrow> BgContinuousTaskMgr \<Rightarrow> BgContinuousTaskMgr" where
  "cm_OnRemoveSystemAbility systemAbilityId m =
     (if \<not> cm_isSysReady m then m
      else if systemAbilityId = 65968 then cm_post (TaskRemoveByMode VOIP) m
      else if systemAbilityId = 9527 then cm_post (TaskRemoveByMode WORKOUT) m
      else if systemAbilityId = 65952 then cm_post (TaskRemoveByMode AUDIO_PLAYBACK) m
      else m)"

section \<open>Dump command\<close>

text \<open>\<^verbatim>\<open>--cancel_all\<close> cancels the main notifications only and leaves the reasons as they are.\<close>

definition DumpCancelTask :: "cenv \<Rightarrow> string list \<Rightarrow> bool \<Rightarrow> BgContinuousTaskMgr \<Rightarrow> BgContinuousTaskMgr" where
  "DumpCancelTask e dumpOption cleanAll m =
     (if cleanAll
      then
        let uids = sort (remdups (map (\<lambda>(_, r). ct_uid r) (cm_tasks m)));
            m1 = for_tasks (\<lambda>k r m. OnContinuousTaskChanged r TASK_CANCEL
                   (cancel_notif e (ct_notificationLabel r) (ct_notificationId r) m)) m;
            m2 = cm_save e (m1\<lparr>cm_continuousTaskInfosMap := []\<rparr>)
        in foldl (\<lambda>m uid. HandleAppContinuousTaskStop uid m) m2 uids
      else if length dumpOption < 3 then m
      else case map_of (cm_tasks m) (dumpOption ! 2) of
             None \<Rightarrow> m
           | Some r \<Rightarrow> snd (StopBackgroundRunningByTask e r m))"

end
