(* ===== verification/ContinuousUpdate.thy ===== *)
theory ContinuousUpdate
  imports ContinuousStop
begin

text \<open>
  Updating running tasks and listing them (\<^verbatim>\<open>bg_continuous_task_mgr.cpp\<close>). A record is changed in
  place as the checks proceed, so an update that is refused late has already changed it.
\<close>

section \<open>Updating\<close>

definition CheckIsSysReadyAndPermission :: "cenv \<Rightarrow> int \<Rightarrow> BgContinuousTaskMgr \<Rightarrow> ErrCode" where
  "CheckIsSysReadyAndPermission e callingUid m =
     (if \<not> cm_isSysReady m then ERR_BGTASK_SYS_NOT_READY
      else if \<not> ce_checkPermission e BGMODE_PERMISSION then ERR_BGTASK_PERMISSION_DENIED
      else if callingUid < 0 then ERR_BGTASK_INVALID_UID
      else ERR_OK)"

definition UpdateTaskNotification ::
    "cenv \<Rightarrow> ContinuousTaskParam \<Rightarrow> ContinuousTaskRecord \<Rightarrow> BgContinuousTaskMgr \<Rightarrow>
     ErrCode \<times> ContinuousTaskRecord \<times> BgContinuousTaskMgr" where
  "UpdateTaskNotification e p r0 m =
     (let mainLabel = GetMainAbilityLabel e (ct_bundleName r0) (ct_userId r0)
      in if mainLabel = '''' then (ERR_BGTASK_NOTIFICATION_VERIFY_FAILED, r0, m)
         else
           let r1 = (if \<not> ct_isCombinedTaskNotification r0
                     then r0\<lparr>ct_bgModeId := cp_bgModeId p, ct_bgModeIds := cp_bgModeIds p,
                             ct_bgSubModeIds := cp_bgSubModeIds p\<rparr> else r0);
               r2 = r1\<lparr>ct_wantAgent := cp_wantAgent p\<rparr>;
               r = (case cp_wantAgent p of
                      Some (Some want) \<Rightarrow> r2\<lparr>ct_wantAgentInfo := Some (want_info want)\<rparr> | _ \<Rightarrow> r2)
           in if ct_isCombinedTaskNotification r
              then (if CheckModesSame (ct_bgModeIds r0) (cp_bgModeIds p)
                    then let (ret, m1) = RefreshContinuousNotificationWantAndContext e
                               [(ct_notificationLabel r, mainLabel, '''')] r False m
                         in (ret, r, m1)
                    else (ERR_BGTASK_CONTINUOUS_UPDATE_FAIL_SAME_MODE_AND_MERGED, r, m))
              else
                let (txt, r') = GetNotificationText e r m
                in if txt = '''' then (ERR_OK, r', m)
                   else if ct_notificationId r' = -1 then SendContinuousTaskNotification e r' m
                   else let (ret, m1) = RefreshContinuousNotificationWantAndContext e
                              [(ct_notificationLabel r', mainLabel, txt)] r' True m
                        in (ret, r', m1))"

text \<open>
  The out parameters are the ids of the notification and the task. Finding the row again after the
  suspended tasks of the app were activated gives the record as the pointer would show it.
\<close>

definition UpdateTaskInfo ::
    "cenv \<Rightarrow> ContinuousTaskParam \<Rightarrow> string \<Rightarrow> ContinuousTaskRecord \<Rightarrow> BgContinuousTaskMgr \<Rightarrow>
     ErrCode \<times> (int \<times> int) option \<times> BgContinuousTaskMgr" where
  "UpdateTaskInfo e p key r0 m =
     (let (ret, r, m1) = UpdateTaskNotification e p r0 m;
          m2 = cm_set key r m1
      in if ret \<noteq> ERR_OK then (ret, None, m2)
         else
           let m3 = (if ct_suspendState r
                     then HandleActiveContinuousTask e (ct_uid r) (ct_pid r) (task_key (r\<lparr>ct_isByRequestObject := True\<rparr>)) m2
                     else m2);
               r1 = (case map_of (cm_tasks m3) key of Some r1 \<Rightarrow> r1 | None \<Rightarrow> r);
               (ret1, m4) = RefreshTaskRecord e (OnContinuousTaskChanged r1 TASK_UPDATE m3)
           in (ret1, Some (ct_notificationId r1, ct_continuousTaskId r1), m4))"

definition UpdateBackgroundRunningByTaskIdInner ::
    "cenv \<Rightarrow> int \<Rightarrow> ContinuousTaskParam \<Rightarrow> BgContinuousTaskMgr \<Rightarrow> ErrCode \<times> (int \<times> int) option \<times> BgContinuousTaskMgr" where
  "UpdateBackgroundRunningByTaskIdInner e uid p m =
     (if uid \<in> cm_disableRequestUidList m then (ERR_BGTASK_MALICIOUS_CONTINUOUSTASK, None, m)
      else if cp_updateTaskId p < 0 then (ERR_BGTASK_CONTINUOUS_TASKID_INVALID, None, m)
      else case find_task (\<lambda>t. ct_continuousTaskId t = cp_updateTaskId p \<and> ct_isByRequestObject t) (cm_tasks m) of
             None \<Rightarrow> (ERR_BGTASK_OBJECT_NOT_EXIST, None, m)
           | Some (key, r) \<Rightarrow>
               let ret = check_modes e (GetBackgroundModeInfo uid (ct_abilityName r) m) True r (cp_bgModeIds p)
               in if ret \<noteq> ERR_OK then (ret, None, m)
                  else if CheckExistMode (ct_bgModeIds r) DATA_TRANSFER \<or> CheckExistMode (cp_bgModeIds p) DATA_TRANSFER
                  then (ERR_BGTASK_CONTINUOUS_DATA_TRANSFER_NOT_UPDATE, None, m)
                  else if cp_progressInfo p \<noteq> None then (ERR_BGTASK_CONTINUOUS_PROGRESS_INFO_INVALID, None, m)
                  else if CheckExistMode (ct_bgModeIds r) SPECIAL_SCENARIO_PROCESSING \<and> cp_isCombinedTaskNotification p
                  then (ERR_BGTASK_CONTINUOUS_SPECIAL_SCENARIO_PROCESSING_NOT_MERGE_NOTIFICATION, None, m)
                  else UpdateTaskInfo e p key r m)"

definition UpdateBackgroundRunningInner ::
    "cenv \<Rightarrow> string \<Rightarrow> ContinuousTaskParam \<Rightarrow> BgContinuousTaskMgr \<Rightarrow> ErrCode \<times> (int \<times> int) option \<times> BgContinuousTaskMgr" where
  "UpdateBackgroundRunningInner e key p m =
     (case map_of (cm_tasks m) key of
        None \<Rightarrow> (ERR_BGTASK_OBJECT_NOT_EXIST, None, m)
      | Some r0 \<Rightarrow>
          if ct_uid r0 \<in> cm_disableRequestUidList m then (ERR_BGTASK_MALICIOUS_CONTINUOUSTASK, None, m)
          else if CheckModesSame (ct_bgModeIds r0) (cp_bgModeIds p) then (ERR_OK, None, m)
          else
            let r1 = (if \<not> CheckExistMode (cp_bgModeIds p) BLUETOOTH_INTERACTION \<and> ct_bgSubModeIds r0 \<noteq> []
                      then r0\<lparr>ct_bgSubModeIds := []\<rparr> else r0);
                m1 = cm_set key r1 m;
                ret = check_modes e (GetBackgroundModeInfo (ct_uid r1) (ct_abilityName r1) m1) True r1 (cp_bgModeIds p)
            in if ret \<noteq> ERR_OK then (ret, None, m1)
               else
                 let r2 = r1\<lparr>ct_bgModeIds := cp_bgModeIds p, ct_isBatchApi := cp_isBatchApi p\<rparr>;
                     (ret1, r3, m2) =
                       (if CheckExistMode (ct_bgModeIds r0) DATA_TRANSFER \<and> CheckExistMode (ct_bgModeIds r2) DATA_TRANSFER
                        then (ERR_OK, r2, m1) else SendContinuousTaskNotification e r2 m1);
                     m3 = cm_set key r3 m2
                 in if ret1 \<noteq> ERR_OK then (ret1, None, m3)
                    else
                      let m4 = (if ct_suspendState r3
                                then HandleActiveContinuousTask e (ct_uid r3) (ct_pid r3) key m3 else m3);
                          r4 = (case map_of (cm_tasks m4) key of Some r4 \<Rightarrow> r4 | None \<Rightarrow> r3);
                          (ret2, m5) = RefreshTaskRecord e (OnContinuousTaskChanged r4 TASK_UPDATE m4)
                      in (ret2, Some (ct_notificationId r4, ct_continuousTaskId r4), m5))"

definition UpdateBackgroundRunning ::
    "cenv \<Rightarrow> ContinuousTaskParam \<Rightarrow> BgContinuousTaskMgr \<Rightarrow> ErrCode \<times> (int \<times> int) option \<times> BgContinuousTaskMgr" where
  "UpdateBackgroundRunning e p m =
     (let uid = ce_callingUid e;
          ret = CheckIsSysReadyAndPermission e uid m
      in if ret \<noteq> ERR_OK then (ret, None, m)
         else if cp_isByRequestObject p then UpdateBackgroundRunningByTaskIdInner e uid p m
         else UpdateBackgroundRunningInner e
                (to_string uid @ ''_'' @ cp_abilityName p @ ''_'' @ to_string (cp_abilityId p)) p m)"

definition UpdateDataTransferProgressInner ::
    "cenv \<Rightarrow> int \<Rightarrow> DataTransferProgress \<Rightarrow> BgContinuousTaskMgr \<Rightarrow> ErrCode \<times> BgContinuousTaskMgr" where
  "UpdateDataTransferProgressInner e uid d m =
     (if dp_continuousTaskId d < 0 then (ERR_BGTASK_CONTINUOUS_TASKID_INVALID, m)
      else if dp_progressInfo d = None then (ERR_BGTASK_CONTINUOUS_PROGRESS_INFO_INVALID, m)
      else case find_task (\<lambda>t. ct_continuousTaskId t = dp_continuousTaskId d \<and> ct_uid t = uid) (cm_tasks m) of
             None \<Rightarrow> (ERR_BGTASK_OBJECT_NOT_EXIST, m)
           | Some (key, r0) \<Rightarrow>
               if \<not> CheckExistMode (ct_bgModeIds r0) DATA_TRANSFER then (ERR_BGTASK_CONTINUOUS_NOT_DATA_TRANSFER, m)
               else
                 let r1 = (if dp_wantAgent d \<noteq> None then r0\<lparr>ct_wantAgent := dp_wantAgent d\<rparr> else r0);
                     (ret, r2, m1) = SendContinuousTaskNotification e (r1\<lparr>ct_progressInfo := dp_progressInfo d\<rparr>) m;
                     m2 = cm_set key r2 m1
                 in if ret \<noteq> ERR_OK then (ret, m2) else RefreshTaskRecord e m2)"

definition UpdateDataTransferProgress ::
    "cenv \<Rightarrow> DataTransferProgress \<Rightarrow> BgContinuousTaskMgr \<Rightarrow> ErrCode \<times> BgContinuousTaskMgr" where
  "UpdateDataTransferProgress e d m =
     (let ret = CheckIsSysReadyAndPermission e (ce_callingUid e) m
      in if ret \<noteq> ERR_OK then (ret, m) else UpdateDataTransferProgressInner e (ce_callingUid e) d m)"

definition EnableContinuousTaskRequest :: "int \<Rightarrow> bool \<Rightarrow> BgContinuousTaskMgr \<Rightarrow> ErrCode \<times> BgContinuousTaskMgr" where
  "EnableContinuousTaskRequest uid isEnable m =
     (if \<not> cm_isSysReady m then (ERR_BGTASK_SYS_NOT_READY, m)
      else (ERR_OK, m\<lparr>cm_disableRequestUidList :=
              (if isEnable then cm_disableRequestUidList m - {uid} else insert uid (cm_disableRequestUidList m))\<rparr>))"

section \<open>Listing\<close>

definition task_info :: "ContinuousTaskRecord \<Rightarrow> ContinuousTaskInfo" where
  "task_info r =
     \<lparr>ti_abilityName = ct_abilityName r, ti_uid = ct_uid r, ti_pid = ct_pid r, ti_isFromWebView = ct_isFromWebview r,
      ti_backgroundModes = ct_bgModeIds r, ti_backgroundSubModes = ct_bgSubModeIds r,
      ti_notificationId = ct_notificationId r, ti_continuousTaskId = ct_continuousTaskId r,
      ti_abilityId = ct_abilityId r,
      ti_wantAgentBundleName = (case ct_wantAgentInfo r of Some i \<Rightarrow> wi_bundleName i | None \<Rightarrow> ''NULL''),
      ti_wantAgentAbilityName = (case ct_wantAgentInfo r of Some i \<Rightarrow> wi_abilityName i | None \<Rightarrow> ''NULL''),
      ti_suspendState = False, ti_bundleName = ct_bundleName r, ti_appIndex = ct_appIndex r, ti_isByRequestObject = ct_isByRequestObject r\<rparr>"

definition GetAllContinuousTasksInner :: "int \<Rightarrow> bool \<Rightarrow> bool \<Rightarrow> BgContinuousTaskMgr \<Rightarrow> ContinuousTaskInfo list" where
  "GetAllContinuousTasksInner uid includeSuspended exemptUid m =
     map (\<lambda>(_, r). task_info r)
       (filter (\<lambda>(_, r). (exemptUid \<or> ct_uid r = uid) \<and> (includeSuspended \<or> \<not> ct_suspendState r)) (cm_tasks m))"

text \<open>The first form of the request lists suspended tasks as well.\<close>

definition GetAllContinuousTasks :: "cenv \<Rightarrow> bool option \<Rightarrow> BgContinuousTaskMgr \<Rightarrow> ErrCode \<times> ContinuousTaskInfo list" where
  "GetAllContinuousTasks e includeSuspended m =
     (let ret = CheckIsSysReadyAndPermission e (ce_callingUid e) m
      in if ret \<noteq> ERR_OK then (ret, [])
         else (ERR_OK, GetAllContinuousTasksInner (ce_callingUid e)
                 (case includeSuspended of None \<Rightarrow> True | Some b \<Rightarrow> b) False m))"

definition GetAllContinuousTasksBySystem :: "BgContinuousTaskMgr \<Rightarrow> ErrCode \<times> ContinuousTaskInfo list" where
  "GetAllContinuousTasksBySystem m =
     (if \<not> cm_isSysReady m then (ERR_BGTASK_SYS_NOT_READY, [])
      else (ERR_OK, GetAllContinuousTasksInner (-1) False True m))"

definition RequestGetContinuousTasksByUidForInner :: "int \<Rightarrow> BgContinuousTaskMgr \<Rightarrow> ErrCode \<times> ContinuousTaskInfo list" where
  "RequestGetContinuousTasksByUidForInner uid m =
     (if \<not> cm_isSysReady m then (ERR_BGTASK_SYS_NOT_READY, [])
      else (ERR_OK, GetAllContinuousTasksInner uid True False m))"

definition app_info :: "ContinuousTaskRecord \<Rightarrow> ContinuousTaskCallbackInfo" where
  "app_info r =
     (callback_info r)\<lparr>cb_cancelReason := -1, cb_detailedCancelReason := -1, cb_bundleName := '''', cb_userId := 0,
        cb_appIndex := -1, cb_backgroundSubModes := [], cb_notificationId := -1, cb_wantAgentBundleName := '''',
        cb_wantAgentAbilityName := '''', cb_isStandby := False, cb_isFromComponent := False\<rparr>"

definition GetContinuousTaskAppsInner :: "int \<Rightarrow> bool \<Rightarrow> BgContinuousTaskMgr \<Rightarrow> ContinuousTaskCallbackInfo list" where
  "GetContinuousTaskAppsInner uid includeSuspended m =
     map (\<lambda>(_, r). app_info r)
       (filter (\<lambda>(_, r). (uid = -1 \<or> uid = ct_uid r) \<and> (\<not> ct_suspendState r \<or> includeSuspended)) (cm_tasks m))"

definition GetContinuousTaskApps :: "int \<Rightarrow> BgContinuousTaskMgr \<Rightarrow> ErrCode \<times> ContinuousTaskCallbackInfo list" where
  "GetContinuousTaskApps uid m =
     (if \<not> cm_isSysReady m then (ERR_BGTASK_SYS_NOT_READY, []) else (ERR_OK, GetContinuousTaskAppsInner uid False m))"

definition GetAllContinuousTaskApps :: "BgContinuousTaskMgr \<Rightarrow> ErrCode \<times> ContinuousTaskCallbackInfo list" where
  "GetAllContinuousTaskApps m =
     (if \<not> cm_isSysReady m then (ERR_BGTASK_SYS_NOT_READY, []) else (ERR_OK, GetContinuousTaskAppsInner (-1) True m))"

end
