(* ===== verification/ContinuousEvents.thy ===== *)
theory ContinuousEvents
  imports ContinuousUpdate
begin

text \<open>
  The remaining events of \<^verbatim>\<open>bg_continuous_task_mgr.cpp\<close>: apps moving between foreground and
  background, media sessions, live views, audio that starts, changed resources, the start of the
  service with what it restores, and the dispatch of posted tasks.
\<close>

section \<open>Foreground and background\<close>

text \<open>Append the modes that are not there yet, each once.\<close>

fun add_modes :: "bgmode list \<Rightarrow> bgmode list \<Rightarrow> bgmode list" where
  "add_modes applied [] = applied"
| "add_modes applied (mode # modes) = add_modes (if mode \<in> set applied then applied else applied @ [mode]) modes"

definition OnAppStateChanged :: "cenv \<Rightarrow> int \<Rightarrow> bool \<Rightarrow> bool \<Rightarrow> BgContinuousTaskMgr \<Rightarrow> BgContinuousTaskMgr" where
  "OnAppStateChanged e uid isForeground isGamePrelaunch m =
     (if \<not> cm_isSysReady m then m
      else if isForeground
      then
        let m1 = m\<lparr>cm_appOnForeground := insert uid (cm_appOnForeground m)\<rparr>
        in if ce_gamePreLaunch e \<and> \<not> isGamePrelaunch \<and> IsGamePreLaunchApp uid m1
           then RemoveGamePreLaunchApp uid m1 else m1
      else
        let m1 = m\<lparr>cm_appOnForeground := cm_appOnForeground m - {uid},
                   cm_applyTaskOnForeground := AList.delete uid (cm_applyTaskOnForeground m)\<rparr>
        in if cm_tasks m1 = [] then m1
           else m1\<lparr>cm_applyTaskOnForeground := hm_emplace uid
                  (foldl (\<lambda>applied (_, r). if ct_uid r \<noteq> uid then applied else add_modes applied (ct_bgModeIds r))
                    [] (cm_tasks m1)) (cm_applyTaskOnForeground m1)\<rparr>)"

section \<open>Media sessions\<close>

text \<open>Removing the named task removes the pending ones of every app.\<close>

definition RemoveAudioPlaybackDelayTask :: "int \<Rightarrow> BgContinuousTaskMgr \<Rightarrow> BgContinuousTaskMgr" where
  "RemoveAudioPlaybackDelayTask uid m =
     (if uid \<notin> cm_delayTasks m then m
      else m\<lparr>cm_posted := filter (\<lambda>t. case t of TaskAvSession _ _ _ \<Rightarrow> False | _ \<Rightarrow> True) (cm_posted m),
             cm_delayTasks := cm_delayTasks m - {uid}\<rparr>)"

definition AVSessionNotifyUpdateNotificationInner ::
    "cenv \<Rightarrow> int \<Rightarrow> int \<Rightarrow> bool \<Rightarrow> BgContinuousTaskMgr \<Rightarrow> ErrCode \<times> BgContinuousTaskMgr" where
  "AVSessionNotifyUpdateNotificationInner e uid pid isPublish m0 =
     (let m1 = m0\<lparr>cm_avSessionNotification := AList.update uid isPublish (cm_avSessionNotification m0)\<rparr>;
          m = (if isPublish then RemoveAudioPlaybackDelayTask uid m1 else m1)
      in case find_task (\<lambda>t. ct_uid t = uid) (cm_tasks m) of
           None \<Rightarrow> (ERR_BGTASK_OBJECT_NOT_EXIST, RemoveAudioPlaybackDelayTask uid m)
         | Some (key, r) \<Rightarrow>
             if \<not> ct_audioDetectState r
             then (ERR_OK, RemoveAudioPlaybackDelayTask uid (cm_set key (r\<lparr>ct_audioDetectState := True\<rparr>) m))
             else if \<not> isPublish \<and> CheckExistMode (ct_bgSubModeIds r) SUBMODE_AVSESSION_AUDIO_PLAYBACK
             then (ERR_OK, RemoveAudioPlaybackDelayTask uid m)
             else if \<not> isPublish \<and> ct_bgModeIds r = [AUDIO_PLAYBACK]
             then let (ret, r1, m2) = SendContinuousTaskNotification e r m
                  in (ret, RemoveAudioPlaybackDelayTask uid (cm_save e (cm_set key r1 m2)))
             else if CheckExistMode (ct_bgModeIds r) DATA_TRANSFER then (ERR_OK, RemoveAudioPlaybackDelayTask uid m)
             else
               let label = GetMainAbilityLabel e (ct_bundleName r) (ct_userId r);
                   (txt, r1) = GetNotificationText e r m;
                   (ret, m3) =
                     (if txt = ''''
                      then let (c, m2) = nt_CancelNotification e (ct_notificationLabel r1) (ct_notificationId r1) m
                           in (c, cm_set key (r1\<lparr>ct_notificationId := -1\<rparr>) m2)
                      else (ERR_OK, RefreshContinuousNotifications e [(ct_notificationLabel r1, label, txt)] (cm_set key r1 m)))
               in (ret, RemoveAudioPlaybackDelayTask uid (cm_save e m3)))"

definition AVSessionNotifyUpdateNotification ::
    "cenv \<Rightarrow> int \<Rightarrow> int \<Rightarrow> bool \<Rightarrow> BgContinuousTaskMgr \<Rightarrow> ErrCode \<times> BgContinuousTaskMgr" where
  "AVSessionNotifyUpdateNotification e uid pid isPublish m =
     (if \<not> cm_isSysReady m then (ERR_BGTASK_SYS_NOT_READY, m)
      else if ce_callingUid e \<noteq> 6700 then (ERR_BGTASK_CHECK_TASK_PARAM, m)
      else if isPublish then AVSessionNotifyUpdateNotificationInner e uid pid isPublish m
      else (ERR_OK, (cm_post (TaskAvSession uid pid isPublish) m)\<lparr>cm_delayTasks := insert uid (cm_delayTasks m)\<rparr>))"

text \<open>The keys come from a set, in ascending order.\<close>

fun dete_loop :: "cenv \<Rightarrow> string list \<Rightarrow> BgContinuousTaskMgr \<Rightarrow> BgContinuousTaskMgr" where
  "dete_loop e [] m = m"
| "dete_loop e (key # keys) m =
     dete_loop e keys
       (case map_of (cm_tasks m) key of
          None \<Rightarrow> m
        | Some r \<Rightarrow>
            let (r1, m1) = HandleActiveNotification e r
                  (m\<lparr>cm_avSessionNotification := AList.update (ct_uid r) False (cm_avSessionNotification m)\<rparr>)
            in cm_set key r1 m1)"

definition SendNotificationByDeteTask :: "cenv \<Rightarrow> string list \<Rightarrow> BgContinuousTaskMgr \<Rightarrow> ErrCode \<times> BgContinuousTaskMgr" where
  "SendNotificationByDeteTask e taskKeys m =
     (if \<not> cm_isSysReady m then (ERR_BGTASK_SYS_NOT_READY, m)
      else (ERR_OK, dete_loop e (sort (remdups taskKeys)) m))"

section \<open>Live views\<close>

definition CancelBgTaskNotification :: "cenv \<Rightarrow> int \<Rightarrow> BgContinuousTaskMgr \<Rightarrow> BgContinuousTaskMgr" where
  "CancelBgTaskNotification e uid m =
     (if \<not> cm_isSysReady m then m
      else for_tasks (\<lambda>k r m.
        if ct_uid r \<noteq> uid \<or> ct_notificationId r = -1 \<or> \<not> CheckLiveViewInfoModes r then m
        else cm_save e (cm_set k (r\<lparr>ct_notificationId := -1\<rparr>)
               (cancel_notif e (ct_notificationLabel r) (ct_notificationId r) m))) m)"

definition SendNotificationByLiveViewCancel :: "cenv \<Rightarrow> int \<Rightarrow> BgContinuousTaskMgr \<Rightarrow> BgContinuousTaskMgr" where
  "SendNotificationByLiveViewCancel e uid m =
     (if \<not> cm_isSysReady m then m
      else for_tasks (\<lambda>k r m.
        if ct_uid r \<noteq> uid \<or> ct_notificationId r \<noteq> -1 then m
        else let (_, r1, m1) = SendContinuousTaskNotification e r m in cm_save e (cm_set k r1 m1)) m)"

section \<open>Audio that starts\<close>

text \<open>The prompts collected so far; \<open>None\<close> when the loop is left early.\<close>

fun audio_start_loop ::
    "int \<Rightarrow> string \<Rightarrow> string list \<Rightarrow> (string \<times> string \<times> string) list \<Rightarrow> BgContinuousTaskMgr \<Rightarrow>
     (string \<times> string \<times> string) list option \<times> BgContinuousTaskMgr" where
  "audio_start_loop uid appName [] infos m = (Some infos, m)"
| "audio_start_loop uid appName (k # ks) infos m =
     (case map_of (cm_tasks m) k of
        None \<Rightarrow> audio_start_loop uid appName ks infos m
      | Some r \<Rightarrow>
          if ct_audioPlayState r \<or> ct_notificationId r = -1 \<or> ct_uid r \<noteq> uid then audio_start_loop uid appName ks infos m
          else case text_at (cm_continuousTaskText m) (GetBgModeNameIndex AUDIO_PLAYBACK (ct_isNewApi r)) of
                 None \<Rightarrow> (None, m)
               | Some txt \<Rightarrow>
                   if txt = '''' then (None, m)
                   else audio_start_loop uid appName ks
                          (if map_of infos (ct_notificationLabel r) = None
                           then om_put (ct_notificationLabel r) (appName, txt) infos else infos)
                          (cm_set k (r\<lparr>ct_audioPlayState := True\<rparr>) m))"

definition NotifyAudioStartInner :: "cenv \<Rightarrow> int \<Rightarrow> BgContinuousTaskMgr \<Rightarrow> BgContinuousTaskMgr" where
  "NotifyAudioStartInner e uid m =
     (case find_task (\<lambda>t. ct_uid t = uid \<and> \<not> ct_audioPlayState t \<and> ct_notificationId t > 0) (cm_tasks m) of
        None \<Rightarrow> m
      | Some (_, r) \<Rightarrow>
          let appName = GetMainAbilityLabel e (ct_bundleName r) (ct_userId r)
          in if appName = '''' then m
             else case audio_start_loop uid appName (map fst (cm_tasks m)) [] m of
                    (None, m1) \<Rightarrow> m1
                  | (Some [], m1) \<Rightarrow> m1
                  | (Some infos, m1) \<Rightarrow> cm_save e (RefreshContinuousNotifications e infos m1))"

definition NotifyAudioStart :: "int \<Rightarrow> BgContinuousTaskMgr \<Rightarrow> ErrCode \<times> BgContinuousTaskMgr" where
  "NotifyAudioStart uid m =
     (if \<not> cm_isSysReady m then (ERR_BGTASK_SYS_NOT_READY, m) else (ERR_OK, cm_post (TaskAudioStart uid) m))"

section \<open>Changed resources\<close>

definition InitSubNotificationRecord :: "ContinuousTaskRecord \<Rightarrow> ContinuousTaskRecord" where
  "InitSubNotificationRecord r =
     (let (modes, subModes) = other_modes r
      in r\<lparr>ct_bgModeIds := modes, ct_bgSubModeIds := subModes,
           ct_bgModeId := (if subModes \<noteq> [] then hd modes else ct_bgModeId r)\<rparr>)"

fun resources_loop ::
    "cenv \<Rightarrow> string list \<Rightarrow> (string \<times> string \<times> string) list \<Rightarrow> BgContinuousTaskMgr \<Rightarrow>
     (string \<times> string \<times> string) list \<times> BgContinuousTaskMgr" where
  "resources_loop e [] infos m = (infos, m)"
| "resources_loop e (k # ks) infos m =
     (case map_of (cm_tasks m) k of
        None \<Rightarrow> resources_loop e ks infos m
      | Some r \<Rightarrow>
          let appName = GetMainAbilityLabel e (ct_bundleName r) (ct_userId r);
              add = (\<lambda>label txt. if map_of infos label = None then om_put label (appName, txt) infos else infos)
          in if ct_subNotificationId r \<noteq> -1 \<and> ct_subNotificationLabel r \<noteq> ''''
             then let (ret, txt, _) = CheckNotificationText e (InitSubNotificationRecord r) m
                  in resources_loop e ks
                       (if ret = ERR_OK \<and> txt \<noteq> '''' then add (ct_subNotificationLabel r) txt else infos) m
             else if \<not> CheckExistMode (ct_bgModeIds r) DATA_TRANSFER
             then let (txt, r1) = GetNotificationText e r m
                  in resources_loop e ks (add (ct_notificationLabel r) txt) (cm_set k r1 m)
             else resources_loop e ks infos m)"

definition FormatBannerNotificationContext :: "cenv \<Rightarrow> string \<Rightarrow> string option" where
  "FormatBannerNotificationContext e appName =
     (if \<not> ce_resources e then None
      else let content = ce_format e ''text_banner_notification_allow_background_keepalive'' [appName]
           in if content = '''' then None else Some content)"

fun banner_resources_loop :: "cenv \<Rightarrow> string list \<Rightarrow> BgContinuousTaskMgr \<Rightarrow> BgContinuousTaskMgr" where
  "banner_resources_loop e [] m = m"
| "banner_resources_loop e (k # ks) m =
     (case map_of (cm_bannerNotificationRecord m) k of
        None \<Rightarrow> banner_resources_loop e ks m
      | Some b \<Rightarrow>
          let appName = GetMainAbilityLabel e (bn_bundleName b) (bn_userId b);
              m1 = m\<lparr>cm_bannerNotificationRecord :=
                       map_vals (\<lambda>k' b0. if k' = k then b\<lparr>bn_appName := appName\<rparr> else b0) (cm_bannerNotificationRecord m)\<rparr>
          in banner_resources_loop e ks
               (case FormatBannerNotificationContext e appName of
                  None \<Rightarrow> m1
                | Some txt \<Rightarrow> RefreshBannerNotifications e [(bn_notificationLabel b, appName, txt)] m1))"

text \<open>Runs also while the service is not ready: the check only logs.\<close>

definition OnBundleResourcesChanged :: "cenv \<Rightarrow> BgContinuousTaskMgr \<Rightarrow> BgContinuousTaskMgr" where
  "OnBundleResourcesChanged e m =
     (let m1 = (snd (GetNotificationPrompt e m))\<lparr>cm_cachedBundleInfos := []\<rparr>;
          (infos, m2) = resources_loop e (map fst (cm_tasks m1)) [] m1;
          m3 = RefreshContinuousNotifications e infos m2
      in banner_resources_loop e (map fst (cm_bannerNotificationRecord m3)) m3)"

section \<open>Start of the service\<close>

definition RestoreApplyRecord :: "cenv \<Rightarrow> BgContinuousTaskMgr \<Rightarrow> BgContinuousTaskMgr" where
  "RestoreApplyRecord e m =
     (case ce_foreground e of
        None \<Rightarrow> m\<lparr>cm_appOnForeground := {}\<rparr>
      | Some uids \<Rightarrow>
          m\<lparr>cm_appOnForeground := set uids,
            cm_applyTaskOnForeground := foldl (\<lambda>t (_, r).
              case map_of t (ct_uid r) of
                None \<Rightarrow> t @ [(ct_uid r, ct_bgModeIds r)]
              | Some applied \<Rightarrow> AList.delete (ct_uid r) t @ [(ct_uid r, add_modes applied (ct_bgModeIds r))])
              [] (cm_tasks m)\<rparr>)"

definition checkPidCondition :: "(int \<times> int) list \<Rightarrow> int \<Rightarrow> bool" where
  "checkPidCondition allProcesses pid \<longleftrightarrow> list_ex (\<lambda>(_, p). p = pid) allProcesses"

definition CheckProcessUidInfo :: "(int \<times> int) list \<Rightarrow> int \<Rightarrow> bool" where
  "CheckProcessUidInfo allProcesses uid \<longleftrightarrow> list_ex (\<lambda>(u, _). u = uid) allProcesses"

definition restore_body ::
    "cenv \<Rightarrow> (int \<times> int) list \<Rightarrow> string \<Rightarrow> ContinuousTaskRecord \<Rightarrow> BgContinuousTaskMgr \<Rightarrow> BgContinuousTaskMgr" where
  "restore_body e allProcesses k r m =
     (if checkPidCondition allProcesses (ct_pid r)
      then (if ct_notificationId r = -1 then m
            else let (r1, m1) = HandleActiveNotification e r (snd (SetCachedBundleInfo e r m)) in cm_set k r1 m1)
      else snd (CancelNotification e r (cm_erase k m)))"

text \<open>The largest ids are those of the restored records, also of those that are dropped.\<close>

definition cm_CheckPersistenceData :: "cenv \<Rightarrow> (int \<times> int) list \<Rightarrow> BgContinuousTaskMgr \<Rightarrow> BgContinuousTaskMgr" where
  "cm_CheckPersistenceData e allProcesses m =
     (let maxNotificationId = foldl (\<lambda>a (_, r). max a (ct_notificationId r)) (-1) (cm_tasks m);
          maxContinuousTaskId = foldl (\<lambda>a (_, r). max a (ct_continuousTaskId r)) (-1) (cm_tasks m);
          m1 = for_tasks (restore_body e allProcesses) m;
          m2 = (if maxNotificationId \<noteq> -1 then SetNotificationIdIndex maxNotificationId m1 else m1)
      in if maxContinuousTaskId \<noteq> -1 then m2\<lparr>cm_continuousTaskIdIndex := maxContinuousTaskId\<rparr> else m2)"

definition cm_RestoreAuthRecord :: "cenv \<Rightarrow> BgContinuousTaskMgr \<Rightarrow> ErrCode \<times> BgContinuousTaskMgr" where
  "cm_RestoreAuthRecord e m =
     (let (ret, t) = ds_RestoreAuthRecord (cm_authStored m) (cm_bannerNotificationRecord m);
          m1 = m\<lparr>cm_bannerNotificationRecord := t\<rparr>
      in (ret, if ret = ERR_OK then cm_saveAuth e m1 else m1))"

definition cm_HandlePersistenceData :: "cenv \<Rightarrow> BgContinuousTaskMgr \<Rightarrow> BgContinuousTaskMgr" where
  "cm_HandlePersistenceData e m =
     (let m1 = m\<lparr>cm_continuousTaskInfosMap := snd (ds_RestoreTaskRecord (ce_split e) (cm_stored m) (cm_tasks m))\<rparr>
      in case ce_running e of
           None \<Rightarrow> m1
         | Some allProcesses \<Rightarrow>
             let m2 = RestoreApplyRecord e (cm_save e (cm_CheckPersistenceData e allProcesses m1))
             in cm_saveAuth e (snd (cm_RestoreAuthRecord e m2)))"

definition InitRequiredResourceInfo :: "cenv \<Rightarrow> BgContinuousTaskMgr \<Rightarrow> BgContinuousTaskMgr" where
  "InitRequiredResourceInfo e m =
     (cm_HandlePersistenceData e (snd (GetNotificationPrompt e (InitNotificationText m))))\<lparr>cm_isSysReady := True\<rparr>"

text \<open>Registering with the notification and event services may fail, and then nothing happens any more.\<close>

definition cm_InitNecessaryState :: "cenv \<Rightarrow> BgContinuousTaskMgr \<Rightarrow> BgContinuousTaskMgr" where
  "cm_InitNecessaryState e m =
     (if \<not> ce_dependsReady e then cm_post TaskInitNecessaryState m
      else if \<not> ce_registered e then m
      else InitRequiredResourceInfo e m)"

definition cm_Init :: "cenv \<Rightarrow> bool \<Rightarrow> BgContinuousTaskMgr \<Rightarrow> bool \<times> BgContinuousTaskMgr" where
  "cm_Init e runner m =
     (if \<not> runner then (False, m)
      else (True, cm_post TaskReclaimMemory (cm_InitNecessaryState e (m\<lparr>cm_bgTaskUid := ce_callingUid e\<rparr>))))"

section \<open>Posted tasks\<close>

fun run_task :: "cenv \<Rightarrow> cont_task \<Rightarrow> BgContinuousTaskMgr \<Rightarrow> BgContinuousTaskMgr" where
  "run_task e (TaskStop uid pid taskType key) m = HandleStopContinuousTask e uid pid taskType key m"
| "run_task e (TaskSuspend uid pid reason key isStandby) m = run_suspend e uid pid reason key isStandby m"
| "run_task e (TaskActive uid pid key isStandby) m = run_active e uid pid key isStandby m"
| "run_task e (TaskSuspendAudio uid) m = HandleSuspendContinuousAudioTask e uid m"
| "run_task e (TaskAvSession uid pid isPublish) m = snd (AVSessionNotifyUpdateNotificationInner e uid pid isPublish m)"
| "run_task e (TaskRemoveByMode mode) m = HandleRemoveTaskByMode e mode m"
| "run_task e (TaskAudioStart uid) m = NotifyAudioStartInner e uid m"
| "run_task e TaskInitNecessaryState m = cm_InitNecessaryState e m"
| "run_task e TaskReclaimMemory m = m"

end
