(* ===== verification/ContinuousDump.thy ===== *)
theory ContinuousDump
  imports ContinuousEvents
begin

text \<open>
  The dump command for continuous tasks (\<^verbatim>\<open>bg_continuous_task_mgr.cpp\<close> and
  \<^verbatim>\<open>bg_continuous_task_dumper.cpp\<close>).
\<close>

section \<open>Text\<close>

definition yes_no :: "bool \<Rightarrow> string" where
  "yes_no b = (if b then ''true'' else ''false'')"

definition field_line :: "string \<Rightarrow> string \<Rightarrow> string" where
  "field_line name value = [CHR 0x09, CHR 0x09] @ name @ '': '' @ value @ ''\<newline>''"

definition g_continuousTaskModeName :: "string list" where
  "g_continuousTaskModeName =
     [''dataTransfer'', ''audioPlayback'', ''audioRecording'', ''location'', ''bluetoothInteraction'',
      ''multiDeviceConnection'', ''wifiInteraction'', ''voip'', ''taskKeeping'', ''workout'', ''default'',
      ''avPlaybackAndRecord'', ''specialScenarioProcessing'', ''nearlink'', ''default'']"

text \<open>A mode beyond the table of names is read out of bounds in the sources, and is empty here.\<close>

definition mode_name :: "ContinuousTaskRecord \<Rightarrow> string" where
  "mode_name r =
     (case text_at g_continuousTaskModeName (GetBgModeNameIndex (ct_bgModeId r) (ct_isNewApi r)) of
        Some s \<Rightarrow> s | None \<Rightarrow> '''')"

definition dump_task :: "nat \<Rightarrow> string \<Rightarrow> ContinuousTaskRecord \<Rightarrow> string" where
  "dump_task index key r =
     ''No.'' @ show_nat index @ [CHR 0x09] @ ''continuousTaskKey: '' @ key @ ''\<newline>'' @
     [CHR 0x09] @ ''continuousTaskValue:'' @ ''\<newline>'' @
     field_line ''bundleName'' (ct_bundleName r) @
     field_line ''abilityName'' (ct_abilityName r) @
     field_line ''suspendState'' (yes_no (ct_suspendState r)) @
     field_line ''isFromWebview'' (yes_no (ct_isFromWebview r)) @
     field_line ''isFromNewApi'' (yes_no (ct_isNewApi r)) @
     field_line ''backgroundMode'' (mode_name r) @
     field_line ''isBatchApi'' (yes_no (ct_isBatchApi r)) @
     field_line ''backgroundModes'' (modes_ToString (ct_bgModeIds r)) @
     field_line ''backgroundSubModes'' (modes_ToString (ct_bgSubModeIds r)) @
     field_line ''uid'' (to_string (ct_uid r)) @
     field_line ''userId'' (to_string (ct_userId r)) @
     field_line ''pid'' (to_string (ct_pid r)) @
     field_line ''notificationLabel'' (ct_notificationLabel r) @
     field_line ''notificationId'' (to_string (ct_notificationId r)) @
     (if ct_subNotificationId r \<noteq> -1 \<and> ct_isByRequestObject r
      then field_line ''subNotificationLabel'' (ct_subNotificationLabel r) @
           field_line ''subNotificationId'' (to_string (ct_subNotificationId r)) else '''') @
     field_line ''continuousTaskId'' (to_string (ct_continuousTaskId r)) @
     field_line ''wantAgentBundleName'' (case ct_wantAgentInfo r of Some i \<Rightarrow> wi_bundleName i | None \<Rightarrow> ''NULL'') @
     field_line ''wantAgentAbilityName'' (case ct_wantAgentInfo r of Some i \<Rightarrow> wi_abilityName i | None \<Rightarrow> ''NULL'') @
     field_line ''isCombinedTaskNotification'' (yes_no (ct_isCombinedTaskNotification r)) @
     field_line ''combinedNotificationTaskId'' (to_string (ct_combinedNotificationTaskId r)) @
     field_line ''isByRequestObject'' (yes_no (ct_isByRequestObject r)) @ ''\<newline>''"

fun dump_tasks :: "nat \<Rightarrow> task_table \<Rightarrow> string list" where
  "dump_tasks index [] = []"
| "dump_tasks index ((k, r) # t) = dump_task index k r # dump_tasks (index + 1) t"

definition DumpAllTaskInfo :: "BgContinuousTaskMgr \<Rightarrow> string list" where
  "DumpAllTaskInfo m =
     (if cm_tasks m = [] then [''No running continuous task\<newline>''] else dump_tasks 1 (cm_tasks m))"

section \<open>The dumper\<close>

definition CheckStrToNum :: "string \<Rightarrow> bool" where
  "CheckStrToNum value \<longleftrightarrow> value \<noteq> '''' \<and> list_all is_digit value"

definition DebugContinuousTask ::
    "cenv \<Rightarrow> string list \<Rightarrow> BgContinuousTaskMgr \<Rightarrow> string list \<times> BgContinuousTaskMgr" where
  "DebugContinuousTask e dumpOption m =
     (let invalid = ([''param invaild\<newline>''], m)
      in if length dumpOption \<noteq> 4 \<and> length dumpOption \<noteq> 5 then invalid
         else if dumpOption ! 2 \<noteq> ''WORKOUT'' then invalid
         else if dumpOption ! 3 \<noteq> ''apply'' \<and> dumpOption ! 3 \<noteq> ''reset'' then invalid
         else
           let uid = (if length dumpOption = 5 \<and> CheckStrToNum (dumpOption ! 4) then atoi (dumpOption ! 4) else 1);
               (ret, m1) = DebugContinuousTaskInner e
                 (Some \<lparr>cq_uid = uid, cq_bgModeId = WORKOUT, cq_isStart = (dumpOption ! 3 = ''apply''),
                        cq_abilityId = -1, cq_tokenId = 0, cq_pid = 0\<rparr>) m
           in (if ret \<noteq> ERR_OK then [''dump inner continuous task fail.\<newline>'']
               else [''dump inner continuous task success.\<newline>''], m1))"

definition dump_info :: "nat \<Rightarrow> ContinuousTaskInfo \<Rightarrow> string" where
  "dump_info index i =
     ''No.'' @ show_nat index @
     field_line ''abilityName'' (ti_abilityName i) @
     field_line ''isFromWebview'' (yes_no (ti_isFromWebView i)) @
     field_line ''uid'' (to_string (ti_uid i)) @
     field_line ''pid'' (to_string (ti_pid i)) @
     field_line ''notificationId'' (to_string (ti_notificationId i)) @
     field_line ''continuousTaskId'' (to_string (ti_continuousTaskId i)) @
     field_line ''abilityId'' (to_string (ti_abilityId i)) @
     field_line ''wantAgentBundleName'' (ti_wantAgentBundleName i) @
     field_line ''wantAgentAbilityName'' (ti_wantAgentAbilityName i) @
     field_line ''backgroundModes'' (modes_ToString (ti_backgroundModes i)) @
     field_line ''backgroundSubModes'' (modes_ToString (ti_backgroundSubModes i)) @ ''\<newline>''"

fun dump_infos :: "nat \<Rightarrow> ContinuousTaskInfo list \<Rightarrow> string list" where
  "dump_infos index [] = []"
| "dump_infos index (i # is) = dump_info index i # dump_infos (index + 1) is"

definition DumpGetTask :: "string list \<Rightarrow> BgContinuousTaskMgr \<Rightarrow> string list" where
  "DumpGetTask dumpOption m =
     (if length dumpOption \<noteq> 3 then [''param invaild\<newline>'']
      else
        let uid = atoi (dumpOption ! 2)
        in if uid < 0 then [''param invaild\<newline>'']
           else
             let (ret, infos) = RequestGetContinuousTasksByUidForInner uid m
             in if ret \<noteq> ERR_OK then [''param invaild\<newline>'']
                else if infos = [] then [''No running continuous task\<newline>'']
                else dump_infos 1 infos)"

section \<open>Dispatch\<close>

definition cm_ShellDumpInner ::
    "cenv \<Rightarrow> string list \<Rightarrow> BgContinuousTaskMgr \<Rightarrow> ErrCode \<times> string list \<times> BgContinuousTaskMgr" where
  "cm_ShellDumpInner e dumpOption m =
     (if length dumpOption \<le> 1 then (ce_errInvalidValue e, [], m)
      else
        let cmd = dumpOption ! 1
        in if cmd = ''--all'' then (ERR_OK, DumpAllTaskInfo m, m)
           else if cmd = ''--cancel_all'' then (ERR_OK, [], DumpCancelTask e dumpOption True m)
           else if cmd = ''--cancel'' then (ERR_OK, [], DumpCancelTask e dumpOption False m)
           else if cmd = ''--get'' then (ERR_OK, DumpGetTask dumpOption m, m)
           else if cmd = ''--inner_task'' then (let (info, m1) = DebugContinuousTask e dumpOption m in (ERR_OK, info, m1))
           else (ERR_OK, [], m))"

definition cm_ShellDump ::
    "cenv \<Rightarrow> string list \<Rightarrow> BgContinuousTaskMgr \<Rightarrow> ErrCode \<times> string list \<times> BgContinuousTaskMgr" where
  "cm_ShellDump e dumpOption m =
     (if \<not> cm_isSysReady m then (ERR_BGTASK_SYS_NOT_READY, [], m) else cm_ShellDumpInner e dumpOption m)"

end
