(* ===== verification/ContinuousAuth.thy ===== *)
theory ContinuousAuth
  imports ContinuousDump
begin

text \<open>
  User authorization of special scenario tasks (\<^verbatim>\<open>bg_continuous_task_mgr.cpp\<close>): which modes are
  supported, asking the user by banner or dialog, the answers, and the state the settings show.
  Callbacks are named by their remote objects.
\<close>

unbundle bit_operations_syntax

abbreviation (input) API_VERSION_22 :: int where "API_VERSION_22 \<equiv> 22"
abbreviation (input) API_VERSION_26 :: int where "API_VERSION_26 \<equiv> 26"

section \<open>Supported modes\<close>

definition special_count :: "ContinuousTaskParam \<Rightarrow> nat" where
  "special_count p = count_list (cp_bgModeIds p) SPECIAL_SCENARIO_PROCESSING"

text \<open>What an app that is not exempted needs for a special scenario task.\<close>

definition check_special_caller :: "cenv \<Rightarrow> string \<Rightarrow> nat \<Rightarrow> bool \<Rightarrow> ErrCode" where
  "check_special_caller e bundleName tokenId isSystem =
     (if IsSpecialExemptedQuatoApp (ce_signature e) (ce_config e) bundleName then ERR_OK
      else if \<not> CheckSpecialScenarioACLPermission e tokenId
      then ERR_BGTASK_CONTINUOUS_APP_NOT_HAVE_BGMODE_PERMISSION_SYSTEM
      else if isSystem then ERR_BGTASK_CONTINUOUS_SYSTEM_APP_NOT_SUPPORT_ACL
      else ERR_OK)"

definition CheckModeSupportedPermission :: "cenv \<Rightarrow> ContinuousTaskParam \<Rightarrow> ErrCode" where
  "CheckModeSupportedPermission e p =
     (let specialModeSize = special_count p
      in if specialModeSize > 1 then ERR_BGTASK_SPECIAL_SCENARIO_PROCESSING_ONLY_ALLOW_ONE_APPLICATION
         else if specialModeSize = 1 \<and> length (cp_bgModeIds p) > 1
         then ERR_BGTASK_SPECIAL_SCENARIO_PROCESSING_CONFLICTS_WITH_OTHER_TASK
         else if \<not> ce_checkPermission e BGMODE_PERMISSION then ERR_BGTASK_PERMISSION_DENIED
         else if specialModeSize = 1 \<and> length (cp_bgModeIds p) = 1
         then
           let ret = check_special_caller e (ce_clientBundleName e (ce_callingUid e)) (ce_callingTokenId e)
                       (ce_isSystemApp e (ce_callingFullTokenId e))
           in if ret \<noteq> ERR_OK then ret
              else if \<not> ce_supportAuth e then ERR_BGTASK_SPECIAL_SCENARIO_PROCESSING_NOTSUPPORT_DEVICE
              else ERR_OK
         else ERR_OK)"

definition CheckTaskkeepingPermission :: "cenv \<Rightarrow> ContinuousTaskParam \<Rightarrow> nat \<Rightarrow> string \<Rightarrow> nat \<Rightarrow> ErrCode" where
  "CheckTaskkeepingPermission e p callingTokenId bundleName fullTokenId =
     (if IsTaskKeepingExemptedQuatoApp (ce_signature e) (ce_config e) bundleName \<or> ce_supportTaskKeeping e then ERR_OK
      else if \<not> CheckExistMode (cp_bgModeIds p) TASK_KEEPING then ERR_OK
      else if ce_isSystemApp e fullTokenId
      then (if ce_aclPermission e BGMODE_PERMISSION_SYSTEM callingTokenId
            then ERR_BGTASK_CONTINUOUS_SYSTEM_APP_NOT_SUPPORT_ACL else ERR_BGTASK_KEEPING_TASK_VERIFY_ERR)
      else if \<not> ce_aclPermission e BGMODE_PERMISSION_SYSTEM callingTokenId
      then ERR_BGTASK_CONTINUOUS_APP_NOT_HAVE_BGMODE_PERMISSION_SYSTEM
      else ERR_OK)"

definition IsModeSupported :: "cenv \<Rightarrow> ContinuousTaskParam \<Rightarrow> BgContinuousTaskMgr \<Rightarrow> ErrCode" where
  "IsModeSupported e p m =
     (if \<not> cm_isSysReady m then ERR_BGTASK_SYS_NOT_READY
      else
        let ret = CheckModeSupportedPermission e p
        in if ret \<noteq> ERR_OK then ret
           else CheckTaskkeepingPermission e p (ce_callingTokenId e) (ce_clientBundleName e (ce_callingUid e))
                  (ce_callingFullTokenId e))"

definition CheckSpecialModePermission :: "cenv \<Rightarrow> ContinuousTaskParam \<Rightarrow> ErrCode" where
  "CheckSpecialModePermission e p =
     (let specialModeSize = special_count p
      in if cp_bgModeIds p = [] \<or> cp_bgSubModeIds p = [] then ERR_BGTASK_CONTINUOUS_MODE_OR_SUBMODE_IS_EMPTY
         else if specialModeSize = 0 then ERR_BGTASK_SPECIAL_SCENARIO_PROCESSING_EMPTY
         else if specialModeSize > 1 then ERR_BGTASK_SPECIAL_SCENARIO_PROCESSING_ONLY_ALLOW_ONE_APPLICATION
         else if specialModeSize = 1 \<and> length (cp_bgModeIds p) > 1
         then ERR_BGTASK_SPECIAL_SCENARIO_PROCESSING_CONFLICTS_WITH_OTHER_TASK
         else if list_ex (\<lambda>sub. GetSubModeTypeMatching sub \<noteq> SPECIAL_SCENARIO_PROCESSING) (cp_bgSubModeIds p)
         then ERR_BGTASK_CONTINUOUS_MODE_OR_SUBMODE_TYPE_MISMATCH
         else if \<not> ce_checkPermission e BGMODE_PERMISSION then ERR_BGTASK_PERMISSION_DENIED
         else ERR_OK)"

text \<open>Whether some ability of the bundle is configured for special scenarios.\<close>

definition CheckApplySpecial :: "cenv \<Rightarrow> string \<Rightarrow> int \<Rightarrow> bool \<Rightarrow> bool" where
  "CheckApplySpecial e bundleName userId checkPermission =
     (case ce_bundleInfo e bundleName userId of
        None \<Rightarrow> False
      | Some info \<Rightarrow>
          if \<not> IsSpecialExemptedQuatoApp (ce_signature e) (ce_config e) bundleName \<and> checkPermission \<and>
             (BGMODE_PERMISSION_SYSTEM \<notin> set (bi_reqPermissions info) \<and>
              BGMODE_PERMISSION_SPECIAL_SCENARIO \<notin> set (bi_reqPermissions info) \<or> bi_isSystemApp info)
          then False
          else list_ex (\<lambda>(_, modes). modes \<noteq> 0 \<and> modes AND mode_bit SPECIAL_SCENARIO_PROCESSING \<noteq> 0)
                 (bi_abilityInfos info))"

section \<open>Asking the user\<close>

text \<open>The authorization of an app.\<close>

definition find_auth :: "string \<Rightarrow> int \<Rightarrow> int \<Rightarrow> auth_table \<Rightarrow> (string \<times> BannerNotificationRecord) option" where
  "find_auth bundleName userId appIndex t = find (\<lambda>e. bn_app (snd e) = (bundleName, userId, appIndex)) t"

definition CheckAuthParam ::
    "cenv \<Rightarrow> ContinuousTaskRecord \<Rightarrow> nat \<Rightarrow> int \<Rightarrow> BgContinuousTaskMgr \<Rightarrow>
     ErrCode \<times> ContinuousTaskRecord \<times> BgContinuousTaskMgr" where
  "CheckAuthParam e r callback apiVersion m =
     (if list_ex (\<lambda>(_, c). c = callback) (cm_expiredCallbackMap m) then (ERR_BGTASK_CONTINUOUS_CALLBACK_EXISTS, r, m)
      else case find_auth (ct_bundleName r) (ct_userId r) (ct_appIndex r) (cm_bannerNotificationRecord m) of
             Some (_, b) \<Rightarrow>
               if bn_authResult b = AUTH_NOT_SUPPORTED
               then (ERR_BGTASK_CONTINUOUS_NOT_DEPLOY_SPECIAL_SCENARIO_PROCESSING, r, m)
               else if bn_authResult b = AUTH_GRANTED_ONCE \<or> bn_authResult b = AUTH_GRANTED_ALWAYS \<or>
                       apiVersion = API_VERSION_26 \<and> bn_authResult b = AUTH_DENIED
               then (ERR_BGTASK_CONTINUOUS_TRIGGER_CALLBACK, r, cm_emit [ExpiredAuth callback (bn_authResult b)] m)
               else (ERR_BGTASK_CONTINUOUS_BANNER_NOTIFICATION_EXIST_OR_AUTHORIZED, r, m)
           | None \<Rightarrow>
               if apiVersion = API_VERSION_22
               then
                 let appName = GetMainAbilityLabel e (ct_bundleName r) (ct_userId r)
                 in if appName = '''' then (ERR_BGTASK_CONTINUOUS_BANNER_NOTIFICATION_FAIL, r, m)
                    else (ERR_OK, r\<lparr>ct_appName := appName\<rparr>, m)
               else (ERR_OK, r, m))"

definition HisysEventRequestAuth :: "BannerNotificationRecord \<Rightarrow> BgContinuousTaskMgr \<Rightarrow> BgContinuousTaskMgr" where
  "HisysEventRequestAuth b m =
     cm_emit [EventRequestAuth (bn_uid b) (bn_userId b) (bn_appName b) (bn_appIndex b)] m"

text \<open>The result carries the notification id, the out parameter.\<close>

definition RequestAuthFromUserInner ::
    "cenv \<Rightarrow> ContinuousTaskRecord \<Rightarrow> nat \<Rightarrow> int \<Rightarrow> BgContinuousTaskMgr \<Rightarrow> ErrCode \<times> int option \<times> BgContinuousTaskMgr" where
  "RequestAuthFromUserInner e r0 callback apiVersion m0 =
     (let (ret, r, m) = CheckAuthParam e r0 callback apiVersion m0
      in if ret \<noteq> ERR_OK then (ret, None, m)
         else
           let b0 = new_BannerNotificationRecord\<lparr>bn_bundleName := ct_bundleName r, bn_uid := ct_uid r,
                      bn_userId := ct_userId r, bn_appIndex := ct_appIndex r\<rparr>;
               (ret1, nid, b, m1) =
                 (if apiVersion = API_VERSION_26
                  then (if \<not> CheckApplySpecial e (ct_bundleName r) (ct_userId r) False
                        then (ERR_BGTASK_CONTINUOUS_NOT_DEPLOY_SPECIAL_SCENARIO_PROCESSING, ct_uid r, b0,
                              cm_emit [ExpiredAuth callback AUTH_NOT_SUPPORTED] m)
                        else (ERR_OK, ct_uid r, b0, m))
                  else case FormatBannerNotificationContext e (ct_appName r) of
                         None \<Rightarrow> (ERR_BGTASK_CONTINUOUS_BANNER_NOTIFICATION_FAIL, ct_uid r, b0, m)
                       | Some content \<Rightarrow>
                           let (ret2, b1, m2) = PublishBannerNotification e (b0\<lparr>bn_appName := ct_appName r\<rparr>) content m
                           in if ret2 \<noteq> ERR_OK
                              then (ERR_BGTASK_CONTINUOUS_BANNER_NOTIFICATION_FAIL, ct_uid r, b1, m2)
                              else (ERR_OK, bn_notificationId b1, b1, m2))
           in if ret1 \<noteq> ERR_OK then (ret1, Some nid, m1)
              else
                let key = CreateBannerNotificationLabel (ct_bundleName r) (ct_userId r) (ct_appIndex r);
                    m3 = HisysEventRequestAuth b
                           (m1\<lparr>cm_expiredCallbackMap := om_put key callback (cm_expiredCallbackMap m1),
                               cm_bannerNotificationRecord := hm_emplace key b (cm_bannerNotificationRecord m1)\<rparr>);
                    (ret3, m4) = RefreshAuthRecord e m3
                in (ret3, Some nid, m4))"

text \<open>A caller's record as the authorization requests build it.\<close>

definition auth_request_record :: "cenv \<Rightarrow> ContinuousTaskParam \<Rightarrow> ContinuousTaskRecord" where
  "auth_request_record e p =
     (let uid = ce_callingUid e
      in InitRecordParam e p (ce_osAccountId e uid)
           (new_ContinuousTaskRecord (ce_clientBundleName e uid) '''' uid (ce_callingPid e) (cp_bgModeId p) True
              (cp_bgModeIds p) (-1)))"

definition RequestAuthFromUser ::
    "cenv \<Rightarrow> ContinuousTaskParam option \<Rightarrow> nat option \<Rightarrow> BgContinuousTaskMgr \<Rightarrow>
     ErrCode \<times> int option \<times> BgContinuousTaskMgr" where
  "RequestAuthFromUser e taskParam callback m =
     (if \<not> cm_isSysReady m then (ERR_BGTASK_SYS_NOT_READY, None, m)
      else case taskParam of
             None \<Rightarrow> (ERR_BGTASK_CHECK_TASK_PARAM, None, m)
           | Some p \<Rightarrow>
               (case callback of
                  None \<Rightarrow> (ERR_BGTASK_CONTINUOUS_CALLBACK_NULL_OR_TYPE_ERR, None, m)
                | Some cb \<Rightarrow>
                    let ret = CheckSpecialModePermission e p;
                        r = auth_request_record e p;
                        ret1 = check_special_caller e (ct_bundleName r) (ce_callingTokenId e) (ct_isSystem r)
                    in if ret \<noteq> ERR_OK then (ret, None, m)
                       else if ret1 \<noteq> ERR_OK then (ret1, None, m)
                       else if \<not> ce_supportAuth e
                       then (ERR_BGTASK_SPECIAL_SCENARIO_PROCESSING_NOTSUPPORT_DEVICE, None, m)
                       else RequestAuthFromUserInner e r cb (cp_requestAuthApiVersion p) m))"

section \<open>Answers of the user\<close>

text \<open>Call the callback stored under a key, once.\<close>

definition fire_callback :: "string \<Rightarrow> int \<Rightarrow> BgContinuousTaskMgr \<Rightarrow> BgContinuousTaskMgr" where
  "fire_callback key authResult m =
     (case map_of (cm_expiredCallbackMap m) key of
        None \<Rightarrow> m
      | Some callback \<Rightarrow>
          cm_emit [ExpiredAuth callback authResult] (m\<lparr>cm_expiredCallbackMap := om_del key (cm_expiredCallbackMap m)\<rparr>))"

definition set_auth :: "string \<Rightarrow> int \<Rightarrow> BgContinuousTaskMgr \<Rightarrow> BgContinuousTaskMgr" where
  "set_auth key authResult m =
     m\<lparr>cm_bannerNotificationRecord :=
         map_vals (\<lambda>k b. if k = key then b\<lparr>bn_authResult := authResult\<rparr> else b) (cm_bannerNotificationRecord m)\<rparr>"

definition OnPermissionDialogButtonClickInner ::
    "cenv \<Rightarrow> int \<Rightarrow> int \<Rightarrow> string \<Rightarrow> int \<Rightarrow> BgContinuousTaskMgr \<Rightarrow> BgContinuousTaskMgr" where
  "OnPermissionDialogButtonClickInner e authResult bundleUid bundleName appIndex m =
     (if \<not> cm_isSysReady m then m
      else if authResult < AUTH_DENIED \<or> authResult \<ge> AUTH_END then m
      else
        let key = CreateBannerNotificationLabel bundleName (ce_osAccountId e bundleUid) appIndex
        in if map_of (cm_bannerNotificationRecord m) key = None then m
           else fire_callback key authResult (cm_saveAuth e (set_auth key authResult m)))"

definition OnBannerNotificationActionButtonClickInner ::
    "cenv \<Rightarrow> int \<Rightarrow> int \<Rightarrow> string \<Rightarrow> BgContinuousTaskMgr \<Rightarrow> BgContinuousTaskMgr" where
  "OnBannerNotificationActionButtonClickInner e buttonType uid label m =
     (case map_of (cm_bannerNotificationRecord m) label of
        None \<Rightarrow> m
      | Some b \<Rightarrow>
          if buttonType \<noteq> 0 \<and> buttonType \<noteq> 1 then m
          else
            let authResult = (if buttonType = 0 then AUTH_GRANTED_ONCE else AUTH_GRANTED_ALWAYS);
                m1 = cm_saveAuth e (set_auth label authResult m);
                m2 = (if bn_notificationId b \<noteq> -1 \<and> bn_notificationLabel b \<noteq> ''''
                      then cancel_notif e (bn_notificationLabel b) (bn_notificationId b) m1 else m1)
            in fire_callback (bn_notificationLabel b) authResult m2)"

definition OnBannerNotificationActionButtonClick ::
    "cenv \<Rightarrow> int \<Rightarrow> int \<Rightarrow> string \<Rightarrow> BgContinuousTaskMgr \<Rightarrow> BgContinuousTaskMgr" where
  "OnBannerNotificationActionButtonClick e buttonType uid label m =
     (if \<not> cm_isSysReady m then m else OnBannerNotificationActionButtonClickInner e buttonType uid label m)"

text \<open>The user swipes the banner away without an answer.\<close>

definition StopBannerContinuousTaskByUserInner :: "cenv \<Rightarrow> string \<Rightarrow> BgContinuousTaskMgr \<Rightarrow> bool \<times> BgContinuousTaskMgr" where
  "StopBannerContinuousTaskByUserInner e label m =
     (case map_of (cm_bannerNotificationRecord m) label of
        None \<Rightarrow> (True, m)
      | Some b \<Rightarrow>
          if bn_authResult b \<noteq> AUTH_GRANTED_ONCE \<and> bn_authResult b \<noteq> AUTH_GRANTED_ALWAYS
          then (True, cm_saveAuth e (m\<lparr>cm_bannerNotificationRecord := om_del label (cm_bannerNotificationRecord m)\<rparr>))
          else (True, m))"

definition StopBannerContinuousTaskByUser :: "cenv \<Rightarrow> string \<Rightarrow> BgContinuousTaskMgr \<Rightarrow> bool \<times> BgContinuousTaskMgr" where
  "StopBannerContinuousTaskByUser e label m =
     (if \<not> cm_isSysReady m then (False, m) else StopBannerContinuousTaskByUserInner e label m)"

definition HandleAuthExpiredCallbackDeathInner :: "cenv \<Rightarrow> nat \<Rightarrow> BgContinuousTaskMgr \<Rightarrow> BgContinuousTaskMgr" where
  "HandleAuthExpiredCallbackDeathInner e remote m =
     (case find (\<lambda>(_, c). c = remote) (cm_expiredCallbackMap m) of
        None \<Rightarrow> m
      | Some (key, _) \<Rightarrow>
          let m1 = m\<lparr>cm_expiredCallbackMap := om_del key (cm_expiredCallbackMap m)\<rparr>
          in case map_of (cm_bannerNotificationRecord m1) key of
               None \<Rightarrow> m1
             | Some b \<Rightarrow>
                 let m2 = (if bn_notificationId b \<noteq> -1 then cancel_notif e key (bn_notificationId b) m1 else m1)
                 in cm_saveAuth e (m2\<lparr>cm_bannerNotificationRecord := om_del key (cm_bannerNotificationRecord m2)\<rparr>))"

definition HandleAuthExpiredCallbackDeath :: "cenv \<Rightarrow> nat option \<Rightarrow> BgContinuousTaskMgr \<Rightarrow> BgContinuousTaskMgr" where
  "HandleAuthExpiredCallbackDeath e rem m =
     (if \<not> cm_isSysReady m then m
      else case rem of None \<Rightarrow> m | Some remote \<Rightarrow> HandleAuthExpiredCallbackDeathInner e remote m)"

definition RemoveAuthRecordInner :: "cenv \<Rightarrow> ContinuousTaskRecord \<Rightarrow> BgContinuousTaskMgr \<Rightarrow> BgContinuousTaskMgr" where
  "RemoveAuthRecordInner e r m =
     (let key = CreateBannerNotificationLabel (ct_bundleName r) (ct_userId r) (ct_appIndex r);
          m1 = (if map_of (cm_bannerNotificationRecord m) key \<noteq> None
                then cm_saveAuth e (m\<lparr>cm_bannerNotificationRecord := om_del key (cm_bannerNotificationRecord m)\<rparr>) else m)
      in m1\<lparr>cm_expiredCallbackMap := om_del key (cm_expiredCallbackMap m1)\<rparr>)"

definition RemoveAuthRecord :: "cenv \<Rightarrow> ContinuousTaskParam option \<Rightarrow> BgContinuousTaskMgr \<Rightarrow> ErrCode \<times> BgContinuousTaskMgr" where
  "RemoveAuthRecord e taskParam m =
     (if \<not> cm_isSysReady m then (ERR_BGTASK_SYS_NOT_READY, m)
      else case taskParam of
             None \<Rightarrow> (ERR_BGTASK_CHECK_TASK_PARAM, m)
           | Some p \<Rightarrow> (ERR_OK, RemoveAuthRecordInner e (auth_request_record e p) m))"

section \<open>Queries and settings\<close>

definition CheckSpecialScenarioAuthInner ::
    "cenv \<Rightarrow> string \<Rightarrow> int \<Rightarrow> int \<Rightarrow> int \<Rightarrow> BgContinuousTaskMgr \<Rightarrow> ErrCode \<times> int option" where
  "CheckSpecialScenarioAuthInner e bundleName userId appIndex apiVersion m =
     (if apiVersion = API_VERSION_26 \<and> \<not> CheckApplySpecial e bundleName userId False
      then (ERR_OK, Some AUTH_NOT_SUPPORTED)
      else case find_auth bundleName userId appIndex (cm_bannerNotificationRecord m) of
             None \<Rightarrow> if apiVersion = API_VERSION_26 then (ERR_OK, Some AUTH_NOT_DETERMINED)
                     else (ERR_BGTASK_CONTINUOUS_NOT_APPLY_AUTH_RECORD, None)
           | Some (_, b) \<Rightarrow> (ERR_OK, Some (bn_authResult b)))"

definition CheckSpecialScenarioAuth ::
    "cenv \<Rightarrow> int \<Rightarrow> int \<Rightarrow> BgContinuousTaskMgr \<Rightarrow> ErrCode \<times> int option" where
  "CheckSpecialScenarioAuth e appIndex apiVersion m =
     (let uid = ce_callingUid e;
          bundleName = ce_clientBundleName e uid;
          ret = check_special_caller e bundleName (ce_callingTokenId e) (ce_isSystemApp e (ce_callingFullTokenId e))
      in if \<not> cm_isSysReady m then (ERR_BGTASK_SYS_NOT_READY, None)
         else if \<not> ce_checkPermission e BGMODE_PERMISSION then (ERR_BGTASK_PERMISSION_DENIED, None)
         else if ret \<noteq> ERR_OK then (ret, None)
         else if \<not> ce_supportAuth e then (ERR_BGTASK_SPECIAL_SCENARIO_PROCESSING_NOTSUPPORT_DEVICE, None)
         else CheckSpecialScenarioAuthInner e bundleName (ce_osAccountId e uid) appIndex apiVersion m)"

definition CheckTaskAuthResultInner :: "string \<Rightarrow> int \<Rightarrow> int \<Rightarrow> BgContinuousTaskMgr \<Rightarrow> ErrCode" where
  "CheckTaskAuthResultInner bundleName userId appIndex m =
     (case find_auth bundleName userId appIndex (cm_bannerNotificationRecord m) of
        None \<Rightarrow> ERR_BGTASK_CONTINUOUS_NOT_APPLY_AUTH_RECORD
      | Some (_, b) \<Rightarrow>
          if bn_authResult b = AUTH_GRANTED_ONCE \<or> bn_authResult b = AUTH_GRANTED_ALWAYS then ERR_OK
          else ERR_BGTASK_CONTINUOUS_AUTH_NOT_PERMITTED)"

definition CheckTaskAuthResult :: "string \<Rightarrow> int \<Rightarrow> int \<Rightarrow> BgContinuousTaskMgr \<Rightarrow> ErrCode" where
  "CheckTaskAuthResult bundleName userId appIndex m =
     (if \<not> cm_isSysReady m then ERR_BGTASK_SYS_NOT_READY else CheckTaskAuthResultInner bundleName userId appIndex m)"

definition SetBackgroundTaskStateInner ::
    "cenv \<Rightarrow> BackgroundTaskStateInfo \<Rightarrow> BgContinuousTaskMgr \<Rightarrow> ErrCode \<times> BgContinuousTaskMgr" where
  "SetBackgroundTaskStateInner e i m =
     (case find_auth (bs_bundleName i) (bs_userId i) (bs_appIndex i) (cm_bannerNotificationRecord m) of
        None \<Rightarrow>
          let key = CreateBannerNotificationLabel (bs_bundleName i) (bs_userId i) (bs_appIndex i);
              b = new_BannerNotificationRecord\<lparr>bn_bundleName := bs_bundleName i, bn_userId := bs_userId i,
                    bn_appIndex := bs_appIndex i, bn_authResult := bs_authResult i\<rparr>
          in (ERR_OK, cm_saveAuth e (m\<lparr>cm_bannerNotificationRecord := hm_emplace key b (cm_bannerNotificationRecord m)\<rparr>))
      | Some (key, _) \<Rightarrow> (ERR_OK, cm_saveAuth e (set_auth key (bs_authResult i) m)))"

definition SetBackgroundTaskState ::
    "cenv \<Rightarrow> BackgroundTaskStateInfo option \<Rightarrow> BgContinuousTaskMgr \<Rightarrow> ErrCode \<times> BgContinuousTaskMgr" where
  "SetBackgroundTaskState e taskParam m =
     (if \<not> cm_isSysReady m then (ERR_BGTASK_SYS_NOT_READY, m)
      else case taskParam of
             None \<Rightarrow> (ERR_BGTASK_CHECK_TASK_PARAM, m)
           | Some i \<Rightarrow>
               if bs_userId i = -1 \<or> bs_appIndex i = -1 \<or> bs_bundleName i = '''' \<or> bs_authResult i \<ge> AUTH_END \<or>
                  bs_authResult i < AUTH_NOT_SUPPORTED
               then (ERR_BGTASK_CONTINUOUS_BACKGROUND_TASK_PARAM_INVALID, m)
               else SetBackgroundTaskStateInner e i m)"

definition GetBackgroundTaskStateInner :: "cenv \<Rightarrow> BackgroundTaskStateInfo \<Rightarrow> BgContinuousTaskMgr \<Rightarrow> ErrCode \<times> int option" where
  "GetBackgroundTaskStateInner e i m =
     (if IsMaliciousAppConfig (ce_signature e) (ce_config e) (bs_bundleName i) then (ERR_OK, Some AUTH_NOT_SUPPORTED)
      else case find_auth (bs_bundleName i) (bs_userId i) (bs_appIndex i) (cm_bannerNotificationRecord m) of
             None \<Rightarrow> (ERR_OK, Some (if CheckApplySpecial e (bs_bundleName i) (bs_userId i) True
                                    then AUTH_NOT_DETERMINED else AUTH_NOT_SUPPORTED))
           | Some (_, b) \<Rightarrow> (ERR_OK, Some (bn_authResult b)))"

definition GetBackgroundTaskState ::
    "cenv \<Rightarrow> BackgroundTaskStateInfo option \<Rightarrow> BgContinuousTaskMgr \<Rightarrow> ErrCode \<times> int option" where
  "GetBackgroundTaskState e taskParam m =
     (if \<not> cm_isSysReady m then (ERR_BGTASK_SYS_NOT_READY, None)
      else case taskParam of
             None \<Rightarrow> (ERR_BGTASK_CHECK_TASK_PARAM, None)
           | Some i \<Rightarrow>
               if bs_userId i = -1 \<or> bs_appIndex i = -1 \<or> bs_bundleName i = ''''
               then (ERR_BGTASK_CONTINUOUS_BACKGROUND_TASK_PARAM_INVALID, None)
               else GetBackgroundTaskStateInner e i m)"

section \<open>Backup\<close>

text \<open>\<open>ce_backupReply\<close>: the file could be opened, handed over and closed.\<close>

definition cm_OnBackup :: "cenv \<Rightarrow> BgContinuousTaskMgr \<Rightarrow> ErrCode" where
  "cm_OnBackup e m =
     (if \<not> cm_isSysReady m then ERR_BGTASK_SYS_NOT_READY
      else if \<not> ce_backupReply e then ce_errInvalidOperation e else ERR_OK)"

text \<open>
  The received file replaces the stored one, if it was read and is not larger than 400000 bytes
  (\<open>ce_restoreFile\<close>, inside \<open>None\<close> if its text is no JSON document); its records are then added to those in
  memory.
\<close>

definition cm_OnRestore :: "cenv \<Rightarrow> BgContinuousTaskMgr \<Rightarrow> ErrCode \<times> BgContinuousTaskMgr" where
  "cm_OnRestore e m =
     (if \<not> cm_isSysReady m then (ERR_BGTASK_SYS_NOT_READY, m)
      else case ce_restoreFile e of
             None \<Rightarrow> (ce_errInvalidOperation e, m)
           | Some file \<Rightarrow>
               let m1 = m\<lparr>cm_authStored := file\<rparr>
               in if \<not> ce_restoreReply e then (ce_errInvalidOperation e, m1) else cm_RestoreAuthRecord e m1)"

end
