(* ===== verification/TaskNotificationSubscriber.thy ===== *)
theory TaskNotificationSubscriber
  imports ContinuousAuth
begin

text \<open>
  \<^verbatim>\<open>services/continuous_task/src/task_notification_subscriber.cpp\<close>: what the service does when a
  notification appears or is removed. From the label of one of its own notifications it finds the
  task; live views of apps that navigate hide and bring back the notification for locating.
\<close>

section \<open>Labels\<close>

text \<open>\<^verbatim>\<open>getline\<close> with a delimiter: no token follows a delimiter at the end.\<close>

fun StringSplit :: "char \<Rightarrow> string \<Rightarrow> string list" where
  "StringSplit delim [] = []"
| "StringSplit delim (c # cs) =
     (if c = delim then [] # StringSplit delim cs
      else case cs of
             [] \<Rightarrow> [[c]]
           | d # ds \<Rightarrow> if d = delim then [c] # StringSplit delim ds
                      else (case StringSplit delim cs of [] \<Rightarrow> [[c]] | t # ts \<Rightarrow> (c # t) # ts))"

text \<open>
  A notification request as the subscriber sees it: label, creator and owner, whether it is a live
  view, the ability name of its additional data, and event and capsule status of a live view.
\<close>

record notif_view =
  nv_label :: string
  nv_creatorUid :: int
  nv_ownerUid :: int
  nv_isLiveView :: bool
  nv_abilityName :: "string option"
  nv_event :: "(string \<times> int) option"

definition GetLiveViewExtraInfo :: "notif_view \<Rightarrow> string \<times> int" where
  "GetLiveViewExtraInfo v = (case nv_event v of Some ev \<Rightarrow> ev | None \<Rightarrow> ('''', 0))"

text \<open>The delete reasons of the notification service: cancelled by the app, and the time outs.\<close>

record delete_reasons =
  dr_appCancel :: int
  dr_triggers :: "int \<times> int"

section \<open>Events\<close>

definition CancelNotificationByBgTask ::
    "cenv \<Rightarrow> delete_reasons \<Rightarrow> notif_view \<Rightarrow> int \<Rightarrow> BgContinuousTaskMgr \<Rightarrow> BgContinuousTaskMgr" where
  "CancelNotificationByBgTask e dr v deleteReason m =
     (let parts = StringSplit (CHR ''_'') (nv_label v)
      in if length parts = 4 \<and> hd parts = ''bgbanner'' then snd (StopBannerContinuousTaskByUser e (nv_label v) m)
         else if parts = [] \<or> hd parts \<noteq> ''bgmode'' \<or> length parts > 6 \<or> length parts < 4 then m
         else if deleteReason = dr_appCancel dr then m
         else case nv_abilityName v of
                None \<Rightarrow> m
              | Some abilityName \<Rightarrow>
                  let key = parts ! 1 @ ''_'' @ abilityName @ ''_'' @ parts ! 3;
                      key1 = (if length parts = 5 \<or> length parts = 6 then key @ ''_'' @ parts ! 4 else key)
                  in snd (StopContinuousTaskByUser e (dr_triggers dr) key1 (length parts = 6) deleteReason m))"

definition OnCanceled ::
    "cenv \<Rightarrow> delete_reasons \<Rightarrow> notif_view option \<Rightarrow> int \<Rightarrow> BgContinuousTaskMgr \<Rightarrow> BgContinuousTaskMgr" where
  "OnCanceled e dr notification deleteReason m =
     (case notification of
        None \<Rightarrow> m
      | Some v \<Rightarrow>
          if nv_creatorUid v = cm_bgTaskUid m then CancelNotificationByBgTask e dr v deleteReason m
          else if nv_creatorUid v = nv_ownerUid v \<and> nv_isLiveView v
          then
            let (eventName, _) = GetLiveViewExtraInfo v;
                m1 = (if eventName = ''NAVIGATION''
                      then SendNotificationByLiveViewCancel e (nv_creatorUid v)
                             (SetLiveViewInfo (nv_creatorUid v) False eventName m)
                      else m)
            in cm_emit [ReportLiveView (nv_creatorUid v) eventName False] m1
          else m)"

definition OnConsumed :: "cenv \<Rightarrow> notif_view option \<Rightarrow> BgContinuousTaskMgr \<Rightarrow> BgContinuousTaskMgr" where
  "OnConsumed e notification m =
     (case notification of
        None \<Rightarrow> m
      | Some v \<Rightarrow>
          if nv_creatorUid v = cm_bgTaskUid m then m
          else if \<not> nv_isLiveView v then m
          else
            let (eventName, capsuleStatus) = GetLiveViewExtraInfo v;
                m1 = (if capsuleStatus = 1 \<and> eventName = ''NAVIGATION''
                      then CancelBgTaskNotification e (nv_creatorUid v)
                             (SetLiveViewInfo (nv_creatorUid v) True eventName m)
                      else m)
            in cm_emit [ReportLiveView (nv_creatorUid v) eventName (capsuleStatus = 1)] m1)"

end
