(* ===== verification/ContinuousTable.thy ===== *)
theory ContinuousTable
  imports TaskNotificationSubscriber "HOL-Library.Sublist"
begin

text \<open>
  How handlers change the task table. A row is known by its key, app, ability, task id and kind
  (\<open>ident\<close>). A system service that replays the starts and stops it is told keeps a set of tasks
  (\<open>sa_view\<close>). \<open>effect f\<close> relates states with the same table where what a service was told changes its
  set by \<open>f\<close>, and \<open>tame\<close> those where rows may have been changed, suspended, made active or removed,
  but none was added, and where what services were told accounts for the change. Both compose, and
  there is one lemma per building block of the handlers.
\<close>

section \<open>Rows\<close>

type_synonym row_id = "string \<times> int \<times> string \<times> int \<times> bool \<times> int"

definition ident :: "string \<times> ContinuousTaskRecord \<Rightarrow> row_id" where
  "ident e = (fst e, ct_uid (snd e), ct_abilityName (snd e), ct_abilityId (snd e), ct_isByRequestObject (snd e),
     ct_continuousTaskId (snd e))"

definition idents :: "BgContinuousTaskMgr \<Rightarrow> row_id list" where
  "idents m = map ident (cm_tasks m)"

definition row_task :: "row_id \<Rightarrow> int" where
  "row_task x = (case x of (_, _, _, _, _, t) \<Rightarrow> t)"

definition same_row :: "ContinuousTaskRecord \<Rightarrow> ContinuousTaskRecord \<Rightarrow> bool" where
  "same_row r r' \<longleftrightarrow> ct_uid r' = ct_uid r \<and> ct_abilityName r' = ct_abilityName r \<and> ct_abilityId r' = ct_abilityId r \<and>
     ct_isByRequestObject r' = ct_isByRequestObject r \<and> ct_continuousTaskId r' = ct_continuousTaskId r"

text \<open>The tasks that count as running.\<close>

definition active_tasks :: "BgContinuousTaskMgr \<Rightarrow> int set" where
  "active_tasks m = {ct_continuousTaskId r | k r. (k, r) \<in> set (cm_tasks m) \<and> \<not> ct_suspendState r}"

section \<open>What a system service has been told\<close>

definition sa_step :: "nat \<Rightarrow> int set \<Rightarrow> cont_call \<Rightarrow> int set" where
  "sa_step s V c =
     (case c of
        SubTaskStart x cb \<Rightarrow> if x = s then insert (cb_continuousTaskId cb) V else V
      | SubTaskStop x cb \<Rightarrow> if x = s then V - {cb_continuousTaskId cb} else V
      | _ \<Rightarrow> V)"

definition sa_view :: "nat \<Rightarrow> cont_call list \<Rightarrow> int set \<Rightarrow> int set" where
  "sa_view s cs V = foldl (sa_step s) V cs"

definition is_service :: "nat \<Rightarrow> BgContinuousTaskMgr \<Rightarrow> bool" where
  "is_service s m \<longleftrightarrow> list_ex (\<lambda>x. si_subscriber x = s) (cm_bgTaskSubscribers m) \<and>
     list_all (\<lambda>x. si_subscriber x = s \<longrightarrow> \<not> si_isHap x) (cm_bgTaskSubscribers m)"

section \<open>Relations between states\<close>

text \<open>The stored file is the old one, or was written from rows that are among those given.\<close>

definition stored_from :: "row_id list \<Rightarrow> BgContinuousTaskMgr \<Rightarrow> BgContinuousTaskMgr \<Rightarrow> bool" where
  "stored_from ids m m' \<longleftrightarrow> cm_stored m' = cm_stored m \<or>
     (\<exists>t. cm_stored m' = Some (ds_RefreshTaskRecord t) \<and> subseq (map ident t) ids)"

definition effect :: "(int set \<Rightarrow> int set) \<Rightarrow> BgContinuousTaskMgr \<Rightarrow> BgContinuousTaskMgr \<Rightarrow> bool" where
  "effect f m m' \<longleftrightarrow> cm_tasks m' = cm_tasks m \<and> cm_continuousTaskIdIndex m' = cm_continuousTaskIdIndex m \<and>
     cm_bgTaskSubscribers m' = cm_bgTaskSubscribers m \<and> cm_isSysReady m' = cm_isSysReady m \<and>
     stored_from (idents m) m m' \<and>
     (\<exists>cs. cm_calls m' = cm_calls m @ cs \<and> (\<forall>s. is_service s m \<longrightarrow> (\<forall>V. sa_view s cs V = f V)))"

abbreviation quiet :: "BgContinuousTaskMgr \<Rightarrow> BgContinuousTaskMgr \<Rightarrow> bool" where
  "quiet \<equiv> effect (\<lambda>V. V)"

definition rows_kept :: "BgContinuousTaskMgr \<Rightarrow> BgContinuousTaskMgr \<Rightarrow> bool" where
  "rows_kept m m' \<longleftrightarrow> subseq (idents m') (idents m) \<and> cm_continuousTaskIdIndex m' = cm_continuousTaskIdIndex m \<and>
     cm_bgTaskSubscribers m' = cm_bgTaskSubscribers m \<and> cm_isSysReady m' = cm_isSysReady m \<and>
     stored_from (idents m) m m'"

definition told :: "BgContinuousTaskMgr \<Rightarrow> BgContinuousTaskMgr \<Rightarrow> bool" where
  "told m m' \<longleftrightarrow> (\<exists>cs. cm_calls m' = cm_calls m @ cs \<and>
     (\<forall>s. is_service s m \<longrightarrow> active_tasks m' = sa_view s cs (active_tasks m)))"

definition distinct_rows :: "BgContinuousTaskMgr \<Rightarrow> bool" where
  "distinct_rows m \<longleftrightarrow> distinct (map fst (idents m)) \<and> distinct (map row_task (idents m))"

definition tame :: "BgContinuousTaskMgr \<Rightarrow> BgContinuousTaskMgr \<Rightarrow> bool" where
  "tame m m' \<longleftrightarrow> (distinct_rows m \<longrightarrow> rows_kept m m' \<and> told m m')"

definition same_state :: "ContinuousTaskRecord \<Rightarrow> ContinuousTaskRecord \<Rightarrow> bool" where
  "same_state r r' \<longleftrightarrow> same_row r r' \<and> ct_suspendState r' = ct_suspendState r"

named_theorems tame_intros \<open>building blocks and handlers that are tame\<close>
named_theorems quiet_intros \<open>building blocks that are quiet\<close>
named_theorems row_simps \<open>what the relations on rows say\<close>

section \<open>Lemmas on views\<close>

lemma sa_view_simps [simp]:
  "sa_view s [] V = V" "sa_view s (c # cs) V = sa_view s cs (sa_step s V c)"
  "sa_view s (cs @ ds) V = sa_view s ds (sa_view s cs V)"
  by (simp_all add: sa_view_def)

text \<open>Calls that all stop, or all start, one task.\<close>

definition stops_only :: "int \<Rightarrow> cont_call \<Rightarrow> bool" where
  "stops_only t c \<longleftrightarrow> (\<forall>s V. sa_step s V c = V \<or> sa_step s V c = V - {t})"

definition starts_only :: "int \<Rightarrow> cont_call \<Rightarrow> bool" where
  "starts_only t c \<longleftrightarrow> (\<forall>s V. sa_step s V c = V \<or> sa_step s V c = insert t V)"

lemma sa_view_stops_sub: "list_all (stops_only t) cs \<Longrightarrow> sa_view s cs V = V \<or> sa_view s cs V = V - {t}"
proof (induction cs arbitrary: V)
  case (Cons c cs)
  have "sa_step s V c = V \<or> sa_step s V c = V - {t}"
    using Cons.prems by (simp add: stops_only_def)
  moreover have "sa_view s cs W = W \<or> sa_view s cs W = W - {t}" for W
    using Cons by simp
  ultimately show ?case by (metis Diff_idemp sa_view_simps(2))
qed simp

lemma sa_view_stops:
  assumes "list_all (stops_only t) cs" and "SubTaskStop s cb \<in> set cs" and "cb_continuousTaskId cb = t"
  shows "sa_view s cs V = V - {t}"
proof -
  obtain a b where cs: "cs = a @ SubTaskStop s cb # b"
    using assms(2) by (meson split_list)
  with assms(1) have ok: "list_all (stops_only t) a" "list_all (stops_only t) b"
    by simp_all
  have "sa_view s b (W - {t}) = W - {t}" for W
    using sa_view_stops_sub [OF ok(2), of s "W - {t}"] by auto
  then show ?thesis
    using sa_view_stops_sub [OF ok(1), of s V] assms(3) by (auto simp: cs sa_step_def)
qed

lemma sa_view_starts_sub: "list_all (starts_only t) cs \<Longrightarrow> sa_view s cs V = V \<or> sa_view s cs V = insert t V"
proof (induction cs arbitrary: V)
  case (Cons c cs)
  have "sa_step s V c = V \<or> sa_step s V c = insert t V"
    using Cons.prems by (simp add: starts_only_def)
  moreover have "sa_view s cs W = W \<or> sa_view s cs W = insert t W" for W
    using Cons by simp
  ultimately show ?case by (metis insert_absorb2 sa_view_simps(2))
qed simp

lemma sa_view_starts:
  assumes "list_all (starts_only t) cs" and "SubTaskStart s cb \<in> set cs" and "cb_continuousTaskId cb = t"
  shows "sa_view s cs V = insert t V"
proof -
  obtain a b where cs: "cs = a @ SubTaskStart s cb # b"
    using assms(2) by (meson split_list)
  with assms(1) have ok: "list_all (starts_only t) a" "list_all (starts_only t) b"
    by simp_all
  have "sa_view s b (insert t W) = insert t W" for W
    using sa_view_starts_sub [OF ok(2), of s "insert t W"] by auto
  then show ?thesis
    using sa_view_starts_sub [OF ok(1), of s V] assms(3) by (auto simp: cs sa_step_def)
qed

text \<open>Calls a service does not count.\<close>

definition silent_for :: "nat \<Rightarrow> cont_call \<Rightarrow> bool" where
  "silent_for s c \<longleftrightarrow> (\<forall>V. sa_step s V c = V)"

lemma sa_view_silent: "list_all (silent_for s) cs \<Longrightarrow> sa_view s cs V = V"
  by (induction cs) (auto simp: silent_for_def)

lemma silent_for_simps [simp]:
  "silent_for s (PublishNotif q)" "silent_for s (CancelNotif l i)" "silent_for s (RefreshNotif l t x)"
  "silent_for s (RefreshNotifWant l w p)" "silent_for s (RefreshBanner l t x b)" "silent_for s (SubTaskUpdate n cb)"
  "silent_for s (SubTaskSuspend n cb)" "silent_for s (SubTaskActive n cb)" "silent_for s (SubAppTaskStop n u)"
  "silent_for s (ObserverStart cb)" "silent_for s (ObserverUpdate cb)" "silent_for s (ObserverStop cb)"
  "silent_for s (EventTaskApply u i l a x1 j)" "silent_for s (EventTaskCancel u i l a x1 j c)"
  "silent_for s (EventXpower t l u i x)" "silent_for s (EventRequestAuth u i l j)"
  "silent_for s (ExpiredAuth n u)" "silent_for s (ReportLiveView u l x2)"
  by (simp_all add: silent_for_def sa_step_def)

lemma silent_stops: "(\<And>s. silent_for s c) \<Longrightarrow> stops_only t c"
  by (simp add: stops_only_def silent_for_def)

lemma silent_starts: "(\<And>s. silent_for s c) \<Longrightarrow> starts_only t c"
  by (simp add: starts_only_def silent_for_def)

section \<open>Composition\<close>

lemma stored_from_refl [simp]: "stored_from ids m m"
  by (simp add: stored_from_def)

lemma stored_from_trans:
  "stored_from ids a b \<Longrightarrow> stored_from jds b c \<Longrightarrow> subseq jds ids \<Longrightarrow> stored_from ids a c"
  unfolding stored_from_def using subseq_order.trans by fastforce

lemma subseq_distinct_map: "subseq xs ys \<Longrightarrow> distinct (map f ys) \<Longrightarrow> distinct (map f xs)"
  by (metis distinct_nthsI subseq_conv_nths subseq_map)

lemma is_service_cong: "cm_bgTaskSubscribers m' = cm_bgTaskSubscribers m \<Longrightarrow> is_service s m' = is_service s m"
  by (simp add: is_service_def)

lemma idents_cong: "cm_tasks m' = cm_tasks m \<Longrightarrow> idents m' = idents m"
  by (simp add: idents_def)

lemma active_tasks_cong: "cm_tasks m' = cm_tasks m \<Longrightarrow> active_tasks m' = active_tasks m"
  by (simp add: active_tasks_def)

lemma quiet_refl [simp, quiet_intros]: "quiet m m"
  by (simp add: effect_def)

lemma effect_trans:
  assumes "effect f a b" and "effect g b c"
  shows "effect (\<lambda>V. g (f V)) a c"
proof -
  obtain cs ds where c: "cm_calls b = cm_calls a @ cs" "\<And>s V. is_service s a \<Longrightarrow> sa_view s cs V = f V"
    "cm_calls c = cm_calls b @ ds" "\<And>s V. is_service s b \<Longrightarrow> sa_view s ds V = g V"
    using assms unfolding effect_def by blast
  have same: "idents b = idents a" "\<And>s. is_service s b = is_service s a"
    using assms(1) by (simp_all add: effect_def idents_def is_service_def)
  have "stored_from (idents a) a c"
    using assms same(1) stored_from_trans by (auto simp: effect_def)
  moreover have "cm_calls c = cm_calls a @ (cs @ ds)"
    "\<forall>s. is_service s a \<longrightarrow> (\<forall>V. sa_view s (cs @ ds) V = g (f V))"
    using c same(2) by simp_all
  ultimately show ?thesis using assms unfolding effect_def by metis
qed

lemma quiet_trans [trans]: "quiet a b \<Longrightarrow> quiet b c \<Longrightarrow> quiet a c"
  by (rule effect_trans)

lemma effect_quiet: "effect f a b \<Longrightarrow> quiet b c \<Longrightarrow> effect f a c"
  using effect_trans [of f a b "\<lambda>V. V" c] by simp

lemma quiet_effect: "quiet a b \<Longrightarrow> effect f b c \<Longrightarrow> effect f a c"
  using effect_trans [of "\<lambda>V. V" a b f c] by simp

lemma rows_kept_trans: "rows_kept a b \<Longrightarrow> rows_kept b c \<Longrightarrow> rows_kept a c"
  unfolding rows_kept_def by (metis stored_from_trans subseq_order.trans)

lemma distinct_rows_kept: "rows_kept m m' \<Longrightarrow> distinct_rows m \<Longrightarrow> distinct_rows m'"
  by (auto simp: rows_kept_def distinct_rows_def intro: subseq_distinct_map)

lemma is_service_kept: "rows_kept m m' \<Longrightarrow> is_service s m' = is_service s m"
  by (simp add: rows_kept_def is_service_def)

lemma effect_rows_kept: "effect f m m' \<Longrightarrow> rows_kept m m'"
  by (simp add: effect_def rows_kept_def idents_def)

lemma told_trans:
  assumes "told a b" and "told b c" and "\<And>s. is_service s b = is_service s a"
  shows "told a c"
proof -
  obtain cs ds where "cm_calls b = cm_calls a @ cs" "cm_calls c = cm_calls b @ ds"
    "\<And>s. is_service s a \<Longrightarrow> active_tasks b = sa_view s cs (active_tasks a)"
    "\<And>s. is_service s a \<Longrightarrow> active_tasks c = sa_view s ds (active_tasks b)"
    using assms unfolding told_def by blast
  then have "cm_calls c = cm_calls a @ (cs @ ds)"
    "\<forall>s. is_service s a \<longrightarrow> active_tasks c = sa_view s (cs @ ds) (active_tasks a)"
    by simp_all
  then show ?thesis unfolding told_def by blast
qed

lemma quiet_tame: "quiet m m' \<Longrightarrow> tame m m'"
  using effect_rows_kept [of "\<lambda>V. V" m m'] active_tasks_cong [of m' m] by (auto simp: tame_def told_def effect_def)

lemma tame_refl [simp, tame_intros]: "tame m m"
  by (simp add: quiet_tame)

lemma tame_trans [trans]: "tame a b \<Longrightarrow> tame b c \<Longrightarrow> tame a c"
  unfolding tame_def using rows_kept_trans distinct_rows_kept is_service_kept told_trans by metis

lemma tame_quiet: "tame a b \<Longrightarrow> quiet b c \<Longrightarrow> tame a c"
  using quiet_tame tame_trans by blast

lemma quiet_then_tame: "quiet a b \<Longrightarrow> tame b c \<Longrightarrow> tame a c"
  using quiet_tame tame_trans by blast

end
