(* ===== verification/ContinuousBlocks.thy ===== *)
theory ContinuousBlocks
  imports ContinuousTable
begin

text \<open>
  The building blocks of the handlers of continuous tasks in terms of \<open>effect\<close> and \<open>tame\<close>: telling
  subscribers, notifications, writing the file, and changing, suspending, activating and removing
  one row.
\<close>

section \<open>Blocks that leave the table alone\<close>

lemma quiet_emit: "(\<And>s c. is_service s m \<Longrightarrow> c \<in> set cs \<Longrightarrow> silent_for s c) \<Longrightarrow> quiet m (cm_emit cs m)"
  by (auto simp: effect_def cm_emit_def stored_from_def list_all_iff intro!: sa_view_silent)

lemma quiet_save [quiet_intros]: "quiet m (cm_save e m)"
  by (auto simp: effect_def RefreshTaskRecord_def stored_from_def idents_def)

lemma quiet_saveAuth [quiet_intros]: "quiet m (cm_saveAuth e m)"
  by (auto simp: effect_def RefreshAuthRecord_def stored_from_def)

lemma quiet_cancel_notif [quiet_intros]: "quiet m (cancel_notif e l i m)"
  unfolding nt_CancelNotification_def by (auto intro!: quiet_emit)

lemma quiet_app_stop [quiet_intros]: "quiet m (HandleAppContinuousTaskStop uid m)"
  unfolding HandleAppContinuousTaskStop_def by (auto intro!: quiet_emit)

lemma quiet_CancelNotification [quiet_intros]: "quiet m (snd (CancelNotification e r m))"
proof -
  have "snd (let (ret, m1) = nt_CancelNotification e l i m in
     if b then nt_CancelNotification e l' i' m1 else (ret, m1)) =
     (if b then cancel_notif e l' i' (cancel_notif e l i m) else cancel_notif e l i m)" for l i l' i' b
    by (simp add: split_beta)
  moreover have "quiet m (cancel_notif e l' i' (cancel_notif e l i m))" for l i l' i'
    using quiet_cancel_notif quiet_trans by blast
  ultimately show ?thesis unfolding CancelNotification_def using quiet_cancel_notif by simp
qed

lemma quiet_post [quiet_intros]: "quiet m (cm_post t m)"
  by (simp add: effect_def cm_post_def stored_from_def)

text \<open>A change of any other field.\<close>

lemma quiet_fields [quiet_intros]:
  "quiet m (m\<lparr>cm_cachedBundleInfos := x1\<rparr>)" "quiet m (m\<lparr>cm_avSessionNotification := x2\<rparr>)"
  "quiet m (m\<lparr>cm_bannerNotificationRecord := x3\<rparr>)" "quiet m (m\<lparr>cm_expiredCallbackMap := x4\<rparr>)"
  "quiet m (m\<lparr>cm_notificationIdIndex := x5\<rparr>)" "quiet m (m\<lparr>cm_liveViewInfo := x6\<rparr>)"
  "quiet m (m\<lparr>cm_appOnForeground := x7\<rparr>)" "quiet m (m\<lparr>cm_applyTaskOnForeground := x8\<rparr>)"
  "quiet m (m\<lparr>cm_gamePreLaunchAppUids := x9\<rparr>)" "quiet m (m\<lparr>cm_posted := y1\<rparr>)"
  "quiet m (m\<lparr>cm_delayTasks := y2\<rparr>)" "quiet m (m\<lparr>cm_disableRequestUidList := y3\<rparr>)"
  "quiet m (m\<lparr>cm_authStored := y4\<rparr>)" "quiet m (m\<lparr>cm_bgTaskUid := y5\<rparr>)"
  "quiet m (m\<lparr>cm_continuousTaskText := y6\<rparr>)" "quiet m (m\<lparr>cm_continuousTaskSubText := y7\<rparr>)"
  "quiet m (m\<lparr>cm_startingTaskText := y8\<rparr>)" "quiet m (m\<lparr>cm_bannerNotificationBtn := y9\<rparr>)"
  "quiet m (m\<lparr>cm_modeForNotificationText := z1\<rparr>)"
  by (simp_all add: effect_def stored_from_def)

section \<open>Telling subscribers\<close>

lemma quiet_report [quiet_intros]: "quiet m (cm_ReportHisysEvent ty r m)"
  by (cases ty) (auto intro!: quiet_emit)

lemma notified_update: "quiet m (OnContinuousTaskChanged r TASK_UPDATE m)"
proof -
  have "quiet m (NotifySubscribersTaskUpdate cb m)" for cb
    unfolding NotifySubscribersTaskUpdate_def by (rule quiet_emit) (auto split: if_splits)
  then show ?thesis
    unfolding OnContinuousTaskChanged_def NotifySubscribers.simps using quiet_report quiet_trans by blast
qed

lemma effect_emit:
  "(\<And>s V. is_service s m \<Longrightarrow> sa_view s cs V = f V) \<Longrightarrow> effect f m (cm_emit cs m)"
  by (simp add: effect_def cm_emit_def stored_from_def)

lemma stops_only_SubTaskStop: "cb_continuousTaskId cb = t \<Longrightarrow> stops_only t (SubTaskStop x cb)"
  by (simp add: stops_only_def sa_step_def)

lemma starts_only_SubTaskStart: "cb_continuousTaskId cb = t \<Longrightarrow> starts_only t (SubTaskStart x cb)"
  by (simp add: starts_only_def sa_step_def)

lemma effect_stop_emit:
  assumes "\<And>c. c \<in> set cs \<Longrightarrow> stops_only t c" and "cb_continuousTaskId cb = t"
    and "\<And>x. x \<in> set (cm_bgTaskSubscribers m) \<Longrightarrow> \<not> si_isHap x \<Longrightarrow> SubTaskStop (si_subscriber x) cb \<in> set cs"
  shows "effect (\<lambda>V. V - {t}) m (cm_emit cs m)"
proof (rule effect_emit)
  fix s V assume "is_service s m"
  then have "SubTaskStop s cb \<in> set cs" using assms(3) by (auto simp: is_service_def list_ex_iff list_all_iff)
  then show "sa_view s cs V = V - {t}" using assms(1,2) sa_view_stops by (simp add: list_all_iff)
qed

lemma effect_start_emit:
  assumes "\<And>c. c \<in> set cs \<Longrightarrow> starts_only t c" and "cb_continuousTaskId cb = t"
    and "\<And>x. x \<in> set (cm_bgTaskSubscribers m) \<Longrightarrow> \<not> si_isHap x \<Longrightarrow> SubTaskStart (si_subscriber x) cb \<in> set cs"
  shows "effect (insert t) m (cm_emit cs m)"
proof (rule effect_emit)
  fix s V assume "is_service s m"
  then have "SubTaskStart s cb \<in> set cs" using assms(3) by (auto simp: is_service_def list_ex_iff list_all_iff)
  then show "sa_view s cs V = insert t V" using assms(1,2) sa_view_starts by (simp add: list_all_iff)
qed

lemma callback_info_id [simp]: "cb_continuousTaskId (callback_info r) = ct_continuousTaskId r"
  "cb_isStandby (callback_info r) = ct_isStandby r"
  by (simp_all add: callback_info_def)

text \<open>After a handler has told the subscribers, the event report changes nothing.\<close>

lemma notified: "effect f m (NotifySubscribers ty (callback_info r) m) \<Longrightarrow> effect f m (OnContinuousTaskChanged r ty m)"
  unfolding OnContinuousTaskChanged_def using quiet_report effect_quiet by blast

lemma notified_cancel: "effect (\<lambda>V. V - {ct_continuousTaskId r}) m (OnContinuousTaskChanged r TASK_CANCEL m)"
  unfolding NotifySubscribers.simps NotifySubscribersTaskCancel_def
  by (intro notified, unfold NotifySubscribers.simps NotifySubscribersTaskCancel_def)
     (rule effect_stop_emit [where cb = "callback_info r"],
       force split: if_splits intro: silent_stops stops_only_SubTaskStop, simp, force)

lemma notified_start: "effect (insert (ct_continuousTaskId r)) m (OnContinuousTaskChanged r TASK_START m)"
  by (intro notified, unfold NotifySubscribers.simps NotifySubscribersTaskStart_def)
     (rule effect_start_emit [where cb = "callback_info r"],
       force split: if_splits intro: silent_starts starts_only_SubTaskStart, simp, force)

lemma notified_suspend:
  "\<not> ct_isStandby r \<Longrightarrow> effect (\<lambda>V. V - {ct_continuousTaskId r}) m (OnContinuousTaskChanged r TASK_SUSPEND m)"
  by (intro notified, unfold NotifySubscribers.simps NotifySubscribersTaskSuspend_def Let_def)
     (rule effect_stop_emit [where cb = "callback_info r"],
       force split: if_splits intro: silent_stops stops_only_SubTaskStop, simp, force)

lemma notified_active:
  "\<not> ct_isStandby r \<Longrightarrow> effect (insert (ct_continuousTaskId r)) m (OnContinuousTaskChanged r TASK_ACTIVE m)"
  by (intro notified, unfold NotifySubscribers.simps NotifySubscribersTaskActive_def Let_def)
     (rule effect_start_emit [where cb = "callback_info r"],
       force split: if_splits intro: silent_starts starts_only_SubTaskStart, simp, force)

text \<open>For standby only the application itself is told.\<close>

lemma notified_standby:
  "ct_isStandby r \<Longrightarrow> quiet m (OnContinuousTaskChanged r TASK_SUSPEND m)"
  "ct_isStandby r \<Longrightarrow> quiet m (OnContinuousTaskChanged r TASK_ACTIVE m)"
  by (intro notified, unfold NotifySubscribers.simps NotifySubscribersTaskSuspend_def Let_def, rule quiet_emit,
      force split: if_splits)
     (intro notified, unfold NotifySubscribers.simps NotifySubscribersTaskActive_def Let_def, rule quiet_emit,
      force split: if_splits)

lemma quiet_audio_callback [quiet_intros]: "quiet m (SendAudioCallBackTaskState r m)"
  unfolding SendAudioCallBackTaskState_def Let_def
  by (rule quiet_emit) (auto simp: silent_for_def sa_step_def is_service_def list_all_iff)

section \<open>One row\<close>

lemma same_row_refl [simp]: "same_row r r"
  by (simp add: same_row_def)

lemma same_state_refl [simp]: "same_state r r"
  by (simp add: same_state_def)

lemma same_state_trans [trans]: "same_state a b \<Longrightarrow> same_state b c \<Longrightarrow> same_state a c"
  by (simp add: same_state_def same_row_def)

lemma map_of_cm_set: "map_of (cm_tasks (cm_set k r m)) k' =
    (if k' = k \<and> map_of (cm_tasks m) k \<noteq> None then Some r else map_of (cm_tasks m) k')"
  by (cases "map_of (cm_tasks m) k'") (auto simp: cm_set_def map_of_map_vals)

lemma cm_set_fields [simp]:
  "cm_continuousTaskIdIndex (cm_set k r m) = cm_continuousTaskIdIndex m"
  "cm_bgTaskSubscribers (cm_set k r m) = cm_bgTaskSubscribers m" "cm_isSysReady (cm_set k r m) = cm_isSysReady m"
  "cm_stored (cm_set k r m) = cm_stored m" "cm_calls (cm_set k r m) = cm_calls m"
  "is_service s (cm_set k r m) = is_service s m"
  by (simp_all add: cm_set_def is_service_def)

lemma cm_erase_fields [simp]:
  "cm_tasks (cm_erase k m) = om_del k (cm_tasks m)"
  "cm_continuousTaskIdIndex (cm_erase k m) = cm_continuousTaskIdIndex m"
  "cm_bgTaskSubscribers (cm_erase k m) = cm_bgTaskSubscribers m" "cm_isSysReady (cm_erase k m) = cm_isSysReady m"
  "cm_stored (cm_erase k m) = cm_stored m" "cm_calls (cm_erase k m) = cm_calls m"
  "is_service s (cm_erase k m) = is_service s m"
  by (simp_all add: cm_erase_def is_service_def)

lemma distinct_keys: "distinct_rows m \<Longrightarrow> distinct (map fst (cm_tasks m))"
  by (simp add: distinct_rows_def idents_def ident_def comp_def)

lemma row_of: "distinct_rows m \<Longrightarrow> map_of (cm_tasks m) k = Some r \<Longrightarrow> (k', r') \<in> set (cm_tasks m) \<Longrightarrow>
    k' = k \<longleftrightarrow> (k', r') = (k, r)"
  using distinct_keys by (metis Pair_inject map_of_is_SomeI option.inject)

lemma idents_set:
  assumes "distinct_rows m" and "map_of (cm_tasks m) k = Some r" and "same_row r r'"
  shows "idents (cm_set k r' m) = idents m"
proof -
  have "ident (k', if k' = k then r' else x) = ident (k', x)" if "(k', x) \<in> set (cm_tasks m)" for k' x
    using row_of [OF assms(1,2) that] assms(3) by (auto simp: ident_def same_row_def)
  then show ?thesis by (auto simp: idents_def cm_set_def map_vals_def comp_def)
qed

text \<open>The ids of the rows are distinct: removing a row removes its id.\<close>

lemma id_of:
  assumes "distinct_rows m" and "(k, r) \<in> set (cm_tasks m)" and "(k', r') \<in> set (cm_tasks m)"
    and "ct_continuousTaskId r' = ct_continuousTaskId r"
  shows "(k', r') = (k, r)"
proof -
  have "inj_on (\<lambda>x. row_task (ident x)) (set (cm_tasks m))"
    using assms(1) by (simp add: distinct_rows_def idents_def comp_def distinct_map)
  from inj_onD [OF this, of "(k', r')" "(k, r)"] show ?thesis
    using assms(2-4) by (simp add: row_task_def ident_def)
qed

lemma active_tasks_iff: "t \<in> active_tasks m \<longleftrightarrow>
    (\<exists>e \<in> set (cm_tasks m). ct_continuousTaskId (snd e) = t \<and> \<not> ct_suspendState (snd e))"
  by (force simp: active_tasks_def)

lemma set_cm_set: "set (cm_tasks (cm_set k r m)) = (\<lambda>e. (fst e, if fst e = k then r else snd e)) ` set (cm_tasks m)"
  by (auto simp: cm_set_def map_vals_def split_beta)

text \<open>The row under a key is the one with its id.\<close>

lemma key_id:
  assumes "distinct_rows m" and "map_of (cm_tasks m) k = Some r" and "e \<in> set (cm_tasks m)"
  shows "fst e = k \<longleftrightarrow> ct_continuousTaskId (snd e) = ct_continuousTaskId r"
  using row_of [OF assms(1,2), of "fst e" "snd e"] id_of [OF assms(1) map_of_SomeD [OF assms(2)], of "fst e" "snd e"] assms(3)
  by (metis Pair_inject prod.collapse)

lemma active_tasks_set:
  assumes "distinct_rows m" and "map_of (cm_tasks m) k = Some r" and "same_row r r'"
  shows "active_tasks (cm_set k r' m) =
     (if ct_suspendState r' then active_tasks m - {ct_continuousTaskId r} else insert (ct_continuousTaskId r) (active_tasks m))"
proof (rule set_eqI)
  fix t
  have t': "ct_continuousTaskId r' = ct_continuousTaskId r" using assms(3) by (simp add: same_row_def)
  note key = key_id [OF assms(1,2)]
  have "t \<in> active_tasks (cm_set k r' m) \<longleftrightarrow> (\<exists>e \<in> set (cm_tasks m).
      ct_continuousTaskId (if fst e = k then r' else snd e) = t \<and> \<not> ct_suspendState (if fst e = k then r' else snd e))"
    unfolding active_tasks_iff set_cm_set by (simp add: bex_simps(7))
  also have "\<dots> \<longleftrightarrow> (if t = ct_continuousTaskId r then \<not> ct_suspendState r' else t \<in> active_tasks m)"
  proof (cases "t = ct_continuousTaskId r")
    case True
    then show ?thesis using key t' map_of_SomeD [OF assms(2)] by (auto intro: rev_bexI)
  next
    case False
    then show ?thesis unfolding active_tasks_iff using key t' by (auto intro!: bex_cong)
  qed
  finally show "t \<in> active_tasks (cm_set k r' m) \<longleftrightarrow> t \<in> (if ct_suspendState r' then active_tasks m - {ct_continuousTaskId r}
      else insert (ct_continuousTaskId r) (active_tasks m))" by auto
qed

lemma active_tasks_erase:
  assumes "distinct_rows m" and "map_of (cm_tasks m) k = Some r"
  shows "active_tasks (cm_erase k m) = active_tasks m - {ct_continuousTaskId r}"
  using key_id [OF assms]
  unfolding set_eq_iff active_tasks_iff Diff_iff singleton_iff cm_erase_fields om_del_def set_filter by blast

lemma idents_erase: "subseq (idents (cm_erase k m)) (idents m)"
  by (simp add: idents_def om_del_def subseq_map)

lemma effect_calls:
  assumes "effect f m m'"
  shows "\<exists>cs. cm_calls m' = cm_calls m @ cs \<and> (\<forall>s. is_service s m \<longrightarrow> (\<forall>V. sa_view s cs V = f V))"
  using assms by (simp add: effect_def)

text \<open>
  The shape of every handler of a row: change it, tell the subscribers, and remove it or not. What
  the services were told must fit the new state of the row.
\<close>

lemma tame_change:
  assumes row: "map_of (cm_tasks m) k = Some r" "same_row r r'" and eff: "effect f (cm_set k r' m) m'"
    and fits: "f (active_tasks m) = (if ct_suspendState r' then active_tasks m - {ct_continuousTaskId r}
                                    else insert (ct_continuousTaskId r) (active_tasks m))"
  shows "tame m m'"
proof -
  { assume d: "distinct_rows m"
    have same: "cm_tasks m' = cm_tasks (cm_set k r' m)" using eff by (simp add: effect_def)
    have ids: "idents m' = idents m" and act: "active_tasks m' = f (active_tasks m)"
      unfolding idents_cong [OF same] active_tasks_cong [OF same] idents_set [OF d row] active_tasks_set [OF d row]
      by (simp_all add: fits)
    obtain cs where cs: "cm_calls m' = cm_calls m @ cs"
      "\<forall>s. is_service s m \<longrightarrow> (\<forall>V. sa_view s cs V = f V)"
      using effect_calls [OF eff] by auto
    have "rows_kept m m'"
      using eff ids idents_set [OF d row] by (simp add: rows_kept_def effect_def stored_from_def)
    moreover have "told m m'" using act cs by (auto simp: told_def)
    ultimately have "rows_kept m m' \<and> told m m'" .. }
  then show ?thesis by (simp add: tame_def)
qed

lemma active_row:
  assumes "distinct_rows m" and "map_of (cm_tasks m) k = Some r"
  shows "ct_continuousTaskId r \<in> active_tasks m \<longleftrightarrow> \<not> ct_suspendState r"
proof
  assume "ct_continuousTaskId r \<in> active_tasks m"
  then obtain e where "e \<in> set (cm_tasks m)" "ct_continuousTaskId (snd e) = ct_continuousTaskId r"
    "\<not> ct_suspendState (snd e)" unfolding active_tasks_iff by blast
  with id_of [OF assms(1) map_of_SomeD [OF assms(2)], of "fst e" "snd e"] show "\<not> ct_suspendState r" by simp
next
  assume "\<not> ct_suspendState r"
  then show "ct_continuousTaskId r \<in> active_tasks m"
    using map_of_SomeD [OF assms(2)] unfolding active_tasks_iff by (intro bexI [of _ "(k, r)"]) simp_all
qed

text \<open>The cases that occur: the row keeps its state, is suspended, becomes active, is removed.\<close>

lemma tame_set [tame_intros]:
  assumes "map_of (cm_tasks m) k = Some r" and "same_state r r'"
  shows "tame m (cm_set k r' m)"
proof -
  { assume d: "distinct_rows m"
    have "tame m (cm_set k r' m)"
      by (rule tame_change [OF assms(1), of r' "\<lambda>V. V"])
         (use assms(2) active_row [OF d assms(1)] in \<open>auto simp: same_state_def\<close>) }
  then show ?thesis by (auto simp: tame_def)
qed

lemma tame_suspend:
  assumes "map_of (cm_tasks m) k = Some r" and "same_row r r'" and "ct_suspendState r'"
    and "effect (\<lambda>V. V - {ct_continuousTaskId r'}) (cm_set k r' m) m'"
  shows "tame m m'"
  using tame_change [OF assms(1,2,4)] assms(2,3) by (simp add: same_row_def)

lemma tame_active:
  assumes "map_of (cm_tasks m) k = Some r" and "same_row r r'" and "\<not> ct_suspendState r'"
    and "effect (insert (ct_continuousTaskId r')) (cm_set k r' m) m'"
  shows "tame m m'"
  using tame_change [OF assms(1,2,4)] assms(2,3) by (simp add: same_row_def)

lemma tame_erase:
  assumes row: "map_of (cm_tasks m) k = Some r" and eff: "effect (\<lambda>V. V - {ct_continuousTaskId r}) m m'"
  shows "tame m (cm_erase k m')"
proof -
  { assume d: "distinct_rows m"
    have same: "cm_tasks m' = cm_tasks m" using eff by (simp add: effect_def)
    then have d': "distinct_rows m'" by (metis d distinct_rows_def idents_cong)
    have act: "active_tasks (cm_erase k m') = active_tasks m - {ct_continuousTaskId r}"
      using active_tasks_erase [OF d'] row same active_tasks_cong [OF same] by simp
    obtain cs where cs: "cm_calls m' = cm_calls m @ cs"
      "\<forall>s. is_service s m \<longrightarrow> (\<forall>V. sa_view s cs V = V - {ct_continuousTaskId r})"
      using effect_calls [OF eff] by auto
    have "subseq (idents (cm_erase k m')) (idents m)"
      using idents_erase [of k m'] idents_cong [OF same] by simp
    then have "rows_kept m (cm_erase k m')"
      using eff by (simp add: rows_kept_def effect_def stored_from_def)
    moreover have "told m (cm_erase k m')" using act cs by (auto simp: told_def)
    ultimately have "rows_kept m (cm_erase k m') \<and> told m (cm_erase k m')" .. }
  then show ?thesis by (simp add: tame_def)
qed

text \<open>The usual end of a task: a reason is set, the subscribers are told, the notifications go, the row is erased.\<close>

lemma tame_cancel:
  assumes "map_of (cm_tasks m) k = Some r0" and "same_state r0 r"
    and "quiet (OnContinuousTaskChanged r TASK_CANCEL (cm_set k r m)) m'"
  shows "tame m (cm_erase k m')"
proof -
  have "tame m (cm_set k r m)" by (rule tame_set [OF assms(1,2)])
  also have "tame (cm_set k r m) (cm_erase k m')"
    by (rule tame_erase [of _ _ r]) (use assms(1) effect_quiet [OF notified_cancel assms(3)] in \<open>simp_all add: map_of_cm_set\<close>)
  finally show ?thesis .
qed

lemma tame_each:
  assumes "\<And>k r m. map_of (cm_tasks m) k = Some r \<Longrightarrow> tame m (f k r m)"
  shows "tame m (each_task f ks m)"
  by (induction ks arbitrary: m) (auto intro: tame_trans assms split: option.split)

lemma tame_for:
  "(\<And>k r m. map_of (cm_tasks m) k = Some r \<Longrightarrow> tame m (f k r m)) \<Longrightarrow> tame m (for_tasks f m)"
  unfolding for_tasks_def by (rule tame_each)

lemma find_task_row:
  assumes "distinct_rows m" and "find_task P (cm_tasks m) = Some (k, r)"
  shows "map_of (cm_tasks m) k = Some r" "P r"
proof -
  have "(k, r) \<in> set (cm_tasks m) \<and> P r"
    using assms(2) by (auto simp: find_task_def find_Some_iff in_set_conv_nth dest: sym)
  then show "map_of (cm_tasks m) k = Some r" "P r"
    using distinct_keys [OF assms(1)] by (auto intro: map_of_is_SomeI)
qed

lemma tame_find:
  "(\<And>k r. find_task P (cm_tasks m) = Some (k, r) \<Longrightarrow> map_of (cm_tasks m) k = Some r \<Longrightarrow> tame m (f k r)) \<Longrightarrow>
   find_task P (cm_tasks m) = Some (k, r) \<Longrightarrow> tame m (f k r)"
  unfolding tame_def using find_task_row(1) by blast

end
