(* ===== verification/ContinuousHandlers.thy ===== *)
theory ContinuousHandlers
  imports ContinuousBlocks
begin

text \<open>
  Every handler of continuous tasks that adds no row is tame. Functions that may change a record
  while they send notifications keep its row and state (\<open>sends\<close>).
\<close>

section \<open>Notifications\<close>

definition sends :: "ContinuousTaskRecord \<Rightarrow> BgContinuousTaskMgr \<Rightarrow> ContinuousTaskRecord \<times> BgContinuousTaskMgr \<Rightarrow> bool" where
  "sends r m x \<longleftrightarrow> same_state r (fst x) \<and> quiet m (snd x)"

lemma sends_refl: "sends r m (r, m)"
  by (simp add: sends_def)

lemma same_state_fields [simp]:
  "same_state r (r\<lparr>ct_notificationId := x1\<rparr>)" "same_state r (r\<lparr>ct_notificationLabel := x2\<rparr>)"
  "same_state r (r\<lparr>ct_notificationLabel := x2, ct_notificationId := x1\<rparr>)"
  "same_state r (r\<lparr>ct_subNotificationLabel := x2, ct_subNotificationId := x1\<rparr>)"
  "same_state r (r\<lparr>ct_audioPlayState := x3\<rparr>)" "same_state r (r\<lparr>ct_audioDetectState := x3\<rparr>)"
  "same_state r (r\<lparr>ct_reason := x1\<rparr>)" "same_state r (r\<lparr>ct_reason := x1, ct_detailedCancelReason := x4\<rparr>)"
  "same_state r (r\<lparr>ct_combinedNotificationTaskId := x1\<rparr>)" "same_state r (r\<lparr>ct_bgSubModeIds := x5\<rparr>)"
  "same_state r (r\<lparr>ct_bgModeIds := x5, ct_isBatchApi := x3\<rparr>)" "same_state r (r\<lparr>ct_wantAgent := x6\<rparr>)"
  "same_state r (r\<lparr>ct_progressInfo := x7\<rparr>)" "same_state r (r\<lparr>ct_wantAgentInfo := x8\<rparr>)"
  "same_state r (r\<lparr>ct_bgModeId := x9, ct_bgModeIds := x5, ct_bgSubModeIds := x55\<rparr>)"
  by (simp_all add: same_state_def same_row_def)

lemma CheckNotificationText_state: "same_state r (snd (snd (CheckNotificationText e r m)))"
  by (simp add: CheckNotificationText_def SingleModeNotificationText_def Let_def split_beta split: option.split list.split)

lemma GetNotificationText_state: "same_state r (snd (GetNotificationText e r m))"
  using CheckNotificationText_state [of r e m] by (simp add: GetNotificationText_def split_beta)

lemma quiet_publish [quiet_intros]: "quiet m (snd (publish_as e oldId q m))"
proof -
  have "quiet (if oldId = -1 then m\<lparr>cm_notificationIdIndex := i\<rparr> else m)
      (cm_emit [PublishNotif q1] (if oldId = -1 then m\<lparr>cm_notificationIdIndex := i\<rparr> else m))" for i q1
    by (rule quiet_emit) simp
  moreover have "quiet m (if oldId = -1 then m\<lparr>cm_notificationIdIndex := i\<rparr> else m)" for i
    by (simp add: quiet_intros)
  ultimately show ?thesis unfolding publish_as_def Let_def snd_conv by (rule quiet_trans [rotated])
qed

lemma sends_publish:
  assumes "\<And>i. same_state r (f i)"
  shows "sends r m (snd (case publish_as e oldId q m of (None, m1) \<Rightarrow> (c, r, m1) | (Some i, m1) \<Rightarrow> (d, f i, m1)))"
  using assms quiet_publish [of m e oldId q]
  by (cases "publish_as e oldId q m"; cases "fst (publish_as e oldId q m)") (simp_all add: sends_def)

lemma sends_Publish:
  "sends r m (snd (PublishNotification e r a p m))" "sends r m (snd (PublishMainNotification e sub a p r m))"
  "sends r m (snd (PublishSubNotification e sub a p r m))"
  unfolding PublishNotification_def PublishMainNotification_def PublishSubNotification_def Let_def
  by (rule sends_publish, simp)+

lemma sends_change: "same_state r r' \<Longrightarrow> sends r' m x \<Longrightarrow> sends r m x"
  by (auto simp: sends_def intro: same_state_trans)

lemma sends_trans: "sends r m x \<Longrightarrow> sends (fst x) (snd x) y \<Longrightarrow> sends r m y"
  by (auto simp: sends_def intro: same_state_trans quiet_trans)

lemma sends_SendContinuousTaskNotification: "sends r m (snd (SendContinuousTaskNotification e r m))"
proof -
  obtain ret x r1 where t: "CheckNotificationText e r m = (ret, x, r1)" by (cases "CheckNotificationText e r m") auto
  then have s: "same_state r r1" using CheckNotificationText_state [of r e m] by simp
  then have "sends r m (r1\<lparr>ct_notificationId := -1\<rparr>, cancel_notif e l i m)" for l i
    by (auto simp: sends_def quiet_intros intro: same_state_trans)
  moreover have "sends r m (snd (PublishNotification e r1 a p m))" for a p
    by (rule sends_change [OF s sends_Publish(1)])
  ultimately show ?thesis
    unfolding SendContinuousTaskNotification_def t by (simp add: Let_def sends_def s)
qed

lemma sends_SendNotification: "sends r m (snd (SendNotification e sub r a b m))"
  unfolding SendNotification_def
  by (simp add: split_beta Let_def sends_refl sends_Publish)

lemma sends_SendLiveView: "sends r m (snd (SendLiveViewAndOtherNotification e r m))"
proof -
  define sub where "sub = (new_ContinuousTaskRecord (ct_bundleName r) (ct_abilityName r) (ct_uid r) (ct_pid r)
      (ct_bgModeId r) False [] (-1))\<lparr>ct_wantAgent := ct_wantAgent r, ct_abilityId := ct_abilityId r,
       ct_continuousTaskId := ct_continuousTaskId r, ct_isNewApi := ct_isNewApi r,
       ct_isByRequestObject := True, ct_bgModeId := DATA_TRANSFER, ct_bgModeIds := [DATA_TRANSFER]\<rparr>"
  define x where "x = snd (SendNotification e sub r (cached_app_name (ct_uid r) m) False m)"
  have 1: "sends r m x" unfolding x_def by (rule sends_SendNotification)
  have 2: "sends r m (snd (SendNotification e s (fst x) a b (snd x)))" for s a b
    by (rule sends_trans [OF 1 sends_SendNotification])
  have 3: "sends r m (fst y, cancel_notif e l i (snd y))" if "sends r m y" for y l i
    using that quiet_trans [OF _ quiet_cancel_notif] by (simp add: sends_def)
  show ?thesis
    unfolding SendLiveViewAndOtherNotification_def Let_def split_beta sub_def [symmetric] x_def [symmetric]
    using 1 2 3 [OF 2] by (simp add: sends_refl)
qed

lemma sends_send_notifications: "sends r m (snd (send_notifications e r m))"
  unfolding send_notifications_def by (simp add: sends_SendLiveView sends_SendContinuousTaskNotification)

lemma sends_HandleActiveNotification: "sends r m (HandleActiveNotification e r m)"
  unfolding HandleActiveNotification_def by (simp add: sends_refl sends_send_notifications)

section \<open>Steps\<close>

text \<open>The quiet blocks at the end of a handler.\<close>

lemma effect_if: "(c \<Longrightarrow> effect f a x) \<Longrightarrow> (\<not> c \<Longrightarrow> effect f a y) \<Longrightarrow> effect f a (if c then x else y)"
  by simp

lemma tame_if: "(c \<Longrightarrow> tame a x) \<Longrightarrow> (\<not> c \<Longrightarrow> tame a y) \<Longrightarrow> tame a (if c then x else y)"
  by simp

lemma tame_option:
  "(x = None \<Longrightarrow> tame a n) \<Longrightarrow> (\<And>v. x = Some v \<Longrightarrow> tame a (f v)) \<Longrightarrow>
   tame a (case x of None \<Rightarrow> n | Some v \<Rightarrow> f v)"
  by (simp split: option.split)

lemma tame_prod: "(\<And>u v. p = (u, v) \<Longrightarrow> tame a (f u v)) \<Longrightarrow> tame a (case p of (u, v) \<Rightarrow> f u v)"
  by (simp split: prod.split)

lemma quiet_cancel_both [quiet_intros]: "quiet m (cancel_both e r m)"
  unfolding cancel_both_def Let_def by (intro effect_if effect_quiet [OF _ quiet_cancel_notif] quiet_refl)

lemmas quiet_blocks = quiet_save quiet_saveAuth quiet_cancel_notif quiet_app_stop quiet_CancelNotification quiet_post
  quiet_fields quiet_audio_callback quiet_cancel_both

lemmas effect_steps = effect_if quiet_blocks [THEN effect_quiet [rotated]]
lemmas tame_steps = tame_if quiet_blocks [THEN tame_quiet [rotated]]

section \<open>Suspending and activating\<close>

lemma tame_HandleSuspendContinuousTask [tame_intros]: "tame m (HandleSuspendContinuousTask e uid pid mode key m)"
proof (cases "map_of (cm_tasks m) key")
  case (Some r0)
  define r where "r = r0\<lparr>ct_suspendState := True, ct_isStandby := False, ct_suspendReason := suspend_reason mode False\<rparr>"
  have "tame m (OnContinuousTaskChanged r TASK_SUSPEND (cm_set key r m))"
    by (rule tame_suspend [OF Some, of r], simp_all add: r_def same_row_def)
       (rule notified_suspend [of r, unfolded r_def, simplified])
  then show ?thesis
    unfolding HandleSuspendContinuousTask_def Some option.case Let_def r_def [symmetric]
    by (intro tame_steps tame_refl) simp_all
qed (simp add: HandleSuspendContinuousTask_def)

lemma tame_HandleSuspendContinuousTaskByStandby [tame_intros]:
  "tame m (HandleSuspendContinuousTaskByStandby e uid pid mode key m)"
proof (cases "map_of (cm_tasks m) key")
  case (Some r0)
  define r where "r = r0\<lparr>ct_isStandby := True, ct_isStandbySuspend := True, ct_suspendReason := suspend_reason mode True\<rparr>"
  have "tame m (cm_set key r m)"
    by (rule tame_set [OF Some]) (simp add: r_def same_state_def same_row_def)
  then have "tame m (OnContinuousTaskChanged r TASK_SUSPEND (cm_set key r m))"
    by (rule tame_quiet) (simp add: notified_standby r_def)
  then show ?thesis
    unfolding HandleSuspendContinuousTaskByStandby_def Some option.case Let_def r_def [symmetric]
    by (intro tame_steps tame_refl) simp_all
qed (simp add: HandleSuspendContinuousTaskByStandby_def)

text \<open>
  Suspending for lack of audio: the row is left alone or removed, or it is suspended, and then the
  services are told only of a task that is not in standby.
\<close>

lemma suspend_audio_cases:
  assumes row: "map_of (cm_tasks m) key = Some r0"
  shows "tame m (suspend_audio_body e uid key r0 m) \<or>
    (\<exists>m1 r r1. tame m m1 \<and> map_of (cm_tasks m1) key = Some r \<and> same_row r r1 \<and> ct_suspendState r1 \<and>
       ct_isStandby r1 = ct_isStandby r0 \<and> ct_uid r0 = uid \<and> CheckExistMode (ct_bgModeIds r0) AUDIO_PLAYBACK \<and>
       suspend_audio_body e uid key r0 m = cm_save e (OnContinuousTaskChanged r1 TASK_SUSPEND (cm_set key r1 m1)))"
    (is "?A \<or> ?B")
proof (cases "ct_uid r0 = uid \<and> CheckExistMode (ct_bgModeIds r0) AUDIO_PLAYBACK")
  case True
  define r where "r = r0\<lparr>ct_audioDetectState := False\<rparr>"
  define m1 where "m1 = cancel_notif e (ct_notificationLabel r) (ct_notificationId r) (cm_set key r m)"
  define r1 where "r1 = r\<lparr>ct_suspendState := True, ct_suspendAudioTaskTimes := 1,
    ct_suspendReason := SYSTEM_SUSPEND_AUDIO_PLAYBACK_NOT_RUNNING\<rparr>"
  define r2 where "r2 = r\<lparr>ct_reason := FREEZE_CANCEL, ct_detailedCancelReason := SYSTEM_CANCEL_AUDIO_PLAYBACK_NOT_RUNNING\<rparr>"
  have "tame m (cm_set key r m)" by (rule tame_set [OF row]) (simp add: r_def)
  then have m1: "tame m m1" unfolding m1_def by (intro tame_steps)
  have row1: "map_of (cm_tasks m1) key = Some r"
    using row by (simp add: m1_def nt_CancelNotification_def cm_emit_def map_of_cm_set)
  have "tame m1 (cm_save e (cm_erase key (OnContinuousTaskChanged r2 TASK_CANCEL (cm_set key r2 m1))))"
    by (intro tame_steps) (rule tame_cancel [OF row1, of r2], simp_all add: r2_def)
  then have 1: "tame m (cm_save e (cm_erase key (OnContinuousTaskChanged r2 TASK_CANCEL (cm_set key r2 m1))))"
    "tame m (SendAudioCallBackTaskState r m1)"
    using tame_trans [OF m1] tame_quiet [OF m1 quiet_audio_callback] by blast+
  have 2: "same_row r r1" "ct_suspendState r1" "ct_isStandby r1 = ct_isStandby r0"
    by (simp_all add: r1_def r_def same_row_def)
  have eq: "suspend_audio_body e uid key r0 m =
     (if \<not> IsExistCallback uid CONTINUOUS_TASK_SUSPEND m1 then SendAudioCallBackTaskState r m1
      else if ct_suspendAudioTaskTimes r = 0 then cm_save e (OnContinuousTaskChanged r1 TASK_SUSPEND (cm_set key r1 m1))
      else cm_save e (cm_erase key (OnContinuousTaskChanged r2 TASK_CANCEL (cm_set key r2 m1))))"
    using True unfolding suspend_audio_body_def Let_def r_def [symmetric] m1_def [symmetric] r1_def [symmetric] r2_def [symmetric]
    by simp
  show ?thesis
  proof (cases "IsExistCallback uid CONTINUOUS_TASK_SUSPEND m1 \<and> ct_suspendAudioTaskTimes r = 0")
    case s: True
    then have ?B unfolding eq using True m1 row1 2 by auto
    then show ?thesis ..
  next
    case False
    then have ?A unfolding eq using 1 by simp
    then show ?thesis ..
  qed
qed (simp only: suspend_audio_body_def if_False tame_refl simp_thms)

lemma tame_suspend_audio_body:
  assumes row: "map_of (cm_tasks m) key = Some r0"
    and awake: "ct_uid r0 = uid \<Longrightarrow> CheckExistMode (ct_bgModeIds r0) AUDIO_PLAYBACK \<Longrightarrow> \<not> ct_isStandby r0"
  shows "tame m (suspend_audio_body e uid key r0 m)"
  using suspend_audio_cases [OF row, of e uid]
proof (elim disjE exE conjE)
  fix m1 r r1
  assume 1: "tame m m1" "map_of (cm_tasks m1) key = Some r" "same_row r r1" "ct_suspendState r1" "ct_isStandby r1 = ct_isStandby r0"
    "ct_uid r0 = uid" "CheckExistMode (ct_bgModeIds r0) AUDIO_PLAYBACK"
    "suspend_audio_body e uid key r0 m = cm_save e (OnContinuousTaskChanged r1 TASK_SUSPEND (cm_set key r1 m1))"
  have "tame m1 (cm_save e (OnContinuousTaskChanged r1 TASK_SUSPEND (cm_set key r1 m1)))"
    by (rule tame_suspend [OF 1(2-4)], intro effect_steps, rule notified_suspend) (use awake 1 in simp)
  then show ?thesis unfolding 1(8) by (rule tame_trans [OF 1(1)])
qed

lemma active_body_parts:
  assumes "map_of (cm_tasks m) key = Some r0"
  shows "tame m (snd (active_body e key r0 st m))"
proof -
  define r where "r = r0\<lparr>ct_suspendState := False, ct_isStandby := False\<rparr>"
  define m1 where "m1 = OnContinuousTaskChanged r TASK_ACTIVE (cm_set key r m)"
  define x where "x = HandleActiveNotification e r m1"
  obtain label nid oldIds where st: "st = (label, nid, oldIds)" by (cases st)
  have eff: "effect (insert (ct_continuousTaskId r)) (cm_set key r m) m1"
    unfolding m1_def by (rule notified_active) (simp add: r_def)
  have m1: "tame m m1"
    by (rule tame_active [OF assms, of r, OF _ _ eff]) (simp_all add: r_def same_row_def)
  have row1: "map_of (cm_tasks m1) key = Some r"
    using eff assms by (simp add: effect_def map_of_cm_set)
  have x: "same_state r (fst x)" "quiet m1 (snd x)"
    using sends_HandleActiveNotification [of r m1 e] by (simp_all add: x_def sends_def)
  have "tame m (cm_set key (fst x) (snd x))"
    by (rule tame_trans [OF tame_quiet [OF m1 x(2)]], rule tame_set [of _ _ r])
       (use x row1 in \<open>simp_all add: effect_def\<close>)
  moreover have "tame m (cm_set key (r\<lparr>ct_notificationLabel := label, ct_notificationId := nid\<rparr>) m1)"
    by (rule tame_trans [OF m1], rule tame_set [OF row1]) simp
  ultimately show ?thesis
    using m1 tame_quiet [OF _ quiet_save]
    unfolding active_body_def st Let_def split_beta r_def [symmetric] m1_def [symmetric] x_def [symmetric] by simp
qed

lemma tame_active_loop: "tame m (active_loop e uid ks st m)"
proof (induction e uid ks st m rule: active_loop.induct)
  case (2 e uid k ks st m)
  show ?case
  proof (cases "map_of (cm_tasks m) k")
    case (Some r)
    show ?thesis
    proof (cases "ct_uid r \<noteq> uid \<or> \<not> ct_suspendState r")
      case False
      then have "tame (snd (active_body e k r st m)) (active_loop e uid (k # ks) st m)"
        using 2(3) [OF Some False, of "active_body e k r st m"] Some
        by (simp add: split_beta)
      then show ?thesis using active_body_parts [OF Some] tame_trans by blast
    qed (use 2(2) Some in simp)
  qed (use 2(1) in simp)
qed simp

lemma tame_HandleActiveContinuousTask [tame_intros]: "tame m (HandleActiveContinuousTask e uid pid key m)"
  unfolding HandleActiveContinuousTask_def by (intro tame_steps tame_refl tame_active_loop)

lemma tame_HandleActiveContinuousTaskByStandby [tame_intros]:
  "tame m (HandleActiveContinuousTaskByStandby e uid pid key m)"
  unfolding HandleActiveContinuousTaskByStandby_def Let_def
proof (rule tame_for, intro tame_steps tame_refl)
  fix k r m assume row: "map_of (cm_tasks m) k = Some r"
  let ?r = "r\<lparr>ct_isStandby := True, ct_isStandbySuspend := False\<rparr>"
  have "tame m (cm_set k ?r m)" by (rule tame_set [OF row]) (simp add: same_state_def same_row_def)
  then show "tame m (OnContinuousTaskChanged ?r TASK_ACTIVE (cm_set k ?r m))"
    by (rule tame_quiet) (simp add: notified_standby)
qed

section \<open>Stopping\<close>

lemma tame_stop_row:
  assumes "map_of (cm_tasks m) k = Some r"
    and "quiet (cm_erase k (OnContinuousTaskChanged r TASK_CANCEL m)) m'"
  shows "tame m m'"
  by (rule tame_quiet [OF tame_erase [OF assms(1) notified_cancel] assms(2)])

lemma tame_StopBackgroundRunningByTask [tame_intros]: "tame m (snd (StopBackgroundRunningByTask e task m))"
proof (cases "find_task (\<lambda>t. ct_continuousTaskId t = ct_continuousTaskId task) (cm_tasks m)")
  case (Some x)
  obtain k r where x: "x = (k, r)" by (cases x)
  have "tame m (snd (StopBackgroundRunningByTask e task m))" if d: "distinct_rows m"
  proof -
    have row: "map_of (cm_tasks m) k = Some r" by (rule find_task_row(1) [OF d Some [unfolded x]])
    show ?thesis
      unfolding StopBackgroundRunningByTask_def Some x option.case prod.case split_beta fst_conv snd_conv Let_def
      by (rule tame_stop_row [OF row], intro effect_steps quiet_refl)
  qed
  then show ?thesis by (auto simp: tame_def)
qed (simp add: StopBackgroundRunningByTask_def)

lemma tame_stop_list: "tame m (snd (stop_list e rs ret m))"
proof (induction rs arbitrary: ret m)
  case (Cons r rs)
  then show ?case
    using tame_StopBackgroundRunningByTask [of m e r] tame_trans [of m "snd (StopBackgroundRunningByTask e r m)"]
    by (simp add: split_beta Let_def)
qed simp

lemma tame_StopBackgroundRunningByContext [tame_intros]: "tame m (snd (StopBackgroundRunningByContext e uid a i m))"
  unfolding StopBackgroundRunningByContext_def by (rule tame_stop_list)

lemma tame_StopBackgroundRunningInner [tame_intros]: "tame m (snd (StopBackgroundRunningInner e uid a i t m))"
  unfolding StopBackgroundRunningInner_def
  by (simp add: tame_intros split: option.split)

lemma tame_StopBackgroundRunning [tame_intros]: "tame m (snd (StopBackgroundRunning e a i t m))"
  unfolding StopBackgroundRunning_def by (simp add: tame_intros)

text \<open>The row is marked with a reason and removed.\<close>

lemma tame_cancel_row:
  assumes "map_of (cm_tasks m) k = Some r0" and "quiet (cm_erase k m1) m'"
    and "quiet (OnContinuousTaskChanged r TASK_CANCEL (cm_set k r m)) m1" and "same_state r0 r"
  shows "tame m m'"
  by (rule tame_quiet [OF tame_cancel [OF assms(1,4,3)] assms(2)])

lemma tame_RemoveContinuousTaskRecordByUid [tame_intros]: "tame m (RemoveContinuousTaskRecordByUid e uid m)"
  unfolding RemoveContinuousTaskRecordByUid_def Let_def
  by (rule tame_quiet [OF tame_for quiet_app_stop], rule tame_if, rule tame_refl, erule tame_cancel_row)
     (rule effect_steps quiet_refl same_state_fields)+

lemma tame_RemoveContinuousTaskRecordByUidAndMode [tame_intros]:
  "tame m (RemoveContinuousTaskRecordByUidAndMode e uid mode m)"
  unfolding RemoveContinuousTaskRecordByUidAndMode_def Let_def
  by (rule tame_quiet [OF tame_for quiet_app_stop], rule tame_if, rule tame_refl, erule tame_cancel_row)
     (rule effect_steps quiet_refl same_state_fields)+

lemma tame_SetReason [tame_intros]: "tame m (SetReason k x y m)"
  unfolding SetReason_def by (auto split: option.split intro!: tame_set)

lemma tame_HandleStopContinuousTask [tame_intros]: "tame m (HandleStopContinuousTask e uid pid ty key m)"
proof -
  have "tame m (snd (StopBackgroundRunningByTask e r (SetReason key x y m)))" for r x y
    using tame_trans tame_SetReason tame_StopBackgroundRunningByTask by blast
  then show ?thesis
    unfolding HandleStopContinuousTask_def Let_def by (simp add: tame_intros split: option.split)
qed

lemma tame_run_suspend [tame_intros]: "tame m (run_suspend e uid pid reason key st m)"
  unfolding run_suspend_def Let_def by (simp add: tame_intros)

lemma tame_run_active [tame_intros]: "tame m (run_active e uid pid key st m)"
  unfolding run_active_def Let_def by (simp add: tame_intros)

lemma tame_StopContinuousTaskByUserInner [tame_intros]: "tame m (snd (StopContinuousTaskByUserInner e key sub m))"
proof -
  have "tame m (for_tasks (\<lambda>k r0 m.
       if ct_notificationId r0 \<noteq> n \<or> ct_notificationLabel r0 \<noteq> l then m
       else let r = r0\<lparr>ct_reason := REMOVE_NOTIFICATION_CANCEL\<rparr>;
              m1 = OnContinuousTaskChanged r TASK_CANCEL (cm_set k r m);
              m2 = (if sub then cancel_notif e (ct_notificationLabel r) (ct_notificationId r) m1
                    else if ct_subNotificationId r \<noteq> -1 \<and> ct_isByRequestObject r
                    then cancel_notif e (ct_subNotificationLabel r) (ct_subNotificationId r) m1 else m1)
            in cm_save e (HandleAppContinuousTaskStop (ct_uid r) (cm_erase k m2))) m)" for n l
    unfolding Let_def
    by (rule tame_for, rule tame_if, rule tame_refl, erule tame_cancel_row)
       (rule effect_steps quiet_refl same_state_fields)+
  then show ?thesis unfolding StopContinuousTaskByUserInner_def by (simp split: option.split)
qed

lemma tame_StopContinuousTaskByUser [tame_intros]: "tame m (snd (StopContinuousTaskByUser e tr key sub dr m))"
  unfolding StopContinuousTaskByUser_def
  using tame_trans [OF tame_SetReason tame_StopContinuousTaskByUserInner] by simp

lemma tame_OnAbilityStateChanged [tame_intros]: "tame m (OnAbilityStateChanged e uid a i m)"
  unfolding OnAbilityStateChanged_def by (simp add: tame_intros)

lemma quiet_erase_auth [quiet_intros]: "quiet m (erase_auth e P bs m)"
proof (induction bs arbitrary: m)
  case (Cons b bs)
  obtain k x where b: "b = (k, x)" by (cases b)
  have "quiet m (if P x then cm_saveAuth e (m\<lparr>cm_bannerNotificationRecord := t\<rparr>) else m)" for t
    by (intro effect_steps quiet_refl)
  then show ?case unfolding b erase_auth.simps by (rule quiet_trans) (rule Cons.IH)
qed simp

lemma tame_OnAppStopped [tame_intros]: "tame m (OnAppStopped e uid m)"
  unfolding OnAppStopped_def Let_def
  by (rule tame_if tame_refl tame_option tame_prod tame_quiet [OF _ quiet_erase_auth] tame_for |
      erule tame_cancel_row | rule effect_steps quiet_refl same_state_fields)+

lemma tame_system_cancel:
  "map_of (cm_tasks m) k = Some r \<Longrightarrow> tame m (system_cancel e k r m)"
  unfolding system_cancel_def Let_def
  by (erule tame_cancel_row) (rule effect_steps quiet_refl same_state_fields)+

lemma tame_OnBundleInfoChanged [tame_intros]: "tame m (OnBundleInfoChanged e a b u i x m)"
proof -
  have "tame m (for_tasks (\<lambda>k r m. if ct_uid r \<noteq> u then m else system_cancel e k r m)
      (m\<lparr>cm_cachedBundleInfos := c\<rparr>))" for c
    by (rule quiet_then_tame [OF quiet_fields(1) [of m c]]) (intro tame_for tame_steps tame_refl tame_system_cancel)
  moreover have "tame m (erase_auth e P bs (m\<lparr>cm_cachedBundleInfos := c\<rparr>))" for P bs c
    by (intro quiet_tame quiet_trans [OF quiet_fields(1) quiet_erase_auth])
  ultimately show ?thesis
    unfolding OnBundleInfoChanged_def Let_def by (auto simp: quiet_tame quiet_intros split: package_event.split)
qed

lemma tame_accounts [tame_intros]:
  "tame m (ClearBgOsAccountTask e ids m)" "tame m (ClearBgOsAccountTaskInCar e m)" "tame m (OnAccountsStateChanged e i m)"
  unfolding OnAccountsStateChanged_def ClearBgOsAccountTask_def ClearBgOsAccountTaskInCar_def
  by (auto split: option.split intro!: tame_for tame_system_cancel)

lemma tame_HandleRemoveTaskByMode [tame_intros]: "tame m (HandleRemoveTaskByMode e mode m)"
  unfolding HandleRemoveTaskByMode_def Let_def
  by (rule tame_for, rule tame_if, erule tame_cancel_row)
     (rule effect_steps quiet_refl same_state_fields tame_refl)+

text \<open>The dump command tells of all tasks first and then clears the table.\<close>

lemma effect_cancel_all:
  "effect (\<lambda>V. V - {ct_continuousTaskId r | k r. k \<in> set ks \<and> map_of (cm_tasks m) k = Some r}) m
     (each_task (\<lambda>k r m. OnContinuousTaskChanged r TASK_CANCEL (cancel_notif e (l r) (i r) m)) ks m)"
proof (induction ks arbitrary: m)
  case (Cons k ks)
  let ?f = "\<lambda>r m. OnContinuousTaskChanged r TASK_CANCEL (cancel_notif e (l r) (i r) m)"
  show ?case
  proof (cases "map_of (cm_tasks m) k")
    case None
    then have "{ct_continuousTaskId r | k' r. k' \<in> set (k # ks) \<and> map_of (cm_tasks m) k' = Some r} =
        {ct_continuousTaskId r | k' r. k' \<in> set ks \<and> map_of (cm_tasks m) k' = Some r}" by auto
    then show ?thesis using Cons.IH [of m] None by simp
  next
    case (Some r)
    have step: "effect (\<lambda>V. V - {ct_continuousTaskId r}) m (?f r m)"
      by (rule quiet_effect [OF quiet_cancel_notif notified_cancel])
    then have same: "cm_tasks (?f r m) = cm_tasks m" by (simp add: effect_def)
    have "{ct_continuousTaskId r | k' r. k' \<in> set (k # ks) \<and> map_of (cm_tasks m) k' = Some r} =
        insert (ct_continuousTaskId r) {ct_continuousTaskId r | k' r. k' \<in> set ks \<and> map_of (cm_tasks m) k' = Some r}"
      using Some by auto
    then show ?thesis
      using effect_trans [OF step Cons.IH [of "?f r m"]] Some
      by (simp add: same Diff_insert2 [symmetric])
  qed
qed (simp add: effect_def)

lemma tame_clear:
  assumes "effect (\<lambda>V. V - {ct_continuousTaskId r | k r. k \<in> set (map fst (cm_tasks m)) \<and> map_of (cm_tasks m) k = Some r}) m m'"
  shows "tame m (m'\<lparr>cm_continuousTaskInfosMap := []\<rparr>)"
proof -
  { assume "distinct_rows m"
    then have row: "(k, r) \<in> set (cm_tasks m) \<Longrightarrow> k \<in> set (map fst (cm_tasks m)) \<and> map_of (cm_tasks m) k = Some r" for k r
      using distinct_keys by (auto simp: image_iff intro: rev_bexI)
    have empty: "active_tasks m - {ct_continuousTaskId r | k r. k \<in> set (map fst (cm_tasks m)) \<and> map_of (cm_tasks m) k = Some r} = {}"
      using row unfolding active_tasks_def by blast
    obtain cs where cs: "cm_calls m' = cm_calls m @ cs" "\<forall>s. is_service s m \<longrightarrow> (\<forall>V. sa_view s cs V = V -
        {ct_continuousTaskId r | k r. k \<in> set (map fst (cm_tasks m)) \<and> map_of (cm_tasks m) k = Some r})"
      using effect_calls [OF assms] by blast
    have "rows_kept m (m'\<lparr>cm_continuousTaskInfosMap := []\<rparr>)"
      using assms by (simp add: rows_kept_def effect_def idents_def stored_from_def)
    moreover have "told m (m'\<lparr>cm_continuousTaskInfosMap := []\<rparr>)"
      unfolding told_def using cs empty by (intro exI [of _ cs]) (simp add: active_tasks_def)
    ultimately have "rows_kept m (m'\<lparr>cm_continuousTaskInfosMap := []\<rparr>) \<and> told m (m'\<lparr>cm_continuousTaskInfosMap := []\<rparr>)" .. }
  then show ?thesis by (simp add: tame_def)
qed

lemma quiet_foldl: "(\<And>x m. quiet m (f m x)) \<Longrightarrow> quiet m (foldl f m xs)"
  by (induction xs arbitrary: m) (auto intro: quiet_trans)

lemma tame_DumpCancelTask [tame_intros]: "tame m (DumpCancelTask e opts all m)"
proof -
  have "tame m (foldl (\<lambda>m uid. HandleAppContinuousTaskStop uid m) (cm_save e ((for_tasks (\<lambda>k r m.
      OnContinuousTaskChanged r TASK_CANCEL (cancel_notif e (ct_notificationLabel r) (ct_notificationId r) m)) m)
      \<lparr>cm_continuousTaskInfosMap := []\<rparr>)) us)" for us
    unfolding for_tasks_def
    by (intro tame_quiet [OF _ quiet_foldl] tame_steps quiet_app_stop tame_clear effect_cancel_all)
  then show ?thesis unfolding DumpCancelTask_def Let_def by (simp add: tame_intros split: option.split)
qed

section \<open>Updating\<close>

lemma quiet_refresh_want: "quiet m (snd (refresh_want_loop e infos w u ns m))"
proof (induction ns arbitrary: m)
  case (Cons n ns)
  obtain label creatorUid where n: "n = (label, creatorUid)" by (cases n)
  have 1: "quiet m (cm_emit [RefreshNotifWant label w p] m)" for p
    by (rule quiet_emit) simp
  show ?case
    using Cons.IH [of m] 1 quiet_trans [OF 1 Cons.IH] by (simp add: n Let_def split: option.split)
qed simp

lemma quiet_RefreshWant [quiet_intros]: "quiet m (snd (RefreshContinuousNotificationWantAndContext e i r u m))"
  unfolding RefreshContinuousNotificationWantAndContext_def by (simp add: quiet_refresh_want split: option.split)

lemma sends_UpdateTaskNotification: "sends r m (snd (UpdateTaskNotification e p r m))"
proof -
  define r1 where "r1 = (if \<not> ct_isCombinedTaskNotification r
      then r\<lparr>ct_bgModeId := cp_bgModeId p, ct_bgModeIds := cp_bgModeIds p, ct_bgSubModeIds := cp_bgSubModeIds p\<rparr> else r)"
  define r2 where "r2 = (case cp_wantAgent p of
      Some (Some want) \<Rightarrow> r1\<lparr>ct_wantAgent := cp_wantAgent p, ct_wantAgentInfo := Some (want_info want)\<rparr>
    | _ \<Rightarrow> r1\<lparr>ct_wantAgent := cp_wantAgent p\<rparr>)"
  define x where "x = GetNotificationText e r2 m"
  have s: "same_state r r2"
    unfolding r2_def r1_def by (simp add: same_state_def same_row_def split: option.split)
  then have x: "same_state r (snd x)"
    using GetNotificationText_state [of r2 e m] same_state_trans by (auto simp: x_def)
  have "sends r m (snd (SendContinuousTaskNotification e (snd x) m))"
    by (rule sends_change [OF x sends_SendContinuousTaskNotification])
  then show ?thesis
    unfolding UpdateTaskNotification_def Let_def r1_def [symmetric] r2_def [symmetric]
    by (simp add: split_beta x_def [symmetric] sends_def s x quiet_RefreshWant)
qed

end
