(* ===== verification/ContinuousEventSteps.thy ===== *)
theory ContinuousEventSteps
  imports ContinuousHandlers
begin

text \<open>
  The remaining handlers of continuous tasks are tame: updates, media sessions, live views, changed
  resources, authorizations, removed notifications and the dump command.
\<close>

section \<open>Updating\<close>

lemma tame_sends:
  assumes "map_of (cm_tasks m) k = Some r" and "sends r m x"
  shows "tame m (cm_set k (fst x) (snd x))"
proof -
  have q: "quiet m (snd x)" and s: "same_state r (fst x)" using assms(2) by (simp_all add: sends_def)
  then have "map_of (cm_tasks (snd x)) k = Some r" using assms(1) by (simp add: effect_def)
  then show ?thesis using quiet_then_tame [OF q tame_set] s by blast
qed

lemma tame_row_find:
  "(distinct_rows m \<Longrightarrow> tame m m') \<Longrightarrow> tame m m'"
  by (simp add: tame_def)

lemma tame_UpdateTaskInfo:
  assumes "map_of (cm_tasks m) key = Some r"
  shows "tame m (snd (snd (UpdateTaskInfo e p key r m)))"
proof -
  define x where "x = UpdateTaskNotification e p r m"
  have m2: "tame m (cm_set key (fst (snd x)) (snd (snd x)))"
    by (rule tame_sends [OF assms]) (simp add: x_def sends_UpdateTaskNotification)
  have "tame m (cm_save e (OnContinuousTaskChanged r1 TASK_UPDATE m3))" if "tame m m3" for r1 m3
    by (intro tame_steps tame_quiet [OF that notified_update])
  then show ?thesis
    unfolding UpdateTaskInfo_def Let_def x_def [symmetric] split_beta
    using m2 tame_trans [OF m2 tame_HandleActiveContinuousTask] by simp
qed

lemma tame_UpdateBackgroundRunningByTaskIdInner [tame_intros]:
  "tame m (snd (snd (UpdateBackgroundRunningByTaskIdInner e uid p m)))"
proof (rule tame_row_find)
  assume d: "distinct_rows m"
  show ?thesis
    unfolding UpdateBackgroundRunningByTaskIdInner_def Let_def
    by (auto split: option.split intro: tame_UpdateTaskInfo dest: find_task_row(1) [OF d])
qed

lemma tame_UpdateBackgroundRunningInner [tame_intros]: "tame m (snd (snd (UpdateBackgroundRunningInner e key p m)))"
proof (cases "map_of (cm_tasks m) key")
  case (Some r0)
  define r1 where "r1 = (if \<not> CheckExistMode (cp_bgModeIds p) BLUETOOTH_INTERACTION \<and> ct_bgSubModeIds r0 \<noteq> []
                      then r0\<lparr>ct_bgSubModeIds := []\<rparr> else r0)"
  define m1 where "m1 = cm_set key r1 m"
  define r2 where "r2 = r1\<lparr>ct_bgModeIds := cp_bgModeIds p, ct_isBatchApi := cp_isBatchApi p\<rparr>"
  define x where "x = (if CheckExistMode (ct_bgModeIds r0) DATA_TRANSFER \<and> CheckExistMode (ct_bgModeIds r2) DATA_TRANSFER
                        then (ERR_OK, r2, m1) else SendContinuousTaskNotification e r2 m1)"
  define m3 where "m3 = cm_set key (fst (snd x)) (snd (snd x))"
  have m1: "tame m m1" unfolding m1_def by (rule tame_set [OF Some]) (simp add: r1_def)
  have row1: "map_of (cm_tasks m1) key = Some r1" using Some by (simp add: m1_def map_of_cm_set)
  have "sends r2 m1 (snd x)" by (simp add: x_def sends_refl sends_SendContinuousTaskNotification)
  then have "sends r1 m1 (snd x)" by (rule sends_change [rotated]) (simp add: r2_def)
  then have m3: "tame m m3" unfolding m3_def by (rule tame_trans [OF m1 tame_sends [OF row1]])
  have "tame m (cm_save e (OnContinuousTaskChanged r4 TASK_UPDATE m4))" if "tame m m4" for r4 m4
    by (intro tame_steps tame_quiet [OF that notified_update])
  then show ?thesis
    unfolding UpdateBackgroundRunningInner_def Some option.case Let_def r1_def [symmetric] m1_def [symmetric]
      r2_def [symmetric] x_def [symmetric] split_beta m3_def [symmetric]
    using m1 m3 tame_trans [OF m3 tame_HandleActiveContinuousTask] by simp
qed (simp add: UpdateBackgroundRunningInner_def)

lemma tame_UpdateBackgroundRunning [tame_intros]: "tame m (snd (snd (UpdateBackgroundRunning e p m)))"
  unfolding UpdateBackgroundRunning_def Let_def by (simp add: tame_intros)

lemma tame_UpdateDataTransferProgress [tame_intros]: "tame m (snd (UpdateDataTransferProgress e d m))"
proof -
  have "tame m (snd (UpdateDataTransferProgressInner e uid d m))" for uid
  proof (rule tame_row_find)
    assume dist: "distinct_rows m"
    have "tame m (cm_set key (fst x) (snd x))" "tame m (cm_save e (cm_set key (fst x) (snd x)))"
      if "map_of (cm_tasks m) key = Some r" "x = snd (SendContinuousTaskNotification e
        ((if dp_wantAgent d \<noteq> None then r\<lparr>ct_wantAgent := dp_wantAgent d\<rparr> else r)\<lparr>ct_progressInfo := dp_progressInfo d\<rparr>) m)"
      for key r x
    proof -
      have "same_state r ((if dp_wantAgent d \<noteq> None then r\<lparr>ct_wantAgent := dp_wantAgent d\<rparr> else r)
          \<lparr>ct_progressInfo := dp_progressInfo d\<rparr>)" by (simp add: same_state_def same_row_def)
      then show s: "tame m (cm_set key (fst x) (snd x))"
        unfolding that(2) by (intro tame_sends [OF that(1)] sends_change [OF _ sends_SendContinuousTaskNotification])
      show "tame m (cm_save e (cm_set key (fst x) (snd x)))" by (intro tame_steps s)
    qed
    then show ?thesis
      unfolding UpdateDataTransferProgressInner_def Let_def split_beta
      by (simp split: option.split add: find_task_row(1) [OF dist])
  qed
  then show ?thesis unfolding UpdateDataTransferProgress_def Let_def by simp
qed

section \<open>Media sessions and live views\<close>

lemma quiet_RemoveAudioPlaybackDelayTask [quiet_intros]: "quiet m (RemoveAudioPlaybackDelayTask uid m)"
  unfolding RemoveAudioPlaybackDelayTask_def by (intro effect_steps quiet_refl)

lemma quiet_RefreshContinuousNotifications [quiet_intros]: "quiet m (RefreshContinuousNotifications e i m)"
  unfolding RefreshContinuousNotifications_def
  by (auto split: option.split intro!: quiet_emit simp: map_filter_def split: if_splits option.splits)

lemma quiet_RefreshBannerNotifications [quiet_intros]: "quiet m (RefreshBannerNotifications e i m)"
  unfolding RefreshBannerNotifications_def
  by (auto split: option.split intro!: quiet_emit simp: map_filter_def split: if_splits option.splits)

lemma quiet_row: "quiet m m' \<Longrightarrow> map_of (cm_tasks m) k = Some r \<Longrightarrow> map_of (cm_tasks m') k = Some r"
  by (simp add: effect_def)

lemma distinct_rows_quiet: "quiet m m' \<Longrightarrow> distinct_rows m \<Longrightarrow> distinct_rows m'"
  using effect_rows_kept distinct_rows_kept by blast

lemma tame_AVSessionInner [tame_intros]: "tame m0 (snd (AVSessionNotifyUpdateNotificationInner e uid pid pub m0))"
proof -
  define m where "m = (if pub
    then RemoveAudioPlaybackDelayTask uid (m0\<lparr>cm_avSessionNotification := AList.update uid pub (cm_avSessionNotification m0)\<rparr>)
    else m0\<lparr>cm_avSessionNotification := AList.update uid pub (cm_avSessionNotification m0)\<rparr>)"
  have q: "quiet m0 m"
    unfolding m_def by (intro effect_steps effect_quiet [OF _ quiet_RemoveAudioPlaybackDelayTask] quiet_refl)
  have "tame m (snd (AVSessionNotifyUpdateNotificationInner e uid pid pub m0))"
  proof (rule tame_row_find)
    assume d: "distinct_rows m"
    note drop = tame_quiet [OF _ quiet_RemoveAudioPlaybackDelayTask]
    note refresh = tame_quiet [OF _ quiet_RefreshContinuousNotifications]
    have 1: "tame m (cm_set k (fst (snd (SendContinuousTaskNotification e r m)))
        (snd (snd (SendContinuousTaskNotification e r m))))" if "map_of (cm_tasks m) k = Some r" for k r
      by (rule tame_sends [OF that sends_SendContinuousTaskNotification])
    have 2: "tame m (cm_set k (snd (GetNotificationText e r m)) m)" if "map_of (cm_tasks m) k = Some r" for k r
      by (rule tame_set [OF that GetNotificationText_state])
    have 3: "tame m (cm_set k ((snd (GetNotificationText e r m))\<lparr>ct_notificationId := -1\<rparr>) (cancel_notif e l i m))"
      if row: "map_of (cm_tasks m) k = Some r" for k r l i
      by (rule quiet_then_tame [OF quiet_cancel_notif], rule tame_set [OF quiet_row [OF quiet_cancel_notif row]])
         (rule same_state_trans [OF GetNotificationText_state], rule same_state_fields)
    have 4: "tame m (cm_set k (r\<lparr>ct_audioDetectState := True\<rparr>) m)" if "map_of (cm_tasks m) k = Some r" for k r
      by (rule tame_set [OF that]) simp
    show ?thesis
      unfolding AVSessionNotifyUpdateNotificationInner_def Let_def m_def [symmetric] split_beta
      by (auto split: option.split intro!: drop refresh tame_quiet [OF _ quiet_save] 1 2 3 4 dest!: find_task_row(1) [OF d])
  qed
  then show ?thesis by (rule quiet_then_tame [OF q])
qed

lemma tame_AVSession [tame_intros]: "tame m (snd (AVSessionNotifyUpdateNotification e uid pid pub m))"
  unfolding AVSessionNotifyUpdateNotification_def
  by (auto intro!: tame_intros quiet_tame quiet_trans [OF quiet_post quiet_fields(11)])

lemma tame_dete_loop: "tame m (dete_loop e ks m)"
proof (induction ks arbitrary: m)
  case (Cons k ks)
  show ?case
  proof (cases "map_of (cm_tasks m) k")
    case (Some r)
    define m1 where "m1 = m\<lparr>cm_avSessionNotification := AList.update (ct_uid r) False (cm_avSessionNotification m)\<rparr>"
    have q: "quiet m m1" unfolding m1_def by (rule quiet_fields)
    have "tame m1 (cm_set k (fst (HandleActiveNotification e r m1)) (snd (HandleActiveNotification e r m1)))"
      by (rule tame_sends [OF quiet_row [OF q Some] sends_HandleActiveNotification])
    then show ?thesis
      unfolding dete_loop.simps Some option.case Let_def m1_def [symmetric] split_beta
      by (rule tame_trans [OF quiet_then_tame [OF q] Cons.IH])
  qed (use Cons in simp)
qed simp

lemma tame_SendNotificationByDeteTask [tame_intros]: "tame m (snd (SendNotificationByDeteTask e ks m))"
  unfolding SendNotificationByDeteTask_def by (simp add: tame_dete_loop)

lemma tame_CancelBgTaskNotification [tame_intros]: "tame m (CancelBgTaskNotification e uid m)"
proof -
  have "tame m (cm_set k (r\<lparr>ct_notificationId := -1\<rparr>) (cancel_notif e l i m))" if "map_of (cm_tasks m) k = Some r" for m k r l i
    by (rule quiet_then_tame [OF quiet_cancel_notif], rule tame_set [OF quiet_row [OF quiet_cancel_notif that]]) simp
  then show ?thesis unfolding CancelBgTaskNotification_def by (intro tame_steps tame_refl tame_for)
qed

lemma tame_SendNotificationByLiveViewCancel [tame_intros]: "tame m (SendNotificationByLiveViewCancel e uid m)"
proof -
  have "tame m (cm_set k (fst (snd (SendContinuousTaskNotification e r m))) (snd (snd (SendContinuousTaskNotification e r m))))"
    if "map_of (cm_tasks m) k = Some r" for m k r
    by (rule tame_sends [OF that sends_SendContinuousTaskNotification])
  then show ?thesis
    unfolding SendNotificationByLiveViewCancel_def Let_def split_beta by (intro tame_steps tame_refl tame_for)
qed

section \<open>Audio and resources\<close>

lemma tame_audio_start_loop: "tame m (snd (audio_start_loop uid a ks infos m))"
proof (induction ks arbitrary: infos m)
  case (Cons k ks)
  show ?case
  proof (cases "map_of (cm_tasks m) k")
    case (Some r)
    have "tame m (cm_set k (r\<lparr>ct_audioPlayState := True\<rparr>) m)" by (rule tame_set [OF Some]) simp
    then show ?thesis using Some Cons.IH tame_trans by (auto split: option.split)
  qed (use Cons in simp)
qed simp

lemma tame_NotifyAudioStartInner [tame_intros]: "tame m (NotifyAudioStartInner e uid m)"
proof -
  have "tame m (case audio_start_loop uid a ks [] m of (None, m1) \<Rightarrow> m1 | (Some [], m1) \<Rightarrow> m1
      | (Some (i # is), m1) \<Rightarrow> cm_save e (RefreshContinuousNotifications e (i # is) m1))" for a ks
    using tame_audio_start_loop [of m uid a ks "[]"]
    by (auto split: prod.split option.split list.split
        intro!: tame_quiet [OF _ effect_quiet [OF quiet_RefreshContinuousNotifications quiet_save]])
  then show ?thesis
    unfolding NotifyAudioStartInner_def Let_def by (auto split: option.split)
qed

lemma tame_NotifyAudioStart [tame_intros]: "tame m (snd (NotifyAudioStart uid m))"
  unfolding NotifyAudioStart_def by (simp add: quiet_tame quiet_intros)

lemma tame_resources_loop: "tame m (snd (resources_loop e ks infos m))"
proof (induction ks arbitrary: infos m)
  case (Cons k ks)
  show ?case
  proof (cases "map_of (cm_tasks m) k")
    case (Some r)
    have "tame m (cm_set k (snd (GetNotificationText e r m)) m)" by (rule tame_set [OF Some GetNotificationText_state])
    then show ?thesis using Some Cons.IH tame_trans by (auto simp: split_beta Let_def)
  qed (use Cons in simp)
qed simp

lemma quiet_banner_resources: "quiet m (banner_resources_loop e ks m)"
proof (induction ks arbitrary: m)
  case (Cons k ks)
  show ?case
    using quiet_trans [OF quiet_fields(3) Cons.IH] Cons.IH [of m]
      quiet_trans [OF effect_quiet [OF quiet_fields(3) quiet_RefreshBannerNotifications] Cons.IH]
    by (simp add: Let_def split: option.split)
qed simp

lemma quiet_GetNotificationPrompt [quiet_intros]: "quiet m (snd (GetNotificationPrompt e m))"
  by (simp add: GetNotificationPrompt_def GetNotificationTextForMode_def Let_def split_beta effect_def stored_from_def)

lemma tame_OnBundleResourcesChanged [tame_intros]: "tame m (OnBundleResourcesChanged e m)"
proof -
  have 1: "tame m ((snd (GetNotificationPrompt e m))\<lparr>cm_cachedBundleInfos := []\<rparr>)"
    by (intro quiet_tame effect_steps quiet_GetNotificationPrompt)
  show ?thesis
    unfolding OnBundleResourcesChanged_def Let_def split_beta
    by (intro tame_quiet [OF _ quiet_banner_resources] tame_quiet [OF _ quiet_RefreshContinuousNotifications]
        tame_trans [OF 1 tame_resources_loop])
qed

section \<open>Authorizations\<close>

lemma quiet_emit_one: "(\<And>s. silent_for s c) \<Longrightarrow> quiet m (cm_emit [c] m)"
  by (rule quiet_emit) simp

lemma quiet_CheckAuthParam: "quiet m (snd (snd (CheckAuthParam e r cb v m)))"
  unfolding CheckAuthParam_def Let_def by (auto split: option.split intro!: quiet_emit_one)

lemma quiet_PublishBanner: "quiet m (snd (snd (PublishBannerNotification e b p m)))"
  unfolding PublishBannerNotification_def Let_def
  by (auto split: option.split prod.split) (metis quiet_publish snd_conv)+

lemma quiet_RequestAuthFromUserInner: "quiet m (snd (snd (RequestAuthFromUserInner e r cb v m)))"
proof -
  define x where "x = CheckAuthParam e r cb v m"
  have x: "quiet m (snd (snd x))" unfolding x_def by (rule quiet_CheckAuthParam)
  have y: "quiet m (snd (snd (PublishBannerNotification e b c (snd (snd x)))))" for b c
    by (rule quiet_trans [OF x quiet_PublishBanner])
  have em: "quiet m (cm_emit [ExpiredAuth cb t] (snd (snd x)))" for t
    by (rule quiet_trans [OF x quiet_emit_one]) simp
  have add: "quiet m (cm_saveAuth e (HisysEventRequestAuth b (m1\<lparr>cm_expiredCallbackMap := f, cm_bannerNotificationRecord := g\<rparr>)))"
    if "quiet m m1" for m1 b f g
    unfolding HisysEventRequestAuth_def by (intro effect_steps effect_quiet [OF _ quiet_emit_one] that) simp
  show ?thesis
    unfolding RequestAuthFromUserInner_def Let_def split_beta x_def [symmetric]
    using x em y add [OF x] add [OF y] by (auto split: option.split)
qed

lemma quiet_RequestAuthFromUser: "quiet m (snd (snd (RequestAuthFromUser e p cb m)))"
  unfolding RequestAuthFromUser_def Let_def
  by (auto split: option.split intro: quiet_RequestAuthFromUserInner)

lemma quiet_fire: "quiet m (fire_callback k x m)"
  unfolding fire_callback_def
  by (auto split: option.split intro!: quiet_trans [OF quiet_fields(4) quiet_emit_one])

lemma quiet_set_auth: "quiet m (set_auth k x m)"
  unfolding set_auth_def by (rule quiet_fields)

lemmas auth_steps = effect_steps effect_quiet [OF _ quiet_fire] effect_quiet [OF _ quiet_set_auth] quiet_refl

lemma quiet_clicks:
  "quiet m (OnPermissionDialogButtonClickInner e a u b i m)"
  "quiet m (OnBannerNotificationActionButtonClick e t u l m)"
  "quiet m (snd (StopBannerContinuousTaskByUser e l m))"
  "quiet m (HandleAuthExpiredCallbackDeath e rem m)"
proof -
  show "quiet m (OnPermissionDialogButtonClickInner e a u b i m)"
    unfolding OnPermissionDialogButtonClickInner_def Let_def by (intro auth_steps)
  have "quiet m (OnBannerNotificationActionButtonClickInner e t u l m)"
    unfolding OnBannerNotificationActionButtonClickInner_def Let_def
    by (cases "map_of (cm_bannerNotificationRecord m) l") (simp_all only: option.case, intro auth_steps, intro auth_steps)
  then show "quiet m (OnBannerNotificationActionButtonClick e t u l m)"
    unfolding OnBannerNotificationActionButtonClick_def by simp
  have "quiet m (cm_saveAuth e (m\<lparr>cm_bannerNotificationRecord := x\<rparr>))" for x by (intro auth_steps)
  then show "quiet m (snd (StopBannerContinuousTaskByUser e l m))"
    unfolding StopBannerContinuousTaskByUser_def StopBannerContinuousTaskByUserInner_def by (simp split: option.split)
  have "quiet m (cm_saveAuth e ((if c then cancel_notif e k n (m\<lparr>cm_expiredCallbackMap := f\<rparr>)
      else m\<lparr>cm_expiredCallbackMap := f\<rparr>)\<lparr>cm_bannerNotificationRecord := g\<rparr>))" for c k n f g
    by (intro auth_steps)
  then have "quiet m (HandleAuthExpiredCallbackDeathInner e r m)" for r
    unfolding HandleAuthExpiredCallbackDeathInner_def Let_def by (auto simp: quiet_intros split: option.split)
  then show "quiet m (HandleAuthExpiredCallbackDeath e rem m)"
    unfolding HandleAuthExpiredCallbackDeath_def by (simp split: option.split)
qed

lemma quiet_RemoveAuthRecord: "quiet m (snd (RemoveAuthRecord e p m))"
proof -
  have "quiet m (RemoveAuthRecordInner e r m)" for r
    unfolding RemoveAuthRecordInner_def Let_def by (intro auth_steps)
  then show ?thesis unfolding RemoveAuthRecord_def by (simp split: option.split)
qed

lemma quiet_SetBackgroundTaskState: "quiet m (snd (SetBackgroundTaskState e p m))"
proof -
  have "quiet m (cm_saveAuth e (m\<lparr>cm_bannerNotificationRecord := x\<rparr>))" "quiet m (cm_saveAuth e (set_auth k y m))" for x k y
    by (intro auth_steps)+
  then show ?thesis
    unfolding SetBackgroundTaskState_def SetBackgroundTaskStateInner_def Let_def by (simp split: option.split prod.split)
qed

lemma quiet_RestoreAuth: "quiet m (snd (cm_RestoreAuthRecord e m))"
  unfolding cm_RestoreAuthRecord_def Let_def split_beta snd_conv by (intro auth_steps)

lemma quiet_OnRestore: "quiet m (snd (cm_OnRestore e m))"
  unfolding cm_OnRestore_def Let_def using quiet_trans [OF quiet_fields(13) quiet_RestoreAuth]
  by (simp add: quiet_fields split: option.split)

section \<open>Notifications that appear and disappear\<close>

lemma quiet_SetLiveViewInfo: "quiet m (SetLiveViewInfo uid b ev m)"
  unfolding SetLiveViewInfo_def Let_def by (intro effect_steps quiet_refl)

lemma tame_CancelNotificationByBgTask: "tame m (CancelNotificationByBgTask e dr v reason m)"
  unfolding CancelNotificationByBgTask_def Let_def
  by (simp add: tame_intros quiet_tame quiet_clicks split: option.split)

lemma tame_OnCanceled [tame_intros]: "tame m (OnCanceled e dr v reason m)"
proof -
  have "tame m (cm_emit [ReportLiveView u n b] m1)" if "tame m m1" for u n b m1
    by (rule tame_quiet [OF that quiet_emit_one]) simp
  moreover have "tame m (SendNotificationByLiveViewCancel e u (SetLiveViewInfo u b n m))" for u b n
    by (rule quiet_then_tame [OF quiet_SetLiveViewInfo tame_SendNotificationByLiveViewCancel])
  ultimately show ?thesis
    unfolding OnCanceled_def Let_def
    by (simp add: tame_CancelNotificationByBgTask split_beta split: option.split)
qed

lemma tame_OnConsumed [tame_intros]: "tame m (OnConsumed e v m)"
proof -
  have "tame m (cm_emit [ReportLiveView u n b] m1)" if "tame m m1" for u n b m1
    by (rule tame_quiet [OF that quiet_emit_one]) simp
  moreover have "tame m (CancelBgTaskNotification e u (SetLiveViewInfo u b n m))" for u b n
    by (rule quiet_then_tame [OF quiet_SetLiveViewInfo tame_CancelBgTaskNotification])
  ultimately show ?thesis
    unfolding OnConsumed_def Let_def by (simp add: split_beta split: option.split)
qed

section \<open>Requests that are posted, settings\<close>

lemma quiet_posts:
  "quiet m (StopContinuousTask u p t k m)" "quiet m (SuspendContinuousTask u p r k b m)"
  "quiet m (ActiveContinuousTask u p k b m)" "quiet m (SuspendContinuousAudioTask u m)"
  "quiet m (cm_OnRemoveSystemAbility i m)"
  unfolding StopContinuousTask_def SuspendContinuousTask_def ActiveContinuousTask_def SuspendContinuousAudioTask_def
    cm_OnRemoveSystemAbility_def by (simp_all add: quiet_post)

lemma quiet_OnAppStateChanged: "quiet m (OnAppStateChanged e u f g m)"
  unfolding OnAppStateChanged_def RemoveGamePreLaunchApp_def Let_def by (intro effect_steps quiet_refl)

lemma quiet_Enable: "quiet m (snd (EnableContinuousTaskRequest u b m))"
  unfolding EnableContinuousTaskRequest_def by (simp add: quiet_fields)

lemma quiet_prelaunch: "quiet m (AddGamePreLaunchApp u m)" "quiet m (RemoveGamePreLaunchApp u m)"
  unfolding AddGamePreLaunchApp_def RemoveGamePreLaunchApp_def by (rule quiet_fields)+

end
