(* ===== verification/ContinuousStart.thy ===== *)
theory ContinuousStart
  imports ContinuousEventSteps
begin

text \<open>
  What a request to start a continuous task does to the table: it is refused and no row changes its
  identity, or exactly one row is added under a key that was free, and every system service is told
  (\<open>added\<close>). \<open>start_result\<close> describes the outcome of the whole request.
\<close>

section \<open>Adding a row\<close>

definition added :: "string \<Rightarrow> ContinuousTaskRecord \<Rightarrow> BgContinuousTaskMgr \<Rightarrow> BgContinuousTaskMgr \<Rightarrow> bool" where
  "added key r m m' \<longleftrightarrow> (\<exists>m1. tame m m1 \<and> map fst (cm_tasks m1) = map fst (cm_tasks m) \<and>
     effect (insert (ct_continuousTaskId r)) (m1\<lparr>cm_continuousTaskInfosMap := cm_tasks m1 @ [(key, r)]\<rparr>) m')"

lemma keys_set [simp]: "map fst (cm_tasks (cm_set k r m)) = map fst (cm_tasks m)"
  by (simp add: cm_set_def)

lemma quiet_keys: "effect f m m' \<Longrightarrow> map fst (cm_tasks m') = map fst (cm_tasks m)"
  by (simp add: effect_def)

definition written :: "cenv \<Rightarrow> BgContinuousTaskMgr \<Rightarrow> bool" where
  "written e m \<longleftrightarrow> (ce_saveTask e = ERR_OK \<longrightarrow> cm_stored m = Some (ds_RefreshTaskRecord (cm_tasks m)))"

lemma written_save: "written e (cm_save e m)"
  by (simp add: written_def RefreshTaskRecord_def)

text \<open>Looking for a notification to share marks the row found, and only then is the request not one for a new notification.\<close>

lemma CheckCombined_cases:
  assumes "CheckCombinedTaskNotification r m = (ret, send, r1, m1)"
  shows "same_state r r1 \<and> tame m m1 \<and> map fst (cm_tasks m1) = map fst (cm_tasks m) \<and>
     ct_isFromWebview r1 = ct_isFromWebview r \<and> (m1 = m \<or> ret = ERR_OK \<and> \<not> send)"
proof -
  have "tame m (cm_set k (t\<lparr>ct_combinedNotificationTaskId := i\<rparr>) m)" if "find_task P (cm_tasks m) = Some (k, t)" for P k t i
    by (rule tame_row_find, rule tame_set [OF find_task_row(1) [OF _ that]]) (assumption, rule same_state_fields)
  moreover have "same_state r (r\<lparr>ct_notificationId := n, ct_notificationLabel := l\<rparr>)" for n l
    by (simp add: same_state_def same_row_def)
  ultimately show ?thesis
    using assms unfolding CheckCombinedTaskNotification_def DetermineMatchCombinedTaskNotifacation_def Let_def
    by (auto split: if_splits option.splits)
qed

lemma StartBackgroundRunningSubmit_cases:
  assumes "map_of (cm_tasks m) key = None" and "StartBackgroundRunningSubmit e r key m = (ret, r', m')"
  shows "same_state r r' \<and> (ret \<noteq> ERR_OK \<and> quiet m m' \<or> ret = ce_saveTask e \<and> added key r' m m' \<and> written e m')"
proof -
  obtain ret1 send r1 m1 where c: "CheckCombinedTaskNotification r m = (ret1, send, r1, m1)"
    by (cases "CheckCombinedTaskNotification r m") auto
  note cc = CheckCombined_cases [OF c]
  define x where "x = (if (\<not> ct_isFromWebview r1 \<or> ct_needNotificationForInnerApi r1) \<and> send
                       then send_notifications e r1 m1 else (ERR_OK, r1, m1))"
  obtain ret2 r2 m2 where x2: "x = (ret2, r2, m2)" by (cases x) auto
  have "sends r1 m1 (snd x)" by (simp add: x_def sends_refl sends_send_notifications)
  then have r2: "same_state r1 r2" "quiet m1 m2" by (simp_all add: x2 sends_def)
  have same: "same_state r r2" using cc r2(1) same_state_trans by blast
  have send_ok: "m1 = m" if "ret2 \<noteq> ERR_OK"
    using that cc x2 unfolding x_def by (auto split: if_splits)
  let ?m3 = "OnContinuousTaskChanged r2 TASK_START (m2\<lparr>cm_continuousTaskInfosMap := hm_emplace key r2 (cm_tasks m2)\<rparr>)"
  have keys: "map fst (cm_tasks m2) = map fst (cm_tasks m)" using cc quiet_keys [OF r2(2)] by simp
  have "key \<notin> fst ` set (cm_tasks m)" using assms(1) by (simp add: map_of_eq_None_iff)
  then have "key \<notin> fst ` set (cm_tasks m2)" using keys by (metis list.set_map)
  then have emplace: "hm_emplace key r2 (cm_tasks m2) = cm_tasks m2 @ [(key, r2)]"
    by (simp add: hm_emplace_def map_of_eq_None_iff)
  have "effect (insert (ct_continuousTaskId r2)) (m2\<lparr>cm_continuousTaskInfosMap := cm_tasks m2 @ [(key, r2)]\<rparr>) (cm_save e ?m3)"
    unfolding emplace by (intro effect_steps notified_start)
  then have add: "added key r2 m (cm_save e ?m3)"
    unfolding added_def using keys tame_quiet cc r2(2) by blast
  have saved: "fst (RefreshTaskRecord e ?m3) = ce_saveTask e" by (simp add: RefreshTaskRecord_def)
  have xp: "quiet m (ReportXpowerHisysevent ty r ret m)" for ty
    unfolding ReportXpowerHisysevent_def by (rule quiet_emit_one) simp
  show ?thesis
    using assms(2) cc same r2 send_ok add saved xp written_save [of e ?m3]
    unfolding StartBackgroundRunningSubmit_def Let_def c prod.case x_def [symmetric] x2
    by (auto split: if_splits simp: split_beta)
qed

lemma added_quiet: "quiet m m1 \<Longrightarrow> added key r m1 m' \<Longrightarrow> added key r m m'"
  unfolding added_def using quiet_then_tame quiet_keys by metis

lemma quiet_SetCachedBundleInfo: "quiet m (snd (SetCachedBundleInfo e r m))"
  unfolding SetCachedBundleInfo_def by (simp add: quiet_fields split: option.split)

lemma task_key_same: "same_row r r' \<Longrightarrow> task_key r' = task_key r"
  by (simp add: task_key_def same_row_def Let_def)

text \<open>The outcome of a request for a record: refused with or without using up an id, or one row added.\<close>

definition start_result ::
    "cenv \<Rightarrow> ContinuousTaskRecord \<Rightarrow> BgContinuousTaskMgr \<Rightarrow> ErrCode \<times> ContinuousTaskRecord \<times> BgContinuousTaskMgr \<Rightarrow> bool" where
  "start_result e r m x \<longleftrightarrow> (case x of (ret, r', m') \<Rightarrow>
     let taskId = i32 (cm_continuousTaskIdIndex m + 1) in
     ret \<noteq> ERR_OK \<and> (quiet m m' \<or> quiet (m\<lparr>cm_continuousTaskIdIndex := taskId\<rparr>) m') \<or>
     ret = ce_saveTask e \<and> same_state (r\<lparr>ct_continuousTaskId := taskId\<rparr>) r' \<and>
       map_of (cm_tasks m) (task_key r') = None \<and> (ct_isByRequestObject r' \<longrightarrow> CheckAbilityTaskNum r' m = ERR_OK) \<and>
       added (task_key r') r' (m\<lparr>cm_continuousTaskIdIndex := taskId\<rparr>) m' \<and> written e m')"

lemma CheckAbilityTaskNum_cong:
  "cm_tasks m' = cm_tasks m \<Longrightarrow> ct_abilityId r' = ct_abilityId r \<Longrightarrow> CheckAbilityTaskNum r' m' = CheckAbilityTaskNum r m"
  by (simp add: CheckAbilityTaskNum_def)

lemma StartBackgroundRunningInner_result:
  assumes "\<not> ct_suspendState r0"
  shows "start_result e r0 m0 (StartBackgroundRunningInner e r0 m0)"
proof -
  define taskId where "taskId = i32 (cm_continuousTaskIdIndex m0 + 1)"
  define m where "m = m0\<lparr>cm_continuousTaskIdIndex := taskId\<rparr>"
  define r where "r = r0\<lparr>ct_continuousTaskId := taskId\<rparr>"
  define m1 where "m1 = (if \<not> ct_isFromWebview r \<or> ct_needNotificationForInnerApi r
                            then snd (SetCachedBundleInfo e r m) else m)"
  obtain ret r' m' where sub: "StartBackgroundRunningSubmit e r (task_key r) m1 = (ret, r', m')"
    by (cases "StartBackgroundRunningSubmit e r (task_key r) m1") auto
  have q: "quiet m m1" unfolding m1_def by (simp add: quiet_SetCachedBundleInfo)
  have susp: "\<not> ct_suspendState r" using assms by (simp add: r_def)
  have "start_result e r0 m0 (ret, r', m')"
    if free: "map_of (cm_tasks m) (task_key r) = None" and room: "ct_isByRequestObject r \<longrightarrow> CheckAbilityTaskNum r m = ERR_OK"
  proof -
    have "map_of (cm_tasks m1) (task_key r) = None" using q free by (simp add: effect_def)
    note c = StartBackgroundRunningSubmit_cases [OF this sub]
    then have s: "same_state r r'" ..
    then have row: "same_row r r'" by (simp add: same_state_def)
    have k: "task_key r' = task_key r" by (rule task_key_same [OF row])
    have k2: "ct_isByRequestObject r' = ct_isByRequestObject r" using row by (simp add: same_row_def)
    have k3: "CheckAbilityTaskNum r' m0 = CheckAbilityTaskNum r m"
      by (rule CheckAbilityTaskNum_cong) (use row in \<open>simp_all add: same_row_def m_def\<close>)
    have "ret \<noteq> ERR_OK \<and> quiet m m' \<or> ret = ce_saveTask e \<and> added (task_key r) r' m m' \<and> written e m'"
      using c quiet_trans [OF q] added_quiet [OF q] by blast
    moreover have "map_of (cm_tasks m0) (task_key r) = None" using free by (simp add: m_def)
    ultimately show ?thesis
      using s room unfolding start_result_def Let_def taskId_def [symmetric] m_def [symmetric] r_def [symmetric] prod.case
        k k2 k3 by blast
  qed
  moreover have "start_result e r0 m0 (c, r1, m0)" "start_result e r0 m0 (c, r1, m)" if "c \<noteq> ERR_OK" for c r1
    using that unfolding start_result_def Let_def taskId_def [symmetric] m_def [symmetric] by simp_all
  ultimately show ?thesis
    using susp sub
    unfolding StartBackgroundRunningInner_def Let_def taskId_def [symmetric] m_def [symmetric] r_def [symmetric] m1_def [symmetric]
    by (auto split: if_splits)
qed

end
