(* ===== verification/ContinuousStorage.thy ===== *)
theory ContinuousStorage
  imports ContinuousTaskRecord "HOL-Library.Multiset"
begin

text \<open>
  What the file of running tasks preserves. A record that is written and read again keeps every
  field but the want agent, the app name, the tokens, the reason for a cancellation, the number of
  audio suspensions and the audio detection state, which are reset (\<open>persisted\<close>), if its numbers fit
  their types and the mode lists are split where they were joined. The table that is read holds the
  same keys.
\<close>

section \<open>One record\<close>

definition persisted :: "ContinuousTaskRecord \<Rightarrow> ContinuousTaskRecord" where
  "persisted r = r\<lparr>ct_wantAgent := None, ct_appName := '''', ct_fullTokenId := 0, ct_callingTokenId := 0,
     ct_reason := 0, ct_suspendAudioTaskTimes := 0, ct_audioDetectState := True\<rparr>"

definition storable :: "ContinuousTaskRecord \<Rightarrow> bool" where
  "storable r \<longleftrightarrow> list_all is_i32 [ct_userId r, ct_uid r, ct_pid r, ct_notificationId r, ct_continuousTaskId r,
     ct_abilityId r, ct_suspendReason r, ct_combinedNotificationTaskId r, ct_subNotificationId r, ct_appIndex r,
     ct_detailedCancelReason r] \<and>
     list_all (\<lambda>m. uint m < 2147483648) (ct_bgModeIds r @ ct_bgSubModeIds r) \<and>
     (case ct_progressInfo r of None \<Rightarrow> True | Some p \<Rightarrow> is_i32 (pg_progressValue p))"

text \<open>\<^verbatim>\<open>SplitStr\<close> on a joined list gives its elements.\<close>

definition splits_modes :: "(string \<Rightarrow> string list) \<Rightarrow> bgmode list \<Rightarrow> bool" where
  "splits_modes split ms \<longleftrightarrow> split (modes_ToString ms) = map (\<lambda>m. to_string (uint m)) ms"

lemma modes_round_trip:
  assumes "splits_modes split ms" and "list_all (\<lambda>m. uint m < 2147483648) ms"
  shows "modes_ToVector split (modes_ToString ms) = ms"
proof -
  have "word_of_int (atoi (to_string (uint m))) = m" if "m \<in> set ms" for m
    using that assms(2) order_trans [of "- 2147483648" 0 "uint m"]
    by (subst atoi_to_string) (auto simp: is_i32_def list_all_iff)
  then show ?thesis using assms(1) by (simp add: modes_ToVector_def splits_modes_def map_idI)
qed

lemma pg_round_trip: "is_i32 (pg_progressValue p) \<Longrightarrow> pg_ParseFromJson (pg_ParseToJson p) new_ProgressInfo = Some p"
  by (cases p) (simp add: pg_ParseFromJson_def pg_ParseToJson_def string_at_def int_at_def bool_at_def)

lemma json_find_put_all:
  "obj_wf j \<Longrightarrow> obj_wf (put_all kvs j) \<and>
     json_find (put_all kvs j) k = (case map_of (rev kvs) k of Some v \<Rightarrow> Some v | None \<Rightarrow> json_find j k)"
  by (induction kvs rule: rev_induct) (auto simp: put_all_def split_beta split: option.split)

text \<open>The members of a stored record.\<close>

definition want_member :: "ContinuousTaskRecord \<Rightarrow> (string \<times> json) list" where
  "want_member r = (case ct_wantAgentInfo r of None \<Rightarrow> []
     | Some info \<Rightarrow> [(''wantAgentInfo'', put_all [(''bundleName'', JString (wi_bundleName info)),
                                              (''abilityName'', JString (wi_abilityName info))] JNull)])"

definition progress_member :: "ContinuousTaskRecord \<Rightarrow> (string \<times> json) list" where
  "progress_member r = (case ct_progressInfo r of None \<Rightarrow> [] | Some p \<Rightarrow> [(''progressInfo'', pg_ParseToJson p)])"

definition record_members :: "ContinuousTaskRecord \<Rightarrow> (string \<times> json) list" where
  "record_members r =
     [(''isFromComponent'', JBool (ct_isFromComponent r)),
      (''isStandbySuspend'', JBool (ct_isStandbySuspend r)),
      (''audioPlayState'', JBool (ct_audioPlayState r)),
      (''isStandby'', JBool (ct_isStandby r)),
      (''detailedCancelReason'', JInt (ct_detailedCancelReason r)),
      (''appIndex'', JInt (ct_appIndex r)),
      (''subNotificationId'', JInt (ct_subNotificationId r)),
      (''subNotificationLabel'', JString (ct_subNotificationLabel r)),
      (''isByRequestObject'', JBool (ct_isByRequestObject r)),
      (''combinedNotificationTaskId'', JInt (ct_combinedNotificationTaskId r)),
      (''isCombinedTaskNotification'', JBool (ct_isCombinedTaskNotification r)),
      (''suspendReason'', JInt (ct_suspendReason r)),
      (''suspendState'', JBool (ct_suspendState r)),
      (''abilityId'', JInt (ct_abilityId r)),
      (''continuousTaskId'', JInt (ct_continuousTaskId r)),
      (''isSystem'', JBool (ct_isSystem r)),
      (''bgSubModeIds'', JString (modes_ToString (ct_bgSubModeIds r))),
      (''bgModeIds'', JString (modes_ToString (ct_bgModeIds r))),
      (''isBatchApi'', JBool (ct_isBatchApi r)),
      (''notificationId'', JInt (ct_notificationId r)),
      (''notificationLabel'', JString (ct_notificationLabel r)),
      (''needSendNotificationForInnerApi'', JBool (ct_needNotificationForInnerApi r)),
      (''isFromWebview'', JBool (ct_isFromWebview r)),
      (''isNewApi'', JBool (ct_isNewApi r)),
      (''bgModeId'', JInt (uint (ct_bgModeId r))),
      (''pid'', JInt (ct_pid r)),
      (''uid'', JInt (ct_uid r)),
      (''userId'', JInt (ct_userId r)),
      (''abilityName'', JString (ct_abilityName r)),
      (''bundleName'', JString (ct_bundleName r))]"

lemma map_of_delay: "map_of (xs @ ys) k = (case map_of xs k of Some v \<Rightarrow> Some v | None \<Rightarrow> map_of ys k)"
  by (simp add: map_add_def split: option.split)

lemma json_find_record:
  "json_find (ct_ParseToJson r) k =
     (if k = ''wantAgentInfo'' then map_of (want_member r) k
      else if k = ''progressInfo'' then map_of (progress_member r) k
      else map_of (record_members r) k)"
proof -
  define a b c where "a = take 1 (record_members r)" and "b = take 14 (drop 1 (record_members r))"
    and "c = drop 15 (record_members r)"
  have 1: "ct_ParseToJson r = put_all (rev (a @ progress_member r @ b @ want_member r @ c)) JNull"
    by (simp add: ct_ParseToJson_def Let_def put_all_def a_def b_def c_def record_members_def want_member_def
        progress_member_def split: option.split)
  have 2: "map_of (want_member r) k = None" if "k \<noteq> ''wantAgentInfo''"
    using that by (simp add: want_member_def split: option.split)
  have 3: "map_of (progress_member r) k = None" if "k \<noteq> ''progressInfo''"
    using that by (simp add: progress_member_def split: option.split)
  have 4: "map_of (record_members r) k = None" if "k = ''wantAgentInfo'' \<or> k = ''progressInfo''"
    using that by (elim disjE) (simp_all add: record_members_def)
  have "record_members r = a @ b @ c"
    by (simp add: a_def b_def c_def record_members_def)
  then have 5: "map_of (record_members r) k = (case map_of a k of Some v \<Rightarrow> Some v
     | None \<Rightarrow> (case map_of b k of Some v \<Rightarrow> Some v | None \<Rightarrow> map_of c k))"
    by (simp only: map_of_delay)
  have "json_find (ct_ParseToJson r) k =
      (case map_of (a @ progress_member r @ b @ want_member r @ c) k of Some v \<Rightarrow> Some v | None \<Rightarrow> None)"
    unfolding 1 by (simp only: json_find_put_all rev_rev_ident obj_wf.simps json_find.simps)
  then have 6: "json_find (ct_ParseToJson r) k = (case map_of a k of Some v \<Rightarrow> Some v
     | None \<Rightarrow> (case map_of (progress_member r) k of Some v \<Rightarrow> Some v | None \<Rightarrow> (case map_of b k of Some v \<Rightarrow> Some v
     | None \<Rightarrow> (case map_of (want_member r) k of Some v \<Rightarrow> Some v | None \<Rightarrow> map_of c k))))"
    by (simp only: map_of_delay option.case_eq_if) simp
  consider "k = ''wantAgentInfo''" "k \<noteq> ''progressInfo''" | "k = ''progressInfo''" "k \<noteq> ''wantAgentInfo''"
    | "k \<noteq> ''wantAgentInfo''" "k \<noteq> ''progressInfo''" by auto
  then show ?thesis
  proof cases
    case 1
    then have "map_of a k = None" "map_of b k = None" "map_of c k = None" "map_of (progress_member r) k = None"
      using 5 4 3 by (auto split: option.splits)
    with 6 1(1) show ?thesis by (cases "map_of (want_member r) k") simp_all
  next
    case 2
    note k = this
    then have "map_of a k = None" "map_of b k = None" "map_of c k = None" "map_of (want_member r) k = None"
      using 5 4 \<open>k \<noteq> ''wantAgentInfo'' \<Longrightarrow> map_of (want_member r) k = None\<close> by (auto split: option.splits)
    with 6 k show ?thesis by (cases "map_of (progress_member r) k") simp_all
  next
    case k: 3
    then show ?thesis
      using 5 6 \<open>k \<noteq> ''wantAgentInfo'' \<Longrightarrow> map_of (want_member r) k = None\<close>
        \<open>k \<noteq> ''progressInfo'' \<Longrightarrow> map_of (progress_member r) k = None\<close>
      by (simp split: option.split)
  qed
qed

lemma ct_ParseToJson_shape: "is_object (ct_ParseToJson r)" "\<not> is_null (ct_ParseToJson r)"
  by (simp_all add: ct_ParseToJson_def Let_def)

lemma json_at_record:
  "json_at (ct_ParseToJson r) ''bundleName'' = JString (ct_bundleName r)"
  "json_at (ct_ParseToJson r) ''abilityName'' = JString (ct_abilityName r)"
  "json_at (ct_ParseToJson r) ''userId'' = JInt (ct_userId r)"
  "json_at (ct_ParseToJson r) ''uid'' = JInt (ct_uid r)"
  "json_at (ct_ParseToJson r) ''pid'' = JInt (ct_pid r)"
  "json_at (ct_ParseToJson r) ''bgModeId'' = JInt (uint (ct_bgModeId r))"
  "json_at (ct_ParseToJson r) ''isNewApi'' = JBool (ct_isNewApi r)"
  "json_at (ct_ParseToJson r) ''isFromWebview'' = JBool (ct_isFromWebview r)"
  "json_at (ct_ParseToJson r) ''needSendNotificationForInnerApi'' = JBool (ct_needNotificationForInnerApi r)"
  "json_at (ct_ParseToJson r) ''notificationLabel'' = JString (ct_notificationLabel r)"
  "json_at (ct_ParseToJson r) ''notificationId'' = JInt (ct_notificationId r)"
  "json_at (ct_ParseToJson r) ''isBatchApi'' = JBool (ct_isBatchApi r)"
  "json_at (ct_ParseToJson r) ''bgModeIds'' = JString (modes_ToString (ct_bgModeIds r))"
  "json_at (ct_ParseToJson r) ''bgSubModeIds'' = JString (modes_ToString (ct_bgSubModeIds r))"
  "json_at (ct_ParseToJson r) ''isSystem'' = JBool (ct_isSystem r)"
  "json_at (ct_ParseToJson r) ''continuousTaskId'' = JInt (ct_continuousTaskId r)"
  "json_at (ct_ParseToJson r) ''abilityId'' = JInt (ct_abilityId r)"
  "json_at (ct_ParseToJson r) ''suspendState'' = JBool (ct_suspendState r)"
  "json_at (ct_ParseToJson r) ''suspendReason'' = JInt (ct_suspendReason r)"
  "json_at (ct_ParseToJson r) ''isCombinedTaskNotification'' = JBool (ct_isCombinedTaskNotification r)"
  "json_at (ct_ParseToJson r) ''combinedNotificationTaskId'' = JInt (ct_combinedNotificationTaskId r)"
  "json_at (ct_ParseToJson r) ''isByRequestObject'' = JBool (ct_isByRequestObject r)"
  "json_at (ct_ParseToJson r) ''subNotificationLabel'' = JString (ct_subNotificationLabel r)"
  "json_at (ct_ParseToJson r) ''subNotificationId'' = JInt (ct_subNotificationId r)"
  "json_at (ct_ParseToJson r) ''appIndex'' = JInt (ct_appIndex r)"
  "json_at (ct_ParseToJson r) ''detailedCancelReason'' = JInt (ct_detailedCancelReason r)"
  "json_at (ct_ParseToJson r) ''isStandby'' = JBool (ct_isStandby r)"
  "json_at (ct_ParseToJson r) ''audioPlayState'' = JBool (ct_audioPlayState r)"
  "json_at (ct_ParseToJson r) ''isStandbySuspend'' = JBool (ct_isStandbySuspend r)"
  "json_at (ct_ParseToJson r) ''isFromComponent'' = JBool (ct_isFromComponent r)"
  by (simp_all add: json_at_def json_find_record record_members_def)

lemma json_has_record:
  "CheckJsonValue (ct_ParseToJson r) record_keys"
  "json_contains (ct_ParseToJson r) ''isBatchApi''" "json_contains (ct_ParseToJson r) ''bgModeIds''"
  "json_contains (ct_ParseToJson r) ''bgSubModeIds''" "json_contains (ct_ParseToJson r) ''notificationId''"
  by (simp_all add: json_contains_def json_find_record record_members_def CheckJsonValue_def record_keys_def)

lemma json_has_parts:
  "json_contains (ct_ParseToJson r) ''wantAgentInfo'' = (ct_wantAgentInfo r \<noteq> None)"
  "json_contains (ct_ParseToJson r) ''progressInfo'' = (ct_progressInfo r \<noteq> None)"
  by (cases "ct_wantAgentInfo r"; simp add: json_contains_def json_find_record want_member_def)
     (cases "ct_progressInfo r"; simp add: json_contains_def json_find_record progress_member_def)

lemma json_at_parts:
  "ct_wantAgentInfo r = Some i \<Longrightarrow> json_at (ct_ParseToJson r) ''wantAgentInfo'' =
     put_all [(''bundleName'', JString (wi_bundleName i)), (''abilityName'', JString (wi_abilityName i))] JNull"
  "ct_progressInfo r = Some p \<Longrightarrow> json_at (ct_ParseToJson r) ''progressInfo'' = pg_ParseToJson p"
  by (simp_all add: json_at_def json_find_record want_member_def progress_member_def)

lemma record_checks: "\<not> CheckContinuousRecod (ct_ParseToJson r)"
  by (simp add: CheckContinuousRecod_def json_at_record)

text \<open>What is read back, whatever the record holds and however lists are split.\<close>

lemma parse_stored:
  "\<exists>r'. ct_ParseFromJson split (ct_ParseToJson r) default_ContinuousTaskRecord = (True, r') \<and>
     ct_uid r' = i32 (ct_uid r) \<and> ct_abilityName r' = ct_abilityName r \<and> ct_abilityId r' = i32 (ct_abilityId r) \<and>
     ct_isByRequestObject r' = ct_isByRequestObject r \<and> ct_continuousTaskId r' = i32 (ct_continuousTaskId r)"
  by (cases "ct_wantAgentInfo r")
     (simp_all add: ct_ParseFromJson_def ct_ParseToJson_shape json_has_record json_has_parts record_checks
       json_at_parts put_all_def CheckJsonValue_def [where j = "json_put _ _ _"] ct_SetRecordValue_def Let_def
       json_at_record int_at_def string_at_def bool_at_def)

lemma ct_round_trip:
  assumes "storable r" and "splits_modes split (ct_bgModeIds r)" and "splits_modes split (ct_bgSubModeIds r)"
  shows "ct_ParseFromJson split (ct_ParseToJson r) default_ContinuousTaskRecord = (True, persisted r)"
proof -
  have m: "modes_ToVector split (modes_ToString (ct_bgModeIds r)) = ct_bgModeIds r"
    "modes_ToVector split (modes_ToString (ct_bgSubModeIds r)) = ct_bgSubModeIds r"
    using assms modes_round_trip by (auto simp: storable_def)
  define s where "s = ct_SetRecordValue split (ct_ParseToJson r) default_ContinuousTaskRecord"
  have "s = (persisted r)\<lparr>ct_notificationId := -1, ct_wantAgentInfo := None, ct_progressInfo := None\<rparr>"
    using assms(1) unfolding s_def
    by (simp add: ct_SetRecordValue_def json_has_record json_at_record int_at_def string_at_def bool_at_def m storable_def
        persisted_def default_ContinuousTaskRecord_def)
  moreover have "is_object (pg_ParseToJson p)" for p by (simp add: pg_ParseToJson_def)
  moreover have "ct_progressInfo r = Some p \<Longrightarrow> pg_ParseFromJson (pg_ParseToJson p) new_ProgressInfo = Some p" for p
    using assms(1) by (simp add: storable_def pg_round_trip)
  moreover have "i = \<lparr>wi_bundleName = wi_bundleName i, wi_abilityName = wi_abilityName i\<rparr>" for i :: WantAgentInfo by simp
  ultimately show ?thesis
    using assms(1)
    by (cases "ct_wantAgentInfo r"; cases "ct_progressInfo r")
       (simp_all add: ct_ParseFromJson_def ct_ParseToJson_shape json_has_record json_has_parts record_checks Let_def
         s_def [symmetric] json_at_parts put_all_def CheckJsonValue_def [where j = "json_put _ _ _"] json_at_record
         string_at_def int_at_def storable_def persisted_def)
qed

section \<open>The table\<close>

lemma mset_om_put: "k \<notin> fst ` set m \<Longrightarrow> mset (om_put k v m) = add_mset (k, v) (mset m)"
  by (induction k v m rule: om_put.induct) auto

lemma items_put_all:
  "distinct (map fst kvs) \<Longrightarrow>
   (put_all kvs JNull = JNull \<or> is_object (put_all kvs JNull)) \<and> mset (json_items (put_all kvs JNull)) = mset kvs"
proof (induction kvs rule: rev_induct)
  case (snoc kv kvs)
  obtain k v where kv: "kv = (k, v)" by (cases kv)
  define j where "j = put_all kvs JNull"
  have IH: "j = JNull \<or> is_object j" "mset (json_items j) = mset kvs" using snoc by (simp_all add: j_def)
  have step: "put_all (kvs @ [kv]) JNull = json_put k v j" by (simp add: kv put_all_def j_def)
  have new: "k \<notin> fst ` set (json_items j)"
    using IH(2) snoc.prems kv by (metis distinct.simps(2) distinct_rev list.set_map map_append mset_eq_setD rev.simps(2)
      rev_append rev_rev_ident set_rev fst_conv list.simps(9) list.map(1))
  have "mset (json_items (json_put k v j)) = add_mset kv (mset kvs)"
    using IH new by (cases j) (simp_all add: json_put.simps mset_om_put kv)
  then show ?case unfolding step by simp
qed (simp add: put_all_def)

definition reread :: "(string \<Rightarrow> string list) \<Rightarrow> string \<times> ContinuousTaskRecord \<Rightarrow> string \<times> ContinuousTaskRecord" where
  "reread split e = (fst e, snd (ct_ParseFromJson split (ct_ParseToJson (snd e)) default_ContinuousTaskRecord))"

lemma restore_tasks_all:
  assumes "distinct (map fst items)" and "fst ` set items \<inter> fst ` set t = {}"
    and "\<And>k j. (k, j) \<in> set items \<Longrightarrow> fst (ct_ParseFromJson split j default_ContinuousTaskRecord)"
  shows "restore_tasks split items t =
     t @ map (\<lambda>(k, j). (k, snd (ct_ParseFromJson split j default_ContinuousTaskRecord))) items"
  using assms
proof (induction items arbitrary: t)
  case (Cons kj items)
  obtain k j where kj: "kj = (k, j)" by (cases kj)
  have new: "map_of t k = None" using Cons.prems(2) by (auto simp: kj map_of_eq_None_iff)
  have ok: "fst (ct_ParseFromJson split j default_ContinuousTaskRecord)" using Cons.prems(3) [of k j] by (simp add: kj)
  let ?t = "t @ [(k, snd (ct_ParseFromJson split j default_ContinuousTaskRecord))]"
  have "restore_tasks split (kj # items) t = restore_tasks split items ?t"
    using new ok by (simp add: kj split_beta hm_emplace_def)
  also have "\<dots> = ?t @ map (\<lambda>(k, j). (k, snd (ct_ParseFromJson split j default_ContinuousTaskRecord))) items"
    by (rule Cons.IH) (use Cons.prems kj in auto)
  finally show ?case by (simp add: kj)
qed simp

lemma table_restored:
  assumes "distinct (map fst t)"
  shows "mset (snd (ds_RestoreTaskRecord split (Some (ds_RefreshTaskRecord t)) [])) = image_mset (reread split) (mset t)"
proof -
  define kvs where "kvs = map (\<lambda>(k, r). (k, ct_ParseToJson r)) t"
  define items where "items = json_items (put_all kvs JNull)"
  have keys: "map fst kvs = map fst t" by (simp add: kvs_def comp_def split_beta)
  have m: "mset items = mset kvs" unfolding items_def using items_put_all [of kvs] assms keys by simp
  have d: "distinct (map fst items)"
    using m assms keys by (metis mset_map distinct_count_atmost_1 mset_eq_imp_distinct_iff)
  have ok: "fst (ct_ParseFromJson split j default_ContinuousTaskRecord)" if "(k, j) \<in> set items" for k j
  proof -
    have "(k, j) \<in> set kvs" using that m by (metis mset_eq_setD)
    then obtain r where "j = ct_ParseToJson r" by (auto simp: kvs_def)
    then show ?thesis using parse_stored [of split r] by auto
  qed
  have "restore_tasks split items [] = map (\<lambda>(k, j). (k, snd (ct_ParseFromJson split j default_ContinuousTaskRecord))) items"
    using restore_tasks_all [OF d, of "[]" split] ok by simp
  then have "mset (restore_tasks split items []) =
      image_mset (\<lambda>(k, j). (k, snd (ct_ParseFromJson split j default_ContinuousTaskRecord))) (mset kvs)"
    by (simp add: m)
  also have "\<dots> = image_mset (reread split) (mset t)"
    by (auto simp: kvs_def reread_def multiset.map_comp comp_def split_beta intro: image_mset_cong)
  finally show ?thesis
    by (simp add: ds_RestoreTaskRecord_def ds_RefreshTaskRecord_def kvs_def [symmetric] items_def [symmetric])
qed

text \<open>Under its key every storable row comes back with what is kept of it.\<close>

lemma table_round_trip_keys:
  assumes "distinct (map fst t)"
    and "\<And>k r. (k, r) \<in> set t \<Longrightarrow> storable r \<and> splits_modes split (ct_bgModeIds r) \<and> splits_modes split (ct_bgSubModeIds r)"
  shows "map_of (snd (ds_RestoreTaskRecord split (Some (ds_RefreshTaskRecord t)) [])) k = map_option persisted (map_of t k)"
proof -
  let ?t' = "snd (ds_RestoreTaskRecord split (Some (ds_RefreshTaskRecord t)) [])"
  have "reread split e = (fst e, persisted (snd e))" if "e \<in> set t" for e
    using assms(2) [of "fst e" "snd e"] that by (simp add: reread_def ct_round_trip)
  then have "image_mset (reread split) (mset t) = mset (map_vals (\<lambda>_. persisted) t)"
    by (auto simp: map_vals_def split_beta intro: image_mset_cong)
  then have m: "mset ?t' = mset (map_vals (\<lambda>_. persisted) t)" using table_restored [OF assms(1)] by simp
  then have "distinct (map fst ?t')" using assms(1) by (metis keys_map_vals mset_eq_imp_distinct_iff mset_map)
  then have "map_of ?t' = map_of (map_vals (\<lambda>_. persisted) t)"
    using m assms(1) by (subst map_of_inject_set) (auto dest: mset_eq_setD)
  then show ?thesis by (simp add: map_of_map_vals)
qed

section \<open>Types\<close>

text \<open>The members a stored record must have, with their types.\<close>

definition record_schema :: "(string \<times> (json \<Rightarrow> bool)) list" where
  "record_schema =
     map (\<lambda>k. (k, is_string)) [''bundleName'', ''abilityName'', ''notificationLabel'', ''subNotificationLabel''] @
     map (\<lambda>k. (k, is_number_integer))
       [''userId'', ''uid'', ''pid'', ''bgModeId'', ''continuousTaskId'', ''abilityId'', ''suspendReason'',
        ''combinedNotificationTaskId'', ''subNotificationId'', ''appIndex'', ''detailedCancelReason''] @
     map (\<lambda>k. (k, is_boolean))
       [''isNewApi'', ''isFromWebview'', ''needSendNotificationForInnerApi'', ''isSystem'', ''suspendState'',
        ''isCombinedTaskNotification'', ''isByRequestObject'', ''audioPlayState'', ''isStandby'',
        ''isStandbySuspend'', ''isFromComponent'']"

definition has_members :: "(string \<times> (json \<Rightarrow> bool)) list \<Rightarrow> json \<Rightarrow> bool" where
  "has_members schema j \<longleftrightarrow> (\<forall>(k, ty) \<in> set schema. \<exists>v. json_find j k = Some v \<and> ty v)"

definition well_typed_record :: "json \<Rightarrow> bool" where
  "well_typed_record j \<longleftrightarrow> has_members record_schema j \<and>
     (\<forall>v. json_find j ''wantAgentInfo'' = Some v \<longrightarrow> has_members [(''bundleName'', is_string), (''abilityName'', is_string)] v)"

definition numbers_fit :: "ContinuousTaskRecord \<Rightarrow> bool" where
  "numbers_fit r \<longleftrightarrow> list_all is_i32 [ct_userId r, ct_uid r, ct_pid r, ct_notificationId r, ct_continuousTaskId r,
     ct_abilityId r, ct_suspendReason r, ct_combinedNotificationTaskId r, ct_subNotificationId r, ct_appIndex r,
     ct_detailedCancelReason r]"

lemma member_at: "(\<exists>v. json_find j k = Some v \<and> ty v) \<longleftrightarrow> json_find j k \<noteq> None \<and> ty (json_at j k)"
  by (auto simp: json_at_def)

lemma has_members_list:
  "has_members schema j \<longleftrightarrow> list_all (\<lambda>e. json_find j (fst e) \<noteq> None) schema \<and> list_all (\<lambda>e. snd e (json_at j (fst e))) schema"
  unfolding has_members_def member_at list_all_iff by (auto simp: case_prod_unfold)

lemma record_schema_keys: "set (map fst record_schema) = set record_keys"
  by code_simp

lemma schema_present: "list_all (\<lambda>e. json_find j (fst e) \<noteq> None) record_schema \<longleftrightarrow> CheckJsonValue j record_keys"
proof -
  have "list_all (\<lambda>e. json_find j (fst e) \<noteq> None) record_schema \<longleftrightarrow> (\<forall>k \<in> set (map fst record_schema). json_find j k \<noteq> None)"
    by (simp add: list_all_iff)
  then show ?thesis unfolding record_schema_keys CheckJsonValue_def list_all_iff .
qed

lemma schema_types: "list_all (\<lambda>e. snd e (json_at j (fst e))) record_schema \<longleftrightarrow> \<not> CheckContinuousRecod j"
  unfolding record_schema_def CheckContinuousRecod_def by (simp add: list_all_append conj_ac)

lemma members_object: "has_members schema j \<Longrightarrow> schema \<noteq> [] \<Longrightarrow> is_object j \<and> \<not> is_null j"
  by (cases j; cases schema) (auto simp: has_members_def)

lemma parse_accepts: "fst (ct_ParseFromJson split j r) \<longleftrightarrow> well_typed_record j"
proof -
  have "record_schema \<noteq> []" by (simp add: record_schema_def)
  then have obj: "has_members record_schema j \<Longrightarrow> is_object j \<and> \<not> is_null j" using members_object by blast
  have info: "has_members [(''bundleName'', is_string), (''abilityName'', is_string)] v \<longleftrightarrow>
      CheckJsonValue v [''bundleName'', ''abilityName''] \<and> is_string (json_at v ''bundleName'') \<and> is_string (json_at v ''abilityName'')" for v
    unfolding has_members_list CheckJsonValue_def by simp
  have want: "(\<forall>v. json_find j ''wantAgentInfo'' = Some v \<longrightarrow> P v) \<longleftrightarrow>
      (json_contains j ''wantAgentInfo'' \<longrightarrow> P (json_at j ''wantAgentInfo''))" for P
    by (cases "json_find j ''wantAgentInfo''") (simp_all add: json_contains_def json_at_def)
  have "well_typed_record j \<longleftrightarrow> is_object j \<and> \<not> is_null j \<and> CheckJsonValue j record_keys \<and> \<not> CheckContinuousRecod j \<and>
      (json_contains j ''wantAgentInfo'' \<longrightarrow> CheckJsonValue (json_at j ''wantAgentInfo'') [''bundleName'', ''abilityName''] \<and>
         is_string (json_at (json_at j ''wantAgentInfo'') ''bundleName'') \<and>
         is_string (json_at (json_at j ''wantAgentInfo'') ''abilityName''))"
    unfolding well_typed_record_def want info using obj
    unfolding has_members_list schema_present schema_types by blast
  then show ?thesis unfolding ct_ParseFromJson_def Let_def by auto
qed

lemma parse_fits: "numbers_fit r \<Longrightarrow> numbers_fit (snd (ct_ParseFromJson split j r))"
  unfolding ct_ParseFromJson_def Let_def by (simp add: numbers_fit_def ct_SetRecordValue_def)

end
