(* ===== verification/ContinuousReach.thy ===== *)
theory ContinuousReach
  imports ContinuousStart ContinuousStorage
begin

text \<open>
  The events of the continuous task manager as step relations, the states it can reach over any
  number of restarts, and the invariant of its table: keys and task ids are distinct, every row lies
  under the key of its task, ids are positive and not above the counter, and no ability has more
  than ten tasks requested by object. \<open>served\<close> is a run during which a system service stays
  subscribed.
\<close>

section \<open>The invariant\<close>

definition row_ok :: "int \<Rightarrow> row_id \<Rightarrow> bool" where
  "row_ok n x \<longleftrightarrow> (case x of (key, uid, name, ability, byObject, t) \<Rightarrow>
     key = (let k = to_string uid @ ''_'' @ name @ ''_'' @ to_string ability
            in if byObject then k @ ''_'' @ to_string t else k) \<and>
     is_i32 uid \<and> is_i32 ability \<and> 1 \<le> t \<and> t \<le> n)"

definition row_ability :: "row_id \<Rightarrow> int" where
  "row_ability x = (case x of (_, _, _, ability, _, _) \<Rightarrow> ability)"

definition row_object :: "row_id \<Rightarrow> bool" where
  "row_object x = (case x of (_, _, _, _, byObject, _) \<Rightarrow> byObject)"

definition ability_rows :: "int \<Rightarrow> row_id list \<Rightarrow> nat" where
  "ability_rows a ids = length (filter (\<lambda>x. row_ability x = a \<and> row_object x) ids)"

definition ids_ok :: "int \<Rightarrow> row_id list \<Rightarrow> bool" where
  "ids_ok n ids \<longleftrightarrow> distinct (map fst ids) \<and> distinct (map row_task ids) \<and> list_all (row_ok n) ids \<and>
     list_all (\<lambda>x. ability_rows (row_ability x) ids \<le> ABILITY_TASK_MAX_NUM) ids"

definition file_ok :: "json option \<Rightarrow> bool" where
  "file_ok f \<longleftrightarrow> (case f of None \<Rightarrow> True | Some j \<Rightarrow> \<exists>t. j = ds_RefreshTaskRecord t \<and> ids_ok INT_MAX (map ident t))"

definition table_inv :: "BgContinuousTaskMgr \<Rightarrow> bool" where
  "table_inv m \<longleftrightarrow> ids_ok (cm_continuousTaskIdIndex m) (idents m) \<and>
     0 \<le> cm_continuousTaskIdIndex m \<and> cm_continuousTaskIdIndex m \<le> INT_MAX \<and> file_ok (cm_stored m) \<and>
     (\<not> cm_isSysReady m \<longrightarrow> cm_tasks m = [] \<and> cm_continuousTaskIdIndex m = 0)"

section \<open>Lists of rows\<close>

lemma ability_rows_subseq: "subseq xs ys \<Longrightarrow> ability_rows a xs \<le> ability_rows a ys"
  unfolding ability_rows_def using list_emb_length subseq_filter by blast

lemma ability_rows_mset: "mset xs = mset ys \<Longrightarrow> ability_rows a xs = ability_rows a ys"
  unfolding ability_rows_def size_mset [symmetric] mset_filter by simp

lemma subseq_set: "subseq xs ys \<Longrightarrow> set xs \<subseteq> set ys"
  by (metis notin_set_nthsI subseq_conv_nths subsetI)

lemma ids_ok_subseq:
  assumes "subseq xs ys" and "ids_ok n ys"
  shows "ids_ok n xs"
proof -
  have ok: "\<forall>x \<in> set ys. row_ok n x" "\<forall>x \<in> set ys. ability_rows (row_ability x) ys \<le> ABILITY_TASK_MAX_NUM"
    using assms(2) by (simp_all add: ids_ok_def list_all_iff)
  have sub: "x \<in> set xs \<Longrightarrow> x \<in> set ys" for x using subseq_set [OF assms(1)] by blast
  have "\<forall>x \<in> set xs. ability_rows (row_ability x) xs \<le> ABILITY_TASK_MAX_NUM"
    using ok(2) sub ability_rows_subseq [OF assms(1)] le_trans by blast
  moreover have "distinct (map fst xs)" "distinct (map row_task xs)"
    using assms(2) by (auto simp: ids_ok_def intro: subseq_distinct_map [OF assms(1)])
  ultimately show ?thesis using ok(1) sub unfolding ids_ok_def list_all_iff by blast
qed

lemma ids_ok_mset: "mset xs = mset ys \<Longrightarrow> ids_ok n ys \<Longrightarrow> ids_ok n xs"
  using mset_eq_setD [of xs ys] ability_rows_mset [of xs ys] mset_eq_imp_distinct_iff [of "map fst xs" "map fst ys"]
    mset_eq_imp_distinct_iff [of "map row_task xs" "map row_task ys"]
  by (simp add: ids_ok_def list_all_iff)

lemma table_ids_mono: "ids_ok n xs \<Longrightarrow> n \<le> n' \<Longrightarrow> ids_ok n' xs"
  by (force simp: ids_ok_def list_all_iff row_ok_def)

lemma ids_ok_bound: "ids_ok n' xs \<Longrightarrow> (\<And>x. x \<in> set xs \<Longrightarrow> row_task x \<le> n) \<Longrightarrow> ids_ok n xs"
  by (force simp: ids_ok_def list_all_iff row_ok_def row_task_def)

lemma ability_rows_append: "ability_rows a (xs @ [x]) =
    ability_rows a xs + (if row_ability x = a \<and> row_object x then 1 else 0)"
  by (simp add: ability_rows_def)

lemma ids_ok_snoc:
  assumes ok: "ids_ok n xs" and key: "fst x \<notin> fst ` set xs" and x: "row_ok (n + 1) x" "row_task x = n + 1"
    and room: "row_object x \<Longrightarrow> ability_rows (row_ability x) xs < ABILITY_TASK_MAX_NUM"
  shows "ids_ok (n + 1) (xs @ [x])"
proof -
  have new: "row_task x \<notin> row_task ` set xs"
    using ok x(2) by (force simp: ids_ok_def list_all_iff row_ok_def row_task_def)
  have old: "ability_rows (row_ability y) xs \<le> ABILITY_TASK_MAX_NUM" if "y \<in> set xs" for y
    using ok that by (auto simp: ids_ok_def list_all_iff)
  have "ability_rows (row_ability x) xs \<le> ABILITY_TASK_MAX_NUM"
  proof (cases "ability_rows (row_ability x) xs = 0")
    case False
    then obtain y where "y \<in> set xs" "row_ability y = row_ability x"
      by (auto simp: ability_rows_def filter_empty_conv)
    then show ?thesis using old by metis
  qed simp
  then have "ability_rows (row_ability y) (xs @ [x]) \<le> ABILITY_TASK_MAX_NUM" if "y = x \<or> y \<in> set xs" for y
    using that old [of y] room unfolding ability_rows_append by (cases "row_object x") auto
  moreover have "list_all (row_ok (n + 1)) xs" using table_ids_mono [OF ok] by (simp add: ids_ok_def)
  ultimately show ?thesis using ok key new x(1) unfolding ids_ok_def list_all_iff by simp
qed

section \<open>Steps that add no row\<close>

definition rowsafe :: "BgContinuousTaskMgr \<Rightarrow> BgContinuousTaskMgr \<Rightarrow> bool" where
  "rowsafe m m' \<longleftrightarrow> (distinct_rows m \<longrightarrow> rows_kept m m')"

lemma tame_rowsafe: "tame m m' \<Longrightarrow> rowsafe m m'"
  by (simp add: tame_def rowsafe_def)

lemma rowsafe_trans: "rowsafe a b \<Longrightarrow> rowsafe b c \<Longrightarrow> rowsafe a c"
  unfolding rowsafe_def using rows_kept_trans distinct_rows_kept by blast

lemma rowsafe_each:
  assumes "\<And>k r m. map_of (cm_tasks m) k = Some r \<Longrightarrow> rowsafe m (f k r m)"
  shows "rowsafe m (each_task f ks m)"
proof (induction ks arbitrary: m)
  case (Cons k ks)
  have "rowsafe m (case map_of (cm_tasks m) k of None \<Rightarrow> m | Some r \<Rightarrow> f k r m)"
    using assms tame_rowsafe [OF tame_refl] by (simp split: option.split)
  then show ?case unfolding each_task.simps by (rule rowsafe_trans) (rule Cons.IH)
qed (simp add: tame_rowsafe)

lemma inv_distinct: "table_inv m \<Longrightarrow> distinct_rows m"
  by (simp add: table_inv_def ids_ok_def distinct_rows_def)

lemma file_ok_stored:
  "stored_from ids m m' \<Longrightarrow> file_ok (cm_stored m) \<Longrightarrow> ids_ok n ids \<Longrightarrow> n \<le> INT_MAX \<Longrightarrow> file_ok (cm_stored m')"
  unfolding stored_from_def file_ok_def using ids_ok_subseq table_ids_mono by (auto split: option.splits)

lemma inv_rows_kept:
  assumes "rows_kept m m'" and "table_inv m"
  shows "table_inv m'"
proof -
  have ids: "ids_ok (cm_continuousTaskIdIndex m) (idents m')"
    using assms ids_ok_subseq by (auto simp: rows_kept_def table_inv_def)
  have stored: "file_ok (cm_stored m')"
    using assms file_ok_stored [of "idents m" m m'] by (auto simp: rows_kept_def table_inv_def)
  have "cm_tasks m' = []" if "cm_tasks m = []"
    using assms(1) that subseq_set [of "idents m'" "idents m"] by (simp add: rows_kept_def idents_def)
  then show ?thesis using assms ids stored by (auto simp: rows_kept_def table_inv_def)
qed

lemma inv_tame: "tame m m' \<Longrightarrow> table_inv m \<Longrightarrow> table_inv m'"
  using inv_distinct inv_rows_kept by (auto simp: tame_def)

lemma inv_rowsafe: "rowsafe m m' \<Longrightarrow> table_inv m \<Longrightarrow> table_inv m'"
  using inv_distinct inv_rows_kept by (auto simp: rowsafe_def)

section \<open>Steps that add a row\<close>

lemma row_key_task: "task_key r = k \<Longrightarrow> is_i32 (ct_uid r) \<Longrightarrow> is_i32 (ct_abilityId r) \<Longrightarrow>
    1 \<le> ct_continuousTaskId r \<Longrightarrow> ct_continuousTaskId r \<le> n \<Longrightarrow> row_ok n (ident (k, r))"
  by (auto simp: row_ok_def ident_def task_key_def Let_def)

lemma ident_parts [simp]:
  "fst (ident e) = fst e" "row_task (ident e) = ct_continuousTaskId (snd e)"
  "row_ability (ident e) = ct_abilityId (snd e)" "row_object (ident e) = ct_isByRequestObject (snd e)"
  by (simp_all add: ident_def row_task_def row_ability_def row_object_def)

lemma ability_rows_idents:
  "ability_rows a (idents m) = length (filter (\<lambda>(_, t). ct_abilityId t = a \<and> ct_isByRequestObject t) (cm_tasks m))"
  by (simp add: ability_rows_def idents_def filter_map comp_def case_prod_unfold)

lemma added_rows:
  assumes add: "added key r m m'" and inv: "ids_ok n (idents m)" "file_ok (cm_stored m)" and dist: "distinct_rows m"
    and n: "n + 1 \<le> INT_MAX" and id: "ct_continuousTaskId r = n + 1" and "0 \<le> n"
    and row: "task_key r = key" "is_i32 (ct_uid r)" "is_i32 (ct_abilityId r)"
    and free: "map_of (cm_tasks m) key = None"
    and room: "ct_isByRequestObject r \<longrightarrow> CheckAbilityTaskNum r m = ERR_OK"
  shows "ids_ok (n + 1) (idents m') \<and> file_ok (cm_stored m') \<and>
    cm_continuousTaskIdIndex m' = cm_continuousTaskIdIndex m \<and> cm_isSysReady m' = cm_isSysReady m"
proof -
  obtain m1 where m1: "tame m m1" "effect (insert (ct_continuousTaskId r))
      (m1\<lparr>cm_continuousTaskInfosMap := cm_tasks m1 @ [(key, r)]\<rparr>) m'"
    using add unfolding added_def by blast
  have k: "rows_kept m m1" using m1(1) dist by (simp add: tame_def)
  then have sub: "subseq (idents m1) (idents m)" by (simp add: rows_kept_def)
  have ids1: "ids_ok n (idents m1)" by (rule ids_ok_subseq [OF sub inv(1)])
  have ids': "idents m' = idents m1 @ [ident (key, r)]"
    using m1(2) by (simp add: effect_def idents_def)
  have "key \<notin> fst ` set (idents m)"
    using free by (simp add: idents_def image_image map_of_eq_None_iff)
  then have new: "key \<notin> fst ` set (idents m1)" using subseq_set [OF sub] by blast
  have "ability_rows (ct_abilityId r) (idents m1) < ABILITY_TASK_MAX_NUM" if "ct_isByRequestObject r"
    using room that ability_rows_subseq [OF sub, of "ct_abilityId r"]
    by (auto simp: CheckAbilityTaskNum_def ability_rows_idents split: if_splits)
  then have ids: "ids_ok (n + 1) (idents m')"
    unfolding ids' using ids_ok_snoc [OF ids1, of "ident (key, r)"] new row_key_task [OF row, of "n + 1"] id \<open>0 \<le> n\<close> by simp
  have f1: "file_ok (cm_stored m1)"
    using k file_ok_stored [of "idents m" m m1 n] inv n by (simp add: rows_kept_def)
  have "stored_from (idents m') (m1\<lparr>cm_continuousTaskInfosMap := cm_tasks m1 @ [(key, r)]\<rparr>) m'"
    using m1(2) ids' by (simp add: effect_def idents_def)
  then have "file_ok (cm_stored m')"
    using file_ok_stored [OF _ _ ids n] f1 by simp
  then show ?thesis using ids m1(2) k by (simp add: effect_def rows_kept_def)
qed

lemma inv_added:
  assumes "start_result e r m (ret, r', m')" and "table_inv m" and "cm_isSysReady m"
    and "cm_continuousTaskIdIndex m < INT_MAX" and "is_i32 (ct_uid r)" and "is_i32 (ct_abilityId r)"
  shows "table_inv m'"
proof -
  define n where "n = cm_continuousTaskIdIndex m"
  have n: "0 \<le> n" "n + 1 \<le> INT_MAX" "i32 (n + 1) = n + 1"
    using assms(2,4) by (simp_all add: n_def table_inv_def is_i32_nonneg)
  define mi where "mi = m\<lparr>cm_continuousTaskIdIndex := n + 1\<rparr>"
  have mi: "idents mi = idents m" "cm_tasks mi = cm_tasks m" "cm_stored mi = cm_stored m"
    by (simp_all add: mi_def idents_def)
  have inv: "ids_ok n (idents mi)" "file_ok (cm_stored mi)" "distinct_rows mi"
    using assms(2) mi inv_distinct [OF assms(2)] by (simp_all add: table_inv_def n_def distinct_rows_def)
  consider "quiet m m'" | "quiet mi m'"
    | "same_state (r\<lparr>ct_continuousTaskId := n + 1\<rparr>) r'" "map_of (cm_tasks m) (task_key r') = None"
      "ct_isByRequestObject r' \<longrightarrow> CheckAbilityTaskNum r' m = ERR_OK" "added (task_key r') r' mi m'"
    using assms(1) n(3) unfolding start_result_def Let_def prod.case n_def [symmetric] mi_def by auto
  then show ?thesis
  proof cases
    case 1
    then show ?thesis using assms(2) inv_tame quiet_tame by blast
  next
    case 2
    have "table_inv mi"
      using assms(2,3) inv n table_ids_mono [OF inv(1), of "n + 1"] by (simp add: table_inv_def mi_def n_def)
    then show ?thesis using 2 inv_tame quiet_tame by blast
  next
    case 3
    have "CheckAbilityTaskNum r' mi = CheckAbilityTaskNum r' m" by (simp add: CheckAbilityTaskNum_def mi)
    then have "ids_ok (n + 1) (idents m') \<and> file_ok (cm_stored m') \<and>
        cm_continuousTaskIdIndex m' = cm_continuousTaskIdIndex mi \<and> cm_isSysReady m' = cm_isSysReady mi"
      by (intro added_rows [OF 3(4) inv n(2)]) (use 3 assms(5,6) mi n in \<open>simp_all add: same_state_def same_row_def\<close>)
    then show ?thesis using assms(3) n by (simp add: table_inv_def mi_def)
  qed
qed

lemma active_tasks_snoc:
  "active_tasks (m\<lparr>cm_continuousTaskInfosMap := cm_tasks m @ [(k, r)]\<rparr>) =
     (if ct_suspendState r then active_tasks m else insert (ct_continuousTaskId r) (active_tasks m))"
  by (auto simp: active_tasks_iff)

lemma told_added:
  assumes add: "added key r m m'" and dist: "distinct_rows m" and "\<not> ct_suspendState r"
  shows "told m m'"
proof -
  obtain m1 where m1: "tame m m1" and eff: "effect (insert (ct_continuousTaskId r))
      (m1\<lparr>cm_continuousTaskInfosMap := cm_tasks m1 @ [(key, r)]\<rparr>) m'"
    using add unfolding added_def by blast
  let ?m2 = "m1\<lparr>cm_continuousTaskInfosMap := cm_tasks m1 @ [(key, r)]\<rparr>"
  have t: "told m m1" and s: "\<And>s. is_service s m1 = is_service s m"
    using m1 dist is_service_kept by (auto simp: tame_def)
  obtain cs where cs: "cm_calls m' = cm_calls ?m2 @ cs"
    "\<forall>s. is_service s ?m2 \<longrightarrow> (\<forall>V. sa_view s cs V = insert (ct_continuousTaskId r) V)"
    using effect_calls [OF eff] by blast
  have "cm_tasks m' = cm_tasks ?m2" using eff by (simp add: effect_def)
  then have "active_tasks m' = insert (ct_continuousTaskId r) (active_tasks m1)"
    using active_tasks_cong [of m' ?m2] active_tasks_snoc [of m1 key r] assms(3) by simp
  then have "told m1 m'"
    unfolding told_def using cs by (intro exI [of _ cs]) (simp add: is_service_def)
  then show ?thesis using t s told_trans by blast
qed

section \<open>Start of the service\<close>

lemma rowsafe_restore_body:
  assumes row: "map_of (cm_tasks m) k = Some r"
  shows "rowsafe m (restore_body e procs k r m)"
proof -
  define m1 where "m1 = snd (SetCachedBundleInfo e r m)"
  have q: "quiet m m1" unfolding m1_def by (rule quiet_SetCachedBundleInfo)
  have "tame m1 (cm_set k (fst (HandleActiveNotification e r m1)) (snd (HandleActiveNotification e r m1)))"
    by (rule tame_sends [OF quiet_row [OF q row] sends_HandleActiveNotification])
  then have 1: "rowsafe m (cm_set k (fst (HandleActiveNotification e r m1)) (snd (HandleActiveNotification e r m1)))"
    using quiet_then_tame [OF q] tame_rowsafe by blast
  have "rows_kept m (cm_erase k m)"
    using idents_erase [of k m] by (simp add: rows_kept_def stored_from_def)
  then have "rows_kept m (snd (CancelNotification e r (cm_erase k m)))"
    using rows_kept_trans effect_rows_kept [OF quiet_CancelNotification] by blast
  then show ?thesis
    using 1 tame_rowsafe [OF tame_refl, of m] unfolding restore_body_def m1_def [symmetric]
    by (simp add: rowsafe_def split_beta)
qed

lemma max_fold:
  "(\<forall>e \<in> set t. g (snd e) \<le> foldl (\<lambda>a (_, r). max a (g r)) b t) \<and> b \<le> foldl (\<lambda>a (_, r). max a (g r)) b t \<and>
   foldl (\<lambda>a (_, r). max a (g r)) b t \<in> insert b (g ` snd ` set t)" for g :: "'r \<Rightarrow> int" and b
proof (induction t arbitrary: b)
  case (Cons e t)
  show ?case using Cons.IH [of "max b (g (snd e))"] by (auto simp: split_beta max_def split: if_splits)
qed simp

lemma idents_reread:
  assumes "ids_ok INT_MAX (map ident t)" and "e \<in> set t"
  shows "ident (reread split e) = ident e"
proof -
  have "row_ok INT_MAX (ident e)" using assms by (auto simp: ids_ok_def list_all_iff)
  then have "is_i32 (ct_uid (snd e))" "is_i32 (ct_abilityId (snd e))" "is_i32 (ct_continuousTaskId (snd e))"
    by (auto simp: row_ok_def ident_def is_i32_def)
  then show ?thesis
    using parse_stored [of split "snd e"] by (auto simp: reread_def ident_def)
qed

lemma restored_rows_ok:
  assumes "file_ok f"
  shows "ids_ok INT_MAX (map ident (snd (ds_RestoreTaskRecord split f [])))"
proof (cases f)
  case (Some j)
  then obtain t where t: "j = ds_RefreshTaskRecord t" "ids_ok INT_MAX (map ident t)"
    using assms by (auto simp: file_ok_def)
  have d: "distinct (map fst t)" using t(2) by (simp add: ids_ok_def comp_def)
  let ?t' = "snd (ds_RestoreTaskRecord split (Some (ds_RefreshTaskRecord t)) [])"
  have "mset (map ident ?t') = image_mset ident (image_mset (reread split) (mset t))"
    using table_restored [OF d, of split] by simp
  also have "\<dots> = mset (map ident t)"
    using idents_reread [OF t(2), of _ split] by (simp add: multiset.map_comp comp_def) (rule image_mset_cong, simp)
  finally show ?thesis using ids_ok_mset t(2) unfolding Some t(1) by blast
qed (simp add: ds_RestoreTaskRecord_def ids_ok_def)

definition rows_inv :: "BgContinuousTaskMgr \<Rightarrow> bool" where
  "rows_inv m \<longleftrightarrow> ids_ok (cm_continuousTaskIdIndex m) (idents m) \<and>
     0 \<le> cm_continuousTaskIdIndex m \<and> cm_continuousTaskIdIndex m \<le> INT_MAX \<and> file_ok (cm_stored m)"

lemma table_inv_rows: "table_inv m \<longleftrightarrow> rows_inv m \<and> (\<not> cm_isSysReady m \<longrightarrow> cm_tasks m = [] \<and> cm_continuousTaskIdIndex m = 0)"
  by (auto simp: table_inv_def rows_inv_def)

lemma rows_inv_quiet: "quiet m m' \<Longrightarrow> rows_inv m \<Longrightarrow> rows_inv m'"
  using file_ok_stored [of "idents m" m m'] idents_cong [of m' m] by (auto simp: rows_inv_def effect_def)

lemma rows_inv_CheckPersistenceData:
  assumes ids: "ids_ok INT_MAX (idents m)" and stored: "file_ok (cm_stored m)" and zero: "cm_continuousTaskIdIndex m = 0"
  shows "rows_inv (cm_CheckPersistenceData e procs m)"
proof -
  define n where "n = foldl (\<lambda>a (_, r). max a (ct_continuousTaskId r)) (-1) (cm_tasks m)"
  define l where "l = for_tasks (restore_body e procs) m"
  have d: "distinct_rows m" using ids by (simp add: ids_ok_def distinct_rows_def)
  have k: "rows_kept m l"
    using rowsafe_each [of "restore_body e procs", OF rowsafe_restore_body] d by (simp add: l_def for_tasks_def rowsafe_def)
  have max: "\<forall>e \<in> set (cm_tasks m). ct_continuousTaskId (snd e) \<le> n" "-1 \<le> n"
    "n \<in> insert (-1) (ct_continuousTaskId ` snd ` set (cm_tasks m))"
    using max_fold [of "cm_tasks m" ct_continuousTaskId "-1"] by (simp_all add: n_def)
  have rows: "1 \<le> ct_continuousTaskId (snd x) \<and> ct_continuousTaskId (snd x) \<le> INT_MAX" if "x \<in> set (cm_tasks m)" for x
    using ids that by (auto simp: ids_ok_def list_all_iff idents_def row_ok_def ident_def)
  have "row_task x \<le> n" if "x \<in> set (idents m)" for x
    using that max(1) unfolding idents_def set_map by (elim imageE) simp
  then have "ids_ok n (idents m)" by (rule ids_ok_bound [OF ids])
  then have idsl: "ids_ok n (idents l)" using k ids_ok_subseq unfolding rows_kept_def by blast
  have fl: "file_ok (cm_stored l)"
    using k file_ok_stored [OF _ stored ids] by (simp add: rows_kept_def)
  define l2 where "l2 = (if foldl (\<lambda>a (_, r). max a (ct_notificationId r)) (-1) (cm_tasks m) \<noteq> -1
      then SetNotificationIdIndex (foldl (\<lambda>a (_, r). max a (ct_notificationId r)) (-1) (cm_tasks m)) l else l)"
  have l2: "idents l2 = idents l" "cm_stored l2 = cm_stored l" "cm_continuousTaskIdIndex l2 = 0" "cm_tasks l2 = cm_tasks l"
    using k zero by (simp_all add: l2_def SetNotificationIdIndex_def idents_def rows_kept_def)
  have res: "cm_CheckPersistenceData e procs m = (if n \<noteq> -1 then l2\<lparr>cm_continuousTaskIdIndex := n\<rparr> else l2)"
    unfolding cm_CheckPersistenceData_def Let_def n_def l_def l2_def ..
  show ?thesis
  proof (cases "n = -1")
    case True
    then have "cm_tasks m = []" using max(1) rows by (cases "cm_tasks m") fastforce+
    then have "idents l = []" using k subseq_set [of "idents l" "[]"] by (simp add: rows_kept_def idents_def)
    then show ?thesis using True l2 fl by (simp add: res rows_inv_def ids_ok_def)
  next
    case False
    then obtain x where "x \<in> set (cm_tasks m)" "n = ct_continuousTaskId (snd x)" using max(3) by auto
    then have "0 \<le> n" "n \<le> INT_MAX" using rows [of x] by simp_all
    then show ?thesis using False l2 fl idsl by (simp add: res rows_inv_def idents_def)
  qed
qed

lemma inv_boot:
  assumes "table_inv m" and "\<not> cm_isSysReady m" and "ce_running e \<noteq> None"
  shows "table_inv (InitRequiredResourceInfo e m)"
proof -
  define a where "a = snd (GetNotificationPrompt e (InitNotificationText m))"
  have "quiet m (InitNotificationText m)" unfolding InitNotificationText_def by (rule quiet_fields)
  then have q: "quiet m a" unfolding a_def by (rule quiet_trans) (rule quiet_GetNotificationPrompt)
  then have a: "cm_tasks a = []" "cm_continuousTaskIdIndex a = 0" "file_ok (cm_stored a)"
    using assms rows_inv_quiet [OF q] by (auto simp: table_inv_rows effect_def rows_inv_def)
  obtain procs where procs: "ce_running e = Some procs" using assms(3) by blast
  define b where "b = a\<lparr>cm_continuousTaskInfosMap := snd (ds_RestoreTaskRecord (ce_split e) (cm_stored a) [])\<rparr>"
  have b: "rows_inv (cm_CheckPersistenceData e procs b)"
    by (rule rows_inv_CheckPersistenceData)
       (use restored_rows_ok [OF a(3), of "ce_split e"] a in \<open>simp_all add: b_def idents_def\<close>)
  have "quiet x (RestoreApplyRecord e x)" for x
    unfolding RestoreApplyRecord_def by (cases "ce_foreground e") (simp_all only: option.case, (intro effect_steps quiet_refl)+)
  then have "quiet x (cm_saveAuth e (snd (cm_RestoreAuthRecord e (RestoreApplyRecord e (cm_save e x)))))" for x
    using quiet_save quiet_saveAuth quiet_RestoreAuth quiet_trans by meson
  then have "rows_inv (cm_HandlePersistenceData e a)"
    unfolding cm_HandlePersistenceData_def procs a(1) b_def [symmetric] Let_def option.case by (rule rows_inv_quiet [OF _ b])
  then show ?thesis
    unfolding InitRequiredResourceInfo_def a_def [symmetric]
    by (simp add: table_inv_rows rows_inv_def idents_def)
qed

section \<open>Events\<close>

text \<open>
  Requests, callbacks and posted tasks that add no row. A posted task may run in any order. The
  suspension for lack of audio is here for apps with no audio task in standby; \<open>standby_event\<close> has
  the general one.
\<close>

definition awake :: "int \<Rightarrow> BgContinuousTaskMgr \<Rightarrow> bool" where
  "awake uid m \<longleftrightarrow> list_all (\<lambda>e. ct_uid (snd e) = uid \<and> CheckExistMode (ct_bgModeIds (snd e)) AUDIO_PLAYBACK \<longrightarrow>
     \<not> ct_isStandby (snd e)) (cm_tasks m)"

fun plain_task :: "cont_task \<Rightarrow> BgContinuousTaskMgr \<Rightarrow> bool" where
  "plain_task TaskInitNecessaryState m = False"
| "plain_task (TaskSuspendAudio uid) m = awake uid m"
| "plain_task _ m = True"

definition take_posted :: "cont_task \<Rightarrow> BgContinuousTaskMgr \<Rightarrow> BgContinuousTaskMgr" where
  "take_posted t m = m\<lparr>cm_posted := remove1 t (cm_posted m)\<rparr>"

inductive table_event :: "BgContinuousTaskMgr \<Rightarrow> BgContinuousTaskMgr \<Rightarrow> bool" where
  ev_stop: "table_event m (snd (StopBackgroundRunning e a i t m))"
| ev_update: "table_event m (snd (snd (UpdateBackgroundRunning e p m)))"
| ev_progress: "table_event m (snd (UpdateDataTransferProgress e d m))"
| ev_post_stop: "table_event m (StopContinuousTask uid pid ty key m)"
| ev_post_suspend: "table_event m (SuspendContinuousTask uid pid reason key st m)"
| ev_post_active: "table_event m (ActiveContinuousTask uid pid key st m)"
| ev_post_audio: "table_event m (SuspendContinuousAudioTask uid m)"
| ev_run: "t \<in> set (cm_posted m) \<Longrightarrow> plain_task t m \<Longrightarrow> table_event m (run_task e t (take_posted t m))"
| ev_ability: "table_event m (OnAbilityStateChanged e uid a i m)"
| ev_app_stopped: "table_event m (OnAppStopped e uid m)"
| ev_app_state: "table_event m (OnAppStateChanged e uid fg pre m)"
| ev_bundle: "table_event m (OnBundleInfoChanged e act b uid userId idx m)"
| ev_accounts: "table_event m (OnAccountsStateChanged e acc m)"
| ev_accounts_car: "table_event m (ClearBgOsAccountTaskInCar e m)"
| ev_remove_sa: "table_event m (cm_OnRemoveSystemAbility sa m)"
| ev_av_session: "table_event m (snd (AVSessionNotifyUpdateNotification e uid pid pub m))"
| ev_dete: "table_event m (snd (SendNotificationByDeteTask e keys m))"
| ev_audio_start: "table_event m (snd (NotifyAudioStart uid m))"
| ev_resources: "table_event m (OnBundleResourcesChanged e m)"
| ev_canceled: "table_event m (OnCanceled e dr v reason m)"
| ev_consumed: "table_event m (OnConsumed e v m)"
| ev_enable: "table_event m (snd (EnableContinuousTaskRequest uid b m))"
| ev_auth_request: "table_event m (snd (snd (RequestAuthFromUser e tp cb m)))"
| ev_auth_remove: "table_event m (snd (RemoveAuthRecord e tp m))"
| ev_auth_set: "table_event m (snd (SetBackgroundTaskState e bs m))"
| ev_auth_dialog: "table_event m (OnPermissionDialogButtonClickInner e res uid b idx m)"
| ev_auth_banner: "table_event m (OnBannerNotificationActionButtonClick e ty uid l m)"
| ev_auth_death: "table_event m (HandleAuthExpiredCallbackDeath e obj m)"
| ev_restore: "table_event m (snd (cm_OnRestore e m))"
| ev_prelaunch: "table_event m (AddGamePreLaunchApp uid m)"
| ev_prelaunch_end: "table_event m (RemoveGamePreLaunchApp uid m)"

text \<open>Requests that may add a row; ids and uids are 32-bit and the counter has not run out.\<close>

inductive start_event :: "BgContinuousTaskMgr \<Rightarrow> BgContinuousTaskMgr \<Rightarrow> bool" where
  ev_start: "cm_continuousTaskIdIndex m < INT_MAX \<Longrightarrow> is_i32 (ce_callingUid e) \<Longrightarrow>
     (\<And>p. tp = Some p \<Longrightarrow> is_i32 (cp_abilityId p)) \<Longrightarrow> start_event m (snd (snd (StartBackgroundRunning e tp m)))"
| ev_inner: "cm_continuousTaskIdIndex m < INT_MAX \<Longrightarrow> (\<And>p. tp = Some p \<Longrightarrow> is_i32 (cq_uid p)) \<Longrightarrow>
     start_event m (snd (RequestBackgroundRunningForInner e tp m))"
| ev_dump: "cm_continuousTaskIdIndex m < INT_MAX \<Longrightarrow> start_event m (snd (snd (cm_ShellDump e opts m)))"

inductive subscriber_event :: "BgContinuousTaskMgr \<Rightarrow> BgContinuousTaskMgr \<Rightarrow> bool" where
  ev_subscribe: "subscriber_event m (snd (AddSubscriber s m))"
| ev_unsubscribe: "subscriber_event m (snd (RemoveSubscriber s flag m))"
| ev_died: "subscriber_event m (OnRemoteSubscriberDied obj m)"

inductive standby_event :: "BgContinuousTaskMgr \<Rightarrow> BgContinuousTaskMgr \<Rightarrow> bool" where
  ev_audio: "TaskSuspendAudio uid \<in> set (cm_posted m) \<Longrightarrow>
     standby_event m (HandleSuspendContinuousAudioTask e uid (take_posted (TaskSuspendAudio uid) m))"

text \<open>
  The service starts once, and waits for the services it depends on; the list of processes is
  there. \<open>boot_event\<close> covers the call and the posted attempts.
\<close>

inductive boot_event :: "BgContinuousTaskMgr \<Rightarrow> BgContinuousTaskMgr \<Rightarrow> bool" where
  ev_init: "\<not> cm_isSysReady m \<Longrightarrow> ce_running e \<noteq> None \<Longrightarrow> boot_event m (snd (cm_Init e runner m))"
| ev_init_again: "\<not> cm_isSysReady m \<Longrightarrow> ce_running e \<noteq> None \<Longrightarrow> TaskInitNecessaryState \<in> set (cm_posted m) \<Longrightarrow>
     boot_event m (cm_InitNecessaryState e (take_posted TaskInitNecessaryState m))"

definition live_step :: "BgContinuousTaskMgr \<Rightarrow> BgContinuousTaskMgr \<Rightarrow> bool" where
  "live_step m m' \<longleftrightarrow> table_event m m' \<or> start_event m m' \<or> subscriber_event m m'"

inductive cont_reach :: "BgContinuousTaskMgr \<Rightarrow> bool" where
  cr_new: "cont_reach (new_BgContinuousTaskMgr None authFile)"
| cr_live: "cont_reach m \<Longrightarrow> live_step m m' \<Longrightarrow> cont_reach m'"
| cr_standby: "cont_reach m \<Longrightarrow> standby_event m m' \<Longrightarrow> cont_reach m'"
| cr_boot: "cont_reach m \<Longrightarrow> boot_event m m' \<Longrightarrow> cont_reach m'"
| cr_restart: "cont_reach m \<Longrightarrow> cont_reach (new_BgContinuousTaskMgr (cm_stored m) (cm_authStored m))"

inductive served ::
    "(BgContinuousTaskMgr \<Rightarrow> BgContinuousTaskMgr \<Rightarrow> bool) \<Rightarrow> nat \<Rightarrow> BgContinuousTaskMgr \<Rightarrow> BgContinuousTaskMgr \<Rightarrow> bool"
    for step s m where
  sv_refl: "is_service s m \<Longrightarrow> served step s m m"
| sv_step: "served step s m m1 \<Longrightarrow> step m1 m2 \<Longrightarrow> is_service s m2 \<Longrightarrow> served step s m m2"

section \<open>Events that add no row are tame\<close>

lemma awake_set:
  assumes "awake uid m" and "ct_uid r = uid \<and> CheckExistMode (ct_bgModeIds r) AUDIO_PLAYBACK \<longrightarrow> \<not> ct_isStandby r"
  shows "awake uid (cm_set k r m)"
  using assms unfolding awake_def list_all_iff set_cm_set by simp

lemma awake_erase: "awake uid m \<Longrightarrow> awake uid (cm_erase k m)"
  unfolding awake_def list_all_iff by (simp add: om_del_def)

lemma awake_effect: "effect f m m' \<Longrightarrow> awake uid m \<Longrightarrow> awake uid m'"
  by (simp add: effect_def awake_def)

lemma tasks_OnContinuousTaskChanged [simp]: "cm_tasks (OnContinuousTaskChanged r ty m) = cm_tasks m"
  unfolding OnContinuousTaskChanged_def
  by (cases ty) (simp_all add: cm_emit_def NotifySubscribersTaskStart_def NotifySubscribersTaskUpdate_def
    NotifySubscribersTaskCancel_def NotifySubscribersTaskSuspend_def NotifySubscribersTaskActive_def Let_def)

lemma awake_cong: "cm_tasks m' = cm_tasks m \<Longrightarrow> awake uid m' = awake uid m"
  by (simp add: awake_def)

lemma awake_suspend_audio_body:
  assumes "awake uid m" and "map_of (cm_tasks m) k = Some r0"
  shows "awake uid (suspend_audio_body e uid k r0 m)"
proof (cases "ct_uid r0 = uid \<and> CheckExistMode (ct_bgModeIds r0) AUDIO_PLAYBACK")
  case True
  have r0: "\<not> ct_isStandby r0"
    using True assms map_of_SomeD [OF assms(2)] unfolding awake_def list_all_iff by fastforce
  define m1 where "m1 = cancel_notif e (ct_notificationLabel r0) (ct_notificationId r0) (cm_set k (r0\<lparr>ct_audioDetectState := False\<rparr>) m)"
  have m1: "awake uid m1"
    unfolding m1_def by (rule awake_effect [OF quiet_cancel_notif]) (use r0 in \<open>simp add: awake_set assms(1)\<close>)
  have "awake uid (OnContinuousTaskChanged r ty (cm_set k r m1))" if "\<not> ct_isStandby r" for r ty
    by (subst awake_cong [OF tasks_OnContinuousTaskChanged]) (use that in \<open>simp add: awake_set m1\<close>)
  then show ?thesis
    using True r0 m1 awake_effect [OF quiet_audio_callback] awake_effect [OF quiet_save] awake_erase
    unfolding suspend_audio_body_def Let_def by (simp add: m1_def)
qed (simp only: suspend_audio_body_def if_False assms(1))

lemma tame_suspend_audio: "awake uid m \<Longrightarrow> tame m (HandleSuspendContinuousAudioTask e uid m)"
proof -
  have "tame m (each_task (suspend_audio_body e uid) ks m)" if "awake uid m" for ks m
    using that
  proof (induction ks arbitrary: m)
    case (Cons k ks)
    show ?case
    proof (cases "map_of (cm_tasks m) k")
      case (Some r)
      have "tame m (suspend_audio_body e uid k r m)"
        by (rule tame_suspend_audio_body [OF Some])
           (use Cons.prems map_of_SomeD [OF Some] in \<open>fastforce simp: awake_def list_all_iff\<close>)
      then show ?thesis
        using Some Cons.IH [OF awake_suspend_audio_body [OF Cons.prems Some]] tame_trans by simp
    qed (use Cons in simp)
  qed simp
  then show "awake uid m \<Longrightarrow> tame m (HandleSuspendContinuousAudioTask e uid m)"
    unfolding HandleSuspendContinuousAudioTask_def for_tasks_def by (intro tame_steps)
qed

lemma tame_run_task: "plain_task t m \<Longrightarrow> tame m (run_task e t m)"
  by (cases t) (simp_all add: tame_intros tame_suspend_audio)

lemma quiet_take_posted: "quiet m (take_posted t m)"
  unfolding take_posted_def by (rule quiet_fields)

lemma tame_table_event: "table_event m m' \<Longrightarrow> tame m m'"
proof (induction rule: table_event.induct)
  case (ev_run t m e)
  have "plain_task t (take_posted t m) = plain_task t m"
    by (cases t) (simp_all add: take_posted_def awake_def)
  then show ?case using quiet_then_tame [OF quiet_take_posted tame_run_task] ev_run by simp
qed (intro tame_intros quiet_tame quiet_posts quiet_OnAppStateChanged quiet_Enable quiet_RequestAuthFromUser
  quiet_RemoveAuthRecord quiet_SetBackgroundTaskState quiet_clicks quiet_OnRestore quiet_prelaunch)+

text \<open>Without the restriction to tasks that are not in standby the rows are still those of before.\<close>

lemma rowsafe_set_effect:
  assumes "map_of (cm_tasks m) k = Some r" and "same_row r r'" and "effect f (cm_set k r' m) m'"
  shows "rowsafe m m'"
  unfolding rowsafe_def
proof
  assume d: "distinct_rows m"
  have "rows_kept m (cm_set k r' m)" using idents_set [OF d assms(1,2)] by (simp add: rows_kept_def stored_from_def)
  then show "rows_kept m m'" using effect_rows_kept [OF assms(3)] rows_kept_trans by blast
qed

lemma rowsafe_suspend_audio_body:
  assumes "map_of (cm_tasks m) k = Some r0"
  shows "rowsafe m (suspend_audio_body e uid k r0 m)"
  using suspend_audio_cases [OF assms, of e uid]
proof (elim disjE exE conjE)
  fix m1 r r1
  assume 1: "tame m m1" "map_of (cm_tasks m1) k = Some r" "same_row r r1"
    "suspend_audio_body e uid k r0 m = cm_save e (OnContinuousTaskChanged r1 TASK_SUSPEND (cm_set k r1 m1))"
  have "\<exists>f. effect f (cm_set k r1 m1) (OnContinuousTaskChanged r1 TASK_SUSPEND (cm_set k r1 m1))"
    using notified_suspend notified_standby(1) by blast
  then have "\<exists>f. effect f (cm_set k r1 m1) (suspend_audio_body e uid k r0 m)"
    unfolding 1(4) using effect_quiet quiet_save by blast
  then show ?thesis using rowsafe_set_effect [OF 1(2,3)] rowsafe_trans [OF tame_rowsafe [OF 1(1)]] by blast
qed (rule tame_rowsafe)

lemma rowsafe_standby_event: "standby_event m m' \<Longrightarrow> rowsafe m m'"
proof (induction rule: standby_event.induct)
  case (ev_audio uid m e)
  have "rowsafe x (for_tasks (suspend_audio_body e uid) x)" for x
    unfolding for_tasks_def by (rule rowsafe_each, rule rowsafe_suspend_audio_body)
  then show ?case
    unfolding HandleSuspendContinuousAudioTask_def
    using rowsafe_trans tame_rowsafe quiet_tame quiet_take_posted quiet_app_stop by meson
qed

section \<open>All events keep the invariant and tell the services\<close>

definition good :: "BgContinuousTaskMgr \<Rightarrow> BgContinuousTaskMgr \<Rightarrow> bool" where
  "good m m' \<longleftrightarrow> (table_inv m \<longrightarrow> table_inv m' \<and> told m m')"

lemma good_tame: "tame m m' \<Longrightarrow> good m m'"
  using inv_tame inv_distinct by (auto simp: good_def tame_def)

lemma told_index: "told (m\<lparr>cm_continuousTaskIdIndex := i\<rparr>) m' = told m m'"
  by (simp add: told_def is_service_def active_tasks_def)

lemma good_start:
  assumes "start_result e r m (ret, r', m')" and "\<not> ct_suspendState r" and "cm_isSysReady m"
    and "cm_continuousTaskIdIndex m < INT_MAX" and "is_i32 (ct_uid r)" and "is_i32 (ct_abilityId r)"
  shows "good m m'"
  unfolding good_def
proof (intro impI conjI)
  assume inv: "table_inv m"
  show "table_inv m'" by (rule inv_added [OF assms(1) inv assms(3-6)])
  let ?t = "i32 (cm_continuousTaskIdIndex m + 1)"
  let ?mi = "m\<lparr>cm_continuousTaskIdIndex := ?t\<rparr>"
  have d: "distinct_rows m" "distinct_rows ?mi"
    using inv_distinct [OF inv] by (simp_all add: distinct_rows_def idents_def)
  have q: "told a b" if "quiet a b" "distinct_rows a" for a b
    using quiet_tame [OF that(1)] that(2) by (simp add: tame_def)
  have "told ?mi m'" if "added (task_key r') r' ?mi m'" "same_state (r\<lparr>ct_continuousTaskId := ?t\<rparr>) r'"
    using told_added [OF that(1) d(2)] that(2) assms(2) by (simp add: same_state_def)
  then show "told m m'"
    using assms(1) q d told_index unfolding start_result_def Let_def prod.case by metis
qed

text \<open>The records that requests are made of.\<close>

lemma new_record_fields:
  "ct_uid (new_ContinuousTaskRecord b a u p m ba ms i) = u" "ct_abilityId (new_ContinuousTaskRecord b a u p m ba ms i) = i"
  "ct_suspendState (new_ContinuousTaskRecord b a u p m ba ms i) = False"
  by (simp_all add: new_ContinuousTaskRecord_def default_ContinuousTaskRecord_def)

definition request_record :: "cenv \<Rightarrow> ContinuousTaskParam \<Rightarrow> ContinuousTaskRecord" where
  "request_record e p =
     InitRecordParam e p (ce_osAccountId e (ce_callingUid e))
       (new_ContinuousTaskRecord (ce_clientBundleName e (ce_callingUid e)) (cp_abilityName p) (ce_callingUid e)
          (ce_callingPid e) (cp_bgModeId p) (cp_isBatchApi p) (cp_bgModeIds p) (cp_abilityId p))"

definition checked_record :: "cenv \<Rightarrow> ContinuousTaskParam \<Rightarrow> ErrCode \<times> ContinuousTaskRecord" where
  "checked_record e p =
     (case cp_wantAgent p of
        Some (Some want) \<Rightarrow> CheckSubMode want ((request_record e p)\<lparr>ct_wantAgentInfo := Some (want_info want)\<rparr>)
      | _ \<Rightarrow> (ERR_OK, request_record e p))"

lemma checked_record_fields:
  "ct_uid (snd (checked_record e p)) = ce_callingUid e" "ct_abilityId (snd (checked_record e p)) = cp_abilityId p"
  "\<not> ct_suspendState (snd (checked_record e p))" "ct_abilityName (snd (checked_record e p)) = cp_abilityName p"
  "ct_isByRequestObject (snd (checked_record e p)) = cp_isByRequestObject p"
  unfolding checked_record_def request_record_def
  by (simp_all add: CheckSubMode_def InitRecordParam_def new_ContinuousTaskRecord_def default_ContinuousTaskRecord_def
      split: option.split)

lemma StartBackgroundRunning_unfold:
  "StartBackgroundRunning e tp m =
     (if \<not> cm_isSysReady m then (ERR_BGTASK_SYS_NOT_READY, None, m)
      else if \<not> CheckTaskParam tp then (ERR_BGTASK_CHECK_TASK_PARAM, None, m)
      else if \<not> ce_checkPermission e BGMODE_PERMISSION then (ERR_BGTASK_PERMISSION_DENIED, None, m)
      else
        let x = checked_record e (the tp); y = StartBackgroundRunningInner e (snd x) m in
        if fst x \<noteq> ERR_OK then (fst x, None, m)
        else (fst y, Some (ct_notificationId (fst (snd y)), ct_continuousTaskId (fst (snd y))), snd (snd y)))"
  unfolding StartBackgroundRunning_def Let_def request_record_def [symmetric] checked_record_def [symmetric]
  by (simp add: split_beta)

lemma good_StartBackgroundRunning:
  assumes "cm_continuousTaskIdIndex m < INT_MAX" and "is_i32 (ce_callingUid e)"
    and "\<And>p. tp = Some p \<Longrightarrow> is_i32 (cp_abilityId p)"
  shows "good m (snd (snd (StartBackgroundRunning e tp m)))"
proof -
  have "good m (snd (snd (StartBackgroundRunningInner e (snd (checked_record e p)) m)))"
    if "cm_isSysReady m" "is_i32 (cp_abilityId p)" for p
  proof -
    obtain ret r' m' where r: "StartBackgroundRunningInner e (snd (checked_record e p)) m = (ret, r', m')"
      by (cases "StartBackgroundRunningInner e (snd (checked_record e p)) m") auto
    have "start_result e (snd (checked_record e p)) m (ret, r', m')"
      unfolding r [symmetric] by (rule StartBackgroundRunningInner_result) (simp add: checked_record_fields)
    then have "good m m'"
      by (rule good_start) (use that assms in \<open>simp_all add: checked_record_fields\<close>)
    then show ?thesis by (simp add: r)
  qed
  then show ?thesis
    unfolding StartBackgroundRunning_unfold Let_def using assms(3) good_tame [OF tame_refl]
    by (cases tp) (simp_all add: CheckTaskParam_def)
qed

lemma good_StartForInner:
  assumes "cm_continuousTaskIdIndex m < INT_MAX" and "is_i32 (cq_uid p)" and "cm_isSysReady m"
  shows "good m (snd (StartBackgroundRunningForInner e p c m))"
proof -
  have "\<exists>r. snd (StartBackgroundRunningForInner e p c m) = snd (snd (StartBackgroundRunningInner e r m)) \<and>
      \<not> ct_suspendState r \<and> ct_uid r = cq_uid p \<and> ct_abilityId r = -1"
    unfolding StartBackgroundRunningForInner_def Let_def split_beta snd_conv
    by (rule exI, rule conjI, rule refl) (simp add: new_record_fields)
  then obtain r where r: "\<not> ct_suspendState r" "ct_uid r = cq_uid p" "ct_abilityId r = -1"
    "snd (StartBackgroundRunningForInner e p c m) = snd (snd (StartBackgroundRunningInner e r m))" by blast
  obtain ret r' m' where x: "StartBackgroundRunningInner e r m = (ret, r', m')"
    by (cases "StartBackgroundRunningInner e r m") auto
  have "start_result e r m (ret, r', m')"
    unfolding x [symmetric] by (rule StartBackgroundRunningInner_result) (rule r)
  then have "good m m'" by (rule good_start) (use assms r in \<open>simp_all add: is_i32_def\<close>)
  then show ?thesis by (simp add: r x)
qed

lemma good_StopForInner: "good m (snd (StopBackgroundRunningForInner e p c m))"
  unfolding StopBackgroundRunningForInner_def Let_def by (intro good_tame tame_StopBackgroundRunningInner)

lemma is_i32_atoi: "is_i32 (atoi v)"
  by (simp add: atoi_def split: list.split) (simp add: is_i32_def)

lemma good_start_event: "start_event m m' \<Longrightarrow> good m m'"
proof (induction rule: start_event.induct)
  case (ev_start m e tp)
  then show ?case by (rule good_StartBackgroundRunning)
next
  case (ev_inner m tp e)
  then show ?case
    unfolding RequestBackgroundRunningForInner_def
    by (auto split: option.split intro: good_StartForInner good_StopForInner good_tame tame_refl)
next
  case (ev_dump m e opts)
  have inner: "good m (snd (DebugContinuousTaskInner e (Some \<lparr>cq_uid = u, cq_bgModeId = b, cq_isStart = s,
      cq_abilityId = i, cq_tokenId = t, cq_pid = p\<rparr>) m))" if "is_i32 u" for u b s i t p
    using that ev_dump unfolding DebugContinuousTaskInner_def
    by (auto intro: good_StartForInner good_StopForInner good_tame tame_refl)
  have "is_i32 1" by (simp add: is_i32_def)
  have "good m (snd (DebugContinuousTask e opts m))"
    unfolding DebugContinuousTask_def Let_def
    using inner [OF \<open>is_i32 1\<close>] inner [OF is_i32_atoi] by (simp add: split_beta good_tame)
  then show ?case
    unfolding cm_ShellDump_def cm_ShellDumpInner_def Let_def
    by (simp add: split_beta good_tame tame_intros)
qed

lemma told_subscriber_event: "subscriber_event m m' \<Longrightarrow> cm_tasks m' = cm_tasks m \<and> cm_calls m' = cm_calls m \<and>
    cm_stored m' = cm_stored m \<and> cm_continuousTaskIdIndex m' = cm_continuousTaskIdIndex m \<and> cm_isSysReady m' = cm_isSysReady m"
  by (induction rule: subscriber_event.induct)
     (auto simp: AddSubscriber_def AddSubscriberInner_def RemoveSubscriber_def RemoveSubscriberInner_def
       OnRemoteSubscriberDied_def OnRemoteSubscriberDiedInner_def Let_def split: option.split)

lemma good_subscriber_event: "subscriber_event m m' \<Longrightarrow> good m m'"
  using told_subscriber_event [of m m'] active_tasks_cong [of m' m]
  by (auto simp: good_def table_inv_def told_def idents_def)

lemma inv_boot_event: "boot_event m m' \<Longrightarrow> table_inv m \<Longrightarrow> table_inv m'"
proof (induction rule: boot_event.induct)
  case (ev_init m e runner)
  define a where "a = m\<lparr>cm_bgTaskUid := ce_callingUid e\<rparr>"
  have q: "quiet m a" unfolding a_def by (rule quiet_fields)
  then have a: "table_inv a" "\<not> cm_isSysReady a"
    using ev_init inv_tame [OF quiet_tame [OF q]] by (auto simp: effect_def)
  have "table_inv (cm_InitNecessaryState e a)"
    unfolding cm_InitNecessaryState_def using inv_boot a ev_init(2) inv_tame [OF quiet_tame [OF quiet_post] a(1)] by simp
  then show ?case
    using ev_init inv_tame [OF quiet_tame [OF quiet_post]] unfolding cm_Init_def a_def [symmetric] by simp
next
  case (ev_init_again m e)
  let ?a = "take_posted TaskInitNecessaryState m"
  have q: "quiet m ?a" by (rule quiet_take_posted)
  then have a: "table_inv ?a" "\<not> cm_isSysReady ?a"
    using ev_init_again inv_tame [OF quiet_tame [OF q]] by (auto simp: effect_def)
  show ?case
    unfolding cm_InitNecessaryState_def using inv_boot a ev_init_again(2) inv_tame [OF quiet_tame [OF quiet_post] a(1)] by simp
qed

lemma inv_new: "file_ok f \<Longrightarrow> table_inv (new_BgContinuousTaskMgr f a)"
  by (simp add: table_inv_def new_BgContinuousTaskMgr_def idents_def ids_ok_def)

section \<open>The contract of a group of events\<close>

text \<open>
  What a system service that listens relies on, whatever group of events it watches: the invariant
  is kept and what it is told accounts for every change of the active tasks.
\<close>

locale notifier =
  fixes step :: "BgContinuousTaskMgr \<Rightarrow> BgContinuousTaskMgr \<Rightarrow> bool"
  assumes step_inv: "step m m' \<Longrightarrow> table_inv m \<Longrightarrow> table_inv m'"
    and step_told: "step m m' \<Longrightarrow> table_inv m \<Longrightarrow> told m m'"
begin

lemma runs_inv: "step\<^sup>*\<^sup>* m m' \<Longrightarrow> table_inv m \<Longrightarrow> table_inv m'"
  by (induction rule: rtranclp_induct) (auto intro: step_inv)

lemma served_runs: "served step s m m' \<Longrightarrow> step\<^sup>*\<^sup>* m m'"
  by (induction rule: served.induct) auto

lemma served_service: "served step s m m' \<Longrightarrow> is_service s m'"
  by (induction rule: served.induct) auto

lemma served_told:
  assumes "served step s m m'" and "table_inv m"
  shows "\<exists>cs. cm_calls m' = cm_calls m @ cs \<and> active_tasks m' = sa_view s cs (active_tasks m)"
  using assms
proof (induction rule: served.induct)
  case (sv_step m1 m2)
  then obtain cs where cs: "cm_calls m1 = cm_calls m @ cs" "active_tasks m1 = sa_view s cs (active_tasks m)" by blast
  have "table_inv m1" "is_service s m1"
    using sv_step runs_inv served_runs served_service by blast+
  then obtain ds where ds: "cm_calls m2 = cm_calls m1 @ ds" "active_tasks m2 = sa_view s ds (active_tasks m1)"
    using step_told [OF sv_step.hyps(2)] by (auto simp: told_def)
  have "cm_calls m2 = cm_calls m @ (cs @ ds) \<and> active_tasks m2 = sa_view s (cs @ ds) (active_tasks m)"
    using cs ds by simp
  then show ?case by blast
qed (intro exI [of _ "[]"], simp)

end

lemma notifier_good: "(\<And>m m'. step m m' \<Longrightarrow> good m m') \<Longrightarrow> notifier step"
  by unfold_locales (auto simp: good_def)

interpretation handlers: notifier table_event
  by (rule notifier_good) (intro good_tame tame_table_event)

interpretation starts: notifier start_event
  by (rule notifier_good) (rule good_start_event)

interpretation subscriptions: notifier subscriber_event
  by (rule notifier_good) (rule good_subscriber_event)

interpretation live: notifier live_step
  by unfold_locales
     (auto simp: live_step_def intro: handlers.step_inv starts.step_inv subscriptions.step_inv
        handlers.step_told starts.step_told subscriptions.step_told)

lemma reach_inv: "cont_reach m \<Longrightarrow> table_inv m"
proof (induction rule: cont_reach.induct)
  case (cr_new authFile)
  show ?case by (rule inv_new) (simp add: file_ok_def)
next
  case (cr_live m m')
  then show ?case using live.step_inv by blast
next
  case (cr_standby m m')
  then show ?case using rowsafe_standby_event inv_rowsafe by blast
next
  case (cr_boot m m')
  then show ?case using inv_boot_event by blast
next
  case (cr_restart m)
  then show ?case by (intro inv_new) (simp add: table_inv_def)
qed

end
