(* ===== verification/ContinuousFacts.thy ===== *)
theory ContinuousFacts
  imports ContinuousReach
begin

text \<open>
  Facts about single operations of the continuous task manager: loops that remove rows, stopping the
  tasks of a context, the loop that makes tasks active again, and the modes a task may use.
\<close>

section \<open>Loops that remove rows\<close>

lemma each_task_filter:
  assumes body: "\<And>k r m. map_of (cm_tasks m) k = Some r \<Longrightarrow>
      cm_tasks (f k r m) = (if P r then om_del k (cm_tasks m) else cm_tasks m)"
    and "distinct (map fst (cm_tasks m))"
  shows "cm_tasks (each_task f ks m) = filter (\<lambda>e. \<not> (fst e \<in> set ks \<and> P (snd e))) (cm_tasks m)"
  using assms(2)
proof (induction ks arbitrary: m)
  case (Cons k ks)
  define m1 where "m1 = (case map_of (cm_tasks m) k of None \<Rightarrow> m | Some r \<Rightarrow> f k r m)"
  have m1: "cm_tasks m1 = filter (\<lambda>e. \<not> (fst e = k \<and> P (snd e))) (cm_tasks m)"
  proof (cases "map_of (cm_tasks m) k")
    case None
    then have "\<forall>e \<in> set (cm_tasks m). fst e \<noteq> k" by (force simp: map_of_eq_None_iff)
    then show ?thesis using None by (simp add: m1_def)
  next
    case (Some r)
    have "fst e = k \<Longrightarrow> snd e = r" if "e \<in> set (cm_tasks m)" for e
      using that Some Cons.prems by (metis map_of_is_SomeI option.inject prod.collapse)
    then show ?thesis
      using body [OF Some] Some by (auto simp: m1_def om_del_def intro!: filter_cong)
  qed
  then have "distinct (map fst (cm_tasks m1))" using Cons.prems by (simp add: distinct_map_filter)
  from Cons.IH [OF this] show ?case
    unfolding each_task.simps m1_def [symmetric] m1 filter_filter by (auto intro: filter_cong)
qed simp

lemma for_tasks_filter:
  assumes "\<And>k r m. map_of (cm_tasks m) k = Some r \<Longrightarrow>
      cm_tasks (f k r m) = (if P r then om_del k (cm_tasks m) else cm_tasks m)"
    and "distinct (map fst (cm_tasks m))"
  shows "cm_tasks (for_tasks f m) = filter (\<lambda>e. \<not> P (snd e)) (cm_tasks m)"
  unfolding for_tasks_def using each_task_filter [of f P, OF assms] by (auto intro: filter_cong)

lemma quiet_tasks: "quiet m m' \<Longrightarrow> cm_tasks m' = cm_tasks m"
  by (simp add: effect_def)

lemmas block_tasks [simp] = quiet_blocks(1-5) [THEN quiet_tasks]

lemma om_del_set [simp]: "om_del k (cm_tasks (cm_set k r m)) = om_del k (cm_tasks m)"
  by (auto simp: cm_set_def map_vals_def om_del_def filter_map comp_def split_beta intro!: map_idI)

section \<open>Stopping\<close>

definition cancels_ok :: "cenv \<Rightarrow> bool" where
  "cancels_ok e \<longleftrightarrow> (\<forall>l i. ce_cancel e l i)"

lemma CancelNotification_ok: "cancels_ok e \<Longrightarrow> fst (CancelNotification e r m) = ERR_OK"
  by (simp add: CancelNotification_def nt_CancelNotification_def cancels_ok_def)

lemma find_by_id:
  assumes "distinct_rows m" and "(k, r) \<in> set (cm_tasks m)"
  shows "find_task (\<lambda>t. ct_continuousTaskId t = ct_continuousTaskId r) (cm_tasks m) = Some (k, r)"
proof -
  obtain x where x: "find_task (\<lambda>t. ct_continuousTaskId t = ct_continuousTaskId r) (cm_tasks m) = Some x"
    using assms(2) unfolding find_task_def by (metis (mono_tags, lifting) find_None_iff option.exhaust snd_conv)
  then have "x \<in> set (cm_tasks m)" "ct_continuousTaskId (snd x) = ct_continuousTaskId r"
    unfolding find_task_def by (auto simp: find_Some_iff)
  then show ?thesis using x id_of [OF assms(1,2), of "fst x" "snd x"] by simp
qed

lemma stop_one:
  assumes d: "distinct_rows m" and row: "(k, r) \<in> set (cm_tasks m)" and ok: "cancels_ok e"
  defines "m' \<equiv> snd (StopBackgroundRunningByTask e r m)"
  shows "fst (StopBackgroundRunningByTask e r m) = ERR_OK"
    and "cm_tasks m' = filter (\<lambda>e. ct_continuousTaskId (snd e) \<noteq> ct_continuousTaskId r) (cm_tasks m)"
    and "ce_saveTask e = ERR_OK \<Longrightarrow> cm_stored m' = Some (ds_RefreshTaskRecord (cm_tasks m'))"
proof -
  note f = find_by_id [OF d row]
  have map: "map_of (cm_tasks m) k = Some r" using d row by (simp add: distinct_keys)
  show "fst (StopBackgroundRunningByTask e r m) = ERR_OK"
    using CancelNotification_ok [OF ok] unfolding StopBackgroundRunningByTask_def f by (simp add: split_beta)
  have "cm_tasks m' = om_del k (cm_tasks m)"
    unfolding m'_def StopBackgroundRunningByTask_def f by (simp add: split_beta)
  also have "\<dots> = filter (\<lambda>e. ct_continuousTaskId (snd e) \<noteq> ct_continuousTaskId r) (cm_tasks m)"
    unfolding om_del_def by (rule filter_cong [OF refl]) (simp add: key_id [OF d map])
  finally show "cm_tasks m' = filter (\<lambda>e. ct_continuousTaskId (snd e) \<noteq> ct_continuousTaskId r) (cm_tasks m)" .
  show "cm_stored m' = Some (ds_RefreshTaskRecord (cm_tasks m'))" if "ce_saveTask e = ERR_OK"
    using that unfolding m'_def StopBackgroundRunningByTask_def f by (simp add: split_beta RefreshTaskRecord_def)
qed

lemma stop_list_all:
  assumes "distinct_rows m" and "set rs \<subseteq> snd ` set (cm_tasks m)" and "distinct (map ct_continuousTaskId rs)"
    and ok: "cancels_ok e"
  shows "fst (stop_list e rs ERR_OK m) = ERR_OK \<and>
     cm_tasks (snd (stop_list e rs ERR_OK m)) =
       filter (\<lambda>x. ct_continuousTaskId (snd x) \<notin> ct_continuousTaskId ` set rs) (cm_tasks m) \<and>
     (rs \<noteq> [] \<longrightarrow> ce_saveTask e = ERR_OK \<longrightarrow> cm_stored (snd (stop_list e rs ERR_OK m)) =
        Some (ds_RefreshTaskRecord (cm_tasks (snd (stop_list e rs ERR_OK m)))))"
  using assms(1-3)
proof (induction rs arbitrary: m)
  case (Cons r rs)
  obtain k where row: "(k, r) \<in> set (cm_tasks m)" using Cons.prems(2) by auto
  note one = stop_one [OF Cons.prems(1) row ok]
  define m1 where "m1 = snd (StopBackgroundRunningByTask e r m)"
  have m1: "stop_list e (r # rs) ERR_OK m = stop_list e rs ERR_OK m1"
    using one(1) by (simp add: split_beta m1_def)
  have t: "cm_tasks m1 = filter (\<lambda>e. ct_continuousTaskId (snd e) \<noteq> ct_continuousTaskId r) (cm_tasks m)"
    using one(2) by (simp add: m1_def)
  have d1: "distinct_rows m1"
    using tame_StopBackgroundRunningByTask [of m e r] Cons.prems(1) distinct_rows_kept by (auto simp: m1_def tame_def)
  have sub: "set rs \<subseteq> snd ` set (cm_tasks m1)"
  proof
    fix x assume x: "x \<in> set rs"
    then obtain kx where "(kx, x) \<in> set (cm_tasks m)" using Cons.prems(2) by auto
    moreover have "ct_continuousTaskId x \<noteq> ct_continuousTaskId r" using Cons.prems(3) x by (auto simp: image_iff)
    ultimately show "x \<in> snd ` set (cm_tasks m1)" unfolding t by force
  qed
  note IH = Cons.IH [OF d1 sub]
  have "cm_stored (snd (stop_list e rs ERR_OK m1)) = Some (ds_RefreshTaskRecord (cm_tasks (snd (stop_list e rs ERR_OK m1))))"
    if "ce_saveTask e = ERR_OK"
  proof (cases "rs = []")
    case True
    then show ?thesis using one(3) [OF that] by (simp add: m1_def)
  qed (use IH Cons.prems(3) that in simp)
  then show ?case
    unfolding m1 using IH Cons.prems(3) by (auto simp: t intro: filter_cong)
qed simp

lemma stop_by_context:
  fixes uid a i
  assumes d: "distinct_rows m" and ok: "cancels_ok e"
  defines "m' \<equiv> snd (StopBackgroundRunningByContext e uid a i m)"
  shows "fst (StopBackgroundRunningByContext e uid a i m) = ERR_OK \<and>
     cm_tasks m' = filter (\<lambda>x. \<not> in_context uid a i (snd x)) (cm_tasks m) \<and>
     (list_ex (\<lambda>x. in_context uid a i (snd x)) (cm_tasks m) \<longrightarrow> ce_saveTask e = ERR_OK \<longrightarrow>
        cm_stored m' = Some (ds_RefreshTaskRecord (cm_tasks m')))"
proof -
  let ?rs = "filter (in_context uid a i) (map snd (cm_tasks m))"
  have "distinct (map ct_continuousTaskId (map snd (cm_tasks m)))"
    using d by (simp add: distinct_rows_def idents_def comp_def)
  then have dr: "distinct (map ct_continuousTaskId ?rs)" by (rule distinct_map_filter)
  have "ct_continuousTaskId (snd x) \<in> ct_continuousTaskId ` set ?rs \<longleftrightarrow> in_context uid a i (snd x)"
    if "x \<in> set (cm_tasks m)" for x
    using that id_of [OF d, of "fst x" "snd x"] by force
  then have "filter (\<lambda>x. ct_continuousTaskId (snd x) \<notin> ct_continuousTaskId ` set ?rs) (cm_tasks m) =
      filter (\<lambda>x. \<not> in_context uid a i (snd x)) (cm_tasks m)" by (intro filter_cong [OF refl]) simp
  moreover have "?rs \<noteq> []" if "list_ex (\<lambda>x. in_context uid a i (snd x)) (cm_tasks m)"
    using that by (auto simp: list_ex_iff filter_empty_conv)
  ultimately show ?thesis
    using stop_list_all [OF d _ dr ok] unfolding m'_def StopBackgroundRunningByContext_def by auto
qed

section \<open>Making tasks active again\<close>

text \<open>A row that was handled is no longer suspended, and no other row has changed.\<close>

lemma active_body_rows:
  assumes row: "map_of (cm_tasks m) k = Some r0"
  shows "map_of (cm_tasks (snd (active_body e k r0 st m))) k' =
     (if k' = k then map_of (cm_tasks (snd (active_body e k r0 st m))) k else map_of (cm_tasks m) k')"
    and "\<exists>r'. map_of (cm_tasks (snd (active_body e k r0 st m))) k = Some r' \<and> ct_uid r' = ct_uid r0 \<and> \<not> ct_suspendState r'"
proof -
  define r where "r = r0\<lparr>ct_suspendState := False, ct_isStandby := False\<rparr>"
  define m1 where "m1 = OnContinuousTaskChanged r TASK_ACTIVE (cm_set k r m)"
  define x where "x = HandleActiveNotification e r m1"
  obtain label nid oldIds where st: "st = (label, nid, oldIds)" by (cases st)
  have t1: "cm_tasks m1 = cm_tasks (cm_set k r m)" by (simp add: m1_def)
  have x: "same_state r (fst x)" "cm_tasks (snd x) = cm_tasks m1"
    using sends_HandleActiveNotification [of r m1 e] quiet_tasks by (auto simp: x_def sends_def)
  have "\<exists>r'. cm_tasks (snd (active_body e k r0 st m)) = cm_tasks (cm_set k r' m) \<and> same_state r r'"
  proof -
    have set: "cm_tasks (cm_set k r2 y) = cm_tasks (cm_set k r2 m)" if "cm_tasks y = cm_tasks m1" for r2 y
      using that t1 by (simp add: cm_set_def map_vals_def comp_def split_beta)
    have "cm_tasks (snd (active_body e k r0 st m)) = cm_tasks (cm_set k r m) \<or>
      cm_tasks (snd (active_body e k r0 st m)) = cm_tasks (cm_set k (fst x) (snd x)) \<or>
      cm_tasks (snd (active_body e k r0 st m)) = cm_tasks (cm_set k (r\<lparr>ct_notificationLabel := label, ct_notificationId := nid\<rparr>) m1)"
      unfolding active_body_def st Let_def split_beta r_def [symmetric] m1_def [symmetric] x_def [symmetric]
      by (simp add: t1)
    then show ?thesis using set [OF x(2)] set [of m1] x(1) same_state_refl same_state_fields(3) by metis
  qed
  then obtain r' where r': "cm_tasks (snd (active_body e k r0 st m)) = cm_tasks (cm_set k r' m)" "same_state r r'" by blast
  then show "map_of (cm_tasks (snd (active_body e k r0 st m))) k' =
     (if k' = k then map_of (cm_tasks (snd (active_body e k r0 st m))) k else map_of (cm_tasks m) k')"
    and "\<exists>r'. map_of (cm_tasks (snd (active_body e k r0 st m))) k = Some r' \<and> ct_uid r' = ct_uid r0 \<and> \<not> ct_suspendState r'"
    using row by (auto simp: map_of_cm_set same_state_def same_row_def r_def)
qed

lemma active_while_skip:
  assumes "map_of (cm_tasks m) k = Some r" and "\<not> ct_suspendState r"
  shows "active_while e uid (k # ks) st m = active_while e uid ks st m"
  using assms by (subst active_while.simps) simp

lemma active_while_loop: "active_while e uid ks st m = Some (active_loop e uid ks st m)"
proof (induction ks arbitrary: st m)
  case Nil
  show ?case by (subst active_while.simps) simp
next
  case (Cons k ks)
  show ?case
  proof (cases "map_of (cm_tasks m) k")
    case None
    then show ?thesis using Cons by (subst active_while.simps) simp
  next
    case (Some r)
    show ?thesis
    proof (cases "ct_uid r \<noteq> uid \<or> \<not> ct_suspendState r")
      case True
      then show ?thesis using Cons Some by (subst active_while.simps) simp
    next
      case False
      define x where "x = active_body e k r st m"
      obtain r' where r': "map_of (cm_tasks (snd x)) k = Some r'" "\<not> ct_suspendState r'"
        using active_body_rows(2) [OF Some, of e st] by (auto simp: x_def)
      have "active_while e uid (k # ks) st m = active_while e uid (k # ks) (fst x) (snd x)"
        using Some False unfolding x_def by (subst active_while.simps) simp
      also have "\<dots> = active_while e uid ks (fst x) (snd x)" by (rule active_while_skip [OF r'])
      also have "\<dots> = Some (active_loop e uid ks (fst x) (snd x))" by (rule Cons.IH)
      finally show ?thesis using Some False by (simp add: x_def split_beta)
    qed
  qed
qed

text \<open>Rows stay where they are, one that is not suspended stays so, and those looked at are active.\<close>

definition activated :: "bool \<Rightarrow> int \<Rightarrow> ContinuousTaskRecord option \<Rightarrow> ContinuousTaskRecord option \<Rightarrow> bool" where
  "activated looked uid x y \<longleftrightarrow> (case x of None \<Rightarrow> y = None
     | Some r \<Rightarrow> \<exists>r'. y = Some r' \<and> ct_uid r' = ct_uid r \<and> (\<not> ct_suspendState r \<or> looked \<and> ct_uid r = uid \<longrightarrow> \<not> ct_suspendState r'))"

lemma activated_refl: "activated False uid x x"
  by (simp add: activated_def split: option.split)

lemma activated_trans: "activated a uid x y \<Longrightarrow> activated b uid y z \<Longrightarrow> activated (a \<or> b) uid x z"
  by (auto simp: activated_def split: option.splits)

lemma active_loop_rows:
  "activated (k \<in> set ks) uid (map_of (cm_tasks m) k) (map_of (cm_tasks (active_loop e uid ks st m)) k)"
proof (induction ks arbitrary: st m)
  case Nil
  show ?case by (simp add: activated_refl)
next
  case (Cons k1 ks)
  define x where "x = (case map_of (cm_tasks m) k1 of None \<Rightarrow> (st, m)
      | Some r \<Rightarrow> if ct_uid r \<noteq> uid \<or> \<not> ct_suspendState r then (st, m) else active_body e k1 r st m)"
  have step: "active_loop e uid (k1 # ks) st m = active_loop e uid ks (fst x) (snd x)"
    by (simp add: x_def split_beta split: option.split)
  have "activated (k = k1) uid (map_of (cm_tasks m) k) (map_of (cm_tasks (snd x)) k)"
  proof (cases "map_of (cm_tasks m) k1")
    case (Some r)
    show ?thesis
    proof (cases "ct_uid r \<noteq> uid \<or> \<not> ct_suspendState r")
      case False
      then have "snd x = snd (active_body e k1 r st m)" by (simp add: x_def Some)
      then show ?thesis
        using active_body_rows(1) [OF Some, of e st k] active_body_rows(2) [OF Some, of e st] Some activated_refl
        by (cases "k = k1") (auto simp: activated_def)
    next
      case True
      then have "snd x = m" by (simp add: x_def Some)
      then show ?thesis
        using True Some activated_refl by (cases "k = k1") (simp_all add: activated_def, blast)
    qed
  next
    case None
    then have "snd x = m" by (simp add: x_def)
    then show ?thesis using None activated_refl by (cases "k = k1") (simp_all add: activated_def)
  qed
  from activated_trans [OF this Cons.IH] show ?case unfolding step by simp
qed

section \<open>Modes\<close>

lemma mode_bit_eq: "n < 32 \<Longrightarrow> mode_bit mode = push_bit n 1 \<longleftrightarrow> unat (mode - 1) = n"
proof
  assume n: "n < 32" and "mode_bit mode = push_bit n 1"
  then have "bit (mode_bit mode) n" by (simp add: bit_simps)
  then show "unat (mode - 1) = n" by (simp add: bit_mode_bit)
qed (simp add: mode_bit_def)

lemma and_mode_bit: "conf AND mode_bit mode \<noteq> 0 \<longleftrightarrow> bit conf (unat (mode - 1))" for conf :: bgmode
proof
  assume "conf AND mode_bit mode \<noteq> 0"
  then obtain i where "bit (conf AND mode_bit mode) i" by (metis bit_eqI bit_0_eq bot_apply bot_bool_def)
  then show "bit conf (unat (mode - 1))" by (auto simp: bit_and_iff bit_mode_bit)
next
  assume b: "bit conf (unat (mode - 1))"
  then have "unat (mode - 1) < 32" using bit_imp_le_length by fastforce
  with b have "bit (conf AND mode_bit mode) (unat (mode - 1))" by (simp add: bit_and_iff bit_mode_bit)
  then show "conf AND mode_bit mode \<noteq> 0" by (metis bit_0_eq bot_apply bot_bool_def)
qed

lemma mode_bit_number:
  assumes "n < 32"
  shows "mode_bit mode = push_bit n 1 \<longleftrightarrow> mode = word_of_nat n + 1"
proof -
  have "unat (word_of_nat n :: bgmode) = n"
    using assms by (simp add: unsigned_of_nat take_bit_nat_eq_self_iff)
  then have "unat (mode - 1) = n \<longleftrightarrow> mode - 1 = word_of_nat n"
    by (metis word_unat_eq_iff)
  also have "\<dots> \<longleftrightarrow> mode = word_of_nat n + 1" by (auto simp: algebra_simps)
  finally show ?thesis using mode_bit_eq [OF assms] by simp
qed

lemma mode_bit_names:
  "mode_bit mode = 64 \<longleftrightarrow> mode = WIFI_INTERACTION" "mode_bit mode = 256 \<longleftrightarrow> mode = TASK_KEEPING"
  "mode_bit mode = 4096 \<longleftrightarrow> mode = SPECIAL_SCENARIO_PROCESSING" "mode_bit mode = 2 \<longleftrightarrow> mode = AUDIO_PLAYBACK"
  "mode_bit mode = 4 \<longleftrightarrow> mode = AUDIO_RECORDING" "mode_bit mode = 128 \<longleftrightarrow> mode = VOIP"
  using mode_bit_number [of 6 mode] mode_bit_number [of 8 mode] mode_bit_number [of 12 mode] mode_bit_number [of 1 mode]
    mode_bit_number [of 2 mode] mode_bit_number [of 7 mode] by simp_all

text \<open>The modes a task may use, as a condition on the mode alone: mode \<open>n\<close> is configured by bit \<open>n - 1\<close>.\<close>

definition may_use :: "cenv \<Rightarrow> bgmode \<Rightarrow> ContinuousTaskRecord \<Rightarrow> bgmode \<Rightarrow> bool" where
  "may_use e configured r mode \<longleftrightarrow>
     (mode = WIFI_INTERACTION \<longrightarrow> ct_isSystem r) \<and> (mode = TASK_KEEPING \<longrightarrow> AllowUseTaskKeeping e r) \<and>
     (mode = SPECIAL_SCENARIO_PROCESSING \<longrightarrow> AllowUseSpecial e r = ERR_OK) \<and>
     (mode \<in> {1..32} \<and> bit configured (unat mode - 1) \<or>
      mode \<in> {AUDIO_PLAYBACK, AUDIO_RECORDING, VOIP} \<and> ct_isByRequestObject r \<and> bit configured 11)"

lemma configured_bit:
  "mode \<noteq> 0 \<and> configured AND mode_bit mode \<noteq> 0 \<longleftrightarrow> mode \<in> {1..32} \<and> bit configured (unat mode - 1)" for configured :: bgmode
proof (cases "mode = 0")
  case False
  then have u: "unat (mode - 1) = unat mode - 1" by (rule unat_minus_one)
  have "bit configured (unat mode - 1) \<Longrightarrow> unat mode \<le> 32"
    using bit_imp_le_length [of configured "unat mode - 1"] by simp
  then have "bit configured (unat mode - 1) \<Longrightarrow> mode \<le> 32" by (simp add: word_le_nat_alt)
  moreover have "1 \<le> mode" using False by (simp add: word_le_nat_alt unat_gt_0 Suc_le_eq)
  ultimately show ?thesis using False u and_mode_bit [of configured mode] by auto
qed auto

lemma CheckBgmodeType_new: "CheckBgmodeType e configured mode True r = ERR_OK \<longleftrightarrow> may_use e configured r mode"
proof -
  have av: "configured AND mode_bit MODE_AV_PLAYBACK_AND_RECORD \<noteq> 0 \<longleftrightarrow> bit configured 11"
    using and_mode_bit [of configured MODE_AV_PLAYBACK_AND_RECORD] by simp
  have conf: "mode = 0 \<or> configured AND mode_bit mode = 0 \<longleftrightarrow> \<not> (mode \<in> {1..32} \<and> bit configured (unat mode - 1))"
    using configured_bit [of mode configured] by blast
  show ?thesis
    unfolding CheckBgmodeType_def Let_def mode_bit_names av conf may_use_def by simp
qed

lemma check_modes_all:
  "check_modes e configured api r modes = ERR_OK \<longleftrightarrow> (\<forall>mode \<in> set modes. CheckBgmodeType e configured mode api r = ERR_OK)"
  by (induction modes) (auto simp: Let_def)

section \<open>Starting\<close>

lemma Start_accepted:
  assumes "start_result e r m (ERR_OK, r', m')"
  shows "task_key r' \<notin> fst ` set (cm_tasks m) \<and> same_state (r\<lparr>ct_continuousTaskId := i32 (cm_continuousTaskIdIndex m + 1)\<rparr>) r' \<and>
     (\<exists>t. cm_tasks m' = t @ [(task_key r', r')] \<and> map fst t = map fst (cm_tasks m)) \<and> written e m'"
proof -
  obtain m1 where m1: "map fst (cm_tasks m1) = map fst (cm_tasks m)"
      "effect (insert (ct_continuousTaskId r')) (m1\<lparr>cm_continuousTaskInfosMap := cm_tasks m1 @ [(task_key r', r')]\<rparr>) m'"
    "same_state (r\<lparr>ct_continuousTaskId := i32 (cm_continuousTaskIdIndex m + 1)\<rparr>) r'"
    "map_of (cm_tasks m) (task_key r') = None" "written e m'"
    using assms(1) unfolding start_result_def Let_def added_def by auto
  then show ?thesis by (auto simp: effect_def map_of_eq_None_iff)
qed

lemma Start_refused:
  assumes "start_result e r m (ret, r', m')" and "ret \<noteq> ERR_OK" and "ce_saveTask e = ERR_OK"
  shows "cm_tasks m' = cm_tasks m"
  using assms unfolding start_result_def Let_def by (auto simp: effect_def)

section \<open>Labels\<close>

lemma split_token: "t \<noteq> [] \<Longrightarrow> d \<notin> set t \<Longrightarrow> StringSplit d (t @ d # rest) = t # StringSplit d rest"
proof (induction t)
  case (Cons c cs)
  then show ?case by (cases cs) auto
qed simp

lemma split_last: "t \<noteq> [] \<Longrightarrow> d \<notin> set t \<Longrightarrow> StringSplit d t = [t]"
proof (induction t)
  case (Cons c cs)
  then show ?case by (cases cs) auto
qed simp

lemma to_string_token: "to_string n \<noteq> []" "CHR ''_'' \<notin> set (to_string n)"
proof -
  have "CHR ''_'' \<notin> set (show_nat k)" for k
  proof
    assume "CHR ''_'' \<in> set (show_nat k)"
    then have "is_digit (CHR ''_'')" using show_nat_digits [of k] by (auto simp: list_all_iff)
    then show False by (simp add: is_digit_def)
  qed
  then show "CHR ''_'' \<notin> set (to_string n)" by (simp add: to_string_def)
  show "to_string n \<noteq> []" by (auto simp: to_string_def) (metis neq_Nil_conv show_nat.simps snoc_eq_iff_butlast)+
qed

text \<open>The hash of a name is printed without the delimiter.\<close>

definition hash_prints :: "cenv \<Rightarrow> string \<Rightarrow> bool" where
  "hash_prints e name \<longleftrightarrow> ce_hash e name \<noteq> [] \<and> CHR ''_'' \<notin> set (ce_hash e name)"

lemma split_label:
  assumes "hash_prints e name"
  shows "StringSplit (CHR ''_'') (CreateNotificationLabel e uid name ability byObject t) =
    [''bgmode'', to_string uid, ce_hash e name, to_string ability] @ (if byObject then [to_string t] else [])"
proof -
  have b: "StringSplit (CHR ''_'') (''bgmode'' @ CHR ''_'' # x) = ''bgmode'' # StringSplit (CHR ''_'') x" for x
    by (rule split_token) simp_all
  show ?thesis
    using b assms unfolding CreateNotificationLabel_def hash_prints_def
    by (simp add: split_token split_last to_string_token)
qed

lemma filter_set_row:
  assumes "\<not> Q (k, r')" and "\<And>x. (k, x) \<in> set (cm_tasks m) \<Longrightarrow> \<not> Q (k, x)"
  shows "filter Q (cm_tasks (cm_set k r' m)) = filter Q (cm_tasks m)"
proof -
  have "filter Q (map (\<lambda>e. (fst e, if fst e = k then r' else snd e)) t) = filter Q t" if "set t \<subseteq> set (cm_tasks m)" for t
    using that
  proof (induction t)
    case (Cons e t)
    obtain k1 x where e: "e = (k1, x)" by (cases e)
    then show ?case using Cons assms by (cases "k1 = k") auto
  qed simp
  then show ?thesis by (simp add: cm_set_def map_vals_def case_prod_unfold)
qed

lemma user_removes:
  assumes row: "map_of (cm_tasks m) key = Some r" and d: "distinct (map fst (cm_tasks m))" and "cm_isSysReady m"
    and "ct_notificationId r \<noteq> -1"
  shows "cm_tasks (snd (StopContinuousTaskByUser e tr key sub reason m)) =
     filter (\<lambda>x. \<not> (ct_notificationId (snd x) = ct_notificationId r \<and> ct_notificationLabel (snd x) = ct_notificationLabel r)) (cm_tasks m)"
proof -
  obtain r' where r': "SetReason key REMOVE_NOTIFICATION_CANCEL (if fst tr \<le> reason \<and> reason \<le> snd tr
        then SYSTEM_CANCEL_DATA_TRANSFER_NOT_UPDATE else USER_CANCEL_REMOVE_NOTIFICATION) m = cm_set key r' m"
    "ct_notificationId r' = ct_notificationId r" "ct_notificationLabel r' = ct_notificationLabel r"
    unfolding SetReason_def row by simp
  have row': "map_of (cm_tasks (cm_set key r' m)) key = Some r'" using row by (simp add: map_of_cm_set)
  have "cm_tasks (snd (StopContinuousTaskByUserInner e key sub (cm_set key r' m))) =
     filter (\<lambda>x. \<not> (ct_notificationId (snd x) = ct_notificationId r \<and> ct_notificationLabel (snd x) = ct_notificationLabel r))
       (cm_tasks (cm_set key r' m))"
    unfolding StopContinuousTaskByUserInner_def row' option.case using assms(4) r'
    by (simp add: Let_def) (subst for_tasks_filter [where P = "\<lambda>x. ct_notificationId x = ct_notificationId r \<and>
        ct_notificationLabel x = ct_notificationLabel r"], use d in \<open>auto simp: Let_def\<close>)
  also have "\<dots> = filter (\<lambda>x. \<not> (ct_notificationId (snd x) = ct_notificationId r \<and> ct_notificationLabel (snd x) = ct_notificationLabel r))
      (cm_tasks m)"
    by (rule filter_set_row) (use r' row d in \<open>auto dest: map_of_is_SomeI\<close>)
  finally show ?thesis
    using assms(3) r' unfolding StopContinuousTaskByUser_def by simp
qed

end
