(* ===== verification/ContinuousDemo.thy ===== *)
theory ContinuousDemo
  imports ContinuousReach
begin

text \<open>
  A short run of the continuous task manager, the concrete input of the examples: the service
  starts, a system service and an app subscribe, and app 100 starts a task for locating.
\<close>

section \<open>Environment\<close>

text \<open>Splitting at commas, dropping empty parts.\<close>

fun demo_split_acc :: "string \<Rightarrow> string \<Rightarrow> string list" where
  "demo_split_acc acc [] = (if acc = [] then [] else [rev acc])"
| "demo_split_acc acc (c # cs) =
     (if c = CHR '','' then (if acc = [] then demo_split_acc [] cs else rev acc # demo_split_acc [] cs)
      else demo_split_acc (c # acc) cs)"

definition cont_env :: cenv where
  "cont_env =
     \<lparr>ce_callingUid = 100, ce_callingPid = 7, ce_callingFullTokenId = 1, ce_callingTokenId = 1,
      ce_checkPermission = (\<lambda>_. True), ce_aclPermission = (\<lambda>_ _. False), ce_isSystemApp = (\<lambda>_. False),
      ce_clientBundleName = (\<lambda>_. ''app''), ce_osAccountId = (\<lambda>_. 100),
      ce_bundleInfo = (\<lambda>_ _. Some \<lparr>bi_abilityInfos = [(''Main'', 8)], bi_reqPermissions = [], bi_isSystemApp = False\<rparr>),
      ce_bundleLabel = (\<lambda>_. Some ''App''), ce_appIndexAndBundle = (\<lambda>_. None), ce_config = initial_config,
      ce_signature = (\<lambda>_. True), ce_supportTaskKeeping = False, ce_supportAuth = False, ce_gamePreLaunch = False,
      ce_foreground = Some [100], ce_running = Some [(100, 7)], ce_abilityRunning = None, ce_isPlaying = (\<lambda>_. False),
      ce_publish = (\<lambda>_. True), ce_cancel = (\<lambda>_ _. True), ce_refresh = (\<lambda>_. True), ce_active = Some [],
      ce_resources = True, ce_getString = (\<lambda>_. Some ''text''), ce_format = (\<lambda>_ _. ''texts''), ce_hash = (\<lambda>_. ''42''),
      ce_split = demo_split_acc [], ce_saveTask = ERR_OK, ce_saveAuth = ERR_OK, ce_activeAccounts = Some [100],
      ce_foregroundAccounts = Some [100], ce_dependsReady = True, ce_registered = True, ce_errInvalidValue = 22,
      ce_errInvalidOperation = 38, ce_backupReply = True, ce_restoreFile = None, ce_restoreReply = True\<rparr>"

definition cont_param :: ContinuousTaskParam where
  "cont_param =
     \<lparr>cp_isNewApi = True, cp_bgModeId = LOCATION, cp_wantAgent = Some None, cp_abilityName = ''Main'',
      cp_appName = ''App'', cp_isBatchApi = False, cp_bgModeIds = [], cp_abilityId = 3, cp_bgSubModeIds = [],
      cp_isCombinedTaskNotification = False, cp_combinedNotificationTaskId = -1, cp_updateTaskId = -1,
      cp_isByRequestObject = False, cp_appIndex = 0, cp_requestAuthApiVersion = 0, cp_progressInfo = None\<rparr>"

section \<open>States\<close>

definition cont_ready :: BgContinuousTaskMgr where
  "cont_ready = snd (AddSubscriber (Some \<lparr>si_subscriber = 5, si_uid = 1, si_pid = 1, si_isHap = False, si_flag = 0\<rparr>)
     (snd (cm_Init cont_env True (new_BgContinuousTaskMgr None None))))"

definition cont_started :: BgContinuousTaskMgr where
  "cont_started = snd (snd (StartBackgroundRunning cont_env (Some cont_param) cont_ready))"

lemma cont_ready_reach: "cont_reach cont_ready"
proof -
  have "cont_reach (snd (cm_Init cont_env True (new_BgContinuousTaskMgr None None)))"
    by (rule cr_boot [OF cr_new], rule ev_init) (simp_all add: new_BgContinuousTaskMgr_def cont_env_def)
  then show ?thesis
    unfolding cont_ready_def by (rule cr_live) (simp add: live_step_def subscriber_event.simps, blast)
qed

lemma cont_ready_index: "cm_continuousTaskIdIndex cont_ready = 0"
  by code_simp

lemma cont_step_started: "live_step cont_ready cont_started"
  unfolding cont_started_def live_step_def
  by (intro disjI2 disjI1, rule ev_start)
     (use cont_ready_index in \<open>simp_all add: cont_env_def cont_param_def is_i32_def\<close>)

lemma cont_started_reach: "cont_reach cont_started"
  by (rule cr_live [OF cont_ready_reach cont_step_started])

lemma cont_started_rows: "map (\<lambda>(k, r). (k, ct_uid r, ct_continuousTaskId r, ct_notificationId r, ct_suspendState r)) (cm_tasks cont_started) =
    [(''100_Main_3'', 100, 1, 0, False)]"
  by code_simp

end
