(* ===== verification/ContinuousProps.thy ===== *)
theory ContinuousProps
  imports ContinuousFacts ContinuousDemo
begin

text \<open>
  The properties of the continuous task manager: the invariant of its table over any history with
  restarts, what listening system services know, the outcome of starting and stopping, the loop that
  makes tasks active again, what survives in the file, what the user removing a notification does,
  and which modes and stored records are accepted.
\<close>

section \<open>The table\<close>



section \<open>Subscribers\<close>


lemma cont_served: "served live_step 5 cont_ready cont_started"
proof (rule sv_step [where step = live_step, OF sv_refl cont_step_started])
  show "is_service 5 cont_ready" "is_service 5 cont_started" by code_simp+
qed


section \<open>Starting and stopping\<close>

text \<open>What a request to start a task does to the table and the file.\<close>

lemma start_outcome:
  assumes "StartBackgroundRunning e tp m = (ret, out, m')" and "ce_saveTask e = ERR_OK"
    and "0 \<le> cm_continuousTaskIdIndex m" and "cm_continuousTaskIdIndex m < INT_MAX"
  shows "(ret \<noteq> ERR_OK \<longrightarrow> cm_continuousTaskInfosMap m' = cm_continuousTaskInfosMap m) \<and>
    (ret = ERR_OK \<longrightarrow> (\<exists>p r t. tp = Some p \<and> cm_continuousTaskInfosMap m' = t @ [(task_key r, r)] \<and>
       map fst t = map fst (cm_continuousTaskInfosMap m) \<and> task_key r \<notin> fst ` set (cm_continuousTaskInfosMap m) \<and>
       ct_uid r = ce_callingUid e \<and> ct_abilityName r = cp_abilityName p \<and> ct_abilityId r = cp_abilityId p \<and>
       ct_isByRequestObject r = cp_isByRequestObject p \<and> ct_continuousTaskId r = cm_continuousTaskIdIndex m + 1 \<and>
       \<not> ct_suspendState r \<and> out = Some (ct_notificationId r, ct_continuousTaskId r) \<and>
       cm_stored m' = Some (ds_RefreshTaskRecord (cm_continuousTaskInfosMap m'))))"
proof -
  define r0 where "r0 = snd (checked_record e (the tp))"
  obtain c r1 m1 where y: "StartBackgroundRunningInner e r0 m = (c, r1, m1)"
    by (cases "StartBackgroundRunningInner e r0 m") auto
  have res: "start_result e r0 m (c, r1, m1)"
    unfolding y [symmetric] by (rule StartBackgroundRunningInner_result) (simp add: r0_def checked_record_fields)
  have next_id: "i32 (cm_continuousTaskIdIndex m + 1) = cm_continuousTaskIdIndex m + 1"
    using assms(3,4) by (simp add: is_i32_nonneg)
  have cases: "(ret, out, m') = (c, Some (ct_notificationId r1, ct_continuousTaskId r1), m1) \<and> tp \<noteq> None \<or> ret \<noteq> ERR_OK \<and> m' = m"
    using assms(1) unfolding StartBackgroundRunning_unfold Let_def r0_def [symmetric] y
    by (auto split: if_splits simp: CheckTaskParam_def)
  have "cm_continuousTaskInfosMap m' = cm_continuousTaskInfosMap m" if "ret \<noteq> ERR_OK"
    using cases that Start_refused [OF res _ assms(2)] by auto
  moreover have "\<exists>p r t. tp = Some p \<and> cm_continuousTaskInfosMap m' = t @ [(task_key r, r)] \<and>
       map fst t = map fst (cm_continuousTaskInfosMap m) \<and> task_key r \<notin> fst ` set (cm_continuousTaskInfosMap m) \<and>
       ct_uid r = ce_callingUid e \<and> ct_abilityName r = cp_abilityName p \<and> ct_abilityId r = cp_abilityId p \<and>
       ct_isByRequestObject r = cp_isByRequestObject p \<and> ct_continuousTaskId r = cm_continuousTaskIdIndex m + 1 \<and>
       \<not> ct_suspendState r \<and> out = Some (ct_notificationId r, ct_continuousTaskId r) \<and>
       cm_stored m' = Some (ds_RefreshTaskRecord (cm_continuousTaskInfosMap m'))" if ok: "ret = ERR_OK"
  proof -
    have eq: "c = ERR_OK" "out = Some (ct_notificationId r1, ct_continuousTaskId r1)" "m' = m1" using cases ok by auto
    obtain p where p: "tp = Some p" using cases ok by auto
    note acc = Start_accepted [OF res [unfolded eq(1)], unfolded next_id]
    have "ct_uid r1 = ce_callingUid e" "ct_abilityName r1 = cp_abilityName p" "ct_abilityId r1 = cp_abilityId p"
      "ct_isByRequestObject r1 = cp_isByRequestObject p" "ct_continuousTaskId r1 = cm_continuousTaskIdIndex m + 1"
      "\<not> ct_suspendState r1"
      using acc by (simp_all add: same_state_def same_row_def r0_def p checked_record_fields)
    then show ?thesis using acc eq p assms(2) unfolding written_def by blast
  qed
  ultimately show ?thesis by blast
qed





section \<open>Making tasks active again\<close>

text \<open>
  C36. The loop that makes the suspended tasks of an app active again looks at a row once more after
  handling it. It terminates, with the result of handling each row once, and then no task of the app
  that it went over is suspended; no row has appeared or disappeared.
\<close>

theorem activation_loop_terminates:
  "active_while e uid ks st m = Some (active_loop e uid ks st m) \<and>
   (k \<in> set ks \<longrightarrow> (case map_of (cm_continuousTaskInfosMap m) k of
      None \<Rightarrow> map_of (cm_continuousTaskInfosMap (active_loop e uid ks st m)) k = None
    | Some r \<Rightarrow> (\<exists>r'. map_of (cm_continuousTaskInfosMap (active_loop e uid ks st m)) k = Some r' \<and>
         ct_uid r' = ct_uid r \<and> (ct_uid r = uid \<longrightarrow> \<not> ct_suspendState r'))))"
  using active_while_loop active_loop_rows [of k ks uid m e st] by (auto simp: activated_def split: option.splits)

definition cont_suspended :: BgContinuousTaskMgr where
  "cont_suspended = HandleSuspendContinuousTask cont_env 100 7 4 ''100_Main_3'' cont_started"

theorem activation_loop_terminates_witness:
  "map ct_suspendState (map snd (cm_continuousTaskInfosMap cont_suspended)) = [True] \<and>
   active_while cont_env 100 [''100_Main_3''] (''default'', -2, []) cont_suspended \<noteq> None \<and>
   map ct_suspendState (map snd (cm_continuousTaskInfosMap
     (active_loop cont_env 100 [''100_Main_3''] (''default'', -2, []) cont_suspended))) = [False]"
proof -
  have "map ct_suspendState (map snd (cm_continuousTaskInfosMap cont_suspended)) = [True]" by code_simp
  moreover have "map ct_suspendState (map snd (cm_continuousTaskInfosMap
     (active_loop cont_env 100 [''100_Main_3''] (''default'', -2, []) cont_suspended))) = [False]" by code_simp
  ultimately show ?thesis
    using activation_loop_terminates [of cont_env 100 "[''100_Main_3'']" "(''default'', -2, [])" cont_suspended "''100_Main_3''"]
    by simp
qed

section \<open>The user\<close>


definition cont_view :: notif_view where
  "cont_view = \<lparr>nv_label = ''bgmode_100_42_3'', nv_creatorUid = 100, nv_ownerUid = 100, nv_isLiveView = False,
     nv_abilityName = Some ''Main'', nv_event = None\<rparr>"


section \<open>Modes and stored records\<close>




end
