(* ===== verification/BackgroundTaskMgrService.thy ===== *)
theory BackgroundTaskMgrService
  imports BgTransientTaskMgr EfficiencyLifecycle TaskNotificationSubscriber
begin

text \<open>
  The service object (\<^verbatim>\<open>services/core/src/background_task_mgr_service.cpp\<close>): it owns the three managers
  and the configuration, publishes itself when all managers are ready, checks the caller of every
  request of \<^verbatim>\<open>IBackgroundTaskMgr.idl\<close> and passes the request on.
\<close>

unbundle bit_operations_syntax

section \<open>State and environment\<close>

datatype ServiceRunningState = STATE_NOT_START | STATE_RUNNING

abbreviation (input) TRANSIENT_SERVICE_READY :: "32 word" where "TRANSIENT_SERVICE_READY \<equiv> 1"
abbreviation (input) CONTINUOUS_SERVICE_READY :: "32 word" where "CONTINUOUS_SERVICE_READY \<equiv> 2"
abbreviation (input) EFFICIENCY_RESOURCES_SERVICE_READY :: "32 word" where "EFFICIENCY_RESOURCES_SERVICE_READY \<equiv> 4"
abbreviation (input) ALL_READY :: "32 word" where "ALL_READY \<equiv> 7"

text \<open>
  The observers post tasks to the event handler of the continuous task manager (\<open>sv_posted\<close>); the
  players that the audio plugin knows are \<open>sv_audioPlayerInfos\<close>, as uid and session. The plugin
  manager is enabled (\<open>sv_pluginEnable\<close>) once the service is published.
\<close>

datatype observer_task =
    PostAppStateChanged int int int
  | PostAbilityStateChanged int string int
  | PostAppCacheStateChanged int int string
  | PostAppStopped int
  | PostAccountsStateChanged int
  | PostBundleResourcesChanged
  | PostBundleInfoChanged string string int int int
  | PostDialogClick int int string int
  | PostBannerClick int int string

record BackgroundTaskMgrService =
  sv_state :: ServiceRunningState
  sv_dependsReady :: "32 word"
  sv_transient :: BgTransientTaskMgr
  sv_efficiency :: BgEfficiencyResourcesMgr
  sv_continuous :: BgContinuousTaskMgr
  sv_config :: BgtaskConfig
  sv_audioPlayerInfos :: "(int \<times> int) list"
  sv_pluginEnable :: bool
  sv_posted :: "observer_task list"

definition new_BackgroundTaskMgrService :: "json option \<Rightarrow> json option \<Rightarrow> json option \<Rightarrow> BackgroundTaskMgrService" where
  "new_BackgroundTaskMgrService resourceFile taskFile authFile =
     \<lparr>sv_state = STATE_NOT_START, sv_dependsReady = 0, sv_transient = new_BgTransientTaskMgr,
      sv_efficiency = new_BgEfficiencyResourcesMgr resourceFile,
      sv_continuous = new_BgContinuousTaskMgr taskFile authFile, sv_config = initial_config,
      sv_audioPlayerInfos = [], sv_pluginEnable = False, sv_posted = []\<rparr>"

text \<open>
  What the service reads from elsewhere: the token and ids of the caller, the answers of the access
  token service, whether publishing and writing the dump succeed, the configuration files, the JSON
  parser, and the environments of the managers. The ids of system abilities of other repositories
  are known by the classification \<open>se_ability\<close>.
\<close>

datatype token_type = TOKEN_HAP | TOKEN_NATIVE | TOKEN_SHELL | TOKEN_OTHER

record senv =
  se_tokenType :: token_type
  se_callingUid :: int
  se_callingPid :: int
  se_atomicService :: bool
  se_engMode :: int
  se_dumpPermission :: bool
  se_dumpSaved :: bool
  se_eventPublished :: bool
  se_published :: bool
  se_runner :: bool
  se_quotaLib :: bool
  se_abilities :: "(system_ability \<Rightarrow> bool) option"
  se_ability :: "int \<Rightarrow> system_ability"
  se_suspendFile :: "json option"
  se_bgtaskFile :: "json option"
  se_parse :: "string \<Rightarrow> json option"
  se_transient :: env
  se_efficiency :: eenv
  se_continuous :: cenv

text \<open>The caller and the configuration are the same for every manager.\<close>

definition t_env :: "senv \<Rightarrow> BackgroundTaskMgrService \<Rightarrow> env" where
  "t_env e s = (se_transient e)\<lparr>e_callingUid := se_callingUid e, e_callingPid := se_callingPid e, e_config := sv_config s\<rparr>"

definition r_env :: "senv \<Rightarrow> BackgroundTaskMgrService \<Rightarrow> eenv" where
  "r_env e s = (se_efficiency e)\<lparr>ee_callingUid := se_callingUid e, ee_callingPid := se_callingPid e, ee_config := sv_config s\<rparr>"

definition c_env :: "senv \<Rightarrow> BackgroundTaskMgrService \<Rightarrow> cenv" where
  "c_env e s =
     (se_continuous e)\<lparr>ce_callingUid := se_callingUid e, ce_callingPid := se_callingPid e, ce_config := sv_config s,
       ce_isPlaying := (\<lambda>uid. list_ex (\<lambda>(u, _). u = uid) (sv_audioPlayerInfos s))\<rparr>"

section \<open>Life cycle\<close>

text \<open>
  A manager that has finished its initialisation sets its bit; with the last one the configuration
  is read and the service published. An exception of the JSON library leaves the call.
\<close>

definition SetReady :: "senv \<Rightarrow> 32 word \<Rightarrow> BackgroundTaskMgrService \<Rightarrow> json_exn + BackgroundTaskMgrService" where
  "SetReady e flag s =
     (if sv_dependsReady s = ALL_READY then Inr s
      else
        let s1 = s\<lparr>sv_dependsReady := sv_dependsReady s OR flag\<rparr>
        in if sv_dependsReady s1 \<noteq> ALL_READY then Inr s1
           else case BgtaskConfig_Init (se_suspendFile e) (se_bgtaskFile e) (sv_config s1) of
                  Inl x \<Rightarrow> Inl x
                | Inr c \<Rightarrow>
                    let s2 = s1\<lparr>sv_config := c\<rparr>
                    in if \<not> se_published e then Inr s2
                       else Inr (s2\<lparr>sv_state := STATE_RUNNING, sv_pluginEnable := True\<rparr>))"

text \<open>The initialisation of each manager, with the call of \<^verbatim>\<open>SetReady\<close> at its end.\<close>

definition sv_ready_transient ::
    "senv \<Rightarrow> init_effect \<times> BgTransientTaskMgr \<Rightarrow> BackgroundTaskMgrService \<Rightarrow> json_exn + BackgroundTaskMgrService" where
  "sv_ready_transient e r s =
     (let s1 = s\<lparr>sv_transient := snd r\<rparr>
      in if fst r = SetReadyTransient then SetReady e TRANSIENT_SERVICE_READY s1 else Inr s1)"

definition sv_InitTransient :: "senv \<Rightarrow> BackgroundTaskMgrService \<Rightarrow> json_exn + BackgroundTaskMgrService" where
  "sv_InitTransient e s = sv_ready_transient e (InitNecessaryState (se_abilities e) (sv_transient s)) s"

definition sv_ready_continuous :: "senv \<Rightarrow> BackgroundTaskMgrService \<Rightarrow> json_exn + BackgroundTaskMgrService" where
  "sv_ready_continuous e s =
     (if ce_dependsReady (c_env e s) \<and> ce_registered (c_env e s) then SetReady e CONTINUOUS_SERVICE_READY s else Inr s)"

definition sv_InitContinuous :: "senv \<Rightarrow> BackgroundTaskMgrService \<Rightarrow> json_exn + BackgroundTaskMgrService" where
  "sv_InitContinuous e s = sv_ready_continuous e (s\<lparr>sv_continuous := cm_InitNecessaryState (c_env e s) (sv_continuous s)\<rparr>)"

definition sv_Init :: "senv \<Rightarrow> BackgroundTaskMgrService \<Rightarrow> json_exn + BackgroundTaskMgrService" where
  "sv_Init e s =
     (case sv_ready_transient e (tm_Init (se_runner e) (se_abilities e) (sv_transient s)) s of
        Inl x \<Rightarrow> Inl x
      | Inr s1 \<Rightarrow>
          let s2 = s1\<lparr>sv_efficiency := snd (er_Init (se_runner e) (se_quotaLib e) (sv_efficiency s1))\<rparr>;
              (started, m) = cm_Init (c_env e s2) (se_runner e) (sv_continuous s2);
              s3 = s2\<lparr>sv_continuous := m\<rparr>
          in if started then sv_ready_continuous e s3 else Inr s3)"

definition OnStart :: "senv \<Rightarrow> BackgroundTaskMgrService \<Rightarrow> json_exn + BackgroundTaskMgrService" where
  "OnStart e s = (if sv_state s = STATE_RUNNING then Inr s else sv_Init e s)"

definition OnStop :: "BackgroundTaskMgrService \<Rightarrow> BackgroundTaskMgrService" where
  "OnStop s = s\<lparr>sv_state := STATE_NOT_START\<rparr>"

fun depend_of :: "system_ability \<Rightarrow> depend_ability" where
  "depend_of APP_MGR_SERVICE_ID = APP_MGR_SERVICE"
| "depend_of BUNDLE_MGR_SERVICE_SYS_ABILITY_ID = BUNDLE_MGR_SERVICE"
| "depend_of RES_SCHED_SYS_ABILITY_ID = RES_SCHED_SERVICE"
| "depend_of _ = UNRELATED_SERVICE"

text \<open>The efficiency manager sets its bit each time it becomes ready.\<close>

definition sv_OnAddSystemAbility :: "senv \<Rightarrow> int \<Rightarrow> BackgroundTaskMgrService \<Rightarrow> json_exn + BackgroundTaskMgrService" where
  "sv_OnAddSystemAbility e systemAbilityId s =
     (let m = er_OnAddSystemAbility (r_env e s) (depend_of (se_ability e systemAbilityId)) (sv_efficiency s);
          s1 = s\<lparr>sv_efficiency := m\<rparr>
      in if er_isSysReady m \<and> \<not> er_isSysReady (sv_efficiency s)
         then SetReady e EFFICIENCY_RESOURCES_SERVICE_READY s1 else Inr s1)"

definition sv_OnRemoveSystemAbility :: "senv \<Rightarrow> int \<Rightarrow> BackgroundTaskMgrService \<Rightarrow> BackgroundTaskMgrService" where
  "sv_OnRemoveSystemAbility e systemAbilityId s =
     (let sa = se_ability e systemAbilityId
      in s\<lparr>sv_efficiency := er_OnRemoveSystemAbility (depend_of sa) (sv_efficiency s),
           sv_continuous := cm_OnRemoveSystemAbility systemAbilityId (sv_continuous s),
           sv_transient := tm_OnRemoveSystemAbility (t_env e s) sa (sv_transient s)\<rparr>)"

definition OnExtension :: "senv \<Rightarrow> string \<Rightarrow> BackgroundTaskMgrService \<Rightarrow> ErrCode \<times> BackgroundTaskMgrService" where
  "OnExtension e extension s =
     (if extension = ''backup'' then (cm_OnBackup (c_env e s) (sv_continuous s), s)
      else if extension = ''restore''
      then let (ret, m) = cm_OnRestore (c_env e s) (sv_continuous s) in (ret, s\<lparr>sv_continuous := m\<rparr>)
      else (0, s))"

section \<open>Callers\<close>

abbreviation (input) RESOURCE_SCHEDULE_SERVICE_UID :: int where "RESOURCE_SCHEDULE_SERVICE_UID \<equiv> 1096"
abbreviation (input) SET_BACKGROUND_TASK_STATE_PERMISSION :: string where
  "SET_BACKGROUND_TASK_STATE_PERMISSION \<equiv> ''ohos.permission.SET_BACKGROUND_TASK_STATE''"
abbreviation (input) GET_BACKGROUND_TASK_INFO_PERMISSION :: string where
  "GET_BACKGROUND_TASK_INFO_PERMISSION \<equiv> ''ohos.permission.GET_BACKGROUND_TASK_INFO''"

definition CheckCallingToken :: "senv \<Rightarrow> bool" where
  "CheckCallingToken e \<longleftrightarrow> se_tokenType e = TOKEN_NATIVE \<or> se_tokenType e = TOKEN_SHELL"

text \<open>The result and \<^verbatim>\<open>isHap\<close>.\<close>

definition CheckHapCalling :: "senv \<Rightarrow> 32 word \<Rightarrow> bool \<times> bool" where
  "CheckHapCalling e flag =
     (if se_tokenType e = TOKEN_HAP
      then (flag = SUBSCRIBER_BACKGROUND_TASK_STATE \<or> ce_checkPermission (se_continuous e) BGMODE_PERMISSION, True)
      else (False, False))"

definition CheckCallingProcess :: "senv \<Rightarrow> bool" where
  "CheckCallingProcess e \<longleftrightarrow> se_callingUid e = RESOURCE_SCHEDULE_SERVICE_UID"

definition CheckAtomicService :: "senv \<Rightarrow> bool" where
  "CheckAtomicService e \<longleftrightarrow> se_atomicService e"

definition AllowDump :: "senv \<Rightarrow> bool" where
  "AllowDump e \<longleftrightarrow> se_engMode e \<noteq> 0 \<and> se_dumpPermission e"

text \<open>The checks that several requests begin with, in the order of the code.\<close>

definition rss_only :: "senv \<Rightarrow> bool" where
  "rss_only e \<longleftrightarrow> CheckCallingToken e \<and> CheckCallingProcess e"

definition atomic_modes_ok :: "senv \<Rightarrow> ContinuousTaskParam \<Rightarrow> bool" where
  "atomic_modes_ok e p \<longleftrightarrow>
     CheckAtomicService e \<longrightarrow>
       list_all (\<lambda>mode. mode = AUDIO_PLAYBACK \<or> mode = MULTI_DEVICE_CONNECTION \<or> mode = LOCATION) (cp_bgModeIds p)"

definition check_system_hap :: "senv \<Rightarrow> string \<Rightarrow> ErrCode" where
  "check_system_hap e permission =
     (if CheckAtomicService e then ERR_BGTASK_PERMISSION_DENIED
      else if se_tokenType e \<noteq> TOKEN_HAP then ERR_BGTASK_PERMISSION_DENIED
      else if \<not> ce_checkPermission (se_continuous e) permission then ERR_BGTASK_PERMISSION_DENIED
      else if \<not> ce_isSystemApp (se_continuous e) (ce_callingFullTokenId (se_continuous e)) then ERR_BGTASK_NOT_SYSTEM_APP
      else ERR_OK)"

section \<open>Transient tasks\<close>

definition sv_RequestSuspendDelay ::
    "senv \<Rightarrow> nat option option \<Rightarrow> BackgroundTaskMgrService \<Rightarrow>
     ErrCode \<times> DelaySuspendInfoEx option \<times> BackgroundTaskMgrService" where
  "sv_RequestSuspendDelay e callback s =
     (if CheckAtomicService e then (ERR_BGTASK_PERMISSION_DENIED, None, s)
      else let (ret, info, m) = RequestSuspendDelay (t_env e s) callback (sv_transient s)
           in (ret, (if ret = ERR_OK then info else None), s\<lparr>sv_transient := m\<rparr>))"

definition sv_CancelSuspendDelay :: "senv \<Rightarrow> int \<Rightarrow> BackgroundTaskMgrService \<Rightarrow> ErrCode \<times> BackgroundTaskMgrService" where
  "sv_CancelSuspendDelay e requestId s =
     (let (ret, m) = CancelSuspendDelay (t_env e s) requestId (sv_transient s) in (ret, s\<lparr>sv_transient := m\<rparr>))"

definition sv_GetRemainingDelayTime :: "senv \<Rightarrow> int \<Rightarrow> BackgroundTaskMgrService \<Rightarrow> ErrCode \<times> int option" where
  "sv_GetRemainingDelayTime e requestId s = tm_GetRemainingDelayTime (t_env e s) requestId (sv_transient s)"

definition sv_GetAllTransientTasks ::
    "senv \<Rightarrow> BackgroundTaskMgrService \<Rightarrow> ErrCode \<times> int option \<times> (int \<times> int) list \<times> BackgroundTaskMgrService" where
  "sv_GetAllTransientTasks e s =
     (let (ret, quota, list, m) = GetAllTransientTasks (t_env e s) (sv_transient s)
      in (ret, quota, list, s\<lparr>sv_transient := m\<rparr>))"

definition sv_ForceCancelSuspendDelay :: "senv \<Rightarrow> int \<Rightarrow> BackgroundTaskMgrService \<Rightarrow> BackgroundTaskMgrService" where
  "sv_ForceCancelSuspendDelay e requestId s =
     s\<lparr>sv_transient := ForceCancelSuspendDelay (t_env e s) requestId (sv_transient s)\<rparr>"

definition sv_HandleRequestExpired :: "int \<Rightarrow> BackgroundTaskMgrService \<Rightarrow> BackgroundTaskMgrService" where
  "sv_HandleRequestExpired requestId s = s\<lparr>sv_transient := HandleRequestExpired requestId (sv_transient s)\<rparr>"

definition sv_HandleExpiredCallbackDeath :: "senv \<Rightarrow> nat option \<Rightarrow> BackgroundTaskMgrService \<Rightarrow> BackgroundTaskMgrService" where
  "sv_HandleExpiredCallbackDeath e remote s =
     s\<lparr>sv_transient := HandleExpiredCallbackDeath (t_env e s) remote (sv_transient s),
       sv_continuous := HandleAuthExpiredCallbackDeath (c_env e s) remote (sv_continuous s)\<rparr>"

definition sv_HandleSubscriberDeath :: "nat option \<Rightarrow> BackgroundTaskMgrService \<Rightarrow> BackgroundTaskMgrService" where
  "sv_HandleSubscriberDeath remote s = s\<lparr>sv_transient := tm_HandleSubscriberDeath remote (sv_transient s)\<rparr>"

definition sv_GetTransientTaskApps :: "senv \<Rightarrow> BackgroundTaskMgrService \<Rightarrow> ErrCode \<times> TransientTaskAppInfo list" where
  "sv_GetTransientTaskApps e s =
     (if \<not> CheckCallingToken e then (ERR_BGTASK_PERMISSION_DENIED, []) else GetTransientTaskApps [] (sv_transient s))"

definition sv_PauseTransientTaskTimeForInner ::
    "senv \<Rightarrow> int \<Rightarrow> BackgroundTaskMgrService \<Rightarrow> ErrCode \<times> BackgroundTaskMgrService" where
  "sv_PauseTransientTaskTimeForInner e uid s =
     (let (ret, m) = tm_PauseTransientTaskTimeForInner (t_env e s) uid (sv_transient s) in (ret, s\<lparr>sv_transient := m\<rparr>))"

definition sv_StartTransientTaskTimeForInner ::
    "senv \<Rightarrow> int \<Rightarrow> BackgroundTaskMgrService \<Rightarrow> ErrCode \<times> BackgroundTaskMgrService" where
  "sv_StartTransientTaskTimeForInner e uid s =
     (let (ret, m) = tm_StartTransientTaskTimeForInner (t_env e s) uid (sv_transient s) in (ret, s\<lparr>sv_transient := m\<rparr>))"

definition sv_SetBgTaskConfig ::
    "senv \<Rightarrow> string \<Rightarrow> int \<Rightarrow> BackgroundTaskMgrService \<Rightarrow> json_exn + (ErrCode \<times> BackgroundTaskMgrService)" where
  "sv_SetBgTaskConfig e configData sourceType s =
     (if \<not> CheckCallingToken e then Inr (ERR_BGTASK_PERMISSION_DENIED, s)
      else case SetBgTaskConfig (se_parse e) (t_env e s) configData sourceType (sv_transient s) of
             Inl x \<Rightarrow> Inl x
           | Inr (ret, c) \<Rightarrow> Inr (ret, s\<lparr>sv_config := c\<rparr>))"

section \<open>Continuous tasks\<close>

text \<open>The ids are given back only when the request succeeds.\<close>

definition sv_StartBackgroundRunning ::
    "senv \<Rightarrow> ContinuousTaskParam \<Rightarrow> BackgroundTaskMgrService \<Rightarrow> ErrCode \<times> (int \<times> int) option \<times> BackgroundTaskMgrService" where
  "sv_StartBackgroundRunning e p s =
     (if \<not> atomic_modes_ok e p then (ERR_BGTASK_PERMISSION_DENIED, None, s)
      else let (ret, ids, m) = StartBackgroundRunning (c_env e s) (Some p) (sv_continuous s)
           in (ret, (if ret = ERR_OK then ids else None), s\<lparr>sv_continuous := m\<rparr>))"

definition sv_UpdateBackgroundRunning ::
    "senv \<Rightarrow> ContinuousTaskParam \<Rightarrow> BackgroundTaskMgrService \<Rightarrow> ErrCode \<times> (int \<times> int) option \<times> BackgroundTaskMgrService" where
  "sv_UpdateBackgroundRunning e p s =
     (if \<not> atomic_modes_ok e p then (ERR_BGTASK_PERMISSION_DENIED, None, s)
      else let (ret, ids, m) = UpdateBackgroundRunning (c_env e s) p (sv_continuous s)
           in (ret, (if ret = ERR_OK then ids else None), s\<lparr>sv_continuous := m\<rparr>))"

definition sv_RequestBackgroundRunningForInner ::
    "senv \<Rightarrow> ContinuousTaskParamForInner \<Rightarrow> BackgroundTaskMgrService \<Rightarrow> ErrCode \<times> BackgroundTaskMgrService" where
  "sv_RequestBackgroundRunningForInner e p s =
     (let (ret, m) = RequestBackgroundRunningForInner (c_env e s) (Some p) (sv_continuous s)
      in (ret, s\<lparr>sv_continuous := m\<rparr>))"

definition sv_RequestGetContinuousTasksByUidForInner ::
    "senv \<Rightarrow> int \<Rightarrow> BackgroundTaskMgrService \<Rightarrow> ErrCode \<times> ContinuousTaskInfo list" where
  "sv_RequestGetContinuousTasksByUidForInner e uid s =
     (if \<not> CheckCallingToken e \<and> uid \<noteq> se_callingUid e then (ERR_BGTASK_PERMISSION_DENIED, [])
      else RequestGetContinuousTasksByUidForInner uid (sv_continuous s))"

definition sv_StopBackgroundRunning ::
    "senv \<Rightarrow> string \<Rightarrow> int \<Rightarrow> int \<Rightarrow> BackgroundTaskMgrService \<Rightarrow> ErrCode \<times> BackgroundTaskMgrService" where
  "sv_StopBackgroundRunning e abilityName abilityId continuousTaskId s =
     (let (ret, m) = StopBackgroundRunning (c_env e s) abilityName abilityId continuousTaskId (sv_continuous s)
      in (ret, s\<lparr>sv_continuous := m\<rparr>))"

definition sv_GetAllContinuousTasks ::
    "senv \<Rightarrow> bool option \<Rightarrow> BackgroundTaskMgrService \<Rightarrow> ErrCode \<times> ContinuousTaskInfo list" where
  "sv_GetAllContinuousTasks e includeSuspended s = GetAllContinuousTasks (c_env e s) includeSuspended (sv_continuous s)"

definition sv_UpdateDataTransferProgress ::
    "senv \<Rightarrow> DataTransferProgress \<Rightarrow> BackgroundTaskMgrService \<Rightarrow> ErrCode \<times> BackgroundTaskMgrService" where
  "sv_UpdateDataTransferProgress e d s =
     (if CheckAtomicService e then (ERR_BGTASK_PERMISSION_DENIED, s)
      else let (ret, m) = UpdateDataTransferProgress (c_env e s) d (sv_continuous s) in (ret, s\<lparr>sv_continuous := m\<rparr>))"

text \<open>A caller that is neither a service nor the shell gets the tasks of its own app.\<close>

definition sv_GetContinuousTaskApps :: "senv \<Rightarrow> BackgroundTaskMgrService \<Rightarrow> ErrCode \<times> ContinuousTaskCallbackInfo list" where
  "sv_GetContinuousTaskApps e s =
     GetContinuousTaskApps (if CheckCallingToken e then -1 else se_callingUid e) (sv_continuous s)"

definition sv_StopContinuousTask ::
    "senv \<Rightarrow> int \<Rightarrow> int \<Rightarrow> bgmode \<Rightarrow> string \<Rightarrow> BackgroundTaskMgrService \<Rightarrow> ErrCode \<times> BackgroundTaskMgrService" where
  "sv_StopContinuousTask e uid pid taskType key s =
     (if \<not> rss_only e then (ERR_BGTASK_PERMISSION_DENIED, s)
      else (ERR_OK, s\<lparr>sv_continuous := StopContinuousTask uid pid taskType key (sv_continuous s)\<rparr>))"

definition sv_SuspendContinuousTask ::
    "senv \<Rightarrow> int \<Rightarrow> int \<Rightarrow> int \<Rightarrow> string \<Rightarrow> bool \<Rightarrow> BackgroundTaskMgrService \<Rightarrow> ErrCode \<times> BackgroundTaskMgrService" where
  "sv_SuspendContinuousTask e uid pid reason key isStandby s =
     (if \<not> rss_only e then (ERR_BGTASK_PERMISSION_DENIED, s)
      else (ERR_OK, s\<lparr>sv_continuous := SuspendContinuousTask uid pid reason key isStandby (sv_continuous s)\<rparr>))"

definition sv_ActiveContinuousTask ::
    "senv \<Rightarrow> int \<Rightarrow> int \<Rightarrow> string \<Rightarrow> bool \<Rightarrow> BackgroundTaskMgrService \<Rightarrow> ErrCode \<times> BackgroundTaskMgrService" where
  "sv_ActiveContinuousTask e uid pid key isStandby s =
     (if \<not> rss_only e then (ERR_BGTASK_PERMISSION_DENIED, s)
      else (ERR_OK, s\<lparr>sv_continuous := ActiveContinuousTask uid pid key isStandby (sv_continuous s)\<rparr>))"

definition sv_AVSessionNotifyUpdateNotification ::
    "senv \<Rightarrow> int \<Rightarrow> int \<Rightarrow> bool \<Rightarrow> BackgroundTaskMgrService \<Rightarrow> ErrCode \<times> BackgroundTaskMgrService" where
  "sv_AVSessionNotifyUpdateNotification e uid pid isPublish s =
     (if \<not> CheckCallingToken e then (ERR_BGTASK_PERMISSION_DENIED, s)
      else let (ret, m) = AVSessionNotifyUpdateNotification (c_env e s) uid pid isPublish (sv_continuous s)
           in (ret, s\<lparr>sv_continuous := m\<rparr>))"

definition sv_SuspendContinuousAudioTask ::
    "senv \<Rightarrow> int \<Rightarrow> BackgroundTaskMgrService \<Rightarrow> ErrCode \<times> BackgroundTaskMgrService" where
  "sv_SuspendContinuousAudioTask e uid s =
     (if \<not> rss_only e then (ERR_BGTASK_PERMISSION_DENIED, s)
      else (ERR_OK, s\<lparr>sv_continuous := SuspendContinuousAudioTask uid (sv_continuous s)\<rparr>))"

definition sv_IsModeSupported :: "senv \<Rightarrow> ContinuousTaskParam \<Rightarrow> BackgroundTaskMgrService \<Rightarrow> ErrCode" where
  "sv_IsModeSupported e p s =
     (if CheckAtomicService e then ERR_BGTASK_PERMISSION_DENIED else IsModeSupported (c_env e s) p (sv_continuous s))"

definition sv_EnableContinuousTaskRequest ::
    "senv \<Rightarrow> int \<Rightarrow> bool \<Rightarrow> BackgroundTaskMgrService \<Rightarrow> ErrCode \<times> BackgroundTaskMgrService" where
  "sv_EnableContinuousTaskRequest e uid isEnable s =
     (if \<not> rss_only e then (ERR_BGTASK_PERMISSION_DENIED, s)
      else let (ret, m) = EnableContinuousTaskRequest uid isEnable (sv_continuous s) in (ret, s\<lparr>sv_continuous := m\<rparr>))"

definition sv_GetAllContinuousTasksBySystem ::
    "senv \<Rightarrow> BackgroundTaskMgrService \<Rightarrow> ErrCode \<times> ContinuousTaskInfo list" where
  "sv_GetAllContinuousTasksBySystem e s =
     (let ret = check_system_hap e GET_BACKGROUND_TASK_INFO_PERMISSION
      in if ret \<noteq> ERR_OK then (ret, []) else GetAllContinuousTasksBySystem (sv_continuous s))"

definition sv_GetAllContinuousTaskApps ::
    "senv \<Rightarrow> BackgroundTaskMgrService \<Rightarrow> ErrCode \<times> ContinuousTaskCallbackInfo list" where
  "sv_GetAllContinuousTaskApps e s =
     (if \<not> rss_only e then (ERR_BGTASK_PERMISSION_DENIED, []) else GetAllContinuousTaskApps (sv_continuous s))"

definition sv_SendNotificationByDeteTask ::
    "senv \<Rightarrow> string list \<Rightarrow> BackgroundTaskMgrService \<Rightarrow> ErrCode \<times> BackgroundTaskMgrService" where
  "sv_SendNotificationByDeteTask e taskKeys s =
     (if \<not> rss_only e then (ERR_BGTASK_PERMISSION_DENIED, s)
      else let (ret, m) = SendNotificationByDeteTask (c_env e s) taskKeys (sv_continuous s) in (ret, s\<lparr>sv_continuous := m\<rparr>))"

end
