(* ===== verification/ServiceRequests.thy ===== *)
theory ServiceRequests
  imports BackgroundTaskMgrService
begin

text \<open>
  The requests of \<^verbatim>\<open>background_task_mgr_service.cpp\<close> that concern more than one manager or the
  configuration (subscription, authorization, efficiency resources, dump), and the interface of the
  service as one function from a request of \<^verbatim>\<open>IBackgroundTaskMgr.idl\<close>.
\<close>

section \<open>Authorization\<close>

text \<open>An app that is not an atomic service, with a version of the interface that the request has.\<close>

definition check_auth_caller :: "senv \<Rightarrow> int \<Rightarrow> ErrCode" where
  "check_auth_caller e apiVersion =
     (if CheckAtomicService e then ERR_BGTASK_PERMISSION_DENIED
      else if se_tokenType e \<noteq> TOKEN_HAP then ERR_BGTASK_PERMISSION_DENIED
      else if apiVersion \<noteq> API_VERSION_22 \<and> apiVersion \<noteq> API_VERSION_26 then ERR_BGTASK_CONTINUOUS_API_VERSION_FAIL
      else ERR_OK)"

definition sv_RequestAuthFromUser ::
    "senv \<Rightarrow> ContinuousTaskParam \<Rightarrow> nat option \<Rightarrow> BackgroundTaskMgrService \<Rightarrow>
     ErrCode \<times> int option \<times> BackgroundTaskMgrService" where
  "sv_RequestAuthFromUser e p callback s =
     (let ret = check_auth_caller e (cp_requestAuthApiVersion p)
      in if ret \<noteq> ERR_OK then (ret, None, s)
         else let (ret1, nid, m) = RequestAuthFromUser (c_env e s) (Some p) callback (sv_continuous s)
              in (ret1, nid, s\<lparr>sv_continuous := m\<rparr>))"

definition sv_CheckSpecialScenarioAuth ::
    "senv \<Rightarrow> int \<Rightarrow> int \<Rightarrow> BackgroundTaskMgrService \<Rightarrow> ErrCode \<times> int option" where
  "sv_CheckSpecialScenarioAuth e appIndex apiVersion s =
     (let ret = check_auth_caller e apiVersion
      in if ret \<noteq> ERR_OK then (ret, None)
         else CheckSpecialScenarioAuth (c_env e s) appIndex apiVersion (sv_continuous s))"

definition sv_CheckTaskAuthResult :: "senv \<Rightarrow> string \<Rightarrow> int \<Rightarrow> int \<Rightarrow> BackgroundTaskMgrService \<Rightarrow> ErrCode" where
  "sv_CheckTaskAuthResult e bundleName userId appIndex s =
     (if \<not> rss_only e then ERR_BGTASK_PERMISSION_DENIED
      else CheckTaskAuthResult bundleName userId appIndex (sv_continuous s))"

definition sv_SetBackgroundTaskState ::
    "senv \<Rightarrow> BackgroundTaskStateInfo \<Rightarrow> BackgroundTaskMgrService \<Rightarrow> ErrCode \<times> BackgroundTaskMgrService" where
  "sv_SetBackgroundTaskState e i s =
     (let ret = check_system_hap e SET_BACKGROUND_TASK_STATE_PERMISSION
      in if ret \<noteq> ERR_OK then (ret, s)
         else let (ret1, m) = SetBackgroundTaskState (c_env e s) (Some i) (sv_continuous s)
              in (ret1, s\<lparr>sv_continuous := m\<rparr>))"

definition sv_GetBackgroundTaskState ::
    "senv \<Rightarrow> BackgroundTaskStateInfo \<Rightarrow> BackgroundTaskMgrService \<Rightarrow> ErrCode \<times> int option" where
  "sv_GetBackgroundTaskState e i s =
     (let ret = check_system_hap e SET_BACKGROUND_TASK_STATE_PERMISSION
      in if ret \<noteq> ERR_OK then (ret, None) else GetBackgroundTaskState (c_env e s) (Some i) (sv_continuous s))"

definition sv_RemoveAuthRecord ::
    "senv \<Rightarrow> ContinuousTaskParam \<Rightarrow> BackgroundTaskMgrService \<Rightarrow> ErrCode \<times> BackgroundTaskMgrService" where
  "sv_RemoveAuthRecord e p s =
     (if se_tokenType e \<noteq> TOKEN_HAP then (ERR_BGTASK_PERMISSION_DENIED, s)
      else let (ret, m) = RemoveAuthRecord (c_env e s) (Some p) (sv_continuous s) in (ret, s\<lparr>sv_continuous := m\<rparr>))"

section \<open>Configuration\<close>

definition sv_SetSupportedTaskKeepingProcesses ::
    "senv \<Rightarrow> string set \<Rightarrow> BackgroundTaskMgrService \<Rightarrow> ErrCode \<times> BackgroundTaskMgrService" where
  "sv_SetSupportedTaskKeepingProcesses e processSet s =
     (if \<not> rss_only e then (ERR_BGTASK_PERMISSION_DENIED, s)
      else (ERR_OK, s\<lparr>sv_config := SetSupportedTaskKeepingProcesses processSet (sv_config s)\<rparr>))"

definition sv_SetMaliciousAppConfig ::
    "senv \<Rightarrow> string set \<Rightarrow> BackgroundTaskMgrService \<Rightarrow> ErrCode \<times> BackgroundTaskMgrService" where
  "sv_SetMaliciousAppConfig e maliciousAppSet s =
     (if \<not> rss_only e then (ERR_BGTASK_PERMISSION_DENIED, s)
      else (ERR_OK, s\<lparr>sv_config := SetMaliciousAppConfig maliciousAppSet (sv_config s)\<rparr>))"

definition sv_SetSpecialExemptedProcess ::
    "senv \<Rightarrow> string set \<Rightarrow> BackgroundTaskMgrService \<Rightarrow> ErrCode \<times> BackgroundTaskMgrService" where
  "sv_SetSpecialExemptedProcess e bundleNameSet s =
     (if \<not> rss_only e then (ERR_BGTASK_PERMISSION_DENIED, s)
      else (ERR_OK, s\<lparr>sv_config := SetSpecialExemptedProcess bundleNameSet (sv_config s)\<rparr>))"

section \<open>Efficiency resources\<close>

definition sv_ApplyEfficiencyResources ::
    "senv \<Rightarrow> EfficiencyResourceInfo \<Rightarrow> BackgroundTaskMgrService \<Rightarrow> ErrCode \<times> BackgroundTaskMgrService" where
  "sv_ApplyEfficiencyResources e info s =
     (let (ret, m) = ApplyEfficiencyResources (r_env e s) (Some info) (sv_efficiency s) in (ret, s\<lparr>sv_efficiency := m\<rparr>))"

definition sv_ResetAllEfficiencyResources ::
    "senv \<Rightarrow> BackgroundTaskMgrService \<Rightarrow> ErrCode \<times> BackgroundTaskMgrService" where
  "sv_ResetAllEfficiencyResources e s =
     (let (ret, m) = ResetAllEfficiencyResources (r_env e s) (sv_efficiency s) in (ret, s\<lparr>sv_efficiency := m\<rparr>))"

definition sv_GetAllEfficiencyResources ::
    "senv \<Rightarrow> BackgroundTaskMgrService \<Rightarrow> ErrCode \<times> EfficiencyResourceInfo list" where
  "sv_GetAllEfficiencyResources e s =
     (let (ret, list) = GetAllEfficiencyResources (r_env e s) (sv_efficiency s)
      in (ret, if ret = ERR_OK then list else []))"

definition sv_GetEfficiencyResourcesInfos ::
    "senv \<Rightarrow> BackgroundTaskMgrService \<Rightarrow> ErrCode \<times> ResourceCallbackInfo list \<times> ResourceCallbackInfo list" where
  "sv_GetEfficiencyResourcesInfos e s =
     (if \<not> CheckCallingToken e then (ERR_BGTASK_PERMISSION_DENIED, [], [])
      else GetEfficiencyResourcesInfos (sv_efficiency s))"

section \<open>Subscription\<close>

text \<open>The caller checks of subscribing and unsubscribing: the error, or whether the caller is an app.\<close>

definition check_subscriber :: "senv \<Rightarrow> 32 word \<Rightarrow> ErrCode + bool" where
  "check_subscriber e flag =
     (let (allowed, hap) = CheckHapCalling e flag;
          isHap = (\<not> CheckCallingToken e \<and> hap)
      in if \<not> CheckCallingToken e \<and> \<not> allowed then Inl ERR_BGTASK_PERMISSION_DENIED
         else if isHap \<and> flag = SUBSCRIBER_BACKGROUND_TASK_STATE
         then (if CheckAtomicService e then Inl ERR_BGTASK_PERMISSION_DENIED
               else if \<not> ce_isSystemApp (se_continuous e) (ce_callingFullTokenId (se_continuous e))
               then Inl ERR_BGTASK_NOT_SYSTEM_APP
               else if \<not> ce_checkPermission (se_continuous e) GET_BACKGROUND_TASK_INFO_PERMISSION
               then Inl ERR_BGTASK_PERMISSION_DENIED
               else Inr isHap)
         else Inr isHap)"

definition subscriber_info :: "senv \<Rightarrow> nat option option \<Rightarrow> bool \<Rightarrow> 32 word \<Rightarrow> SubscriberInfo option" where
  "subscriber_info e subscriber isHap flag =
     (case subscriber of
        Some (Some remote) \<Rightarrow> Some \<lparr>si_subscriber = remote, si_uid = se_callingUid e, si_pid = se_callingPid e,
                                   si_isHap = isHap, si_flag = flag\<rparr>
      | _ \<Rightarrow> None)"

text \<open>What has been done is not undone when a later manager refuses.\<close>

definition sv_SubscribeBackgroundTask ::
    "senv \<Rightarrow> nat option option \<Rightarrow> 32 word \<Rightarrow> BackgroundTaskMgrService \<Rightarrow> ErrCode \<times> BackgroundTaskMgrService" where
  "sv_SubscribeBackgroundTask e subscriber flag s =
     (case check_subscriber e flag of
        Inl err \<Rightarrow> (err, s)
      | Inr isHap \<Rightarrow>
          let (ret, mc) = AddSubscriber (subscriber_info e subscriber isHap flag) (sv_continuous s);
              s1 = s\<lparr>sv_continuous := mc\<rparr>
          in if ret \<noteq> ERR_OK then (ERR_BGTASK_SYS_NOT_READY, s1)
             else if isHap then (ERR_OK, s1)
             else
               let (ret1, mt) = tm_SubscribeBackgroundTask subscriber (sv_transient s1);
                   s2 = s1\<lparr>sv_transient := mt\<rparr>
               in if ret1 \<noteq> ERR_OK then (ERR_BGTASK_SYS_NOT_READY, s2)
                  else let (ret2, me) = er_AddSubscriber subscriber (sv_efficiency s2);
                           s3 = s2\<lparr>sv_efficiency := me\<rparr>
                       in (if ret2 \<noteq> ERR_OK then ERR_BGTASK_SYS_NOT_READY else ERR_OK, s3))"

definition sv_UnsubscribeBackgroundTask ::
    "senv \<Rightarrow> nat option option \<Rightarrow> 32 word \<Rightarrow> BackgroundTaskMgrService \<Rightarrow> ErrCode \<times> BackgroundTaskMgrService" where
  "sv_UnsubscribeBackgroundTask e subscriber flag s =
     (case check_subscriber e flag of
        Inl err \<Rightarrow> (err, s)
      | Inr isHap \<Rightarrow>
          let (ret, mc) = RemoveSubscriber subscriber flag (sv_continuous s);
              s1 = s\<lparr>sv_continuous := mc\<rparr>
          in if ret \<noteq> ERR_OK then (ERR_BGTASK_SYS_NOT_READY, s1)
             else if isHap then (ERR_OK, s1)
             else
               let (ret1, mt) = tm_UnsubscribeBackgroundTask subscriber (sv_transient s1);
                   s2 = s1\<lparr>sv_transient := mt\<rparr>
               in if ret1 \<noteq> ERR_OK then (ERR_BGTASK_SYS_NOT_READY, s2)
                  else let (ret2, me) = er_RemoveSubscriber subscriber (sv_efficiency s2);
                           s3 = s2\<lparr>sv_efficiency := me\<rparr>
                       in (if ret2 \<noteq> ERR_OK then ERR_BGTASK_SYS_NOT_READY else ERR_OK, s3))"

section \<open>Dump\<close>

definition DumpUsage :: string where
  "DumpUsage = concat (map (\<lambda>l. l @ ''\<newline>'')
     [''usage: bgtask dump [<options>]'',
      ''options list:'',
      ''    -h                                   help menu'',
      ''    -T                                   transient task commands:'',
      ''        BATTARY_LOW                          battary low mode'',
      ''        BATTARY_OKAY                         battary okay mode'',
      ''        DUMP_CANCEL                          cancel dump mode'',
      ''        All                                  list all request'',
      ''    -C                                   continuous task commands:'',
      ''        --all                                list all running continuous task infos'',
      ''        --cancel_all                         cancel all running continuous task'',
      ''        --cancel {continuous task key}       cancel one task by specifying task key'',
      ''    -E                                   efficiency resources commands;'',
      ''        --all                                list all efficiency resource aplications'',
      ''        --reset_all                          reset all efficiency resource aplications'',
      ''        --resetapp {uid} {resources}          reset one application of uid by specifying '',
      ''        --resetproc {pid} {resources}         reset one application of pid by specifying ''])"

text \<open>The text is written to a file descriptor, which may fail after the command has run.\<close>

definition sv_Dump ::
    "senv \<Rightarrow> string list \<Rightarrow> BackgroundTaskMgrService \<Rightarrow> ErrCode \<times> string \<times> BackgroundTaskMgrService" where
  "sv_Dump e args s =
     (if \<not> AllowDump e then (ERR_BGTASK_PERMISSION_DENIED, '''', s)
      else
        let (ret, result, s1) =
              (case args of
                 [] \<Rightarrow> (ERR_OK, DumpUsage, s)
               | cmd # _ \<Rightarrow>
                   if cmd = ''-h'' then (ERR_OK, DumpUsage, s)
                   else if cmd = ''-T''
                   then let (r, infos, m) = tm_ShellDump (t_env e s) (se_eventPublished e) args [] (sv_transient s)
                        in (r, concat infos, s\<lparr>sv_transient := m\<rparr>)
                   else if cmd = ''-C''
                   then let (r, infos, m) = cm_ShellDump (c_env e s) args (sv_continuous s)
                        in (r, concat infos, s\<lparr>sv_continuous := m\<rparr>)
                   else if cmd = ''-E''
                   then let (r, infos, m) = er_ShellDump (r_env e s) args (sv_efficiency s)
                        in (r, concat infos, s\<lparr>sv_efficiency := m\<rparr>)
                   else (ERR_BGTASK_INVALID_PARAM, ''Error params.\<newline>'', s))
        in (if se_dumpSaved e then ret else ERR_BGTASK_METHOD_CALLED_FAILED, result, s1))"

section \<open>The interface\<close>

text \<open>
  The requests of \<^verbatim>\<open>IBackgroundTaskMgr.idl\<close>, in its order, and \<^verbatim>\<open>Dump\<close>. A remote object is a number;
  the two layers of \<open>option\<close> are a null interface and an interface with a null object.
\<close>

datatype ipc =
    ReqSuspendDelay "nat option option" | ReqCancelSuspendDelay int | ReqRemainingDelayTime int
  | ReqAllTransientTasks | ReqStartRunning ContinuousTaskParam | ReqUpdateRunning ContinuousTaskParam
  | ReqStopRunning string int int | ReqAllContinuousTasks "bool option"
  | ReqSubscribe "nat option option" "32 word" | ReqUnsubscribe "nat option option" "32 word"
  | ReqTransientTaskApps | ReqContinuousTaskApps | ReqApplyResources EfficiencyResourceInfo | ReqResetAllResources
  | ReqAllResources | ReqResourcesInfos | ReqStopTask int int bgmode string
  | ReqSuspendTask int int int string bool | ReqActiveTask int int string bool
  | ReqRunningForInner ContinuousTaskParamForInner | ReqTasksByUidForInner int
  | ReqPauseForInner int | ReqStartForInner int | ReqAVSession int int bool | ReqSetConfig string int
  | ReqSuspendAudio int | ReqModeSupported ContinuousTaskParam | ReqSetTaskKeeping "string set"
  | ReqSetMalicious "string set" | ReqAuthFromUser ContinuousTaskParam "nat option"
  | ReqCheckAuth int int | ReqCheckAuthResult string int int | ReqEnableRequest int bool
  | ReqSetTaskState BackgroundTaskStateInfo | ReqGetTaskState BackgroundTaskStateInfo
  | ReqAllTasksBySystem | ReqSetSpecialExempted "string set" | ReqAllTaskApps | ReqSendByDete "string list"
  | ReqRemoveAuth ContinuousTaskParam | ReqUpdateProgress DataTransferProgress | ReqDump "string list"

text \<open>The error code and the state after a request; what it gives back otherwise is left out here.\<close>

definition dropped :: "'a \<times> 'b \<times> 'c \<Rightarrow> 'a \<times> 'c" where
  "dropped = (\<lambda>(a, _, c). (a, c))"

fun sv_handle :: "senv \<Rightarrow> ipc \<Rightarrow> BackgroundTaskMgrService \<Rightarrow> json_exn + (ErrCode \<times> BackgroundTaskMgrService)" where
  "sv_handle e (ReqSuspendDelay cb) s = Inr (dropped (sv_RequestSuspendDelay e cb s))"
| "sv_handle e (ReqCancelSuspendDelay i) s = Inr (sv_CancelSuspendDelay e i s)"
| "sv_handle e (ReqRemainingDelayTime i) s = Inr (fst (sv_GetRemainingDelayTime e i s), s)"
| "sv_handle e ReqAllTransientTasks s = Inr (dropped (dropped (sv_GetAllTransientTasks e s)))"
| "sv_handle e (ReqStartRunning p) s = Inr (dropped (sv_StartBackgroundRunning e p s))"
| "sv_handle e (ReqUpdateRunning p) s = Inr (dropped (sv_UpdateBackgroundRunning e p s))"
| "sv_handle e (ReqStopRunning a i t) s = Inr (sv_StopBackgroundRunning e a i t s)"
| "sv_handle e (ReqAllContinuousTasks b) s = Inr (fst (sv_GetAllContinuousTasks e b s), s)"
| "sv_handle e (ReqSubscribe sub flag) s = Inr (sv_SubscribeBackgroundTask e sub flag s)"
| "sv_handle e (ReqUnsubscribe sub flag) s = Inr (sv_UnsubscribeBackgroundTask e sub flag s)"
| "sv_handle e ReqTransientTaskApps s = Inr (fst (sv_GetTransientTaskApps e s), s)"
| "sv_handle e ReqContinuousTaskApps s = Inr (fst (sv_GetContinuousTaskApps e s), s)"
| "sv_handle e (ReqApplyResources i) s = Inr (sv_ApplyEfficiencyResources e i s)"
| "sv_handle e ReqResetAllResources s = Inr (sv_ResetAllEfficiencyResources e s)"
| "sv_handle e ReqAllResources s = Inr (fst (sv_GetAllEfficiencyResources e s), s)"
| "sv_handle e ReqResourcesInfos s = Inr (fst (sv_GetEfficiencyResourcesInfos e s), s)"
| "sv_handle e (ReqStopTask uid pid ty key) s = Inr (sv_StopContinuousTask e uid pid ty key s)"
| "sv_handle e (ReqSuspendTask uid pid r key st) s = Inr (sv_SuspendContinuousTask e uid pid r key st s)"
| "sv_handle e (ReqActiveTask uid pid key st) s = Inr (sv_ActiveContinuousTask e uid pid key st s)"
| "sv_handle e (ReqRunningForInner p) s = Inr (sv_RequestBackgroundRunningForInner e p s)"
| "sv_handle e (ReqTasksByUidForInner uid) s = Inr (fst (sv_RequestGetContinuousTasksByUidForInner e uid s), s)"
| "sv_handle e (ReqPauseForInner uid) s = Inr (sv_PauseTransientTaskTimeForInner e uid s)"
| "sv_handle e (ReqStartForInner uid) s = Inr (sv_StartTransientTaskTimeForInner e uid s)"
| "sv_handle e (ReqAVSession uid pid pub) s = Inr (sv_AVSessionNotifyUpdateNotification e uid pid pub s)"
| "sv_handle e (ReqSetConfig d ty) s = sv_SetBgTaskConfig e d ty s"
| "sv_handle e (ReqSuspendAudio uid) s = Inr (sv_SuspendContinuousAudioTask e uid s)"
| "sv_handle e (ReqModeSupported p) s = Inr (sv_IsModeSupported e p s, s)"
| "sv_handle e (ReqSetTaskKeeping ps) s = Inr (sv_SetSupportedTaskKeepingProcesses e ps s)"
| "sv_handle e (ReqSetMalicious as) s = Inr (sv_SetMaliciousAppConfig e as s)"
| "sv_handle e (ReqAuthFromUser p cb) s = Inr (dropped (sv_RequestAuthFromUser e p cb s))"
| "sv_handle e (ReqCheckAuth i v) s = Inr (fst (sv_CheckSpecialScenarioAuth e i v s), s)"
| "sv_handle e (ReqCheckAuthResult b u i) s = Inr (sv_CheckTaskAuthResult e b u i s, s)"
| "sv_handle e (ReqEnableRequest uid b) s = Inr (sv_EnableContinuousTaskRequest e uid b s)"
| "sv_handle e (ReqSetTaskState i) s = Inr (sv_SetBackgroundTaskState e i s)"
| "sv_handle e (ReqGetTaskState i) s = Inr (fst (sv_GetBackgroundTaskState e i s), s)"
| "sv_handle e ReqAllTasksBySystem s = Inr (fst (sv_GetAllContinuousTasksBySystem e s), s)"
| "sv_handle e (ReqSetSpecialExempted bs) s = Inr (sv_SetSpecialExemptedProcess e bs s)"
| "sv_handle e ReqAllTaskApps s = Inr (fst (sv_GetAllContinuousTaskApps e s), s)"
| "sv_handle e (ReqSendByDete ks) s = Inr (sv_SendNotificationByDeteTask e ks s)"
| "sv_handle e (ReqRemoveAuth p) s = Inr (sv_RemoveAuthRecord e p s)"
| "sv_handle e (ReqUpdateProgress d) s = Inr (sv_UpdateDataTransferProgress e d s)"
| "sv_handle e (ReqDump args) s = Inr (dropped (sv_Dump e args s))"

end
