(* ===== verification/Observers.thy ===== *)
theory Observers
  imports ServiceRequests
begin

text \<open>
  What tells the managers of the rest of the system: the plugin of the resource scheduler with its
  adapters (\<^verbatim>\<open>services/plugin/src\<close>), the observer of app states, the observers of common events, of the
  authorization dialog and of the buttons of banner notifications (\<^verbatim>\<open>services/common/src\<close>), and the
  observer that reports tasks back to the resource scheduler (\<^verbatim>\<open>background_task_observer.cpp\<close>).
\<close>

section \<open>Environment\<close>

text \<open>
  The resource scheduler, the app manager and the event service belong to other repositories. Their
  enumerations are known by classifications of the numbers and strings that arrive, and the functions
  that read a member of a payload (\<^verbatim>\<open>ResCommonUtil\<close>) are arguments: an integer, a string, and a number
  that is printed as a string.
\<close>

datatype app_state = AppForeground | AppBackground | AppCached | AppOther

datatype event_kind = UserChanged | BundleResourcesChanged | PackageEvent package_event

record oenv =
  oe_parseInt :: "string \<Rightarrow> json \<Rightarrow> int option"
  oe_parseString :: "string \<Rightarrow> json \<Rightarrow> string option"
  oe_parseNumber :: "string \<Rightarrow> json \<Rightarrow> int option"
  oe_processState :: "int \<Rightarrow> AppProcessState"
  oe_appState :: "int \<Rightarrow> app_state"
  oe_abilityTerminated :: int
  oe_abilityCreate :: int
  oe_gamePrelaunch :: int
  oe_processDied :: int
  oe_processForeground :: int
  oe_processBackground :: int
  oe_processCreated :: int
  oe_addSystemAbility :: int
  oe_rendererRunning :: int
  oe_audioPolicyService :: int
  oe_suspendManager :: int
  oe_backgroundTaskManager :: int
  oe_eventKind :: "string \<Rightarrow> event_kind"
  oe_renderers :: "(int \<times> int \<times> int) list"

definition sv_post :: "observer_task \<Rightarrow> BackgroundTaskMgrService \<Rightarrow> BackgroundTaskMgrService" where
  "sv_post t s = s\<lparr>sv_posted := sv_posted s @ [t]\<rparr>"

section \<open>App states\<close>

record AppStateData =
  as_bundleName :: string
  as_uid :: int
  as_pid :: int
  as_state :: int
  as_preloadMode :: int

record ProcessData =
  pd_bundleName :: string
  pd_uid :: int
  pd_pid :: int
  pd_state :: int
  pd_preloadMode :: int

record AbilityStateData =
  ab_uid :: int
  ab_abilityName :: string
  ab_abilityRecordId :: int
  ab_abilityState :: int

definition ao_OnAppStateChanged :: "oenv \<Rightarrow> AppStateData \<Rightarrow> BackgroundTaskMgrService \<Rightarrow> BackgroundTaskMgrService" where
  "ao_OnAppStateChanged oe d s =
     (if oe_appState oe (as_state d) \<noteq> AppBackground \<and> oe_appState oe (as_state d) \<noteq> AppForeground then s
      else sv_post (PostAppStateChanged (as_uid d) (as_state d) (as_preloadMode d)) s)"

definition ao_OnAbilityStateChanged ::
    "oenv \<Rightarrow> AbilityStateData \<Rightarrow> BackgroundTaskMgrService \<Rightarrow> BackgroundTaskMgrService" where
  "ao_OnAbilityStateChanged oe d s =
     (if ab_abilityState d \<noteq> oe_abilityTerminated oe then s
      else sv_post (PostAbilityStateChanged (ab_uid d) (ab_abilityName d) (ab_abilityRecordId d)) s)"

definition ao_OnAppCacheStateChanged :: "oenv \<Rightarrow> AppStateData \<Rightarrow> BackgroundTaskMgrService \<Rightarrow> BackgroundTaskMgrService" where
  "ao_OnAppCacheStateChanged oe d s =
     (if oe_appState oe (as_state d) \<noteq> AppCached then s
      else sv_post (PostAppCacheStateChanged (as_uid d) (as_pid d) (as_bundleName d)) s)"

definition ao_OnProcessCreated :: "senv \<Rightarrow> oenv \<Rightarrow> ProcessData \<Rightarrow> BackgroundTaskMgrService \<Rightarrow> BackgroundTaskMgrService" where
  "ao_OnProcessCreated e oe d s =
     (if ce_gamePreLaunch (se_continuous e) \<and> pd_preloadMode d = oe_gamePrelaunch oe
      then s\<lparr>sv_continuous := AddGamePreLaunchApp (pd_uid d) (sv_continuous s)\<rparr> else s)"

definition OnProcessDiedEfficiencyRes :: "ProcessData \<Rightarrow> BackgroundTaskMgrService \<Rightarrow> BackgroundTaskMgrService" where
  "OnProcessDiedEfficiencyRes d s =
     s\<lparr>sv_efficiency := snd (RemoveProcessRecord (pd_uid d) (pd_pid d) (pd_bundleName d) (sv_efficiency s))\<rparr>"

definition ao_OnProcessDied :: "senv \<Rightarrow> ProcessData \<Rightarrow> BackgroundTaskMgrService \<Rightarrow> BackgroundTaskMgrService" where
  "ao_OnProcessDied e d s =
     (let s1 = OnProcessDiedEfficiencyRes d s
      in if ce_gamePreLaunch (se_continuous e) \<and> IsGamePreLaunchApp (pd_uid d) (sv_continuous s1)
         then s1\<lparr>sv_continuous := RemoveGamePreLaunchApp (pd_uid d) (sv_continuous s1)\<rparr> else s1)"

definition ValidateAppStateData :: "AppStateData \<Rightarrow> bool" where
  "ValidateAppStateData d \<longleftrightarrow> as_uid d > 0 \<and> as_bundleName d \<noteq> ''''"

text \<open>The resources of the app are reset at once, its continuous tasks by a posted task.\<close>

definition ao_OnAppStopped :: "AppStateData \<Rightarrow> BackgroundTaskMgrService \<Rightarrow> BackgroundTaskMgrService" where
  "ao_OnAppStopped d s =
     (if \<not> ValidateAppStateData d then s
      else let s1 = sv_post (PostAppStopped (as_uid d)) s
           in s1\<lparr>sv_efficiency := snd (RemoveAppRecord (as_uid d) (as_bundleName d) False (sv_efficiency s1))\<rparr>)"

section \<open>Common events\<close>

text \<open>An event: its action and code, the bundle of its want, and the parameters of the want.\<close>

record CommonEventData =
  ev_action :: string
  ev_code :: int
  ev_bundleName :: string
  ev_uid :: "int option"
  ev_userId :: "int option"
  ev_appIndex :: "int option"
  ev_int :: "string \<Rightarrow> int option"
  ev_string :: "string \<Rightarrow> string option"

definition or_invalid :: "int option \<Rightarrow> int" where
  "or_invalid x = (case x of None \<Rightarrow> -1 | Some v \<Rightarrow> v)"

definition OnReceiveEventContinuousTask :: "oenv \<Rightarrow> CommonEventData \<Rightarrow> BackgroundTaskMgrService \<Rightarrow> BackgroundTaskMgrService" where
  "OnReceiveEventContinuousTask oe ev s =
     (case oe_eventKind oe (ev_action ev) of
        UserChanged \<Rightarrow> sv_post (PostAccountsStateChanged (ev_code ev)) s
      | BundleResourcesChanged \<Rightarrow> sv_post PostBundleResourcesChanged s
      | PackageEvent _ \<Rightarrow>
          sv_post (PostBundleInfoChanged (ev_action ev) (ev_bundleName ev) (or_invalid (ev_uid ev))
                     (or_invalid (ev_userId ev)) (or_invalid (ev_appIndex ev))) s)"

definition OnReceiveEventEfficiencyRes :: "oenv \<Rightarrow> CommonEventData \<Rightarrow> BackgroundTaskMgrService \<Rightarrow> BackgroundTaskMgrService" where
  "OnReceiveEventEfficiencyRes oe ev s =
     (if oe_eventKind oe (ev_action ev) = PackageEvent PACKAGE_REMOVED
      then s\<lparr>sv_efficiency := snd (RemoveAppRecord (or_invalid (ev_uid ev)) (ev_bundleName ev) True (sv_efficiency s))\<rparr>
      else s)"

definition se_OnReceiveEvent :: "oenv \<Rightarrow> CommonEventData \<Rightarrow> BackgroundTaskMgrService \<Rightarrow> BackgroundTaskMgrService" where
  "se_OnReceiveEvent oe ev s = OnReceiveEventEfficiencyRes oe ev (OnReceiveEventContinuousTask oe ev s)"

definition number_param :: "string \<Rightarrow> CommonEventData \<Rightarrow> int" where
  "number_param name ev =
     (case ev_string ev name of None \<Rightarrow> -1 | Some v \<Rightarrow> if CheckStrToNum v then atoi v else -1)"

definition OnPermissionDialogButtonClick :: "CommonEventData \<Rightarrow> BackgroundTaskMgrService \<Rightarrow> BackgroundTaskMgrService" where
  "OnPermissionDialogButtonClick ev s =
     (let authResult = ev_code ev;
          bundleName = (case ev_string ev ''bundleName'' of None \<Rightarrow> '''' | Some b \<Rightarrow> b);
          bundleUid = number_param ''bundleUid'' ev;
          appIndex = number_param ''appIndex'' ev
      in if appIndex = -1 \<or> bundleUid = -1 \<or> bundleName = '''' \<or> authResult < 0 then s
         else sv_post (PostDialogClick authResult bundleUid bundleName appIndex) s)"

definition dialog_OnReceiveEvent :: "CommonEventData \<Rightarrow> BackgroundTaskMgrService \<Rightarrow> BackgroundTaskMgrService" where
  "dialog_OnReceiveEvent ev s =
     (if ev_action ev \<noteq> ''OnBgTaskServiceDialogClicked'' then s else OnPermissionDialogButtonClick ev s)"

definition banner_ActionButtonClick :: "CommonEventData \<Rightarrow> BackgroundTaskMgrService \<Rightarrow> BackgroundTaskMgrService" where
  "banner_ActionButtonClick ev s =
     (let buttonType = or_invalid (ev_int ev ''bgtask_banner_notificaiton_action_param_btn'');
          uid = or_invalid (ev_int ev ''bgtask_banner_notificaiton_action_param_uid'');
          label = (case ev_string ev ''bgtask_banner_notificaiton_action_label'' of None \<Rightarrow> '''' | Some l \<Rightarrow> l)
      in if buttonType = -1 \<or> uid = -1 \<or> label = '''' then s
         else sv_post (PostBannerClick buttonType uid label) s)"

definition banner_OnReceiveEvent :: "CommonEventData \<Rightarrow> BackgroundTaskMgrService \<Rightarrow> BackgroundTaskMgrService" where
  "banner_OnReceiveEvent ev s =
     (if ev_action ev \<noteq> ''bgtask_banner_notification_action_name'' then s else banner_ActionButtonClick ev s)"

section \<open>Posted tasks\<close>

fun package_event_of :: "event_kind \<Rightarrow> package_event" where
  "package_event_of (PackageEvent p) = p"
| "package_event_of _ = OTHER_EVENT"

fun run_observer_task :: "senv \<Rightarrow> oenv \<Rightarrow> observer_task \<Rightarrow> BackgroundTaskMgrService \<Rightarrow> BackgroundTaskMgrService" where
  "run_observer_task e oe (PostAppStateChanged uid state preloadMode) s =
     s\<lparr>sv_continuous := OnAppStateChanged (c_env e s) uid (oe_appState oe state = AppForeground)
         (preloadMode = oe_gamePrelaunch oe) (sv_continuous s)\<rparr>"
| "run_observer_task e oe (PostAbilityStateChanged uid abilityName abilityId) s =
     s\<lparr>sv_continuous := OnAbilityStateChanged (c_env e s) uid abilityName abilityId (sv_continuous s)\<rparr>"
| "run_observer_task e oe (PostAppCacheStateChanged uid pid bundleName) s =
     s\<lparr>sv_transient := OnAppCacheStateChanged (t_env e s) uid pid bundleName (sv_transient s)\<rparr>"
| "run_observer_task e oe (PostAppStopped uid) s =
     s\<lparr>sv_continuous := OnAppStopped (c_env e s) uid (sv_continuous s)\<rparr>"
| "run_observer_task e oe (PostAccountsStateChanged userId) s =
     s\<lparr>sv_continuous := OnAccountsStateChanged (c_env e s) userId (sv_continuous s)\<rparr>"
| "run_observer_task e oe PostBundleResourcesChanged s =
     s\<lparr>sv_continuous := OnBundleResourcesChanged (c_env e s) (sv_continuous s)\<rparr>"
| "run_observer_task e oe (PostBundleInfoChanged action bundleName uid userId appIndex) s =
     s\<lparr>sv_continuous := OnBundleInfoChanged (c_env e s) (package_event_of (oe_eventKind oe action)) bundleName uid
         userId appIndex (sv_continuous s)\<rparr>"
| "run_observer_task e oe (PostDialogClick authResult bundleUid bundleName appIndex) s =
     s\<lparr>sv_continuous := OnPermissionDialogButtonClickInner (c_env e s) authResult bundleUid bundleName appIndex
         (sv_continuous s)\<rparr>"
| "run_observer_task e oe (PostBannerClick buttonType uid label) s =
     s\<lparr>sv_continuous := OnBannerNotificationActionButtonClick (c_env e s) buttonType uid label (sv_continuous s)\<rparr>"

end
