(* ===== verification/PluginAdapters.thy ===== *)
theory PluginAdapters
  imports Observers
begin

text \<open>
  The plugin of the resource scheduler (\<^verbatim>\<open>services/plugin/src\<close>): the table of resource types, the
  adapters that read the payload of an event and call an observer or a manager, and the audio streams
  that are playing; and \<^verbatim>\<open>background_task_observer.cpp\<close>, which reports tasks in the other direction.
\<close>

section \<open>Playing streams\<close>

definition CheckAppIsPlaying :: "int \<Rightarrow> (int \<times> int) list \<Rightarrow> bool" where
  "CheckAppIsPlaying uid infos = list_ex (\<lambda>(u, _). u = uid) infos"

definition AddAudioPlayerInfo :: "(int \<times> int) option \<Rightarrow> (int \<times> int) list \<Rightarrow> bool \<times> (int \<times> int) list" where
  "AddAudioPlayerInfo audioInfo infos =
     (case audioInfo of
        None \<Rightarrow> (False, infos)
      | Some i \<Rightarrow> if i \<in> set infos then (False, infos) else (True, infos @ [i]))"

definition RemoveAudioPlayerInfo :: "int \<Rightarrow> int \<Rightarrow> (int \<times> int) list \<Rightarrow> (int \<times> int) list" where
  "RemoveAudioPlayerInfo uid sessionId infos = remove1 (uid, sessionId) infos"

text \<open>After a start of the audio service its current streams (uid, session, state) are read anew.\<close>

fun add_renderers :: "oenv \<Rightarrow> (int \<times> int \<times> int) list \<Rightarrow> (int \<times> int) list \<Rightarrow> (int \<times> int) list" where
  "add_renderers oe [] infos = infos"
| "add_renderers oe ((uid, sessionId, state) # rs) infos =
     add_renderers oe rs
       (if state \<noteq> oe_rendererRunning oe then infos else snd (AddAudioPlayerInfo (Some (uid, sessionId)) infos))"

definition audio_AfterAddSaListener :: "oenv \<Rightarrow> (int \<times> int) list" where
  "audio_AfterAddSaListener oe = add_renderers oe (oe_renderers oe) []"

section \<open>Payloads\<close>

definition UnmarshallingProcessData :: "oenv \<Rightarrow> json \<Rightarrow> ProcessData option" where
  "UnmarshallingProcessData oe payload =
     (case (oe_parseString oe ''bundleName'' payload, oe_parseNumber oe ''pid'' payload, oe_parseNumber oe ''uid'' payload,
            oe_parseNumber oe ''processType'' payload, oe_parseNumber oe ''state'' payload,
            oe_parseNumber oe ''extensionType'' payload, oe_parseNumber oe ''preloadMode'' payload) of
        (Some b, Some pid, Some uid, Some _, Some state, Some _, Some mode) \<Rightarrow>
          Some \<lparr>pd_bundleName = b, pd_uid = uid, pd_pid = pid, pd_state = state, pd_preloadMode = mode\<rparr>
      | _ \<Rightarrow> None)"

definition UnmarshallingAppStateData :: "oenv \<Rightarrow> json \<Rightarrow> AppStateData option" where
  "UnmarshallingAppStateData oe payload =
     (case (oe_parseString oe ''bundleName'' payload, oe_parseInt oe ''pid'' payload, oe_parseInt oe ''uid'' payload,
            oe_parseInt oe ''state'' payload, oe_parseInt oe ''extensionType'' payload,
            oe_parseInt oe ''preloadMode'' payload) of
        (Some b, Some pid, Some uid, Some state, Some _, Some mode) \<Rightarrow>
          Some \<lparr>as_bundleName = b, as_uid = uid, as_pid = pid, as_state = state, as_preloadMode = mode\<rparr>
      | _ \<Rightarrow> None)"

text \<open>The state of an extension, of a UI extension, or else of an ability, with the type of extension.\<close>

definition UnmarshallingAbilityStateData :: "oenv \<Rightarrow> json \<Rightarrow> AbilityStateData option" where
  "UnmarshallingAbilityStateData oe payload =
     (case (oe_parseInt oe ''pid'' payload, oe_parseInt oe ''uid'' payload, oe_parseInt oe ''recordId'' payload,
            oe_parseInt oe ''abilityType'' payload, oe_parseString oe ''abilityName'' payload) of
        (Some _, Some uid, Some recordId, Some _, Some name) \<Rightarrow>
          let data = (\<lambda>state. \<lparr>ab_uid = uid, ab_abilityName = name, ab_abilityRecordId = recordId, ab_abilityState = state\<rparr>);
              ext = (case oe_parseInt oe ''extensionState'' payload of
                       Some x \<Rightarrow> Some x | None \<Rightarrow> oe_parseInt oe ''uiExtensionState'' payload)
          in (case ext of
                Some state \<Rightarrow>
                  (if oe_parseInt oe ''extensionAbilityType'' payload \<noteq> None then Some (data state) else None)
              | None \<Rightarrow>
                  (case oe_parseInt oe ''abilityState'' payload of
                     None \<Rightarrow> None
                   | Some state \<Rightarrow> if oe_parseInt oe ''extType'' payload \<noteq> None then Some (data state) else None))
      | _ \<Rightarrow> None)"

section \<open>Adapters\<close>

definition pa_OnProcessCreated :: "senv \<Rightarrow> oenv \<Rightarrow> json \<Rightarrow> BackgroundTaskMgrService \<Rightarrow> BackgroundTaskMgrService" where
  "pa_OnProcessCreated e oe payload s =
     (case UnmarshallingProcessData oe payload of None \<Rightarrow> s | Some d \<Rightarrow> ao_OnProcessCreated e oe d s)"

definition pa_OnProcessDied :: "senv \<Rightarrow> oenv \<Rightarrow> json \<Rightarrow> BackgroundTaskMgrService \<Rightarrow> BackgroundTaskMgrService" where
  "pa_OnProcessDied e oe payload s =
     (case UnmarshallingProcessData oe payload of
        None \<Rightarrow> s
      | Some d \<Rightarrow>
          let m = sv_transient s;
              dm = OnProcessDied (t_env e s) (tm_deviceInfoManeger m) (pd_bundleName d) (pd_uid d) (pd_pid d)
                     (tm_decisionMaker m)
          in ao_OnProcessDied e d (s\<lparr>sv_transient := m\<lparr>tm_decisionMaker := dm\<rparr>\<rparr>))"

definition pa_OnProcessStateChanged :: "senv \<Rightarrow> oenv \<Rightarrow> json \<Rightarrow> BackgroundTaskMgrService \<Rightarrow> BackgroundTaskMgrService" where
  "pa_OnProcessStateChanged e oe payload s =
     (case UnmarshallingProcessData oe payload of
        None \<Rightarrow> s
      | Some d \<Rightarrow>
          let m = sv_transient s;
              dm = OnProcessStateChanged (t_env e s) (tm_deviceInfoManeger m) (pd_bundleName d) (pd_uid d) (pd_pid d)
                     (oe_processState oe (pd_state d)) (tm_decisionMaker m)
          in s\<lparr>sv_transient := m\<lparr>tm_decisionMaker := dm\<rparr>\<rparr>)"

definition pa_OnAppStateChanged :: "oenv \<Rightarrow> json \<Rightarrow> BackgroundTaskMgrService \<Rightarrow> BackgroundTaskMgrService" where
  "pa_OnAppStateChanged oe payload s =
     (case UnmarshallingAppStateData oe payload of None \<Rightarrow> s | Some d \<Rightarrow> ao_OnAppStateChanged oe d s)"

definition pa_OnAppStopped :: "oenv \<Rightarrow> json \<Rightarrow> BackgroundTaskMgrService \<Rightarrow> BackgroundTaskMgrService" where
  "pa_OnAppStopped oe payload s =
     (case UnmarshallingAppStateData oe payload of None \<Rightarrow> s | Some d \<Rightarrow> ao_OnAppStopped d s)"

definition pa_OnAppCacheStateChanged :: "oenv \<Rightarrow> json \<Rightarrow> BackgroundTaskMgrService \<Rightarrow> BackgroundTaskMgrService" where
  "pa_OnAppCacheStateChanged oe payload s =
     (case UnmarshallingAppStateData oe payload of None \<Rightarrow> s | Some d \<Rightarrow> ao_OnAppCacheStateChanged oe d s)"

definition pa_OnAbilityStateChanged :: "oenv \<Rightarrow> json \<Rightarrow> BackgroundTaskMgrService \<Rightarrow> BackgroundTaskMgrService" where
  "pa_OnAbilityStateChanged oe payload s =
     (case UnmarshallingAbilityStateData oe payload of None \<Rightarrow> s | Some d \<Rightarrow> ao_OnAbilityStateChanged oe d s)"

definition RendererStateChange :: "oenv \<Rightarrow> json \<Rightarrow> BackgroundTaskMgrService \<Rightarrow> BackgroundTaskMgrService" where
  "RendererStateChange oe payload s =
     (if is_null payload then s
      else case (oe_parseInt oe ''uid'' payload, oe_parseInt oe ''rendererState'' payload,
                 oe_parseInt oe ''sessionId'' payload) of
             (Some uid, Some rendererState, Some sessionId) \<Rightarrow>
               if rendererState = oe_rendererRunning oe
               then
                 let (added, infos) = AddAudioPlayerInfo (Some (uid, sessionId)) (sv_audioPlayerInfos s);
                     s1 = s\<lparr>sv_audioPlayerInfos := infos\<rparr>
                 in if added then s1\<lparr>sv_continuous := snd (NotifyAudioStart uid (sv_continuous s1))\<rparr> else s1
               else s\<lparr>sv_audioPlayerInfos := RemoveAudioPlayerInfo uid sessionId (sv_audioPlayerInfos s)\<rparr>
           | _ \<Rightarrow> s)"

definition pa_AfterAddSaListener :: "oenv \<Rightarrow> json \<Rightarrow> BackgroundTaskMgrService \<Rightarrow> BackgroundTaskMgrService" where
  "pa_AfterAddSaListener oe payload s =
     (case oe_parseInt oe ''saId'' payload of
        None \<Rightarrow> s
      | Some saId \<Rightarrow>
          if saId = oe_audioPolicyService oe then s\<lparr>sv_audioPlayerInfos := audio_AfterAddSaListener oe\<rparr> else s)"

text \<open>An update of the cloud configuration may throw.\<close>

definition HandleCloudConfigUpdateEvent ::
    "oenv \<Rightarrow> int \<Rightarrow> json \<Rightarrow> BackgroundTaskMgrService \<Rightarrow> json_exn + BackgroundTaskMgrService" where
  "HandleCloudConfigUpdateEvent oe stateType payload s =
     (if stateType = oe_suspendManager oe
      then (case UpdateSusMgrCloudConfig payload (sv_config s) of
              Inl x \<Rightarrow> Inl x
            | Inr (_, c) \<Rightarrow> Inr (s\<lparr>sv_config := c\<rparr>))
      else if stateType = oe_backgroundTaskManager oe
      then Inr (s\<lparr>sv_config := snd (UpdateBgMgrCloudConfig payload (sv_config s))\<rparr>)
      else Inr s)"

section \<open>Dispatch\<close>

datatype res_type =
    RES_TYPE_PROCESS_STATE_CHANGE | RES_TYPE_ON_APP_STATE_CHANGED | RES_TYPE_APP_STOPPED
  | RES_TYPE_EXT_ON_APP_CACHED_STATE_CHANGED | RES_TYPE_ABILITY_STATE_CHANGE
  | RES_TYPE_AUDIO_RENDER_STATE_CHANGE | RES_TYPE_OBSERVER_MANAGER_STATUS_CHANGE
  | RES_TYPE_RSS_CLOUD_CONFIG_UPDATE | RES_TYPE_OTHER nat

datatype plugin_callback =
    CbProcessDied | CbProcessStateChanged | CbProcessCreated | CbAppStateChanged | CbAppStopped
  | CbAppCacheStateChanged | CbAbilityStateChanged | CbRendererStateChange | CbAfterAddSaListener | CbCloudConfigUpdate

text \<open>The callbacks of a resource type by value; \<open>-1\<close> is \<^verbatim>\<open>RES_VALUE_FOR_ALL\<close>.\<close>

fun cb_map :: "oenv \<Rightarrow> res_type \<Rightarrow> (int \<times> plugin_callback) list option" where
  "cb_map oe RES_TYPE_PROCESS_STATE_CHANGE = Some
     [(oe_processDied oe, CbProcessDied), (oe_processForeground oe, CbProcessStateChanged),
      (oe_processBackground oe, CbProcessStateChanged), (oe_processCreated oe, CbProcessCreated)]"
| "cb_map oe RES_TYPE_ON_APP_STATE_CHANGED = Some [(-1, CbAppStateChanged)]"
| "cb_map oe RES_TYPE_APP_STOPPED = Some [(-1, CbAppStopped)]"
| "cb_map oe RES_TYPE_EXT_ON_APP_CACHED_STATE_CHANGED = Some [(-1, CbAppCacheStateChanged)]"
| "cb_map oe RES_TYPE_ABILITY_STATE_CHANGE = Some
     [(oe_abilityCreate oe, CbAbilityStateChanged), (oe_abilityTerminated oe, CbAbilityStateChanged)]"
| "cb_map oe RES_TYPE_AUDIO_RENDER_STATE_CHANGE = Some [(-1, CbRendererStateChange)]"
| "cb_map oe RES_TYPE_OBSERVER_MANAGER_STATUS_CHANGE = Some [(oe_addSystemAbility oe, CbAfterAddSaListener)]"
| "cb_map oe RES_TYPE_RSS_CLOUD_CONFIG_UPDATE = Some [(-1, CbCloudConfigUpdate)]"
| "cb_map oe (RES_TYPE_OTHER n) = None"

definition find_callback :: "oenv \<Rightarrow> res_type \<Rightarrow> int \<Rightarrow> plugin_callback option" where
  "find_callback oe resType stateType =
     (case cb_map oe resType of
        None \<Rightarrow> None
      | Some t \<Rightarrow> if length t = 1 \<and> map_of t (-1) \<noteq> None then map_of t (-1) else map_of t stateType)"

fun run_callback ::
    "senv \<Rightarrow> oenv \<Rightarrow> plugin_callback \<Rightarrow> int \<Rightarrow> json \<Rightarrow> BackgroundTaskMgrService \<Rightarrow> json_exn + BackgroundTaskMgrService" where
  "run_callback e oe CbProcessDied v payload s = Inr (pa_OnProcessDied e oe payload s)"
| "run_callback e oe CbProcessStateChanged v payload s = Inr (pa_OnProcessStateChanged e oe payload s)"
| "run_callback e oe CbProcessCreated v payload s = Inr (pa_OnProcessCreated e oe payload s)"
| "run_callback e oe CbAppStateChanged v payload s = Inr (pa_OnAppStateChanged oe payload s)"
| "run_callback e oe CbAppStopped v payload s = Inr (pa_OnAppStopped oe payload s)"
| "run_callback e oe CbAppCacheStateChanged v payload s = Inr (pa_OnAppCacheStateChanged oe payload s)"
| "run_callback e oe CbAbilityStateChanged v payload s = Inr (pa_OnAbilityStateChanged oe payload s)"
| "run_callback e oe CbRendererStateChange v payload s = Inr (RendererStateChange oe payload s)"
| "run_callback e oe CbAfterAddSaListener v payload s = Inr (pa_AfterAddSaListener oe payload s)"
| "run_callback e oe CbCloudConfigUpdate v payload s = HandleCloudConfigUpdateEvent oe v payload s"

text \<open>The value of an event has 64 bits; it is narrowed when it is passed on.\<close>

definition DispatchResource ::
    "senv \<Rightarrow> oenv \<Rightarrow> (res_type \<times> int \<times> json) option \<Rightarrow> BackgroundTaskMgrService \<Rightarrow> json_exn + BackgroundTaskMgrService" where
  "DispatchResource e oe resData s =
     (case resData of
        None \<Rightarrow> Inr s
      | Some (resType, v, payload) \<Rightarrow>
          if \<not> sv_pluginEnable s then Inr s
          else case find_callback oe resType (i32 v) of
                 None \<Rightarrow> Inr s
               | Some cb \<Rightarrow> run_callback e oe cb (i32 v) payload s)"

definition plugin_Disable :: "BackgroundTaskMgrService \<Rightarrow> BackgroundTaskMgrService" where
  "plugin_Disable s = s\<lparr>sv_pluginEnable := False, sv_audioPlayerInfos := []\<rparr>"

section \<open>Reports to the resource scheduler\<close>

datatype report_status =
    TRANSIENT_TASK_START | TRANSIENT_TASK_END | TRANSIENT_TASK_ERR | APP_TRANSIENT_TASK_START | APP_TRANSIENT_TASK_END
  | CONTINUOUS_TASK_START | CONTINUOUS_TASK_END | CONTINUOUS_TASK_UPDATE
  | APP_EFFICIENCY_RESOURCES_APPLY | APP_EFFICIENCY_RESOURCES_RESET
  | PROC_EFFICIENCY_RESOURCES_APPLY | PROC_EFFICIENCY_RESOURCES_RESET

definition CheckTransientTaskAppInfo :: "TransientTaskAppInfo \<Rightarrow> bool" where
  "CheckTransientTaskAppInfo i \<longleftrightarrow> ta_uid i > 0 \<and> ta_pid i \<ge> 0 \<and> ta_packageName i \<noteq> ''''"

definition MarshallingTransientTaskAppInfo :: "TransientTaskAppInfo \<Rightarrow> json" where
  "MarshallingTransientTaskAppInfo i =
     put_all [(''pid'', JString (to_string (ta_pid i))), (''uid'', JString (to_string (ta_uid i))),
              (''bundleName'', JString (ta_packageName i))] JNull"

text \<open>A report is its status and payload; \<open>None\<close> when the data is refused.\<close>

definition OnTransientTask :: "report_status \<Rightarrow> TransientTaskAppInfo option \<Rightarrow> (report_status \<times> json) option" where
  "OnTransientTask status info =
     (case info of
        None \<Rightarrow> None
      | Some i \<Rightarrow> if CheckTransientTaskAppInfo i then Some (status, MarshallingTransientTaskAppInfo i) else None)"

definition OnAppTransientTask :: "report_status \<Rightarrow> TransientTaskAppInfo \<Rightarrow> report_status \<times> json" where
  "OnAppTransientTask status i = (status, MarshallingTransientTaskAppInfo i)"

definition CheckContinuousTaskInfo :: "ContinuousTaskCallbackInfo \<Rightarrow> bool" where
  "CheckContinuousTaskInfo cb \<longleftrightarrow>
     cb_creatorUid cb > 0 \<and> cb_creatorPid cb \<ge> 0 \<and> cb_abilityName cb \<noteq> '''' \<and> cb_typeId cb > 0 \<and> cb_typeId cb \<le> BGMODE_END"

definition MarshallingContinuousTaskCallbackInfo :: "ContinuousTaskCallbackInfo \<Rightarrow> json" where
  "MarshallingContinuousTaskCallbackInfo cb =
     put_all
       [(''pid'', JString (to_string (cb_creatorPid cb))),
        (''uid'', JString (to_string (cb_creatorUid cb))),
        (''abilityName'', JString (cb_abilityName cb)),
        (''isBatchApi'', JString (to_string (if cb_isBatchApi cb then 1 else 0))),
        (''typeId'', JString (to_string (uint (cb_typeId cb)))),
        (''abilityId'', JString (to_string (cb_abilityId cb))),
        (''continuousTaskId'', JString (to_string (cb_continuousTaskId cb))),
        (''isFromWebview'', JBool (cb_isFromWebview cb)),
        (''typeIds'', JArray (map (\<lambda>m. JInt (uint m)) (cb_typeIds cb))),
        (''tokenId'', JInt (int (cb_tokenId cb))),
        (''isByRequestObject'', JBool (cb_isByRequestObject cb)),
        (''bundleName'', JString (cb_bundleName cb)),
        (''userId'', JInt (cb_userId cb)),
        (''appIndex'', JInt (cb_appIndex cb)),
        (''suspendState'', JBool (cb_suspendState cb)),
        (''suspendReason'', JInt (cb_suspendReason cb))] JNull"

definition OnContinuousTask :: "report_status \<Rightarrow> ContinuousTaskCallbackInfo option \<Rightarrow> (report_status \<times> json) option" where
  "OnContinuousTask status info =
     (case info of
        None \<Rightarrow> None
      | Some cb \<Rightarrow> if CheckContinuousTaskInfo cb then Some (status, MarshallingContinuousTaskCallbackInfo cb) else None)"

definition MarshallingResourceInfo :: "ResourceCallbackInfo option \<Rightarrow> json" where
  "MarshallingResourceInfo info =
     (case info of
        None \<Rightarrow> JNull
      | Some i \<Rightarrow>
          put_all [(''pid'', JInt (ci_pid i)), (''uid'', JInt (ci_uid i)),
                   (''resourceNumber'', JInt (uint (ci_resourceNumber i))),
                   (''bundleName'', JString (ci_bundleName i)), (''cpuLevel'', JInt (ci_cpuLevel i))] JNull)"

definition OnEfficiencyResources :: "report_status \<Rightarrow> ResourceCallbackInfo option \<Rightarrow> report_status \<times> json" where
  "OnEfficiencyResources status info = (status, MarshallingResourceInfo info)"

text \<open>The reports that the calls recorded by the continuous task manager cause.\<close>

fun continuous_report :: "cont_call \<Rightarrow> (report_status \<times> json) option" where
  "continuous_report (ObserverStart cb) = OnContinuousTask CONTINUOUS_TASK_START (Some cb)"
| "continuous_report (ObserverUpdate cb) = OnContinuousTask CONTINUOUS_TASK_UPDATE (Some cb)"
| "continuous_report (ObserverStop cb) = OnContinuousTask CONTINUOUS_TASK_END (Some cb)"
| "continuous_report _ = None"

end
