(* ===== verification/ServiceReach.thy ===== *)
theory ServiceReach
  imports PluginAdapters TransientInv EfficiencyReach ContinuousReach
begin

text \<open>
  The states the whole service can reach: requests of clients once it is published, events of the
  plugin and of the observers, changes of system abilities, timers and posted tasks, in any order,
  with restarts in between. The managers see only steps of their own, so what is proved of a manager
  holds inside the service.
\<close>

unbundle bit_operations_syntax

section \<open>Steps\<close>

definition senv_fits :: "int \<Rightarrow> senv \<Rightarrow> bool" where
  "senv_fits q e \<longleftrightarrow> env_fits q (se_transient e) \<and> is_i32 (se_callingUid e) \<and> is_i32 (se_callingPid e) \<and>
     0 \<le> ee_now (se_efficiency e) \<and> ee_now (se_efficiency e) \<le> 4611686018427387904"

text \<open>Neither counter of ids has run out.\<close>

definition ids_left :: "BackgroundTaskMgrService \<Rightarrow> bool" where
  "ids_left s \<longleftrightarrow> dm_requestId (tm_decisionMaker (sv_transient s)) < INT_MAX \<and>
     cm_continuousTaskIdIndex (sv_continuous s) < INT_MAX"

fun req_fits :: "ipc \<Rightarrow> bool" where
  "req_fits (ReqStartRunning p) = is_i32 (cp_abilityId p)"
| "req_fits (ReqRunningForInner p) = is_i32 (cq_uid p)"
| "req_fits _ = True"

text \<open>Whether the transient manager has finished its initialisation.\<close>

definition transient_up :: "BackgroundTaskMgrService \<Rightarrow> bool" where
  "transient_up s \<longleftrightarrow> bit (sv_dependsReady s) 0"

text \<open>The tasks of the handlers of the managers, the notifications and the device events.\<close>

inductive manager_event :: "int \<Rightarrow> BackgroundTaskMgrService \<Rightarrow> BackgroundTaskMgrService \<Rightarrow> bool" for q where
  me_timer: "transient_up s \<Longrightarrow> timer_armed (tm_calls (sv_transient s)) i \<Longrightarrow>
     manager_event q s (s\<lparr>sv_transient := TimerManager_ProcessEvent i (sv_transient s)\<rparr>)"
| me_watchdog: "transient_up s \<Longrightarrow> senv_fits q e \<Longrightarrow> watchdog_armed (tm_calls (sv_transient s)) i \<Longrightarrow>
     manager_event q s (s\<lparr>sv_transient := Watchdog_ProcessEvent (t_env e s) i (sv_transient s)\<rparr>)"
| me_input: "transient_up s \<Longrightarrow> senv_fits q e \<Longrightarrow> InputManager_ProcessEvent (t_env e s) ev (sv_transient s) = Some m \<Longrightarrow>
     manager_event q s (s\<lparr>sv_transient := m\<rparr>)"
| me_resource_task: "senv_fits q e \<Longrightarrow> er_posted (sv_efficiency s) = xs @ t # ys \<Longrightarrow>
     task_due (ee_now (se_efficiency e)) t \<Longrightarrow>
     manager_event q s (s\<lparr>sv_efficiency := BgEfficiencyResourcesMgr.run_task (r_env e s) t
       ((sv_efficiency s)\<lparr>er_posted := xs @ ys\<rparr>)\<rparr>)"
| me_task: "t \<in> set (cm_posted (sv_continuous s)) \<Longrightarrow> plain_task t (sv_continuous s) \<Longrightarrow>
     manager_event q s (s\<lparr>sv_continuous := ContinuousEvents.run_task (c_env e s) t (take_posted t (sv_continuous s))\<rparr>)"
| me_audio: "TaskSuspendAudio uid \<in> set (cm_posted (sv_continuous s)) \<Longrightarrow>
     manager_event q s (s\<lparr>sv_continuous := HandleSuspendContinuousAudioTask (c_env e s) uid
       (take_posted (TaskSuspendAudio uid) (sv_continuous s))\<rparr>)"
| me_canceled: "manager_event q s (s\<lparr>sv_continuous := OnCanceled (c_env e s) dr v reason (sv_continuous s)\<rparr>)"
| me_consumed: "manager_event q s (s\<lparr>sv_continuous := OnConsumed (c_env e s) v (sv_continuous s)\<rparr>)"
| me_resource_subscriber: "manager_event q s (s\<lparr>sv_efficiency := er_SubscriberDied obj (sv_efficiency s)\<rparr>)"
| me_task_subscriber: "manager_event q s (s\<lparr>sv_continuous := OnRemoteSubscriberDied obj (sv_continuous s)\<rparr>)"

inductive sv_step :: "int \<Rightarrow> BackgroundTaskMgrService \<Rightarrow> BackgroundTaskMgrService \<Rightarrow> bool" for q where
  st_request: "sv_state s = STATE_RUNNING \<Longrightarrow> senv_fits q e \<Longrightarrow> ids_left s \<Longrightarrow> req_fits r \<Longrightarrow>
     sv_handle e r s = Inr (c, s') \<Longrightarrow> sv_step q s s'"
| st_plugin: "senv_fits q e \<Longrightarrow> DispatchResource e oe d s = Inr s' \<Longrightarrow> sv_step q s s'"
| st_common_event: "sv_step q s (se_OnReceiveEvent oe ev s)"
| st_dialog: "sv_step q s (dialog_OnReceiveEvent ev s)"
| st_banner: "sv_step q s (banner_OnReceiveEvent ev s)"
| st_observer_task: "senv_fits q e \<Longrightarrow> t \<in> set (sv_posted s) \<Longrightarrow>
     sv_step q s (run_observer_task e oe t (s\<lparr>sv_posted := remove1 t (sv_posted s)\<rparr>))"
| st_manager: "manager_event q s s' \<Longrightarrow> sv_step q s s'"
| st_callback_death: "transient_up s \<Longrightarrow> senv_fits q e \<Longrightarrow> sv_step q s (sv_HandleExpiredCallbackDeath e obj s)"
| st_subscriber_death: "transient_up s \<Longrightarrow> sv_step q s (sv_HandleSubscriberDeath obj s)"
| st_added: "recovery_exact (r_env e s) (sv_efficiency s) \<Longrightarrow> sv_OnAddSystemAbility e sa s = Inr s' \<Longrightarrow> sv_step q s s'"
| st_removed: "senv_fits q e \<Longrightarrow> sv_step q s (sv_OnRemoveSystemAbility e sa s)"
| st_extension: "sv_step q s (snd (OnExtension e ext s))"
| st_init_transient: "\<not> transient_up s \<Longrightarrow> sv_InitTransient e s = Inr s' \<Longrightarrow> sv_step q s s'"
| st_init_continuous: "TaskInitNecessaryState \<in> set (cm_posted (sv_continuous s)) \<Longrightarrow> \<not> cm_isSysReady (sv_continuous s) \<Longrightarrow>
     ce_running (se_continuous e) \<noteq> None \<Longrightarrow>
     sv_InitContinuous e (s\<lparr>sv_continuous := take_posted TaskInitNecessaryState (sv_continuous s)\<rparr>) = Inr s' \<Longrightarrow>
     sv_step q s s'"
| st_disable: "sv_step q s (plugin_Disable s)"
| st_stop: "sv_step q s (OnStop s)"

text \<open>The first start of the service, with or without a resource file, and starts after the process ended.\<close>

inductive sv_reach :: "int \<Rightarrow> BackgroundTaskMgrService \<Rightarrow> bool" for q where
  sr_start: "stored_ok file \<Longrightarrow> se_runner e \<Longrightarrow> ce_running (se_continuous e) \<noteq> None \<Longrightarrow>
     OnStart e (new_BackgroundTaskMgrService file None authFile) = Inr s \<Longrightarrow> sv_reach q s"
| sr_step: "sv_reach q s \<Longrightarrow> sv_step q s s' \<Longrightarrow> sv_reach q s'"
| sr_restart: "sv_reach q s \<Longrightarrow> se_runner e \<Longrightarrow> ce_running (se_continuous e) \<noteq> None \<Longrightarrow>
     OnStart e (new_BackgroundTaskMgrService (er_stored (sv_efficiency s)) (cm_stored (sv_continuous s))
       (cm_authStored (sv_continuous s))) = Inr s' \<Longrightarrow> sv_reach q s'"

section \<open>The managers inside the service\<close>

definition waiting_mgr :: BgTransientTaskMgr where
  "waiting_mgr = new_BgTransientTaskMgr\<lparr>tm_handler := True, tm_deathRecipients := True\<rparr>"

definition sv_inv :: "int \<Rightarrow> BackgroundTaskMgrService \<Rightarrow> bool" where
  "sv_inv q s \<longleftrightarrow> (if transient_up s then tm_reachable q (sv_transient s) else sv_transient s = waiting_mgr) \<and>
     er_reachable (sv_efficiency s) \<and> cont_reach (sv_continuous s) \<and>
     (sv_state s = STATE_RUNNING \<or> sv_pluginEnable s \<longrightarrow> sv_dependsReady s = ALL_READY)"

end
