(* ===== verification/ServiceInv.thy ===== *)
theory ServiceInv
  imports ServiceReach
begin

text \<open>
  Every step of the service is, for each manager, nothing or a step of that manager; hence the
  managers of a reachable service are in states that they reach by themselves.
\<close>

unbundle bit_operations_syntax

section \<open>Steps of the managers\<close>

definition keeps :: "int \<Rightarrow> BackgroundTaskMgrService \<Rightarrow> BackgroundTaskMgrService \<Rightarrow> bool" where
  "keeps q s s' \<longleftrightarrow> sv_dependsReady s' = sv_dependsReady s \<and>
     (sv_state s' = STATE_RUNNING \<longrightarrow> sv_state s = STATE_RUNNING) \<and> (sv_pluginEnable s' \<longrightarrow> sv_pluginEnable s) \<and>
     (tm_reachable q (sv_transient s) \<longrightarrow> tm_reachable q (sv_transient s')) \<and>
     (er_reachable (sv_efficiency s) \<longrightarrow> er_reachable (sv_efficiency s')) \<and>
     (cont_reach (sv_continuous s) \<longrightarrow> cont_reach (sv_continuous s'))"

named_theorems keeps_intros \<open>steps of the service\<close>

lemma keeps_refl [keeps_intros]: "keeps q s s"
  by (simp add: keeps_def)

lemma keeps_trans: "keeps q s s1 \<Longrightarrow> keeps q s1 s2 \<Longrightarrow> keeps q s s2"
  by (auto simp: keeps_def)

lemma keeps_transient: "tm_step q (sv_transient s) m \<Longrightarrow> keeps q s (s\<lparr>sv_transient := m\<rparr>)"
  by (auto simp: keeps_def intro: tm_reachable.step)

lemma keeps_efficiency: "er_step (sv_efficiency s) m \<Longrightarrow> keeps q s (s\<lparr>sv_efficiency := m\<rparr>)"
  by (auto simp: keeps_def intro: er_reachable.er_next)

lemma keeps_continuous:
  "live_step (sv_continuous s) m \<Longrightarrow> keeps q s (s\<lparr>sv_continuous := m\<rparr>)"
  "standby_event (sv_continuous s) m \<Longrightarrow> keeps q s (s\<lparr>sv_continuous := m\<rparr>)"
  by (auto simp: keeps_def intro: cr_live cr_standby)

lemma keeps_table: "table_event (sv_continuous s) m \<Longrightarrow> keeps q s (s\<lparr>sv_continuous := m\<rparr>)"
  by (rule keeps_continuous) (simp add: live_step_def)

lemma keeps_start: "start_event (sv_continuous s) m \<Longrightarrow> keeps q s (s\<lparr>sv_continuous := m\<rparr>)"
  by (rule keeps_continuous) (simp add: live_step_def)

lemma keeps_subscriber: "subscriber_event (sv_continuous s) m \<Longrightarrow> keeps q s (s\<lparr>sv_continuous := m\<rparr>)"
  by (rule keeps_continuous) (simp add: live_step_def)

lemma keeps_fields [keeps_intros]:
  "keeps q s (s\<lparr>sv_config := c\<rparr>)" "keeps q s (s\<lparr>sv_audioPlayerInfos := a\<rparr>)" "keeps q s (s\<lparr>sv_posted := ts\<rparr>)"
  "keeps q s (s\<lparr>sv_state := STATE_NOT_START\<rparr>)" "keeps q s (s\<lparr>sv_pluginEnable := False\<rparr>)" "keeps q s (sv_post t s)"
  by (simp_all add: keeps_def sv_post_def)

lemma keeps_if: "(b \<Longrightarrow> keeps q s x) \<Longrightarrow> (\<not> b \<Longrightarrow> keeps q s y) \<Longrightarrow> keeps q s (if b then x else y)"
  by simp

lemma env_fits_t_env [simp]: "env_fits q (t_env e s) = env_fits q (se_transient e)"
  by (simp add: env_fits_def t_env_def)

lemma senv_fitsD: "senv_fits q e \<Longrightarrow> env_fits q (t_env e s)" "senv_fits q e \<Longrightarrow> eenv_fits (r_env e s)"
  "senv_fits q e \<Longrightarrow> is_i32 (ce_callingUid (c_env e s))"
  by (auto simp: senv_fits_def eenv_fits_def r_env_def c_env_def)

lemma ids_leftD: "ids_left s \<Longrightarrow> dm_requestId (tm_decisionMaker (sv_transient s)) < INT_MAX"
  "ids_left s \<Longrightarrow> cm_continuousTaskIdIndex (sv_continuous s) < INT_MAX"
  by (simp_all add: ids_left_def)

section \<open>Requests\<close>

lemma keeps_transient_requests [keeps_intros]:
  assumes "senv_fits q e"
  shows "ids_left s \<Longrightarrow> keeps q s (snd (dropped (sv_RequestSuspendDelay e cb s)))"
    and "keeps q s (snd (sv_CancelSuspendDelay e i s))"
    and "keeps q s (snd (dropped (dropped (sv_GetAllTransientTasks e s))))"
    and "keeps q s (snd (sv_PauseTransientTaskTimeForInner e uid s))"
    and "keeps q s (snd (sv_StartTransientTaskTimeForInner e uid s))"
  unfolding sv_RequestSuspendDelay_def sv_CancelSuspendDelay_def sv_GetAllTransientTasks_def dropped_def
    sv_PauseTransientTaskTimeForInner_def sv_StartTransientTaskTimeForInner_def
  by (auto simp: split_beta Let_def keeps_refl assms
      intro!: keeps_transient tm_step.request tm_step.cancel tm_step.tasks tm_step.pause tm_step.start
        senv_fitsD(1) ids_leftD)

lemma keeps_table_requests [keeps_intros]:
  "keeps q s (snd (dropped (sv_UpdateBackgroundRunning e p s)))"
  "keeps q s (snd (sv_StopBackgroundRunning e a i t s))"
  "keeps q s (snd (sv_UpdateDataTransferProgress e d s))"
  "keeps q s (snd (sv_StopContinuousTask e uid pid ty key s))"
  "keeps q s (snd (sv_SuspendContinuousTask e uid pid reason key st s))"
  "keeps q s (snd (sv_ActiveContinuousTask e uid pid key st s))"
  "keeps q s (snd (sv_AVSessionNotifyUpdateNotification e uid pid pub s))"
  "keeps q s (snd (sv_SuspendContinuousAudioTask e uid s))"
  "keeps q s (snd (sv_EnableContinuousTaskRequest e uid b s))"
  "keeps q s (snd (sv_SendNotificationByDeteTask e ks s))"
  "keeps q s (snd (dropped (sv_RequestAuthFromUser e p cb s)))"
  "keeps q s (snd (sv_SetBackgroundTaskState e bs s))"
  "keeps q s (snd (sv_RemoveAuthRecord e p s))"
  unfolding sv_UpdateBackgroundRunning_def sv_StopBackgroundRunning_def sv_UpdateDataTransferProgress_def
    sv_StopContinuousTask_def sv_SuspendContinuousTask_def sv_ActiveContinuousTask_def
    sv_AVSessionNotifyUpdateNotification_def sv_SuspendContinuousAudioTask_def sv_EnableContinuousTaskRequest_def
    sv_SendNotificationByDeteTask_def sv_RequestAuthFromUser_def sv_SetBackgroundTaskState_def sv_RemoveAuthRecord_def
    dropped_def
  by (auto simp: split_beta Let_def keeps_refl intro!: keeps_table table_event.intros)

lemma keeps_start_requests [keeps_intros]:
  assumes "senv_fits q e" and "ids_left s"
  shows "is_i32 (cp_abilityId p) \<Longrightarrow> keeps q s (snd (dropped (sv_StartBackgroundRunning e p s)))"
    and "is_i32 (cq_uid p') \<Longrightarrow> keeps q s (snd (sv_RequestBackgroundRunningForInner e p' s))"
  unfolding sv_StartBackgroundRunning_def sv_RequestBackgroundRunningForInner_def dropped_def
  by (auto simp: split_beta Let_def keeps_refl intro!: keeps_start ev_start ev_inner senv_fitsD(3) ids_leftD assms)

lemma keeps_resource_requests [keeps_intros]:
  "senv_fits q e \<Longrightarrow> keeps q s (snd (sv_ApplyEfficiencyResources e i s))"
  "keeps q s (snd (sv_ResetAllEfficiencyResources e s))"
  unfolding sv_ApplyEfficiencyResources_def sv_ResetAllEfficiencyResources_def
  by (auto simp: split_beta Let_def intro!: keeps_efficiency er_step.apply_resources er_step.reset_resources senv_fitsD(2))

lemma keeps_config_requests [keeps_intros]:
  "keeps q s (snd (sv_SetSupportedTaskKeepingProcesses e ps s))"
  "keeps q s (snd (sv_SetMaliciousAppConfig e ps s))"
  "keeps q s (snd (sv_SetSpecialExemptedProcess e ps s))"
  unfolding sv_SetSupportedTaskKeepingProcesses_def sv_SetMaliciousAppConfig_def sv_SetSpecialExemptedProcess_def
  by (simp_all add: keeps_intros)

lemma keeps_SetBgTaskConfig: "sv_SetBgTaskConfig e d ty s = Inr x \<Longrightarrow> keeps q s (snd x)"
  unfolding sv_SetBgTaskConfig_def by (auto simp: keeps_intros split: if_splits sum.splits)

lemma keeps_subscription [keeps_intros]:
  "keeps q s (snd (sv_SubscribeBackgroundTask e sub flag s))"
  "keeps q s (snd (sv_UnsubscribeBackgroundTask e sub flag s))"
proof -
  have c: "keeps q s (s\<lparr>sv_continuous := snd (AddSubscriber i (sv_continuous s))\<rparr>)"
    "keeps q s (s\<lparr>sv_continuous := snd (RemoveSubscriber sub flag (sv_continuous s))\<rparr>)" for i s
    by (rule keeps_subscriber, rule subscriber_event.intros)+
  have t: "keeps q s (s\<lparr>sv_transient := snd (tm_SubscribeBackgroundTask sub (sv_transient s))\<rparr>)"
    "keeps q s (s\<lparr>sv_transient := snd (tm_UnsubscribeBackgroundTask sub (sv_transient s))\<rparr>)" for s
    by (rule keeps_transient, rule tm_step.subscribe tm_step.unsubscribe)+
  have e: "keeps q s (s\<lparr>sv_efficiency := snd (er_AddSubscriber sub (sv_efficiency s))\<rparr>)"
    "keeps q s (s\<lparr>sv_efficiency := snd (er_RemoveSubscriber sub (sv_efficiency s))\<rparr>)" for s
    by (rule keeps_efficiency, rule er_step.subscribed er_step.unsubscribed)+
  note all = keeps_trans [OF c(1) keeps_trans [OF t(1) e(1)]] keeps_trans [OF c(1) t(1)]
    keeps_trans [OF c(2) keeps_trans [OF t(2) e(2)]] keeps_trans [OF c(2) t(2)]
  show "keeps q s (snd (sv_SubscribeBackgroundTask e sub flag s))"
    unfolding sv_SubscribeBackgroundTask_def
    by (cases "check_subscriber e flag")
       (use all [where s = s] in \<open>simp_all add: split_beta Let_def keeps_refl c\<close>)
  show "keeps q s (snd (sv_UnsubscribeBackgroundTask e sub flag s))"
    unfolding sv_UnsubscribeBackgroundTask_def
    by (cases "check_subscriber e flag")
       (use all [where s = s] in \<open>simp_all add: split_beta Let_def keeps_refl c\<close>)
qed

lemma keeps_dump [keeps_intros]:
  assumes "senv_fits q e" and "ids_left s"
  shows "keeps q s (snd (dropped (sv_Dump e args s)))"
proof -
  have t: "keeps q s (s\<lparr>sv_transient := snd (snd (tm_ShellDump (t_env e s) b a [] (sv_transient s)))\<rparr>)" for a b
    by (rule keeps_transient, rule tm_step.dump, rule senv_fitsD [OF assms(1)])
  have c: "keeps q s (s\<lparr>sv_continuous := snd (snd (cm_ShellDump (c_env e s) a (sv_continuous s)))\<rparr>)" for a
    by (rule keeps_start, rule ev_dump, rule ids_leftD [OF assms(2)])
  have r: "keeps q s (s\<lparr>sv_efficiency := snd (snd (er_ShellDump (r_env e s) a (sv_efficiency s)))\<rparr>)" for a
    by (rule keeps_efficiency, rule er_step.dump_command)
  show ?thesis
    by (cases args) (simp_all add: sv_Dump_def dropped_def keeps_refl split_beta Let_def t c r)
qed

lemma keeps_request_result:
  assumes "senv_fits q e" and "ids_left s" and "req_fits r" and "sv_handle e r s = Inr x"
  shows "keeps q s (snd x)"
  using assms by (cases r) (auto simp: keeps_intros dest: keeps_SetBgTaskConfig)

lemmas keeps_request = keeps_request_result [where x = "(c, s')" for c s', simplified]

section \<open>Observers and the plugin\<close>

lemma keeps_app_removed [keeps_intros]:
  "keeps q s (s\<lparr>sv_efficiency := snd (RemoveAppRecord uid b x (sv_efficiency s))\<rparr>)"
  by (rule keeps_efficiency) (rule er_step.app_died)

lemma keeps_process_removed [keeps_intros]: "keeps q s (OnProcessDiedEfficiencyRes d s)"
  unfolding OnProcessDiedEfficiencyRes_def by (rule keeps_efficiency) (rule er_step.process_died)

lemma keeps_observers [keeps_intros]:
  "keeps q s (ao_OnAppStateChanged oe da s)" "keeps q s (ao_OnAbilityStateChanged oe db s)"
  "keeps q s (ao_OnAppCacheStateChanged oe da s)" "keeps q s (ao_OnProcessCreated e oe d s)"
  "keeps q s (dialog_OnReceiveEvent ev s)" "keeps q s (banner_OnReceiveEvent ev s)"
  "keeps q s (OnReceiveEventContinuousTask oe ev s)" "keeps q s (OnReceiveEventEfficiencyRes oe ev s)"
  unfolding ao_OnAppStateChanged_def ao_OnAbilityStateChanged_def ao_OnAppCacheStateChanged_def
    ao_OnProcessCreated_def dialog_OnReceiveEvent_def banner_OnReceiveEvent_def OnPermissionDialogButtonClick_def
    banner_ActionButtonClick_def OnReceiveEventContinuousTask_def OnReceiveEventEfficiencyRes_def
  by (auto simp: keeps_intros Let_def keeps_table [OF ev_prelaunch] split: event_kind.splits)

lemma keeps_stopped [keeps_intros]: "keeps q s (ao_OnAppStopped d s)"
  unfolding ao_OnAppStopped_def Let_def
  by (rule keeps_if) (auto intro: keeps_trans [OF keeps_fields(6) keeps_app_removed] keeps_refl)

lemma keeps_died [keeps_intros]: "keeps q s (ao_OnProcessDied e d s)"
  unfolding ao_OnProcessDied_def Let_def
  by (rule keeps_if) (auto intro: keeps_process_removed keeps_trans [OF keeps_process_removed keeps_table [OF ev_prelaunch_end]])

lemma keeps_common_event: "keeps q s (se_OnReceiveEvent oe ev s)"
  unfolding se_OnReceiveEvent_def by (rule keeps_trans) (rule keeps_observers)+

lemma keeps_playing [keeps_intros]: "keeps q s (RendererStateChange oe payload s)"
proof -
  have "keeps q s (s\<lparr>sv_audioPlayerInfos := infos, sv_continuous := snd (NotifyAudioStart uid (sv_continuous s))\<rparr>)" for infos uid
    using keeps_trans [OF keeps_fields(2) keeps_table [OF ev_audio_start]] by simp
  then show ?thesis
    unfolding RendererStateChange_def by (auto simp: keeps_intros Let_def split_beta split: option.splits)
qed

lemma keeps_process_events [keeps_intros]:
  assumes "senv_fits q e"
  shows "keeps q s (pa_OnProcessDied e oe payload s)" and "keeps q s (pa_OnProcessStateChanged e oe payload s)"
  unfolding pa_OnProcessDied_def pa_OnProcessStateChanged_def Let_def
  by (auto intro!: keeps_intros keeps_trans [OF keeps_transient keeps_died] keeps_transient
      tm_step.process_died tm_step.process_state senv_fitsD(1) assms split: option.splits)

lemma keeps_callback:
  "senv_fits q e \<Longrightarrow> run_callback e oe cb v payload s = Inr s' \<Longrightarrow> keeps q s s'"
  by (cases cb)
     (auto simp: keeps_intros pa_OnProcessCreated_def pa_OnAppStateChanged_def pa_OnAppStopped_def
       pa_OnAppCacheStateChanged_def pa_OnAbilityStateChanged_def pa_AfterAddSaListener_def
       HandleCloudConfigUpdateEvent_def split: option.splits sum.splits if_splits)

lemma keeps_dispatch: "senv_fits q e \<Longrightarrow> DispatchResource e oe d s = Inr s' \<Longrightarrow> keeps q s s'"
  unfolding DispatchResource_def by (auto simp: keeps_intros keeps_callback split: option.splits if_splits)

lemma dispatch_disabled: "\<not> sv_pluginEnable s \<Longrightarrow> DispatchResource e oe d s = Inr s"
  by (simp add: DispatchResource_def split: option.split)

lemma keeps_observer_task: "senv_fits q e \<Longrightarrow> keeps q s (run_observer_task e oe t s)"
  by (cases t)
     (auto intro!: keeps_table table_event.intros keeps_transient tm_step.app_cache senv_fitsD(1))

lemma keeps_manager_event: "manager_event q s s' \<Longrightarrow> keeps q s s'"
proof (induction rule: manager_event.induct)
  case (me_timer s i)
  then show ?case by (intro keeps_transient tm_step.timer)
next
  case (me_watchdog s e i)
  then show ?case by (intro keeps_transient tm_step.watchdog senv_fitsD(1))
next
  case (me_input s e ev m)
  then show ?case by (blast intro: keeps_transient tm_step.input senv_fitsD(1))
next
  case (me_resource_task e s xs t ys)
  then have "task_due (ee_now (r_env e s)) t" by (simp add: r_env_def)
  then show ?case using me_resource_task by (blast intro: keeps_efficiency er_step.task_runs senv_fitsD(2))
next
  case (me_audio uid s e)
  then show ?case by (intro keeps_continuous(2) ev_audio)
qed (blast intro: keeps_table keeps_subscriber keeps_efficiency ev_run ev_canceled ev_consumed ev_died er_step.subscriber_died)+

section \<open>Steps that the waiting transient manager does not see\<close>

definition waits :: "BackgroundTaskMgrService \<Rightarrow> BackgroundTaskMgrService \<Rightarrow> bool" where
  "waits s s' \<longleftrightarrow> transient_up s \<or> (sv_transient s = waiting_mgr \<longrightarrow> sv_transient s' = waiting_mgr)"

lemma waiting_not_ready [simp]: "\<not> tm_isReady waiting_mgr"
  by (simp add: waiting_mgr_def new_BgTransientTaskMgr_def)

lemma waits_same: "sv_transient s' = sv_transient s \<Longrightarrow> waits s s'"
  by (simp add: waits_def)

lemma sv_transient_observers [simp]:
  "sv_transient (sv_post t s) = sv_transient s" "sv_transient (se_OnReceiveEvent oe ev s) = sv_transient s"
  "sv_transient (dialog_OnReceiveEvent ev s) = sv_transient s" "sv_transient (banner_OnReceiveEvent ev s) = sv_transient s"
  by (simp_all add: sv_post_def se_OnReceiveEvent_def OnReceiveEventEfficiencyRes_def OnReceiveEventContinuousTask_def
      dialog_OnReceiveEvent_def OnPermissionDialogButtonClick_def banner_OnReceiveEvent_def banner_ActionButtonClick_def
      Let_def split: event_kind.splits)

lemma waits_observer_task: "waits s (run_observer_task e oe t (s\<lparr>sv_posted := ts\<rparr>))"
  by (cases t) (simp_all add: waits_def OnAppCacheStateChanged_def)

lemma waits_manager_event: "manager_event q s s' \<Longrightarrow> waits s s'"
  by (induction rule: manager_event.induct) (simp_all add: waits_def)

lemma keeps_inv: "sv_inv q s \<Longrightarrow> keeps q s s' \<Longrightarrow> waits s s' \<Longrightarrow> sv_inv q s'"
  by (auto simp: sv_inv_def keeps_def waits_def transient_up_def)

lemma running_up: "sv_inv q s \<Longrightarrow> sv_state s = STATE_RUNNING \<or> sv_pluginEnable s \<Longrightarrow> transient_up s"
  by (auto simp: sv_inv_def transient_up_def)

section \<open>Life cycle\<close>

lemma SetReady_inv:
  assumes inv: "er_reachable (sv_efficiency s)" "cont_reach (sv_continuous s)"
    "sv_state s = STATE_RUNNING \<or> sv_pluginEnable s \<longrightarrow> sv_dependsReady s = ALL_READY"
    and tm: "if bit (sv_dependsReady s OR flag) 0 then tm_reachable q (sv_transient s) else sv_transient s = waiting_mgr"
    and flag: "flag \<in> {1, 2, 4}" and ready: "SetReady e flag s = Inr s'"
  shows "sv_inv q s'"
proof -
  have seven: "sv_dependsReady s OR flag = 7" if "sv_dependsReady s = 7" using that flag by auto
  show ?thesis
    using inv tm ready seven unfolding SetReady_def Let_def
    by (auto simp: sv_inv_def transient_up_def split: if_splits sum.splits)
qed

lemma bit_ready_flags [simp]: "bit (w OR 2 :: 32 word) 0 = bit w 0" "bit (w OR 4 :: 32 word) 0 = bit w 0"
  "bit (w OR 1 :: 32 word) 0"
  by (simp_all add: bit_or_iff bit_1_iff bit_numeral_rec)

lemma snd_InitNecessaryState:
  "snd (InitNecessaryState abilities waiting_mgr) =
     (if fst (InitNecessaryState abilities waiting_mgr) = SetReadyTransient then started_mgr else waiting_mgr)"
  by (auto simp: InitNecessaryState_def started_mgr_def tm_Init_def waiting_mgr_def new_BgTransientTaskMgr_def
      split: option.split)

lemma InitTransient_inv:
  assumes rest: "er_reachable (sv_efficiency s)" "cont_reach (sv_continuous s)"
    "sv_state s = STATE_RUNNING \<or> sv_pluginEnable s \<longrightarrow> sv_dependsReady s = ALL_READY"
    and up: "\<not> transient_up s" and step: "sv_ready_transient e (InitNecessaryState abilities waiting_mgr) s = Inr s'"
  shows "sv_inv q s'"
proof (cases "fst (InitNecessaryState abilities waiting_mgr) = SetReadyTransient")
  case True
  then have ready: "SetReady e 1 (s\<lparr>sv_transient := started_mgr\<rparr>) = Inr s'"
    using step by (simp add: sv_ready_transient_def Let_def snd_InitNecessaryState)
  show ?thesis
    by (rule SetReady_inv [OF _ _ _ _ _ ready]) (use rest in \<open>auto intro: tm_reachable.started\<close>)
next
  case False
  then have "s' = s\<lparr>sv_transient := waiting_mgr\<rparr>"
    using step by (simp add: sv_ready_transient_def Let_def snd_InitNecessaryState)
  then show ?thesis using rest up by (simp add: sv_inv_def transient_up_def)
qed

lemma SetReady_other_inv:
  assumes inv: "sv_inv q s" and flag: "flag \<in> {2, 4}" and ready: "SetReady e flag s = Inr s'"
  shows "sv_inv q s'"
proof (rule SetReady_inv [OF _ _ _ _ _ ready])
  show "if bit (sv_dependsReady s OR flag) 0 then tm_reachable q (sv_transient s) else sv_transient s = waiting_mgr"
    using inv flag by (auto simp: sv_inv_def transient_up_def split: if_splits)
qed (use inv flag in \<open>auto simp: sv_inv_def\<close>)

lemma ready_continuous_inv: "sv_inv q s \<Longrightarrow> sv_ready_continuous e s = Inr s' \<Longrightarrow> sv_inv q s'"
  unfolding sv_ready_continuous_def by (auto split: if_splits intro: SetReady_other_inv)

lemma keeps_boot: "boot_event (sv_continuous s) m \<Longrightarrow> keeps q s (s\<lparr>sv_continuous := m\<rparr>)"
  by (auto simp: keeps_def intro: cr_boot)

lemma InitContinuous_inv:
  assumes inv: "sv_inv q s" and due: "TaskInitNecessaryState \<in> set (cm_posted (sv_continuous s))"
    "\<not> cm_isSysReady (sv_continuous s)" "ce_running (se_continuous e) \<noteq> None"
    and step: "sv_InitContinuous e (s\<lparr>sv_continuous := take_posted TaskInitNecessaryState (sv_continuous s)\<rparr>) = Inr s'"
  shows "sv_inv q s'"
proof -
  let ?e = "c_env e (s\<lparr>sv_continuous := take_posted TaskInitNecessaryState (sv_continuous s)\<rparr>)"
  let ?s = "s\<lparr>sv_continuous := cm_InitNecessaryState ?e (take_posted TaskInitNecessaryState (sv_continuous s))\<rparr>"
  have "ce_running ?e \<noteq> None" using due by (simp add: c_env_def)
  then have "keeps q s ?s" using due by (intro keeps_boot ev_init_again)
  then have "sv_inv q ?s" by (rule keeps_inv [OF inv _ waits_same]) simp
  then show ?thesis using step by (simp add: sv_InitContinuous_def ready_continuous_inv)
qed

lemma OnAddSystemAbility_inv:
  assumes inv: "sv_inv q s" and exact: "recovery_exact (r_env e s) (sv_efficiency s)"
    and step: "sv_OnAddSystemAbility e sa s = Inr s'"
  shows "sv_inv q s'"
proof -
  let ?m = "er_OnAddSystemAbility (r_env e s) (depend_of (se_ability e sa)) (sv_efficiency s)"
  have "keeps q s (s\<lparr>sv_efficiency := ?m\<rparr>)" by (rule keeps_efficiency) (rule er_step.service_added [OF exact])
  then have "sv_inv q (s\<lparr>sv_efficiency := ?m\<rparr>)" by (rule keeps_inv [OF inv _ waits_same]) simp
  then show ?thesis
    using step unfolding sv_OnAddSystemAbility_def Let_def by (auto split: if_splits intro: SetReady_other_inv)
qed

text \<open>At the first start the efficiency manager is not ready, so the service is not published yet.\<close>

lemma OnStart_inv:
  assumes stored: "stored_ok resourceFile" and task: "cont_reach (new_BgContinuousTaskMgr taskFile authFile)"
    and env: "se_runner e" "ce_running (se_continuous e) \<noteq> None"
    and step: "OnStart e (new_BackgroundTaskMgrService resourceFile taskFile authFile) = Inr s'"
  shows "sv_inv q s'"
proof -
  let ?s = "new_BackgroundTaskMgrService resourceFile taskFile authFile"
  let ?r = "InitNecessaryState (se_abilities e) waiting_mgr"
  define s1 where "s1 = ?s\<lparr>sv_transient := snd ?r, sv_dependsReady := if fst ?r = SetReadyTransient then 1 else 0\<rparr>"
  define s2 where "s2 = s1\<lparr>sv_efficiency := snd (er_Init True (se_quotaLib e) (new_BgEfficiencyResourcesMgr resourceFile))\<rparr>"
  have init: "tm_Init (se_runner e) (se_abilities e) (sv_transient ?s) = ?r"
    using env by (simp add: tm_Init_def waiting_mgr_def new_BackgroundTaskMgrService_def)
  have one: "sv_ready_transient e ?r ?s = Inr s1"
    by (simp add: sv_ready_transient_def SetReady_def new_BackgroundTaskMgrService_def s1_def Let_def)
  have two: "sv_inv q s2"
    using er_start [OF stored, of True "se_quotaLib e"] task
    by (auto simp: sv_inv_def transient_up_def s1_def s2_def new_BackgroundTaskMgrService_def snd_InitNecessaryState
        intro: tm_reachable.started)
  have "ce_running (c_env e s2) \<noteq> None" "sv_continuous s2 = new_BgContinuousTaskMgr taskFile authFile"
    using env by (simp_all add: c_env_def s1_def s2_def new_BackgroundTaskMgrService_def)
  then have "boot_event (sv_continuous s2) (snd (cm_Init (c_env e s2) True (sv_continuous s2)))"
    by (intro ev_init) (simp_all add: new_BgContinuousTaskMgr_def)
  then have "sv_inv q (s2\<lparr>sv_continuous := snd (cm_Init (c_env e s2) True (sv_continuous s2))\<rparr>)"
    by (rule keeps_inv [OF two keeps_boot waits_same]) simp
  moreover have "sv_ready_continuous e (s2\<lparr>sv_continuous := snd (cm_Init (c_env e s2) True (sv_continuous s2))\<rparr>) = Inr s'"
    using step env unfolding OnStart_def sv_Init_def init one s2_def
    by (simp add: new_BackgroundTaskMgrService_def s1_def cm_Init_def Let_def)
  ultimately show ?thesis by (rule ready_continuous_inv)
qed

section \<open>The invariant\<close>

lemma waits_up: "transient_up s \<Longrightarrow> waits s s'"
  by (simp add: waits_def)

lemma keeps_deaths:
  "senv_fits q e \<Longrightarrow> keeps q s (sv_HandleExpiredCallbackDeath e obj s)" "keeps q s (sv_HandleSubscriberDeath obj s)"
proof -
  show "keeps q s (sv_HandleSubscriberDeath obj s)"
    unfolding sv_HandleSubscriberDeath_def by (intro keeps_transient tm_step.subscriber_death)
  have c: "keeps q s (s\<lparr>sv_continuous := HandleAuthExpiredCallbackDeath (c_env e s) obj (sv_continuous s)\<rparr>)"
    by (intro keeps_table ev_auth_death)
  assume "senv_fits q e"
  then have "keeps q s (s\<lparr>sv_transient := HandleExpiredCallbackDeath (t_env e s) obj (sv_transient s)\<rparr>)"
    by (intro keeps_transient tm_step.callback_death senv_fitsD(1))
  then show "keeps q s (sv_HandleExpiredCallbackDeath e obj s)"
    using c by (simp add: sv_HandleExpiredCallbackDeath_def keeps_def)
qed

lemma keeps_removed: "senv_fits q e \<Longrightarrow> keeps q s (sv_OnRemoveSystemAbility e sa s)"
  by (auto simp: sv_OnRemoveSystemAbility_def keeps_def Let_def
      intro: tm_reachable.step [OF _ tm_step.ability_removed] er_next [OF _ er_step.service_removed]
        cr_live live_step_def [THEN iffD2] ev_remove_sa senv_fitsD(1))

lemma waits_removed: "waits s (sv_OnRemoveSystemAbility e sa s)"
  by (simp add: waits_def sv_OnRemoveSystemAbility_def Let_def tm_OnRemoveSystemAbility_def)

lemma keeps_extension: "keeps q s (snd (OnExtension e ext s))" and waits_extension: "waits s (snd (OnExtension e ext s))"
  by (auto simp: OnExtension_def split_beta keeps_refl waits_same intro: keeps_table ev_restore)

lemma sv_step_inv: "sv_step q s s' \<Longrightarrow> sv_inv q s \<Longrightarrow> sv_inv q s'"
proof (induction rule: sv_step.induct)
  case (st_request s e r c s')
  then show ?case using keeps_inv [OF st_request.prems keeps_request waits_up] running_up [OF st_request.prems] by blast
next
  case (st_plugin e oe d s s')
  then have k: "keeps q s s'" by (intro keeps_dispatch)
  have "sv_pluginEnable s \<or> s' = s" using st_plugin dispatch_disabled [of s e oe d] by auto
  then show ?case using keeps_inv [OF st_plugin.prems k] running_up [OF st_plugin.prems] st_plugin.prems
    by (auto simp: waits_up)
next
  case (st_observer_task e t s oe)
  then show ?case
    by (intro keeps_inv [OF _ keeps_trans [OF keeps_fields(3) keeps_observer_task] waits_observer_task])
next
  case (st_added e s sa s')
  from OnAddSystemAbility_inv [OF st_added.prems st_added(1,2)] show ?case .
next
  case (st_init_transient s e s')
  then have "sv_ready_transient e (InitNecessaryState (se_abilities e) waiting_mgr) s = Inr s'"
    by (simp add: sv_InitTransient_def sv_inv_def)
  then show ?case using st_init_transient by (intro InitTransient_inv [of s e _ s']) (simp_all add: sv_inv_def)
next
  case (st_init_continuous s e s')
  from InitContinuous_inv [OF st_init_continuous.prems st_init_continuous(1-4)] show ?case .
qed (auto intro: keeps_inv waits_same waits_up keeps_deaths keeps_removed waits_removed keeps_extension waits_extension
    keeps_manager_event waits_manager_event keeps_common_event keeps_observers
    simp: plugin_Disable_def OnStop_def keeps_def waits_def)

lemma sv_reach_inv: "sv_reach q s \<Longrightarrow> sv_inv q s"
proof (induction rule: sv_reach.induct)
  case (sr_start resourceFile e authFile s)
  from OnStart_inv [OF sr_start(1) cr_new sr_start(2-4)] show ?case .
next
  case (sr_step s s')
  from sv_step_inv [OF sr_step(2) sr_step.IH] show ?case .
next
  case (sr_restart s e s')
  then have "er_inv (sv_efficiency s)" "cont_reach (sv_continuous s)"
    by (auto simp: sv_inv_def intro: er_reachable_inv)
  then show ?case using sr_restart by (intro OnStart_inv [OF _ cr_restart]) (auto simp: er_inv_def)
qed

end
