(* ===== verification/ServiceProps.thy ===== *)
theory ServiceProps
  imports ServiceInv TransientDemo EfficiencyDemo ContinuousDemo
begin

text \<open>
  The properties of the service as a whole: which callers it serves, what a subscription reaches,
  and that the managers inside it only take steps of their own.
\<close>

section \<open>Callers\<close>

text \<open>
  Who may call what, as the documentation of the interface groups the requests: everybody, all but
  atomic services, system services and the shell, the resource scheduler only, apps, system apps
  with a permission.
\<close>

datatype caller_class =
    Anybody | NoAtomicService | AtomicOnly "bgmode list" | ServiceOrShell | OwnOrService int | ResourceScheduler
  | App | AppOfVersion int | SystemApp string | SubscriberFor "32 word" | Dumper

fun caller_rule :: "ipc \<Rightarrow> caller_class" where
  "caller_rule (ReqSuspendDelay _) = NoAtomicService"
| "caller_rule (ReqStartRunning p) = AtomicOnly (cp_bgModeIds p)"
| "caller_rule (ReqUpdateRunning p) = AtomicOnly (cp_bgModeIds p)"
| "caller_rule (ReqSubscribe _ flag) = SubscriberFor flag"
| "caller_rule (ReqUnsubscribe _ flag) = SubscriberFor flag"
| "caller_rule ReqTransientTaskApps = ServiceOrShell"
| "caller_rule ReqResourcesInfos = ServiceOrShell"
| "caller_rule (ReqStopTask _ _ _ _) = ResourceScheduler"
| "caller_rule (ReqSuspendTask _ _ _ _ _) = ResourceScheduler"
| "caller_rule (ReqActiveTask _ _ _ _) = ResourceScheduler"
| "caller_rule (ReqTasksByUidForInner uid) = OwnOrService uid"
| "caller_rule (ReqAVSession _ _ _) = ServiceOrShell"
| "caller_rule (ReqSetConfig _ _) = ServiceOrShell"
| "caller_rule (ReqSuspendAudio _) = ResourceScheduler"
| "caller_rule (ReqModeSupported _) = NoAtomicService"
| "caller_rule (ReqSetTaskKeeping _) = ResourceScheduler"
| "caller_rule (ReqSetMalicious _) = ResourceScheduler"
| "caller_rule (ReqAuthFromUser p _) = AppOfVersion (cp_requestAuthApiVersion p)"
| "caller_rule (ReqCheckAuth _ v) = AppOfVersion v"
| "caller_rule (ReqCheckAuthResult _ _ _) = ResourceScheduler"
| "caller_rule (ReqEnableRequest _ _) = ResourceScheduler"
| "caller_rule (ReqSetTaskState _) = SystemApp ''ohos.permission.SET_BACKGROUND_TASK_STATE''"
| "caller_rule (ReqGetTaskState _) = SystemApp ''ohos.permission.SET_BACKGROUND_TASK_STATE''"
| "caller_rule ReqAllTasksBySystem = SystemApp ''ohos.permission.GET_BACKGROUND_TASK_INFO''"
| "caller_rule (ReqSetSpecialExempted _) = ResourceScheduler"
| "caller_rule ReqAllTaskApps = ResourceScheduler"
| "caller_rule (ReqSendByDete _) = ResourceScheduler"
| "caller_rule (ReqRemoveAuth _) = App"
| "caller_rule (ReqUpdateProgress _) = NoAtomicService"
| "caller_rule (ReqDump _) = Dumper"
| "caller_rule _ = Anybody"

definition service_caller :: "senv \<Rightarrow> bool" where
  "service_caller e \<longleftrightarrow> se_tokenType e \<in> {TOKEN_NATIVE, TOKEN_SHELL}"

definition system_app_caller :: "senv \<Rightarrow> string \<Rightarrow> bool" where
  "system_app_caller e permission \<longleftrightarrow>
     se_tokenType e = TOKEN_HAP \<and> \<not> se_atomicService e \<and> ce_checkPermission (se_continuous e) permission \<and>
     ce_isSystemApp (se_continuous e) (ce_callingFullTokenId (se_continuous e))"

fun admits :: "senv \<Rightarrow> caller_class \<Rightarrow> bool" where
  "admits e Anybody = True"
| "admits e NoAtomicService = (\<not> se_atomicService e)"
| "admits e (AtomicOnly modes) = (se_atomicService e \<longrightarrow> set modes \<subseteq> {AUDIO_PLAYBACK, MULTI_DEVICE_CONNECTION, LOCATION})"
| "admits e ServiceOrShell = service_caller e"
| "admits e (OwnOrService uid) = (se_callingUid e = uid \<or> service_caller e)"
| "admits e ResourceScheduler = (service_caller e \<and> se_callingUid e = 1096)"
| "admits e App = (se_tokenType e = TOKEN_HAP)"
| "admits e (AppOfVersion v) = (se_tokenType e = TOKEN_HAP \<and> \<not> se_atomicService e \<and> v \<in> {API_VERSION_22, API_VERSION_26})"
| "admits e (SystemApp permission) = system_app_caller e permission"
| "admits e (SubscriberFor flag) =
     (service_caller e \<or>
      (if flag = SUBSCRIBER_BACKGROUND_TASK_STATE then system_app_caller e ''ohos.permission.GET_BACKGROUND_TASK_INFO''
       else se_tokenType e = TOKEN_HAP \<and> ce_checkPermission (se_continuous e) ''ohos.permission.KEEP_BACKGROUND_RUNNING''))"
| "admits e Dumper = (se_engMode e \<noteq> 0 \<and> se_dumpPermission e)"

definition refusals :: "ErrCode set" where
  "refusals = {ERR_BGTASK_PERMISSION_DENIED, ERR_BGTASK_NOT_SYSTEM_APP, ERR_BGTASK_CONTINUOUS_API_VERSION_FAIL}"

lemmas caller_defs = service_caller_def system_app_caller_def refusals_def Let_def CheckHapCalling_def check_subscriber_def rss_only_def CheckCallingToken_def CheckCallingProcess_def CheckAtomicService_def atomic_modes_ok_def
  check_system_hap_def check_auth_caller_def AllowDump_def

lemma refused_checks:
  "rss_only e = (service_caller e \<and> se_callingUid e = 1096)" "CheckCallingToken e = service_caller e"
  "atomic_modes_ok e p = admits e (AtomicOnly (cp_bgModeIds p))"
  by (auto simp: caller_defs list_all_iff)

lemma refused_system: "\<not> admits e (SystemApp p) \<Longrightarrow> check_system_hap e p \<in> refusals"
  by (auto simp: caller_defs)

lemma refused_version: "\<not> admits e (AppOfVersion v) \<Longrightarrow> check_auth_caller e v \<in> refusals"
  by (auto simp: caller_defs)

lemma refused_subscriber: "\<not> admits e (SubscriberFor flag) \<Longrightarrow> \<exists>c \<in> refusals. check_subscriber e flag = Inl c"
  by (auto simp: caller_defs split: if_splits)

lemma refusals_not_ok: "ERR_OK \<notin> refusals"
  by (simp add: refusals_def)

text \<open>
  C18: every request of the interface is refused, with one of three error codes and without any
  change of the state of the service or of a manager, when its caller is not in the class of callers
  that the table grants the request to: an atomic service, an app where only services may call, a
  service other than the resource scheduler, an app that is no system app or has not the permission.
\<close>

theorem callers_refused:
  assumes "\<not> admits e (caller_rule r)"
  shows "\<exists>c \<in> refusals. sv_handle e r s = Inr (c, s)"
proof (cases r)
  case (ReqSubscribe sub flag)
  then show ?thesis using assms refused_subscriber [of e flag] by (auto simp: sv_SubscribeBackgroundTask_def)
next
  case (ReqUnsubscribe sub flag)
  then show ?thesis using assms refused_subscriber [of e flag] by (auto simp: sv_UnsubscribeBackgroundTask_def)
next
  case (ReqAuthFromUser p cb)
  then show ?thesis
    using assms refused_version [of e "cp_requestAuthApiVersion p"] refusals_not_ok
    by (auto simp: sv_RequestAuthFromUser_def dropped_def Let_def)
next
  case (ReqCheckAuth i v)
  then show ?thesis
    using assms refused_version [of e v] refusals_not_ok by (auto simp: sv_CheckSpecialScenarioAuth_def Let_def)
next
  case (ReqSetTaskState i)
  then show ?thesis
    using assms refused_system [of e SET_BACKGROUND_TASK_STATE_PERMISSION] refusals_not_ok
    by (auto simp: sv_SetBackgroundTaskState_def Let_def)
next
  case (ReqGetTaskState i)
  then show ?thesis
    using assms refused_system [of e SET_BACKGROUND_TASK_STATE_PERMISSION] refusals_not_ok
    by (auto simp: sv_GetBackgroundTaskState_def Let_def)
next
  case ReqAllTasksBySystem
  then show ?thesis
    using assms refused_system [of e GET_BACKGROUND_TASK_INFO_PERMISSION] refusals_not_ok
    by (auto simp: sv_GetAllContinuousTasksBySystem_def Let_def)
qed (use assms in \<open>simp_all add: refused_checks refusals_def dropped_def CheckAtomicService_def AllowDump_def
  sv_RequestSuspendDelay_def sv_StartBackgroundRunning_def sv_UpdateBackgroundRunning_def sv_GetTransientTaskApps_def
  sv_GetEfficiencyResourcesInfos_def sv_StopContinuousTask_def sv_SuspendContinuousTask_def sv_ActiveContinuousTask_def
  sv_RequestGetContinuousTasksByUidForInner_def sv_AVSessionNotifyUpdateNotification_def sv_SetBgTaskConfig_def
  sv_SuspendContinuousAudioTask_def sv_IsModeSupported_def sv_SetSupportedTaskKeepingProcesses_def
  sv_SetMaliciousAppConfig_def sv_CheckTaskAuthResult_def sv_EnableContinuousTaskRequest_def
  sv_SetSpecialExemptedProcess_def sv_GetAllContinuousTaskApps_def sv_SendNotificationByDeteTask_def
  sv_RemoveAuthRecord_def sv_UpdateDataTransferProgress_def sv_Dump_def\<close>)

section \<open>A running service\<close>

text \<open>
  The first start with all services there but those the efficiency manager waits for; they are added
  one by one, and the service is published. The calling app is 100.
\<close>

definition demo_senv :: senv where
  "demo_senv =
     \<lparr>se_tokenType = TOKEN_HAP, se_callingUid = 100, se_callingPid = 7, se_atomicService = False, se_engMode = 0,
      se_dumpPermission = False, se_dumpSaved = True, se_eventPublished = True, se_published = True, se_runner = True,
      se_quotaLib = False, se_abilities = Some (\<lambda>_. True),
      se_ability = (\<lambda>i. if i = 501 then APP_MGR_SERVICE_ID else if i = 401 then BUNDLE_MGR_SERVICE_SYS_ABILITY_ID
                        else RES_SCHED_SYS_ABILITY_ID),
      se_suspendFile = None, se_bgtaskFile = None, se_parse = (\<lambda>_. None), se_transient = demo_env 5000,
      se_efficiency = demo_eenv 0, se_continuous = cont_env\<rparr>"

definition demo_native :: senv where
  "demo_native = demo_senv\<lparr>se_tokenType := TOKEN_NATIVE, se_callingUid := 1201\<rparr>"

definition demo_add :: "int \<Rightarrow> BackgroundTaskMgrService \<Rightarrow> BackgroundTaskMgrService" where
  "demo_add i s = (case sv_OnAddSystemAbility demo_senv i s of Inl _ \<Rightarrow> s | Inr s' \<Rightarrow> s')"

definition demo_first :: BackgroundTaskMgrService where
  "demo_first = (case OnStart demo_senv (new_BackgroundTaskMgrService None None None) of
     Inr s \<Rightarrow> s | Inl _ \<Rightarrow> new_BackgroundTaskMgrService None None None)"

definition demo_service :: BackgroundTaskMgrService where
  "demo_service = demo_add 1901 (demo_add 401 (demo_add 501 demo_first))"

lemma demo_start: "OnStart demo_senv (new_BackgroundTaskMgrService None None None) = Inr demo_first"
  by (simp add: OnStart_def sv_Init_def sv_ready_transient_def sv_ready_continuous_def SetReady_def Let_def
      new_BackgroundTaskMgrService_def tm_Init_def InitNecessaryState_def demo_senv_def demo_first_def
      split_beta)

lemma demo_add_step:
  assumes reach: "sv_reach 600000 s" and ok: "\<not> isl (sv_OnAddSystemAbility demo_senv i s)"
    and stored: "er_stored (sv_efficiency s) = None" "er_appResourceApplyMap (sv_efficiency s) = []"
      "er_procResourceApplyMap (sv_efficiency s) = []"
  shows "sv_reach 600000 (demo_add i s)"
proof -
  obtain s' where "sv_OnAddSystemAbility demo_senv i s = Inr s'" using ok by (cases "sv_OnAddSystemAbility demo_senv i s") auto
  then show ?thesis
    using sr_step [OF reach st_added [OF recovery_exact_empty [OF stored]]] by (simp add: demo_add_def)
qed

lemma demo_service_reach: "sv_reach 600000 demo_service"
proof -
  have "sv_reach 600000 demo_first"
    by (rule sr_start [OF _ _ _ demo_start]) (simp_all add: demo_senv_def cont_env_def)
  then have "sv_reach 600000 (demo_add 501 demo_first)" by (rule demo_add_step) code_simp+
  then have "sv_reach 600000 (demo_add 401 (demo_add 501 demo_first))" by (rule demo_add_step) code_simp+
  then show ?thesis unfolding demo_service_def by (rule demo_add_step) code_simp+
qed

lemma demo_service_running: "sv_state demo_service = STATE_RUNNING" "sv_dependsReady demo_service = 7"
  by code_simp+

theorem callers_refused_witness:
  "\<not> admits demo_senv (caller_rule (ReqStopTask 200 8 LOCATION ''200_Main_1'')) \<and>
   (\<exists>c \<in> refusals. sv_handle demo_senv (ReqStopTask 200 8 LOCATION ''200_Main_1'') demo_service = Inr (c, demo_service))"
proof -
  have n: "\<not> admits demo_senv (caller_rule (ReqStopTask 200 8 LOCATION ''200_Main_1''))"
    by (simp add: demo_senv_def service_caller_def)
  from callers_refused [OF this, of demo_service] n show ?thesis by blast
qed

section \<open>The managers inside the service\<close>



section \<open>Subscription\<close>

text \<open>Each manager: what subscribing a new object appends, unsubscribing takes away.\<close>

lemma continuous_subscription:
  assumes "si_subscriber si \<notin> si_subscriber ` set (cm_bgTaskSubscribers m)" and "\<not> si_isHap si"
  shows "AddSubscriber (Some si) m = (ERR_OK, m\<lparr>cm_bgTaskSubscribers := cm_bgTaskSubscribers m @ [si]\<rparr>)"
    and "RemoveSubscriber (Some (Some (si_subscriber si))) flag (m\<lparr>cm_bgTaskSubscribers := cm_bgTaskSubscribers m @ [si]\<rparr>) = (ERR_OK, m)"
proof -
  have none: "find (\<lambda>t. si_subscriber t = si_subscriber si) (cm_bgTaskSubscribers m) = None"
    using assms(1) unfolding find_None_iff by (metis imageI)
  then show "AddSubscriber (Some si) m = (ERR_OK, m\<lparr>cm_bgTaskSubscribers := cm_bgTaskSubscribers m @ [si]\<rparr>)"
    by (simp add: AddSubscriber_def AddSubscriberInner_def)
  have "find P (xs @ [x]) = Some x" if "find P xs = None" "P x" for P and x :: SubscriberInfo and xs
    using that by (induction xs) (auto split: if_splits)
  then have "find (\<lambda>t. si_subscriber t = si_subscriber si) (cm_bgTaskSubscribers m @ [si]) = Some si"
    using none by simp
  then show "RemoveSubscriber (Some (Some (si_subscriber si))) flag (m\<lparr>cm_bgTaskSubscribers := cm_bgTaskSubscribers m @ [si]\<rparr>) = (ERR_OK, m)"
    using assms by (auto simp: RemoveSubscriber_def RemoveSubscriberInner_def Let_def remove1_append)
qed

lemma transient_subscription:
  assumes "remote \<notin> set (tm_subscriberList m)"
  shows "\<exists>m1. tm_SubscribeBackgroundTask (Some (Some remote)) m = (ERR_OK, m1) \<and>
      tm_subscriberList m1 = tm_subscriberList m @ [remote] \<and>
      (\<exists>m2. tm_UnsubscribeBackgroundTask (Some (Some remote)) m1 = (ERR_OK, m2) \<and> tm_subscriberList m2 = tm_subscriberList m)"
  using assms by (simp add: tm_SubscribeBackgroundTask_def tm_UnsubscribeBackgroundTask_def tm_emit_def Let_def remove1_append)

lemma resource_subscription:
  assumes "remote \<notin> set (er_subscriberList m)"
  shows "er_AddSubscriber (Some (Some remote)) m = (ERR_OK, m\<lparr>er_subscriberList := er_subscriberList m @ [remote]\<rparr>)"
    and "er_RemoveSubscriber (Some (Some remote)) (m\<lparr>er_subscriberList := er_subscriberList m @ [remote]\<rparr>) = (ERR_OK, m)"
  using assms
  by (simp_all add: er_AddSubscriber_def er_RemoveSubscriber_def rs_AddSubscriber_def rs_RemoveSubscriber_def remove1_append)

text \<open>The objects that hear of changes, by manager.\<close>

definition subscribers_of :: "BackgroundTaskMgrService \<Rightarrow> nat list \<times> nat list \<times> SubscriberInfo list" where
  "subscribers_of s = (tm_subscriberList (sv_transient s), er_subscriberList (sv_efficiency s),
     cm_bgTaskSubscribers (sv_continuous s))"

text \<open>
  C31: a system service or the shell that subscribes with a remote object none of the managers knows
  is a subscriber of all three managers afterwards, and unsubscribing it, by any system service and
  with any flag, takes it out of all three again and leaves the other subscribers in their order.
\<close>

theorem subscription_round_trip:
  assumes callers: "service_caller e" "service_caller e'"
    and new: "subscribers_of s = (ts, rs, cs)" "remote \<notin> set ts" "remote \<notin> set rs" "remote \<notin> si_subscriber ` set cs"
  shows "\<exists>s1 s2 si. sv_SubscribeBackgroundTask e (Some (Some remote)) flag s = (ERR_OK, s1) \<and>
     subscribers_of s1 = (ts @ [remote], rs @ [remote], cs @ [si]) \<and> si_subscriber si = remote \<and>
     sv_UnsubscribeBackgroundTask e' (Some (Some remote)) flag' s1 = (ERR_OK, s2) \<and> subscribers_of s2 = (ts, rs, cs)"
proof -
  have allowed: "check_subscriber e flag = Inr False" "check_subscriber e' flag' = Inr False"
    using callers by (auto simp: check_subscriber_def refused_checks CheckHapCalling_def Let_def split: prod.splits)
  define si where "si = \<lparr>si_subscriber = remote, si_uid = se_callingUid e, si_pid = se_callingPid e, si_isHap = False, si_flag = flag\<rparr>"
  have si: "si_subscriber si = remote" "\<not> si_isHap si" by (simp_all add: si_def)
  have "remote \<notin> set (tm_subscriberList (sv_transient s))" using new by (simp add: subscribers_of_def)
  then obtain m1 m2 where tm: "tm_SubscribeBackgroundTask (Some (Some remote)) (sv_transient s) = (ERR_OK, m1)"
      "tm_subscriberList m1 = tm_subscriberList (sv_transient s) @ [remote]"
      "tm_UnsubscribeBackgroundTask (Some (Some remote)) m1 = (ERR_OK, m2)"
      "tm_subscriberList m2 = tm_subscriberList (sv_transient s)"
    using transient_subscription by blast
  have cm: "AddSubscriber (Some si) (sv_continuous s) = (ERR_OK, (sv_continuous s)\<lparr>cm_bgTaskSubscribers := cs @ [si]\<rparr>)"
    "RemoveSubscriber (Some (Some remote)) flag' ((sv_continuous s)\<lparr>cm_bgTaskSubscribers := cs @ [si]\<rparr>) = (ERR_OK, sv_continuous s)"
    using continuous_subscription [of si "sv_continuous s"] new si by (simp_all add: subscribers_of_def)
  have er: "er_AddSubscriber (Some (Some remote)) (sv_efficiency s) = (ERR_OK, (sv_efficiency s)\<lparr>er_subscriberList := rs @ [remote]\<rparr>)"
    "er_RemoveSubscriber (Some (Some remote)) ((sv_efficiency s)\<lparr>er_subscriberList := rs @ [remote]\<rparr>) = (ERR_OK, sv_efficiency s)"
    using resource_subscription [of remote "sv_efficiency s"] new by (simp_all add: subscribers_of_def)
  define s1 where "s1 = s\<lparr>sv_continuous := (sv_continuous s)\<lparr>cm_bgTaskSubscribers := cs @ [si]\<rparr>, sv_transient := m1,
    sv_efficiency := (sv_efficiency s)\<lparr>er_subscriberList := rs @ [remote]\<rparr>\<rparr>"
  define s2 where "s2 = s1\<lparr>sv_continuous := sv_continuous s, sv_transient := m2, sv_efficiency := sv_efficiency s\<rparr>"
  have "sv_SubscribeBackgroundTask e (Some (Some remote)) flag s = (ERR_OK, s1)"
    using allowed tm cm er by (simp add: sv_SubscribeBackgroundTask_def subscriber_info_def Let_def flip: si_def, simp add: s1_def)
  moreover have "sv_UnsubscribeBackgroundTask e' (Some (Some remote)) flag' s1 = (ERR_OK, s2)"
    using allowed tm cm er by (simp add: sv_UnsubscribeBackgroundTask_def Let_def s1_def s2_def)
  moreover have "subscribers_of s1 = (ts @ [remote], rs @ [remote], cs @ [si])" "subscribers_of s2 = (ts, rs, cs)"
    using new tm by (simp_all add: subscribers_of_def s1_def s2_def)
  ultimately show ?thesis using si by blast
qed

theorem subscription_round_trip_witness:
  "\<exists>s1 s2 si. sv_SubscribeBackgroundTask demo_native (Some (Some 9)) 2 demo_service = (ERR_OK, s1) \<and>
     subscribers_of s1 = ([9], [9], [si]) \<and> si_subscriber si = 9 \<and>
     sv_UnsubscribeBackgroundTask demo_native (Some (Some 9)) 2 s1 = (ERR_OK, s2) \<and> subscribers_of s2 = ([], [], [])"
proof -
  have "service_caller demo_native" by (simp add: service_caller_def demo_native_def)
  moreover have "subscribers_of demo_service = ([], [], [])" by code_simp
  ultimately show ?thesis using subscription_round_trip [of demo_native demo_native demo_service "[]" "[]" "[]" 9 2 2] by simp
qed

end
