(* ===== verification/Parcel.thy ===== *)
theory Parcel
  imports ContinuousState
begin

text \<open>
  Parcels: the sequences of values in which data crosses the process border. The class \<^verbatim>\<open>Parcel\<close> and
  the conversions between UTF-8 and UTF-16 belong to another repository; they are a record of
  functions, \<open>parcel_lib\<close>, and \<open>parcel_laws\<close> states of them what their documentation promises: what has
  been written is read in the same order. A write gives whether it succeeded, a read the value or
  nothing, and both the parcel afterwards.
\<close>

section \<open>The library\<close>

type_synonym str16 = "16 word list"

record 'p parcel_lib =
  pl_WriteBool :: "bool \<Rightarrow> 'p \<Rightarrow> bool \<times> 'p"
  pl_ReadBool :: "'p \<Rightarrow> bool option \<times> 'p"
  pl_WriteInt32 :: "int \<Rightarrow> 'p \<Rightarrow> bool \<times> 'p"
  pl_ReadInt32 :: "'p \<Rightarrow> int option \<times> 'p"
  pl_WriteUint32 :: "32 word \<Rightarrow> 'p \<Rightarrow> bool \<times> 'p"
  pl_ReadUint32 :: "'p \<Rightarrow> 32 word option \<times> 'p"
  pl_WriteUint64 :: "nat \<Rightarrow> 'p \<Rightarrow> bool \<times> 'p"
  pl_ReadUint64 :: "'p \<Rightarrow> nat option \<times> 'p"
  pl_WriteString :: "string \<Rightarrow> 'p \<Rightarrow> bool \<times> 'p"
  pl_ReadString :: "'p \<Rightarrow> string option \<times> 'p"
  pl_WriteString16 :: "str16 \<Rightarrow> 'p \<Rightarrow> bool \<times> 'p"
  pl_ReadString16 :: "'p \<Rightarrow> str16 option \<times> 'p"
  pl_WriteUInt32Vector :: "32 word list \<Rightarrow> 'p \<Rightarrow> bool \<times> 'p"
  pl_ReadUInt32Vector :: "'p \<Rightarrow> 32 word list option \<times> 'p"
  pl_WriteWantAgent :: "Want option \<Rightarrow> 'p \<Rightarrow> bool \<times> 'p"
  pl_ReadWantAgent :: "'p \<Rightarrow> Want option option \<times> 'p"
  pl_WriteObject :: "'p \<Rightarrow> bool \<times> 'p"
  pl_ReadObject :: "'p \<Rightarrow> unit option \<times> 'p"
  pl_Str8ToStr16 :: "string \<Rightarrow> str16"
  pl_Str16ToStr8 :: "str16 \<Rightarrow> string"

text \<open>
  \<^verbatim>\<open>WriteParcelable\<close> of an object of this repository marks that an object follows
  (\<open>pl_WriteObject\<close>) and calls its \<^verbatim>\<open>Marshalling\<close>; \<^verbatim>\<open>ReadParcelable\<close> the reverse.
\<close>

datatype item =
    IBool bool | IInt32 int | IUint32 "32 word" | IUint64 nat | IString string | IString16 str16
  | IVector "32 word list" | IAgent "Want option" | IObject

definition writes_back :: "('p \<Rightarrow> item list) \<Rightarrow> ('p \<Rightarrow> bool \<times> 'p) \<Rightarrow> item list \<Rightarrow> bool" where
  "writes_back unread w is \<longleftrightarrow> (\<forall>p p'. w p = (True, p') \<longrightarrow> unread p' = unread p @ is)"

definition reads_off :: "('p \<Rightarrow> item list) \<Rightarrow> ('p \<Rightarrow> 'a option \<times> 'p) \<Rightarrow> 'a \<Rightarrow> item list \<Rightarrow> bool" where
  "reads_off unread r x is \<longleftrightarrow> (\<forall>p rest. unread p = is @ rest \<longrightarrow> (\<exists>p'. r p = (Some x, p') \<and> unread p' = rest))"

text \<open>A value of each kind, written and read back; strings that are UTF-8 survive the conversions.\<close>

definition parcel_laws :: "'p parcel_lib \<Rightarrow> ('p \<Rightarrow> item list) \<Rightarrow> (string \<Rightarrow> bool) \<Rightarrow> bool" where
  "parcel_laws L unread utf8 \<longleftrightarrow>
     (\<forall>b. writes_back unread (pl_WriteBool L b) [IBool b] \<and> reads_off unread (pl_ReadBool L) b [IBool b]) \<and>
     (\<forall>i. is_i32 i \<longrightarrow> writes_back unread (pl_WriteInt32 L i) [IInt32 i] \<and> reads_off unread (pl_ReadInt32 L) i [IInt32 i]) \<and>
     (\<forall>w. writes_back unread (pl_WriteUint32 L w) [IUint32 w] \<and> reads_off unread (pl_ReadUint32 L) w [IUint32 w]) \<and>
     (\<forall>n < 18446744073709551616.
        writes_back unread (pl_WriteUint64 L n) [IUint64 n] \<and> reads_off unread (pl_ReadUint64 L) n [IUint64 n]) \<and>
     (\<forall>s. writes_back unread (pl_WriteString L s) [IString s] \<and> reads_off unread (pl_ReadString L) s [IString s]) \<and>
     (\<forall>s. writes_back unread (pl_WriteString16 L s) [IString16 s] \<and> reads_off unread (pl_ReadString16 L) s [IString16 s]) \<and>
     (\<forall>v. writes_back unread (pl_WriteUInt32Vector L v) [IVector v] \<and>
          reads_off unread (pl_ReadUInt32Vector L) v [IVector v]) \<and>
     (\<forall>a. writes_back unread (pl_WriteWantAgent L a) [IAgent a] \<and> reads_off unread (pl_ReadWantAgent L) a [IAgent a]) \<and>
     writes_back unread (pl_WriteObject L) [IObject] \<and> reads_off unread (pl_ReadObject L) () [IObject] \<and>
     (\<forall>s. utf8 s \<longrightarrow> pl_Str16ToStr8 L (pl_Str8ToStr16 L s) = s)"

section \<open>Sequences of writes and reads\<close>

text \<open>
  The macros \<^verbatim>\<open>WRITE_PARCEL_WITH_RET\<close> and \<^verbatim>\<open>READ_PARCEL_WITH_RET\<close>, and the checks written out in the
  same way: the first failure ends the sequence.
\<close>

fun write_all :: "('p \<Rightarrow> bool \<times> 'p) list \<Rightarrow> 'p \<Rightarrow> bool \<times> 'p" where
  "write_all [] p = (True, p)"
| "write_all (w # ws) p = (case w p of (ok, p') \<Rightarrow> if ok then write_all ws p' else (False, p'))"

definition write_when :: "bool \<Rightarrow> ('p \<Rightarrow> bool \<times> 'p) \<Rightarrow> 'p \<Rightarrow> bool \<times> 'p" where
  "write_when b w = (if b then w else (\<lambda>p. (True, p)))"

definition write16 :: "'p parcel_lib \<Rightarrow> string \<Rightarrow> 'p \<Rightarrow> bool \<times> 'p" where
  "write16 L s = pl_WriteString16 L (pl_Str8ToStr16 L s)"

definition then_read :: "('p \<Rightarrow> 'a option \<times> 'p) \<Rightarrow> ('a \<Rightarrow> 'p \<Rightarrow> 'b option \<times> 'p) \<Rightarrow> 'p \<Rightarrow> 'b option \<times> 'p" where
  "then_read r f p = (case r p of (None, p') \<Rightarrow> (None, p') | (Some x, p') \<Rightarrow> f x p')"

definition give :: "'a \<Rightarrow> 'p \<Rightarrow> 'a option \<times> 'p" where
  "give x p = (Some x, p)"

definition read_when :: "bool \<Rightarrow> ('p \<Rightarrow> 'a option \<times> 'p) \<Rightarrow> 'a \<Rightarrow> 'p \<Rightarrow> 'a option \<times> 'p" where
  "read_when b r x = (if b then r else give x)"

definition read16 :: "'p parcel_lib \<Rightarrow> 'p \<Rightarrow> string option \<times> 'p" where
  "read16 L = then_read (pl_ReadString16 L) (\<lambda>s. give (pl_Str16ToStr8 L s))"

text \<open>Reads whose outcome is not checked: the default value stands for a failure.\<close>

definition read_or :: "'a \<Rightarrow> ('p \<Rightarrow> 'a option \<times> 'p) \<Rightarrow> 'p \<Rightarrow> 'a option \<times> 'p" where
  "read_or d r p = (case r p of (None, p') \<Rightarrow> (Some d, p') | (Some x, p') \<Rightarrow> (Some x, p'))"

section \<open>Laws of sequences\<close>

lemma writes_back_all:
  "writes_back unread (write_all []) []"
  "writes_back unread w is \<Longrightarrow> writes_back unread (write_all ws) js \<Longrightarrow> writes_back unread (write_all (w # ws)) (is @ js)"
  by (auto simp: writes_back_def split: prod.splits if_splits)

lemma writes_back_when:
  "(b \<Longrightarrow> writes_back unread w is) \<Longrightarrow> writes_back unread (write_when b w) (if b then is else [])"
  by (auto simp: writes_back_def write_when_def)

lemma reads_off_then:
  assumes "reads_off unread r x is" and "reads_off unread (f x) y js"
  shows "reads_off unread (then_read r f) y (is @ js)"
  unfolding reads_off_def
proof (intro allI impI)
  fix p rest
  assume "unread p = (is @ js) @ rest"
  then obtain p1 where "r p = (Some x, p1)" "unread p1 = js @ rest" using assms(1) by (auto simp: reads_off_def)
  then show "\<exists>p'. then_read r f p = (Some y, p') \<and> unread p' = rest"
    using assms(2) by (auto simp: reads_off_def then_read_def)
qed

lemma reads_off_give: "reads_off unread (give x) x []"
  by (simp add: reads_off_def give_def)

lemma reads_off_when:
  "(b \<Longrightarrow> reads_off unread r x is) \<Longrightarrow> (\<not> b \<Longrightarrow> x = d) \<Longrightarrow> reads_off unread (read_when b r d) x (if b then is else [])"
  by (simp add: read_when_def reads_off_give)

lemma reads_off_or: "reads_off unread r x is \<Longrightarrow> reads_off unread (read_or d r) x is"
  unfolding reads_off_def read_or_def by (fastforce split: prod.splits option.splits)

text \<open>A pointer that may be null: a flag, and the object behind it when there is one.\<close>

definition write_optional :: "'p parcel_lib \<Rightarrow> ('a \<Rightarrow> 'p \<Rightarrow> bool \<times> 'p) \<Rightarrow> 'a option \<Rightarrow> 'p \<Rightarrow> bool \<times> 'p" where
  "write_optional L w x =
     write_all [pl_WriteBool L (x \<noteq> None), (case x of None \<Rightarrow> write_all [] | Some y \<Rightarrow> w y)]"

definition read_optional :: "'p parcel_lib \<Rightarrow> ('p \<Rightarrow> 'a option \<times> 'p) \<Rightarrow> 'p \<Rightarrow> 'a option option \<times> 'p" where
  "read_optional L r =
     then_read (read_or False (pl_ReadBool L)) (\<lambda>valid. read_when valid (then_read r (\<lambda>y. give (Some y))) None)"

definition items_optional :: "('a \<Rightarrow> item list) \<Rightarrow> 'a option \<Rightarrow> item list" where
  "items_optional f x = IBool (x \<noteq> None) # (case x of None \<Rightarrow> [] | Some y \<Rightarrow> f y)"

lemma parcel_lawsD:
  assumes "parcel_laws L unread utf8"
  shows "writes_back unread (pl_WriteBool L b) [IBool b]" "reads_off unread (pl_ReadBool L) b [IBool b]"
    "is_i32 i \<Longrightarrow> writes_back unread (pl_WriteInt32 L i) [IInt32 i]"
    "is_i32 i \<Longrightarrow> reads_off unread (pl_ReadInt32 L) i [IInt32 i]"
    "writes_back unread (pl_WriteUint32 L w) [IUint32 w]" "reads_off unread (pl_ReadUint32 L) w [IUint32 w]"
    "n < 18446744073709551616 \<Longrightarrow> writes_back unread (pl_WriteUint64 L n) [IUint64 n]"
    "n < 18446744073709551616 \<Longrightarrow> reads_off unread (pl_ReadUint64 L) n [IUint64 n]"
    "writes_back unread (pl_WriteString L s) [IString s]" "reads_off unread (pl_ReadString L) s [IString s]"
    "writes_back unread (pl_WriteString16 L u) [IString16 u]" "reads_off unread (pl_ReadString16 L) u [IString16 u]"
    "writes_back unread (pl_WriteUInt32Vector L v) [IVector v]" "reads_off unread (pl_ReadUInt32Vector L) v [IVector v]"
    "writes_back unread (pl_WriteWantAgent L a) [IAgent a]" "reads_off unread (pl_ReadWantAgent L) a [IAgent a]"
    "writes_back unread (pl_WriteObject L) [IObject]" "reads_off unread (pl_ReadObject L) () [IObject]"
    "utf8 s \<Longrightarrow> pl_Str16ToStr8 L (pl_Str8ToStr16 L s) = s"
  using assms unfolding parcel_laws_def by blast+

lemma reads_off_given: "y = x \<Longrightarrow> reads_off unread (give y) x []"
  by (simp add: reads_off_give)

lemma writes_back_optional:
  assumes "parcel_laws L unread utf8" and "\<And>y. x = Some y \<Longrightarrow> writes_back unread (w y) (f y)"
  shows "writes_back unread (write_optional L w x) (items_optional f x)"
proof (cases x)
  case None
  then show ?thesis
    using writes_back_all(2) [OF parcel_lawsD(1) [OF assms(1), of False] writes_back_all(2) [OF writes_back_all(1) writes_back_all(1)]]
    by (simp add: write_optional_def items_optional_def)
next
  case (Some y)
  then show ?thesis
    using writes_back_all(2) [OF parcel_lawsD(1) [OF assms(1), of True] writes_back_all(2) [OF assms(2) [OF Some] writes_back_all(1)]]
    by (simp add: write_optional_def items_optional_def)
qed

lemma reads_off_optional:
  assumes "parcel_laws L unread utf8" and "\<And>y. x = Some y \<Longrightarrow> reads_off unread r y (f y)"
  shows "reads_off unread (read_optional L r) x (items_optional f x)"
proof -
  have flag: "reads_off unread (read_or False (pl_ReadBool L)) b [IBool b]" for b
    by (rule reads_off_or, rule parcel_lawsD(2) [OF assms(1)])
  show ?thesis
  proof (cases x)
    case None
    then show ?thesis
      using reads_off_then [OF flag [of False], of "\<lambda>valid. read_when valid (then_read r (\<lambda>y. give (Some y))) None" None "[]"]
      by (simp add: read_optional_def items_optional_def read_when_def reads_off_give)
  next
    case (Some y)
    have "reads_off unread (then_read r (\<lambda>y. give (Some y))) (Some y) (f y @ [])"
      by (rule reads_off_then [OF assms(2) [OF Some] reads_off_give])
    then show ?thesis
      using Some reads_off_then [OF flag [of True], of "\<lambda>valid. read_when valid (then_read r (\<lambda>y. give (Some y))) None" "Some y" "f y"]
      by (simp add: read_optional_def items_optional_def read_when_def)
  qed
qed

lemma writes_back16: "parcel_laws L unread utf8 \<Longrightarrow> writes_back unread (write16 L s) [IString16 (pl_Str8ToStr16 L s)]"
  unfolding write16_def by (rule parcel_lawsD)

lemma reads_off16:
  assumes "parcel_laws L unread utf8" and "utf8 s"
  shows "reads_off unread (read16 L) s [IString16 (pl_Str8ToStr16 L s)]"
  using reads_off_then [OF parcel_lawsD(12) [OF assms(1)], of "\<lambda>s. give (pl_Str16ToStr8 L s)" "pl_Str8ToStr16 L s" s "[]"]
    parcel_lawsD(19) [where s = s, OF assms(1) assms(2)]
  by (simp add: read16_def reads_off_give)

lemmas parcel_writes = parcel_lawsD(1,3,5,7,9,11,13,15,17) writes_back16
lemmas parcel_reads = parcel_lawsD(2,4,6,8,10,12,14,16,18) reads_off16

end
