(* ===== verification/ParcelTypes.thy ===== *)
theory ParcelTypes
  imports Parcel ResourceRecord TransientEnv
begin

text \<open>
  The data that crosses the interface of the service, written to and read from parcels
  (\<^verbatim>\<open>Marshalling\<close>, \<^verbatim>\<open>ReadFromParcel\<close> and \<^verbatim>\<open>Unmarshalling\<close> of \<^verbatim>\<open>interfaces/innerkits/src\<close>). A null result
  of \<^verbatim>\<open>Unmarshalling\<close> is \<open>None\<close>. For every class the values that a parcel holds of it (\<open>items\<close>), and
  that writing and reading agree on them.
\<close>

section \<open>Data of the efficiency resources and transient tasks\<close>

record DelaySuspendInfo =
  ds_requestId :: int
  ds_actualDelayTime :: int

definition Marshalling_DelaySuspendInfo :: "'p parcel_lib \<Rightarrow> DelaySuspendInfo \<Rightarrow> 'p \<Rightarrow> bool \<times> 'p" where
  "Marshalling_DelaySuspendInfo L d =
     write_all [pl_WriteInt32 L (ds_requestId d), pl_WriteInt32 L (ds_actualDelayTime d)]"

definition Unmarshalling_DelaySuspendInfo :: "'p parcel_lib \<Rightarrow> 'p \<Rightarrow> DelaySuspendInfo option \<times> 'p" where
  "Unmarshalling_DelaySuspendInfo L =
     then_read (pl_ReadInt32 L) (\<lambda>i. then_read (pl_ReadInt32 L) (\<lambda>t.
       give \<lparr>ds_requestId = i, ds_actualDelayTime = t\<rparr>))"

definition Marshalling_TransientTaskAppInfo :: "'p parcel_lib \<Rightarrow> TransientTaskAppInfo \<Rightarrow> 'p \<Rightarrow> bool \<times> 'p" where
  "Marshalling_TransientTaskAppInfo L i =
     write_all [write16 L (ta_packageName i), pl_WriteInt32 L (ta_uid i), pl_WriteInt32 L (ta_pid i)]"

definition Unmarshalling_TransientTaskAppInfo :: "'p parcel_lib \<Rightarrow> 'p \<Rightarrow> TransientTaskAppInfo option \<times> 'p" where
  "Unmarshalling_TransientTaskAppInfo L =
     then_read (read_or [] (pl_ReadString16 L)) (\<lambda>package. then_read (pl_ReadInt32 L) (\<lambda>uid.
     then_read (pl_ReadInt32 L) (\<lambda>pid.
       give \<lparr>ta_packageName = pl_Str16ToStr8 L package, ta_uid = uid, ta_pid = pid\<rparr>)))"

definition Marshalling_EfficiencyResourceInfo :: "'p parcel_lib \<Rightarrow> EfficiencyResourceInfo \<Rightarrow> 'p \<Rightarrow> bool \<times> 'p" where
  "Marshalling_EfficiencyResourceInfo L r =
     write_all
       [pl_WriteUint32 L (ri_resourceNumber r), pl_WriteBool L (ri_isApply r), pl_WriteUint32 L (ri_timeOut r),
        pl_WriteString L (ri_reason r), pl_WriteBool L (ri_isPersist r), pl_WriteBool L (ri_isProcess r),
        pl_WriteInt32 L (ri_uid r), pl_WriteInt32 L (ri_pid r), pl_WriteInt32 L (ri_cpuLevel r)]"

definition Unmarshalling_EfficiencyResourceInfo :: "'p parcel_lib \<Rightarrow> 'p \<Rightarrow> EfficiencyResourceInfo option \<times> 'p" where
  "Unmarshalling_EfficiencyResourceInfo L =
     then_read (pl_ReadUint32 L) (\<lambda>number. then_read (pl_ReadBool L) (\<lambda>isApply.
     then_read (pl_ReadUint32 L) (\<lambda>timeOut. then_read (pl_ReadString L) (\<lambda>reason.
     then_read (pl_ReadBool L) (\<lambda>isPersist. then_read (pl_ReadBool L) (\<lambda>isProcess.
     then_read (pl_ReadInt32 L) (\<lambda>uid. then_read (pl_ReadInt32 L) (\<lambda>pid. then_read (pl_ReadInt32 L) (\<lambda>cpuLevel.
       give \<lparr>ri_resourceNumber = number, ri_isApply = isApply, ri_timeOut = timeOut, ri_reason = reason,
             ri_isPersist = isPersist, ri_isProcess = isProcess, ri_uid = uid, ri_pid = pid,
             ri_cpuLevel = cpuLevel\<rparr>)))))))))"

definition Marshalling_ResourceCallbackInfo :: "'p parcel_lib \<Rightarrow> ResourceCallbackInfo \<Rightarrow> 'p \<Rightarrow> bool \<times> 'p" where
  "Marshalling_ResourceCallbackInfo L c =
     write_all
       [pl_WriteInt32 L (ci_uid c), pl_WriteInt32 L (ci_pid c), pl_WriteUint32 L (ci_resourceNumber c),
        pl_WriteString L (ci_bundleName c), pl_WriteInt32 L (ci_cpuLevel c)]"

definition Unmarshalling_ResourceCallbackInfo :: "'p parcel_lib \<Rightarrow> 'p \<Rightarrow> ResourceCallbackInfo option \<times> 'p" where
  "Unmarshalling_ResourceCallbackInfo L =
     then_read (pl_ReadInt32 L) (\<lambda>uid. then_read (pl_ReadInt32 L) (\<lambda>pid. then_read (pl_ReadUint32 L) (\<lambda>number.
     then_read (pl_ReadString L) (\<lambda>name. then_read (pl_ReadInt32 L) (\<lambda>cpuLevel.
       give \<lparr>ci_uid = uid, ci_pid = pid, ci_resourceNumber = number, ci_bundleName = name, ci_cpuLevel = cpuLevel\<rparr>)))))"

section \<open>Data of the continuous tasks\<close>

definition Marshalling_ProgressInfo :: "'p parcel_lib \<Rightarrow> ProgressInfo \<Rightarrow> 'p \<Rightarrow> bool \<times> 'p" where
  "Marshalling_ProgressInfo L g =
     write_all [write16 L (pg_title g), write16 L (pg_fileName g), pl_WriteInt32 L (pg_progressValue g),
                pl_WriteBool L (pg_isMute g)]"

definition Unmarshalling_ProgressInfo :: "'p parcel_lib \<Rightarrow> 'p \<Rightarrow> ProgressInfo option \<times> 'p" where
  "Unmarshalling_ProgressInfo L =
     then_read (read16 L) (\<lambda>title. then_read (read16 L) (\<lambda>fileName. then_read (pl_ReadInt32 L) (\<lambda>v.
     then_read (pl_ReadBool L) (\<lambda>isMute.
       give \<lparr>pg_title = title, pg_fileName = fileName, pg_progressValue = v, pg_isMute = isMute\<rparr>))))"

definition write_progress :: "'p parcel_lib \<Rightarrow> ProgressInfo option \<Rightarrow> 'p \<Rightarrow> bool \<times> 'p" where
  "write_progress L = write_optional L (\<lambda>g. write_all [pl_WriteObject L, Marshalling_ProgressInfo L g])"

definition read_progress :: "'p parcel_lib \<Rightarrow> 'p \<Rightarrow> ProgressInfo option option \<times> 'p" where
  "read_progress L = read_optional L (then_read (pl_ReadObject L) (\<lambda>_. Unmarshalling_ProgressInfo L))"

definition Marshalling_DataTransferProgress :: "'p parcel_lib \<Rightarrow> DataTransferProgress \<Rightarrow> 'p \<Rightarrow> bool \<times> 'p" where
  "Marshalling_DataTransferProgress L d =
     write_all [pl_WriteInt32 L (dp_continuousTaskId d), write_optional L (pl_WriteWantAgent L) (dp_wantAgent d),
                write_progress L (dp_progressInfo d)]"

definition Unmarshalling_DataTransferProgress :: "'p parcel_lib \<Rightarrow> 'p \<Rightarrow> DataTransferProgress option \<times> 'p" where
  "Unmarshalling_DataTransferProgress L =
     then_read (pl_ReadInt32 L) (\<lambda>i. then_read (read_optional L (pl_ReadWantAgent L)) (\<lambda>agent.
     then_read (read_progress L) (\<lambda>progress.
       give \<lparr>dp_continuousTaskId = i, dp_wantAgent = agent, dp_progressInfo = progress\<rparr>)))"

definition Marshalling_BackgroundTaskStateInfo :: "'p parcel_lib \<Rightarrow> BackgroundTaskStateInfo \<Rightarrow> 'p \<Rightarrow> bool \<times> 'p" where
  "Marshalling_BackgroundTaskStateInfo L b =
     write_all [pl_WriteInt32 L (bs_userId b), pl_WriteString L (bs_bundleName b), pl_WriteInt32 L (bs_appIndex b),
                pl_WriteInt32 L (bs_authResult b)]"

definition Unmarshalling_BackgroundTaskStateInfo :: "'p parcel_lib \<Rightarrow> 'p \<Rightarrow> BackgroundTaskStateInfo option \<times> 'p" where
  "Unmarshalling_BackgroundTaskStateInfo L =
     then_read (pl_ReadInt32 L) (\<lambda>userId. then_read (pl_ReadString L) (\<lambda>name. then_read (pl_ReadInt32 L) (\<lambda>appIndex.
     then_read (pl_ReadInt32 L) (\<lambda>authResult.
       give \<lparr>bs_userId = userId, bs_bundleName = name, bs_appIndex = appIndex, bs_authResult = authResult\<rparr>))))"

text \<open>The list of modes is written for the batch interface only; what the service fills in is not written.\<close>

definition MarshallingNewApi :: "'p parcel_lib \<Rightarrow> ContinuousTaskParam \<Rightarrow> 'p \<Rightarrow> bool \<times> 'p" where
  "MarshallingNewApi L c =
     write_all
       [pl_WriteUInt32Vector L (cp_bgSubModeIds c), pl_WriteBool L (cp_isCombinedTaskNotification c),
        pl_WriteInt32 L (cp_combinedNotificationTaskId c), pl_WriteInt32 L (cp_updateTaskId c),
        pl_WriteBool L (cp_isByRequestObject c), pl_WriteInt32 L (cp_appIndex c),
        pl_WriteInt32 L (cp_requestAuthApiVersion c), write_progress L (cp_progressInfo c)]"

definition Marshalling_ContinuousTaskParam :: "'p parcel_lib \<Rightarrow> ContinuousTaskParam \<Rightarrow> 'p \<Rightarrow> bool \<times> 'p" where
  "Marshalling_ContinuousTaskParam L c =
     write_all
       [pl_WriteBool L (cp_isNewApi c), pl_WriteUint32 L (cp_bgModeId c),
        write_optional L (pl_WriteWantAgent L) (cp_wantAgent c), write16 L (cp_abilityName c), write16 L (cp_appName c),
        pl_WriteBool L (cp_isBatchApi c), write_when (cp_isBatchApi c) (pl_WriteUInt32Vector L (cp_bgModeIds c)),
        pl_WriteInt32 L (cp_abilityId c), MarshallingNewApi L c]"

text \<open>Fills the members that the first part of the reading leaves alone.\<close>

definition ReadFromParcelNewApi :: "'p parcel_lib \<Rightarrow> ContinuousTaskParam \<Rightarrow> 'p \<Rightarrow> ContinuousTaskParam option \<times> 'p" where
  "ReadFromParcelNewApi L c =
     then_read (pl_ReadUInt32Vector L) (\<lambda>subModes. then_read (pl_ReadBool L) (\<lambda>combined.
     then_read (pl_ReadInt32 L) (\<lambda>combinedId. then_read (pl_ReadInt32 L) (\<lambda>updateId.
     then_read (pl_ReadBool L) (\<lambda>byRequest. then_read (pl_ReadInt32 L) (\<lambda>appIndex. then_read (pl_ReadInt32 L) (\<lambda>apiVersion.
     then_read (read_progress L) (\<lambda>progress.
       give (c\<lparr>cp_bgSubModeIds := subModes, cp_isCombinedTaskNotification := combined,
               cp_combinedNotificationTaskId := combinedId, cp_updateTaskId := updateId,
               cp_isByRequestObject := byRequest, cp_appIndex := appIndex, cp_requestAuthApiVersion := apiVersion,
               cp_progressInfo := progress\<rparr>)))))))))"

definition new_ContinuousTaskParam :: ContinuousTaskParam where
  "new_ContinuousTaskParam =
     \<lparr>cp_isNewApi = False, cp_bgModeId = 0, cp_wantAgent = None, cp_abilityName = '''', cp_appName = '''',
      cp_isBatchApi = False, cp_bgModeIds = [], cp_abilityId = -1, cp_bgSubModeIds = [],
      cp_isCombinedTaskNotification = False, cp_combinedNotificationTaskId = -1, cp_updateTaskId = -1,
      cp_isByRequestObject = False, cp_appIndex = -1, cp_requestAuthApiVersion = 22, cp_progressInfo = None\<rparr>"

definition Unmarshalling_ContinuousTaskParam :: "'p parcel_lib \<Rightarrow> 'p \<Rightarrow> ContinuousTaskParam option \<times> 'p" where
  "Unmarshalling_ContinuousTaskParam L =
     then_read (pl_ReadBool L) (\<lambda>isNewApi. then_read (pl_ReadUint32 L) (\<lambda>mode.
     then_read (read_optional L (pl_ReadWantAgent L)) (\<lambda>agent. then_read (read16 L) (\<lambda>abilityName.
     then_read (read16 L) (\<lambda>appName. then_read (pl_ReadBool L) (\<lambda>isBatchApi.
     then_read (read_when isBatchApi (pl_ReadUInt32Vector L) []) (\<lambda>modes. then_read (pl_ReadInt32 L) (\<lambda>abilityId.
       ReadFromParcelNewApi L
         (new_ContinuousTaskParam\<lparr>cp_isNewApi := isNewApi, cp_bgModeId := mode, cp_wantAgent := agent,
            cp_abilityName := abilityName, cp_appName := appName, cp_isBatchApi := isBatchApi,
            cp_bgModeIds := modes, cp_abilityId := abilityId\<rparr>)))))))))"

definition Marshalling_ContinuousTaskParamForInner :: "'p parcel_lib \<Rightarrow> ContinuousTaskParamForInner \<Rightarrow> 'p \<Rightarrow> bool \<times> 'p" where
  "Marshalling_ContinuousTaskParamForInner L c =
     write_all [pl_WriteBool L (cq_isStart c), pl_WriteUint32 L (cq_bgModeId c), pl_WriteInt32 L (cq_uid c),
                pl_WriteInt32 L (cq_abilityId c), pl_WriteUint64 L (cq_tokenId c), pl_WriteInt32 L (cq_pid c)]"

definition Unmarshalling_ContinuousTaskParamForInner :: "'p parcel_lib \<Rightarrow> 'p \<Rightarrow> ContinuousTaskParamForInner option \<times> 'p" where
  "Unmarshalling_ContinuousTaskParamForInner L =
     then_read (pl_ReadBool L) (\<lambda>isStart. then_read (pl_ReadUint32 L) (\<lambda>mode. then_read (pl_ReadInt32 L) (\<lambda>uid.
     then_read (pl_ReadInt32 L) (\<lambda>abilityId. then_read (pl_ReadUint64 L) (\<lambda>tokenId. then_read (pl_ReadInt32 L) (\<lambda>pid.
       give \<lparr>cq_uid = uid, cq_bgModeId = mode, cq_isStart = isStart, cq_abilityId = abilityId, cq_tokenId = tokenId,
             cq_pid = pid\<rparr>))))))"

definition Marshalling_ContinuousTaskInfo :: "'p parcel_lib \<Rightarrow> ContinuousTaskInfo \<Rightarrow> 'p \<Rightarrow> bool \<times> 'p" where
  "Marshalling_ContinuousTaskInfo L t =
     write_all
       [pl_WriteString L (ti_abilityName t), pl_WriteInt32 L (ti_uid t), pl_WriteInt32 L (ti_pid t),
        pl_WriteBool L (ti_isFromWebView t), pl_WriteUInt32Vector L (ti_backgroundModes t),
        pl_WriteUInt32Vector L (ti_backgroundSubModes t), pl_WriteInt32 L (ti_notificationId t),
        pl_WriteInt32 L (ti_continuousTaskId t), pl_WriteInt32 L (ti_abilityId t),
        pl_WriteString L (ti_wantAgentBundleName t), pl_WriteString L (ti_wantAgentAbilityName t),
        pl_WriteBool L (ti_suspendState t), pl_WriteString L (ti_bundleName t), pl_WriteInt32 L (ti_appIndex t),
        pl_WriteBool L (ti_isByRequestObject t)]"

definition Unmarshalling_ContinuousTaskInfo :: "'p parcel_lib \<Rightarrow> 'p \<Rightarrow> ContinuousTaskInfo option \<times> 'p" where
  "Unmarshalling_ContinuousTaskInfo L =
     then_read (pl_ReadString L) (\<lambda>abilityName. then_read (pl_ReadInt32 L) (\<lambda>uid. then_read (pl_ReadInt32 L) (\<lambda>pid.
     then_read (pl_ReadBool L) (\<lambda>isFromWebView. then_read (pl_ReadUInt32Vector L) (\<lambda>modes.
     then_read (pl_ReadUInt32Vector L) (\<lambda>subModes. then_read (pl_ReadInt32 L) (\<lambda>notificationId.
     then_read (pl_ReadInt32 L) (\<lambda>taskId. then_read (pl_ReadInt32 L) (\<lambda>abilityId.
     then_read (pl_ReadString L) (\<lambda>agentBundle. then_read (pl_ReadString L) (\<lambda>agentAbility.
     then_read (pl_ReadBool L) (\<lambda>suspendState. then_read (pl_ReadString L) (\<lambda>bundleName.
     then_read (pl_ReadInt32 L) (\<lambda>appIndex. then_read (pl_ReadBool L) (\<lambda>byRequest.
       give \<lparr>ti_abilityName = abilityName, ti_uid = uid, ti_pid = pid, ti_isFromWebView = isFromWebView,
             ti_backgroundModes = modes, ti_backgroundSubModes = subModes, ti_notificationId = notificationId,
             ti_continuousTaskId = taskId, ti_abilityId = abilityId, ti_wantAgentBundleName = agentBundle,
             ti_wantAgentAbilityName = agentAbility, ti_suspendState = suspendState, ti_bundleName = bundleName,
             ti_appIndex = appIndex, ti_isByRequestObject = byRequest\<rparr>)))))))))))))))"

definition Marshalling_ContinuousTaskCallbackInfo :: "'p parcel_lib \<Rightarrow> ContinuousTaskCallbackInfo \<Rightarrow> 'p \<Rightarrow> bool \<times> 'p" where
  "Marshalling_ContinuousTaskCallbackInfo L c =
     write_all
       [pl_WriteUint32 L (cb_typeId c), pl_WriteInt32 L (cb_creatorUid c), pl_WriteInt32 L (cb_creatorPid c),
        pl_WriteBool L (cb_isFromWebview c), write16 L (cb_abilityName c), pl_WriteBool L (cb_isBatchApi c),
        pl_WriteUInt32Vector L (cb_typeIds c), pl_WriteInt32 L (cb_abilityId c), pl_WriteUint64 L (cb_tokenId c),
        pl_WriteInt32 L (cb_continuousTaskId c), pl_WriteInt32 L (cb_cancelReason c),
        pl_WriteInt32 L (cb_detailedCancelReason c), pl_WriteBool L (cb_suspendState c),
        pl_WriteInt32 L (cb_suspendReason c), pl_WriteBool L (cb_isByRequestObject c), write16 L (cb_bundleName c),
        pl_WriteInt32 L (cb_userId c), pl_WriteInt32 L (cb_appIndex c),
        pl_WriteUInt32Vector L (cb_backgroundSubModes c), pl_WriteInt32 L (cb_notificationId c),
        write16 L (cb_wantAgentBundleName c), write16 L (cb_wantAgentAbilityName c),
        pl_WriteBool L (cb_cancelCallBackSelf c), pl_WriteBool L (cb_isStandby c),
        pl_WriteBool L (cb_isFromComponent c)]"

definition Unmarshalling_ContinuousTaskCallbackInfo :: "'p parcel_lib \<Rightarrow> 'p \<Rightarrow> ContinuousTaskCallbackInfo option \<times> 'p" where
  "Unmarshalling_ContinuousTaskCallbackInfo L =
     then_read (pl_ReadUint32 L) (\<lambda>typeId. then_read (pl_ReadInt32 L) (\<lambda>creatorUid.
     then_read (pl_ReadInt32 L) (\<lambda>creatorPid. then_read (pl_ReadBool L) (\<lambda>isFromWebview.
     then_read (read16 L) (\<lambda>abilityName. then_read (pl_ReadBool L) (\<lambda>isBatchApi.
     then_read (pl_ReadUInt32Vector L) (\<lambda>typeIds. then_read (pl_ReadInt32 L) (\<lambda>abilityId.
     then_read (pl_ReadUint64 L) (\<lambda>tokenId. then_read (pl_ReadInt32 L) (\<lambda>continuousTaskId.
     then_read (pl_ReadInt32 L) (\<lambda>cancelReason. then_read (pl_ReadInt32 L) (\<lambda>detailedCancelReason.
     then_read (pl_ReadBool L) (\<lambda>suspendState. then_read (pl_ReadInt32 L) (\<lambda>suspendReason.
     then_read (pl_ReadBool L) (\<lambda>isByRequestObject. then_read (read16 L) (\<lambda>bundleName.
     then_read (pl_ReadInt32 L) (\<lambda>userId. then_read (pl_ReadInt32 L) (\<lambda>appIndex.
     then_read (pl_ReadUInt32Vector L) (\<lambda>backgroundSubModes.
     then_read (pl_ReadInt32 L) (\<lambda>notificationId. then_read (read16 L) (\<lambda>wantAgentBundleName.
     then_read (read16 L) (\<lambda>wantAgentAbilityName. then_read (pl_ReadBool L) (\<lambda>cancelCallBackSelf.
     then_read (pl_ReadBool L) (\<lambda>isStandby. then_read (pl_ReadBool L) (\<lambda>isFromComponent.
       give
         \<lparr>cb_typeId = typeId, cb_creatorUid = creatorUid, cb_creatorPid = creatorPid, cb_abilityName = abilityName,
          cb_isFromWebview = isFromWebview, cb_isBatchApi = isBatchApi, cb_typeIds = typeIds,
          cb_abilityId = abilityId, cb_tokenId = tokenId, cb_continuousTaskId = continuousTaskId,
          cb_cancelReason = cancelReason, cb_detailedCancelReason = detailedCancelReason,
          cb_suspendState = suspendState, cb_suspendReason = suspendReason,
          cb_isByRequestObject = isByRequestObject, cb_bundleName = bundleName, cb_userId = userId,
          cb_appIndex = appIndex, cb_backgroundSubModes = backgroundSubModes, cb_notificationId = notificationId,
          cb_wantAgentBundleName = wantAgentBundleName, cb_wantAgentAbilityName = wantAgentAbilityName,
          cb_cancelCallBackSelf = cancelCallBackSelf, cb_isStandby = isStandby, cb_isFromComponent = isFromComponent\<rparr>)))))))))))))))))))))))))"

text \<open>A request object of the newer interface.\<close>

record ContinuousTaskRequest =
  rq_backgroundTaskModes :: "32 word list"
  rq_backgroundTaskSubmodes :: "32 word list"
  rq_wantAgent :: want_agent
  rq_combinedTaskNotification :: bool
  rq_continuousTaskId :: int
  rq_isBuildByRequest :: bool
  rq_progressInfo :: "ProgressInfo option"

definition Marshalling_ContinuousTaskRequest :: "'p parcel_lib \<Rightarrow> ContinuousTaskRequest \<Rightarrow> 'p \<Rightarrow> bool \<times> 'p" where
  "Marshalling_ContinuousTaskRequest L r =
     write_all
       [pl_WriteUInt32Vector L (rq_backgroundTaskModes r), pl_WriteUInt32Vector L (rq_backgroundTaskSubmodes r),
        write_optional L (pl_WriteWantAgent L) (rq_wantAgent r), pl_WriteBool L (rq_combinedTaskNotification r),
        pl_WriteInt32 L (rq_continuousTaskId r), pl_WriteBool L (rq_isBuildByRequest r),
        write_progress L (rq_progressInfo r)]"

definition Unmarshalling_ContinuousTaskRequest :: "'p parcel_lib \<Rightarrow> 'p \<Rightarrow> ContinuousTaskRequest option \<times> 'p" where
  "Unmarshalling_ContinuousTaskRequest L =
     then_read (pl_ReadUInt32Vector L) (\<lambda>modes. then_read (pl_ReadUInt32Vector L) (\<lambda>submodes.
     then_read (read_optional L (pl_ReadWantAgent L)) (\<lambda>agent. then_read (pl_ReadBool L) (\<lambda>combined.
     then_read (pl_ReadInt32 L) (\<lambda>taskId. then_read (pl_ReadBool L) (\<lambda>byRequest. then_read (read_progress L) (\<lambda>progress.
       give \<lparr>rq_backgroundTaskModes = modes, rq_backgroundTaskSubmodes = submodes, rq_wantAgent = agent,
             rq_combinedTaskNotification = combined, rq_continuousTaskId = taskId, rq_isBuildByRequest = byRequest,
             rq_progressInfo = progress\<rparr>)))))))"

end
