(* ===== verification/ParcelRoundTrip.thy ===== *)
theory ParcelRoundTrip
  imports ParcelTypes
begin

text \<open>
  What a class of \<^verbatim>\<open>interfaces/innerkits\<close> promises to be sent between processes: the locale
  \<open>parcelable\<close>, and that every class keeps the promise. Sequences of objects, in the order they
  were written, follow from it once for all classes.
\<close>

section \<open>The contract\<close>

fun write_objects :: "('a \<Rightarrow> 'p \<Rightarrow> bool \<times> 'p) \<Rightarrow> 'a list \<Rightarrow> 'p \<Rightarrow> bool \<times> 'p" where
  "write_objects w [] p = (True, p)"
| "write_objects w (x # xs) p = (case w x p of (ok, p') \<Rightarrow> if ok then write_objects w xs p' else (False, p'))"

fun read_objects :: "('p \<Rightarrow> 'a option \<times> 'p) \<Rightarrow> nat \<Rightarrow> 'p \<Rightarrow> 'a list option \<times> 'p" where
  "read_objects r 0 p = (Some [], p)"
| "read_objects r (Suc n) p =
     (case r p of
        (None, p') \<Rightarrow> (None, p')
      | (Some x, p') \<Rightarrow> (case read_objects r n p' of (None, p'') \<Rightarrow> (None, p'') | (Some xs, p'') \<Rightarrow> (Some (x # xs), p'')))"

text \<open>\<open>received\<close> is what arrives of an object, \<open>fits\<close> that its members have the ranges of their types.\<close>

locale parcelable =
  fixes marshal :: "'p parcel_lib \<Rightarrow> 'a \<Rightarrow> 'p \<Rightarrow> bool \<times> 'p"
    and unmarshal :: "'p parcel_lib \<Rightarrow> 'p \<Rightarrow> 'a option \<times> 'p"
    and items :: "'p parcel_lib \<Rightarrow> 'a \<Rightarrow> item list"
    and fits :: "(string \<Rightarrow> bool) \<Rightarrow> 'a \<Rightarrow> bool"
    and received :: "'a \<Rightarrow> 'a"
  assumes marshal_items: "parcel_laws L unread utf8 \<Longrightarrow> fits utf8 x \<Longrightarrow> writes_back unread (marshal L x) (items L x)"
    and unmarshal_items: "parcel_laws L unread utf8 \<Longrightarrow> fits utf8 x \<Longrightarrow> reads_off unread (unmarshal L) (received x) (items L x)"
begin

lemma sent:
  assumes "parcel_laws L unread utf8" and "fits utf8 x" and "unread p = []" and "marshal L x p = (True, p')"
  shows "\<exists>p''. unmarshal L p' = (Some (received x), p'') \<and> unread p'' = []"
proof -
  have "unread p' = items L x @ []" using marshal_items [OF assms(1,2)] assms(3,4) by (auto simp: writes_back_def)
  then show ?thesis using unmarshal_items [OF assms(1,2)] unfolding reads_off_def by blast
qed

lemma objects_written:
  assumes laws: "parcel_laws L unread utf8"
  shows "list_all (fits utf8) xs \<Longrightarrow> write_objects (marshal L) xs p = (True, p') \<Longrightarrow>
    unread p' = unread p @ concat (map (items L) xs)"
proof (induction xs arbitrary: p)
  case (Cons x xs)
  obtain p1 where "marshal L x p = (True, p1)" "write_objects (marshal L) xs p1 = (True, p')"
    using Cons.prems by (auto split: prod.splits if_splits)
  moreover have "unread p1 = unread p @ items L x"
    using marshal_items [OF laws, of x] Cons.prems calculation(1) by (auto simp: writes_back_def)
  ultimately show ?case using Cons by simp
qed simp

lemma objects_read:
  assumes laws: "parcel_laws L unread utf8"
  shows "list_all (fits utf8) xs \<Longrightarrow> unread p = concat (map (items L) xs) @ rest \<Longrightarrow>
    \<exists>p'. read_objects (unmarshal L) (length xs) p = (Some (map received xs), p') \<and> unread p' = rest"
proof (induction xs arbitrary: p)
  case (Cons x xs)
  have "unread p = items L x @ concat (map (items L) xs) @ rest" using Cons.prems by simp
  then obtain p1 where p1: "unmarshal L p = (Some (received x), p1)" "unread p1 = concat (map (items L) xs) @ rest"
    using unmarshal_items [OF laws, of x] Cons.prems(1) unfolding reads_off_def by auto
  obtain p2 where "read_objects (unmarshal L) (length xs) p1 = (Some (map received xs), p2)" "unread p2 = rest"
    using Cons.IH p1(2) Cons.prems by auto
  then show ?case using p1 by simp
qed simp

lemma objects_sent:
  assumes "parcel_laws L unread utf8" and "list_all (fits utf8) xs" and "unread p = []"
    and "write_objects (marshal L) xs p = (True, p')"
  shows "\<exists>p''. read_objects (unmarshal L) (length xs) p' = (Some (map received xs), p'') \<and> unread p'' = []"
proof -
  have "unread p' = concat (map (items L) xs) @ []" using objects_written [OF assms(1,2,4)] assms(3) by simp
  then show ?thesis by (rule objects_read [OF assms(1,2)])
qed

end

section \<open>The classes\<close>

text \<open>
  For each class the values in the order of its \<^verbatim>\<open>Marshalling\<close>. Members of type \<^verbatim>\<open>int32_t\<close> have 32 bits,
  and the strings that are sent as UTF-16 are valid UTF-8.
\<close>

definition items_DelaySuspendInfo :: "'p parcel_lib \<Rightarrow> DelaySuspendInfo \<Rightarrow> item list" where
  "items_DelaySuspendInfo L d = concat
     [[IInt32 (ds_requestId d)], [IInt32 (ds_actualDelayTime d)]]"

definition fits_DelaySuspendInfo :: "(string \<Rightarrow> bool) \<Rightarrow> DelaySuspendInfo \<Rightarrow> bool" where
  "fits_DelaySuspendInfo utf8 d \<longleftrightarrow>
     is_i32 (ds_requestId d) \<and> is_i32 (ds_actualDelayTime d)"

interpretation delay_info: parcelable Marshalling_DelaySuspendInfo Unmarshalling_DelaySuspendInfo
  items_DelaySuspendInfo fits_DelaySuspendInfo id
proof
  fix L :: "'p parcel_lib" and unread utf8 x
  assume laws: "parcel_laws L unread utf8" and fits: "fits_DelaySuspendInfo utf8 x"
  note [simp] = fits [unfolded fits_DelaySuspendInfo_def]
  show "writes_back unread (Marshalling_DelaySuspendInfo L x) (items_DelaySuspendInfo L x)"
    unfolding Marshalling_DelaySuspendInfo_def items_DelaySuspendInfo_def concat.simps
    by (rule writes_back_all parcel_writes [OF laws] | simp; fail)+
  show "reads_off unread (Unmarshalling_DelaySuspendInfo L) (id x) (items_DelaySuspendInfo L x)"
    unfolding Unmarshalling_DelaySuspendInfo_def items_DelaySuspendInfo_def concat.simps
    by (rule reads_off_then parcel_reads [OF laws] reads_off_given | simp; fail)+
qed

definition items_TransientTaskAppInfo :: "'p parcel_lib \<Rightarrow> TransientTaskAppInfo \<Rightarrow> item list" where
  "items_TransientTaskAppInfo L i = concat
     [[IString16 (pl_Str8ToStr16 L (ta_packageName i))], [IInt32 (ta_uid i)], [IInt32 (ta_pid i)]]"

definition fits_TransientTaskAppInfo :: "(string \<Rightarrow> bool) \<Rightarrow> TransientTaskAppInfo \<Rightarrow> bool" where
  "fits_TransientTaskAppInfo utf8 i \<longleftrightarrow>
     utf8 (ta_packageName i) \<and> is_i32 (ta_uid i) \<and> is_i32 (ta_pid i)"

interpretation task_app_info: parcelable Marshalling_TransientTaskAppInfo Unmarshalling_TransientTaskAppInfo
  items_TransientTaskAppInfo fits_TransientTaskAppInfo id
proof
  fix L :: "'p parcel_lib" and unread utf8 x
  assume laws: "parcel_laws L unread utf8" and fits: "fits_TransientTaskAppInfo utf8 x"
  note [simp] = fits [unfolded fits_TransientTaskAppInfo_def]
  show "writes_back unread (Marshalling_TransientTaskAppInfo L x) (items_TransientTaskAppInfo L x)"
    unfolding Marshalling_TransientTaskAppInfo_def items_TransientTaskAppInfo_def concat.simps
    by (rule writes_back_all parcel_writes [OF laws] | simp; fail)+
  show "reads_off unread (Unmarshalling_TransientTaskAppInfo L) (id x) (items_TransientTaskAppInfo L x)"
    unfolding Unmarshalling_TransientTaskAppInfo_def items_TransientTaskAppInfo_def concat.simps
    by (rule reads_off_then parcel_reads [OF laws] reads_off_or reads_off_given | simp add: parcel_lawsD(19) [OF laws]; fail)+
qed

definition items_EfficiencyResourceInfo :: "'p parcel_lib \<Rightarrow> EfficiencyResourceInfo \<Rightarrow> item list" where
  "items_EfficiencyResourceInfo L r = concat
     [[IUint32 (ri_resourceNumber r)], [IBool (ri_isApply r)], [IUint32 (ri_timeOut r)], [IString (ri_reason r)],
      [IBool (ri_isPersist r)], [IBool (ri_isProcess r)], [IInt32 (ri_uid r)], [IInt32 (ri_pid r)],
      [IInt32 (ri_cpuLevel r)]]"

definition fits_EfficiencyResourceInfo :: "(string \<Rightarrow> bool) \<Rightarrow> EfficiencyResourceInfo \<Rightarrow> bool" where
  "fits_EfficiencyResourceInfo utf8 r \<longleftrightarrow>
     is_i32 (ri_uid r) \<and> is_i32 (ri_pid r) \<and> is_i32 (ri_cpuLevel r)"

interpretation resource_info: parcelable Marshalling_EfficiencyResourceInfo Unmarshalling_EfficiencyResourceInfo
  items_EfficiencyResourceInfo fits_EfficiencyResourceInfo id
proof
  fix L :: "'p parcel_lib" and unread utf8 x
  assume laws: "parcel_laws L unread utf8" and fits: "fits_EfficiencyResourceInfo utf8 x"
  note [simp] = fits [unfolded fits_EfficiencyResourceInfo_def]
  show "writes_back unread (Marshalling_EfficiencyResourceInfo L x) (items_EfficiencyResourceInfo L x)"
    unfolding Marshalling_EfficiencyResourceInfo_def items_EfficiencyResourceInfo_def concat.simps
    by (rule writes_back_all parcel_writes [OF laws] | simp; fail)+
  show "reads_off unread (Unmarshalling_EfficiencyResourceInfo L) (id x) (items_EfficiencyResourceInfo L x)"
    unfolding Unmarshalling_EfficiencyResourceInfo_def items_EfficiencyResourceInfo_def concat.simps
    by (rule reads_off_then parcel_reads [OF laws] reads_off_given | simp; fail)+
qed

definition items_ResourceCallbackInfo :: "'p parcel_lib \<Rightarrow> ResourceCallbackInfo \<Rightarrow> item list" where
  "items_ResourceCallbackInfo L c = concat
     [[IInt32 (ci_uid c)], [IInt32 (ci_pid c)], [IUint32 (ci_resourceNumber c)], [IString (ci_bundleName c)],
      [IInt32 (ci_cpuLevel c)]]"

definition fits_ResourceCallbackInfo :: "(string \<Rightarrow> bool) \<Rightarrow> ResourceCallbackInfo \<Rightarrow> bool" where
  "fits_ResourceCallbackInfo utf8 c \<longleftrightarrow>
     is_i32 (ci_uid c) \<and> is_i32 (ci_pid c) \<and> is_i32 (ci_cpuLevel c)"

interpretation resource_callback: parcelable Marshalling_ResourceCallbackInfo Unmarshalling_ResourceCallbackInfo
  items_ResourceCallbackInfo fits_ResourceCallbackInfo id
proof
  fix L :: "'p parcel_lib" and unread utf8 x
  assume laws: "parcel_laws L unread utf8" and fits: "fits_ResourceCallbackInfo utf8 x"
  note [simp] = fits [unfolded fits_ResourceCallbackInfo_def]
  show "writes_back unread (Marshalling_ResourceCallbackInfo L x) (items_ResourceCallbackInfo L x)"
    unfolding Marshalling_ResourceCallbackInfo_def items_ResourceCallbackInfo_def concat.simps
    by (rule writes_back_all parcel_writes [OF laws] | simp; fail)+
  show "reads_off unread (Unmarshalling_ResourceCallbackInfo L) (id x) (items_ResourceCallbackInfo L x)"
    unfolding Unmarshalling_ResourceCallbackInfo_def items_ResourceCallbackInfo_def concat.simps
    by (rule reads_off_then parcel_reads [OF laws] reads_off_given | simp; fail)+
qed

definition items_BackgroundTaskStateInfo :: "'p parcel_lib \<Rightarrow> BackgroundTaskStateInfo \<Rightarrow> item list" where
  "items_BackgroundTaskStateInfo L b = concat
     [[IInt32 (bs_userId b)], [IString (bs_bundleName b)], [IInt32 (bs_appIndex b)], [IInt32 (bs_authResult b)]]"

definition fits_BackgroundTaskStateInfo :: "(string \<Rightarrow> bool) \<Rightarrow> BackgroundTaskStateInfo \<Rightarrow> bool" where
  "fits_BackgroundTaskStateInfo utf8 b \<longleftrightarrow>
     is_i32 (bs_userId b) \<and> is_i32 (bs_appIndex b) \<and> is_i32 (bs_authResult b)"

interpretation task_state: parcelable Marshalling_BackgroundTaskStateInfo Unmarshalling_BackgroundTaskStateInfo
  items_BackgroundTaskStateInfo fits_BackgroundTaskStateInfo id
proof
  fix L :: "'p parcel_lib" and unread utf8 x
  assume laws: "parcel_laws L unread utf8" and fits: "fits_BackgroundTaskStateInfo utf8 x"
  note [simp] = fits [unfolded fits_BackgroundTaskStateInfo_def]
  show "writes_back unread (Marshalling_BackgroundTaskStateInfo L x) (items_BackgroundTaskStateInfo L x)"
    unfolding Marshalling_BackgroundTaskStateInfo_def items_BackgroundTaskStateInfo_def concat.simps
    by (rule writes_back_all parcel_writes [OF laws] | simp; fail)+
  show "reads_off unread (Unmarshalling_BackgroundTaskStateInfo L) (id x) (items_BackgroundTaskStateInfo L x)"
    unfolding Unmarshalling_BackgroundTaskStateInfo_def items_BackgroundTaskStateInfo_def concat.simps
    by (rule reads_off_then parcel_reads [OF laws] reads_off_given | simp; fail)+
qed

definition items_ContinuousTaskParamForInner :: "'p parcel_lib \<Rightarrow> ContinuousTaskParamForInner \<Rightarrow> item list" where
  "items_ContinuousTaskParamForInner L c = concat
     [[IBool (cq_isStart c)], [IUint32 (cq_bgModeId c)], [IInt32 (cq_uid c)], [IInt32 (cq_abilityId c)],
      [IUint64 (cq_tokenId c)], [IInt32 (cq_pid c)]]"

definition fits_ContinuousTaskParamForInner :: "(string \<Rightarrow> bool) \<Rightarrow> ContinuousTaskParamForInner \<Rightarrow> bool" where
  "fits_ContinuousTaskParamForInner utf8 c \<longleftrightarrow>
     is_i32 (cq_uid c) \<and> is_i32 (cq_abilityId c) \<and> cq_tokenId c < 18446744073709551616 \<and>
     is_i32 (cq_pid c)"

interpretation inner_param: parcelable Marshalling_ContinuousTaskParamForInner Unmarshalling_ContinuousTaskParamForInner
  items_ContinuousTaskParamForInner fits_ContinuousTaskParamForInner id
proof
  fix L :: "'p parcel_lib" and unread utf8 x
  assume laws: "parcel_laws L unread utf8" and fits: "fits_ContinuousTaskParamForInner utf8 x"
  note [simp] = fits [unfolded fits_ContinuousTaskParamForInner_def]
  show "writes_back unread (Marshalling_ContinuousTaskParamForInner L x) (items_ContinuousTaskParamForInner L x)"
    unfolding Marshalling_ContinuousTaskParamForInner_def items_ContinuousTaskParamForInner_def concat.simps
    by (rule writes_back_all parcel_writes [OF laws] | simp; fail)+
  show "reads_off unread (Unmarshalling_ContinuousTaskParamForInner L) (id x) (items_ContinuousTaskParamForInner L x)"
    unfolding Unmarshalling_ContinuousTaskParamForInner_def items_ContinuousTaskParamForInner_def concat.simps
    by (rule reads_off_then parcel_reads [OF laws] reads_off_given | simp; fail)+
qed

definition items_ContinuousTaskInfo :: "'p parcel_lib \<Rightarrow> ContinuousTaskInfo \<Rightarrow> item list" where
  "items_ContinuousTaskInfo L t = concat
     [[IString (ti_abilityName t)], [IInt32 (ti_uid t)], [IInt32 (ti_pid t)], [IBool (ti_isFromWebView t)],
      [IVector (ti_backgroundModes t)], [IVector (ti_backgroundSubModes t)], [IInt32 (ti_notificationId t)],
      [IInt32 (ti_continuousTaskId t)], [IInt32 (ti_abilityId t)], [IString (ti_wantAgentBundleName t)],
      [IString (ti_wantAgentAbilityName t)], [IBool (ti_suspendState t)], [IString (ti_bundleName t)],
      [IInt32 (ti_appIndex t)], [IBool (ti_isByRequestObject t)]]"

definition fits_ContinuousTaskInfo :: "(string \<Rightarrow> bool) \<Rightarrow> ContinuousTaskInfo \<Rightarrow> bool" where
  "fits_ContinuousTaskInfo utf8 t \<longleftrightarrow>
     is_i32 (ti_uid t) \<and> is_i32 (ti_pid t) \<and> is_i32 (ti_notificationId t) \<and>
     is_i32 (ti_continuousTaskId t) \<and> is_i32 (ti_abilityId t) \<and> is_i32 (ti_appIndex t)"

interpretation task_info_data: parcelable Marshalling_ContinuousTaskInfo Unmarshalling_ContinuousTaskInfo
  items_ContinuousTaskInfo fits_ContinuousTaskInfo id
proof
  fix L :: "'p parcel_lib" and unread utf8 x
  assume laws: "parcel_laws L unread utf8" and fits: "fits_ContinuousTaskInfo utf8 x"
  note [simp] = fits [unfolded fits_ContinuousTaskInfo_def]
  show "writes_back unread (Marshalling_ContinuousTaskInfo L x) (items_ContinuousTaskInfo L x)"
    unfolding Marshalling_ContinuousTaskInfo_def items_ContinuousTaskInfo_def concat.simps
    by (rule writes_back_all parcel_writes [OF laws] | simp; fail)+
  show "reads_off unread (Unmarshalling_ContinuousTaskInfo L) (id x) (items_ContinuousTaskInfo L x)"
    unfolding Unmarshalling_ContinuousTaskInfo_def items_ContinuousTaskInfo_def concat.simps
    by (rule reads_off_then parcel_reads [OF laws] reads_off_given | simp; fail)+
qed

definition items_ContinuousTaskCallbackInfo :: "'p parcel_lib \<Rightarrow> ContinuousTaskCallbackInfo \<Rightarrow> item list" where
  "items_ContinuousTaskCallbackInfo L c = concat
     [[IUint32 (cb_typeId c)], [IInt32 (cb_creatorUid c)], [IInt32 (cb_creatorPid c)],
      [IBool (cb_isFromWebview c)], [IString16 (pl_Str8ToStr16 L (cb_abilityName c))], [IBool (cb_isBatchApi c)],
      [IVector (cb_typeIds c)], [IInt32 (cb_abilityId c)], [IUint64 (cb_tokenId c)],
      [IInt32 (cb_continuousTaskId c)], [IInt32 (cb_cancelReason c)], [IInt32 (cb_detailedCancelReason c)],
      [IBool (cb_suspendState c)], [IInt32 (cb_suspendReason c)], [IBool (cb_isByRequestObject c)],
      [IString16 (pl_Str8ToStr16 L (cb_bundleName c))], [IInt32 (cb_userId c)], [IInt32 (cb_appIndex c)],
      [IVector (cb_backgroundSubModes c)], [IInt32 (cb_notificationId c)],
      [IString16 (pl_Str8ToStr16 L (cb_wantAgentBundleName c))],
      [IString16 (pl_Str8ToStr16 L (cb_wantAgentAbilityName c))], [IBool (cb_cancelCallBackSelf c)],
      [IBool (cb_isStandby c)], [IBool (cb_isFromComponent c)]]"

definition fits_ContinuousTaskCallbackInfo :: "(string \<Rightarrow> bool) \<Rightarrow> ContinuousTaskCallbackInfo \<Rightarrow> bool" where
  "fits_ContinuousTaskCallbackInfo utf8 c \<longleftrightarrow>
     is_i32 (cb_creatorUid c) \<and> is_i32 (cb_creatorPid c) \<and> utf8 (cb_abilityName c) \<and>
     is_i32 (cb_abilityId c) \<and> cb_tokenId c < 18446744073709551616 \<and>
     is_i32 (cb_continuousTaskId c) \<and> is_i32 (cb_cancelReason c) \<and>
     is_i32 (cb_detailedCancelReason c) \<and> is_i32 (cb_suspendReason c) \<and> utf8 (cb_bundleName c) \<and>
     is_i32 (cb_userId c) \<and> is_i32 (cb_appIndex c) \<and> is_i32 (cb_notificationId c) \<and>
     utf8 (cb_wantAgentBundleName c) \<and> utf8 (cb_wantAgentAbilityName c)"

interpretation task_callback: parcelable Marshalling_ContinuousTaskCallbackInfo Unmarshalling_ContinuousTaskCallbackInfo
  items_ContinuousTaskCallbackInfo fits_ContinuousTaskCallbackInfo id
proof
  fix L :: "'p parcel_lib" and unread utf8 x
  assume laws: "parcel_laws L unread utf8" and fits: "fits_ContinuousTaskCallbackInfo utf8 x"
  note [simp] = fits [unfolded fits_ContinuousTaskCallbackInfo_def]
  show "writes_back unread (Marshalling_ContinuousTaskCallbackInfo L x) (items_ContinuousTaskCallbackInfo L x)"
    unfolding Marshalling_ContinuousTaskCallbackInfo_def items_ContinuousTaskCallbackInfo_def concat.simps
    by (rule writes_back_all parcel_writes [OF laws] | simp; fail)+
  show "reads_off unread (Unmarshalling_ContinuousTaskCallbackInfo L) (id x) (items_ContinuousTaskCallbackInfo L x)"
    unfolding Unmarshalling_ContinuousTaskCallbackInfo_def items_ContinuousTaskCallbackInfo_def concat.simps
    by (rule reads_off_then parcel_reads [OF laws] reads_off_given | simp; fail)+
qed

definition items_ProgressInfo :: "'p parcel_lib \<Rightarrow> ProgressInfo \<Rightarrow> item list" where
  "items_ProgressInfo L g = concat
     [[IString16 (pl_Str8ToStr16 L (pg_title g))], [IString16 (pl_Str8ToStr16 L (pg_fileName g))],
      [IInt32 (pg_progressValue g)], [IBool (pg_isMute g)]]"

definition fits_ProgressInfo :: "(string \<Rightarrow> bool) \<Rightarrow> ProgressInfo \<Rightarrow> bool" where
  "fits_ProgressInfo utf8 g \<longleftrightarrow>
     utf8 (pg_title g) \<and> utf8 (pg_fileName g) \<and> is_i32 (pg_progressValue g)"

interpretation progress_info: parcelable Marshalling_ProgressInfo Unmarshalling_ProgressInfo
  items_ProgressInfo fits_ProgressInfo id
proof
  fix L :: "'p parcel_lib" and unread utf8 x
  assume laws: "parcel_laws L unread utf8" and fits: "fits_ProgressInfo utf8 x"
  note [simp] = fits [unfolded fits_ProgressInfo_def]
  show "writes_back unread (Marshalling_ProgressInfo L x) (items_ProgressInfo L x)"
    unfolding Marshalling_ProgressInfo_def items_ProgressInfo_def concat.simps
    by (rule writes_back_all parcel_writes [OF laws] | simp; fail)+
  show "reads_off unread (Unmarshalling_ProgressInfo L) (id x) (items_ProgressInfo L x)"
    unfolding Unmarshalling_ProgressInfo_def items_ProgressInfo_def concat.simps
    by (rule reads_off_then parcel_reads [OF laws] reads_off_given | simp; fail)+
qed

lemma writes_agent:
  "parcel_laws L unread utf8 \<Longrightarrow> writes_back unread (write_optional L (pl_WriteWantAgent L) a) (items_optional (\<lambda>a. [IAgent a]) a)"
  by (rule writes_back_optional, assumption, rule parcel_lawsD)

lemma reads_agent:
  "parcel_laws L unread utf8 \<Longrightarrow> reads_off unread (read_optional L (pl_ReadWantAgent L)) a (items_optional (\<lambda>a. [IAgent a]) a)"
  by (rule reads_off_optional, assumption, rule parcel_lawsD)

lemma writes_progress:
  assumes "parcel_laws L unread utf8" and "pred_option (fits_ProgressInfo utf8) g"
  shows "writes_back unread (write_progress L g) (items_optional (\<lambda>g. IObject # items_ProgressInfo L g) g)"
  unfolding write_progress_def
proof (rule writes_back_optional [OF assms(1)])
  fix y
  assume "g = Some y"
  then show "writes_back unread (write_all [pl_WriteObject L, Marshalling_ProgressInfo L y]) (IObject # items_ProgressInfo L y)"
    using writes_back_all(2) [OF parcel_lawsD(17) [OF assms(1)] writes_back_all(2) [OF
      progress_info.marshal_items [OF assms(1)] writes_back_all(1)]] assms(2) by simp
qed

lemma reads_progress:
  assumes "parcel_laws L unread utf8" and "pred_option (fits_ProgressInfo utf8) g"
  shows "reads_off unread (read_progress L) g (items_optional (\<lambda>g. IObject # items_ProgressInfo L g) g)"
  unfolding read_progress_def
proof (rule reads_off_optional [OF assms(1)])
  fix y
  assume "g = Some y"
  then have "reads_off unread (Unmarshalling_ProgressInfo L) y (items_ProgressInfo L y)"
    using progress_info.unmarshal_items [OF assms(1), of y] assms(2) by simp
  then show "reads_off unread (then_read (pl_ReadObject L) (\<lambda>_. Unmarshalling_ProgressInfo L)) y (IObject # items_ProgressInfo L y)"
    using reads_off_then [OF parcel_lawsD(18) [OF assms(1)]] by force
qed

lemmas nested_writes = writes_agent writes_progress
lemmas nested_reads = reads_agent reads_progress

definition items_DataTransferProgress :: "'p parcel_lib \<Rightarrow> DataTransferProgress \<Rightarrow> item list" where
  "items_DataTransferProgress L d = concat
     [[IInt32 (dp_continuousTaskId d)], items_optional (\<lambda>a. [IAgent a]) (dp_wantAgent d),
      items_optional (\<lambda>g. IObject # items_ProgressInfo L g) (dp_progressInfo d)]"

definition fits_DataTransferProgress :: "(string \<Rightarrow> bool) \<Rightarrow> DataTransferProgress \<Rightarrow> bool" where
  "fits_DataTransferProgress utf8 d \<longleftrightarrow>
     is_i32 (dp_continuousTaskId d) \<and> pred_option (fits_ProgressInfo utf8) (dp_progressInfo d)"

interpretation transfer_progress: parcelable Marshalling_DataTransferProgress Unmarshalling_DataTransferProgress
  items_DataTransferProgress fits_DataTransferProgress id
proof
  fix L :: "'p parcel_lib" and unread utf8 x
  assume laws: "parcel_laws L unread utf8" and fits: "fits_DataTransferProgress utf8 x"
  note [simp] = fits [unfolded fits_DataTransferProgress_def]
  show "writes_back unread (Marshalling_DataTransferProgress L x) (items_DataTransferProgress L x)"
    unfolding Marshalling_DataTransferProgress_def items_DataTransferProgress_def concat.simps
    by (rule writes_back_all parcel_writes [OF laws] nested_writes [OF laws] | simp; fail)+
  show "reads_off unread (Unmarshalling_DataTransferProgress L) (id x) (items_DataTransferProgress L x)"
    unfolding Unmarshalling_DataTransferProgress_def items_DataTransferProgress_def concat.simps
    by (rule reads_off_then parcel_reads [OF laws] nested_reads [OF laws] reads_off_given | simp; fail)+
qed

definition items_ContinuousTaskRequest :: "'p parcel_lib \<Rightarrow> ContinuousTaskRequest \<Rightarrow> item list" where
  "items_ContinuousTaskRequest L r = concat
     [[IVector (rq_backgroundTaskModes r)], [IVector (rq_backgroundTaskSubmodes r)],
      items_optional (\<lambda>a. [IAgent a]) (rq_wantAgent r), [IBool (rq_combinedTaskNotification r)],
      [IInt32 (rq_continuousTaskId r)], [IBool (rq_isBuildByRequest r)],
      items_optional (\<lambda>g. IObject # items_ProgressInfo L g) (rq_progressInfo r)]"

definition fits_ContinuousTaskRequest :: "(string \<Rightarrow> bool) \<Rightarrow> ContinuousTaskRequest \<Rightarrow> bool" where
  "fits_ContinuousTaskRequest utf8 r \<longleftrightarrow>
     is_i32 (rq_continuousTaskId r) \<and> pred_option (fits_ProgressInfo utf8) (rq_progressInfo r)"

interpretation task_request: parcelable Marshalling_ContinuousTaskRequest Unmarshalling_ContinuousTaskRequest
  items_ContinuousTaskRequest fits_ContinuousTaskRequest id
proof
  fix L :: "'p parcel_lib" and unread utf8 x
  assume laws: "parcel_laws L unread utf8" and fits: "fits_ContinuousTaskRequest utf8 x"
  note [simp] = fits [unfolded fits_ContinuousTaskRequest_def]
  show "writes_back unread (Marshalling_ContinuousTaskRequest L x) (items_ContinuousTaskRequest L x)"
    unfolding Marshalling_ContinuousTaskRequest_def items_ContinuousTaskRequest_def concat.simps
    by (rule writes_back_all parcel_writes [OF laws] nested_writes [OF laws] | simp; fail)+
  show "reads_off unread (Unmarshalling_ContinuousTaskRequest L) (id x) (items_ContinuousTaskRequest L x)"
    unfolding Unmarshalling_ContinuousTaskRequest_def items_ContinuousTaskRequest_def concat.simps
    by (rule reads_off_then parcel_reads [OF laws] nested_reads [OF laws] reads_off_given | simp; fail)+
qed

text \<open>The list of modes of a request for a single mode is not sent.\<close>

definition received_ContinuousTaskParam :: "ContinuousTaskParam \<Rightarrow> ContinuousTaskParam" where
  "received_ContinuousTaskParam c = (if cp_isBatchApi c then c else c\<lparr>cp_bgModeIds := []\<rparr>)"

definition items_NewApi :: "'p parcel_lib \<Rightarrow> ContinuousTaskParam \<Rightarrow> item list" where
  "items_NewApi L c = concat
     [[IVector (cp_bgSubModeIds c)], [IBool (cp_isCombinedTaskNotification c)],
      [IInt32 (cp_combinedNotificationTaskId c)], [IInt32 (cp_updateTaskId c)], [IBool (cp_isByRequestObject c)],
      [IInt32 (cp_appIndex c)], [IInt32 (cp_requestAuthApiVersion c)],
      items_optional (\<lambda>g. IObject # items_ProgressInfo L g) (cp_progressInfo c)]"

definition items_ContinuousTaskParam :: "'p parcel_lib \<Rightarrow> ContinuousTaskParam \<Rightarrow> item list" where
  "items_ContinuousTaskParam L c = concat
     [[IBool (cp_isNewApi c)], [IUint32 (cp_bgModeId c)], items_optional (\<lambda>a. [IAgent a]) (cp_wantAgent c),
      [IString16 (pl_Str8ToStr16 L (cp_abilityName c))], [IString16 (pl_Str8ToStr16 L (cp_appName c))],
      [IBool (cp_isBatchApi c)], if cp_isBatchApi c then [IVector (cp_bgModeIds c)] else [],
      [IInt32 (cp_abilityId c)], items_NewApi L c]"

definition fits_ContinuousTaskParam :: "(string \<Rightarrow> bool) \<Rightarrow> ContinuousTaskParam \<Rightarrow> bool" where
  "fits_ContinuousTaskParam utf8 c \<longleftrightarrow>
     utf8 (cp_abilityName c) \<and> utf8 (cp_appName c) \<and> is_i32 (cp_abilityId c) \<and> is_i32 (cp_combinedNotificationTaskId c) \<and> is_i32 (cp_updateTaskId c) \<and>
     is_i32 (cp_appIndex c) \<and> is_i32 (cp_requestAuthApiVersion c) \<and> pred_option (fits_ProgressInfo utf8) (cp_progressInfo c)"

lemma writes_new_api:
  assumes laws: "parcel_laws L unread utf8" and fits: "fits_ContinuousTaskParam utf8 x"
  shows "writes_back unread (MarshallingNewApi L x) (items_NewApi L x)"
proof -
  note [simp] = fits [unfolded fits_ContinuousTaskParam_def]
  show ?thesis
    unfolding MarshallingNewApi_def items_NewApi_def concat.simps
    by (rule writes_back_all parcel_writes [OF laws] nested_writes [OF laws] | simp; fail)+
qed

text \<open>Reading the second part into \<open>c\<close> gives \<open>x\<close> when \<open>c\<close> has the members of the first part.\<close>

lemma reads_new_api:
  assumes laws: "parcel_laws L unread utf8" and fits: "fits_ContinuousTaskParam utf8 x"
    and first: "c\<lparr>cp_bgSubModeIds := cp_bgSubModeIds x, cp_isCombinedTaskNotification := cp_isCombinedTaskNotification x,
        cp_combinedNotificationTaskId := cp_combinedNotificationTaskId x, cp_updateTaskId := cp_updateTaskId x,
        cp_isByRequestObject := cp_isByRequestObject x, cp_appIndex := cp_appIndex x,
        cp_requestAuthApiVersion := cp_requestAuthApiVersion x, cp_progressInfo := cp_progressInfo x\<rparr> = y"
  shows "reads_off unread (ReadFromParcelNewApi L c) y (items_NewApi L x)"
proof -
  note [simp] = fits [unfolded fits_ContinuousTaskParam_def]
  show ?thesis
    unfolding ReadFromParcelNewApi_def items_NewApi_def concat.simps
    by (rule reads_off_then parcel_reads [OF laws] nested_reads [OF laws] reads_off_given | (simp; fail) | rule first)+
qed

interpretation task_param: parcelable Marshalling_ContinuousTaskParam Unmarshalling_ContinuousTaskParam
  items_ContinuousTaskParam fits_ContinuousTaskParam received_ContinuousTaskParam
proof
  fix L :: "'p parcel_lib" and unread utf8 x
  assume laws: "parcel_laws L unread utf8" and fits: "fits_ContinuousTaskParam utf8 x"
  note [simp] = fits [unfolded fits_ContinuousTaskParam_def]
  show "writes_back unread (Marshalling_ContinuousTaskParam L x) (items_ContinuousTaskParam L x)"
    unfolding Marshalling_ContinuousTaskParam_def items_ContinuousTaskParam_def concat.simps
    by (rule writes_back_all parcel_writes [OF laws] nested_writes [OF laws] writes_back_when writes_new_api [OF laws fits]
      | simp; fail)+
  have modes: "reads_off unread (read_when b (pl_ReadUInt32Vector L) []) (if b then v else []) (if b then [IVector v] else [])" for b v
    by (rule reads_off_when) (auto intro: parcel_reads [OF laws])
  have last: "reads_off unread (then_read (ReadFromParcelNewApi L c) give) (received_ContinuousTaskParam x) (items_NewApi L x @ [])"
    if "c = new_ContinuousTaskParam\<lparr>cp_isNewApi := cp_isNewApi x, cp_bgModeId := cp_bgModeId x, cp_wantAgent := cp_wantAgent x,
      cp_abilityName := cp_abilityName x, cp_appName := cp_appName x, cp_isBatchApi := cp_isBatchApi x,
      cp_bgModeIds := (if cp_isBatchApi x then cp_bgModeIds x else []), cp_abilityId := cp_abilityId x\<rparr>" for c
    by (rule reads_off_then [OF reads_new_api [OF laws fits] reads_off_give])
       (simp add: that received_ContinuousTaskParam_def)
  have id: "then_read r give = r" for r :: "'p \<Rightarrow> ContinuousTaskParam option \<times> 'p"
    by (auto simp: then_read_def give_def fun_eq_iff split: prod.splits option.splits)
  show "reads_off unread (Unmarshalling_ContinuousTaskParam L) (received_ContinuousTaskParam x) (items_ContinuousTaskParam L x)"
    unfolding Unmarshalling_ContinuousTaskParam_def items_ContinuousTaskParam_def concat.simps
    by (rule reads_off_then parcel_reads [OF laws] nested_reads [OF laws] modes last [unfolded id] | simp; fail)+
qed

section \<open>Messages\<close>

text \<open>An object of any of the classes, and the class it is read back as.\<close>

datatype message =
    MDelay DelaySuspendInfo | MTransient TransientTaskAppInfo | MResource EfficiencyResourceInfo
  | MResourceCallback ResourceCallbackInfo | MState BackgroundTaskStateInfo | MInner ContinuousTaskParamForInner
  | MInfo ContinuousTaskInfo | MCallback ContinuousTaskCallbackInfo | MProgress ProgressInfo
  | MTransfer DataTransferProgress | MRequest ContinuousTaskRequest | MParam ContinuousTaskParam

datatype message_class =
    KDelay | KTransient | KResource | KResourceCallback | KState | KInner | KInfo | KCallback | KProgress | KTransfer
  | KRequest | KParam

fun class_of :: "message \<Rightarrow> message_class" where
  "class_of (MDelay _) = KDelay" | "class_of (MTransient _) = KTransient" | "class_of (MResource _) = KResource"
| "class_of (MResourceCallback _) = KResourceCallback" | "class_of (MState _) = KState" | "class_of (MInner _) = KInner"
| "class_of (MInfo _) = KInfo" | "class_of (MCallback _) = KCallback" | "class_of (MProgress _) = KProgress"
| "class_of (MTransfer _) = KTransfer" | "class_of (MRequest _) = KRequest" | "class_of (MParam _) = KParam"

fun marshal_message :: "'p parcel_lib \<Rightarrow> message \<Rightarrow> 'p \<Rightarrow> bool \<times> 'p" where
  "marshal_message L (MDelay x) = Marshalling_DelaySuspendInfo L x"
| "marshal_message L (MTransient x) = Marshalling_TransientTaskAppInfo L x"
| "marshal_message L (MResource x) = Marshalling_EfficiencyResourceInfo L x"
| "marshal_message L (MResourceCallback x) = Marshalling_ResourceCallbackInfo L x"
| "marshal_message L (MState x) = Marshalling_BackgroundTaskStateInfo L x"
| "marshal_message L (MInner x) = Marshalling_ContinuousTaskParamForInner L x"
| "marshal_message L (MInfo x) = Marshalling_ContinuousTaskInfo L x"
| "marshal_message L (MCallback x) = Marshalling_ContinuousTaskCallbackInfo L x"
| "marshal_message L (MProgress x) = Marshalling_ProgressInfo L x"
| "marshal_message L (MTransfer x) = Marshalling_DataTransferProgress L x"
| "marshal_message L (MRequest x) = Marshalling_ContinuousTaskRequest L x"
| "marshal_message L (MParam x) = Marshalling_ContinuousTaskParam L x"

definition read_as :: "('a \<Rightarrow> message) \<Rightarrow> ('p \<Rightarrow> 'a option \<times> 'p) \<Rightarrow> 'p \<Rightarrow> message option \<times> 'p" where
  "read_as f r = then_read r (\<lambda>x. give (f x))"

fun unmarshal_message :: "'p parcel_lib \<Rightarrow> message_class \<Rightarrow> 'p \<Rightarrow> message option \<times> 'p" where
  "unmarshal_message L KDelay = read_as MDelay (Unmarshalling_DelaySuspendInfo L)"
| "unmarshal_message L KTransient = read_as MTransient (Unmarshalling_TransientTaskAppInfo L)"
| "unmarshal_message L KResource = read_as MResource (Unmarshalling_EfficiencyResourceInfo L)"
| "unmarshal_message L KResourceCallback = read_as MResourceCallback (Unmarshalling_ResourceCallbackInfo L)"
| "unmarshal_message L KState = read_as MState (Unmarshalling_BackgroundTaskStateInfo L)"
| "unmarshal_message L KInner = read_as MInner (Unmarshalling_ContinuousTaskParamForInner L)"
| "unmarshal_message L KInfo = read_as MInfo (Unmarshalling_ContinuousTaskInfo L)"
| "unmarshal_message L KCallback = read_as MCallback (Unmarshalling_ContinuousTaskCallbackInfo L)"
| "unmarshal_message L KProgress = read_as MProgress (Unmarshalling_ProgressInfo L)"
| "unmarshal_message L KTransfer = read_as MTransfer (Unmarshalling_DataTransferProgress L)"
| "unmarshal_message L KRequest = read_as MRequest (Unmarshalling_ContinuousTaskRequest L)"
| "unmarshal_message L KParam = read_as MParam (Unmarshalling_ContinuousTaskParam L)"

fun fits_message :: "(string \<Rightarrow> bool) \<Rightarrow> message \<Rightarrow> bool" where
  "fits_message u (MDelay x) = fits_DelaySuspendInfo u x"
| "fits_message u (MTransient x) = fits_TransientTaskAppInfo u x"
| "fits_message u (MResource x) = fits_EfficiencyResourceInfo u x"
| "fits_message u (MResourceCallback x) = fits_ResourceCallbackInfo u x"
| "fits_message u (MState x) = fits_BackgroundTaskStateInfo u x"
| "fits_message u (MInner x) = fits_ContinuousTaskParamForInner u x"
| "fits_message u (MInfo x) = fits_ContinuousTaskInfo u x"
| "fits_message u (MCallback x) = fits_ContinuousTaskCallbackInfo u x"
| "fits_message u (MProgress x) = fits_ProgressInfo u x"
| "fits_message u (MTransfer x) = fits_DataTransferProgress u x"
| "fits_message u (MRequest x) = fits_ContinuousTaskRequest u x"
| "fits_message u (MParam x) = fits_ContinuousTaskParam u x"

fun received_message :: "message \<Rightarrow> message" where
  "received_message (MParam x) = MParam (received_ContinuousTaskParam x)"
| "received_message m = m"

lemma read_as_sent:
  "\<exists>p'. r p = (Some x, p') \<and> unread p' = [] \<Longrightarrow> \<exists>p'. read_as f r p = (Some (f x), p') \<and> unread p' = []"
  by (auto simp: read_as_def then_read_def give_def)

lemmas all_sent = delay_info.sent task_app_info.sent resource_info.sent resource_callback.sent task_state.sent
  inner_param.sent task_info_data.sent task_callback.sent progress_info.sent transfer_progress.sent task_request.sent
  task_param.sent

lemma message_sent:
  assumes "parcel_laws L unread utf8" and "fits_message utf8 m" and "unread p = []" and "marshal_message L m p = (True, p')"
  shows "\<exists>p''. unmarshal_message L (class_of m) p' = (Some (received_message m), p'') \<and> unread p'' = []"
  using assms(2,4)
  by (cases m) (auto intro!: read_as_sent dest!: all_sent [OF assms(1) _ assms(3)])

end
