(* ===== verification/Client.thy ===== *)
theory Client
  imports ServiceRequests ParcelRoundTrip
begin

text \<open>
  What the service gives back besides the error code, by request, what of a request arrives at
  the service when it is sent from another process, and the client library
  (\<^verbatim>\<open>frameworks/src/background_task_manager.cpp\<close>): one object per process that holds
  the proxy of the service and passes calls on. The proxy is generated code; it is the function
  \<open>remote\<close> from a request and the state behind it to the error code, the reply and the new state. The
  system ability manager, the allocation of the death recipient and that of the copy some methods make
  of their argument are fields of \<open>clenv\<close>.
\<close>

section \<open>Replies\<close>

datatype reply =
    RNone | RDelay "DelaySuspendInfo option" | RTime "int option" | RTransient "int option" "(int \<times> int) list"
  | RIds "(int \<times> int) option" | RInfos "ContinuousTaskInfo list" | RCallbacks "ContinuousTaskCallbackInfo list"
  | RApps "TransientTaskAppInfo list" | RResources "EfficiencyResourceInfo list"
  | RResourceCallbacks "ResourceCallbackInfo list" "ResourceCallbackInfo list" | RNotification "int option"
  | RAuth "int option" | RText string

definition delay_info_of :: "DelaySuspendInfoEx \<Rightarrow> DelaySuspendInfo" where
  "delay_info_of d = \<lparr>ds_requestId = dsi_requestId d, ds_actualDelayTime = dsi_actualDelayTime d\<rparr>"

definition plain :: "ErrCode \<times> 's \<Rightarrow> ErrCode \<times> reply \<times> 's" where
  "plain = (\<lambda>(c, s). (c, RNone, s))"

definition query :: "('r \<Rightarrow> reply) \<Rightarrow> 's \<Rightarrow> ErrCode \<times> 'r \<Rightarrow> ErrCode \<times> reply \<times> 's" where
  "query f s = (\<lambda>(c, r). (c, f r, s))"

definition replied :: "('r \<Rightarrow> reply) \<Rightarrow> ErrCode \<times> 'r \<times> 's \<Rightarrow> ErrCode \<times> reply \<times> 's" where
  "replied f = (\<lambda>(c, r, s). (c, f r, s))"

text \<open>The handlers of the service with what they give back.\<close>

fun sv_serve :: "senv \<Rightarrow> ipc \<Rightarrow> BackgroundTaskMgrService \<Rightarrow> json_exn + (ErrCode \<times> reply \<times> BackgroundTaskMgrService)" where
  "sv_serve e (ReqSuspendDelay cb) s = Inr (replied (\<lambda>d. RDelay (map_option delay_info_of d)) (sv_RequestSuspendDelay e cb s))"
| "sv_serve e (ReqRemainingDelayTime i) s = Inr (query RTime s (sv_GetRemainingDelayTime e i s))"
| "sv_serve e ReqAllTransientTasks s =
     Inr ((\<lambda>(c, quota, list, s'). (c, RTransient quota list, s')) (sv_GetAllTransientTasks e s))"
| "sv_serve e (ReqStartRunning p) s = Inr (replied RIds (sv_StartBackgroundRunning e p s))"
| "sv_serve e (ReqUpdateRunning p) s = Inr (replied RIds (sv_UpdateBackgroundRunning e p s))"
| "sv_serve e (ReqAllContinuousTasks b) s = Inr (query RInfos s (sv_GetAllContinuousTasks e b s))"
| "sv_serve e ReqTransientTaskApps s = Inr (query RApps s (sv_GetTransientTaskApps e s))"
| "sv_serve e ReqContinuousTaskApps s = Inr (query RCallbacks s (sv_GetContinuousTaskApps e s))"
| "sv_serve e ReqAllResources s = Inr (query RResources s (sv_GetAllEfficiencyResources e s))"
| "sv_serve e ReqResourcesInfos s =
     Inr (query (\<lambda>(apps, procs). RResourceCallbacks apps procs) s (sv_GetEfficiencyResourcesInfos e s))"
| "sv_serve e (ReqTasksByUidForInner uid) s = Inr (query RInfos s (sv_RequestGetContinuousTasksByUidForInner e uid s))"
| "sv_serve e (ReqAuthFromUser p cb) s = Inr (replied RNotification (sv_RequestAuthFromUser e p cb s))"
| "sv_serve e (ReqCheckAuth i v) s = Inr (query RAuth s (sv_CheckSpecialScenarioAuth e i v s))"
| "sv_serve e (ReqGetTaskState i) s = Inr (query RAuth s (sv_GetBackgroundTaskState e i s))"
| "sv_serve e ReqAllTasksBySystem s = Inr (query RInfos s (sv_GetAllContinuousTasksBySystem e s))"
| "sv_serve e ReqAllTaskApps s = Inr (query RCallbacks s (sv_GetAllContinuousTaskApps e s))"
| "sv_serve e (ReqDump args) s = Inr (replied RText (sv_Dump e args s))"
| "sv_serve e r s = map_sum id plain (sv_handle e r s)"

lemmas reply_defs = replied_def query_def plain_def dropped_def split_beta

lemma sv_serve_handle: "map_sum id dropped (sv_serve e r s) = sv_handle e r s"
  by (cases r) (simp_all add: reply_defs sum.map_comp o_def sum.map_ident)

section \<open>Transport\<close>

text \<open>A request as the service reads it from the parcel; the other requests consist of plain values.\<close>

fun received_ipc :: "ipc \<Rightarrow> ipc" where
  "received_ipc (ReqStartRunning p) = ReqStartRunning (received_ContinuousTaskParam p)"
| "received_ipc (ReqUpdateRunning p) = ReqUpdateRunning (received_ContinuousTaskParam p)"
| "received_ipc (ReqModeSupported p) = ReqModeSupported (received_ContinuousTaskParam p)"
| "received_ipc (ReqAuthFromUser p cb) = ReqAuthFromUser (received_ContinuousTaskParam p) cb"
| "received_ipc (ReqRemoveAuth p) = ReqRemoveAuth (received_ContinuousTaskParam p)"
| "received_ipc r = r"

section \<open>State\<close>

datatype client_call = CallAddDeathRecipient | CallRemoveDeathRecipient

text \<open>The proxy is null (\<open>None\<close>), or has an object behind it or not.\<close>

record BackgroundTaskManager =
  bm_proxy :: "bool option"
  bm_recipient :: bool
  bm_calls :: "client_call list"

definition new_BackgroundTaskManager :: BackgroundTaskManager where
  "new_BackgroundTaskManager = \<lparr>bm_proxy = None, bm_recipient = False, bm_calls = []\<rparr>"

record clenv =
  cl_abilityManager :: bool
  cl_remoteObject :: bool
  cl_cast :: "bool option"
  cl_recipient :: bool
  cl_memory :: bool

type_synonym 's remote = "ipc \<Rightarrow> 's \<Rightarrow> ErrCode \<times> reply \<times> 's"

definition GetBackgroundTaskManagerProxy :: "clenv \<Rightarrow> BackgroundTaskManager \<Rightarrow> bool \<times> BackgroundTaskManager" where
  "GetBackgroundTaskManagerProxy e m =
     (if bm_proxy m \<noteq> None then (True, m)
      else if \<not> cl_abilityManager e then (False, m)
      else if \<not> cl_remoteObject e then (False, m)
      else
        let m1 = m\<lparr>bm_proxy := cl_cast e\<rparr>
        in if cl_cast e \<noteq> Some True then (False, m1)
           else if \<not> cl_recipient e then (False, m1\<lparr>bm_recipient := False\<rparr>)
           else (True, m1\<lparr>bm_recipient := True, bm_calls := bm_calls m1 @ [CallAddDeathRecipient]\<rparr>))"

definition ResetBackgroundTaskManagerProxy :: "BackgroundTaskManager \<Rightarrow> BackgroundTaskManager" where
  "ResetBackgroundTaskManagerProxy m =
     (let m1 = (if bm_proxy m = Some True then m\<lparr>bm_calls := bm_calls m @ [CallRemoveDeathRecipient]\<rparr> else m)
      in m1\<lparr>bm_proxy := None\<rparr>)"

definition BgTaskMgrDeathRecipient_OnRemoteDied :: "BackgroundTaskManager \<Rightarrow> BackgroundTaskManager" where
  "BgTaskMgrDeathRecipient_OnRemoteDied m = ResetBackgroundTaskManagerProxy m"

text \<open>
  The common form of the methods: without a proxy the error \<open>lost\<close>, otherwise the checks of the
  arguments, which give an error or the request, and the call. The result is the error code, the
  reply of the service if it was called, and both states.
\<close>

definition call_proxy ::
    "clenv \<Rightarrow> 's remote \<Rightarrow> ErrCode \<Rightarrow> ErrCode + ipc \<Rightarrow> BackgroundTaskManager \<Rightarrow> 's \<Rightarrow>
     ErrCode \<times> reply option \<times> BackgroundTaskManager \<times> 's" where
  "call_proxy e remote lost request m s =
     (let (ok, m1) = GetBackgroundTaskManagerProxy e m
      in if \<not> ok then (lost, None, m1, s)
         else case request of
                Inl err \<Rightarrow> (err, None, m1, s)
              | Inr r \<Rightarrow> (let (c, reply, s1) = remote r s in (c, Some reply, m1, s1)))"

text \<open>Methods that send a copy of their argument allocate it first.\<close>

definition copied :: "clenv \<Rightarrow> ipc \<Rightarrow> ErrCode + ipc" where
  "copied e r = (if cl_memory e then Inr r else Inl ERR_BGTASK_NO_MEMORY)"

text \<open>A list the caller passes in is replaced by the one the service gives if the call succeeds.\<close>

definition refreshed :: "(reply \<Rightarrow> 'r) \<Rightarrow> 'r \<Rightarrow> ErrCode \<times> reply option \<times> 'm \<times> 's \<Rightarrow> ErrCode \<times> 'r \<times> 'm \<times> 's" where
  "refreshed get old = (\<lambda>(c, reply, m, s).
     (c, (if c = ERR_OK then case_option old get reply else old), m, s))"

fun infos_of :: "reply \<Rightarrow> ContinuousTaskInfo list" where
  "infos_of (RInfos l) = l"
| "infos_of _ = []"

fun apps_of :: "reply \<Rightarrow> TransientTaskAppInfo list" where
  "apps_of (RApps l) = l"
| "apps_of _ = []"

fun callbacks_of :: "reply \<Rightarrow> ContinuousTaskCallbackInfo list" where
  "callbacks_of (RCallbacks l) = l"
| "callbacks_of _ = []"

fun resources_of :: "reply \<Rightarrow> EfficiencyResourceInfo list" where
  "resources_of (RResources l) = l"
| "resources_of _ = []"

fun resource_callbacks_of :: "reply \<Rightarrow> ResourceCallbackInfo list \<times> ResourceCallbackInfo list" where
  "resource_callbacks_of (RResourceCallbacks a p) = (a, p)"
| "resource_callbacks_of _ = ([], [])"

fun auth_of :: "reply \<Rightarrow> int" where
  "auth_of (RAuth (Some a)) = a"
| "auth_of _ = 0"

text \<open>
  The notification id and the task id of a started task, fields of the caller's parameter that are not
  sent: the proxy leaves them as they are unless the service gives new ones.
\<close>

fun with_ids :: "reply option \<Rightarrow> int \<times> int \<Rightarrow> int \<times> int" where
  "with_ids (Some (RIds (Some new))) old = new"
| "with_ids _ old = old"

section \<open>Methods\<close>

text \<open>A pointer to a callback or subscriber that is null is \<open>None\<close>.\<close>

definition cl_CancelSuspendDelay where
  "cl_CancelSuspendDelay e remote requestId =
     call_proxy e remote ERR_BGTASK_SERVICE_NOT_CONNECTED (Inr (ReqCancelSuspendDelay requestId))"

definition cl_RequestSuspendDelay where
  "cl_RequestSuspendDelay e remote callback =
     call_proxy e remote ERR_BGTASK_SERVICE_NOT_CONNECTED
       (case callback of None \<Rightarrow> Inl ERR_CALLBACK_NULL_OR_TYPE_ERR | Some c \<Rightarrow> Inr (ReqSuspendDelay (Some (Some c))))"

definition cl_GetRemainingDelayTime where
  "cl_GetRemainingDelayTime e remote requestId =
     call_proxy e remote ERR_BGTASK_SERVICE_NOT_CONNECTED (Inr (ReqRemainingDelayTime requestId))"

definition cl_GetAllTransientTasks where
  "cl_GetAllTransientTasks e remote =
     call_proxy e remote ERR_BGTASK_TRANSIENT_SERVICE_NOT_CONNECTED (Inr ReqAllTransientTasks)"

definition cl_RequestBackgroundRunningForInner where
  "cl_RequestBackgroundRunningForInner e remote taskParam =
     call_proxy e remote ERR_BGTASK_SERVICE_NOT_CONNECTED (copied e (ReqRunningForInner taskParam))"

definition cl_RequestStopBackgroundRunning where
  "cl_RequestStopBackgroundRunning e remote abilityName abilityId continuousTaskId =
     call_proxy e remote ERR_BGTASK_SERVICE_NOT_CONNECTED (Inr (ReqStopRunning abilityName abilityId continuousTaskId))"

definition cl_SubscribeBackgroundTask where
  "cl_SubscribeBackgroundTask e remote impl callBackType =
     call_proxy e remote ERR_BGTASK_SERVICE_NOT_CONNECTED
       (case impl of None \<Rightarrow> Inl ERR_BGTASK_INVALID_PARAM | Some i \<Rightarrow> Inr (ReqSubscribe (Some (Some i)) callBackType))"

definition cl_UnsubscribeBackgroundTask where
  "cl_UnsubscribeBackgroundTask e remote impl callBackType =
     call_proxy e remote ERR_BGTASK_SERVICE_NOT_CONNECTED
       (case impl of None \<Rightarrow> Inl ERR_BGTASK_INVALID_PARAM | Some i \<Rightarrow> Inr (ReqUnsubscribe (Some (Some i)) callBackType))"

definition cl_PauseTransientTaskTimeForInner where
  "cl_PauseTransientTaskTimeForInner e remote uid =
     call_proxy e remote ERR_BGTASK_SERVICE_NOT_CONNECTED (Inr (ReqPauseForInner uid))"

definition cl_StartTransientTaskTimeForInner where
  "cl_StartTransientTaskTimeForInner e remote uid =
     call_proxy e remote ERR_BGTASK_SERVICE_NOT_CONNECTED (Inr (ReqStartForInner uid))"

definition cl_ApplyEfficiencyResources where
  "cl_ApplyEfficiencyResources e remote resourceInfo =
     call_proxy e remote ERR_BGTASK_SERVICE_NOT_CONNECTED (copied e (ReqApplyResources resourceInfo))"

definition cl_ResetAllEfficiencyResources where
  "cl_ResetAllEfficiencyResources e remote =
     call_proxy e remote ERR_BGTASK_SERVICE_NOT_CONNECTED (Inr ReqResetAllResources)"

definition cl_StopContinuousTask where
  "cl_StopContinuousTask e remote uid pid taskType key =
     call_proxy e remote ERR_BGTASK_SERVICE_NOT_CONNECTED (Inr (ReqStopTask uid pid taskType key))"

definition cl_SuspendContinuousTask where
  "cl_SuspendContinuousTask e remote uid pid reason key isStandby =
     call_proxy e remote ERR_BGTASK_SERVICE_NOT_CONNECTED (Inr (ReqSuspendTask uid pid reason key isStandby))"

definition cl_ActiveContinuousTask where
  "cl_ActiveContinuousTask e remote uid pid key isStandby =
     call_proxy e remote ERR_BGTASK_SERVICE_NOT_CONNECTED (Inr (ReqActiveTask uid pid key isStandby))"

definition cl_AVSessionNotifyUpdateNotification where
  "cl_AVSessionNotifyUpdateNotification e remote uid pid isPublish =
     call_proxy e remote ERR_BGTASK_SERVICE_NOT_CONNECTED (Inr (ReqAVSession uid pid isPublish))"

definition cl_SetBgTaskConfig where
  "cl_SetBgTaskConfig e remote configData sourceType =
     call_proxy e remote ERR_BGTASK_SERVICE_NOT_CONNECTED (Inr (ReqSetConfig configData sourceType))"

definition cl_SuspendContinuousAudioTask where
  "cl_SuspendContinuousAudioTask e remote uid =
     call_proxy e remote ERR_BGTASK_SERVICE_NOT_CONNECTED (Inr (ReqSuspendAudio uid))"

definition cl_IsModeSupported where
  "cl_IsModeSupported e remote taskParam =
     call_proxy e remote ERR_BGTASK_SERVICE_NOT_CONNECTED (Inr (ReqModeSupported taskParam))"

definition cl_SetSupportedTaskKeepingProcesses where
  "cl_SetSupportedTaskKeepingProcesses e remote processSet =
     call_proxy e remote ERR_BGTASK_SERVICE_NOT_CONNECTED (Inr (ReqSetTaskKeeping processSet))"

definition cl_SetMaliciousAppConfig where
  "cl_SetMaliciousAppConfig e remote maliciousAppSet =
     call_proxy e remote ERR_BGTASK_SERVICE_NOT_CONNECTED (Inr (ReqSetMalicious maliciousAppSet))"

definition cl_RequestAuthFromUser where
  "cl_RequestAuthFromUser e remote taskParam callback =
     call_proxy e remote ERR_BGTASK_SERVICE_NOT_CONNECTED
       (case callback of
          None \<Rightarrow> Inl ERR_BGTASK_CONTINUOUS_CALLBACK_NULL_OR_TYPE_ERR
        | Some c \<Rightarrow> Inr (ReqAuthFromUser taskParam (Some c)))"

definition cl_CheckSpecialScenarioAuth where
  "cl_CheckSpecialScenarioAuth e remote appIndex apiVersion =
     call_proxy e remote ERR_BGTASK_SERVICE_NOT_CONNECTED (Inr (ReqCheckAuth appIndex apiVersion))"

definition cl_CheckTaskAuthResult where
  "cl_CheckTaskAuthResult e remote bundleName userId appIndex =
     call_proxy e remote ERR_BGTASK_SERVICE_NOT_CONNECTED (Inr (ReqCheckAuthResult bundleName userId appIndex))"

definition cl_EnableContinuousTaskRequest where
  "cl_EnableContinuousTaskRequest e remote uid isEnable =
     call_proxy e remote ERR_BGTASK_SERVICE_NOT_CONNECTED (Inr (ReqEnableRequest uid isEnable))"

definition cl_SetBackgroundTaskState where
  "cl_SetBackgroundTaskState e remote taskParam =
     call_proxy e remote ERR_BGTASK_SERVICE_NOT_CONNECTED
       (case taskParam of None \<Rightarrow> Inl ERR_BGTASK_CHECK_TASK_PARAM | Some i \<Rightarrow> Inr (ReqSetTaskState i))"

definition cl_GetAllContinuousTasksBySystem where
  "cl_GetAllContinuousTasksBySystem e remote =
     call_proxy e remote ERR_BGTASK_SERVICE_NOT_CONNECTED (Inr ReqAllTasksBySystem)"

definition cl_SetSpecialExemptedProcess where
  "cl_SetSpecialExemptedProcess e remote bundleNameSet =
     call_proxy e remote ERR_BGTASK_SERVICE_NOT_CONNECTED (Inr (ReqSetSpecialExempted bundleNameSet))"

definition cl_SendNotificationByDeteTask where
  "cl_SendNotificationByDeteTask e remote taskKeys =
     call_proxy e remote ERR_BGTASK_SERVICE_NOT_CONNECTED (Inr (ReqSendByDete taskKeys))"

definition cl_RemoveAuthRecord where
  "cl_RemoveAuthRecord e remote taskParam =
     call_proxy e remote ERR_BGTASK_SERVICE_NOT_CONNECTED (Inr (ReqRemoveAuth taskParam))"

definition cl_RequestUpdateDataTransferProgress where
  "cl_RequestUpdateDataTransferProgress e remote progressInfo =
     call_proxy e remote ERR_BGTASK_SERVICE_NOT_CONNECTED (Inr (ReqUpdateProgress progressInfo))"

definition cl_RequestStartBackgroundRunning where
  "cl_RequestStartBackgroundRunning e remote taskParam old m s =
     (let (c, reply, m1, s1) =
        call_proxy e remote ERR_BGTASK_SERVICE_NOT_CONNECTED (copied e (ReqStartRunning taskParam)) m s
      in (c, with_ids reply old, m1, s1))"

definition cl_RequestUpdateBackgroundRunning where
  "cl_RequestUpdateBackgroundRunning e remote taskParam old m s =
     (let (c, reply, m1, s1) =
        call_proxy e remote ERR_BGTASK_SERVICE_NOT_CONNECTED (copied e (ReqUpdateRunning taskParam)) m s
      in (c, with_ids reply old, m1, s1))"

definition cl_RequestGetContinuousTasksByUidForInner where
  "cl_RequestGetContinuousTasksByUidForInner e remote uid list m s =
     refreshed infos_of list
       (call_proxy e remote ERR_BGTASK_SERVICE_NOT_CONNECTED
          (if uid < 0 then Inl ERR_BGTASK_INVALID_UID else Inr (ReqTasksByUidForInner uid)) m s)"

definition cl_RequestGetAllContinuousTasks where
  "cl_RequestGetAllContinuousTasks e remote list m s =
     refreshed infos_of list
       (call_proxy e remote ERR_BGTASK_SERVICE_NOT_CONNECTED (Inr (ReqAllContinuousTasks None)) m s)"

definition cl_RequestGetAllContinuousTasksIncludeSuspended where
  "cl_RequestGetAllContinuousTasksIncludeSuspended e remote includeSuspended =
     call_proxy e remote ERR_BGTASK_SERVICE_NOT_CONNECTED (Inr (ReqAllContinuousTasks (Some includeSuspended)))"

definition cl_GetTransientTaskApps where
  "cl_GetTransientTaskApps e remote list m s =
     refreshed apps_of list (call_proxy e remote ERR_BGTASK_SERVICE_NOT_CONNECTED (Inr ReqTransientTaskApps) m s)"

definition cl_GetContinuousTaskApps where
  "cl_GetContinuousTaskApps e remote list m s =
     refreshed callbacks_of list (call_proxy e remote ERR_BGTASK_SERVICE_NOT_CONNECTED (Inr ReqContinuousTaskApps) m s)"

definition cl_GetAllContinuousTaskApps where
  "cl_GetAllContinuousTaskApps e remote list m s =
     refreshed callbacks_of list (call_proxy e remote ERR_BGTASK_SERVICE_NOT_CONNECTED (Inr ReqAllTaskApps) m s)"

definition cl_GetAllEfficiencyResources where
  "cl_GetAllEfficiencyResources e remote resourceInfoList m s =
     refreshed resources_of resourceInfoList
       (call_proxy e remote ERR_BGTASK_RESOURCES_SERVICE_NOT_CONNECTED (Inr ReqAllResources) m s)"

definition cl_GetEfficiencyResourcesInfos where
  "cl_GetEfficiencyResourcesInfos e remote appList procList m s =
     refreshed resource_callbacks_of (appList, procList)
       (call_proxy e remote ERR_BGTASK_SERVICE_NOT_CONNECTED (Inr ReqResourcesInfos) m s)"

definition cl_GetBackgroundTaskState where
  "cl_GetBackgroundTaskState e remote taskParam m s =
     (let (c, reply, m1, s1) =
        call_proxy e remote ERR_BGTASK_SERVICE_NOT_CONNECTED
          (case taskParam of None \<Rightarrow> Inl ERR_BGTASK_CHECK_TASK_PARAM | Some i \<Rightarrow> Inr (ReqGetTaskState i)) m s
      in (c, (if c \<noteq> ERR_OK then taskParam
              else map_option (\<lambda>i. i\<lparr>bs_authResult := case_option 0 auth_of reply\<rparr>) taskParam), m1, s1))"

end
