(* ===== verification/ClientProps.thy ===== *)
theory ClientProps
  imports Client ServiceProps ContinuousProps
begin

text \<open>
  The properties of what lies between an app and the service: objects survive the parcel, a request
  through the client library has the effect of the handler of the service or none, and the client
  watches the service it is connected to.
\<close>

section \<open>Objects in parcels\<close>

text \<open>A parcel as a queue of values; characters are widened to 16 bits.\<close>

definition queue_write :: "item \<Rightarrow> item list \<Rightarrow> bool \<times> item list" where
  "queue_write i p = (True, p @ [i])"

definition queue_read :: "(item \<Rightarrow> 'a option) \<Rightarrow> item list \<Rightarrow> 'a option \<times> item list" where
  "queue_read f p = (case p of [] \<Rightarrow> (None, []) | i # q \<Rightarrow> (f i, q))"

definition queue_lib :: "item list parcel_lib" where
  "queue_lib =
     \<lparr>pl_WriteBool = queue_write \<circ> IBool, pl_ReadBool = queue_read (\<lambda>i. case i of IBool b \<Rightarrow> Some b | _ \<Rightarrow> None),
      pl_WriteInt32 = queue_write \<circ> IInt32, pl_ReadInt32 = queue_read (\<lambda>i. case i of IInt32 n \<Rightarrow> Some n | _ \<Rightarrow> None),
      pl_WriteUint32 = queue_write \<circ> IUint32, pl_ReadUint32 = queue_read (\<lambda>i. case i of IUint32 n \<Rightarrow> Some n | _ \<Rightarrow> None),
      pl_WriteUint64 = queue_write \<circ> IUint64, pl_ReadUint64 = queue_read (\<lambda>i. case i of IUint64 n \<Rightarrow> Some n | _ \<Rightarrow> None),
      pl_WriteString = queue_write \<circ> IString, pl_ReadString = queue_read (\<lambda>i. case i of IString s \<Rightarrow> Some s | _ \<Rightarrow> None),
      pl_WriteString16 = queue_write \<circ> IString16, pl_ReadString16 = queue_read (\<lambda>i. case i of IString16 s \<Rightarrow> Some s | _ \<Rightarrow> None),
      pl_WriteUInt32Vector = queue_write \<circ> IVector, pl_ReadUInt32Vector = queue_read (\<lambda>i. case i of IVector v \<Rightarrow> Some v | _ \<Rightarrow> None),
      pl_WriteWantAgent = queue_write \<circ> IAgent, pl_ReadWantAgent = queue_read (\<lambda>i. case i of IAgent a \<Rightarrow> Some a | _ \<Rightarrow> None),
      pl_WriteObject = queue_write IObject, pl_ReadObject = queue_read (\<lambda>i. case i of IObject \<Rightarrow> Some () | _ \<Rightarrow> None),
      pl_Str8ToStr16 = map (\<lambda>c. word_of_nat (of_char c)), pl_Str16ToStr8 = map (\<lambda>w. char_of (unat w))\<rparr>"

lemma char_widened: "char_of (unat (word_of_nat (of_char c) :: 16 word)) = (c :: char)"
proof -
  have "of_char c < (65536::nat)" by (rule less_trans [OF nat_of_char_less_256]) simp
  then have "unat (word_of_nat (of_char c) :: 16 word) = of_char c"
    by (simp add: unat_of_nat)
  then show ?thesis by simp
qed

lemma queue_laws: "parcel_laws queue_lib (\<lambda>p. p) (\<lambda>_. True)"
  by (auto simp: parcel_laws_def writes_back_def reads_off_def queue_lib_def queue_write_def queue_read_def
      char_widened o_def)



text \<open>
  So the check of the service that an atomic service asks only for modes it may use, which looks at
  the list of modes, accepts every mode in a request that does not use the batch interface.
\<close>

lemma atomic_service_single_mode:
  "\<not> cp_isBatchApi p \<Longrightarrow> atomic_modes_ok e (received_ContinuousTaskParam p)"
  by (simp add: atomic_modes_ok_def received_ContinuousTaskParam_def)

section \<open>Calls through the client\<close>

text \<open>
  What is relied on of the generated proxy and stub: a request arrives at the service as its parcel
  delivers it, and the reply arrives at the client.
\<close>

definition delivers :: "senv \<Rightarrow> BackgroundTaskMgrService remote \<Rightarrow> bool" where
  "delivers se remote \<longleftrightarrow> (\<forall>r s res. sv_serve se (received_ipc r) s = Inr res \<longrightarrow> remote r s = res)"

lemma call_proxy_connected:
  assumes "GetBackgroundTaskManagerProxy e m = (True, m1)" and "delivers se remote"
    and "sv_serve se (received_ipc r) s = Inr (c, reply, s')"
  shows "call_proxy e remote lost (Inr r) m s = (c, Some reply, m1, s')"
  using assms by (simp add: call_proxy_def delivers_def)

lemma call_proxy_lost:
  "\<not> fst (GetBackgroundTaskManagerProxy e m) \<Longrightarrow>
   call_proxy e remote lost r m s = (lost, None, snd (GetBackgroundTaskManagerProxy e m), s)"
  by (simp add: call_proxy_def split_beta)

lemma call_proxy_refused:
  "fst (GetBackgroundTaskManagerProxy e m) \<Longrightarrow>
   call_proxy e remote lost (Inl err) m s = (err, None, snd (GetBackgroundTaskManagerProxy e m), s)"
  by (simp add: call_proxy_def split_beta)

text \<open>Starting a task through the client is starting it at the service, or nothing.\<close>

lemma client_start_cases:
  assumes "delivers se remote"
  shows "cl_RequestStartBackgroundRunning e remote p old m s =
    (let (ok, m1) = GetBackgroundTaskManagerProxy e m in
     if \<not> ok then (ERR_BGTASK_SERVICE_NOT_CONNECTED, old, m1, s)
     else if \<not> cl_memory e then (ERR_BGTASK_NO_MEMORY, old, m1, s)
     else let (c, new, s1) = sv_StartBackgroundRunning se (received_ContinuousTaskParam p) s
          in (c, case_option old id new, m1, s1))"
proof -
  obtain c new s1 where y: "sv_StartBackgroundRunning se (received_ContinuousTaskParam p) s = (c, new, s1)"
    by (cases "sv_StartBackgroundRunning se (received_ContinuousTaskParam p) s") auto
  then have "sv_serve se (received_ipc (ReqStartRunning p)) s = Inr (c, RIds new, s1)" by (simp add: replied_def)
  then have "remote (ReqStartRunning p) s = (c, RIds new, s1)" using assms unfolding delivers_def by blast
  then show ?thesis
    by (cases new) (simp_all add: cl_RequestStartBackgroundRunning_def call_proxy_def copied_def y split_beta)
qed

text \<open>
  An app that starts a continuous task through the client library. When the service cannot be
  reached the caller is told so and the service is as before. Otherwise, if the call fails, the ids
  of the caller and the tasks of the service are as before; if it succeeds, the service has exactly
  one more task, active, of the calling uid, for the ability the app named, and the caller is given
  the notification id and the task id of that task.
\<close>

lemma client_start_reaches_manager:
  assumes "delivers se remote"
    and "cl_RequestStartBackgroundRunning e remote p old m s = (c, new, m', s')"
    and "ce_saveTask (se_continuous se) = ERR_OK"
    and "0 \<le> cm_continuousTaskIdIndex (sv_continuous s)" and "cm_continuousTaskIdIndex (sv_continuous s) < INT_MAX"
  shows "m' = snd (GetBackgroundTaskManagerProxy e m) \<and>
    (\<not> fst (GetBackgroundTaskManagerProxy e m) \<longrightarrow> c = ERR_BGTASK_SERVICE_NOT_CONNECTED \<and> s' = s) \<and>
    (c \<noteq> ERR_OK \<longrightarrow> new = old \<and>
       cm_continuousTaskInfosMap (sv_continuous s') = cm_continuousTaskInfosMap (sv_continuous s)) \<and>
    (c = ERR_OK \<longrightarrow> (\<exists>r t. cm_continuousTaskInfosMap (sv_continuous s') = t @ [(task_key r, r)] \<and>
       map fst t = map fst (cm_continuousTaskInfosMap (sv_continuous s)) \<and>
       task_key r \<notin> fst ` set (cm_continuousTaskInfosMap (sv_continuous s)) \<and>
       ct_uid r = se_callingUid se \<and> ct_abilityName r = cp_abilityName p \<and> ct_abilityId r = cp_abilityId p \<and>
       \<not> ct_suspendState r \<and> new = (ct_notificationId r, ct_continuousTaskId r)))"
proof -
  define q where "q = received_ContinuousTaskParam p"
  have q: "cp_abilityName q = cp_abilityName p" "cp_abilityId q = cp_abilityId p"
    by (simp_all add: q_def received_ContinuousTaskParam_def)
  obtain ret out cm where y: "StartBackgroundRunning (c_env se s) (Some q) (sv_continuous s) = (ret, out, cm)"
    by (cases "StartBackgroundRunning (c_env se s) (Some q) (sv_continuous s)") auto
  have "ce_saveTask (c_env se s) = ERR_OK" "ce_callingUid (c_env se s) = se_callingUid se"
    using assms(3) by (simp_all add: c_env_def)
  note out = start_outcome [OF y this(1) assms(4,5), unfolded this(2)]
  obtain ok m1 where proxy: "GetBackgroundTaskManagerProxy e m = (ok, m1)" by (cases "GetBackgroundTaskManagerProxy e m") auto
  have sv: "sv_StartBackgroundRunning se q s =
      (if atomic_modes_ok se q then (ret, if ret = ERR_OK then out else None, s\<lparr>sv_continuous := cm\<rparr>)
       else (ERR_BGTASK_PERMISSION_DENIED, None, s))"
    by (simp add: sv_StartBackgroundRunning_def y)
  note start = client_start_cases [OF assms(1), of e p old m s, unfolded assms(2) q_def [symmetric] proxy sv]
  have m': "m' = m1" using start by (auto split: if_splits)
  show ?thesis
  proof (cases "ok \<and> cl_memory e \<and> atomic_modes_ok se q")
    case True
    then have "c = ret" "s' = s\<lparr>sv_continuous := cm\<rparr>" "new = case_option old id (if ret = ERR_OK then out else None)"
      using start by (simp_all add: Let_def)
    then show ?thesis using out True m' q by (auto simp: proxy)
  next
    case False
    then have "s' = s" "new = old" "c \<noteq> ERR_OK" "\<not> ok \<longrightarrow> c = ERR_BGTASK_SERVICE_NOT_CONNECTED"
      using start by (auto split: if_splits)
    then show ?thesis using m' by (simp add: proxy)
  qed
qed

text \<open>A client connected to the running service, with a proxy that does what \<open>delivers\<close> asks.\<close>

definition demo_clenv :: clenv where
  "demo_clenv = \<lparr>cl_abilityManager = True, cl_remoteObject = True, cl_cast = Some True, cl_recipient = True, cl_memory = True\<rparr>"

definition demo_remote :: "BackgroundTaskMgrService remote" where
  "demo_remote r s = (case sv_serve demo_senv (received_ipc r) s of Inl _ \<Rightarrow> (-1, RNone, s) | Inr res \<Rightarrow> res)"

lemma demo_delivers: "delivers demo_senv demo_remote"
  by (simp add: delivers_def demo_remote_def)

section \<open>Watching the service\<close>

text \<open>The client between its calls and the deaths of the service.\<close>

inductive client_reach :: "(clenv \<Rightarrow> bool) \<Rightarrow> BackgroundTaskManager \<Rightarrow> bool" for good where
  cl_new: "client_reach good new_BackgroundTaskManager"
| cl_connect: "client_reach good m \<Longrightarrow> good e \<Longrightarrow> client_reach good (snd (GetBackgroundTaskManagerProxy e m))"
| cl_died: "client_reach good m \<Longrightarrow> client_reach good (BgTaskMgrDeathRecipient_OnRemoteDied m)"

text \<open>
  When casting the remote object and allocating the recipient never fail, the client watches the
  service exactly while it holds a proxy.
\<close>

definition watching :: "BackgroundTaskManager \<Rightarrow> nat" where
  "watching m = length (filter (\<lambda>c. c = CallAddDeathRecipient) (bm_calls m)) -
     length (filter (\<lambda>c. c = CallRemoveDeathRecipient) (bm_calls m))"

lemma client_watches:
  assumes "client_reach (\<lambda>e. cl_cast e = Some True \<and> cl_recipient e) m"
  shows "watching m = (if bm_proxy m = None then 0 else 1) \<and> bm_proxy m \<noteq> Some False \<and>
    length (filter (\<lambda>c. c = CallRemoveDeathRecipient) (bm_calls m)) \<le>
    length (filter (\<lambda>c. c = CallAddDeathRecipient) (bm_calls m))"
  using assms
proof induction
  case cl_new
  then show ?case by (simp add: watching_def new_BackgroundTaskManager_def)
next
  case (cl_connect m e)
  then show ?case by (auto simp: watching_def GetBackgroundTaskManagerProxy_def Let_def split: if_splits)
next
  case (cl_died m)
  then show ?case
    by (cases "bm_proxy m") (auto simp: watching_def BgTaskMgrDeathRecipient_OnRemoteDied_def
        ResetBackgroundTaskManagerProxy_def Let_def split: if_splits)
qed

text \<open>
  A proxy that has no object, or for which no recipient could be allocated, is kept: the call fails,
  but the next one uses this proxy without asking for the service again, and no recipient watches it.
\<close>

lemma failed_connection_is_kept:
  assumes "bm_proxy m = None" and "cl_abilityManager e" and "cl_remoteObject e" and "cl_cast e = Some b"
    and "b \<longrightarrow> \<not> cl_recipient e"
  shows "\<exists>m1. GetBackgroundTaskManagerProxy e m = (False, m1) \<and> GetBackgroundTaskManagerProxy e' m1 = (True, m1) \<and>
    bm_calls m1 = bm_calls m"
  using assms by (auto simp: GetBackgroundTaskManagerProxy_def Let_def)

end
