(* ===== verification/NapiCommon.thy ===== *)
theory NapiCommon
  imports Client ErrorMessages
begin

text \<open>
  The JavaScript bindings, first the helpers all of them use (\<^verbatim>\<open>interfaces/kits/napi/src/common.cpp\<close>).
  The runtime belongs to another repository: values of JavaScript are a type of their own, and what
  can be asked of them is a record of functions, \<open>napi\<close>, in which \<open>None\<close> is a status other than
  \<^verbatim>\<open>napi_ok\<close>. What the bindings build for JavaScript is the datatype \<open>jsval\<close>; building it is taken to
  succeed. A null \<^verbatim>\<open>napi_value\<close> is \<open>None\<close>.
\<close>

section \<open>The runtime\<close>

datatype napi_valuetype =
    napi_undefined | napi_null | napi_boolean | napi_number | napi_string | napi_object | napi_function | napi_other

text \<open>An ability context: name and index of the ability if there is information on it, the token, the record id.\<close>

record AbilityContext =
  ac_abilityInfo :: "(string \<times> int) option"
  ac_token :: bool
  ac_abilityRecordId :: int

text \<open>
  \<open>nv_string v n\<close> are the bytes that are put into a buffer of \<open>n\<close> bytes. Contexts: whether the value is
  a stage context, the context of the current ability, and the context behind the value.
\<close>

record 'v napi =
  nv_undefined :: 'v
  nv_typeof :: "'v \<Rightarrow> napi_valuetype option"
  nv_isArray :: "'v \<Rightarrow> bool option"
  nv_arrayLength :: "'v \<Rightarrow> nat option"
  nv_element :: "'v \<Rightarrow> nat \<Rightarrow> 'v option"
  nv_int32 :: "'v \<Rightarrow> int option"
  nv_uint32 :: "'v \<Rightarrow> 32 word option"
  nv_bool :: "'v \<Rightarrow> bool option"
  nv_string :: "'v \<Rightarrow> nat \<Rightarrow> string option"
  nv_has :: "'v \<Rightarrow> string \<Rightarrow> bool option"
  nv_get :: "'v \<Rightarrow> string \<Rightarrow> 'v option"
  nv_unwrap :: "'v \<Rightarrow> want_agent"
  nv_equals :: "'v \<Rightarrow> 'v \<Rightarrow> bool"
  nv_convertString :: "'v \<Rightarrow> string option"
  nv_isStage :: "'v \<Rightarrow> bool option"
  nv_currentAbility :: "AbilityContext option option"
  nv_stageContext :: "'v \<Rightarrow> AbilityContext option option"
  nv_sendEvent :: bool

datatype jsval =
    JUndefined | JNull | JBoolean bool | JNumber int | JString string | JObject "(string \<times> jsval) list" | JArray "jsval list"
  | JPromise

text \<open>The arguments of a call: as many as were given, and undefined values after them.\<close>

definition argv :: "'v napi \<Rightarrow> 'v list \<Rightarrow> nat \<Rightarrow> 'v" where
  "argv N args i = (if i < length args then args ! i else nv_undefined N)"

text \<open>The type of a value when the status is not looked at.\<close>

definition type_of :: "'v napi \<Rightarrow> 'v \<Rightarrow> napi_valuetype" where
  "type_of N v = case_option napi_undefined id (nv_typeof N v)"

abbreviation (input) STR_MAX_SIZE :: nat where "STR_MAX_SIZE \<equiv> 64"
abbreviation (input) INVALID_CONTINUOUSTASK_ID :: int where "INVALID_CONTINUOUSTASK_ID \<equiv> -2"
abbreviation (input) INVALID_MODE_ID :: int where "INVALID_MODE_ID \<equiv> -1"

text \<open>A C++ string made from a buffer ends at the first zero byte.\<close>

definition c_str :: "string \<Rightarrow> string" where
  "c_str = takeWhile (\<lambda>c. c \<noteq> CHR 0x00)"

section \<open>Values from JavaScript\<close>

definition GetU16StringValue :: "'v napi \<Rightarrow> 'v \<Rightarrow> string option" where
  "GetU16StringValue N v =
     (if nv_typeof N v = Some napi_string then map_option c_str (nv_string N v (STR_MAX_SIZE - 1)) else None)"

definition GetInt32NumberValue :: "'v napi \<Rightarrow> 'v \<Rightarrow> int option" where
  "GetInt32NumberValue N v = (if nv_typeof N v = Some napi_number then nv_int32 N v else None)"

definition GetStringValue :: "'v napi \<Rightarrow> 'v \<Rightarrow> string option" where
  "GetStringValue N v =
     (if nv_typeof N v = Some napi_string then map_option c_str (nv_string N v (STR_MAX_SIZE - 1)) else None)"

definition GetBooleanValue :: "'v napi \<Rightarrow> 'v \<Rightarrow> bool option" where
  "GetBooleanValue N v = (if nv_typeof N v = Some napi_boolean then nv_bool N v else None)"

definition getNamedProperty :: "'v napi \<Rightarrow> 'v \<Rightarrow> string \<Rightarrow> 'v option" where
  "getNamedProperty N v name = (if nv_has N v name = Some True then nv_get N v name else None)"

definition GetIntProperty :: "'v napi \<Rightarrow> 'v \<Rightarrow> string \<Rightarrow> int" where
  "GetIntProperty N v name =
     (case nv_get N v name of
        None \<Rightarrow> INVALID_CONTINUOUSTASK_ID
      | Some x \<Rightarrow> if type_of N x = napi_number then case_option INVALID_CONTINUOUSTASK_ID id (nv_int32 N x) else -1)"

definition GetBoolProperty :: "'v napi \<Rightarrow> 'v \<Rightarrow> string \<Rightarrow> bool" where
  "GetBoolProperty N v name =
     (case nv_get N v name of
        None \<Rightarrow> False
      | Some x \<Rightarrow> if type_of N x = napi_boolean then nv_bool N x = Some True else False)"

definition GetStrValue :: "'v napi \<Rightarrow> 'v \<Rightarrow> string \<Rightarrow> string" where
  "GetStrValue N v name =
     (case nv_get N v name of
        None \<Rightarrow> ''''
      | Some x \<Rightarrow> if type_of N x = napi_string then case_option '''' c_str (nv_string N x (STR_MAX_SIZE - 1)) else '''')"

definition GetAbilityContext :: "'v napi \<Rightarrow> 'v \<Rightarrow> AbilityContext option" where
  "GetAbilityContext N v =
     (if nv_isStage N v \<noteq> Some True then (case nv_currentAbility N of None \<Rightarrow> None | Some c \<Rightarrow> c)
      else case nv_stageContext N v of None \<Rightarrow> None | Some c \<Rightarrow> c)"

section \<open>Requests for continuous tasks\<close>

definition new_ContinuousTaskRequest :: ContinuousTaskRequest where
  "new_ContinuousTaskRequest =
     \<lparr>rq_backgroundTaskModes = [], rq_backgroundTaskSubmodes = [], rq_wantAgent = None, rq_combinedTaskNotification = False,
      rq_continuousTaskId = -1, rq_isBuildByRequest = False, rq_progressInfo = None\<rparr>"

text \<open>The loop over the elements of an array of modes: \<open>k\<close> elements from \<open>i\<close> on.\<close>

fun modes_from :: "'v napi \<Rightarrow> 'v \<Rightarrow> nat \<Rightarrow> nat \<Rightarrow> 32 word list option" where
  "modes_from N v i 0 = Some []"
| "modes_from N v i (Suc k) =
     (case nv_element N v i of
        None \<Rightarrow> None
      | Some x \<Rightarrow>
          if type_of N x \<noteq> napi_number then None
          else let n = case_option INVALID_MODE_ID id (nv_int32 N x)
               in if n < 0 then None else map_option ((#) (word_of_int n)) (modes_from N v (Suc i) k))"

definition modes_array :: "'v napi \<Rightarrow> 'v \<Rightarrow> 32 word list option" where
  "modes_array N v =
     (if nv_isArray N v \<noteq> Some True then None else modes_from N v 0 (case_option 0 id (nv_arrayLength N v)))"

definition GetBackgroundTaskModesFromArray :: "'v napi \<Rightarrow> 'v \<Rightarrow> ContinuousTaskRequest \<Rightarrow> ContinuousTaskRequest option" where
  "GetBackgroundTaskModesFromArray N v request =
     map_option (\<lambda>modes. request\<lparr>rq_backgroundTaskModes := modes\<rparr>) (modes_array N v)"

definition GetBackgroundTaskSubmodesFromArray :: "'v napi \<Rightarrow> 'v \<Rightarrow> ContinuousTaskRequest \<Rightarrow> ContinuousTaskRequest option" where
  "GetBackgroundTaskSubmodesFromArray N v request =
     map_option (\<lambda>modes. request\<lparr>rq_backgroundTaskSubmodes := modes\<rparr>) (modes_array N v)"

definition GetBackgroundTaskModesProperty :: "'v napi \<Rightarrow> 'v \<Rightarrow> string \<Rightarrow> ContinuousTaskRequest \<Rightarrow> ContinuousTaskRequest option" where
  "GetBackgroundTaskModesProperty N v name request =
     (case nv_get N v name of None \<Rightarrow> None | Some x \<Rightarrow> GetBackgroundTaskModesFromArray N x request)"

definition GetBackgroundTaskSubmodesProperty :: "'v napi \<Rightarrow> 'v \<Rightarrow> string \<Rightarrow> ContinuousTaskRequest \<Rightarrow> ContinuousTaskRequest option" where
  "GetBackgroundTaskSubmodesProperty N v name request =
     (case nv_get N v name of None \<Rightarrow> None | Some x \<Rightarrow> GetBackgroundTaskSubmodesFromArray N x request)"

definition GetWantAgentProperty :: "'v napi \<Rightarrow> 'v \<Rightarrow> string \<Rightarrow> ContinuousTaskRequest \<Rightarrow> ContinuousTaskRequest option" where
  "GetWantAgentProperty N v name request =
     (case nv_get N v name of
        None \<Rightarrow> None
      | Some x \<Rightarrow> if type_of N x \<noteq> napi_object then None
                  else case nv_unwrap N x of None \<Rightarrow> None | Some a \<Rightarrow> Some (request\<lparr>rq_wantAgent := Some a\<rparr>))"

text \<open>What is thrown, and the progress if it is accepted.\<close>

definition GetprogressInfoParam :: "'v napi \<Rightarrow> 'v \<Rightarrow> ProgressInfo \<Rightarrow> js_error list \<times> ProgressInfo option" where
  "GetprogressInfoParam N v g =
     (case Option.bind (getNamedProperty N v ''title'') (GetStringValue N) of
        None \<Rightarrow> ([], None)
      | Some title \<Rightarrow>
          (case Option.bind (getNamedProperty N v ''fileName'') (GetStringValue N) of
             None \<Rightarrow> ([], None)
           | Some fileName \<Rightarrow>
               let g1 = g\<lparr>pg_title := title, pg_fileName := fileName\<rparr>;
                   value = Option.bind (getNamedProperty N v ''progressValue'') (GetInt32NumberValue N)
               in case value of
                    Some n \<Rightarrow>
                      if n < 0 \<or> n > 100 then (HandleErrCode ERR_BGTASK_CONTINUOUS_PROGRESS_INFO_INVALID True, None)
                      else ([], Some (g1\<lparr>pg_progressValue := n, pg_isMute := GetBoolProperty N v ''isMute''\<rparr>))
                  | None \<Rightarrow> ([], Some (g1\<lparr>pg_isMute := GetBoolProperty N v ''isMute''\<rparr>))))"

definition GetprogressInfo :: "'v napi \<Rightarrow> 'v \<Rightarrow> ProgressInfo \<Rightarrow> js_error list \<times> ProgressInfo option" where
  "GetprogressInfo N v g =
     (case getNamedProperty N v ''progressInfo'' of
        None \<Rightarrow> ([], None)
      | Some x \<Rightarrow> if type_of N x \<noteq> napi_object then ([], None) else GetprogressInfoParam N x g)"

definition GetContinuousTaskRequest :: "'v napi \<Rightarrow> 'v \<Rightarrow> ContinuousTaskRequest \<Rightarrow> js_error list \<times> ContinuousTaskRequest option" where
  "GetContinuousTaskRequest N v request =
     (case Option.bind (GetBackgroundTaskModesProperty N v ''backgroundTaskModes'' request)
             (\<lambda>r. Option.bind (GetBackgroundTaskSubmodesProperty N v ''backgroundTaskSubmodes'' r)
               (GetWantAgentProperty N v ''wantAgent'')) of
        None \<Rightarrow> ([], None)
      | Some r \<Rightarrow>
          let continuousTaskId = GetIntProperty N v ''continuousTaskId''
          in if continuousTaskId = INVALID_CONTINUOUSTASK_ID then ([], None)
             else let r1 = r\<lparr>rq_continuousTaskId := continuousTaskId\<rparr>;
                      r2 = (if GetBoolProperty N v ''combinedTaskNotification'' then r1\<lparr>rq_combinedTaskNotification := True\<rparr> else r1)
                  in if nv_has N v ''progressInfo'' \<noteq> Some True then ([], Some r2)
                     else case GetprogressInfo N v new_ProgressInfo of
                            (thrown, Some g) \<Rightarrow> (thrown, Some (r2\<lparr>rq_progressInfo := Some g\<rparr>))
                          | (thrown, None) \<Rightarrow> (thrown, None))"

text \<open>An index out of range, which the source does not check, is \<open>None\<close>.\<close>

fun converted :: "32 word list \<Rightarrow> nat \<Rightarrow> 32 word list \<Rightarrow> 32 word list option" where
  "converted modes i [] = Some []"
| "converted modes i (subMode # rest) =
     (if subMode = SUBMODE_NORMAL_NOTIFICATION then
        if i < length modes
        then map_option ((#) (GetV9BackgroundModeByMode (modes ! i))) (converted modes (Suc i) rest)
        else None
      else map_option ((#) (GetV9BackgroundModeBySubMode subMode)) (converted modes (Suc i) rest))"

definition TaskModeTypeConversion :: "ContinuousTaskRequest \<Rightarrow> ContinuousTaskRequest option" where
  "TaskModeTypeConversion request =
     map_option (\<lambda>modes. request\<lparr>rq_backgroundTaskModes := modes\<rparr>)
       (converted (rq_backgroundTaskModes request) 0 (rq_backgroundTaskSubmodes request))"

definition GetBackgroundTaskStateParam :: "'v napi \<Rightarrow> 'v \<Rightarrow> BackgroundTaskStateInfo \<Rightarrow> bool \<Rightarrow> BackgroundTaskStateInfo option" where
  "GetBackgroundTaskStateParam N v taskState inculdeAurh =
     (let userId = GetIntProperty N v ''userId'';
          appIndex = GetIntProperty N v ''appIndex'';
          bundleName = GetStrValue N v ''bundleName'';
          authResult = GetIntProperty N v ''authResult''
      in if userId = -1 then None
         else if appIndex = -1 then None
         else if bundleName = '''' then None
         else let t = taskState\<lparr>bs_userId := userId, bs_appIndex := appIndex, bs_bundleName := bundleName\<rparr>
              in if \<not> inculdeAurh then Some t
                 else if authResult = -1 \<or> authResult \<ge> AUTH_END \<or> authResult < AUTH_NOT_SUPPORTED then None
                 else Some (t\<lparr>bs_authResult := authResult\<rparr>))"

definition CheckSubscriberParam :: "'v napi \<Rightarrow> 'v \<Rightarrow> bool" where
  "CheckSubscriberParam N v \<longleftrightarrow>
     (\<forall>name \<in> set [''onContinuousTaskStart'', ''onContinuousTaskUpdate'', ''onContinuousTaskStop''].
        nv_has N v name = Some True \<and>
        (case nv_get N v name of None \<Rightarrow> False | Some f \<Rightarrow> type_of N f = napi_function))"

section \<open>Values for JavaScript\<close>

definition GetCallbackErrorValue :: "ErrCode \<Rightarrow> string \<Rightarrow> jsval" where
  "GetCallbackErrorValue errCode errMsg =
     (if errCode = ERR_OK then JNull else JObject [(''code'', JNumber errCode), (''message'', JString errMsg)])"

definition GetExpireCallbackValue :: "ErrCode \<Rightarrow> jsval \<Rightarrow> jsval" where
  "GetExpireCallbackValue errCode value = JObject [(''code'', JNumber errCode), (''data'', value)]"

definition NapiSetBgTaskMode :: "ContinuousTaskInfo \<Rightarrow> (string \<times> jsval) list" where
  "NapiSetBgTaskMode t =
     [(''backgroundModes'', JArray (map (\<lambda>m. JString (GetBackgroundModeStr m)) (filter (\<lambda>m. m < BGMODE_END) (ti_backgroundModes t)))),
      (''backgroundSubModes'', JArray
         (if ti_isByRequestObject t
          then map (\<lambda>m. JString (GetBackgroundTaskSubmodeStr m)) (filter (\<lambda>m. m < 12) (ti_backgroundSubModes t))
          else map (\<lambda>m. JString (GetBackgroundSubModeStr m)) (filter (\<lambda>m. m < 2) (ti_backgroundSubModes t))))]"

definition FormatContinuousTaskInfo :: "ContinuousTaskInfo \<Rightarrow> (string \<times> jsval) list" where
  "FormatContinuousTaskInfo t = [(''bundleName'', JString (ti_bundleName t)), (''appIndex'', JNumber (ti_appIndex t))]"

definition GetNapiContinuousTaskInfo :: "ContinuousTaskInfo \<Rightarrow> jsval" where
  "GetNapiContinuousTaskInfo t = JObject
     ([(''abilityName'', JString (ti_abilityName t)), (''uid'', JNumber (ti_uid t)), (''pid'', JNumber (ti_pid t)),
       (''isFromWebView'', JBoolean (ti_isFromWebView t))] @ NapiSetBgTaskMode t @
      [(''notificationId'', JNumber (ti_notificationId t)), (''continuousTaskId'', JNumber (ti_continuousTaskId t)),
       (''abilityId'', JNumber (ti_abilityId t)), (''wantAgentBundleName'', JString (ti_wantAgentBundleName t)),
       (''wantAgentAbilityName'', JString (ti_wantAgentAbilityName t)), (''suspendState'', JBoolean (ti_suspendState t))] @
      FormatContinuousTaskInfo t)"

definition GetNapiCallBackInfo :: "ContinuousTaskCallbackInfo \<Rightarrow> jsval" where
  "GetNapiCallBackInfo c = GetNapiContinuousTaskInfo
     \<lparr>ti_abilityName = cb_abilityName c, ti_uid = cb_creatorUid c, ti_pid = cb_creatorPid c,
      ti_isFromWebView = cb_isFromWebview c, ti_backgroundModes = cb_typeIds c,
      ti_backgroundSubModes = cb_backgroundSubModes c, ti_notificationId = cb_notificationId c,
      ti_continuousTaskId = cb_continuousTaskId c, ti_abilityId = cb_abilityId c,
      ti_wantAgentBundleName = cb_wantAgentBundleName c, ti_wantAgentAbilityName = cb_wantAgentAbilityName c,
      ti_suspendState = cb_suspendState c, ti_bundleName = cb_bundleName c, ti_appIndex = cb_appIndex c,
      ti_isByRequestObject = cb_isByRequestObject c\<rparr>"

definition GetNapiDelaySuspendInfo :: "int \<Rightarrow> int \<Rightarrow> jsval" where
  "GetNapiDelaySuspendInfo requestId actualDelayTime =
     JObject [(''requestId'', JNumber requestId), (''actualDelayTime'', JNumber actualDelayTime)]"

definition SetDelaySuspendInfo :: "DelaySuspendInfo \<Rightarrow> jsval" where
  "SetDelaySuspendInfo d =
     JObject [(''requestId'', JNumber (ds_requestId d)), (''actualDelayTime'', JNumber (ds_actualDelayTime d))]"

definition GetNapiEfficiencyResourcesInfo :: "EfficiencyResourceInfo \<Rightarrow> jsval" where
  "GetNapiEfficiencyResourcesInfo i = JObject
     ([(''resourceTypes'', JNumber (sint (ri_resourceNumber i))), (''timeout'', JNumber (sint (ri_timeOut i))),
       (''isPersistent'', JBoolean (ri_isPersist i)), (''isForProcess'', JBoolean (ri_isProcess i)),
       (''reason'', JString (ri_reason i)), (''uid'', JNumber (ri_uid i)), (''pid'', JNumber (ri_pid i))] @
      (if ri_cpuLevel i \<noteq> CPU_LEVEL_DEFAULT then [(''cpuLevel'', JNumber (ri_cpuLevel i))] else []))"

section \<open>How a call ends\<close>

text \<open>A promise is resolved or rejected, or a callback is called with an error and a result.\<close>

datatype completion = Resolved jsval | Rejected jsval | CalledBack jsval jsval

definition SetCallback :: "ErrCode \<Rightarrow> jsval \<Rightarrow> completion" where
  "SetCallback errCode result =
     CalledBack (if errCode = ERR_OK then JNull else GetCallbackErrorValue (FindErrCode errCode) (FindErrMsg errCode)) result"

definition SetPromise :: "ErrCode \<Rightarrow> jsval \<Rightarrow> completion" where
  "SetPromise errCode result =
     (if errCode = ERR_OK then Resolved result
      else Rejected (JObject [(''data'', JNumber (FindErrCode errCode)), (''code'', JNumber (FindErrCode errCode)),
                              (''message'', JString (FindErrMsg errCode))]))"

definition ReturnCallbackPromise :: "bool \<Rightarrow> ErrCode \<Rightarrow> jsval \<Rightarrow> completion" where
  "ReturnCallbackPromise isCallback errCode result = (if isCallback then SetCallback errCode result else SetPromise errCode result)"

text \<open>The end of most promises: an object with code and message if the call has failed.\<close>

definition settled :: "ErrCode \<Rightarrow> jsval \<Rightarrow> completion" where
  "settled errCode result =
     (if errCode = ERR_OK then Resolved result
      else Rejected (GetCallbackErrorValue (FindErrCode errCode) (FindErrMsg errCode)))"

end
