(* ===== verification/NapiContinuous.thy ===== *)
theory NapiContinuous
  imports NapiCommon
begin

text \<open>
  Continuous tasks from JavaScript (\<^verbatim>\<open>interfaces/kits/napi/src/bg_continuous_task_napi_module.cpp\<close>).
  A function that JavaScript calls checks its arguments, throwing errors as it goes, and queues a
  work; the work calls the client library on another thread, and its completion settles the promise
  or calls the callback. Dereferencing a null pointer or reading past the end of a vector makes a work
  end with \<open>None\<close>. Allocating the data of a work is taken to succeed.
\<close>

section \<open>Works\<close>

record AsyncCallbackInfo =
  ai_abilityContext :: "AbilityContext option"
  ai_bgMode :: "32 word"
  ai_wantAgent :: want_agent
  ai_bgModes :: "32 word list"
  ai_isBatchApi :: bool
  ai_includeSuspended :: bool
  ai_request :: ContinuousTaskRequest
  ai_removeTaskId :: int
  ai_checkSpecialAuthApiVersion :: int
  ai_notificationId :: int
  ai_continuousTaskId :: int
  ai_authResult :: int
  ai_list :: "ContinuousTaskInfo list"
  ai_errCode :: ErrCode

definition new_AsyncCallbackInfo :: AsyncCallbackInfo where
  "new_AsyncCallbackInfo =
     \<lparr>ai_abilityContext = None, ai_bgMode = 0, ai_wantAgent = None, ai_bgModes = [], ai_isBatchApi = False,
      ai_includeSuspended = False, ai_request = new_ContinuousTaskRequest, ai_removeTaskId = -1,
      ai_checkSpecialAuthApiVersion = API_VERSION_22, ai_notificationId = -1, ai_continuousTaskId = -1,
      ai_authResult = 0, ai_list = [], ai_errCode = ERR_OK\<rparr>"

datatype work_kind =
    StartWork | StartByRequestWork | UpdateWork | UpdateByRequestWork | StopWork | StopByTaskIdWork | GetAllWork
  | GetAllIncludeSuspendedWork | CheckAuthWork | ObtainAllWork

text \<open>A work: what it runs, whether a callback or a promise awaits it, and its data.\<close>

type_synonym work = "work_kind \<times> bool \<times> AsyncCallbackInfo"

text \<open>What a call from JavaScript does: the errors it throws, what it returns, and the work it queues.\<close>

type_synonym js_call = "js_error list \<times> jsval \<times> work option"

abbreviation (input) BG_MODE_ID_BEGIN :: "32 word" where "BG_MODE_ID_BEGIN \<equiv> 1"
abbreviation (input) BG_MODE_ID_END :: "32 word" where "BG_MODE_ID_END \<equiv> 9"

definition g_backgroundModes :: "string list" where
  "g_backgroundModes =
     [''dataTransfer'', ''audioPlayback'', ''audioRecording'', ''location'', ''bluetoothInteraction'',
      ''multiDeviceConnection'', ''wifiInteraction'', ''voip'', ''taskKeeping'']"

section \<open>Checks\<close>

text \<open>A check throws errors and gives the data if it is passed; otherwise the code it leaves in the data.\<close>

type_synonym 'a check = "js_error list \<times> (ErrCode + 'a)"

definition param_error :: "ErrCode \<Rightarrow> bool \<Rightarrow> 'a check" where
  "param_error code isThrow = (HandleParamErr code isThrow, Inl code)"

definition sa_error :: "ErrCode \<Rightarrow> 'a check" where
  "sa_error code = (HandleErrCode code True, Inl code)"

definition passed :: "'a \<Rightarrow> 'a check" where
  "passed x = ([], Inr x)"

definition and_then :: "'a check \<Rightarrow> ('a \<Rightarrow> 'b check) \<Rightarrow> 'b check" where
  "and_then c f = (case c of (t, Inl code) \<Rightarrow> (t, Inl code) | (t, Inr x) \<Rightarrow> (case f x of (t', r) \<Rightarrow> (t @ t', r)))"

definition CheckBackgroundMode :: "bool \<Rightarrow> AsyncCallbackInfo \<Rightarrow> AsyncCallbackInfo check" where
  "CheckBackgroundMode isThrow a =
     (if \<not> ai_isBatchApi a then
        if ai_bgMode a < BG_MODE_ID_BEGIN \<or> ai_bgMode a > BG_MODE_ID_END then param_error ERR_BGMODE_RANGE_ERR isThrow
        else passed a
      else if list_ex (\<lambda>m. m < BG_MODE_ID_BEGIN \<or> m > BG_MODE_ID_END) (ai_bgModes a) then param_error ERR_BGMODE_RANGE_ERR isThrow
      else passed a)"

definition StartBackgroundRunningCheckParam :: "bool \<Rightarrow> AsyncCallbackInfo \<Rightarrow> AsyncCallbackInfo check" where
  "StartBackgroundRunningCheckParam isThrow a =
     (if ai_errCode a \<noteq> ERR_OK then ([], Inl (ai_errCode a))
      else case ai_abilityContext a of
             None \<Rightarrow> param_error ERR_CONTEXT_NULL_OR_TYPE_ERR isThrow
           | Some c \<Rightarrow>
               if ac_abilityInfo c = None then param_error ERR_ABILITY_INFO_EMPTY isThrow
               else if ai_wantAgent a = None then param_error ERR_WANTAGENT_NULL_OR_TYPE_ERR isThrow
               else if \<not> ac_token c then param_error ERR_GET_TOKEN_ERR isThrow
               else CheckBackgroundMode isThrow a)"

definition StopBackgroundRunningCheckParam :: "bool \<Rightarrow> AsyncCallbackInfo \<Rightarrow> AsyncCallbackInfo check" where
  "StopBackgroundRunningCheckParam isThrow a =
     (case ai_abilityContext a of
        None \<Rightarrow> param_error ERR_CONTEXT_NULL_OR_TYPE_ERR isThrow
      | Some c \<Rightarrow>
          if ac_abilityInfo c = None then param_error ERR_ABILITY_INFO_EMPTY isThrow
          else if \<not> ac_token c then param_error ERR_GET_TOKEN_ERR isThrow
          else passed a)"

text \<open>Arguments: what is thrown, and nothing if the argument is not accepted.\<close>

definition GetMode :: "'v napi \<Rightarrow> 'v \<Rightarrow> AsyncCallbackInfo \<Rightarrow> js_error list \<times> AsyncCallbackInfo option" where
  "GetMode N v a =
     (case nv_typeof N v of
        None \<Rightarrow> ([], None)
      | Some t \<Rightarrow>
          if t \<noteq> napi_number then (HandleParamErr ERR_BGMODE_NULL_OR_TYPE_ERR True, None)
          else ([], Some (a\<lparr>ai_bgMode := case_option (ai_bgMode a) id (nv_uint32 N v), ai_isBatchApi := False\<rparr>)))"

definition index_of :: "string \<Rightarrow> string list \<Rightarrow> nat" where
  "index_of x xs = length (takeWhile (\<lambda>y. y \<noteq> x) xs)"

text \<open>The loop over an array of mode names: \<open>k\<close> elements from \<open>i\<close> on, with the modes found so far.\<close>

fun mode_names :: "'v napi \<Rightarrow> 'v \<Rightarrow> nat \<Rightarrow> nat \<Rightarrow> 32 word list \<Rightarrow> js_error list \<times> 32 word list option" where
  "mode_names N v i 0 modes = ([], Some modes)"
| "mode_names N v i (Suc k) modes =
     (case Option.bind (nv_element N v i) (GetStringValue N) of
        None \<Rightarrow> (HandleParamErr ERR_BGMODE_NULL_OR_TYPE_ERR True, None)
      | Some name \<Rightarrow>
          if name \<in> set g_backgroundModes then
            let m = of_nat (index_of name g_backgroundModes + 1)
            in mode_names N v (Suc i) k (if m \<in> set modes then modes else modes @ [m])
          else (HandleParamErr ERR_BGMODE_NULL_OR_TYPE_ERR True, None))"

definition GetModes :: "'v napi \<Rightarrow> 'v \<Rightarrow> AsyncCallbackInfo \<Rightarrow> js_error list \<times> AsyncCallbackInfo option" where
  "GetModes N v a =
     (let arrayLen = case_option 0 id (nv_arrayLength N v)
      in if arrayLen = 0 then (HandleParamErr ERR_BGMODE_NULL_OR_TYPE_ERR True, None)
         else let (thrown, modes) = mode_names N v 0 arrayLen (ai_bgModes a)
              in (thrown, map_option (\<lambda>ms. a\<lparr>ai_bgModes := ms, ai_isBatchApi := True\<rparr>) modes))"

definition GetBackgroundMode :: "'v napi \<Rightarrow> 'v \<Rightarrow> AsyncCallbackInfo \<Rightarrow> js_error list \<times> AsyncCallbackInfo option" where
  "GetBackgroundMode N v a = (if nv_isArray N v \<noteq> Some True then GetMode N v a else GetModes N v a)"

definition GetWantAgent :: "'v napi \<Rightarrow> 'v \<Rightarrow> js_error list \<times> want_agent" where
  "GetWantAgent N v =
     (case nv_typeof N v of
        None \<Rightarrow> ([], None)
      | Some t \<Rightarrow> if t \<noteq> napi_object then (HandleParamErr ERR_WANTAGENT_NULL_OR_TYPE_ERR True, None) else ([], nv_unwrap N v))"

definition GetIncludeSuspended :: "'v napi \<Rightarrow> 'v \<Rightarrow> js_error list \<times> bool option" where
  "GetIncludeSuspended N v =
     (case nv_typeof N v of
        None \<Rightarrow> ([], None)
      | Some t \<Rightarrow>
          if t \<noteq> napi_boolean then (HandleParamErr ERR_WANTAGENT_NULL_OR_TYPE_ERR True, None)
          else ([], Some (case_option False id (nv_bool N v))))"

text \<open>An argument that is not accepted ends the check with one more error.\<close>

definition argument :: "js_error list \<times> 'a option \<Rightarrow> ErrCode \<Rightarrow> bool \<Rightarrow> 'a check" where
  "argument r code isThrow =
     (case r of (t, None) \<Rightarrow> (t @ HandleParamErr code isThrow, Inl code) | (t, Some x) \<Rightarrow> (t, Inr x))"

definition context_argument :: "'v napi \<Rightarrow> 'v \<Rightarrow> bool \<Rightarrow> AsyncCallbackInfo \<Rightarrow> AsyncCallbackInfo check" where
  "context_argument N v isThrow a =
     and_then (argument ([], GetAbilityContext N v) ERR_CONTEXT_NULL_OR_TYPE_ERR isThrow)
       (\<lambda>c. passed (a\<lparr>ai_abilityContext := Some c\<rparr>))"

definition GetAllContinuousTasksCheckParamBeforeSubmit :: "'v napi \<Rightarrow> 'v list \<Rightarrow> bool \<Rightarrow> AsyncCallbackInfo check" where
  "GetAllContinuousTasksCheckParamBeforeSubmit N args isThrow =
     (if length args > 2 \<or> length args < 1 then param_error ERR_PARAM_NUMBER_ERR isThrow
      else and_then (context_argument N (argv N args 0) isThrow new_AsyncCallbackInfo)
        (\<lambda>a. if length args = 2 then
               and_then (argument (GetIncludeSuspended N (argv N args 1)) ERR_BGMODE_NULL_OR_TYPE_ERR isThrow)
                 (\<lambda>b. passed (a\<lparr>ai_includeSuspended := b\<rparr>))
             else passed a))"

definition StartBackgroundRunningCheckParamBeforeSubmit :: "'v napi \<Rightarrow> 'v list \<Rightarrow> bool \<Rightarrow> AsyncCallbackInfo check" where
  "StartBackgroundRunningCheckParamBeforeSubmit N args isThrow =
     and_then (context_argument N (argv N args 0) isThrow new_AsyncCallbackInfo)
       (\<lambda>a. and_then (argument (GetBackgroundMode N (argv N args 1) a) ERR_BGMODE_NULL_OR_TYPE_ERR isThrow)
          (\<lambda>a. and_then (argument (GetWantAgent N (argv N args 2)) ERR_WANTAGENT_NULL_OR_TYPE_ERR isThrow)
             (\<lambda>w. passed (a\<lparr>ai_wantAgent := Some w\<rparr>))))"

definition CheckSpecialModeParma :: "ContinuousTaskRequest \<Rightarrow> ContinuousTaskRequest check" where
  "CheckSpecialModeParma request =
     (let modes = rq_backgroundTaskModes request;
          specialModeSize = count_list modes SPECIAL_SCENARIO_PROCESSING
      in if rq_combinedTaskNotification request \<and> specialModeSize > 0 then
           sa_error ERR_BGTASK_CONTINUOUS_SPECIAL_SCENARIO_PROCESSING_NOT_MERGE_NOTIFICATION
         else if rq_combinedTaskNotification request \<and> count_list modes DATA_TRANSFER > 0 then
           sa_error ERR_BGTASK_CONTINUOUS_DATA_TRANSFER_NOT_MERGE_NOTIFICATION
         else if specialModeSize > 1 then sa_error ERR_BGTASK_SPECIAL_SCENARIO_PROCESSING_ONLY_ALLOW_ONE_APPLICATION
         else if specialModeSize = 1 \<and> length modes > 1 then sa_error ERR_BGTASK_SPECIAL_SCENARIO_PROCESSING_CONFLICTS_WITH_OTHER_TASK
         else passed request)"

text \<open>The loop over the sub modes, at index \<open>i\<close>; both lists have the same length here.\<close>

fun check_submodes :: "32 word list \<Rightarrow> 32 word list \<Rightarrow> unit check" where
  "check_submodes (mode # modes) (subMode # rest) =
     (if subMode \<ge> 12 \<or> subMode < CAR_KEY then sa_error ERR_BGTASK_CONTINUOUS_MODE_OR_SUBMODE_CROSS_BORDER
      else if subMode = SUBMODE_NORMAL_NOTIFICATION then
        if \<not> IsModeTypeMatching mode then sa_error ERR_BGTASK_CONTINUOUS_MODE_OR_SUBMODE_TYPE_MISMATCH
        else check_submodes modes rest
      else if GetSubModeTypeMatching subMode \<noteq> mode then sa_error ERR_BGTASK_CONTINUOUS_MODE_OR_SUBMODE_TYPE_MISMATCH
      else check_submodes modes rest)"
| "check_submodes _ _ = passed ()"

definition StartBackgroundRunningCheckModes :: "ContinuousTaskRequest \<Rightarrow> ContinuousTaskRequest check" where
  "StartBackgroundRunningCheckModes request =
     (let modes = rq_backgroundTaskModes request; submodes = rq_backgroundTaskSubmodes request
      in if length modes = 0 \<or> length submodes = 0 then sa_error ERR_BGTASK_CONTINUOUS_MODE_OR_SUBMODE_IS_EMPTY
         else if length modes \<noteq> length submodes then sa_error ERR_BGTASK_CONTINUOUS_MODE_OR_SUBMODE_LENGTH_MISMATCH
         else and_then (CheckSpecialModeParma request) (\<lambda>_. and_then (check_submodes modes submodes) (\<lambda>_. passed request)))"

definition StartBackgroundRunningCheckRequest :: "'v napi \<Rightarrow> 'v list \<Rightarrow> bool \<Rightarrow> AsyncCallbackInfo check" where
  "StartBackgroundRunningCheckRequest N args isThrow =
     (if length args \<noteq> 2 then param_error ERR_PARAM_NUMBER_ERR isThrow
      else and_then (context_argument N (argv N args 0) isThrow new_AsyncCallbackInfo)
        (\<lambda>a. if Option.bind (ai_abilityContext a) ac_abilityInfo = None then param_error ERR_ABILITY_INFO_EMPTY isThrow
             else case GetContinuousTaskRequest N (argv N args 1) (ai_request a) of
                    (t, None) \<Rightarrow>
                      (t @ HandleErrCode ERR_BGTASK_CONTINUOUS_REQUEST_NULL_OR_TYPE True,
                       Inl ERR_BGTASK_CONTINUOUS_REQUEST_NULL_OR_TYPE)
                  | (t, Some request) \<Rightarrow>
                      and_then (t, Inr request) (\<lambda>r. and_then (StartBackgroundRunningCheckModes r)
                        (\<lambda>r. passed (a\<lparr>ai_request := r\<rparr>)))))"

definition UpdateBackgroundRunningCheckParam :: "'v napi \<Rightarrow> 'v list \<Rightarrow> bool \<Rightarrow> AsyncCallbackInfo check" where
  "UpdateBackgroundRunningCheckParam N args isThrow =
     (if length args \<noteq> 2 then param_error ERR_PARAM_NUMBER_ERR isThrow
      else and_then (context_argument N (argv N args 0) isThrow new_AsyncCallbackInfo)
        (\<lambda>a. argument (GetBackgroundMode N (argv N args 1) a) ERR_BGMODE_NULL_OR_TYPE_ERR isThrow))"

section \<open>Calls from JavaScript\<close>

text \<open>A call whose check fails returns null; otherwise it queues its work and returns a promise.\<close>

definition promised :: "work_kind \<Rightarrow> AsyncCallbackInfo check \<Rightarrow> js_call" where
  "promised k c = (case c of (t, Inl _) \<Rightarrow> (t, JNull, None) | (t, Inr a) \<Rightarrow> (t, JPromise, Some (k, False, a)))"

text \<open>
  With a callback: when errors are not thrown, the work is queued even if the check fails, with the
  error in its data, which the callback gets.
\<close>

definition called_back ::
    "'v napi \<Rightarrow> 'v \<Rightarrow> work_kind \<Rightarrow> bool \<Rightarrow> (AsyncCallbackInfo \<Rightarrow> AsyncCallbackInfo check) \<Rightarrow> AsyncCallbackInfo \<Rightarrow> js_call" where
  "called_back N v k isThrow check a =
     (case nv_typeof N v of
        None \<Rightarrow> ([], JNull, None)
      | Some ty \<Rightarrow>
          if ty \<noteq> napi_function then (HandleParamErr ERR_CALLBACK_NULL_OR_TYPE_ERR isThrow, JNull, None)
          else case check a of
                 (t, Inr b) \<Rightarrow> (t, JNull, Some (k, True, b))
               | (t, Inl code) \<Rightarrow> (t, JNull, if isThrow then None else Some (k, True, a\<lparr>ai_errCode := code\<rparr>)))"

definition after :: "js_error list \<Rightarrow> js_call \<Rightarrow> js_call" where
  "after t = (\<lambda>(t', r, w). (t @ t', r, w))"

definition js_StartBackgroundRunning :: "'v napi \<Rightarrow> 'v list \<Rightarrow> bool \<Rightarrow> js_call" where
  "js_StartBackgroundRunning N args isThrow =
     (if length args > 4 then (HandleParamErr ERR_PARAM_NUMBER_ERR isThrow, JNull, None)
      else if length args = 2 then promised StartByRequestWork (StartBackgroundRunningCheckRequest N args isThrow)
      else case StartBackgroundRunningCheckParamBeforeSubmit N args isThrow of
             (t, Inl _) \<Rightarrow> (t, JNull, None)
           | (t, Inr a) \<Rightarrow>
               after t (if length args = 4
                        then called_back N (argv N args 3) StartWork isThrow (StartBackgroundRunningCheckParam isThrow) a
                        else promised StartWork (StartBackgroundRunningCheckParam isThrow a)))"

definition update_task_id :: "AsyncCallbackInfo \<Rightarrow> AsyncCallbackInfo check" where
  "update_task_id a =
     (if rq_continuousTaskId (ai_request a) < 0 then sa_error ERR_BGTASK_CONTINUOUS_TASKID_INVALID else passed a)"

definition js_UpdateBackgroundRunning :: "'v napi \<Rightarrow> 'v list \<Rightarrow> bool \<Rightarrow> js_call" where
  "js_UpdateBackgroundRunning N args isThrow =
     (if length args \<noteq> 2 then (HandleParamErr ERR_PARAM_NUMBER_ERR isThrow, JNull, None)
      else if nv_isArray N (argv N args 1) = Some True
      then promised UpdateWork (and_then (UpdateBackgroundRunningCheckParam N args isThrow) (CheckBackgroundMode isThrow))
      else promised UpdateByRequestWork (and_then (StartBackgroundRunningCheckRequest N args isThrow) update_task_id))"

definition StopBackgroundRunningBySubmit :: "'v napi \<Rightarrow> 'v list \<Rightarrow> bool \<Rightarrow> AsyncCallbackInfo \<Rightarrow> js_call" where
  "StopBackgroundRunningBySubmit N args isThrow a =
     (if type_of N (argv N args 1) = napi_number then
        let taskIdValue = case_option (-1) id (nv_int32 N (argv N args 1))
        in if taskIdValue < 0 then (HandleErrCode ERR_BGTASK_CONTINUOUS_TASKID_INVALID True, JNull, None)
           else promised StopByTaskIdWork (StopBackgroundRunningCheckParam isThrow (a\<lparr>ai_removeTaskId := taskIdValue\<rparr>))
      else called_back N (argv N args 1) StopWork isThrow (StopBackgroundRunningCheckParam isThrow) a)"

text \<open>A null pointer returned to JavaScript is undefined.\<close>

definition js_StopBackgroundRunning :: "'v napi \<Rightarrow> 'v list \<Rightarrow> bool \<Rightarrow> js_call" where
  "js_StopBackgroundRunning N args isThrow =
     (if length args > 2 then (HandleParamErr ERR_PARAM_NUMBER_ERR isThrow, JUndefined, None)
      else case context_argument N (argv N args 0) isThrow new_AsyncCallbackInfo of
             (t, Inl _) \<Rightarrow> (t, JUndefined, None)
           | (t, Inr a) \<Rightarrow>
               after t (if length args = 2 then StopBackgroundRunningBySubmit N args isThrow a
                        else promised StopWork (StopBackgroundRunningCheckParam isThrow a)))"

definition js_GetAllContinuousTasks :: "'v napi \<Rightarrow> 'v list \<Rightarrow> bool \<Rightarrow> js_call" where
  "js_GetAllContinuousTasks N args isThrow =
     promised (if length args = 1 then GetAllWork else GetAllIncludeSuspendedWork)
       (GetAllContinuousTasksCheckParamBeforeSubmit N args isThrow)"

definition CheckSpecialScenarioUserAuth :: "'v napi \<Rightarrow> 'v list \<Rightarrow> int \<Rightarrow> js_call" where
  "CheckSpecialScenarioUserAuth N args apiVersion =
     (if length args \<noteq> 1 then (HandleParamErr ERR_PARAM_NUMBER_ERR True, JNull, None)
      else promised CheckAuthWork
        (and_then (context_argument N (argv N args 0) True (new_AsyncCallbackInfo\<lparr>ai_checkSpecialAuthApiVersion := apiVersion\<rparr>))
          (\<lambda>a. if Option.bind (ai_abilityContext a) ac_abilityInfo = None then param_error ERR_ABILITY_INFO_EMPTY True
               else passed a)))"

definition js_ObtainAllContinuousTasks :: js_call where
  "js_ObtainAllContinuousTasks = promised ObtainAllWork (passed new_AsyncCallbackInfo)"

section \<open>Works of the other thread\<close>

text \<open>The parameter of a call of the client library, from the data of the work.\<close>

definition task_param :: "want_agent \<Rightarrow> string \<Rightarrow> int \<Rightarrow> bool \<Rightarrow> 32 word \<Rightarrow> 32 word list \<Rightarrow> ContinuousTaskParam" where
  "task_param agent abilityName abilityId isBatchApi mode modes =
     new_ContinuousTaskParam\<lparr>cp_isNewApi := True, cp_bgModeId := mode, cp_wantAgent := agent, cp_abilityName := abilityName,
       cp_appName := '''', cp_isBatchApi := isBatchApi, cp_bgModeIds := modes, cp_abilityId := abilityId\<rparr>"

definition work_context :: "AsyncCallbackInfo \<Rightarrow> (AbilityContext \<times> string \<times> int) option" where
  "work_context a =
     (case ai_abilityContext a of
        None \<Rightarrow> None
      | Some c \<Rightarrow> map_option (\<lambda>(name, appIndex). (c, name, appIndex)) (ac_abilityInfo c))"

definition with_result :: "ErrCode \<times> (int \<times> int) \<times> 'm \<times> 's \<Rightarrow> AsyncCallbackInfo \<Rightarrow> AsyncCallbackInfo \<times> 'm \<times> 's" where
  "with_result r a = (case r of (c, (n, t), m, s) \<Rightarrow> (a\<lparr>ai_errCode := c, ai_notificationId := n, ai_continuousTaskId := t\<rparr>, m, s))"

definition with_code :: "ErrCode \<times> 'r \<times> 'm \<times> 's \<Rightarrow> AsyncCallbackInfo \<Rightarrow> AsyncCallbackInfo \<times> 'm \<times> 's" where
  "with_code r a = (case r of (c, _, m, s) \<Rightarrow> (a\<lparr>ai_errCode := c\<rparr>, m, s))"

definition StartBackgroundRunningExecuteCB where
  "StartBackgroundRunningExecuteCB e remote a m s =
     (if ai_errCode a \<noteq> ERR_OK then Some (a, m, s)
      else map_option (\<lambda>(c, name, appIndex).
        with_result (cl_RequestStartBackgroundRunning e remote
          ((task_param (ai_wantAgent a) name (ac_abilityRecordId c) (ai_isBatchApi a) (ai_bgMode a) (ai_bgModes a))
             \<lparr>cp_appIndex := appIndex\<rparr>) (-1, -1) m s) a) (work_context a))"

definition UpdateBackgroundRunningExecuteCB where
  "UpdateBackgroundRunningExecuteCB e remote a m s =
     (if ai_errCode a \<noteq> ERR_OK then Some (a, m, s)
      else map_option (\<lambda>(c, name, appIndex).
        with_result (cl_RequestUpdateBackgroundRunning e remote
          (task_param None name (ac_abilityRecordId c) True (ai_bgMode a) (ai_bgModes a)) (-1, -1) m s) a) (work_context a))"

text \<open>The parameter of a request object; the first mode is read without a check that there is one.\<close>

definition request_param :: "AsyncCallbackInfo \<Rightarrow> (ContinuousTaskRequest \<times> int \<times> ContinuousTaskParam) option" where
  "request_param a =
     (case TaskModeTypeConversion (ai_request a) of
        None \<Rightarrow> None
      | Some r \<Rightarrow>
          (case (work_context a, rq_backgroundTaskModes r) of
             (Some (c, name, appIndex), mode # modes) \<Rightarrow>
               Some (r, appIndex,
                 (task_param (rq_wantAgent r) name (ac_abilityRecordId c) True mode (mode # modes))
                   \<lparr>cp_isByRequestObject := True, cp_isCombinedTaskNotification := rq_combinedTaskNotification r,
                    cp_bgSubModeIds := rq_backgroundTaskSubmodes r, cp_progressInfo := rq_progressInfo r\<rparr>)
           | _ \<Rightarrow> None))"

definition StartBackgroundRunningByRequestExecuteCB where
  "StartBackgroundRunningByRequestExecuteCB e remote a m s =
     (if ai_errCode a \<noteq> ERR_OK then Some (a, m, s)
      else map_option (\<lambda>(r, appIndex, p).
        with_result (cl_RequestStartBackgroundRunning e remote
          (p\<lparr>cp_combinedNotificationTaskId := rq_continuousTaskId r, cp_appIndex := appIndex\<rparr>) (-1, -1) m s)
          (a\<lparr>ai_request := r, ai_bgModes := rq_backgroundTaskModes r\<rparr>)) (request_param a))"

definition UpdateBackgroundRunningByRequestExecuteCB where
  "UpdateBackgroundRunningByRequestExecuteCB e remote a m s =
     (if ai_errCode a \<noteq> ERR_OK then Some (a, m, s)
      else map_option (\<lambda>(r, appIndex, p).
        with_result (cl_RequestUpdateBackgroundRunning e remote (p\<lparr>cp_updateTaskId := rq_continuousTaskId r\<rparr>) (-1, -1) m s)
          (a\<lparr>ai_request := r, ai_bgModes := rq_backgroundTaskModes r\<rparr>)) (request_param a))"

definition StopBackgroundRunningExecuteCB where
  "StopBackgroundRunningExecuteCB e remote a m s =
     (if ai_errCode a \<noteq> ERR_OK then Some (a, m, s)
      else map_option (\<lambda>(c, name, _).
        with_code (cl_RequestStopBackgroundRunning e remote name (ac_abilityRecordId c) (-1) m s) a) (work_context a))"

definition StopBackgroundRunningByTaskIdExecuteCB where
  "StopBackgroundRunningByTaskIdExecuteCB e remote a m s =
     (if ai_errCode a \<noteq> ERR_OK then Some (a, m, s)
      else map_option (\<lambda>(c, name, _).
        with_code (cl_RequestStopBackgroundRunning e remote name (ac_abilityRecordId c) (ai_removeTaskId a) m s) a) (work_context a))"

definition GetAllContinuousTasksExecuteCB where
  "GetAllContinuousTasksExecuteCB e remote a m s =
     (if ai_errCode a \<noteq> ERR_OK then Some (a, m, s)
      else case cl_RequestGetAllContinuousTasks e remote (ai_list a) m s of
             (c, list, m1, s1) \<Rightarrow> Some (a\<lparr>ai_errCode := c, ai_list := list\<rparr>, m1, s1))"

text \<open>Here the proxy fills the list itself.\<close>

definition filled :: "ErrCode \<times> reply option \<times> 'm \<times> 's \<Rightarrow> AsyncCallbackInfo \<Rightarrow> AsyncCallbackInfo \<times> 'm \<times> 's" where
  "filled r a = (case r of (c, reply, m, s) \<Rightarrow>
     (a\<lparr>ai_errCode := c, ai_list := (if c = ERR_OK then case_option (ai_list a) infos_of reply else ai_list a)\<rparr>, m, s))"

definition GetAllContinuousTasksIncludeSuspendedExecuteCB where
  "GetAllContinuousTasksIncludeSuspendedExecuteCB e remote a m s =
     (if ai_errCode a \<noteq> ERR_OK then Some (a, m, s)
      else Some (filled (cl_RequestGetAllContinuousTasksIncludeSuspended e remote (ai_includeSuspended a) m s) a))"

definition ObtainAllContinuousTasksExecuteCB where
  "ObtainAllContinuousTasksExecuteCB e remote a m s = Some (filled (cl_GetAllContinuousTasksBySystem e remote m s) a)"

definition CheckSpecialScenarioAuthExecuteCB where
  "CheckSpecialScenarioAuthExecuteCB e remote a m s =
     map_option (\<lambda>(_, _, appIndex).
       case cl_CheckSpecialScenarioAuth e remote appIndex (ai_checkSpecialAuthApiVersion a) m s of
         (c, reply, m1, s1) \<Rightarrow>
           (a\<lparr>ai_errCode := c, ai_authResult := (if c = ERR_OK then case_option (ai_authResult a) auth_of reply else ai_authResult a)\<rparr>,
            m1, s1)) (work_context a)"

fun execute where
  "execute e remote StartWork a m s = StartBackgroundRunningExecuteCB e remote a m s"
| "execute e remote StartByRequestWork a m s = StartBackgroundRunningByRequestExecuteCB e remote a m s"
| "execute e remote UpdateWork a m s = UpdateBackgroundRunningExecuteCB e remote a m s"
| "execute e remote UpdateByRequestWork a m s = UpdateBackgroundRunningByRequestExecuteCB e remote a m s"
| "execute e remote StopWork a m s = StopBackgroundRunningExecuteCB e remote a m s"
| "execute e remote StopByTaskIdWork a m s = StopBackgroundRunningByTaskIdExecuteCB e remote a m s"
| "execute e remote GetAllWork a m s = GetAllContinuousTasksExecuteCB e remote a m s"
| "execute e remote GetAllIncludeSuspendedWork a m s = GetAllContinuousTasksIncludeSuspendedExecuteCB e remote a m s"
| "execute e remote CheckAuthWork a m s = CheckSpecialScenarioAuthExecuteCB e remote a m s"
| "execute e remote ObtainAllWork a m s = ObtainAllContinuousTasksExecuteCB e remote a m s"

section \<open>Completion\<close>

abbreviation (input) SLOT_TYPE :: int where "SLOT_TYPE \<equiv> 4"
abbreviation (input) SYSTEM_LIVE_CONTENT_TYPE :: int where "SYSTEM_LIVE_CONTENT_TYPE \<equiv> 8"

definition CallbackCompletedCB :: "AsyncCallbackInfo \<Rightarrow> completion" where
  "CallbackCompletedCB a =
     (if ai_errCode a = ERR_OK then CalledBack JUndefined (JNumber 0)
      else CalledBack (GetCallbackErrorValue (FindErrCode (ai_errCode a)) (FindErrMsg (ai_errCode a))) JUndefined)"

definition PromiseCompletedCB :: "AsyncCallbackInfo \<Rightarrow> completion" where
  "PromiseCompletedCB a =
     settled (ai_errCode a)
       (if length (ai_bgModes a) > 0
        then JObject [(''slotType'', JNumber SLOT_TYPE), (''contentType'', JNumber SYSTEM_LIVE_CONTENT_TYPE),
                      (''notificationId'', JNumber (ai_notificationId a)), (''continuousTaskId'', JNumber (ai_continuousTaskId a))]
        else JNumber 0)"

definition GetAllContinuousTasksPromiseCompletedCB :: "AsyncCallbackInfo \<Rightarrow> completion" where
  "GetAllContinuousTasksPromiseCompletedCB a =
     settled (ai_errCode a) (JArray (map GetNapiContinuousTaskInfo (ai_list a)))"

definition ObtainAllContinuousTasksPromiseCompletedCB :: "AsyncCallbackInfo \<Rightarrow> completion" where
  "ObtainAllContinuousTasksPromiseCompletedCB a =
     settled (ai_errCode a) (JArray (map GetNapiContinuousTaskInfo (ai_list a)))"

definition CheckSpecialScenarioAuthPromiseCompletedCB :: "AsyncCallbackInfo \<Rightarrow> completion" where
  "CheckSpecialScenarioAuthPromiseCompletedCB a = settled (ai_errCode a) (JNumber (ai_authResult a))"

fun complete :: "work_kind \<Rightarrow> bool \<Rightarrow> AsyncCallbackInfo \<Rightarrow> completion" where
  "complete GetAllWork _ a = GetAllContinuousTasksPromiseCompletedCB a"
| "complete GetAllIncludeSuspendedWork _ a = GetAllContinuousTasksPromiseCompletedCB a"
| "complete CheckAuthWork _ a = CheckSpecialScenarioAuthPromiseCompletedCB a"
| "complete ObtainAllWork _ a = ObtainAllContinuousTasksPromiseCompletedCB a"
| "complete _ callback a = (if callback then CallbackCompletedCB a else PromiseCompletedCB a)"

section \<open>Calls that do not queue a work\<close>

text \<open>The errors thrown, the value returned, and the states of the client and behind it.\<close>

definition IsModeSupportedExecuteCB where
  "IsModeSupportedExecuteCB e remote request m s =
     (case cl_IsModeSupported e remote
             (task_param None '''' (-1) True (-1) (map GetV9BackgroundModeByMode (rq_backgroundTaskModes request))) m s of
        (c, _, m1, s1) \<Rightarrow> (HandleErrCode c True, c = ERR_OK, m1, s1))"

definition CheckSpecialModeSupported :: "ContinuousTaskRequest \<Rightarrow> ContinuousTaskRequest check" where
  "CheckSpecialModeSupported request =
     (let modes = rq_backgroundTaskModes request;
          specialModeSize = count_list modes SPECIAL_SCENARIO_PROCESSING
      in if length modes = 0 then sa_error ERR_BGTASK_CONTINUOUS_MODE_OR_SUBMODE_IS_EMPTY
         else if specialModeSize > 1 then sa_error ERR_BGTASK_SPECIAL_SCENARIO_PROCESSING_ONLY_ALLOW_ONE_APPLICATION
         else if specialModeSize = 1 \<and> length modes > 1 then sa_error ERR_BGTASK_SPECIAL_SCENARIO_PROCESSING_CONFLICTS_WITH_OTHER_TASK
         else passed request)"

definition js_IsModeSupported where
  "js_IsModeSupported N e remote jsThis m s =
     (if nv_has N jsThis ''backgroundTaskModes'' \<noteq> Some True then ([], JNull, m, s)
      else case Option.bind (nv_get N jsThis ''backgroundTaskModes'')
                  (\<lambda>v. GetBackgroundTaskModesFromArray N v new_ContinuousTaskRequest) of
             None \<Rightarrow> ([], JNull, m, s)
           | Some request \<Rightarrow>
               (case CheckSpecialModeSupported request of
                  (t, Inl _) \<Rightarrow> (t, JNull, m, s)
                | (t, Inr r) \<Rightarrow>
                    (case IsModeSupportedExecuteCB e remote r m s of
                       (t', ok, m1, s1) \<Rightarrow> (t @ t', JBoolean ok, m1, s1))))"

definition new_BackgroundTaskStateInfo :: BackgroundTaskStateInfo where
  "new_BackgroundTaskStateInfo = \<lparr>bs_userId = -1, bs_bundleName = '''', bs_appIndex = -1, bs_authResult = 0\<rparr>"

definition js_SetBackgroundTaskState where
  "js_SetBackgroundTaskState N e remote args m s =
     (if length args \<noteq> 1 then (HandleParamErr ERR_PARAM_NUMBER_ERR True, JNull, m, s)
      else case nv_typeof N (argv N args 0) of
             None \<Rightarrow> ([], JUndefined, m, s)
           | Some ty \<Rightarrow>
               if ty \<noteq> napi_object then (HandleParamErr ERR_PARAM_NUMBER_ERR True, JNull, m, s)
               else case GetBackgroundTaskStateParam N (argv N args 0) new_BackgroundTaskStateInfo True of
                      None \<Rightarrow> (HandleErrCode ERR_BGTASK_CONTINUOUS_BACKGROUND_TASK_PARAM_INVALID True, JNull, m, s)
                    | Some t \<Rightarrow> (case cl_SetBackgroundTaskState e remote (Some t) m s of
                        (c, _, m1, s1) \<Rightarrow> (HandleErrCode c True, JNull, m1, s1)))"

definition js_GetBackgroundTaskState where
  "js_GetBackgroundTaskState N e remote args m s =
     (if length args \<noteq> 1 then (HandleParamErr ERR_PARAM_NUMBER_ERR True, JNull, m, s)
      else case nv_typeof N (argv N args 0) of
             None \<Rightarrow> ([], JUndefined, m, s)
           | Some ty \<Rightarrow>
               if ty \<noteq> napi_object then (HandleParamErr ERR_PARAM_NUMBER_ERR True, JNull, m, s)
               else case GetBackgroundTaskStateParam N (argv N args 0) new_BackgroundTaskStateInfo False of
                      None \<Rightarrow> (HandleErrCode ERR_BGTASK_CONTINUOUS_BACKGROUND_TASK_PARAM_INVALID True, JNull, m, s)
                    | Some t \<Rightarrow> (case cl_GetBackgroundTaskState e remote (Some t) m s of
                        (c, t', m1, s1) \<Rightarrow>
                          if c \<noteq> ERR_OK then (HandleErrCode c True, JNull, m1, s1)
                          else ([], JNumber (case_option 0 bs_authResult t'), m1, s1)))"

definition new_DataTransferProgress :: DataTransferProgress where
  "new_DataTransferProgress = \<lparr>dp_continuousTaskId = -1, dp_wantAgent = None, dp_progressInfo = None\<rparr>"

definition GetDataTransferProgress :: "'v napi \<Rightarrow> 'v \<Rightarrow> js_error list \<times> DataTransferProgress option" where
  "GetDataTransferProgress N v =
     (let continuousTaskId = GetIntProperty N v ''continuousTaskId''
      in if type_of N v \<noteq> napi_object then ([], None)
         else if continuousTaskId = -1 then ([], None)
         else let (t, agent) = (case getNamedProperty N v ''wantAgent'' of None \<Rightarrow> ([], None) | Some x \<Rightarrow> GetWantAgent N x);
                  d = new_DataTransferProgress\<lparr>dp_continuousTaskId := continuousTaskId, dp_wantAgent := agent\<rparr>;
                  (t', g) = GetprogressInfo N v new_ProgressInfo
              in (t @ t', map_option (\<lambda>g. d\<lparr>dp_progressInfo := Some g\<rparr>) g))"

definition js_UpdateDataTransferProgress where
  "js_UpdateDataTransferProgress N e remote args m s =
     (if length args \<noteq> 2 then (HandleParamErr ERR_PARAM_NUMBER_ERR True, JNull, m, s)
      else if GetAbilityContext N (argv N args 0) = None then (HandleParamErr ERR_CONTEXT_NULL_OR_TYPE_ERR True, JNull, m, s)
      else case GetDataTransferProgress N (argv N args 1) of
             (t, None) \<Rightarrow> (t @ HandleParamErr ERR_BGTASK_INVALID_PARAM True, JNull, m, s)
           | (t, Some d) \<Rightarrow> (case cl_RequestUpdateDataTransferProgress e remote d m s of
               (c, _, m1, s1) \<Rightarrow> (t @ HandleErrCode c True, JNull, m1, s1)))"

end
