(* ===== verification/TransientApis.thy ===== *)
theory TransientApis
  imports NapiContinuous
begin

text \<open>
  Transient tasks and efficiency resources from JavaScript (\<^verbatim>\<open>request_suspend_delay.cpp\<close>,
  \<^verbatim>\<open>cancel_suspend_delay.cpp\<close>, \<^verbatim>\<open>get_remaining_delay_time.cpp\<close>, \<^verbatim>\<open>get_all_transient_tasks.cpp\<close> and
  \<^verbatim>\<open>efficiency_resources_operation.cpp\<close> of \<^verbatim>\<open>interfaces/kits/napi/src\<close>), and transient tasks from C
  (\<^verbatim>\<open>interfaces/kits/c/src/transient_task_api.cpp\<close>). A callback object is a number, as at the service.
\<close>

section \<open>Callbacks of the process\<close>

text \<open>
  The callbacks by request id, each with whether a JavaScript function is attached; the tasks sent
  to the JavaScript thread; and the JavaScript or C functions that were called.
\<close>

record callback_state =
  kb_callbackInstances :: "(int \<times> nat \<times> bool) list"
  kb_tasks :: "nat list"
  kb_called :: "(nat \<times> jsval) list"

definition new_callback_state :: callback_state where
  "new_callback_state = \<lparr>kb_callbackInstances = [], kb_tasks = [], kb_called = []\<rparr>"

definition request_of :: "nat \<Rightarrow> callback_state \<Rightarrow> (int \<times> nat \<times> bool) option" where
  "request_of cb k = find (\<lambda>(_, c, _). c = cb) (kb_callbackInstances k)"

definition erase_callback :: "int \<Rightarrow> callback_state \<Rightarrow> callback_state" where
  "erase_callback requestId k = k\<lparr>kb_callbackInstances := om_del requestId (kb_callbackInstances k)\<rparr>"

definition CallbackInstance_OnExpired :: "'v napi \<Rightarrow> nat \<Rightarrow> callback_state \<Rightarrow> callback_state" where
  "CallbackInstance_OnExpired N cb k =
     (case request_of cb k of
        None \<Rightarrow> k
      | Some (requestId, _, ref) \<Rightarrow>
          if \<not> ref then erase_callback requestId k
          else if nv_sendEvent N then k\<lparr>kb_tasks := kb_tasks k @ [cb]\<rparr>
          else erase_callback requestId k)"

text \<open>The task on the JavaScript thread.\<close>

definition run_expired :: "nat \<Rightarrow> callback_state \<Rightarrow> callback_state" where
  "run_expired cb k =
     (let k1 = k\<lparr>kb_tasks := remove1 cb (kb_tasks k), kb_called := kb_called k @ [(cb, GetExpireCallbackValue ERR_OK JNull)]\<rparr>
      in case request_of cb k1 of None \<Rightarrow> k1 | Some (requestId, _, _) \<Rightarrow> erase_callback requestId k1)"

section \<open>Transient tasks\<close>

text \<open>The callback object is new; \<open>ref\<close> tells whether the reference to the function could be created.\<close>

definition suspend_ParseParameters :: "'v napi \<Rightarrow> 'v list \<Rightarrow> bool \<Rightarrow> js_error list \<times> string option" where
  "suspend_ParseParameters N args isThrow =
     (if length args \<noteq> 2 then (HandleParamErr ERR_PARAM_NUMBER_ERR isThrow, None)
      else case GetU16StringValue N (argv N args 0) of
             None \<Rightarrow> (HandleParamErr ERR_REASON_NULL_OR_TYPE_ERR isThrow, None)
           | Some reason \<Rightarrow>
               (case nv_typeof N (argv N args 1) of
                  None \<Rightarrow> ([], None)
                | Some ty \<Rightarrow>
                    if ty \<noteq> napi_function then (HandleParamErr ERR_CALLBACK_NULL_OR_TYPE_ERR isThrow, None)
                    else ([], Some reason)))"

text \<open>The delay info the client fills in: it makes a default one before it calls the service.\<close>

fun delay_of :: "reply option \<Rightarrow> DelaySuspendInfo option" where
  "delay_of None = None"
| "delay_of (Some (RDelay (Some d))) = Some d"
| "delay_of (Some _) = Some \<lparr>ds_requestId = -1, ds_actualDelayTime = 0\<rparr>"

definition js_RequestSuspendDelay where
  "js_RequestSuspendDelay N e remote cb ref args isThrow k m s =
     (case suspend_ParseParameters N args isThrow of
        (t, None) \<Rightarrow> (t, JNull, k, m, s)
      | (t, Some _) \<Rightarrow>
          (case cl_RequestSuspendDelay e remote (Some cb) m s of
             (c, reply, m1, s1) \<Rightarrow>
               let t1 = t @ HandleErrCode c isThrow
               in case delay_of reply of
                    None \<Rightarrow> (t1, JNull, k, m1, s1)
                  | Some d \<Rightarrow>
                      (t1, SetDelaySuspendInfo d,
                       k\<lparr>kb_callbackInstances := om_put (ds_requestId d) (cb, ref) (kb_callbackInstances k)\<rparr>, m1, s1)))"

definition cancel_ParseParameters :: "'v napi \<Rightarrow> 'v list \<Rightarrow> bool \<Rightarrow> js_error list \<times> int option" where
  "cancel_ParseParameters N args isThrow =
     (if length args \<noteq> 1 then (HandleParamErr ERR_PARAM_NUMBER_ERR isThrow, None)
      else case GetInt32NumberValue N (argv N args 0) of
             None \<Rightarrow> (HandleParamErr ERR_REQUESTID_NULL_OR_ID_TYPE_ERR isThrow, None)
           | Some requestId \<Rightarrow>
               if requestId \<le> 0 then (HandleParamErr ERR_REQUESTID_ILLEGAL isThrow, None) else ([], Some requestId))"

definition js_CancelSuspendDelay where
  "js_CancelSuspendDelay N e remote args isThrow k m s =
     (case cancel_ParseParameters N args isThrow of
        (t, None) \<Rightarrow> (t, JNull, k, m, s)
      | (t, Some requestId) \<Rightarrow>
          (case cl_CancelSuspendDelay e remote requestId m s of
             (c, _, m1, s1) \<Rightarrow> (t @ HandleErrCode c isThrow, JNull, erase_callback requestId k, m1, s1)))"

text \<open>The request id and whether a callback was given.\<close>

definition remaining_ParseParameters :: "'v napi \<Rightarrow> 'v list \<Rightarrow> bool \<Rightarrow> js_error list \<times> (int \<times> bool) option" where
  "remaining_ParseParameters N args isThrow =
     (if length args \<noteq> 1 \<and> length args \<noteq> 2 then (HandleParamErr ERR_PARAM_NUMBER_ERR isThrow, None)
      else case GetInt32NumberValue N (argv N args 0) of
             None \<Rightarrow> (HandleParamErr ERR_REQUESTID_NULL_OR_ID_TYPE_ERR isThrow, None)
           | Some requestId \<Rightarrow>
               if length args = 2 \<and> nv_typeof N (argv N args 1) = None then ([], None)
               else if length args = 2 \<and> nv_typeof N (argv N args 1) \<noteq> Some napi_function
               then (HandleParamErr ERR_CALLBACK_NULL_OR_TYPE_ERR isThrow, None)
               else if requestId \<le> 0 then (HandleParamErr ERR_REQUESTID_ILLEGAL isThrow, None)
               else ([], Some (requestId, length args = 2)))"

text \<open>The call, which queues a work, and the work with its completion.\<close>

definition js_GetRemainingDelayTime :: "'v napi \<Rightarrow> 'v list \<Rightarrow> bool \<Rightarrow> js_error list \<times> jsval \<times> (int \<times> bool) option" where
  "js_GetRemainingDelayTime N args isThrow =
     (case remaining_ParseParameters N args isThrow of
        (t, None) \<Rightarrow> (t, JUndefined, None)
      | (t, Some (requestId, isCallback)) \<Rightarrow> (t, if isCallback then JNull else JPromise, Some (requestId, isCallback)))"

fun time_of :: "reply option \<Rightarrow> int" where
  "time_of (Some (RTime (Some t))) = t"
| "time_of _ = 0"

definition remaining_work where
  "remaining_work e remote requestId isCallback m s =
     (case cl_GetRemainingDelayTime e remote requestId m s of
        (c, reply, m1, s1) \<Rightarrow> (ReturnCallbackPromise isCallback c (JNumber (time_of reply)), m1, s1))"

fun quota_of :: "reply option \<Rightarrow> int \<times> (int \<times> int) list" where
  "quota_of (Some (RTransient quota list)) = (case_option 0 id quota, list)"
| "quota_of _ = (0, [])"

definition js_GetAllTransientTasks where
  "js_GetAllTransientTasks e remote m s =
     (case cl_GetAllTransientTasks e remote m s of
        (c, reply, m1, s1) \<Rightarrow>
          (settled c (JObject [(''remainingQuota'', JNumber (fst (quota_of reply))),
             (''transientTasks'', JArray (map (\<lambda>(i, d). GetNapiDelaySuspendInfo i d) (snd (quota_of reply))))]), m1, s1))"

section \<open>Efficiency resources\<close>

text \<open>A named member: nothing if it is not accepted, the default if it is not there and not needed.\<close>

definition GetNamedBoolValue :: "'v napi \<Rightarrow> 'v \<Rightarrow> string \<Rightarrow> bool \<Rightarrow> bool \<Rightarrow> bool option" where
  "GetNamedBoolValue N v name result isNecessary =
     (if nv_has N v name \<noteq> Some True then if isNecessary then None else Some result
      else Option.bind (nv_get N v name) (GetBooleanValue N))"

definition GetNamedInt32Value :: "'v napi \<Rightarrow> 'v \<Rightarrow> string \<Rightarrow> int \<Rightarrow> bool \<Rightarrow> int option" where
  "GetNamedInt32Value N v name result isNecessary =
     (if nv_has N v name \<noteq> Some True then if isNecessary then None else Some result
      else case Option.bind (nv_get N v name) (GetInt32NumberValue N) of
             None \<Rightarrow> None
           | Some n \<Rightarrow> if n < 0 then None else Some n)"

definition GetNamedStringValue :: "'v napi \<Rightarrow> 'v \<Rightarrow> string option" where
  "GetNamedStringValue N v =
     (if nv_has N v ''reason'' \<noteq> Some True then None else Option.bind (nv_get N v ''reason'') (GetStringValue N))"

definition resources_ParseParameters :: "'v napi \<Rightarrow> 'v list \<Rightarrow> bool \<Rightarrow> EfficiencyResourceInfo check" where
  "resources_ParseParameters N args isThrow =
     (if length args \<noteq> 1 then param_error ERR_PARAM_NUMBER_ERR isThrow
      else let v = argv N args 0 in
        and_then (argument ([], GetNamedInt32Value N v ''resourceTypes'' 0 True) ERR_RESOURCE_TYPES_INVALID isThrow) (\<lambda>resourceNumber.
        and_then (argument ([], GetNamedBoolValue N v ''isApply'' False True) ERR_ISAPPLY_NULL_OR_TYPE_ERR isThrow) (\<lambda>isApply.
        and_then (argument ([], GetNamedInt32Value N v ''timeOut'' 0 True) ERR_TIMEOUT_INVALID isThrow) (\<lambda>timeOut.
        and_then (argument ([], GetNamedStringValue N v) ERR_REASON_NULL_OR_TYPE_ERR isThrow) (\<lambda>reason.
        and_then (argument ([], GetNamedBoolValue N v ''isPersist'' False False) ERR_ISPERSIST_NULL_OR_TYPE_ERR isThrow) (\<lambda>isPersist.
        and_then (argument ([], GetNamedBoolValue N v ''isProcess'' False False) ERR_ISPROCESS_NULL_OR_TYPE_ERR isThrow) (\<lambda>isProcess.
        and_then (argument ([], GetNamedInt32Value N v ''cpuLevel'' CPU_LEVEL_DEFAULT False)
            ERR_BGTASK_EFFICIENCY_RESOURCES_CPU_LEVEL_INVALID isThrow) (\<lambda>cpuLevel.
          passed (ri_SetCpuLevel cpuLevel
            \<lparr>ri_resourceNumber = word_of_int resourceNumber, ri_isApply = isApply, ri_timeOut = word_of_int timeOut,
             ri_reason = reason, ri_isPersist = isPersist, ri_isProcess = isProcess, ri_uid = -1, ri_pid = -1,
             ri_cpuLevel = CPU_LEVEL_DEFAULT\<rparr>)))))))))"

definition CheckValidInfo :: "EfficiencyResourceInfo \<Rightarrow> bool \<Rightarrow> EfficiencyResourceInfo check" where
  "CheckValidInfo params isThrow =
     (if ri_resourceNumber params = 0 then param_error ERR_RESOURCE_TYPES_INVALID isThrow
      else if ri_isApply params \<and> \<not> ri_isPersist params \<and> ri_timeOut params = 0 then param_error ERR_TIMEOUT_INVALID isThrow
      else passed params)"

definition js_ApplyEfficiencyResources where
  "js_ApplyEfficiencyResources N e remote args m s =
     (case and_then (resources_ParseParameters N args True) (\<lambda>p. CheckValidInfo p True) of
        (t, Inl _) \<Rightarrow> (t, JNull, m, s)
      | (t, Inr params) \<Rightarrow>
          (case cl_ApplyEfficiencyResources e remote params m s of
             (c, _, m1, s1) \<Rightarrow> (t @ HandleErrCode c True, JNull, m1, s1)))"

definition js_ResetAllEfficiencyResources where
  "js_ResetAllEfficiencyResources e remote m s =
     (case cl_ResetAllEfficiencyResources e remote m s of (c, _, m1, s1) \<Rightarrow> (HandleErrCode c True, JNull, m1, s1))"

definition js_GetAllEfficiencyResources where
  "js_GetAllEfficiencyResources e remote m s =
     (case cl_GetAllEfficiencyResources e remote [] m s of
        (c, list, m1, s1) \<Rightarrow> (settled c (JArray (map GetNapiEfficiencyResourcesInfo list)), m1, s1))"

section \<open>The C interface\<close>

abbreviation (input) ERR_TRANSIENT_TASK_INVALID_PARAM :: ErrCode where "ERR_TRANSIENT_TASK_INVALID_PARAM \<equiv> 401"
abbreviation (input) TRANSIENT_TASK_MAX_NUM :: nat where "TRANSIENT_TASK_MAX_NUM \<equiv> 3"

text \<open>Error codes are positive; the division of the source then is that of the integers.\<close>

definition native_code :: "ErrCode \<Rightarrow> ErrCode" where
  "native_code errCode = errCode div 100"

text \<open>Pointers that are null are \<open>None\<close>; the callback object is new.\<close>

definition OH_BackgroundTaskManager_RequestSuspendDelay where
  "OH_BackgroundTaskManager_RequestSuspendDelay e remote reason callback info cb k m s =
     (if reason = (None :: string option) \<or> \<not> callback \<or> info = None then (ERR_TRANSIENT_TASK_INVALID_PARAM, info, k, m, s)
      else case cl_RequestSuspendDelay e remote (Some cb) m s of
             (c, reply, m1, s1) \<Rightarrow>
               if c \<noteq> ERR_OK then (native_code c, info, k, m1, s1)
               else case delay_of reply of
                      None \<Rightarrow> (ERR_OK, info, k, m1, s1)
                    | Some d \<Rightarrow>
                        (ERR_OK, Some d,
                         k\<lparr>kb_callbackInstances := om_put (ds_requestId d) (cb, True) (kb_callbackInstances k)\<rparr>, m1, s1))"

definition OH_BackgroundTaskManager_GetRemainingDelayTime where
  "OH_BackgroundTaskManager_GetRemainingDelayTime e remote requestId delayTime m s =
     (case delayTime of
        None \<Rightarrow> (ERR_TRANSIENT_TASK_INVALID_PARAM, None, m, s)
      | Some d \<Rightarrow> (case cl_GetRemainingDelayTime e remote requestId m s of
          (c, reply, m1, s1) \<Rightarrow>
            (native_code c, Some (case reply of Some (RTime (Some t)) \<Rightarrow> t | _ \<Rightarrow> d), m1, s1)))"

definition OH_BackgroundTaskManager_CancelSuspendDelay where
  "OH_BackgroundTaskManager_CancelSuspendDelay e remote requestId k m s =
     (case cl_CancelSuspendDelay e remote requestId m s of
        (c, _, m1, s1) \<Rightarrow> (native_code c, erase_callback requestId k, m1, s1))"

text \<open>
  The caller's structure has room for three tasks. The loop writes one entry per task; a write past the
  end is \<open>None\<close>.
\<close>

fun write_tasks :: "nat \<Rightarrow> (int \<times> int) list \<Rightarrow> (int \<times> int) list \<Rightarrow> (int \<times> int) list option" where
  "write_tasks i [] tasks = Some tasks"
| "write_tasks i (x # xs) tasks = (if i < length tasks then write_tasks (Suc i) xs (tasks[i := x]) else None)"

definition OH_BackgroundTaskManager_GetTransientTaskInfo where
  "OH_BackgroundTaskManager_GetTransientTaskInfo e remote info m s =
     (case info of
        None \<Rightarrow> Some (ERR_TRANSIENT_TASK_INVALID_PARAM, None, m, s)
      | Some (quota, tasks) \<Rightarrow>
          (case cl_GetAllTransientTasks e remote m s of
             (c, reply, m1, s1) \<Rightarrow>
               if c \<noteq> ERR_OK then Some (native_code c, Some (quota, tasks), m1, s1)
               else map_option (\<lambda>tasks'. (ERR_OK, Some (fst (quota_of reply), tasks'), m1, s1))
                      (write_tasks 0 (snd (quota_of reply)) tasks)))"

text \<open>The callback is called while the lock is held.\<close>

definition Callback_OnExpired :: "nat \<Rightarrow> callback_state \<Rightarrow> callback_state" where
  "Callback_OnExpired cb k =
     (case request_of cb k of
        None \<Rightarrow> k
      | Some (requestId, _, _) \<Rightarrow>
          (erase_callback requestId k)\<lparr>kb_called := kb_called k @ [(cb, JUndefined)]\<rparr>)"

end
