(* ===== verification/JsSubscriber.thy ===== *)
theory JsSubscriber
  imports TransientApis
begin

text \<open>
  Subscriptions from JavaScript (\<^verbatim>\<open>js_backgroundtask_subscriber.cpp\<close> and the functions of
  \<^verbatim>\<open>bg_continuous_task_napi_module.cpp\<close> that use it) and the authorization of special tasks
  (\<^verbatim>\<open>request_auth_from_user.cpp\<close>). One object per process subscribes at the service; it keeps the
  functions of JavaScript by type of event, which the service calls through it.
\<close>

section \<open>The subscriber\<close>

text \<open>
  The source keeps the objects of a type in a set ordered by address; here they are in the order in
  which they were added.
\<close>

record 'v JsBackgroundTaskSubscriber =
  jb_jsObserverObjectMap :: "(string \<times> 'v list) list"
  jb_jsSaListner :: bool
  jb_needRestoreSubscribeStatus :: bool
  jb_currentCallBackType :: "32 word"
  jb_allCallBackTypes :: "32 word"

definition new_JsBackgroundTaskSubscriber :: "'v JsBackgroundTaskSubscriber" where
  "new_JsBackgroundTaskSubscriber =
     \<lparr>jb_jsObserverObjectMap = [], jb_jsSaListner = False, jb_needRestoreSubscribeStatus = False,
      jb_currentCallBackType = 0, jb_allCallBackTypes = 0\<rparr>"

abbreviation (input) CONTINUOUS_TASK_CANCEL :: "32 word" where "CONTINUOUS_TASK_CANCEL \<equiv> 1"
abbreviation (input) CONTINUOUS_TASK_SUSPEND :: "32 word" where "CONTINUOUS_TASK_SUSPEND \<equiv> 2"
abbreviation (input) CONTINUOUS_TASK_ACTIVE :: "32 word" where "CONTINUOUS_TASK_ACTIVE \<equiv> 4"
abbreviation (input) TASK_STATE_TYPE :: string where "TASK_STATE_TYPE \<equiv> ''subscribeContinuousTaskState''"

definition observers :: "string \<Rightarrow> 'v JsBackgroundTaskSubscriber \<Rightarrow> 'v list" where
  "observers cbType b = case_option [] id (map_of (jb_jsObserverObjectMap b) cbType)"

definition GetObserverObject :: "'v napi \<Rightarrow> string \<Rightarrow> 'v \<Rightarrow> 'v JsBackgroundTaskSubscriber \<Rightarrow> 'v option" where
  "GetObserverObject N cbType v b = find (\<lambda>x. nv_equals N x v) (observers cbType b)"

definition AddJsObserverObject :: "'v napi \<Rightarrow> string \<Rightarrow> 'v \<Rightarrow> 'v JsBackgroundTaskSubscriber \<Rightarrow> 'v JsBackgroundTaskSubscriber" where
  "AddJsObserverObject N cbType v b =
     (if GetObserverObject N cbType v b \<noteq> None then b
      else b\<lparr>jb_jsObserverObjectMap := AList.update cbType (observers cbType b @ [v]) (jb_jsObserverObjectMap b)\<rparr>)"

definition jb_IsEmpty :: "'v JsBackgroundTaskSubscriber \<Rightarrow> bool" where
  "jb_IsEmpty b \<longleftrightarrow> jb_jsObserverObjectMap b = []"

definition IsTypeEmpty :: "string \<Rightarrow> 'v JsBackgroundTaskSubscriber \<Rightarrow> bool" where
  "IsTypeEmpty cbType b \<longleftrightarrow> map_of (jb_jsObserverObjectMap b) cbType = None"

definition RemoveJsObserverObjects :: "string \<Rightarrow> 'v JsBackgroundTaskSubscriber \<Rightarrow> 'v JsBackgroundTaskSubscriber" where
  "RemoveJsObserverObjects cbType b = b\<lparr>jb_jsObserverObjectMap := AList.delete cbType (jb_jsObserverObjectMap b)\<rparr>"

definition RemoveJsObserverObject :: "'v napi \<Rightarrow> string \<Rightarrow> 'v \<Rightarrow> 'v JsBackgroundTaskSubscriber \<Rightarrow> 'v JsBackgroundTaskSubscriber" where
  "RemoveJsObserverObject N cbType v b =
     (case GetObserverObject N cbType v b of
        None \<Rightarrow> b
      | Some x \<Rightarrow>
          if length (observers cbType b) = 1 then RemoveJsObserverObjects cbType b
          else b\<lparr>jb_jsObserverObjectMap := AList.update cbType (remove1 x (observers cbType b)) (jb_jsObserverObjectMap b)\<rparr>)"

definition SetFlag :: "32 word \<Rightarrow> bool \<Rightarrow> 'v JsBackgroundTaskSubscriber \<Rightarrow> 'v JsBackgroundTaskSubscriber" where
  "SetFlag flag isSubscriber b =
     b\<lparr>jb_currentCallBackType := flag,
       jb_allCallBackTypes := (if isSubscriber then or (jb_allCallBackTypes b) flag else and (jb_allCallBackTypes b) (not flag))\<rparr>"

definition GetFlag :: "'v JsBackgroundTaskSubscriber \<Rightarrow> int" where
  "GetFlag b = sint (jb_allCallBackTypes b)"

text \<open>
  The listener for the service: the system ability manager, the allocation and the subscription are
  given as arguments.
\<close>

definition SubscriberBgtaskSaStatusChange :: "bool \<Rightarrow> bool \<Rightarrow> bool \<Rightarrow> 'v JsBackgroundTaskSubscriber \<Rightarrow> 'v JsBackgroundTaskSubscriber" where
  "SubscriberBgtaskSaStatusChange manager allocated subscribed b =
     (if jb_jsSaListner b then b
      else if \<not> manager then b
      else if \<not> allocated then b
      else b\<lparr>jb_jsSaListner := subscribed\<rparr>)"

definition UnSubscriberBgtaskSaStatusChange :: "bool \<Rightarrow> 'v JsBackgroundTaskSubscriber \<Rightarrow> 'v JsBackgroundTaskSubscriber" where
  "UnSubscriberBgtaskSaStatusChange manager b =
     (if \<not> jb_jsSaListner b then b else if \<not> manager then b else b\<lparr>jb_jsSaListner := False\<rparr>)"

text \<open>The service comes and goes. A subscription is renewed with the flags of all types.\<close>

definition BACKGROUND_TASK_MANAGER_SERVICE_ID :: int where
  "BACKGROUND_TASK_MANAGER_SERVICE_ID = 1903"

definition js_OnAddSystemAbility where
  "js_OnAddSystemAbility e remote impl systemAbilityId b m s =
     (if systemAbilityId \<noteq> BACKGROUND_TASK_MANAGER_SERVICE_ID then (b, m, s)
      else if \<not> jb_needRestoreSubscribeStatus b then (b, m, s)
      else let b1 = b\<lparr>jb_currentCallBackType := jb_allCallBackTypes b\<rparr>
           in case cl_SubscribeBackgroundTask e remote (Some impl) (jb_currentCallBackType b1) m s of
                (_, _, m1, s1) \<Rightarrow> (b1\<lparr>jb_needRestoreSubscribeStatus := False\<rparr>, m1, s1))"

definition js_OnRemoveSystemAbility :: "int \<Rightarrow> 'v JsBackgroundTaskSubscriber \<Rightarrow> 'v JsBackgroundTaskSubscriber" where
  "js_OnRemoveSystemAbility systemAbilityId b =
     (if systemAbilityId \<noteq> BACKGROUND_TASK_MANAGER_SERVICE_ID then b
      else if \<not> jb_IsEmpty b then b\<lparr>jb_needRestoreSubscribeStatus := True\<rparr> else b)"

section \<open>Events\<close>

text \<open>The functions of JavaScript that are called for an event, with their argument.\<close>

definition method_of :: "'v napi \<Rightarrow> string \<Rightarrow> 'v \<Rightarrow> 'v" where
  "method_of N name v = case_option (nv_undefined N) id (nv_get N v name)"

definition HandleOnContinuousTaskStart :: "'v napi \<Rightarrow> ContinuousTaskCallbackInfo \<Rightarrow> 'v JsBackgroundTaskSubscriber \<Rightarrow> ('v \<times> jsval) list" where
  "HandleOnContinuousTaskStart N info b =
     map (\<lambda>v. (method_of N ''onContinuousTaskStart'' v, GetNapiCallBackInfo info)) (observers TASK_STATE_TYPE b)"

definition HandleOnContinuousTaskUpdate :: "'v napi \<Rightarrow> ContinuousTaskCallbackInfo \<Rightarrow> 'v JsBackgroundTaskSubscriber \<Rightarrow> ('v \<times> jsval) list" where
  "HandleOnContinuousTaskUpdate N info b =
     map (\<lambda>v. (method_of N ''onContinuousTaskUpdate'' v, GetNapiCallBackInfo info)) (observers TASK_STATE_TYPE b)"

definition HandleSubscribeOnContinuousTaskStop :: "'v napi \<Rightarrow> ContinuousTaskCallbackInfo \<Rightarrow> 'v JsBackgroundTaskSubscriber \<Rightarrow> ('v \<times> jsval) list" where
  "HandleSubscribeOnContinuousTaskStop N info b =
     map (\<lambda>v. (method_of N ''onContinuousTaskStop'' v, GetNapiCallBackInfo info)) (observers TASK_STATE_TYPE b)"

definition HandleOnContinuousTaskStop :: "'v napi \<Rightarrow> ContinuousTaskCallbackInfo \<Rightarrow> 'v JsBackgroundTaskSubscriber \<Rightarrow> ('v \<times> jsval) list" where
  "HandleOnContinuousTaskStop N info b =
     HandleSubscribeOnContinuousTaskStop N info b @
     map (\<lambda>v. (v, JObject [(''reason'', JNumber (cb_cancelReason info)), (''id'', JNumber (cb_continuousTaskId info)),
                           (''detailedReason'', JNumber (cb_detailedCancelReason info))])) (observers ''continuousTaskCancel'' b)"

definition HandleOnContinuousTaskSuspend :: "ContinuousTaskCallbackInfo \<Rightarrow> 'v JsBackgroundTaskSubscriber \<Rightarrow> ('v \<times> jsval) list" where
  "HandleOnContinuousTaskSuspend info b =
     map (\<lambda>v. (v, JObject [(''continuousTaskId'', JNumber (cb_continuousTaskId info)),
                           (''suspendState'', JBoolean (cb_suspendState info)), (''suspendReason'', JNumber (-1)),
                           (''suspendMessage'', JObject [(''reason'', JNumber (cb_suspendReason info)),
                              (''message'', JString (GetSuspendReasonMessage (word_of_int (cb_suspendReason info))))])]))
       (observers ''continuousTaskSuspend'' b)"

definition HandleOnContinuousTaskActive :: "ContinuousTaskCallbackInfo \<Rightarrow> 'v JsBackgroundTaskSubscriber \<Rightarrow> ('v \<times> jsval) list" where
  "HandleOnContinuousTaskActive info b =
     map (\<lambda>v. (v, JObject [(''id'', JNumber (cb_continuousTaskId info))])) (observers ''continuousTaskActive'' b)"

section \<open>Subscribing from JavaScript\<close>

definition g_callbackTypes :: "string list" where
  "g_callbackTypes = [''continuousTaskCancel'', ''continuousTaskSuspend'', ''continuousTaskActive'']"

definition CheckOnParam :: "'v napi \<Rightarrow> 'v list \<Rightarrow> string option" where
  "CheckOnParam N args =
     (if length args < 2 then None
      else case nv_convertString N (argv N args 0) of
             None \<Rightarrow> None
           | Some ty \<Rightarrow> if ty \<in> set g_callbackTypes \<and> nv_typeof N (argv N args 1) = Some napi_function then Some ty else None)"

definition CheckOffParam :: "'v napi \<Rightarrow> 'v list \<Rightarrow> string option" where
  "CheckOffParam N args =
     (if length args < 1 then None
      else case nv_convertString N (argv N args 0) of
             None \<Rightarrow> None
           | Some ty \<Rightarrow>
               if ty \<in> set g_callbackTypes \<and> (length args = 2 \<longrightarrow> nv_typeof N (argv N args 1) = Some napi_function)
               then Some ty else None)"

definition flag_of_type :: "string \<Rightarrow> 32 word" where
  "flag_of_type ty =
     (if ty = ''continuousTaskCancel'' then CONTINUOUS_TASK_CANCEL
      else if ty = ''continuousTaskSuspend'' then CONTINUOUS_TASK_SUSPEND
      else if ty = ''continuousTaskActive'' then CONTINUOUS_TASK_ACTIVE else 0)"

text \<open>The subscriber of the process, if there is one; \<open>impl\<close> is its remote object.\<close>

definition js_SubscribeBackgroundTask where
  "js_SubscribeBackgroundTask e remote impl flag sub m s =
     (let b = SetFlag flag True (case_option new_JsBackgroundTaskSubscriber id sub)
      in case cl_SubscribeBackgroundTask e remote (Some impl) (jb_currentCallBackType b) m s of
           (c, _, m1, s1) \<Rightarrow> (HandleErrCode c True, c = ERR_OK, b, m1, s1))"

text \<open>A subscriber that has no functions left stops listening for the service and is dropped.\<close>

definition js_UnSubscribeBackgroundTask where
  "js_UnSubscribeBackgroundTask e remote impl flag cbType b m s =
     (if \<not> IsTypeEmpty cbType b then ([], Some b, m, s)
      else let b1 = SetFlag flag False b
           in case cl_UnsubscribeBackgroundTask e remote (Some impl) (jb_currentCallBackType b1) m s of
                (c, _, m1, s1) \<Rightarrow>
                  if c \<noteq> ERR_OK then (HandleErrCode c True, Some b1, m1, s1)
                  else if jb_IsEmpty b1 then ([], None, m1, s1)
                  else ([], Some b1, m1, s1))"

text \<open>\<open>listener\<close> adds the listener for the service, \<^verbatim>\<open>SubscriberBgtaskSaStatusChange\<close>.\<close>

definition OnOnContinuousTaskCallback where
  "OnOnContinuousTaskCallback N listener e remote impl args sub m s =
     (case CheckOnParam N args of
        None \<Rightarrow> (HandleParamErr ERR_BGTASK_INVALID_PARAM True, sub, m, s)
      | Some ty \<Rightarrow>
          (case js_SubscribeBackgroundTask e remote impl (flag_of_type ty) sub m s of
             (t, ok, b, m1, s1) \<Rightarrow>
               if \<not> ok then (t, Some b, m1, s1)
               else (t, Some (listener (AddJsObserverObject N ty (argv N args 1) b)), m1, s1)))"

definition OffOnContinuousTaskCallback where
  "OffOnContinuousTaskCallback N e remote impl args sub m s =
     (case CheckOffParam N args of
        None \<Rightarrow> (HandleParamErr ERR_BGTASK_INVALID_PARAM True, sub, m, s)
      | Some ty \<Rightarrow>
          (case sub of
             None \<Rightarrow> ([], None, m, s)
           | Some b \<Rightarrow>
               let b1 = (if length args = 1 then RemoveJsObserverObjects ty b
                         else if length args = 2 then RemoveJsObserverObject N ty (argv N args 1) b else b)
               in js_UnSubscribeBackgroundTask e remote impl (if IsTypeEmpty ty b1 then flag_of_type ty else 0) ty b1 m s))"

definition SubscribeContinuousTaskState where
  "SubscribeContinuousTaskState N listener e remote impl args sub m s =
     (if length args \<noteq> 1 then (HandleParamErr ERR_PARAM_NUMBER_ERR True, sub, m, s)
      else if \<not> CheckSubscriberParam N (argv N args 0)
      then (HandleErrCode ERR_BGTASK_CONTINUOUS_CALLBACK_NULL_OR_TYPE_ERR True, sub, m, s)
      else case js_SubscribeBackgroundTask e remote impl SUBSCRIBER_BACKGROUND_TASK_STATE sub m s of
             (t, ok, b, m1, s1) \<Rightarrow>
               if \<not> ok then (t, Some b, m1, s1)
               else (t, Some (listener (AddJsObserverObject N TASK_STATE_TYPE (argv N args 0) b)), m1, s1))"

definition UnSubscribeContinuousTaskState where
  "UnSubscribeContinuousTaskState N e remote impl args sub m s =
     (if length args \<noteq> 1 then (HandleParamErr ERR_PARAM_NUMBER_ERR True, sub, m, s)
      else if \<not> CheckSubscriberParam N (argv N args 0)
      then (HandleErrCode ERR_BGTASK_CONTINUOUS_CALLBACK_NULL_OR_TYPE_ERR True, sub, m, s)
      else case sub of
             None \<Rightarrow> ([], None, m, s)
           | Some b \<Rightarrow>
               js_UnSubscribeBackgroundTask e remote impl SUBSCRIBER_BACKGROUND_TASK_STATE TASK_STATE_TYPE
                 (RemoveJsObserverObject N TASK_STATE_TYPE (argv N args 0) b) m s)"

section \<open>Authorization by the user\<close>

definition CheckAbilityContext :: "'v napi \<Rightarrow> 'v \<Rightarrow> AbilityContext option" where
  "CheckAbilityContext N v =
     (if nv_isStage N v = Some True then
        case nv_stageContext N v of
          Some (Some c) \<Rightarrow> if ac_abilityInfo c = None then None else Some c
        | _ \<Rightarrow> None
      else None)"

definition CheckReqestParam :: "ContinuousTaskRequest \<Rightarrow> ContinuousTaskRequest check" where
  "CheckReqestParam request =
     (let modes = rq_backgroundTaskModes request; subModes = rq_backgroundTaskSubmodes request;
          specialModeSize = count_list modes SPECIAL_SCENARIO_PROCESSING
      in if length modes = 0 \<or> length subModes = 0 then sa_error ERR_BGTASK_CONTINUOUS_MODE_OR_SUBMODE_IS_EMPTY
         else if specialModeSize = 0 then sa_error ERR_BGTASK_SPECIAL_SCENARIO_PROCESSING_EMPTY
         else if specialModeSize > 1 then sa_error ERR_BGTASK_SPECIAL_SCENARIO_PROCESSING_ONLY_ALLOW_ONE_APPLICATION
         else if specialModeSize = 1 \<and> length modes > 1 then sa_error ERR_BGTASK_SPECIAL_SCENARIO_PROCESSING_CONFLICTS_WITH_OTHER_TASK
         else if list_ex (\<lambda>m. GetSubModeTypeMatching m \<noteq> SPECIAL_SCENARIO_PROCESSING) subModes
         then sa_error ERR_BGTASK_CONTINUOUS_MODE_OR_SUBMODE_TYPE_MISMATCH
         else passed request)"

definition CheckRequestAuthFromUserParam :: "'v napi \<Rightarrow> 'v \<Rightarrow> ContinuousTaskRequest check" where
  "CheckRequestAuthFromUserParam N jsThis =
     (if nv_has N jsThis ''backgroundTaskModes'' \<noteq> Some True then sa_error ERR_BGTASK_CONTINUOUS_REQUEST_NULL_OR_TYPE
      else if nv_has N jsThis ''backgroundTaskSubmodes'' \<noteq> Some True then sa_error ERR_BGTASK_CONTINUOUS_REQUEST_NULL_OR_TYPE
      else case Option.bind (nv_get N jsThis ''backgroundTaskModes'') (\<lambda>v. GetBackgroundTaskModesFromArray N v new_ContinuousTaskRequest) of
             None \<Rightarrow> sa_error ERR_BGTASK_CONTINUOUS_REQUEST_NULL_OR_TYPE
           | Some r \<Rightarrow>
               (case Option.bind (nv_get N jsThis ''backgroundTaskSubmodes'') (\<lambda>v. GetBackgroundTaskSubmodesFromArray N v r) of
                  None \<Rightarrow> sa_error ERR_BGTASK_CONTINUOUS_REQUEST_NULL_OR_TYPE
                | Some r1 \<Rightarrow> CheckReqestParam r1))"

text \<open>The callbacks that wait for an answer of the user.\<close>

type_synonym auth_callbacks = "nat list"

definition AddCallback :: "nat \<Rightarrow> auth_callbacks \<Rightarrow> auth_callbacks" where
  "AddCallback cb cbs = List.insert cb cbs"

definition RemoveCallback :: "nat \<Rightarrow> auth_callbacks \<Rightarrow> auth_callbacks" where
  "RemoveCallback cb cbs = remove1 cb cbs"

text \<open>Whether the dialog could be opened is \<open>dialog\<close>. The source dereferences the callback without a check.\<close>

definition SendRequest where
  "SendRequest e remote taskParam callback dialog cbs m s =
     (case callback of
        None \<Rightarrow> None
      | Some cb \<Rightarrow>
          (case cl_RequestAuthFromUser e remote taskParam (Some cb) m s of
             (c, _, m1, s1) \<Rightarrow>
               if c = ERR_BGTASK_CONTINUOUS_TRIGGER_CALLBACK then Some ([], True, AddCallback cb cbs, m1, s1)
               else if c \<noteq> ERR_OK then Some (HandleErrCode c True, False, RemoveCallback cb (AddCallback cb cbs), m1, s1)
               else if cp_requestAuthApiVersion taskParam = API_VERSION_26 \<and> \<not> dialog then
                 (case cl_RemoveAuthRecord e remote taskParam m1 s1 of
                    (_, _, m2, s2) \<Rightarrow>
                      Some (HandleErrCode ERR_BGTASK_SYS_NOT_READY True, False, RemoveCallback cb (AddCallback cb cbs), m2, s2))
               else Some ([], True, AddCallback cb cbs, m1, s1)))"

text \<open>A value that is no function is accepted and leaves the callback null.\<close>

definition auth_GetExpiredCallback :: "'v napi \<Rightarrow> nat \<Rightarrow> 'v \<Rightarrow> nat option option" where
  "auth_GetExpiredCallback N cb v =
     (case nv_typeof N v of
        None \<Rightarrow> None
      | Some ty \<Rightarrow> if ty \<noteq> napi_function then Some None else Some (Some cb))"

definition RequestAuth where
  "RequestAuth N e remote jsThis args apiVersion cb dialog cbs m s =
     (case CheckRequestAuthFromUserParam N jsThis of
        (t, Inl _) \<Rightarrow> Some (t, JNull, cbs, m, s)
      | (t, Inr request) \<Rightarrow>
          if length args \<noteq> 2 then Some (t @ HandleParamErr ERR_PARAM_NUMBER_ERR True, JNull, cbs, m, s)
          else case CheckAbilityContext N (argv N args 0) of
                 None \<Rightarrow> Some (t @ HandleParamErr ERR_CONTEXT_NULL_OR_TYPE_ERR True, JNull, cbs, m, s)
               | Some c \<Rightarrow>
                   (case auth_GetExpiredCallback N cb (argv N args 1) of
                      None \<Rightarrow> Some (t @ HandleErrCode ERR_BGTASK_CONTINUOUS_CALLBACK_NULL_OR_TYPE_ERR True, JNull, cbs, m, s)
                    | Some callback \<Rightarrow>
                        (case (rq_backgroundTaskModes request, ac_abilityInfo c) of
                           (mode # modes, Some (_, appIndex)) \<Rightarrow>
                             map_option (\<lambda>(t', ok, cbs1, m1, s1). (t @ t', if ok then JNumber 0 else JNull, cbs1, m1, s1))
                               (SendRequest e remote
                                  ((task_param None '''' (-1) True mode (mode # modes))
                                     \<lparr>cp_requestAuthApiVersion := apiVersion, cp_bgSubModeIds := rq_backgroundTaskSubmodes request,
                                      cp_appIndex := appIndex\<rparr>) callback dialog cbs m s)
                         | _ \<Rightarrow> None)))"

text \<open>The answer of the user, on the thread of the service and then on that of JavaScript.\<close>

definition AuthCallbackInstance_OnExpiredAuth :: "'v napi \<Rightarrow> bool \<Rightarrow> nat \<Rightarrow> int \<Rightarrow> auth_callbacks \<Rightarrow> (nat \<times> int) list \<times> auth_callbacks" where
  "AuthCallbackInstance_OnExpiredAuth N ref cb authResult cbs =
     (if cb \<notin> set cbs then ([], cbs)
      else if \<not> ref then ([], RemoveCallback cb cbs)
      else if nv_sendEvent N then ([(cb, authResult)], cbs)
      else ([], RemoveCallback cb cbs))"

definition run_auth :: "nat \<times> int \<Rightarrow> auth_callbacks \<Rightarrow> (nat \<times> jsval) \<times> auth_callbacks" where
  "run_auth task cbs = (case task of (cb, authResult) \<Rightarrow> ((cb, JNumber authResult), RemoveCallback cb cbs))"

end
