(* ===== verification/NapiProps.thy ===== *)
theory NapiProps
  imports JsSubscriber ClientProps
begin

text \<open>
  The properties of the calls for continuous tasks from JavaScript: a call throws an error or queues a
  work that can run, and starting a task has the effect of starting it at the manager, of which the
  promise or the callback tells.
\<close>

section \<open>Checks\<close>

text \<open>A check either throws and refuses, or throws nothing and accepts data that satisfy a predicate.\<close>

definition decides :: "('a \<Rightarrow> bool) \<Rightarrow> 'a check \<Rightarrow> bool" where
  "decides P c \<longleftrightarrow> (case c of (t, Inl _) \<Rightarrow> t \<noteq> [] | (t, Inr x) \<Rightarrow> t = [] \<and> P x)"

named_theorems decided

lemma decides_passed [decided]: "P x \<Longrightarrow> decides P (passed x)"
  by (simp add: decides_def passed_def)

lemma decides_sa_error [decided]: "code \<noteq> ERR_OK \<Longrightarrow> decides P (sa_error code)"
  by (simp add: decides_def sa_error_def HandleErrCode_thrown)

text \<open>The codes for which \<open>HandleParamErr\<close> throws.\<close>

definition param_code :: "ErrCode \<Rightarrow> bool" where
  "param_code code \<longleftrightarrow> code \<in> {ERR_PARAM_NUMBER_ERR..ERR_ISPROCESS_NULL_OR_TYPE_ERR} \<union> {ERR_BGTASK_INVALID_PARAM}"

lemma param_code_thrown: "param_code code \<Longrightarrow> HandleParamErr code True \<noteq> []"
  by (simp add: HandleParamErr_thrown param_code_def)

lemma decides_param_error [decided]: "param_code code \<Longrightarrow> decides P (param_error code True)"
  by (simp add: decides_def param_error_def param_code_thrown)

lemma decides_argument:
  "param_code code \<Longrightarrow> (\<And>x. snd r = Some x \<Longrightarrow> fst r = [] \<and> P x) \<Longrightarrow> decides P (argument r code True)"
  by (cases r; cases "snd r") (auto simp: decides_def argument_def param_code_thrown)

lemma decides_and_then:
  assumes "decides P c" and "\<And>x. P x \<Longrightarrow> decides Q (f x)"
  shows "decides Q (and_then c f)"
proof (cases "snd c")
  case (Inl code)
  then show ?thesis using assms(1) by (cases c) (simp add: decides_def and_then_def)
next
  case (Inr x)
  then have "c = ([], Inr x)" "P x" using assms(1) by (cases c; auto simp: decides_def)+
  then show ?thesis using assms(2) [of x] by (simp add: and_then_def split_beta)
qed

lemma decides_if [decided]: "(b \<Longrightarrow> decides P c) \<Longrightarrow> (\<not> b \<Longrightarrow> decides P d) \<Longrightarrow> decides P (if b then c else d)"
  by simp

lemma decides_weaken: "decides P c \<Longrightarrow> (\<And>x. P x \<Longrightarrow> Q x) \<Longrightarrow> decides Q c"
  by (auto simp: decides_def split: prod.splits sum.splits)

text \<open>The arguments: whatever is accepted has thrown nothing.\<close>

lemma GetBackgroundMode_quiet:
  "snd (GetBackgroundMode N v a) = Some b \<Longrightarrow>
   fst (GetBackgroundMode N v a) = [] \<and> ai_abilityContext b = ai_abilityContext a \<and> ai_errCode b = ai_errCode a"
proof -
  have names: "snd (mode_names N v i k modes) = Some ms \<Longrightarrow> fst (mode_names N v i k modes) = []" for i k modes ms
    by (induction k arbitrary: i modes) (auto simp: Let_def split: option.splits if_splits)
  show "snd (GetBackgroundMode N v a) = Some b \<Longrightarrow> ?thesis"
    using names [of 0 "case_option 0 id (nv_arrayLength N v)" "ai_bgModes a"]
    by (auto simp: GetBackgroundMode_def GetMode_def GetModes_def Let_def split_beta split: option.splits if_splits)
qed

lemma GetWantAgent_quiet: "snd (GetWantAgent N v) = Some w \<Longrightarrow> fst (GetWantAgent N v) = []"
  by (auto simp: GetWantAgent_def split: option.splits if_splits)

lemma GetIncludeSuspended_quiet: "snd (GetIncludeSuspended N v) = Some w \<Longrightarrow> fst (GetIncludeSuspended N v) = []"
  by (auto simp: GetIncludeSuspended_def split: option.splits if_splits)

lemma GetContinuousTaskRequest_quiet:
  "snd (GetContinuousTaskRequest N v r) = Some r' \<Longrightarrow> fst (GetContinuousTaskRequest N v r) = []"
  by (auto simp: GetContinuousTaskRequest_def GetprogressInfo_def GetprogressInfoParam_def Let_def
      split: option.splits if_splits prod.splits)

text \<open>The data of a work: no error, and the context that the work needs.\<close>

definition ready_data :: "'v napi \<Rightarrow> 'v list \<Rightarrow> AsyncCallbackInfo \<Rightarrow> bool" where
  "ready_data N args a \<longleftrightarrow> ai_errCode a = ERR_OK \<and> 
     (\<exists>c. ai_abilityContext a = Some c \<and> GetAbilityContext N (argv N args 0) = Some c)"

definition ready_ability :: "'v napi \<Rightarrow> 'v list \<Rightarrow> AsyncCallbackInfo \<Rightarrow> bool" where
  "ready_ability N args a \<longleftrightarrow> ready_data N args a \<and> work_context a \<noteq> None"

definition ready_request :: "'v napi \<Rightarrow> 'v list \<Rightarrow> AsyncCallbackInfo \<Rightarrow> bool" where
  "ready_request N args a \<longleftrightarrow> ready_ability N args a \<and> rq_backgroundTaskModes (ai_request a) \<noteq> [] \<and>
     length (rq_backgroundTaskModes (ai_request a)) = length (rq_backgroundTaskSubmodes (ai_request a))"

lemmas ready_defs = ready_data_def ready_ability_def ready_request_def work_context_def

lemma decides_context:
  "ai_errCode a = ERR_OK \<Longrightarrow> decides (ready_data N args) (context_argument N (argv N args 0) True a)"
  unfolding context_argument_def
  by (rule decides_and_then [where P = "\<lambda>c. GetAbilityContext N (argv N args 0) = Some c"]; rule decides_argument decides_passed)
     (simp_all add: param_code_def ready_data_def)

lemma decides_CheckBackgroundMode: "P a \<Longrightarrow> decides P (CheckBackgroundMode True a)"
  unfolding CheckBackgroundMode_def by (auto intro!: decided simp: param_code_def)

lemma decides_StartParam: "ready_data N args a \<Longrightarrow> decides (ready_ability N args) (StartBackgroundRunningCheckParam True a)"
  by (auto simp: StartBackgroundRunningCheckParam_def ready_defs param_code_def
      intro!: decided decides_CheckBackgroundMode split: option.split)

lemma decides_StopParam: "ready_data N args a \<Longrightarrow> decides (ready_ability N args) (StopBackgroundRunningCheckParam True a)"
  by (auto simp: StopBackgroundRunningCheckParam_def ready_defs param_code_def intro!: decided split: option.split)

lemma decides_Request: "decides (ready_request N args) (StartBackgroundRunningCheckRequest N args True)"
proof -
  have modes: "decides (\<lambda>_. True) (check_submodes modes submodes)" for modes submodes
    by (induction modes submodes rule: check_submodes.induct) (auto intro!: decided simp: Let_def)
  have special: "decides (\<lambda>_. True) (CheckSpecialModeParma r)" for r
    unfolding CheckSpecialModeParma_def Let_def by (intro decided) simp_all
  have all: "decides (\<lambda>r'. r' = r \<and> rq_backgroundTaskModes r \<noteq> [] \<and>
      length (rq_backgroundTaskModes r) = length (rq_backgroundTaskSubmodes r)) (StartBackgroundRunningCheckModes r)" for r
    unfolding StartBackgroundRunningCheckModes_def Let_def
    by (intro decided decides_and_then [OF special] decides_and_then [OF modes]) simp_all
  have request: "decides (ready_request N args) (case GetContinuousTaskRequest N v (ai_request a) of
        (t, None) \<Rightarrow> (t @ HandleErrCode ERR_BGTASK_CONTINUOUS_REQUEST_NULL_OR_TYPE True, Inl ERR_BGTASK_CONTINUOUS_REQUEST_NULL_OR_TYPE)
      | (t, Some request) \<Rightarrow> and_then (t, Inr request) (\<lambda>r. and_then (StartBackgroundRunningCheckModes r)
          (\<lambda>r. passed (a\<lparr>ai_request := r\<rparr>))))" if "ready_ability N args a" for a v
  proof (cases "GetContinuousTaskRequest N v (ai_request a)")
    case (Pair t o1)
    show ?thesis
    proof (cases o1)
      case None
      then show ?thesis by (simp add: Pair decides_def HandleErrCode_thrown)
    next
      case (Some r)
      then have t: "t = []" using GetContinuousTaskRequest_quiet [of N v "ai_request a" r] by (simp add: Pair)
      have "decides (ready_request N args) (and_then (StartBackgroundRunningCheckModes r) (\<lambda>r. passed (a\<lparr>ai_request := r\<rparr>)))"
        by (rule decides_and_then [OF all], rule decides_passed) (use that in \<open>simp add: ready_defs\<close>)
      then show ?thesis by (simp add: Pair Some t and_then_def split_beta)
    qed
  qed
  show ?thesis
    unfolding StartBackgroundRunningCheckRequest_def
    by (intro decided decides_and_then [OF decides_context] request)
      (auto simp: param_code_def new_AsyncCallbackInfo_def ready_defs split: bind_splits)
qed

lemma decides_mode:
  "ready_data N args a \<Longrightarrow> decides (ready_data N args) (argument (GetBackgroundMode N v a) ERR_BGMODE_NULL_OR_TYPE_ERR True)"
  by (rule decides_argument) (auto dest: GetBackgroundMode_quiet simp: param_code_def ready_data_def)

lemma decides_StartBeforeSubmit: "decides (ready_data N args) (StartBackgroundRunningCheckParamBeforeSubmit N args True)"
  unfolding StartBackgroundRunningCheckParamBeforeSubmit_def
  apply (rule decides_and_then [OF decides_context])
   apply (simp add: new_AsyncCallbackInfo_def)
  apply (rule decides_and_then [OF decides_mode], assumption)
  apply (rule decides_and_then [where P = "\<lambda>_. True"])
   apply (rule decides_argument)
    apply (simp add: param_code_def)
   apply (simp add: GetWantAgent_quiet)
  apply (rule decides_passed)
  apply (simp add: ready_data_def)
  done

lemma decides_Update: "decides (ready_data N args) (UpdateBackgroundRunningCheckParam N args True)"
  unfolding UpdateBackgroundRunningCheckParam_def
  by (intro decided decides_and_then [OF decides_context] decides_mode)
    (simp_all add: param_code_def new_AsyncCallbackInfo_def)

lemma decides_update_task_id: "P a \<Longrightarrow> decides P (update_task_id a)"
  unfolding update_task_id_def by (intro decided) simp_all

lemma decides_GetAll: "decides (ready_data N args) (GetAllContinuousTasksCheckParamBeforeSubmit N args True)"
proof -
  have "decides (ready_data N args) (and_then (argument (GetIncludeSuspended N v) ERR_BGMODE_NULL_OR_TYPE_ERR True)
      (\<lambda>b. passed (a\<lparr>ai_includeSuspended := b\<rparr>)))" if "ready_data N args a" for a v
    by (rule decides_and_then [where P = "\<lambda>_. True"]; rule decides_argument decides_passed)
      (use that in \<open>simp_all add: param_code_def ready_data_def GetIncludeSuspended_quiet\<close>)
  then show ?thesis
    unfolding GetAllContinuousTasksCheckParamBeforeSubmit_def
    by (intro decided decides_and_then [OF decides_context]) (simp_all add: param_code_def new_AsyncCallbackInfo_def)
qed

section \<open>Calls\<close>

text \<open>A call that throws and queues nothing, or queues a work with data that satisfy a predicate and throws nothing.\<close>

definition call_decides :: "(work_kind \<Rightarrow> AsyncCallbackInfo \<Rightarrow> bool) \<Rightarrow> js_call \<Rightarrow> bool" where
  "call_decides P c \<longleftrightarrow> (case c of (t, _, None) \<Rightarrow> t \<noteq> [] | (t, _, Some (k, _, a)) \<Rightarrow> t = [] \<and> P k a)"

lemma call_decides_promised: "decides Q c \<Longrightarrow> (\<And>a. Q a \<Longrightarrow> P k a) \<Longrightarrow> call_decides P (promised k c)"
  by (auto simp: decides_def call_decides_def promised_def split: prod.splits sum.splits)

lemma call_decides_called_back:
  "nv_typeof N v \<noteq> None \<Longrightarrow> decides Q (c a) \<Longrightarrow> (\<And>a. Q a \<Longrightarrow> P k a) \<Longrightarrow> call_decides P (called_back N v k True c a)"
  by (auto simp: decides_def call_decides_def called_back_def param_code_thrown param_code_def split: prod.splits sum.splits)

lemma call_decides_thrown: "t \<noteq> [] \<Longrightarrow> call_decides P (t, r, None)"
  by (simp add: call_decides_def)

lemma call_decides_after:
  "decides Q c \<Longrightarrow> (\<And>a. Q a \<Longrightarrow> call_decides P (f a)) \<Longrightarrow>
   call_decides P (case c of (t, Inl _) \<Rightarrow> (t, r, None) | (t, Inr a) \<Rightarrow> after t (f a))"
  by (cases c; cases "snd c") (auto simp: decides_def call_decides_def after_def)

text \<open>What the work of each kind needs.\<close>

fun work_ready :: "'v napi \<Rightarrow> 'v list \<Rightarrow> work_kind \<Rightarrow> AsyncCallbackInfo \<Rightarrow> bool" where
  "work_ready N args StartByRequestWork a = ready_request N args a"
| "work_ready N args UpdateByRequestWork a = ready_request N args a"
| "work_ready N args UpdateWork a = ready_data N args a"
| "work_ready N args GetAllWork a = ready_data N args a"
| "work_ready N args GetAllIncludeSuspendedWork a = ready_data N args a"
| "work_ready N args ObtainAllWork a = (ai_errCode a = ERR_OK)"
| "work_ready N args _ a = ready_ability N args a"

lemma start_decides:
  assumes "\<forall>v. nv_typeof N v \<noteq> None"
  shows "call_decides (\<lambda>k a. k \<in> {StartWork, StartByRequestWork} \<and> work_ready N args k a) (js_StartBackgroundRunning N args True)"
proof -
  have "call_decides (\<lambda>k a. k \<in> {StartWork, StartByRequestWork} \<and> work_ready N args k a)
      (if length args = 4 then called_back N (argv N args 3) StartWork True (StartBackgroundRunningCheckParam True) a
       else promised StartWork (StartBackgroundRunningCheckParam True a))" if "ready_data N args a" for a
    using assms decides_StartParam [OF that] by (auto intro!: call_decides_promised call_decides_called_back)
  then show ?thesis
    unfolding js_StartBackgroundRunning_def
    by (auto intro!: call_decides_thrown call_decides_after [OF decides_StartBeforeSubmit] call_decides_promised [OF decides_Request]
        param_code_thrown simp: param_code_def)
qed

lemma update_decides: "call_decides (work_ready N args) (js_UpdateBackgroundRunning N args True)"
  unfolding js_UpdateBackgroundRunning_def
  using decides_and_then [OF decides_Update decides_CheckBackgroundMode [where P = "ready_data N args"]]
    decides_and_then [OF decides_Request decides_update_task_id [where P = "ready_request N args"]]
  by (auto intro!: call_decides_thrown param_code_thrown call_decides_promised simp: param_code_def)

lemma stop_decides:
  assumes "\<forall>v. nv_typeof N v \<noteq> None"
  shows "call_decides (work_ready N args) (js_StopBackgroundRunning N args True)"
proof -
  have id: "ready_data N args (a\<lparr>ai_removeTaskId := i\<rparr>) = ready_data N args a" for a i by (simp add: ready_data_def)
  have "call_decides (work_ready N args) (StopBackgroundRunningBySubmit N args True a)" if "ready_data N args a" for a
    unfolding StopBackgroundRunningBySubmit_def Let_def
    using assms that
    by (auto intro!: call_decides_promised call_decides_called_back call_decides_thrown decides_StopParam
        simp: HandleErrCode_thrown id)
  moreover have "call_decides (work_ready N args) (promised StopWork (StopBackgroundRunningCheckParam True a))" if "ready_data N args a" for a
    using decides_StopParam [OF that] by (auto intro!: call_decides_promised)
  ultimately have "call_decides (work_ready N args) (if length args = 2 then StopBackgroundRunningBySubmit N args True a
      else promised StopWork (StopBackgroundRunningCheckParam True a))" if "ready_data N args a" for a
    using that by simp
  then show ?thesis
    unfolding js_StopBackgroundRunning_def
    by (auto intro!: call_decides_after [OF decides_context] call_decides_thrown param_code_thrown
        simp: param_code_def new_AsyncCallbackInfo_def)
qed

lemma queries_decide:
  shows "call_decides (work_ready N args) (js_GetAllContinuousTasks N args True)"
    and "call_decides (work_ready N args) (CheckSpecialScenarioUserAuth N args v)"
    and "call_decides (work_ready N args) js_ObtainAllContinuousTasks"
proof -
  show "call_decides (work_ready N args) (js_GetAllContinuousTasks N args True)"
    unfolding js_GetAllContinuousTasks_def by (rule call_decides_promised [OF decides_GetAll]) simp
  have "decides (ready_ability N args) (if Option.bind (ai_abilityContext a) ac_abilityInfo = None
      then param_error ERR_ABILITY_INFO_EMPTY True else passed a)" if "ready_data N args a" for a
    using that by (intro decided) (auto simp: param_code_def ready_defs split: bind_splits)
  then have "decides (ready_ability N args) (and_then (context_argument N (argv N args 0) True a) (\<lambda>a.
      if Option.bind (ai_abilityContext a) ac_abilityInfo = None then param_error ERR_ABILITY_INFO_EMPTY True else passed a))"
    if "ai_errCode a = ERR_OK" for a
    by (rule decides_and_then [OF decides_context [OF that]])
  then show "call_decides (work_ready N args) (CheckSpecialScenarioUserAuth N args v)"
    unfolding CheckSpecialScenarioUserAuth_def
    by (auto intro!: call_decides_promised call_decides_thrown param_code_thrown simp: param_code_def new_AsyncCallbackInfo_def)
  show "call_decides (work_ready N args) js_ObtainAllContinuousTasks"
    unfolding js_ObtainAllContinuousTasks_def
    by (rule call_decides_promised [OF decides_passed, of "\<lambda>a. ai_errCode a = ERR_OK"]) (simp_all add: new_AsyncCallbackInfo_def)
qed

section \<open>Works\<close>

lemma converted_length:
  "i + length submodes \<le> length modes \<Longrightarrow> \<exists>ms. converted modes i submodes = Some ms \<and> length ms = length submodes"
proof (induction submodes arbitrary: i)
  case (Cons subMode rest)
  obtain ms where "converted modes (Suc i) rest = Some ms" "length ms = length rest"
    using Cons.IH [of "Suc i"] Cons.prems by auto
  then show ?case using Cons.prems by auto
qed simp

text \<open>A checked request has a first mode and as many modes as sub modes, so its parameter is well defined.\<close>

lemma request_param_exists:
  assumes "ready_request N args a"
  shows "\<exists>r appIndex p. request_param a = Some (r, appIndex, p) \<and> rq_backgroundTaskModes r \<noteq> [] \<and>
    (\<exists>c. work_context a = Some (c, cp_abilityName p, appIndex) \<and> cp_abilityId p = ac_abilityRecordId c)"
proof -
  obtain c name appIndex where w: "work_context a = Some (c, name, appIndex)"
    using assms by (cases "work_context a") (auto simp: ready_request_def ready_ability_def)
  obtain ms where "converted (rq_backgroundTaskModes (ai_request a)) 0 (rq_backgroundTaskSubmodes (ai_request a)) = Some ms"
    "length ms = length (rq_backgroundTaskSubmodes (ai_request a))"
    using converted_length [of 0 "rq_backgroundTaskSubmodes (ai_request a)" "rq_backgroundTaskModes (ai_request a)"] assms
    by (auto simp: ready_request_def)
  then show ?thesis
    using assms by (cases ms) (auto simp: request_param_def TaskModeTypeConversion_def w task_param_def ready_request_def)
qed

lemmas execute_defs = StartBackgroundRunningExecuteCB_def UpdateBackgroundRunningExecuteCB_def
  StartBackgroundRunningByRequestExecuteCB_def UpdateBackgroundRunningByRequestExecuteCB_def
  StopBackgroundRunningExecuteCB_def StopBackgroundRunningByTaskIdExecuteCB_def GetAllContinuousTasksExecuteCB_def
  GetAllContinuousTasksIncludeSuspendedExecuteCB_def ObtainAllContinuousTasksExecuteCB_def CheckSpecialScenarioAuthExecuteCB_def

lemma work_fails:
  assumes "work_ready N args k a"
  shows "execute e remote k a m s = None \<longleftrightarrow> k = UpdateWork \<and> work_context a = None"
proof (cases k)
  case StartByRequestWork
  then obtain r i p where "request_param a = Some (r, i, p)" using assms request_param_exists [of N args a] by auto
  then show ?thesis using StartByRequestWork by (simp add: execute_defs del: not_None_eq)
next
  case UpdateByRequestWork
  then obtain r i p where "request_param a = Some (r, i, p)" using assms request_param_exists [of N args a] by auto
  then show ?thesis using UpdateByRequestWork by (simp add: execute_defs del: not_None_eq)
qed (use assms in \<open>auto simp: execute_defs ready_ability_def ready_data_def split: prod.split\<close>)


section \<open>Starting a task\<close>

text \<open>The work of a start is one start through the client library, for the ability of its context.\<close>

lemma start_work:
  assumes "work_ready N args k a" and "k \<in> {StartWork, StartByRequestWork}"
  obtains c name appIndex p b where "GetAbilityContext N (argv N args 0) = Some c" "ac_abilityInfo c = Some (name, appIndex)"
    "cp_abilityName p = name" "cp_abilityId p = ac_abilityRecordId c"
    "k = StartByRequestWork \<longrightarrow> ai_bgModes b \<noteq> []"
    "execute e remote k a m s = Some (with_result (cl_RequestStartBackgroundRunning e remote p (-1, -1) m s) b)"
proof (cases k)
  case StartWork
  then obtain c name i where "work_context a = Some (c, name, i)" "ai_abilityContext a = Some c" "ac_abilityInfo c = Some (name, i)"
    "GetAbilityContext N (argv N args 0) = Some c" "ai_errCode a = ERR_OK"
    using assms(1) by (auto simp: ready_defs split: option.splits)
  then show ?thesis using StartWork that [of c name i
      "(task_param (ai_wantAgent a) name (ac_abilityRecordId c) (ai_isBatchApi a) (ai_bgMode a) (ai_bgModes a))\<lparr>cp_appIndex := i\<rparr>" a]
    by (simp add: execute_defs task_param_def)
next
  case StartByRequestWork
  then have ready: "ready_request N args a" using assms(1) by simp
  obtain r i p where p: "request_param a = Some (r, i, p)" "rq_backgroundTaskModes r \<noteq> []"
    "\<exists>c. work_context a = Some (c, cp_abilityName p, i) \<and> cp_abilityId p = ac_abilityRecordId c"
    using request_param_exists [OF ready] by auto
  then obtain c where "ac_abilityInfo c = Some (cp_abilityName p, i)" "GetAbilityContext N (argv N args 0) = Some c"
    "cp_abilityId p = ac_abilityRecordId c" "ai_errCode a = ERR_OK"
    using ready by (auto simp: ready_defs split: option.splits)
  then show ?thesis
    using StartByRequestWork p(1,2)
      that [of c "cp_abilityName p" i "p\<lparr>cp_combinedNotificationTaskId := rq_continuousTaskId r, cp_appIndex := i\<rparr>"
        "a\<lparr>ai_request := r, ai_bgModes := rq_backgroundTaskModes r\<rparr>"]
    by (simp add: execute_defs)
qed (use assms(2) in simp_all)

text \<open>What JavaScript is told of a task, and of an error.\<close>

definition js_notification :: "ContinuousTaskRecord \<Rightarrow> jsval" where
  "js_notification r = JObject [(''slotType'', JNumber 4), (''contentType'', JNumber 8),
     (''notificationId'', JNumber (ct_notificationId r)), (''continuousTaskId'', JNumber (ct_continuousTaskId r))]"

definition js_failure :: "ErrCode \<Rightarrow> jsval" where
  "js_failure code = GetCallbackErrorValue (FindErrCode code) (FindErrMsg code)"


text \<open>A runtime whose values are those the bindings build: an object with an ability in it is a context.\<close>

fun demo_typeof :: "jsval \<Rightarrow> napi_valuetype" where
  "demo_typeof JUndefined = napi_undefined"
| "demo_typeof JNull = napi_null"
| "demo_typeof (JBoolean _) = napi_boolean"
| "demo_typeof (JNumber _) = napi_number"
| "demo_typeof (JString _) = napi_string"
| "demo_typeof _ = napi_object"

fun demo_member :: "jsval \<Rightarrow> string \<Rightarrow> jsval option" where
  "demo_member (JObject ms) name = map_of ms name"
| "demo_member _ _ = None"

definition demo_napi :: "jsval napi" where
  "demo_napi =
     \<lparr>nv_undefined = JUndefined, nv_typeof = (\<lambda>v. Some (demo_typeof v)),
      nv_isArray = (\<lambda>v. Some (case v of JArray _ \<Rightarrow> True | _ \<Rightarrow> False)),
      nv_arrayLength = (\<lambda>v. case v of JArray vs \<Rightarrow> Some (length vs) | _ \<Rightarrow> None),
      nv_element = (\<lambda>v i. case v of JArray vs \<Rightarrow> if i < length vs then Some (vs ! i) else Some JUndefined | _ \<Rightarrow> None),
      nv_int32 = (\<lambda>v. case v of JNumber n \<Rightarrow> Some n | _ \<Rightarrow> None),
      nv_uint32 = (\<lambda>v. case v of JNumber n \<Rightarrow> Some (word_of_int n) | _ \<Rightarrow> None),
      nv_bool = (\<lambda>v. case v of JBoolean b \<Rightarrow> Some b | _ \<Rightarrow> None),
      nv_string = (\<lambda>v n. case v of JString t \<Rightarrow> Some (take (n - 1) t) | _ \<Rightarrow> None),
      nv_has = (\<lambda>v name. Some (demo_member v name \<noteq> None)),
      nv_get = (\<lambda>v name. Some (case_option JUndefined id (demo_member v name))),
      nv_unwrap = (\<lambda>v. Some None), nv_equals = (\<lambda>v w. v = w),
      nv_convertString = (\<lambda>v. case v of JString t \<Rightarrow> Some t | _ \<Rightarrow> None),
      nv_isStage = (\<lambda>v. Some True), nv_currentAbility = Some None,
      nv_stageContext = (\<lambda>v. case demo_member v ''ability'' of
         Some (JString name) \<Rightarrow> Some (Some \<lparr>ac_abilityInfo = Some (name, 0), ac_token = True, ac_abilityRecordId = 1\<rparr>)
       | Some JNull \<Rightarrow> Some (Some \<lparr>ac_abilityInfo = None, ac_token = True, ac_abilityRecordId = 1\<rparr>)
       | _ \<Rightarrow> Some None),
      nv_sendEvent = True\<rparr>"

text \<open>A request for one location task, with the sub mode for an ordinary notification.\<close>

definition demo_request :: "jsval list" where
  "demo_request =
     [JObject [(''ability'', JString ''Main'')],
      JObject [(''backgroundTaskModes'', JArray [JNumber (uint LOCATION)]),
               (''backgroundTaskSubmodes'', JArray [JNumber (uint SUBMODE_NORMAL_NOTIFICATION)]),
               (''wantAgent'', JObject []), (''continuousTaskId'', JNumber (-1))]]"

lemma demo_typed: "\<forall>v. nv_typeof demo_napi v \<noteq> None"
  by (simp add: demo_napi_def)

definition demo_data :: AsyncCallbackInfo where
  "demo_data = new_AsyncCallbackInfo
     \<lparr>ai_abilityContext := Some \<lparr>ac_abilityInfo = Some (''Main'', 0), ac_token = True, ac_abilityRecordId = 1\<rparr>,
      ai_request := new_ContinuousTaskRequest\<lparr>rq_backgroundTaskModes := [LOCATION],
        rq_backgroundTaskSubmodes := [SUBMODE_NORMAL_NOTIFICATION], rq_wantAgent := Some None\<rparr>\<rparr>"

lemma demo_call: "js_StartBackgroundRunning demo_napi demo_request True = ([], JPromise, Some (StartByRequestWork, False, demo_data))"
proof -
  have args: "length demo_request = 2" by code_simp
  have ctx: "GetAbilityContext demo_napi (argv demo_napi demo_request 0) =
      Some \<lparr>ac_abilityInfo = Some (''Main'', 0), ac_token = True, ac_abilityRecordId = 1\<rparr>" by code_simp
  have request: "GetContinuousTaskRequest demo_napi (argv demo_napi demo_request 1) new_ContinuousTaskRequest =
      ([], Some (ai_request demo_data))" by code_simp
  have modes: "StartBackgroundRunningCheckModes (ai_request demo_data) = ([], Inr (ai_request demo_data))" by code_simp
  have new: "ai_request new_AsyncCallbackInfo = new_ContinuousTaskRequest" by (simp add: new_AsyncCallbackInfo_def)
  have data: "new_AsyncCallbackInfo\<lparr>ai_abilityContext := Some \<lparr>ac_abilityInfo = Some (''Main'', 0), ac_token = True,
      ac_abilityRecordId = 1\<rparr>, ai_request := ai_request demo_data\<rparr> = demo_data" by (simp add: demo_data_def)
  show ?thesis
    by (simp add: js_StartBackgroundRunning_def StartBackgroundRunningCheckRequest_def context_argument_def argument_def
        and_then_def promised_def passed_def args ctx request [unfolded One_nat_def] modes new data)
qed


text \<open>An update with an array of modes from a context without an ability: the call is accepted, the work fails.\<close>

definition demo_update :: "jsval list" where
  "demo_update = [JObject [(''ability'', JNull)], JArray [JString ''location'']]"


end
