(* ===== verification/InterfaceProps.thy ===== *)
theory InterfaceProps
  imports JsSubscriber ClientProps
begin

text \<open>
  Properties of the C interface and of the subscriber of a JavaScript process: the C interface does not
  write past the structure of its caller, although it does not count; and the subscriber has the flag of
  every type of event for which it keeps a function, so that a subscription renewed with its flags asks
  for all of them.
\<close>

section \<open>The tasks of a caller\<close>

lemma transient_task_list_filter:
  "map fst (transient_task_list e name uid dm table) = map fst (filter (\<lambda>(i, k). key_of k = PkgKey name uid) table)"
  by (induction table rule: transient_task_list.induct) (auto simp: key_of_def)

text \<open>The list that a caller is given are the requests of its package, each once.\<close>

lemma transient_tasks_of_caller:
  assumes inv: "tm_inv q m" and list: "GetAllTransientTasks e m = (ERR_OK, quota, tasks, m')"
  shows "\<exists>name. GetBundleNamesForUid e (e_callingUid e) = Some name \<and> distinct (map fst tasks) \<and>
    set (map fst tasks) = {i. (PkgKey name (e_callingUid e), i) \<in> requests (tm_decisionMaker m)}"
proof -
  obtain name dm where name: "GetBundleNamesForUid e (e_callingUid e) = Some name"
    and tasks: "map fst tasks = map fst (filter (\<lambda>(i, k). key_of k = PkgKey name (e_callingUid e)) (tm_keyInfoMap m))"
    using list by (auto simp: GetAllTransientTasks_def Let_def transient_task_list_filter split: if_splits option.splits prod.splits)
  have "om_wf (tm_keyInfoMap m)" using tm_invD(1) [OF inv] by (simp add: tm_tables_ok_def)
  then have dist: "distinct (map fst (tm_keyInfoMap m))" by (simp add: om_wf_def strict_sorted_iff)
  then have "distinct (map fst tasks)" unfolding tasks by (rule distinct_map_filter)
  moreover have "set (map fst tasks) = {i. (PkgKey name (e_callingUid e), i) \<in> requests (tm_decisionMaker m)}"
    unfolding tasks tm_invD(4) [OF inv] tm_table_def using dist by (force simp: map_of_eq_Some_iff)
  ultimately show ?thesis using name by blast
qed

lemma package_has_three:
  assumes "tm_inv q m"
  shows "finite {i. (k, i) \<in> requests (tm_decisionMaker m)} \<and> card {i. (k, i) \<in> requests (tm_decisionMaker m)} \<le> 3"
proof (cases "map_of (dm_pkgMap (tm_decisionMaker m)) k")
  case None
  then show ?thesis by (simp add: requests_def)
next
  case (Some p)
  have "length (pdi_requestList p) \<le> 3"
    using dm_inv_pkg_inv [OF tm_invD(3) [OF assms] Some] by (simp add: pdi_inv_def)
  then have "card (set (ids p)) \<le> 3" using card_length [of "ids p"] by simp
  then show ?thesis using Some by (simp add: requests_def)
qed

lemma write_tasks_fits:
  "i + length xs \<le> length tasks \<Longrightarrow>
   \<exists>tasks'. write_tasks i xs tasks = Some tasks' \<and> length tasks' = length tasks \<and>
     take i tasks' = take i tasks \<and> take (length xs) (drop i tasks') = xs \<and>
     drop (i + length xs) tasks' = drop (i + length xs) tasks"
proof (induction xs arbitrary: i tasks)
  case (Cons x xs)
  then obtain t where t: "write_tasks (Suc i) xs (tasks[i := x]) = Some t" "length t = length tasks"
    "take (Suc i) t = take (Suc i) (tasks[i := x])" "take (length xs) (drop (Suc i) t) = xs"
    "drop (Suc i + length xs) t = drop (Suc i + length xs) (tasks[i := x])"
    using Cons.IH [of "Suc i" "tasks[i := x]"] by auto
  have i: "i < length tasks" using Cons.prems by simp
  have "take i t = take i tasks"
    using arg_cong [OF t(3), of "take i"] by simp
  moreover have "t ! i = x" using arg_cong [OF t(3), of "\<lambda>l. l ! i"] i t(2) by simp
  then have "take (Suc (length xs)) (drop i t) = x # xs"
    using t(2,4) i by (simp add: Cons_nth_drop_Suc [symmetric])
  ultimately show ?case using t i by simp
qed simp

text \<open>
  C26: a program that asks through the C interface for its transient tasks, with a structure that has
  room for three of them. The loop that fills the structure does not look at its size; in every state
  that the service can reach it stays inside. On an error the structure is as before; otherwise its
  first entries are the requests of the calling package, each once, and the entries after them are as
  before.
\<close>

theorem native_task_info_fits:
  assumes "sv_reach q s" and "delivers se remote" and "length tasks = 3"
  shows "\<exists>code quota' tasks' m' s'.
    OH_BackgroundTaskManager_GetTransientTaskInfo e remote (Some (quota, tasks)) m s = Some (code, Some (quota', tasks'), m', s') \<and>
    length tasks' = 3 \<and> (code \<noteq> ERR_OK \<longrightarrow> quota' = quota \<and> tasks' = tasks) \<and>
    (code = ERR_OK \<longrightarrow> (\<exists>n name. n \<le> 3 \<and> distinct (map fst (take n tasks')) \<and>
       GetBundleNamesForUid (t_env se s) (e_callingUid (t_env se s)) = Some name \<and>
       set (map fst (take n tasks')) =
         {i. (PkgKey name (e_callingUid (t_env se s)), i) \<in> requests (tm_decisionMaker (sv_transient s))} \<and>
       drop n tasks' = drop n tasks))"
proof -
  obtain c quota1 list tm where all: "GetAllTransientTasks (t_env se s) (sv_transient s) = (c, quota1, list, tm)"
    by (metis surj_pair)
  obtain ok m1 where proxy: "GetBackgroundTaskManagerProxy e m = (ok, m1)" by fastforce
  have "sv_serve se (received_ipc ReqAllTransientTasks) s = Inr (c, RTransient quota1 list, s\<lparr>sv_transient := tm\<rparr>)"
    by (simp add: sv_GetAllTransientTasks_def all)
  then have call: "cl_GetAllTransientTasks e remote m s =
      (if ok then (c, Some (RTransient quota1 list), m1, s\<lparr>sv_transient := tm\<rparr>)
       else (ERR_BGTASK_TRANSIENT_SERVICE_NOT_CONNECTED, None, m1, s))"
    using assms(2) by (simp add: cl_GetAllTransientTasks_def call_proxy_def delivers_def proxy)
  have codes: "c \<noteq> ERR_OK \<Longrightarrow> native_code c \<noteq> ERR_OK"
    using all by (auto simp: GetAllTransientTasks_def native_code_def Let_def split: if_splits option.splits prod.splits)
  show ?thesis
  proof (cases "ok \<and> c = ERR_OK")
    case False
    then show ?thesis
      using assms(3) codes
      by (auto simp: OH_BackgroundTaskManager_GetTransientTaskInfo_def call native_code_def)
  next
    case True
    have "tm_isReady (sv_transient s)" using all True by (auto simp: GetAllTransientTasks_def split: if_splits)
    then have inv: "tm_inv q (sv_transient s)"
      using sv_reach_inv [OF assms(1)] by (auto simp: sv_inv_def intro: tm_reachable_inv split: if_splits)
    obtain name where name: "GetBundleNamesForUid (t_env se s) (e_callingUid (t_env se s)) = Some name"
      and list: "distinct (map fst list)"
        "set (map fst list) = {i. (PkgKey name (e_callingUid (t_env se s)), i) \<in> requests (tm_decisionMaker (sv_transient s))}"
      using transient_tasks_of_caller [OF inv] all True by blast
    have "card (set (map fst list)) \<le> 3" unfolding list(2) using package_has_three [OF inv] by blast
    then have n: "length list \<le> 3" using distinct_card [OF list(1)] by simp
    obtain tasks' where w: "write_tasks 0 list tasks = Some tasks'" "length tasks' = 3" "take (length list) tasks' = list"
      "drop (length list) tasks' = drop (length list) tasks"
      using write_tasks_fits [of 0 list tasks] n assms(3) by auto
    show ?thesis
      apply (rule exI [of _ ERR_OK], rule exI [of _ "case_option 0 id quota1"], rule exI [of _ tasks'], rule exI [of _ m1],
          rule exI [of _ "s\<lparr>sv_transient := tm\<rparr>"])
      using True w name list n
      by (intro conjI impI exI [of _ "length list"] exI [of _ name])
        (simp_all add: OH_BackgroundTaskManager_GetTransientTaskInfo_def call)
  qed
qed

theorem native_task_info_fits_witness:
  "\<exists>code quota' tasks' m' s'.
     OH_BackgroundTaskManager_GetTransientTaskInfo demo_clenv demo_remote (Some (7, [(1, 2), (3, 4), (5, 6)]))
       new_BackgroundTaskManager demo_service = Some (code, Some (quota', tasks'), m', s') \<and> length tasks' = 3"
  using native_task_info_fits [OF demo_service_reach demo_delivers, of "[(1, 2), (3, 4), (5, 6)]" demo_clenv 7
      new_BackgroundTaskManager] by fastforce

section \<open>The flags of the subscriber\<close>

definition type_flag :: "string \<Rightarrow> 32 word" where
  "type_flag ty = (if ty = TASK_STATE_TYPE then SUBSCRIBER_BACKGROUND_TASK_STATE else flag_of_type ty)"

text \<open>The subscriber has the flag of every type it keeps objects for, and knows no other types.\<close>

definition flags_cover :: "'v JsBackgroundTaskSubscriber \<Rightarrow> bool" where
  "flags_cover b \<longleftrightarrow> (\<forall>ty. map_of (jb_jsObserverObjectMap b) ty \<noteq> None \<longrightarrow>
     ty \<in> set g_callbackTypes \<union> {TASK_STATE_TYPE} \<and> and (jb_allCallBackTypes b) (type_flag ty) = type_flag ty)"

lemma flag_disjoint:
  assumes "ty \<in> set g_callbackTypes \<union> {TASK_STATE_TYPE}" and "ty' \<in> set g_callbackTypes \<union> {TASK_STATE_TYPE}"
  shows "ty' \<noteq> ty \<Longrightarrow> and (type_flag ty') (not (type_flag ty)) = type_flag ty'"
  using assms by (auto simp: g_callbackTypes_def type_flag_def flag_of_type_def)

lemma flags_set:
  assumes "flags_cover b" and "ty \<in> set g_callbackTypes \<union> {TASK_STATE_TYPE}"
  shows "flags_cover (SetFlag (type_flag ty) True b)"
    and "flags_cover (AddJsObserverObject N ty v (SetFlag (type_flag ty) True b))"
proof -
  have keep: "and x f = f \<Longrightarrow> and (or x g) f = f" for x f g :: "32 word"
    by (auto simp: bit_eq_iff bit_and_iff bit_or_iff)
  show one: "flags_cover (SetFlag (type_flag ty) True b)"
    using assms(1) by (auto simp: flags_cover_def SetFlag_def keep)
  have "and (jb_allCallBackTypes (SetFlag (type_flag ty) True b)) (type_flag ty) = type_flag ty"
    by (simp add: SetFlag_def word_ao_absorbs)
  then show "flags_cover (AddJsObserverObject N ty v (SetFlag (type_flag ty) True b))"
    using one assms(2) by (auto simp: AddJsObserverObject_def flags_cover_def update_conv)
qed

text \<open>Taking objects away, and then the flag of a type that has none left.\<close>

lemma flags_fewer:
  assumes "flags_cover b"
  shows "flags_cover (RemoveJsObserverObjects ty b)" and "flags_cover (RemoveJsObserverObject N ty v b)"
proof -
  show all: "flags_cover (RemoveJsObserverObjects ty b)"
    using assms by (auto simp: flags_cover_def RemoveJsObserverObjects_def delete_conv)
  have "map_of (jb_jsObserverObjectMap b) ty \<noteq> None" if "GetObserverObject N ty v b = Some x" for x
    using that by (auto simp: GetObserverObject_def observers_def split: option.splits)
  then show "flags_cover (RemoveJsObserverObject N ty v b)"
    using assms all by (auto simp: RemoveJsObserverObject_def flags_cover_def update_conv split: option.splits)
qed

lemma flags_cleared:
  assumes "flags_cover b" and "ty \<in> set g_callbackTypes \<union> {TASK_STATE_TYPE}" and "IsTypeEmpty ty b"
  shows "flags_cover (SetFlag (type_flag ty) False b)"
proof -
  have keep: "and x f = f \<Longrightarrow> and f (not g) = f \<Longrightarrow> and (and x (not g)) f = f" for x f g :: "32 word"
    by (auto simp: bit_eq_iff bit_and_iff bit_not_iff)
  have "and (and (jb_allCallBackTypes b) (not (type_flag ty))) (type_flag ty') = type_flag ty'"
    if "map_of (jb_jsObserverObjectMap b) ty' \<noteq> None" for ty'
  proof (rule keep)
    have ty': "ty' \<in> set g_callbackTypes \<union> {TASK_STATE_TYPE}" "ty' \<noteq> ty"
      using that assms by (auto simp: flags_cover_def IsTypeEmpty_def)
    then show "and (type_flag ty') (not (type_flag ty)) = type_flag ty'" by (rule flag_disjoint [OF assms(2)])
    show "and (jb_allCallBackTypes b) (type_flag ty') = type_flag ty'" using assms(1) that by (simp add: flags_cover_def)
  qed
  then show ?thesis using assms(1) by (simp add: flags_cover_def SetFlag_def)
qed

lemma unsubscribe_flags:
  assumes "flags_cover b" and "ty \<in> set g_callbackTypes \<union> {TASK_STATE_TYPE}"
    and "IsTypeEmpty ty b \<Longrightarrow> flag = type_flag ty"
    and "js_UnSubscribeBackgroundTask e remote impl flag ty b m s = (t, Some b', m', s')"
  shows "flags_cover b'"
  using assms flags_cleared [OF assms(1,2)]
  by (auto simp: js_UnSubscribeBackgroundTask_def Let_def split: if_splits prod.splits)

text \<open>What happens to the subscriber of a process.\<close>

inductive js_reach :: "'v napi \<Rightarrow> 'v JsBackgroundTaskSubscriber option \<Rightarrow> bool" for N where
  jr_none: "js_reach N None"
| jr_on: "js_reach N sub \<Longrightarrow>
    OnOnContinuousTaskCallback N (SubscriberBgtaskSaStatusChange manager allocated subscribed) e remote impl args sub m
      (s :: BackgroundTaskMgrService) = (t, sub', m', s') \<Longrightarrow> js_reach N sub'"
| jr_off: "js_reach N sub \<Longrightarrow>
    OffOnContinuousTaskCallback N e remote impl args sub m (s :: BackgroundTaskMgrService) = (t, sub', m', s') \<Longrightarrow> js_reach N sub'"
| jr_subscribe: "js_reach N sub \<Longrightarrow>
    SubscribeContinuousTaskState N (SubscriberBgtaskSaStatusChange manager allocated subscribed) e remote impl args sub m
      (s :: BackgroundTaskMgrService) = (t, sub', m', s') \<Longrightarrow> js_reach N sub'"
| jr_unsubscribe: "js_reach N sub \<Longrightarrow>
    UnSubscribeContinuousTaskState N e remote impl args sub m (s :: BackgroundTaskMgrService) = (t, sub', m', s') \<Longrightarrow> js_reach N sub'"
| jr_up: "js_reach N (Some b) \<Longrightarrow>
    js_OnAddSystemAbility e remote impl sa b m (s :: BackgroundTaskMgrService) = (b', m', s') \<Longrightarrow> js_reach N (Some b')"
| jr_down: "js_reach N (Some b) \<Longrightarrow> js_reach N (Some (js_OnRemoveSystemAbility sa b))"

lemma other_flags [simp]:
  "flags_cover (b\<lparr>jb_currentCallBackType := x\<rparr>) = flags_cover b"
  "flags_cover (b\<lparr>jb_needRestoreSubscribeStatus := y\<rparr>) = flags_cover b"
  by (simp_all add: flags_cover_def)

lemma listener_flags [simp]: "flags_cover (SubscriberBgtaskSaStatusChange manager allocated subscribed b) = flags_cover b"
  by (simp add: SubscriberBgtaskSaStatusChange_def flags_cover_def)

lemma subscribe_flags:
  assumes "\<forall>b. sub = Some b \<longrightarrow> flags_cover b" and "ty \<in> set g_callbackTypes \<union> {TASK_STATE_TYPE}"
    and "js_SubscribeBackgroundTask e remote impl (type_flag ty) sub m s = (t, ok, b, m1, s1)"
  shows "flags_cover b" and "flags_cover (AddJsObserverObject N ty v b)"
proof -
  have "flags_cover (case_option new_JsBackgroundTaskSubscriber id sub)"
    using assms(1) by (auto simp: flags_cover_def new_JsBackgroundTaskSubscriber_def split: option.split)
  moreover have "b = SetFlag (type_flag ty) True (case_option new_JsBackgroundTaskSubscriber id sub)"
    using assms(3) by (auto simp: js_SubscribeBackgroundTask_def Let_def split: prod.splits)
  ultimately show "flags_cover b" "flags_cover (AddJsObserverObject N ty v b)"
    using flags_set [OF _ assms(2)] by simp_all
qed

lemma js_reach_flags: "js_reach N sub \<Longrightarrow> sub = Some b \<Longrightarrow> flags_cover b"
proof (induction arbitrary: b rule: js_reach.induct)
  case (jr_on sub manager allocated subscribed e remote impl args m s t sub' m' s')
  show ?case
  proof (cases "CheckOnParam N args")
    case (Some ty)
    then have "ty \<in> set g_callbackTypes" by (auto simp: CheckOnParam_def split: if_splits option.splits)
    then have ty: "ty \<in> set g_callbackTypes \<union> {TASK_STATE_TYPE}" "flag_of_type ty = type_flag ty"
      by (auto simp: g_callbackTypes_def type_flag_def)
    obtain t1 ok b1 m1 s1 where y: "js_SubscribeBackgroundTask e remote impl (type_flag ty) sub m s = (t1, ok, b1, m1, s1)"
      by (metis surj_pair)
    show ?thesis
      using jr_on subscribe_flags [OF _ ty(1) y] by (auto simp: OnOnContinuousTaskCallback_def Some ty(2) y split: if_splits)
  qed (use jr_on in \<open>simp add: OnOnContinuousTaskCallback_def\<close>)
next
  case (jr_off sub e remote impl args m s t sub' m' s')
  show ?case
  proof (cases "CheckOffParam N args")
    case (Some ty)
    then have "ty \<in> set g_callbackTypes" by (auto simp: CheckOffParam_def split: if_splits option.splits)
    then have ty: "ty \<in> set g_callbackTypes \<union> {TASK_STATE_TYPE}" "flag_of_type ty = type_flag ty"
      by (auto simp: g_callbackTypes_def type_flag_def)
    show ?thesis
    proof (cases sub)
      case sub: (Some b0)
      let ?b = "if length args = 1 then RemoveJsObserverObjects ty b0
        else if length args = 2 then RemoveJsObserverObject N ty (argv N args 1) b0 else b0"
      have "flags_cover b0" using jr_off.IH [OF sub] .
      then have b: "flags_cover ?b" by (simp add: flags_fewer)
      have "js_UnSubscribeBackgroundTask e remote impl (if IsTypeEmpty ty ?b then flag_of_type ty else 0) ty ?b m s = (t, Some b, m', s')"
        using jr_off.hyps(2) jr_off.prems by (simp add: OffOnContinuousTaskCallback_def Some sub Let_def)
      then show ?thesis by (rule unsubscribe_flags [OF b ty(1), rotated]) (simp add: ty(2))
    qed (use jr_off Some in \<open>simp add: OffOnContinuousTaskCallback_def\<close>)
  qed (use jr_off in \<open>simp add: OffOnContinuousTaskCallback_def\<close>)
next
  case (jr_subscribe sub manager allocated subscribed e remote impl args m s t sub' m' s')
  have flag: "(SUBSCRIBER_BACKGROUND_TASK_STATE :: 32 word) = type_flag TASK_STATE_TYPE" by (simp add: type_flag_def)
  obtain t1 ok b1 m1 s1 where y: "js_SubscribeBackgroundTask e remote impl (type_flag TASK_STATE_TYPE) sub m s = (t1, ok, b1, m1, s1)"
    by (metis surj_pair)
  show ?case
    using jr_subscribe subscribe_flags [OF _ _ y]
    by (auto simp: SubscribeContinuousTaskState_def flag y simp del: type_flag_def split: if_splits)
next
  case (jr_unsubscribe sub e remote impl args m s t sub' m' s')
  show ?case
  proof (cases "length args = 1 \<and> CheckSubscriberParam N (argv N args 0) \<and> sub \<noteq> None")
    case True
    then obtain b0 where sub: "sub = Some b0" by auto
    have "js_UnSubscribeBackgroundTask e remote impl SUBSCRIBER_BACKGROUND_TASK_STATE TASK_STATE_TYPE
        (RemoveJsObserverObject N TASK_STATE_TYPE (argv N args 0) b0) m s = (t, Some b, m', s')"
      using jr_unsubscribe.hyps(2) jr_unsubscribe.prems True by (simp add: UnSubscribeContinuousTaskState_def sub)
    then show ?thesis
      by (rule unsubscribe_flags [OF flags_fewer(2) [OF jr_unsubscribe.IH [OF sub]], rotated 2]) (simp_all add: type_flag_def)
  qed (use jr_unsubscribe in \<open>auto simp: UnSubscribeContinuousTaskState_def split: if_splits\<close>)
next
  case (jr_up b0 e remote impl sa m s b' m' s')
  then show ?case by (auto simp: js_OnAddSystemAbility_def Let_def split: if_splits prod.splits)
next
  case (jr_down b0 sa)
  then show ?case by (auto simp: js_OnRemoveSystemAbility_def)
qed simp

text \<open>
  When the service is back, the subscriber of a process asks it with one request for the events of all
  the types that it keeps objects for.
\<close>

lemma subscription_renewed:
  assumes "js_reach N (Some b)" and "jb_needRestoreSubscribeStatus b"
  shows "\<exists>flag. snd (js_OnAddSystemAbility e remote impl BACKGROUND_TASK_MANAGER_SERVICE_ID b m s) =
      snd (snd (cl_SubscribeBackgroundTask e remote (Some impl) flag m s)) \<and>
    (\<forall>ty. observers ty b \<noteq> [] \<longrightarrow> and flag (type_flag ty) = type_flag ty)"
proof (intro exI conjI allI impI)
  show "snd (js_OnAddSystemAbility e remote impl BACKGROUND_TASK_MANAGER_SERVICE_ID b m s) =
      snd (snd (cl_SubscribeBackgroundTask e remote (Some impl) (jb_allCallBackTypes b) m s))"
    using assms(2) by (simp add: js_OnAddSystemAbility_def Let_def split: prod.split)
  show "and (jb_allCallBackTypes b) (type_flag ty) = type_flag ty" if "observers ty b \<noteq> []" for ty
    using js_reach_flags [OF assms(1)] that by (auto simp: flags_cover_def observers_def split: option.splits)
qed

text \<open>
  A subscription with several flags is checked as one without the flag for the states of tasks, since the
  service compares the flags with that flag instead of testing its bit: an application that only has the
  permission for continuous tasks of its own is told of the tasks of all applications.
\<close>

lemma combined_flags_bypass_check:
  assumes "se_tokenType e = TOKEN_HAP" and "ce_checkPermission (se_continuous e) ''ohos.permission.KEEP_BACKGROUND_RUNNING''"
    and "r \<notin> si_subscriber ` set (cm_bgTaskSubscribers (sv_continuous s))"
  shows "\<exists>s'. sv_SubscribeBackgroundTask e (Some (Some r)) (or CONTINUOUS_TASK_CANCEL SUBSCRIBER_BACKGROUND_TASK_STATE) s = (ERR_OK, s') \<and>
    SubTaskStart r cb \<in> set (cm_calls (NotifySubscribersTaskStart cb (sv_continuous s')))"
proof -
  have none: "find (\<lambda>t. si_subscriber t = r) (cm_bgTaskSubscribers (sv_continuous s)) = None"
    using assms(3) unfolding find_None_iff by (metis imageI)
  show ?thesis
    using assms(1,2) none
    by (simp add: sv_SubscribeBackgroundTask_def check_subscriber_def CheckHapCalling_def CheckCallingToken_def subscriber_info_def
        AddSubscriber_def AddSubscriberInner_def NotifySubscribersTaskStart_def cm_emit_def wants_state_def Let_def)
qed

end
