(* ===== verification/EtsCalls.thy ===== *)
theory EtsCalls
  imports TransientApis
begin

text \<open>
  The bindings for ArkTS (\<^verbatim>\<open>interfaces/kits/ets/taihe/src\<close>) and for Cangjie
  (\<^verbatim>\<open>interfaces/kits/cj/background_task_mgr\<close>). All calls run on the thread of their caller. The runtime of
  ArkTS is the record \<open>ani\<close> of functions on its objects. An error is set for the caller and the call
  returns; the errors that are set are listed in order. Data structures of the generated interface are
  records here; a member that the source leaves unset is \<open>None\<close>. After the data and the checks come the calls
  (\<^verbatim>\<open>ohos.resourceschedule.backgroundTaskManager.impl.cpp\<close>), their callbacks
  (\<^verbatim>\<open>callback_instance.cpp\<close>), and the Cangjie bindings (\<^verbatim>\<open>background_task_mgr_ffi.cpp\<close>). A call gives the
  errors set, the value returned, and the states of the client and behind it.
\<close>

section \<open>The runtime\<close>

record 'o ani =
  an_isStage :: "'o \<Rightarrow> bool option"
  an_stageContext :: "'o \<Rightarrow> AbilityContext option"
  an_unwrapWantAgent :: "'o \<Rightarrow> want_agent"
  an_slotType :: bool
  an_contentType :: bool

text \<open>The message begins with another word than that of the JavaScript bindings.\<close>

definition ets_FindErrMsg :: "ErrCode \<Rightarrow> string" where
  "ets_FindErrMsg errCode =
     (if errCode = ERR_OK then ''''
      else if GetSaErrMsg errCode \<noteq> '''' then ''BusinessError '' @ to_string (FindErrCode errCode) @ '': '' @ GetSaErrMsg errCode
      else if GetParamErrMsg errCode \<noteq> '''' then ''BusinessError 401: Parameter error. '' @ GetParamErrMsg errCode
      else ''Inner error.'')"

type_synonym business_error = "ErrCode \<times> string"

definition business :: "ErrCode \<Rightarrow> business_error list" where
  "business errCode = [(FindErrCode errCode, ets_FindErrMsg errCode)]"

definition reported :: "ErrCode \<Rightarrow> business_error list" where
  "reported errCode = (if errCode = ERR_OK then [] else business errCode)"

text \<open>Checks one after the other: the first that fails gives the code.\<close>

definition next_check :: "ErrCode + 'a \<Rightarrow> ('a \<Rightarrow> ErrCode + 'b) \<Rightarrow> ErrCode + 'b" where
  "next_check c f = (case c of Inl code \<Rightarrow> Inl code | Inr x \<Rightarrow> f x)"

definition ets_GetAbilityContext :: "'o ani \<Rightarrow> 'o \<Rightarrow> AbilityContext option" where
  "ets_GetAbilityContext A v = (if an_isStage A v \<noteq> Some True then None else an_stageContext A v)"

text \<open>The context with the name and the index of its ability.\<close>

definition ets_CheckParam :: "'o ani \<Rightarrow> 'o \<Rightarrow> ErrCode + (AbilityContext \<times> string \<times> int)" where
  "ets_CheckParam A context =
     (case ets_GetAbilityContext A context of
        None \<Rightarrow> Inl ERR_CONTEXT_NULL_OR_TYPE_ERR
      | Some c \<Rightarrow>
          (case ac_abilityInfo c of
             None \<Rightarrow> Inl ERR_ABILITY_INFO_EMPTY
           | Some (name, appIndex) \<Rightarrow> if \<not> ac_token c then Inl ERR_GET_TOKEN_ERR else Inr (c, name, appIndex)))"

definition ets_GetWantAgent :: "'o ani \<Rightarrow> 'o \<Rightarrow> ErrCode + want_agent" where
  "ets_GetWantAgent A v =
     (case an_unwrapWantAgent A v of None \<Rightarrow> Inl ERR_WANTAGENT_NULL_OR_TYPE_ERR | Some w \<Rightarrow> Inr (Some w))"

fun ets_modes :: "string list \<Rightarrow> 32 word list \<Rightarrow> ErrCode + 32 word list" where
  "ets_modes [] modes = Inr modes"
| "ets_modes (name # names) modes =
     (if name \<in> set g_backgroundModes then
        let m = of_nat (index_of name g_backgroundModes + 1)
        in ets_modes names (if m \<in> set modes then modes else modes @ [m])
      else Inl ERR_BGMODE_NULL_OR_TYPE_ERR)"

definition ets_GetModes :: "string list \<Rightarrow> ErrCode + 32 word list" where
  "ets_GetModes bgModes = (if length bgModes = 0 then Inl ERR_BGMODE_NULL_OR_TYPE_ERR else ets_modes bgModes [])"

definition mode_in_range :: "32 word \<Rightarrow> bool" where
  "mode_in_range m \<longleftrightarrow> \<not> (m < BG_MODE_ID_BEGIN \<or> m > BG_MODE_ID_END)"

definition ets_CheckBackgroundMode :: "bool \<Rightarrow> 32 word \<Rightarrow> 32 word list \<Rightarrow> ErrCode + unit" where
  "ets_CheckBackgroundMode isBatchApi bgMode bgModes =
     (if (if isBatchApi then list_all mode_in_range bgModes else mode_in_range bgMode) then Inr () else Inl ERR_BGMODE_RANGE_ERR)"

section \<open>Requests for continuous tasks\<close>

record ets_ProgressInfo =
  ep_title :: string
  ep_fileName :: string
  ep_progressValue :: "int option"
  ep_isMute :: "bool option"

record ContinuousTaskRequestImpl =
  ti_requestTaskId :: int
  ti_combinedTaskNotification :: bool
  ti_wantAgent :: want_agent
  ti_taskSubmodes :: "32 word list"
  ti_taskModes :: "32 word list"
  ti_progressInfo :: "ets_ProgressInfo option"

definition CreateContinuousTaskRequest :: ContinuousTaskRequestImpl where
  "CreateContinuousTaskRequest =
     \<lparr>ti_requestTaskId = -1, ti_combinedTaskNotification = False, ti_wantAgent = None, ti_taskSubmodes = [], ti_taskModes = [],
      ti_progressInfo = None\<rparr>"

definition setBackgroundTaskModes :: "32 word list \<Rightarrow> ContinuousTaskRequestImpl \<Rightarrow> ContinuousTaskRequestImpl" where
  "setBackgroundTaskModes modes r = (if length modes = 0 then r else r\<lparr>ti_taskModes := modes\<rparr>)"

definition setBackgroundTaskSubmodes :: "32 word list \<Rightarrow> ContinuousTaskRequestImpl \<Rightarrow> ContinuousTaskRequestImpl" where
  "setBackgroundTaskSubmodes submodes r = (if length submodes = 0 then r else r\<lparr>ti_taskSubmodes := submodes\<rparr>)"

definition setWantAgent :: "'o ani \<Rightarrow> 'o \<Rightarrow> ContinuousTaskRequestImpl \<Rightarrow> ContinuousTaskRequestImpl" where
  "setWantAgent A v r = (case an_unwrapWantAgent A v of None \<Rightarrow> r | Some w \<Rightarrow> r\<lparr>ti_wantAgent := Some w\<rparr>)"

definition setCombinedTaskNotification :: "bool option \<Rightarrow> ContinuousTaskRequestImpl \<Rightarrow> ContinuousTaskRequestImpl" where
  "setCombinedTaskNotification v r = (case v of None \<Rightarrow> r | Some b \<Rightarrow> r\<lparr>ti_combinedTaskNotification := b\<rparr>)"

definition setContinuousTaskId :: "int option \<Rightarrow> ContinuousTaskRequestImpl \<Rightarrow> ContinuousTaskRequestImpl" where
  "setContinuousTaskId v r = (case v of None \<Rightarrow> r | Some i \<Rightarrow> r\<lparr>ti_requestTaskId := i\<rparr>)"

definition setProgressInfo :: "ets_ProgressInfo option \<Rightarrow> ContinuousTaskRequestImpl \<Rightarrow> ContinuousTaskRequestImpl" where
  "setProgressInfo v r = (case v of None \<Rightarrow> r | Some g \<Rightarrow> r\<lparr>ti_progressInfo := Some g\<rparr>)"

fun ets_check_submodes :: "32 word list \<Rightarrow> 32 word list \<Rightarrow> ErrCode + unit" where
  "ets_check_submodes (mode # modes) (subMode # rest) =
     (if subMode \<ge> 12 \<or> subMode < CAR_KEY then Inl ERR_BGTASK_CONTINUOUS_MODE_OR_SUBMODE_CROSS_BORDER
      else if subMode = SUBMODE_NORMAL_NOTIFICATION then
        if \<not> IsModeTypeMatching mode then Inl ERR_BGTASK_CONTINUOUS_MODE_OR_SUBMODE_TYPE_MISMATCH else ets_check_submodes modes rest
      else if GetSubModeTypeMatching subMode \<noteq> mode then Inl ERR_BGTASK_CONTINUOUS_MODE_OR_SUBMODE_TYPE_MISMATCH
      else ets_check_submodes modes rest)"
| "ets_check_submodes _ _ = Inr ()"

text \<open>
  Once as a method of the request and once as a function of it. A task that shares its notification is
  not looked at, unlike in the JavaScript bindings.
\<close>

definition CheckModesInner :: "ContinuousTaskRequestImpl \<Rightarrow> ErrCode + unit" where
  "CheckModesInner r =
     (let modes = ti_taskModes r; subModes = ti_taskSubmodes r;
          specialModeSize = count_list modes SPECIAL_SCENARIO_PROCESSING
      in if length modes = 0 \<or> length subModes = 0 then Inl ERR_BGTASK_CONTINUOUS_MODE_OR_SUBMODE_IS_EMPTY
         else if length modes \<noteq> length subModes then Inl ERR_BGTASK_CONTINUOUS_MODE_OR_SUBMODE_LENGTH_MISMATCH
         else if specialModeSize > 1 then Inl ERR_BGTASK_SPECIAL_SCENARIO_PROCESSING_ONLY_ALLOW_ONE_APPLICATION
         else if specialModeSize = 1 \<and> length modes > 1 then Inl ERR_BGTASK_SPECIAL_SCENARIO_PROCESSING_CONFLICTS_WITH_OTHER_TASK
         else ets_check_submodes modes subModes)"

definition CheckModeAndSubMode :: "ContinuousTaskRequestImpl \<Rightarrow> ErrCode + unit" where
  "CheckModeAndSubMode r = CheckModesInner r"

text \<open>The modes of the service; an index out of range is \<open>None\<close>.\<close>

definition ets_TaskModeTypeConversion :: "ContinuousTaskRequestImpl \<Rightarrow> (32 word \<times> 32 word list) option" where
  "ets_TaskModeTypeConversion r =
     (case converted (ti_taskModes r) 0 (ti_taskSubmodes r) of
        Some (mode # modes) \<Rightarrow> Some (mode, mode # modes)
      | _ \<Rightarrow> None)"

definition ets_CheckRequestParams :: "'o ani \<Rightarrow> 'o \<Rightarrow> ContinuousTaskRequestImpl \<Rightarrow> ErrCode + (AbilityContext \<times> string \<times> int)" where
  "ets_CheckRequestParams A context r =
     next_check (ets_CheckParam A context) (\<lambda>c. next_check (CheckModeAndSubMode r) (\<lambda>_. Inr c))"

definition ets_GetProgressInfoParam :: "ets_ProgressInfo \<Rightarrow> ErrCode + ProgressInfo" where
  "ets_GetProgressInfoParam g =
     (case ep_progressValue g of
        Some n \<Rightarrow>
          if n < 0 \<or> n > 100 then Inl ERR_BGTASK_CONTINUOUS_PROGRESS_INFO_INVALID
          else Inr \<lparr>pg_title = ep_title g, pg_fileName = ep_fileName g, pg_progressValue = n,
                    pg_isMute = case_option False id (ep_isMute g)\<rparr>
      | None \<Rightarrow> Inr \<lparr>pg_title = ep_title g, pg_fileName = ep_fileName g, pg_progressValue = pg_progressValue new_ProgressInfo,
                     pg_isMute = case_option False id (ep_isMute g)\<rparr>)"

section \<open>Continuous tasks\<close>

text \<open>The notification of a started task: its id and the id of the task, if all its members were set.\<close>

type_synonym notification = "(int \<times> int) option"

definition ets_notified :: "'o ani \<Rightarrow> ErrCode \<times> (int \<times> int) \<times> 'm \<times> 's \<Rightarrow> business_error list \<times> notification \<times> 'm \<times> 's" where
  "ets_notified A r = (case r of (c, ids', m, s) \<Rightarrow>
     if c \<noteq> ERR_OK then (business c, None, m, s)
     else if \<not> an_slotType A \<or> \<not> an_contentType A then ([], None, m, s)
     else ([], Some ids', m, s))"

definition StartBackgroundRunningSync where
  "StartBackgroundRunningSync A e remote context bgMode wantAgent m s =
     (case next_check (ets_CheckParam A context) (\<lambda>c. next_check (ets_GetWantAgent A wantAgent) (\<lambda>w.
             next_check (ets_CheckBackgroundMode False bgMode []) (\<lambda>_. Inr (c, w)))) of
        Inl code \<Rightarrow> (business code, m, s)
      | Inr ((c, name, appIndex), w) \<Rightarrow>
          (case cl_RequestStartBackgroundRunning e remote
                  ((task_param w name (ac_abilityRecordId c) False bgMode [])\<lparr>cp_appIndex := appIndex\<rparr>) (-1, -1) m s of
             (code, _, m1, s1) \<Rightarrow> (reported code, m1, s1)))"

definition StartBackgroundRunningSync2 where
  "StartBackgroundRunningSync2 A e remote context bgModes wantAgent m s =
     (case next_check (ets_CheckParam A context) (\<lambda>c. next_check (ets_GetWantAgent A wantAgent) (\<lambda>w.
             next_check (ets_GetModes bgModes) (\<lambda>modes. next_check (ets_CheckBackgroundMode True 0 modes) (\<lambda>_. Inr (c, w, modes))))) of
        Inl code \<Rightarrow> (business code, None, m, s)
      | Inr ((c, name, appIndex), w, modes) \<Rightarrow>
          ets_notified A (cl_RequestStartBackgroundRunning e remote
            ((task_param w name (ac_abilityRecordId c) True 0 modes)\<lparr>cp_appIndex := appIndex\<rparr>) (-1, -1) m s))"

definition UpdateBackgroundRunningSync where
  "UpdateBackgroundRunningSync A e remote context bgModes m s =
     (case next_check (ets_CheckParam A context) (\<lambda>c.
             next_check (ets_GetModes bgModes) (\<lambda>modes. next_check (ets_CheckBackgroundMode True 0 modes) (\<lambda>_. Inr (c, modes)))) of
        Inl code \<Rightarrow> (business code, None, m, s)
      | Inr ((c, name, _), modes) \<Rightarrow>
          ets_notified A (cl_RequestUpdateBackgroundRunning e remote (task_param None name (ac_abilityRecordId c) True 0 modes) (-1, -1) m s))"

text \<open>The parameter of a request object, with its progress; an index out of range is \<open>None\<close>.\<close>

definition ets_request_param ::
    "AbilityContext \<Rightarrow> string \<Rightarrow> ContinuousTaskRequestImpl \<Rightarrow> (ErrCode + ContinuousTaskParam) option" where
  "ets_request_param c name r =
     map_option (\<lambda>(mode, modes).
       next_check (case ti_progressInfo r of None \<Rightarrow> Inr None | Some g \<Rightarrow> map_sum id Some (ets_GetProgressInfoParam g)) (\<lambda>g.
         Inr ((task_param (ti_wantAgent r) name (ac_abilityRecordId c) True mode modes)
           \<lparr>cp_bgSubModeIds := ti_taskSubmodes r, cp_isByRequestObject := True,
            cp_isCombinedTaskNotification := ti_combinedTaskNotification r, cp_progressInfo := g\<rparr>)))
       (ets_TaskModeTypeConversion r)"

definition StartBackgroundRunningSync3 where
  "StartBackgroundRunningSync3 A e remote context r m s =
     (case ets_CheckRequestParams A context r of
        Inl code \<Rightarrow> Some (business code, None, m, s)
      | Inr (c, name, appIndex) \<Rightarrow>
          map_option (\<lambda>checked. case checked of
              Inl code \<Rightarrow> (business code, None, m, s)
            | Inr p \<Rightarrow> ets_notified A (cl_RequestStartBackgroundRunning e remote
                (p\<lparr>cp_appIndex := appIndex, cp_combinedNotificationTaskId := ti_requestTaskId r\<rparr>) (-1, -1) m s))
            (ets_request_param c name r))"

definition UpdateBackgroundRunningSync2 where
  "UpdateBackgroundRunningSync2 A e remote context r m s =
     (if ti_requestTaskId r < 0 then Some (business ERR_BGTASK_CONTINUOUS_TASKID_INVALID, None, m, s)
      else case ets_CheckRequestParams A context r of
        Inl code \<Rightarrow> Some (business code, None, m, s)
      | Inr (c, name, _) \<Rightarrow>
          map_option (\<lambda>checked. case checked of
              Inl code \<Rightarrow> (business code, None, m, s)
            | Inr p \<Rightarrow> ets_notified A (cl_RequestUpdateBackgroundRunning e remote (p\<lparr>cp_updateTaskId := ti_requestTaskId r\<rparr>) (-1, -1) m s))
            (ets_request_param c name r))"

definition StopBackgroundRunningSync where
  "StopBackgroundRunningSync A e remote context m s =
     (case ets_CheckParam A context of
        Inl code \<Rightarrow> (business code, m, s)
      | Inr (c, name, _) \<Rightarrow>
          (case cl_RequestStopBackgroundRunning e remote name (ac_abilityRecordId c) (-1) m s of
             (code, _, m1, s1) \<Rightarrow> (reported code, m1, s1)))"

definition StopBackgroundRunningSync2 where
  "StopBackgroundRunningSync2 A e remote context continuousTaskId m s =
     (if continuousTaskId < 0 then (business ERR_BGTASK_CONTINUOUS_TASKID_INVALID, m, s)
      else case ets_CheckParam A context of
        Inl code \<Rightarrow> (business code, m, s)
      | Inr (c, name, _) \<Rightarrow>
          (case cl_RequestStopBackgroundRunning e remote name (ac_abilityRecordId c) continuousTaskId m s of
             (code, _, m1, s1) \<Rightarrow> (reported code, m1, s1)))"

text \<open>The mode names are those of the JavaScript bindings; sub modes are always taken as those of the old interface.\<close>

definition GetAniBackgroundModes :: "32 word list \<Rightarrow> jsval" where
  "GetAniBackgroundModes modes = JArray (map (\<lambda>m. JString (GetBackgroundModeStr m)) (filter (\<lambda>m. m < BGMODE_END) modes))"

definition GetAniBackgroundSubModes :: "32 word list \<Rightarrow> jsval" where
  "GetAniBackgroundSubModes subModes = JArray (map (\<lambda>m. JString (GetBackgroundSubModeStr m)) (filter (\<lambda>m. m < 2) subModes))"

definition ets_ContinuousTaskInfo :: "bool \<Rightarrow> ContinuousTaskInfo \<Rightarrow> jsval" where
  "ets_ContinuousTaskInfo suspendState t = JObject
     [(''abilityName'', JString (ti_abilityName t)), (''uid'', JNumber (ti_uid t)), (''pid'', JNumber (ti_pid t)),
      (''isFromWebView'', JBoolean (ti_isFromWebView t)), (''backgroundModes'', GetAniBackgroundModes (ti_backgroundModes t)),
      (''backgroundSubModes'', GetAniBackgroundSubModes (ti_backgroundSubModes t)),
      (''notificationId'', JNumber (ti_notificationId t)), (''continuousTaskId'', JNumber (ti_continuousTaskId t)),
      (''abilityId'', JNumber (ti_abilityId t)), (''wantAgentBundleName'', JString (ti_wantAgentBundleName t)),
      (''wantAgentAbilityName'', JString (ti_wantAgentAbilityName t)), (''suspendState'', JBoolean suspendState),
      (''bundleName'', JString (ti_bundleName t)), (''appIndex'', JNumber (ti_appIndex t))]"

definition GetAllContinuousTasksSync where
  "GetAllContinuousTasksSync A e remote context m s =
     (case ets_CheckParam A context of
        Inl code \<Rightarrow> (business code, [], m, s)
      | Inr _ \<Rightarrow>
          (case cl_RequestGetAllContinuousTasks e remote [] m s of
             (code, list, m1, s1) \<Rightarrow>
               if code \<noteq> ERR_OK then (business code, [], m1, s1) else ([], map (ets_ContinuousTaskInfo False) list, m1, s1)))"

definition GetAllContinuousTasksSync2 where
  "GetAllContinuousTasksSync2 A e remote context includeSuspended m s =
     (case ets_CheckParam A context of
        Inl code \<Rightarrow> (business code, [], m, s)
      | Inr _ \<Rightarrow>
          (case cl_RequestGetAllContinuousTasksIncludeSuspended e remote includeSuspended m s of
             (code, reply, m1, s1) \<Rightarrow>
               if code \<noteq> ERR_OK then (business code, [], m1, s1)
               else ([], map (\<lambda>t. ets_ContinuousTaskInfo (ti_suspendState t) t) (case_option [] infos_of reply), m1, s1)))"

definition ObtainAllContinuousTasksSync where
  "ObtainAllContinuousTasksSync e remote m s =
     (case cl_GetAllContinuousTasksBySystem e remote m s of
        (code, reply, m1, s1) \<Rightarrow>
          if code \<noteq> ERR_OK then (business code, [], m1, s1)
          else ([], map (ets_ContinuousTaskInfo False) (case_option [] infos_of reply), m1, s1))"

text \<open>Here the modes are those of the request, not converted to those of the service.\<close>

definition ets_isModeSupported where
  "ets_isModeSupported e remote r m s =
     (let modes = ti_taskModes r; specialModeSize = count_list modes SPECIAL_SCENARIO_PROCESSING
      in if length modes = 0 then (business ERR_BGTASK_CONTINUOUS_MODE_OR_SUBMODE_IS_EMPTY, False, m, s)
         else if specialModeSize > 1 then (business ERR_BGTASK_SPECIAL_SCENARIO_PROCESSING_ONLY_ALLOW_ONE_APPLICATION, False, m, s)
         else if specialModeSize = 1 \<and> length modes > 1
         then (business ERR_BGTASK_SPECIAL_SCENARIO_PROCESSING_CONFLICTS_WITH_OTHER_TASK, False, m, s)
         else case cl_IsModeSupported e remote (task_param None '''' (-1) True (-1) modes) m s of
                (code, _, m1, s1) \<Rightarrow> (reported code, code = ERR_OK, m1, s1))"

definition auth_key :: "int \<Rightarrow> int" where
  "auth_key authResult =
     (if authResult \<in> {AUTH_NOT_SUPPORTED, AUTH_NOT_DETERMINED, AUTH_DENIED, AUTH_GRANTED_ONCE, AUTH_GRANTED_ALWAYS}
      then authResult else AUTH_NOT_DETERMINED)"

definition GetUserAuth where
  "GetUserAuth A e remote context apiVersion m s =
     (case ets_CheckParam A context of
        Inl code \<Rightarrow> (business code, AUTH_NOT_DETERMINED, m, s)
      | Inr (_, _, appIndex) \<Rightarrow>
          (case cl_CheckSpecialScenarioAuth e remote appIndex apiVersion m s of
             (code, reply, m1, s1) \<Rightarrow>
               if code \<noteq> ERR_OK then (business code, AUTH_NOT_DETERMINED, m1, s1)
               else ([], auth_key (case_option 0 auth_of reply), m1, s1)))"

text \<open>The members of the structure: user, bundle name, index, and the result if there is one.\<close>

definition ets_SetBackgroundTaskState where
  "ets_SetBackgroundTaskState e remote userId bundleName appIndex authResult m s =
     (case authResult of
        None \<Rightarrow> (business ERR_BGTASK_CONTINUOUS_BACKGROUND_TASK_PARAM_INVALID, m, s)
      | Some authValue \<Rightarrow>
          if userId < 0 \<or> appIndex < 0 \<or> bundleName = '''' then (business ERR_BGTASK_CONTINUOUS_BACKGROUND_TASK_PARAM_INVALID, m, s)
          else case cl_SetBackgroundTaskState e remote
                      (Some \<lparr>bs_userId = userId, bs_bundleName = bundleName, bs_appIndex = appIndex, bs_authResult = authValue\<rparr>) m s of
                 (code, _, m1, s1) \<Rightarrow> (reported code, m1, s1))"

definition ets_GetBackgroundTaskState where
  "ets_GetBackgroundTaskState e remote userId bundleName appIndex m s =
     (if userId < 0 \<or> appIndex < 0 \<or> bundleName = ''''
      then (business ERR_BGTASK_CONTINUOUS_BACKGROUND_TASK_PARAM_INVALID, AUTH_NOT_DETERMINED, m, s)
      else case cl_GetBackgroundTaskState e remote
                  (Some (new_BackgroundTaskStateInfo\<lparr>bs_userId := userId, bs_bundleName := bundleName, bs_appIndex := appIndex\<rparr>)) m s of
             (code, t, m1, s1) \<Rightarrow>
               if code \<noteq> ERR_OK then (business code, AUTH_NOT_DETERMINED, m1, s1)
               else ([], auth_key (case_option 0 bs_authResult t), m1, s1))"

definition ets_UpdateDataTransferProgress where
  "ets_UpdateDataTransferProgress A e remote context continuousTaskId wantAgent progress m s =
     (if ets_GetAbilityContext A context = None then (business ERR_CONTEXT_NULL_OR_TYPE_ERR, m, s)
      else if continuousTaskId < 0 then (business ERR_BGTASK_INVALID_PARAM, m, s)
      else case ets_GetProgressInfoParam progress of
             Inl code \<Rightarrow> (business code @ business ERR_BGTASK_CONTINUOUS_PROGRESS_INFO_INVALID, m, s)
           | Inr g \<Rightarrow>
               (case cl_RequestUpdateDataTransferProgress e remote
                       \<lparr>dp_continuousTaskId = continuousTaskId, dp_wantAgent = Option.bind wantAgent (an_unwrapWantAgent A),
                        dp_progressInfo = Some g\<rparr> m s of
                  (code, _, m1, s1) \<Rightarrow> (reported code, m1, s1)))"

section \<open>Transient tasks and efficiency resources\<close>

text \<open>
  A callback object has a map of its own beside the map of the file that holds the calls. An object lives
  while the map of the file holds it.
\<close>

record ets_Callback =
  ec_callback :: bool
  ec_authCallback :: bool
  ec_callbackInstances :: "(int \<times> nat) list"

definition new_ets_Callback :: ets_Callback where
  "new_ets_Callback = \<lparr>ec_callback = False, ec_authCallback = False, ec_callbackInstances = []\<rparr>"

text \<open>The map of the file, the objects, and the functions that were called, with their argument if they have one.\<close>

record ets_state =
  et_callbackInstances :: "(int \<times> nat) list"
  et_objects :: "(nat \<times> ets_Callback) list"
  et_called :: "(nat \<times> int option) list"

definition new_ets_state :: ets_state where
  "new_ets_state = \<lparr>et_callbackInstances = [], et_objects = [], et_called = []\<rparr>"

definition ets_release :: "ets_state \<Rightarrow> ets_state" where
  "ets_release k = k\<lparr>et_objects := filter (\<lambda>(c, _). c \<in> snd ` set (et_callbackInstances k)) (et_objects k)\<rparr>"

definition ets_keep :: "int \<Rightarrow> nat \<Rightarrow> ets_Callback \<Rightarrow> ets_state \<Rightarrow> ets_state" where
  "ets_keep i cb ob k =
     ets_release (k\<lparr>et_objects := (cb, ob) # et_objects k, et_callbackInstances := om_put i cb (et_callbackInstances k)\<rparr>)"

definition ets_CancelSuspendDelay where
  "ets_CancelSuspendDelay e remote requestId k m s =
     (case cl_CancelSuspendDelay e remote requestId m s of
        (code, _, m1, s1) \<Rightarrow>
          (reported code, ets_release (k\<lparr>et_callbackInstances := om_del requestId (et_callbackInstances k)\<rparr>), m1, s1))"

definition GetRemainingDelayTimeSync where
  "GetRemainingDelayTimeSync e remote requestId m s =
     (case cl_GetRemainingDelayTime e remote requestId m s of
        (code, reply, m1, s1) \<Rightarrow> (reported code, time_of reply, m1, s1))"

text \<open>The object of the callback is new.\<close>

definition ets_RequestSuspendDelay where
  "ets_RequestSuspendDelay e remote cb k m s =
     (case cl_RequestSuspendDelay e remote (Some cb) m s of
        (code, reply, m1, s1) \<Rightarrow>
          (reported code, delay_of reply,
           (case delay_of reply of None \<Rightarrow> k | Some d \<Rightarrow> ets_keep (ds_requestId d) cb (new_ets_Callback\<lparr>ec_callback := True\<rparr>) k),
           m1, s1))"

definition GetTransientTaskInfoSync where
  "GetTransientTaskInfoSync e remote m s =
     (case cl_GetAllTransientTasks e remote m s of (code, reply, m1, s1) \<Rightarrow> (reported code, quota_of reply, m1, s1))"

definition ets_resource_info ::
    "int \<Rightarrow> bool \<Rightarrow> int \<Rightarrow> string \<Rightarrow> bool option \<Rightarrow> bool option \<Rightarrow> int option \<Rightarrow> EfficiencyResourceInfo" where
  "ets_resource_info resourceTypes isApply timeOut reason isPersist isProcess cpuLevel =
     (let ri = \<lparr>ri_resourceNumber = word_of_int resourceTypes, ri_isApply = isApply, ri_timeOut = word_of_int timeOut,
                ri_reason = reason, ri_isPersist = case_option False id isPersist, ri_isProcess = case_option False id isProcess,
                ri_uid = -1, ri_pid = -1, ri_cpuLevel = CPU_LEVEL_DEFAULT\<rparr>
      in case cpuLevel of None \<Rightarrow> ri | Some l \<Rightarrow> ri_SetCpuLevel l ri)"

definition ets_ApplyEfficiencyResources where
  "ets_ApplyEfficiencyResources e remote resourceTypes isApply timeOut reason isPersist isProcess cpuLevel m s =
     (case cl_ApplyEfficiencyResources e remote
             (ets_resource_info resourceTypes isApply timeOut reason isPersist isProcess cpuLevel) m s of
        (code, _, m1, s1) \<Rightarrow> (reported code, m1, s1))"

definition ets_ResetAllEfficiencyResources where
  "ets_ResetAllEfficiencyResources e remote m s =
     (case cl_ResetAllEfficiencyResources e remote m s of (code, _, m1, s1) \<Rightarrow> (reported code, m1, s1))"

definition GetAllEfficiencyResourcesSync where
  "GetAllEfficiencyResourcesSync e remote m s =
     (case cl_GetAllEfficiencyResources e remote [] m s of
        (code, list, m1, s1) \<Rightarrow>
          if code \<noteq> ERR_OK then (business code, [], m1, s1)
          else ([], map (\<lambda>i. JObject
            ([(''resourceTypes'', JNumber (uint (ri_resourceNumber i))), (''timeout'', JNumber (uint (ri_timeOut i))),
              (''isPersistent'', JBoolean (ri_isPersist i)), (''isForProcess'', JBoolean (ri_isProcess i)),
              (''reason'', JString (ri_reason i)), (''uid'', JNumber (ri_uid i)), (''pid'', JNumber (ri_pid i))] @
             (if ri_cpuLevel i \<noteq> CPU_LEVEL_DEFAULT then [(''cpuLevel'', JNumber (ri_cpuLevel i))] else []))) list, m1, s1))"

section \<open>Authorization\<close>

definition notification_of :: "reply option \<Rightarrow> int" where
  "notification_of reply = (case reply of Some (RNotification (Some n)) \<Rightarrow> n | _ \<Rightarrow> -1)"

definition auth_param :: "ContinuousTaskRequestImpl \<Rightarrow> int \<Rightarrow> ContinuousTaskParam" where
  "auth_param r appIndex =
     (task_param None '''' (-1) True (hd (ti_taskModes r)) (ti_taskModes r))
       \<lparr>cp_bgSubModeIds := ti_taskSubmodes r, cp_appIndex := appIndex\<rparr>"

definition ets_auth_check :: "'o ani \<Rightarrow> 'o \<Rightarrow> ContinuousTaskRequestImpl \<Rightarrow> ErrCode + int" where
  "ets_auth_check A context r =
     next_check (CheckModesInner r) (\<lambda>_. next_check (ets_CheckParam A context) (\<lambda>(_, _, appIndex). Inr appIndex))"

definition requestAuthFromUser where
  "requestAuthFromUser A e remote context r cb k m s =
     (case ets_auth_check A context r of
        Inl code \<Rightarrow> (business code, k, m, s)
      | Inr appIndex \<Rightarrow>
          (case cl_RequestAuthFromUser e remote (auth_param r appIndex) (Some cb) m s of
             (code, reply, m1, s1) \<Rightarrow>
               if code = ERR_BGTASK_CONTINUOUS_TRIGGER_CALLBACK then ([], k, m1, s1)
               else if code \<noteq> ERR_OK then (business code, k, m1, s1)
               else if notification_of reply \<ge> 0
               then ([], ets_keep (notification_of reply) cb (new_ets_Callback\<lparr>ec_authCallback := True\<rparr>) k, m1, s1)
               else ([], k, m1, s1)))"

definition requestAuthFromUserByDialog where
  "requestAuthFromUserByDialog A e remote context r cb dialog k m s =
     (case ets_auth_check A context r of
        Inl code \<Rightarrow> (business code, k, m, s)
      | Inr appIndex \<Rightarrow>
          let p = (auth_param r appIndex)\<lparr>cp_requestAuthApiVersion := API_VERSION_26\<rparr>
          in case cl_RequestAuthFromUser e remote p (Some cb) m s of
               (code, reply, m1, s1) \<Rightarrow>
                 if code = ERR_BGTASK_CONTINUOUS_TRIGGER_CALLBACK then ([], k, m1, s1)
                 else if code \<noteq> ERR_OK then (business code, k, m1, s1)
                 else if \<not> dialog then
                   (case cl_RemoveAuthRecord e remote p m1 s1 of (_, _, m2, s2) \<Rightarrow> (business ERR_BGTASK_SYS_NOT_READY, k, m2, s2))
                 else if notification_of reply \<ge> 0
                 then ([], ets_keep (notification_of reply) cb (new_ets_Callback\<lparr>ec_authCallback := True\<rparr>) k, m1, s1)
                 else ([], k, m1, s1))"

section \<open>Callbacks of ArkTS\<close>

text \<open>
  The remote object of a callback (\<^verbatim>\<open>expired_callback.cpp\<close>) passes a call on while the callback lives. The
  callback looks for itself in its own map, which hides the map of the file.
\<close>

definition ets_OnExpired :: "nat \<Rightarrow> ets_state \<Rightarrow> ErrCode \<times> ets_state" where
  "ets_OnExpired cb k =
     (case map_of (et_objects k) cb of
        None \<Rightarrow> (ERR_BGTASK_CALLBACK_NOT_EXIST, k)
      | Some ob \<Rightarrow>
          (ERR_OK,
           (case find (\<lambda>(_, c). c = cb) (ec_callbackInstances ob) of
              None \<Rightarrow> k
            | Some (i, _) \<Rightarrow>
                k\<lparr>et_called := (if ec_callback ob then et_called k @ [(cb, None)] else et_called k),
                  et_objects := AList.update cb (ob\<lparr>ec_callbackInstances := om_del i (ec_callbackInstances ob)\<rparr>) (et_objects k)\<rparr>)))"

definition ets_OnExpiredAuth :: "nat \<Rightarrow> int \<Rightarrow> ets_state \<Rightarrow> ErrCode \<times> ets_state" where
  "ets_OnExpiredAuth cb authResult k =
     (case map_of (et_objects k) cb of
        None \<Rightarrow> (ERR_BGTASK_CALLBACK_NOT_EXIST, k)
      | Some ob \<Rightarrow>
          (ERR_OK, if \<not> ec_authCallback ob then k else k\<lparr>et_called := et_called k @ [(cb, Some (auth_key authResult))]\<rparr>))"

section \<open>Cangjie\<close>

text \<open>The pointers are taken to be valid; the map of the file holds the callbacks.\<close>

definition CJ_RequestSuspendDelay where
  "CJ_RequestSuspendDelay e remote cb ret k m s =
     (case cl_RequestSuspendDelay e remote (Some cb) m s of
        (code, reply, m1, s1) \<Rightarrow>
          if code \<noteq> ERR_OK then (code, ret, k, m1, s1)
          else case delay_of reply of
                 None \<Rightarrow> (code, ret, k, m1, s1)
               | Some d \<Rightarrow>
                   (code, d, k\<lparr>kb_callbackInstances := om_put (ds_requestId d) (cb, True) (kb_callbackInstances k)\<rparr>, m1, s1))"

definition CJ_GetRemainingDelayTime where
  "CJ_GetRemainingDelayTime e remote requestId delayTime m s =
     (case cl_GetRemainingDelayTime e remote requestId m s of
        (code, reply, m1, s1) \<Rightarrow> (code, (case reply of Some (RTime (Some t)) \<Rightarrow> t | _ \<Rightarrow> delayTime), m1, s1))"

definition CJ_CancelSuspendDelay where
  "CJ_CancelSuspendDelay e remote requestId k m s =
     (case cl_CancelSuspendDelay e remote requestId m s of (code, _, m1, s1) \<Rightarrow> (code, erase_callback requestId k, m1, s1))"

text \<open>A context without information on its ability is dereferenced.\<close>

definition CJ_StopBackgroundRunning where
  "CJ_StopBackgroundRunning e remote c m s =
     map_option (\<lambda>(name, _). case cl_RequestStopBackgroundRunning e remote name (-1) (-1) m s of (code, _, m1, s1) \<Rightarrow> (code, m1, s1))
       (ac_abilityInfo c)"

definition CJ_ApplyEfficiencyResources where
  "CJ_ApplyEfficiencyResources e remote resourceTypes isApply timeOut reason isPersist isProcess m s =
     (case cl_ApplyEfficiencyResources e remote
             \<lparr>ri_resourceNumber = resourceTypes, ri_isApply = isApply, ri_timeOut = timeOut, ri_reason = reason,
              ri_isPersist = isPersist, ri_isProcess = isProcess, ri_uid = -1, ri_pid = -1, ri_cpuLevel = CPU_LEVEL_DEFAULT\<rparr> m s of
        (code, _, m1, s1) \<Rightarrow> (code, m1, s1))"

definition CallbackFFI_OnExpired :: "nat \<Rightarrow> callback_state \<Rightarrow> callback_state" where
  "CallbackFFI_OnExpired cb k =
     (case request_of cb k of
        None \<Rightarrow> k
      | Some (requestId, _, _) \<Rightarrow>
          (erase_callback requestId k)\<lparr>kb_called := kb_called k @ [(cb, JUndefined)]\<rparr>)"

end
