(* ===== verification/EtsSubscriber.thy ===== *)
theory EtsSubscriber
  imports EtsCalls JsSubscriber
begin

text \<open>
  Subscriptions from ArkTS (\<^verbatim>\<open>ani_backgroundtask_subscriber.cpp\<close> and the functions of
  \<^verbatim>\<open>ohos.resourceschedule.backgroundTaskManager.impl.cpp\<close> that use it). There is one map of functions for
  each of three types of events; functions are compared with \<open>eq\<close>.
\<close>

record 'f AniBackgroundTaskSubscriber =
  ab_cancelCallbacks :: "(string \<times> 'f list) list"
  ab_suspendCallbacks :: "(string \<times> 'f list) list"
  ab_activeCallbacks :: "(string \<times> 'f list) list"
  ab_jsSaListner :: bool
  ab_needRestoreSubscribeStatus :: bool
  ab_currentCallBackType :: "32 word"
  ab_allCallBackTypes :: "32 word"

definition new_AniBackgroundTaskSubscriber :: "'f AniBackgroundTaskSubscriber" where
  "new_AniBackgroundTaskSubscriber =
     \<lparr>ab_cancelCallbacks = [], ab_suspendCallbacks = [], ab_activeCallbacks = [], ab_jsSaListner = False,
      ab_needRestoreSubscribeStatus = False, ab_currentCallBackType = 0, ab_allCallBackTypes = 0\<rparr>"

section \<open>Maps of functions\<close>

text \<open>The three maps are handled by the same code.\<close>

definition observers_of :: "string \<Rightarrow> (string \<times> 'f list) list \<Rightarrow> 'f list" where
  "observers_of cbType t = case_option [] id (map_of t cbType)"

definition find_observer :: "('f \<Rightarrow> 'f \<Rightarrow> bool) \<Rightarrow> string \<Rightarrow> 'f \<Rightarrow> (string \<times> 'f list) list \<Rightarrow> 'f option" where
  "find_observer eq cbType f t = find (\<lambda>g. eq g f) (observers_of cbType t)"

definition add_observer :: "('f \<Rightarrow> 'f \<Rightarrow> bool) \<Rightarrow> string \<Rightarrow> 'f \<Rightarrow> (string \<times> 'f list) list \<Rightarrow> (string \<times> 'f list) list" where
  "add_observer eq cbType f t =
     (if find_observer eq cbType f t = None then AList.update cbType (observers_of cbType t @ [f]) t else t)"

definition remove_observer :: "('f \<Rightarrow> 'f \<Rightarrow> bool) \<Rightarrow> string \<Rightarrow> 'f \<Rightarrow> (string \<times> 'f list) list \<Rightarrow> (string \<times> 'f list) list" where
  "remove_observer eq cbType f t =
     (case find_observer eq cbType f t of
        None \<Rightarrow> t
      | Some g \<Rightarrow>
          let rest = remove1 g (observers_of cbType t)
          in if rest = [] then AList.delete cbType t else AList.update cbType rest t)"

definition AddCancelObserverObject where
  "AddCancelObserverObject eq cbType f b = b\<lparr>ab_cancelCallbacks := add_observer eq cbType f (ab_cancelCallbacks b)\<rparr>"

definition RemoveCancelObserverObject where
  "RemoveCancelObserverObject eq cbType f b = b\<lparr>ab_cancelCallbacks := remove_observer eq cbType f (ab_cancelCallbacks b)\<rparr>"

definition AddSuspendObserverObject where
  "AddSuspendObserverObject eq cbType f b = b\<lparr>ab_suspendCallbacks := add_observer eq cbType f (ab_suspendCallbacks b)\<rparr>"

definition RemoveSuspendObserverObject where
  "RemoveSuspendObserverObject eq cbType f b = b\<lparr>ab_suspendCallbacks := remove_observer eq cbType f (ab_suspendCallbacks b)\<rparr>"

definition AddActiveObserverObject where
  "AddActiveObserverObject eq cbType f b = b\<lparr>ab_activeCallbacks := add_observer eq cbType f (ab_activeCallbacks b)\<rparr>"

definition RemoveActiveObserverObject where
  "RemoveActiveObserverObject eq cbType f b = b\<lparr>ab_activeCallbacks := remove_observer eq cbType f (ab_activeCallbacks b)\<rparr>"

definition ani_RemoveJsObserverObjects :: "string \<Rightarrow> 'f AniBackgroundTaskSubscriber \<Rightarrow> 'f AniBackgroundTaskSubscriber" where
  "ani_RemoveJsObserverObjects cbType b =
     (if cbType = ''continuousTaskCancel'' then b\<lparr>ab_cancelCallbacks := []\<rparr>
      else if cbType = ''continuousTaskSuspend'' then b\<lparr>ab_suspendCallbacks := []\<rparr>
      else if cbType = ''continuousTaskActive'' then b\<lparr>ab_activeCallbacks := []\<rparr>
      else b)"

definition ani_IsEmpty :: "'f AniBackgroundTaskSubscriber \<Rightarrow> bool" where
  "ani_IsEmpty b \<longleftrightarrow> ab_cancelCallbacks b = [] \<and> ab_suspendCallbacks b = [] \<and> ab_activeCallbacks b = []"

definition ani_SetFlag :: "32 word \<Rightarrow> bool \<Rightarrow> 'f AniBackgroundTaskSubscriber \<Rightarrow> 'f AniBackgroundTaskSubscriber" where
  "ani_SetFlag flag isSubscriber b =
     b\<lparr>ab_currentCallBackType := flag,
       ab_allCallBackTypes := (if isSubscriber then or (ab_allCallBackTypes b) flag else and (ab_allCallBackTypes b) (not flag))\<rparr>"

definition ani_GetFlag :: "'f AniBackgroundTaskSubscriber \<Rightarrow> int" where
  "ani_GetFlag b = sint (ab_allCallBackTypes b)"

section \<open>The service comes and goes\<close>

definition ani_SubscriberBgtaskSaStatusChange ::
    "bool \<Rightarrow> bool \<Rightarrow> bool \<Rightarrow> 'f AniBackgroundTaskSubscriber \<Rightarrow> 'f AniBackgroundTaskSubscriber" where
  "ani_SubscriberBgtaskSaStatusChange manager allocated subscribed b =
     (if ab_jsSaListner b then b
      else if \<not> manager then b
      else if \<not> allocated then b
      else b\<lparr>ab_jsSaListner := subscribed\<rparr>)"

definition ani_UnSubscriberBgtaskSaStatusChange :: "bool \<Rightarrow> 'f AniBackgroundTaskSubscriber \<Rightarrow> 'f AniBackgroundTaskSubscriber" where
  "ani_UnSubscriberBgtaskSaStatusChange manager b =
     (if \<not> ab_jsSaListner b then b else if \<not> manager then b else b\<lparr>ab_jsSaListner := False\<rparr>)"

definition ani_OnAddSystemAbility where
  "ani_OnAddSystemAbility e remote impl systemAbilityId b m s =
     (if systemAbilityId \<noteq> BACKGROUND_TASK_MANAGER_SERVICE_ID then (b, m, s)
      else if \<not> ab_needRestoreSubscribeStatus b then (b, m, s)
      else let b1 = b\<lparr>ab_currentCallBackType := ab_allCallBackTypes b\<rparr>
           in case cl_SubscribeBackgroundTask e remote (Some impl) (ab_currentCallBackType b1) m s of
                (_, _, m1, s1) \<Rightarrow> (b1\<lparr>ab_needRestoreSubscribeStatus := False\<rparr>, m1, s1))"

definition ani_OnRemoveSystemAbility :: "int \<Rightarrow> 'f AniBackgroundTaskSubscriber \<Rightarrow> 'f AniBackgroundTaskSubscriber" where
  "ani_OnRemoveSystemAbility systemAbilityId b =
     (if systemAbilityId \<noteq> BACKGROUND_TASK_MANAGER_SERVICE_ID then b
      else if \<not> ani_IsEmpty b then b\<lparr>ab_needRestoreSubscribeStatus := True\<rparr> else b)"

section \<open>Events\<close>

text \<open>The functions that are called, with their argument; starts and updates of tasks are ignored.\<close>

definition ani_HandleOnContinuousTaskStop :: "ContinuousTaskCallbackInfo \<Rightarrow> 'f AniBackgroundTaskSubscriber \<Rightarrow> ('f \<times> jsval) list" where
  "ani_HandleOnContinuousTaskStop info b =
     map (\<lambda>f. (f, JObject [(''reason'', JNumber (cb_cancelReason info)), (''id'', JNumber (cb_continuousTaskId info)),
                           (''detailedReason'', JNumber (cb_detailedCancelReason info))]))
       (observers_of ''continuousTaskCancel'' (ab_cancelCallbacks b))"

definition ani_HandleOnContinuousTaskSuspend :: "ContinuousTaskCallbackInfo \<Rightarrow> 'f AniBackgroundTaskSubscriber \<Rightarrow> ('f \<times> jsval) list" where
  "ani_HandleOnContinuousTaskSuspend info b =
     map (\<lambda>f. (f, JObject [(''continuousTaskId'', JNumber (cb_continuousTaskId info)),
                           (''suspendState'', JBoolean (cb_suspendState info)), (''suspendReason'', JNumber (cb_suspendReason info)),
                           (''suspendMessage'', JObject
                              [(''message'', JString (GetSuspendReasonMessage (word_of_int (cb_suspendReason info)))),
                               (''reason'', JNumber (cb_suspendReason info))])]))
       (observers_of ''continuousTaskSuspend'' (ab_suspendCallbacks b))"

definition ani_HandleOnContinuousTaskActive :: "ContinuousTaskCallbackInfo \<Rightarrow> 'f AniBackgroundTaskSubscriber \<Rightarrow> ('f \<times> jsval) list" where
  "ani_HandleOnContinuousTaskActive info b =
     map (\<lambda>f. (f, JObject [(''id'', JNumber (cb_continuousTaskId info))]))
       (observers_of ''continuousTaskActive'' (ab_activeCallbacks b))"

section \<open>Subscribing\<close>

definition ani_SubscribeBackgroundTask where
  "ani_SubscribeBackgroundTask e remote impl flag sub m s =
     (let b = ani_SetFlag flag True (case_option new_AniBackgroundTaskSubscriber id sub)
      in case cl_SubscribeBackgroundTask e remote (Some impl) (ab_currentCallBackType b) m s of
           (c, _, m1, s1) \<Rightarrow> (reported c, c = ERR_OK, b, m1, s1))"

text \<open>Only a subscriber that has no functions of any type left is unsubscribed, with the flag of the last type.\<close>

definition ani_UnSubscribeBackgroundTask where
  "ani_UnSubscribeBackgroundTask e remote impl flag b m s =
     (if \<not> ani_IsEmpty b then ([], Some b, m, s)
      else let b1 = ani_SetFlag flag False b
           in case cl_UnsubscribeBackgroundTask e remote (Some impl) (ab_currentCallBackType b1) m s of
                (c, _, m1, s1) \<Rightarrow> if c \<noteq> ERR_OK then (business c, Some b1, m1, s1) else ([], None, m1, s1))"

text \<open>Subscribing for one type, with the function that adds to its map and the listener for the service.\<close>

definition ani_on where
  "ani_on add listener e remote impl flag sub m s =
     (case ani_SubscribeBackgroundTask e remote impl flag sub m s of
        (t, ok, b, m1, s1) \<Rightarrow> if \<not> ok then (t, Some b, m1, s1) else (t, Some (listener (add b)), m1, s1))"

definition OnContinuousTaskCancel where
  "OnContinuousTaskCancel eq listener e remote impl f =
     ani_on (AddCancelObserverObject eq ''continuousTaskCancel'' f) listener e remote impl CONTINUOUS_TASK_CANCEL"

definition OnContinuousTaskSuspend where
  "OnContinuousTaskSuspend eq listener e remote impl f =
     ani_on (AddSuspendObserverObject eq ''continuousTaskSuspend'' f) listener e remote impl CONTINUOUS_TASK_SUSPEND"

definition OnContinuousTaskActive where
  "OnContinuousTaskActive eq listener e remote impl f =
     ani_on (AddActiveObserverObject eq ''continuousTaskActive'' f) listener e remote impl CONTINUOUS_TASK_ACTIVE"

definition ani_off where
  "ani_off remove e remote impl flag sub m s =
     (case sub of
        None \<Rightarrow> (business ERR_BGTASK_INVALID_PARAM, None, m, s)
      | Some b \<Rightarrow> ani_UnSubscribeBackgroundTask e remote impl flag (remove b) m s)"

definition OffContinuousTaskCancel where
  "OffContinuousTaskCancel eq e remote impl f =
     ani_off (case f of None \<Rightarrow> ani_RemoveJsObserverObjects ''continuousTaskCancel''
                      | Some g \<Rightarrow> RemoveCancelObserverObject eq ''continuousTaskCancel'' g) e remote impl CONTINUOUS_TASK_CANCEL"

definition OffContinuousTaskSuspend where
  "OffContinuousTaskSuspend eq e remote impl f =
     ani_off (case f of None \<Rightarrow> ani_RemoveJsObserverObjects ''continuousTaskSuspend''
                      | Some g \<Rightarrow> RemoveSuspendObserverObject eq ''continuousTaskSuspend'' g) e remote impl CONTINUOUS_TASK_SUSPEND"

definition OffContinuousTaskActive where
  "OffContinuousTaskActive eq e remote impl f =
     ani_off (case f of None \<Rightarrow> ani_RemoveJsObserverObjects ''continuousTaskActive''
                      | Some g \<Rightarrow> RemoveActiveObserverObject eq ''continuousTaskActive'' g) e remote impl CONTINUOUS_TASK_ACTIVE"

end
