(* ===== verification/EtsProps.thy ===== *)
theory EtsProps
  imports EtsSubscriber NapiProps
begin

text \<open>
  The bindings for ArkTS against those for JavaScript: both check the modes of a request alike, except
  for a shared notification; a start from ArkTS is a start at the manager. Where they differ, ArkTS is
  at a loss: its functions for the expiry of a transient task are never called, and its subscriptions
  are not taken back entirely.
\<close>

section \<open>Modes of a request\<close>

lemma same_submode_check: "snd (check_submodes modes submodes) = ets_check_submodes modes submodes"
  by (induction modes submodes rule: check_submodes.induct) (auto simp: sa_error_def passed_def)

lemma snd_and_then: "snd (and_then c f) = next_check (snd c) (\<lambda>x. snd (f x))"
  by (cases c; cases "snd c") (auto simp: and_then_def next_check_def split_beta)

text \<open>The two bindings give the same code for a request that does not share a notification.\<close>

lemma same_mode_check:
  assumes "\<not> rq_combinedTaskNotification q"
    and "rq_backgroundTaskModes q = ti_taskModes r" and "rq_backgroundTaskSubmodes q = ti_taskSubmodes r"
  shows "snd (StartBackgroundRunningCheckModes q) = map_sum id (\<lambda>_. q) (CheckModeAndSubMode r)"
proof -
  have "next_check c (\<lambda>_. Inr q) = map_sum id (\<lambda>_. q) c" for c :: "ErrCode + unit"
    by (cases c) (simp_all add: next_check_def)
  then show ?thesis
    using assms
    by (auto simp: StartBackgroundRunningCheckModes_def CheckSpecialModeParma_def CheckModeAndSubMode_def CheckModesInner_def
        snd_and_then same_submode_check sa_error_def passed_def next_check_def Let_def)
qed

section \<open>Starting a task\<close>

lemma ets_request_exists:
  assumes "CheckModeAndSubMode r = Inr ()"
  shows "\<exists>mode modes. ets_TaskModeTypeConversion r = Some (mode, modes)"
proof -
  have "ti_taskModes r \<noteq> []" "length (ti_taskModes r) = length (ti_taskSubmodes r)"
    using assms by (auto simp: CheckModeAndSubMode_def CheckModesInner_def Let_def split: if_splits)
  then obtain ms where "converted (ti_taskModes r) 0 (ti_taskSubmodes r) = Some ms" "ms \<noteq> []"
    using converted_length [of 0 "ti_taskSubmodes r" "ti_taskModes r"] by fastforce
  then show ?thesis by (cases ms) (simp_all add: ets_TaskModeTypeConversion_def)
qed

text \<open>The calls with a request object return, whatever the request holds.\<close>

lemma ets_request_calls_return:
  "StartBackgroundRunningSync3 A e remote context r m s \<noteq> None"
  "UpdateBackgroundRunningSync2 A e remote context r m s \<noteq> None"
proof -
  have "ets_request_param c name r \<noteq> None" if "ets_CheckRequestParams A context r = Inr x" for c name x
  proof -
    have "CheckModeAndSubMode r = Inr ()"
      using that by (auto simp: ets_CheckRequestParams_def next_check_def split: sum.splits)
    then show ?thesis using ets_request_exists [of r] by (auto simp: ets_request_param_def)
  qed
  then show "StartBackgroundRunningSync3 A e remote context r m s \<noteq> None"
    and "UpdateBackgroundRunningSync2 A e remote context r m s \<noteq> None"
    by (auto simp: StartBackgroundRunningSync3_def UpdateBackgroundRunningSync2_def simp del: not_None_eq split: sum.split)
qed

text \<open>
  A start from ArkTS with a list of modes. If an error is set the tasks of the service are as before;
  otherwise there is exactly one more task, active, of the calling uid, for the ability of the context,
  and the notification that is returned, if the runtime knows its types, has the ids of that task.
\<close>

lemma ets_start_reaches_manager:
  assumes "delivers se remote" and "StartBackgroundRunningSync2 A e remote context bgModes wantAgent m s = (errors, n, m', s')"
    and "ce_saveTask (se_continuous se) = ERR_OK"
    and "0 \<le> cm_continuousTaskIdIndex (sv_continuous s)" and "cm_continuousTaskIdIndex (sv_continuous s) < INT_MAX"
  shows "(errors \<noteq> [] \<longrightarrow> n = None \<and>
       cm_continuousTaskInfosMap (sv_continuous s') = cm_continuousTaskInfosMap (sv_continuous s)) \<and>
    (errors = [] \<longrightarrow> (\<exists>r t c name i. cm_continuousTaskInfosMap (sv_continuous s') = t @ [(task_key r, r)] \<and>
       map fst t = map fst (cm_continuousTaskInfosMap (sv_continuous s)) \<and>
       ets_GetAbilityContext A context = Some c \<and> ac_abilityInfo c = Some (name, i) \<and>
       ct_uid r = se_callingUid se \<and> ct_abilityName r = name \<and> ct_abilityId r = ac_abilityRecordId c \<and>
       n = (if an_slotType A \<and> an_contentType A then Some (ct_notificationId r, ct_continuousTaskId r) else None)))"
proof -
  let ?check = "next_check (ets_CheckParam A context) (\<lambda>c. next_check (ets_GetWantAgent A wantAgent) (\<lambda>w.
    next_check (ets_GetModes bgModes) (\<lambda>modes. next_check (ets_CheckBackgroundMode True 0 modes) (\<lambda>_. Inr (c, w, modes)))))"
  show ?thesis
  proof (cases ?check)
    case (Inl code)
    then show ?thesis using assms(2) by (auto simp: StartBackgroundRunningSync2_def business_def)
  next
    case (Inr x)
    obtain c name i w modes where x: "x = ((c, name, i), w, modes)" by (metis surj_pair)
    have "ets_CheckParam A context = Inr (c, name, i)"
      using Inr by (auto simp: x next_check_def split: sum.splits)
    then have ctx: "ets_GetAbilityContext A context = Some c" "ac_abilityInfo c = Some (name, i)"
      by (auto simp: ets_CheckParam_def split: option.splits if_splits)
    define p where "p = (task_param w name (ac_abilityRecordId c) True 0 modes)\<lparr>cp_appIndex := i\<rparr>"
    obtain code nid tid m1 s1 where start: "cl_RequestStartBackgroundRunning e remote p (-1, -1) m s = (code, (nid, tid), m1, s1)"
      by (metis surj_pair)
    have p: "cp_abilityName p = name" "cp_abilityId p = ac_abilityRecordId c" by (simp_all add: p_def task_param_def)
    note out = client_start_reaches_manager [OF assms(1) start assms(3-5), unfolded p]
    have end_state: "ets_notified A (code, (nid, tid), m1, s1) = (errors, n, m', s')"
      using assms(2) Inr start by (simp add: StartBackgroundRunningSync2_def x p_def)
    show ?thesis
    proof (cases "code = ERR_OK")
      case False
      then show ?thesis using out end_state by (auto simp: ets_notified_def business_def)
    next
      case True
      have e: "errors = []" "s' = s1" "n = (if an_slotType A \<and> an_contentType A then Some (nid, tid) else None)"
        using True end_state by (auto simp: ets_notified_def split: if_splits)
      obtain r t where "cm_continuousTaskInfosMap (sv_continuous s1) = t @ [(task_key r, r)]"
        "map fst t = map fst (cm_continuousTaskInfosMap (sv_continuous s))" "ct_uid r = se_callingUid se"
        "ct_abilityName r = name" "ct_abilityId r = ac_abilityRecordId c" "(nid, tid) = (ct_notificationId r, ct_continuousTaskId r)"
        using out True by auto
      then show ?thesis using e ctx by (auto intro!: exI [of _ r] exI [of _ t])
    qed
  qed
qed

section \<open>Callbacks that are not called\<close>

inductive ets_reach :: "'o ani \<Rightarrow> ets_state \<Rightarrow> bool" for A where
  ers_new: "ets_reach A new_ets_state"
| ers_request: "ets_reach A k \<Longrightarrow>
    ets_RequestSuspendDelay e remote cb k m (s :: BackgroundTaskMgrService) = (errors, d, k', m', s') \<Longrightarrow> ets_reach A k'"
| ers_cancel: "ets_reach A k \<Longrightarrow>
    ets_CancelSuspendDelay e remote i k m (s :: BackgroundTaskMgrService) = (errors, k', m', s') \<Longrightarrow> ets_reach A k'"
| ers_auth: "ets_reach A k \<Longrightarrow>
    requestAuthFromUser A e remote context r cb k m (s :: BackgroundTaskMgrService) = (errors, k', m', s') \<Longrightarrow> ets_reach A k'"
| ers_dialog: "ets_reach A k \<Longrightarrow>
    requestAuthFromUserByDialog A e remote context r cb dialog k m (s :: BackgroundTaskMgrService) = (errors, k', m', s') \<Longrightarrow>
    ets_reach A k'"
| ers_expired: "ets_reach A k \<Longrightarrow> ets_reach A (snd (ets_OnExpired cb k))"
| ers_answer: "ets_reach A k \<Longrightarrow> ets_reach A (snd (ets_OnExpiredAuth cb authResult k))"

definition own_maps_empty :: "ets_state \<Rightarrow> bool" where
  "own_maps_empty k \<longleftrightarrow> (\<forall>(c, ob) \<in> set (et_objects k). ec_callbackInstances ob = []) \<and> (\<forall>c. (c, None) \<notin> set (et_called k))"

lemma own_maps_keep:
  "own_maps_empty k \<Longrightarrow> ec_callbackInstances ob = [] \<Longrightarrow> own_maps_empty (ets_keep i cb ob k)"
  by (auto simp: own_maps_empty_def ets_keep_def ets_release_def)

lemma ets_reach_own_maps: "ets_reach A k \<Longrightarrow> own_maps_empty k"
proof (induction rule: ets_reach.induct)
  case ers_new
  then show ?case by (simp add: own_maps_empty_def new_ets_state_def)
next
  case (ers_request k e remote cb m s errors d k' m' s')
  then show ?case
    by (auto simp: ets_RequestSuspendDelay_def new_ets_Callback_def intro!: own_maps_keep split: prod.splits option.splits)
next
  case (ers_cancel k e remote i m s errors k' m' s')
  then show ?case
    by (auto simp: ets_CancelSuspendDelay_def own_maps_empty_def ets_release_def split: prod.splits)
next
  case (ers_auth k e remote c r cb m s errors k' m' s')
  then show ?case
    by (auto simp: requestAuthFromUser_def new_ets_Callback_def intro!: own_maps_keep split: sum.splits prod.splits if_splits)
next
  case (ers_dialog k e remote c r cb dialog m s errors k' m' s')
  then show ?case
    by (auto simp: requestAuthFromUserByDialog_def new_ets_Callback_def Let_def intro!: own_maps_keep
        split: sum.splits prod.splits if_splits)
next
  case (ers_expired k cb)
  have "ec_callbackInstances ob = []" if "map_of (et_objects k) cb = Some ob" for ob
    using ers_expired.IH map_of_SomeD [OF that] by (auto simp: own_maps_empty_def)
  then show ?case using ers_expired.IH by (auto simp: ets_OnExpired_def split: option.split)
next
  case (ers_answer k cb authResult)
  then show ?case by (auto simp: ets_OnExpiredAuth_def own_maps_empty_def split: option.split)
qed

text \<open>The expiry of a transient task, which the service announces, calls no function of ArkTS.\<close>

lemma ets_expiry_calls_nothing:
  assumes "ets_reach A k"
  shows "snd (ets_OnExpired cb k) = k \<and> (cb, None) \<notin> set (et_called k)"
proof -
  have "ec_callbackInstances ob = []" if "map_of (et_objects k) cb = Some ob" for ob
    using ets_reach_own_maps [OF assms] map_of_SomeD [OF that] by (auto simp: own_maps_empty_def)
  then show ?thesis
    using ets_reach_own_maps [OF assms] by (auto simp: ets_OnExpired_def own_maps_empty_def split: option.split)
qed

text \<open>The callback of the Cangjie bindings, which look into the map of the file, is called once.\<close>

lemma cj_expiry_calls_once:
  assumes "CJ_RequestSuspendDelay e remote cb ret k m s = (ERR_OK, d, k', m', s')" and "request_of cb k = None"
    and "om_wf (kb_callbackInstances k)" and "\<exists>d'. delay_of (fst (snd (cl_RequestSuspendDelay e remote (Some cb) m s))) = Some d'"
  shows "kb_called (CallbackFFI_OnExpired cb k') = kb_called k @ [(cb, JUndefined)]"
proof -
  have found: "find (\<lambda>(_, c, _). c = cb) (om_put i (cb, True) t) = Some (i, cb, True)"
    if "find (\<lambda>(_, c, _). c = cb) t = None" for i and t :: "(int \<times> nat \<times> bool) list"
    using that by (induction t) (auto split: if_splits prod.splits)
  have "k' = k\<lparr>kb_callbackInstances := om_put (ds_requestId d) (cb, True) (kb_callbackInstances k)\<rparr>"
    using assms(1,4) by (auto simp: CJ_RequestSuspendDelay_def split: prod.splits if_splits)
  then show ?thesis
    using assms(2) found by (simp add: CallbackFFI_OnExpired_def request_of_def erase_callback_def)
qed

section \<open>Subscriptions that stay\<close>

text \<open>
  The last \<^verbatim>\<open>off\<close> tells the service the flag of its type only; an application whose subscription has another
  flag stays a subscriber.
\<close>

lemma ani_off_last_flag_only:
  assumes "ani_IsEmpty (remove b)"
  shows "snd (snd (ani_off remove e remote impl flag (Some b) m s)) =
    snd (snd (cl_UnsubscribeBackgroundTask e remote (Some impl) flag m s))"
  using assms by (simp add: ani_off_def ani_UnSubscribeBackgroundTask_def ani_SetFlag_def Let_def split: prod.split)

lemma partly_unsubscribed_stays:
  assumes "find (\<lambda>t. si_subscriber t = r) (cm_bgTaskSubscribers m) = Some old" and "si_isHap old"
    and "and (si_flag old) (not flag) \<noteq> 0"
  shows "r \<in> si_subscriber ` set (cm_bgTaskSubscribers (snd (RemoveSubscriber (Some (Some r)) flag m)))"
proof -
  have "old \<in> set (cm_bgTaskSubscribers m)" "si_subscriber old = r"
    using assms(1) by (auto simp: find_Some_iff)
  moreover have "cm_bgTaskSubscribers (snd (RemoveSubscriber (Some (Some r)) flag m)) =
      map (\<lambda>t. if si_subscriber t = r then t\<lparr>si_flag := and (si_flag old) (not flag)\<rparr> else t) (cm_bgTaskSubscribers m)"
    using assms by (simp add: RemoveSubscriber_def RemoveSubscriberInner_def Let_def)
  ultimately have "old\<lparr>si_flag := and (si_flag old) (not flag)\<rparr> \<in> set (cm_bgTaskSubscribers (snd (RemoveSubscriber (Some (Some r)) flag m)))"
    by auto
  from imageI [OF this, of si_subscriber] show ?thesis using \<open>si_subscriber old = r\<close> by simp
qed

end
