(* ===== verification/DataStorage.thy ===== *)
theory DataStorage
  imports BannerNotificationRecord ResourceRecord
begin

text \<open>
  The record files of the service (\<^verbatim>\<open>services/common/src/data_storage_helper.cpp\<close>): the files of running tasks,
  of efficiency resources and of authorizations, their backup and restoration on another device, and
  the configuration file that sets the time for requests. The file system is a map from real paths to
  contents. What the system answers is the record \<open>fs_env\<close>, and so is the JSON library: \<open>fv_parse\<close> and
  \<open>fv_dump\<close> are its text functions. Reports of the sizes of files to the event log are left out.
\<close>

section \<open>The file system\<close>

type_synonym file_system = "string \<rightharpoonup> string"

text \<open>
  \<open>fv_resolve\<close> follows links and dots of a path whose directory exists; \<open>fv_room\<close> is the number of characters
  that can be written before the disk is full; \<open>fv_read\<close> is what \<^verbatim>\<open>read\<close> returns for a size; \<open>fv_writeFd\<close> is
  whether a descriptor for a file, if there is one, can be put into a parcel.
\<close>

record fs_env =
  fv_resolve :: "string \<Rightarrow> string option"
  fv_create :: "string \<Rightarrow> bool"
  fv_open :: "string \<Rightarrow> bool"
  fv_close :: "string \<Rightarrow> bool"
  fv_load :: "string \<Rightarrow> bool"
  fv_room :: nat
  fv_read :: "nat \<Rightarrow> int"
  fv_writeFd :: "string option \<Rightarrow> bool"
  fv_writeString :: "string \<Rightarrow> bool"
  fv_cfgFile :: "string \<Rightarrow> string option"
  fv_parse :: "string \<Rightarrow> json option"
  fv_dump :: "json \<Rightarrow> string"
  fv_dumpLine :: "json \<Rightarrow> string"
  fv_errInvalidOperation :: ErrCode

abbreviation (input) PATH_MAX :: nat where "PATH_MAX \<equiv> 4096"

definition realpath :: "fs_env \<Rightarrow> file_system \<Rightarrow> string \<Rightarrow> string option" where
  "realpath e F path = (case fv_resolve e path of None \<Rightarrow> None | Some q \<Rightarrow> if F q = None then None else Some q)"

definition ConvertFullPath :: "fs_env \<Rightarrow> file_system \<Rightarrow> string \<Rightarrow> string option" where
  "ConvertFullPath e F partialPath =
     (if partialPath = '''' \<or> length partialPath \<ge> PATH_MAX then None else realpath e F partialPath)"

definition GetConfigFileAbsolutePath :: "fs_env \<Rightarrow> file_system \<Rightarrow> string \<Rightarrow> string" where
  "GetConfigFileAbsolutePath e F relativePath =
     (if relativePath = '''' then ''''
      else case fv_cfgFile e relativePath of
             None \<Rightarrow> ''''
           | Some tmpPath \<Rightarrow> if length tmpPath > PATH_MAX then '''' else case_option '''' id (realpath e F tmpPath))"

text \<open>
  A text is written as a C string, up to its first null character, and a line end. The file is emptied
  when it is opened; that the disk is full is not noticed.
\<close>

definition c_text :: "string \<Rightarrow> string" where
  "c_text s = takeWhile (\<lambda>c. c \<noteq> CHR 0x00) s"

definition SaveJsonValueToFile :: "fs_env \<Rightarrow> string \<Rightarrow> string \<Rightarrow> file_system \<Rightarrow> ErrCode \<times> file_system" where
  "SaveJsonValueToFile e value filePath F =
     (case ConvertFullPath e F filePath of
        None \<Rightarrow> (ERR_BGTASK_GET_ACTUAL_FILE_ERR, F)
      | Some q \<Rightarrow>
          if \<not> fv_open e q then (ERR_BGTASK_OPEN_FILE_ERR, F)
          else (ERR_OK, F(q \<mapsto> take (fv_room e) (c_text value @ [CHR 0x0A]))))"

text \<open>A file that cannot be loaded is read as the empty text.\<close>

definition ParseJsonValueFromFile :: "fs_env \<Rightarrow> string \<Rightarrow> file_system \<Rightarrow> ErrCode + json" where
  "ParseJsonValueFromFile e filePath F =
     (case ConvertFullPath e F filePath of
        None \<Rightarrow> Inl ERR_BGTASK_DATA_STORAGE_ERR
      | Some q \<Rightarrow>
          (case fv_parse e (if fv_load e q then case_option '''' id (F q) else '''') of
             None \<Rightarrow> Inl ERR_BGTASK_DATA_STORAGE_ERR
           | Some j \<Rightarrow> Inr j))"

text \<open>The common beginning of the functions that write a file: it is made if it does not exist.\<close>

definition ensure_file :: "fs_env \<Rightarrow> string \<Rightarrow> file_system \<Rightarrow> ErrCode \<times> file_system" where
  "ensure_file e path F =
     (if realpath e F path \<noteq> None then (ERR_OK, F)
      else case fv_resolve e path of
             None \<Rightarrow> (ERR_BGTASK_CREATE_FILE_ERR, F)
           | Some q \<Rightarrow>
               if \<not> fv_create e q then (ERR_BGTASK_CREATE_FILE_ERR, F)
               else (if fv_close e q then ERR_OK else ERR_BGTASK_CREATE_FILE_ERR, F(q \<mapsto> '''')))"

definition write_file :: "fs_env \<Rightarrow> string \<Rightarrow> string \<Rightarrow> file_system \<Rightarrow> ErrCode \<times> file_system" where
  "write_file e path value F =
     (case ensure_file e path F of (ret, F1) \<Rightarrow> if ret \<noteq> ERR_OK then (ret, F1) else SaveJsonValueToFile e value path F1)"

section \<open>Record files\<close>

definition TASK_RECORD_FILE_PATH :: string where
  "TASK_RECORD_FILE_PATH = ''/data/service/el1/public/background_task_mgr/running_task''"

definition RESOURCE_RECORD_FILE_PATH :: string where
  "RESOURCE_RECORD_FILE_PATH = ''/data/service/el1/public/background_task_mgr/resource_record''"

definition AUTH_RECORD_FILE_PATH :: string where
  "AUTH_RECORD_FILE_PATH = ''/data/service/el1/public/background_task_mgr/auth_record''"

text \<open>Each record is printed and parsed again before it is entered.\<close>

definition print_records :: "fs_env \<Rightarrow> (string \<times> json) list \<Rightarrow> json" where
  "print_records e records =
     foldl (\<lambda>root (k, j). case fv_parse e (fv_dump e j) of None \<Rightarrow> root | Some j' \<Rightarrow> json_put k j' root) JNull records"

definition dsh_RefreshTaskRecord :: "fs_env \<Rightarrow> task_table \<Rightarrow> file_system \<Rightarrow> ErrCode \<times> file_system" where
  "dsh_RefreshTaskRecord e allRecord =
     write_file e TASK_RECORD_FILE_PATH (fv_dump e (print_records e (map (\<lambda>(k, r). (k, ct_ParseToJson r)) allRecord)))"

definition dsh_RestoreTaskRecord ::
    "fs_env \<Rightarrow> (string \<Rightarrow> string list) \<Rightarrow> task_table \<Rightarrow> file_system \<Rightarrow> ErrCode \<times> task_table" where
  "dsh_RestoreTaskRecord e split allRecord F =
     (case ParseJsonValueFromFile e TASK_RECORD_FILE_PATH F of
        Inl _ \<Rightarrow> (ERR_BGTASK_DATA_STORAGE_ERR, allRecord)
      | Inr root \<Rightarrow> (ERR_OK, restore_tasks split (json_items root) allRecord))"

definition dsh_RefreshAuthRecord :: "fs_env \<Rightarrow> auth_table \<Rightarrow> file_system \<Rightarrow> ErrCode \<times> file_system" where
  "dsh_RefreshAuthRecord e authRecord =
     write_file e AUTH_RECORD_FILE_PATH (fv_dump e (print_records e (map (\<lambda>(k, r). (k, bn_ParseToJson r)) authRecord)))"

text \<open>The table is written back; whether that succeeds is not looked at.\<close>

definition dsh_RestoreAuthRecord :: "fs_env \<Rightarrow> auth_table \<Rightarrow> file_system \<Rightarrow> ErrCode \<times> auth_table \<times> file_system" where
  "dsh_RestoreAuthRecord e authRecord F =
     (case ParseJsonValueFromFile e AUTH_RECORD_FILE_PATH F of
        Inl _ \<Rightarrow> (ERR_BGTASK_DATA_STORAGE_ERR, authRecord, F)
      | Inr root \<Rightarrow>
          if is_null root \<or> \<not> is_object root then (ERR_BGTASK_DATA_STORAGE_ERR, authRecord, F)
          else let t = restore_auth (json_items root) authRecord in (ERR_OK, t, snd (dsh_RefreshAuthRecord e t F)))"

definition ConvertMapToString :: "fs_env \<Rightarrow> ResourceRecordMap \<Rightarrow> ResourceRecordMap \<Rightarrow> string" where
  "ConvertMapToString e appRecord processRecord =
     fv_dump e (json_put ''processResourceRecord'' (ConvertMapToJson processRecord)
       (json_put ''appResourceRecord'' (ConvertMapToJson appRecord) JNull))"

definition dsh_RefreshResourceRecord ::
    "fs_env \<Rightarrow> ResourceRecordMap \<Rightarrow> ResourceRecordMap \<Rightarrow> file_system \<Rightarrow> ErrCode \<times> file_system" where
  "dsh_RefreshResourceRecord e appRecord processRecord =
     write_file e RESOURCE_RECORD_FILE_PATH (ConvertMapToString e appRecord processRecord)"

definition dsh_RestoreResourceRecord ::
    "fs_env \<Rightarrow> ResourceRecordMap \<Rightarrow> ResourceRecordMap \<Rightarrow> file_system \<Rightarrow> ErrCode \<times> ResourceRecordMap \<times> ResourceRecordMap" where
  "dsh_RestoreResourceRecord e appRecord processRecord F =
     (case ParseJsonValueFromFile e RESOURCE_RECORD_FILE_PATH F of
        Inl _ \<Rightarrow> (ERR_BGTASK_DATA_STORAGE_ERR, appRecord, processRecord)
      | Inr root \<Rightarrow> (ERR_OK, DivideJsonToMap root appRecord processRecord))"

section \<open>Backup and restoration\<close>

abbreviation (input) EXTENSION_SUCCESS_CODE :: int where "EXTENSION_SUCCESS_CODE \<equiv> 0"
abbreviation (input) EXTENSION_ERROR_CODE :: int where "EXTENSION_ERROR_CODE \<equiv> 13500099"
abbreviation (input) MAX_AUTH_RECORD_SIZE :: int where "MAX_AUTH_RECORD_SIZE \<equiv> 400000"

definition SetReplyCode :: "fs_env \<Rightarrow> int \<Rightarrow> string" where
  "SetReplyCode e replyCode =
     fv_dumpLine e (JObject [(''resultInfo'', JArray [JObject
       [(''errorCode'', JString (to_string replyCode)), (''errorInfo'', JString ''''), (''type'', JString ''AuthRecord'')]])])"

text \<open>The reply holds the contents behind the descriptor, if it is valid, and the code.\<close>

type_synonym backup_reply = "string option \<times> string"

definition dsh_OnBackup :: "fs_env \<Rightarrow> file_system \<Rightarrow> ErrCode \<times> backup_reply option" where
  "dsh_OnBackup e F =
     (let opened = (case realpath e F AUTH_RECORD_FILE_PATH of None \<Rightarrow> None | Some q \<Rightarrow> if fv_open e q then Some q else None);
          replyCode = SetReplyCode e (if opened = None then EXTENSION_ERROR_CODE else EXTENSION_SUCCESS_CODE);
          fd = Option.bind opened F
      in if \<not> fv_writeFd e fd \<or> \<not> fv_writeString e replyCode then (fv_errInvalidOperation e, None)
         else case opened of
                None \<Rightarrow> (fv_errInvalidOperation e, Some (fd, replyCode))
              | Some q \<Rightarrow> (if fv_close e q then ERR_OK else fv_errInvalidOperation e, Some (fd, replyCode)))"

text \<open>
  The size of the received file is narrowed to 32 bits before it is compared with the limit, but the
  buffer is given the size itself.
\<close>

definition auth_buffer :: "string option \<Rightarrow> nat option" where
  "auth_buffer fd =
     (case fd of
        None \<Rightarrow> None
      | Some content \<Rightarrow> if i32 (int (length content)) > MAX_AUTH_RECORD_SIZE then None else Some (length content))"

definition GetAuthRecord :: "fs_env \<Rightarrow> string option \<Rightarrow> file_system \<Rightarrow> bool \<times> file_system" where
  "GetAuthRecord e fd F =
     (case auth_buffer fd of
        None \<Rightarrow> (False, F)
      | Some n \<Rightarrow>
          if fv_read e n \<noteq> int n then (False, F)
          else case realpath e F AUTH_RECORD_FILE_PATH of
                 None \<Rightarrow> (False, F)
               | Some q \<Rightarrow>
                   if \<not> fv_open e q then (False, F)
                   else let content = case_option '''' id fd; F1 = F(q \<mapsto> take (fv_room e) content)
                        in if fv_room e < length content then (False, F1) else (fv_close e q, F1))"

definition dsh_OnRestore ::
    "fs_env \<Rightarrow> string option \<Rightarrow> auth_table \<Rightarrow> file_system \<Rightarrow> ErrCode \<times> string \<times> auth_table \<times> file_system" where
  "dsh_OnRestore e fd allRecord F =
     (case GetAuthRecord e fd F of
        (getAuthRet, F1) \<Rightarrow>
          let replyCode = SetReplyCode e (if getAuthRet then EXTENSION_SUCCESS_CODE else EXTENSION_ERROR_CODE)
          in if \<not> fv_writeString e replyCode \<or> \<not> getAuthRet then (fv_errInvalidOperation e, replyCode, allRecord, F1)
             else case dsh_RestoreAuthRecord e allRecord F1 of (ret, t, F2) \<Rightarrow> (ret, replyCode, t, F2))"

section \<open>The time for requests in the background\<close>

definition ParseFastSuspendDozeTime :: "fs_env \<Rightarrow> string \<Rightarrow> file_system \<Rightarrow> int option" where
  "ParseFastSuspendDozeTime e FilePath F =
     (case ParseJsonValueFromFile e (GetConfigFileAbsolutePath e F FilePath) F of
        Inl _ \<Rightarrow> None
      | Inr jsonObj \<Rightarrow>
          if is_null jsonObj \<or> \<not> is_object jsonObj \<or> \<not> CheckJsonValue jsonObj [''param''] then None
          else let param = json_at jsonObj ''param'' in
            if is_null param \<or> \<not> is_object param \<or> \<not> CheckJsonValue param [''fast_frozen''] then None
            else let fastFrozen = json_at param ''fast_frozen'' in
              if is_null fastFrozen \<or> \<not> is_object fastFrozen \<or> \<not> CheckJsonValue fastFrozen [''enable'', ''doze_time''] then None
              else if \<not> is_boolean (json_at fastFrozen ''enable'') \<or> \<not> bool_at fastFrozen ''enable'' then None
              else if \<not> is_number_integer (json_at fastFrozen ''doze_time'') then None
              else Some (i32 (int_at fastFrozen ''doze_time'')))"

end
