(* ===== verification/StorageProps.thy ===== *)
theory StorageProps
  imports DataStorage ContinuousProps "HOL-Library.Countable"
begin

text \<open>
  The record files against the documents that the managers keep in their models. The interface is the
  locale \<open>document_store\<close>: a refresh that reports success leaves its document in the file, one that fails
  leaves what was there. The three files are its interpretations; what follows from any sequence of
  refreshes is proved once.
\<close>

section \<open>Stores of documents\<close>

text \<open>A sequence of refreshes, each in its own environment, and the last table that was reported as written.\<close>

fun run_writes :: "('e \<Rightarrow> 't \<Rightarrow> 'fs \<Rightarrow> ErrCode \<times> 'fs) \<Rightarrow> ('e \<times> 't) list \<Rightarrow> 'fs \<Rightarrow> 'fs" where
  "run_writes put [] F = F"
| "run_writes put ((e, t) # ws) F = run_writes put ws (snd (put e t F))"

fun last_saved :: "('e \<Rightarrow> 't \<Rightarrow> 'fs \<Rightarrow> ErrCode \<times> 'fs) \<Rightarrow> ('e \<times> 't) list \<Rightarrow> 'fs \<Rightarrow> 't option \<Rightarrow> 't option" where
  "last_saved put [] F t0 = t0"
| "last_saved put ((e, t) # ws) F t0 =
     last_saved put ws (snd (put e t F)) (if fst (put e t F) = ERR_OK then Some t else t0)"

lemma last_saved_Some: "last_saved put ws F (Some t) \<noteq> None"
  by (induction ws arbitrary: F t) auto

locale document_store =
  fixes put :: "'e \<Rightarrow> 't \<Rightarrow> 'fs \<Rightarrow> ErrCode \<times> 'fs"
    and doc :: "'t \<Rightarrow> json"
    and stored :: "'r \<Rightarrow> 'fs \<Rightarrow> json option"
    and works :: "'r \<Rightarrow> 'e \<Rightarrow> 't \<Rightarrow> bool"
  assumes written: "works r e t \<Longrightarrow> fst (put e t F) = ERR_OK \<Longrightarrow> stored r (snd (put e t F)) = Some (doc t)"
    and failed: "works r e t \<Longrightarrow> fst (put e t F) \<noteq> ERR_OK \<Longrightarrow> stored r (snd (put e t F)) = stored r F"
begin

lemma stored_after:
  assumes "\<And>e t. (e, t) \<in> set ws \<Longrightarrow> works r e t"
    and "stored r F = map_option doc t0 \<or> t0 = None"
  shows "stored r (run_writes put ws F) =
    (case last_saved put ws F t0 of Some t \<Rightarrow> Some (doc t) | None \<Rightarrow> stored r F)"
  using assms
proof (induction ws arbitrary: F t0)
  case (Cons w ws)
  obtain e t where w: "w = (e, t)" by fastforce
  have ok: "works r e t" using Cons.prems(1) w by simp
  let ?F = "snd (put e t F)"
  show ?case
  proof (cases "fst (put e t F) = ERR_OK")
    case True
    then have "stored r (run_writes put ws ?F) = (case last_saved put ws ?F (Some t) of Some t \<Rightarrow> Some (doc t) | None \<Rightarrow> stored r ?F)"
      using Cons.prems(1) written [OF ok] by (intro Cons.IH) auto
    moreover have "last_saved put ws ?F (Some t) \<noteq> None" by (rule last_saved_Some)
    ultimately show ?thesis using True by (auto simp: w split: option.split)
  next
    case False
    then have "stored r (run_writes put ws ?F) = (case last_saved put ws ?F t0 of Some t \<Rightarrow> Some (doc t) | None \<Rightarrow> stored r ?F)"
      using Cons.prems failed [OF ok] by (intro Cons.IH) auto
    then show ?thesis using False failed [OF ok False] by (simp add: w split: option.split)
  qed
qed (auto split: option.split)

end

section \<open>The files\<close>

text \<open>
  What the JSON library documents: what it prints it parses as the same value, also with a line end, it
  escapes null characters, and the empty text is no document.
\<close>

definition json_text :: "fs_env \<Rightarrow> bool" where
  "json_text e \<longleftrightarrow> (\<forall>j. fv_parse e (fv_dump e j) = Some j \<and> fv_parse e (fv_dump e j @ [CHR 0x0A]) = Some j \<and>
     CHR 0x00 \<notin> set (fv_dump e j)) \<and> fv_parse e '''' = None"

definition same_library :: "fs_env \<Rightarrow> fs_env \<Rightarrow> bool" where
  "same_library r e \<longleftrightarrow> fv_resolve e = fv_resolve r \<and> fv_parse e = fv_parse r \<and> fv_dump e = fv_dump r"

text \<open>The document in a file, read in environment \<open>r\<close>.\<close>

definition document :: "string \<Rightarrow> fs_env \<Rightarrow> file_system \<Rightarrow> json option" where
  "document path r F = (case ParseJsonValueFromFile r path F of Inl _ \<Rightarrow> None | Inr j \<Rightarrow> Some j)"

text \<open>Refreshes are made with the same library on a disk with room for the document.\<close>

definition writes :: "('t \<Rightarrow> json) \<Rightarrow> fs_env \<Rightarrow> fs_env \<Rightarrow> 't \<Rightarrow> bool" where
  "writes doc r e t \<longleftrightarrow> json_text r \<and> same_library r e \<and> (\<forall>q. fv_load r q) \<and> length (fv_dump e (doc t)) < fv_room e"

lemma c_text_dump: "json_text e \<Longrightarrow> c_text (fv_dump e j) = fv_dump e j"
  by (auto simp: json_text_def c_text_def takeWhile_eq_all_conv)

text \<open>A document is what the contents of the real path parse to; writing changes only the real path.\<close>

lemma document_eq:
  assumes "path \<noteq> ''''" and "length path < PATH_MAX"
  shows "document path r F =
    Option.bind (fv_resolve r path) (\<lambda>q. Option.bind (F q) (\<lambda>c. fv_parse r (if fv_load r q then c else '''')))"
  using assms
  by (cases "fv_resolve r path"; cases "F (the (fv_resolve r path))")
    (simp_all add: document_def ParseJsonValueFromFile_def ConvertFullPath_def realpath_def split: option.split)

lemma write_file_eq:
  assumes "path \<noteq> ''''" and "length path < PATH_MAX"
  shows "write_file e path value F =
    (case fv_resolve e path of
       None \<Rightarrow> (ERR_BGTASK_CREATE_FILE_ERR, F)
     | Some q \<Rightarrow>
         if F q = None \<and> \<not> fv_create e q then (ERR_BGTASK_CREATE_FILE_ERR, F)
         else if F q = None \<and> \<not> fv_close e q then (ERR_BGTASK_CREATE_FILE_ERR, F(q \<mapsto> ''''))
         else if \<not> fv_open e q then (ERR_BGTASK_OPEN_FILE_ERR, if F q = None then F(q \<mapsto> '''') else F)
         else (ERR_OK, F(q \<mapsto> take (fv_room e) (c_text value @ [CHR 0x0A]))))"
  using assms
  by (cases "fv_resolve e path")
    (auto simp: write_file_def ensure_file_def SaveJsonValueToFile_def ConvertFullPath_def realpath_def)

lemma document_write:
  assumes "json_text r" and "same_library r e" and "\<forall>q. fv_load r q" and "length (fv_dump e j) < fv_room e"
    and path: "path \<noteq> ''''" "length path < PATH_MAX"
  shows "fst (write_file e path (fv_dump e j) F) = ERR_OK \<Longrightarrow>
      document path r (snd (write_file e path (fv_dump e j) F)) = Some j"
    and "fst (write_file e path (fv_dump e j) F) \<noteq> ERR_OK \<Longrightarrow>
      document path r (snd (write_file e path (fv_dump e j) F)) = document path r F"
proof -
  have lib: "fv_resolve e = fv_resolve r" "fv_dump e = fv_dump r"
    using assms(2) by (simp_all add: same_library_def)
  have line: "take (fv_room e) (c_text (fv_dump e j) @ [CHR 0x0A]) = fv_dump r j @ [CHR 0x0A]"
    using assms(1,4) lib by (simp add: c_text_dump)
  have parse: "fv_parse r (fv_dump r j @ [CHR 0x0A]) = Some j" "fv_parse r '''' = None"
    using assms(1) by (simp_all add: json_text_def)
  note eqs = write_file_eq [OF path] document_eq [OF path]
  show "fst (write_file e path (fv_dump e j) F) = ERR_OK \<Longrightarrow>
      document path r (snd (write_file e path (fv_dump e j) F)) = Some j"
    using assms(3) parse line by (cases "fv_resolve r path") (auto simp: eqs lib split: if_splits)
  show "fst (write_file e path (fv_dump e j) F) \<noteq> ERR_OK \<Longrightarrow>
      document path r (snd (write_file e path (fv_dump e j) F)) = document path r F"
    using assms(3) parse line by (cases "fv_resolve r path") (auto simp: eqs lib split: if_splits)
qed

lemma document_other:
  assumes "same_library r e" and "fv_resolve r path' \<noteq> fv_resolve r path"
    and path: "path \<noteq> ''''" "length path < PATH_MAX" and path': "path' \<noteq> ''''" "length path' < PATH_MAX"
  shows "document path' r (snd (write_file e path value F)) = document path' r F"
proof -
  have lib: "fv_resolve e = fv_resolve r" using assms(1) by (simp add: same_library_def)
  show ?thesis
  proof (cases "fv_resolve r path")
    case (Some q)
    then have "fv_resolve r path' \<noteq> Some q" using assms(2) by simp
    moreover have "snd (write_file e path value F) q' = F q'" if "q' \<noteq> q" for q'
      using that Some by (simp add: write_file_eq [OF path] lib)
    ultimately show ?thesis
      by (cases "fv_resolve r path'") (simp_all add: document_eq [OF path'])
  qed (simp add: write_file_eq [OF path] lib)
qed

lemma print_records_text: "json_text e \<Longrightarrow> print_records e kvs = put_all kvs JNull"
  by (simp add: print_records_def put_all_def json_text_def)

lemma json_text_same: "json_text r \<Longrightarrow> same_library r e \<Longrightarrow> json_text e"
  by (simp add: json_text_def same_library_def)

lemma paths_fit:
  "TASK_RECORD_FILE_PATH \<noteq> ''''" "length TASK_RECORD_FILE_PATH < PATH_MAX"
  "AUTH_RECORD_FILE_PATH \<noteq> ''''" "length AUTH_RECORD_FILE_PATH < PATH_MAX"
  "RESOURCE_RECORD_FILE_PATH \<noteq> ''''" "length RESOURCE_RECORD_FILE_PATH < PATH_MAX"
  by (simp_all add: TASK_RECORD_FILE_PATH_def AUTH_RECORD_FILE_PATH_def RESOURCE_RECORD_FILE_PATH_def)

interpretation task_file: document_store dsh_RefreshTaskRecord ds_RefreshTaskRecord "document TASK_RECORD_FILE_PATH"
  "writes ds_RefreshTaskRecord"
proof
  fix r e t F
  assume "writes ds_RefreshTaskRecord r e t"
  then have w: "json_text r" "same_library r e" "\<forall>q. fv_load r q" "length (fv_dump e (ds_RefreshTaskRecord t)) < fv_room e"
    by (simp_all add: writes_def)
  have "dsh_RefreshTaskRecord e t F = write_file e TASK_RECORD_FILE_PATH (fv_dump e (ds_RefreshTaskRecord t)) F"
    using json_text_same [OF w(1,2)] by (simp add: dsh_RefreshTaskRecord_def ds_RefreshTaskRecord_def print_records_text)
  then show "fst (dsh_RefreshTaskRecord e t F) = ERR_OK \<Longrightarrow>
      document TASK_RECORD_FILE_PATH r (snd (dsh_RefreshTaskRecord e t F)) = Some (ds_RefreshTaskRecord t)"
    and "fst (dsh_RefreshTaskRecord e t F) \<noteq> ERR_OK \<Longrightarrow>
      document TASK_RECORD_FILE_PATH r (snd (dsh_RefreshTaskRecord e t F)) = document TASK_RECORD_FILE_PATH r F"
    using document_write [OF w paths_fit(1,2)] by simp_all
qed

interpretation auth_file: document_store dsh_RefreshAuthRecord ds_RefreshAuthRecord "document AUTH_RECORD_FILE_PATH"
  "writes ds_RefreshAuthRecord"
proof
  fix r e t F
  assume "writes ds_RefreshAuthRecord r e t"
  then have w: "json_text r" "same_library r e" "\<forall>q. fv_load r q" "length (fv_dump e (ds_RefreshAuthRecord t)) < fv_room e"
    by (simp_all add: writes_def)
  have "dsh_RefreshAuthRecord e t F = write_file e AUTH_RECORD_FILE_PATH (fv_dump e (ds_RefreshAuthRecord t)) F"
    using json_text_same [OF w(1,2)] by (simp add: dsh_RefreshAuthRecord_def ds_RefreshAuthRecord_def print_records_text)
  then show "fst (dsh_RefreshAuthRecord e t F) = ERR_OK \<Longrightarrow>
      document AUTH_RECORD_FILE_PATH r (snd (dsh_RefreshAuthRecord e t F)) = Some (ds_RefreshAuthRecord t)"
    and "fst (dsh_RefreshAuthRecord e t F) \<noteq> ERR_OK \<Longrightarrow>
      document AUTH_RECORD_FILE_PATH r (snd (dsh_RefreshAuthRecord e t F)) = document AUTH_RECORD_FILE_PATH r F"
    using document_write [OF w paths_fit(3,4)] by simp_all
qed

interpretation resource_file: document_store "\<lambda>e (app, proc). dsh_RefreshResourceRecord e app proc"
  "\<lambda>(app, proc). RefreshResourceRecord app proc" "document RESOURCE_RECORD_FILE_PATH"
  "writes (\<lambda>(app, proc). RefreshResourceRecord app proc)"
proof
  fix r e F and t :: "ResourceRecordMap \<times> ResourceRecordMap"
  assume "writes (\<lambda>(app, proc). RefreshResourceRecord app proc) r e t"
  then have w: "json_text r" "same_library r e" "\<forall>q. fv_load r q"
      "length (fv_dump e ((\<lambda>(app, proc). RefreshResourceRecord app proc) t)) < fv_room e"
    by (simp_all add: writes_def)
  have "(case t of (app, proc) \<Rightarrow> dsh_RefreshResourceRecord e app proc) F =
      write_file e RESOURCE_RECORD_FILE_PATH (fv_dump e ((\<lambda>(app, proc). RefreshResourceRecord app proc) t)) F"
    by (cases t) (simp add: dsh_RefreshResourceRecord_def ConvertMapToString_def RefreshResourceRecord_def)
  then show "fst ((case t of (app, proc) \<Rightarrow> dsh_RefreshResourceRecord e app proc) F) = ERR_OK \<Longrightarrow>
      document RESOURCE_RECORD_FILE_PATH r (snd ((case t of (app, proc) \<Rightarrow> dsh_RefreshResourceRecord e app proc) F)) =
        Some ((\<lambda>(app, proc). RefreshResourceRecord app proc) t)"
    and "fst ((case t of (app, proc) \<Rightarrow> dsh_RefreshResourceRecord e app proc) F) \<noteq> ERR_OK \<Longrightarrow>
      document RESOURCE_RECORD_FILE_PATH r (snd ((case t of (app, proc) \<Rightarrow> dsh_RefreshResourceRecord e app proc) F)) =
        document RESOURCE_RECORD_FILE_PATH r F"
    using document_write [OF w paths_fit(5,6)] by simp_all
qed

text \<open>What the managers keep of a file is all that restoring it looks at.\<close>

lemma restore_by_document:
  "dsh_RestoreTaskRecord r split t F = ds_RestoreTaskRecord split (document TASK_RECORD_FILE_PATH r F) t"
  "dsh_RestoreResourceRecord r app proc F = RestoreResourceRecord (document RESOURCE_RECORD_FILE_PATH r F) app proc"
  "fst (dsh_RestoreAuthRecord r auth F) = fst (ds_RestoreAuthRecord (document AUTH_RECORD_FILE_PATH r F) auth)"
  "fst (snd (dsh_RestoreAuthRecord r auth F)) = snd (ds_RestoreAuthRecord (document AUTH_RECORD_FILE_PATH r F) auth)"
  by (auto simp: dsh_RestoreTaskRecord_def ds_RestoreTaskRecord_def dsh_RestoreResourceRecord_def RestoreResourceRecord_def
      dsh_RestoreAuthRecord_def ds_RestoreAuthRecord_def document_def Let_def split: sum.splits if_splits)

section \<open>Restarts\<close>

text \<open>
  A library and a file system for the examples: documents are numbered and printed as rows of strokes, the
  document \<open>d\<close> as a single one.
\<close>

instance json :: countable
  by countable_datatype

definition demo_dump :: "json \<Rightarrow> json \<Rightarrow> string" where
  "demo_dump d j = (if j = d then ''1'' else replicate (to_nat j + 2) CHR ''1'')"

definition demo_parse :: "json \<Rightarrow> string \<Rightarrow> json option" where
  "demo_parse d s =
     (let n = length (filter (\<lambda>c. c = CHR ''1'') s)
      in if n = 0 then None else if n = 1 then Some d else Some (from_nat (n - 2)))"

definition demo_fs :: "json \<Rightarrow> nat \<Rightarrow> fs_env" where
  "demo_fs d room =
     \<lparr>fv_resolve = Some, fv_create = \<lambda>_. True, fv_open = \<lambda>_. True, fv_close = \<lambda>_. True, fv_load = \<lambda>_. True, fv_room = room,
      fv_read = int, fv_writeFd = \<lambda>fd. fd \<noteq> None, fv_writeString = \<lambda>_. True, fv_cfgFile = Some, fv_parse = demo_parse d,
      fv_dump = demo_dump d, fv_dumpLine = demo_dump d, fv_errInvalidOperation = 38\<rparr>"

lemma demo_fs_text: "json_text (demo_fs d room)"
  by (auto simp: json_text_def demo_fs_def demo_parse_def demo_dump_def)


text \<open>One refresh that is written and one for which the file cannot be opened.\<close>

definition demo_writes :: "task_table \<Rightarrow> (fs_env \<times> task_table) list" where
  "demo_writes t =
     [(demo_fs (ds_RefreshTaskRecord t) 2, t),
      (demo_fs (ds_RefreshTaskRecord t) (to_nat (ds_RefreshTaskRecord []) + 3)\<lparr>fv_open := \<lambda>_. False\<rparr>, [])]"

lemma demo_writes_saved: "last_saved dsh_RefreshTaskRecord (demo_writes t) Map.empty None = Some t"
  by (simp add: demo_writes_def dsh_RefreshTaskRecord_def write_file_eq [OF paths_fit(1,2)] demo_fs_def)

lemma demo_writes_work: "\<forall>(e, t') \<in> set (demo_writes t). writes ds_RefreshTaskRecord (demo_fs (ds_RefreshTaskRecord t) 0) e t'"
  by (auto simp: demo_writes_def writes_def demo_fs_text same_library_def) (simp_all add: demo_fs_def demo_dump_def)


section \<open>Authorizations on another device\<close>

lemma find_auth_iff:
  assumes "distinct (map (\<lambda>x. bn_app (snd x)) t)"
  shows "find_auth n u i t = Some x \<longleftrightarrow> x \<in> set t \<and> bn_app (snd x) = (n, u, i)"
  using assms by (induction t) (auto simp: find_auth_def image_iff split: if_splits)

lemma find_auth_mset:
  assumes "mset t = mset t'" and "distinct (map (\<lambda>x. bn_app (snd x)) t)"
  shows "find_auth n u i t = find_auth n u i t'"
proof -
  have "distinct (map (\<lambda>x. bn_app (snd x)) t')" using assms by (metis mset_eq_imp_distinct_iff mset_map)
  then have "find_auth n u i t = Some x \<longleftrightarrow> find_auth n u i t' = Some x" for x
    using find_auth_iff [OF assms(2)] find_auth_iff [of t'] mset_eq_setD [OF assms(1)] by simp
  then show ?thesis by (metis not_None_eq)
qed

lemma find_append: "find P (xs @ ys) = (case find P xs of None \<Rightarrow> find P ys | Some x \<Rightarrow> Some x)"
  by (induction xs) auto

text \<open>Restoring adds the rows whose app has no row yet, where equal keys are for equal apps.\<close>

definition keys_agree :: "auth_table \<Rightarrow> bool" where
  "keys_agree t \<longleftrightarrow> (\<forall>x \<in> set t. \<forall>y \<in> set t. fst x = fst y \<longrightarrow> bn_app (snd x) = bn_app (snd y))"

lemma keys_agree_mono: "keys_agree t \<Longrightarrow> set t' \<subseteq> set t \<Longrightarrow> keys_agree t'"
  by (auto simp: keys_agree_def)

lemma restore_auth_find:
  assumes "\<And>k j. (k, j) \<in> set items \<Longrightarrow> bn_ParseFromJson j = Some (f j)" and "keys_agree (t @ map (\<lambda>(k, j). (k, f j)) items)"
  shows "find_auth n u i (restore_auth items t) = find_auth n u i (t @ map (\<lambda>(k, j). (k, f j)) items)"
  using assms
proof (induction items arbitrary: t)
  case (Cons x items)
  obtain k j where x: "x = (k, j)" by fastforce
  let ?r = "f j" and ?rows = "map (\<lambda>(k, j). (k, f j)) items"
  have j: "bn_ParseFromJson j = Some ?r" using Cons.prems(1) [of k j] x by simp
  have items: "bn_ParseFromJson j' = Some (f j')" if "(k', j') \<in> set items" for k' j'
    using Cons.prems(1) [of k' j'] that by simp
  have IH: "find_auth n u i (restore_auth items t') = find_auth n u i (t' @ ?rows)" if "keys_agree (t' @ ?rows)" for t'
    by (rule Cons.IH [OF items that])
  show ?case
  proof (cases "list_ex (\<lambda>e. bn_app (snd e) = bn_app ?r) t")
    case True
    then obtain e where "e \<in> set t" "bn_app (snd e) = bn_app ?r" by (auto simp: list_ex_iff)
    then have "\<not> bn_app ?r = (n, u, i) \<or> find_auth n u i t \<noteq> None"
      by (metis (mono_tags, lifting) find_auth_def find_None_iff)
    moreover have "keys_agree (t @ ?rows)" using Cons.prems(2) by (rule keys_agree_mono) (auto simp: x)
    ultimately show ?thesis
      using True IH [of t] by (auto simp: x j find_auth_def find_append split: option.split)
  next
    case False
    have "k \<notin> fst ` set t"
    proof
      assume "k \<in> fst ` set t"
      then obtain r where r: "(k, r) \<in> set t" by auto
      then have "(k, r) \<in> set (t @ map (\<lambda>(k, j). (k, f j)) (x # items))" by simp
      moreover have "(k, ?r) \<in> set (t @ map (\<lambda>(k, j). (k, f j)) (x # items))" by (simp add: x)
      ultimately have "bn_app r = bn_app ?r" using Cons.prems(2) unfolding keys_agree_def by fastforce
      then show False using False r by (auto simp: list_ex_iff)
    qed
    then have e: "hm_emplace k ?r t = t @ [(k, ?r)]" by (simp add: hm_emplace_def map_of_eq_None_iff)
    have "keys_agree ((t @ [(k, ?r)]) @ ?rows)" using Cons.prems(2) by (simp add: x)
    then show ?thesis using False IH [of "t @ [(k, ?r)]"] by (simp add: x j e)
  qed
qed simp

text \<open>A table that comes from the service: keys and apps are unique and the numbers fit.\<close>

definition auth_ok :: "auth_table \<Rightarrow> bool" where
  "auth_ok t \<longleftrightarrow> distinct (map fst t) \<and> distinct (map (\<lambda>x. bn_app (snd x)) t) \<and> list_all (\<lambda>x. auth_storable (snd x)) t"

lemma restored_auth_find:
  assumes "auth_ok t" and "keys_agree (own @ t)"
  shows "find_auth n u i (restore_auth (json_items (ds_RefreshAuthRecord t)) own) = find_auth n u i (own @ t)"
proof -
  define kvs where "kvs = map (\<lambda>(k, r). (k, bn_ParseToJson r)) t"
  define items where "items = json_items (put_all kvs JNull)"
  define f where "f = (\<lambda>j. the (bn_ParseFromJson j))"
  have "map fst kvs = map fst t" by (simp add: kvs_def comp_def split_beta)
  then have m: "mset items = mset kvs" unfolding items_def using items_put_all [of kvs] assms(1) by (simp add: auth_ok_def)
  have f: "bn_ParseFromJson j = Some (f j)" "f j = r" if "(k, r) \<in> set t" "j = bn_ParseToJson r" for k r j
    using that assms(1) bn_round_trip [of r] by (auto simp: auth_ok_def list_all_iff f_def)
  have "mset (map (\<lambda>(k, j). (k, f j)) items) = mset (map (\<lambda>(k, j). (k, f j)) kvs)" by (simp add: m)
  also have "map (\<lambda>(k, j). (k, f j)) kvs = t" unfolding kvs_def using f by (auto intro!: map_idI)
  finally have rows: "mset (map (\<lambda>(k, j). (k, f j)) items) = mset t" .
  have "bn_ParseFromJson j = Some (f j)" if "(k, j) \<in> set items" for k j
    using that f(1) mset_eq_setD [OF m] by (auto simp: kvs_def)
  moreover have "keys_agree (own @ map (\<lambda>(k, j). (k, f j)) items)"
    using assms(2) by (rule keys_agree_mono) (use mset_eq_setD [OF rows] in auto)
  ultimately have "find_auth n u i (restore_auth items own) = find_auth n u i (own @ map (\<lambda>(k, j). (k, f j)) items)"
    by (rule restore_auth_find)
  moreover have "find_auth n u i (map (\<lambda>(k, j). (k, f j)) items) = find_auth n u i t"
    using find_auth_mset [of t "map (\<lambda>(k, j). (k, f j)) items"] rows assms(1) by (simp add: auth_ok_def)
  ultimately show ?thesis
    by (simp add: find_auth_def find_append ds_RefreshAuthRecord_def kvs_def [symmetric] items_def [symmetric] split: option.split)
qed

text \<open>A device on which the restoration of a file of \<open>n\<close> characters goes well.\<close>

definition accepts_backup :: "fs_env \<Rightarrow> nat \<Rightarrow> file_system \<Rightarrow> bool" where
  "accepts_backup b n G \<longleftrightarrow> n \<le> 400000 \<and> n \<le> fv_room b \<and> fv_read b n = int n \<and> fv_writeString b (SetReplyCode b 0) \<and>
     (\<exists>q. realpath b G AUTH_RECORD_FILE_PATH = Some q \<and> fv_open b q \<and> fv_close b q \<and> fv_load b q)"

text \<open>What \<open>GetAuthRecord\<close> leaves in the file when it succeeds.\<close>

lemma GetAuthRecord_document:
  assumes "GetAuthRecord b (Some c) G = (True, G1)" and "fv_parse b '''' = None"
  shows "document AUTH_RECORD_FILE_PATH b G1 = fv_parse b c \<or> document AUTH_RECORD_FILE_PATH b G1 = None"
proof -
  obtain q where q: "realpath b G AUTH_RECORD_FILE_PATH = Some q" "G1 = G(q \<mapsto> c)"
    using assms(1) by (auto simp: GetAuthRecord_def auth_buffer_def Let_def split: if_splits option.splits)
  then have "fv_resolve b AUTH_RECORD_FILE_PATH = Some q" by (auto simp: realpath_def split: option.splits if_splits)
  then show ?thesis using q assms(2) by (simp add: document_eq [OF paths_fit(3,4)])
qed

lemma GetAuthRecord_accepts:
  assumes "accepts_backup b (length c) G"
  shows "\<exists>G1. GetAuthRecord b (Some c) G = (True, G1) \<and> document AUTH_RECORD_FILE_PATH b G1 = fv_parse b c"
proof -
  obtain q where q: "realpath b G AUTH_RECORD_FILE_PATH = Some q" "fv_open b q" "fv_close b q" "fv_load b q"
    using assms by (auto simp: accepts_backup_def)
  then have "fv_resolve b AUTH_RECORD_FILE_PATH = Some q" by (auto simp: realpath_def split: option.splits if_splits)
  moreover have "i32 (int (length c)) = int (length c)" using assms by (simp add: accepts_backup_def is_i32_def)
  ultimately show ?thesis
    using q assms by (auto simp: GetAuthRecord_def auth_buffer_def accepts_backup_def Let_def document_eq [OF paths_fit(3,4)])
qed

text \<open>A limit on the size of the file that larger files pass: their size does not fit 32 bits.\<close>

lemma large_backup_passes:
  assumes "2147483648 \<le> length c" and "length c < 4294967296"
  shows "auth_buffer (Some c) = Some (length c)"
proof -
  have "i32 (int (length c)) = int (length c) - 4294967296"
    using i32_shift [of "int (length c) - 4294967296" 1] i32_id [of "int (length c) - 4294967296"] assms by (simp add: is_i32_def)
  then show ?thesis using assms by (simp add: auth_buffer_def)
qed

lemma backup_document:
  assumes "dsh_OnBackup a F = (ERR_OK, Some (fd, code))" and "document AUTH_RECORD_FILE_PATH a F = Some j"
    and "fv_parse a '''' = None" and "fv_errInvalidOperation a \<noteq> ERR_OK"
  shows "\<exists>c. fd = Some c \<and> fv_parse a c = Some j"
proof -
  obtain q c where q: "fv_resolve a AUTH_RECORD_FILE_PATH = Some q" "F q = Some c" "fv_parse a c = Some j"
    using assms(2,3) by (auto simp: document_eq [OF paths_fit(3,4)] bind_eq_Some_conv split: if_splits)
  then have "realpath a F AUTH_RECORD_FILE_PATH = Some q" by (simp add: realpath_def)
  then show ?thesis
    using assms(1,4) q by (auto simp: dsh_OnBackup_def Let_def split: if_splits option.splits)
qed


text \<open>One authorization, and a device without any.\<close>

definition demo_auth :: auth_table where
  "demo_auth = [(''bgmode_demo'', \<lparr>bn_bundleName = ''com.demo'', bn_uid = 20010001, bn_notificationId = 3,
     bn_notificationLabel = ''bgmode_demo'', bn_appName = ''Demo'', bn_authResult = 4, bn_userId = 100, bn_appIndex = 0\<rparr>)]"

abbreviation (input) "demo_device \<equiv> demo_fs (ds_RefreshAuthRecord demo_auth) 2"


end
