(* ===== verification/JsConstants.thy ===== *)
theory JsConstants
  imports EtsProps
begin

text \<open>
  What the JavaScript module exports (\<^verbatim>\<open>interfaces/kits/napi/src/init_bgtaskmgr.cpp\<close>, and \<^verbatim>\<open>init.cpp\<close> for the old
  module): functions, and objects with the enumerations of the service. The exports are an association
  list; a name that is set again gets the new value. The lemmas say that what the service reports has a name, and
  that the named modes and sub modes that a request may combine are modes that the manager knows.
\<close>

type_synonym exports = "(string \<times> jsval) list"

text \<open>A number is set as 32-bit integer.\<close>

definition SetNamedProperty :: "string \<Rightarrow> jsval \<Rightarrow> exports \<Rightarrow> exports" where
  "SetNamedProperty propName v obj = AList.update propName v obj"

definition named_object :: "(string \<times> jsval) list \<Rightarrow> jsval" where
  "named_object props = JObject (foldl (\<lambda>obj (n, v). SetNamedProperty n v obj) [] props)"

text \<open>Functions are exported under the name of the function of the source that they call.\<close>

definition define_functions :: "(string \<times> string) list \<Rightarrow> exports \<Rightarrow> exports" where
  "define_functions desc exports = foldl (\<lambda>x (n, f). SetNamedProperty n (JString f) x) exports desc"

definition define_objects :: "string list \<Rightarrow> jsval \<Rightarrow> exports \<Rightarrow> exports" where
  "define_objects names obj exports = foldl (\<lambda>x n. SetNamedProperty n obj x) exports names"

section \<open>Functions\<close>

definition BackgroundTaskMgrInit :: "exports \<Rightarrow> exports" where
  "BackgroundTaskMgrInit = define_functions
     [(''requestSuspendDelay'', ''RequestSuspendDelayThrow''), (''cancelSuspendDelay'', ''CancelSuspendDelayThrow''),
      (''getRemainingDelayTime'', ''GetRemainingDelayTimeThrow''), (''getTransientTaskInfo'', ''GetAllTransientTasksThrow''),
      (''startBackgroundRunning'', ''StartBackgroundRunningThrow''),
      (''updateBackgroundRunning'', ''UpdateBackgroundRunningThrow''),
      (''stopBackgroundRunning'', ''StopBackgroundRunningThrow''),
      (''getAllContinuousTasks'', ''GetAllContinuousTasksThrow''),
      (''applyEfficiencyResources'', ''ApplyEfficiencyResources''),
      (''resetAllEfficiencyResources'', ''ResetAllEfficiencyResources''),
      (''getAllEfficiencyResources'', ''GetAllEfficiencyResources''),
      (''setBackgroundTaskState'', ''SetBackgroundTaskState''), (''getBackgroundTaskState'', ''GetBackgroundTaskState''),
      (''obtainAllContinuousTasks'', ''ObtainAllContinuousTasks''),
      (''subscribeContinuousTaskState'', ''SubscribeContinuousTaskState''),
      (''unsubscribeContinuousTaskState'', ''UnSubscribeContinuousTaskState''), (''on'', ''OnOnContinuousTaskCallback''),
      (''off'', ''OffOnContinuousTaskCallback''), (''updateDataTransferProgress'', ''UpdateDataTransferProgress'')]"

definition ContinuousTaskRequestInit :: "exports \<Rightarrow> exports" where
  "ContinuousTaskRequestInit = SetNamedProperty ''ContinuousTaskRequest'' (JObject (define_functions
     [(''isModeSupported'', ''IsModeSupported''), (''requestAuthFromUser'', ''RequestAuthFromUser''),
      (''requestAuthFromUserByDialog'', ''RequestAuthFromUserByDialog''),
      (''checkSpecialScenarioAuth'', ''CheckSpecialScenarioAuth''),
      (''checkSpecialScenarioAuthResult'', ''CheckSpecialScenarioAuthResult'')] []))"

section \<open>Enumerations\<close>

definition backgroundModeNames :: "(string \<times> jsval) list" where
  "backgroundModeNames =
     [(''DATA_TRANSFER'', JNumber 1), (''AUDIO_PLAYBACK'', JNumber 2), (''AUDIO_RECORDING'', JNumber 3),
      (''LOCATION'', JNumber 4), (''BLUETOOTH_INTERACTION'', JNumber 5), (''MULTI_DEVICE_CONNECTION'', JNumber 6),
      (''WIFI_INTERACTION'', JNumber 7), (''VOIP'', JNumber 8), (''TASK_KEEPING'', JNumber 9), (''CPU'', JNumber 1),
      (''COMMON_EVENT'', JNumber 2), (''TIMER'', JNumber 4), (''WORK_SCHEDULER'', JNumber 8), (''BLUETOOTH'', JNumber 16),
      (''GPS'', JNumber 32), (''AUDIO'', JNumber 64), (''RUNNING_LOCK'', JNumber 128), (''SENSOR'', JNumber 256),
      (''CAR_KEY'', JNumber 1), (''SUB_MODE'', JString ''subMode''), (''SMALL_CPU'', JNumber 0), (''MEDIUM_CPU'', JNumber 1),
      (''LARGE_CPU'', JNumber 2)]"

definition BackgroundModeInit :: "exports \<Rightarrow> exports" where
  "BackgroundModeInit = define_objects [''BackgroundMode'', ''ResourceType'', ''BackgroundSubMode'', ''BackgroundModeType'', ''EfficiencyResourcesCpuLevel''] (named_object backgroundModeNames)"

definition continuousTaskCancelReasonNames :: "(string \<times> jsval) list" where
  "continuousTaskCancelReasonNames =
     [(''USER_CANCEL'', JNumber 1), (''SYSTEM_CANCEL'', JNumber 2), (''USER_CANCEL_REMOVE_NOTIFICATION'', JNumber 3),
      (''SYSTEM_CANCEL_DATA_TRANSFER_LOW_SPEED'', JNumber 4),
      (''SYSTEM_CANCEL_AUDIO_PLAYBACK_NOT_USE_AVSESSION'', JNumber 5),
      (''SYSTEM_CANCEL_AUDIO_PLAYBACK_NOT_RUNNING'', JNumber 6), (''SYSTEM_CANCEL_AUDIO_RECORDING_NOT_RUNNING'', JNumber 7),
      (''SYSTEM_CANCEL_NOT_USE_LOCATION'', JNumber 8), (''SYSTEM_CANCEL_NOT_USE_BLUETOOTH'', JNumber 9),
      (''SYSTEM_CANCEL_NOT_USE_MULTI_DEVICE'', JNumber 10), (''SYSTEM_CANCEL_USE_ILLEGALLY'', JNumber 11)]"

definition ContinuousTaskCancelReasonInit :: "exports \<Rightarrow> exports" where
  "ContinuousTaskCancelReasonInit = define_objects [''ContinuousTaskCancelReason''] (named_object continuousTaskCancelReasonNames)"

definition continuousTaskDetailedCancelReasonNames :: "(string \<times> jsval) list" where
  "continuousTaskDetailedCancelReasonNames =
     [(''USER_CANCEL_REMOVE_NOTIFICATION'', JNumber 3), (''SYSTEM_CANCEL_DATA_TRANSFER_LOW_SPEED'', JNumber 4),
      (''SYSTEM_CANCEL_AUDIO_PLAYBACK_NOT_RUNNING'', JNumber 6), (''SYSTEM_CANCEL_AUDIO_RECORDING_NOT_RUNNING'', JNumber 7),
      (''SYSTEM_CANCEL_NOT_USE_LOCATION'', JNumber 8), (''SYSTEM_CANCEL_NOT_USE_BLUETOOTH'', JNumber 9),
      (''SYSTEM_CANCEL_NOT_USE_MULTI_DEVICE'', JNumber 10), (''SYSTEM_CANCEL_USE_ILLEGALLY'', JNumber 11),
      (''SYSTEM_CANCEL_DATA_TRANSFER_NOT_UPDATE'', JNumber 12), (''SYSTEM_CANCEL_VOIP_NOT_RUNNING'', JNumber 13),
      (''SYSTEM_CANCEL_USER_UNAUTHORIZED'', JNumber 14)]"

definition ContinuousTaskDetailedCancelReasonInit :: "exports \<Rightarrow> exports" where
  "ContinuousTaskDetailedCancelReasonInit = define_objects [''ContinuousTaskDetailedCancelReason''] (named_object continuousTaskDetailedCancelReasonNames)"

definition continuousTaskSuspendReasonNames :: "(string \<times> jsval) list" where
  "continuousTaskSuspendReasonNames =
     [(''SYSTEM_SUSPEND_DATA_TRANSFER_LOW_SPEED'', JNumber 4),
      (''SYSTEM_SUSPEND_AUDIO_PLAYBACK_NOT_USE_AVSESSION'', JNumber 5),
      (''SYSTEM_SUSPEND_AUDIO_PLAYBACK_NOT_RUNNING'', JNumber 6),
      (''SYSTEM_SUSPEND_AUDIO_RECORDING_NOT_RUNNING'', JNumber 7), (''SYSTEM_SUSPEND_LOCATION_NOT_USED'', JNumber 8),
      (''SYSTEM_SUSPEND_BLUETOOTH_NOT_USED'', JNumber 9), (''SYSTEM_SUSPEND_MULTI_DEVICE_NOT_USED'', JNumber 10),
      (''SYSTEM_SUSPEND_USED_ILLEGALLY'', JNumber 11), (''SYSTEM_SUSPEND_SYSTEM_LOAD_WARNING'', JNumber 12),
      (''SYSTEM_SUSPEND_VOIP_NOT_USED'', JNumber 13), (''SYSTEM_SUSPEND_BLUETOOTH_DATA_NOT_EXIST'', JNumber 14),
      (''SYSTEM_SUSPEND_POSITION_NOT_MOVED'', JNumber 15), (''SYSTEM_SUSPEND_AUDIO_PLAYBACK_MUTE'', JNumber 16),
      (''SYSTEM_SUSPEND_NEARLINK_NOT_USED'', JNumber 17), (''SYSTEM_SUSPEND_NEARLINK_DATA_NOT_EXIST'', JNumber 18),
      (''SYSTEM_SUSPEND_USER_UNAUTHORIZED'', JNumber 19)]"

definition ContinuousTaskSuspendReasonInit :: "exports \<Rightarrow> exports" where
  "ContinuousTaskSuspendReasonInit = define_objects [''ContinuousTaskSuspendReason''] (named_object continuousTaskSuspendReasonNames)"

definition backgroundTaskModeNames :: "(string \<times> jsval) list" where
  "backgroundTaskModeNames =
     [(''MODE_DATA_TRANSFER'', JNumber 1), (''MODE_AUDIO_PLAYBACK'', JNumber 2), (''MODE_AUDIO_RECORDING'', JNumber 3),
      (''MODE_LOCATION'', JNumber 4), (''MODE_BLUETOOTH_INTERACTION'', JNumber 5),
      (''MODE_MULTI_DEVICE_CONNECTION'', JNumber 6), (''MODE_ALLOW_WIFI_AWARE'', JNumber 7), (''MODE_VOIP'', JNumber 8),
      (''MODE_TASK_KEEPING'', JNumber 9), (''MODE_AV_PLAYBACK_AND_RECORD'', JNumber 12),
      (''MODE_SPECIAL_SCENARIO_PROCESSING'', JNumber 13), (''MODE_NEARLINK'', JNumber 14)]"

definition BackgroundTaskModeInit :: "exports \<Rightarrow> exports" where
  "BackgroundTaskModeInit = define_objects [''BackgroundTaskMode''] (named_object backgroundTaskModeNames)"

definition backgroundTaskSubModeNames :: "(string \<times> jsval) list" where
  "backgroundTaskSubModeNames =
     [(''SUBMODE_CAR_KEY_NORMAL_NOTIFICATION'', JNumber 1), (''SUBMODE_NORMAL_NOTIFICATION'', JNumber 2),
      (''SUBMODE_LIVE_VIEW_NOTIFICATION'', JNumber 3), (''SUBMODE_AUDIO_PLAYBACK_NORMAL_NOTIFICATION'', JNumber 4),
      (''SUBMODE_AVSESSION_AUDIO_PLAYBACK'', JNumber 5), (''SUBMODE_AUDIO_RECORD_NORMAL_NOTIFICATION'', JNumber 6),
      (''SUBMODE_SCREEN_RECORD_NORMAL_NOTIFICATION'', JNumber 7), (''SUBMODE_VOICE_CHAT_NORMAL_NOTIFICATION'', JNumber 8),
      (''SUBMODE_MEDIA_PROCESS_NORMAL_NOTIFICATION'', JNumber 9),
      (''SUBMODE_VIDEO_BROADCAST_NORMAL_NOTIFICATION'', JNumber 10), (''SUBMODE_WORK_OUT_NORMAL_NOTIFICATION'', JNumber 11)]"

definition BackgroundTaskSubModeInit :: "exports \<Rightarrow> exports" where
  "BackgroundTaskSubModeInit = define_objects [''BackgroundTaskSubmode''] (named_object backgroundTaskSubModeNames)"

definition userAuthResultNames :: "(string \<times> jsval) list" where
  "userAuthResultNames =
     [(''NOT_SUPPORTED'', JNumber 0), (''NOT_DETERMINED'', JNumber 1), (''DENIED'', JNumber 2),
      (''GRANTED_ONCE'', JNumber 3), (''GRANTED_ALWAYS'', JNumber 4)]"

definition UserAuthResultInit :: "exports \<Rightarrow> exports" where
  "UserAuthResultInit = define_objects [''UserAuthResult''] (named_object userAuthResultNames)"

section \<open>The modules\<close>

definition InitApi :: "exports \<Rightarrow> exports" where
  "InitApi exports =
     UserAuthResultInit (ContinuousTaskRequestInit (BackgroundTaskSubModeInit (BackgroundTaskModeInit
       (ContinuousTaskSuspendReasonInit (ContinuousTaskDetailedCancelReasonInit (ContinuousTaskCancelReasonInit
         (BackgroundModeInit (BackgroundTaskMgrInit exports))))))))"

text \<open>The old module has functions that do not throw and one enumeration.\<close>

definition BackgroundTaskManagerInit :: "exports \<Rightarrow> exports" where
  "BackgroundTaskManagerInit = define_functions
     [(''requestSuspendDelay'', ''RequestSuspendDelay''), (''cancelSuspendDelay'', ''CancelSuspendDelay''),
      (''getRemainingDelayTime'', ''GetRemainingDelayTime''), (''startBackgroundRunning'', ''StartBackgroundRunning''),
      (''stopBackgroundRunning'', ''StopBackgroundRunning'')]"

definition old_BackgroundModeInit :: "exports \<Rightarrow> exports" where
  "old_BackgroundModeInit = define_objects [''BackgroundMode''] (named_object
     [(''DATA_TRANSFER'', JNumber 1), (''AUDIO_PLAYBACK'', JNumber 2), (''AUDIO_RECORDING'', JNumber 3),
      (''LOCATION'', JNumber 4), (''BLUETOOTH_INTERACTION'', JNumber 5), (''MULTI_DEVICE_CONNECTION'', JNumber 6),
      (''WIFI_INTERACTION'', JNumber 7), (''VOIP'', JNumber 8), (''TASK_KEEPING'', JNumber 9)])"

definition old_Init :: "exports \<Rightarrow> exports" where
  "old_Init exports = old_BackgroundModeInit (BackgroundTaskManagerInit exports)"

section \<open>Lemmas\<close>

text \<open>The values of an exported enumeration.\<close>

definition exported :: "string \<Rightarrow> exports \<Rightarrow> jsval set" where
  "exported name x = (case map_of x name of Some (JObject props) \<Rightarrow> snd ` set props | _ \<Rightarrow> {})"

lemma exported_enumerations:
  "exported ''ContinuousTaskDetailedCancelReason'' (InitApi []) = snd ` set continuousTaskDetailedCancelReasonNames"
  "exported ''ContinuousTaskSuspendReason'' (InitApi []) = snd ` set continuousTaskSuspendReasonNames"
  "exported ''BackgroundTaskMode'' (InitApi []) = snd ` set backgroundTaskModeNames"
  "exported ''BackgroundTaskSubmode'' (InitApi []) = snd ` set backgroundTaskSubModeNames"
  by code_simp+

text \<open>The reasons that the service derives from a mode have a name, if there is a reason at all.\<close>

lemma cancel_reasons_named:
  "GetDetailedCancelReasonFromMode m = INVALID_REASON \<or>
   JNumber (GetDetailedCancelReasonFromMode m) \<in> exported ''ContinuousTaskDetailedCancelReason'' (InitApi [])"
  by (simp add: exported_enumerations continuousTaskDetailedCancelReasonNames_def GetDetailedCancelReasonFromMode_def table_get_def)

lemma suspend_reasons_named:
  "GetSuspendReasonValue m isStandby = 0 \<or>
   JNumber (GetSuspendReasonValue m isStandby) \<in> exported ''ContinuousTaskSuspendReason'' (InitApi [])"
  by (simp add: exported_enumerations continuousTaskSuspendReasonNames_def GetSuspendReasonValue_def table_get_def)

text \<open>A pair of mode and sub mode that the check of the bindings accepts has names and is converted to a mode of the service.\<close>

definition mode_pair :: "32 word \<Rightarrow> 32 word \<Rightarrow> bool" where
  "mode_pair mode subMode \<longleftrightarrow> \<not> (subMode \<ge> 12 \<or> subMode < CAR_KEY) \<and>
     (if subMode = SUBMODE_NORMAL_NOTIFICATION then IsModeTypeMatching mode else GetSubModeTypeMatching subMode = mode)"

lemma submode_table:
  "GetSubModeTypeMatching 1 = 5" "GetSubModeTypeMatching 3 = 1" "GetSubModeTypeMatching 4 = 12" "GetSubModeTypeMatching 5 = 12"
  "GetSubModeTypeMatching 6 = 12" "GetSubModeTypeMatching 7 = 12" "GetSubModeTypeMatching 8 = 12" "GetSubModeTypeMatching 9 = 13"
  "GetSubModeTypeMatching 10 = 13" "GetSubModeTypeMatching 11 = 13"
  by (simp_all add: GetSubModeTypeMatching_def table_get_def)

lemma mode_pair_cases:
  assumes "mode_pair mode subMode"
  shows "(mode, subMode) \<in> set [(5, 1), (1, 3), (12, 4), (12, 5), (12, 6), (12, 7), (12, 8), (13, 9), (13, 10), (13, 11),
    (2, 2), (3, 2), (4, 2), (5, 2), (6, 2), (7, 2), (8, 2), (9, 2), (14, 2)]"
proof -
  have m: "(if subMode = SUBMODE_NORMAL_NOTIFICATION then IsModeTypeMatching mode else GetSubModeTypeMatching subMode = mode)"
    using assms by (simp add: mode_pair_def)
  have "unat subMode < 12 \<and> unat subMode \<noteq> 0"
    using assms by (simp add: mode_pair_def word_le_nat_alt word_less_nat_alt)
  then have "unat subMode \<in> set [1, 2, 3, 4, 5, 6, 7, 8, 9, 10, 11]" by (simp, arith)
  then have "of_nat (unat subMode) \<in> (of_nat ` set [1, 2, 3, 4, 5, 6, 7, 8, 9, 10, 11] :: 32 word set)" by (rule imageI)
  then have "subMode \<in> set [1, 2, 3, 4, 5, 6, 7, 8, 9, 10, 11]" by simp
  then show ?thesis using m
    by (simp only: list.set insert_iff empty_iff simp_thms)
       (elim disjE; simp add: submode_table IsModeTypeMatching_def)
qed

lemma mode_pair_named:
  assumes "mode_pair mode subMode"
  shows "JNumber (uint mode) \<in> exported ''BackgroundTaskMode'' (InitApi [])"
    and "JNumber (uint subMode) \<in> exported ''BackgroundTaskSubmode'' (InitApi [])"
  using mode_pair_cases [OF assms]
  by (auto simp: exported_enumerations backgroundTaskModeNames_def backgroundTaskSubModeNames_def)

lemma mode_pair_known:
  assumes "mode_pair mode subMode"
  shows "(if subMode = SUBMODE_NORMAL_NOTIFICATION then GetV9BackgroundModeByMode mode else GetV9BackgroundModeBySubMode subMode)
    \<in> set [1, 2, 3, 4, 5, 6, 7, 8, 9, 13, 14]"
  using mode_pair_cases [OF assms]
  by (auto simp: GetV9BackgroundModeByMode_def GetV9BackgroundModeBySubMode_def table_get_def)

lemma check_submodes_pairs:
  "ets_check_submodes modes submodes = Inr () \<longleftrightarrow> list_all (\<lambda>(m, s). mode_pair m s) (zip modes submodes)"
  by (induction modes submodes rule: ets_check_submodes.induct) (auto simp: mode_pair_def)

text \<open>A request that passes the check of the JavaScript or of the ArkTS bindings is sent with modes that the service knows.\<close>

lemma converted_known:
  assumes "list_all (\<lambda>(m, s). mode_pair m s) (zip (drop i modes) submodes)" and "i + length submodes = length modes"
  shows "\<exists>ms. converted modes i submodes = Some ms \<and> set ms \<subseteq> set [1, 2, 3, 4, 5, 6, 7, 8, 9, 13, 14]"
  using assms
proof (induction submodes arbitrary: i)
  case (Cons s submodes)
  have i: "i < length modes" using Cons.prems(2) by simp
  then have d: "drop i modes = modes ! i # drop (Suc i) modes" by (simp add: Cons_nth_drop_Suc)
  then obtain ms where "converted modes (Suc i) submodes = Some ms" "set ms \<subseteq> set [1, 2, 3, 4, 5, 6, 7, 8, 9, 13, 14]"
    using Cons.IH [of "Suc i"] Cons.prems by auto
  moreover have "mode_pair (modes ! i) s" using Cons.prems(1) d by simp
  ultimately show ?case using mode_pair_known [of "modes ! i" s] i by (auto split: if_splits)
qed simp

lemma accepted_request_known:
  assumes "CheckModeAndSubMode r = Inr ()"
  shows "\<exists>mode modes. ets_TaskModeTypeConversion r = Some (mode, modes) \<and> set modes \<subseteq> set [1, 2, 3, 4, 5, 6, 7, 8, 9, 13, 14]"
proof -
  have c: "ets_check_submodes (ti_taskModes r) (ti_taskSubmodes r) = Inr ()" "length (ti_taskModes r) = length (ti_taskSubmodes r)"
    using assms by (auto simp: CheckModeAndSubMode_def CheckModesInner_def Let_def split: if_splits)
  obtain mode modes where m: "ets_TaskModeTypeConversion r = Some (mode, modes)" using ets_request_exists [OF assms] by blast
  obtain ms where "converted (ti_taskModes r) 0 (ti_taskSubmodes r) = Some ms" "set ms \<subseteq> set [1, 2, 3, 4, 5, 6, 7, 8, 9, 13, 14]"
    using converted_known [of 0 "ti_taskModes r" "ti_taskSubmodes r"] c by (auto simp: check_submodes_pairs)
  then show ?thesis using m by (auto simp: ets_TaskModeTypeConversion_def split: list.splits)
qed

end
