(* ===== verification/SystemHelpers.thy ===== *)
theory SystemHelpers
  imports ClientProps
begin

text \<open>
  The helpers through which the service and the bindings use other services of the system:
  \<open>BundleManagerHelper\<close> and \<open>AppMgrHelper\<close> (\<^verbatim>\<open>services/common/src/bundle_manager_helper.cpp\<close>, \<^verbatim>\<open>app_mgr_helper.cpp\<close>),
  the dialog for authorizations (\<^verbatim>\<open>interfaces/kits/common/src/ui_extension_helper.cpp\<close>) and the stub that hands what the
  service reports to a subscriber (\<^verbatim>\<open>interfaces/innerkits/src/background_task_subscriber.cpp\<close>). The other services are arguments.
  The locale \<open>reconnecting\<close> holds what a helper that watches the death of its service promises: whatever starts, deaths
  and calls came before, a call reaches the instance that is running now.
\<close>

section \<open>Proxies\<close>

text \<open>
  A proxy stands for the instance of a service from which it was made; \<open>sp_object\<close> is whether it has a remote object.
  The environment is what the system ability manager gives at the time of a call.
\<close>

record service_proxy =
  sp_instance :: nat
  sp_object :: bool

record sa_env =
  sa_manager :: bool
  sa_remote :: "nat option"
  sa_cast :: "nat \<Rightarrow> service_proxy option"

datatype death_call = WatchDeath nat | UnwatchDeath nat

section \<open>Bundle manager\<close>

record BundleManagerHelper =
  bh_bundleMgr :: "service_proxy option"
  bh_bundleMgrDeathRecipient :: bool
  bh_calls :: "death_call list"

definition new_BundleManagerHelper :: "bool \<Rightarrow> BundleManagerHelper" where
  "new_BundleManagerHelper memory = \<lparr>bh_bundleMgr = None, bh_bundleMgrDeathRecipient = memory, bh_calls = []\<rparr>"

text \<open>The result is \<open>None\<close> where the remote object of the proxy is used but null.\<close>

definition bh_Connect :: "sa_env \<Rightarrow> BundleManagerHelper \<Rightarrow> (bool \<times> BundleManagerHelper) option" where
  "bh_Connect e h =
     (if bh_bundleMgr h \<noteq> None then Some (True, h)
      else if \<not> sa_manager e then Some (False, h)
      else case sa_remote e of
             None \<Rightarrow> Some (False, h)
           | Some remoteObject \<Rightarrow>
               let h1 = h\<lparr>bh_bundleMgr := sa_cast e remoteObject\<rparr>
               in case sa_cast e remoteObject of
                    None \<Rightarrow> Some (False, h1)
                  | Some p \<Rightarrow>
                      if \<not> bh_bundleMgrDeathRecipient h then Some (False, h1)
                      else if \<not> sp_object p then None
                      else Some (True, h1\<lparr>bh_calls := bh_calls h1 @ [WatchDeath (sp_instance p)]\<rparr>))"

definition bh_Disconnect :: "BundleManagerHelper \<Rightarrow> BundleManagerHelper" where
  "bh_Disconnect h =
     (case bh_bundleMgr h of
        None \<Rightarrow> h
      | Some p \<Rightarrow>
          if sp_object p then h\<lparr>bh_calls := bh_calls h @ [UnwatchDeath (sp_instance p)], bh_bundleMgr := None\<rparr> else h)"

definition bh_OnRemoteDied :: "BundleManagerHelper \<Rightarrow> BundleManagerHelper" where
  "bh_OnRemoteDied h = bh_Disconnect h"

text \<open>
  The answers of an instance of the bundle manager, whose \<open>GetBundleInfo\<close> is overloaded on the type of the flags. Out arguments are passed in and returned; the types of bundle, application,
  ability and resource information belong to the bundle manager.
\<close>

record ('b, 'p, 'w, 'a, 'r) bundle_service =
  bs_GetNameForUid :: "int \<Rightarrow> string \<Rightarrow> string"
  bs_GetBundleInfo :: "string \<Rightarrow> int \<Rightarrow> int \<Rightarrow> 'b \<Rightarrow> bool \<times> 'b"
  bs_GetBundleInfoByFlags :: "string \<Rightarrow> int \<Rightarrow> int \<Rightarrow> 'b \<Rightarrow> bool \<times> 'b"
  bs_GetApplicationInfo :: "string \<Rightarrow> int \<Rightarrow> int \<Rightarrow> 'p \<Rightarrow> bool \<times> 'p"
  bs_QueryAbilityInfo :: "'w \<Rightarrow> int \<Rightarrow> int \<Rightarrow> 'a \<Rightarrow> bool \<times> 'a"
  bs_GetBundleResourceProxy :: "(string \<Rightarrow> 32 word \<Rightarrow> 'r \<Rightarrow> ErrCode \<times> 'r) option"
  bs_GetNameAndIndexForUid :: "int \<Rightarrow> string \<Rightarrow> int \<Rightarrow> ErrCode \<times> string \<times> int"

text \<open>
  The common form of the queries: the result of \<open>Connect\<close> is not looked at, the proxy is. \<open>lost\<close> is the answer without a proxy.
\<close>

definition bundle_query :: "sa_env \<Rightarrow> (nat \<Rightarrow> 'x) \<Rightarrow> 'x \<Rightarrow> BundleManagerHelper \<Rightarrow> ('x \<times> BundleManagerHelper) option" where
  "bundle_query e answer lost h =
     map_option (\<lambda>(_, h1). (case bh_bundleMgr h1 of None \<Rightarrow> lost | Some p \<Rightarrow> answer (sp_instance p), h1)) (bh_Connect e h)"

definition GetClientBundleName where
  "GetClientBundleName e B uid = bundle_query e (\<lambda>i. bs_GetNameForUid (B i) uid '''') ''''"

definition bh_GetBundleInfo where
  "bh_GetBundleInfo e B bundleName flag bundleInfo userId =
     bundle_query e (\<lambda>i. bs_GetBundleInfo (B i) bundleName flag userId bundleInfo) (False, bundleInfo)"

definition bh_GetApplicationInfo where
  "bh_GetApplicationInfo e B appName flag userId appInfo =
     bundle_query e (\<lambda>i. bs_GetApplicationInfo (B i) appName flag userId appInfo) (False, appInfo)"

definition bh_QueryAbilityInfo where
  "bh_QueryAbilityInfo e B want flags userId abilityInfo =
     bundle_query e (\<lambda>i. bs_QueryAbilityInfo (B i) want flags userId abilityInfo) (False, abilityInfo)"

definition bh_GetBundleResourceInfo where
  "bh_GetBundleResourceInfo e B bundleName flags bundleResourceInfo =
     bundle_query e
       (\<lambda>i. case bs_GetBundleResourceProxy (B i) of
               None \<Rightarrow> (False, bundleResourceInfo)
             | Some proxy \<Rightarrow> (case proxy bundleName flags bundleResourceInfo of (result, info) \<Rightarrow> (result = ERR_OK, info)))
       (False, bundleResourceInfo)"

definition bh_GetBundleInfoByFlags where
  "bh_GetBundleInfoByFlags e B bundleName flags bundleInfo userId =
     bundle_query e (\<lambda>i. bs_GetBundleInfoByFlags (B i) bundleName flags userId bundleInfo) (False, bundleInfo)"

definition bh_GetAppIndexAndBundleNameByUid where
  "bh_GetAppIndexAndBundleNameByUid e B uid appIndex bundleName =
     bundle_query e
       (\<lambda>i. case bs_GetNameAndIndexForUid (B i) uid bundleName appIndex of (ret, name, index) \<Rightarrow> (ret = ERR_OK, index, name))
       (False, appIndex, bundleName)"

text \<open>Permissions are asked of the access token service, \<open>verify\<close>; \<open>PERMISSION_GRANTED\<close> is zero.\<close>

definition CheckACLPermission :: "(nat \<Rightarrow> string \<Rightarrow> int) \<Rightarrow> string \<Rightarrow> nat \<Rightarrow> bool" where
  "CheckACLPermission verify permission callingTokenId \<longleftrightarrow> verify callingTokenId permission = 0"

definition bh_CheckPermission :: "(nat \<Rightarrow> string \<Rightarrow> int) \<Rightarrow> nat \<Rightarrow> string \<Rightarrow> bool" where
  "bh_CheckPermission verify callerToken permission \<longleftrightarrow> verify callerToken permission = 0"

section \<open>App manager\<close>

record AppMgrHelper =
  ah_appMgrProxy :: "service_proxy option"

definition ah_Connect :: "sa_env \<Rightarrow> AppMgrHelper \<Rightarrow> bool \<times> AppMgrHelper" where
  "ah_Connect e h =
     (if ah_appMgrProxy h \<noteq> None then (True, h)
      else if \<not> sa_manager e then (False, h)
      else case sa_remote e of
             None \<Rightarrow> (False, h)
           | Some remoteObject \<Rightarrow>
               (case sa_cast e remoteObject of None \<Rightarrow> False | Some p \<Rightarrow> sp_object p, h\<lparr>ah_appMgrProxy := sa_cast e remoteObject\<rparr>))"

text \<open>The common form of the calls. A call gives a code and a result and changes the state \<open>s\<close> of the app manager.\<close>

definition app_call ::
    "sa_env \<Rightarrow> (nat \<Rightarrow> 's \<Rightarrow> ErrCode \<times> 'x \<times> 's) \<Rightarrow> 'x \<Rightarrow> AppMgrHelper \<Rightarrow> 's \<Rightarrow> bool \<times> 'x \<times> AppMgrHelper \<times> 's" where
  "app_call e answer out h s =
     (case ah_Connect e h of
        (ok, h1) \<Rightarrow>
          if \<not> ok then (False, out, h1, s)
          else case ah_appMgrProxy h1 of
                 None \<Rightarrow> (False, out, h1, s)
               | Some p \<Rightarrow> (case answer (sp_instance p) s of (res, x, s1) \<Rightarrow> (res = ERR_OK, x, h1, s1)))"

record ('i, 'd, 'c, 'o, 's) app_service =
  as_GetAllRunningProcesses :: "'i list \<Rightarrow> 's \<Rightarrow> ErrCode \<times> 'i list \<times> 's"
  as_GetForegroundApplications :: "'d list \<Rightarrow> 's \<Rightarrow> ErrCode \<times> 'd list \<times> 's"
  as_RegisterConfigurationObserver :: "'c \<Rightarrow> 's \<Rightarrow> ErrCode \<times> 's"
  as_RegisterApplicationStateObserver :: "'o \<Rightarrow> 's \<Rightarrow> ErrCode \<times> 's"
  as_UnregisterApplicationStateObserver :: "'o \<Rightarrow> 's \<Rightarrow> ErrCode \<times> 's"

definition without_result :: "('s \<Rightarrow> ErrCode \<times> 's) \<Rightarrow> 's \<Rightarrow> ErrCode \<times> unit \<times> 's" where
  "without_result f s = (case f s of (res, s1) \<Rightarrow> (res, (), s1))"

definition ah_GetAllRunningProcesses where
  "ah_GetAllRunningProcesses e A infos = app_call e (\<lambda>i. as_GetAllRunningProcesses (A i) infos) infos"

definition ah_GetForegroundApplications where
  "ah_GetForegroundApplications e A fgApps = app_call e (\<lambda>i. as_GetForegroundApplications (A i) fgApps) fgApps"

definition SubscribeConfigurationObserver where
  "SubscribeConfigurationObserver e A observer =
     app_call e (\<lambda>i. without_result (as_RegisterConfigurationObserver (A i) observer)) ()"

definition ah_SubscribeObserver where
  "ah_SubscribeObserver e A observer =
     app_call e (\<lambda>i. without_result (as_RegisterApplicationStateObserver (A i) observer)) ()"

definition ah_UnsubscribeObserver where
  "ah_UnsubscribeObserver e A observer =
     app_call e (\<lambda>i. without_result (as_UnregisterApplicationStateObserver (A i) observer)) ()"

section \<open>The dialog for authorizations\<close>

record dialog_context =
  dc_appIndex :: "int option"
  dc_uiContent :: bool
  dc_bundleName :: string

record dialog_want =
  dw_bundle :: string
  dw_ability :: string
  dw_uiExtensionType :: string
  dw_appIndex :: int
  dw_taskMode :: int

record ModalExtensionCallback =
  mc_sessionId :: int
  mc_bundleName :: string
  mc_abilityContext :: "dialog_context option"

definition new_ModalExtensionCallback :: ModalExtensionCallback where
  "new_ModalExtensionCallback = \<lparr>mc_sessionId = 0, mc_bundleName = '''', mc_abilityContext = None\<rparr>"

text \<open>
  \<open>create\<close> is the function of the user interface that opens the dialog; it returns the number of the session, zero if it failed.
  The result is what the function returns and the dialog that was asked for with its callback. An ability without information
  has \<open>dc_appIndex = None\<close>.
\<close>

definition CreateUIExtension ::
    "(dialog_want \<Rightarrow> int) \<Rightarrow> dialog_context option \<Rightarrow> ContinuousTaskParam \<Rightarrow> bool \<times> (dialog_want \<times> ModalExtensionCallback) option" where
  "CreateUIExtension create abilityContext taskParam =
     (case abilityContext of
        None \<Rightarrow> (False, None)
      | Some ctx \<Rightarrow>
          (case dc_appIndex ctx of
             None \<Rightarrow> (False, None)
           | Some appIndex \<Rightarrow>
               if \<not> dc_uiContent ctx then (False, None)
               else case cp_bgSubModeIds taskParam of
                      [] \<Rightarrow> (False, None)
                    | subMode # _ \<Rightarrow>
                        let want = \<lparr>dw_bundle = ''com.ohos.backgroundtaskmgr.resources'', dw_ability = ''EnableBgTaskAuthDialog'',
                              dw_uiExtensionType = ''sysDialog/common'', dw_appIndex = appIndex, dw_taskMode = i32 (uint subMode)\<rparr>;
                            cb = new_ModalExtensionCallback\<lparr>mc_abilityContext := Some ctx, mc_bundleName := dc_bundleName ctx\<rparr>;
                            sessionId = create want
                        in if sessionId = 0 then (False, Some (want, cb))
                           else (True, Some (want, cb\<lparr>mc_sessionId := sessionId\<rparr>))))"

text \<open>When the dialog is released or fails, its session is closed; \<open>uiContent\<close> is whether the ability still has contents.\<close>

definition ReleaseOrErrorHandle :: "bool \<Rightarrow> ModalExtensionCallback \<Rightarrow> int option" where
  "ReleaseOrErrorHandle uiContent cb =
     (if mc_abilityContext cb = None then None else if \<not> uiContent then None else Some (mc_sessionId cb))"

section \<open>Subscribers\<close>

datatype stub_event =
    OnConnected
  | OnDisconnected
  | OnTransientTaskStart TransientTaskAppInfo
  | OnTransientTaskEnd TransientTaskAppInfo
  | OnTransientTaskErr TransientTaskAppInfo
  | OnAppTransientTaskStart TransientTaskAppInfo
  | OnAppTransientTaskEnd TransientTaskAppInfo
  | EvContinuousTaskStart ContinuousTaskCallbackInfo
  | EvContinuousTaskUpdate ContinuousTaskCallbackInfo
  | EvContinuousTaskStop ContinuousTaskCallbackInfo
  | EvContinuousTaskSuspend ContinuousTaskCallbackInfo
  | EvContinuousTaskActive ContinuousTaskCallbackInfo
  | OnAppContinuousTaskStop int
  | OnProcEfficiencyResourcesApply ResourceCallbackInfo
  | OnProcEfficiencyResourcesReset ResourceCallbackInfo
  | OnAppEfficiencyResourcesApply ResourceCallbackInfo
  | OnAppEfficiencyResourcesReset ResourceCallbackInfo

text \<open>
  The stub calls the method of the subscriber with a copy of the object and always returns \<open>ERR_OK\<close>; \<open>OnConnected\<close> and
  \<open>OnDisconnected\<close> it does not pass on.
\<close>

fun BackgroundTaskSubscriberImpl :: "stub_event \<Rightarrow> stub_event list \<times> ErrCode" where
  "BackgroundTaskSubscriberImpl OnConnected = ([], ERR_OK)"
| "BackgroundTaskSubscriberImpl OnDisconnected = ([], ERR_OK)"
| "BackgroundTaskSubscriberImpl ev = ([ev], ERR_OK)"

section \<open>A service that dies and starts again\<close>

text \<open>
  A helper and its service over time. Instances are numbered; \<open>ln_peer\<close> is the instance that the proxy of the helper was made
  from, \<open>ln_notices\<close> are the deaths that have not been delivered yet. Only the death of the peer is
  reported, since it is the one that is watched.
\<close>

record 'm link =
  ln_helper :: 'm
  ln_peer :: "nat option"
  ln_running :: "nat option"
  ln_next :: nat
  ln_notices :: "nat list"

datatype 'e link_event = Starts | Dies | Notice | Calls 'e

definition new_link :: "'m \<Rightarrow> 'm link" where
  "new_link m = \<lparr>ln_helper = m, ln_peer = None, ln_running = None, ln_next = 0, ln_notices = []\<rparr>"

fun link_step :: "('m \<Rightarrow> bool) \<Rightarrow> ('e \<Rightarrow> 'm \<Rightarrow> 'm) \<Rightarrow> ('m \<Rightarrow> 'm) \<Rightarrow> 'e link_event \<Rightarrow> 'm link \<Rightarrow> 'm link" where
  "link_step holds connect died Starts l =
     (if ln_running l \<noteq> None then l else l\<lparr>ln_running := Some (ln_next l), ln_next := Suc (ln_next l)\<rparr>)"
| "link_step holds connect died Dies l =
     (if ln_running l = None then l
      else l\<lparr>ln_running := None,
             ln_notices := (if ln_peer l = ln_running l then ln_notices l @ [the (ln_running l)] else ln_notices l)\<rparr>)"
| "link_step holds connect died Notice l =
     (case ln_notices l of
        [] \<Rightarrow> l
      | _ # rest \<Rightarrow> l\<lparr>ln_helper := died (ln_helper l), ln_peer := None, ln_notices := rest\<rparr>)"
| "link_step holds connect died (Calls e) l =
     (let m = connect e (ln_helper l)
      in l\<lparr>ln_helper := m, ln_peer := (if \<not> holds (ln_helper l) \<and> holds m then ln_running l else ln_peer l)\<rparr>)"

text \<open>A call finds the service if and only if it is running.\<close>

fun link_run ::
    "('m \<Rightarrow> bool) \<Rightarrow> ('e \<Rightarrow> 'm \<Rightarrow> 'm) \<Rightarrow> ('m \<Rightarrow> 'm) \<Rightarrow> (nat option \<Rightarrow> 'e \<Rightarrow> bool) \<Rightarrow> 'e link_event list \<Rightarrow> 'm link \<Rightarrow> 'm link option" where
  "link_run holds connect died fits [] l = Some l"
| "link_run holds connect died fits (ev # evs) l =
     (if (case ev of Calls e \<Rightarrow> fits (ln_running l) e | _ \<Rightarrow> True)
      then link_run holds connect died fits evs (link_step holds connect died ev l) else None)"

text \<open>
  The peer is the running instance unless its death is still to be reported.
\<close>

definition link_ok :: "('m \<Rightarrow> bool) \<Rightarrow> ('m \<Rightarrow> bool) \<Rightarrow> 'm link \<Rightarrow> bool" where
  "link_ok sound holds l \<longleftrightarrow> sound (ln_helper l) \<and> (holds (ln_helper l) \<longleftrightarrow> ln_peer l \<noteq> None) \<and>
     (ln_peer l = None \<longrightarrow> ln_notices l = []) \<and> (ln_peer l \<noteq> None \<longrightarrow> ln_notices l = [] \<longrightarrow> ln_peer l = ln_running l) \<and>
     (ln_notices l \<noteq> [] \<longrightarrow> ln_notices l = [the (ln_peer l)] \<and> (\<forall>i. ln_running l = Some i \<longrightarrow> ln_peer l \<noteq> Some i)) \<and>
     (\<forall>i. ln_peer l = Some i \<or> ln_running l = Some i \<longrightarrow> i < ln_next l)"

section \<open>Helpers that reconnect\<close>

text \<open>
  What a helper promises: a proxy is kept, one is made when the service can be found, none when it cannot, and there is none
  after the death was reported. \<open>sound\<close> is the invariant of the helper.
\<close>

locale reconnecting =
  fixes sound :: "'m \<Rightarrow> bool" and holds :: "'m \<Rightarrow> bool" and connect :: "'e \<Rightarrow> 'm \<Rightarrow> 'm" and died :: "'m \<Rightarrow> 'm"
    and fits :: "nat option \<Rightarrow> 'e \<Rightarrow> bool"
  assumes connect_kept: "holds m \<Longrightarrow> connect e m = m"
    and connect_up: "sound m \<Longrightarrow> \<not> holds m \<Longrightarrow> fits (Some i) e \<Longrightarrow> holds (connect e m)"
    and connect_down: "sound m \<Longrightarrow> \<not> holds m \<Longrightarrow> fits None e \<Longrightarrow> \<not> holds (connect e m)"
    and connect_sound: "sound m \<Longrightarrow> fits r e \<Longrightarrow> sound (connect e m)"
    and died_free: "sound m \<Longrightarrow> \<not> holds (died m)"
    and died_sound: "sound m \<Longrightarrow> sound (died m)"
begin

lemma link_step_ok:
  assumes "link_ok sound holds l" and "case ev of Calls e \<Rightarrow> fits (ln_running l) e | _ \<Rightarrow> True"
  shows "link_ok sound holds (link_step holds connect died ev l)"
proof (cases ev)
  case Starts
  then show ?thesis using assms(1) by (auto simp: link_ok_def)
next
  case Dies
  then show ?thesis
    using assms(1) by (cases "ln_running l"; cases "ln_peer l"; cases "ln_notices l") (simp_all add: link_ok_def)
next
  case Notice
  then show ?thesis using assms(1) by (auto simp: link_ok_def died_free died_sound split: list.splits)
next
  case (Calls e)
  then have f: "fits (ln_running l) e" using assms(2) by simp
  have s: "sound (connect e (ln_helper l))" using connect_sound f assms(1) by (simp add: link_ok_def)
  show ?thesis
  proof (cases "holds (ln_helper l)")
    case True
    then show ?thesis using Calls assms(1) by (simp add: connect_kept Let_def)
  next
    case False
    then show ?thesis
      using Calls assms(1) f s connect_up [of "ln_helper l" _ e] connect_down [of "ln_helper l" e]
      by (cases "ln_running l") (auto simp: link_ok_def Let_def)
  qed
qed

lemma link_run_ok: "link_run holds connect died fits evs l = Some l' \<Longrightarrow> link_ok sound holds l \<Longrightarrow> link_ok sound holds l'"
  by (induction evs arbitrary: l) (auto simp: link_step_ok split: if_splits)

text \<open>Once the deaths so far have been reported, a call goes to the instance that is running.\<close>

lemma call_reaches_running:
  assumes "sound m" "\<not> holds m" and "link_run holds connect died fits evs (new_link m) = Some l"
    and "ln_notices l = []" "ln_running l = Some i" "fits (Some i) e"
  shows "ln_peer (link_step holds connect died (Calls e) l) = Some i"
    and "holds (ln_helper (link_step holds connect died (Calls e) l))"
proof -
  have "link_ok sound holds (new_link m)" using assms(1,2) by (simp add: link_ok_def new_link_def)
  then have ok: "link_ok sound holds l" using link_run_ok assms(3) by blast
  then have "sound (ln_helper l)" "ln_peer l = None \<or> ln_peer l = Some i" "holds (ln_helper l) \<longleftrightarrow> ln_peer l \<noteq> None"
    using assms(4,5) by (auto simp: link_ok_def)
  moreover have "holds (connect e (ln_helper l))"
    using calculation assms(6) connect_up connect_kept by (cases "holds (ln_helper l)") auto
  ultimately show "ln_peer (link_step holds connect died (Calls e) l) = Some i"
    and "holds (ln_helper (link_step holds connect died (Calls e) l))" using assms(5) by (auto simp: Let_def)
qed

end

text \<open>The bundle manager helper, once its recipient is allocated and while proxies have their remote object.\<close>

definition bh_sound :: "BundleManagerHelper \<Rightarrow> bool" where
  "bh_sound h \<longleftrightarrow> bh_bundleMgrDeathRecipient h \<and> (\<forall>p. bh_bundleMgr h = Some p \<longrightarrow> sp_object p)"

definition bh_holds :: "BundleManagerHelper \<Rightarrow> bool" where
  "bh_holds h \<longleftrightarrow> bh_bundleMgr h \<noteq> None"

definition bh_connected :: "sa_env \<Rightarrow> BundleManagerHelper \<Rightarrow> BundleManagerHelper" where
  "bh_connected e h = snd (the (bh_Connect e h))"

definition sa_fits :: "nat option \<Rightarrow> sa_env \<Rightarrow> bool" where
  "sa_fits r e \<longleftrightarrow> sa_manager e \<and> sa_remote e = r \<and> (\<forall>i. sa_cast e i = Some \<lparr>sp_instance = i, sp_object = True\<rparr>)"

interpretation bundle_link: reconnecting bh_sound bh_holds bh_connected bh_OnRemoteDied sa_fits
  by unfold_locales
    (auto simp: bh_sound_def bh_holds_def bh_connected_def bh_Connect_def bh_OnRemoteDied_def bh_Disconnect_def sa_fits_def Let_def split: option.splits)

text \<open>The client of the service (\<open>GetBackgroundTaskManagerProxy\<close>) keeps the same promise.\<close>

definition cl_holds :: "BackgroundTaskManager \<Rightarrow> bool" where
  "cl_holds m \<longleftrightarrow> bm_proxy m \<noteq> None"

definition cl_fits :: "nat option \<Rightarrow> clenv \<Rightarrow> bool" where
  "cl_fits r e \<longleftrightarrow> cl_abilityManager e \<and> (cl_remoteObject e \<longleftrightarrow> r \<noteq> None) \<and> cl_cast e = Some True \<and> cl_recipient e"

interpretation client_link: reconnecting "\<lambda>m. bm_proxy m \<noteq> Some False" cl_holds
    "\<lambda>e m. snd (GetBackgroundTaskManagerProxy e m)" BgTaskMgrDeathRecipient_OnRemoteDied cl_fits
  by unfold_locales
    (auto simp: GetBackgroundTaskManagerProxy_def BgTaskMgrDeathRecipient_OnRemoteDied_def ResetBackgroundTaskManagerProxy_def
       cl_fits_def cl_holds_def Let_def split: if_splits)

text \<open>
  Queries of the bundle manager are answered by the instance that is running, over any number of restarts: the number
  in the proxy is the peer.
\<close>

lemma bundle_peer:
  assumes "link_run bh_holds bh_connected bh_OnRemoteDied sa_fits evs l = Some l'"
    and "link_ok bh_sound bh_holds l" and "map_option sp_instance (bh_bundleMgr (ln_helper l)) = ln_peer l"
  shows "map_option sp_instance (bh_bundleMgr (ln_helper l')) = ln_peer l'"
  using assms
proof (induction evs arbitrary: l)
  case (Cons ev evs)
  let ?l = "link_step bh_holds bh_connected bh_OnRemoteDied ev l"
  have f: "case ev of Calls e \<Rightarrow> sa_fits (ln_running l) e | _ \<Rightarrow> True" using Cons.prems(1) by (auto split: if_splits)
  have ok: "link_ok bh_sound bh_holds ?l" by (rule bundle_link.link_step_ok [OF Cons.prems(2) f])
  have "map_option sp_instance (bh_bundleMgr (ln_helper ?l)) = ln_peer ?l"
  proof (cases ev)
    case Notice
    then show ?thesis using Cons.prems(2,3) ok by (auto simp: link_ok_def bh_holds_def split: list.splits)
  next
    case (Calls e)
    then show ?thesis
      using Cons.prems(3) f Cons.prems(2)
      by (auto simp: Let_def bh_connected_def bh_Connect_def sa_fits_def link_ok_def bh_sound_def bh_holds_def split: option.splits)
  qed (use Cons.prems(3) in auto)
  then show ?case using Cons.IH [of ?l] Cons.prems(1) ok by (auto split: if_splits)
qed simp

lemma bundle_query_running:
  assumes "link_run bh_holds bh_connected bh_OnRemoteDied sa_fits evs (new_link (new_BundleManagerHelper True)) = Some l"
    and "ln_notices l = []" "ln_running l = Some i" "sa_fits (Some i) e"
  shows "\<exists>h. bundle_query e answer lost (ln_helper l) = Some (answer i, h)"
proof -
  let ?m = "new_BundleManagerHelper True"
  have s: "bh_sound ?m" "\<not> bh_holds ?m" by (simp_all add: bh_sound_def bh_holds_def new_BundleManagerHelper_def)
  then have 0: "link_ok bh_sound bh_holds (new_link ?m)" by (simp add: link_ok_def new_link_def)
  have "map_option sp_instance (bh_bundleMgr (ln_helper l)) = ln_peer l"
    using bundle_peer [OF assms(1) 0] s(2) by (simp add: new_link_def bh_holds_def)
  moreover have "link_ok bh_sound bh_holds l" by (rule bundle_link.link_run_ok [OF assms(1) 0])
  ultimately have "bh_bundleMgr (ln_helper l) = None \<or> (\<exists>p. bh_bundleMgr (ln_helper l) = Some p \<and> sp_instance p = i)"
    and "bh_bundleMgrDeathRecipient (ln_helper l)"
    using assms(2,3) by (auto simp: link_ok_def bh_sound_def bh_holds_def)
  then show ?thesis using assms(4) by (auto simp: bundle_query_def bh_Connect_def sa_fits_def Let_def)
qed

text \<open>
  The app manager helper does not watch the death of its service: once it has a proxy, every call goes to the instance of the proxy,
  whatever runs now.
\<close>

lemma app_calls_keep_instance:
  assumes "ah_appMgrProxy h = Some p"
  shows "app_call e answer out h s = (case answer (sp_instance p) s of (res, x, s1) \<Rightarrow> (res = ERR_OK, x, h, s1))"
  using assms by (simp add: app_call_def ah_Connect_def)

text \<open>A proxy without remote object is refused by the call that makes it and used by the next one.\<close>

lemma app_proxy_without_object:
  assumes "ah_appMgrProxy h = None" "sa_manager e" "sa_remote e = Some i" "sa_cast e i = Some p" "\<not> sp_object p"
  shows "fst (ah_Connect e h) = False" and "fst (ah_Connect e (snd (ah_Connect e h))) = True"
  using assms by (simp_all add: ah_Connect_def)

text \<open>A dialog that was opened is closed under the number of its session; its callback has none before that is known.\<close>

lemma dialog_closed:
  assumes "CreateUIExtension create ctx param = (True, Some (want, cb))"
  shows "ReleaseOrErrorHandle True cb = Some (create want)" and "create want \<noteq> 0"
  using assms by (auto simp: CreateUIExtension_def ReleaseOrErrorHandle_def Let_def split: option.splits list.splits if_splits)

lemma dialog_needs_submode:
  assumes "fst (CreateUIExtension create ctx param)"
  shows "cp_bgSubModeIds param \<noteq> []"
  using assms by (cases "cp_bgSubModeIds param") (auto simp: CreateUIExtension_def split: option.splits if_splits)

end
