(* ===== verification/Spec2Isabelle.thy ===== *)
theory Spec2Isabelle
  imports TransientProps TransientTime EfficiencyProps ContinuousProps ServiceProps ClientProps NapiProps InterfaceProps EtsProps
    StorageProps JsConstants SystemHelpers
begin

text \<open>
  A verification of the background task manager of OpenHarmony.

  \<^bold>\<open>The program.\<close> The service gives applications that leave the foreground three kinds of exemption
  from being suspended: transient tasks (a short, quota-limited delay of suspension,
  \<^verbatim>\<open>services/transient_task\<close>), efficiency resources (use of the CPU, timers, GPS and so on for a
  time or persistently, \<^verbatim>\<open>services/efficiency_resources\<close>) and continuous tasks
  (\<^verbatim>\<open>services/continuous_task\<close>). A service object (\<^verbatim>\<open>services/core\<close>) checks permissions and passes
  IPC calls on to the three managers; observers (\<^verbatim>\<open>services/common\<close>, \<^verbatim>\<open>services/plugin\<close>) tell them
  of process states, deaths and system events; a configuration and a record file are shared.

  \<^bold>\<open>Style of the model.\<close> Classes are records, enumerations datatypes, every method one function from
  the old state to the result and the new state. What a method reads from elsewhere (the clock, the
  IPC caller, the bundle and app managers, system parameters, the CPU quota library) is a field of
  an environment record; what it calls elsewhere (timers, subscribers, callbacks, event reports) is
  appended to a list of calls in the state. An operation runs at one instant of the monotonic clock.
  A \<^verbatim>\<open>std::map\<close> is an association list kept in key order, a \<^verbatim>\<open>std::unordered_map\<close> one without
  order; both are instances of the locale \<open>kv_store\<close>. Signed 32-bit values are integers narrowed by
  \<open>i32\<close> where the source narrows them, resource masks are 32-bit words. Mutexes make each operation
  atomic; interleaving is the free choice of the next step in the step relations.

  \<^bold>\<open>Shared theories.\<close> \<^verbatim>\<open>ErrorCodes\<close>: the error codes. \<^verbatim>\<open>Prelude\<close>: narrowing, maps, list lemmas.
  \<^verbatim>\<open>CxxStrings\<close>: \<^verbatim>\<open>std::to_string\<close> and \<^verbatim>\<open>atoi\<close>, and that one reads back what the other wrote.
  \<^verbatim>\<open>Json\<close>: the JSON values the sources use. \<^verbatim>\<open>BgtaskConfig\<close>: \<^verbatim>\<open>bgtask_config.cpp\<close> and
  \<^verbatim>\<open>bg_task_config_file_info.cpp\<close>, exemption lists and the CPU level table with their parsers.

  \<^bold>\<open>Transient tasks.\<close> \<^verbatim>\<open>TransientEnv\<close>: environment and recorded calls, and which timers and watchdogs
  a list of calls leaves pending. \<^verbatim>\<open>DelaySuspendInfo\<close>: \<^verbatim>\<open>key_info.h\<close>,
  \<^verbatim>\<open>delay_suspend_info_ex.cpp\<close>, the time used by one request, shown to be that of a stop watch.
  \<^verbatim>\<open>PkgDelaySuspendInfo\<close>: requests and quota of one package. \<^verbatim>\<open>DeviceInfo\<close>: device events and
  listeners. \<^verbatim>\<open>DecisionMaker\<close>: \<^verbatim>\<open>decision_maker.cpp\<close>. \<^verbatim>\<open>AccountingInv\<close> and \<^verbatim>\<open>DecisionInv\<close>: its
  invariant, from the contract \<open>accounting_op\<close> of the operations on one package, and the exact effect
  of a decision and of a removal. \<^verbatim>\<open>BgTransientTaskMgr\<close>: \<^verbatim>\<open>bg_transient_task_mgr.cpp\<close> with the
  handlers \<^verbatim>\<open>timer_manager.cpp\<close>, \<^verbatim>\<open>watchdog.cpp\<close> and \<^verbatim>\<open>input_manager.cpp\<close> that call it.
  \<^verbatim>\<open>TransientInv\<close>: the manager's invariant, the step relation \<open>tm_step\<close> and its reachable states.
  \<^verbatim>\<open>TransientProps\<close> (C1--C9): the tables agree, timers guard requests, limits hold; when a request is
  granted and for how long; cancelling restores the state and is the owner's alone.
  \<^verbatim>\<open>TransientTime\<close> (C11--C15): stop watch, watchdog deadline, expiry, cost of a span, daily quota;
  lemmas on the switch to the foreground, the screen and a 32-bit overflow. \<^verbatim>\<open>TransientDemo\<close> is the run that the
  witnesses use. Steps assume \<open>env_fits\<close>: the clock is positive and within 64 bits, and parameters
  are 32-bit values; a request is granted only while the next id is below \<open>INT_MAX\<close>, since the
  counter restarts at 1 without looking whether that id is free.

  \<^bold>\<open>Efficiency resources.\<close> \<^verbatim>\<open>ResourceRecord\<close>: masks, CPU levels, records, request and callback data,
  and their stored form (\<^verbatim>\<open>resource_application_record.cpp\<close>, \<^verbatim>\<open>data_storage_helper.cpp\<close>), with the
  round trip. \<^verbatim>\<open>ResourceReport\<close>: the report batches. \<^verbatim>\<open>BgEfficiencyResourcesMgr\<close>: requests, posted
  tasks, resets and time outs; \<^verbatim>\<open>EfficiencyLifecycle\<close>: start, services, recovery, queries, dump.
  \<^verbatim>\<open>EfficiencyInv\<close>: the invariant, and the contract \<open>outward_op\<close> of the operations that only call
  outside. \<^verbatim>\<open>EfficiencySteps\<close> and \<^verbatim>\<open>EfficiencyReach\<close>: every operation keeps it; the step relation
  \<open>er_step\<close> lets posted tasks run in any order, a delayed one not before it is due.
  \<^verbatim>\<open>EfficiencyLeases\<close>: the abstract table of leases that the records implement.
  \<^verbatim>\<open>EfficiencyProps\<close> (C19--C22, C24, C25, C27, C29, C30): records agree with their masks, leases expire, applying, resetting
  and timing out refine the lease table, who is told and what is accepted, resets reach processes,
  readiness, storage, recovery, and defects of recovery; report batches.
  \<^verbatim>\<open>EfficiencyDemo\<close> is the run that the witnesses use. Steps assume \<open>eenv_fits\<close>: ids are 32-bit
  values and the clock is not negative and leaves room for a time out in 64 bits; a recovery step
  assumes \<open>recovery_exact\<close>, which excludes exactly the two defects of recovery that are stated
  separately (the lemmas \<open>boot_recovery_revives_resource\<close> and \<open>long_timeout_lost\<close>).

  \<^bold>\<open>Continuous tasks.\<close> \<^verbatim>\<open>BackgroundModes\<close>: modes, sub modes, reasons and their tables.
  \<^verbatim>\<open>JsonObjects\<close>: members of JSON objects. \<^verbatim>\<open>ContinuousTaskRecord\<close>, \<^verbatim>\<open>BannerNotificationRecord\<close>: the
  records of tasks and of authorizations and the files that hold them. \<^verbatim>\<open>ContinuousState\<close>: the state
  of \<^verbatim>\<open>bg_continuous_task_mgr.h\<close>, the environment, recorded calls and posted tasks.
  \<^verbatim>\<open>NotificationTools\<close> (\<^verbatim>\<open>notification_tools.cpp\<close>) and \<^verbatim>\<open>NotificationText\<close>: labels, requests to the
  notification service and texts. \<^verbatim>\<open>ContinuousSubscribers\<close>: subscribers and what they are told.
  The handlers of \<^verbatim>\<open>bg_continuous_task_mgr.cpp\<close>: \<^verbatim>\<open>BgContinuousTaskMgr\<close> (start),
  \<^verbatim>\<open>ContinuousStop\<close> (stop, user and system events), \<^verbatim>\<open>ContinuousSuspend\<close> (suspend and activate),
  \<^verbatim>\<open>ContinuousUpdate\<close> (update, listing), \<^verbatim>\<open>ContinuousEvents\<close> (app states, audio, live views, recovery,
  posted tasks), \<^verbatim>\<open>ContinuousAuth\<close> (authorization by the user), \<^verbatim>\<open>ContinuousDump\<close>;
  \<^verbatim>\<open>TaskNotificationSubscriber\<close>: notifications removed or published by others.
  \<^verbatim>\<open>ContinuousTable\<close> defines what a handler may do: \<open>quiet\<close> (nothing to the table), \<open>tame\<close> (it adds no
  row, keeps the identity of those that stay and tells services of every change of the active tasks).
  \<^verbatim>\<open>ContinuousBlocks\<close>, \<^verbatim>\<open>ContinuousHandlers\<close> and \<^verbatim>\<open>ContinuousEventSteps\<close> show it of the building blocks
  and of every handler, \<^verbatim>\<open>ContinuousStart\<close> what a start adds, \<^verbatim>\<open>ContinuousStorage\<close> the round trip of the
  file. \<^verbatim>\<open>ContinuousReach\<close>: the events, the reachable states, and the contract \<open>notifier\<close> of a step
  relation that keeps the invariant and tells services. \<^verbatim>\<open>ContinuousFacts\<close>: loops, modes, labels.
  \<^verbatim>\<open>ContinuousProps\<close> (C32--C36, C38--C40): the table over any history with restarts; what services know of the
  active tasks; outcome of start and stop; the loop of activation; a notification removed
  by the user; the mode check and the stored form against reference definitions.
  \<^verbatim>\<open>ContinuousDemo\<close> is the run that the witnesses use. The hash of ability names, the resource strings,
  the notification, bundle, account and app services are fields of the environment \<open>cenv\<close>. A start
  is a step while the id counter is below \<open>INT_MAX\<close>. Suspension for lack of audio of an app with a task
  in standby is a step of its own (\<open>standby_event\<close>), since services are not told of it then.

  \<^bold>\<open>Files and other services.\<close> \<^verbatim>\<open>DataStorage\<close>: \<^verbatim>\<open>data_storage_helper.cpp\<close>, the files of tasks, of resources and of
  authorizations on a file system that is a map from paths to texts, with every error of opening, writing
  and parsing, and the backup of authorizations; system calls and the JSON text functions are the record
  \<open>fs_env\<close>. \<^verbatim>\<open>StorageProps\<close>: the contract \<open>document_store\<close> of a file, interpreted for all three; a restart reads the last
  table that was reported as written (C37); authorizations restored on another device (C23).
  The environments of the managers take the parsed contents of a file as a field; \<open>restore_by_document\<close> is the
  link to the file system. \<^verbatim>\<open>SystemHelpers\<close>: \<^verbatim>\<open>bundle_manager_helper.cpp\<close>, \<^verbatim>\<open>app_mgr_helper.cpp\<close>, the
  authorization dialog (\<^verbatim>\<open>ui_extension_helper.cpp\<close>) and the stub of a subscriber. Its locale \<open>reconnecting\<close>,
  interpreted for the bundle manager helper and for the client of the service, shows that after any starts
  and deaths a call reaches the running instance; the app manager helper does not keep this promise.

  \<^bold>\<open>Service.\<close> \<^verbatim>\<open>BackgroundTaskMgrService\<close> and \<^verbatim>\<open>ServiceRequests\<close>: the service object of
  \<^verbatim>\<open>background_task_mgr_service.cpp\<close>, which owns the managers, waits for all of them, checks callers and
  passes on every request of \<^verbatim>\<open>IBackgroundTaskMgr.idl\<close> (\<open>sv_handle\<close>). \<^verbatim>\<open>Observers\<close>: app states, common
  events, the authorization dialog and banner buttons. \<^verbatim>\<open>PluginAdapters\<close>: dispatch of events of the
  resource scheduler, playing streams, and the reports to it. \<^verbatim>\<open>ServiceReach\<close>: the steps of the whole
  service (\<open>sv_step\<close>, \<open>sv_reach\<close>); \<^verbatim>\<open>ServiceInv\<close>: each step is nothing or a step of its own for every
  manager. \<^verbatim>\<open>ServiceProps\<close>: the managers inside the service stay within their own reachable states
  (C16), so that their properties compose; a table of callers that the checks implement (C18); a
  subscription reaches all three managers and ends in all three (C31). A step of the service assumes
  what the steps of its managers assume (\<open>senv_fits\<close>, \<open>ids_left\<close>).

  \<^bold>\<open>Parcels and client.\<close> \<^verbatim>\<open>Parcel\<close>: sequences of writes and reads, with the parcel class of the IPC
  library as a record of functions and its laws as the hypothesis \<open>parcel_laws\<close>. \<^verbatim>\<open>ParcelTypes\<close>:
  \<^verbatim>\<open>Marshalling\<close> and \<^verbatim>\<open>Unmarshalling\<close> of the twelve classes of \<^verbatim>\<open>interfaces/innerkits/src\<close>.
  \<^verbatim>\<open>ParcelRoundTrip\<close>: the contract \<open>parcelable\<close>, interpreted for each class. \<^verbatim>\<open>Client\<close>: what the
  handlers give back, what arrives of a request, and \<^verbatim>\<open>background_task_manager.cpp\<close>, the
  connection and every method, over a proxy that is an argument. \<^verbatim>\<open>ClientProps\<close>: objects survive parcels
  (C10), and, under the hypothesis \<open>delivers\<close> on the generated proxy, lemmas that a start through the
  client is the start of the manager, on the watching of the service and on atomic services.

  \<^bold>\<open>Bindings.\<close> \<^verbatim>\<open>ErrorMessages\<close>: the messages of error codes and what is thrown. \<^verbatim>\<open>NapiCommon\<close>:
  the helpers of \<^verbatim>\<open>interfaces/kits/napi/src/common.cpp\<close>; the JavaScript runtime is the record \<open>napi\<close> of
  functions on values of any type, an argument of every call. \<^verbatim>\<open>NapiContinuous\<close>:
  \<^verbatim>\<open>bg_continuous_task_napi_module.cpp\<close>, calls that check their arguments and queue a work, the works on
  the other thread (\<open>execute\<close>) and their completion (\<open>complete\<close>). \<^verbatim>\<open>TransientApis\<close>: transient tasks and
  efficiency resources from JavaScript, and the C interface. \<^verbatim>\<open>JsSubscriber\<close>: the subscriber of a
  process and the authorization by the user. Null pointers and indices out of range that the source
  does not check are \<open>None\<close>. \<^verbatim>\<open>NapiProps\<close>: calls throw or queue a work that can run (C28); a start from
  JavaScript is a start at the manager, and the promise tells which (C17). \<^verbatim>\<open>InterfaceProps\<close>: the C
  interface stays inside the structure of its caller (C26); lemmas on the flags of the subscriber and on
  a check of the service that combined flags get around. \<^verbatim>\<open>EtsCalls\<close>, \<^verbatim>\<open>EtsSubscriber\<close>:
  the same for ArkTS (\<^verbatim>\<open>interfaces/kits/ets/taihe/src\<close>), whose runtime is the record \<open>ani\<close>, and the
  functions for Cangjie. \<^verbatim>\<open>EtsProps\<close>: lemmas that ArkTS checks modes like JavaScript does, that a start
  from it is a start at the manager, that its expiry functions are never called, and that its
  subscriptions are not taken back entirely. \<^verbatim>\<open>JsConstants\<close>: what the JavaScript modules export
  (\<^verbatim>\<open>init_bgtaskmgr.cpp\<close>, \<^verbatim>\<open>init.cpp\<close>); lemmas that the reasons the service reports have names, and that a request
  that passes the check of modes and sub modes uses named values and is sent with modes the manager knows.

  \<^bold>\<open>Termination and bounds.\<close> Every function of the model is total; loops over lists and maps are
  structural recursion and there is no fuel. The one loop of the source that looks at the same
  element again (\<^verbatim>\<open>HandleActiveContinuousTask\<close>) is \<open>active_while\<close>, a partial function, and shown to
  return (C36).

  \<^bold>\<open>Not modelled.\<close> The helper class of static methods that only passes calls on to the client library
  (\<^verbatim>\<open>background_task_mgr_helper.cpp\<close>); the suspend controller, whose functions only write a log line; getters and
  setters, which are the fields of the records. Logging, tracing, the report of directory sizes to the event
  log, subscription to the event service and failing allocations in the bindings have no counterpart.
\<close>

end
